(* ===== verification/Transform_Prelude.thy ===== *)
theory Transform_Prelude
  imports Complex_Main
begin

section \<open>Prelude: exceptions, tables, Python strings\<close>

text \<open>
  What every component of the development shares:
  \<^item> the exceptions the modelled Python code raises (\<open>exn\<close>) and the result type of code that
    may raise, \<open>exn + 'a\<close> with \<open>Inl\<close> for a raise;
  \<^item> SQL tables as lists of rows in insertion order, with the statements the repositories issue
    (\<open>sql_select\<close>, \<open>sql_update\<close>, \<open>sql_delete\<close>) and the laws their clients use;
  \<^item> the \<^theory_text>\<open>str\<close> methods the code calls (\<open>strip\<close>, \<open>split\<close>, \<open>lower\<close>, \<open>upper\<close>,
    \<open>startswith\<close>, \<open>str(int)\<close>, \<open>int(str)\<close>);
  \<^item> the contract of the status enums with a transition table, as a locale.

  A Python string is a \<^typ>\<open>string\<close>: one \<^typ>\<open>char\<close> per code point, for the code points below
  256. Case mapping is exact on those of them whose image is one code point below 256.
\<close>

named_theorems py_defs \<open>definitions of the Python library functions\<close>
named_theorems sql_simps \<open>laws of the SQL statements\<close>

subsection \<open>Exceptions\<close>

text \<open>One constructor per exception class the modelled code raises or catches; the argument is
  the message. The exceptions of the workspaces, of the agent access and of the file system are grouped under \<open>AppError\<close>; the two
  \<open>RuntimeNotFoundError\<close> classes, of the application and of the provider, are kept apart.\<close>

datatype app_error =
    InvalidWorkspaceError | InvalidRuntimeConfigError | InvalidRuntimeTransition
  | InvalidExecutionTransition
  | WorkspaceNotFoundError | WorkspaceLimitReachedError | WorkspaceNotUsableError
  | RuntimeNotFoundError | RuntimeNotRunningError | RuntimeBusyError | SnapshotFailedError
  | WorkspaceQuotaExceededError | PackageInstallNotPermittedError
  | ExecutionNotFoundError | TooManyActiveExecutionsError | InvalidExecutionRequestError
  | RuntimeProviderError | RuntimeProviderUnavailableError | ProviderRuntimeNotFoundError
  | ProviderExecutionError | ProviderResourceError
  | InvalidGrantTransition | UnknownClientError | InvalidRedirectUriError | InvalidScopeError
  | InvalidTargetError | InvalidGrantError | GrantRevokedError | ConnectionStateError | ConnectionEditError
  | InvalidPhoneNumber
  | FolderNotFoundError | FileRecordNotFoundError | FileSizeLimitExceededError | StorageQuotaExceededError
  | FileTypeMismatchError | FolderNameConflictError | StorageOperationError | UnsafeObjectKeyError
  | UploadSessionNotFoundError | UploadVerificationError | MissingUploadPartsError | InvalidPartNumberError
  | UploadNotMultipartError

text \<open>The subclasses of \<open>RuntimeProviderError\<close>, and the name each class has in Python.\<close>

definition provider_errors :: "app_error list" where
  "provider_errors = [RuntimeProviderError, RuntimeProviderUnavailableError,
     ProviderRuntimeNotFoundError, ProviderExecutionError, ProviderResourceError]"

datatype exn =
    ValueError string
  | RuntimeError string
  | KeyError string
  | TypeError string
  | OverflowError string
  | IntegrityError
  | DBConnectionError string
  | MultipleResultsFound
  | InvalidStateTransition string
  | InvalidConversion string
  | InvalidConversionJobError string
  | GuestTierHasNoPersistentCredits string
  | InsufficientCredits string
  | InvalidCreditOperation string
  | InvalidSubscriptionState string
  | StorageQuotaExceeded string
  | GuestTierRequiresRateLimiting string
  | MissingCreditAccount string
  | HTTPException int string
  | AppError app_error string
  | OtherError string

type_synonym 'a result = "exn + 'a"

text \<open>\<open>str(exc)\<close>, the message an exception carries.\<close>

fun exn_message :: "exn \<Rightarrow> string" where
  "exn_message (ValueError m) = m"
| "exn_message (RuntimeError m) = m"
| "exn_message (KeyError m) = m"
| "exn_message (TypeError m) = m"
| "exn_message (OverflowError m) = m"
| "exn_message (DBConnectionError m) = m"
| "exn_message (InvalidStateTransition m) = m"
| "exn_message (InvalidConversion m) = m"
| "exn_message (InvalidConversionJobError m) = m"
| "exn_message (GuestTierHasNoPersistentCredits m) = m"
| "exn_message (InsufficientCredits m) = m"
| "exn_message (InvalidCreditOperation m) = m"
| "exn_message (InvalidSubscriptionState m) = m"
| "exn_message (StorageQuotaExceeded m) = m"
| "exn_message (GuestTierRequiresRateLimiting m) = m"
| "exn_message (MissingCreditAccount m) = m"
| "exn_message (HTTPException _ m) = m"
| "exn_message (AppError _ m) = m"
| "exn_message (OtherError m) = m"
| "exn_message _ = []"

definition rbind :: "'a result \<Rightarrow> ('a \<Rightarrow> 'b result) \<Rightarrow> 'b result" where
  "rbind r f = (case r of Inl e \<Rightarrow> Inl e | Inr a \<Rightarrow> f a)"

lemma rbind_simps [simp]: "rbind (Inl e) f = Inl e" "rbind (Inr a) f = f a"
  by (simp_all add: rbind_def)

lemma rbind_Inr_iff: "rbind r f = Inr b \<longleftrightarrow> (\<exists>a. r = Inr a \<and> f a = Inr b)"
  by (cases r) auto

lemma rbind_split: "P (rbind r f) \<longleftrightarrow> (\<forall>e. r = Inl e \<longrightarrow> P (Inl e)) \<and> (\<forall>a. r = Inr a \<longrightarrow> P (f a))"
  by (cases r) auto

text \<open>Sequencing of stateful code that may raise: the exception leaves the state reached so far.\<close>

definition sbind :: "('s \<Rightarrow> 'a result \<times> 's) \<Rightarrow> ('a \<Rightarrow> 's \<Rightarrow> 'b result \<times> 's) \<Rightarrow> 's \<Rightarrow> 'b result \<times> 's" where
  "sbind m f s = (case m s of (Inl e, s') \<Rightarrow> (Inl e, s') | (Inr a, s') \<Rightarrow> f a s')"

definition sreturn :: "'a result \<Rightarrow> 's \<Rightarrow> 'a result \<times> 's" where
  "sreturn r s = (r, s)"

definition smodify :: "('s \<Rightarrow> 's) \<Rightarrow> 's \<Rightarrow> unit result \<times> 's" where
  "smodify f s = (Inr (), f s)"

lemma sbind_cases:
  assumes "sbind m f s = (r, s')"
  obtains (raised) e where "m s = (Inl e, s')" "r = Inl e"
    | (finished) a t where "m s = (Inr a, t)" "f a t = (r, s')"
  using assms by (auto simp: sbind_def split: prod.splits sum.splits)

lemma sbind_step: "m s = (Inr a, t) \<Longrightarrow> sbind m f s = f a t"
  by (simp add: sbind_def)

text \<open>
  \<open>try\<close> with a handler, and a raise. A frame condition, what a piece of code may change, is a preorder
  on states; the locale says how sequencing and exception handlers respect it.
\<close>

definition raise_op :: "exn \<Rightarrow> 's \<Rightarrow> 'a result \<times> 's" where
  "raise_op e s = (Inl e, s)"

definition try_op :: "('s \<Rightarrow> 'a result \<times> 's) \<Rightarrow> (exn \<Rightarrow> 's \<Rightarrow> 'a result \<times> 's) \<Rightarrow> 's \<Rightarrow> 'a result \<times> 's" where
  "try_op m h s = (case m s of (Inl e, s') \<Rightarrow> h e s' | (Inr a, s') \<Rightarrow> (Inr a, s'))"

locale state_frame =
  fixes R :: "'s \<Rightarrow> 's \<Rightarrow> bool"
  assumes refl: "R s s" and trans: "R s t \<Longrightarrow> R t u \<Longrightarrow> R s u"
begin

lemma sbind_frame:
  assumes "\<And>s. R s (snd (m s))" "\<And>a s. R s (snd (g a s))"
  shows "R s (snd (sbind m g s))"
proof -
  obtain r t where m: "m s = (r, t)" by (cases "m s")
  have "R s t" using assms(1) [of s] m by simp
  then show ?thesis using m assms(2) trans [of s t] by (cases r) (simp_all add: sbind_def)
qed

lemma sbind_frame_dep:
  assumes "R s (snd (m s))" "\<And>a t. m s = (Inr a, t) \<Longrightarrow> R t (snd (g a t))"
  shows "R s (snd (sbind m g s))"
proof -
  obtain r t where m: "m s = (r, t)" by (cases "m s")
  then show ?thesis using assms trans [of s t] by (cases r) (auto simp: sbind_def)
qed

lemma sreturn_frame: "R s (snd (sreturn r s))"
  by (simp add: sreturn_def refl)

lemma if_frame: "R s (snd (m s)) \<Longrightarrow> R s (snd (n s)) \<Longrightarrow> R s (snd ((if b then m else n) s))"
  by simp

lemma option_frame:
  "R s (snd (m s)) \<Longrightarrow> (\<And>a. R s (snd (n a s))) \<Longrightarrow> R s (snd ((case x of None \<Rightarrow> m | Some a \<Rightarrow> n a) s))"
  by (cases x) simp_all

lemma raise_frame: "R s (snd (raise_op e s))"
  by (simp add: raise_op_def refl)

lemma try_frame_at:
  assumes "R s (snd (m s))" "\<And>e t. R t (snd (h e t))"
  shows "R s (snd (try_op m h s))"
proof -
  obtain r t where m: "m s = (r, t)" by (cases "m s")
  have "R s t" using assms(1) m by simp
  then show ?thesis using m assms(2) trans [of s t] by (cases r) (simp_all add: try_op_def)
qed

lemma try_frame:
  assumes "\<And>s. R s (snd (m s))" "\<And>e s. R s (snd (h e s))"
  shows "R s (snd (try_op m h s))"
  using assms by (rule try_frame_at)

end

subsection \<open>SQL tables\<close>

text \<open>
  A table is the list of its rows in insertion order. \<open>SELECT\<close>, \<open>UPDATE\<close> and \<open>DELETE\<close> with a
  \<open>WHERE\<close> clause become functions of the clause; \<open>rowcount\<close> is the number of rows it matches.
\<close>

definition sql_select :: "('r \<Rightarrow> bool) \<Rightarrow> 'r list \<Rightarrow> 'r list" where
  "sql_select P t = filter P t"

definition sql_update :: "('r \<Rightarrow> bool) \<Rightarrow> ('r \<Rightarrow> 'r) \<Rightarrow> 'r list \<Rightarrow> 'r list" where
  "sql_update P f t = map (\<lambda>r. if P r then f r else r) t"

definition sql_delete :: "('r \<Rightarrow> bool) \<Rightarrow> 'r list \<Rightarrow> 'r list" where
  "sql_delete P t = filter (\<lambda>r. \<not> P r) t"

definition sql_count :: "('r \<Rightarrow> bool) \<Rightarrow> 'r list \<Rightarrow> nat" where
  "sql_count P t = length (filter P t)"

text \<open>\<open>result.scalar_one_or_none()\<close>: the only row, \<open>None\<close>, or an error for several rows;
  \<open>session.scalar(...)\<close>: the first row or \<open>None\<close>.\<close>

definition scalar_one_or_none :: "'r list \<Rightarrow> 'r option result" where
  "scalar_one_or_none rows =
     (case rows of [] \<Rightarrow> Inr None | [r] \<Rightarrow> Inr (Some r) | _ \<Rightarrow> Inl MultipleResultsFound)"

definition sql_first :: "'r list \<Rightarrow> 'r option" where
  "sql_first rows = (case rows of [] \<Rightarrow> None | r # _ \<Rightarrow> Some r)"

text \<open>A key is unique in a table: what a \<open>UNIQUE\<close> constraint or a primary key keeps.\<close>

definition unique_key :: "('r \<Rightarrow> 'k) \<Rightarrow> 'r list \<Rightarrow> bool" where
  "unique_key key t = distinct (map key t)"

lemma set_sql_select [sql_simps]: "set (sql_select P t) = {r \<in> set t. P r}"
  by (simp add: sql_select_def)

lemma set_sql_delete [sql_simps]: "set (sql_delete P t) = {r \<in> set t. \<not> P r}"
  by (simp add: sql_delete_def)

lemma set_sql_update [sql_simps]:
  "set (sql_update P f t) = f ` {r \<in> set t. P r} \<union> {r \<in> set t. \<not> P r}"
  by (auto simp: sql_update_def)

lemma length_sql_update [sql_simps]: "length (sql_update P f t) = length t"
  by (simp add: sql_update_def)

lemma sql_count_delete: "sql_count P t + length (sql_delete P t) = length t"
  by (induction t) (auto simp: sql_count_def sql_delete_def)

lemma map_sql_update_frame [sql_simps]:
  "(\<And>r. P r \<Longrightarrow> key (f r) = key r) \<Longrightarrow> map key (sql_update P f t) = map key t"
  by (auto simp: sql_update_def)

lemma unique_key_update [sql_simps]:
  "(\<And>r. P r \<Longrightarrow> key (f r) = key r) \<Longrightarrow> unique_key key (sql_update P f t) = unique_key key t"
  by (simp add: unique_key_def map_sql_update_frame)

lemma unique_key_delete: "unique_key key t \<Longrightarrow> unique_key key (sql_delete P t)"
  by (simp add: unique_key_def sql_delete_def distinct_map_filter)

lemma unique_key_Cons [simp]:
  "unique_key key (r # t) \<longleftrightarrow> key r \<notin> key ` set t \<and> unique_key key t"
  by (simp add: unique_key_def)

lemma unique_key_Nil [simp]: "unique_key key []"
  by (simp add: unique_key_def)

lemma unique_key_append:
  "unique_key key (t @ [r]) \<longleftrightarrow> unique_key key t \<and> key r \<notin> key ` set t"
  by (auto simp: unique_key_def)

lemma unique_key_inj:
  assumes "unique_key key t" "a \<in> set t" "b \<in> set t" "key a = key b"
  shows "a = b"
  using assms by (auto simp: unique_key_def distinct_map inj_on_def)

text \<open>A lookup by a unique key finds at most one row, and finds it.\<close>

lemma filter_unique_key:
  assumes "unique_key key t"
  shows "filter (\<lambda>r. key r = k) t = [] \<or> (\<exists>r. filter (\<lambda>r. key r = k) t = [r])"
  using assms
proof (induction t)
  case (Cons a t)
  show ?case
  proof (cases "key a = k")
    case True
    with Cons.prems have "filter (\<lambda>r. key r = k) t = []"
      by (simp add: filter_empty_conv) (metis image_eqI)
    with True show ?thesis by simp
  next
    case False
    with Cons show ?thesis by simp
  qed
qed simp

lemma filter_unique_key_mem:
  assumes "unique_key key t" "r \<in> set t"
  shows "filter (\<lambda>x. key x = key r) t = [r]"
proof -
  have "r \<in> set (filter (\<lambda>x. key x = key r) t)" using assms by simp
  with filter_unique_key [OF assms(1), of "key r"] show ?thesis
    by (metis empty_iff list.set(1) set_ConsD)
qed

lemma scalar_one_unique:
  assumes "unique_key key t"
  shows "scalar_one_or_none (sql_select (\<lambda>r. key r = k) t)
    = Inr (sql_first (sql_select (\<lambda>r. key r = k) t))"
  using filter_unique_key [OF assms, of k]
  by (auto simp: scalar_one_or_none_def sql_first_def sql_select_def)

lemma sql_first_Some: "sql_first (sql_select P t) = Some r \<Longrightarrow> r \<in> set t \<and> P r"
  by (auto simp: sql_first_def sql_select_def split: list.splits dest: filter_eq_ConsD)

lemma sql_first_None: "sql_first (sql_select P t) = None \<longleftrightarrow> (\<forall>r \<in> set t. \<not> P r)"
  by (cases "filter P t") (auto simp: sql_first_def sql_select_def filter_empty_conv
      dest: filter_eq_ConsD)

lemma sql_first_unique:
  assumes "unique_key key t" "r \<in> set t"
  shows "sql_first (sql_select (\<lambda>x. key x = key r) t) = Some r"
  by (simp add: sql_first_def sql_select_def filter_unique_key_mem [OF assms])

lemma sql_first_update:
  assumes "\<And>r. Q r \<Longrightarrow> P (f r) = P r"
  shows "sql_first (sql_select P (sql_update Q f t))
    = map_option (\<lambda>r. if Q r then f r else r) (sql_first (sql_select P t))"
  using assms by (induction t) (auto simp: sql_first_def sql_select_def sql_update_def)

lemma sql_first_append:
  "sql_first (sql_select P (t @ [r])) =
     (case sql_first (sql_select P t) of Some x \<Rightarrow> Some x | None \<Rightarrow> if P r then Some r else None)"
  by (cases "filter P t") (auto simp: sql_first_def sql_select_def)

lemma scalar_one_inj:
  assumes "\<And>a b. a \<in> set t \<Longrightarrow> b \<in> set t \<Longrightarrow> P a \<Longrightarrow> P b \<Longrightarrow> a = b" "distinct t"
  shows "scalar_one_or_none (sql_select P t) = Inr (sql_first (sql_select P t))"
proof (cases "filter P t")
  case (Cons a as)
  have "set (filter P t) \<subseteq> set t \<and> (\<forall>x \<in> set (filter P t). P x) \<and> distinct (filter P t)"
    using assms(2) by auto
  then have "set (a # as) \<subseteq> set t \<and> (\<forall>x \<in> set (a # as). P x) \<and> distinct (a # as)"
    unfolding Cons .
  then have "as = []" using assms(1) by (cases as) auto
  with Cons show ?thesis by (simp add: scalar_one_or_none_def sql_first_def sql_select_def)
qed (simp add: scalar_one_or_none_def sql_first_def sql_select_def)

lemma unique_key_distinct: "unique_key key t \<Longrightarrow> distinct t"
  by (simp add: unique_key_def distinct_map)

text \<open>\<open>ORDER BY\<close> on a timestamp; rows with equal timestamps keep the insertion order.\<close>

definition order_asc :: "('r \<Rightarrow> int) \<Rightarrow> 'r list \<Rightarrow> 'r list" where
  "order_asc key t = sort_key key t"

definition order_desc :: "('r \<Rightarrow> int) \<Rightarrow> 'r list \<Rightarrow> 'r list" where
  "order_desc key t = sort_key (\<lambda>r. - key r) t"

definition page :: "int \<Rightarrow> int \<Rightarrow> 'r list \<Rightarrow> 'r list" where
  "page limit offset rows = take (nat limit) (drop (nat offset) rows)"

lemma set_order [simp]: "set (order_asc key t) = set t" "set (order_desc key t) = set t"
  by (simp_all add: order_asc_def order_desc_def)

lemma length_order [simp]: "length (order_asc key t) = length t" "length (order_desc key t) = length t"
  by (simp_all add: order_asc_def order_desc_def)

text \<open>What becomes of a commit: it is applied, it is lost, or it is applied and only the reply is
  lost. The workers retry the errors of \<open>_RETRYABLE_DB_ERRORS\<close> once on a fresh session;
  \<open>IntegrityError\<close> is a \<open>DBAPIError\<close> and so one of them.\<close>

datatype commit_fate = Commit_ok | Commit_lost exn | Commit_reply_lost exn

fun retryable_db_error :: "exn \<Rightarrow> bool" where
  "retryable_db_error (DBConnectionError _) = True"
| "retryable_db_error IntegrityError = True"
| "retryable_db_error _ = False"

subsection \<open>Python strings\<close>

definition is_space :: "char \<Rightarrow> bool" where
  "is_space c = (let n = of_char c :: nat in
     (9 \<le> n \<and> n \<le> 13) \<or> (28 \<le> n \<and> n \<le> 32) \<or> n = 133 \<or> n = 160)"

definition py_lstrip :: "string \<Rightarrow> string" where
  "py_lstrip s = dropWhile is_space s"

definition py_strip :: "string \<Rightarrow> string" where
  "py_strip s = rev (dropWhile is_space (rev (dropWhile is_space s)))"

definition lower_char :: "char \<Rightarrow> char" where
  "lower_char c = (let n = of_char c :: nat in
     if (65 \<le> n \<and> n \<le> 90) \<or> (192 \<le> n \<and> n \<le> 222 \<and> n \<noteq> 215) then char_of (n + 32) else c)"

definition upper_char :: "char \<Rightarrow> char" where
  "upper_char c = (let n = of_char c :: nat in
     if (97 \<le> n \<and> n \<le> 122) \<or> (224 \<le> n \<and> n \<le> 254 \<and> n \<noteq> 247) then char_of (n - 32) else c)"

definition py_lower :: "string \<Rightarrow> string" where
  "py_lower s = map lower_char s"

definition py_upper :: "string \<Rightarrow> string" where
  "py_upper s = map upper_char s"

definition py_startswith :: "string \<Rightarrow> string \<Rightarrow> bool" where
  "py_startswith s p = (take (length p) s = p)"

text \<open>\<open>s.split()\<close> without an argument: the maximal runs of non-space characters.\<close>

function py_split :: "string \<Rightarrow> string list" where
  "py_split s = (case dropWhile is_space s of
       [] \<Rightarrow> []
     | c # cs \<Rightarrow> takeWhile (\<lambda>x. \<not> is_space x) (c # cs)
               # py_split (dropWhile (\<lambda>x. \<not> is_space x) (c # cs)))"
  by pat_completeness auto

lemma py_split_shrinks:
  assumes "dropWhile is_space s = c # cs"
  shows "length (dropWhile (\<lambda>x. \<not> is_space x) (c # cs)) < length s"
proof -
  have "\<not> is_space c"
    using assms by (metis hd_dropWhile list.sel(1) list.simps(3))
  then have "length (dropWhile (\<lambda>x. \<not> is_space x) (c # cs)) \<le> length cs"
    by (simp add: length_dropWhile_le)
  moreover have "length (c # cs) \<le> length s"
    using assms length_dropWhile_le [of is_space s] by simp
  ultimately show ?thesis by simp
qed

termination py_split
  by (relation "measure length") (use py_split_shrinks in auto)

declare py_split.simps [simp del]

lemma py_split_part:
  "w \<in> set (py_split s) \<Longrightarrow> w \<noteq> [] \<and> (\<forall>c \<in> set w. \<not> is_space c)"
proof (induction s rule: py_split.induct)
  case (1 s)
  show ?case
  proof (cases "dropWhile is_space s")
    case Nil
    with 1 show ?thesis by (simp add: py_split.simps [of s])
  next
    case (Cons c cs)
    have c: "\<not> is_space c"
      using Cons by (metis hd_dropWhile list.sel(1) list.simps(3))
    from "1.prems" Cons consider "w = takeWhile (\<lambda>x. \<not> is_space x) (c # cs)"
      | "w \<in> set (py_split (dropWhile (\<lambda>x. \<not> is_space x) (c # cs)))"
      by (auto simp: py_split.simps [of s])
    then show ?thesis
    proof cases
      case 1
      with c show ?thesis by (auto dest: set_takeWhileD)
    next
      case 2
      then show ?thesis by (rule "1.IH" [OF Cons])
    qed
  qed
qed

subsubsection \<open>Decimal numerals\<close>

definition digit_char :: "nat \<Rightarrow> char" where
  "digit_char d = char_of (48 + d)"

lemma digit_chars: "digit_char 0 = CHR ''0''" "digit_char 1 = CHR ''1''"
  "digit_char (Suc 0) = CHR ''1''" "digit_char 2 = CHR ''2''" "digit_char 3 = CHR ''3''"
  "digit_char 4 = CHR ''4''" "digit_char 5 = CHR ''5''" "digit_char 6 = CHR ''6''"
  "digit_char 7 = CHR ''7''" "digit_char 8 = CHR ''8''" "digit_char 9 = CHR ''9''"
  by (simp_all add: digit_char_def char_of_def bit_0)

lemma digit_char_code [code]:
  "digit_char d = (if d = 0 then CHR ''0'' else if d = 1 then CHR ''1'' else if d = 2 then CHR ''2''
     else if d = 3 then CHR ''3'' else if d = 4 then CHR ''4'' else if d = 5 then CHR ''5''
     else if d = 6 then CHR ''6'' else if d = 7 then CHR ''7'' else if d = 8 then CHR ''8''
     else if d = 9 then CHR ''9'' else char_of (48 + d))"
  using digit_chars by (simp add: digit_char_def)

definition is_digit :: "char \<Rightarrow> bool" where
  "is_digit c = (let n = of_char c :: nat in 48 \<le> n \<and> n \<le> 57)"

definition digit_val :: "char \<Rightarrow> nat" where
  "digit_val c = of_char c - 48"

fun str_nat :: "nat \<Rightarrow> string" where
  "str_nat n = (if n < 10 then [digit_char n] else str_nat (n div 10) @ [digit_char (n mod 10)])"

declare str_nat.simps [simp del]

definition str_int :: "int \<Rightarrow> string" where
  "str_int i = (if i < 0 then CHR ''-'' # str_nat (nat (- i)) else str_nat (nat i))"

text \<open>\<open>int(s)\<close>: surrounding whitespace, an optional sign, digits with single underscores between
  them.\<close>

fun digits_val :: "nat \<Rightarrow> bool \<Rightarrow> string \<Rightarrow> nat option" where
  "digits_val acc ok [] = (if ok then Some acc else None)"
| "digits_val acc ok (c # cs) =
     (if is_digit c then digits_val (10 * acc + digit_val c) True cs
      else if c = CHR ''_'' \<and> ok then digits_val acc False cs
      else None)"

definition py_int :: "string \<Rightarrow> int result" where
  "py_int s = (let t = py_strip s;
       (neg, ds) = (case t of
           c # cs \<Rightarrow> if c = CHR ''-'' then (True, cs)
                     else if c = CHR ''+'' then (False, cs) else (False, t)
         | [] \<Rightarrow> (False, t))
     in case digits_val 0 False ds of
          None \<Rightarrow> Inl (ValueError ''invalid literal for int() with base 10'')
        | Some n \<Rightarrow> Inr (if neg then - int n else int n))"

lemmas str_int_eval = str_int_def str_nat.simps digit_chars

lemma of_char_digit_char [simp]: "d < 10 \<Longrightarrow> (of_char (digit_char d) :: nat) = 48 + d"
  by (simp add: digit_char_def)

lemma is_digit_digit_char [simp]: "d < 10 \<Longrightarrow> is_digit (digit_char d)"
  by (simp add: is_digit_def)

lemma digit_val_digit_char [simp]: "d < 10 \<Longrightarrow> digit_val (digit_char d) = d"
  by (simp add: digit_val_def)

lemma is_digit_not_space: "is_digit c \<Longrightarrow> \<not> is_space c"
  by (auto simp: is_digit_def is_space_def Let_def)

lemma str_nat_digits: "str_nat n \<noteq> [] \<and> (\<forall>c \<in> set (str_nat n). is_digit c)"
proof (induction n rule: str_nat.induct)
  case (1 n)
  then show ?case by (cases "n < 10") (auto simp: str_nat.simps [of n])
qed

lemma digits_val_append_digit:
  "is_digit c \<Longrightarrow> digits_val acc ok ds = Some v \<Longrightarrow>
   digits_val acc ok (ds @ [c]) = Some (10 * v + digit_val c)"
  by (induction acc ok ds rule: digits_val.induct) (auto split: if_splits)

lemma digits_val_str_nat: "digits_val 0 ok (str_nat n) = Some n"
proof (induction n rule: str_nat.induct)
  case (1 n)
  show ?case
  proof (cases "n < 10")
    case True
    then show ?thesis by (simp add: str_nat.simps [of n])
  next
    case False
    then have "digits_val 0 ok (str_nat (n div 10)) = Some (n div 10)" by (rule "1.IH")
    moreover have "n mod 10 < 10" by simp
    ultimately show ?thesis
      using False digits_val_append_digit [of "digit_char (n mod 10)" 0 ok "str_nat (n div 10)"]
      by (simp add: str_nat.simps [of n])
  qed
qed

lemma dropWhile_id: "(xs = [] \<or> \<not> P (hd xs)) \<Longrightarrow> dropWhile P xs = xs"
  by (cases xs) auto

lemma py_strip_id:
  assumes "s = [] \<or> (\<not> is_space (hd s) \<and> \<not> is_space (last s))"
  shows "py_strip s = s"
  using assms by (cases "s = []") (auto simp: py_strip_def dropWhile_id hd_rev)

lemma py_strip_str_int: "py_strip (str_int i) = str_int i"
proof -
  have sp: "\<not> is_space (CHR ''-'')" by (simp add: is_space_def)
  have "hd (str_nat n) \<in> set (str_nat n)" "last (str_nat n) \<in> set (str_nat n)" for n
    using str_nat_digits [of n] by auto
  then have d: "\<not> is_space (hd (str_nat n))" "\<not> is_space (last (str_nat n))" for n
    using str_nat_digits [of n] is_digit_not_space by auto
  show ?thesis
    by (rule py_strip_id) (auto simp: str_int_def sp d)
qed

lemma is_digit_not_sign: "is_digit c \<Longrightarrow> c \<noteq> CHR ''-'' \<and> c \<noteq> CHR ''+''"
  by (auto simp: is_digit_def)

theorem py_int_str_int: "py_int (str_int i) = Inr i"
proof (cases "i < 0")
  case True
  then show ?thesis
    using digits_val_str_nat [of False "nat (- i)"] py_strip_str_int [of i]
    by (simp add: py_int_def str_int_def)
next
  case False
  obtain c cs where s: "str_nat (nat i) = c # cs"
    using str_nat_digits [of "nat i"] by (cases "str_nat (nat i)") auto
  then have "is_digit c" using str_nat_digits [of "nat i"] by auto
  with False s show ?thesis
    using digits_val_str_nat [of False "nat i"] py_strip_str_int [of i] is_digit_not_sign [of c]
    by (simp add: py_int_def str_int_def)
qed

lemma str_int_nonempty [simp]: "str_int i \<noteq> []"
  unfolding str_int_def using str_nat_digits by (metis list.discI)

lemma str_int_inj: "str_int i = str_int j \<Longrightarrow> i = j"
  by (metis py_int_str_int sum.inject(2))

subsubsection \<open>Slicing, joining, representation and escapes\<close>

text \<open>\<open>xs[:k]\<close> with a possibly negative bound, \<open>s.rstrip("/")\<close>, and \<open>s.rsplit("/", 1)[-1]\<close>.\<close>

definition slice_to :: "'a list \<Rightarrow> int \<Rightarrow> 'a list" where
  "slice_to s k = (if 0 \<le> k then take (nat k) s else take (nat (int (length s) + k)) s)"

definition rstrip_slash :: "string \<Rightarrow> string" where
  "rstrip_slash s = rev (dropWhile (\<lambda>c. c = CHR ''/'') (rev s))"

definition last_segment :: "string \<Rightarrow> string" where
  "last_segment s = rev (takeWhile (\<lambda>c. c \<noteq> CHR ''/'') (rev s))"

definition py_join :: "string \<Rightarrow> string list \<Rightarrow> string" where
  "py_join sep xs = (case xs of [] \<Rightarrow> [] | x # ys \<Rightarrow> x @ concat (map (\<lambda>y. sep @ y) ys))"

text \<open>\<open>str.split("/")\<close> and \<open>PurePosixPath(p).name\<close> of the standard library; \<open>str.lstrip(".")\<close>.\<close>

fun split_slash :: "string \<Rightarrow> string \<Rightarrow> string list" where
  "split_slash acc [] = [rev acc]"
| "split_slash acc (c # cs) =
     (if c = CHR ''/'' then rev acc # split_slash [] cs else split_slash (c # acc) cs)"

definition path_parts :: "string \<Rightarrow> string list" where
  "path_parts p = filter (\<lambda>x. x \<noteq> [] \<and> x \<noteq> ''.'') (split_slash [] p)"

definition path_name :: "string \<Rightarrow> string" where
  "path_name p = (let parts = path_parts p in if parts = [] then [] else last parts)"

definition lstrip_dots :: "string \<Rightarrow> string" where
  "lstrip_dots s = dropWhile (\<lambda>c. c = CHR ''.'') s"

lemma py_split_word:
  assumes "w \<noteq> []" "\<forall>c \<in> set w. \<not> is_space c"
  shows "py_split (w @ rest) = (case rest of
      [] \<Rightarrow> [w] | c # cs \<Rightarrow> if is_space c then w # py_split rest else py_split (w @ rest))"
proof (cases rest)
  case Nil
  obtain c cs where w: "w = c # cs" using assms(1) by (cases w) auto
  with assms(2) have "dropWhile is_space w = w" "takeWhile (\<lambda>x. \<not> is_space x) w = w" "dropWhile (\<lambda>x. \<not> is_space x) w = []"
    by (auto simp: takeWhile_eq_all_conv)
  then show ?thesis
    by (subst py_split.simps) (simp add: Nil w py_split.simps [of "[]"])
next
  case (Cons d ds)
  show ?thesis
  proof (cases "is_space d")
    case True
    obtain c cs where w: "w = c # cs" using assms(1) by (cases w) auto
    have d: "dropWhile is_space (w @ rest) = w @ rest" using assms(2) w by simp
    have t: "takeWhile (\<lambda>x. \<not> is_space x) (w @ rest) = w" "dropWhile (\<lambda>x. \<not> is_space x) (w @ rest) = rest"
      using assms(2) True Cons by (simp_all add: takeWhile_append2 dropWhile_append2)
    show ?thesis
      using d t True w by (subst py_split.simps) (simp add: Cons)
  qed (simp add: Cons)
qed

lemma py_split_join:
  "(\<forall>w \<in> set ws. w \<noteq> [] \<and> (\<forall>c \<in> set w. \<not> is_space c)) \<Longrightarrow> py_split (py_join '' '' ws) = ws"
proof (induction ws)
  case (Cons w ws)
  have sp: "is_space (CHR '' '')" by (simp add: is_space_def)
  have skip: "py_split (CHR '' '' # s) = py_split s" for s
    by (subst py_split.simps, subst (2) py_split.simps) (simp add: sp)
  show ?case
  proof (cases ws)
    case Nil
    with Cons.prems py_split_word [of w "[]"] show ?thesis by (simp add: py_join_def)
  next
    case (Cons v vs)
    with Cons.prems Cons.IH py_split_word [of w "CHR '' '' # py_join '' '' ws"] sp skip
    show ?thesis by (simp add: py_join_def)
  qed
qed (simp add: py_join_def py_split.simps)

definition hex_digit :: "nat \<Rightarrow> char" where
  "hex_digit d = (if d < 10 then char_of (48 + d) else char_of (87 + d))"

definition hex2 :: "char \<Rightarrow> string" where
  "hex2 c = (let n = of_char c :: nat in [hex_digit (n div 16), hex_digit (n mod 16)])"

text \<open>\<open>repr(s)\<close>: single quotes unless the text has one and no double quote.\<close>

definition repr_char :: "char \<Rightarrow> char \<Rightarrow> string" where
  "repr_char q c = (let n = of_char c :: nat in
     if c = q \<or> n = 92 then [CHR 0x5C, c]
     else if n = 10 then [CHR 0x5C, CHR ''n''] else if n = 13 then [CHR 0x5C, CHR ''r'']
     else if n = 9 then [CHR 0x5C, CHR ''t'']
     else if n < 32 \<or> (127 \<le> n \<and> n \<le> 160) \<or> n = 173 then [CHR 0x5C, CHR ''x''] @ hex2 c
     else [c])"

definition py_repr :: "string \<Rightarrow> string" where
  "py_repr s = (let q = (if CHR 0x27 \<in> set s \<and> CHR 0x22 \<notin> set s then CHR 0x22 else CHR 0x27)
                in [q] @ concat (map (repr_char q) s) @ [q])"

subsection \<open>JSON values\<close>

text \<open>What \<open>json.loads\<close> returns; an object is an association list, the first entry of a key
  counts.\<close>

datatype json =
    J_null | J_bool bool | J_int int | J_float rat | J_str string
  | J_list "json list" | J_obj "(string \<times> json) list"

text \<open>\<open>d.get(key)\<close> on a \<open>dict\<close>, with \<open>None\<close> both for a missing key and for a null.\<close>

definition j_get :: "(string \<times> json) list \<Rightarrow> string \<Rightarrow> json" where
  "j_get d k = (case map_of d k of None \<Rightarrow> J_null | Some v \<Rightarrow> v)"

subsection \<open>Status enums with a transition table\<close>

text \<open>
  Four entities of the program carry a status whose changes go through a table of allowed
  transitions and a \<open>_transition\<close> method that raises for everything the table does not list.
  The locale states that contract once; each entity's theory interprets it.
\<close>

locale status_machine =
  fixes status_of :: "'e \<Rightarrow> 's"
    and set_status :: "'s \<Rightarrow> 'e \<Rightarrow> 'e"
    and can :: "'s \<Rightarrow> 's \<Rightarrow> bool"
    and transition :: "'e \<Rightarrow> 's \<Rightarrow> 'e result"
  assumes status_set: "status_of (set_status t e) = t"
    and transition_ok: "can (status_of e) t \<Longrightarrow> transition e t = Inr (set_status t e)"
    and transition_err: "\<not> can (status_of e) t \<Longrightarrow> isl (transition e t)"
begin

lemma transition_Inr_iff:
  "transition e t = Inr e' \<longleftrightarrow> can (status_of e) t \<and> e' = set_status t e"
  using transition_ok transition_err by (cases "can (status_of e) t") fastforce+

text \<open>A history of transitions, as the entity's methods apply them one after the other.\<close>

fun transitions :: "'e \<Rightarrow> 's list \<Rightarrow> 'e result" where
  "transitions e [] = Inr e"
| "transitions e (t # ts) = rbind (transition e t) (\<lambda>e'. transitions e' ts)"

lemma transitions_path:
  "transitions e ts = Inr e' \<Longrightarrow> can\<^sup>*\<^sup>* (status_of e) (status_of e')"
proof (induction ts arbitrary: e)
  case (Cons t ts)
  then obtain e1 where e1: "transition e t = Inr e1" "transitions e1 ts = Inr e'"
    by (auto simp: rbind_Inr_iff)
  from e1(1) have "can (status_of e) (status_of e1)"
    by (auto simp: transition_Inr_iff status_set)
  with Cons.IH [OF e1(2)] show ?case by simp
qed simp

lemma terminal_absorbing:
  assumes "\<And>t. \<not> can (status_of e) t" and "transitions e ts = Inr e'"
  shows "ts = [] \<and> e' = e"
  using assms by (cases ts) (auto simp: rbind_Inr_iff transition_Inr_iff)

end

end
