(* ===== verification/Credit_Period.thy ===== *)
theory Credit_Period
  imports Transform_Prelude
begin

section \<open>Monthly credit periods\<close>

text \<open>
  Models \<open>src/domain/subscriptions/value_object/credit_period.py\<close>: the accounting key of the UTC
  calendar month an instant falls in and the first instant of the next month. A Python
  \<open>datetime\<close> is a \<open>civil\<close> time (year, month, day and microseconds of the day) with an optional
  UTC offset in microseconds; a naive one has none. The clock the functions read when they get
  no instant is a parameter.
\<close>

subsection \<open>Civil time\<close>

datatype civil = Civil (cv_year: int) (cv_month: int) (cv_day: int) (cv_tod: int)

record datetime =
  dt_civil :: civil
  dt_offset :: "int option"

definition day_micros :: int where
  "day_micros = 86400000000"

definition is_leap :: "int \<Rightarrow> bool" where
  "is_leap y = (y mod 4 = 0 \<and> (y mod 100 \<noteq> 0 \<or> y mod 400 = 0))"

definition days_in_month :: "int \<Rightarrow> int \<Rightarrow> int" where
  "days_in_month y m =
     (if m = 2 then (if is_leap y then 29 else 28)
      else if m \<in> {4, 6, 9, 11} then 30 else 31)"

text \<open>What the \<open>datetime\<close> constructor accepts (\<open>MINYEAR = 1\<close>, \<open>MAXYEAR = 9999\<close>).\<close>

definition valid_civil :: "civil \<Rightarrow> bool" where
  "valid_civil c = (1 \<le> cv_year c \<and> cv_year c \<le> 9999 \<and> 1 \<le> cv_month c \<and> cv_month c \<le> 12
     \<and> 1 \<le> cv_day c \<and> cv_day c \<le> days_in_month (cv_year c) (cv_month c)
     \<and> 0 \<le> cv_tod c \<and> cv_tod c < day_micros)"

definition mk_civil :: "int \<Rightarrow> int \<Rightarrow> int \<Rightarrow> civil result" where
  "mk_civil y m d =
     (if valid_civil (Civil y m d 0) then Inr (Civil y m d 0)
      else Inl (ValueError ''year, month or day is out of range''))"

instantiation civil :: linorder
begin

definition less_civil :: "civil \<Rightarrow> civil \<Rightarrow> bool" where
  "less_civil a b \<longleftrightarrow> cv_year a < cv_year b \<or> cv_year a = cv_year b \<and>
     (cv_month a < cv_month b \<or> cv_month a = cv_month b \<and>
       (cv_day a < cv_day b \<or> cv_day a = cv_day b \<and> cv_tod a < cv_tod b))"

definition less_eq_civil :: "civil \<Rightarrow> civil \<Rightarrow> bool" where
  "less_eq_civil a b \<longleftrightarrow> a < b \<or> a = (b :: civil)"

instance
proof
  fix x y z :: civil
  show "x < y \<longleftrightarrow> x \<le> y \<and> \<not> y \<le> x"
    by (auto simp: less_civil_def less_eq_civil_def)
  show "x \<le> x" by (simp add: less_eq_civil_def)
  have tr: "x < y \<Longrightarrow> y < z \<Longrightarrow> x < z" for x y z :: civil
    unfolding less_civil_def by (elim disjE conjE) simp_all
  show "x \<le> y \<Longrightarrow> y \<le> z \<Longrightarrow> x \<le> z"
    unfolding less_eq_civil_def using tr by blast
  have "\<not> x < x" for x :: civil by (simp add: less_civil_def)
  then show "x \<le> y \<Longrightarrow> y \<le> x \<Longrightarrow> x = y"
    unfolding less_eq_civil_def using tr by blast
  show "x \<le> y \<or> y \<le> x"
  proof (rule ccontr)
    assume "\<not> (x \<le> y \<or> y \<le> x)"
    then have n: "\<not> x < y" "\<not> y < x" "x \<noteq> y" by (auto simp: less_eq_civil_def)
    from n have "cv_year x = cv_year y" by (simp add: less_civil_def)
    with n have "cv_month x = cv_month y" by (simp add: less_civil_def)
    with n \<open>cv_year x = cv_year y\<close> have "cv_day x = cv_day y" by (simp add: less_civil_def)
    with n \<open>cv_year x = cv_year y\<close> \<open>cv_month x = cv_month y\<close>
    have "cv_tod x = cv_tod y" by (simp add: less_civil_def)
    with n(3) \<open>cv_year x = cv_year y\<close> \<open>cv_month x = cv_month y\<close> \<open>cv_day x = cv_day y\<close>
    show False by (cases x; cases y) simp
  qed
qed

end

text \<open>The day after and the day before; the calendar ends at the two limits of \<open>datetime\<close>.\<close>

definition next_day :: "civil \<Rightarrow> civil result" where
  "next_day c =
     (if cv_day c < days_in_month (cv_year c) (cv_month c)
      then Inr (Civil (cv_year c) (cv_month c) (cv_day c + 1) (cv_tod c))
      else if cv_month c < 12 then Inr (Civil (cv_year c) (cv_month c + 1) 1 (cv_tod c))
      else if cv_year c < 9999 then Inr (Civil (cv_year c + 1) 1 1 (cv_tod c))
      else Inl (OverflowError ''date value out of range''))"

definition prev_day :: "civil \<Rightarrow> civil result" where
  "prev_day c =
     (if 1 < cv_day c then Inr (Civil (cv_year c) (cv_month c) (cv_day c - 1) (cv_tod c))
      else if 1 < cv_month c
      then Inr (Civil (cv_year c) (cv_month c - 1)
                  (days_in_month (cv_year c) (cv_month c - 1)) (cv_tod c))
      else if 1 < cv_year c then Inr (Civil (cv_year c - 1) 12 31 (cv_tod c))
      else Inl (OverflowError ''date value out of range''))"

definition set_tod :: "int \<Rightarrow> civil \<Rightarrow> civil" where
  "set_tod t c = Civil (cv_year c) (cv_month c) (cv_day c) t"

text \<open>\<open>dt.astimezone(UTC)\<close> subtracts the offset, which is less than a day either way, from the
  wall time.\<close>

definition astimezone_utc :: "int \<Rightarrow> civil \<Rightarrow> civil result" where
  "astimezone_utc off c =
     (let t = cv_tod c - off in
      if t < 0 then prev_day (set_tod (t + day_micros) c)
      else if day_micros \<le> t then next_day (set_tod (t - day_micros) c)
      else Inr (set_tod t c))"

definition valid_datetime :: "datetime \<Rightarrow> bool" where
  "valid_datetime d = (valid_civil (dt_civil d) \<and>
     (case dt_offset d of None \<Rightarrow> True | Some z \<Rightarrow> - day_micros < z \<and> z < day_micros))"

subsection \<open>The functions of the module\<close>

definition to_utc :: "datetime \<Rightarrow> civil result" where
  "to_utc now = (case dt_offset now of
       None \<Rightarrow> Inl (ValueError ''now must be timezone-aware; pass datetime.now(UTC) or an aware value.'')
     | Some off \<Rightarrow> astimezone_utc off (dt_civil now))"

definition resolve :: "civil \<Rightarrow> datetime option \<Rightarrow> civil result" where
  "resolve clock now = (case now of None \<Rightarrow> Inr clock | Some d \<Rightarrow> to_utc d)"

definition ensure_utc :: "datetime option \<Rightarrow> datetime option" where
  "ensure_utc value = (case value of
       None \<Rightarrow> value
     | Some d \<Rightarrow> if dt_offset d \<noteq> None then value else Some (d\<lparr>dt_offset := Some 0\<rparr>))"

definition zfill :: "nat \<Rightarrow> int \<Rightarrow> string" where
  "zfill w n = replicate (w - length (str_int n)) (CHR ''0'') @ str_int n"

definition period_key_of :: "civil \<Rightarrow> string" where
  "period_key_of instant = zfill 4 (cv_year instant) @ ''-'' @ zfill 2 (cv_month instant)"

definition current_period_key :: "civil \<Rightarrow> datetime option \<Rightarrow> string result" where
  "current_period_key clock now = rbind (resolve clock now) (\<lambda>instant. Inr (period_key_of instant))"

definition period_end_of :: "civil \<Rightarrow> civil result" where
  "period_end_of instant =
     (let months_since_year_zero = cv_year instant * 12 + (cv_month instant - 1) + 1;
          next_year = months_since_year_zero div 12;
          next_month_index = months_since_year_zero mod 12
      in mk_civil next_year (next_month_index + 1) 1)"

definition next_period_start :: "civil \<Rightarrow> datetime option \<Rightarrow> civil result" where
  "next_period_start clock now = rbind (resolve clock now) period_end_of"

subsection \<open>Normalisation\<close>

lemma days_in_month_pos [simp]: "1 \<le> days_in_month y m" "0 < days_in_month y m"
  by (simp_all add: days_in_month_def)

lemma days_in_december [simp]: "days_in_month y 12 = 31"
  by (simp add: days_in_month_def)

lemma valid_next_day: "valid_civil c \<Longrightarrow> next_day c = Inr c' \<Longrightarrow> valid_civil c'"
  by (auto simp: next_day_def valid_civil_def split: if_splits)

lemma valid_prev_day: "valid_civil c \<Longrightarrow> prev_day c = Inr c' \<Longrightarrow> valid_civil c'"
  by (auto simp: prev_day_def valid_civil_def split: if_splits)

lemma valid_set_tod: "valid_civil c \<Longrightarrow> 0 \<le> t \<Longrightarrow> t < day_micros \<Longrightarrow> valid_civil (set_tod t c)"
  by (simp add: set_tod_def valid_civil_def)

lemma next_prev_day:
  assumes v: "valid_civil c" and n: "next_day c = Inr c'"
  shows "prev_day c' = Inr c"
proof (cases "cv_day c < days_in_month (cv_year c) (cv_month c)")
  case True
  with v n show ?thesis by (cases c) (auto simp: next_day_def prev_day_def valid_civil_def)
next
  case False
  then have "cv_day c = days_in_month (cv_year c) (cv_month c)"
    using v by (simp add: valid_civil_def)
  with v n show ?thesis
    by (cases c) (auto simp: next_day_def prev_day_def valid_civil_def split: if_splits)
qed

lemma valid_to_utc:
  assumes "valid_datetime d" "to_utc d = Inr c"
  shows "valid_civil c"
proof -
  obtain off where off: "dt_offset d = Some off" "astimezone_utc off (dt_civil d) = Inr c"
    using assms(2) by (auto simp: to_utc_def split: option.splits)
  with assms(1) have v: "valid_civil (dt_civil d)" "- day_micros < off" "off < day_micros"
    by (auto simp: valid_datetime_def)
  then have "0 \<le> cv_tod (dt_civil d)" "cv_tod (dt_civil d) < day_micros"
    by (auto simp: valid_civil_def)
  with off(2) v show ?thesis
    unfolding astimezone_utc_def Let_def
    by (auto split: if_splits intro!: valid_set_tod
        elim!: valid_next_day [rotated] valid_prev_day [rotated])
qed

subsection \<open>Keys\<close>

lemma digits_val_zeros:
  "0 < n \<or> ok \<Longrightarrow> digits_val 0 ok (replicate n (CHR ''0'') @ ds) = digits_val 0 (0 < n \<or> ok) ds"
proof (induction n arbitrary: ok)
  case (Suc n)
  have "is_digit (CHR ''0'')" "digit_val (CHR ''0'') = 0"
    by (simp_all add: is_digit_def digit_val_def)
  then show ?case using Suc.IH [of True] by simp
qed simp

lemma digits_val_zfill: "0 \<le> n \<Longrightarrow> digits_val 0 False (zfill w n) = Some (nat n)"
  unfolding zfill_def str_int_def
  using digits_val_zeros [of "w - length (str_nat (nat n))" False "str_nat (nat n)"]
    digits_val_str_nat [of _ "nat n"]
  by (cases "w - length (str_nat (nat n))") auto

lemma zfill_inj: "0 \<le> m \<Longrightarrow> 0 \<le> n \<Longrightarrow> zfill w m = zfill w n \<longleftrightarrow> m = n"
  by (metis digits_val_zfill nat_eq_iff2 option.inject)

lemma zfill_digits: "0 \<le> n \<Longrightarrow> \<forall>c \<in> set (zfill w n). is_digit c"
  using str_nat_digits [of "nat n"] by (auto simp: zfill_def str_int_def is_digit_def)

lemma takeWhile_key: "0 \<le> y \<Longrightarrow> takeWhile is_digit (zfill w y @ ''-'' @ r) = zfill w y"
  using zfill_digits [of y w] by (simp add: takeWhile_append is_digit_def)

lemma period_key_inj:
  assumes "valid_civil a" "valid_civil b"
  shows "period_key_of a = period_key_of b \<longleftrightarrow>
         cv_year a = cv_year b \<and> cv_month a = cv_month b"
proof
  assume eq: "period_key_of a = period_key_of b"
  have nn: "0 \<le> cv_year a" "0 \<le> cv_year b" "0 \<le> cv_month a" "0 \<le> cv_month b"
    using assms by (auto simp: valid_civil_def)
  have "zfill 4 (cv_year a) = zfill 4 (cv_year b)"
    using takeWhile_key [OF nn(1), of 4 "zfill 2 (cv_month a)"]
      takeWhile_key [OF nn(2), of 4 "zfill 2 (cv_month b)"] eq
    unfolding period_key_of_def by metis
  then have y: "cv_year a = cv_year b" using nn by (simp add: zfill_inj)
  with eq have "zfill 2 (cv_month a) = zfill 2 (cv_month b)"
    by (simp add: period_key_of_def)
  with y nn show "cv_year a = cv_year b \<and> cv_month a = cv_month b" by (simp add: zfill_inj)
qed (simp add: period_key_of_def)

subsection \<open>Key and reset instant agree\<close>

lemma period_end_cases:
  assumes "valid_civil c"
  shows "period_end_of c =
    (if cv_month c < 12 then Inr (Civil (cv_year c) (cv_month c + 1) 1 0)
     else if cv_year c < 9999 then Inr (Civil (cv_year c + 1) 1 1 0)
     else Inl (ValueError ''year, month or day is out of range''))"
proof (cases "cv_month c < 12")
  case True
  then have "(cv_year c * 12 + (cv_month c - 1) + 1) div 12 = cv_year c"
    "(cv_year c * 12 + (cv_month c - 1) + 1) mod 12 = cv_month c"
    using assms by (auto simp: valid_civil_def)
  with True assms show ?thesis
    by (simp add: period_end_of_def mk_civil_def valid_civil_def day_micros_def Let_def)
next
  case False
  then have m: "cv_month c = 12" using assms by (simp add: valid_civil_def)
  then have "(cv_year c * 12 + (cv_month c - 1) + 1) div 12 = cv_year c + 1"
    "(cv_year c * 12 + (cv_month c - 1) + 1) mod 12 = 0"
    by auto
  with m assms show ?thesis
    by (simp add: period_end_of_def mk_civil_def valid_civil_def day_micros_def Let_def)
qed

lemma period_end_after: "valid_civil c \<Longrightarrow> period_end_of c = Inr nx \<Longrightarrow> valid_civil nx \<and> c < nx"
  by (auto simp: period_end_cases less_civil_def valid_civil_def day_micros_def split: if_splits)

lemma same_month_iff_before_end:
  assumes "valid_civil c" "valid_civil c'" "period_end_of c = Inr nx" "c \<le> c'"
  shows "cv_year c' = cv_year c \<and> cv_month c' = cv_month c \<longleftrightarrow> c' < nx"
  using assms(2-4) period_end_cases [OF assms(1)] assms(1)
  by (cases c; cases c')
    (auto simp: less_civil_def less_eq_civil_def valid_civil_def split: if_splits)

subsection \<open>Property\<close>

text \<open>the accounting key and the reset instant never disagree. For an aware instant \<open>now\<close>
  whose period ends at \<open>nx\<close>, every later instant (given as any aware datetime) has the same
  period key exactly when it lies before \<open>nx\<close>; and \<open>nx\<close> is a valid midnight on the first of a
  month, after \<open>now\<close>.\<close>

theorem period_key_matches_reset:
  assumes "valid_datetime now" "to_utc now = Inr c" "next_period_start clock (Some now) = Inr nx"
    and "valid_datetime later" "to_utc later = Inr c'" "c \<le> c'"
  shows "(current_period_key clock (Some later) = current_period_key clock (Some now) \<longleftrightarrow> c' < nx)
    \<and> valid_civil nx \<and> cv_day nx = 1 \<and> cv_tod nx = 0 \<and> c < nx"
proof -
  have v: "valid_civil c" "valid_civil c'" using assms valid_to_utc by blast+
  have e: "period_end_of c = Inr nx"
    using assms(2,3) by (simp add: next_period_start_def resolve_def)
  have "cv_day nx = 1 \<and> cv_tod nx = 0"
    using e by (auto simp: period_end_cases [OF v(1)] split: if_splits)
  moreover have "current_period_key clock (Some later) = current_period_key clock (Some now)
      \<longleftrightarrow> cv_year c' = cv_year c \<and> cv_month c' = cv_month c"
    using assms(2,5) period_key_inj [OF v(2,1)] by (simp add: current_period_key_def resolve_def)
  ultimately show ?thesis
    using same_month_iff_before_end [OF v e assms(6)] period_end_after [OF v(1) e] by simp
qed

theorem period_key_matches_reset_witness:
  "let now = \<lparr>dt_civil = Civil 2026 12 31 82800000000, dt_offset = Some (- 7200000000)\<rparr>;
       later = \<lparr>dt_civil = Civil 2027 2 1 0, dt_offset = Some 3600000000\<rparr>;
       clock = Civil 2026 1 1 0
   in (current_period_key clock (Some later) = current_period_key clock (Some now)
        \<longleftrightarrow> Civil 2027 1 31 82800000000 < Civil 2027 2 1 0)
      \<and> valid_civil (Civil 2027 2 1 0) \<and> Civil 2027 1 1 3600000000 < Civil 2027 2 1 0"
  using period_key_matches_reset
    [of "\<lparr>dt_civil = Civil 2026 12 31 82800000000, dt_offset = Some (- 7200000000)\<rparr>"
        "Civil 2027 1 1 3600000000" "Civil 2026 1 1 0" "Civil 2027 2 1 0"
        "\<lparr>dt_civil = Civil 2027 2 1 0, dt_offset = Some 3600000000\<rparr>" "Civil 2027 1 31 82800000000"]
  by (simp add: valid_datetime_def valid_civil_def day_micros_def days_in_month_def is_leap_def
      to_utc_def astimezone_utc_def next_day_def prev_day_def set_tod_def next_period_start_def
      resolve_def period_end_of_def mk_civil_def less_eq_civil_def less_civil_def Let_def)

end
