(* ===== verification/Subscriptions.thy ===== *)
theory Subscriptions
  imports Credit_Period
begin

section \<open>Tiers, quotas, credit buckets and the credit wallet\<close>

text \<open>
  Models \<open>src/domain/subscriptions\<close>: the tier policy table, the storage quota decision, the
  \<open>Credit\<close> and \<open>Subscription\<close> entities, and the pure credit wallet that spends carryover, plan
  and purchased credits. A method that mutates its entity returns the updated record, or the
  exception it raises before it changed anything. The wallet's instants are of any linearly
  ordered type; the ledger uses it at civil UTC time.
\<close>

subsection \<open>Tier policy\<close>

datatype subscription_tier =
  Tier_GUEST | Tier_FREE | Tier_PREMIUM | Tier_PRO | Tier_PRO_PLUS | Tier_ENTERPRISE

fun tier_value :: "subscription_tier \<Rightarrow> string" where
  "tier_value Tier_GUEST = ''GUEST''"
| "tier_value Tier_FREE = ''FREE''"
| "tier_value Tier_PREMIUM = ''PREMIUM''"
| "tier_value Tier_PRO = ''PRO''"
| "tier_value Tier_PRO_PLUS = ''PRO_PLUS''"
| "tier_value Tier_ENTERPRISE = ''ENTERPRISE''"

definition all_tiers :: "subscription_tier list" where
  "all_tiers = [Tier_GUEST, Tier_FREE, Tier_PREMIUM, Tier_PRO, Tier_PRO_PLUS, Tier_ENTERPRISE]"

text \<open>\<open>SubscriptionTier(value)\<close>.\<close>

definition tier_of_value :: "string \<Rightarrow> subscription_tier result" where
  "tier_of_value s = (case find (\<lambda>t. tier_value t = s) all_tiers of
       Some t \<Rightarrow> Inr t
     | None \<Rightarrow> Inl (ValueError (s @ '' is not a valid SubscriptionTier'')))"

definition MB :: int where "MB = 1024 * 1024"

definition GB :: int where "GB = 1024 * MB"

record tier_policy =
  tp_tier :: subscription_tier
  tp_storage_quota_bytes :: int
  tp_monthly_conversion_credits :: "int option"
  tp_monthly_api_conversion_credits :: "int option"

definition has_persistent_credits :: "tier_policy \<Rightarrow> bool" where
  "has_persistent_credits p = (tp_monthly_conversion_credits p \<noteq> None)"

fun for_tier :: "subscription_tier \<Rightarrow> tier_policy" where
  "for_tier Tier_GUEST = \<lparr>tp_tier = Tier_GUEST, tp_storage_quota_bytes = 50 * MB,
     tp_monthly_conversion_credits = None, tp_monthly_api_conversion_credits = None\<rparr>"
| "for_tier Tier_FREE = \<lparr>tp_tier = Tier_FREE, tp_storage_quota_bytes = 5 * GB,
     tp_monthly_conversion_credits = Some 50, tp_monthly_api_conversion_credits = Some 10\<rparr>"
| "for_tier Tier_PREMIUM = \<lparr>tp_tier = Tier_PREMIUM, tp_storage_quota_bytes = 50 * GB,
     tp_monthly_conversion_credits = Some 500, tp_monthly_api_conversion_credits = Some 100\<rparr>"
| "for_tier Tier_PRO = \<lparr>tp_tier = Tier_PRO, tp_storage_quota_bytes = 50 * GB,
     tp_monthly_conversion_credits = Some 500, tp_monthly_api_conversion_credits = Some 100\<rparr>"
| "for_tier Tier_PRO_PLUS = \<lparr>tp_tier = Tier_PRO_PLUS, tp_storage_quota_bytes = 100 * GB,
     tp_monthly_conversion_credits = Some 2000, tp_monthly_api_conversion_credits = Some 1000\<rparr>"
| "for_tier Tier_ENTERPRISE = \<lparr>tp_tier = Tier_ENTERPRISE, tp_storage_quota_bytes = 1000 * GB,
     tp_monthly_conversion_credits = None, tp_monthly_api_conversion_credits = None\<rparr>"

lemma tier_roundtrip: "tier_of_value (tier_value t) = Inr t"
  by (cases t) (simp_all add: tier_of_value_def all_tiers_def)

lemma tier_value_inj: "tier_value s = tier_value t \<Longrightarrow> s = t"
  by (metis tier_roundtrip sum.inject(2))

lemma quota_nonneg: "0 < tp_storage_quota_bytes (for_tier t)"
  by (cases t) (simp_all add: MB_def GB_def)

lemma allowance_nonneg: "tp_monthly_conversion_credits (for_tier t) = Some a \<Longrightarrow> 0 < a"
  by (cases t) auto

subsection \<open>Storage quota\<close>

record storage_quota_decision =
  qd_limit_bytes :: int
  qd_used_bytes :: int
  qd_file_size :: int

definition available_bytes :: "storage_quota_decision \<Rightarrow> int" where
  "available_bytes d = max 0 (qd_limit_bytes d - qd_used_bytes d)"

definition quota_allowed :: "storage_quota_decision \<Rightarrow> bool" where
  "quota_allowed d = (qd_file_size d \<le> available_bytes d)"

text \<open>\<open>int(x)\<close> of an \<open>int\<close> or a \<open>Decimal\<close>: truncation towards zero.\<close>

definition py_trunc :: "rat \<Rightarrow> int" where
  "py_trunc x = (if x < 0 then \<lceil>x\<rceil> else \<lfloor>x\<rfloor>)"

definition evaluate_storage_quota :: "rat \<Rightarrow> rat \<Rightarrow> rat \<Rightarrow> storage_quota_decision result" where
  "evaluate_storage_quota limit_bytes used_bytes file_size =
     (let limit = py_trunc limit_bytes; used = py_trunc used_bytes; size = py_trunc file_size in
      if limit < 0 then Inl (ValueError ''limit_bytes cannot be negative.'')
      else if used < 0 then Inl (ValueError ''used_bytes cannot be negative.'')
      else if size < 0 then Inl (ValueError ''file_size cannot be negative.'')
      else Inr \<lparr>qd_limit_bytes = limit, qd_used_bytes = used, qd_file_size = size\<rparr>)"

lemma py_trunc_of_int [simp]: "py_trunc (of_int i) = i"
  by (simp add: py_trunc_def)

text \<open>An accepted upload leaves the usage within the quota, and an account within its quota is
  refused only when the upload does not fit.\<close>

lemma quota_allowed_iff:
  assumes "evaluate_storage_quota limit used sz = Inr d"
  shows "quota_allowed d \<longleftrightarrow>
    py_trunc sz = 0 \<or> py_trunc used + py_trunc sz \<le> py_trunc limit"
  using assms
  by (auto simp: evaluate_storage_quota_def quota_allowed_def available_bytes_def Let_def
      split: if_splits)

subsection \<open>The monthly credit bucket\<close>

record credit =
  cr_owner_id :: string
  cr_period_key :: string
  cr_allowance :: int
  cr_remaining :: int

definition credit_post_init :: "credit \<Rightarrow> credit result" where
  "credit_post_init c =
     (if cr_allowance c < 0 then Inl (ValueError ''credit allowance cannot be negative.'')
      else if cr_remaining c < 0 then Inl (ValueError ''Remaining credits cannot be negative.'')
      else if cr_allowance c < cr_remaining c
           then Inl (ValueError ''Remaining credits cannot exceed allowance.'')
      else Inr c)"

definition credit_from_tier :: "string \<Rightarrow> string \<Rightarrow> subscription_tier \<Rightarrow> credit result" where
  "credit_from_tier owner_id period_key tier =
     (case tp_monthly_conversion_credits (for_tier tier) of
        None \<Rightarrow> Inl (GuestTierHasNoPersistentCredits
                   ''Guest tier does not use persistent monthly credits.'')
      | Some a \<Rightarrow> credit_post_init \<lparr>cr_owner_id = owner_id, cr_period_key = period_key,
                     cr_allowance = a, cr_remaining = a\<rparr>)"

definition consume_for_conversion :: "int \<Rightarrow> credit \<Rightarrow> credit result" where
  "consume_for_conversion units c =
     (if units \<le> 0 then Inl (InvalidCreditOperation ''Units to consume must be a positive integer.'')
      else if cr_remaining c < units
           then Inl (InsufficientCredits (''Insufficient credits: '' @ str_int (cr_remaining c)
                  @ '' remaining, '' @ str_int units @ '' requested.''))
      else Inr (c\<lparr>cr_remaining := cr_remaining c - units\<rparr>))"

definition reset_to_monthly_allowance :: "credit \<Rightarrow> credit" where
  "reset_to_monthly_allowance c = c\<lparr>cr_remaining := cr_allowance c\<rparr>"

definition credit_ok :: "credit \<Rightarrow> bool" where
  "credit_ok c = (0 \<le> cr_remaining c \<and> cr_remaining c \<le> cr_allowance c)"

lemma credit_post_init_iff: "credit_post_init c = Inr c' \<longleftrightarrow> c' = c \<and> credit_ok c"
  by (auto simp: credit_post_init_def credit_ok_def)

lemma credit_from_tier_ok: "credit_from_tier u p t = Inr c \<Longrightarrow>
  credit_ok c \<and> cr_owner_id c = u \<and> cr_period_key c = p \<and> cr_remaining c = cr_allowance c"
  by (auto simp: credit_from_tier_def credit_post_init_iff split: option.splits)

lemma consume_for_conversion_Inr: "consume_for_conversion u c = Inr c' \<longleftrightarrow>
  0 < u \<and> u \<le> cr_remaining c \<and> c' = c\<lparr>cr_remaining := cr_remaining c - u\<rparr>"
  by (auto simp: consume_for_conversion_def)

lemma consume_for_conversion_ok: "credit_ok c \<Longrightarrow> consume_for_conversion u c = Inr c' \<Longrightarrow> credit_ok c'"
  by (auto simp: consume_for_conversion_Inr credit_ok_def)

lemma reset_ok: "credit_ok c \<Longrightarrow> credit_ok (reset_to_monthly_allowance c)"
  by (simp add: reset_to_monthly_allowance_def credit_ok_def)

subsection \<open>The subscription\<close>

record subscription =
  sub_tier :: subscription_tier
  sub_used_storage_bytes :: int

definition subscription_post_init :: "subscription \<Rightarrow> subscription result" where
  "subscription_post_init s =
     (if sub_used_storage_bytes s < 0
      then Inl (ValueError ''used_storage_bytes cannot be negative.'') else Inr s)"

definition sub_storage_quota_bytes :: "subscription \<Rightarrow> int" where
  "sub_storage_quota_bytes s = tp_storage_quota_bytes (for_tier (sub_tier s))"

definition ensure_storage_available :: "int \<Rightarrow> subscription \<Rightarrow> unit result" where
  "ensure_storage_available additional s =
     (if additional < 0
      then Inl (InvalidSubscriptionState ''additional_bytes cannot be negative.'')
      else let projected = sub_used_storage_bytes s + additional in
        if sub_storage_quota_bytes s < projected
        then Inl (StorageQuotaExceeded (''Storage quota exceeded: projected='' @ str_int projected
               @ '', quota='' @ str_int (sub_storage_quota_bytes s) @ ''.''))
        else Inr ())"

definition allocate_storage :: "int \<Rightarrow> subscription \<Rightarrow> subscription result" where
  "allocate_storage additional s =
     rbind (ensure_storage_available additional s)
       (\<lambda>_. Inr (s\<lparr>sub_used_storage_bytes := sub_used_storage_bytes s + additional\<rparr>))"

definition release_storage :: "int \<Rightarrow> subscription \<Rightarrow> subscription result" where
  "release_storage n s =
     (if n < 0 then Inl (InvalidSubscriptionState ''bytes_to_release cannot be negative.'')
      else if sub_used_storage_bytes s < n
      then Inl (InvalidSubscriptionState (''Cannot release more storage than used: used=''
             @ str_int (sub_used_storage_bytes s) @ '', requested='' @ str_int n @ ''.''))
      else Inr (s\<lparr>sub_used_storage_bytes := sub_used_storage_bytes s - n\<rparr>))"

definition consume_conversion_credits ::
    "credit option \<Rightarrow> int \<Rightarrow> subscription \<Rightarrow> credit result" where
  "consume_conversion_credits credit units s =
     (if sub_tier s = Tier_GUEST
      then Inl (GuestTierRequiresRateLimiting
             ''Guest conversion must pass through IP-based rate limiting.'')
      else case credit of
          None \<Rightarrow> Inl (MissingCreditAccount (''Tier '' @ tier_value (sub_tier s)
                    @ '' requires a persistent credit account.''))
        | Some c \<Rightarrow> consume_for_conversion units c)"

definition subscription_ok :: "subscription \<Rightarrow> bool" where
  "subscription_ok s = (0 \<le> sub_used_storage_bytes s
     \<and> sub_used_storage_bytes s \<le> sub_storage_quota_bytes s)"

lemma allocate_storage_Inr: "allocate_storage n s = Inr s' \<longleftrightarrow>
  0 \<le> n \<and> sub_used_storage_bytes s + n \<le> sub_storage_quota_bytes s
  \<and> s' = s\<lparr>sub_used_storage_bytes := sub_used_storage_bytes s + n\<rparr>"
  by (auto simp: allocate_storage_def ensure_storage_available_def rbind_Inr_iff Let_def)

lemma release_storage_Inr: "release_storage n s = Inr s' \<longleftrightarrow>
  0 \<le> n \<and> n \<le> sub_used_storage_bytes s
  \<and> s' = s\<lparr>sub_used_storage_bytes := sub_used_storage_bytes s - n\<rparr>"
  by (auto simp: release_storage_def)

lemma allocate_release: "allocate_storage n s = Inr s' \<Longrightarrow> 0 \<le> sub_used_storage_bytes s \<Longrightarrow>
  release_storage n s' = Inr s"
  by (auto simp: allocate_storage_Inr release_storage_Inr)

datatype storage_op = Alloc int | Release int

text \<open>A history of storage calls on one subscription; a call that raises leaves it as it is.\<close>

fun storage_step :: "subscription \<Rightarrow> storage_op \<Rightarrow> subscription" where
  "storage_step s (Alloc n) = (case allocate_storage n s of Inr s' \<Rightarrow> s' | Inl _ \<Rightarrow> s)"
| "storage_step s (Release n) = (case release_storage n s of Inr s' \<Rightarrow> s' | Inl _ \<Rightarrow> s)"

lemma storage_step_ok: "subscription_ok s \<Longrightarrow> subscription_ok (storage_step s op)
    \<and> sub_tier (storage_step s op) = sub_tier s"
  by (cases op) (auto simp: allocate_storage_Inr release_storage_Inr subscription_ok_def
      sub_storage_quota_bytes_def split: sum.splits)

lemma storage_history_ok: "subscription_ok s \<Longrightarrow> subscription_ok (foldl storage_step s ops)"
  by (induction ops arbitrary: s) (auto simp: storage_step_ok)

subsection \<open>Accounts that clamp at zero\<close>

text \<open>
  The contract the spending side relies on: spending never fails, keeps the account well formed
  and lowers what is available by the units asked for, down to zero. The wallet and the
  worker's ledger provide it.
\<close>

locale clamped_account =
  fixes account_ok :: "'s \<Rightarrow> bool"
    and available :: "'s \<Rightarrow> int"
    and spend :: "int \<Rightarrow> 's \<Rightarrow> 's result"
    and spendable :: "int \<Rightarrow> bool"
  assumes available_nonneg: "account_ok s \<Longrightarrow> 0 \<le> available s"
    and spendable_nonneg: "spendable u \<Longrightarrow> 0 \<le> u"
    and spend_total: "account_ok s \<Longrightarrow> spendable u \<Longrightarrow>
      \<exists>s'. spend u s = Inr s' \<and> account_ok s' \<and> available s' = max 0 (available s - u)"
begin

fun spend_all :: "int list \<Rightarrow> 's \<Rightarrow> 's result" where
  "spend_all [] s = Inr s"
| "spend_all (u # us) s = rbind (spend u s) (spend_all us)"

lemma spend_all_total:
  "account_ok s \<Longrightarrow> (\<And>u. u \<in> set us \<Longrightarrow> spendable u) \<Longrightarrow>
   \<exists>s'. spend_all us s = Inr s' \<and> account_ok s' \<and> available s' = max 0 (available s - sum_list us)"
proof (induction us arbitrary: s)
  case Nil
  then show ?case using available_nonneg [of s] by simp
next
  case (Cons u us)
  then obtain s1 where s1: "spend u s = Inr s1" "account_ok s1"
    "available s1 = max 0 (available s - u)"
    using spend_total [of s u] by auto
  obtain s2 where s2: "spend_all us s1 = Inr s2" "account_ok s2"
    "available s2 = max 0 (available s1 - sum_list us)"
    using Cons.IH [OF s1(2)] Cons.prems(2) by auto
  have "0 \<le> sum_list us"
    using Cons.prems(2) spendable_nonneg by (intro sum_list_nonneg) auto
  then have "available s2 = max 0 (available s - sum_list (u # us))"
    using s1(3) s2(3) by simp
  with s1(1) s2 show ?case by simp
qed

text \<open>The order of the charges does not change what is left.\<close>

lemma spend_order_irrelevant:
  assumes "account_ok s" "\<And>u. u \<in> set us \<Longrightarrow> spendable u" "sum_list us = sum_list vs"
    "\<And>u. u \<in> set vs \<Longrightarrow> spendable u"
  shows "\<exists>s1 s2. spend_all us s = Inr s1 \<and> spend_all vs s = Inr s2 \<and> available s1 = available s2"
  using spend_all_total [OF assms(1), of us] spend_all_total [OF assms(1), of vs] assms(2-4)
  by metis

end

subsection \<open>The credit wallet\<close>

record wallet_balances =
  wb_plan_remaining :: int
  wb_carryover_credits :: int
  wb_purchased_credits :: int

definition mk_wallet :: "int \<Rightarrow> int \<Rightarrow> int \<Rightarrow> wallet_balances result" where
  "mk_wallet plan carry purchased =
     (if plan < 0
      then Inl (ValueError (''plan_remaining cannot be negative (got '' @ str_int plan @ '').''))
      else if carry < 0
      then Inl (ValueError (''carryover_credits cannot be negative (got '' @ str_int carry @ '').''))
      else if purchased < 0
      then Inl (ValueError (''purchased_credits cannot be negative (got '' @ str_int purchased @ '').''))
      else Inr \<lparr>wb_plan_remaining = plan, wb_carryover_credits = carry,
                 wb_purchased_credits = purchased\<rparr>)"

definition live_carryover :: "int \<Rightarrow> 't::linorder option \<Rightarrow> 't \<Rightarrow> int" where
  "live_carryover carryover expires_at now =
     (if carryover \<le> 0 then 0
      else case expires_at of
          Some e \<Rightarrow> if e \<le> now then 0 else carryover
        | None \<Rightarrow> carryover)"

definition available_total :: "wallet_balances \<Rightarrow> 't::linorder option \<Rightarrow> 't \<Rightarrow> int" where
  "available_total b expires_at now =
     wb_plan_remaining b + live_carryover (wb_carryover_credits b) expires_at now
     + wb_purchased_credits b"

definition consume_from_wallet ::
    "wallet_balances \<Rightarrow> int \<Rightarrow> 't::linorder option \<Rightarrow> 't \<Rightarrow> bool \<Rightarrow> wallet_balances result" where
  "consume_from_wallet balances units expires_at now purchased_first =
     (if units < 0 then Inl (ValueError (''units cannot be negative (got '' @ str_int units @ '').''))
      else if units = 0 then Inr balances
      else
       let stored = wb_carryover_credits balances;
           live = live_carryover stored expires_at now;
           spend0 = min live units;
           carryover = stored - spend0;
           remaining = units - spend0;
           plan = wb_plan_remaining balances;
           purchased = wb_purchased_credits balances
       in if purchased_first then
            let spend1 = min purchased remaining;
                spend2 = min plan (remaining - spend1)
            in mk_wallet (plan - spend2) carryover (purchased - spend1)
          else
            let spend1 = min plan remaining;
                spend2 = min purchased (remaining - spend1)
            in mk_wallet (plan - spend1) carryover (purchased - spend2))"

text \<open>The reference: drain a list of pools in order.\<close>

fun spend_pools :: "int \<Rightarrow> int list \<Rightarrow> int list" where
  "spend_pools u [] = []"
| "spend_pools u (p # ps) = (p - min p u) # spend_pools (u - min p u) ps"

definition wallet_pools :: "'t::linorder option \<Rightarrow> 't \<Rightarrow> bool \<Rightarrow> wallet_balances \<Rightarrow> int list" where
  "wallet_pools e now pf b = live_carryover (wb_carryover_credits b) e now
     # (if pf then [wb_purchased_credits b, wb_plan_remaining b]
        else [wb_plan_remaining b, wb_purchased_credits b])"

definition wallet_ok :: "wallet_balances \<Rightarrow> bool" where
  "wallet_ok b = (0 \<le> wb_plan_remaining b \<and> 0 \<le> wb_carryover_credits b
     \<and> 0 \<le> wb_purchased_credits b)"

lemma mk_wallet_ok: "0 \<le> p \<Longrightarrow> 0 \<le> c \<Longrightarrow> 0 \<le> q \<Longrightarrow> mk_wallet p c q
    = Inr \<lparr>wb_plan_remaining = p, wb_carryover_credits = c, wb_purchased_credits = q\<rparr>"
  by (simp add: mk_wallet_def)

lemma live_carryover_bounds: "0 \<le> live_carryover c e now" "0 \<le> c \<Longrightarrow> live_carryover c e now \<le> c"
  by (auto simp: live_carryover_def split: option.splits)

lemma live_carryover_spent:
  assumes "s \<le> live_carryover c e now"
  shows "live_carryover (c - s) e now = (if 0 \<le> s \<or> 0 < live_carryover c e now
           then live_carryover c e now - s else live_carryover (c - s) e now)"
  using assms by (auto simp: live_carryover_def split: option.splits if_splits)

lemma spend_pools_sum:
  "\<forall>p \<in> set ps. 0 \<le> p \<Longrightarrow> 0 \<le> u \<Longrightarrow> sum_list (spend_pools u ps) = max 0 (sum_list ps - u)"
proof (induction ps arbitrary: u)
  case (Cons p ps)
  then have "0 \<le> sum_list ps" by (simp add: sum_list_nonneg)
  with Cons.IH [of "u - min p u"] Cons.prems show ?case by auto
qed simp

lemma spend_pools_nonneg: "\<forall>p \<in> set ps. 0 \<le> p \<Longrightarrow> 0 \<le> u \<Longrightarrow> \<forall>p \<in> set (spend_pools u ps). 0 \<le> p"
proof (induction ps arbitrary: u)
  case (Cons p ps)
  then have "\<forall>q \<in> set (spend_pools (u - min p u) ps). 0 \<le> q" by (intro Cons.IH) auto
  moreover have "0 \<le> p - min p u" by linarith
  ultimately show ?case by (simp del: diff_ge_0_iff_ge)
qed simp

lemma min_min_spent: "0 \<le> v \<Longrightarrow> min p u + min (p - min p u) v = min p (u + v)" for p u v :: int
  by (simp add: min_def)

lemma spend_pools_add:
  "\<forall>p \<in> set ps. 0 \<le> p \<Longrightarrow> 0 \<le> u \<Longrightarrow> 0 \<le> v \<Longrightarrow>
   spend_pools v (spend_pools u ps) = spend_pools (u + v) ps"
proof (induction ps arbitrary: u v)
  case (Cons p ps)
  let ?u = "u - min p u" and ?v = "v - min (p - min p u) v"
  have e: "?u + ?v = u + v - min p (u + v)"
    using min_min_spent [OF Cons.prems(3), of p u] by linarith
  have h: "p - min p u - min (p - min p u) v = p - min p (u + v)"
    using min_min_spent [OF Cons.prems(3), of p u] by linarith
  have "spend_pools ?v (spend_pools ?u ps) = spend_pools (?u + ?v) ps"
    using Cons.prems by (intro Cons.IH) auto
  with h show ?case by (simp only: spend_pools.simps e)
qed simp

lemma available_pools: "available_total b e now = sum_list (wallet_pools e now pf b)"
  by (simp add: available_total_def wallet_pools_def)

lemma wallet_pools_nonneg: "wallet_ok b \<Longrightarrow> \<forall>p \<in> set (wallet_pools e now pf b). 0 \<le> p"
  by (auto simp: wallet_pools_def wallet_ok_def live_carryover_bounds)

lemma spend_pools_zero: "\<forall>p \<in> set ps. 0 \<le> p \<Longrightarrow> spend_pools 0 ps = ps"
  by (induction ps) auto

text \<open>The wallet refines the reference: a well-formed wallet spends without raising, its spendable
  pools are drained in the documented order and only the live carryover is touched.\<close>

lemma consume_refines:
  assumes "wallet_ok b" "0 \<le> u"
  shows "\<exists>b'. consume_from_wallet b u e now pf = Inr b' \<and> wallet_ok b'
     \<and> wallet_pools e now pf b' = spend_pools u (wallet_pools e now pf b)
     \<and> wb_carryover_credits b' = wb_carryover_credits b
         - min (live_carryover (wb_carryover_credits b) e now) u"
proof (cases "u = 0")
  case True
  with assms show ?thesis
    using spend_pools_zero [OF wallet_pools_nonneg [OF assms(1)], of e now pf]
    by (auto simp: consume_from_wallet_def live_carryover_bounds)
next
  case False
  let ?l = "live_carryover (wb_carryover_credits b) e now"
  have l: "0 \<le> ?l" "?l \<le> wb_carryover_credits b"
    using assms(1) by (auto simp: live_carryover_bounds wallet_ok_def)
  have s: "live_carryover (wb_carryover_credits b - min ?l u) e now = ?l - min ?l u"
    using live_carryover_spent [of "min ?l u" "wb_carryover_credits b" e now] l assms(2) by auto
  show ?thesis
    using assms False l s
    by (cases pf; simp add: consume_from_wallet_def Let_def wallet_pools_def wallet_ok_def
        mk_wallet_ok)
qed

lemma wallet_spend_total:
  assumes "wallet_ok b" "0 \<le> u"
  shows "\<exists>b'. consume_from_wallet b u e now pf = Inr b' \<and> wallet_ok b'
    \<and> available_total b' e now = max 0 (available_total b e now - u)"
  using consume_refines [OF assms, of e now pf]
    spend_pools_sum [OF wallet_pools_nonneg [OF assms(1)] assms(2), of e now pf]
  by (auto simp: available_pools [where pf = pf])

lemma available_total_nonneg: "wallet_ok b \<Longrightarrow> 0 \<le> available_total b e now"
  by (simp add: available_total_def wallet_ok_def live_carryover_bounds)

interpretation wallet: clamped_account wallet_ok
    "\<lambda>b. available_total b (e :: 't::linorder option) now" "\<lambda>u b. consume_from_wallet b u e now pf"
    "\<lambda>u. 0 \<le> u"
  for e :: "'t::linorder option" and now :: 't and pf :: bool
  by unfold_locales (use available_total_nonneg wallet_spend_total in auto)

lemma wallet_determined:
  assumes "wallet_pools e now pf a = wallet_pools e now pf b"
    "wb_carryover_credits a = wb_carryover_credits b"
  shows "a = (b :: wallet_balances)"
  using assms by (cases a; cases b; cases pf) (auto simp: wallet_pools_def)

lemma consume_twice:
  assumes "wallet_ok b" "0 \<le> u" "0 \<le> v"
  shows "rbind (consume_from_wallet b u e now pf) (\<lambda>b'. consume_from_wallet b' v e now pf)
    = consume_from_wallet b (u + v) e now pf"
proof -
  obtain b1 where b1: "consume_from_wallet b u e now pf = Inr b1" "wallet_ok b1"
    "wallet_pools e now pf b1 = spend_pools u (wallet_pools e now pf b)"
    "wb_carryover_credits b1 = wb_carryover_credits b
       - min (live_carryover (wb_carryover_credits b) e now) u"
    using consume_refines [OF assms(1,2), of e now pf] by blast
  obtain b2 where b2: "consume_from_wallet b1 v e now pf = Inr b2"
    "wallet_pools e now pf b2 = spend_pools v (wallet_pools e now pf b1)"
    "wb_carryover_credits b2 = wb_carryover_credits b1
       - min (live_carryover (wb_carryover_credits b1) e now) v"
    using consume_refines [OF b1(2) assms(3), of e now pf] by blast
  obtain b3 where b3: "consume_from_wallet b (u + v) e now pf = Inr b3"
    "wallet_pools e now pf b3 = spend_pools (u + v) (wallet_pools e now pf b)"
    "wb_carryover_credits b3 = wb_carryover_credits b
       - min (live_carryover (wb_carryover_credits b) e now) (u + v)"
    using consume_refines [of b "u + v" e now pf] assms by fastforce
  have p: "wallet_pools e now pf b2 = wallet_pools e now pf b3"
    using b1(3) b2(2) b3(2) spend_pools_add [OF wallet_pools_nonneg [OF assms(1)] assms(2,3)]
    by metis
  have "live_carryover (wb_carryover_credits b1) e now
      = live_carryover (wb_carryover_credits b) e now
        - min (live_carryover (wb_carryover_credits b) e now) u"
    using b1(3) by (simp add: wallet_pools_def)
  then have "wb_carryover_credits b2 = wb_carryover_credits b3"
    using b1(4) b2(3) b3(3) assms(2,3) min_min_spent [OF assms(3), of "live_carryover (wb_carryover_credits b) e now" u]
    by linarith
  with p have "b2 = b3" by (rule wallet_determined)
  with b1(1) b2(1) b3(1) show ?thesis by simp
qed

subsection \<open>Properties\<close>

text \<open>The pools a charge may draw on, as the documentation states them: a carryover whose expiry has
  come, the instant itself included, counts for nothing, and one without an expiry does not expire.\<close>

definition expired :: "'t::linorder option \<Rightarrow> 't \<Rightarrow> bool" where
  "expired e now = (case e of None \<Rightarrow> False | Some x \<Rightarrow> x \<le> now)"

definition spendable_pools :: "'t::linorder option \<Rightarrow> 't \<Rightarrow> bool \<Rightarrow> wallet_balances \<Rightarrow> int list" where
  "spendable_pools e now pf b = (if expired e now then 0 else wb_carryover_credits b)
     # (if pf then [wb_purchased_credits b, wb_plan_remaining b]
        else [wb_plan_remaining b, wb_purchased_credits b])"

lemma spendable_pools: "wallet_ok b \<Longrightarrow> wallet_pools e now pf b = spendable_pools e now pf b"
  by (auto simp: wallet_pools_def spendable_pools_def expired_def live_carryover_def wallet_ok_def split: option.splits)

lemma expired_untouched: "expired e now \<Longrightarrow> live_carryover c e now = 0"
  by (auto simp: expired_def live_carryover_def split: option.splits)

text \<open>C38: spending from a well-formed wallet refines draining the list of spendable pools (the
  carryover unless it has expired, then plan and purchased in the chosen order): it never raises, keeps
  every balance non-negative, drains the pools in that order, lowers the available total, which is the sum
  of those pools, by the units down to zero, and leaves an expired carryover as it is.\<close>

theorem consume_from_wallet_refines:
  assumes "wallet_ok b" "0 \<le> u"
  shows "\<exists>b'. consume_from_wallet b u e now pf = Inr b' \<and> wallet_ok b'
     \<and> spendable_pools e now pf b' = spend_pools u (spendable_pools e now pf b)
     \<and> available_total b e now = sum_list (spendable_pools e now pf b)
     \<and> available_total b' e now = max 0 (available_total b e now - u)
     \<and> (expired e now \<longrightarrow> wb_carryover_credits b' = wb_carryover_credits b)"
proof -
  obtain b' where b': "consume_from_wallet b u e now pf = Inr b'" "wallet_ok b'"
    "wallet_pools e now pf b' = spend_pools u (wallet_pools e now pf b)"
    "wb_carryover_credits b' = wb_carryover_credits b - min (live_carryover (wb_carryover_credits b) e now) u"
    using consume_refines [OF assms, of e now pf] by blast
  have "available_total b' e now = max 0 (available_total b e now - u)"
    using wallet_spend_total [OF assms, of e now pf] b'(1) by auto
  moreover have "expired e now \<Longrightarrow> wb_carryover_credits b' = wb_carryover_credits b"
    using b'(4) assms(2) by (simp add: expired_untouched)
  ultimately show ?thesis
    using b' available_pools [of b e now pf] by (auto simp: spendable_pools assms(1))
qed

theorem consume_from_wallet_refines_witness:
  "\<exists>b'. consume_from_wallet \<lparr>wb_plan_remaining = 5, wb_carryover_credits = 3,
            wb_purchased_credits = 10\<rparr> 12 (Some (7::int)) 7 True = Inr b'
     \<and> spendable_pools (Some (7::int)) 7 True b' = [0, 0, 3] \<and> wb_carryover_credits b' = 3"
proof -
  let ?w = "\<lparr>wb_plan_remaining = 5, wb_carryover_credits = 3, wb_purchased_credits = 10\<rparr>"
  have w: "wallet_ok ?w" "(0::int) \<le> 12" by (simp_all add: wallet_ok_def)
  have p: "spend_pools 12 (spendable_pools (Some (7::int)) 7 True ?w) = [0, 0, 3]"
    by (simp add: spendable_pools_def expired_def)
  have "expired (Some (7::int)) 7" by (simp add: expired_def)
  with consume_from_wallet_refines [OF w, of "Some (7::int)" 7 True] show ?thesis
    unfolding p by auto
qed

text \<open>two charges on a wallet are one charge of their sum, to the last balance: splitting a
  charge, or retrying its second half, cannot create or destroy credits.\<close>

theorem consume_from_wallet_additive:
  assumes "wallet_ok b" "0 \<le> u" "0 \<le> v"
  shows "rbind (consume_from_wallet b u e now pf) (\<lambda>b'. consume_from_wallet b' v e now pf)
    = consume_from_wallet b (u + v) e now pf"
  by (rule consume_twice [OF assms])

theorem consume_from_wallet_additive_witness:
  "rbind (consume_from_wallet \<lparr>wb_plan_remaining = 5, wb_carryover_credits = 3,
      wb_purchased_credits = 10\<rparr> 4 (None :: int option) 6 False)
     (\<lambda>b'. consume_from_wallet b' 5 (None :: int option) 6 False)
   = Inr \<lparr>wb_plan_remaining = 0, wb_carryover_credits = 0, wb_purchased_credits = 9\<rparr>"
  using consume_from_wallet_additive [of "\<lparr>wb_plan_remaining = 5, wb_carryover_credits = 3,
      wb_purchased_credits = 10\<rparr>" 4 5 "None :: int option" 6 False]
  by (simp add: wallet_ok_def consume_from_wallet_def live_carryover_def mk_wallet_def Let_def)

text \<open>no history of storage calls, allowed or refused, takes a subscription over its tier's
  quota or below zero.\<close>

theorem storage_quota_invariant:
  assumes "subscription_ok s"
  shows "subscription_ok (foldl storage_step s ops)"
  by (rule storage_history_ok [OF assms])

theorem storage_quota_invariant_witness:
  "subscription_ok (foldl storage_step \<lparr>sub_tier = Tier_GUEST, sub_used_storage_bytes = 0\<rparr>
     [Alloc (50 * MB), Alloc 1, Release 10, Release (- 1)])"
  by (rule storage_quota_invariant)
     (simp add: subscription_ok_def sub_storage_quota_bytes_def MB_def)

text \<open>an accepted upload fits. When the quota decision is built and allows a non-empty upload,
  the usage after it is within the limit; when usage is within the limit, a refusal means that it
  would not have been. The boundary itself is allowed.\<close>

theorem quota_decision_exact:
  assumes "evaluate_storage_quota limit used sz = Inr d" "0 < py_trunc sz"
  shows "quota_allowed d \<longleftrightarrow> py_trunc used + py_trunc sz \<le> py_trunc limit"
  using quota_allowed_iff [OF assms(1)] assms(2) by auto

theorem quota_decision_exact_witness:
  "quota_allowed \<lparr>qd_limit_bytes = 100, qd_used_bytes = 60, qd_file_size = 40\<rparr>"
  using quota_decision_exact [of 100 60 40 "\<lparr>qd_limit_bytes = 100, qd_used_bytes = 60, qd_file_size = 40\<rparr>"]
  by (simp add: evaluate_storage_quota_def py_trunc_def)

end
