(* ===== verification/Conversion_Job.thy ===== *)
theory Conversion_Job
  imports Subscriptions
begin

section \<open>The conversion job\<close>

text \<open>
  Models \<open>src/domain/conversions\<close>: the \<open>ConversionJob\<close> entity with its state-changing methods,
  \<open>JobOrigin\<close> and its lenient parser, the ownership predicate, the supported-conversion guard and
  the credit calculator. The settings the calculator reads are a record argument; its float
  arithmetic is exact rational arithmetic followed by a rounding function \<open>fl\<close> after every
  operation, with the operands in the range where IEEE doubles do not overflow.
\<close>

subsection \<open>Status and origin\<close>

datatype job_status =
  Job_AWAITING_UPLOAD | Job_PENDING | Job_PROCESSING | Job_COMPLETED | Job_FAILED

fun job_status_value :: "job_status \<Rightarrow> string" where
  "job_status_value Job_AWAITING_UPLOAD = ''AWAITING_UPLOAD''"
| "job_status_value Job_PENDING = ''PENDING''"
| "job_status_value Job_PROCESSING = ''PROCESSING''"
| "job_status_value Job_COMPLETED = ''COMPLETED''"
| "job_status_value Job_FAILED = ''FAILED''"

definition job_status_of_value :: "string \<Rightarrow> job_status result" where
  "job_status_of_value s =
     (case find (\<lambda>t. job_status_value t = s)
        [Job_AWAITING_UPLOAD, Job_PENDING, Job_PROCESSING, Job_COMPLETED, Job_FAILED] of
        Some t \<Rightarrow> Inr t
      | None \<Rightarrow> Inl (ValueError (s @ '' is not a valid JobStatus'')))"

datatype job_origin = Origin_WEB | Origin_API | Origin_MCP | Origin_GUEST

fun job_origin_value :: "job_origin \<Rightarrow> string" where
  "job_origin_value Origin_WEB = ''WEB''"
| "job_origin_value Origin_API = ''API''"
| "job_origin_value Origin_MCP = ''MCP''"
| "job_origin_value Origin_GUEST = ''GUEST''"

definition all_origins :: "job_origin list" where
  "all_origins = [Origin_WEB, Origin_API, Origin_MCP, Origin_GUEST]"

text \<open>The values that reach \<open>coerce_job_origin\<close>: a member, a string, or anything else (\<open>None\<close>).\<close>

datatype origin_arg = Arg_origin job_origin | Arg_str string | Arg_other

definition coerce_job_origin :: "origin_arg \<Rightarrow> job_origin" where
  "coerce_job_origin v = (case v of
       Arg_origin o' \<Rightarrow> o'
     | Arg_str s \<Rightarrow> (case find (\<lambda>o'. job_origin_value o' = py_upper (py_strip s)) all_origins of
           Some o' \<Rightarrow> o' | None \<Rightarrow> Origin_WEB)
     | Arg_other \<Rightarrow> Origin_WEB)"

lemma job_status_roundtrip: "job_status_of_value (job_status_value s) = Inr s"
  by (cases s) (simp_all add: job_status_of_value_def)

lemma job_status_value_inj: "job_status_value s = job_status_value t \<Longrightarrow> s = t"
  by (metis job_status_roundtrip sum.inject(2))

lemma coerce_origin_value: "coerce_job_origin (Arg_str (job_origin_value r)) = r"
  by (cases r) (simp_all add: coerce_job_origin_def all_origins_def py_strip_def py_upper_def
      upper_char_def is_space_def)

subsection \<open>The entity\<close>

record conversion_type =
  ct_source_format :: string
  ct_target_format :: string

record conversion_job =
  job_id :: string
  job_conversion :: conversion_type
  job_input_file :: string
  job_output_file :: "string option"
  job_object_key :: string
  job_status :: job_status
  job_error_message :: "string option"
  job_compute_duration_ms :: int
  job_credits_used :: int
  job_user_id :: "int option"
  job_data_key_wrapped :: "string option"
  job_client_encrypted :: bool
  job_created_at :: "int option"
  job_input_size_bytes :: int
  job_output_size_bytes :: int
  job_origin :: job_origin
  job_progress :: int
  job_batch_id :: "string option"
  job_workflow_id :: "string option"

text \<open>The constructor with the defaults of the dataclass.\<close>

definition new_job :: "string \<Rightarrow> conversion_type \<Rightarrow> string \<Rightarrow> conversion_job" where
  "new_job i c f = \<lparr>job_id = i, job_conversion = c, job_input_file = f, job_output_file = None,
     job_object_key = [], job_status = Job_AWAITING_UPLOAD, job_error_message = None,
     job_compute_duration_ms = 0, job_credits_used = 0, job_user_id = None,
     job_data_key_wrapped = None, job_client_encrypted = False, job_created_at = None,
     job_input_size_bytes = 0, job_output_size_bytes = 0, job_origin = Origin_WEB,
     job_progress = 0, job_batch_id = None, job_workflow_id = None\<rparr>"

definition pending_processing :: "conversion_job \<Rightarrow> conversion_job result" where
  "pending_processing j =
     (if job_status j \<noteq> Job_AWAITING_UPLOAD
      then Inl (InvalidStateTransition (''Cannot transition to pending processing from status ''
                 @ job_status_value (job_status j)))
      else Inr (j\<lparr>job_status := Job_PENDING\<rparr>))"

definition start_processing :: "conversion_job \<Rightarrow> conversion_job result" where
  "start_processing j =
     (if job_status j \<noteq> Job_PENDING
      then Inl (InvalidStateTransition (''Cannot start processing from status ''
                 @ job_status_value (job_status j)))
      else if job_object_key j = []
      then Inl (InvalidStateTransition ''Cannot start processing without an object_key set'')
      else Inr (j\<lparr>job_status := Job_PROCESSING\<rparr>))"

definition complete :: "string \<Rightarrow> conversion_job \<Rightarrow> conversion_job result" where
  "complete output_file j =
     (if job_status j \<noteq> Job_PROCESSING
      then Inl (InvalidStateTransition (''Cannot complete job from status ''
                 @ job_status_value (job_status j)))
      else Inr (j\<lparr>job_output_file := Some output_file, job_status := Job_COMPLETED\<rparr>))"

definition fail :: "string \<Rightarrow> conversion_job \<Rightarrow> conversion_job result" where
  "fail error_message j =
     (if job_status j \<notin> {Job_PENDING, Job_PROCESSING}
      then Inl (InvalidStateTransition (''Cannot fail job from status ''
                 @ job_status_value (job_status j)))
      else Inr (j\<lparr>job_error_message := Some error_message, job_status := Job_FAILED\<rparr>))"

definition retry :: "conversion_job \<Rightarrow> conversion_job result" where
  "retry j =
     (if job_status j \<noteq> Job_FAILED
      then Inl (InvalidStateTransition (''Cannot retry job from status ''
                 @ job_status_value (job_status j)))
      else if job_object_key j = []
      then Inl (InvalidStateTransition ''Cannot retry a job without an object_key set'')
      else Inr (j\<lparr>job_status := Job_PENDING, job_error_message := None, job_output_file := None,
                  job_compute_duration_ms := 0, job_credits_used := 0,
                  job_input_size_bytes := 0, job_output_size_bytes := 0\<rparr>))"

definition set_compute_result ::
    "int \<Rightarrow> int \<Rightarrow> int \<Rightarrow> int \<Rightarrow> conversion_job \<Rightarrow> conversion_job result" where
  "set_compute_result duration_ms credits input_size output_size j =
     (if duration_ms < 0 then Inl (ValueError ''compute_duration_ms cannot be negative'')
      else if credits < 0 then Inl (ValueError ''credits_used cannot be negative'')
      else if input_size < 0 then Inl (ValueError ''input_size_bytes cannot be negative'')
      else if output_size < 0 then Inl (ValueError ''output_size_bytes cannot be negative'')
      else Inr (j\<lparr>job_compute_duration_ms := duration_ms, job_credits_used := credits,
                  job_input_size_bytes := input_size, job_output_size_bytes := output_size\<rparr>))"

lemmas job_method_defs = pending_processing_def start_processing_def complete_def fail_def
  retry_def set_compute_result_def

subsection \<open>Histories of method calls\<close>

datatype job_call =
    Call_pending | Call_start | Call_complete string | Call_fail string | Call_retry
  | Call_set_result int int int int

fun job_apply :: "job_call \<Rightarrow> conversion_job \<Rightarrow> conversion_job result" where
  "job_apply Call_pending j = pending_processing j"
| "job_apply Call_start j = start_processing j"
| "job_apply (Call_complete f) j = complete f j"
| "job_apply (Call_fail m) j = fail m j"
| "job_apply Call_retry j = retry j"
| "job_apply (Call_set_result d c i q) j = set_compute_result d c i q j"

text \<open>One successful call; a call that raises leaves the job unchanged.\<close>

inductive job_step :: "conversion_job \<Rightarrow> conversion_job \<Rightarrow> bool" where
  step: "job_apply call j = Inr j' \<Longrightarrow> job_step j j'"

inductive_cases job_stepE: "job_step j j'"

fun job_edge :: "job_status \<Rightarrow> job_status \<Rightarrow> bool" where
  "job_edge Job_AWAITING_UPLOAD t = (t = Job_PENDING)"
| "job_edge Job_PENDING t = (t = Job_PROCESSING \<or> t = Job_FAILED)"
| "job_edge Job_PROCESSING t = (t = Job_COMPLETED \<or> t = Job_FAILED)"
| "job_edge Job_COMPLETED t = False"
| "job_edge Job_FAILED t = (t = Job_PENDING)"

text \<open>What a job that has only been changed by its methods satisfies.\<close>

definition job_inv :: "conversion_job \<Rightarrow> bool" where
  "job_inv j = ((job_status j = Job_COMPLETED \<longleftrightarrow> job_output_file j \<noteq> None)
     \<and> (job_status j = Job_FAILED \<longleftrightarrow> job_error_message j \<noteq> None)
     \<and> (job_status j \<in> {Job_PROCESSING, Job_COMPLETED} \<longrightarrow> job_object_key j \<noteq> [])
     \<and> 0 \<le> job_compute_duration_ms j \<and> 0 \<le> job_credits_used j
     \<and> 0 \<le> job_input_size_bytes j \<and> 0 \<le> job_output_size_bytes j)"

text \<open>The fields no method changes.\<close>

definition job_frame :: "conversion_job \<Rightarrow> conversion_job \<Rightarrow> bool" where
  "job_frame j j' = (job_id j' = job_id j \<and> job_conversion j' = job_conversion j
     \<and> job_input_file j' = job_input_file j \<and> job_object_key j' = job_object_key j
     \<and> job_user_id j' = job_user_id j \<and> job_data_key_wrapped j' = job_data_key_wrapped j
     \<and> job_client_encrypted j' = job_client_encrypted j \<and> job_created_at j' = job_created_at j
     \<and> job_origin j' = job_origin j \<and> job_progress j' = job_progress j
     \<and> job_batch_id j' = job_batch_id j \<and> job_workflow_id j' = job_workflow_id j)"

lemma job_inv_new: "job_inv ((new_job i c f)\<lparr>job_object_key := k, job_user_id := u, job_origin := r\<rparr>)"
  by (simp add: job_inv_def new_job_def)

lemma job_apply_edge:
  "job_apply call j = Inr j' \<Longrightarrow> job_status j' = job_status j \<or> job_edge (job_status j) (job_status j')"
  by (cases call) (auto simp: job_method_defs split: if_splits)

lemma job_apply_inv: "job_inv j \<Longrightarrow> job_apply call j = Inr j' \<Longrightarrow> job_inv j'"
  by (cases call; clarsimp simp: job_method_defs job_inv_def split: if_splits) (elim disjE; simp)

lemma job_apply_frame: "job_apply call j = Inr j' \<Longrightarrow> job_frame j j'"
  by (cases call) (auto simp: job_method_defs job_frame_def split: if_splits)

lemma job_frame_trans: "job_frame a b \<Longrightarrow> job_frame b c \<Longrightarrow> job_frame a c"
  by (simp add: job_frame_def)

lemma job_steps_inv: "job_step\<^sup>*\<^sup>* j j' \<Longrightarrow> job_inv j \<Longrightarrow>
  job_inv j' \<and> job_frame j j' \<and> job_edge\<^sup>*\<^sup>* (job_status j) (job_status j')"
proof (induction rule: rtranclp_induct)
  case base
  then show ?case by (simp add: job_frame_def)
next
  case (step y z)
  from step.hyps(2) obtain call where c: "job_apply call y = Inr z" by (auto elim: job_stepE)
  from step show ?case
    using job_apply_inv [OF _ c] job_apply_frame [OF c] job_apply_edge [OF c] job_frame_trans
    by (metis rtranclp.rtrancl_into_rtrancl)
qed

text \<open>\<open>COMPLETED\<close> is final: from there only the recorded measurements can change.\<close>

lemma completed_final_step:
  "job_apply call j = Inr j' \<Longrightarrow> job_status j = Job_COMPLETED \<Longrightarrow>
   job_status j' = Job_COMPLETED \<and> job_output_file j' = job_output_file j"
  by (cases call) (auto simp: job_method_defs split: if_splits)

lemma completed_final:
  "job_step\<^sup>*\<^sup>* j j' \<Longrightarrow> job_status j = Job_COMPLETED \<Longrightarrow>
   job_status j' = Job_COMPLETED \<and> job_output_file j' = job_output_file j"
  by (induction rule: rtranclp_induct) (auto elim!: job_stepE dest: completed_final_step)

lemma retry_Inr: "retry j = Inr j' \<Longrightarrow> job_status j = Job_FAILED \<and> job_status j' = Job_PENDING
    \<and> job_error_message j' = None \<and> job_output_file j' = None \<and> job_object_key j' = job_object_key j
    \<and> job_object_key j' \<noteq> [] \<and> job_progress j' = job_progress j"
  by (auto simp: retry_def split: if_splits)

subsection \<open>Ownership and support\<close>

definition is_job_owner :: "conversion_job option \<Rightarrow> int option \<Rightarrow> bool" where
  "is_job_owner job user_id = (case job of
       None \<Rightarrow> False
     | Some j \<Rightarrow> if job_user_id j = None \<or> user_id = None then False else job_user_id j = user_id)"

text \<open>The message shows the dataclass; formats without quotes or backslashes, as the catalogue
  has them.\<close>

definition is_supported :: "conversion_type \<Rightarrow> conversion_type set \<Rightarrow> unit result" where
  "is_supported ct supported =
     (if ct \<notin> supported
      then Inl (InvalidConversion (''Conversion type ConversionType(source_format='' @ [CHR 0x27]
             @ ct_source_format ct @ [CHR 0x27] @ '', target_format='' @ [CHR 0x27]
             @ ct_target_format ct @ [CHR 0x27] @ '') is not supported''))
      else Inr ())"

lemma is_job_owner_iff:
  "is_job_owner job uid \<longleftrightarrow> (\<exists>j u. job = Some j \<and> uid = Some u \<and> job_user_id j = Some u)"
  by (auto simp: is_job_owner_def split: option.splits)

subsection \<open>Credit calculator\<close>

datatype multiplier_setting =
  Mult_DOCUMENT | Mult_AUDIO | Mult_VIDEO | Mult_IMAGE | Mult_EBOOK | Mult_ARCHIVE

record credit_settings =
  cs_base_rate_per_second :: rat
  cs_multiplier :: "multiplier_setting \<Rightarrow> rat"
  cs_discount_guest :: rat
  cs_discount_free :: rat
  cs_discount_pro :: rat
  cs_discount_pro_plus :: rat
  cs_discount_enterprise :: rat

definition format_category_map :: "(string \<times> multiplier_setting) list" where
  "format_category_map =
     map (\<lambda>f. (f, Mult_DOCUMENT))
       [''pdf'', ''docx'', ''doc'', ''odt'', ''html'', ''txt'', ''rtf'', ''xlsx'', ''csv''] @
     map (\<lambda>f. (f, Mult_AUDIO)) [''mp3'', ''wav'', ''flac'', ''ogg'', ''m4a'', ''aac''] @
     map (\<lambda>f. (f, Mult_VIDEO)) [''mp4'', ''avi'', ''mov'', ''mkv'', ''webm'', ''gif''] @
     map (\<lambda>f. (f, Mult_IMAGE)) [''jpeg'', ''jpg'', ''png'', ''webp'', ''svg'', ''bmp''] @
     map (\<lambda>f. (f, Mult_EBOOK)) [''epub'', ''mobi'', ''azw3''] @
     map (\<lambda>f. (f, Mult_ARCHIVE)) [''zip'', ''tar'', ''rar'']"

definition get_format_multiplier :: "credit_settings \<Rightarrow> string \<Rightarrow> string \<Rightarrow> rat" where
  "get_format_multiplier settings source_format target_format =
     (let source_cat = map_of format_category_map (py_lower source_format);
          target_cat = map_of format_category_map (py_lower target_format)
      in fold (\<lambda>cat multiplier. case cat of
             None \<Rightarrow> multiplier
           | Some c \<Rightarrow> max multiplier (cs_multiplier settings c)) [source_cat, target_cat] 1)"

fun get_tier_discount :: "credit_settings \<Rightarrow> subscription_tier \<Rightarrow> rat" where
  "get_tier_discount s Tier_GUEST = cs_discount_guest s"
| "get_tier_discount s Tier_FREE = cs_discount_free s"
| "get_tier_discount s Tier_PREMIUM = cs_discount_pro s"
| "get_tier_discount s Tier_PRO = cs_discount_pro s"
| "get_tier_discount s Tier_PRO_PLUS = cs_discount_pro_plus s"
| "get_tier_discount s Tier_ENTERPRISE = cs_discount_enterprise s"

definition calculate_credits :: "(rat \<Rightarrow> rat) \<Rightarrow> credit_settings \<Rightarrow> int \<Rightarrow> string \<Rightarrow> string \<Rightarrow>
    subscription_tier \<Rightarrow> rat option \<Rightarrow> int" where
  "calculate_credits fl settings compute_duration_ms source_format target_format tier base_rate =
     (let rate = (case base_rate of None \<Rightarrow> cs_base_rate_per_second settings | Some r \<Rightarrow> r);
          compute_seconds = fl (of_int compute_duration_ms / 1000);
          multiplier = get_format_multiplier settings source_format target_format;
          discount = get_tier_discount settings tier;
          raw = fl (fl (compute_seconds * rate) * multiplier);
          discounted = fl (raw * discount)
      in max 1 \<lceil>discounted\<rceil>)"

text \<open>The shipped defaults.\<close>

definition default_credit_settings :: credit_settings where
  "default_credit_settings = \<lparr>cs_base_rate_per_second = 1 / 2,
     cs_multiplier = (\<lambda>m. case m of Mult_DOCUMENT \<Rightarrow> 1 | Mult_AUDIO \<Rightarrow> 6 / 5 | Mult_VIDEO \<Rightarrow> 2
        | Mult_IMAGE \<Rightarrow> 4 / 5 | Mult_EBOOK \<Rightarrow> 3 / 2 | Mult_ARCHIVE \<Rightarrow> 3 / 5),
     cs_discount_guest = 1, cs_discount_free = 1, cs_discount_pro = 4 / 5,
     cs_discount_pro_plus = 3 / 5, cs_discount_enterprise = 1 / 2\<rparr>"

definition settings_ok :: "credit_settings \<Rightarrow> bool" where
  "settings_ok s = (0 \<le> cs_base_rate_per_second s \<and> (\<forall>t. 0 \<le> get_tier_discount s t))"

lemma format_multiplier_ge_1: "1 \<le> get_format_multiplier s a b"
  by (auto simp: get_format_multiplier_def Let_def split: option.splits)

lemma format_multiplier_sym: "get_format_multiplier s a b = get_format_multiplier s b a"
  by (auto simp: get_format_multiplier_def Let_def max.commute max.left_commute split: option.splits)

lemma calculate_credits_ge_1: "1 \<le> calculate_credits fl s ms a b t r"
  by (simp add: calculate_credits_def Let_def)

lemma calculate_credits_mono:
  assumes fl: "mono fl" and s: "settings_ok s" and le: "m \<le> n"
  shows "calculate_credits fl s m a b t None \<le> calculate_credits fl s n a b t None"
proof -
  have step: "x \<le> y \<Longrightarrow> 0 \<le> k \<Longrightarrow> fl (x * k) \<le> fl (y * k)" for x y k
    by (rule monoD [OF fl]) (rule mult_right_mono)
  have nn: "0 \<le> cs_base_rate_per_second s" "0 \<le> get_format_multiplier s a b"
    "0 \<le> get_tier_discount s t"
    using s format_multiplier_ge_1 [of s a b] by (simp_all add: settings_ok_def)
  have "fl (of_int m / 1000) \<le> fl (of_int n / 1000)"
    using le by (intro monoD [OF fl]) (simp add: divide_right_mono)
  note step [OF step [OF step [OF this nn(1)] nn(2)] nn(3)]
  then show ?thesis
    unfolding calculate_credits_def Let_def option.case
    by (intro max.mono ceiling_mono) auto
qed

subsection \<open>Properties\<close>

text \<open>The documented lifecycle: which method is allowed in which status, and where it leads.\<close>

fun lifecycle :: "job_call \<Rightarrow> job_status \<Rightarrow> job_status option" where
  "lifecycle Call_pending Job_AWAITING_UPLOAD = Some Job_PENDING"
| "lifecycle Call_start Job_PENDING = Some Job_PROCESSING"
| "lifecycle (Call_complete f) Job_PROCESSING = Some Job_COMPLETED"
| "lifecycle (Call_fail m) Job_PENDING = Some Job_FAILED"
| "lifecycle (Call_fail m) Job_PROCESSING = Some Job_FAILED"
| "lifecycle Call_retry Job_FAILED = Some Job_PENDING"
| "lifecycle (Call_set_result d c i q) st = Some st"
| "lifecycle call st = None"

text \<open>The other reasons a method has to raise: no object key to work on, a negative measurement.\<close>

fun call_unmet :: "job_call \<Rightarrow> conversion_job \<Rightarrow> bool" where
  "call_unmet Call_start j = (job_object_key j = [])"
| "call_unmet Call_retry j = (job_object_key j = [])"
| "call_unmet (Call_set_result d c i q) j = (d < 0 \<or> c < 0 \<or> i < 0 \<or> q < 0)"
| "call_unmet call j = False"

lemma job_apply_lifecycle:
  "case job_apply call j of Inl e \<Rightarrow> lifecycle call (job_status j) = None \<or> call_unmet call j
   | Inr j' \<Rightarrow> lifecycle call (job_status j) = Some (job_status j') \<and> \<not> call_unmet call j"
  by (cases call; cases "job_status j") (auto simp: job_method_defs)

text \<open>C39: whatever methods are called on a fresh job, in any order and with any arguments, it has an
  output file exactly when it is \<open>COMPLETED\<close>, an error message exactly when it is \<open>FAILED\<close>, an
  object key once it is being processed, and non-negative measurements; its identity, owner,
  origin and progress have not changed; and each method, called next, moves the status along the edge
  the lifecycle documents for it, and raises exactly when there is none from the present status, when
  there is no object key to work on or when a measurement is negative.\<close>

theorem job_lifecycle_invariant:
  assumes "job_step\<^sup>*\<^sup>* ((new_job i c f)\<lparr>job_object_key := k, job_user_id := u, job_origin := r\<rparr>) j"
  shows "job_inv j \<and> job_frame ((new_job i c f)\<lparr>job_object_key := k, job_user_id := u, job_origin := r\<rparr>) j
    \<and> (\<forall>call. case job_apply call j of
           Inl e \<Rightarrow> lifecycle call (job_status j) = None \<or> call_unmet call j
         | Inr j' \<Rightarrow> lifecycle call (job_status j) = Some (job_status j') \<and> \<not> call_unmet call j)"
  using job_steps_inv [OF assms job_inv_new] job_apply_lifecycle by blast

theorem job_lifecycle_invariant_witness:
  "let j = (new_job ''j'' \<lparr>ct_source_format = ''pdf'', ct_target_format = ''txt''\<rparr> ''a.pdf'')
             \<lparr>job_object_key := ''k'', job_user_id := Some 1, job_origin := Origin_API\<rparr>
   in job_inv (j\<lparr>job_status := Job_PROCESSING\<rparr>) \<and> isl (start_processing j) \<and> isl (fail ''x'' j)"
proof -
  let ?j = "(new_job ''j'' \<lparr>ct_source_format = ''pdf'', ct_target_format = ''txt''\<rparr> ''a.pdf'')
             \<lparr>job_object_key := ''k'', job_user_id := Some 1, job_origin := Origin_API\<rparr>"
  have "job_step ?j (?j\<lparr>job_status := Job_PENDING\<rparr>)"
    by (rule job_step.intros [of Call_pending]) (simp add: pending_processing_def new_job_def)
  moreover have "job_step (?j\<lparr>job_status := Job_PENDING\<rparr>) (?j\<lparr>job_status := Job_PROCESSING\<rparr>)"
    by (rule job_step.intros [of Call_start]) (simp add: start_processing_def)
  ultimately have "job_step\<^sup>*\<^sup>* ?j (?j\<lparr>job_status := Job_PROCESSING\<rparr>)" by simp
  then have p: "job_inv (?j\<lparr>job_status := Job_PROCESSING\<rparr>)" using job_lifecycle_invariant by blast
  have awaiting: "job_status ?j = Job_AWAITING_UPLOAD" by (simp add: new_job_def)
  have next_call: "case job_apply call ?j of Inl e \<Rightarrow> lifecycle call (job_status ?j) = None \<or> call_unmet call ?j
      | Inr j' \<Rightarrow> lifecycle call (job_status ?j) = Some (job_status j') \<and> \<not> call_unmet call ?j" for call
    using job_lifecycle_invariant [OF rtranclp.rtrancl_refl] by blast
  have "isl (job_apply Call_start ?j)" "isl (job_apply (Call_fail ''x'') ?j)"
    using next_call [of Call_start] next_call [of "Call_fail ''x''"] unfolding awaiting by (simp_all split: sum.splits)
  with p show ?thesis by simp
qed

text \<open>\<open>COMPLETED\<close> is final: no sequence of method calls changes the status or the output file of
  a completed job.\<close>

theorem completed_job_final:
  assumes "job_status j = Job_COMPLETED" "job_step\<^sup>*\<^sup>* j j'"
  shows "job_status j' = Job_COMPLETED \<and> job_output_file j' = job_output_file j"
  by (rule completed_final [OF assms(2,1)])

theorem completed_job_final_witness:
  "let j = (new_job ''j'' \<lparr>ct_source_format = ''pdf'', ct_target_format = ''txt''\<rparr> ''a.pdf'')
             \<lparr>job_status := Job_COMPLETED, job_output_file := Some ''o''\<rparr>
   in job_output_file (j\<lparr>job_compute_duration_ms := 9, job_credits_used := 2\<rparr>) = Some ''o''"
proof -
  let ?j = "(new_job ''j'' \<lparr>ct_source_format = ''pdf'', ct_target_format = ''txt''\<rparr> ''a.pdf'')
             \<lparr>job_status := Job_COMPLETED, job_output_file := Some ''o''\<rparr>"
  have "job_step ?j (?j\<lparr>job_compute_duration_ms := 9, job_credits_used := 2\<rparr>)"
    by (rule job_step.intros [of "Call_set_result 9 2 0 0"])
       (simp add: set_compute_result_def new_job_def)
  then show ?thesis using completed_job_final [of ?j] by simp
qed

text \<open>a job is charged at least one credit, and more compute time never costs less, for every
  monotone rounding of the float arithmetic and every non-negative rate table.\<close>

theorem credits_monotone:
  assumes "mono fl" "settings_ok s" "m \<le> n"
  shows "1 \<le> calculate_credits fl s m a b t None
    \<and> calculate_credits fl s m a b t None \<le> calculate_credits fl s n a b t None"
  using calculate_credits_ge_1 calculate_credits_mono [OF assms] by blast

theorem credits_monotone_witness:
  "1 \<le> calculate_credits (\<lambda>x. x) default_credit_settings 100 ''pdf'' ''mp4'' Tier_PRO None
   \<and> calculate_credits (\<lambda>x. x) default_credit_settings 100 ''pdf'' ''mp4'' Tier_PRO None
     \<le> calculate_credits (\<lambda>x. x) default_credit_settings 90000 ''pdf'' ''mp4'' Tier_PRO None"
proof (rule credits_monotone)
  show "mono (\<lambda>x :: rat. x)" by (simp add: monoI)
  have "0 \<le> get_tier_discount default_credit_settings t" for t
    by (cases t) (simp_all add: default_credit_settings_def)
  then show "settings_ok default_credit_settings"
    by (simp add: settings_ok_def default_credit_settings_def)
qed simp

text \<open>a category multiplier below one never lowers a price: with the shipped settings an image
  to image conversion costs what the same time on an unknown format costs, although the image
  category is configured at 0.8.\<close>

theorem cheap_multipliers_ignored:
  "get_format_multiplier default_credit_settings ''png'' ''webp'' = 1
   \<and> cs_multiplier default_credit_settings Mult_IMAGE < 1
   \<and> map_of format_category_map ''png'' = Some Mult_IMAGE
   \<and> map_of format_category_map ''webp'' = Some Mult_IMAGE"
  by (simp add: get_format_multiplier_def format_category_map_def default_credit_settings_def
      py_lower_def lower_char_def)

end
