(* ===== verification/Credit_Ledger.thy ===== *)
theory Credit_Ledger
  imports Conversion_Job
begin

section \<open>The credit ledger\<close>

text \<open>
  Models the tables \<open>monthly_credits\<close>, \<open>user_subscriptions\<close> and \<open>credit_transactions\<close> with their
  unique constraints, \<open>SQLCreditRepository\<close>, \<open>SQLSubscriptionRepository\<close>, the read-side
  \<open>CreditService\<close> and the worker's \<open>WorkerCreditRepository\<close>. The wall clock is an argument. A
  write path is one database transaction: it reads, stages column changes on the rows the session
  has loaded, and commits them; what other transactions commit in between is an argument
  (\<open>tx_env\<close>), and so is the fate of the commit itself. As in the ORM, a staged attribute whose
  value equals the loaded one is not written.
\<close>

subsection \<open>Tables\<close>

record monthly_credit_row =
  mc_owner_id :: string
  mc_period_key :: string
  mc_allowance :: int
  mc_remaining :: int
  mc_created_at :: civil
  mc_updated_at :: civil

record sub_row =
  sr_actor_key :: string
  sr_user_id :: "int option"
  sr_tier :: subscription_tier
  sr_used_storage_bytes :: int
  sr_stripe_customer_id :: "string option"
  sr_stripe_subscription_id :: "string option"
  sr_purchased_credits :: int
  sr_carryover_credits :: int
  sr_carryover_expires_at :: "datetime option"
  sr_purchased_credits_first :: bool
  sr_created_at :: civil
  sr_updated_at :: civil

record txn_row =
  tx_id :: string
  tx_user_id :: int
  tx_amount :: int
  tx_type :: string
  tx_reference_id :: "string option"
  tx_description :: "string option"
  tx_created_at :: civil

record ledger =
  lg_credits :: "monthly_credit_row list"
  lg_subs :: "sub_row list"
  lg_txns :: "txn_row list"

definition mc_key :: "monthly_credit_row \<Rightarrow> string \<times> string" where
  "mc_key r = (mc_owner_id r, mc_period_key r)"

text \<open>\<open>UNIQUE\<close> columns that may be \<open>NULL\<close>: several \<open>NULL\<close>s do not clash.\<close>

definition unique_nullable :: "('r \<Rightarrow> 'k option) \<Rightarrow> 'r list \<Rightarrow> bool" where
  "unique_nullable key t = distinct (filter (\<lambda>k. k \<noteq> None) (map key t))"

definition ledger_ok :: "ledger \<Rightarrow> bool" where
  "ledger_ok db = (unique_key mc_key (lg_credits db)
     \<and> unique_key sr_actor_key (lg_subs db) \<and> unique_nullable sr_user_id (lg_subs db)
     \<and> unique_key tx_id (lg_txns db) \<and> unique_nullable tx_reference_id (lg_txns db)
     \<and> (\<forall>r \<in> set (lg_credits db). 0 \<le> mc_remaining r \<and> mc_remaining r \<le> mc_allowance r)
     \<and> (\<forall>r \<in> set (lg_subs db). 0 \<le> sr_purchased_credits r \<and> 0 \<le> sr_carryover_credits r))"

subsection \<open>SQLCreditRepository\<close>

definition find_bucket :: "string \<Rightarrow> string \<Rightarrow> ledger \<Rightarrow> monthly_credit_row option result" where
  "find_bucket owner_id period_key db = scalar_one_or_none
     (sql_select (\<lambda>r. mc_key r = (owner_id, period_key)) (lg_credits db))"

definition credit_of_row :: "monthly_credit_row \<Rightarrow> credit result" where
  "credit_of_row r = credit_post_init \<lparr>cr_owner_id = mc_owner_id r, cr_period_key = mc_period_key r,
     cr_allowance = mc_allowance r, cr_remaining = mc_remaining r\<rparr>"

definition get_credit :: "string \<Rightarrow> string \<Rightarrow> ledger \<Rightarrow> credit option result" where
  "get_credit owner_id period_key db =
     rbind (find_bucket owner_id period_key db) (\<lambda>row. case row of
         None \<Rightarrow> Inr None
       | Some r \<Rightarrow> rbind (credit_of_row r) (\<lambda>c. Inr (Some c)))"

text \<open>A staged attribute of a loaded row.\<close>

definition staged :: "'v \<Rightarrow> 'v \<Rightarrow> 'v \<Rightarrow> 'v" where
  "staged loaded new current = (if new = loaded then current else new)"

text \<open>\<open>save_credit\<close> up to the commit: an insert, or an update of the row the session holds.\<close>

datatype bucket_write =
    Bucket_insert monthly_credit_row
  | Bucket_update monthly_credit_row credit civil

definition stage_credit ::
    "civil \<Rightarrow> monthly_credit_row option \<Rightarrow> credit \<Rightarrow> ledger \<Rightarrow> bucket_write result" where
  "stage_credit now loaded c db =
     rbind (find_bucket (cr_owner_id c) (cr_period_key c) db) (\<lambda>row. case row of
         None \<Rightarrow> Inr (Bucket_insert \<lparr>mc_owner_id = cr_owner_id c, mc_period_key = cr_period_key c,
                   mc_allowance = cr_allowance c, mc_remaining = cr_remaining c,
                   mc_created_at = now, mc_updated_at = now\<rparr>)
       | Some r \<Rightarrow> Inr (Bucket_update (case loaded of Some l \<Rightarrow> l | None \<Rightarrow> r) c now))"

fun flush_bucket :: "bucket_write \<Rightarrow> ledger \<Rightarrow> ledger result" where
  "flush_bucket (Bucket_insert r) db =
     (if mc_key r \<in> mc_key ` set (lg_credits db) then Inl IntegrityError
      else Inr (db\<lparr>lg_credits := lg_credits db @ [r]\<rparr>))"
| "flush_bucket (Bucket_update l c now) db =
     Inr (db\<lparr>lg_credits := sql_update (\<lambda>r. mc_key r = mc_key l)
        (\<lambda>r. r\<lparr>mc_allowance := staged (mc_allowance l) (cr_allowance c) (mc_allowance r),
               mc_remaining := staged (mc_remaining l) (cr_remaining c) (mc_remaining r),
               mc_updated_at := now\<rparr>) (lg_credits db)\<rparr>)"

definition save_credit :: "civil \<Rightarrow> credit \<Rightarrow> ledger \<Rightarrow> ledger result" where
  "save_credit now c db = rbind (stage_credit now None c db) (\<lambda>w. flush_bucket w db)"

definition insert_txn :: "txn_row \<Rightarrow> ledger \<Rightarrow> ledger result" where
  "insert_txn t db =
     (if tx_id t \<in> tx_id ` set (lg_txns db)
         \<or> (tx_reference_id t \<noteq> None \<and> tx_reference_id t \<in> tx_reference_id ` set (lg_txns db))
      then Inl IntegrityError else Inr (db\<lparr>lg_txns := lg_txns db @ [t]\<rparr>))"

definition record_transaction :: "civil \<Rightarrow> string \<Rightarrow> int \<Rightarrow> int \<Rightarrow> string \<Rightarrow> string option \<Rightarrow>
    string option \<Rightarrow> ledger \<Rightarrow> ledger result" where
  "record_transaction now transaction_id user_id amount transaction_type reference_id description =
     insert_txn \<lparr>tx_id = transaction_id, tx_user_id = user_id, tx_amount = amount,
       tx_type = transaction_type, tx_reference_id = reference_id,
       tx_description = description, tx_created_at = now\<rparr>"

text \<open>Newest first; rows with equal timestamps in any order, here the insertion order.\<close>

definition list_transactions :: "int \<Rightarrow> nat \<Rightarrow> nat \<Rightarrow> ledger \<Rightarrow> txn_row list" where
  "list_transactions user_id offset limit db =
     take limit (drop offset (rev (sort_key tx_created_at
       (rev (sql_select (\<lambda>t. tx_user_id t = user_id) (lg_txns db))))))"

subsection \<open>SQLSubscriptionRepository\<close>

definition get_by_actor :: "string \<Rightarrow> ledger \<Rightarrow> sub_row option" where
  "get_by_actor actor_key db = sql_first (sql_select (\<lambda>r. sr_actor_key r = actor_key) (lg_subs db))"

definition get_actor_tier :: "string \<Rightarrow> ledger \<Rightarrow> subscription_tier" where
  "get_actor_tier actor_key db = (case get_by_actor actor_key db of
     None \<Rightarrow> Tier_FREE | Some r \<Rightarrow> sr_tier r)"

definition get_subscription_row :: "int \<Rightarrow> ledger \<Rightarrow> sub_row option result" where
  "get_subscription_row user_id db =
     scalar_one_or_none (sql_select (\<lambda>r. sr_user_id r = Some user_id) (lg_subs db))"

definition get_tier_for_user :: "int \<Rightarrow> ledger \<Rightarrow> subscription_tier result" where
  "get_tier_for_user user_id db = rbind (get_subscription_row user_id db) (\<lambda>row. case row of
     None \<Rightarrow> Inr Tier_FREE | Some r \<Rightarrow> Inr (sr_tier r))"

definition get_used_storage_bytes :: "string \<Rightarrow> ledger \<Rightarrow> int" where
  "get_used_storage_bytes actor_key db = (case get_by_actor actor_key db of
     None \<Rightarrow> 0 | Some r \<Rightarrow> sr_used_storage_bytes r)"

text \<open>The defaults of the ORM class.\<close>

definition new_sub_row :: "string \<Rightarrow> int option \<Rightarrow> subscription_tier \<Rightarrow> civil \<Rightarrow> sub_row" where
  "new_sub_row actor_key user_id tier now = \<lparr>sr_actor_key = actor_key, sr_user_id = user_id,
     sr_tier = tier, sr_used_storage_bytes = 0, sr_stripe_customer_id = None,
     sr_stripe_subscription_id = None, sr_purchased_credits = 0, sr_carryover_credits = 0,
     sr_carryover_expires_at = None, sr_purchased_credits_first = False,
     sr_created_at = now, sr_updated_at = now\<rparr>"

text \<open>\<open>INSERT\<close> and \<open>UPDATE\<close> of a row under the primary key and the unique \<open>user_id\<close>.\<close>

definition insert_sub :: "sub_row \<Rightarrow> ledger \<Rightarrow> ledger result" where
  "insert_sub r db =
     (if sr_actor_key r \<in> sr_actor_key ` set (lg_subs db)
         \<or> (sr_user_id r \<noteq> None \<and> sr_user_id r \<in> sr_user_id ` set (lg_subs db))
      then Inl IntegrityError else Inr (db\<lparr>lg_subs := lg_subs db @ [r]\<rparr>))"

definition update_sub :: "string \<Rightarrow> (sub_row \<Rightarrow> sub_row) \<Rightarrow> ledger \<Rightarrow> ledger result" where
  "update_sub actor_key f db =
     (let t = sql_update (\<lambda>r. sr_actor_key r = actor_key) f (lg_subs db) in
      if unique_nullable sr_user_id t then Inr (db\<lparr>lg_subs := t\<rparr>) else Inl IntegrityError)"

definition set_used_storage_bytes :: "civil \<Rightarrow> string \<Rightarrow> int \<Rightarrow> ledger \<Rightarrow> ledger result" where
  "set_used_storage_bytes now actor_key n db = (case get_by_actor actor_key db of
       None \<Rightarrow> insert_sub ((new_sub_row actor_key None Tier_FREE now)\<lparr>sr_used_storage_bytes := n\<rparr>) db
     | Some _ \<Rightarrow> update_sub actor_key
         (\<lambda>r. r\<lparr>sr_used_storage_bytes := n, sr_updated_at := now\<rparr>) db)"

definition upsert_subscription :: "civil \<Rightarrow> string \<Rightarrow> int option \<Rightarrow> subscription_tier \<Rightarrow> int option \<Rightarrow>
    string option \<Rightarrow> string option \<Rightarrow> ledger \<Rightarrow> ledger result" where
  "upsert_subscription now actor_key user_id tier used customer subscription_id db =
     (case get_by_actor actor_key db of
        None \<Rightarrow> insert_sub ((new_sub_row actor_key user_id tier now)
            \<lparr>sr_used_storage_bytes := (case used of None \<Rightarrow> 0 | Some n \<Rightarrow> n),
             sr_stripe_customer_id := customer, sr_stripe_subscription_id := subscription_id\<rparr>) db
      | Some _ \<Rightarrow> update_sub actor_key (\<lambda>r. r
            \<lparr>sr_tier := tier,
             sr_user_id := (if user_id \<noteq> None then user_id else sr_user_id r),
             sr_used_storage_bytes := (case used of None \<Rightarrow> sr_used_storage_bytes r | Some n \<Rightarrow> n),
             sr_stripe_customer_id :=
               (if customer \<noteq> None then customer else sr_stripe_customer_id r),
             sr_stripe_subscription_id :=
               (if subscription_id \<noteq> None then subscription_id else sr_stripe_subscription_id r),
             sr_updated_at := now\<rparr>) db)"

definition set_credit_preference :: "civil \<Rightarrow> int \<Rightarrow> bool \<Rightarrow> ledger \<Rightarrow> ledger result" where
  "set_credit_preference now user_id pf db =
     rbind (get_subscription_row user_id db) (\<lambda>row. case row of
         None \<Rightarrow> insert_sub ((new_sub_row (''user:'' @ str_int user_id) (Some user_id) Tier_FREE now)
                   \<lparr>sr_purchased_credits_first := pf\<rparr>) db
       | Some r \<Rightarrow> update_sub (sr_actor_key r)
           (\<lambda>r. r\<lparr>sr_purchased_credits_first := pf, sr_updated_at := now\<rparr>) db)"

text \<open>\<open>set_wallet\<close>: \<open>None\<close> for a user without a row.\<close>

definition set_wallet :: "civil \<Rightarrow> int \<Rightarrow> int \<Rightarrow> datetime option \<Rightarrow> int \<Rightarrow> bool \<Rightarrow> ledger \<Rightarrow>
    ledger option result" where
  "set_wallet now user_id carryover expires_at purchased pf db =
     rbind (get_subscription_row user_id db) (\<lambda>row. case row of
         None \<Rightarrow> Inr None
       | Some r \<Rightarrow> rbind (update_sub (sr_actor_key r)
           (\<lambda>r. r\<lparr>sr_carryover_credits := carryover, sr_carryover_expires_at := expires_at,
                 sr_purchased_credits := purchased, sr_purchased_credits_first := pf,
                 sr_updated_at := now\<rparr>) db) (\<lambda>db'. Inr (Some db')))"

subsection \<open>Reading the wallet\<close>

text \<open>The database returns an expiry either naive or in UTC; \<open>ensure_utc\<close> makes both aware.\<close>

definition expiry_instant :: "datetime option \<Rightarrow> civil option" where
  "expiry_instant v = map_option dt_civil (ensure_utc v)"

definition wallet_expiry :: "sub_row option \<Rightarrow> civil option" where
  "wallet_expiry w = (case w of None \<Rightarrow> None | Some r \<Rightarrow> expiry_instant (sr_carryover_expires_at r))"

definition wallet_of :: "int \<Rightarrow> sub_row option \<Rightarrow> wallet_balances result" where
  "wallet_of plan w = mk_wallet plan
     (case w of None \<Rightarrow> 0 | Some r \<Rightarrow> sr_carryover_credits r)
     (case w of None \<Rightarrow> 0 | Some r \<Rightarrow> sr_purchased_credits r)"

definition get_remaining :: "int \<Rightarrow> string \<Rightarrow> ledger \<Rightarrow> int option result" where
  "get_remaining user_id period_key db =
     rbind (get_credit (str_int user_id) period_key db) (\<lambda>c. Inr (map_option cr_remaining c))"

text \<open>\<open>_available_total_once\<close>, the worker's pre-check.\<close>

definition available_total_once :: "civil \<Rightarrow> int \<Rightarrow> string \<Rightarrow> ledger \<Rightarrow> int option result" where
  "available_total_once now user_id period_key db =
     rbind (get_credit (str_int user_id) period_key db) (\<lambda>credit.
     rbind (case credit of
         Some c \<Rightarrow> Inr (Some (cr_remaining c))
       | None \<Rightarrow> rbind (get_tier_for_user user_id db)
           (\<lambda>tier. Inr (tp_monthly_conversion_credits (for_tier tier)))) (\<lambda>plan.
     case plan of
       None \<Rightarrow> Inr None
     | Some p \<Rightarrow> rbind (get_subscription_row user_id db) (\<lambda>w.
         rbind (wallet_of p w) (\<lambda>b. Inr (Some (available_total b (wallet_expiry w) now))))))"

record credit_balance =
  cb_balance :: int
  cb_total_available :: int
  cb_resets_at :: "civil option"

text \<open>\<open>CreditService.get_balance\<close>; \<open>clock\<close> is what \<open>datetime.now(UTC)\<close> returns.\<close>

definition get_balance :: "civil \<Rightarrow> int \<Rightarrow> datetime option \<Rightarrow> ledger \<Rightarrow> credit_balance result" where
  "get_balance clock user_id now db =
     rbind (get_tier_for_user user_id db) (\<lambda>tier.
     let monthly = tp_monthly_conversion_credits (for_tier tier);
         allowance = (case monthly of None \<Rightarrow> 0 | Some a \<Rightarrow> a)
     in rbind (resolve clock now) (\<lambda>instant.
        rbind (get_credit (str_int user_id) (period_key_of instant) db) (\<lambda>credit.
        let remaining = (case credit of Some c \<Rightarrow> cr_remaining c | None \<Rightarrow> allowance)
        in rbind (get_subscription_row user_id db) (\<lambda>w.
           rbind (wallet_of remaining w) (\<lambda>b.
           rbind (case monthly of None \<Rightarrow> Inr None
                    | Some _ \<Rightarrow> rbind (period_end_of instant) (\<lambda>e. Inr (Some e))) (\<lambda>resets.
           Inr \<lparr>cb_balance = remaining,
                cb_total_available = available_total b (wallet_expiry w) instant,
                cb_resets_at = resets\<rparr>))))))"

subsection \<open>Consuming credits\<close>

record tx_env =
  te_before_save :: "ledger \<Rightarrow> ledger"
  te_before_commit :: "ledger \<Rightarrow> ledger"
  te_commit :: commit_fate

text \<open>A transaction nothing interferes with.\<close>

definition quiet :: tx_env where
  "quiet = \<lparr>te_before_save = id, te_before_commit = id, te_commit = Commit_ok\<rparr>"

text \<open>What one run of \<open>_consume_once\<close> computes from what it reads.\<close>

record consume_stage =
  cg_loaded :: "monthly_credit_row option"
  cg_credit :: credit
  cg_wallet :: "(sub_row \<times> wallet_balances) option"

definition consume_read :: "civil \<Rightarrow> int \<Rightarrow> string \<Rightarrow> int \<Rightarrow> job_origin \<Rightarrow> ledger \<Rightarrow>
    consume_stage result" where
  "consume_read now user_id period_key units origin db =
     rbind (find_bucket (str_int user_id) period_key db) (\<lambda>loaded.
     rbind (case loaded of
         Some r \<Rightarrow> credit_of_row r
       | None \<Rightarrow> rbind (get_tier_for_user user_id db)
           (credit_from_tier (str_int user_id) period_key)) (\<lambda>credit.
     rbind (get_subscription_row user_id db) (\<lambda>w.
     rbind (wallet_of (cr_remaining credit) w) (\<lambda>balances.
     let prefer = (case w of None \<Rightarrow> False
            | Some r \<Rightarrow> sr_purchased_credits_first r \<and> origin = Origin_API)
     in rbind (consume_from_wallet balances units (wallet_expiry w) now prefer) (\<lambda>spent.
        Inr \<lparr>cg_loaded = loaded, cg_credit = credit\<lparr>cr_remaining := wb_plan_remaining spent\<rparr>,
             cg_wallet = map_option (\<lambda>r. (r, spent)) w\<rparr>)))))"

text \<open>\<open>apply_wallet_balances\<close> on the loaded row, as the flush writes it.\<close>

definition flush_wallet :: "civil \<Rightarrow> (sub_row \<times> wallet_balances) option \<Rightarrow> ledger \<Rightarrow> ledger" where
  "flush_wallet now w db = (case w of None \<Rightarrow> db
     | Some (l, b) \<Rightarrow> db\<lparr>lg_subs := sql_update (\<lambda>r. sr_actor_key r = sr_actor_key l)
         (\<lambda>r. r\<lparr>sr_carryover_credits := staged (sr_carryover_credits l) (wb_carryover_credits b)
                                                  (sr_carryover_credits r),
                sr_purchased_credits := staged (sr_purchased_credits l) (wb_purchased_credits b)
                                                  (sr_purchased_credits r),
                sr_updated_at := now\<rparr>) (lg_subs db)\<rparr>)"

definition consume_try :: "tx_env \<Rightarrow> civil \<Rightarrow> int \<Rightarrow> string \<Rightarrow> int \<Rightarrow> job_origin \<Rightarrow> ledger \<Rightarrow>
    int result \<times> ledger" where
  "consume_try env now user_id period_key units origin db =
     (case consume_read now user_id period_key units origin db of
        Inl e \<Rightarrow> (Inl e, db)
      | Inr g \<Rightarrow>
        (let db1 = te_before_save env db in
         case stage_credit now (cg_loaded g) (cg_credit g) db1 of
           Inl e \<Rightarrow> (Inl e, db1)
         | Inr w \<Rightarrow>
           (let db2 = te_before_commit env db1 in
            case te_commit env of
              Commit_lost e \<Rightarrow> (Inl e, db2)
            | fate \<Rightarrow> (case flush_bucket w (flush_wallet now (cg_wallet g) db2) of
                  Inl e \<Rightarrow> (Inl e, db2)
                | Inr db3 \<Rightarrow> (case fate of
                      Commit_reply_lost e \<Rightarrow> (Inl e, db3)
                    | _ \<Rightarrow> (Inr (cr_remaining (cg_credit g)), db3))))))"

text \<open>\<open>_consume_once\<close>: an \<open>IntegrityError\<close> rolls back and runs it a second time.\<close>

definition consume_once :: "(bool \<Rightarrow> tx_env) \<Rightarrow> civil \<Rightarrow> int \<Rightarrow> string \<Rightarrow> int \<Rightarrow> job_origin \<Rightarrow> ledger \<Rightarrow>
    int result \<times> ledger" where
  "consume_once env now user_id period_key units origin db =
     (let (r, db') = consume_try (env False) now user_id period_key units origin db in
      if r = Inl IntegrityError then consume_try (env True) now user_id period_key units origin db'
      else (r, db'))"

definition consume :: "(nat \<Rightarrow> bool \<Rightarrow> tx_env) \<Rightarrow> civil \<Rightarrow> int \<Rightarrow> string \<Rightarrow> int \<Rightarrow> job_origin \<Rightarrow>
    ledger \<Rightarrow> int result \<times> ledger" where
  "consume env now user_id period_key units origin db =
     (case consume_once (env 0) now user_id period_key units origin db of
        (Inl e, db') \<Rightarrow> if retryable_db_error e
           then consume_once (env 1) now user_id period_key units origin db' else (Inl e, db')
      | r \<Rightarrow> r)"

subsection \<open>Reads under the constraints\<close>

definition bucket :: "int \<Rightarrow> string \<Rightarrow> ledger \<Rightarrow> monthly_credit_row option" where
  "bucket user_id period_key db =
     sql_first (sql_select (\<lambda>r. mc_key r = (str_int user_id, period_key)) (lg_credits db))"

definition wallet_row :: "int \<Rightarrow> ledger \<Rightarrow> sub_row option" where
  "wallet_row user_id db = sql_first (sql_select (\<lambda>r. sr_user_id r = Some user_id) (lg_subs db))"

definition user_tier :: "int \<Rightarrow> ledger \<Rightarrow> subscription_tier" where
  "user_tier user_id db = (case wallet_row user_id db of None \<Rightarrow> Tier_FREE | Some r \<Rightarrow> sr_tier r)"

text \<open>The plan credits a user can spend in a period; \<open>None\<close> for a tier without a grant.\<close>

definition plan_of :: "int \<Rightarrow> string \<Rightarrow> ledger \<Rightarrow> int option" where
  "plan_of user_id period_key db = (case bucket user_id period_key db of
       Some r \<Rightarrow> Some (mc_remaining r)
     | None \<Rightarrow> tp_monthly_conversion_credits (for_tier (user_tier user_id db)))"

definition wallet_view :: "int \<Rightarrow> int \<Rightarrow> ledger \<Rightarrow> wallet_balances" where
  "wallet_view p user_id db = \<lparr>wb_plan_remaining = p,
     wb_carryover_credits = (case wallet_row user_id db of None \<Rightarrow> 0 | Some r \<Rightarrow> sr_carryover_credits r),
     wb_purchased_credits = (case wallet_row user_id db of None \<Rightarrow> 0 | Some r \<Rightarrow> sr_purchased_credits r)\<rparr>"

lemma unique_nullable_inj:
  assumes "unique_nullable key t" "unique_key k2 t" "a \<in> set t" "b \<in> set t"
    "key a = Some k" "key b = Some k"
  shows "a = b"
  using assms
proof (induction t)
  case (Cons r t)
  have notin: "key x \<noteq> key r" if "x \<in> set t" "key r \<noteq> None" for x
    using Cons.prems(1) that by (auto simp: unique_nullable_def image_iff)
  from Cons show ?case
    using notin [of a] notin [of b] by (auto simp: unique_nullable_def split: if_splits)
qed simp

lemma find_bucket_ok: "ledger_ok db \<Longrightarrow> find_bucket (str_int u) p db = Inr (bucket u p db)"
  by (simp add: find_bucket_def bucket_def ledger_ok_def scalar_one_unique)

lemma get_subscription_row_ok:
  assumes "ledger_ok db"
  shows "get_subscription_row u db = Inr (wallet_row u db)"
  unfolding get_subscription_row_def wallet_row_def
proof (rule scalar_one_inj)
  show "distinct (lg_subs db)"
    using assms by (auto simp: ledger_ok_def dest: unique_key_distinct)
  show "a = b" if "a \<in> set (lg_subs db)" "b \<in> set (lg_subs db)"
      "sr_user_id a = Some u" "sr_user_id b = Some u" for a b
    using unique_nullable_inj [of sr_user_id "lg_subs db" sr_actor_key a b u] assms that
    by (simp add: ledger_ok_def)
qed

lemma get_tier_ok: "ledger_ok db \<Longrightarrow> get_tier_for_user u db = Inr (user_tier u db)"
  by (simp add: get_tier_for_user_def get_subscription_row_ok user_tier_def split: option.splits)

lemma bucket_mem: "bucket u p db = Some r \<Longrightarrow> r \<in> set (lg_credits db) \<and> mc_key r = (str_int u, p)"
  by (auto simp: bucket_def dest: sql_first_Some)

lemma wallet_row_mem: "wallet_row u db = Some r \<Longrightarrow> r \<in> set (lg_subs db) \<and> sr_user_id r = Some u"
  by (auto simp: wallet_row_def dest: sql_first_Some)

lemma credit_of_bucket: "ledger_ok db \<Longrightarrow> bucket u p db = Some r \<Longrightarrow>
  credit_of_row r = Inr \<lparr>cr_owner_id = str_int u, cr_period_key = p,
     cr_allowance = mc_allowance r, cr_remaining = mc_remaining r\<rparr>"
  using bucket_mem [of u p db r]
  by (auto simp: credit_of_row_def credit_post_init_def ledger_ok_def mc_key_def)

lemma plan_nonneg: "ledger_ok db \<Longrightarrow> plan_of u p db = Some a \<Longrightarrow> 0 \<le> a"
  using bucket_mem [of u p db] allowance_nonneg
  by (fastforce simp: plan_of_def ledger_ok_def split: option.splits)

lemma wallet_view_ok: "ledger_ok db \<Longrightarrow> 0 \<le> a \<Longrightarrow> wallet_ok (wallet_view a u db)"
  using wallet_row_mem [of u db]
  by (auto simp: wallet_view_def wallet_ok_def ledger_ok_def split: option.splits)

lemma wallet_of_ok: "ledger_ok db \<Longrightarrow> 0 \<le> a \<Longrightarrow> wallet_of a (wallet_row u db) = Inr (wallet_view a u db)"
  using wallet_view_ok [of db a u]
  by (auto simp: wallet_of_def wallet_view_def wallet_ok_def mk_wallet_def split: option.splits)

lemma available_total_once_ok:
  assumes "ledger_ok db"
  shows "available_total_once now u p db = Inr (map_option
    (\<lambda>a. available_total (wallet_view a u db) (wallet_expiry (wallet_row u db)) now) (plan_of u p db))"
proof -
  have "get_credit (str_int u) p db = Inr (map_option (\<lambda>r. \<lparr>cr_owner_id = str_int u,
      cr_period_key = p, cr_allowance = mc_allowance r, cr_remaining = mc_remaining r\<rparr>) (bucket u p db))"
    using assms by (auto simp: get_credit_def find_bucket_ok credit_of_bucket split: option.splits)
  then show ?thesis
    using assms plan_nonneg [OF assms, of u p]
    by (auto simp: available_total_once_def get_tier_ok get_subscription_row_ok plan_of_def
        wallet_of_ok split: option.splits)
qed

subsection \<open>One undisturbed consumption\<close>

definition prefer_purchased :: "int \<Rightarrow> job_origin \<Rightarrow> ledger \<Rightarrow> bool" where
  "prefer_purchased user_id origin db = (case wallet_row user_id db of None \<Rightarrow> False
     | Some r \<Rightarrow> sr_purchased_credits_first r \<and> origin = Origin_API)"

definition bucket_allowance :: "int \<Rightarrow> string \<Rightarrow> ledger \<Rightarrow> int" where
  "bucket_allowance u p db = (case bucket u p db of Some r \<Rightarrow> mc_allowance r
     | None \<Rightarrow> (case plan_of u p db of Some a \<Rightarrow> a | None \<Rightarrow> 0))"

lemma consume_read_ok:
  assumes "ledger_ok db" "plan_of u p db = Some a" "0 \<le> n"
  shows "\<exists>b. consume_from_wallet (wallet_view a u db) n (wallet_expiry (wallet_row u db)) now
            (prefer_purchased u origin db) = Inr b
     \<and> consume_read now u p n origin db = Inr \<lparr>cg_loaded = bucket u p db,
         cg_credit = \<lparr>cr_owner_id = str_int u, cr_period_key = p,
            cr_allowance = bucket_allowance u p db, cr_remaining = wb_plan_remaining b\<rparr>,
         cg_wallet = map_option (\<lambda>r. (r, b)) (wallet_row u db)\<rparr>"
proof -
  have a: "0 \<le> a" by (rule plan_nonneg [OF assms(1,2)])
  obtain b where b: "consume_from_wallet (wallet_view a u db) n (wallet_expiry (wallet_row u db)) now
            (prefer_purchased u origin db) = Inr b"
    using wallet_spend_total [OF wallet_view_ok [OF assms(1) a] assms(3)] by blast
  have c: "(case bucket u p db of Some r \<Rightarrow> credit_of_row r
       | None \<Rightarrow> rbind (get_tier_for_user u db) (credit_from_tier (str_int u) p))
     = Inr \<lparr>cr_owner_id = str_int u, cr_period_key = p,
            cr_allowance = bucket_allowance u p db, cr_remaining = a\<rparr>"
    using assms a credit_of_bucket [OF assms(1), of u p]
    by (auto simp: plan_of_def get_tier_ok credit_from_tier_def credit_post_init_def
        bucket_allowance_def split: option.splits)
  from b c show ?thesis
    using assms(1) a
    by (simp add: consume_read_def find_bucket_ok get_subscription_row_ok wallet_of_ok
        prefer_purchased_def)
qed

definition consumed :: "civil \<Rightarrow> int \<Rightarrow> string \<Rightarrow> wallet_balances \<Rightarrow> ledger \<Rightarrow> ledger" where
  "consumed now u p b db =
     db\<lparr>lg_credits := (case bucket u p db of
          None \<Rightarrow> lg_credits db @ [\<lparr>mc_owner_id = str_int u, mc_period_key = p,
             mc_allowance = bucket_allowance u p db, mc_remaining = wb_plan_remaining b,
             mc_created_at = now, mc_updated_at = now\<rparr>]
        | Some l \<Rightarrow> sql_update (\<lambda>r. mc_key r = (str_int u, p))
             (\<lambda>r. r\<lparr>mc_remaining := wb_plan_remaining b, mc_updated_at := now\<rparr>) (lg_credits db)),
       lg_subs := sql_update (\<lambda>r. sr_user_id r = Some u)
         (\<lambda>r. r\<lparr>sr_carryover_credits := wb_carryover_credits b,
                sr_purchased_credits := wb_purchased_credits b, sr_updated_at := now\<rparr>) (lg_subs db)\<rparr>"

lemma bucket_update_same:
  assumes "ledger_ok db" "bucket u p db = Some l" "r \<in> set (lg_credits db)"
  shows "mc_key r = (str_int u, p) \<longleftrightarrow> r = l"
  using assms bucket_mem [OF assms(2)] unique_key_inj [of mc_key "lg_credits db" r l]
  by (auto simp: ledger_ok_def)

lemma wallet_row_same:
  assumes "ledger_ok db" "wallet_row u db = Some l" "r \<in> set (lg_subs db)"
  shows "sr_actor_key r = sr_actor_key l \<longleftrightarrow> r = l" "sr_user_id r = Some u \<longleftrightarrow> r = l"
  using assms wallet_row_mem [OF assms(2)] unique_key_inj [of sr_actor_key "lg_subs db" r l]
    unique_nullable_inj [of sr_user_id "lg_subs db" sr_actor_key r l u]
  by (auto simp: ledger_ok_def)

lemma sql_update_cong:
  "(\<And>r. r \<in> set t \<Longrightarrow> (if P r then f r else r) = (if Q r then g r else r)) \<Longrightarrow>
   sql_update P f t = sql_update Q g t"
  by (auto simp: sql_update_def)

lemma sql_update_none: "(\<And>r. r \<in> set t \<Longrightarrow> \<not> P r) \<Longrightarrow> sql_update P f t = t"
  by (auto simp: sql_update_def intro: map_idI)

lemma staged_same [simp]: "staged l new l = new"
  by (simp add: staged_def)

lemma flush_wallet_ok:
  assumes "ledger_ok db"
  shows "flush_wallet now (map_option (\<lambda>r. (r, b)) (wallet_row u db)) db =
    db\<lparr>lg_subs := sql_update (\<lambda>r. sr_user_id r = Some u)
         (\<lambda>r. r\<lparr>sr_carryover_credits := wb_carryover_credits b,
                sr_purchased_credits := wb_purchased_credits b, sr_updated_at := now\<rparr>) (lg_subs db)\<rparr>"
proof (cases "wallet_row u db")
  case None
  then have "sr_user_id r \<noteq> Some u" if "r \<in> set (lg_subs db)" for r
    using that by (auto simp: wallet_row_def sql_first_None)
  with None show ?thesis by (simp add: flush_wallet_def sql_update_none)
next
  case (Some l)
  then show ?thesis
    using wallet_row_same [OF assms Some]
    by (auto simp: flush_wallet_def intro!: ledger.fold_congs sql_update_cong)
qed

lemma consume_try_quiet:
  assumes "ledger_ok db" "plan_of u p db = Some a" "0 \<le> n"
  shows "\<exists>b. consume_from_wallet (wallet_view a u db) n (wallet_expiry (wallet_row u db)) now
            (prefer_purchased u origin db) = Inr b
     \<and> consume_try quiet now u p n origin db = (Inr (wb_plan_remaining b), consumed now u p b db)"
proof -
  obtain b where b: "consume_from_wallet (wallet_view a u db) n (wallet_expiry (wallet_row u db)) now
            (prefer_purchased u origin db) = Inr b"
    "consume_read now u p n origin db = Inr \<lparr>cg_loaded = bucket u p db,
         cg_credit = \<lparr>cr_owner_id = str_int u, cr_period_key = p,
            cr_allowance = bucket_allowance u p db, cr_remaining = wb_plan_remaining b\<rparr>,
         cg_wallet = map_option (\<lambda>r. (r, b)) (wallet_row u db)\<rparr>"
    using consume_read_ok [OF assms] by blast
  have "consume_try quiet now u p n origin db = (Inr (wb_plan_remaining b), consumed now u p b db)"
  proof (cases "bucket u p db")
    case None
    then have "(str_int u, p) \<notin> mc_key ` set (lg_credits db)"
      by (auto simp: bucket_def sql_first_None)
    with None show ?thesis
      using assms(1) by (simp add: consume_try_def b(2) quiet_def stage_credit_def find_bucket_ok
          flush_wallet_ok consumed_def mc_key_def)
  next
    case (Some l)
    then have "mc_key l = (str_int u, p)" by (simp add: bucket_mem)
    moreover have "sql_update (\<lambda>r. mc_key r = (str_int u, p))
        (\<lambda>r. r\<lparr>mc_allowance := staged (mc_allowance l) (mc_allowance l) (mc_allowance r),
               mc_remaining := staged (mc_remaining l) (wb_plan_remaining b) (mc_remaining r),
               mc_updated_at := now\<rparr>) (lg_credits db)
      = sql_update (\<lambda>r. mc_key r = (str_int u, p))
             (\<lambda>r. r\<lparr>mc_remaining := wb_plan_remaining b, mc_updated_at := now\<rparr>) (lg_credits db)"
      using bucket_update_same [OF assms(1) Some] by (intro sql_update_cong) auto
    ultimately show ?thesis
      using assms(1) Some by (simp add: consume_try_def b(2) quiet_def stage_credit_def find_bucket_ok
          flush_wallet_ok consumed_def bucket_allowance_def)
  qed
  with b(1) show ?thesis by blast
qed

definition wallet_written :: "civil \<Rightarrow> wallet_balances \<Rightarrow> sub_row \<Rightarrow> sub_row" where
  "wallet_written now b r = r\<lparr>sr_carryover_credits := wb_carryover_credits b,
     sr_purchased_credits := wb_purchased_credits b, sr_updated_at := now\<rparr>"

lemma wallet_row_consumed:
  "wallet_row v (consumed now u p b db)
    = map_option (\<lambda>r. if u = v then wallet_written now b r else r) (wallet_row v db)"
proof -
  have "wallet_row v (consumed now u p b db)
      = map_option (\<lambda>r. if sr_user_id r = Some u then wallet_written now b r else r) (wallet_row v db)"
    unfolding wallet_row_def consumed_def wallet_written_def
    by (simp add: sql_first_update)
  also have "\<dots> = map_option (\<lambda>r. if u = v then wallet_written now b r else r) (wallet_row v db)"
    using wallet_row_mem [of v db] by (cases "wallet_row v db") auto
  finally show ?thesis .
qed

lemma bucket_consumed_same: "\<exists>r. bucket u p (consumed now u p b db) = Some r
    \<and> mc_remaining r = wb_plan_remaining b \<and> mc_allowance r = bucket_allowance u p db"
proof (cases "bucket u p db")
  case None
  then show ?thesis
    by (auto simp: bucket_def consumed_def sql_first_append mc_key_def)
next
  case (Some l)
  then show ?thesis
    using bucket_mem [OF Some]
    by (auto simp: bucket_def consumed_def sql_first_update mc_key_def bucket_allowance_def)
qed

lemma bucket_consumed_other:
  "(v, q) \<noteq> (u, p) \<Longrightarrow> bucket v q (consumed now u p b db) = bucket v q db"
proof -
  assume "(v, q) \<noteq> (u, p)"
  then have k: "(str_int v, q) \<noteq> (str_int u, p)" using str_int_inj by auto
  show ?thesis
  proof (cases "bucket u p db")
    case None
    with k show ?thesis
      by (auto simp: bucket_def consumed_def sql_first_append mc_key_def split: option.splits)
  next
    case (Some l)
    have "map_option (\<lambda>r. if mc_key r = (str_int u, p)
        then r\<lparr>mc_remaining := wb_plan_remaining b, mc_updated_at := now\<rparr> else r) (bucket v q db)
      = bucket v q db"
      using bucket_mem [of v q db] k by (cases "bucket v q db") auto
    with Some k show ?thesis
      unfolding bucket_def consumed_def by (simp add: sql_first_update mc_key_def)
  qed
qed

lemma user_tier_consumed: "user_tier v (consumed now u p b db) = user_tier v db"
  by (auto simp: user_tier_def wallet_row_consumed wallet_written_def split: option.splits)

lemma plan_of_consumed_other: "(v, q) \<noteq> (u, p) \<Longrightarrow> plan_of v q (consumed now u p b db) = plan_of v q db"
  by (simp add: plan_of_def bucket_consumed_other user_tier_consumed split: option.splits)

lemma plan_of_consumed: "plan_of u p (consumed now u p b db) = Some (wb_plan_remaining b)"
  using bucket_consumed_same [of u p now b db] by (auto simp: plan_of_def)

lemma wallet_expiry_consumed:
  "wallet_expiry (wallet_row v (consumed now u p b db)) = wallet_expiry (wallet_row v db)"
  by (auto simp: wallet_expiry_def wallet_row_consumed wallet_written_def split: option.splits)

lemma ledger_ok_consumed:
  assumes "ledger_ok db" "wallet_ok b" "wb_plan_remaining b \<le> bucket_allowance u p db"
  shows "ledger_ok (consumed now u p b db)"
proof -
  let ?f = "\<lambda>r. r\<lparr>sr_carryover_credits := wb_carryover_credits b,
     sr_purchased_credits := wb_purchased_credits b, sr_updated_at := now\<rparr>"
  have subs: "map sr_user_id (sql_update (\<lambda>r. sr_user_id r = Some u) ?f (lg_subs db))
      = map sr_user_id (lg_subs db)"
    "map sr_actor_key (sql_update (\<lambda>r. sr_user_id r = Some u) ?f (lg_subs db))
      = map sr_actor_key (lg_subs db)"
    by (rule map_sql_update_frame, simp)+
  have credits: "unique_key mc_key (lg_credits (consumed now u p b db))
    \<and> (\<forall>r \<in> set (lg_credits (consumed now u p b db)). 0 \<le> mc_remaining r \<and> mc_remaining r \<le> mc_allowance r)"
  proof (cases "bucket u p db")
    case None
    then have "(str_int u, p) \<notin> mc_key ` set (lg_credits db)"
      by (auto simp: bucket_def sql_first_None)
    with None assms show ?thesis
      by (auto simp: consumed_def ledger_ok_def unique_key_append mc_key_def wallet_ok_def)
  next
    case (Some l)
    have k: "mc_key (r\<lparr>mc_remaining := x, mc_updated_at := now\<rparr>) = mc_key r" for r x
      by (simp add: mc_key_def)
    from Some assms show ?thesis
      using bucket_update_same [OF assms(1) Some]
      by (auto simp: consumed_def ledger_ok_def unique_key_update k wallet_ok_def
          set_sql_update bucket_allowance_def)
  qed
  show ?thesis
    using assms credits subs
    by (auto simp: ledger_ok_def consumed_def unique_nullable_def unique_key_def set_sql_update
        wallet_ok_def)
qed

lemma consume_plan_le:
  assumes "wallet_ok w" "0 \<le> n" "consume_from_wallet w n e now pf = Inr b"
  shows "wb_plan_remaining b \<le> wb_plan_remaining w \<and> wallet_ok b"
proof -
  have r: "wallet_ok b" "wallet_pools e now pf b = spend_pools n (wallet_pools e now pf w)"
    using consume_refines [OF assms(1,2), of e now pf] assms(3) by auto
  have "wb_plan_remaining b \<le> wb_plan_remaining w"
  proof (cases pf)
    case True
    then show ?thesis using r(2) assms(1,2) by (simp add: wallet_pools_def wallet_ok_def)
  next
    case False
    then show ?thesis using r(2) assms(1,2) by (simp add: wallet_pools_def wallet_ok_def)
  qed
  with r(1) show ?thesis by simp
qed

text \<open>What an undisturbed consumption does to every account.\<close>

lemma consume_try_quiet_spec:
  assumes "ledger_ok db" "plan_of u p db = Some a" "0 \<le> n"
  shows "\<exists>r db'. consume_try quiet now u p n origin db = (Inr r, db') \<and> ledger_ok db'
     \<and> plan_of u p db' = Some r
     \<and> (\<exists>t. available_total_once now u p db = Inr (Some t)
          \<and> available_total_once now u p db' = Inr (Some (max 0 (t - n))))
     \<and> (\<forall>v q. v \<noteq> u \<longrightarrow> available_total_once now v q db' = available_total_once now v q db)"
proof -
  have a: "0 \<le> a" by (rule plan_nonneg [OF assms(1,2)])
  have w: "wallet_ok (wallet_view a u db)" by (rule wallet_view_ok [OF assms(1) a])
  obtain b where b: "consume_from_wallet (wallet_view a u db) n (wallet_expiry (wallet_row u db)) now
            (prefer_purchased u origin db) = Inr b"
    and t: "consume_try quiet now u p n origin db = (Inr (wb_plan_remaining b), consumed now u p b db)"
    using consume_try_quiet [OF assms] by blast
  let ?d = "consumed now u p b db"
  have pl: "wb_plan_remaining b \<le> a" "wallet_ok b"
    using consume_plan_le [OF w assms(3) b] by (simp_all add: wallet_view_def)
  have "a \<le> bucket_allowance u p db"
    using assms(1,2) bucket_mem [of u p db]
    by (auto simp: bucket_allowance_def plan_of_def ledger_ok_def split: option.splits)
  then have ok: "ledger_ok ?d" using pl by (intro ledger_ok_consumed assms) auto
  have av: "available_total b (wallet_expiry (wallet_row u db)) now
      = max 0 (available_total (wallet_view a u db) (wallet_expiry (wallet_row u db)) now - n)"
    using wallet_spend_total [OF w assms(3), of "wallet_expiry (wallet_row u db)" now
        "prefer_purchased u origin db"] b by auto
  have view: "available_total (wallet_view (wb_plan_remaining b) u ?d) e now = available_total b e now"
      if "e = wallet_expiry (wallet_row u db)" for e
  proof (cases "wallet_row u db")
    case None
    have "wb_carryover_credits b \<le> 0 \<and> 0 \<le> wb_carryover_credits b"
      using consume_refines [OF w assms(3), of "wallet_expiry (wallet_row u db)" now
          "prefer_purchased u origin db"] b None pl(2) assms(3)
      by (auto simp: wallet_view_def wallet_ok_def live_carryover_def)
    moreover have "wb_purchased_credits b = 0"
      using consume_refines [OF w assms(3), of "wallet_expiry (wallet_row u db)" now
          "prefer_purchased u origin db"] b None pl(2) assms(3)
      by (auto simp: wallet_view_def wallet_ok_def live_carryover_def prefer_purchased_def
          wallet_pools_def)
    ultimately show ?thesis
      using None by (simp add: wallet_view_def wallet_row_consumed available_total_def
          live_carryover_def)
  next
    case (Some r)
    then show ?thesis
      by (simp add: wallet_view_def wallet_row_consumed wallet_written_def available_total_def)
  qed
  have "available_total_once now v q ?d = available_total_once now v q db" if "v \<noteq> u" for v q
    using that assms(1) ok
    by (simp add: available_total_once_ok plan_of_consumed_other wallet_view_def
        wallet_row_consumed option.map_ident)
  then show ?thesis
    using t ok av view assms(1,2)
    by (auto simp: available_total_once_ok plan_of_consumed wallet_expiry_consumed)
qed

subsection \<open>The ledger is a clamped account\<close>

definition quiet_all :: "nat \<Rightarrow> bool \<Rightarrow> tx_env" where
  "quiet_all attempt retried = quiet"

definition charge :: "civil \<Rightarrow> int \<Rightarrow> string \<Rightarrow> job_origin \<Rightarrow> int \<Rightarrow> ledger \<Rightarrow> ledger result" where
  "charge now u p origin n db = (case consume quiet_all now u p n origin db of
     (Inl e, _) \<Rightarrow> Inl e | (Inr _, db') \<Rightarrow> Inr db')"

definition spendable_total :: "civil \<Rightarrow> int \<Rightarrow> string \<Rightarrow> ledger \<Rightarrow> int" where
  "spendable_total now u p db = (case available_total_once now u p db of
     Inr (Some t) \<Rightarrow> t | _ \<Rightarrow> 0)"

lemma consume_quiet: "consume_try quiet now u p n origin db = (Inr r, db') \<Longrightarrow>
  consume quiet_all now u p n origin db = (Inr r, db')"
  by (simp add: consume_def consume_once_def quiet_all_def)

lemma consume_once_first: "consume_try (env False) now u p n origin db = (Inr r, db') \<Longrightarrow>
  consume_once env now u p n origin db = (Inr r, db')"
  by (simp add: consume_once_def)

lemma charge_total:
  assumes "ledger_ok db" "plan_of u p db \<noteq> None" "0 \<le> n"
  shows "\<exists>db'. charge now u p origin n db = Inr db' \<and> (ledger_ok db' \<and> plan_of u p db' \<noteq> None)
    \<and> spendable_total now u p db' = max 0 (spendable_total now u p db - n)"
proof -
  obtain a where a: "plan_of u p db = Some a" using assms(2) by auto
  obtain r db' t where c: "consume_try quiet now u p n origin db = (Inr r, db')" "ledger_ok db'"
    "plan_of u p db' = Some r" "available_total_once now u p db = Inr (Some t)"
    "available_total_once now u p db' = Inr (Some (max 0 (t - n)))"
    using consume_try_quiet_spec [OF assms(1) a assms(3), of now origin] by auto
  then show ?thesis
    by (simp add: charge_def consume_quiet [OF c(1)] spendable_total_def)
qed

lemma spendable_total_nonneg: "ledger_ok db \<Longrightarrow> 0 \<le> spendable_total now u p db"
proof -
  assume ok: "ledger_ok db"
  show ?thesis
  proof (cases "plan_of u p db")
    case (Some a)
    then show ?thesis
      using ok available_total_nonneg [OF wallet_view_ok [OF ok plan_nonneg [OF ok Some]]]
      by (simp add: spendable_total_def available_total_once_ok)
  qed (simp add: ok spendable_total_def available_total_once_ok)
qed

interpretation account: clamped_account "\<lambda>db. ledger_ok db \<and> plan_of u p db \<noteq> None"
    "spendable_total now u p" "charge now u p origin" "\<lambda>n. 0 \<le> n"
  for now :: civil and u :: int and p :: string and origin :: job_origin
  by unfold_locales (use charge_total spendable_total_nonneg in auto)

text \<open>Transactions that nothing interferes with and whose replies arrive: a commit may still fail.\<close>

definition answered :: "(nat \<Rightarrow> bool \<Rightarrow> tx_env) \<Rightarrow> bool" where
  "answered env = (\<forall>k b. te_before_save (env k b) = id \<and> te_before_commit (env k b) = id
     \<and> (\<forall>e. te_commit (env k b) \<noteq> Commit_reply_lost e))"

lemma consume_try_answered:
  assumes "te_before_save env = id" "te_before_commit env = id" "\<forall>e. te_commit env \<noteq> Commit_reply_lost e"
  shows "(\<exists>e. consume_try env now u p n origin db = (Inl e, db))
    \<or> (\<exists>r d. consume_try env now u p n origin db = (Inr r, d) \<and> consume_try quiet now u p n origin db = (Inr r, d))"
  using assms by (cases "te_commit env") (auto simp: consume_try_def quiet_def Let_def split: sum.splits)

text \<open>However often it is tried, such a charge is made once or not at all.\<close>

lemma consume_once_answered:
  assumes "answered env"
  shows "(\<exists>e. consume_once (env k) now u p n origin db = (Inl e, db))
    \<or> (\<exists>r d. consume_once (env k) now u p n origin db = (Inr r, d) \<and> consume_try quiet now u p n origin db = (Inr r, d))"
  using consume_try_answered [of "env k False" now u p n origin db] consume_try_answered [of "env k True" now u p n origin db] assms
  by (auto simp: consume_once_def answered_def)

lemma consume_answered:
  assumes "answered env"
  shows "snd (consume env now u p n origin db) = db
    \<or> (\<exists>r. consume_try quiet now u p n origin db = (Inr r, snd (consume env now u p n origin db)))"
  using consume_once_answered [OF assms, of 0 now u p n origin db] consume_once_answered [OF assms, of 1 now u p n origin db]
  by (auto simp: consume_def)

lemma consume_no_grant:
  assumes "ledger_ok db" "plan_of u p db = None"
  shows "consume env now u p n origin db
    = (Inl (GuestTierHasNoPersistentCredits ''Guest tier does not use persistent monthly credits.''), db)"
proof -
  have b: "bucket u p db = None" "tp_monthly_conversion_credits (for_tier (user_tier u db)) = None"
    using assms(2) by (auto simp: plan_of_def split: option.splits)
  then have "consume_read now u p n origin db = Inl (GuestTierHasNoPersistentCredits
      ''Guest tier does not use persistent monthly credits.'')"
    using assms(1) by (simp add: consume_read_def find_bucket_ok get_tier_ok credit_from_tier_def)
  then show ?thesis by (simp add: consume_def consume_once_def consume_try_def)
qed

lemma consume_charged:
  assumes "ledger_ok db" "answered env" "0 \<le> n" "db' = snd (consume env now u p n origin db)" "db' \<noteq> db"
  shows "\<exists>t. available_total_once now u p db = Inr (Some t) \<and> available_total_once now u p db' = Inr (Some (max 0 (t - n)))
    \<and> (\<forall>v q. v \<noteq> u \<longrightarrow> available_total_once now v q db' = available_total_once now v q db)"
proof -
  obtain r where r: "consume_try quiet now u p n origin db = (Inr r, db')"
    using consume_answered [OF assms(2), of now u p n origin db] assms(4,5) by auto
  obtain a where "plan_of u p db = Some a"
    using consume_no_grant [OF assms(1), of u p env now n origin] assms(4,5) by (cases "plan_of u p db") auto
  from consume_try_quiet_spec [OF assms(1) this assms(3), of now origin] r show ?thesis by auto
qed

subsection \<open>Two workers\<close>

lemma flush_insert_clash:
  assumes "bucket u p db = None" "wallet_of_db = flush_wallet now w (consumed now u p b db)"
  shows "flush_bucket (Bucket_insert \<lparr>mc_owner_id = str_int u, mc_period_key = p, mc_allowance = al,
      mc_remaining = rm, mc_created_at = t1, mc_updated_at = t2\<rparr>) wallet_of_db = Inl IntegrityError"
proof -
  have "lg_credits wallet_of_db = lg_credits (consumed now u p b db)"
    using assms(2) by (simp add: flush_wallet_def split: option.splits prod.splits)
  then show ?thesis
    using assms(1) by (auto simp: consumed_def mc_key_def image_iff)
qed

text \<open>When another worker creates the bucket of the period first, the insert is rejected, the
  transaction is rolled back and the second run charges the bucket that now exists.\<close>

lemma bucket_race_repaired:
  assumes "ledger_ok db" "bucket u p db = None" "plan_of u p db = Some a" "0 \<le> n" "0 \<le> m"
    and "env False = \<lparr>te_before_save = id,
           te_before_commit = (\<lambda>d. snd (consume_try quiet now u p m origin' d)), te_commit = Commit_ok\<rparr>"
    and "env True = quiet"
  shows "\<exists>r db'. consume_once env now u p n origin db = (Inr r, db')
     \<and> (\<exists>t. available_total_once now u p db = Inr (Some t)
          \<and> available_total_once now u p db' = Inr (Some (max 0 (t - (n + m)))))"
proof -
  obtain b where g: "consume_read now u p n origin db = Inr \<lparr>cg_loaded = bucket u p db,
         cg_credit = \<lparr>cr_owner_id = str_int u, cr_period_key = p,
            cr_allowance = bucket_allowance u p db, cr_remaining = wb_plan_remaining b\<rparr>,
         cg_wallet = map_option (\<lambda>r. (r, b)) (wallet_row u db)\<rparr>"
    using consume_read_ok [OF assms(1,3,4)] by blast
  obtain b2 where o: "consume_try quiet now u p m origin' db
      = (Inr (wb_plan_remaining b2), consumed now u p b2 db)"
    using consume_try_quiet [OF assms(1,3,5)] by blast
  obtain t where s: "ledger_ok (consumed now u p b2 db)"
    "available_total_once now u p db = Inr (Some t)"
    "available_total_once now u p (consumed now u p b2 db) = Inr (Some (max 0 (t - m)))"
    using consume_try_quiet_spec [OF assms(1,3,5), of now origin'] o by auto
  have f: "consume_try (env False) now u p n origin db
      = (Inl IntegrityError, consumed now u p b2 db)"
    using flush_insert_clash [OF assms(2) refl] assms(1,2) g o
    by (simp add: consume_try_def assms(6) stage_credit_def find_bucket_ok)
  obtain r db' where "consume_try quiet now u p n origin (consumed now u p b2 db) = (Inr r, db')"
    "available_total_once now u p db' = Inr (Some (max 0 (max 0 (t - m) - n)))"
    using consume_try_quiet_spec [OF s(1) plan_of_consumed assms(4), of now origin] s(3) by auto
  moreover have "max 0 (max 0 (t - m) - n) = max 0 (t - (n + m))" using assms(4) by auto
  ultimately show ?thesis using f s(2) by (simp add: consume_once_def assms(7))
qed

text \<open>A commit that is applied but whose reply is lost is charged a second time by the retry.\<close>

lemma reply_lost_charges_twice:
  assumes "ledger_ok db" "plan_of u p db = Some a" "0 \<le> n"
    and "env 0 False = quiet\<lparr>te_commit := Commit_reply_lost (DBConnectionError msg)\<rparr>"
    and "env 1 False = quiet"
  shows "\<exists>r db'. consume env now u p n origin db = (Inr r, db')
     \<and> (\<exists>t. available_total_once now u p db = Inr (Some t)
          \<and> available_total_once now u p db' = Inr (Some (max 0 (t - 2 * n))))"
proof -
  obtain r db1 t where c: "consume_try quiet now u p n origin db = (Inr r, db1)" "ledger_ok db1"
    "plan_of u p db1 = Some r" "available_total_once now u p db = Inr (Some t)"
    "available_total_once now u p db1 = Inr (Some (max 0 (t - n)))"
    using consume_try_quiet_spec [OF assms(1-3), of now origin] by auto
  have l: "consume_try (env 0 False) now u p n origin db = (Inl (DBConnectionError msg), db1)"
    using c(1) by (auto simp: consume_try_def assms(4) quiet_def Let_def split: sum.splits)
  obtain r2 db2 where "consume_try quiet now u p n origin db1 = (Inr r2, db2)"
    "available_total_once now u p db2 = Inr (Some (max 0 (max 0 (t - n) - n)))"
    using consume_try_quiet_spec [OF c(2,3) assms(3), of now origin] c(5) by auto
  moreover have "max 0 (max 0 (t - n) - n) = max 0 (t - 2 * n)" using assms(3) by auto
  ultimately show ?thesis
    using l c(4) by (simp add: consume_def consume_once_def assms(5) [unfolded One_nat_def])
qed

subsection \<open>Properties\<close>

text \<open>A ledger with one paying user, for the concrete instances below.\<close>

definition sample_sub :: "subscription_tier \<Rightarrow> sub_row" where
  "sample_sub t = (new_sub_row ''user:7'' (Some 7) t (Civil 2026 5 1 0))
     \<lparr>sr_purchased_credits := 10, sr_carryover_credits := 3\<rparr>"

definition sample_ledger :: "subscription_tier \<Rightarrow> ledger" where
  "sample_ledger t = \<lparr>lg_credits = [], lg_subs = [sample_sub t], lg_txns = []\<rparr>"

lemma sample_ledger_ok: "ledger_ok (sample_ledger t)"
  by (simp add: ledger_ok_def sample_ledger_def sample_sub_def new_sub_row_def unique_nullable_def)

lemma sample_rows [simp]: "bucket u p (sample_ledger t) = None"
  "wallet_row 7 (sample_ledger t) = Some (sample_sub t)" "user_tier 7 (sample_ledger t) = t"
  "plan_of 7 p (sample_ledger t) = tp_monthly_conversion_credits (for_tier t)"
  by (simp_all add: bucket_def wallet_row_def user_tier_def plan_of_def sample_ledger_def
      sample_sub_def new_sub_row_def sql_select_def sql_first_def)

text \<open>C33: an undisturbed charge does what the pre-check promised. When the worker's pre-check reports
  a total \<open>t\<close> for a user, consuming \<open>n\<close> credits succeeds, keeps every table constraint and balance
  invariant, leaves exactly \<open>max 0 (t - n)\<close> by the same pre-check, and no other user's total
  changes.\<close>

theorem consume_matches_precheck:
  assumes "ledger_ok db" "available_total_once now u p db = Inr (Some t)" "0 \<le> n"
  shows "\<exists>r db'. consume quiet_all now u p n origin db = (Inr r, db') \<and> ledger_ok db'
     \<and> available_total_once now u p db' = Inr (Some (max 0 (t - n)))
     \<and> (\<forall>v q. v \<noteq> u \<longrightarrow> available_total_once now v q db' = available_total_once now v q db)"
proof -
  obtain a where "plan_of u p db = Some a"
    using assms(1,2) by (auto simp: available_total_once_ok)
  from consume_try_quiet_spec [OF assms(1) this assms(3), of now origin] assms(2)
  show ?thesis by (auto dest: consume_quiet)
qed

theorem consume_matches_precheck_witness:
  "\<exists>r db'. consume quiet_all (Civil 2026 5 2 0) 7 ''2026-05'' 20 Origin_WEB (sample_ledger Tier_PRO)
        = (Inr r, db')
     \<and> available_total_once (Civil 2026 5 2 0) 7 ''2026-05'' db' = Inr (Some 493)"
proof -
  have "available_total_once (Civil 2026 5 2 0) 7 ''2026-05'' (sample_ledger Tier_PRO) = Inr (Some 513)"
    by (simp add: available_total_once_ok sample_ledger_ok wallet_view_def available_total_def
        live_carryover_def wallet_expiry_def expiry_instant_def ensure_utc_def sample_sub_def
        new_sub_row_def)
  from consume_matches_precheck [OF sample_ledger_ok this, of 20 Origin_WEB] show ?thesis by auto
qed

text \<open>the order in which a user's jobs are charged does not matter: two histories of charges with
  the same sum both succeed and leave the same spendable total.\<close>

theorem charge_order_irrelevant:
  assumes "ledger_ok db" "plan_of u p db \<noteq> None"
    and "\<forall>n \<in> set ns. 0 \<le> n" "\<forall>m \<in> set ms. 0 \<le> m" "sum_list ns = sum_list ms"
  shows "\<exists>d1 d2. account.spend_all now u p origin ns db = Inr d1
     \<and> account.spend_all now u p origin ms db = Inr d2
     \<and> spendable_total now u p d1 = spendable_total now u p d2"
  using account.spend_order_irrelevant [of db u p ns ms] assms by simp

theorem charge_order_irrelevant_witness:
  "\<exists>d1 d2. account.spend_all (Civil 2026 5 2 0) 7 ''2026-05'' Origin_API [4, 600] (sample_ledger Tier_PRO) = Inr d1
     \<and> account.spend_all (Civil 2026 5 2 0) 7 ''2026-05'' Origin_API [600, 4] (sample_ledger Tier_PRO) = Inr d2
     \<and> spendable_total (Civil 2026 5 2 0) 7 ''2026-05'' d1 = spendable_total (Civil 2026 5 2 0) 7 ''2026-05'' d2"
  by (rule charge_order_irrelevant) (simp_all add: sample_ledger_ok)

text \<open>two workers that both create the first bucket of a month lose nothing: when the other
  worker's charge of \<open>m\<close> commits between this worker's read and its insert, the unique constraint
  rejects the insert, the retry runs on the new bucket, and both charges are taken.\<close>

theorem first_bucket_race_safe:
  assumes "ledger_ok db" "bucket u p db = None" "plan_of u p db = Some a" "0 \<le> n" "0 \<le> m"
    and "env False = \<lparr>te_before_save = id,
           te_before_commit = (\<lambda>d. snd (consume_try quiet now u p m origin' d)), te_commit = Commit_ok\<rparr>"
    and "env True = quiet"
  shows "\<exists>r db'. consume_once env now u p n origin db = (Inr r, db')
     \<and> (\<exists>t. available_total_once now u p db = Inr (Some t)
          \<and> available_total_once now u p db' = Inr (Some (max 0 (t - (n + m)))))"
  by (rule bucket_race_repaired [OF assms])

theorem first_bucket_race_safe_witness:
  "\<exists>r db'. consume_once (\<lambda>retried. if retried then quiet else \<lparr>te_before_save = id,
        te_before_commit = (\<lambda>d. snd (consume_try quiet (Civil 2026 5 2 0) 7 ''2026-05'' 6 Origin_WEB d)),
        te_commit = Commit_ok\<rparr>) (Civil 2026 5 2 0) 7 ''2026-05'' 4 Origin_WEB (sample_ledger Tier_PRO)
      = (Inr r, db')"
  using first_bucket_race_safe [of "sample_ledger Tier_PRO" 7 "''2026-05''" 500 4 6
      "\<lambda>retried. if retried then quiet else \<lparr>te_before_save = id,
        te_before_commit = (\<lambda>d. snd (consume_try quiet (Civil 2026 5 2 0) 7 ''2026-05'' 6 Origin_WEB d)),
        te_commit = Commit_ok\<rparr>" "Civil 2026 5 2 0" Origin_WEB Origin_WEB]
  by (auto simp: sample_ledger_ok)

text \<open>the retry of a dropped connection is not idempotent: when a charge is committed and only the
  reply is lost, the second attempt charges again, so the user pays \<open>2 * n\<close> for one job.\<close>

theorem lost_reply_double_charge:
  assumes "ledger_ok db" "plan_of u p db = Some a" "0 \<le> n"
    and "env 0 False = quiet\<lparr>te_commit := Commit_reply_lost (DBConnectionError msg)\<rparr>"
    and "env 1 False = quiet"
  shows "\<exists>r db'. consume env now u p n origin db = (Inr r, db')
     \<and> (\<exists>t. available_total_once now u p db = Inr (Some t)
          \<and> available_total_once now u p db' = Inr (Some (max 0 (t - 2 * n))))"
  by (rule reply_lost_charges_twice [where env = env, OF assms])

theorem lost_reply_double_charge_witness:
  "\<exists>r db'. consume (\<lambda>k rt. if k = 0 then quiet\<lparr>te_commit := Commit_reply_lost (DBConnectionError ''closed'')\<rparr>
        else quiet) (Civil 2026 5 2 0) 7 ''2026-05'' 4 Origin_WEB (sample_ledger Tier_PRO) = (Inr r, db')"
  using lost_reply_double_charge [of "sample_ledger Tier_PRO" 7 "''2026-05''" 500 4
      "\<lambda>k rt. if k = 0 then quiet\<lparr>te_commit := Commit_reply_lost (DBConnectionError ''closed'')\<rparr>
        else quiet" "''closed''" "Civil 2026 5 2 0" Origin_WEB]
  by (auto simp: sample_ledger_ok)

text \<open>a user whose tier has no monthly grant and who has no bucket can never be charged, not even
  from purchased credits: every consumption raises and changes nothing.\<close>

theorem no_grant_never_charged:
  assumes "ledger_ok db" "bucket u p db = None"
    "tp_monthly_conversion_credits (for_tier (user_tier u db)) = None"
  shows "consume env now u p n origin db
    = (Inl (GuestTierHasNoPersistentCredits ''Guest tier does not use persistent monthly credits.''), db)"
  using consume_no_grant assms by (simp add: plan_of_def)

theorem no_grant_never_charged_witness:
  "consume quiet_all (Civil 2026 5 2 0) 7 ''2026-05'' 5 Origin_API (sample_ledger Tier_ENTERPRISE)
    = (Inl (GuestTierHasNoPersistentCredits ''Guest tier does not use persistent monthly credits.''),
       sample_ledger Tier_ENTERPRISE)"
  by (rule no_grant_never_charged) (simp_all add: sample_ledger_ok)

text \<open>consumption is not serialised on an existing bucket: when another worker's whole charge
  commits between this worker's read and its commit, the later commit overwrites it. Both calls
  succeed, and the ledger records one of the two charges.\<close>

theorem concurrent_charge_lost:
  "let now = Civil 2026 5 2 0; p = ''2026-05'';
       db = snd (consume_try quiet now 7 p 5 Origin_WEB (sample_ledger Tier_PRO));
       env = \<lparr>te_before_save = id,
              te_before_commit = (\<lambda>d. snd (consume_try quiet now 7 p 40 Origin_WEB d)),
              te_commit = Commit_ok\<rparr>;
       (r, db') = consume_try env now 7 p 30 Origin_WEB db
   in available_total_once now 7 p db = Inr (Some 508) \<and> \<not> isl r
      \<and> available_total_once now 7 p db' = Inr (Some 478)"
  by code_simp

end
