(* ===== verification/Billing.thy ===== *)
theory Billing
  imports Credit_Ledger
begin

section \<open>Billing: the payment webhook and plan changes\<close>

text \<open>
  Models the write side of billing: the Stripe webhook
  (\<open>src/presentation/api/routers/v1/webhooks.py\<close>) with its tier resolution, subscription
  activation, credit grants and downgrades, and the \<open>change-plan\<close> route
  (\<open>routers/v1/subscriptions.py\<close>). The Stripe SDK is a parameter: signature verification, the
  retrieval of a subscription and the plan change are functions given to the handlers. A Stripe
  payload is a record of the fields the handlers read; metadata maps strings to strings. A
  handler returns its result with the ledger it leaves behind, since it commits more than once.
\<close>

subsection \<open>Tier resolution\<close>

record price_settings =
  ps_price_pro :: "string option"
  ps_price_pro_plus :: "string option"
  ps_price_enterprise :: "string option"

definition tier_by_name :: "(string \<times> subscription_tier) list" where
  "tier_by_name = [(''pro'', Tier_PRO), (''pro_plus'', Tier_PRO_PLUS), (''enterprise'', Tier_ENTERPRISE)]"

definition lookup_tier_name :: "string option \<Rightarrow> subscription_tier option" where
  "lookup_tier_name tier_name =
     map_of tier_by_name (py_lower (case tier_name of None \<Rightarrow> [] | Some n \<Rightarrow> n))"

definition resolve_tier :: "string option \<Rightarrow> subscription_tier result" where
  "resolve_tier tier_name = (case lookup_tier_name tier_name of
       None \<Rightarrow> Inl (ValueError ''Unrecognised subscription tier'')
     | Some t \<Rightarrow> Inr t)"

text \<open>A dictionary display keeps the last value of a repeated key.\<close>

definition tier_for_price_id :: "price_settings \<Rightarrow> string option \<Rightarrow> subscription_tier option" where
  "tier_for_price_id s price_id =
     (if price_id = None \<or> price_id = Some [] then None
      else map_of [(ps_price_enterprise s, Tier_ENTERPRISE), (ps_price_pro_plus s, Tier_PRO_PLUS),
                   (ps_price_pro s, Tier_PRO)] price_id)"

definition resolve_activation_tier ::
    "price_settings \<Rightarrow> string option \<Rightarrow> string option \<Rightarrow> subscription_tier result" where
  "resolve_activation_tier s tier_name price_id =
     (case tier_for_price_id s price_id of
        Some t \<Rightarrow> Inr t
      | None \<Rightarrow> (case lookup_tier_name tier_name of
          Some t \<Rightarrow> Inr t
        | None \<Rightarrow> Inl (ValueError ''Unrecognised subscription tier'')))"

definition first_price_id :: "(string \<times> json) list \<Rightarrow> string option" where
  "first_price_id d = (case j_get d ''items'' of
       J_obj items \<Rightarrow> (case j_get items ''data'' of
           J_list (J_obj first # _) \<Rightarrow> (case j_get first ''price'' of
               J_obj price \<Rightarrow> (case j_get price ''id'' of J_str i \<Rightarrow> Some i | _ \<Rightarrow> None)
             | _ \<Rightarrow> None)
         | _ \<Rightarrow> None)
     | _ \<Rightarrow> None)"

subsection \<open>Handlers\<close>

text \<open>The second half of \<open>_activate_subscription\<close>: raise the plan bucket to the tier's grant.\<close>

definition raise_plan_bucket ::
    "civil \<Rightarrow> string \<Rightarrow> subscription_tier \<Rightarrow> ledger \<Rightarrow> unit result \<times> ledger" where
  "raise_plan_bucket now user_id tier db =
     (case tp_monthly_conversion_credits (for_tier tier) of
        None \<Rightarrow> (Inr (), db)
      | Some allowance \<Rightarrow>
        (if allowance = 0 then (Inr (), db)
         else let period_key = period_key_of now in
         case get_credit user_id period_key db of
           Inl e \<Rightarrow> (Inl e, db)
         | Inr (Some existing) \<Rightarrow>
           (let delta = allowance - cr_allowance existing in
            if 0 < delta then
              (case save_credit now (existing\<lparr>cr_allowance := allowance,
                   cr_remaining := min (cr_remaining existing + delta) allowance\<rparr>) db of
                 Inl e \<Rightarrow> (Inl e, db) | Inr db' \<Rightarrow> (Inr (), db'))
            else (Inr (), db))
         | Inr None \<Rightarrow> (case credit_from_tier user_id period_key tier of
               Inl e \<Rightarrow> (Inl e, db)
             | Inr c \<Rightarrow> (case save_credit now c db of
                   Inl e \<Rightarrow> (Inl e, db) | Inr db' \<Rightarrow> (Inr (), db')))))"

definition activate_subscription :: "price_settings \<Rightarrow> civil \<Rightarrow> string \<Rightarrow> string option \<Rightarrow>
    string option \<Rightarrow> string option \<Rightarrow> string option \<Rightarrow> ledger \<Rightarrow> unit result \<times> ledger" where
  "activate_subscription s now user_id tier_name customer subscription_id price_id db =
     (case resolve_activation_tier s tier_name price_id of
        Inl e \<Rightarrow> (Inl e, db)
      | Inr tier \<Rightarrow> (case py_int user_id of
          Inl e \<Rightarrow> (Inl e, db)
        | Inr uid \<Rightarrow>
          (case upsert_subscription now (''user:'' @ user_id) (Some uid) tier None customer
                  subscription_id db of
             Inl e \<Rightarrow> (Inl e, db)
           | Inr db1 \<Rightarrow> raise_plan_bucket now user_id tier db1)))"

text \<open>\<open>_grant_purchased_credits\<close>; \<open>others\<close> is what other transactions commit between the read of
  the wallet row and this handler's commit, \<open>txid\<close> the fresh UUID.\<close>

definition grant_on_row :: "(ledger \<Rightarrow> ledger) \<Rightarrow> civil \<Rightarrow> string \<Rightarrow> int \<Rightarrow> int \<Rightarrow> string option \<Rightarrow>
    sub_row \<Rightarrow> ledger \<Rightarrow> unit result \<times> ledger" where
  "grant_on_row others now txid uid credits reference_id row db =
     (let db2 = others db;
          staged_db = db2\<lparr>lg_subs := sql_update (\<lambda>r. sr_actor_key r = sr_actor_key row)
             (\<lambda>r. r\<lparr>sr_purchased_credits := staged (sr_purchased_credits row)
                       (sr_purchased_credits row + credits) (sr_purchased_credits r),
                    sr_updated_at := now\<rparr>) (lg_subs db2)\<rparr>
      in case record_transaction now txid uid credits ''PURCHASE'' reference_id
            (Some (''Purchased '' @ str_int credits @ '' credits via Stripe'')) staged_db of
           Inl e \<Rightarrow> (if e = IntegrityError then (Inr (), db2) else (Inl e, db2))
         | Inr db3 \<Rightarrow> (Inr (), db3))"

definition grant_purchased_credits :: "(ledger \<Rightarrow> ledger) \<Rightarrow> civil \<Rightarrow> string \<Rightarrow> string \<Rightarrow> int \<Rightarrow>
    string option \<Rightarrow> ledger \<Rightarrow> unit result \<times> ledger" where
  "grant_purchased_credits others now txid user_id credits reference_id db =
     (if reference_id = None \<or> reference_id = Some [] then (Inr (), db)
      else if credits < 1 \<or> 100000 < credits then (Inr (), db)
      else case py_int user_id of
        Inl e \<Rightarrow> (Inl e, db)
      | Inr uid \<Rightarrow>
        (if list_ex (\<lambda>t. tx_type t = ''PURCHASE'' \<and> tx_reference_id t = reference_id)
              (list_transactions uid 0 200 db)
         then (Inr (), db)
         else case get_subscription_row uid db of
           Inl e \<Rightarrow> (Inl e, db)
         | Inr (Some row) \<Rightarrow> grant_on_row others now txid uid credits reference_id row db
         | Inr None \<Rightarrow>
           (case upsert_subscription now (''user:'' @ user_id) (Some uid) Tier_FREE None None None db of
              Inl e \<Rightarrow> (Inl e, db)
            | Inr db1 \<Rightarrow> (case get_subscription_row uid db1 of
                Inl e \<Rightarrow> (Inl e, db1)
              | Inr None \<Rightarrow> (Inr (), db1)
              | Inr (Some row) \<Rightarrow> grant_on_row others now txid uid credits reference_id row db1))))"

definition downgrade_to_free :: "civil \<Rightarrow> string \<Rightarrow> ledger \<Rightarrow> unit result \<times> ledger" where
  "downgrade_to_free now user_id db = (case py_int user_id of
       Inl e \<Rightarrow> (Inl e, db)
     | Inr uid \<Rightarrow> (case upsert_subscription now (''user:'' @ user_id) (Some uid) Tier_FREE
                     None None None db of
           Inl e \<Rightarrow> (Inl e, db) | Inr db' \<Rightarrow> (Inr (), db')))"

text \<open>The object of an event, with the fields the handlers read.\<close>

record stripe_object =
  so_id :: "string option"
  so_metadata :: "(string \<times> string) list"
  so_payment_status :: "string option"
  so_customer :: "string option"
  so_subscription :: "string option"
  so_status :: "string option"
  so_fields :: "(string \<times> json) list"

definition truthy :: "string option \<Rightarrow> bool" where
  "truthy s = (s \<noteq> None \<and> s \<noteq> Some [])"

definition handled_credit_purchase_metadata :: "(string \<times> string) list \<Rightarrow> string option \<times> int" where
  "handled_credit_purchase_metadata metadata =
     (map_of metadata ''user_id'',
      (case map_of metadata ''credits'' of
         None \<Rightarrow> 0
       | Some c \<Rightarrow> (case py_int c of Inl _ \<Rightarrow> 0 | Inr n \<Rightarrow> n)))"

text \<open>\<open>except ValueError\<close>: skip and log.\<close>

definition skip_value_error :: "unit result \<times> ledger \<Rightarrow> unit result \<times> ledger" where
  "skip_value_error r = (case r of (Inl (ValueError _), db) \<Rightarrow> (Inr (), db) | _ \<Rightarrow> r)"

record webhook_env =
  we_prices :: price_settings
  we_now :: civil
  we_txid :: string
  we_others :: "ledger \<Rightarrow> ledger"
  we_secret_key_set :: bool
  we_retrieve :: "string \<Rightarrow> stripe_object result"

definition handle_checkout_completed ::
    "webhook_env \<Rightarrow> stripe_object \<Rightarrow> ledger \<Rightarrow> unit result \<times> ledger" where
  "handle_checkout_completed w ev db =
     (if so_payment_status ev = Some ''unpaid'' then (Inr (), db)
      else if map_of (so_metadata ev) ''kind'' = Some ''credit_purchase'' then
        (let (user_id, credits) = handled_credit_purchase_metadata (so_metadata ev) in
         if truthy user_id \<and> credits \<noteq> 0
         then grant_purchased_credits (we_others w) (we_now w) (we_txid w) (the user_id) credits
                (so_id ev) db
         else (Inr (), db))
      else
        (let user_id = map_of (so_metadata ev) ''user_id'';
             tier = (case map_of (so_metadata ev) ''tier'' of None \<Rightarrow> Some ''pro'' | Some t \<Rightarrow> Some t)
         in if truthy user_id
            then skip_value_error (activate_subscription (we_prices w) (we_now w) (the user_id) tier
                   (so_customer ev) (so_subscription ev) None db)
            else (Inr (), db)))"

definition refresh_allowance_for_invoice ::
    "webhook_env \<Rightarrow> stripe_object \<Rightarrow> ledger \<Rightarrow> unit result \<times> ledger" where
  "refresh_allowance_for_invoice w ev db =
     (if \<not> truthy (so_subscription ev) then (Inr (), db)
      else if \<not> we_secret_key_set w then (Inr (), db)
      else case we_retrieve w (the (so_subscription ev)) of
        Inl _ \<Rightarrow> (Inr (), db)
      | Inr sub \<Rightarrow>
        (let user_id = map_of (so_metadata sub) ''user_id'';
             tier_name = map_of (so_metadata sub) ''tier''
         in if \<not> truthy user_id then (Inr (), db)
            else skip_value_error (activate_subscription (we_prices w) (we_now w) (the user_id)
                   tier_name (so_customer ev) (so_subscription ev) (first_price_id (so_fields sub)) db)))"

definition handle_subscription_updated ::
    "webhook_env \<Rightarrow> stripe_object \<Rightarrow> ledger \<Rightarrow> unit result \<times> ledger" where
  "handle_subscription_updated w ev db =
     (let user_id = map_of (so_metadata ev) ''user_id'' in
      if \<not> truthy user_id then (Inr (), db)
      else if so_status ev = Some ''canceled'' then downgrade_to_free (we_now w) (the user_id) db
      else skip_value_error (activate_subscription (we_prices w) (we_now w) (the user_id)
             (map_of (so_metadata ev) ''tier'') (so_customer ev) (so_id ev)
             (first_price_id (so_fields ev)) db))"

definition dispatch_event :: "webhook_env \<Rightarrow> string \<Rightarrow> stripe_object \<Rightarrow> ledger \<Rightarrow>
    unit result \<times> ledger" where
  "dispatch_event w event_type ev db =
     (if event_type \<in> {''checkout.session.completed'', ''checkout.session.async_payment_succeeded'',
           ''checkout.session.async_payment_failed''}
      then handle_checkout_completed w ev db
      else if event_type = ''invoice.payment_succeeded'' then refresh_allowance_for_invoice w ev db
      else if event_type = ''customer.subscription.updated'' then handle_subscription_updated w ev db
      else if event_type = ''customer.subscription.deleted'' then
        (let user_id = map_of (so_metadata ev) ''user_id'' in
         if truthy user_id then downgrade_to_free (we_now w) (the user_id) db else (Inr (), db))
      else (Inr (), db))"

record webhook_request =
  wr_content_length :: "string option"
  wr_payload :: string
  wr_signature :: string

text \<open>\<open>verify\<close> is \<open>stripe.Webhook.construct_event\<close>; it returns the event's type and object.\<close>

definition handle_stripe_webhook :: "string option \<Rightarrow>
    (string \<Rightarrow> string \<Rightarrow> string \<Rightarrow> (string \<times> stripe_object) result) \<Rightarrow> webhook_env \<Rightarrow>
    webhook_request \<Rightarrow> ledger \<Rightarrow> string result \<times> ledger" where
  "handle_stripe_webhook webhook_secret verify w req db =
     (case webhook_secret of
        None \<Rightarrow> (Inl (HTTPException 501 ''Stripe webhook secret not configured''), db)
      | Some secret \<Rightarrow>
        (if (case wr_content_length req of None \<Rightarrow> False
              | Some l \<Rightarrow> (case py_int l of Inl _ \<Rightarrow> False | Inr n \<Rightarrow> 1024 * 1024 < n))
         then (Inl (HTTPException 413 ''Webhook payload too large''), db)
         else case verify (wr_payload req) (wr_signature req) secret of
           Inl _ \<Rightarrow> (Inl (HTTPException 400 ''Invalid webhook signature''), db)
         | Inr (event_type, ev) \<Rightarrow>
           (case dispatch_event w event_type ev db of
              (Inl e, db') \<Rightarrow> (Inl e, db') | (Inr (), db') \<Rightarrow> (Inr event_type, db'))))"

subsection \<open>Changing the plan\<close>

datatype api_tier = Api_FREE | Api_PRO | Api_PRO_PLUS | Api_ENTERPRISE

fun api_tier_to_domain :: "api_tier \<Rightarrow> subscription_tier" where
  "api_tier_to_domain Api_FREE = Tier_FREE"
| "api_tier_to_domain Api_PRO = Tier_PRO"
| "api_tier_to_domain Api_PRO_PLUS = Tier_PRO_PLUS"
| "api_tier_to_domain Api_ENTERPRISE = Tier_ENTERPRISE"

fun domain_tier_to_api :: "subscription_tier \<Rightarrow> api_tier" where
  "domain_tier_to_api Tier_GUEST = Api_FREE"
| "domain_tier_to_api Tier_FREE = Api_FREE"
| "domain_tier_to_api Tier_PREMIUM = Api_PRO"
| "domain_tier_to_api Tier_PRO = Api_PRO"
| "domain_tier_to_api Tier_PRO_PLUS = Api_PRO_PLUS"
| "domain_tier_to_api Tier_ENTERPRISE = Api_ENTERPRISE"

fun api_tier_value :: "api_tier \<Rightarrow> string" where
  "api_tier_value Api_FREE = ''FREE''"
| "api_tier_value Api_PRO = ''PRO''"
| "api_tier_value Api_PRO_PLUS = ''PRO_PLUS''"
| "api_tier_value Api_ENTERPRISE = ''ENTERPRISE''"

fun tier_rank :: "subscription_tier \<Rightarrow> nat" where
  "tier_rank Tier_GUEST = 0" | "tier_rank Tier_FREE = 0" | "tier_rank Tier_PREMIUM = 1"
| "tier_rank Tier_PRO = 1" | "tier_rank Tier_PRO_PLUS = 2" | "tier_rank Tier_ENTERPRISE = 3"

record plan_change_result =
  pc_previous_period_end :: "datetime option"
  pc_scheduled_effective_at :: "datetime option"

record stripe_service =
  ss_enabled :: bool
  ss_resolve_price_id :: "string \<Rightarrow> string option"
  ss_change_plan :: "string \<Rightarrow> string \<Rightarrow> int \<Rightarrow> string \<Rightarrow> bool \<Rightarrow> plan_change_result option"

record change_plan_response =
  cp_tier :: api_tier
  cp_previous_tier :: api_tier
  cp_plan_credits :: "int option"
  cp_carryover_credits :: "int option"
  cp_carryover_expires_at :: "datetime option"

text \<open>The three writes of an upgrade, committed together.\<close>

definition apply_upgrade :: "civil \<Rightarrow> string \<Rightarrow> int \<Rightarrow> subscription_tier \<Rightarrow> sub_row \<Rightarrow> int \<Rightarrow>
    datetime option \<Rightarrow> ledger \<Rightarrow> ledger result" where
  "apply_upgrade now txid uid requested row old_plan_remaining period_end db =
     (let period_key = period_key_of now;
          new_grant = (case tp_monthly_conversion_credits (for_tier requested) of
             None \<Rightarrow> 0 | Some g \<Rightarrow> g);
          new_carryover = sr_carryover_credits row + old_plan_remaining
      in rbind (update_sub (sr_actor_key row) (\<lambda>r. r\<lparr>sr_tier := requested\<rparr>) db) (\<lambda>db1.
         rbind (set_wallet now uid new_carryover period_end (sr_purchased_credits row)
                  (sr_purchased_credits_first row) db1) (\<lambda>w.
         rbind (credit_post_init \<lparr>cr_owner_id = str_int uid, cr_period_key = period_key,
                  cr_allowance = new_grant, cr_remaining = new_grant\<rparr>) (\<lambda>c.
         rbind (save_credit now c (case w of None \<Rightarrow> db1 | Some db2 \<Rightarrow> db2)) (\<lambda>db3.
         record_transaction now txid uid old_plan_remaining ''CARRYOVER'' None
           (Some (''Carried '' @ str_int old_plan_remaining @ '' unspent plan credits over from ''
              @ api_tier_value (domain_tier_to_api (sr_tier row)) @ '' to '' @ tier_value requested)) db3)))))"

definition change_plan :: "stripe_service \<Rightarrow> civil \<Rightarrow> string \<Rightarrow> int \<Rightarrow> api_tier \<Rightarrow> ledger \<Rightarrow>
    change_plan_response result \<times> ledger" where
  "change_plan svc now txid uid payload_tier db =
     (if \<not> ss_enabled svc
      then (Inl (HTTPException 501
             ''Stripe integration is not configured. Set STRIPE_SECRET_KEY to enable plan changes.''), db)
      else let requested = api_tier_to_domain payload_tier in
      if requested = Tier_ENTERPRISE
      then (Inl (HTTPException 400 ''Enterprise is not self-serve; contact sales to change plans.''), db)
      else if requested = Tier_FREE
      then (Inl (HTTPException 400 ''Use the cancel endpoint to move to the FREE tier.''), db)
      else case get_subscription_row uid db of
        Inl e \<Rightarrow> (Inl e, db)
      | Inr None \<Rightarrow> (Inl (HTTPException 409
             ''No active paid subscription to change. Use checkout to start one.''), db)
      | Inr (Some row) \<Rightarrow>
        (if \<not> truthy (sr_stripe_subscription_id row)
         then (Inl (HTTPException 409
             ''No active paid subscription to change. Use checkout to start one.''), db)
         else if sr_tier row = requested
         then (Inl (HTTPException 400 ''Already subscribed to this plan''), db)
         else let new_price_id = ss_resolve_price_id svc (py_lower (tier_value requested)) in
         if \<not> truthy new_price_id
         then (Inl (HTTPException 400 ''No self-serve price is configured for this plan''), db)
         else let is_upgrade = tier_rank (sr_tier row) < tier_rank requested;
                  old_grant = (case tp_monthly_conversion_credits (for_tier (sr_tier row)) of
                     None \<Rightarrow> 0 | Some g \<Rightarrow> g)
         in case get_credit (str_int uid) (period_key_of now) db of
              Inl e \<Rightarrow> (Inl e, db)
            | Inr credit \<Rightarrow>
              (let old_plan_remaining = (case credit of Some c \<Rightarrow> cr_remaining c | None \<Rightarrow> old_grant)
               in case ss_change_plan svc (the (sr_stripe_subscription_id row)) (the new_price_id) uid
                    (py_lower (tier_value requested)) is_upgrade of
                 None \<Rightarrow> (Inl (HTTPException 502 ''Stripe subscription could not be changed''), db)
               | Some res \<Rightarrow>
                 (if \<not> is_upgrade
                  then (Inr \<lparr>cp_tier = domain_tier_to_api requested,
                       cp_previous_tier = domain_tier_to_api (sr_tier row),
                       cp_plan_credits = None, cp_carryover_credits = None,
                       cp_carryover_expires_at = None\<rparr>, db)
                  else case apply_upgrade now txid uid requested row old_plan_remaining
                         (pc_previous_period_end res) db of
                     Inl e \<Rightarrow> (Inl e, db)
                   | Inr db' \<Rightarrow> (Inr \<lparr>cp_tier = domain_tier_to_api requested,
                       cp_previous_tier = domain_tier_to_api (sr_tier row),
                       cp_plan_credits = Some (case tp_monthly_conversion_credits (for_tier requested)
                          of None \<Rightarrow> 0 | Some g \<Rightarrow> g),
                       cp_carryover_credits = Some (sr_carryover_credits row + old_plan_remaining),
                       cp_carryover_expires_at = pc_previous_period_end res\<rparr>, db')))))"

subsection \<open>Writes keep the constraints\<close>

lemma unique_nullable_append: "unique_nullable key (t @ [r]) \<longleftrightarrow>
  unique_nullable key t \<and> (key r = None \<or> key r \<notin> key ` set t)"
  by (auto simp: unique_nullable_def)

lemma save_credit_ok:
  assumes "ledger_ok db" "credit_ok c"
  shows "\<exists>db'. save_credit now c db = Inr db' \<and> ledger_ok db' \<and> lg_subs db' = lg_subs db
    \<and> lg_txns db' = lg_txns db
    \<and> (\<exists>r. sql_first (sql_select (\<lambda>r. mc_key r = (cr_owner_id c, cr_period_key c)) (lg_credits db')) = Some r
         \<and> mc_allowance r = cr_allowance c \<and> mc_remaining r = cr_remaining c)
    \<and> (\<forall>k. k \<noteq> (cr_owner_id c, cr_period_key c) \<longrightarrow>
         sql_first (sql_select (\<lambda>r. mc_key r = k) (lg_credits db'))
         = sql_first (sql_select (\<lambda>r. mc_key r = k) (lg_credits db)))"
proof -
  let ?k = "(cr_owner_id c, cr_period_key c)"
  let ?l = "sql_first (sql_select (\<lambda>r. mc_key r = ?k) (lg_credits db))"
  have u: "unique_key mc_key (lg_credits db)" using assms(1) by (simp add: ledger_ok_def)
  have f: "find_bucket (cr_owner_id c) (cr_period_key c) db = Inr ?l"
    using u by (simp add: find_bucket_def scalar_one_unique)
  show ?thesis
  proof (cases ?l)
    case None
    then have "?k \<notin> mc_key ` set (lg_credits db)" by (auto simp: sql_first_None)
    with None f assms show ?thesis
      by (auto simp: save_credit_def stage_credit_def mc_key_def ledger_ok_def unique_key_append
          sql_first_append credit_ok_def split: option.splits)
  next
    case (Some l)
    then have l: "l \<in> set (lg_credits db)" "mc_key l = ?k" by (auto dest: sql_first_Some)
    have eq: "mc_key r = ?k \<longleftrightarrow> r = l" if "r \<in> set (lg_credits db)" for r
      using unique_key_inj [OF u that l(1)] l(2) by auto
    let ?f = "\<lambda>r. r\<lparr>mc_allowance := staged (mc_allowance l) (cr_allowance c) (mc_allowance r),
               mc_remaining := staged (mc_remaining l) (cr_remaining c) (mc_remaining r),
               mc_updated_at := now\<rparr>"
    let ?t = "sql_update (\<lambda>r. mc_key r = ?k) ?f (lg_credits db)"
    have k: "mc_key (?f r) = mc_key r" for r by (simp add: mc_key_def)
    have s: "save_credit now c db = Inr (db\<lparr>lg_credits := ?t\<rparr>)"
      using f Some l(2) by (simp add: save_credit_def stage_credit_def)
    have "ledger_ok (db\<lparr>lg_credits := ?t\<rparr>)"
      using assms eq by (auto simp: ledger_ok_def unique_key_update k set_sql_update credit_ok_def)
    moreover have "sql_first (sql_select (\<lambda>r. mc_key r = ?k) ?t) = Some (?f l)"
      using Some l(2) by (simp add: sql_first_update k)
    moreover have "sql_first (sql_select (\<lambda>r. mc_key r = k') ?t)
        = sql_first (sql_select (\<lambda>r. mc_key r = k') (lg_credits db))" if "k' \<noteq> ?k" for k'
    proof -
      let ?x = "sql_first (sql_select (\<lambda>r. mc_key r = k') (lg_credits db))"
      have "sql_first (sql_select (\<lambda>r. mc_key r = k') ?t)
          = map_option (\<lambda>r. if mc_key r = ?k then ?f r else r) ?x"
        by (rule sql_first_update) (simp add: k)
      also have "\<dots> = ?x"
        using that by (cases ?x) (auto dest: sql_first_Some)
      finally show ?thesis .
    qed
    ultimately show ?thesis using s by auto
  qed
qed

text \<open>What an upsert of a subscription keeps.\<close>

definition pools :: "sub_row \<Rightarrow> int \<times> int \<times> datetime option \<times> bool" where
  "pools r = (sr_purchased_credits r, sr_carryover_credits r, sr_carryover_expires_at r,
     sr_purchased_credits_first r)"

lemma get_by_actor_mem: "get_by_actor a db = Some r \<Longrightarrow> r \<in> set (lg_subs db) \<and> sr_actor_key r = a"
  by (auto simp: get_by_actor_def dest: sql_first_Some)

lemma update_sub_Inr: "update_sub a f db = Inr db' \<longleftrightarrow>
  db' = db\<lparr>lg_subs := sql_update (\<lambda>r. sr_actor_key r = a) f (lg_subs db)\<rparr>
  \<and> unique_nullable sr_user_id (sql_update (\<lambda>r. sr_actor_key r = a) f (lg_subs db))"
  by (auto simp: update_sub_def Let_def)

lemma ledger_ok_update_sub:
  assumes "ledger_ok db" "update_sub a f db = Inr db'"
    "\<And>r. sr_actor_key (f r) = sr_actor_key r"
    "\<And>r. r \<in> set (lg_subs db) \<Longrightarrow> sr_actor_key r = a \<Longrightarrow>
       0 \<le> sr_purchased_credits (f r) \<and> 0 \<le> sr_carryover_credits (f r)"
  shows "ledger_ok db'"
  using assms by (auto simp: ledger_ok_def update_sub_Inr unique_key_update set_sql_update)

lemma get_by_actor_update_sub:
  assumes "update_sub a f db = Inr db'" "\<And>r. sr_actor_key (f r) = sr_actor_key r"
  shows "get_by_actor a db' = map_option f (get_by_actor a db)"
    "a' \<noteq> a \<Longrightarrow> get_by_actor a' db' = get_by_actor a' db"
proof -
  have g: "get_by_actor x db' = map_option (\<lambda>r. if sr_actor_key r = a then f r else r) (get_by_actor x db)" for x
    using assms by (simp add: update_sub_Inr get_by_actor_def sql_first_update)
  show "get_by_actor a db' = map_option f (get_by_actor a db)"
    using g [of a] get_by_actor_mem [of a db] by (cases "get_by_actor a db") auto
  show "get_by_actor a' db' = get_by_actor a' db" if "a' \<noteq> a"
    using g [of a'] get_by_actor_mem [of a' db] that by (cases "get_by_actor a' db") auto
qed

lemma upsert_ok:
  assumes "ledger_ok db" "upsert_subscription now a uid tier used cust sub db = Inr db'"
  shows "ledger_ok db' \<and> lg_credits db' = lg_credits db \<and> lg_txns db' = lg_txns db
    \<and> (\<exists>r'. get_by_actor a db' = Some r' \<and> sr_tier r' = tier \<and> (uid \<noteq> None \<longrightarrow> sr_user_id r' = uid)
         \<and> pools r' = (case get_by_actor a db of Some r \<Rightarrow> pools r | None \<Rightarrow> (0, 0, None, False)))
    \<and> (\<forall>a'. a' \<noteq> a \<longrightarrow> get_by_actor a' db' = get_by_actor a' db)"
proof (cases "get_by_actor a db")
  case None
  with assms show ?thesis
    by (auto simp: upsert_subscription_def insert_sub_def ledger_ok_def unique_key_append
        unique_nullable_append new_sub_row_def get_by_actor_def sql_first_append pools_def
        split: if_splits option.splits)
next
  case (Some r)
  let ?f = "\<lambda>r. r\<lparr>sr_tier := tier, sr_user_id := (if uid \<noteq> None then uid else sr_user_id r),
     sr_used_storage_bytes := (case used of None \<Rightarrow> sr_used_storage_bytes r | Some n \<Rightarrow> n),
     sr_stripe_customer_id := (if cust \<noteq> None then cust else sr_stripe_customer_id r),
     sr_stripe_subscription_id := (if sub \<noteq> None then sub else sr_stripe_subscription_id r),
     sr_updated_at := now\<rparr>"
  have up: "update_sub a ?f db = Inr db'"
    using assms(2) Some by (simp add: upsert_subscription_def)
  have "ledger_ok db'"
    using assms(1) by (intro ledger_ok_update_sub [OF _ up]) (auto simp: ledger_ok_def)
  moreover note get_by_actor_update_sub [OF up]
  ultimately show ?thesis
    using up Some by (auto simp: update_sub_Inr pools_def)
qed

subsection \<open>Purchases\<close>

lemma grant_on_row_fresh:
  assumes "ledger_ok db" "wallet_row uid db = Some row" "0 \<le> credits"
    "tx_id ` set (lg_txns db) \<inter> {txid} = {}" "Some ref \<notin> tx_reference_id ` set (lg_txns db)"
  shows "\<exists>db'. grant_on_row id now txid uid credits (Some ref) row db = (Inr (), db') \<and> ledger_ok db'
    \<and> wallet_row uid db' = Some (row\<lparr>sr_purchased_credits := sr_purchased_credits row + credits,
          sr_updated_at := now\<rparr>)
    \<and> Some ref \<in> tx_reference_id ` set (lg_txns db') \<and> lg_credits db' = lg_credits db"
proof -
  let ?f = "\<lambda>r. r\<lparr>sr_purchased_credits := staged (sr_purchased_credits row)
        (sr_purchased_credits row + credits) (sr_purchased_credits r), sr_updated_at := now\<rparr>"
  let ?P = "\<lambda>r. sr_actor_key r = sr_actor_key row"
  let ?t = "\<lparr>tx_id = txid, tx_user_id = uid, tx_amount = credits, tx_type = ''PURCHASE'',
     tx_reference_id = Some ref,
     tx_description = Some (''Purchased '' @ str_int credits @ '' credits via Stripe''), tx_created_at = now\<rparr>"
  let ?db = "db\<lparr>lg_subs := sql_update ?P ?f (lg_subs db), lg_txns := lg_txns db @ [?t]\<rparr>"
  have g: "grant_on_row id now txid uid credits (Some ref) row db = (Inr (), ?db)"
    using assms(4,5) by (simp add: grant_on_row_def record_transaction_def insert_txn_def Let_def)
  have w: "wallet_row uid ?db = Some (row\<lparr>sr_purchased_credits := sr_purchased_credits row + credits,
      sr_updated_at := now\<rparr>)"
    using assms(2) by (simp add: wallet_row_def sql_first_update)
  have keys: "map sr_actor_key (sql_update ?P ?f (lg_subs db)) = map sr_actor_key (lg_subs db)"
    "map sr_user_id (sql_update ?P ?f (lg_subs db)) = map sr_user_id (lg_subs db)"
    by (rule map_sql_update_frame, simp)+
  have pos: "0 \<le> sr_purchased_credits (?f r) \<and> 0 \<le> sr_carryover_credits (?f r)"
      if "r \<in> set (lg_subs db)" "?P r" for r
    using that assms(1,3) wallet_row_mem [OF assms(2)] wallet_row_same(1) [OF assms(1,2)]
    by (auto simp: ledger_ok_def)
  have "ledger_ok ?db"
    using assms keys pos
    by (auto simp: ledger_ok_def unique_key_def unique_nullable_def set_sql_update)
  with g w show ?thesis by auto
qed

lemma grant_duplicate:
  assumes "Some ref \<in> tx_reference_id ` set (lg_txns (others db))"
  shows "grant_on_row others now txid uid credits (Some ref) row db = (Inr (), others db)"
  using assms by (simp add: grant_on_row_def record_transaction_def insert_txn_def Let_def)

lemma grant_replay:
  assumes "ledger_ok db" "py_int user_id = Inr uid" "wallet_row uid db = Some row"
    "Some ref \<in> tx_reference_id ` set (lg_txns db)"
  shows "grant_purchased_credits id now txid user_id credits (Some ref) db = (Inr (), db)"
  using assms grant_duplicate [of ref id db]
  by (simp add: grant_purchased_credits_def get_subscription_row_ok)

lemma wallet_row_by_actor:
  assumes "ledger_ok db" "get_by_actor a db = Some r" "sr_user_id r = Some uid"
  shows "wallet_row uid db = Some r"
proof -
  have r: "r \<in> set (lg_subs db)" using get_by_actor_mem [OF assms(2)] by simp
  with assms(3) obtain r' where "wallet_row uid db = Some r'"
    by (cases "wallet_row uid db") (auto simp: wallet_row_def sql_first_None)
  with wallet_row_same(2) [OF assms(1) this r] assms(3) show ?thesis by simp
qed

lemma unique_nullable_claim:
  assumes "unique_key sr_actor_key t" "unique_nullable sr_user_id t"
    "Some uid \<notin> sr_user_id ` set t" "\<And>r. sr_user_id (f r) = Some uid"
  shows "unique_nullable sr_user_id (sql_update (\<lambda>r. sr_actor_key r = a) f t)"
  using assms(1-3)
proof (induction t)
  case Nil
  then show ?case by (simp add: sql_update_def)
next
  case (Cons x t)
  have ih: "unique_nullable sr_user_id (sql_update (\<lambda>r. sr_actor_key r = a) f t)"
    using Cons by (auto simp: unique_nullable_def split: if_splits)
  show ?case
  proof (cases "sr_actor_key x = a")
    case True
    then have "sql_update (\<lambda>r. sr_actor_key r = a) f t = t"
      using Cons.prems(1) by (intro sql_update_none) (auto simp: image_iff)
    then have "sql_update (\<lambda>r. sr_actor_key r = a) f (x # t) = f x # t"
      using True by (simp add: sql_update_def)
    then show ?thesis
      using Cons.prems(2,3) assms(4) [of x]
      by (auto simp: unique_nullable_def split: if_splits)
  next
    case False
    then have "sql_update (\<lambda>r. sr_actor_key r = a) f (x # t)
        = x # sql_update (\<lambda>r. sr_actor_key r = a) f t"
      by (simp add: sql_update_def)
    moreover have "sr_user_id x \<notin> sr_user_id ` set (sql_update (\<lambda>r. sr_actor_key r = a) f t)
        \<or> sr_user_id x = None"
      using Cons.prems(2,3) assms(4)
      by (auto simp: unique_nullable_def set_sql_update split: if_splits)
    ultimately show ?thesis using ih by (auto simp: unique_nullable_def)
  qed
qed

lemma upsert_new_user_succeeds:
  assumes "ledger_ok db" "wallet_row uid db = None"
  shows "\<exists>db'. upsert_subscription now a (Some uid) tier None None None db = Inr db'"
proof -
  have n: "Some uid \<notin> sr_user_id ` set (lg_subs db)"
    using assms(2) by (auto simp: wallet_row_def sql_first_None)
  show ?thesis
  proof (cases "get_by_actor a db")
    case None
    then have "a \<notin> sr_actor_key ` set (lg_subs db)" by (auto simp: get_by_actor_def sql_first_None)
    with None n show ?thesis by (simp add: upsert_subscription_def insert_sub_def new_sub_row_def)
  next
    case (Some r)
    let ?f = "\<lambda>r. r\<lparr>sr_tier := tier, sr_user_id := Some uid, sr_updated_at := now\<rparr>"
    have "unique_nullable sr_user_id (sql_update (\<lambda>r. sr_actor_key r = a) ?f (lg_subs db))"
      using assms(1) n by (intro unique_nullable_claim [where uid = uid]) (auto simp: ledger_ok_def)
    with Some show ?thesis by (simp add: upsert_subscription_def update_sub_def)
  qed
qed

lemma grant_new_purchase:
  assumes "ledger_ok db" "py_int user_id = Inr uid" "1 \<le> credits" "credits \<le> 100000" "ref \<noteq> []"
    "txid \<notin> tx_id ` set (lg_txns db)" "Some ref \<notin> tx_reference_id ` set (lg_txns db)"
  shows "\<exists>db' row'. grant_purchased_credits id now txid user_id credits (Some ref) db = (Inr (), db')
    \<and> ledger_ok db' \<and> wallet_row uid db' = Some row'
    \<and> Some ref \<in> tx_reference_id ` set (lg_txns db') \<and> lg_credits db' = lg_credits db
    \<and> sr_purchased_credits row' = credits + (case wallet_row uid db of Some r \<Rightarrow> sr_purchased_credits r
        | None \<Rightarrow> (case get_by_actor (''user:'' @ user_id) db of Some r \<Rightarrow> sr_purchased_credits r | None \<Rightarrow> 0))"
proof -
  have pre: "\<not> list_ex (\<lambda>t. tx_type t = ''PURCHASE'' \<and> tx_reference_id t = Some ref)
      (list_transactions uid 0 200 db)"
    using assms(7)
    by (force simp: list_ex_iff list_transactions_def sql_select_def image_iff
        dest: in_set_takeD in_set_dropD)
  show ?thesis
  proof (cases "wallet_row uid db")
    case (Some row)
    from grant_on_row_fresh [OF assms(1) Some, of credits txid ref now] show ?thesis
      using assms pre Some by (force simp: grant_purchased_credits_def get_subscription_row_ok)
  next
    case None
    obtain db1 where u: "upsert_subscription now (''user:'' @ user_id) (Some uid) Tier_FREE
        None None None db = Inr db1"
      using upsert_new_user_succeeds [OF assms(1) None] by blast
    obtain r where r: "ledger_ok db1" "lg_txns db1 = lg_txns db" "lg_credits db1 = lg_credits db"
      "get_by_actor (''user:'' @ user_id) db1 = Some r" "sr_user_id r = Some uid"
      "pools r = (case get_by_actor (''user:'' @ user_id) db of Some r \<Rightarrow> pools r
         | None \<Rightarrow> (0, 0, None, False))"
      using upsert_ok [OF assms(1) u] by auto
    have w: "wallet_row uid db1 = Some r" by (rule wallet_row_by_actor [OF r(1,4,5)])
    have p: "sr_purchased_credits r = (case get_by_actor (''user:'' @ user_id) db of
        Some r \<Rightarrow> sr_purchased_credits r | None \<Rightarrow> 0)"
      using r(6) by (auto simp: pools_def split: option.splits)
    from grant_on_row_fresh [OF r(1) w, of credits txid ref now] show ?thesis
      using assms pre None u w r(1-3) p
      by (force simp: grant_purchased_credits_def get_subscription_row_ok)
  qed
qed

subsection \<open>Activation\<close>

definition bucket_at :: "string \<Rightarrow> string \<Rightarrow> ledger \<Rightarrow> monthly_credit_row option" where
  "bucket_at owner p db = sql_first (sql_select (\<lambda>r. mc_key r = (owner, p)) (lg_credits db))"

lemma bucket_at_ok: "ledger_ok db \<Longrightarrow> bucket_at o' p db = Some r \<Longrightarrow>
  0 \<le> mc_remaining r \<and> mc_remaining r \<le> mc_allowance r"
  by (auto simp: bucket_at_def ledger_ok_def dest!: sql_first_Some)

lemma get_credit_at:
  assumes "ledger_ok db"
  shows "get_credit owner p db = Inr (map_option (\<lambda>r. \<lparr>cr_owner_id = owner, cr_period_key = p,
     cr_allowance = mc_allowance r, cr_remaining = mc_remaining r\<rparr>) (bucket_at owner p db))"
proof -
  have "find_bucket owner p db = Inr (bucket_at owner p db)"
    using assms by (simp add: find_bucket_def bucket_at_def ledger_ok_def scalar_one_unique)
  moreover have "credit_of_row r = Inr \<lparr>cr_owner_id = owner, cr_period_key = p,
      cr_allowance = mc_allowance r, cr_remaining = mc_remaining r\<rparr>" if "bucket_at owner p db = Some r" for r
    using bucket_at_ok [OF assms that] that
    by (auto simp: credit_of_row_def credit_post_init_def bucket_at_def mc_key_def dest!: sql_first_Some)
  ultimately show ?thesis by (simp add: get_credit_def split: option.splits)
qed

definition never_lowered :: "ledger \<Rightarrow> ledger \<Rightarrow> bool" where
  "never_lowered db db' = (\<forall>o' p r. bucket_at o' p db = Some r \<longrightarrow>
     (\<exists>r'. bucket_at o' p db' = Some r' \<and> mc_allowance r \<le> mc_allowance r' \<and> mc_remaining r \<le> mc_remaining r'))"

definition pools_kept :: "ledger \<Rightarrow> ledger \<Rightarrow> bool" where
  "pools_kept db db' = (\<forall>a r. get_by_actor a db = Some r \<longrightarrow>
     (\<exists>r'. get_by_actor a db' = Some r' \<and> pools r' = pools r))"

definition granted :: "string \<Rightarrow> string \<Rightarrow> int \<Rightarrow> ledger \<Rightarrow> bool" where
  "granted o' p g db = (\<exists>r. bucket_at o' p db = Some r \<and> g \<le> mc_allowance r)"

lemma save_credit_bucket_at:
  assumes "ledger_ok db" "credit_ok c" "save_credit now c db = Inr db'"
  shows "ledger_ok db' \<and> lg_subs db' = lg_subs db
    \<and> (\<exists>r. bucket_at (cr_owner_id c) (cr_period_key c) db' = Some r
         \<and> mc_allowance r = cr_allowance c \<and> mc_remaining r = cr_remaining c)
    \<and> (\<forall>o' p. (o', p) \<noteq> (cr_owner_id c, cr_period_key c) \<longrightarrow> bucket_at o' p db' = bucket_at o' p db)"
  using save_credit_ok [OF assms(1,2), of now] assms(3) by (auto simp: bucket_at_def)

lemma never_lowered_save:
  assumes "ledger_ok db" "credit_ok c" "save_credit now c db = Inr db'"
    "\<And>r. bucket_at (cr_owner_id c) (cr_period_key c) db = Some r \<Longrightarrow>
       mc_allowance r \<le> cr_allowance c \<and> mc_remaining r \<le> cr_remaining c"
  shows "never_lowered db db'"
  unfolding never_lowered_def
proof (intro allI impI)
  fix o' p r
  assume r: "bucket_at o' p db = Some r"
  show "\<exists>r'. bucket_at o' p db' = Some r' \<and> mc_allowance r \<le> mc_allowance r' \<and> mc_remaining r \<le> mc_remaining r'"
  proof (cases "(o', p) = (cr_owner_id c, cr_period_key c)")
    case True
    with save_credit_bucket_at [OF assms(1-3)] assms(4) [of r] r show ?thesis by auto
  next
    case False
    with save_credit_bucket_at [OF assms(1-3)] r show ?thesis by auto
  qed
qed

lemma upsert_frames:
  assumes "ledger_ok db" "upsert_subscription now a uid tier used cust sub db = Inr db'"
  shows "ledger_ok db' \<and> pools_kept db db' \<and> (\<forall>o' p. bucket_at o' p db' = bucket_at o' p db)"
proof -
  have "\<exists>r'. get_by_actor x db' = Some r' \<and> pools r' = pools r" if "get_by_actor x db = Some r" for x r
    using upsert_ok [OF assms] that by (cases "x = a") auto
  with upsert_ok [OF assms] show ?thesis by (auto simp: pools_kept_def bucket_at_def)
qed

lemma pools_kept_subs: "pools_kept db db1 \<Longrightarrow> lg_subs db2 = lg_subs db1 \<Longrightarrow> pools_kept db db2"
  by (simp add: pools_kept_def get_by_actor_def)

lemma never_lowered_eq: "(\<And>o' p. bucket_at o' p db1 = bucket_at o' p db) \<Longrightarrow>
  never_lowered db1 db2 \<Longrightarrow> never_lowered db db2"
  by (simp add: never_lowered_def)

lemma granted_save:
  assumes "ledger_ok db" "credit_ok c" "save_credit now c db = Inr db'"
  shows "granted (cr_owner_id c) (cr_period_key c) (cr_allowance c) db'"
  using save_credit_bucket_at [OF assms] by (auto simp: granted_def)

text \<open>The bucket the handler writes: the tier's grant for a new period, the raised one otherwise.\<close>

lemma raise_plan_bucket_cases:
  assumes "ledger_ok db" "tp_monthly_conversion_credits (for_tier tier) = Some g"
    "raise_plan_bucket now user_id tier db = (res, db')"
  shows "res = Inr () \<and> (db' = db \<and> granted user_id (period_key_of now) g db
    \<or> (\<exists>rm. save_credit now \<lparr>cr_owner_id = user_id, cr_period_key = period_key_of now,
             cr_allowance = g, cr_remaining = rm\<rparr> db = Inr db' \<and> 0 \<le> rm \<and> rm \<le> g
           \<and> (\<forall>r. bucket_at user_id (period_key_of now) db = Some r \<longrightarrow>
                mc_allowance r \<le> g \<and> mc_remaining r \<le> rm)))"
proof -
  let ?p = "period_key_of now"
  let ?c = "\<lambda>rm. \<lparr>cr_owner_id = user_id, cr_period_key = ?p, cr_allowance = g, cr_remaining = rm\<rparr>"
  have g: "0 < g" using assms(2) allowance_nonneg by blast
  have save: "\<exists>d. save_credit now (?c rm) db = Inr d" if "0 \<le> rm" "rm \<le> g" for rm
    using save_credit_ok [OF assms(1), of "?c rm" now] that by (auto simp: credit_ok_def)
  show ?thesis
  proof (cases "bucket_at user_id ?p db")
    case None
    with assms g save [of g] show ?thesis
      by (auto simp: raise_plan_bucket_def get_credit_at credit_from_tier_def credit_post_init_def Let_def)
  next
    case (Some r)
    have rb: "0 \<le> mc_remaining r" "mc_remaining r \<le> mc_allowance r"
      using bucket_at_ok [OF assms(1) Some] by auto
    show ?thesis
    proof (cases "mc_allowance r < g")
      case True
      with assms g Some rb save [of "min (mc_remaining r + (g - mc_allowance r)) g"] show ?thesis
        by (auto simp: raise_plan_bucket_def get_credit_at Let_def)
    next
      case False
      with assms g Some show ?thesis
        by (auto simp: raise_plan_bucket_def get_credit_at Let_def granted_def)
    qed
  qed
qed

lemma raise_plan_bucket_ok:
  assumes "ledger_ok db" "raise_plan_bucket now user_id tier db = (res, db')"
  shows "ledger_ok db' \<and> lg_subs db' = lg_subs db \<and> never_lowered db db' \<and> res = Inr ()
    \<and> (\<forall>g. tp_monthly_conversion_credits (for_tier tier) = Some g \<longrightarrow>
         granted user_id (period_key_of now) g db')"
proof (cases "tp_monthly_conversion_credits (for_tier tier)")
  case None
  with assms show ?thesis by (auto simp: raise_plan_bucket_def never_lowered_def)
next
  case (Some g)
  from raise_plan_bucket_cases [OF assms(1) this assms(2)] show ?thesis
  proof (elim conjE disjE exE)
    fix rm
    let ?c = "\<lparr>cr_owner_id = user_id, cr_period_key = period_key_of now,
             cr_allowance = g, cr_remaining = rm\<rparr>"
    assume h: "save_credit now ?c db = Inr db'" "0 \<le> rm" "rm \<le> g" "res = Inr ()"
      "\<forall>r. bucket_at user_id (period_key_of now) db = Some r \<longrightarrow>
                mc_allowance r \<le> g \<and> mc_remaining r \<le> rm"
    have ok: "credit_ok ?c" using h(2,3) by (simp add: credit_ok_def)
    have "never_lowered db db'"
      by (rule never_lowered_save [OF assms(1) ok h(1)]) (use h(5) in auto)
    with save_credit_bucket_at [OF assms(1) ok h(1)] granted_save [OF assms(1) ok h(1)] h(4) Some
    show ?thesis by simp
  qed (use assms(1) Some in \<open>auto simp: never_lowered_def\<close>)
qed

lemma activate_ok:
  assumes "ledger_ok db" "activate_subscription s now user_id tier_name cust sub price db = (res, db')"
  shows "ledger_ok db' \<and> pools_kept db db' \<and> never_lowered db db'
    \<and> (res = Inr () \<longrightarrow> (\<exists>tier. resolve_activation_tier s tier_name price = Inr tier
         \<and> (\<forall>g. tp_monthly_conversion_credits (for_tier tier) = Some g \<longrightarrow>
              granted user_id (period_key_of now) g db')))"
proof -
  consider (early) e where "res = Inl e" "db' = db"
    | (go) tier uid db1 where "resolve_activation_tier s tier_name price = Inr tier"
        "upsert_subscription now (''user:'' @ user_id) (Some uid) tier None cust sub db = Inr db1"
        "raise_plan_bucket now user_id tier db1 = (res, db')"
    using assms(2) by (auto simp: activate_subscription_def split: sum.splits)
  then show ?thesis
  proof cases
    case early
    then show ?thesis using assms(1) by (auto simp: pools_kept_def never_lowered_def)
  next
    case go
    have u: "ledger_ok db1" "pools_kept db db1" "\<And>o' p. bucket_at o' p db1 = bucket_at o' p db"
      using upsert_frames [OF assms(1) go(2)] by auto
    with raise_plan_bucket_ok [OF u(1) go(3)] go(1) show ?thesis
      using pools_kept_subs [OF u(2)] never_lowered_eq [OF u(3)] by auto
  qed
qed

text \<open>A redelivered activation finds the grant in place and leaves the buckets alone.\<close>

lemma raise_plan_bucket_granted:
  assumes "ledger_ok db"
    "\<And>g. tp_monthly_conversion_credits (for_tier tier) = Some g \<Longrightarrow> granted user_id (period_key_of now) g db"
  shows "raise_plan_bucket now user_id tier db = (Inr (), db)"
  using assms by (auto simp: raise_plan_bucket_def get_credit_at granted_def Let_def split: option.splits)

lemma activate_granted:
  assumes "ledger_ok db" "activate_subscription s now user_id tier_name cust sub price db = (res, db')"
    "resolve_activation_tier s tier_name price = Inr tier"
    "\<And>g. tp_monthly_conversion_credits (for_tier tier) = Some g \<Longrightarrow> granted user_id (period_key_of now) g db"
  shows "lg_credits db' = lg_credits db"
proof -
  consider "db' = db"
    | uid db1 where "upsert_subscription now (''user:'' @ user_id) (Some uid) tier None cust sub db = Inr db1"
        "raise_plan_bucket now user_id tier db1 = (res, db')"
    using assms(2,3) by (auto simp: activate_subscription_def split: sum.splits)
  then show ?thesis
  proof cases
    case 2
    have "granted user_id (period_key_of now) g db1"
        if "tp_monthly_conversion_credits (for_tier tier) = Some g" for g
      using assms(4) [OF that] upsert_frames [OF assms(1) 2(1)] by (auto simp: granted_def)
    then show ?thesis
      using raise_plan_bucket_granted [of db1 tier user_id now] upsert_ok [OF assms(1) 2(1)] 2(2) by auto
  qed simp
qed

subsection \<open>Upgrades\<close>

lemma wallet_row_update_sub:
  assumes "update_sub (sr_actor_key row) f db = Inr db'" "wallet_row u db = Some row"
    "\<And>r. sr_user_id (f r) = sr_user_id r"
  shows "wallet_row u db' = Some (f row)"
  using assms by (simp add: update_sub_Inr wallet_row_def sql_first_update)

lemma insert_txn_ok: "ledger_ok db \<Longrightarrow> insert_txn t db = Inr db' \<Longrightarrow> ledger_ok db'
    \<and> lg_subs db' = lg_subs db \<and> lg_credits db' = lg_credits db"
  by (auto simp: insert_txn_def ledger_ok_def unique_key_append unique_nullable_append split: if_splits)

lemma apply_upgrade_effect:
  assumes "ledger_ok db" "wallet_row uid db = Some row" "0 \<le> opr"
    "tp_monthly_conversion_credits (for_tier req) = Some g"
    "apply_upgrade now txid uid req row opr pe db = Inr db'"
  shows "ledger_ok db' \<and> plan_of uid (period_key_of now) db' = Some g
    \<and> (\<exists>row'. wallet_row uid db' = Some row' \<and> sr_tier row' = req
         \<and> sr_carryover_credits row' = sr_carryover_credits row + opr \<and> sr_carryover_expires_at row' = pe
         \<and> sr_purchased_credits row' = sr_purchased_credits row)"
proof -
  let ?c = "\<lparr>cr_owner_id = str_int uid, cr_period_key = period_key_of now, cr_allowance = g, cr_remaining = g\<rparr>"
  let ?row1 = "row\<lparr>sr_tier := req\<rparr>"
  let ?f = "\<lambda>r. r\<lparr>sr_carryover_credits := sr_carryover_credits row + opr, sr_carryover_expires_at := pe,
     sr_purchased_credits := sr_purchased_credits row,
     sr_purchased_credits_first := sr_purchased_credits_first row, sr_updated_at := now\<rparr>"
  have g: "0 < g" using assms(4) allowance_nonneg by blast
  obtain db1 where d1: "update_sub (sr_actor_key row) (\<lambda>r. r\<lparr>sr_tier := req\<rparr>) db = Inr db1"
    using assms(5) by (auto simp: apply_upgrade_def rbind_Inr_iff Let_def)
  have ok1: "ledger_ok db1"
    using assms(1) by (intro ledger_ok_update_sub [OF _ d1]) (auto simp: ledger_ok_def)
  have w1: "wallet_row uid db1 = Some ?row1"
    by (rule wallet_row_update_sub [OF d1 assms(2)]) simp
  obtain db2 where d2: "update_sub (sr_actor_key ?row1) ?f db1 = Inr db2"
    "rbind (save_credit now ?c db2) (\<lambda>db3. record_transaction now txid uid opr ''CARRYOVER'' None
           (Some (''Carried '' @ str_int opr @ '' unspent plan credits over from ''
              @ api_tier_value (domain_tier_to_api (sr_tier row)) @ '' to '' @ tier_value req)) db3) = Inr db'"
    using assms(4,5) g d1 w1 ok1
    by (auto simp: apply_upgrade_def rbind_Inr_iff Let_def set_wallet_def get_subscription_row_ok
        credit_post_init_def)
  have ok2: "ledger_ok db2"
    using ok1 assms(1,3) wallet_row_mem [OF assms(2)]
    by (intro ledger_ok_update_sub [OF _ d2(1)]) (auto simp: ledger_ok_def)
  have w2: "wallet_row uid db2 = Some (?f ?row1)"
    by (rule wallet_row_update_sub [OF d2(1) w1]) simp
  obtain db3 where d3: "save_credit now ?c db2 = Inr db3" "ledger_ok db'"
    "lg_subs db' = lg_subs db3" "lg_credits db' = lg_credits db3"
    using d2(2) save_credit_ok [OF ok2, of ?c now] g insert_txn_ok
    by (fastforce simp: rbind_Inr_iff record_transaction_def credit_ok_def)
  have "bucket_at (str_int uid) (period_key_of now) db3 = bucket uid (period_key_of now) db3"
    by (simp add: bucket_at_def bucket_def)
  then have "plan_of uid (period_key_of now) db' = Some g" "lg_subs db3 = lg_subs db2"
    using save_credit_bucket_at [OF ok2 _ d3(1)] g d3(4)
    by (auto simp: plan_of_def bucket_def credit_ok_def)
  with d3 w2 show ?thesis by (auto simp: wallet_row_def)
qed

lemma change_plan_upgrade:
  assumes "ledger_ok db" "change_plan svc now txid uid t db = (Inr resp, db')" "cp_plan_credits resp \<noteq> None"
  shows "\<exists>row opr pe. wallet_row uid db = Some row \<and> sr_tier row \<noteq> api_tier_to_domain t
     \<and> truthy (sr_stripe_subscription_id row)
     \<and> opr = (case bucket uid (period_key_of now) db of Some r \<Rightarrow> mc_remaining r
          | None \<Rightarrow> (case tp_monthly_conversion_credits (for_tier (sr_tier row)) of None \<Rightarrow> 0 | Some g \<Rightarrow> g))
     \<and> cp_carryover_expires_at resp = pe
     \<and> apply_upgrade now txid uid (api_tier_to_domain t) row opr pe db = Inr db'
     \<and> api_tier_to_domain t \<in> {Tier_PRO, Tier_PRO_PLUS}"
  using assms
  by (cases t) (auto simp: change_plan_def get_subscription_row_ok get_credit_at bucket_at_def bucket_def Let_def
      split: if_splits option.splits sum.splits)

subsection \<open>Properties\<close>

text \<open>A checkout session for credits: whose, how many, and under which reference.\<close>

definition credit_checkout :: "stripe_object \<Rightarrow> string \<Rightarrow> int \<Rightarrow> string \<Rightarrow> bool" where
  "credit_checkout ev user_id credits ref = (map_of (so_metadata ev) ''kind'' = Some ''credit_purchase''
     \<and> map_of (so_metadata ev) ''user_id'' = Some user_id \<and> user_id \<noteq> []
     \<and> (\<exists>c. map_of (so_metadata ev) ''credits'' = Some c \<and> py_int c = Inr credits)
     \<and> so_id ev = Some ref \<and> ref \<noteq> [])"

lemma handle_credit_checkout:
  assumes "credit_checkout ev user_id credits ref"
  shows "handle_checkout_completed w ev db =
    (if so_payment_status ev = Some ''unpaid'' \<or> credits < 1 \<or> 100000 < credits then (Inr (), db)
     else grant_purchased_credits (we_others w) (we_now w) (we_txid w) user_id credits (Some ref) db)"
proof -
  have m: "handled_credit_purchase_metadata (so_metadata ev) = (Some user_id, credits)" "truthy (Some user_id)"
    "map_of (so_metadata ev) ''kind'' = Some ''credit_purchase''" "so_id ev = Some ref"
    using assms by (auto simp: credit_checkout_def handled_credit_purchase_metadata_def truthy_def)
  show ?thesis
  proof (cases "credits < 1 \<or> 100000 < credits")
    case True
    then have "grant_purchased_credits others now txid user_id credits (Some ref) db = (Inr (), db)" for others now txid
      by (simp add: grant_purchased_credits_def)
    then show ?thesis using True m by (simp add: handle_checkout_completed_def)
  qed (use m in \<open>simp add: handle_checkout_completed_def\<close>)
qed

text \<open>C35: a checkout for credits is granted exactly once. The first delivery of a session that is not unpaid,
  for 1 to 100000 credits and with a new reference, raises the user's purchased balance by exactly that
  amount, creating the wallet row if there is none, keeps the ledger's constraints and the plan
  buckets, and every redelivery of the session, whatever its time and transaction id, changes nothing. An
  unpaid session and an amount outside those bounds change nothing either. No other session writes
  the ledger meanwhile.\<close>

theorem purchase_granted_once:
  assumes "ledger_ok db" "credit_checkout ev user_id credits ref" "py_int user_id = Inr uid" "we_others w = id"
    "we_txid w \<notin> tx_id ` set (lg_txns db)" "Some ref \<notin> tx_reference_id ` set (lg_txns db)"
  shows "if so_payment_status ev = Some ''unpaid'' \<or> credits < 1 \<or> 100000 < credits
    then handle_checkout_completed w ev db = (Inr (), db)
    else \<exists>db' row'. handle_checkout_completed w ev db = (Inr (), db')
      \<and> ledger_ok db' \<and> lg_credits db' = lg_credits db \<and> wallet_row uid db' = Some row'
      \<and> sr_purchased_credits row' = credits + (case wallet_row uid db of Some r \<Rightarrow> sr_purchased_credits r
          | None \<Rightarrow> (case get_by_actor (''user:'' @ user_id) db of Some r \<Rightarrow> sr_purchased_credits r | None \<Rightarrow> 0))
      \<and> (\<forall>w2. we_others w2 = id \<longrightarrow> handle_checkout_completed w2 ev db' = (Inr (), db'))"
proof (cases "so_payment_status ev = Some ''unpaid'' \<or> credits < 1 \<or> 100000 < credits")
  case False
  then have c: "1 \<le> credits" "credits \<le> 100000" "ref \<noteq> []" using assms(2) by (auto simp: credit_checkout_def)
  note h = handle_credit_checkout [OF assms(2)]
  from grant_new_purchase [OF assms(1,3) c assms(5,6), of "we_now w"] obtain db' row' where
    g: "grant_purchased_credits id (we_now w) (we_txid w) user_id credits (Some ref) db = (Inr (), db')"
      "ledger_ok db'" "wallet_row uid db' = Some row'" "Some ref \<in> tx_reference_id ` set (lg_txns db')"
      "lg_credits db' = lg_credits db"
      "sr_purchased_credits row' = credits + (case wallet_row uid db of Some r \<Rightarrow> sr_purchased_credits r
          | None \<Rightarrow> (case get_by_actor (''user:'' @ user_id) db of Some r \<Rightarrow> sr_purchased_credits r | None \<Rightarrow> 0))"
    by blast
  have "handle_checkout_completed w2 ev db' = (Inr (), db')" if "we_others w2 = id" for w2
    using grant_replay [OF g(2) assms(3) g(3,4)] that by (simp add: h)
  then show ?thesis using False g by (simp add: h assms(4))
qed (simp add: handle_credit_checkout [OF assms(2)])

definition sample_checkout :: stripe_object where
  "sample_checkout = \<lparr>so_id = Some ''cs_1'', so_metadata = [(''kind'', ''credit_purchase''), (''user_id'', ''7''), (''credits'', ''100'')],
     so_payment_status = Some ''paid'', so_customer = None, so_subscription = None, so_status = None, so_fields = []\<rparr>"

definition sample_webhook_env :: webhook_env where
  "sample_webhook_env = \<lparr>we_prices = \<lparr>ps_price_pro = None, ps_price_pro_plus = None, ps_price_enterprise = None\<rparr>, we_now = Civil 2026 5 2 0, we_txid = ''t1'', we_others = id,
     we_secret_key_set = True, we_retrieve = (\<lambda>_. Inr sample_checkout)\<rparr>"

theorem purchase_granted_once_witness:
  "\<exists>db' row'. handle_checkout_completed sample_webhook_env sample_checkout (sample_ledger Tier_PRO) = (Inr (), db')
     \<and> wallet_row 7 db' = Some row' \<and> sr_purchased_credits row' = 110"
proof -
  have i: "py_int ''7'' = Inr 7" "py_int ''100'' = Inr 100" by code_simp+
  have t: "lg_txns (sample_ledger Tier_PRO) = []" "sr_purchased_credits (sample_sub Tier_PRO) = 10"
    by (simp_all add: sample_ledger_def sample_sub_def)
  have c: "credit_checkout sample_checkout ''7'' 100 ''cs_1''"
    by (simp add: credit_checkout_def sample_checkout_def i(2))
  have w: "we_others sample_webhook_env = id" "so_payment_status sample_checkout = Some ''paid''"
    by (simp_all add: sample_webhook_env_def sample_checkout_def)
  show ?thesis
    using purchase_granted_once [OF sample_ledger_ok [of Tier_PRO] c i(1) w(1)] by (auto simp: t w(2))
qed

text \<open>a duplicate delivery that races with the first one is undone as a whole: if by the time of
  the commit the reference is already recorded, the unique constraint rejects the ledger row and the
  wallet bump is rolled back with it.\<close>

theorem racing_duplicate_rolled_back:
  assumes "Some ref \<in> tx_reference_id ` set (lg_txns (others db))"
  shows "grant_on_row others now txid uid credits (Some ref) row db = (Inr (), others db)"
  by (rule grant_duplicate [where others = others, OF assms])

theorem racing_duplicate_rolled_back_witness:
  "let others = (\<lambda>d. snd (grant_on_row id (Civil 2026 5 2 0) ''t1'' 7 100 (Some ''cs_1'') (sample_sub Tier_PRO) d))
   in grant_on_row others (Civil 2026 5 2 0) ''t2'' 7 100 (Some ''cs_1'') (sample_sub Tier_PRO) (sample_ledger Tier_PRO)
      = (Inr (), others (sample_ledger Tier_PRO))"
  unfolding Let_def
  by (rule racing_duplicate_rolled_back)
     (simp add: grant_on_row_def record_transaction_def insert_txn_def sample_ledger_def)

text \<open>activating a subscription (checkout, renewal or update, delivered any number of times) never
  lowers a plan bucket's allowance or balance, never touches carryover, purchased credits, their
  expiry or the spend preference of anybody, and puts the resolved tier's grant in place; a
  redelivery leaves the buckets exactly as they are.\<close>

theorem activation_idempotent:
  assumes "ledger_ok db"
    "activate_subscription s now user_id tier_name cust sub price db = (Inr (), db1)"
    "activate_subscription s now user_id tier_name cust sub price db1 = (res, db2)"
  shows "ledger_ok db1 \<and> pools_kept db db1 \<and> never_lowered db db1 \<and> lg_credits db2 = lg_credits db1"
proof -
  obtain tier where t: "resolve_activation_tier s tier_name price = Inr tier"
    "\<forall>g. tp_monthly_conversion_credits (for_tier tier) = Some g \<longrightarrow> granted user_id (period_key_of now) g db1"
    using activate_ok [OF assms(1,2)] by auto
  then show ?thesis
    using activate_ok [OF assms(1,2)] activate_granted [OF _ assms(3) t(1)] by auto
qed

theorem activation_idempotent_witness:
  "let s = \<lparr>ps_price_pro = Some ''p1'', ps_price_pro_plus = Some ''p2'', ps_price_enterprise = None\<rparr>;
       act = activate_subscription s (Civil 2026 5 2 0) ''7'' (Some ''pro'') None (Some ''sub'') (Some ''p2'');
       db1 = snd (act (sample_ledger Tier_PRO)); db2 = snd (act db1)
   in lg_credits db2 = lg_credits db1"
proof -
  let ?s = "\<lparr>ps_price_pro = Some ''p1'', ps_price_pro_plus = Some ''p2'', ps_price_enterprise = None\<rparr>"
  let ?a = "activate_subscription ?s (Civil 2026 5 2 0) ''7'' (Some ''pro'') None (Some ''sub'') (Some ''p2'')"
  have t: "resolve_activation_tier ?s (Some ''pro'') (Some ''p2'') = Inr Tier_PRO_PLUS"
    by (simp add: resolve_activation_tier_def tier_for_price_id_def)
  have i: "py_int ''7'' = Inr 7" by code_simp
  obtain db1 where u: "upsert_subscription (Civil 2026 5 2 0) ''user:7'' (Some 7) Tier_PRO_PLUS None None
      (Some ''sub'') (sample_ledger Tier_PRO) = Inr db1"
    by (simp add: upsert_subscription_def get_by_actor_def sample_ledger_def sample_sub_def new_sub_row_def
        sql_first_def sql_select_def update_sub_def sql_update_def unique_nullable_def)
  have "?a (sample_ledger Tier_PRO) = raise_plan_bucket (Civil 2026 5 2 0) ''7'' Tier_PRO_PLUS db1"
    by (simp add: activate_subscription_def t i u)
  moreover have "fst (raise_plan_bucket (Civil 2026 5 2 0) ''7'' Tier_PRO_PLUS db1) = Inr ()"
    using raise_plan_bucket_ok [OF _ prod.collapse [symmetric]] upsert_ok [OF sample_ledger_ok u] by blast
  ultimately have "?a (sample_ledger Tier_PRO) = (Inr (), snd (?a (sample_ledger Tier_PRO)))"
    by (metis prod.collapse)
  from activation_idempotent [OF sample_ledger_ok this prod.collapse [symmetric]]
  show ?thesis by (simp add: Let_def)
qed

text \<open>an upgrade commits all of its writes or none of them. It moves the whole unspent plan balance
  to carryover and resets the plan bucket to the new tier's grant, so that with an expiry in the
  future the spendable total afterwards is the new grant plus the stored carryover, the old plan
  balance and the purchased credits. The stored carryover enters this sum even when it had
  expired: an upgrade revives expired carryover.\<close>

theorem upgrade_total:
  assumes "ledger_ok db" "change_plan svc now txid uid t db = (Inr resp, db')" "cp_plan_credits resp \<noteq> None"
    "wallet_row uid db = Some row" "bucket uid (period_key_of now) db = Some bk"
    "\<And>e. expiry_instant (cp_carryover_expires_at resp) = Some e \<Longrightarrow> now < e"
  shows "\<exists>g. tp_monthly_conversion_credits (for_tier (api_tier_to_domain t)) = Some g \<and> ledger_ok db'
     \<and> available_total_once now uid (period_key_of now) db'
       = Inr (Some (g + (sr_carryover_credits row + mc_remaining bk) + sr_purchased_credits row))"
proof -
  obtain opr pe where c: "opr = mc_remaining bk" "cp_carryover_expires_at resp = pe"
    "apply_upgrade now txid uid (api_tier_to_domain t) row opr pe db = Inr db'"
    "api_tier_to_domain t \<in> {Tier_PRO, Tier_PRO_PLUS}"
    using change_plan_upgrade [OF assms(1-3)] assms(4,5) by auto
  obtain g where g: "tp_monthly_conversion_credits (for_tier (api_tier_to_domain t)) = Some g"
    using c(4) by auto
  have nn: "0 \<le> opr" "0 \<le> sr_carryover_credits row"
    using c(1) bucket_mem [OF assms(5)] wallet_row_mem [OF assms(4)] assms(1) by (auto simp: ledger_ok_def)
  obtain row' where r: "ledger_ok db'" "plan_of uid (period_key_of now) db' = Some g"
    "wallet_row uid db' = Some row'" "sr_carryover_credits row' = sr_carryover_credits row + opr"
    "sr_carryover_expires_at row' = pe" "sr_purchased_credits row' = sr_purchased_credits row"
    using apply_upgrade_effect [OF assms(1,4) nn(1) g c(3)] by auto
  have "live_carryover (sr_carryover_credits row + opr) (expiry_instant pe) now
      = sr_carryover_credits row + opr"
    using nn assms(6) c(2) by (auto simp: live_carryover_def not_le split: option.splits)
  with r g c(1) show ?thesis
    by (simp add: available_total_once_ok wallet_view_def available_total_def wallet_expiry_def)
qed

text \<open>A subscriber whose carryover of 3 expired yesterday.\<close>

definition expired_ledger :: ledger where
  "expired_ledger = \<lparr>lg_credits = [\<lparr>mc_owner_id = ''7'', mc_period_key = ''2026-05'', mc_allowance = 500,
       mc_remaining = 320, mc_created_at = Civil 2026 5 1 0, mc_updated_at = Civil 2026 5 1 0\<rparr>],
     lg_subs = [(sample_sub Tier_PRO)\<lparr>sr_stripe_subscription_id := Some ''sub'',
       sr_carryover_expires_at := Some \<lparr>dt_civil = Civil 2026 5 9 0, dt_offset = Some 0\<rparr>\<rparr>], lg_txns = []\<rparr>"

definition sample_service :: stripe_service where
  "sample_service = \<lparr>ss_enabled = True, ss_resolve_price_id = (\<lambda>_. Some ''price''),
     ss_change_plan = (\<lambda>_ _ _ _ _. Some \<lparr>pc_previous_period_end =
        Some \<lparr>dt_civil = Civil 2026 5 20 0, dt_offset = Some 0\<rparr>, pc_scheduled_effective_at = None\<rparr>)\<rparr>"

theorem upgrade_total_witness:
  "let now = Civil 2026 5 10 0; (r, db') = change_plan sample_service now ''t'' 7 Api_PRO_PLUS expired_ledger
   in available_total_once now 7 ''2026-05'' expired_ledger = Inr (Some (320 + 10))
      \<and> available_total_once now 7 ''2026-05'' db' = Inr (Some (2000 + (3 + 320) + 10))"
proof -
  let ?now = "Civil 2026 5 10 0"
  have k: "period_key_of ?now = ''2026-05''" by (simp add: period_key_of_def zfill_def str_int_eval)
  have ok: "ledger_ok expired_ledger"
    by (simp add: ledger_ok_def expired_ledger_def sample_sub_def new_sub_row_def unique_nullable_def)
  have b: "bucket 7 ''2026-05'' expired_ledger = Some (hd (lg_credits expired_ledger))"
    by (simp add: bucket_def expired_ledger_def sql_first_def sql_select_def mc_key_def str_int_eval)
  have w: "wallet_row 7 expired_ledger = Some (hd (lg_subs expired_ledger))"
    by (simp add: wallet_row_def expired_ledger_def sample_sub_def new_sub_row_def sql_first_def sql_select_def)
  have row: "sr_tier (hd (lg_subs expired_ledger)) = Tier_PRO"
    "sr_stripe_subscription_id (hd (lg_subs expired_ledger)) = Some ''sub''"
    "sr_carryover_credits (hd (lg_subs expired_ledger)) = 3"
    "sr_purchased_credits (hd (lg_subs expired_ledger)) = 10"
    "sr_carryover_expires_at (hd (lg_subs expired_ledger))
       = Some \<lparr>dt_civil = Civil 2026 5 9 0, dt_offset = Some 0\<rparr>"
    "mc_remaining (hd (lg_credits expired_ledger)) = 320"
    by (simp_all add: expired_ledger_def sample_sub_def new_sub_row_def)
  obtain resp db' where c: "change_plan sample_service ?now ''t'' 7 Api_PRO_PLUS expired_ledger = (Inr resp, db')"
    "cp_plan_credits resp \<noteq> None" "expiry_instant (cp_carryover_expires_at resp) = Some (Civil 2026 5 20 0)"
  proof -
    have bb: "bucket_at (str_int 7) ''2026-05'' expired_ledger = bucket 7 ''2026-05'' expired_ledger"
      by (simp add: bucket_at_def bucket_def)
    obtain db' where u: "apply_upgrade ?now ''t'' 7 Tier_PRO_PLUS (hd (lg_subs expired_ledger)) 320
        (Some \<lparr>dt_civil = Civil 2026 5 20 0, dt_offset = Some 0\<rparr>) expired_ledger = Inr db'"
      by (simp add: apply_upgrade_def k expired_ledger_def sample_sub_def new_sub_row_def update_sub_def
          sql_update_def unique_nullable_def set_wallet_def get_subscription_row_def sql_select_def
          scalar_one_or_none_def credit_post_init_def save_credit_def stage_credit_def find_bucket_def
          mc_key_def str_int_eval record_transaction_def insert_txn_def Let_def)
    have "change_plan sample_service ?now ''t'' 7 Api_PRO_PLUS expired_ledger =
        (Inr \<lparr>cp_tier = Api_PRO_PLUS, cp_previous_tier = Api_PRO, cp_plan_credits = Some 2000,
           cp_carryover_credits = Some 323,
           cp_carryover_expires_at = Some \<lparr>dt_civil = Civil 2026 5 20 0, dt_offset = Some 0\<rparr>\<rparr>, db')"
      using u unfolding change_plan_def
      by (simp add: get_subscription_row_ok [OF ok] w get_credit_at [OF ok] k bb b sample_service_def
          truthy_def row Let_def)
    from that [OF this] show ?thesis by (simp add: expiry_instant_def ensure_utc_def)
  qed
  have "available_total_once ?now 7 ''2026-05'' expired_ledger = Inr (Some (320 + 10))"
    using b w by (simp add: available_total_once_ok [OF ok] plan_of_def wallet_view_def wallet_expiry_def
        expiry_instant_def ensure_utc_def available_total_def live_carryover_def row
        less_eq_civil_def less_civil_def)
  moreover have "available_total_once ?now 7 ''2026-05'' db' = Inr (Some (2000 + (3 + 320) + 10))"
    using upgrade_total [OF ok c(1,2) w b [folded k]] c(3)
    by (auto simp: k expired_ledger_def sample_sub_def new_sub_row_def less_civil_def)
  ultimately show ?thesis using c(1) by simp
qed

end
