(* ===== verification/Job_Store.thy ===== *)
theory Job_Store
  imports Conversion_Job "HOL-Library.Sublist"
begin

section \<open>The conversion job table\<close>

text \<open>
  Models \<open>ConversionJobModel\<close> and \<open>SQLConversionJobRepository\<close>, the worker's
  \<open>WorkerJobRepository\<close> with its one retry, and \<open>escape_like\<close> with the \<open>ILIKE\<close> patterns built from
  it. Rows carry the ORM columns; timestamps are instants in microseconds. A \<open>NULL\<close> owner never
  equals a user id.
\<close>

subsection \<open>Rows\<close>

record job_row =
  jr_job_id :: string
  jr_status :: job_status
  jr_source_format :: string
  jr_target_format :: string
  jr_input_file :: string
  jr_output_file :: "string option"
  jr_object_key :: string
  jr_user_id :: "int option"
  jr_error_message :: "string option"
  jr_compute_duration_ms :: int
  jr_credits_used :: int
  jr_input_size_bytes :: int
  jr_output_size_bytes :: int
  jr_data_key_wrapped :: "string option"
  jr_client_encrypted :: bool
  jr_origin :: string
  jr_progress :: int
  jr_batch_id :: "string option"
  jr_workflow_id :: "string option"
  jr_created_at :: int
  jr_updated_at :: int

definition job_row_of :: "int \<Rightarrow> conversion_job \<Rightarrow> job_row" where
  "job_row_of now j = \<lparr>jr_job_id = job_id j, jr_status = job_status j,
     jr_source_format = ct_source_format (job_conversion j),
     jr_target_format = ct_target_format (job_conversion j), jr_input_file = job_input_file j,
     jr_output_file = job_output_file j, jr_object_key = job_object_key j,
     jr_user_id = job_user_id j, jr_error_message = job_error_message j,
     jr_compute_duration_ms = job_compute_duration_ms j, jr_credits_used = job_credits_used j,
     jr_input_size_bytes = job_input_size_bytes j, jr_output_size_bytes = job_output_size_bytes j,
     jr_data_key_wrapped = job_data_key_wrapped j, jr_client_encrypted = job_client_encrypted j,
     jr_origin = job_origin_value (job_origin j), jr_progress = job_progress j,
     jr_batch_id = job_batch_id j, jr_workflow_id = job_workflow_id j,
     jr_created_at = now, jr_updated_at = now\<rparr>"

definition to_entity :: "job_row \<Rightarrow> conversion_job" where
  "to_entity r = \<lparr>job_id = jr_job_id r,
     job_conversion = \<lparr>ct_source_format = jr_source_format r, ct_target_format = jr_target_format r\<rparr>,
     job_input_file = jr_input_file r, job_output_file = jr_output_file r,
     job_object_key = jr_object_key r, job_status = jr_status r,
     job_error_message = jr_error_message r, job_compute_duration_ms = jr_compute_duration_ms r,
     job_credits_used = jr_credits_used r, job_user_id = jr_user_id r,
     job_data_key_wrapped = jr_data_key_wrapped r, job_client_encrypted = jr_client_encrypted r,
     job_created_at = Some (jr_created_at r), job_input_size_bytes = jr_input_size_bytes r,
     job_output_size_bytes = jr_output_size_bytes r,
     job_origin = coerce_job_origin (Arg_str (jr_origin r)), job_progress = jr_progress r,
     job_batch_id = jr_batch_id r, job_workflow_id = jr_workflow_id r\<rparr>"

subsection \<open>Writes\<close>

definition save_conversion_job :: "int \<Rightarrow> conversion_job \<Rightarrow> job_row list \<Rightarrow> job_row list result" where
  "save_conversion_job now j t =
     (if job_id j \<in> jr_job_id ` set t then Inl IntegrityError else Inr (t @ [job_row_of now j]))"

definition set_job_columns :: "int \<Rightarrow> conversion_job \<Rightarrow> job_row \<Rightarrow> job_row" where
  "set_job_columns now j r = r\<lparr>jr_status := job_status j, jr_object_key := job_object_key j,
     jr_output_file := job_output_file j, jr_error_message := job_error_message j,
     jr_compute_duration_ms := job_compute_duration_ms j, jr_credits_used := job_credits_used j,
     jr_input_size_bytes := job_input_size_bytes j, jr_output_size_bytes := job_output_size_bytes j,
     jr_progress := job_progress j, jr_data_key_wrapped := job_data_key_wrapped j,
     jr_client_encrypted := job_client_encrypted j, jr_batch_id := job_batch_id j,
     jr_workflow_id := job_workflow_id j, jr_updated_at := now\<rparr>"

definition update_conversion_job :: "int \<Rightarrow> conversion_job \<Rightarrow> job_row list \<Rightarrow> job_row list" where
  "update_conversion_job now j t =
     sql_update (\<lambda>r. jr_job_id r = job_id j) (set_job_columns now j) t"

definition delete_job :: "string \<Rightarrow> int \<Rightarrow> job_row list \<Rightarrow> bool \<times> job_row list" where
  "delete_job i user_id t =
     (let P = (\<lambda>r. jr_job_id r = i \<and> jr_user_id r = Some user_id)
      in (0 < sql_count P t, sql_delete P t))"

subsection \<open>Reads\<close>

definition get_conversion_job :: "string \<Rightarrow> job_row list \<Rightarrow> conversion_job option result" where
  "get_conversion_job i t =
     rbind (scalar_one_or_none (sql_select (\<lambda>r. jr_job_id r = i) t))
       (\<lambda>row. Inr (map_option to_entity row))"

definition list_owned_object_keys :: "int \<Rightarrow> string list \<Rightarrow> job_row list \<Rightarrow> string set" where
  "list_owned_object_keys user_id object_keys t =
     (let wanted = set object_keys;
          rows = sql_select (\<lambda>r. jr_user_id r = Some user_id \<and>
            (jr_object_key r \<in> wanted \<or> (\<exists>f \<in> wanted. jr_output_file r = Some f))) t
      in {k \<in> wanted. \<exists>r \<in> set rows. jr_object_key r = k \<or> jr_output_file r = Some k})"

definition list_user_history :: "int \<Rightarrow> nat \<Rightarrow> nat \<Rightarrow> int option \<Rightarrow> job_origin option \<Rightarrow> job_row list \<Rightarrow>
    conversion_job list \<times> nat" where
  "list_user_history user_id offset limit since origin t =
     (let P = (\<lambda>r. jr_user_id r = Some user_id
            \<and> (case since of None \<Rightarrow> True | Some s \<Rightarrow> s \<le> jr_created_at r)
            \<and> (case origin of None \<Rightarrow> True | Some o' \<Rightarrow> jr_origin r = job_origin_value o'))
      in (map to_entity (take limit (drop offset (order_desc jr_created_at (sql_select P t)))),
          sql_count P t))"

definition list_user_active_jobs :: "int \<Rightarrow> nat \<Rightarrow> nat \<Rightarrow> job_row list \<Rightarrow> conversion_job list \<times> nat" where
  "list_user_active_jobs user_id offset limit t =
     (let P = (\<lambda>r. jr_user_id r = Some user_id
            \<and> jr_status r \<in> {Job_PENDING, Job_PROCESSING, Job_AWAITING_UPLOAD})
      in (map to_entity (take limit (drop offset (order_desc jr_created_at (sql_select P t)))),
          sql_count P t))"

definition list_by_batch :: "string \<Rightarrow> int \<Rightarrow> job_row list \<Rightarrow> conversion_job list" where
  "list_by_batch batch_id user_id t =
     map to_entity (order_asc jr_created_at
       (sql_select (\<lambda>r. jr_batch_id r = Some batch_id \<and> jr_user_id r = Some user_id) t))"

text \<open>\<open>SELECT DISTINCT batch_id\<close> has no \<open>ORDER BY\<close>: the database may return the ids in any order, so
  the order is a parameter, a function that permutes the distinct ids.\<close>

definition list_batch_ids_for_workflow ::
    "(string list \<Rightarrow> string list) \<Rightarrow> string \<Rightarrow> int \<Rightarrow> nat \<Rightarrow> job_row list \<Rightarrow> string list" where
  "list_batch_ids_for_workflow db_order workflow_id user_id limit t =
     take limit (filter (\<lambda>b. b \<noteq> []) (db_order (remdups (List.map_filter jr_batch_id
       (sql_select (\<lambda>r. jr_workflow_id r = Some workflow_id \<and> jr_user_id r = Some user_id
          \<and> jr_batch_id r \<noteq> None) t)))))"

definition count_batches_for_workflow :: "string \<Rightarrow> int \<Rightarrow> job_row list \<Rightarrow> nat" where
  "count_batches_for_workflow workflow_id user_id t =
     length (remdups (List.map_filter jr_batch_id (sql_select (\<lambda>r. jr_workflow_id r = Some workflow_id
       \<and> jr_user_id r = Some user_id \<and> jr_batch_id r \<noteq> None) t)))"

definition count_batches_for_workflows ::
    "string list \<Rightarrow> int \<Rightarrow> job_row list \<Rightarrow> (string \<times> nat) list" where
  "count_batches_for_workflows workflow_ids user_id t =
     (let rows = sql_select (\<lambda>r. (\<exists>w \<in> set workflow_ids. jr_workflow_id r = Some w)
            \<and> jr_user_id r = Some user_id \<and> jr_batch_id r \<noteq> None) t
      in map (\<lambda>w. (w, length (remdups (List.map_filter jr_batch_id
                  (sql_select (\<lambda>r. jr_workflow_id r = Some w) rows)))))
           (filter (\<lambda>w. w \<noteq> []) (remdups (List.map_filter jr_workflow_id rows))))"

record status_counts =
  sc_completed :: nat
  sc_failed :: nat
  sc_total :: nat

definition count_rows :: "(job_row \<Rightarrow> bool) \<Rightarrow> job_row list \<Rightarrow> status_counts" where
  "count_rows P t = \<lparr>sc_completed = sql_count (\<lambda>r. P r \<and> jr_status r = Job_COMPLETED) t,
     sc_failed = sql_count (\<lambda>r. P r \<and> jr_status r = Job_FAILED) t, sc_total = sql_count P t\<rparr>"

definition count_by_status :: "int \<Rightarrow> job_row list \<Rightarrow> status_counts" where
  "count_by_status user_id t = count_rows (\<lambda>r. jr_user_id r = Some user_id) t"

text \<open>\<open>_job_filters\<close>; \<open>None\<close> is the unknown status, for which the callers return zeros.\<close>

definition nonblank :: "string option \<Rightarrow> bool" where
  "nonblank s = (case s of None \<Rightarrow> False | Some x \<Rightarrow> py_strip x \<noteq> [])"

definition job_filters :: "int \<Rightarrow> int option \<Rightarrow> string option \<Rightarrow> string option \<Rightarrow>
    (job_row \<Rightarrow> bool) option" where
  "job_filters user_id since fmt status =
     (let st = (if nonblank status then
                  (case job_status_of_value (py_upper (py_strip (the status))) of
                     Inl _ \<Rightarrow> None | Inr s \<Rightarrow> Some (Some s))
                else Some None)
      in case st of
           None \<Rightarrow> None
         | Some s \<Rightarrow> Some (\<lambda>r. jr_user_id r = Some user_id
             \<and> (case since of None \<Rightarrow> True | Some x \<Rightarrow> x \<le> jr_created_at r)
             \<and> (nonblank fmt \<longrightarrow> (let needle = py_lower (py_strip (the fmt))
                  in py_lower (jr_source_format r) = needle \<or> py_lower (jr_target_format r) = needle))
             \<and> (case s of None \<Rightarrow> True | Some x \<Rightarrow> jr_status r = x)))"

definition counts_by_status :: "int \<Rightarrow> int option \<Rightarrow> string option \<Rightarrow> string option \<Rightarrow> job_row list \<Rightarrow>
    status_counts" where
  "counts_by_status user_id since fmt status t =
     (case job_filters user_id since fmt status of
        None \<Rightarrow> \<lparr>sc_completed = 0, sc_failed = 0, sc_total = 0\<rparr>
      | Some P \<Rightarrow> count_rows P t)"

text \<open>The most frequent first, then by name in the order \<open>coll\<close> of the database.\<close>

definition count_jobs_by_target_format :: "(string \<Rightarrow> int) \<Rightarrow> int \<Rightarrow> int option \<Rightarrow> string option \<Rightarrow> string option \<Rightarrow> job_row list \<Rightarrow>
    (string \<times> nat) list" where
  "count_jobs_by_target_format coll user_id since fmt status t =
     (case job_filters user_id since fmt status of
        None \<Rightarrow> []
      | Some P \<Rightarrow> let number = (\<lambda>f. sql_count (\<lambda>r. P r \<and> jr_target_format r = f) t) in
          map (\<lambda>f. (f, number f)) (sort_key (\<lambda>f. - int (number f)) (sort_key coll (remdups (map jr_target_format (sql_select P t))))))"

definition sum_credits_used :: "int \<Rightarrow> job_row list \<Rightarrow> int" where
  "sum_credits_used user_id t =
     sum_list (map jr_credits_used (sql_select (\<lambda>r. jr_user_id r = Some user_id) t))"

subsection \<open>Bulk delete of the history\<close>

definition in_window :: "int \<Rightarrow> int option \<Rightarrow> job_row \<Rightarrow> bool" where
  "in_window user_id since r = (jr_user_id r = Some user_id
     \<and> (case since of None \<Rightarrow> True | Some s \<Rightarrow> s \<le> jr_created_at r))"

definition deletable_history_filter :: "int \<Rightarrow> int option \<Rightarrow> job_row \<Rightarrow> bool" where
  "deletable_history_filter user_id since r =
     (in_window user_id since r \<and> jr_status r \<in> {Job_COMPLETED, Job_FAILED})"

definition count_deletable_history :: "int \<Rightarrow> int option \<Rightarrow> job_row list \<Rightarrow> nat \<times> nat" where
  "count_deletable_history user_id since t =
     (sql_count (deletable_history_filter user_id since) t,
      sql_count (\<lambda>r. in_window user_id since r
         \<and> jr_status r \<in> {Job_PENDING, Job_PROCESSING, Job_AWAITING_UPLOAD}) t)"

definition delete_history_range :: "int \<Rightarrow> int option \<Rightarrow> job_row list \<Rightarrow> (nat \<times> nat) \<times> job_row list" where
  "delete_history_range user_id since t =
     (let active = snd (count_deletable_history user_id since t)
      in ((sql_count (deletable_history_filter user_id since) t, active),
          sql_delete (deletable_history_filter user_id since) t))"

subsection \<open>Literal search\<close>

definition replace_char :: "char \<Rightarrow> string \<Rightarrow> string \<Rightarrow> string" where
  "replace_char c w s = concat (map (\<lambda>x. if x = c then w else [x]) s)"

definition backslash :: char where "backslash = CHR 0x5C"

definition escape_like :: "string \<Rightarrow> string" where
  "escape_like v = replace_char (CHR ''_'') [backslash, CHR ''_'']
     (replace_char (CHR ''%'') [backslash, CHR ''%'']
       (replace_char backslash [backslash, backslash] v))"

text \<open>\<open>LIKE ... ESCAPE\<close> with the backslash: \<open>%\<close> any run, \<open>_\<close> any character, an escaped character
  itself; a pattern that ends in the escape character is an error.\<close>

datatype like_tok = Any_run | Any_one | Lit char

fun parse_like :: "string \<Rightarrow> like_tok list option" where
  "parse_like [] = Some []"
| "parse_like (c # cs) =
     (if c = backslash then (case cs of [] \<Rightarrow> None
        | d # ds \<Rightarrow> map_option (\<lambda>ts. Lit d # ts) (parse_like ds))
      else if c = CHR ''%'' then map_option (\<lambda>ts. Any_run # ts) (parse_like cs)
      else if c = CHR ''_'' then map_option (\<lambda>ts. Any_one # ts) (parse_like cs)
      else map_option (\<lambda>ts. Lit c # ts) (parse_like cs))"

fun like_match :: "like_tok list \<Rightarrow> string \<Rightarrow> bool" where
  "like_match [] s = (s = [])"
| "like_match (Lit c # ts) s = (case s of [] \<Rightarrow> False | x # xs \<Rightarrow> lower_char x = lower_char c \<and> like_match ts xs)"
| "like_match (Any_one # ts) s = (case s of [] \<Rightarrow> False | x # xs \<Rightarrow> like_match ts xs)"
| "like_match (Any_run # ts) s = list_ex (\<lambda>n. like_match ts (drop n s)) [0..<Suc (length s)]"

definition ilike :: "string \<Rightarrow> string \<Rightarrow> bool" where
  "ilike s pat = (case parse_like pat of None \<Rightarrow> False | Some ts \<Rightarrow> like_match ts s)"

definition search_matches :: "string option \<Rightarrow> string option \<Rightarrow> job_row \<Rightarrow> bool" where
  "search_matches query fmt r =
     ((nonblank query \<longrightarrow>
        (let pat = ''%'' @ escape_like (py_strip (the query)) @ ''%''
         in ilike (jr_input_file r) pat
            \<or> (case jr_output_file r of None \<Rightarrow> False | Some f \<Rightarrow> ilike f pat)))
      \<and> (nonblank fmt \<longrightarrow>
        (let needle = py_lower (dropWhile (\<lambda>c. c = CHR ''.'') (py_strip (the fmt)))
         in py_lower (jr_source_format r) = needle \<or> py_lower (jr_target_format r) = needle)))"

definition search_jobs :: "int \<Rightarrow> string option \<Rightarrow> string option \<Rightarrow> nat \<Rightarrow> job_row list \<Rightarrow>
    conversion_job list" where
  "search_jobs user_id query fmt limit t =
     map to_entity (take limit (order_desc jr_created_at
       (sql_select (\<lambda>r. jr_user_id r = Some user_id \<and> search_matches query fmt r) t)))"

subsection \<open>The worker's repository\<close>

fun update_attempt :: "commit_fate \<Rightarrow> int \<Rightarrow> conversion_job \<Rightarrow> job_row list \<Rightarrow> unit result \<times> job_row list" where
  "update_attempt Commit_ok now j t = (Inr (), update_conversion_job now j t)"
| "update_attempt (Commit_lost e) now j t = (Inl e, t)"
| "update_attempt (Commit_reply_lost e) now j t = (Inl e, update_conversion_job now j t)"

definition worker_update :: "(nat \<Rightarrow> commit_fate) \<Rightarrow> int \<Rightarrow> conversion_job \<Rightarrow> job_row list \<Rightarrow>
    unit result \<times> job_row list" where
  "worker_update fate now j t =
     (case update_attempt (fate 0) now j t of
        (Inl e, t') \<Rightarrow> if retryable_db_error e then update_attempt (fate 1) now j t' else (Inl e, t')
      | r \<Rightarrow> r)"

definition read_attempt :: "exn option \<Rightarrow> string \<Rightarrow> job_row list \<Rightarrow> conversion_job option result" where
  "read_attempt fault i t = (case fault of Some e \<Rightarrow> Inl e | None \<Rightarrow> get_conversion_job i t)"

definition worker_get :: "(nat \<Rightarrow> exn option) \<Rightarrow> string \<Rightarrow> job_row list \<Rightarrow> conversion_job option result" where
  "worker_get fault i t =
     (case read_attempt (fault 0) i t of
        Inl e \<Rightarrow> if retryable_db_error e then read_attempt (fault 1) i t else Inl e
      | r \<Rightarrow> r)"

subsection \<open>Lemmas\<close>

definition jobs_ok :: "job_row list \<Rightarrow> bool" where
  "jobs_ok t = unique_key jr_job_id t"

definition job_row_at :: "string \<Rightarrow> job_row list \<Rightarrow> job_row option" where
  "job_row_at i t = sql_first (sql_select (\<lambda>r. jr_job_id r = i) t)"

lemma get_job_ok: "jobs_ok t \<Longrightarrow> get_conversion_job i t = Inr (map_option to_entity (job_row_at i t))"
  by (simp add: get_conversion_job_def jobs_ok_def job_row_at_def scalar_one_unique)

lemma set_job_columns_frame [simp]:
  "jr_job_id (set_job_columns now j r) = jr_job_id r" "jr_user_id (set_job_columns now j r) = jr_user_id r"
  "jr_origin (set_job_columns now j r) = jr_origin r" "jr_created_at (set_job_columns now j r) = jr_created_at r"
  "jr_input_file (set_job_columns now j r) = jr_input_file r"
  "jr_source_format (set_job_columns now j r) = jr_source_format r"
  "jr_target_format (set_job_columns now j r) = jr_target_format r"
  "jr_batch_id (set_job_columns now j r) = job_batch_id j"
  "jr_workflow_id (set_job_columns now j r) = job_workflow_id j"
  "jr_status (set_job_columns now j r) = job_status j"
  "jr_output_file (set_job_columns now j r) = job_output_file j"
  by (simp_all add: set_job_columns_def)

lemma jobs_ok_update: "jobs_ok (update_conversion_job now j t) = jobs_ok t"
  by (simp add: jobs_ok_def update_conversion_job_def unique_key_update)

lemma jobs_ok_save: "jobs_ok t \<Longrightarrow> save_conversion_job now j t = Inr t' \<Longrightarrow> jobs_ok t'"
  by (auto simp: jobs_ok_def save_conversion_job_def unique_key_append job_row_of_def split: if_splits)

lemma job_row_at_update:
  "job_row_at i (update_conversion_job now j t)
    = map_option (\<lambda>r. if i = job_id j then set_job_columns now j r else r) (job_row_at i t)"
proof -
  have "job_row_at i (update_conversion_job now j t)
      = map_option (\<lambda>r. if jr_job_id r = job_id j then set_job_columns now j r else r) (job_row_at i t)"
    unfolding job_row_at_def update_conversion_job_def by (rule sql_first_update) simp
  also have "\<dots> = map_option (\<lambda>r. if i = job_id j then set_job_columns now j r else r) (job_row_at i t)"
    by (cases "job_row_at i t") (auto simp: job_row_at_def dest: sql_first_Some)
  finally show ?thesis .
qed

lemma job_row_at_save: "save_conversion_job now j t = Inr t' \<Longrightarrow>
  job_row_at i t' = (if i = job_id j then Some (job_row_of now j) else job_row_at i t)"
proof -
  assume "save_conversion_job now j t = Inr t'"
  then have t: "t' = t @ [job_row_of now j]" "job_id j \<notin> jr_job_id ` set t"
    by (auto simp: save_conversion_job_def split: if_splits)
  have "jr_job_id (job_row_of now j) = job_id j" by (simp add: job_row_of_def)
  moreover have "job_row_at (job_id j) t = None"
    using t(2) by (auto simp: job_row_at_def sql_first_None image_iff)
  ultimately show ?thesis
    using t(1) by (auto simp: job_row_at_def sql_first_append split: option.splits)
qed

lemma to_entity_row_of: "to_entity (job_row_of now j) = j\<lparr>job_created_at := Some now\<rparr>"
  by (simp add: to_entity_def job_row_of_def coerce_origin_value)

lemma save_get: "jobs_ok t \<Longrightarrow> save_conversion_job now j t = Inr t' \<Longrightarrow>
  get_conversion_job (job_id j) t' = Inr (Some (j\<lparr>job_created_at := Some now\<rparr>))"
  by (simp add: get_job_ok jobs_ok_save job_row_at_save to_entity_row_of)

subsubsection \<open>Escaped patterns match literally\<close>

definition like_esc :: "char \<Rightarrow> string" where
  "like_esc c = (if c \<in> {backslash, CHR ''%'', CHR ''_''} then [backslash, c] else [c])"

lemma replace_char_append: "replace_char c w (a @ b) = replace_char c w a @ replace_char c w b"
  by (simp add: replace_char_def)

lemma escape_like_append: "escape_like (a @ b) = escape_like a @ escape_like b"
  by (simp add: escape_like_def replace_char_append)

lemma escape_like_single: "escape_like [c] = like_esc c"
  by (simp add: escape_like_def like_esc_def replace_char_def backslash_def)

lemma escape_like_Cons: "escape_like (c # cs) = like_esc c @ escape_like cs"
  using escape_like_append [of "[c]" cs] by (simp add: escape_like_single)

lemma parse_escaped: "parse_like (escape_like v @ p) = map_option (\<lambda>ts. map Lit v @ ts) (parse_like p)"
proof (induction v)
  case Nil
  then show ?case by (simp add: escape_like_def replace_char_def option.map_ident)
next
  case (Cons c cs)
  have "parse_like (like_esc c @ s) = map_option (\<lambda>ts. Lit c # ts) (parse_like s)" for s
    by (simp add: like_esc_def)
  then show ?case using Cons by (simp add: escape_like_Cons option.map_comp comp_def)
qed

lemma like_match_lits: "like_match (map Lit v @ ts) s \<longleftrightarrow>
  (\<exists>a b. s = a @ b \<and> py_lower a = py_lower v \<and> like_match ts b)"
proof (induction v arbitrary: s)
  case (Cons c cs)
  show ?case
  proof (cases s)
    case Nil
    then show ?thesis by (simp add: py_lower_def)
  next
    case (Cons x xs)
    show ?thesis
    proof
      assume "like_match (map Lit (c # cs) @ ts) s"
      with Cons Cons.IH [of xs] obtain a b where "xs = a @ b" "py_lower a = py_lower cs"
        "like_match ts b" "lower_char x = lower_char c" by auto
      with Cons show "\<exists>a b. s = a @ b \<and> py_lower a = py_lower (c # cs) \<and> like_match ts b"
        by (intro exI [of _ "x # a"] exI [of _ b]) (simp add: py_lower_def)
    next
      assume "\<exists>a b. s = a @ b \<and> py_lower a = py_lower (c # cs) \<and> like_match ts b"
      with Cons Cons.IH [of xs] show "like_match (map Lit (c # cs) @ ts) s"
        by (auto simp: py_lower_def Cons_eq_append_conv)
    qed
  qed
qed (auto simp: py_lower_def)

lemma like_match_run: "like_match (Any_run # ts) s \<longleftrightarrow> (\<exists>a b. s = a @ b \<and> like_match ts b)"
proof
  assume "like_match (Any_run # ts) s"
  then obtain n where "like_match ts (drop n s)" by (auto simp: list_ex_iff simp del: upt_Suc)
  then show "\<exists>a b. s = a @ b \<and> like_match ts b" by (metis append_take_drop_id)
next
  assume "\<exists>a b. s = a @ b \<and> like_match ts b"
  then obtain a b where "s = a @ b" "like_match ts b" by blast
  then show "like_match (Any_run # ts) s"
    by (auto simp: list_ex_iff simp del: upt_Suc intro!: bexI [of _ "length a"])
qed

lemma ilike_escaped: "ilike s (''%'' @ escape_like v @ ''%'') \<longleftrightarrow> sublist (py_lower v) (py_lower s)"
proof -
  have "ilike s (''%'' @ escape_like v @ ''%'') \<longleftrightarrow> like_match (Any_run # map Lit v @ [Any_run]) s"
    by (simp add: ilike_def parse_escaped backslash_def)
  also have "\<dots> \<longleftrightarrow> (\<exists>a m b. s = a @ m @ b \<and> py_lower m = py_lower v)"
    by (auto simp: like_match_run like_match_lits simp del: like_match.simps(4))
  also have "\<dots> \<longleftrightarrow> sublist (py_lower v) (py_lower s)"
  proof
    assume "\<exists>a m b. s = a @ m @ b \<and> py_lower m = py_lower v"
    then show "sublist (py_lower v) (py_lower s)" by (auto simp: sublist_def py_lower_def) metis
  next
    assume "sublist (py_lower v) (py_lower s)"
    then obtain p r where "map lower_char s = p @ map lower_char v @ r"
      by (auto simp: sublist_def py_lower_def)
    then obtain a c where "s = a @ c" "map lower_char v @ r = map lower_char c"
      by (auto simp: map_eq_append_conv)
    moreover from this obtain m b where "c = m @ b" "map lower_char v = map lower_char m"
      by (metis map_eq_append_conv)
    ultimately show "\<exists>a m b. s = a @ m @ b \<and> py_lower m = py_lower v"
      by (auto simp: py_lower_def)
  qed
  finally show ?thesis .
qed

subsection \<open>Properties\<close>

text \<open>the history preview is exact. The two numbers \<open>count_deletable_history\<close> shows are the two
  numbers the delete returns, as many rows disappear as it reports, a row disappears only if it is
  the user's, inside the window and finished, and every such row does.\<close>

theorem history_preview_exact:
  "fst (delete_history_range u since t) = count_deletable_history u since t
   \<and> length (snd (delete_history_range u since t)) + fst (count_deletable_history u since t) = length t
   \<and> set (snd (delete_history_range u since t))
       = {r \<in> set t. \<not> (jr_user_id r = Some u \<and> jr_status r \<in> {Job_COMPLETED, Job_FAILED}
            \<and> (case since of None \<Rightarrow> True | Some s \<Rightarrow> s \<le> jr_created_at r))}"
  using sql_count_delete [of "deletable_history_filter u since" t]
  by (auto simp: delete_history_range_def count_deletable_history_def set_sql_delete
      deletable_history_filter_def in_window_def Let_def)

text \<open>a saved job reads back as it was saved, with its creation time, whatever its origin.\<close>

theorem saved_job_reads_back:
  assumes "jobs_ok t" "save_conversion_job now j t = Inr t'"
  shows "jobs_ok t' \<and> get_conversion_job (job_id j) t' = Inr (Some (j\<lparr>job_created_at := Some now\<rparr>))
    \<and> (\<forall>i. i \<noteq> job_id j \<longrightarrow> get_conversion_job i t' = get_conversion_job i t)"
  using assms save_get jobs_ok_save by (simp add: get_job_ok jobs_ok_save job_row_at_save)

theorem saved_job_reads_back_witness:
  "let j = (new_job ''j1'' \<lparr>ct_source_format = ''pdf'', ct_target_format = ''txt''\<rparr> ''a.pdf'')
              \<lparr>job_origin := Origin_MCP, job_batch_id := Some ''b''\<rparr>
   in get_conversion_job ''j1'' [job_row_of 5 j] = Inr (Some (j\<lparr>job_created_at := Some 5\<rparr>))"
proof -
  let ?j = "(new_job ''j1'' \<lparr>ct_source_format = ''pdf'', ct_target_format = ''txt''\<rparr> ''a.pdf'')
              \<lparr>job_origin := Origin_MCP, job_batch_id := Some ''b''\<rparr>"
  have "save_conversion_job 5 ?j [] = Inr [job_row_of 5 ?j]" by (simp add: save_conversion_job_def)
  from saved_job_reads_back [OF _ this] show ?thesis by (simp add: jobs_ok_def new_job_def)
qed

text \<open>a name search is literal. However the term is written (with percent signs, underscores or
  backslashes), the escaped pattern matches a file name exactly when the term occurs in it, up to
  letter case.\<close>

theorem search_is_literal:
  "ilike s (''%'' @ escape_like v @ ''%'') \<longleftrightarrow> (\<exists>a b. py_lower s = a @ py_lower v @ b)"
  using ilike_escaped [of s v] by (simp add: sublist_def)

end
