(* ===== verification/Job_Queue.thy ===== *)
theory Job_Queue
  imports Conversion_Job "HOL-Library.Multiset"
begin

section \<open>The job queue on Redis streams\<close>

text \<open>
  Models \<open>stream_names.py\<close>, \<open>messages.py\<close>, the tier router and dispatcher, and
  \<open>redis_stream_job_queue.py\<close>: publishing, the consumer with its buffer and delivery keys,
  acknowledging, dead-lettering and the re-queueing of stale deliveries. Redis itself is modelled
  as documented: a stream is an append-only list of entries with increasing ids, the consumer
  group has a last delivered id and a pending entries list; \<open>COUNT\<close> is per stream; \<open>XACK\<close> removes
  a pending entry; \<open>XAUTOCLAIM\<close> hands over pending entries that have been idle long enough. An id
  \<open>n\<close> is written \<open>n-0\<close>. Every call may fail before or after it took effect: the fate of the
  \<open>k\<close>-th call is an argument.
\<close>

subsection \<open>Stream names\<close>

definition JOB_STREAM :: string where "JOB_STREAM = ''conversion_jobs''"

definition JOB_TIER_STREAMS :: "string list" where
  "JOB_TIER_STREAMS = [JOB_STREAM @ '':high'', JOB_STREAM @ '':normal'', JOB_STREAM @ '':low'', JOB_STREAM]"

definition JOB_DEAD_LETTER_STREAM :: string where
  "JOB_DEAD_LETTER_STREAM = JOB_STREAM @ '':dead''"

text \<open>\<open>stream_prefix()\<close>: the setting, or the empty prefix when it is unset or cannot be read.\<close>

definition stream_prefix :: "string option result \<Rightarrow> string" where
  "stream_prefix setting = (case setting of Inl _ \<Rightarrow> [] | Inr None \<Rightarrow> [] | Inr (Some p) \<Rightarrow> p)"

definition qualify :: "string \<Rightarrow> string \<Rightarrow> string" where
  "qualify prefix stream_name =
     (if prefix = [] \<or> py_startswith stream_name prefix then stream_name else prefix @ stream_name)"

definition qualify_all :: "string \<Rightarrow> string list \<Rightarrow> string list" where
  "qualify_all prefix names = map (qualify prefix) names"

lemma qualify_idem: "qualify p (qualify p n) = qualify p n"
  by (simp add: qualify_def py_startswith_def)

subsection \<open>Routing\<close>

fun stream_for_tier :: "string \<Rightarrow> subscription_tier \<Rightarrow> string" where
  "stream_for_tier p Tier_GUEST = qualify p (JOB_STREAM @ '':low'')"
| "stream_for_tier p Tier_FREE = qualify p (JOB_STREAM @ '':normal'')"
| "stream_for_tier p Tier_PREMIUM = qualify p (JOB_STREAM @ '':high'')"
| "stream_for_tier p Tier_PRO = qualify p (JOB_STREAM @ '':high'')"
| "stream_for_tier p Tier_PRO_PLUS = qualify p (JOB_STREAM @ '':high'')"
| "stream_for_tier p Tier_ENTERPRISE = qualify p (JOB_STREAM @ '':high'')"

subsection \<open>Messages\<close>

type_synonym fields = "(string \<times> string) list"

record job_message =
  jm_job_id :: string
  jm_source_format :: string
  jm_target_format :: string
  jm_input_key :: string
  jm_object_key :: string
  jm_user_id :: "string option"
  jm_retries :: int
  jm_client_encrypted :: bool
  jm_data_key_wrapped :: "string option"
  jm_origin :: job_origin

definition from_conversion_job :: "conversion_job \<Rightarrow> job_message result" where
  "from_conversion_job j =
     (if job_object_key j = []
      then Inl (ValueError ''ConversionJob must have an object_key to create a ConversionJobMessage'')
      else Inr \<lparr>jm_job_id = job_id j, jm_source_format = ct_source_format (job_conversion j),
        jm_target_format = ct_target_format (job_conversion j), jm_input_key = job_input_file j,
        jm_object_key = job_object_key j, jm_user_id = map_option str_int (job_user_id j),
        jm_retries = 0, jm_client_encrypted = job_client_encrypted j,
        jm_data_key_wrapped = job_data_key_wrapped j, jm_origin = job_origin j\<rparr>)"

definition opt_field :: "string \<Rightarrow> string option \<Rightarrow> fields" where
  "opt_field k v = (case v of None \<Rightarrow> [] | Some x \<Rightarrow> [(k, x)])"

text \<open>\<open>to_dict\<close>, with the values as Redis stores them.\<close>

definition message_to_dict :: "job_message \<Rightarrow> fields" where
  "message_to_dict m =
     [(''job_id'', jm_job_id m), (''source_format'', jm_source_format m),
      (''target_format'', jm_target_format m), (''input_key'', jm_input_key m),
      (''object_key'', jm_object_key m)] @ opt_field ''user_id'' (jm_user_id m) @
     [(''retries'', str_int (jm_retries m)),
      (''client_encrypted'', if jm_client_encrypted m then ''true'' else ''false'')] @
     opt_field ''data_key_wrapped'' (jm_data_key_wrapped m) @
     [(''origin'', job_origin_value (jm_origin m))]"

definition to_bool :: "string option \<Rightarrow> bool" where
  "to_bool v = (py_lower (py_strip (case v of None \<Rightarrow> ''None'' | Some s \<Rightarrow> s))
     \<in> {''true'', ''1'', ''yes''})"

subsection \<open>Redis\<close>

record pel_entry =
  pe_id :: nat
  pe_consumer :: string
  pe_delivered_at :: int

record redis_stream =
  rs_entries :: "(nat \<times> fields) list"
  rs_next :: nat
  rs_last_delivered :: nat
  rs_pel :: "pel_entry list"

text \<open>The group starts at \<open>0\<close>, and ids start above it.\<close>

definition empty_stream :: redis_stream where
  "empty_stream = \<lparr>rs_entries = [], rs_next = 1, rs_last_delivered = 0, rs_pel = []\<rparr>"

record redis =
  rd_streams :: "string \<Rightarrow> redis_stream"
  rd_tick :: nat

definition id_str :: "nat \<Rightarrow> string" where
  "id_str n = str_nat n @ ''-0''"

definition put_stream :: "string \<Rightarrow> redis_stream \<Rightarrow> redis \<Rightarrow> redis" where
  "put_stream s x r = r\<lparr>rd_streams := (rd_streams r)(s := x)\<rparr>"

definition stream_add :: "nat option \<Rightarrow> fields \<Rightarrow> redis_stream \<Rightarrow> redis_stream" where
  "stream_add maxlen f x =
     (let es = rs_entries x @ [(rs_next x, f)];
          kept = (case maxlen of None \<Rightarrow> es | Some n \<Rightarrow> drop (length es - n) es)
      in x\<lparr>rs_entries := kept, rs_next := Suc (rs_next x)\<rparr>)"

definition xadd :: "string \<Rightarrow> nat option \<Rightarrow> fields \<Rightarrow> redis \<Rightarrow> nat \<times> redis" where
  "xadd s maxlen f r = (rs_next (rd_streams r s), put_stream s (stream_add maxlen f (rd_streams r s)) r)"

definition stream_ack :: "nat \<Rightarrow> redis_stream \<Rightarrow> redis_stream" where
  "stream_ack n x = x\<lparr>rs_pel := filter (\<lambda>e. pe_id e \<noteq> n) (rs_pel x)\<rparr>"

text \<open>\<open>XACK\<close> takes an id as a string; one that names no pending entry acknowledges nothing.\<close>

definition xack :: "string \<Rightarrow> string \<Rightarrow> redis \<Rightarrow> nat \<times> redis" where
  "xack s i r = (let x = rd_streams r s;
       ids = filter (\<lambda>n. id_str n = i) (map pe_id (rs_pel x))
     in (length ids, put_stream s (fold stream_ack ids x) r))"

definition undelivered :: "redis_stream \<Rightarrow> (nat \<times> fields) list" where
  "undelivered x = filter (\<lambda>(i, f). rs_last_delivered x < i) (rs_entries x)"

definition stream_deliver :: "string \<Rightarrow> int \<Rightarrow> nat \<Rightarrow> redis_stream \<Rightarrow> redis_stream" where
  "stream_deliver consumer now i x = x\<lparr>rs_last_delivered := i,
     rs_pel := rs_pel x @ [\<lparr>pe_id = i, pe_consumer = consumer, pe_delivered_at = now\<rparr>]\<rparr>"

text \<open>\<open>XREADGROUP ... COUNT 1\<close>: the first undelivered entry of every stream that has one, in the
  order the streams are named.\<close>

fun xreadgroup :: "string \<Rightarrow> int \<Rightarrow> string list \<Rightarrow> redis \<Rightarrow>
    (string \<times> (nat \<times> fields) list) list \<times> redis" where
  "xreadgroup consumer now [] r = ([], r)"
| "xreadgroup consumer now (s # ss) r =
     (case undelivered (rd_streams r s) of
        [] \<Rightarrow> xreadgroup consumer now ss r
      | (i, f) # _ \<Rightarrow>
        (let (resp, r') = xreadgroup consumer now ss
               (put_stream s (stream_deliver consumer now i (rd_streams r s)) r)
         in ((s, [(i, f)]) # resp, r')))"

definition entry_fields :: "redis_stream \<Rightarrow> nat \<Rightarrow> fields option" where
  "entry_fields x i = map_of (rs_entries x) i"

text \<open>\<open>XAUTOCLAIM\<close>: up to \<open>limit\<close> idle pending entries whose entry still exists.\<close>

definition claimable :: "int \<Rightarrow> int \<Rightarrow> nat \<Rightarrow> redis_stream \<Rightarrow> nat list" where
  "claimable min_idle now limit x =
     take limit (map pe_id (filter (\<lambda>e. min_idle \<le> now - pe_delivered_at e
        \<and> entry_fields x (pe_id e) \<noteq> None) (rs_pel x)))"

definition xautoclaim :: "string \<Rightarrow> string \<Rightarrow> int \<Rightarrow> int \<Rightarrow> nat \<Rightarrow> redis \<Rightarrow> (nat \<times> fields) list \<times> redis" where
  "xautoclaim s consumer min_idle now limit r =
     (let x = rd_streams r s; ids = claimable min_idle now limit x
      in (map (\<lambda>i. (i, the (entry_fields x i))) ids,
          put_stream s (x\<lparr>rs_pel := map (\<lambda>e. if pe_id e \<in> set ids
             then e\<lparr>pe_consumer := consumer, pe_delivered_at := now\<rparr> else e) (rs_pel x)\<rparr>) r))"

text \<open>One call of the client, with its fate.\<close>

definition redis_call :: "(nat \<Rightarrow> commit_fate) \<Rightarrow> (redis \<Rightarrow> 'a \<times> redis) \<Rightarrow> redis \<Rightarrow> 'a result \<times> redis" where
  "redis_call fate f r = (case fate (rd_tick r) of
       Commit_ok \<Rightarrow> (Inr (fst (f r)), (snd (f r))\<lparr>rd_tick := Suc (rd_tick r)\<rparr>)
     | Commit_lost e \<Rightarrow> (Inl e, r\<lparr>rd_tick := Suc (rd_tick r)\<rparr>)
     | Commit_reply_lost e \<Rightarrow> (Inl e, (snd (f r))\<lparr>rd_tick := Suc (rd_tick r)\<rparr>))"

subsection \<open>Publishing\<close>

definition publish_job :: "(nat \<Rightarrow> commit_fate) \<Rightarrow> string \<Rightarrow> conversion_job \<Rightarrow> string option \<Rightarrow> redis \<Rightarrow>
    nat result \<times> redis" where
  "publish_job fate prefix j stream r =
     (case from_conversion_job j of
        Inl e \<Rightarrow> (Inl e, r)
      | Inr m \<Rightarrow>
        (let target = (case stream of None \<Rightarrow> qualify prefix JOB_STREAM
               | Some s \<Rightarrow> if s = [] then qualify prefix JOB_STREAM else s)
         in redis_call fate (xadd target None (message_to_dict m)) r))"

definition dispatch :: "(nat \<Rightarrow> commit_fate) \<Rightarrow> string \<Rightarrow> conversion_job \<Rightarrow> subscription_tier \<Rightarrow> redis \<Rightarrow>
    nat result \<times> redis" where
  "dispatch fate prefix j tier r = publish_job fate prefix j (Some (stream_for_tier prefix tier)) r"

subsection \<open>The consumer\<close>

type_synonym delivery = "string \<times> string \<times> fields"

record consumer =
  cs_name :: string
  cs_prefix :: string
  cs_message_streams :: "(string \<times> string) list"
  cs_buffer :: "delivery list"

definition new_consumer :: "string \<Rightarrow> string \<Rightarrow> consumer" where
  "new_consumer name prefix = \<lparr>cs_name = name, cs_prefix = prefix, cs_message_streams = [], cs_buffer = []\<rparr>"

definition cs_streams :: "consumer \<Rightarrow> string list" where
  "cs_streams c = qualify_all (cs_prefix c) JOB_TIER_STREAMS"

definition cs_stream_name :: "consumer \<Rightarrow> string" where
  "cs_stream_name c = qualify (cs_prefix c) JOB_STREAM"

definition delivery_key :: "string \<Rightarrow> string \<Rightarrow> string" where
  "delivery_key stream message_id = stream @ '':'' @ message_id"

definition required :: "fields \<Rightarrow> string \<Rightarrow> string result" where
  "required f k = (case map_of f k of None \<Rightarrow> Inl (KeyError k) | Some v \<Rightarrow> Inr v)"

definition nonempty_field :: "fields \<Rightarrow> string \<Rightarrow> string option" where
  "nonempty_field f k = (case map_of f k of None \<Rightarrow> None | Some v \<Rightarrow> if v = [] then None else Some v)"

definition parse_job :: "fields \<Rightarrow> conversion_job result" where
  "parse_job f =
     rbind (required f ''job_id'') (\<lambda>i.
     rbind (required f ''source_format'') (\<lambda>src.
     rbind (required f ''target_format'') (\<lambda>tgt.
     rbind (required f ''input_key'') (\<lambda>input.
     rbind (required f ''object_key'') (\<lambda>key.
     rbind (case nonempty_field f ''user_id'' of None \<Rightarrow> Inr None
              | Some u \<Rightarrow> rbind (py_int u) (\<lambda>n. Inr (Some n))) (\<lambda>uid.
     Inr ((new_job i \<lparr>ct_source_format = src, ct_target_format = tgt\<rparr> input)
        \<lparr>job_object_key := key, job_output_file := Some [], job_status := Job_PENDING,
         job_user_id := uid, job_client_encrypted := to_bool (map_of f ''client_encrypted''),
         job_data_key_wrapped := nonempty_field f ''data_key_wrapped'',
         job_origin := coerce_job_origin (case map_of f ''origin'' of
            None \<Rightarrow> Arg_other | Some s \<Rightarrow> Arg_str s)\<rparr>)))))))"

text \<open>\<open>_build_job\<close> records the stream of the delivery before it parses the fields.\<close>

definition build_job :: "delivery \<Rightarrow> consumer \<Rightarrow> (string \<times> conversion_job) result \<times> consumer" where
  "build_job d c = (case d of (stream, message_id, f) \<Rightarrow>
     (let key = delivery_key stream message_id;
          c' = c\<lparr>cs_message_streams := (key, stream) # cs_message_streams c\<rparr>
      in (rbind (parse_job f) (\<lambda>j. Inr (key, j)), c')))"

definition deliveries_of :: "(string \<times> (nat \<times> fields) list) list \<Rightarrow> delivery list" where
  "deliveries_of resp = concat (map (\<lambda>(s, ms). map (\<lambda>(i, f). (s, id_str i, f)) ms) resp)"

definition fetch_job :: "(nat \<Rightarrow> commit_fate) \<Rightarrow> int \<Rightarrow> consumer \<Rightarrow> redis \<Rightarrow>
    (string \<times> conversion_job) option result \<times> consumer \<times> redis" where
  "fetch_job fate now c r =
     (case cs_buffer c of
        d # ds \<Rightarrow> (let (res, c') = build_job d (c\<lparr>cs_buffer := ds\<rparr>)
                   in (rbind res (\<lambda>x. Inr (Some x)), c', r))
      | [] \<Rightarrow>
        (case redis_call fate (xreadgroup (cs_name c) now (cs_streams c)) r of
           (Inl e, r') \<Rightarrow> (Inl e, c, r')
         | (Inr resp, r') \<Rightarrow> (case deliveries_of resp of
             [] \<Rightarrow> (Inr None, c, r')
           | d # ds \<Rightarrow> (let (res, c') = build_job d (c\<lparr>cs_buffer := cs_buffer c @ ds\<rparr>)
                        in (rbind res (\<lambda>x. Inr (Some x)), c', r')))))"

text \<open>\<open>message_id.rpartition(":")[0]\<close>: what is before the last colon.\<close>

definition rpartition_head :: "string \<Rightarrow> string" where
  "rpartition_head s = (if CHR '':'' \<in> set s
     then rev (tl (dropWhile (\<lambda>c. c \<noteq> CHR '':'') (rev s))) else [])"

definition stream_for_message :: "string \<Rightarrow> consumer \<Rightarrow> string \<times> consumer" where
  "stream_for_message key c = (case map_of (cs_message_streams c) key of
       Some s \<Rightarrow> (s, c\<lparr>cs_message_streams := filter (\<lambda>(k, _). k \<noteq> key) (cs_message_streams c)\<rparr>)
     | None \<Rightarrow> (let decoded = rpartition_head key
                in (if decoded \<in> set (cs_streams c) then decoded else cs_stream_name c, c)))"

definition raw_message_id :: "string \<Rightarrow> string \<Rightarrow> string" where
  "raw_message_id stream key =
     (let prefix = stream @ '':'' in if py_startswith key prefix then drop (length prefix) key else key)"

definition acknowledge_job :: "(nat \<Rightarrow> commit_fate) \<Rightarrow> string \<Rightarrow> consumer \<Rightarrow> redis \<Rightarrow>
    nat result \<times> consumer \<times> redis" where
  "acknowledge_job fate key c r =
     (let (stream, c') = stream_for_message key c;
          (res, r') = redis_call fate (xack stream (raw_message_id stream key)) r
      in (res, c', r'))"

text \<open>\<open>fail_job\<close> acknowledges as well; its message is not used.\<close>

definition fail_job :: "(nat \<Rightarrow> commit_fate) \<Rightarrow> string \<Rightarrow> string \<Rightarrow> consumer \<Rightarrow> redis \<Rightarrow>
    nat result \<times> consumer \<times> redis" where
  "fail_job fate key error_message c r = acknowledge_job fate key c r"

definition DEAD_LETTER_MAXLEN :: nat where "DEAD_LETTER_MAXLEN = 10000"

definition dead_letter_job :: "(nat \<Rightarrow> commit_fate) \<Rightarrow> string \<Rightarrow> string \<Rightarrow> conversion_job \<Rightarrow> consumer \<Rightarrow>
    redis \<Rightarrow> nat result \<times> redis" where
  "dead_letter_job fate key error_message j c r =
     (case from_conversion_job j of
        Inl e \<Rightarrow> (Inl e, r)
      | Inr m \<Rightarrow> redis_call fate (xadd (qualify (cs_prefix c) JOB_DEAD_LETTER_STREAM)
           (Some DEAD_LETTER_MAXLEN)
           (message_to_dict m @ [(''error'', error_message), (''original_message_id'', key)])) r)"

subsection \<open>Re-queueing stale deliveries\<close>

definition requeue :: "(nat \<Rightarrow> commit_fate) \<Rightarrow> string \<Rightarrow> nat \<times> fields \<Rightarrow> redis \<Rightarrow> bool \<times> redis" where
  "requeue fate stream e r = (case e of (i, f) \<Rightarrow>
     (case redis_call fate (xadd stream None f) r of
        (Inl _, r1) \<Rightarrow> (False, r1)
      | (Inr _, r1) \<Rightarrow> (True, snd (redis_call fate (xack stream (id_str i)) r1))))"

fun requeue_all :: "(nat \<Rightarrow> commit_fate) \<Rightarrow> string \<Rightarrow> (nat \<times> fields) list \<Rightarrow> redis \<Rightarrow> nat \<times> redis" where
  "requeue_all fate stream [] r = (0, r)"
| "requeue_all fate stream (e # es) r =
     (let (ok, r1) = requeue fate stream e r; (n, r2) = requeue_all fate stream es r1
      in ((if ok then Suc n else n), r2))"

fun reclaim_streams :: "(nat \<Rightarrow> commit_fate) \<Rightarrow> string \<Rightarrow> int \<Rightarrow> int \<Rightarrow> nat \<Rightarrow> string list \<Rightarrow> redis \<Rightarrow>
    nat \<times> redis" where
  "reclaim_streams fate consumer min_idle now limit [] r = (0, r)"
| "reclaim_streams fate consumer min_idle now limit (s # ss) r =
     (case redis_call fate (xautoclaim s consumer min_idle now limit) r of
        (Inl _, r1) \<Rightarrow> reclaim_streams fate consumer min_idle now limit ss r1
      | (Inr claimed, r1) \<Rightarrow>
        (let (n, r2) = requeue_all fate s claimed r1;
             (m, r3) = reclaim_streams fate consumer min_idle now limit ss r2
         in (n + m, r3)))"

definition reclaim_stale_jobs :: "(nat \<Rightarrow> commit_fate) \<Rightarrow> int \<Rightarrow> int \<Rightarrow> nat \<Rightarrow> consumer \<Rightarrow> redis \<Rightarrow>
    nat \<times> redis" where
  "reclaim_stale_jobs fate min_idle now limit c r =
     reclaim_streams fate (cs_name c) min_idle now limit (cs_streams c) r"

subsection \<open>Creating the group\<close>

text \<open>\<open>_ensure_consumer_group_with_retry\<close>: the result, and the delays slept between the attempts
  (the base delay in the same unit).\<close>

fun ensure_group_retry :: "(nat \<Rightarrow> unit result) \<Rightarrow> nat \<Rightarrow> rat \<Rightarrow> nat \<Rightarrow> unit result \<times> rat list" where
  "ensure_group_retry attempt_result max_retries base_delay 0 = (Inr (), [])"
| "ensure_group_retry attempt_result max_retries base_delay (Suc left) =
     (let attempt = max_retries - Suc left in
      case attempt_result attempt of
        Inr u \<Rightarrow> (Inr u, [])
      | Inl e \<Rightarrow> if attempt < max_retries - 1 then
           (let (res, ds) = ensure_group_retry attempt_result max_retries base_delay left
            in (res, min (base_delay * 2 ^ attempt) 60 # ds))
         else (Inl e, []))"

definition ensure_consumer_group_with_retry ::
    "(nat \<Rightarrow> unit result) \<Rightarrow> nat \<Rightarrow> rat \<Rightarrow> unit result \<times> rat list" where
  "ensure_consumer_group_with_retry attempt_result max_retries base_delay =
     ensure_group_retry attempt_result max_retries base_delay max_retries"

subsection \<open>Round trip of a message\<close>

lemma to_bool_literals [simp]: "to_bool (Some ''true'')" "\<not> to_bool (Some ''false'')"
  by (simp_all add: to_bool_def py_strip_def py_lower_def lower_char_def is_space_def)

lemma parse_published:
  assumes "from_conversion_job j = Inr m" "job_data_key_wrapped j \<noteq> Some []"
  shows "parse_job (message_to_dict m) = Inr (j\<lparr>job_output_file := Some [], job_status := Job_PENDING,
     job_error_message := None, job_compute_duration_ms := 0, job_credits_used := 0,
     job_created_at := None, job_input_size_bytes := 0, job_output_size_bytes := 0,
     job_progress := 0, job_batch_id := None, job_workflow_id := None\<rparr>)"
proof -
  have m: "m = \<lparr>jm_job_id = job_id j, jm_source_format = ct_source_format (job_conversion j),
        jm_target_format = ct_target_format (job_conversion j), jm_input_key = job_input_file j,
        jm_object_key = job_object_key j, jm_user_id = map_option str_int (job_user_id j),
        jm_retries = 0, jm_client_encrypted = job_client_encrypted j,
        jm_data_key_wrapped = job_data_key_wrapped j, jm_origin = job_origin j\<rparr>"
    using assms(1) by (auto simp: from_conversion_job_def split: if_splits)
  have u: "(case nonempty_field (message_to_dict m) ''user_id'' of None \<Rightarrow> Inr None
      | Some u \<Rightarrow> rbind (py_int u) (\<lambda>n. Inr (Some n))) = Inr (job_user_id j)"
    by (cases "job_user_id j") (simp_all add: m message_to_dict_def nonempty_field_def opt_field_def
        py_int_str_int split: option.splits)
  have k: "nonempty_field (message_to_dict m) ''data_key_wrapped'' = job_data_key_wrapped j"
    using assms(2) by (auto simp: m message_to_dict_def nonempty_field_def opt_field_def
        split: option.splits)
  have b: "to_bool (map_of (message_to_dict m) ''client_encrypted'') = job_client_encrypted j"
    by (simp add: m message_to_dict_def opt_field_def split: option.splits)
  have o: "map_of (message_to_dict m) ''origin'' = Some (job_origin_value (job_origin j))"
    by (simp add: m message_to_dict_def opt_field_def split: option.splits)
  have req: "required (message_to_dict m) ''job_id'' = Inr (job_id j)"
    "required (message_to_dict m) ''source_format'' = Inr (ct_source_format (job_conversion j))"
    "required (message_to_dict m) ''target_format'' = Inr (ct_target_format (job_conversion j))"
    "required (message_to_dict m) ''input_key'' = Inr (job_input_file j)"
    "required (message_to_dict m) ''object_key'' = Inr (job_object_key j)"
    by (simp_all add: m message_to_dict_def required_def)
  show ?thesis
    by (simp add: parse_job_def req u k b o coerce_origin_value new_job_def)
qed

subsection \<open>Delivery keys\<close>

lemma no_colon_id: "CHR '':'' \<notin> set (id_str n)"
  using str_nat_digits [of n] by (auto simp: id_str_def is_digit_def)

lemma dropWhile_rev_key:
  "CHR '':'' \<notin> set i \<Longrightarrow>
   dropWhile (\<lambda>c. c \<noteq> CHR '':'') (rev (s @ '':'' @ i)) = CHR '':'' # rev s"
  by (simp add: dropWhile_append dropWhile_eq_Nil_conv)

lemma rpartition_key: "CHR '':'' \<notin> set i \<Longrightarrow> rpartition_head (delivery_key s i) = s"
  using dropWhile_rev_key [of i s] by (simp add: rpartition_head_def delivery_key_def)

lemma delivery_key_inj:
  "CHR '':'' \<notin> set i \<Longrightarrow> CHR '':'' \<notin> set i' \<Longrightarrow> delivery_key s i = delivery_key s' i' \<Longrightarrow>
   s = s' \<and> i = i'"
  using rpartition_key [of i s] rpartition_key [of i' s'] by (auto simp: delivery_key_def)

lemma raw_message_id_key: "raw_message_id s (delivery_key s i) = i"
  by (simp add: raw_message_id_def delivery_key_def py_startswith_def)

text \<open>The recorded streams are those of deliveries the consumer received.\<close>

definition consumer_ok :: "consumer \<Rightarrow> bool" where
  "consumer_ok c = ((\<forall>(k, s) \<in> set (cs_message_streams c). s \<in> set (cs_streams c)
       \<and> (\<exists>n. k = delivery_key s (id_str n)))
     \<and> (\<forall>(s, i, f) \<in> set (cs_buffer c). s \<in> set (cs_streams c) \<and> (\<exists>n. i = id_str n)))"

lemma stream_for_message_ok:
  assumes "consumer_ok c" "s \<in> set (cs_streams c)"
  shows "fst (stream_for_message (delivery_key s (id_str n)) c) = s
    \<and> consumer_ok (snd (stream_for_message (delivery_key s (id_str n)) c))"
proof (cases "map_of (cs_message_streams c) (delivery_key s (id_str n))")
  case None
  with assms show ?thesis
    by (simp add: stream_for_message_def rpartition_key no_colon_id Let_def)
next
  case (Some s')
  then have "(delivery_key s (id_str n), s') \<in> set (cs_message_streams c)" by (rule map_of_SomeD)
  then obtain n' where "delivery_key s (id_str n) = delivery_key s' (id_str n')"
    using assms(1) by (auto simp: consumer_ok_def)
  then have "s' = s" using delivery_key_inj no_colon_id by blast
  moreover have "consumer_ok (c\<lparr>cs_message_streams := filter P (cs_message_streams c)\<rparr>)" for P
    using assms(1) by (auto simp: consumer_ok_def cs_streams_def)
  ultimately show ?thesis using Some by (simp add: stream_for_message_def)
qed

subsection \<open>Outstanding work\<close>

text \<open>Work that is still due: entries not delivered yet and deliveries not acknowledged yet.\<close>

definition due :: "redis_stream \<Rightarrow> nat \<Rightarrow> bool" where
  "due x i = (rs_last_delivered x < i \<or> i \<in> pe_id ` set (rs_pel x))"

definition outstanding :: "redis_stream \<Rightarrow> fields multiset" where
  "outstanding x = image_mset snd (filter_mset (\<lambda>(i, f). due x i) (mset (rs_entries x)))"

definition stream_ok :: "redis_stream \<Rightarrow> bool" where
  "stream_ok x = (sorted_wrt (<) (map fst (rs_entries x)) \<and> (\<forall>e \<in> set (rs_entries x). fst e < rs_next x)
     \<and> rs_last_delivered x < rs_next x \<and> (\<forall>e \<in> set (rs_pel x). pe_id e \<le> rs_last_delivered x))"

definition redis_ok :: "redis \<Rightarrow> bool" where
  "redis_ok r = (\<forall>s. stream_ok (rd_streams r s))"

lemma stream_ok_empty: "stream_ok empty_stream"
  by (simp add: stream_ok_def empty_stream_def)

lemma stream_ok_distinct: "stream_ok x \<Longrightarrow> distinct (map fst (rs_entries x))"
  by (simp add: stream_ok_def strict_sorted_iff)

lemma outstanding_add:
  assumes "stream_ok x"
  shows "outstanding (stream_add None f x) = add_mset f (outstanding x) \<and> stream_ok (stream_add None f x)"
  using assms
  by (auto simp: outstanding_def stream_add_def due_def stream_ok_def Let_def
      sorted_wrt_append intro!: arg_cong [where f = "image_mset snd"] filter_mset_cong)

lemma due_ack: "due (stream_ack n x) i \<longleftrightarrow> (rs_last_delivered x < i \<or> (i \<noteq> n \<and> due x i))"
  by (auto simp: due_def stream_ack_def)

lemma outstanding_ack:
  assumes "stream_ok x" "entry_fields x n = Some f"
  shows "outstanding x \<subseteq># add_mset f (outstanding (stream_ack n x)) \<and> stream_ok (stream_ack n x)"
proof -
  have nf: "(n, f) \<in> set (rs_entries x)"
    using assms(2) by (simp add: entry_fields_def map_of_SomeD)
  have uniq: "e = (n, f)" if "e \<in> set (rs_entries x)" "fst e = n" for e
    using that nf stream_ok_distinct [OF assms(1)] by (metis eq_key_imp_eq_value prod.collapse)
  have d: "distinct (rs_entries x)" using stream_ok_distinct [OF assms(1)] by (simp add: distinct_map)
  have "filter_mset (\<lambda>(i, f). due x i) (mset (rs_entries x))
      \<subseteq># add_mset (n, f) (filter_mset (\<lambda>(i, f). due (stream_ack n x) i) (mset (rs_entries x)))"
  proof (rule mset_subset_eqI)
    fix e
    show "count (filter_mset (\<lambda>(i, f). due x i) (mset (rs_entries x))) e
      \<le> count (add_mset (n, f) (filter_mset (\<lambda>(i, f). due (stream_ack n x) i) (mset (rs_entries x)))) e"
    proof (cases "e = (n, f)")
      case True
      have "count (mset (rs_entries x)) (n, f) \<le> 1" using d by (simp add: distinct_count_atmost_1)
      with True show ?thesis by simp
    next
      case False
      then have "e \<in> set (rs_entries x) \<Longrightarrow> fst e \<noteq> n" using uniq by blast
      with False show ?thesis by (cases e) (auto simp: due_ack not_in_iff [symmetric])
    qed
  qed
  from image_mset_subseteq_mono [OF this, of snd]
  have "outstanding x \<subseteq># add_mset f (outstanding (stream_ack n x))"
    by (simp add: outstanding_def stream_ack_def)
  with assms(1) show ?thesis by (auto simp: stream_ok_def stream_ack_def)
qed

text \<open>
  Steps that keep what is outstanding: the contract a re-queue gives, whatever goes wrong inside
  it, and what follows for a whole sweep.
\<close>

locale lossless_steps =
  fixes ok :: "'s \<Rightarrow> bool"
    and out :: "'s \<Rightarrow> 'k \<Rightarrow> 'm multiset"
    and enabled :: "'a \<Rightarrow> 's \<Rightarrow> bool"
    and step :: "'a \<Rightarrow> 's \<Rightarrow> 's"
  assumes step_ok: "ok s \<Longrightarrow> enabled a s \<Longrightarrow> ok (step a s)"
    and step_keeps: "ok s \<Longrightarrow> enabled a s \<Longrightarrow> out s k \<subseteq># out (step a s) k"
    and step_enabled: "ok s \<Longrightarrow> enabled a s \<Longrightarrow> enabled b s \<Longrightarrow> enabled b (step a s)"
begin

lemma steps_keep:
  "ok s \<Longrightarrow> (\<And>a. a \<in> set as \<Longrightarrow> enabled a s) \<Longrightarrow>
   ok (fold step as s) \<and> out s k \<subseteq># out (fold step as s) k"
proof (induction as arbitrary: s)
  case (Cons a as)
  have e: "enabled a s" using Cons.prems(2) by simp
  have "ok (fold step as (step a s)) \<and> out (step a s) k \<subseteq># out (fold step as (step a s)) k"
    using Cons.prems e by (intro Cons.IH step_ok step_enabled) auto
  moreover have "out s k \<subseteq># out (step a s) k" by (rule step_keeps [OF Cons.prems(1) e])
  ultimately show ?case by (auto intro: subset_mset.order_trans)
qed simp

end

lemma str_nat_inj: "str_nat m = str_nat n \<Longrightarrow> m = n"
  by (metis digits_val_str_nat option.inject)

lemma id_str_inj: "id_str m = id_str n \<longleftrightarrow> m = n"
  by (auto simp: id_str_def dest: str_nat_inj)

lemma fold_ack_same: "(\<And>i. i \<in> set is \<Longrightarrow> i = n) \<Longrightarrow> is \<noteq> [] \<Longrightarrow> fold stream_ack is x = stream_ack n x"
proof (induction "is" arbitrary: x)
  case (Cons i "is")
  have i: "i = n" using Cons.prems(1) by simp
  have idem: "stream_ack n (stream_ack n x) = stream_ack n x" by (simp add: stream_ack_def)
  show ?case
  proof (cases "is = []")
    case False
    then have "fold stream_ack is (stream_ack n x) = stream_ack n (stream_ack n x)"
      using Cons.prems(1) by (intro Cons.IH) auto
    then show ?thesis by (simp add: i idem)
  qed (simp add: i)
qed simp

lemma stream_ack_absent: "n \<notin> pe_id ` set (rs_pel x) \<Longrightarrow> stream_ack n x = x"
  by (cases x) (force simp: stream_ack_def intro: filter_True)

lemma xack_id: "snd (xack s (id_str n) r) = put_stream s (stream_ack n (rd_streams r s)) r"
proof -
  let ?x = "rd_streams r s"
  let ?ids = "filter (\<lambda>m. id_str m = id_str n) (map pe_id (rs_pel ?x))"
  have all: "\<And>i. i \<in> set ?ids \<Longrightarrow> i = n" by (auto simp: id_str_inj)
  have "fold stream_ack ?ids ?x = stream_ack n ?x"
  proof (cases "?ids = []")
    case True
    then have "n \<notin> pe_id ` set (rs_pel ?x)" by (auto simp: filter_empty_conv)
    with True show ?thesis by (simp add: stream_ack_absent)
  next
    case False
    then show ?thesis using all by (intro fold_ack_same) auto
  qed
  then show ?thesis by (simp add: xack_def Let_def)
qed

text \<open>What one call, whatever its fate, leaves in the streams.\<close>

lemma redis_call_streams:
  "rd_streams (snd (redis_call fate f r)) = rd_streams r
   \<or> rd_streams (snd (redis_call fate f r)) = rd_streams (snd (f r))"
  by (cases "fate (rd_tick r)") (simp_all add: redis_call_def)

lemma redis_call_Inr:
  "redis_call fate f r = (Inr a, r') \<Longrightarrow> a = fst (f r) \<and> rd_streams r' = rd_streams (snd (f r))"
  by (auto simp: redis_call_def split: commit_fate.splits)

definition requeue_enabled :: "string \<times> nat \<times> fields \<Rightarrow> redis \<Rightarrow> bool" where
  "requeue_enabled a r = (case a of (s, i, f) \<Rightarrow> entry_fields (rd_streams r s) i = Some f)"

definition requeue_step :: "(nat \<Rightarrow> commit_fate) \<Rightarrow> string \<times> nat \<times> fields \<Rightarrow> redis \<Rightarrow> redis" where
  "requeue_step fate a r = (case a of (s, e) \<Rightarrow> snd (requeue fate s e r))"

text \<open>The three things a re-queue can leave behind: nothing new, the copy only, or the copy with
  the original acknowledged.\<close>

lemma requeue_streams:
  "rd_streams (snd (requeue fate s (i, f) r)) \<in>
     {rd_streams r, (rd_streams r)(s := stream_add None f (rd_streams r s)),
      (rd_streams r)(s := stream_ack i (stream_add None f (rd_streams r s)))}"
proof (cases "redis_call fate (xadd s None f) r")
  case (Pair res r1)
  let ?x = "stream_add None f (rd_streams r s)"
  have x: "rd_streams (snd (xadd s None f r)) = (rd_streams r)(s := ?x)"
    by (simp add: xadd_def put_stream_def)
  show ?thesis
  proof (cases res)
    case (Inl e)
    with Pair redis_call_streams [of fate "xadd s None f" r] x show ?thesis
      by (auto simp: requeue_def)
  next
    case (Inr a)
    with Pair x have r1: "rd_streams r1 = (rd_streams r)(s := ?x)"
      using redis_call_Inr by metis
    have "rd_streams (snd (xack s (id_str i) r1)) = (rd_streams r)(s := stream_ack i ?x)"
      by (simp add: xack_id put_stream_def r1)
    with redis_call_streams [of fate "xack s (id_str i)" r1] r1 Pair Inr show ?thesis
      by (auto simp: requeue_def)
  qed
qed

lemma entry_fields_add: "stream_ok x \<Longrightarrow> entry_fields x i = Some g \<Longrightarrow>
  entry_fields (stream_add None f x) i = Some g"
  by (auto simp: entry_fields_def stream_add_def Let_def map_add_Some_iff map_of_append)

lemma requeue_keeps_stream:
  assumes "stream_ok x" "entry_fields x i = Some f"
  shows "stream_ok (stream_ack i (stream_add None f x))
    \<and> outstanding x \<subseteq># outstanding (stream_ack i (stream_add None f x))"
proof -
  have a: "outstanding (stream_add None f x) = add_mset f (outstanding x)"
    "stream_ok (stream_add None f x)" using outstanding_add [OF assms(1)] by auto
  with outstanding_ack [OF a(2) entry_fields_add [OF assms]] show ?thesis by simp
qed

interpretation requeue: lossless_steps redis_ok "\<lambda>r s. outstanding (rd_streams r s)"
    requeue_enabled "requeue_step fate" for fate :: "nat \<Rightarrow> commit_fate"
proof
  fix r :: redis and a b :: "string \<times> nat \<times> fields" and k :: string
  obtain s i f where a: "a = (s, i, f)" by (cases a)
  assume ok: "redis_ok r" and e: "requeue_enabled a r"
  let ?x = "rd_streams r s"
  have x: "stream_ok ?x" "entry_fields ?x i = Some f"
    using ok e by (auto simp: redis_ok_def requeue_enabled_def a)
  note cases = requeue_streams [of fate s i f r] and add = outstanding_add [OF x(1), of f]
    and ack = requeue_keeps_stream [OF x]
  show "redis_ok (requeue_step fate a r)"
    using cases add ack ok by (auto simp: redis_ok_def requeue_step_def a)
  show "outstanding (rd_streams r k) \<subseteq># outstanding (rd_streams (requeue_step fate a r) k)"
    using cases add ack by (auto simp: requeue_step_def a)
  assume "requeue_enabled b r"
  then show "requeue_enabled b (requeue_step fate a r)"
    using cases entry_fields_add [OF x(1)]
    by (cases b) (auto simp: requeue_enabled_def requeue_step_def a stream_ack_def entry_fields_def)
qed

lemma requeue_all_fold:
  "snd (requeue_all fate s es r) = fold (requeue_step fate) (map (\<lambda>e. (s, e)) es) r"
proof (induction es arbitrary: r)
  case (Cons e es)
  then show ?case
    by (simp add: requeue_step_def Let_def split: prod.splits) (metis snd_conv)
qed simp

lemma xautoclaim_keeps:
  assumes "xautoclaim s c min_idle now limit r = (claimed, r')" "redis_ok r"
  shows "redis_ok r' \<and> outstanding (rd_streams r' k) = outstanding (rd_streams r k)
    \<and> (\<forall>e \<in> set claimed. requeue_enabled (s, e) r')"
proof -
  let ?x = "rd_streams r s"
  let ?f = "\<lambda>e. if pe_id e \<in> set (claimable min_idle now limit ?x)
     then e\<lparr>pe_consumer := c, pe_delivered_at := now\<rparr> else e"
  have "map pe_id (map ?f (rs_pel ?x)) = map pe_id (rs_pel ?x)" by simp
  then have ids: "pe_id ` set (map ?f (rs_pel ?x)) = pe_id ` set (rs_pel ?x)" by (metis set_map)
  have r': "r' = put_stream s (?x\<lparr>rs_pel := map ?f (rs_pel ?x)\<rparr>) r"
    "claimed = map (\<lambda>i. (i, the (entry_fields ?x i))) (claimable min_idle now limit ?x)"
    using assms(1) by (simp_all add: xautoclaim_def Let_def)
  have d: "due (?x\<lparr>rs_pel := map ?f (rs_pel ?x)\<rparr>) i = due ?x i" for i
    using ids unfolding due_def by simp
  have "\<exists>f. entry_fields ?x i = Some f" if "i \<in> set (claimable min_idle now limit ?x)" for i
    using that by (auto simp: claimable_def dest!: in_set_takeD)
  then have en: "\<forall>e \<in> set claimed. requeue_enabled (s, e) r'"
    by (auto simp: r' requeue_enabled_def put_stream_def entry_fields_def)
  have "stream_ok (?x\<lparr>rs_pel := map ?f (rs_pel ?x)\<rparr>)"
    using assms(2) by (auto simp: redis_ok_def stream_ok_def)
  then have "redis_ok r'" using assms(2) by (auto simp: r'(1) redis_ok_def put_stream_def)
  moreover have "outstanding (rd_streams r' k) = outstanding (rd_streams r k)"
    by (simp add: r'(1) put_stream_def outstanding_def d)
  ultimately show ?thesis using en by blast
qed

lemma rd_tick_irrelevant: "rd_streams r = rd_streams r' \<Longrightarrow> redis_ok r = redis_ok r'"
  by (simp add: redis_ok_def)

lemma reclaim_keeps:
  "redis_ok r \<Longrightarrow> redis_ok (snd (reclaim_streams fate c min_idle now limit ss r))
   \<and> outstanding (rd_streams r k) \<subseteq># outstanding (rd_streams (snd (reclaim_streams fate c min_idle now limit ss r)) k)"
proof (induction ss arbitrary: r)
  case (Cons s ss)
  obtain res r1 where c: "redis_call fate (xautoclaim s c min_idle now limit) r = (res, r1)" by fastforce
  obtain claimed r0 where x: "xautoclaim s c min_idle now limit r = (claimed, r0)" by fastforce
  note keep = xautoclaim_keeps [OF x Cons.prems, of k]
  have r1: "redis_ok r1" "outstanding (rd_streams r1 k) = outstanding (rd_streams r k)"
    using redis_call_streams [of fate "xautoclaim s c min_idle now limit" r] keep Cons.prems c x
    by (auto simp: redis_ok_def)
  show ?case
  proof (cases res)
    case (Inl e)
    with c Cons.IH [OF r1(1)] r1(2) show ?thesis by simp
  next
    case (Inr cl)
    have st: "cl = claimed" "rd_streams r1 = rd_streams r0"
      using redis_call_Inr [of fate "xautoclaim s c min_idle now limit" r cl r1] c Inr x by auto
    have "requeue_enabled a r1" if "a \<in> set (map (\<lambda>e. (s, e)) cl)" for a
      using that keep st by (auto simp: requeue_enabled_def)
    then have "redis_ok (fold (requeue_step fate) (map (\<lambda>e. (s, e)) cl) r1)
      \<and> outstanding (rd_streams r1 k)
        \<subseteq># outstanding (rd_streams (fold (requeue_step fate) (map (\<lambda>e. (s, e)) cl) r1) k)"
      by (rule requeue.steps_keep [OF r1(1)])
    then
    have r2: "redis_ok (snd (requeue_all fate s cl r1))"
      "outstanding (rd_streams r1 k) \<subseteq># outstanding (rd_streams (snd (requeue_all fate s cl r1)) k)"
      by (simp_all add: requeue_all_fold)
    with Cons.IH [OF r2(1)] c Inr r1(2) show ?thesis
      by (auto simp: Let_def split: prod.splits intro: subset_mset.order_trans)
  qed
qed simp

subsection \<open>Fetching\<close>

lemma outstanding_deliver:
  assumes "stream_ok x" "undelivered x = (i, f) # rest"
  shows "outstanding (stream_deliver c now i x) = outstanding x \<and> stream_ok (stream_deliver c now i x)"
proof -
  have i: "(i, f) \<in> set (rs_entries x)" "rs_last_delivered x < i"
    using assms(2) by (auto simp: undelivered_def dest: filter_eq_ConsD)
  have srt: "sorted_wrt (<) (map fst (undelivered x))"
    using assms(1) by (simp add: undelivered_def stream_ok_def sorted_wrt_map sorted_wrt_filter)
  have least: "i \<le> j" if "(j, g) \<in> set (rs_entries x)" "rs_last_delivered x < j" for j g
  proof -
    have "(j, g) \<in> set (undelivered x)" using that by (simp add: undelivered_def)
    with assms(2) srt show ?thesis by force
  qed
  have "due (stream_deliver c now i x) j = due x j" if "(j, g) \<in> set (rs_entries x)" for j g
    using least [OF that] i(2) by (auto simp: due_def stream_deliver_def)
  then have "filter_mset (\<lambda>(j, f). due (stream_deliver c now i x) j) (mset (rs_entries x))
      = filter_mset (\<lambda>(j, f). due x j) (mset (rs_entries x))"
    by (intro filter_mset_cong) auto
  moreover have "stream_ok (stream_deliver c now i x)"
    using assms(1) i by (fastforce simp: stream_ok_def stream_deliver_def)
  ultimately show ?thesis by (simp add: outstanding_def stream_deliver_def)
qed

definition next_delivery :: "redis \<Rightarrow> string \<Rightarrow> delivery list" where
  "next_delivery r s = (case undelivered (rd_streams r s) of [] \<Rightarrow> [] | (i, f) # _ \<Rightarrow> [(s, id_str i, f)])"

lemma deliveries_of_Cons:
  "deliveries_of ((s, [(i, f)]) # resp) = (s, id_str i, f) # deliveries_of resp"
  by (simp add: deliveries_of_def)

lemma xreadgroup_spec:
  "redis_ok r \<Longrightarrow> distinct ss \<Longrightarrow>
   deliveries_of (fst (xreadgroup c now ss r)) = concat (map (next_delivery r) ss)
   \<and> redis_ok (snd (xreadgroup c now ss r))
   \<and> (\<forall>k. outstanding (rd_streams (snd (xreadgroup c now ss r)) k) = outstanding (rd_streams r k))"
proof (induction ss arbitrary: r)
  case Nil
  then show ?case by (simp add: deliveries_of_def)
next
  case (Cons s ss)
  show ?case
  proof (cases "undelivered (rd_streams r s)")
    case Nil
    with Cons show ?thesis by (simp add: next_delivery_def)
  next
    case (Cons e rest)
    obtain i f where e: "e = (i, f)" by (cases e)
    let ?r = "put_stream s (stream_deliver c now i (rd_streams r s)) r"
    have d: "outstanding (stream_deliver c now i (rd_streams r s)) = outstanding (rd_streams r s)"
      "stream_ok (stream_deliver c now i (rd_streams r s))"
      using outstanding_deliver [of "rd_streams r s" i f rest c now] Cons.prems(1) Cons e
      by (auto simp: redis_ok_def)
    have ok: "redis_ok ?r" using Cons.prems(1) d(2) by (simp add: redis_ok_def put_stream_def)
    have same: "map (next_delivery ?r) ss = map (next_delivery r) ss"
      using Cons.prems(2) by (auto simp: next_delivery_def put_stream_def)
    have out: "outstanding (rd_streams ?r k) = outstanding (rd_streams r k)" for k
      using d(1) by (simp add: put_stream_def)
    have nd: "next_delivery r s = [(s, id_str i, f)]" using Cons e by (simp add: next_delivery_def)
    have x: "fst (xreadgroup c now (s # ss) r) = (s, [(i, f)]) # fst (xreadgroup c now ss ?r)"
      "snd (xreadgroup c now (s # ss) r) = snd (xreadgroup c now ss ?r)"
      using Cons e by (simp_all add: Let_def split: prod.splits)
    show ?thesis
      using Cons.IH [OF ok] Cons.prems(2) out
      by (simp add: x nd same deliveries_of_Cons del: xreadgroup.simps)
  qed
qed

lemma append_suffix: "x = p @ y \<Longrightarrow> drop (length x - length y) x = y"
  by simp

lemma tier_streams_suffix_free:
  assumes "a \<in> set JOB_TIER_STREAMS" "b \<in> set JOB_TIER_STREAMS" "a = p @ b"
  shows "a = b"
  using assms(1,2) append_suffix [OF assms(3)]
  by (auto simp: JOB_TIER_STREAMS_def JOB_STREAM_def)

lemma distinct_cs_streams: "distinct (cs_streams c)"
proof -
  have d: "distinct JOB_TIER_STREAMS" by (simp add: JOB_TIER_STREAMS_def JOB_STREAM_def)
  have "inj_on (qualify (cs_prefix c)) (set JOB_TIER_STREAMS)"
  proof (rule inj_onI)
    fix a b assume ab: "a \<in> set JOB_TIER_STREAMS" "b \<in> set JOB_TIER_STREAMS"
      "qualify (cs_prefix c) a = qualify (cs_prefix c) b"
    then consider "a = b" | "a = cs_prefix c @ b" | "b = cs_prefix c @ a"
      by (auto simp: qualify_def split: if_splits)
    then show "a = b" using tier_streams_suffix_free ab(1,2) by cases auto
  qed
  with d show ?thesis by (simp add: cs_streams_def qualify_all_def distinct_map)
qed

text \<open>A fetch hands out the oldest entry it holds or reads and keeps the rest.\<close>

definition read_now :: "consumer \<Rightarrow> redis \<Rightarrow> delivery list" where
  "read_now c r = concat (map (next_delivery r) (cs_streams c))"

lemma cs_streams_update [simp]:
  "cs_streams (c\<lparr>cs_buffer := b\<rparr>) = cs_streams c" "cs_streams (c\<lparr>cs_message_streams := m\<rparr>) = cs_streams c"
  by (simp_all add: cs_streams_def)

lemma build_job_frame:
  "build_job d c = (res, c') \<Longrightarrow> cs_buffer c' = cs_buffer c \<and> cs_streams c' = cs_streams c"
  by (cases d) (auto simp: build_job_def Let_def)

lemma build_job_ok:
  "consumer_ok c \<Longrightarrow> d = (s, id_str n, f) \<Longrightarrow> s \<in> set (cs_streams c) \<Longrightarrow> build_job d c = (res, c') \<Longrightarrow>
   consumer_ok c'"
  by (auto simp: build_job_def consumer_ok_def Let_def)

lemma next_delivery_mem: "d \<in> set (next_delivery r s) \<Longrightarrow> \<exists>n f. d = (s, id_str n, f)"
  by (auto simp: next_delivery_def split: list.splits prod.splits)

lemma fetch_job_buffered:
  assumes "cs_buffer c = d # ds"
  shows "fetch_job fate now c r = (rbind (fst (build_job d (c\<lparr>cs_buffer := ds\<rparr>))) (\<lambda>x. Inr (Some x)),
     snd (build_job d (c\<lparr>cs_buffer := ds\<rparr>)), r)"
  using assms by (simp add: fetch_job_def Let_def split: prod.splits)

lemma fetch_job_read:
  assumes "redis_ok r" "cs_buffer c = []" "fetch_job fate now c r = (res, c', r')"
    "fate (rd_tick r) = Commit_ok"
  shows "(case read_now c r of
      [] \<Rightarrow> res = Inr None \<and> c' = c
    | d # ds \<Rightarrow> res = rbind (fst (build_job d (c\<lparr>cs_buffer := ds\<rparr>))) (\<lambda>x. Inr (Some x))
         \<and> cs_buffer c' = ds)
    \<and> redis_ok r' \<and> (\<forall>k. outstanding (rd_streams r' k) = outstanding (rd_streams r k))"
proof -
  let ?x = "xreadgroup (cs_name c) now (cs_streams c) r"
  have x: "deliveries_of (fst ?x) = read_now c r" "redis_ok (snd ?x)"
    "\<And>k. outstanding (rd_streams (snd ?x) k) = outstanding (rd_streams r k)"
    using xreadgroup_spec [OF assms(1) distinct_cs_streams, of "cs_name c" now c]
    by (simp_all add: read_now_def)
  have call: "redis_call fate (xreadgroup (cs_name c) now (cs_streams c)) r
      = (Inr (fst ?x), (snd ?x)\<lparr>rd_tick := Suc (rd_tick r)\<rparr>)"
    using assms(4) by (simp add: redis_call_def)
  have ok: "redis_ok ((snd ?x)\<lparr>rd_tick := Suc (rd_tick r)\<rparr>)" using x(2) by (simp add: redis_ok_def)
  show ?thesis
  proof (cases "read_now c r")
    case Nil
    with assms(2,3) call x ok show ?thesis by (auto simp: fetch_job_def)
  next
    case (Cons d ds)
    with assms(2,3) call x ok build_job_frame [of d "c\<lparr>cs_buffer := ds\<rparr>"] show ?thesis
      by (auto simp: fetch_job_def Let_def split: prod.splits)
  qed
qed

subsection \<open>Properties\<close>

text \<open>publishing a job and fetching it back gives the worker the same job. Every field the message
  carries (identity, formats, input, object key, owner, encryption data, origin) survives the string
  encoding; the job starts as \<open>PENDING\<close>, and the fields the message does not carry come back at
  their defaults, the batch and workflow ids among them.\<close>

theorem message_round_trip:
  assumes "from_conversion_job j = Inr m" "job_data_key_wrapped j \<noteq> Some []"
  shows "parse_job (message_to_dict m) = Inr (j\<lparr>job_output_file := Some [], job_status := Job_PENDING,
     job_error_message := None, job_compute_duration_ms := 0, job_credits_used := 0,
     job_created_at := None, job_input_size_bytes := 0, job_output_size_bytes := 0,
     job_progress := 0, job_batch_id := None, job_workflow_id := None\<rparr>)"
  by (rule parse_published [OF assms])

theorem message_round_trip_witness:
  "let j = (new_job ''j1'' \<lparr>ct_source_format = ''pdf'', ct_target_format = ''txt''\<rparr> ''a.pdf'')
       \<lparr>job_object_key := ''k'', job_user_id := Some (- 42), job_client_encrypted := True,
        job_data_key_wrapped := Some ''00'', job_origin := Origin_MCP, job_batch_id := Some ''b''\<rparr>
   in (case from_conversion_job j of Inr m \<Rightarrow> parse_job (message_to_dict m)
         = Inr (j\<lparr>job_output_file := Some [], job_status := Job_PENDING, job_batch_id := None\<rparr>) | Inl _ \<Rightarrow> False)"
proof -
  let ?j = "(new_job ''j1'' \<lparr>ct_source_format = ''pdf'', ct_target_format = ''txt''\<rparr> ''a.pdf'')
       \<lparr>job_object_key := ''k'', job_user_id := Some (- 42), job_client_encrypted := True,
        job_data_key_wrapped := Some ''00'', job_origin := Origin_MCP, job_batch_id := Some ''b''\<rparr>"
  obtain m where m: "from_conversion_job ?j = Inr m" by (simp add: from_conversion_job_def)
  have "job_data_key_wrapped ?j \<noteq> Some []" by simp
  from message_round_trip [OF m this] m show ?thesis by (simp add: new_job_def)
qed

text \<open>an acknowledgement reaches the stream its delivery came from, and no other: acknowledging the
  key of a delivery from one of the consumer's streams removes exactly that entry from that
  stream's pending list, also when the key was resolved before or the record was lost.\<close>

theorem ack_reaches_source:
  assumes "consumer_ok c" "s \<in> set (cs_streams c)" "fate (rd_tick r) = Commit_ok"
    "acknowledge_job fate (delivery_key s (id_str n)) c r = (res, c', r')"
  shows "rd_streams r' = (rd_streams r)(s := stream_ack n (rd_streams r s)) \<and> \<not> isl res
    \<and> consumer_ok c' \<and> cs_buffer c' = cs_buffer c"
proof -
  obtain c0 where s: "stream_for_message (delivery_key s (id_str n)) c = (s, c0)" "consumer_ok c0"
    using stream_for_message_ok [OF assms(1,2), of n] by (metis prod.collapse)
  moreover have "cs_buffer c0 = cs_buffer c"
    using s(1) by (auto simp: stream_for_message_def Let_def split: option.splits)
  ultimately show ?thesis
    using assms(3,4)
    by (auto simp: acknowledge_job_def raw_message_id_key redis_call_def xack_id put_stream_def Let_def)
qed

theorem ack_reaches_source_witness:
  "\<exists>res c' r'. acknowledge_job (\<lambda>_. Commit_ok) (delivery_key ''conversion_jobs:low'' (id_str 3))
        (new_consumer ''w'' []) \<lparr>rd_streams = (\<lambda>_. empty_stream), rd_tick = 0\<rparr> = (res, c', r') \<and> \<not> isl res"
proof -
  let ?c = "new_consumer ''w'' []"
  obtain res c' r' where a: "acknowledge_job (\<lambda>_. Commit_ok) (delivery_key ''conversion_jobs:low'' (id_str 3))
      ?c \<lparr>rd_streams = (\<lambda>_. empty_stream), rd_tick = 0\<rparr> = (res, c', r')" by (metis prod_cases3)
  have "consumer_ok ?c" "''conversion_jobs:low'' \<in> set (cs_streams ?c)"
    by (simp_all add: consumer_ok_def new_consumer_def cs_streams_def qualify_all_def qualify_def
        JOB_TIER_STREAMS_def JOB_STREAM_def)
  from ack_reaches_source [OF this _ a] a show ?thesis by auto
qed

text \<open>C34: the stale sweep never loses a job. For every pattern of failures (each Redis call lost before
  or after it took effect), everything that was outstanding on any stream before the sweep, waiting
  or delivered but not acknowledged, is still outstanding after it; at worst a job is duplicated.\<close>

theorem stale_sweep_lossless:
  assumes "redis_ok r"
  shows "redis_ok (snd (reclaim_stale_jobs fate min_idle now limit c r))
    \<and> outstanding (rd_streams r k) \<subseteq># outstanding (rd_streams (snd (reclaim_stale_jobs fate min_idle now limit c r)) k)"
  unfolding reclaim_stale_jobs_def by (rule reclaim_keeps [OF assms])

theorem stale_sweep_lossless_witness:
  "let r = \<lparr>rd_streams = (\<lambda>_. empty_stream)(''conversion_jobs'' :=
        \<lparr>rs_entries = [(2, [(''job_id'', ''a'')])], rs_next = 3, rs_last_delivered = 2,
         rs_pel = [\<lparr>pe_id = 2, pe_consumer = ''dead'', pe_delivered_at = 0\<rparr>]\<rparr>), rd_tick = 0\<rparr>
   in {#[(''job_id'', ''a'')]#} \<subseteq># outstanding (rd_streams (snd (reclaim_stale_jobs
        (\<lambda>k. if k = 1 then Commit_ok else if k = 2 then Commit_reply_lost (OtherError ''eof'') else Commit_ok)
        60000 70000 20 (new_consumer ''w'' []) r)) ''conversion_jobs'')"
proof -
  let ?r = "\<lparr>rd_streams = (\<lambda>_. empty_stream)(''conversion_jobs'' :=
        \<lparr>rs_entries = [(2, [(''job_id'', ''a'')])], rs_next = 3, rs_last_delivered = 2,
         rs_pel = [\<lparr>pe_id = 2, pe_consumer = ''dead'', pe_delivered_at = 0\<rparr>]\<rparr>), rd_tick = 0\<rparr>"
  have "redis_ok ?r" using stream_ok_empty by (simp add: redis_ok_def stream_ok_def)
  from stale_sweep_lossless [OF this, where k = "''conversion_jobs''", of
      "\<lambda>k. if k = 1 then Commit_ok else if k = 2 then Commit_reply_lost (OtherError ''eof'') else Commit_ok"
      60000 70000 20 "new_consumer ''w'' []"]
  show ?thesis by (simp add: outstanding_def due_def)
qed

text \<open>a fetch hands out work in priority order and drops none. With an empty buffer it takes the
  first waiting entry of every tier stream, high before normal before low; the first of them is
  returned, all others are buffered in that order, and nothing outstanding is lost or
  acknowledged by it.\<close>

theorem fetch_keeps_priority_order:
  assumes "redis_ok r" "cs_buffer c = []" "fate (rd_tick r) = Commit_ok"
    "fetch_job fate now c r = (res, c', r')" "read_now c r = d # ds"
  shows "res = rbind (parse_job (snd (snd d))) (\<lambda>j. Inr (Some (delivery_key (fst d) (fst (snd d)), j)))
    \<and> cs_buffer c' = ds
    \<and> redis_ok r' \<and> (\<forall>k. outstanding (rd_streams r' k) = outstanding (rd_streams r k))"
proof -
  have "rbind (fst (build_job d x)) (\<lambda>x. Inr (Some x))
      = rbind (parse_job (snd (snd d))) (\<lambda>j. Inr (Some (delivery_key (fst d) (fst (snd d)), j)))" for x
    by (cases d; cases "parse_job (snd (snd d))") (auto simp: build_job_def Let_def)
  then show ?thesis
    using fetch_job_read [OF assms(1,2,4,3)] assms(5) by simp
qed

theorem fetch_keeps_priority_order_witness:
  "let hi = \<lparr>rs_entries = [(2, [(''job_id'', ''a'')])], rs_next = 3, rs_last_delivered = 0, rs_pel = []\<rparr>;
       r = \<lparr>rd_streams = (\<lambda>s. if s \<in> {''conversion_jobs:high'', ''conversion_jobs:low''} then hi else empty_stream),
            rd_tick = 0\<rparr>;
       (res, c', r') = fetch_job (\<lambda>_. Commit_ok) 0 (new_consumer ''w'' []) r
   in cs_buffer c' = [(''conversion_jobs:low'', id_str 2, [(''job_id'', ''a'')])]"
proof -
  let ?hi = "\<lparr>rs_entries = [(2::nat, [(''job_id'', ''a'')])], rs_next = 3, rs_last_delivered = 0, rs_pel = []\<rparr>"
  let ?r = "\<lparr>rd_streams = (\<lambda>s. if s \<in> {''conversion_jobs:high'', ''conversion_jobs:low''} then ?hi else empty_stream),
            rd_tick = 0\<rparr>"
  let ?c = "new_consumer ''w'' []"
  obtain res c' r' where f: "fetch_job (\<lambda>_. Commit_ok) 0 ?c ?r = (res, c', r')" by (metis prod_cases3)
  have ok: "redis_ok ?r" using stream_ok_empty by (simp add: redis_ok_def stream_ok_def)
  have rd: "read_now ?c ?r = (''conversion_jobs:high'', id_str 2, [(''job_id'', ''a'')])
      # [(''conversion_jobs:low'', id_str 2, [(''job_id'', ''a'')])]"
    by (simp add: read_now_def cs_streams_def new_consumer_def qualify_all_def qualify_def
        JOB_TIER_STREAMS_def JOB_STREAM_def next_delivery_def undelivered_def empty_stream_def)
  have "cs_buffer ?c = []" by (simp add: new_consumer_def)
  from fetch_keeps_priority_order [OF ok this _ f rd] f show ?thesis by simp
qed

end
