(* ===== verification/Job_Events.thy ===== *)
theory Job_Events
  imports Job_Queue "HOL-Library.Sublist"
begin

section \<open>Job events\<close>

text \<open>
  Models \<open>workers/converter_workers/context/event_context.py\<close> and
  \<open>redis_stream_status_queue.py\<close>: the progress events a worker publishes and the subscriber that
  replays them to a browser over server-sent events. A poll of the subscriber either fails or sees
  the entries the stream holds at that moment; the sequence of polls is an argument.
\<close>

subsection \<open>The event of a job\<close>

record event_context =
  ec_job_id :: string
  ec_progress :: int
  ec_status :: job_status
  ec_message :: "string option"
  ec_compute_duration_ms :: int
  ec_credits_used :: int
  ec_input_size_bytes :: int
  ec_output_size_bytes :: int
  ec_output_file :: "string option"

definition new_event :: "string \<Rightarrow> event_context" where
  "new_event i = \<lparr>ec_job_id = i, ec_progress = 0, ec_status = Job_PENDING, ec_message = None,
     ec_compute_duration_ms = 0, ec_credits_used = 0, ec_input_size_bytes = 0,
     ec_output_size_bytes = 0, ec_output_file = None\<rparr>"

definition ev_downloading :: "event_context \<Rightarrow> event_context" where
  "ev_downloading ev = ev\<lparr>ec_status := Job_PROCESSING, ec_progress := 25,
     ec_message := Some ''downloading file''\<rparr>"

definition ev_processing :: "event_context \<Rightarrow> event_context" where
  "ev_processing ev = ev\<lparr>ec_status := Job_PROCESSING, ec_progress := 50,
     ec_message := Some ''converting file''\<rparr>"

definition ev_uploading :: "event_context \<Rightarrow> event_context" where
  "ev_uploading ev = ev\<lparr>ec_status := Job_PROCESSING, ec_progress := 75,
     ec_message := Some ''uploading file''\<rparr>"

definition ev_completed :: "int \<Rightarrow> int \<Rightarrow> int \<Rightarrow> int \<Rightarrow> string option \<Rightarrow> event_context \<Rightarrow> event_context" where
  "ev_completed duration credits input_size output_size output_file ev =
     ev\<lparr>ec_status := Job_COMPLETED, ec_progress := 100, ec_message := Some ''conversion completed'',
        ec_compute_duration_ms := duration, ec_credits_used := credits,
        ec_input_size_bytes := input_size, ec_output_size_bytes := output_size,
        ec_output_file := output_file\<rparr>"

definition ev_failed :: "string \<Rightarrow> event_context \<Rightarrow> event_context" where
  "ev_failed error_message ev = ev\<lparr>ec_status := Job_FAILED, ec_message := Some error_message\<rparr>"

subsection \<open>Publishing\<close>

definition JOB_EVENT_STREAM :: string where "JOB_EVENT_STREAM = ''conversion_job_events''"

definition EVENT_STREAM_MAXLEN :: nat where "EVENT_STREAM_MAXLEN = 100000"

text \<open>Keyword arguments whose value is \<open>None\<close> are left out, the others are stored as strings.\<close>

definition event_fields :: "string \<Rightarrow> job_status \<Rightarrow> int \<Rightarrow> string option \<Rightarrow>
    (string \<times> string option) list \<Rightarrow> fields" where
  "event_fields i status progress message kwargs =
     [(''job_id'', i), (''status'', job_status_value status), (''progress'', str_int progress),
      (''message'', case message of None \<Rightarrow> [] | Some m \<Rightarrow> m)]
     @ List.map_filter (\<lambda>(k, v). map_option (\<lambda>x. (k, x)) v) kwargs"

definition publish_event :: "(nat \<Rightarrow> commit_fate) \<Rightarrow> string \<Rightarrow> string \<Rightarrow> job_status \<Rightarrow> int \<Rightarrow> string option \<Rightarrow>
    (string \<times> string option) list \<Rightarrow> redis \<Rightarrow> unit result \<times> redis" where
  "publish_event fate pfx i status progress message kwargs r =
     (let (res, r') = redis_call fate (xadd (qualify pfx JOB_EVENT_STREAM) (Some EVENT_STREAM_MAXLEN)
            (event_fields i status progress message kwargs)) r
      in (rbind res (\<lambda>_. Inr ()), r'))"

text \<open>\<open>publish(**event.to_dict(), ...)\<close>: the remaining fields of the event become keywords.\<close>

definition event_kwargs :: "event_context \<Rightarrow> (string \<times> string option) list" where
  "event_kwargs ev =
     [(''compute_duration_ms'', Some (str_int (ec_compute_duration_ms ev))),
      (''credits_used'', Some (str_int (ec_credits_used ev))),
      (''input_size_bytes'', Some (str_int (ec_input_size_bytes ev))),
      (''output_size_bytes'', Some (str_int (ec_output_size_bytes ev))),
      (''output_file'', ec_output_file ev)]"

definition publish_context :: "(nat \<Rightarrow> commit_fate) \<Rightarrow> string \<Rightarrow> event_context \<Rightarrow> (string \<times> string option) list \<Rightarrow>
    redis \<Rightarrow> unit result \<times> redis" where
  "publish_context fate pfx ev extra r =
     publish_event fate pfx (ec_job_id ev) (ec_status ev) (ec_progress ev) (ec_message ev)
       (event_kwargs ev @ extra) r"

subsection \<open>Subscribing\<close>

definition terminal_event :: "fields \<Rightarrow> bool" where
  "terminal_event f = (map_of f ''status'' \<in> {Some ''COMPLETED'', Some ''FAILED''})"

text \<open>The messages of one read: what is yielded, the cursor after it, and whether a terminal event
  ended the generator.\<close>

fun iter_batch :: "string \<Rightarrow> (nat \<times> fields) list \<Rightarrow> nat \<Rightarrow> (nat \<times> fields) list \<times> nat \<times> bool" where
  "iter_batch i [] last_id = ([], last_id, False)"
| "iter_batch i ((n, f) # ms) last_id =
     (if map_of f ''job_id'' \<noteq> Some i then iter_batch i ms n
      else if terminal_event f then ([(n, f)], n, True)
      else (let (ys, l, t) = iter_batch i ms n in ((n, f) # ys, l, t)))"

definition REPLAY_RETRY_BASE_DELAY :: rat where "REPLAY_RETRY_BASE_DELAY = 1 / 2"

definition REPLAY_RETRY_MAX_DELAY :: rat where "REPLAY_RETRY_MAX_DELAY = 10"

definition xread :: "nat \<Rightarrow> nat \<Rightarrow> (nat \<times> fields) list \<Rightarrow> (nat \<times> fields) list" where
  "xread limit last_id es = take limit (filter (\<lambda>m. last_id < fst m) es)"

text \<open>\<open>iter_events\<close> over the outcomes of its polls: the yielded events, the delays slept, and whether
  the generator ended.\<close>

fun iter_polls :: "string \<Rightarrow> (nat \<times> fields) list option list \<Rightarrow> nat \<Rightarrow> rat \<Rightarrow>
    (nat \<times> fields) list \<times> rat list \<times> bool" where
  "iter_polls i [] last_id backoff = ([], [], False)"
| "iter_polls i (None # ps) last_id backoff =
     (let (ys, ds, t) = iter_polls i ps last_id (min (backoff * 2) REPLAY_RETRY_MAX_DELAY)
      in (ys, backoff # ds, t))"
| "iter_polls i (Some es # ps) last_id backoff =
     (let (ys, l, t) = iter_batch i (xread 50 last_id es) last_id in
      if t then (ys, [], True)
      else (let (zs, ds, t') = iter_polls i ps l REPLAY_RETRY_BASE_DELAY in (ys @ zs, ds, t')))"

definition iter_events :: "string \<Rightarrow> (nat \<times> fields) list option list \<Rightarrow>
    (nat \<times> fields) list \<times> rat list \<times> bool" where
  "iter_events i polls = iter_polls i polls 0 REPLAY_RETRY_BASE_DELAY"

text \<open>\<open>latest_event\<close> looks at the newest fifty entries; a failing read gives nothing.\<close>

definition latest_event :: "string \<Rightarrow> (nat \<times> fields) list option \<Rightarrow> fields option" where
  "latest_event i poll = (case poll of None \<Rightarrow> None
     | Some es \<Rightarrow> map_option snd (List.find (\<lambda>(n, f). map_of f ''job_id'' = Some i) (take 50 (rev es))))"

subsection \<open>What the subscriber yields\<close>

text \<open>The reference: the events of the job in stream order, up to and including the first terminal
  one.\<close>

fun until_terminal :: "(nat \<times> fields) list \<Rightarrow> (nat \<times> fields) list" where
  "until_terminal [] = []"
| "until_terminal (e # es) = (if terminal_event (snd e) then [e] else e # until_terminal es)"

definition job_events :: "string \<Rightarrow> (nat \<times> fields) list \<Rightarrow> (nat \<times> fields) list" where
  "job_events i es = until_terminal (filter (\<lambda>(n, f). map_of f ''job_id'' = Some i) es)"

definition has_terminal :: "string \<Rightarrow> (nat \<times> fields) list \<Rightarrow> bool" where
  "has_terminal i es = (\<exists>(n, f) \<in> set es. map_of f ''job_id'' = Some i \<and> terminal_event f)"

lemma job_events_Cons:
  "job_events i ((n, f) # es) = (if map_of f ''job_id'' \<noteq> Some i then job_events i es
     else if terminal_event f then [(n, f)] else (n, f) # job_events i es)"
  by (simp add: job_events_def)

lemma has_terminal_Cons [simp]: "\<not> has_terminal i []"
  "has_terminal i ((n, f) # es) \<longleftrightarrow> map_of f ''job_id'' = Some i \<and> terminal_event f \<or> has_terminal i es"
  by (auto simp: has_terminal_def)

lemma has_terminal_append: "has_terminal i (xs @ ys) \<longleftrightarrow> has_terminal i xs \<or> has_terminal i ys"
  by (auto simp: has_terminal_def)

lemma iter_batch_spec:
  "iter_batch i ms l = (job_events i ms, l', t) \<longrightarrow>
    t = has_terminal i ms \<and> (\<not> t \<longrightarrow> l' = (if ms = [] then l else fst (last ms)))"
  "fst (iter_batch i ms l) = job_events i ms"
proof (induction ms arbitrary: l)
  case Nil
  {
    case 1
    then show ?case by (simp add: job_events_def)
  next
    case 2
    then show ?case by (simp add: job_events_def)
  }
next
  case (Cons e ms)
  obtain n f where e: "e = (n, f)" by (cases e)
  {
    case 1
    then show ?case using Cons(1,2) [of n]
      by (auto simp: e job_events_Cons split: prod.splits)
  next
    case 2
    then show ?case using Cons(2) [of n]
      by (auto simp: e job_events_Cons split: prod.splits)
  }
qed

lemma job_events_append:
  "job_events i (xs @ ys) = (if has_terminal i xs then job_events i xs
     else job_events i xs @ job_events i ys)"
  by (induction xs) (auto simp: job_events_Cons job_events_def [of i "[]"])

definition stream_ids_ok :: "(nat \<times> fields) list \<Rightarrow> bool" where
  "stream_ids_ok es = (sorted_wrt (<) (map fst es) \<and> (\<forall>e \<in> set es. 0 < fst e))"

abbreviation after :: "nat \<Rightarrow> (nat \<times> fields) list \<Rightarrow> (nat \<times> fields) list" where
  "after l es \<equiv> filter (\<lambda>m. l < fst m) es"

text \<open>Reading past a non-empty batch moves the cursor to its last entry and leaves exactly the rest.\<close>

lemma after_take:
  assumes "sorted_wrt (<) (map fst es)" "take k (after l es) \<noteq> []"
  shows "after (fst (last (take k (after l es)))) es = drop k (after l es)"
proof -
  let ?A = "after l es"
  have s: "sorted_wrt (<) (map fst ?A)"
    using assms(1) by (induction es) auto
  have split: "?A = take k ?A @ drop k ?A" by simp
  obtain xs x where x: "take k ?A = xs @ [x]" using assms(2) by (metis rev_exhaust)
  have s': "sorted_wrt (<) (map fst (xs @ [x] @ drop k ?A))" using s split x by (metis append_assoc)
  have "after (fst x) es = after (fst x) ?A"
  proof -
    have "x \<in> set ?A" using x split by (metis in_set_conv_decomp in_set_takeD)
    then show ?thesis by (auto simp: filter_filter intro!: filter_cong)
  qed
  also have "\<dots> = after (fst x) (xs @ [x]) @ after (fst x) (drop k ?A)"
    using split x by (metis filter_append)
  also have "after (fst x) (xs @ [x]) = []"
    using s' by (auto simp: sorted_wrt_append filter_empty_conv dest: less_imp_not_less)
  also have "after (fst x) (drop k ?A) = drop k ?A"
    using s' by (auto simp: sorted_wrt_append intro!: filter_True)
  finally show ?thesis using x by simp
qed

lemma xread_prefix:
  assumes "prefix e es"
  shows "\<exists>R. after l es = xread k l e @ R"
proof -
  obtain zs where "es = e @ zs" using assms by (auto simp: prefix_def)
  then have "after l es = xread k l e @ drop k (after l e) @ after l zs"
    by (simp add: xread_def)
  then show ?thesis by blast
qed

lemma poll_step:
  assumes "sorted_wrt (<) (map fst es)" "prefix e es"
    and "l' = (if xread k l e = [] then l else fst (last (xread k l e)))"
  shows "after l es = xread k l e @ after l' es"
proof -
  obtain R where R: "after l es = xread k l e @ R" using xread_prefix [OF assms(2)] by blast
  show ?thesis
  proof (cases "xread k l e = []")
    case True
    then show ?thesis using R assms(3) by simp
  next
    case False
    let ?m = "length (xread k l e)"
    have t: "take ?m (after l es) = xread k l e" using R by simp
    have "after (fst (last (take ?m (after l es)))) es = drop ?m (after l es)"
      using after_take [OF assms(1), of ?m l] False t by simp
    then show ?thesis using R False assms(3) t by simp
  qed
qed

lemma iter_batch_outcome:
  "iter_batch i ms l = (job_events i ms, (if has_terminal i ms then fst (snd (iter_batch i ms l))
     else if ms = [] then l else fst (last ms)), has_terminal i ms)"
proof -
  obtain ys l' t where b: "iter_batch i ms l = (ys, l', t)" by (cases "iter_batch i ms l") auto
  then have "ys = job_events i ms" using iter_batch_spec(2) [of i ms l] by simp
  with b iter_batch_spec(1) [of i ms l l' t] show ?thesis by auto
qed

abbreviation cursor :: "nat \<Rightarrow> (nat \<times> fields) list \<Rightarrow> nat" where
  "cursor l ms \<equiv> if ms = [] then l else fst (last ms)"

lemma iter_polls_terminal: "has_terminal i (xread 50 l e) \<Longrightarrow>
  iter_polls i (Some e # ps) l b = (job_events i (xread 50 l e), [], True)"
  using iter_batch_outcome [of i "xread 50 l e" l] by (auto split: prod.splits)

lemma iter_polls_continue: "\<not> has_terminal i (xread 50 l e) \<Longrightarrow>
  iter_polls i (Some e # ps) l b =
    (let (zs, ds, t) = iter_polls i ps (cursor l (xread 50 l e)) REPLAY_RETRY_BASE_DELAY
     in (job_events i (xread 50 l e) @ zs, ds, t))"
  using iter_batch_outcome [of i "xread 50 l e" l] by (auto split: prod.splits)

declare iter_polls.simps(3) [simp del]

text \<open>Whatever the polls see and however often they fail, what has been yielded is an initial part
  of the reference, and all of it once the generator ends.\<close>

lemma iter_polls_prefix:
  assumes "sorted_wrt (<) (map fst es)" "\<forall>e. Some e \<in> set ps \<longrightarrow> prefix e es"
    and "iter_polls i ps l b = (ys, ds, t)"
  shows "prefix ys (job_events i (after l es)) \<and> (t \<longrightarrow> ys = job_events i (after l es))"
  using assms(2,3)
proof (induction ps arbitrary: l b ys ds t)
  case (Cons p ps)
  show ?case
  proof (cases p)
    case None
    then show ?thesis using Cons by (auto split: prod.splits)
  next
    case (Some e)
    let ?B = "xread 50 l e"
    have A: "after l es = ?B @ after (cursor l ?B) es"
      by (rule poll_step [OF assms(1)]) (use Cons.prems(1) Some in simp_all)
    obtain zs ds' t' where z: "iter_polls i ps (cursor l ?B) REPLAY_RETRY_BASE_DELAY = (zs, ds', t')"
      by (metis prod_cases3)
    have IH: "prefix zs (job_events i (after (cursor l ?B) es))
        \<and> (t' \<longrightarrow> zs = job_events i (after (cursor l ?B) es))"
      using Cons.IH [OF _ z] Cons.prems(1) by simp
    have J: "job_events i (after l es) = (if has_terminal i ?B then job_events i ?B
        else job_events i ?B @ job_events i (after (cursor l ?B) es))"
      by (subst A) (rule job_events_append)
    show ?thesis
    proof (cases "has_terminal i ?B")
      case True
      then show ?thesis using Cons.prems(2) Some J iter_polls_terminal [OF True] by simp
    next
      case False
      then have "ys = job_events i ?B @ zs" "t = t'"
        using Cons.prems(2) Some z iter_polls_continue [OF False] by simp_all
      then show ?thesis using IH J False by simp
    qed
  qed
qed simp

text \<open>Every read of the whole stream makes progress, so enough of them reach the terminal event.\<close>

lemma progress_arith:
  "(b \<Longrightarrow> m \<noteq> 0) \<Longrightarrow> n = m + k \<Longrightarrow> n \<le> (if b then Suc c else c) \<Longrightarrow> k \<le> (c :: nat)"
  by (cases b) simp_all

lemma iter_polls_ends:
  assumes "sorted_wrt (<) (map fst es)" "\<forall>e. Some e \<in> set ps \<longrightarrow> prefix e es"
    and "has_terminal i (after l es)" "length (after l es) \<le> length (filter (\<lambda>p. p = Some es) ps)"
  shows "snd (snd (iter_polls i ps l b))"
  using assms(2-4)
proof (induction ps arbitrary: l b)
  case Nil
  then have "after l es = []" by simp
  then show ?case using Nil(2) by simp
next
  case (Cons p ps)
  show ?case
  proof (cases p)
    case None
    then show ?thesis using Cons by (simp split: prod.splits) (metis snd_conv)
  next
    case (Some e)
    let ?B = "xread 50 l e"
    have A: "after l es = ?B @ after (cursor l ?B) es"
      by (rule poll_step [OF assms(1)]) (use Cons.prems(1) Some in simp_all)
    show ?thesis
    proof (cases "has_terminal i ?B")
      case True
      then show ?thesis using Some by (simp add: iter_polls_terminal)
    next
      case False
      have "length ?B \<noteq> 0" if "e = es"
      proof
        assume "length ?B = 0"
        then have "xread 50 l es = []" using that by simp
        then have "after l es = []" by (simp add: xread_def)
        then show False using Cons.prems(2) by simp
      qed
      moreover have "length (after l es) = length ?B + length (after (cursor l ?B) es)"
        by (subst A) (rule length_append)
      moreover have "length (after l es) \<le> (if e = es then Suc (length (filter (\<lambda>p. p = Some es) ps))
          else length (filter (\<lambda>p. p = Some es) ps))"
        using Cons.prems(3) Some by (cases "e = es") simp_all
      ultimately have "length (after (cursor l ?B) es) \<le> length (filter (\<lambda>p. p = Some es) ps)"
        by (rule progress_arith)
      moreover have "has_terminal i (after (cursor l ?B) es)"
        using Cons.prems(2) False has_terminal_append [of i ?B "after (cursor l ?B) es"]
        by (simp only: A [symmetric]) blast
      ultimately have "snd (snd (iter_polls i ps (cursor l ?B) REPLAY_RETRY_BASE_DELAY))"
        using Cons.IH Cons.prems(1) by simp
      then show ?thesis using Some False by (simp add: iter_polls_continue case_prod_beta)
    qed
  qed
qed

subsection \<open>Properties\<close>

definition sample_event :: "string \<Rightarrow> job_status \<Rightarrow> fields" where
  "sample_event i st = event_fields i st 50 None []"

text \<open>C37: a browser that follows a job over server-sent events sees exactly the job's events. For
  every sequence of polls, failing or seeing any initial part of the stream as it grows to \<open>es\<close>, the
  yielded events are an initial part of the job's events in stream order up to the first terminal
  one; when the generator ends it has yielded all of them; and it does end once the stream holds a
  terminal event of the job and enough polls have read it.\<close>

theorem subscriber_faithful:
  assumes "stream_ids_ok es" "\<forall>e. Some e \<in> set polls \<longrightarrow> prefix e es"
    and "iter_events i polls = (ys, delays, ended)"
  shows "prefix ys (job_events i es) \<and> (ended \<longrightarrow> ys = job_events i es)
    \<and> (has_terminal i es \<and> length es \<le> length (filter (\<lambda>p. p = Some es) polls) \<longrightarrow> ended)"
proof -
  have s: "sorted_wrt (<) (map fst es)" and z: "after 0 es = es"
    using assms(1) by (auto simp: stream_ids_ok_def filter_id_conv)
  note e = assms(3) [unfolded iter_events_def]
  show ?thesis
    using iter_polls_prefix [OF s assms(2) e]
      iter_polls_ends [OF s assms(2), of i 0 REPLAY_RETRY_BASE_DELAY] e by (simp add: z)
qed

theorem subscriber_faithful_witness:
  "let es = [(1, sample_event ''a'' Job_PROCESSING), (2, sample_event ''b'' Job_PROCESSING),
             (3, sample_event ''a'' Job_COMPLETED)];
       (ys, delays, ended) = iter_events ''a'' [None, Some (take 2 es), Some es, Some es, Some es]
   in ended \<and> ys = job_events ''a'' es"
proof -
  define es where "es = [(1 :: nat, sample_event ''a'' Job_PROCESSING), (2, sample_event ''b'' Job_PROCESSING),
             (3, sample_event ''a'' Job_COMPLETED)]"
  define polls where "polls = [None, Some (take 2 es), Some es, Some es, Some es]"
  obtain ys ds t where r: "iter_events ''a'' polls = (ys, ds, t)" by (metis prod_cases3)
  have "stream_ids_ok es" by (simp add: stream_ids_ok_def es_def)
  moreover have "\<forall>e. Some e \<in> set polls \<longrightarrow> prefix e es"
    by (auto simp: take_is_prefix polls_def)
  moreover have "has_terminal ''a'' es"
    by (simp add: es_def sample_event_def event_fields_def terminal_event_def)
  moreover have "length es \<le> length (filter (\<lambda>p. p = Some es) polls)"
    by (simp add: polls_def es_def)
  ultimately have "t \<and> ys = job_events ''a'' es"
    using subscriber_faithful [of es polls "''a''" ys ds t] r by blast
  then show ?thesis using r by (simp add: es_def polls_def Let_def)
qed

end
