(* ===== verification/Converter_Worker.thy ===== *)
theory Converter_Worker
  imports Credit_Ledger Job_Store Job_Events
begin

section \<open>The converter worker\<close>

text \<open>
  Models \<open>workers/converter_workers/\<close>: the retry decorator, the file names of the work directory,
  \<open>process_job\<close> with all its stages, and one pass of the worker loop. The state holds the job and
  its event, the job table, the credit ledger, Redis and the objects uploaded so far. What is
  outside, and what may fail, is an argument: the storage gateway, the encryption service, the
  converters, the fate of every database transaction and of every Redis call. A stage that may
  raise returns a result beside the state it leaves, so that the handler sees what was done before
  the exception. Task cancellation and timeouts of the conversion are not distinguished from other
  exceptions of the awaited call.
\<close>

type_synonym bytes = string

subsection \<open>The retry decorator\<close>

text \<open>The call number \<open>attempts\<close> is passed to the function, which stands for what differs between
  calls. The delays are the upper bounds of the random sleeps.\<close>

fun retry_loop :: "rat \<Rightarrow> rat \<Rightarrow> (nat \<Rightarrow> 's \<Rightarrow> 'a result \<times> 's) \<Rightarrow> nat \<Rightarrow> nat \<Rightarrow> 's \<Rightarrow>
    ('a result \<times> rat list) \<times> 's" where
  "retry_loop base_delay max_delay f attempts 0 s =
     (let (r, s') = f attempts s in ((r, []), s'))"
| "retry_loop base_delay max_delay f attempts (Suc left) s =
     (case f attempts s of
        (Inr a, s') \<Rightarrow> ((Inr a, []), s')
      | (Inl e, s') \<Rightarrow>
        (let ((r, ds), s'') = retry_loop base_delay max_delay f (Suc attempts) left s'
         in ((r, min (base_delay * 2 ^ (attempts - 1)) max_delay # ds), s'')))"

definition retry_on_exception :: "int \<Rightarrow> rat \<Rightarrow> rat \<Rightarrow> (nat \<Rightarrow> 's \<Rightarrow> 'a result \<times> 's) \<Rightarrow> 's \<Rightarrow>
    ('a result \<times> rat list) \<times> 's" where
  "retry_on_exception max_retries base_delay max_delay f s =
     retry_loop base_delay max_delay f 1 (nat (max 1 max_retries) - 1) s"

text \<open>The decorator with its default arguments.\<close>

definition retried :: "(nat \<Rightarrow> 's \<Rightarrow> 'a result \<times> 's) \<Rightarrow> 's \<Rightarrow> 'a result \<times> 's" where
  "retried f s = (let ((r, _), s') = retry_on_exception 3 1 60 f s in (r, s'))"

subsection \<open>File names\<close>

definition MAX_FILENAME_LEN :: nat where "MAX_FILENAME_LEN = 180"

text \<open>\<open>name.rfind(".")\<close>, \<open>-1\<close> when there is none.\<close>

definition rfind_dot :: "string \<Rightarrow> int" where
  "rfind_dot s = int (length s) - 1 - int (length (takeWhile (\<lambda>c. c \<noteq> CHR ''.'') (rev s)))"

definition safe_filename :: "string \<Rightarrow> string" where
  "safe_filename name0 =
     (let name = (if py_strip name0 = [] then ''file'' else py_strip name0) in
      if length name \<le> MAX_FILENAME_LEN then name
      else (let dot = rfind_dot name in
        if 0 < dot \<and> dot < int (length name) - 1
        then (let ext = drop (nat dot) name; stem = take (nat dot) name;
                  keep = int MAX_FILENAME_LEN - int (length ext)
              in slice_to stem keep @ ext)
        else take MAX_FILENAME_LEN name))"

text \<open>\<open>Path(p).stem\<close> of the standard library.\<close>

definition path_stem :: "string \<Rightarrow> string" where
  "path_stem name = (let dot = rfind_dot name in
     if 0 \<le> dot \<and> (\<exists>c \<in> set (take (nat dot) name). c \<noteq> CHR ''.'') then take (nat dot) name else name)"

definition resolve_input_path :: "string \<Rightarrow> string \<Rightarrow> string" where
  "resolve_input_path file_location directory =
     directory @ ''/downloads/'' @ safe_filename (path_name file_location)"

datatype extension_hook = Ext_str string | Ext_call "bytes \<Rightarrow> string option result"

text \<open>A converter: what the \<open>k\<close>-th run leaves at the output path, if it writes it, and how it ends.\<close>

record converter =
  cv_run :: "nat \<Rightarrow> bytes \<Rightarrow> bytes option \<times> unit result"
  cv_output_extension :: "extension_hook option"

definition converter_output_extension :: "converter option \<Rightarrow> string \<Rightarrow> bytes option \<Rightarrow> string result" where
  "converter_output_extension converter deflt input_path =
     (let finish = (\<lambda>resolved. Inr (case resolved of None \<Rightarrow> deflt
             | Some x \<Rightarrow> if x = [] then deflt else py_lower (lstrip_dots x)))
      in case (case converter of None \<Rightarrow> None | Some c \<Rightarrow> cv_output_extension c) of
           None \<Rightarrow> Inr deflt
         | Some (Ext_str x) \<Rightarrow> finish (Some x)
         | Some (Ext_call f) \<Rightarrow> (case input_path of None \<Rightarrow> Inr deflt | Some b \<Rightarrow> rbind (f b) finish))"

definition resolve_output_name :: "string \<Rightarrow> conversion_type \<Rightarrow> converter option \<Rightarrow> bytes option \<Rightarrow>
    string result" where
  "resolve_output_name file_location conversion converter input_path =
     rbind (converter_output_extension converter (ct_target_format conversion) input_path)
       (\<lambda>extension. Inr (safe_filename (path_stem (safe_filename (path_name file_location)))
          @ ''.'' @ extension))"

subsection \<open>The environment\<close>

record encryption_service =
  es_is_fencr_file :: "bytes \<Rightarrow> bool"
  es_is_encrypted_file :: "bytes \<Rightarrow> bool"
  es_decrypt_file :: "bytes \<Rightarrow> string \<Rightarrow> bytes result"
  es_decrypt_fencr_file :: "bytes \<Rightarrow> bytes \<Rightarrow> bytes result"
  es_decrypt_file_to :: "bytes \<Rightarrow> string \<Rightarrow> bytes result"
  es_encrypt_file_to :: "nat \<Rightarrow> bytes \<Rightarrow> string \<Rightarrow> bytes result"

record worker_env =
  we_prefix :: string
  we_base_target_key :: string
  we_credit_settings :: credit_settings
  we_float :: "rat \<Rightarrow> rat"
  we_clock :: civil
  we_stamp :: "nat \<Rightarrow> int"
  we_workdir :: "string result"
  we_encryption :: "encryption_service option"
  we_get_converter :: "conversion_type \<Rightarrow> converter option"
  we_download :: "nat \<Rightarrow> string \<Rightarrow> bytes result"
  we_upload :: "nat \<Rightarrow> commit_fate"
  we_elapsed_ms :: "nat \<Rightarrow> int"
  we_stat_input :: bool
  we_stat_output :: bool
  we_job_repository :: bool
  we_read_fault :: "nat \<Rightarrow> exn option"
  we_persist_fate :: "nat \<Rightarrow> nat \<Rightarrow> nat \<Rightarrow> commit_fate"
  we_credit_port :: bool
  we_total_fault :: "nat \<Rightarrow> exn option"
  we_tier_fault :: "nat \<Rightarrow> exn option"
  we_tx :: "nat \<Rightarrow> bool \<Rightarrow> tx_env"
  we_redis :: "nat \<Rightarrow> commit_fate"

record wstate =
  w_job :: conversion_job
  w_event :: event_context
  w_jobs :: "job_row list"
  w_ledger :: ledger
  w_redis :: redis
  w_uploads :: "(string \<times> bytes) list"
  w_persists :: nat

subsection \<open>Ports\<close>

text \<open>Two attempts, the second only after a dropped connection.\<close>

definition db_retry :: "(nat \<Rightarrow> 'a result) \<Rightarrow> 'a result" where
  "db_retry f = (case f 0 of Inl e \<Rightarrow> if retryable_db_error e then f 1 else Inl e | r \<Rightarrow> r)"

definition faulty :: "(nat \<Rightarrow> exn option) \<Rightarrow> 'a result \<Rightarrow> nat \<Rightarrow> 'a result" where
  "faulty fault r k = (case fault k of Some e \<Rightarrow> Inl e | None \<Rightarrow> r)"

definition get_available_total :: "(nat \<Rightarrow> exn option) \<Rightarrow> civil \<Rightarrow> int \<Rightarrow> string \<Rightarrow> ledger \<Rightarrow> int option result" where
  "get_available_total fault now user_id period_key db =
     db_retry (faulty fault (available_total_once now user_id period_key db))"

definition get_tier :: "(nat \<Rightarrow> exn option) \<Rightarrow> int \<Rightarrow> ledger \<Rightarrow> subscription_tier result" where
  "get_tier fault user_id db = db_retry (faulty fault (get_tier_for_user user_id db))"

definition publish_kw :: "worker_env \<Rightarrow> string \<Rightarrow> job_status \<Rightarrow> int \<Rightarrow> string \<Rightarrow> (string \<times> string option) list \<Rightarrow>
    wstate \<Rightarrow> unit result \<times> wstate" where
  "publish_kw env i status progress message kwargs s =
     (let (r, rd) = publish_event (we_redis env) (we_prefix env) i status progress (Some message) kwargs
            (w_redis s)
      in (r, s\<lparr>w_redis := rd\<rparr>))"

definition publish_current :: "worker_env \<Rightarrow> (string \<times> string option) list \<Rightarrow> wstate \<Rightarrow> unit result \<times> wstate" where
  "publish_current env extra s =
     (let (r, rd) = publish_context (we_redis env) (we_prefix env) (w_event s) extra (w_redis s)
      in (r, s\<lparr>w_redis := rd\<rparr>))"

subsection \<open>Stages of a job\<close>

definition actor_key :: "conversion_job \<Rightarrow> string" where
  "actor_key j = (case job_user_id j of Some u \<Rightarrow> str_int u | None \<Rightarrow> ''guest'')"

definition mark_failed :: "string \<Rightarrow> conversion_job \<Rightarrow> conversion_job" where
  "mark_failed message j = (case fail message j of
       Inr j' \<Rightarrow> j'
     | Inl _ \<Rightarrow> j\<lparr>job_status := Job_FAILED, job_error_message := Some message\<rparr>)"

text \<open>\<open>_persist\<close>: one attempt, two for a terminal write; it never raises.\<close>

fun persist_loop :: "worker_env \<Rightarrow> nat \<Rightarrow> nat \<Rightarrow> wstate \<Rightarrow> wstate" where
  "persist_loop env attempt 0 s = s"
| "persist_loop env attempt (Suc left) s =
     (case worker_update (we_persist_fate env (w_persists s) attempt) (we_stamp env (w_persists s))
             (w_job s) (w_jobs s) of
        (Inr _, t) \<Rightarrow> s\<lparr>w_jobs := t\<rparr>
      | (Inl _, t) \<Rightarrow> persist_loop env (Suc attempt) left (s\<lparr>w_jobs := t\<rparr>))"

definition persist :: "worker_env \<Rightarrow> bool \<Rightarrow> wstate \<Rightarrow> wstate" where
  "persist env terminal s =
     (if \<not> we_job_repository env then s
      else (persist_loop env 0 (if terminal then 2 else 1) s)\<lparr>w_persists := Suc (w_persists s)\<rparr>)"

definition load_persisted_job :: "worker_env \<Rightarrow> wstate \<Rightarrow> conversion_job option" where
  "load_persisted_job env s =
     (if \<not> we_job_repository env then None
      else case worker_get (we_read_fault env) (job_id (w_job s)) (w_jobs s) of
             Inl _ \<Rightarrow> None | Inr p \<Rightarrow> p)"

text \<open>\<open>bytes.fromhex\<close>.\<close>

definition hex_val :: "char \<Rightarrow> nat option" where
  "hex_val c = (if is_digit c then Some (digit_val c)
     else let n = (of_char c :: nat) in
       if 97 \<le> n \<and> n \<le> 102 then Some (n - 87) else if 65 \<le> n \<and> n \<le> 70 then Some (n - 55) else None)"

fun from_hex :: "string \<Rightarrow> bytes result" where
  "from_hex [] = Inr []"
| "from_hex [c] = (if is_space c then Inr []
     else Inl (ValueError ''non-hexadecimal number found in fromhex() arg''))"
| "from_hex (c # d # cs) =
     (if is_space c then from_hex (d # cs)
      else case (hex_val c, hex_val d) of
        (Some a, Some b) \<Rightarrow> rbind (from_hex cs) (\<lambda>bs. Inr (char_of (16 * a + b) # bs))
      | _ \<Rightarrow> Inl (ValueError ''non-hexadecimal number found in fromhex() arg''))"

definition download_input_file :: "worker_env \<Rightarrow> conversion_job \<Rightarrow> nat \<Rightarrow> bytes result" where
  "download_input_file env j k =
     rbind (we_download env k (job_object_key j)) (\<lambda>raw.
     case we_encryption env of
       None \<Rightarrow> Inr raw
     | Some es \<Rightarrow>
       if job_client_encrypted j \<and> es_is_fencr_file es raw then
         (case job_data_key_wrapped j of
            Some (c # cs) \<Rightarrow> rbind (from_hex (c # cs)) (\<lambda>wrapped.
               rbind (es_decrypt_file es wrapped (actor_key j)) (\<lambda>data_key.
               es_decrypt_fencr_file es raw data_key))
          | _ \<Rightarrow> Inl (ValueError (''Job '' @ job_id j @ '' is client-encrypted but has no wrapped data key'')))
       else if \<not> es_is_encrypted_file es raw then Inr raw
       else es_decrypt_file_to es raw (actor_key j))"

text \<open>\<open>_convert_file\<close>: the state is the content of the output path, which an earlier run may have
  left there.\<close>

definition convert_file :: "worker_env \<Rightarrow> conversion_job \<Rightarrow> bytes \<Rightarrow> string \<Rightarrow> nat \<Rightarrow> bytes option \<Rightarrow>
    int result \<times> bytes option" where
  "convert_file env j input output_path k out =
     (case we_get_converter env (job_conversion j) of
        None \<Rightarrow> (Inl (RuntimeError (''No converter found for conversion type ''
           @ ct_source_format (job_conversion j) @ ''->'' @ ct_target_format (job_conversion j))), out)
      | Some c \<Rightarrow>
        (let (written, res) = cv_run c k input;
             out' = (case written of None \<Rightarrow> out | Some b \<Rightarrow> Some b)
         in case res of
              Inl e \<Rightarrow> (Inl e, out')
            | Inr _ \<Rightarrow>
              if out' = None \<or> out' = Some []
              then (Inl (RuntimeError (''Converter produced no output file at '' @ output_path
                     @ '' for job '' @ job_id j)), out')
              else (Inr (we_elapsed_ms env k), out')))"

definition measure_file_sizes :: "worker_env \<Rightarrow> bytes \<Rightarrow> bytes \<Rightarrow> int \<times> int" where
  "measure_file_sizes env input output =
     ((if we_stat_input env then max 0 (int (length input)) else 0),
      (if we_stat_output env then max 0 (int (length output)) else 0))"

definition output_dest :: "worker_env \<Rightarrow> conversion_job \<Rightarrow> string \<Rightarrow> string" where
  "output_dest env j output_name = rstrip_slash (we_base_target_key env) @ ''/user/'' @ actor_key j
     @ ''/job/'' @ job_id j @ ''/'' @ output_name"

definition upload_output_file :: "worker_env \<Rightarrow> string \<Rightarrow> bytes \<Rightarrow> nat \<Rightarrow> wstate \<Rightarrow> string result \<times> wstate" where
  "upload_output_file env output_name content k s =
     (let j = w_job s; dest = output_dest env j output_name;
          source = (case we_encryption env of None \<Rightarrow> Inr content
             | Some es \<Rightarrow> es_encrypt_file_to es k content (actor_key j));
          put = (\<lambda>b. s\<lparr>w_uploads := w_uploads s @ [(dest, b)]\<rparr>)
      in case source of
           Inl e \<Rightarrow> (Inl e, s)
         | Inr b \<Rightarrow> (case we_upload env k of
               Commit_ok \<Rightarrow> (Inr dest, put b)
             | Commit_lost e \<Rightarrow> (Inl e, s)
             | Commit_reply_lost e \<Rightarrow> (Inl e, put b)))"

subsection \<open>Processing a job\<close>

definition CREDITS_EXHAUSTED :: string where
  "CREDITS_EXHAUSTED = ''Conversion credits exhausted. Upgrade your plan or purchase more credits.''"

definition USER_FACING_FAILURE_MESSAGE :: string where
  "USER_FACING_FAILURE_MESSAGE = ''Conversion failed. Please try again later.''"

text \<open>The pre-check: \<open>None\<close> when the job ends here, otherwise the tier to compute the price with. An
  exception inside it, a failing publish included, is logged and the conversion goes on.\<close>

definition credit_precheck :: "worker_env \<Rightarrow> int \<Rightarrow> string \<Rightarrow> wstate \<Rightarrow> subscription_tier option \<times> wstate" where
  "credit_precheck env user_id period_key s =
     (case get_available_total (we_total_fault env) (we_clock env) user_id period_key (w_ledger s) of
        Inl _ \<Rightarrow> (Some Tier_FREE, s)
      | Inr available \<Rightarrow>
        (case get_tier (we_tier_fault env) user_id (w_ledger s) of
           Inl _ \<Rightarrow> (Some Tier_FREE, s)
         | Inr tier \<Rightarrow>
           if (case available of None \<Rightarrow> False | Some a \<Rightarrow> a \<le> 0) then
             (let s1 = s\<lparr>w_job := (mark_failed CREDITS_EXHAUSTED (w_job s))\<lparr>job_progress := 100\<rparr>\<rparr>;
                  (r, s2) = publish_kw env (job_id (w_job s)) Job_FAILED 100
                     ''conversion credits exhausted'' [(''credits_remaining'', Some (str_int 0))]
                     (persist env True s1)
              in case r of Inl _ \<Rightarrow> (Some Tier_FREE, s2) | Inr _ \<Rightarrow> (None, s2))
           else (Some tier, s)))"

text \<open>Announcing a phase: the event is changed and published, then its progress goes to the row.\<close>

definition enter_phase :: "worker_env \<Rightarrow> (event_context \<Rightarrow> event_context) \<Rightarrow> wstate \<Rightarrow> unit result \<times> wstate" where
  "enter_phase env phase =
     sbind (smodify (\<lambda>s. s\<lparr>w_event := phase (w_event s)\<rparr>)) (\<lambda>_.
     sbind (publish_current env []) (\<lambda>_.
     smodify (\<lambda>s. persist env False (s\<lparr>w_job := (w_job s)\<lparr>job_progress := ec_progress (w_event s)\<rparr>\<rparr>))))"

definition lift_job :: "(conversion_job \<Rightarrow> conversion_job result) \<Rightarrow> wstate \<Rightarrow> unit result \<times> wstate" where
  "lift_job f s = (case f (w_job s) of Inl e \<Rightarrow> (Inl e, s) | Inr j \<Rightarrow> (Inr (), s\<lparr>w_job := j\<rparr>))"

text \<open>A stage that only reads, with the retry decorator around it.\<close>

definition retried_read :: "(conversion_job \<Rightarrow> nat \<Rightarrow> 'a result) \<Rightarrow> wstate \<Rightarrow> 'a result \<times> wstate" where
  "retried_read f s = retried (\<lambda>k s. (f (w_job s) k, s)) s"

definition run_converter :: "worker_env \<Rightarrow> bytes \<Rightarrow> string \<Rightarrow> wstate \<Rightarrow> (int \<times> bytes) result \<times> wstate" where
  "run_converter env input output_path s =
     (case retried (convert_file env (w_job s) input output_path) None of
        (Inl e, _) \<Rightarrow> (Inl e, s)
      | (Inr ms, out) \<Rightarrow> (Inr (ms, case out of None \<Rightarrow> [] | Some b \<Rightarrow> b), s))"

text \<open>From the download to the measured result.\<close>

definition convert_phases :: "worker_env \<Rightarrow> subscription_tier \<Rightarrow> wstate \<Rightarrow> (string \<times> bytes) result \<times> wstate" where
  "convert_phases env tier =
     sbind (sreturn (we_workdir env)) (\<lambda>workdir.
     sbind (enter_phase env ev_downloading) (\<lambda>_.
     sbind (retried_read (download_input_file env)) (\<lambda>plain_input.
     sbind (\<lambda>s. sreturn (resolve_output_name (job_input_file (w_job s)) (job_conversion (w_job s))
                (we_get_converter env (job_conversion (w_job s))) (Some plain_input)) s) (\<lambda>output_name.
     sbind (enter_phase env ev_processing) (\<lambda>_.
     sbind (run_converter env plain_input (workdir @ ''/uploads/'' @ output_name)) (\<lambda>(ms, output).
     sbind (lift_job (\<lambda>j. set_compute_result ms
                (calculate_credits (we_float env) (we_credit_settings env) ms
                   (ct_source_format (job_conversion j)) (ct_target_format (job_conversion j)) tier None)
                (fst (measure_file_sizes env plain_input output))
                (snd (measure_file_sizes env plain_input output)) j)) (\<lambda>_.
     sreturn (Inr (output_name, output)))))))))"

text \<open>The charge after a successful conversion; a failing charge is logged and gives \<open>None\<close>.\<close>

definition charge_job :: "worker_env \<Rightarrow> string \<Rightarrow> wstate \<Rightarrow> int option result \<times> wstate" where
  "charge_job env period_key s =
     (case job_user_id (w_job s) of
        Some u \<Rightarrow> if we_credit_port env then
            (let (r, db) = consume (we_tx env) (we_clock env) u period_key (job_credits_used (w_job s))
                   (job_origin (w_job s)) (w_ledger s)
             in (Inr (case r of Inl _ \<Rightarrow> None | Inr n \<Rightarrow> Some n), s\<lparr>w_ledger := db\<rparr>))
          else (Inr None, s)
      | None \<Rightarrow> (Inr None, s))"

text \<open>From the charge to the terminal event.\<close>

definition settle_job :: "worker_env \<Rightarrow> string \<Rightarrow> string \<Rightarrow> wstate \<Rightarrow> unit result \<times> wstate" where
  "settle_job env period_key dest =
     sbind (charge_job env period_key) (\<lambda>credits_remaining.
     sbind (smodify (\<lambda>s. persist env True (s\<lparr>
         w_event := ev_completed (job_compute_duration_ms (w_job s)) (job_credits_used (w_job s))
            (job_input_size_bytes (w_job s)) (job_output_size_bytes (w_job s)) (Some dest) (w_event s),
         w_job := (w_job s)\<lparr>job_progress := 100\<rparr>\<rparr>))) (\<lambda>_.
     publish_current env [(''credits_remaining'', map_option str_int credits_remaining)]))"

text \<open>From the upload on.\<close>

definition finish_job :: "worker_env \<Rightarrow> string \<Rightarrow> string \<times> bytes \<Rightarrow> wstate \<Rightarrow> unit result \<times> wstate" where
  "finish_job env period_key output =
     sbind (enter_phase env ev_uploading) (\<lambda>_.
     sbind (retried (upload_output_file env (fst output) (snd output))) (\<lambda>dest.
     sbind (lift_job (complete dest)) (\<lambda>_. settle_job env period_key dest)))"

text \<open>Credits are enforced for the jobs of a user when the port is wired.\<close>

definition precheck_stage :: "worker_env \<Rightarrow> string \<Rightarrow> wstate \<Rightarrow> subscription_tier option result \<times> wstate" where
  "precheck_stage env period_key s =
     (case job_user_id (w_job s) of
        Some u \<Rightarrow> if we_credit_port env
          then (let (t, s') = credit_precheck env u period_key s in (Inr t, s'))
          else (Inr (Some Tier_FREE), s)
      | None \<Rightarrow> (Inr (Some Tier_FREE), s))"

text \<open>The body of the \<open>try\<close> block.\<close>

definition process_body :: "worker_env \<Rightarrow> string \<Rightarrow> wstate \<Rightarrow> unit result \<times> wstate" where
  "process_body env period_key =
     sbind (lift_job start_processing) (\<lambda>_.
     sbind (smodify (persist env False)) (\<lambda>_.
     sbind (precheck_stage env period_key) (\<lambda>go.
     case go of
       None \<Rightarrow> sreturn (Inr ())
     | Some tier \<Rightarrow> sbind (convert_phases env tier) (finish_job env period_key))))"

definition handle_failure :: "worker_env \<Rightarrow> exn \<Rightarrow> wstate \<Rightarrow> unit result \<times> wstate" where
  "handle_failure env e s =
     (let s1 = persist env True (s\<lparr>w_job := (mark_failed (exn_message e) (w_job s))
                 \<lparr>job_progress := ec_progress (w_event s)\<rparr>\<rparr>);
          s2 = s1\<lparr>w_event := ev_failed USER_FACING_FAILURE_MESSAGE (w_event s1)\<rparr>
      in case publish_current env [] s2 of
           (Inl e', s3) \<Rightarrow> (Inl e', s3)
         | (Inr _, s3) \<Rightarrow> (Inl (RuntimeError (exn_message e)), s3))"

definition already_completed :: "conversion_job option \<Rightarrow> bool" where
  "already_completed p = (case p of None \<Rightarrow> False
     | Some q \<Rightarrow> job_status q = Job_COMPLETED \<and> job_output_file q \<notin> {None, Some []})"

definition replay_completed :: "worker_env \<Rightarrow> conversion_job \<Rightarrow> wstate \<Rightarrow> unit result \<times> wstate" where
  "replay_completed env p s =
     publish_kw env (job_id (w_job s)) Job_COMPLETED 100 ''conversion completed''
       [(''compute_duration_ms'', Some (str_int (job_compute_duration_ms p))),
        (''credits_used'', Some (str_int (job_credits_used p))),
        (''input_size_bytes'', Some (str_int (job_input_size_bytes p))),
        (''output_size_bytes'', Some (str_int (job_output_size_bytes p))),
        (''output_file'', job_output_file p)] s"

definition process_job :: "worker_env \<Rightarrow> wstate \<Rightarrow> unit result \<times> wstate" where
  "process_job env s0 =
     (let s = s0\<lparr>w_event := new_event (job_id (w_job s0))\<rparr>; persisted = load_persisted_job env s in
      if already_completed persisted then replay_completed env (the persisted) s
      else case process_body env (period_key_of (we_clock env)) s of
             (Inr u, s') \<Rightarrow> (Inr u, s')
           | (Inl e, s') \<Rightarrow> handle_failure env e s')"

subsection \<open>The worker loop\<close>

definition STALE_SWEEP_INTERVAL_MS :: int where "STALE_SWEEP_INTERVAL_MS = 60 * 1000"

definition STALE_IDLE_MARGIN_MS :: int where "STALE_IDLE_MARGIN_MS = 60000"

definition MAX_BUFFERED_MESSAGES_PER_FETCH :: int where
  "MAX_BUFFERED_MESSAGES_PER_FETCH = int (length JOB_TIER_STREAMS) - 1"

definition stale_min_idle_ms :: "int \<Rightarrow> int" where
  "stale_min_idle_ms timeout_seconds =
     timeout_seconds * 1000 * (1 + MAX_BUFFERED_MESSAGES_PER_FETCH) + STALE_IDLE_MARGIN_MS"

record loop_state =
  lw_consumer :: consumer
  lw_last_sweep :: int
  lw_state :: wstate

text \<open>The handler of a raising job: dead-letter, then acknowledge, each in a \<open>try\<close> of its own.\<close>

definition handle_raise :: "(nat \<Rightarrow> commit_fate) \<Rightarrow> string \<Rightarrow> string \<Rightarrow> conversion_job \<Rightarrow> consumer \<Rightarrow> redis \<Rightarrow>
    consumer \<times> redis" where
  "handle_raise fate key error_message j c rd =
     (let (_, rd1) = dead_letter_job fate key error_message j c rd;
          (_, c', rd2) = fail_job fate key error_message c rd1
      in (c', rd2))"

text \<open>One pass of the loop in \<open>run\<close> at time \<open>now\<close> (milliseconds); what it sleeps is not modelled. An
  exception of the fetch or of the acknowledgement is logged by the outer handler.\<close>

definition run_pass :: "worker_env \<Rightarrow> int \<Rightarrow> int \<Rightarrow> loop_state \<Rightarrow> loop_state" where
  "run_pass env timeout_seconds now ls =
     (let s = lw_state ls; fate = we_redis env in
      case fetch_job fate now (lw_consumer ls) (w_redis s) of
        (Inl _, c, rd) \<Rightarrow> ls\<lparr>lw_consumer := c, lw_state := s\<lparr>w_redis := rd\<rparr>\<rparr>
      | (Inr None, c, rd) \<Rightarrow>
        if STALE_SWEEP_INTERVAL_MS < now - lw_last_sweep ls
        then ls\<lparr>lw_consumer := c, lw_last_sweep := now, lw_state := s\<lparr>w_redis :=
               snd (reclaim_stale_jobs fate (stale_min_idle_ms timeout_seconds) now 20 c rd)\<rparr>\<rparr>
        else ls\<lparr>lw_consumer := c, lw_state := s\<lparr>w_redis := rd\<rparr>\<rparr>
      | (Inr (Some (key, j)), c, rd) \<Rightarrow>
        (case process_job env (s\<lparr>w_job := j, w_redis := rd\<rparr>) of
           (Inr _, s') \<Rightarrow>
             (let (_, c', rd') = acknowledge_job fate key c (w_redis s')
              in ls\<lparr>lw_consumer := c', lw_state := s'\<lparr>w_redis := rd'\<rparr>\<rparr>)
         | (Inl e, s') \<Rightarrow>
             (let (c', rd') = handle_raise fate key (exn_message e) (w_job s') c (w_redis s')
              in ls\<lparr>lw_consumer := c', lw_state := s'\<lparr>w_redis := rd'\<rparr>\<rparr>)))"

end
