(* ===== verification/Worker_Safety.thy ===== *)
theory Worker_Safety
  imports Converter_Worker
begin

section \<open>What a worker does to a job\<close>

text \<open>
  Properties of \<open>process_job\<close> for every pattern of failures: which parts of the state a stage may
  change, when and how often a user is charged, what the row and the queue hold afterwards. The
  frame conditions of the stages are one locale, a preorder on states that sequencing and the retry
  decorator respect, interpreted on the relations that matter.
\<close>

subsection \<open>The retry decorator\<close>

lemma retry_loop_first: "fst (f n s) = Inr a \<Longrightarrow> retry_loop b m f n left s = ((Inr a, []), snd (f n s))"
  by (cases left; cases "f n s") auto

lemma retried_first: "f 1 s = (Inr a, s') \<Longrightarrow> retried f s = (Inr a, s')"
  using retry_loop_first [of f 1 s a] by (simp add: retried_def retry_on_exception_def)

text \<open>At most \<open>left\<close> further attempts: the result is the first success or the last exception, and
  the waits double up to the cap.\<close>

lemma retry_loop_spec:
  assumes "retry_loop b m f n left s = ((r, ds), s')" "0 \<le> b" "0 \<le> m"
  shows "length ds \<le> left \<and> (isl r \<longrightarrow> length ds = left) \<and> (\<forall>d \<in> set ds. 0 \<le> d \<and> d \<le> m)"
  using assms(1)
proof (induction left arbitrary: n s r ds)
  case 0
  then show ?case by (auto split: prod.splits)
next
  case (Suc left)
  show ?case
  proof (cases "f n s")
    case (Pair x s1)
    then show ?thesis
      using Suc assms(2,3) by (cases x) (fastforce split: prod.splits)+
  qed
qed

subsection \<open>Frame conditions\<close>

context state_frame
begin

lemma retry_frame:
  assumes "\<And>k s. R s (snd (f k s))"
  shows "R s (snd (retry_loop b m f n left s))"
proof (induction left arbitrary: n s)
  case 0
  then show ?case using assms [of s n] by (simp add: case_prod_beta)
next
  case (Suc left)
  show ?case
  proof (cases "f n s")
    case (Pair x s1)
    have "R s s1" using assms [of s n] Pair by simp
    with Suc [of s1 "Suc n"] Pair trans [of s s1] show ?thesis
      by (cases x) (simp_all add: case_prod_beta)
  qed
qed

lemma retry_success:
  assumes "\<And>k s. R s (snd (f k s))" "fst (fst (retry_loop b m f n left s)) = Inr a"
  shows "\<exists>k t. R s t \<and> f k t = (Inr a, snd (retry_loop b m f n left s))"
  using assms(2)
proof (induction left arbitrary: n s)
  case 0
  then show ?case using refl [of s] by (cases "f n s") auto
next
  case (Suc left)
  obtain x s1 where x: "f n s = (x, s1)" by (cases "f n s")
  have "R s s1" using assms(1) [of s n] x by simp
  then show ?case
    using Suc x refl [of s] trans [of s s1]
    by (cases x) (fastforce simp: case_prod_beta)+
qed

lemma retried_success:
  assumes "\<And>k s. R s (snd (f k s))" "retried f s = (Inr a, s')"
  shows "\<exists>k t. R s t \<and> f k t = (Inr a, s')"
  using retry_success [where f = f and b = 1 and m = 60 and n = 1 and left = 2 and s = s and a = a,
      OF assms(1)] assms(2)
  by (simp add: retried_def retry_on_exception_def case_prod_beta Let_def)

lemma retried_frame: "(\<And>k s. R s (snd (f k s))) \<Longrightarrow> R s (snd (retried f s))"
  unfolding retried_def retry_on_exception_def case_prod_beta Let_def snd_conv by (rule retry_frame)

end

definition same_job :: "conversion_job \<Rightarrow> conversion_job \<Rightarrow> bool" where
  "same_job j j' = job_frame (j\<lparr>job_progress := 0\<rparr>) (j'\<lparr>job_progress := 0\<rparr>)"

lemma same_job_refl [simp]: "same_job j j"
  by (simp add: same_job_def job_frame_def)

lemma same_job_trans: "same_job a b \<Longrightarrow> same_job b c \<Longrightarrow> same_job a c"
  unfolding same_job_def by (rule job_frame_trans)

lemma same_job_fields: "same_job j j' \<Longrightarrow> job_id j' = job_id j \<and> job_user_id j' = job_user_id j
    \<and> job_origin j' = job_origin j \<and> job_batch_id j' = job_batch_id j
    \<and> job_workflow_id j' = job_workflow_id j \<and> job_object_key j' = job_object_key j
    \<and> job_conversion j' = job_conversion j \<and> job_input_file j' = job_input_file j"
  by (simp add: same_job_def job_frame_def)

lemma same_job_eqs:
  assumes "same_job j j'"
  shows "job_id j' = job_id j" "job_user_id j' = job_user_id j" "job_conversion j' = job_conversion j"
    "job_object_key j' = job_object_key j" "job_data_key_wrapped j' = job_data_key_wrapped j"
    "job_client_encrypted j' = job_client_encrypted j" "job_origin j' = job_origin j"
    "job_input_file j' = job_input_file j"
  using assms by (simp_all add: same_job_def job_frame_def)

lemma same_job_frame: "job_frame j j' \<Longrightarrow> same_job j j'"
  by (simp add: same_job_def job_frame_def)

lemma same_job_progress [simp]: "same_job j (j'\<lparr>job_progress := p\<rparr>) = same_job j j'"
  by (simp add: same_job_def)

lemma same_job_mark_failed [simp]: "same_job j (mark_failed m j)"
  by (simp add: mark_failed_def fail_def same_job_def job_frame_def)

lemma mark_failed_status [simp]: "job_status (mark_failed m j) = Job_FAILED"
  by (simp add: mark_failed_def fail_def)

text \<open>Any stage: the job keeps its identity, uploads are only added, the rows of other jobs and the
  keys of the table stay, and the batch of the row is the old one or the job's.\<close>

definition jobs_frame :: "conversion_job \<Rightarrow> job_row list \<Rightarrow> job_row list \<Rightarrow> bool" where
  "jobs_frame j t t' = ((jobs_ok t \<longrightarrow> jobs_ok t')
     \<and> (\<forall>k. k \<noteq> job_id j \<longrightarrow> job_row_at k t' = job_row_at k t)
     \<and> (job_row_at (job_id j) t' = None \<longleftrightarrow> job_row_at (job_id j) t = None)
     \<and> (\<forall>r r'. job_row_at (job_id j) t = Some r \<longrightarrow> job_row_at (job_id j) t' = Some r'
          \<longrightarrow> jr_batch_id r' \<in> {jr_batch_id r, job_batch_id j}))"

definition stage_frame :: "wstate \<Rightarrow> wstate \<Rightarrow> bool" where
  "stage_frame s s' = (same_job (w_job s) (w_job s') \<and> prefix (w_uploads s) (w_uploads s')
     \<and> jobs_frame (w_job s) (w_jobs s) (w_jobs s'))"

text \<open>A stage that charges nobody.\<close>

definition free_frame :: "wstate \<Rightarrow> wstate \<Rightarrow> bool" where
  "free_frame s s' = (stage_frame s s' \<and> w_ledger s' = w_ledger s)"

lemma jobs_frame_trans:
  assumes "jobs_frame j a b" "jobs_frame j' b c" "job_id j' = job_id j" "job_batch_id j' = job_batch_id j"
  shows "jobs_frame j a c"
  unfolding jobs_frame_def
proof (intro conjI allI impI)
  fix r r' assume r: "job_row_at (job_id j) a = Some r" "job_row_at (job_id j) c = Some r'"
  then obtain q where q: "job_row_at (job_id j) b = Some q"
    using assms(1) by (cases "job_row_at (job_id j) b") (auto simp: jobs_frame_def)
  have "jr_batch_id q \<in> {jr_batch_id r, job_batch_id j}"
    using assms(1) r q by (auto simp: jobs_frame_def)
  moreover have "jr_batch_id r' \<in> {jr_batch_id q, job_batch_id j}"
    using assms(2-4) r q by (auto simp: jobs_frame_def)
  ultimately show "jr_batch_id r' \<in> {jr_batch_id r, job_batch_id j}" by auto
qed (use assms in \<open>auto simp: jobs_frame_def\<close>)

lemma jobs_frame_refl [simp]: "jobs_frame j t t"
  by (simp add: jobs_frame_def)

interpretation stage: state_frame stage_frame
proof
  show "stage_frame s s" for s by (simp add: stage_frame_def)
  show "stage_frame s u" if "stage_frame s t" "stage_frame t u" for s t u
    using that same_job_fields [of "w_job s" "w_job t"]
    by (auto simp: stage_frame_def intro: same_job_trans jobs_frame_trans)
qed

interpretation free: state_frame free_frame
proof
  show "free_frame s s" for s by (simp add: free_frame_def stage.refl)
  show "free_frame s u" if "free_frame s t" "free_frame t u" for s t u
    using that by (auto simp: free_frame_def intro: stage.trans)
qed


subsection \<open>Frames of the stages\<close>

lemma worker_update_cases:
  "snd (worker_update fate now j t) \<in> {t, update_conversion_job now j t,
     update_conversion_job now j (update_conversion_job now j t)}"
proof -
  have a: "snd (update_attempt f now j t) \<in> {t, update_conversion_job now j t}" for f t
    by (cases f) auto
  show ?thesis
    using a [of "fate 0" t] a [of "fate 1" "snd (update_attempt (fate 0) now j t)"]
    by (auto simp: worker_update_def split: prod.splits sum.splits if_splits)
qed

lemma jobs_frame_update: "jobs_frame j t (update_conversion_job now j t)"
  by (auto simp: jobs_frame_def jobs_ok_update job_row_at_update option.map_id0
      intro: option.map_ident)


lemma jobs_frame_worker_update: "jobs_frame j t (snd (worker_update fate now j t))"
  using worker_update_cases [of fate now j t] jobs_frame_update jobs_frame_trans by fastforce

lemma persist_loop_frame: "free_frame s (persist_loop env a left s)
    \<and> w_job (persist_loop env a left s) = w_job s \<and> w_event (persist_loop env a left s) = w_event s
    \<and> w_redis (persist_loop env a left s) = w_redis s \<and> w_uploads (persist_loop env a left s) = w_uploads s"
proof (induction left arbitrary: a s)
  case (Suc left)
  obtain r t where u: "worker_update (we_persist_fate env (w_persists s) a) (we_stamp env (w_persists s))
      (w_job s) (w_jobs s) = (r, t)" by (cases "worker_update (we_persist_fate env (w_persists s) a)
      (we_stamp env (w_persists s)) (w_job s) (w_jobs s)")
  have "free_frame s (s\<lparr>w_jobs := t\<rparr>)"
    using jobs_frame_worker_update [of "w_job s" "w_jobs s" "we_persist_fate env (w_persists s) a"
        "we_stamp env (w_persists s)"] u by (simp add: free_frame_def stage_frame_def)
  then show ?case using u Suc [of "s\<lparr>w_jobs := t\<rparr>" "Suc a"] free.trans by (cases r) auto
qed (simp add: free.refl)

lemma persist_frame [simp]: "free_frame s (persist env terminal s)"
  and persist_same [simp]: "w_job (persist env terminal s) = w_job s"
    "w_event (persist env terminal s) = w_event s" "w_redis (persist env terminal s) = w_redis s"
    "w_uploads (persist env terminal s) = w_uploads s" "w_ledger (persist env terminal s) = w_ledger s"
  using persist_loop_frame [of s env 0 "if terminal then 2 else 1"]
  by (auto simp: persist_def free_frame_def stage_frame_def)

lemma publish_kw_frame [simp]: "free_frame s (snd (publish_kw env i st p m kw s))"
  and publish_kw_same [simp]: "w_job (snd (publish_kw env i st p m kw s)) = w_job s"
    "w_jobs (snd (publish_kw env i st p m kw s)) = w_jobs s"
    "w_ledger (snd (publish_kw env i st p m kw s)) = w_ledger s"
    "w_uploads (snd (publish_kw env i st p m kw s)) = w_uploads s"
  by (simp_all add: publish_kw_def free_frame_def stage_frame_def case_prod_beta)

lemma publish_current_frame [simp]: "free_frame s (snd (publish_current env kw s))"
  and publish_current_same [simp]: "w_job (snd (publish_current env kw s)) = w_job s"
    "w_jobs (snd (publish_current env kw s)) = w_jobs s"
    "w_ledger (snd (publish_current env kw s)) = w_ledger s"
    "w_uploads (snd (publish_current env kw s)) = w_uploads s"
    "w_event (snd (publish_current env kw s)) = w_event s"
  by (simp_all add: publish_current_def free_frame_def stage_frame_def case_prod_beta)

lemma free_frame_job: "same_job (w_job s) j \<Longrightarrow> free_frame s (s\<lparr>w_job := j\<rparr>)"
  by (simp add: free_frame_def stage_frame_def)

lemma free_frame_event: "free_frame s (s\<lparr>w_event := e\<rparr>)"
  by (simp add: free_frame_def stage_frame_def)

lemma smodify_frame: "free_frame s (f s) \<Longrightarrow> free_frame s (snd (smodify f s))"
  by (simp add: smodify_def)

lemma enter_phase_frame: "free_frame s (snd (enter_phase env phase s))"
  unfolding enter_phase_def
  by (intro free.sbind_frame smodify_frame free_frame_event publish_current_frame
      free.trans [OF _ persist_frame] free_frame_job) simp

lemma lift_job_frame: "(\<And>j j'. f j = Inr j' \<Longrightarrow> same_job j j') \<Longrightarrow> free_frame s (snd (lift_job f s))"
  by (auto simp: lift_job_def free.refl intro: free_frame_job split: sum.splits)

lemma retried_read_frame: "free_frame s (snd (retried_read f s))"
  unfolding retried_read_def by (rule free.retried_frame) (simp add: free.refl)

lemma run_converter_frame: "free_frame s (snd (run_converter env i p s))"
  by (simp add: run_converter_def free.refl split: prod.splits sum.splits)

lemma method_same_job:
  "start_processing j = Inr j' \<Longrightarrow> same_job j j'" "complete d j = Inr j' \<Longrightarrow> same_job j j'"
  "set_compute_result a b c e j = Inr j' \<Longrightarrow> same_job j j'"
  using job_apply_frame [of Call_start j j'] job_apply_frame [of "Call_complete d" j j']
    job_apply_frame [of "Call_set_result a b c e" j j'] by (simp_all add: same_job_frame)

lemma convert_phases_frame: "free_frame s (snd (convert_phases env tier s))"
  unfolding convert_phases_def
  by (intro free.sbind_frame free.sreturn_frame enter_phase_frame retried_read_frame)
    (auto intro!: free.sbind_frame run_converter_frame lift_job_frame free.sreturn_frame enter_phase_frame
      dest: method_same_job)

lemma credit_precheck_frame: "free_frame s (snd (credit_precheck env u p s))"
proof -
  let ?s1 = "s\<lparr>w_job := (mark_failed CREDITS_EXHAUSTED (w_job s))\<lparr>job_progress := 100\<rparr>\<rparr>"
  have "free_frame s (snd (publish_kw env i st pr m kw (persist env True ?s1)))" for i st pr m kw
    by (intro free.trans [OF _ publish_kw_frame] free.trans [OF _ persist_frame] free_frame_job) simp
  then show ?thesis
    by (auto simp: credit_precheck_def free.refl case_prod_beta Let_def split: sum.splits)
qed

lemma upload_frame: "free_frame s (snd (upload_output_file env n c k s))"
  by (auto simp: upload_output_file_def free_frame_def stage_frame_def Let_def
      split: sum.splits commit_fate.splits)

lemma charge_frame: "stage_frame s (snd (charge_job env p s))"
  by (auto simp: charge_job_def stage_frame_def case_prod_beta split: option.splits)

lemma handle_failure_frame: "free_frame s (snd (handle_failure env e s))"
proof -
  let ?s1 = "persist env True (s\<lparr>w_job := (mark_failed (exn_message e) (w_job s))
                 \<lparr>job_progress := ec_progress (w_event s)\<rparr>\<rparr>)"
  let ?s2 = "?s1\<lparr>w_event := ev_failed USER_FACING_FAILURE_MESSAGE (w_event ?s1)\<rparr>"
  have "free_frame s (snd (publish_current env [] ?s2))"
    by (intro free.trans [OF _ publish_current_frame] free.trans [OF _ free_frame_event]
        free.trans [OF _ persist_frame] free_frame_job) simp
  then show ?thesis
    by (cases "publish_current env [] ?s2"; cases "fst (publish_current env [] ?s2)")
      (auto simp: handle_failure_def Let_def)
qed


subsection \<open>The charge\<close>

text \<open>What may differ after an upload: nothing but the uploaded objects.\<close>

definition upload_frame_only :: "wstate \<Rightarrow> wstate \<Rightarrow> bool" where
  "upload_frame_only s t = (t\<lparr>w_uploads := []\<rparr> = s\<lparr>w_uploads := []\<rparr>)"

interpretation upl: state_frame upload_frame_only
  by unfold_locales (simp_all add: upload_frame_only_def)

lemma upload_only: "upload_frame_only s (snd (upload_output_file env n c k s))"
  by (auto simp: upload_output_file_def upload_frame_only_def Let_def split: sum.splits commit_fate.splits)

lemma upload_frame_only_fields:
  "upload_frame_only s t \<Longrightarrow> w_job t = w_job s \<and> w_ledger t = w_ledger s \<and> w_event t = w_event s
     \<and> w_jobs t = w_jobs s \<and> w_redis t = w_redis s"
  unfolding upload_frame_only_def by (cases s; cases t) simp

lemma upload_once: "upload_output_file env n c k t = (Inr d, s') \<Longrightarrow>
  d = output_dest env (w_job t) n \<and> d \<in> fst ` set (w_uploads s') \<and> upload_frame_only t s'"
  using upload_only [of t env n c k]
  by (auto simp: upload_output_file_def Let_def split: sum.splits commit_fate.splits)

lemma retried_upload:
  assumes "retried (upload_output_file env n c) s = (Inr d, s')"
  shows "d = output_dest env (w_job s) n \<and> d \<in> fst ` set (w_uploads s') \<and> upload_frame_only s s'"
proof -
  obtain k t where t: "upload_frame_only s t" "upload_output_file env n c k t = (Inr d, s')"
    using upl.retried_success [OF upload_only assms] by blast
  then show ?thesis
    using upload_once [OF t(2)] upload_frame_only_fields [OF t(1)] upl.trans [OF t(1)] by auto
qed

lemma enter_phase_job:
  "\<exists>p. w_job (snd (enter_phase env phase s)) = (w_job s)\<lparr>job_progress := p\<rparr>"
  "w_uploads (snd (enter_phase env phase s)) = w_uploads s"
proof -
  let ?s1 = "s\<lparr>w_event := phase (w_event s)\<rparr>"
  show "\<exists>p. w_job (snd (enter_phase env phase s)) = (w_job s)\<lparr>job_progress := p\<rparr>"
    by (cases "publish_current env [] ?s1"; cases "fst (publish_current env [] ?s1)")
      (use publish_current_same [of env "[]" ?s1] in
        \<open>auto simp: enter_phase_def sbind_def smodify_def intro: exI [of _ "job_progress (w_job s)"]\<close>)
  show "w_uploads (snd (enter_phase env phase s)) = w_uploads s"
    by (cases "publish_current env [] ?s1"; cases "fst (publish_current env [] ?s1)")
      (use publish_current_same [of env "[]" ?s1] in \<open>auto simp: enter_phase_def sbind_def smodify_def\<close>)
qed


text \<open>The charge of a job, as one call of the credit port.\<close>

definition charged :: "worker_env \<Rightarrow> conversion_job \<Rightarrow> int \<Rightarrow> ledger \<Rightarrow> ledger" where
  "charged env j n db = (case job_user_id j of None \<Rightarrow> db
     | Some u \<Rightarrow> snd (consume (we_tx env) (we_clock env) u (period_key_of (we_clock env)) n (job_origin j) db))"

lemma charge_job_result: "fst (charge_job env p s) \<noteq> Inl e"
  "w_job (snd (charge_job env p s)) = w_job s" "w_uploads (snd (charge_job env p s)) = w_uploads s"
  "w_ledger (snd (charge_job env (period_key_of (we_clock env)) s)) =
     (if we_credit_port env then charged env (w_job s) (job_credits_used (w_job s)) (w_ledger s)
      else w_ledger s)"
  by (auto simp: charge_job_def charged_def case_prod_beta split: option.splits)

lemma settle_job_effect:
  "w_job (snd (settle_job env p dest s)) = (w_job s)\<lparr>job_progress := 100\<rparr>
   \<and> w_uploads (snd (settle_job env p dest s)) = w_uploads s
   \<and> w_ledger (snd (settle_job env p dest s)) = w_ledger (snd (charge_job env p s))
   \<and> stage_frame s (snd (settle_job env p dest s))"
proof -
  obtain r s1 where c: "charge_job env p s = (Inr r, s1)"
    using charge_job_result(1) [of env p s] by (cases "charge_job env p s"; cases "fst (charge_job env p s)") auto
  let ?s2 = "persist env True (s1\<lparr>w_event := ev_completed (job_compute_duration_ms (w_job s1))
      (job_credits_used (w_job s1)) (job_input_size_bytes (w_job s1)) (job_output_size_bytes (w_job s1))
      (Some dest) (w_event s1), w_job := (w_job s1)\<lparr>job_progress := 100\<rparr>\<rparr>)"
  have t: "settle_job env p dest s = publish_current env [(''credits_remaining'', map_option str_int r)] ?s2"
    by (simp add: settle_job_def sbind_def smodify_def c)
  have "free_frame s1 (snd (publish_current env [(''credits_remaining'', map_option str_int r)] ?s2))"
    by (rule free.trans [OF _ publish_current_frame], rule free.trans [OF _ persist_frame])
      (simp add: free_frame_def stage_frame_def)
  then have "stage_frame s1 (snd (settle_job env p dest s))" by (simp add: t free_frame_def)
  moreover have "stage_frame s s1" using charge_frame [of s env p] c by simp
  ultimately have "stage_frame s (snd (settle_job env p dest s))" by (rule stage.trans [rotated])
  then show ?thesis using t c charge_job_result(2,3) [of env p s] by simp
qed

text \<open>Either the stage stopped before the charge, or the output was uploaded, the job completed and
  the charge was made.\<close>

definition completed_charged :: "worker_env \<Rightarrow> int \<Rightarrow> wstate \<Rightarrow> wstate \<Rightarrow> bool" where
  "completed_charged env n s s' = (stage_frame s s' \<and> job_status (w_job s') = Job_COMPLETED
     \<and> (\<exists>name. job_output_file (w_job s') = Some (output_dest env (w_job s) name)
          \<and> output_dest env (w_job s) name \<in> fst ` set (w_uploads s'))
     \<and> job_credits_used (w_job s') = n
     \<and> w_ledger s' = (if we_credit_port env then charged env (w_job s) n (w_ledger s) else w_ledger s))"

lemma output_dest_same_job: "same_job j j' \<Longrightarrow> output_dest env j' name = output_dest env j name"
  using same_job_fields [of j j'] by (simp add: output_dest_def actor_key_def)

lemma charged_same_job: "same_job j j' \<Longrightarrow> charged env j' n db = charged env j n db"
  using same_job_fields [of j j'] by (simp add: charged_def cong: option.case_cong)

lemma complete_charged:
  assumes "free_frame s s2" "complete d (w_job s2) = Inr j" "job_credits_used (w_job s2) = n"
    and "d = output_dest env (w_job s) name" "d \<in> fst ` set (w_uploads s2)"
  shows "completed_charged env n s
    (snd (settle_job env (period_key_of (we_clock env)) d (s2\<lparr>w_job := j\<rparr>)))"
proof -
  let ?s3 = "s2\<lparr>w_job := j\<rparr>"
  have j: "j = (w_job s2)\<lparr>job_output_file := Some d, job_status := Job_COMPLETED\<rparr>"
    using assms(2) by (auto simp: complete_def split: if_splits)
  have f3: "free_frame s ?s3"
    by (rule free.trans [OF assms(1)], rule free_frame_job) (rule method_same_job(2) [OF assms(2)])
  then have "same_job (w_job s) j" by (simp add: free_frame_def stage_frame_def)
  then show ?thesis
    using settle_job_effect [of env "period_key_of (we_clock env)" d ?s3] f3 j assms(3-5) stage.trans
    by (auto simp: completed_charged_def free_frame_def charge_job_result(4) charged_same_job)
qed

lemma finish_job_effect:
  assumes "finish_job env (period_key_of (we_clock env)) out s = (r, s')"
  shows "free_frame s s' \<and> isl r \<or> completed_charged env (job_credits_used (w_job s)) s s'"
  using assms unfolding finish_job_def
proof (cases rule: sbind_cases)
  case (raised e)
  then show ?thesis using enter_phase_frame [of s env ev_uploading] by simp
next
  case (finished a s1)
  have f1: "free_frame s s1" "job_credits_used (w_job s1) = job_credits_used (w_job s)"
    using enter_phase_frame [of s env ev_uploading] enter_phase_job(1) [of env ev_uploading s] finished(1)
    by auto
  have "free_frame s (snd (retried (upload_output_file env (fst out) (snd out)) s1))"
    by (rule free.trans [OF f1(1)], rule free.retried_frame, rule upload_frame)
  then have fr: "retried (upload_output_file env (fst out) (snd out)) s1 = (x, t) \<Longrightarrow> free_frame s t" for x t
    by simp
  from finished(2) show ?thesis
  proof (cases rule: sbind_cases)
    case (raised e)
    then show ?thesis using fr by simp
  next
    case up: (finished d s2)
    note u = retried_upload [OF up(1)] fr [OF up(1)]
    from up(2) show ?thesis
    proof (cases rule: sbind_cases)
      case (raised e)
      then show ?thesis using u by (auto simp: lift_job_def split: sum.splits)
    next
      case (finished b s3)
      obtain j where j: "complete d (w_job s2) = Inr j" "s3 = s2\<lparr>w_job := j\<rparr>"
        using finished(1) by (auto simp: lift_job_def split: sum.splits)
      have "completed_charged env (job_credits_used (w_job s)) s
          (snd (settle_job env (period_key_of (we_clock env)) d s3))"
        unfolding j(2) by (rule complete_charged [where name = "fst out", OF u(2) j(1)])
          (use u upload_frame_only_fields f1 output_dest_same_job [of "w_job s" "w_job s1"] in
            \<open>auto simp: free_frame_def stage_frame_def\<close>)
      then show ?thesis using finished(2) by simp
    qed
  qed
qed

subsection \<open>The whole job\<close>

definition priced :: "worker_env \<Rightarrow> conversion_job \<Rightarrow> int \<Rightarrow> subscription_tier \<Rightarrow> int" where
  "priced env j ms tier = calculate_credits (we_float env) (we_credit_settings env) ms
     (ct_source_format (job_conversion j)) (ct_target_format (job_conversion j)) tier None"

text \<open>What a job is charged is its price for the time that was measured.\<close>

definition billed :: "worker_env \<Rightarrow> conversion_job \<Rightarrow> int \<Rightarrow> bool" where
  "billed env j n = (\<exists>ms tier. n = priced env j ms tier)"

lemma billed_ge_1: "billed env j n \<Longrightarrow> 1 \<le> n"
  by (auto simp: billed_def priced_def calculate_credits_ge_1)

lemma billed_same_job: "same_job j j' \<Longrightarrow> billed env j' n = billed env j n"
  using same_job_fields [of j j'] by (simp add: billed_def priced_def)

lemma convert_phases_credits:
  assumes "convert_phases env tier s = (Inr out, s')"
  shows "billed env (w_job s') (job_credits_used (w_job s'))"
  using assms unfolding convert_phases_def
  by (auto elim!: sbind_cases simp: sreturn_def lift_job_def set_compute_result_def billed_def priced_def
      split: sum.splits if_splits prod.splits) blast+

lemma precheck_stage_frame: "free_frame s (snd (precheck_stage env p s))"
  by (simp add: precheck_stage_def case_prod_beta credit_precheck_frame free.refl split: option.splits)

lemma precheck_stage_total: "\<exists>go. fst (precheck_stage env p s) = Inr go"
  by (simp add: precheck_stage_def case_prod_beta split: option.splits)

text \<open>Up to the conversion, and from there.\<close>

lemma process_body_cases:
  assumes "process_body env p s = (r, s')"
  obtains (stopped) "free_frame s s'"
    | (converted) s3 tier where "free_frame s s3"
        "sbind (convert_phases env tier) (finish_job env p) s3 = (r, s')"
proof -
  have start: "free_frame s (snd (lift_job start_processing s))"
    by (rule lift_job_frame) (rule method_same_job(1))
  from assms [unfolded process_body_def] consider e where "lift_job start_processing s = (Inl e, s')"
    | a s1 where "lift_job start_processing s = (Inr a, s1)"
      "sbind (precheck_stage env p) (\<lambda>go. case go of None \<Rightarrow> sreturn (Inr ())
         | Some tier \<Rightarrow> sbind (convert_phases env tier) (finish_job env p)) (persist env False s1) = (r, s')"
    by (auto elim!: sbind_cases simp: smodify_def) (simp_all add: sbind_def)
  then show thesis
  proof cases
    case 1
    then show thesis using start stopped by simp
  next
    case (2 a s1)
    obtain go s3 where g: "precheck_stage env p (persist env False s1) = (Inr go, s3)"
      using precheck_stage_total [of env p] by (metis prod.collapse)
    have "free_frame s s1" using start 2(1) by simp
    then have "free_frame s (persist env False s1)" by (rule free.trans) (rule persist_frame)
    then have f: "free_frame s s3"
      by (rule free.trans) (use precheck_stage_frame [of "persist env False s1" env p] g in simp)
    show thesis
      using 2(2) g stopped converted [of s3] f by (cases go) (simp_all add: sbind_def sreturn_def)
  qed
qed

lemma process_body_effect:
  assumes "process_body env (period_key_of (we_clock env)) s = (r, s')"
  shows "free_frame s s' \<or> (\<exists>n. billed env (w_job s) n \<and> completed_charged env n s s')"
  using assms
proof (cases rule: process_body_cases)
  case (converted s3 tier)
  have f: "free_frame s (snd (convert_phases env tier s3))"
    by (rule free.trans [OF converted(1) convert_phases_frame])
  from converted(2) show ?thesis
  proof (cases rule: sbind_cases)
    case (raised e)
    then show ?thesis using f by simp
  next
    case (finished out s4)
    with f have f4: "free_frame s s4" by simp
    have c: "completed_charged env n s s'" if "completed_charged env n s4 s'" for n
      using that f4 stage.trans [of s s4 s'] charged_same_job [of "w_job s" "w_job s4"]
        output_dest_same_job [of "w_job s" "w_job s4"]
      by (simp add: completed_charged_def free_frame_def) (simp add: stage_frame_def)
    have "same_job (w_job s) (w_job s4)" using f4 by (simp add: free_frame_def stage_frame_def)
    then have "billed env (w_job s) (job_credits_used (w_job s4))"
      using convert_phases_credits [OF finished(1)] billed_same_job by blast
    with finish_job_effect [OF finished(2)] show ?thesis using free.trans [OF f4] c by blast
  qed
qed simp


lemma process_job_cases:
  assumes "process_job env s = (r, s')"
  obtains (replayed) p where "load_persisted_job env s = Some p" "already_completed (Some p)"
      "replay_completed env p (s\<lparr>w_event := new_event (job_id (w_job s))\<rparr>) = (r, s')"
    | (succeeded) "\<not> already_completed (load_persisted_job env s)" "r = Inr ()"
        "process_body env (period_key_of (we_clock env)) (s\<lparr>w_event := new_event (job_id (w_job s))\<rparr>) = (Inr (), s')"
    | (failed) e t where "\<not> already_completed (load_persisted_job env s)"
        "process_body env (period_key_of (we_clock env)) (s\<lparr>w_event := new_event (job_id (w_job s))\<rparr>) = (Inl e, t)"
        "handle_failure env e t = (r, s')"
proof -
  let ?s = "s\<lparr>w_event := new_event (job_id (w_job s))\<rparr>"
  have l: "load_persisted_job env ?s = load_persisted_job env s" by (simp add: load_persisted_job_def)
  show thesis
  proof (cases "already_completed (load_persisted_job env s)")
    case True
    then obtain p where "load_persisted_job env s = Some p"
      by (auto simp: already_completed_def split: option.splits)
    then show thesis using True assms replayed l by (simp add: process_job_def Let_def)
  next
    case False
    obtain x t where x: "process_body env (period_key_of (we_clock env)) ?s = (x, t)"
      by (cases "process_body env (period_key_of (we_clock env)) ?s")
    then show thesis
      using False assms succeeded failed l by (cases x) (simp_all add: process_job_def Let_def)
  qed
qed

lemma free_frame_event_left: "free_frame (s\<lparr>w_event := e\<rparr>) t = free_frame s t"
  "completed_charged env n (s\<lparr>w_event := e\<rparr>) t = completed_charged env n s t"
  by (simp_all add: free_frame_def stage_frame_def completed_charged_def)

lemma completed_charged_free:
  assumes "completed_charged env n s t" "free_frame t u"
  shows "stage_frame s u \<and> (\<exists>name. output_dest env (w_job s) name \<in> fst ` set (w_uploads u))
    \<and> w_ledger u = w_ledger t"
proof -
  obtain name where d: "output_dest env (w_job s) name \<in> fst ` set (w_uploads t)"
    using assms(1) unfolding completed_charged_def by blast
  have "prefix (w_uploads t) (w_uploads u)" using assms(2) by (simp add: free_frame_def stage_frame_def)
  then have "set (w_uploads t) \<subseteq> set (w_uploads u)" by (auto simp: prefix_def)
  then show ?thesis
    using assms d stage.trans [of s t u] unfolding completed_charged_def free_frame_def by blast
qed

lemma job_event_left: "w_job (s\<lparr>w_event := e\<rparr>) = w_job s"
  by simp

lemma process_job_effect:
  assumes "process_job env s = (r, s')"
  shows "stage_frame s s' \<and> (w_ledger s' = w_ledger s
     \<or> (\<exists>n name. billed env (w_job s) n \<and> output_dest env (w_job s) name \<in> fst ` set (w_uploads s') \<and> we_credit_port env
          \<and> w_ledger s' = charged env (w_job s) n (w_ledger s)))"
  using assms
proof (cases rule: process_job_cases)
  case (replayed p)
  then have "free_frame s s'"
    using publish_kw_frame by (metis free_frame_event_left(1) replay_completed_def snd_conv)
  then show ?thesis by (simp add: free_frame_def)
next
  case succeeded
  from process_body_effect [OF succeeded(3), unfolded free_frame_event_left job_event_left] show ?thesis
    unfolding free_frame_def completed_charged_def by metis
next
  case (failed e t)
  have h: "free_frame t s'" using handle_failure_frame [of t env e] failed(3) by simp
  from process_body_effect [OF failed(2), unfolded free_frame_event_left job_event_left] show ?thesis
  proof (elim disjE exE conjE)
    assume "free_frame s t"
    then show ?thesis using free.trans [OF _ h] by (simp add: free_frame_def)
  next
    fix n assume n: "billed env (w_job s) n" "completed_charged env n s t"
    then show ?thesis
      using completed_charged_free [OF n(2) h] unfolding completed_charged_def by metis
  qed
qed


subsection \<open>Without failures\<close>

definition calm :: "worker_env \<Rightarrow> bool" where
  "calm env = (we_job_repository env \<and> we_credit_port env \<and> we_redis env = (\<lambda>_. Commit_ok)
     \<and> we_persist_fate env = (\<lambda>_ _ _. Commit_ok) \<and> we_read_fault env = (\<lambda>_. None)
     \<and> we_total_fault env = (\<lambda>_. None) \<and> we_tier_fault env = (\<lambda>_. None) \<and> we_tx env = quiet_all
     \<and> we_upload env = (\<lambda>_. Commit_ok) \<and> \<not> isl (we_workdir env))"

lemma persist_calm: "calm env \<Longrightarrow> w_jobs (persist env terminal s)
    = update_conversion_job (we_stamp env (w_persists s)) (w_job s) (w_jobs s)"
  by (simp add: persist_def calm_def worker_update_def numeral_2_eq_2)

lemma publish_calm: "calm env \<Longrightarrow> fst (publish_current env kw s) = Inr ()"
  "calm env \<Longrightarrow> fst (publish_kw env i st p m kw s) = Inr ()"
  by (simp_all add: publish_current_def publish_kw_def publish_context_def publish_event_def calm_def
      redis_call_def case_prod_beta)

lemma enter_phase_calm:
  assumes "calm env"
  shows "\<exists>s'. enter_phase env phase s = (Inr (), s') \<and> free_frame s s' \<and> w_uploads s' = w_uploads s
    \<and> w_event s' = phase (w_event s) \<and> w_job s' = (w_job s)\<lparr>job_progress := ec_progress (phase (w_event s))\<rparr>"
proof -
  let ?s1 = "s\<lparr>w_event := phase (w_event s)\<rparr>"
  obtain t where t: "publish_current env [] ?s1 = (Inr (), t)"
    using publish_calm(1) [OF assms, of "[]" ?s1] by (cases "publish_current env [] ?s1") auto
  have "w_job t = w_job s" "w_event t = phase (w_event s)" "w_uploads t = w_uploads s"
    using publish_current_same [of env "[]" ?s1] t by simp_all
  then show ?thesis
    using t enter_phase_frame [of s env phase]
    by (auto simp: enter_phase_def sbind_def smodify_def)
qed

lemma download_same_job:
  assumes "same_job j j'"
  shows "download_input_file env j' k = download_input_file env j k"
  unfolding download_input_file_def actor_key_def same_job_eqs [OF assms] ..

lemma convert_same_job:
  assumes "same_job j j'"
  shows "convert_file env j' i p k out = convert_file env j i p k out"
  unfolding convert_file_def same_job_eqs [OF assms] ..

lemma priced_same_job: "same_job j j' \<Longrightarrow> priced env j' ms tier = priced env j ms tier"
  using same_job_fields [of j j'] by (simp add: priced_def)

text \<open>A conversion whose first attempt works.\<close>

definition converts :: "worker_env \<Rightarrow> conversion_job \<Rightarrow> string \<Rightarrow> bytes \<Rightarrow> int \<Rightarrow> bool" where
  "converts env j name out ms = (\<exists>dir input. we_workdir env = Inr dir \<and> download_input_file env j 1 = Inr input
     \<and> resolve_output_name (job_input_file j) (job_conversion j) (we_get_converter env (job_conversion j))
         (Some input) = Inr name
     \<and> convert_file env j input (dir @ ''/uploads/'' @ name) 1 None = (Inr ms, Some out) \<and> 0 \<le> ms)"

lemma measure_nonneg: "0 \<le> fst (measure_file_sizes env a b)" "0 \<le> snd (measure_file_sizes env a b)"
  by (simp_all add: measure_file_sizes_def)

lemma convert_phases_calm:
  assumes "calm env" "converts env (w_job s) name out ms"
  shows "\<exists>s'. convert_phases env tier s = (Inr (name, out), s') \<and> free_frame s s' \<and> w_uploads s' = w_uploads s
    \<and> job_status (w_job s') = job_status (w_job s) \<and> job_credits_used (w_job s') = priced env (w_job s) ms tier"
proof -
  let ?j = "w_job s"
  obtain dir input where c: "we_workdir env = Inr dir" "download_input_file env ?j 1 = Inr input"
    "resolve_output_name (job_input_file ?j) (job_conversion ?j) (we_get_converter env (job_conversion ?j))
       (Some input) = Inr name" "convert_file env ?j input (dir @ ''/uploads/'' @ name) 1 None = (Inr ms, Some out)"
    "0 \<le> ms"
    using assms(2) by (auto simp: converts_def)
  obtain s1 where s1: "enter_phase env ev_downloading s = (Inr (), s1)" "free_frame s s1"
    "w_uploads s1 = w_uploads s" "\<exists>p. w_job s1 = ?j\<lparr>job_progress := p\<rparr>"
    using enter_phase_calm [OF assms(1)] by blast
  obtain s2 where s2: "enter_phase env ev_processing s1 = (Inr (), s2)" "free_frame s1 s2"
    "w_uploads s2 = w_uploads s1" "\<exists>p. w_job s2 = (w_job s1)\<lparr>job_progress := p\<rparr>"
    using enter_phase_calm [OF assms(1)] by blast
  obtain p where j2: "w_job s2 = ?j\<lparr>job_progress := p\<rparr>" using s1(4) s2(4) by auto
  have sj: "same_job ?j (w_job s1)" "same_job ?j (w_job s2)" using s1(4) j2 by auto
  have d: "retried_read (download_input_file env) s1 = (Inr input, s1)"
    unfolding retried_read_def by (rule retried_first) (use c(2) download_same_job [OF sj(1)] in simp)
  have v: "run_converter env input (dir @ ''/uploads/'' @ name) s2 = (Inr (ms, out), s2)"
    using retried_first [of "convert_file env (w_job s2) input (dir @ ''/uploads/'' @ name)" None]
      convert_same_job [OF sj(2)] c(4) by (simp add: run_converter_def)
  let ?m = "measure_file_sizes env input out"
  let ?j3 = "(w_job s2)\<lparr>job_compute_duration_ms := ms, job_credits_used := priced env (w_job s2) ms tier,
      job_input_size_bytes := fst ?m, job_output_size_bytes := snd ?m\<rparr>"
  have l: "lift_job (\<lambda>j. set_compute_result ms (priced env j ms tier) (fst ?m) (snd ?m) j) s2
      = (Inr (), s2\<lparr>w_job := ?j3\<rparr>)"
    using c(5) measure_nonneg [of env input out] calculate_credits_ge_1
    by (simp add: lift_job_def set_compute_result_def priced_def order_less_le_trans
        not_less [symmetric] del: not_less) (smt (verit) calculate_credits_ge_1)
  have "convert_phases env tier s = (Inr (name, out), s2\<lparr>w_job := ?j3\<rparr>)"
    unfolding convert_phases_def priced_def [symmetric]
    using s1(1) d s2(1) v l c(1,3) same_job_fields [OF sj(1)]
    by (simp add: sbind_step sreturn_def sbind_def [of "sreturn _"])
  moreover have "free_frame s (s2\<lparr>w_job := ?j3\<rparr>)"
    by (rule free.trans [OF s1(2)], rule free.trans [OF s2(2)], rule free_frame_job)
      (simp add: same_job_def job_frame_def)
  ultimately show ?thesis using s1(3) s2(3) j2 priced_same_job [OF sj(2)] by simp
qed


definition stored_form :: "worker_env \<Rightarrow> conversion_job \<Rightarrow> bytes \<Rightarrow> bytes result" where
  "stored_form env j content = (case we_encryption env of None \<Rightarrow> Inr content
     | Some es \<Rightarrow> es_encrypt_file_to es 1 content (actor_key j))"

lemma stored_form_same_job:
  assumes "same_job j j'"
  shows "stored_form env j' out = stored_form env j out"
  unfolding stored_form_def actor_key_def same_job_eqs [OF assms] ..

lemma upload_calm:
  assumes "calm env" "stored_form env (w_job s) out = Inr b"
  shows "retried (upload_output_file env name out) s
    = (Inr (output_dest env (w_job s) name), s\<lparr>w_uploads := w_uploads s @ [(output_dest env (w_job s) name, b)]\<rparr>)"
  by (rule retried_first)
    (use assms in \<open>simp add: upload_output_file_def Let_def calm_def stored_form_def split: option.splits\<close>)

lemma settle_job_calm:
  assumes "calm env"
  shows "\<exists>s'. settle_job env p dest s = (Inr (), s') \<and> w_job s' = (w_job s)\<lparr>job_progress := 100\<rparr>
    \<and> w_uploads s' = w_uploads s
    \<and> (\<exists>now. w_jobs s' = update_conversion_job now (w_job s') (w_jobs s))"
proof -
  obtain r s1 where c: "charge_job env p s = (Inr r, s1)"
    using charge_job_result(1) [of env p s] by (cases "charge_job env p s"; cases "fst (charge_job env p s)") auto
  have s1: "w_job s1 = w_job s" "w_jobs s1 = w_jobs s" "w_uploads s1 = w_uploads s"
    using c by (auto simp: charge_job_def case_prod_beta split: option.splits if_splits)
  let ?s2 = "persist env True (s1\<lparr>w_event := ev_completed (job_compute_duration_ms (w_job s1))
      (job_credits_used (w_job s1)) (job_input_size_bytes (w_job s1)) (job_output_size_bytes (w_job s1))
      (Some dest) (w_event s1), w_job := (w_job s1)\<lparr>job_progress := 100\<rparr>\<rparr>)"
  let ?kw = "[(''credits_remaining'', map_option str_int r)]"
  have t: "settle_job env p dest s = publish_current env ?kw ?s2"
    by (simp add: settle_job_def sbind_def smodify_def c)
  then have "settle_job env p dest s = (Inr (), snd (publish_current env ?kw ?s2))"
    using publish_calm(1) [OF assms, of ?kw ?s2] by (metis prod.collapse)
  then show ?thesis using s1 persist_calm [OF assms] by auto
qed

lemma finish_job_calm:
  assumes "calm env" "job_status (w_job s) = Job_PROCESSING" "stored_form env (w_job s) out = Inr b"
  shows "\<exists>s' t now. finish_job env p (name, out) s = (Inr (), s')
    \<and> w_uploads s' = w_uploads s @ [(output_dest env (w_job s) name, b)]
    \<and> job_output_file (w_job s') = Some (output_dest env (w_job s) name) \<and> job_progress (w_job s') = 100
    \<and> jobs_frame (w_job s) (w_jobs s) t \<and> w_jobs s' = update_conversion_job now (w_job s') t"
proof -
  let ?d = "output_dest env (w_job s) name"
  obtain s1 pr where s1: "enter_phase env ev_uploading s = (Inr (), s1)" "free_frame s s1"
    "w_uploads s1 = w_uploads s" "w_job s1 = (w_job s)\<lparr>job_progress := pr\<rparr>"
    using enter_phase_calm [OF assms(1)] by blast
  have d: "output_dest env (w_job s1) name = ?d" "stored_form env (w_job s1) out = Inr b"
    using s1(4) assms(3) output_dest_same_job [of "w_job s" "w_job s1"]
      stored_form_same_job [of "w_job s" "w_job s1"] by simp_all
  let ?s2 = "s1\<lparr>w_uploads := w_uploads s1 @ [(?d, b)]\<rparr>"
  let ?s3 = "?s2\<lparr>w_job := (w_job s1)\<lparr>job_output_file := Some ?d, job_status := Job_COMPLETED\<rparr>\<rparr>"
  have u: "retried (upload_output_file env name out) s1 = (Inr ?d, ?s2)"
    using upload_calm [OF assms(1) d(2), of name] d(1) by simp
  have l: "lift_job (complete ?d) ?s2 = (Inr (), ?s3)"
    using assms(2) s1(4) by (simp add: lift_job_def complete_def)
  have "finish_job env p (name, out) s = settle_job env p ?d ?s3"
    unfolding finish_job_def using s1(1) u l by (simp add: sbind_step)
  moreover have "jobs_frame (w_job s) (w_jobs s) (w_jobs s1)"
    using s1(2) by (simp add: free_frame_def stage_frame_def)
  ultimately show ?thesis using settle_job_calm [OF assms(1), of p ?d ?s3] s1(3) by fastforce
qed

lemma precheck_calm:
  assumes "calm env" "job_user_id (w_job s) = Some u" "available_total_once (we_clock env) u p (w_ledger s) = Inr (Some t)"
    and "0 < t" "get_tier_for_user u (w_ledger s) = Inr tier"
  shows "precheck_stage env p s = (Inr (Some tier), s)"
  using assms by (simp add: precheck_stage_def credit_precheck_def get_available_total_def get_tier_def
      calm_def db_retry_def faulty_def)

lemma process_body_calm:
  assumes "calm env" "job_user_id (w_job s) = Some u"
    and "available_total_once (we_clock env) u p (w_ledger s) = Inr (Some t)" "0 < t"
    and "get_tier_for_user u (w_ledger s) = Inr tier" "job_status (w_job s) = Job_PENDING"
    and "job_object_key (w_job s) \<noteq> []" "converts env (w_job s) name out ms"
    and "stored_form env (w_job s) out = Inr b"
  shows "\<exists>s' s3 tb now. process_body env p s = (Inr (), s')
    \<and> w_uploads s' = w_uploads s @ [(output_dest env (w_job s) name, b)]
    \<and> job_output_file (w_job s') = Some (output_dest env (w_job s) name) \<and> job_progress (w_job s') = 100
    \<and> jobs_frame (w_job s) (w_jobs s) tb \<and> w_jobs s' = update_conversion_job now (w_job s') tb
    \<and> free_frame s s3 \<and> finish_job env p (name, out) s3 = (Inr (), s')
    \<and> job_credits_used (w_job s3) = priced env (w_job s) ms tier"
proof -
  let ?j = "(w_job s)\<lparr>job_status := Job_PROCESSING\<rparr>"
  let ?s1 = "s\<lparr>w_job := ?j\<rparr>"
  let ?s2 = "persist env False ?s1"
  have l: "lift_job start_processing s = (Inr (), ?s1)"
    using assms(6,7) by (simp add: lift_job_def start_processing_def)
  have f: "free_frame s ?s2"
    by (rule free.trans [OF free_frame_job persist_frame]) (simp add: same_job_def job_frame_def)
  have c: "converts env (w_job ?s2) name out ms"
    using assms(8) download_same_job [of "w_job s" ?j] convert_same_job [of "w_job s" ?j]
    by (auto simp: converts_def same_job_def job_frame_def)
  obtain s3 where s3: "convert_phases env tier ?s2 = (Inr (name, out), s3)" "free_frame ?s2 s3"
    "w_uploads s3 = w_uploads s" "job_status (w_job s3) = Job_PROCESSING"
    "job_credits_used (w_job s3) = priced env (w_job s) ms tier"
    using convert_phases_calm [OF assms(1) c, of tier] by (auto simp: priced_def)
  have f3: "free_frame s s3" by (rule free.trans [OF f s3(2)])
  then have sj: "same_job (w_job s) (w_job s3)" "jobs_frame (w_job s) (w_jobs s) (w_jobs s3)"
    by (simp_all add: free_frame_def stage_frame_def)
  have st: "stored_form env (w_job s3) out = Inr b" "output_dest env (w_job s3) name = output_dest env (w_job s) name"
    "job_id (w_job s3) = job_id (w_job s)"
    using assms(9) stored_form_same_job [OF sj(1)] output_dest_same_job [OF sj(1)] same_job_eqs [OF sj(1)]
    by simp_all
  have pb: "process_body env p s = finish_job env p (name, out) s3"
    unfolding process_body_def using l s3(1) precheck_calm [of env ?s2 u p t tier] assms(1-5)
    by (simp add: sbind_step smodify_def sbind_def [of "\<lambda>s. (Inr (), _ s)"])
  obtain s' tb now where "finish_job env p (name, out) s3 = (Inr (), s')"
    "w_uploads s' = w_uploads s3 @ [(output_dest env (w_job s3) name, b)]"
    "job_output_file (w_job s') = Some (output_dest env (w_job s3) name)" "job_progress (w_job s') = 100"
    "jobs_frame (w_job s3) (w_jobs s3) tb" "w_jobs s' = update_conversion_job now (w_job s') tb"
    using finish_job_calm [OF assms(1) s3(4) st(1), of p name] by blast
  then show ?thesis
    using pb st s3(3,5) f3 jobs_frame_trans [OF sj(2)] same_job_fields [OF sj(1)]
    by (intro exI [of _ s'] exI [of _ s3] exI [of _ tb] exI [of _ now]) simp
qed

subsection \<open>Redelivery\<close>

lemma redelivery_replays:
  assumes "we_job_repository env" "we_read_fault env 0 = None" "jobs_ok (w_jobs s)"
    and "job_row_at (job_id (w_job s)) (w_jobs s) = Some row" "jr_status row = Job_COMPLETED"
    and "jr_output_file row \<notin> {None, Some []}"
  shows "process_job env s = replay_completed env (to_entity row) (s\<lparr>w_event := new_event (job_id (w_job s))\<rparr>)"
proof -
  have "load_persisted_job env (s\<lparr>w_event := new_event (job_id (w_job s))\<rparr>) = Some (to_entity row)"
    using assms by (simp add: load_persisted_job_def worker_get_def read_attempt_def get_job_ok)
  moreover have "already_completed (Some (to_entity row))"
    using assms(5,6) by (simp add: already_completed_def to_entity_def)
  ultimately show ?thesis by (simp add: process_job_def Let_def)
qed

lemma replay_frame: "snd (replay_completed env p s) = s\<lparr>w_redis := w_redis (snd (replay_completed env p s))\<rparr>"
  by (simp add: replay_completed_def publish_kw_def case_prod_beta)

lemma replay_calm:
  assumes "calm env"
  shows "\<exists>s''. replay_completed env p s = (Inr (), s'') \<and> w_jobs s'' = w_jobs s
    \<and> w_ledger s'' = w_ledger s \<and> w_uploads s'' = w_uploads s"
  unfolding replay_completed_def using publish_calm(2) [OF assms] publish_kw_same by (metis prod.collapse)

lemma charge_lowers_total:
  assumes "ledger_ok db" "available_total_once now u p db = Inr (Some t)" "0 \<le> n"
  shows "available_total_once now u p (snd (consume quiet_all now u p n origin db)) = Inr (Some (max 0 (t - n)))"
proof -
  obtain a where "plan_of u p db = Some a" using assms(1,2) by (auto simp: available_total_once_ok)
  from consume_try_quiet_spec [OF assms(1) this assms(3), of now origin] assms(2)
  show ?thesis by (auto dest!: consume_quiet)
qed

text \<open>The calm run of a whole job, and the same message again.\<close>

lemma process_job_calm:
  assumes "calm env" "jobs_ok (w_jobs s)" "job_row_at (job_id (w_job s)) (w_jobs s) = Some row"
    and "jr_status row \<noteq> Job_COMPLETED" "job_user_id (w_job s) = Some u" "job_status (w_job s) = Job_PENDING"
    and "job_object_key (w_job s) \<noteq> []" "0 < t" "get_tier_for_user u (w_ledger s) = Inr tier"
    and "available_total_once (we_clock env) u (period_key_of (we_clock env)) (w_ledger s) = Inr (Some t)"
    and "converts env (w_job s) name out ms" "stored_form env (w_job s) out = Inr b"
  shows "\<exists>s' row'. process_job env s = (Inr (), s')
    \<and> w_uploads s' = w_uploads s @ [(output_dest env (w_job s) name, b)] \<and> jobs_ok (w_jobs s')
    \<and> job_row_at (job_id (w_job s)) (w_jobs s') = Some row' \<and> jr_status row' = Job_COMPLETED
    \<and> jr_output_file row' = Some (output_dest env (w_job s) name)
    \<and> jr_progress row' = 100 \<and> jr_credits_used row' = priced env (w_job s) ms tier
    \<and> w_ledger s' = snd (consume quiet_all (we_clock env) u (period_key_of (we_clock env))
         (priced env (w_job s) ms tier) (job_origin (w_job s)) (w_ledger s))"
proof -
  let ?p = "period_key_of (we_clock env)" and ?n = "priced env (w_job s) ms tier"
  let ?s = "s\<lparr>w_event := new_event (job_id (w_job s))\<rparr>" and ?i = "job_id (w_job s)"
  obtain s' s3 tb now where b: "process_body env ?p ?s = (Inr (), s')"
    "w_uploads s' = w_uploads s @ [(output_dest env (w_job s) name, b)]"
    "job_output_file (w_job s') = Some (output_dest env (w_job s) name)" "job_progress (w_job s') = 100"
    "jobs_frame (w_job s) (w_jobs s) tb" "w_jobs s' = update_conversion_job now (w_job s') tb" "free_frame s s3"
    "finish_job env ?p (name, out) s3 = (Inr (), s')" "job_credits_used (w_job s3) = ?n"
    using process_body_calm [of env ?s u ?p t tier name out ms b] assms
    by (auto simp: free_frame_event_left)
  have "load_persisted_job env ?s = Some (to_entity row)"
    using assms(1-3) by (simp add: load_persisted_job_def worker_get_def read_attempt_def get_job_ok calm_def)
  then have p: "process_job env s = (Inr (), s')"
    using b(1) assms(4) by (simp add: process_job_def Let_def already_completed_def to_entity_def)
  have c: "completed_charged env ?n s3 s'" using finish_job_effect [OF b(8)] b(9) by auto
  have sj: "same_job (w_job s) (w_job s3)" "w_ledger s3 = w_ledger s" "same_job (w_job s3) (w_job s')"
    using b(7) c by (simp_all add: free_frame_def stage_frame_def completed_charged_def)
  have id: "job_id (w_job s') = ?i" using same_job_eqs(1) [OF sj(1)] same_job_eqs(1) [OF sj(3)] by simp
  obtain r0 where "job_row_at ?i tb = Some r0" using b(5) assms(3) by (auto simp: jobs_frame_def)
  then have row: "job_row_at ?i (w_jobs s') = Some (set_job_columns now (w_job s') r0)"
    using b(6) id by (simp add: job_row_at_update)
  have "w_ledger s' = snd (consume quiet_all (we_clock env) u ?p ?n (job_origin (w_job s)) (w_ledger s))"
    using c charged_same_job [OF sj(1)] sj(2) assms(1,5)
    by (simp add: completed_charged_def charged_def calm_def)
  moreover have "jobs_ok (w_jobs s')" using b(5,6) assms(2) by (simp add: jobs_frame_def jobs_ok_update)
  ultimately show ?thesis
    using p b(2-4) row c by (auto simp: set_job_columns_def completed_charged_def)
qed

subsection \<open>A concrete worker\<close>

text \<open>A worker whose converter copies its input, and the delivery of one job of user 7.\<close>

definition sample_job :: conversion_job where
  "sample_job = (new_job ''j1'' \<lparr>ct_source_format = ''pdf'', ct_target_format = ''txt''\<rparr> ''a.pdf'')
     \<lparr>job_object_key := ''in/a.pdf'', job_status := Job_PENDING, job_user_id := Some 7\<rparr>"

definition sample_converter :: converter where
  "sample_converter = \<lparr>cv_run = \<lambda>k b. (Some b, Inr ()), cv_output_extension = None\<rparr>"

definition sample_env :: worker_env where
  "sample_env = \<lparr>we_prefix = [], we_base_target_key = ''out'', we_credit_settings = default_credit_settings,
     we_float = id, we_clock = Civil 2026 5 2 0, we_stamp = (\<lambda>_. 0), we_workdir = Inr ''/tmp/w'',
     we_encryption = None, we_get_converter = (\<lambda>_. Some sample_converter),
     we_download = (\<lambda>_ _. Inr ''data''), we_upload = (\<lambda>_. Commit_ok), we_elapsed_ms = (\<lambda>_. 1500),
     we_stat_input = True, we_stat_output = True, we_job_repository = True,
     we_read_fault = (\<lambda>_. None), we_persist_fate = (\<lambda>_ _ _. Commit_ok), we_credit_port = True,
     we_total_fault = (\<lambda>_. None), we_tier_fault = (\<lambda>_. None), we_tx = quiet_all,
     we_redis = (\<lambda>_. Commit_ok)\<rparr>"

definition sample_state :: wstate where
  "sample_state = \<lparr>w_job = sample_job, w_event = new_event ''j1'', w_jobs = [job_row_of 0 sample_job],
     w_ledger = sample_ledger Tier_PRO, w_redis = \<lparr>rd_streams = (\<lambda>_. empty_stream), rd_tick = 0\<rparr>,
     w_uploads = [], w_persists = 0\<rparr>"

lemma sample_job_fields [simp]: "job_id sample_job = ''j1''" "job_user_id sample_job = Some 7"
  "job_status sample_job = Job_PENDING" "job_object_key sample_job \<noteq> []"
  by (simp_all add: sample_job_def new_job_def)

lemma sample_state_fields [simp]: "w_job sample_state = sample_job"
  "w_ledger sample_state = sample_ledger Tier_PRO" "w_jobs sample_state = [job_row_of 0 sample_job]"
  "w_uploads sample_state = []" "w_persists sample_state = 0"
  by (simp_all add: sample_state_def)

lemma sample_row: "jobs_ok [job_row_of 0 sample_job]"
  "job_row_at ''j1'' [job_row_of 0 sample_job] = Some (job_row_of 0 sample_job)"
  "jr_status (job_row_of 0 sample_job) = Job_PENDING"
  by (simp_all add: jobs_ok_def job_row_at_def sql_select_def sql_first_def job_row_of_def)

lemma sample_calm: "calm sample_env"
  by (simp add: calm_def sample_env_def)

lemma sample_total: "available_total_once (we_clock sample_env) 7 p (sample_ledger Tier_PRO) = Inr (Some 513)"
  by (simp add: sample_env_def available_total_once_ok sample_ledger_ok wallet_view_def available_total_def
      live_carryover_def wallet_expiry_def expiry_instant_def ensure_utc_def sample_sub_def new_sub_row_def)

lemma sample_converts: "converts sample_env sample_job
    (safe_filename (path_stem (safe_filename (path_name ''a.pdf''))) @ ''.txt'') ''data'' 1500"
  by (simp add: converts_def sample_env_def download_input_file_def resolve_output_name_def
      converter_output_extension_def convert_file_def sample_converter_def sample_job_def new_job_def)

lemma sample_stored: "stored_form sample_env sample_job ''data'' = Inr ''data''"
  by (simp add: stored_form_def sample_env_def)

subsection \<open>Properties\<close>



text \<open>C2: a job is processed exactly once. When nothing fails, a pending job of a user with a positive
  balance is converted, its output stored, its row completed with the output key, full progress and
  the price, and the balance falls by the price; delivering the same message again changes neither
  the rows, nor the ledger, nor the stored objects.\<close>

theorem job_processed_exactly_once:
  assumes "calm env" "ledger_ok (w_ledger s)" "jobs_ok (w_jobs s)"
    and "job_row_at (job_id (w_job s)) (w_jobs s) = Some row" "jr_status row \<noteq> Job_COMPLETED"
    and "job_user_id (w_job s) = Some u" "job_status (w_job s) = Job_PENDING" "job_object_key (w_job s) \<noteq> []"
    and "available_total_once (we_clock env) u (period_key_of (we_clock env)) (w_ledger s) = Inr (Some t)"
    and "0 < t" "get_tier_for_user u (w_ledger s) = Inr tier"
    and "converts env (w_job s) name out ms" "stored_form env (w_job s) out = Inr b"
  shows "\<exists>s' row'. process_job env s = (Inr (), s')
    \<and> w_uploads s' = w_uploads s @ [(output_dest env (w_job s) name, b)]
    \<and> job_row_at (job_id (w_job s)) (w_jobs s') = Some row' \<and> jr_status row' = Job_COMPLETED
    \<and> jr_output_file row' = Some (output_dest env (w_job s) name)
    \<and> jr_progress row' = 100 \<and> jr_credits_used row' = priced env (w_job s) ms tier
    \<and> available_total_once (we_clock env) u (period_key_of (we_clock env)) (w_ledger s')
        = Inr (Some (max 0 (t - priced env (w_job s) ms tier)))
    \<and> (\<exists>s''. process_job env (s'\<lparr>w_job := w_job s\<rparr>) = (Inr (), s'') \<and> w_jobs s'' = w_jobs s'
         \<and> w_ledger s'' = w_ledger s' \<and> w_uploads s'' = w_uploads s')"
proof -
  let ?n = "priced env (w_job s) ms tier"
  obtain s' row' where r: "process_job env s = (Inr (), s')" "jobs_ok (w_jobs s')"
    "w_uploads s' = w_uploads s @ [(output_dest env (w_job s) name, b)]"
    "job_row_at (job_id (w_job s)) (w_jobs s') = Some row'" "jr_status row' = Job_COMPLETED"
    "jr_output_file row' = Some (output_dest env (w_job s) name)"
    "jr_progress row' = 100" "jr_credits_used row' = ?n"
    "w_ledger s' = snd (consume quiet_all (we_clock env) u (period_key_of (we_clock env)) ?n
       (job_origin (w_job s)) (w_ledger s))"
    using process_job_calm [OF assms(1,3-8,10,11,9,12,13)] by blast
  have "1 \<le> ?n" by (simp add: priced_def calculate_credits_ge_1)
  then have "available_total_once (we_clock env) u (period_key_of (we_clock env)) (w_ledger s')
      = Inr (Some (max 0 (t - ?n)))"
    using charge_lowers_total [OF assms(2,9), of ?n] r(9) by simp
  moreover have "process_job env (s'\<lparr>w_job := w_job s\<rparr>) = replay_completed env (to_entity row')
      (s'\<lparr>w_job := w_job s, w_event := new_event (job_id (w_job s))\<rparr>)"
    using redelivery_replays [of env "s'\<lparr>w_job := w_job s\<rparr>" row'] assms(1) r
    by (simp add: calm_def output_dest_def)
  ultimately show ?thesis
    using r replay_calm [OF assms(1), of "to_entity row'"
        "s'\<lparr>w_job := w_job s, w_event := new_event (job_id (w_job s))\<rparr>"] by simp
qed

theorem job_processed_exactly_once_witness:
  "\<exists>s' row'. process_job sample_env sample_state = (Inr (), s')
    \<and> job_row_at ''j1'' (w_jobs s') = Some row' \<and> jr_status row' = Job_COMPLETED"
  using job_processed_exactly_once [of sample_env sample_state "job_row_of 0 sample_job" 7 513 Tier_PRO
      "safe_filename (path_stem (safe_filename (path_name ''a.pdf''))) @ ''.txt''" "''data''" 1500 "''data''"]
    sample_calm sample_ledger_ok [of Tier_PRO] sample_row sample_total sample_converts sample_stored
    get_tier_ok [OF sample_ledger_ok, of 7 Tier_PRO]
  by simp blast

text \<open>a completed job is never converted or charged again. Whenever the stored row of a delivered
  job is completed with an output and the row can be read, processing the delivery changes no row, no
  balance and no stored object, whatever else fails; if Redis takes the event, it returns normally
  and the message is acknowledged.\<close>

theorem completed_job_not_recharged:
  assumes "we_job_repository env" "we_read_fault env 0 = None" "jobs_ok (w_jobs s)"
    and "job_row_at (job_id (w_job s)) (w_jobs s) = Some row" "jr_status row = Job_COMPLETED"
    and "jr_output_file row = Some (c # cs)" "process_job env s = (r, s')"
  shows "w_jobs s' = w_jobs s \<and> w_ledger s' = w_ledger s \<and> w_uploads s' = w_uploads s
    \<and> (we_redis env (rd_tick (w_redis s)) = Commit_ok \<longrightarrow> r = Inr ())"
proof -
  have p: "process_job env s = replay_completed env (to_entity row) (s\<lparr>w_event := new_event (job_id (w_job s))\<rparr>)"
    by (rule redelivery_replays) (use assms in auto)
  have "we_redis env (rd_tick (w_redis s)) = Commit_ok \<longrightarrow> fst (process_job env s) = Inr ()"
    unfolding p by (simp add: replay_completed_def publish_kw_def publish_event_def redis_call_def case_prod_beta)
  moreover have "s' = snd (replay_completed env (to_entity row) (s\<lparr>w_event := new_event (job_id (w_job s))\<rparr>))"
    using p assms(7) by (metis snd_conv)
  ultimately show ?thesis using assms(7) by (simp add: replay_completed_def)
qed

theorem completed_job_not_recharged_witness:
  "let done = (job_row_of 0 sample_job)\<lparr>jr_status := Job_COMPLETED, jr_output_file := Some ''out/x''\<rparr>
   in w_ledger (snd (process_job sample_env (sample_state\<lparr>w_jobs := [done]\<rparr>))) = sample_ledger Tier_PRO"
proof -
  let ?row = "(job_row_of 0 sample_job)\<lparr>jr_status := Job_COMPLETED, jr_output_file := Some ''out/x''\<rparr>"
  let ?s = "sample_state\<lparr>w_jobs := [?row]\<rparr>"
  have "jr_job_id ?row = ''j1''" by (simp add: job_row_of_def)
  then have "jobs_ok [?row]" "job_row_at ''j1'' [?row] = Some ?row"
    by (simp_all add: jobs_ok_def job_row_at_def sql_select_def sql_first_def)
  then show ?thesis
    using completed_job_not_recharged [of sample_env ?s ?row "CHR ''o''" "''ut/x''" "fst (process_job sample_env ?s)"
        "snd (process_job sample_env ?s)"] by (simp add: sample_env_def)
qed

end
