(* ===== verification/Worker_Faults.thy ===== *)
theory Worker_Faults
  imports Worker_Safety
begin

section \<open>The worker when things fail\<close>

text \<open>
  What is left of a job whose processing raises: the status it ends with, what happens to its row and
  to its queue entry, the bounds of the retry decorator and of the file names.
\<close>

subsection \<open>The outcome of a delivery\<close>

lemma precheck_stop:
  assumes "precheck_stage env p s = (Inr None, s')"
  shows "job_status (w_job s') = Job_FAILED \<and> job_error_message (w_job s') = Some CREDITS_EXHAUSTED
    \<and> w_ledger s' = w_ledger s \<and> w_uploads s' = w_uploads s"
proof -
  have m: "job_error_message (mark_failed m j) = Some m" for m j by (simp add: mark_failed_def fail_def)
  obtain u where "job_user_id (w_job s) = Some u" "we_credit_port env"
    "credit_precheck env u p s = (None, s')"
    using assms by (auto simp: precheck_stage_def split: option.splits if_splits prod.splits)
  then show ?thesis
    by (auto simp: credit_precheck_def case_prod_beta Let_def m split: sum.splits if_splits)
qed

lemma process_body_Inr:
  assumes "process_body env (period_key_of (we_clock env)) s = (Inr (), s')"
  shows "job_status (w_job s') = Job_COMPLETED \<and> (\<exists>name.
        job_output_file (w_job s') = Some (output_dest env (w_job s) name)
        \<and> output_dest env (w_job s) name \<in> fst ` set (w_uploads s'))
    \<or> job_status (w_job s') = Job_FAILED \<and> job_error_message (w_job s') = Some CREDITS_EXHAUSTED
        \<and> w_ledger s' = w_ledger s \<and> w_uploads s' = w_uploads s"
proof -
  let ?p = "period_key_of (we_clock env)"
  obtain j where j: "start_processing (w_job s) = Inr j"
    using assms by (auto simp: process_body_def sbind_def lift_job_def split: sum.splits)
  let ?s2 = "persist env False (s\<lparr>w_job := j\<rparr>)"
  obtain go s3 where g: "precheck_stage env ?p ?s2 = (Inr go, s3)"
    using precheck_stage_total [of env ?p] by (metis prod.collapse)
  have "free_frame s ?s2"
    by (rule free.trans [OF free_frame_job [OF method_same_job(1) [OF j]] persist_frame])
  then have f: "free_frame s s3"
    by (rule free.trans) (use precheck_stage_frame [of ?s2 env ?p] g in simp)
  have b: "(case go of None \<Rightarrow> sreturn (Inr ())
      | Some tier \<Rightarrow> sbind (convert_phases env tier) (finish_job env ?p)) s3 = (Inr (), s')"
    using assms j g by (simp add: process_body_def sbind_def [of "lift_job _"] sbind_def [of "smodify _"]
        sbind_def [of "precheck_stage _ _"] lift_job_def smodify_def)
  show ?thesis
  proof (cases go)
    case None
    then have "s' = s3" using b by (simp add: sreturn_def)
    then show ?thesis using precheck_stop [OF g [unfolded None]] by simp
  next
    case (Some tier)
    then obtain out s4 where c: "convert_phases env tier s3 = (Inr out, s4)" "finish_job env ?p out s4 = (Inr (), s')"
      using b by (auto elim: sbind_cases)
    have "free_frame s s4" using free.trans [OF f convert_phases_frame [of s3 env tier]] c(1) by simp
    then have "same_job (w_job s) (w_job s4)" by (simp add: free_frame_def stage_frame_def)
    then show ?thesis
      using finish_job_effect [OF c(2)] output_dest_same_job by (auto simp: completed_charged_def)
  qed
qed

lemma handle_failure_job: "handle_failure env e t = (r, s') \<Longrightarrow>
  isl r \<and> w_job s' = (mark_failed (exn_message e) (w_job t))\<lparr>job_progress := ec_progress (w_event t)\<rparr>
  \<and> w_ledger s' = w_ledger t \<and> w_uploads s' = w_uploads t"
proof -
  let ?s1 = "persist env True (t\<lparr>w_job := (mark_failed (exn_message e) (w_job t))
                 \<lparr>job_progress := ec_progress (w_event t)\<rparr>\<rparr>)"
  let ?s2 = "?s1\<lparr>w_event := ev_failed USER_FACING_FAILURE_MESSAGE (w_event ?s1)\<rparr>"
  assume h: "handle_failure env e t = (r, s')"
  then have "s' = snd (publish_current env [] ?s2) \<and> isl r"
    by (cases "publish_current env [] ?s2"; cases "fst (publish_current env [] ?s2)")
      (auto simp: handle_failure_def Let_def)
  then show ?thesis by simp
qed

subsection \<open>The batch of a job\<close>

lemma free_stage: "free_frame s t \<Longrightarrow> stage_frame s t"
  by (simp add: free_frame_def)

lemma settle_stage: "stage_frame s (snd (settle_job env p d s))"
  using settle_job_effect [of env p d s] by blast

lemma finish_stage: "stage_frame s (snd (finish_job env p out s))"
  unfolding finish_job_def
  by (intro stage.sbind_frame free_stage [OF enter_phase_frame] stage.retried_frame free_stage [OF upload_frame]
      free_stage [OF lift_job_frame] settle_stage) (rule method_same_job(2))

lemma body_after_start:
  assumes "start_processing (w_job s) = Inr j"
  shows "stage_frame (persist env False (s\<lparr>w_job := j\<rparr>)) (snd (process_body env p s))"
proof -
  let ?s2 = "persist env False (s\<lparr>w_job := j\<rparr>)"
  let ?go = "\<lambda>go. case go of None \<Rightarrow> sreturn (Inr ())
      | Some tier \<Rightarrow> sbind (convert_phases env tier) (finish_job env p)"
  have "process_body env p s = sbind (precheck_stage env p) ?go ?s2"
    using assms by (simp add: process_body_def sbind_def [of "lift_job _"] sbind_def [of "smodify _"]
        lift_job_def smodify_def)
  moreover have "stage_frame t (snd (?go go t))" for go t
    by (cases go) (auto intro!: stage.sreturn_frame stage.sbind_frame free_stage [OF convert_phases_frame]
        finish_stage)
  ultimately show ?thesis
    using stage.sbind_frame [of "precheck_stage env p" ?go ?s2] free_stage [OF precheck_stage_frame] by simp
qed

lemma parse_job_batch: "parse_job f = Inr j \<Longrightarrow> job_batch_id j = None \<and> job_status j = Job_PENDING"
  by (auto simp: parse_job_def rbind_Inr_iff new_job_def)

lemma persist_first_ok:
  assumes "we_job_repository env" "we_persist_fate env (w_persists s) 0 0 = Commit_ok"
  shows "w_jobs (persist env False s) = update_conversion_job (we_stamp env (w_persists s)) (w_job s) (w_jobs s)"
  using assms by (simp add: persist_def worker_update_def)

lemma row_batch_kept:
  assumes "stage_frame s t" "job_batch_id (w_job s) = None"
    and "job_row_at (job_id (w_job s)) (w_jobs s) = Some r" "jr_batch_id r = None"
    and "job_row_at (job_id (w_job s)) (w_jobs t) = Some r'"
  shows "jr_batch_id r' = None"
proof -
  have "jobs_frame (w_job s) (w_jobs s) (w_jobs t)" using assms(1) by (simp add: stage_frame_def)
  then have "jr_batch_id r' \<in> {jr_batch_id r, job_batch_id (w_job s)}"
    using assms(3,5) unfolding jobs_frame_def by blast
  then show ?thesis using assms(2,4) by simp
qed

lemma not_in_batch:
  assumes "jobs_ok t" "\<And>r. job_row_at i t = Some r \<Longrightarrow> jr_batch_id r = None"
  shows "i \<notin> job_id ` set (list_by_batch b u t)"
proof
  assume "i \<in> job_id ` set (list_by_batch b u t)"
  then obtain r where r: "r \<in> set t" "jr_batch_id r = Some b" "jr_job_id r = i"
    by (auto simp: list_by_batch_def to_entity_def sql_select_def)
  then have "job_row_at i t = Some r"
    using sql_first_unique [of jr_job_id t r] assms(1) by (auto simp: jobs_ok_def job_row_at_def)
  then show False using assms(2) r(2) by auto
qed

subsection \<open>The queue entry of a failed job\<close>

lemma dead_letter_lost:
  assumes "fate (rd_tick rd) = Commit_lost x"
  shows "rd_streams (snd (dead_letter_job fate key msg j c rd)) = rd_streams rd"
  using assms by (simp add: dead_letter_job_def redis_call_def split: sum.splits)

lemma dead_letter_tick: "job_object_key j \<noteq> [] \<Longrightarrow>
  rd_tick (snd (dead_letter_job fate key msg j c rd)) = Suc (rd_tick rd)"
  by (simp add: dead_letter_job_def from_conversion_job_def redis_call_def split: commit_fate.splits)

lemma dead_letter_ok:
  assumes "fate (rd_tick rd) = Commit_ok" "from_conversion_job j = Inr m"
  shows "rd_streams (snd (dead_letter_job fate key msg j c rd))
    = (rd_streams rd)(qualify (cs_prefix c) JOB_DEAD_LETTER_STREAM :=
        stream_add (Some DEAD_LETTER_MAXLEN)
          (message_to_dict m @ [(''error'', msg), (''original_message_id'', key)])
          (rd_streams rd (qualify (cs_prefix c) JOB_DEAD_LETTER_STREAM)))"
  using assms by (simp add: dead_letter_job_def redis_call_def xadd_def put_stream_def)

lemma fail_job_acks:
  assumes "consumer_ok c" "s \<in> set (cs_streams c)" "fate (rd_tick r) = Commit_ok"
  shows "rd_streams (snd (snd (fail_job fate (delivery_key s (id_str n)) msg c r)))
    = (rd_streams r)(s := stream_ack n (rd_streams r s))"
proof -
  obtain c0 where "stream_for_message (delivery_key s (id_str n)) c = (s, c0)"
    using stream_for_message_ok [OF assms(1,2), of n] by (metis prod.collapse)
  then show ?thesis using assms(3)
    by (simp add: fail_job_def acknowledge_job_def raw_message_id_key redis_call_def xack_id put_stream_def
        Let_def)
qed

lemma qualify_eq_cases: "qualify p a = qualify p b \<Longrightarrow> a = b \<or> a = p @ b \<or> b = p @ a"
  by (auto simp: qualify_def split: if_splits)

lemma dead_stream_not_consumed:
  "qualify (cs_prefix c) JOB_DEAD_LETTER_STREAM \<notin> set (cs_streams c)"
proof
  assume "qualify (cs_prefix c) JOB_DEAD_LETTER_STREAM \<in> set (cs_streams c)"
  then obtain t where t: "t \<in> set JOB_TIER_STREAMS"
    "qualify (cs_prefix c) JOB_DEAD_LETTER_STREAM = qualify (cs_prefix c) t"
    by (auto simp: cs_streams_def qualify_all_def)
  from qualify_eq_cases [OF t(2)] consider "JOB_DEAD_LETTER_STREAM = t"
    | "JOB_DEAD_LETTER_STREAM = cs_prefix c @ t" | "t = cs_prefix c @ JOB_DEAD_LETTER_STREAM" by blast
  then show False
    using t(1) append_suffix [of JOB_DEAD_LETTER_STREAM "cs_prefix c" t]
      append_suffix [of t "cs_prefix c" JOB_DEAD_LETTER_STREAM]
    by cases (auto simp: JOB_TIER_STREAMS_def JOB_STREAM_def JOB_DEAD_LETTER_STREAM_def)
qed

lemma stream_add_last: "n \<noteq> 0 \<Longrightarrow> rs_entries (stream_add (Some n) f x) \<noteq> []
    \<and> snd (last (rs_entries (stream_add (Some n) f x))) = f"
  by (auto simp: stream_add_def Let_def last_drop drop_eq_Nil)

subsection \<open>The calls of a decorated function\<close>

lemma retry_loop_calls:
  assumes "retry_loop b m (\<lambda>k s. (g k, s)) n left s = ((r, ds), s')"
  shows "s' = s \<and> r = g (n + length ds) \<and> (\<forall>i. n \<le> i \<and> i < n + length ds \<longrightarrow> isl (g i))"
  using assms
proof (induction left arbitrary: n ds)
  case (Suc left)
  show ?case
  proof (cases "g n")
    case (Inl e)
    then obtain ds1 where d: "retry_loop b m (\<lambda>k s. (g k, s)) (Suc n) left s = ((r, ds1), s')" "length ds = Suc (length ds1)"
      using Suc.prems by (auto split: prod.splits)
    note ih = Suc.IH [OF d(1)]
    have "isl (g i)" if "n \<le> i" "i < n + length ds" for i
      using ih d(2) Inl that by (cases "i = n") auto
    then show ?thesis using ih d(2) by auto
  next
    case (Inr a)
    then show ?thesis using Suc.prems by auto
  qed
qed auto

subsection \<open>File names\<close>

lemma rfind_dot_bounds: "- 1 \<le> rfind_dot s" "rfind_dot s < int (length s)"
  using length_takeWhile_le [of "\<lambda>c. c \<noteq> CHR ''.''" "rev s"] by (simp_all add: rfind_dot_def)

definition clean_name :: "string \<Rightarrow> string" where
  "clean_name name = (if py_strip name = [] then ''file'' else py_strip name)"

definition name_extension :: "string \<Rightarrow> string" where
  "name_extension name = (let n = clean_name name; dot = rfind_dot n in
     if 0 < dot \<and> dot < int (length n) - 1 then drop (nat dot) n else [])"

lemma safe_filename_cases:
  obtains (short) "length (clean_name name) \<le> 180" "safe_filename name = clean_name name"
    | (extended) stem where "180 < length (clean_name name)" "clean_name name = stem @ name_extension name"
        "name_extension name \<noteq> []" "safe_filename name = slice_to stem (180 - int (length (name_extension name))) @ name_extension name"
    | (plain) "180 < length (clean_name name)" "name_extension name = []"
        "safe_filename name = take 180 (clean_name name)"
proof -
  let ?n = "clean_name name"
  let ?d = "rfind_dot ?n"
  have s: "safe_filename name = (if length ?n \<le> 180 then ?n
      else if 0 < ?d \<and> ?d < int (length ?n) - 1
        then slice_to (take (nat ?d) ?n) (180 - int (length (drop (nat ?d) ?n))) @ drop (nat ?d) ?n
        else take 180 ?n)"
    by (simp add: safe_filename_def clean_name_def MAX_FILENAME_LEN_def Let_def)
  show thesis
  proof (cases "length ?n \<le> 180")
    case True
    then show thesis using short s by simp
  next
    case long: False
    show thesis
    proof (cases "0 < ?d \<and> ?d < int (length ?n) - 1")
      case True
      then have e: "name_extension name = drop (nat ?d) ?n" by (simp add: name_extension_def Let_def)
      show thesis
        by (rule extended [of "take (nat ?d) ?n"]) (use long True s e in auto)
    next
      case False
      show thesis by (rule plain) (use long False s in \<open>auto simp: name_extension_def Let_def\<close>)
    qed
  qed
qed

lemma slice_to_prefix: "prefix (slice_to s k) s" "0 \<le> k \<Longrightarrow> int (length (slice_to s k)) \<le> k"
  by (auto simp: slice_to_def take_is_prefix)

lemma set_py_strip: "set (py_strip s) \<subseteq> set s"
  by (force simp: py_strip_def py_lstrip_def dest: set_dropWhileD)

lemma set_safe_filename: "set (safe_filename name) \<subseteq> set name \<union> set ''file''"
proof -
  have c: "set (clean_name name) \<subseteq> set name \<union> set ''file''"
    using set_py_strip [of name] by (auto simp: clean_name_def)
  have "set (safe_filename name) \<subseteq> set (clean_name name)"
  proof (cases rule: safe_filename_cases [of name])
    case (extended stem)
    then show ?thesis using set_mono_prefix [OF slice_to_prefix(1)] by fastforce
  qed (auto dest: in_set_takeD)
  with c show ?thesis by blast
qed

lemma safe_filename_ne: "safe_filename name \<noteq> []"
proof -
  have c: "clean_name name \<noteq> []" by (simp add: clean_name_def)
  show ?thesis by (cases rule: safe_filename_cases [of name]) (use c in auto)
qed

subsection \<open>Properties\<close>



text \<open>a failing terminal event turns a completed job into a failed one. Once the job is completed
  and charged, an exception of the last publish reaches the general handler: the job ends failed with
  its output kept, the charge stays, and the delivery raises.\<close>

theorem paid_job_can_end_failed:
  assumes "settle_job env p d s = (Inl e, t)" "handle_failure env e t = (r, s')"
    and "job_status (w_job s) = Job_COMPLETED" "job_output_file (w_job s) = Some d"
  shows "isl r \<and> job_status (w_job s') = Job_FAILED \<and> job_output_file (w_job s') = Some d
    \<and> w_ledger s' = w_ledger (snd (charge_job env p s))"
proof -
  have t: "w_job t = (w_job s)\<lparr>job_progress := 100\<rparr>" "w_ledger t = w_ledger (snd (charge_job env p s))"
    using settle_job_effect [of env p d s] assms(1) by simp_all
  have "job_output_file (mark_failed m j) = job_output_file j" for m j
    by (simp add: mark_failed_def fail_def)
  then show ?thesis using handle_failure_job [OF assms(2)] t assms(4) by simp
qed

theorem paid_job_can_end_failed_witness:
  "let env = sample_env\<lparr>we_redis := \<lambda>_. Commit_lost (OtherError ''down'')\<rparr>;
       s = sample_state\<lparr>w_job := sample_job\<lparr>job_status := Job_COMPLETED, job_output_file := Some ''out/x''\<rparr>\<rparr>;
       (r, t) = settle_job env ''2026-05'' ''out/x'' s
   in \<exists>e r' s'. r = Inl e \<and> handle_failure env e t = (r', s') \<and> job_status (w_job s') = Job_FAILED"
proof -
  let ?env = "sample_env\<lparr>we_redis := \<lambda>_. Commit_lost (OtherError ''down'')\<rparr>"
  let ?s = "sample_state\<lparr>w_job := sample_job\<lparr>job_status := Job_COMPLETED, job_output_file := Some ''out/x''\<rparr>\<rparr>"
  have pub: "fst (publish_current ?env kw x) = Inl (OtherError ''down'')" for kw x
    by (simp add: publish_current_def publish_context_def publish_event_def redis_call_def case_prod_beta)
  obtain c s1 where c: "charge_job ?env ''2026-05'' ?s = (Inr c, s1)"
    using charge_job_result(1) [of ?env "''2026-05''" ?s]
    by (cases "charge_job ?env ''2026-05'' ?s"; cases "fst (charge_job ?env ''2026-05'' ?s)") auto
  obtain t where t: "settle_job ?env ''2026-05'' ''out/x'' ?s = (Inl (OtherError ''down''), t)"
    by (cases "settle_job ?env ''2026-05'' ''out/x'' ?s")
      (use pub c in \<open>auto simp: settle_job_def sbind_def smodify_def prod_eq_iff\<close>)
  obtain r' s' where h: "handle_failure ?env (OtherError ''down'') t = (r', s')" by (metis prod.collapse)
  have "job_status (w_job s') = Job_FAILED"
    using paid_job_can_end_failed [OF t h] by simp
  then show ?thesis using t h by simp
qed

text \<open>a worker takes a job out of its batch. The queue message carries neither the batch nor the
  workflow of a job, and the first status write of the worker stores the parsed job: from then on no
  listing of any batch contains the job, however its processing ends.\<close>

theorem picked_up_job_leaves_its_batch:
  assumes "parse_job f = Inr (w_job s)" "job_object_key (w_job s) \<noteq> []" "jobs_ok (w_jobs s)"
    and "we_job_repository env" "we_persist_fate env (w_persists s) 0 0 = Commit_ok"
    and "\<not> already_completed (load_persisted_job env s)" "process_job env s = (r, s')"
  shows "job_id (w_job s) \<notin> job_id ` set (list_by_batch b u (w_jobs s'))"
proof -
  let ?s = "s\<lparr>w_event := new_event (job_id (w_job s))\<rparr>"
  let ?j = "(w_job s)\<lparr>job_status := Job_PROCESSING\<rparr>"
  let ?s2 = "persist env False (?s\<lparr>w_job := ?j\<rparr>)"
  have st: "start_processing (w_job ?s) = Inr ?j"
    using parse_job_batch [OF assms(1)] assms(2) by (simp add: start_processing_def)
  have fr: "stage_frame ?s2 s'"
    using assms(7)
  proof (cases rule: process_job_cases)
    case (failed e t)
    then show ?thesis
      using body_after_start [OF st, of env "period_key_of (we_clock env)"]
        stage.trans [OF _ free_stage [OF handle_failure_frame [of t env e]]] by simp
  qed (use assms(6) body_after_start [OF st, of env "period_key_of (we_clock env)"] in simp_all)
  have up: "w_jobs ?s2 = update_conversion_job (we_stamp env (w_persists s)) ?j (w_jobs s)"
    using persist_first_ok [of env "?s\<lparr>w_job := ?j\<rparr>"] assms(4,5) by simp
  have "jr_batch_id q = None" if q: "job_row_at (job_id (w_job s)) (w_jobs s') = Some q" for q
  proof -
    obtain r0 where r0: "job_row_at (job_id (w_job s)) (w_jobs ?s2) = Some r0"
      using fr q by (cases "job_row_at (job_id (w_job s)) (w_jobs ?s2)") (auto simp: stage_frame_def jobs_frame_def)
    then have "jr_batch_id r0 = None"
      using up parse_job_batch [OF assms(1)] by (auto simp: job_row_at_update)
    then show ?thesis
      by (rule row_batch_kept [OF fr, of r0, rotated 2]) (use r0 q parse_job_batch [OF assms(1)] in simp_all)
  qed
  moreover have "jobs_ok (w_jobs s')"
    using process_job_effect [OF assms(7)] assms(3) by (auto simp: stage_frame_def jobs_frame_def)
  ultimately show ?thesis by (intro not_in_batch)
qed

theorem picked_up_job_leaves_its_batch_witness:
  "let j = sample_job\<lparr>job_batch_id := Some ''b1''\<rparr>;
       s = sample_state\<lparr>w_job := sample_job\<lparr>job_output_file := Some []\<rparr>, w_jobs := [job_row_of 0 j]\<rparr>
   in ''j1'' \<in> job_id ` set (list_by_batch ''b1'' 7 (w_jobs s))
     \<and> ''j1'' \<notin> job_id ` set (list_by_batch ''b1'' 7 (w_jobs (snd (process_job sample_env s))))"
proof -
  let ?j = "sample_job\<lparr>job_batch_id := Some ''b1''\<rparr>"
  let ?s = "sample_state\<lparr>w_job := sample_job\<lparr>job_output_file := Some []\<rparr>, w_jobs := [job_row_of 0 ?j]\<rparr>"
  obtain m where m: "from_conversion_job ?j = Inr m" by (simp add: from_conversion_job_def)
  have "parse_job (message_to_dict m) = Inr (w_job ?s)"
    using parse_published [OF m] by (simp add: sample_job_def new_job_def)
  moreover have r: "jobs_ok [job_row_of 0 ?j]" "jr_job_id (job_row_of 0 ?j) = ''j1''"
    "job_row_at ''j1'' [job_row_of 0 ?j] = Some (job_row_of 0 ?j)" "jr_status (job_row_of 0 ?j) = Job_PENDING"
    by (simp_all add: jobs_ok_def job_row_at_def sql_select_def sql_first_def job_row_of_def)
  moreover have "load_persisted_job sample_env ?s = Some (to_entity (job_row_of 0 ?j))"
    using r sample_calm by (simp add: load_persisted_job_def worker_get_def read_attempt_def get_job_ok calm_def)
  then have "\<not> already_completed (load_persisted_job sample_env ?s)"
    using r by (simp add: already_completed_def to_entity_def)
  ultimately have "''j1'' \<notin> job_id ` set (list_by_batch ''b1'' 7 (w_jobs (snd (process_job sample_env ?s))))"
    using picked_up_job_leaves_its_batch [of "message_to_dict m" ?s sample_env "fst (process_job sample_env ?s)"
        "snd (process_job sample_env ?s)" "''b1''" 7] by (simp add: sample_env_def)
  moreover have "''j1'' \<in> job_id ` set (list_by_batch ''b1'' 7 [job_row_of 0 ?j])"
    by (simp add: list_by_batch_def sql_select_def job_row_of_def to_entity_def)
  ultimately show ?thesis by (simp add: Let_def)
qed

text \<open>a failed job is copied to the dead letter stream before its queue entry is acknowledged, and
  the acknowledgement happens even when the copy fails. If both Redis calls work, the dead letter
  stream ends with the job's fields and the error and the entry is no longer pending; if only the
  first is lost, the entry is acknowledged all the same and no copy exists.\<close>

theorem failed_job_dead_letter:
  assumes "consumer_ok c" "s \<in> set (cs_streams c)" "from_conversion_job j = Inr m"
    and "fate (Suc (rd_tick rd)) = Commit_ok" "dead = qualify (cs_prefix c) JOB_DEAD_LETTER_STREAM"
    and "handle_raise fate (delivery_key s (id_str n)) msg j c rd = (c', rd')"
  shows "rd_streams rd' s = stream_ack n (rd_streams rd s)
    \<and> (fate (rd_tick rd) = Commit_ok \<longrightarrow> rs_entries (rd_streams rd' dead) \<noteq> []
        \<and> snd (last (rs_entries (rd_streams rd' dead)))
          = message_to_dict m @ [(''error'', msg), (''original_message_id'', delivery_key s (id_str n))])
    \<and> (\<forall>x. fate (rd_tick rd) = Commit_lost x \<longrightarrow> rd_streams rd' dead = rd_streams rd dead)"
proof -
  let ?k = "delivery_key s (id_str n)"
  let ?rd1 = "snd (dead_letter_job fate ?k msg j c rd)"
  have ne: "s \<noteq> dead" using assms(2,5) dead_stream_not_consumed by auto
  have t: "rd_tick ?rd1 = Suc (rd_tick rd)"
    using assms(3) by (intro dead_letter_tick) (auto simp: from_conversion_job_def split: if_splits)
  have a: "rd_streams rd' = (rd_streams ?rd1)(s := stream_ack n (rd_streams ?rd1 s))"
    using fail_job_acks [OF assms(1,2), of fate ?rd1 n msg] assms(4,6) t
    by (simp add: handle_raise_def case_prod_beta Let_def)
  have same: "rd_streams ?rd1 s = rd_streams rd s"
    using ne assms(3,5) by (auto simp: dead_letter_job_def redis_call_def xadd_def put_stream_def
        split: commit_fate.splits)
  show ?thesis
    using a same ne dead_letter_ok [OF _ assms(3), of fate rd ?k msg c] dead_letter_lost [of fate rd _ ?k msg j c]
      stream_add_last [of DEAD_LETTER_MAXLEN] assms(5)
    by (auto simp: DEAD_LETTER_MAXLEN_def)
qed

theorem failed_job_dead_letter_witness:
  "let fate = (\<lambda>k. if k = 0 then Commit_lost (OtherError ''down'') else Commit_ok);
       pel = empty_stream\<lparr>rs_pel := [\<lparr>pe_id = 3, pe_consumer = ''c'', pe_delivered_at = 0\<rparr>]\<rparr>;
       rd = \<lparr>rd_streams = (\<lambda>s. if s = JOB_STREAM then pel else empty_stream), rd_tick = 0\<rparr>;
       (c', rd') = handle_raise fate (delivery_key JOB_STREAM (id_str 3)) ''boom'' sample_job (new_consumer ''c'' []) rd
   in rs_pel (rd_streams rd' JOB_STREAM) = [] \<and> rs_entries (rd_streams rd' JOB_DEAD_LETTER_STREAM) = []"
proof -
  let ?fate = "\<lambda>k. if k = 0 then Commit_lost (OtherError ''down'') else Commit_ok"
  let ?c = "new_consumer ''c'' []"
  let ?rd = "\<lparr>rd_streams = (\<lambda>s. if s = JOB_STREAM then
      empty_stream\<lparr>rs_pel := [\<lparr>pe_id = 3, pe_consumer = ''c'', pe_delivered_at = 0\<rparr>]\<rparr> else empty_stream), rd_tick = 0\<rparr>"
  obtain c' rd' where h: "handle_raise ?fate (delivery_key JOB_STREAM (id_str 3)) ''boom'' sample_job ?c ?rd = (c', rd')"
    by (metis prod.collapse)
  obtain m where m: "from_conversion_job sample_job = Inr m" by (simp add: from_conversion_job_def)
  have d: "qualify (cs_prefix ?c) JOB_DEAD_LETTER_STREAM = JOB_DEAD_LETTER_STREAM"
    by (simp add: new_consumer_def qualify_def)
  have c: "consumer_ok ?c" "JOB_STREAM \<in> set (cs_streams ?c)"
    by (simp_all add: consumer_ok_def new_consumer_def cs_streams_def qualify_all_def qualify_def JOB_TIER_STREAMS_def)
  have "JOB_DEAD_LETTER_STREAM \<noteq> JOB_STREAM" by (simp add: JOB_DEAD_LETTER_STREAM_def)
  then have "rs_pel (rd_streams rd' JOB_STREAM) = [] \<and> rs_entries (rd_streams rd' JOB_DEAD_LETTER_STREAM) = []"
    using failed_job_dead_letter [OF c m, of ?fate ?rd JOB_DEAD_LETTER_STREAM 3 "''boom''" c' rd'] h d
    by (simp add: stream_ack_def empty_stream_def)
  then show ?thesis using h by (simp add: Let_def)
qed

text \<open>the retry decorator makes at most \<open>max_retries\<close> calls (at least one), returns the first
  success or the last exception, and every wait between calls is bounded by the largest delay.\<close>

theorem retry_bounded:
  assumes "retry_on_exception max_retries base_delay max_delay (\<lambda>k s. (g k, s)) s = ((r, delays), s')"
    and "0 \<le> base_delay" "0 \<le> max_delay"
  shows "int (length delays) < max 1 max_retries \<and> (\<forall>d \<in> set delays. 0 \<le> d \<and> d \<le> max_delay)
    \<and> (\<exists>k. 1 \<le> k \<and> int k \<le> max 1 max_retries \<and> r = g k \<and> (\<forall>i. 1 \<le> i \<and> i < k \<longrightarrow> isl (g i))
        \<and> (isl r \<longrightarrow> int k = max 1 max_retries)) \<and> s' = s"
proof -
  let ?left = "nat (max 1 max_retries) - 1"
  note l = assms(1) [unfolded retry_on_exception_def]
  have n: "int ?left + 1 = max 1 max_retries" by (simp add: of_nat_diff)
  have d: "length delays \<le> ?left" "isl r \<longrightarrow> length delays = ?left"
    "\<forall>d \<in> set delays. 0 \<le> d \<and> d \<le> max_delay"
    using retry_loop_spec [OF l assms(2,3)] by blast+
  have k: "s' = s" "r = g (1 + length delays)" "\<forall>i. 1 \<le> i \<and> i < 1 + length delays \<longrightarrow> isl (g i)"
    using retry_loop_calls [OF l] by blast+
  have "int (1 + length delays) \<le> max 1 max_retries" using n d(1) by linarith
  moreover have "isl r \<longrightarrow> int (1 + length delays) = max 1 max_retries" using n d(2) by linarith
  ultimately show ?thesis using k d(3) by (intro conjI exI [of _ "1 + length delays"]) auto
qed

theorem retry_bounded_witness:
  "let ((r, delays), s') = retry_on_exception 3 1 60
       (\<lambda>k s. ((if k < 3 then Inl (OtherError ''slow'') else Inr k), s)) (0 :: nat)
   in length delays < 3 \<and> s' = 0"
proof -
  let ?g = "\<lambda>k. if k < 3 then Inl (OtherError ''slow'') else Inr k"
  obtain p s' where p: "retry_on_exception 3 1 60 (\<lambda>k s. (?g k, s)) (0 :: nat) = (p, s')"
    by (cases "retry_on_exception 3 1 60 (\<lambda>k s. (?g k, s)) (0 :: nat)")
  obtain r ds where "p = (r, ds)" by (cases p)
  with p have x: "retry_on_exception 3 1 60 (\<lambda>k s. (?g k, s)) (0 :: nat) = ((r, ds), s')" by simp
  have "length ds < 3 \<and> s' = 0" using retry_bounded [OF x] by auto
  then show ?thesis by (simp only: x Let_def prod.case)
qed

text \<open>the worker's file names. The name is never empty, contains no path separator the input does
  not contain, and fits in 180 characters when its extension does; with a longer extension the
  extension is kept whole and the bound is lost.\<close>

theorem safe_filename_bounded:
  "safe_filename name \<noteq> [] \<and> (CHR ''/'' \<notin> set name \<longrightarrow> CHR ''/'' \<notin> set (safe_filename name))
   \<and> (length (name_extension name) \<le> 180 \<longrightarrow> length (safe_filename name) \<le> 180)
   \<and> (180 < length (name_extension name) \<longrightarrow> 180 < length (safe_filename name))"
proof -
  have "CHR ''/'' \<notin> set name \<longrightarrow> CHR ''/'' \<notin> set (safe_filename name)"
    using set_safe_filename [of name] by auto
  moreover have "(length (name_extension name) \<le> 180 \<longrightarrow> length (safe_filename name) \<le> 180)
     \<and> (180 < length (name_extension name) \<longrightarrow> 180 < length (safe_filename name))"
  proof (cases rule: safe_filename_cases [of name])
    case short
    have "length (name_extension name) \<le> length (clean_name name)"
      by (simp add: name_extension_def Let_def)
    with short show ?thesis by simp
  next
    case (extended stem)
    then show ?thesis
      using slice_to_prefix(2) [of "180 - int (length (name_extension name))" stem] by auto
  qed simp
  ultimately show ?thesis using safe_filename_ne by blast
qed

theorem safe_filename_bounded_witness:
  "180 < length (safe_filename (''a.'' @ replicate 200 (CHR ''b'')))"
proof -
  let ?n = "''a.'' @ replicate 200 (CHR ''b'')"
  have "py_strip ?n = ?n" by (rule py_strip_id) (simp_all add: is_space_def)
  then have c: "clean_name ?n = ?n" by (simp add: clean_name_def)
  have "takeWhile (\<lambda>c. c \<noteq> CHR ''.'') (replicate 200 (CHR ''b'') @ ''.a'')
      = replicate 200 (CHR ''b'')"
    by (subst takeWhile_append2) (auto simp: set_replicate_conv_if)
  then have "rfind_dot ?n = 1" by (simp add: rfind_dot_def)
  then have "length (name_extension ?n) = 201" using c by (simp add: name_extension_def Let_def)
  then show ?thesis using safe_filename_bounded [of ?n] by simp
qed

end
