(* ===== verification/Runtime_Config.thy ===== *)
theory Runtime_Config
  imports Transform_Prelude "HOL-Library.List_Lexorder" "HOL-Library.Char_ord"
    "HOL-Library.Product_Lexorder"
begin

section \<open>Runtime configuration and its fingerprint\<close>

text \<open>
  Models \<open>src/domain/workspaces/value_object/resource_profile.py\<close> and \<open>runtime_config.py\<close>: the named
  resource profiles, the frozen configuration with its validation, its stored JSON form, the
  canonical JSON text and the fingerprint. SHA-256 is an argument, the function from a text to its
  digest; that two digests differ for two given texts is a hypothesis where it is needed. The text
  \<open>str()\<close> gives a float is an argument as well.

  Proved: a configuration survives storage with the same fingerprint, and equal fingerprints mean
  equal environments.
\<close>

subsection \<open>Resource profiles\<close>

record resource_profile =
  rp_name :: string
  rp_cpu_cores :: rat
  rp_memory_mb :: int
  rp_pids_limit :: int
  rp_disk_mb :: int

definition RESOURCE_PROFILES :: "(string \<times> resource_profile) list" where
  "RESOURCE_PROFILES =
     [(''small'', \<lparr>rp_name = ''small'', rp_cpu_cores = 1 / 2, rp_memory_mb = 512,
         rp_pids_limit = 128, rp_disk_mb = 1024\<rparr>),
      (''standard'', \<lparr>rp_name = ''standard'', rp_cpu_cores = 1, rp_memory_mb = 2048,
         rp_pids_limit = 256, rp_disk_mb = 5120\<rparr>),
      (''large'', \<lparr>rp_name = ''large'', rp_cpu_cores = 2, rp_memory_mb = 4096,
         rp_pids_limit = 512, rp_disk_mb = 10240\<rparr>)]"

definition DEFAULT_RESOURCE_PROFILE :: string where
  "DEFAULT_RESOURCE_PROFILE = ''standard''"

definition resolve_profile :: "string \<Rightarrow> resource_profile result" where
  "resolve_profile name = (case map_of RESOURCE_PROFILES name of
       None \<Rightarrow> Inl (AppError InvalidRuntimeConfigError (''Unsupported resource profile ''
         @ py_repr name @ ''; supported: '' @ py_join '', '' (sort (map fst RESOURCE_PROFILES)) @ ''.''))
     | Some p \<Rightarrow> Inr p)"

subsection \<open>The configuration\<close>

definition DEFAULT_PYTHON_VERSION :: string where "DEFAULT_PYTHON_VERSION = ''3.14''"
definition DEFAULT_UV_VERSION :: string where "DEFAULT_UV_VERSION = ''0.11.23''"
definition DEFAULT_BASE_IMAGE :: string where "DEFAULT_BASE_IMAGE = ''transform-python-runtime''"
definition DEFAULT_BASE_IMAGE_REVISION :: string where "DEFAULT_BASE_IMAGE_REVISION = ''1.0.0-py3.14''"
definition RUNTIME_CONFIG_VERSION :: int where "RUNTIME_CONFIG_VERSION = 1"
definition SUPPORTED_PYTHON_VERSIONS :: "string list" where "SUPPORTED_PYTHON_VERSIONS = [''3.14'']"

record runtime_config =
  rc_python_version :: string
  rc_uv_version :: string
  rc_base_image :: string
  rc_base_image_revision :: string
  rc_resource_profile :: string
  rc_config_version :: int
  rc_extra :: "(string \<times> string) list"

definition default_runtime_config :: runtime_config where
  "default_runtime_config = \<lparr>rc_python_version = DEFAULT_PYTHON_VERSION,
     rc_uv_version = DEFAULT_UV_VERSION, rc_base_image = DEFAULT_BASE_IMAGE,
     rc_base_image_revision = DEFAULT_BASE_IMAGE_REVISION,
     rc_resource_profile = DEFAULT_RESOURCE_PROFILE, rc_config_version = RUNTIME_CONFIG_VERSION,
     rc_extra = []\<rparr>"

text \<open>\<open>__post_init__\<close>: the checks a construction runs, in their order.\<close>

definition config_error :: "string \<Rightarrow> 'a result" where
  "config_error m = Inl (AppError InvalidRuntimeConfigError m)"

definition blank :: "string \<Rightarrow> bool" where
  "blank s = (s = [] \<or> py_strip s = [])"

definition check_runtime_config :: "runtime_config \<Rightarrow> runtime_config result" where
  "check_runtime_config c =
     (if rc_python_version c \<notin> set SUPPORTED_PYTHON_VERSIONS
      then config_error (''Unsupported python_version '' @ py_repr (rc_python_version c)
             @ ''; supported: '' @ py_join '', '' (sort SUPPORTED_PYTHON_VERSIONS) @ ''.'')
      else if blank (rc_uv_version c) then config_error ''uv_version must not be empty.''
      else if blank (rc_base_image c) then config_error ''base_image must not be empty.''
      else if blank (rc_base_image_revision c)
      then config_error ''base_image_revision must not be empty.''
      else if rc_config_version c < 1
      then config_error ''config_version must be a positive integer.''
      else rbind (resolve_profile (rc_resource_profile c)) (\<lambda>_. Inr c))"

definition config_profile :: "runtime_config \<Rightarrow> resource_profile result" where
  "config_profile c = resolve_profile (rc_resource_profile c)"

definition image_ref :: "runtime_config \<Rightarrow> string" where
  "image_ref c = rc_base_image c @ '':'' @ rc_base_image_revision c"

text \<open>\<open>dict(pairs)\<close>: a key keeps its first position and takes its last value.\<close>

fun dict_put :: "'k \<Rightarrow> 'v \<Rightarrow> ('k \<times> 'v) list \<Rightarrow> ('k \<times> 'v) list" where
  "dict_put k v [] = [(k, v)]"
| "dict_put k v ((k', v') # d) = (if k' = k then (k, v) # d else (k', v') # dict_put k v d)"

definition dict_of :: "('k \<times> 'v) list \<Rightarrow> ('k \<times> 'v) list" where
  "dict_of ps = fold (\<lambda>(k, v). dict_put k v) ps []"

definition config_to_dict :: "runtime_config \<Rightarrow> json" where
  "config_to_dict c = J_obj [
     (''python_version'', J_str (rc_python_version c)),
     (''uv_version'', J_str (rc_uv_version c)),
     (''base_image'', J_str (rc_base_image c)),
     (''base_image_revision'', J_str (rc_base_image_revision c)),
     (''resource_profile'', J_str (rc_resource_profile c)),
     (''config_version'', J_int (rc_config_version c)),
     (''extra'', J_obj (map (\<lambda>(k, v). (k, J_str v)) (dict_of (rc_extra c))))]"

subsection \<open>Reading a stored configuration\<close>

text \<open>\<open>str(v)\<close> and \<open>repr(v)\<close> of a JSON value.\<close>

fun json_repr :: "(rat \<Rightarrow> string) \<Rightarrow> json \<Rightarrow> string" where
  "json_repr fl J_null = ''None''"
| "json_repr fl (J_bool b) = (if b then ''True'' else ''False'')"
| "json_repr fl (J_int i) = str_int i"
| "json_repr fl (J_float x) = fl x"
| "json_repr fl (J_str s) = py_repr s"
| "json_repr fl (J_list js) = ''['' @ py_join '', '' (map (json_repr fl) js) @ '']''"
| "json_repr fl (J_obj d) =
     ''{'' @ py_join '', '' (map (\<lambda>(k, v). py_repr k @ '': '' @ json_repr fl v) d) @ ''}''"

definition json_str :: "(rat \<Rightarrow> string) \<Rightarrow> json \<Rightarrow> string" where
  "json_str fl v = (case v of J_str s \<Rightarrow> s | _ \<Rightarrow> json_repr fl v)"

text \<open>\<open>int(v)\<close>; a float is truncated towards zero.\<close>

definition json_int :: "json \<Rightarrow> int result" where
  "json_int v = (case v of
       J_bool b \<Rightarrow> Inr (if b then 1 else 0)
     | J_int i \<Rightarrow> Inr i
     | J_float x \<Rightarrow> Inr (if 0 \<le> x then floor x else ceiling x)
     | J_str s \<Rightarrow> py_int s
     | _ \<Rightarrow> Inl (TypeError ''int() argument must be a string, a bytes-like object or a real number''))"

definition get_str :: "(rat \<Rightarrow> string) \<Rightarrow> (string \<times> json) list \<Rightarrow> string \<Rightarrow> string \<Rightarrow> string" where
  "get_str fl d k deflt = (case map_of d k of None \<Rightarrow> deflt | Some v \<Rightarrow> json_str fl v)"

definition config_from_dict :: "(rat \<Rightarrow> string) \<Rightarrow> json \<Rightarrow> runtime_config result" where
  "config_from_dict fl raw = (case raw of
       J_null \<Rightarrow> check_runtime_config default_runtime_config
     | J_obj d \<Rightarrow>
       (let extra_items = (case map_of d ''extra'' of
              Some (J_obj x) \<Rightarrow> sort (map (\<lambda>(k, v). (k, json_str fl v)) x)
            | _ \<Rightarrow> [])
        in rbind (case map_of d ''config_version'' of
               None \<Rightarrow> Inr RUNTIME_CONFIG_VERSION | Some v \<Rightarrow> json_int v) (\<lambda>version.
           check_runtime_config \<lparr>
             rc_python_version = get_str fl d ''python_version'' DEFAULT_PYTHON_VERSION,
             rc_uv_version = get_str fl d ''uv_version'' DEFAULT_UV_VERSION,
             rc_base_image = get_str fl d ''base_image'' DEFAULT_BASE_IMAGE,
             rc_base_image_revision = get_str fl d ''base_image_revision'' DEFAULT_BASE_IMAGE_REVISION,
             rc_resource_profile = get_str fl d ''resource_profile'' DEFAULT_RESOURCE_PROFILE,
             rc_config_version = version,
             rc_extra = extra_items\<rparr>))
     | _ \<Rightarrow> config_error ''Runtime configuration must be an object.'')"

subsection \<open>Canonical JSON and the fingerprint\<close>

text \<open>\<open>json.dumps\<close> with \<open>ensure_ascii\<close>, \<open>sort_keys\<close> and the separators \<open>","\<close> and \<open>":"\<close>. The keys
  of an object are distinct, so that sorting by key is what \<open>sorted(items)\<close> does. A configuration
  holds no float; the text of one is the first argument.\<close>

definition dumps_char :: "char \<Rightarrow> string" where
  "dumps_char c = (let n = of_char c :: nat in
     if n = 34 \<or> n = 92 then [CHR 0x5C, c]
     else if n = 10 then [CHR 0x5C, CHR ''n''] else if n = 13 then [CHR 0x5C, CHR ''r'']
     else if n = 9 then [CHR 0x5C, CHR ''t''] else if n = 8 then [CHR 0x5C, CHR ''b'']
     else if n = 12 then [CHR 0x5C, CHR ''f'']
     else if n < 32 \<or> 126 < n then [CHR 0x5C, CHR ''u'', CHR ''0'', CHR ''0''] @ hex2 c
     else [c])"

definition dumps_str :: "string \<Rightarrow> string" where
  "dumps_str s = [CHR 0x22] @ concat (map dumps_char s) @ [CHR 0x22]"

definition dumps_obj :: "(string \<times> string) list \<Rightarrow> string" where
  "dumps_obj kvs = ''{'' @ py_join '','' (map (\<lambda>(k, v). dumps_str k @ '':'' @ v) (sort_key fst kvs)) @ ''}''"

fun json_dumps :: "(rat \<Rightarrow> string) \<Rightarrow> json \<Rightarrow> string" where
  "json_dumps fl J_null = ''null''"
| "json_dumps fl (J_bool b) = (if b then ''true'' else ''false'')"
| "json_dumps fl (J_int i) = str_int i"
| "json_dumps fl (J_float x) = fl x"
| "json_dumps fl (J_str s) = dumps_str s"
| "json_dumps fl (J_list js) = ''['' @ py_join '','' (map (json_dumps fl) js) @ '']''"
| "json_dumps fl (J_obj d) = dumps_obj (map (\<lambda>(k, v). (k, json_dumps fl v)) d)"

definition config_payload :: "runtime_config \<Rightarrow> string" where
  "config_payload c = json_dumps (\<lambda>_. []) (config_to_dict c)"

definition fingerprint :: "(string \<Rightarrow> string) \<Rightarrow> runtime_config \<Rightarrow> string" where
  "fingerprint sha256 c = sha256 (config_payload c)"

definition environment_fingerprint :: "(string \<Rightarrow> string) \<Rightarrow> string \<Rightarrow> string option \<Rightarrow> string" where
  "environment_fingerprint sha256 config_fingerprint lockfile_digest =
     sha256 (json_dumps (\<lambda>_. []) (J_obj [(''config'', J_str config_fingerprint),
       (''lockfile'', J_str (case lockfile_digest of None \<Rightarrow> [] | Some d \<Rightarrow> d))]))"

subsection \<open>Laws of the dictionary\<close>

lemma map_of_dict_put: "map_of (dict_put k v d) = (map_of d)(k \<mapsto> v)"
  by (induction k v d rule: dict_put.induct) auto

lemma fst_dict_put: "fst ` set (dict_put k v d) = insert k (fst ` set d)"
  by (induction k v d rule: dict_put.induct) auto

lemma distinct_dict_put: "distinct (map fst d) \<Longrightarrow> distinct (map fst (dict_put k v d))"
  by (induction k v d rule: dict_put.induct) (auto simp: fst_dict_put image_iff)

lemma distinct_dict_of: "distinct (map fst (dict_of ps))"
proof -
  have "distinct (map fst d) \<Longrightarrow> distinct (map fst (fold (\<lambda>(k, v). dict_put k v) ps d))" for d
    by (induction ps arbitrary: d) (auto simp: distinct_dict_put split: prod.splits)
  then show ?thesis by (simp add: dict_of_def)
qed

lemma dict_put_new: "k \<notin> fst ` set d \<Longrightarrow> dict_put k v d = d @ [(k, v)]"
  by (induction k v d rule: dict_put.induct) auto

lemma dict_of_id: "distinct (map fst ps) \<Longrightarrow> dict_of ps = ps"
proof -
  have "distinct (map fst (d @ ps)) \<Longrightarrow> fold (\<lambda>(k, v). dict_put k v) ps d = d @ ps" for d
    by (induction ps arbitrary: d) (auto simp: dict_put_new split: prod.splits)
  then show "distinct (map fst ps) \<Longrightarrow> dict_of ps = ps" by (simp add: dict_of_def)
qed

lemma sort_by_key:
  fixes xs :: "('k :: linorder \<times> 'v :: linorder) list"
  assumes "distinct (map fst xs)"
  shows "sort xs = sort_key fst xs"
proof (rule sorted_distinct_set_unique)
  have "sorted (map fst ys) \<Longrightarrow> distinct (map fst ys) \<Longrightarrow> sorted ys" for ys :: "('k \<times> 'v) list"
    by (induction ys) (auto simp: less_eq_prod_def order_less_le image_iff)
  moreover have "sorted (map fst (sort_key fst xs)) \<and> distinct (map fst (sort_key fst xs))"
    using assms by (simp add: distinct_map)
  ultimately show "sorted (sort_key fst xs)" by blast
  show "distinct (sort xs)" "distinct (sort_key fst xs)"
    using assms by (simp_all add: distinct_map)
qed simp_all

subsection \<open>The canonical text is unambiguous\<close>

lemma hex_digit_inj: "a < 16 \<Longrightarrow> b < 16 \<Longrightarrow> hex_digit a = hex_digit b \<Longrightarrow> a = b"
proof -
  assume "a < 16" "b < 16" "hex_digit a = hex_digit b"
  then have "(of_char (hex_digit a) :: nat) = of_char (hex_digit b)" by simp
  with \<open>a < 16\<close> \<open>b < 16\<close> show "a = b"
    by (auto simp: hex_digit_def split: if_splits)
qed

lemma of_char_bound: "(of_char c :: nat) < 256"
  by (metis of_char_mod_256 mod_less_divisor zero_less_numeral)

lemma hex2_inj: "hex2 c = hex2 d \<Longrightarrow> c = d"
proof -
  let ?n = "of_char c :: nat" and ?m = "of_char d :: nat"
  assume "hex2 c = hex2 d"
  then have "hex_digit (?n div 16) = hex_digit (?m div 16)" "hex_digit (?n mod 16) = hex_digit (?m mod 16)"
    by (simp_all add: hex2_def Let_def)
  then have "?n div 16 = ?m div 16" "?n mod 16 = ?m mod 16"
    using of_char_bound [of c] of_char_bound [of d]
    by (auto intro!: hex_digit_inj simp: less_mult_imp_div_less)
  then have "?n = ?m" by (metis div_mult_mod_eq)
  then show "c = d" by simp
qed

text \<open>An escape is recognised by its first two characters, so no code is the start of another.\<close>

datatype dumps_code = Code_plain char | Code_short char | Code_hex string

definition dumps_code :: "char \<Rightarrow> dumps_code" where
  "dumps_code c = (let n = of_char c :: nat in
     if n = 34 \<or> n = 92 then Code_short c
     else if n = 10 then Code_short (CHR ''n'') else if n = 13 then Code_short (CHR ''r'')
     else if n = 9 then Code_short (CHR ''t'') else if n = 8 then Code_short (CHR ''b'')
     else if n = 12 then Code_short (CHR ''f'')
     else if n < 32 \<or> 126 < n then Code_hex (hex2 c)
     else Code_plain c)"

fun code_text :: "dumps_code \<Rightarrow> string" where
  "code_text (Code_plain c) = [c]"
| "code_text (Code_short c) = [CHR 0x5C, c]"
| "code_text (Code_hex h) = [CHR 0x5C, CHR ''u'', CHR ''0'', CHR ''0''] @ h"

fun code_ok :: "dumps_code \<Rightarrow> bool" where
  "code_ok (Code_plain c) = (c \<noteq> CHR 0x5C \<and> c \<noteq> CHR 0x22)"
| "code_ok (Code_short c) = (c \<noteq> CHR ''u'')"
| "code_ok (Code_hex h) = (length h = 2)"

lemma dumps_char_code: "dumps_char c = code_text (dumps_code c)"
  by (simp add: dumps_char_def dumps_code_def Let_def)

lemma dumps_code_ok: "code_ok (dumps_code c)"
  by (auto simp: dumps_code_def Let_def hex2_def)

lemma dumps_code_inj: "dumps_code c = dumps_code d \<Longrightarrow> c = d"
proof -
  assume "dumps_code c = dumps_code d"
  then have "(of_char c :: nat) = of_char d"
    by (simp only: dumps_code_def Let_def split: if_splits) (auto dest: hex2_inj)
  then show "c = d" by simp
qed

lemma code_text_prefix_free:
  "code_ok a \<Longrightarrow> code_ok b \<Longrightarrow> code_text a @ r = code_text b @ r' \<Longrightarrow> a = b \<and> r = r'"
  by (cases a; cases b) auto

lemma dumps_char_prefix_free: "dumps_char c @ r = dumps_char d @ r' \<Longrightarrow> c = d \<and> r = r'"
  using code_text_prefix_free [OF dumps_code_ok dumps_code_ok] dumps_code_inj
  by (metis dumps_char_code)

lemma dumps_char_not_quote: "dumps_char c @ r \<noteq> CHR 0x22 # r'"
  using dumps_code_ok [of c] by (cases "dumps_code c") (auto simp: dumps_char_code)

lemma dumps_str_prefix_free: "dumps_str s @ r = dumps_str t @ r' \<Longrightarrow> s = t \<and> r = r'"
proof -
  have "concat (map dumps_char s) @ CHR 0x22 # r = concat (map dumps_char t) @ CHR 0x22 # r'
      \<Longrightarrow> s = t \<and> r = r'"
  proof (induction s arbitrary: t)
    case Nil
    then show ?case by (cases t) (auto dest!: dumps_char_not_quote [THEN notE, OF sym])
  next
    case (Cons c s)
    then show ?case
      by (cases t) (auto dest!: dumps_char_prefix_free simp: dumps_char_not_quote)
  qed
  then show "dumps_str s @ r = dumps_str t @ r' \<Longrightarrow> s = t \<and> r = r'" by (simp add: dumps_str_def)
qed

lemma pairs_prefix_free:
  fixes xs ys :: "(string \<times> string) list"
  defines "item \<equiv> \<lambda>(k, v). dumps_str k @ '':'' @ dumps_str v"
  shows "py_join '','' (map item xs) @ ''}'' @ r = py_join '','' (map item ys) @ ''}'' @ r'
    \<Longrightarrow> xs = ys \<and> r = r'"
proof -
  have quote: "item p @ u \<noteq> CHR ''}'' # u'" "CHR ''}'' # u' \<noteq> item p @ u" for p u u'
    by (simp_all add: item_def dumps_str_def split: prod.splits)
  have free: "item p @ u = item q @ u' \<Longrightarrow> p = q \<and> u = u'" for p q u u'
    by (auto simp: item_def split: prod.splits dest!: dumps_str_prefix_free)
  have rest: "concat (map (\<lambda>y. '','' @ item y) ps) @ ''}'' @ r
      = concat (map (\<lambda>y. '','' @ item y) qs) @ ''}'' @ r' \<Longrightarrow> ps = qs \<and> r = r'" for ps qs
  proof (induction ps arbitrary: qs)
    case Nil
    then show ?case by (cases qs) auto
  next
    case (Cons p ps)
    then show ?case by (cases qs) (auto dest!: free)
  qed
  assume eq: "py_join '','' (map item xs) @ ''}'' @ r = py_join '','' (map item ys) @ ''}'' @ r'"
  show "xs = ys \<and> r = r'"
  proof (cases xs)
    case Nil
    with eq show ?thesis
      by (cases ys) (auto simp: py_join_def quote)
  next
    case (Cons x xs')
    with eq show ?thesis
    proof (cases ys)
      case Nil
      with eq Cons show ?thesis
        by (auto simp: py_join_def quote)
    next
      case (Cons y ys')
      with eq \<open>xs = x # xs'\<close> show ?thesis
        using rest [of xs' ys'] by (auto simp: py_join_def o_def dest!: free)
    qed
  qed
qed

text \<open>A configuration as it is compared and stored: the entries of \<open>extra\<close> as a dictionary, sorted.\<close>

definition canonical_config :: "runtime_config \<Rightarrow> runtime_config" where
  "canonical_config c = c\<lparr>rc_extra := sort (dict_of (rc_extra c))\<rparr>"

lemma insort_key_map: "insort_key g (f x) (map f xs) = map f (insort_key (\<lambda>x. g (f x)) x xs)"
  by (induction xs) auto

lemma sort_key_map: "sort_key g (map f xs) = map f (sort_key (\<lambda>x. g (f x)) xs)"
  by (induction xs) (simp_all add: insort_key_map)

definition extra_text :: "(string \<times> string) list \<Rightarrow> string" where
  "extra_text e = py_join '','' (map (\<lambda>(k, v). dumps_str k @ '':'' @ dumps_str v) e)"

lemma extra_payload:
  "json_dumps fl (J_obj (map (\<lambda>(k, v). (k, J_str v)) (dict_of e)))
   = ''{'' @ extra_text (sort (dict_of e)) @ ''}''"
proof -
  have "(\<lambda>x. fst ((\<lambda>(k, v). (k, dumps_str v)) x)) = fst" for x :: "string \<times> string"
    by auto
  then show ?thesis
    by (simp add: dumps_obj_def extra_text_def sort_key_map sort_by_key [OF distinct_dict_of] o_def
        case_prod_beta cong: map_cong)
qed

text \<open>The members in the order of their keys.\<close>

lemma config_payload_text:
  "config_payload c = ''{'' @ dumps_str ''base_image'' @ '':'' @ dumps_str (rc_base_image c)
     @ '','' @ dumps_str ''base_image_revision'' @ '':'' @ dumps_str (rc_base_image_revision c)
     @ '','' @ dumps_str ''config_version'' @ '':'' @ str_int (rc_config_version c)
     @ '','' @ dumps_str ''extra'' @ '':'' @ ''{'' @ extra_text (sort (dict_of (rc_extra c))) @ ''}''
     @ '','' @ dumps_str ''python_version'' @ '':'' @ dumps_str (rc_python_version c)
     @ '','' @ dumps_str ''resource_profile'' @ '':'' @ dumps_str (rc_resource_profile c)
     @ '','' @ dumps_str ''uv_version'' @ '':'' @ dumps_str (rc_uv_version c) @ ''}''"
proof -
  define x where "x = J_obj (map (\<lambda>(k, v). (k, J_str v)) (dict_of (rc_extra c)))"
  have "config_payload c = dumps_obj [(''python_version'', dumps_str (rc_python_version c)),
      (''uv_version'', dumps_str (rc_uv_version c)), (''base_image'', dumps_str (rc_base_image c)),
      (''base_image_revision'', dumps_str (rc_base_image_revision c)),
      (''resource_profile'', dumps_str (rc_resource_profile c)),
      (''config_version'', str_int (rc_config_version c)), (''extra'', json_dumps (\<lambda>_. []) x)]"
    by (simp add: config_payload_def config_to_dict_def flip: x_def)
  moreover have "json_dumps (\<lambda>_. []) x = ''{'' @ extra_text (sort (dict_of (rc_extra c))) @ ''}''"
    by (simp only: x_def extra_payload)
  ultimately show ?thesis
    by (simp add: dumps_obj_def py_join_def less_char_def)
qed

lemma str_int_chars: "c \<in> set (str_int i) \<Longrightarrow> c \<noteq> CHR '',''"
proof -
  have "CHR '','' \<notin> set (str_nat n)" for n
    using str_nat_digits [of n] by (auto simp: is_digit_def)
  then show "c \<in> set (str_int i) \<Longrightarrow> c \<noteq> CHR '',''" by (auto simp: str_int_def split: if_splits)
qed

lemma until_comma:
  assumes "CHR '','' \<notin> set a" "CHR '','' \<notin> set b" "a @ '','' @ r = b @ '','' @ r'"
  shows "a = b \<and> r = r'"
proof -
  let ?p = "\<lambda>c. c \<noteq> CHR '',''"
  have "takeWhile ?p (a @ '','' @ r) = a" "takeWhile ?p (b @ '','' @ r') = b"
    using assms(1,2) by (subst takeWhile_append2; auto)+
  with assms(3) show ?thesis by simp
qed

lemma dumps_str_inj: "dumps_str s = dumps_str t \<Longrightarrow> s = t"
  using dumps_str_prefix_free [of s "[]" t "[]"] by simp

lemma config_payload_inj:
  assumes "config_payload c = config_payload c'"
  shows "canonical_config c = canonical_config c'"
proof -
  note eq = assms [unfolded config_payload_text append_assoc append_Cons append_Nil list.inject]
  note str = dumps_str_prefix_free
  have b: "rc_base_image c = rc_base_image c'" and r: "rc_base_image_revision c = rc_base_image_revision c'"
    using eq by (auto dest!: str)
  from eq b r have "str_int (rc_config_version c) @ '','' @ dumps_str ''extra'' @ '':'' @ ''{''
       @ extra_text (sort (dict_of (rc_extra c))) @ ''}''
       @ '','' @ dumps_str ''python_version'' @ '':'' @ dumps_str (rc_python_version c)
       @ '','' @ dumps_str ''resource_profile'' @ '':'' @ dumps_str (rc_resource_profile c)
       @ '','' @ dumps_str ''uv_version'' @ '':'' @ dumps_str (rc_uv_version c) @ ''}''
     = str_int (rc_config_version c') @ '','' @ dumps_str ''extra'' @ '':'' @ ''{''
       @ extra_text (sort (dict_of (rc_extra c'))) @ ''}''
       @ '','' @ dumps_str ''python_version'' @ '':'' @ dumps_str (rc_python_version c')
       @ '','' @ dumps_str ''resource_profile'' @ '':'' @ dumps_str (rc_resource_profile c')
       @ '','' @ dumps_str ''uv_version'' @ '':'' @ dumps_str (rc_uv_version c') @ ''}''"
    by simp
  from until_comma [OF _ _ this] have v: "str_int (rc_config_version c) = str_int (rc_config_version c')"
    and x: "extra_text (sort (dict_of (rc_extra c))) @ ''}''
       @ '','' @ dumps_str ''python_version'' @ '':'' @ dumps_str (rc_python_version c)
       @ '','' @ dumps_str ''resource_profile'' @ '':'' @ dumps_str (rc_resource_profile c)
       @ '','' @ dumps_str ''uv_version'' @ '':'' @ dumps_str (rc_uv_version c) @ ''}''
     = extra_text (sort (dict_of (rc_extra c'))) @ ''}''
       @ '','' @ dumps_str ''python_version'' @ '':'' @ dumps_str (rc_python_version c')
       @ '','' @ dumps_str ''resource_profile'' @ '':'' @ dumps_str (rc_resource_profile c')
       @ '','' @ dumps_str ''uv_version'' @ '':'' @ dumps_str (rc_uv_version c') @ ''}''"
    using str_int_chars by auto
  from pairs_prefix_free [OF x [unfolded extra_text_def]]
  have "sort (dict_of (rc_extra c)) = sort (dict_of (rc_extra c'))"
    "rc_python_version c = rc_python_version c'" "rc_resource_profile c = rc_resource_profile c'"
    "rc_uv_version c = rc_uv_version c'"
    by (auto dest!: str dumps_str_inj)
  with b r str_int_inj [OF v] show ?thesis by (simp add: canonical_config_def)
qed

subsection \<open>Storage\<close>

lemma canonical_payload: "config_payload (canonical_config c) = config_payload c"
proof -
  have "distinct (map fst (sort (dict_of (rc_extra c))))"
    by (simp add: sort_by_key distinct_dict_of distinct_map)
      (metis distinct_dict_of distinct_map)
  then have "sort (dict_of (sort (dict_of (rc_extra c)))) = sort (dict_of (rc_extra c))"
    by (simp add: dict_of_id sorted_sort_id)
  then show ?thesis by (simp add: config_payload_text canonical_config_def)
qed

lemma check_canonical:
  "check_runtime_config c = Inr c \<Longrightarrow> check_runtime_config (canonical_config c) = Inr (canonical_config c)"
  by (auto simp: check_runtime_config_def canonical_config_def config_error_def rbind_Inr_iff
      split: if_splits)

lemma config_read:
  assumes "check_runtime_config c = Inr c"
  shows "config_from_dict fl (config_to_dict c) = Inr (canonical_config c)"
proof -
  have "map ((\<lambda>(k, v). (k, json_str fl v)) \<circ> (\<lambda>(k, v). (k, J_str v))) xs = xs" for xs :: "(string \<times> string) list"
    by (induction xs) (auto simp: json_str_def)
  then have "config_from_dict fl (config_to_dict c) = check_runtime_config (canonical_config c)"
    by (cases c) (simp add: config_from_dict_def config_to_dict_def get_str_def json_int_def json_str_def
        canonical_config_def)
  then show ?thesis by (simp add: check_canonical [OF assms])
qed

lemma canonical_idem: "canonical_config (canonical_config c) = canonical_config c"
  by (rule config_payload_inj) (rule canonical_payload)

text \<open>a configuration that was accepted, written to the \<open>runtime_config\<close> column and read back is the
  configuration with its \<open>extra\<close> entries as a sorted dictionary, and it has the same fingerprint: a
  workspace loaded from the database describes the environment it was created with.\<close>

theorem config_survives_storage:
  assumes "check_runtime_config c = Inr c"
  shows "config_from_dict fl (config_to_dict c) = Inr (canonical_config c)
    \<and> fingerprint sha256 (canonical_config c) = fingerprint sha256 c
    \<and> image_ref (canonical_config c) = image_ref c"
  using config_read [OF assms]
  by (simp add: fingerprint_def canonical_payload) (simp add: image_ref_def canonical_config_def)

definition sample_config :: runtime_config where
  "sample_config = default_runtime_config\<lparr>rc_extra := [(''pin'', ''b''), (''digest'', ''x''), (''pin'', ''a'')]\<rparr>"

lemma sample_config_ok: "check_runtime_config sample_config = Inr sample_config"
  by (simp add: check_runtime_config_def sample_config_def default_runtime_config_def
      SUPPORTED_PYTHON_VERSIONS_def DEFAULT_PYTHON_VERSION_def DEFAULT_UV_VERSION_def
      DEFAULT_BASE_IMAGE_def DEFAULT_BASE_IMAGE_REVISION_def DEFAULT_RESOURCE_PROFILE_def
      RUNTIME_CONFIG_VERSION_def RESOURCE_PROFILES_def resolve_profile_def blank_def py_strip_def
      is_space_def)

theorem config_survives_storage_witness:
  "config_from_dict (\<lambda>_. []) (config_to_dict sample_config)
     = Inr (default_runtime_config\<lparr>rc_extra := [(''digest'', ''x''), (''pin'', ''a'')]\<rparr>)"
  using config_survives_storage [OF sample_config_ok, of "\<lambda>_. []" "\<lambda>s. s"]
  by (simp add: canonical_config_def sample_config_def dict_of_def less_char_def less_eq_prod_def)

text \<open>when the digest function does not collide on the two canonical texts, two configurations have
  the same fingerprint exactly if they ask for the same environment: the same interpreter, \<open>uv\<close>, base
  image and revision, profile, version and \<open>extra\<close> dictionary, whatever the order its entries were
  given in.\<close>

theorem fingerprint_identifies_environment:
  assumes "sha256 (config_payload c) = sha256 (config_payload c') \<Longrightarrow> config_payload c = config_payload c'"
  shows "fingerprint sha256 c = fingerprint sha256 c' \<longleftrightarrow> canonical_config c = canonical_config c'"
proof
  assume "fingerprint sha256 c = fingerprint sha256 c'"
  then show "canonical_config c = canonical_config c'"
    unfolding fingerprint_def by (rule config_payload_inj [OF assms])
next
  assume "canonical_config c = canonical_config c'"
  then show "fingerprint sha256 c = fingerprint sha256 c'"
    unfolding fingerprint_def by (metis canonical_payload)
qed

theorem fingerprint_identifies_environment_witness:
  "fingerprint (\<lambda>s. s) sample_config \<noteq> fingerprint (\<lambda>s. s) default_runtime_config"
proof -
  have "canonical_config sample_config \<noteq> canonical_config default_runtime_config"
    by (simp add: canonical_config_def sample_config_def default_runtime_config_def dict_of_def)
  moreover have "fingerprint (\<lambda>s. s) sample_config = fingerprint (\<lambda>s. s) default_runtime_config
      \<longleftrightarrow> canonical_config sample_config = canonical_config default_runtime_config"
    by (rule fingerprint_identifies_environment)
  ultimately show ?thesis by blast
qed

end
