(* ===== verification/Workspace_Domain.thy ===== *)
theory Workspace_Domain
  imports Conversion_Job Runtime_Config
begin

section \<open>Workspaces, runtimes, executions and image revisions\<close>

text \<open>
  Models \<open>src/domain/workspaces/\<close>: the four lifecycle tables, the closed set of \<open>uv\<close> project
  operations, and the four entities with every method. A method that raises leaves its object as it
  was: every check comes before the first assignment. Times are instants in microseconds; the argument
  \<open>t\<close> is the value of \<open>at or datetime.now(UTC)\<close>. The ellipsis of the truncation notice, U+2026, is the
  single character \<open>ellipsis\<close>.

  Proved: each status follows its table and the terminal states absorb; the invariants of an execution
  and of a runtime along any history of method calls; output excerpts are bounded; a project operation
  that is accepted carries no option.
\<close>

subsection \<open>Lifecycle tables\<close>

datatype workspace_state = Ws_ACTIVE | Ws_ARCHIVED | Ws_DELETING

fun workspace_state_value :: "workspace_state \<Rightarrow> string" where
  "workspace_state_value Ws_ACTIVE = ''ACTIVE''"
| "workspace_state_value Ws_ARCHIVED = ''ARCHIVED''"
| "workspace_state_value Ws_DELETING = ''DELETING''"

fun ALLOWED_WORKSPACE_TRANSITIONS :: "workspace_state \<Rightarrow> workspace_state list" where
  "ALLOWED_WORKSPACE_TRANSITIONS Ws_ACTIVE = [Ws_ARCHIVED, Ws_DELETING]"
| "ALLOWED_WORKSPACE_TRANSITIONS Ws_ARCHIVED = [Ws_ACTIVE, Ws_DELETING]"
| "ALLOWED_WORKSPACE_TRANSITIONS Ws_DELETING = [Ws_ARCHIVED]"

definition workspace_can_transition :: "workspace_state \<Rightarrow> workspace_state \<Rightarrow> bool" where
  "workspace_can_transition current target = (target \<in> set (ALLOWED_WORKSPACE_TRANSITIONS current))"

definition state_accepts_executions :: "workspace_state \<Rightarrow> bool" where
  "state_accepts_executions st = (st \<in> set [Ws_ACTIVE])"

datatype runtime_state = Rt_STOPPED | Rt_STARTING | Rt_RUNNING | Rt_STOPPING | Rt_FAILED

fun runtime_state_value :: "runtime_state \<Rightarrow> string" where
  "runtime_state_value Rt_STOPPED = ''STOPPED''"
| "runtime_state_value Rt_STARTING = ''STARTING''"
| "runtime_state_value Rt_RUNNING = ''RUNNING''"
| "runtime_state_value Rt_STOPPING = ''STOPPING''"
| "runtime_state_value Rt_FAILED = ''FAILED''"

fun ALLOWED_RUNTIME_TRANSITIONS :: "runtime_state \<Rightarrow> runtime_state list" where
  "ALLOWED_RUNTIME_TRANSITIONS Rt_STOPPED = [Rt_STARTING]"
| "ALLOWED_RUNTIME_TRANSITIONS Rt_STARTING = [Rt_RUNNING, Rt_STOPPING, Rt_FAILED]"
| "ALLOWED_RUNTIME_TRANSITIONS Rt_RUNNING = [Rt_STOPPING, Rt_FAILED]"
| "ALLOWED_RUNTIME_TRANSITIONS Rt_STOPPING = [Rt_STOPPED, Rt_FAILED]"
| "ALLOWED_RUNTIME_TRANSITIONS Rt_FAILED = [Rt_STARTING, Rt_STOPPED]"

definition runtime_can_transition :: "runtime_state \<Rightarrow> runtime_state \<Rightarrow> bool" where
  "runtime_can_transition current target = (target \<in> set (ALLOWED_RUNTIME_TRANSITIONS current))"

definition state_is_serving :: "runtime_state \<Rightarrow> bool" where
  "state_is_serving st = (st = Rt_RUNNING)"

datatype execution_status =
  Exec_QUEUED | Exec_RUNNING | Exec_SUCCEEDED | Exec_FAILED | Exec_CANCELLED | Exec_TIMED_OUT

fun execution_status_value :: "execution_status \<Rightarrow> string" where
  "execution_status_value Exec_QUEUED = ''QUEUED''"
| "execution_status_value Exec_RUNNING = ''RUNNING''"
| "execution_status_value Exec_SUCCEEDED = ''SUCCEEDED''"
| "execution_status_value Exec_FAILED = ''FAILED''"
| "execution_status_value Exec_CANCELLED = ''CANCELLED''"
| "execution_status_value Exec_TIMED_OUT = ''TIMED_OUT''"

fun ALLOWED_EXECUTION_TRANSITIONS :: "execution_status \<Rightarrow> execution_status list" where
  "ALLOWED_EXECUTION_TRANSITIONS Exec_QUEUED = [Exec_RUNNING, Exec_CANCELLED, Exec_FAILED]"
| "ALLOWED_EXECUTION_TRANSITIONS Exec_RUNNING =
     [Exec_SUCCEEDED, Exec_FAILED, Exec_CANCELLED, Exec_TIMED_OUT]"
| "ALLOWED_EXECUTION_TRANSITIONS _ = []"

definition TERMINAL_EXECUTION_STATUSES :: "execution_status list" where
  "TERMINAL_EXECUTION_STATUSES = [Exec_SUCCEEDED, Exec_FAILED, Exec_CANCELLED, Exec_TIMED_OUT]"

definition execution_can_transition :: "execution_status \<Rightarrow> execution_status \<Rightarrow> bool" where
  "execution_can_transition current target = (target \<in> set (ALLOWED_EXECUTION_TRANSITIONS current))"

definition status_is_terminal :: "execution_status \<Rightarrow> bool" where
  "status_is_terminal st = (st \<in> set TERMINAL_EXECUTION_STATUSES)"

datatype image_revision_status = Rev_PENDING | Rev_BUILDING | Rev_READY | Rev_FAILED

fun image_revision_status_value :: "image_revision_status \<Rightarrow> string" where
  "image_revision_status_value Rev_PENDING = ''PENDING''"
| "image_revision_status_value Rev_BUILDING = ''BUILDING''"
| "image_revision_status_value Rev_READY = ''READY''"
| "image_revision_status_value Rev_FAILED = ''FAILED''"

fun ALLOWED_IMAGE_REVISION_TRANSITIONS :: "image_revision_status \<Rightarrow> image_revision_status list" where
  "ALLOWED_IMAGE_REVISION_TRANSITIONS Rev_PENDING = [Rev_BUILDING, Rev_FAILED]"
| "ALLOWED_IMAGE_REVISION_TRANSITIONS Rev_BUILDING = [Rev_READY, Rev_FAILED]"
| "ALLOWED_IMAGE_REVISION_TRANSITIONS _ = []"

definition revision_can_transition :: "image_revision_status \<Rightarrow> image_revision_status \<Rightarrow> bool" where
  "revision_can_transition current target = (target \<in> set (ALLOWED_IMAGE_REVISION_TRANSITIONS current))"

definition status_is_usable :: "image_revision_status \<Rightarrow> bool" where
  "status_is_usable st = (st = Rev_READY)"

datatype execution_mode = Mode_SCRIPT | Mode_COMMAND | Mode_PROJECT

fun execution_mode_value :: "execution_mode \<Rightarrow> string" where
  "execution_mode_value Mode_SCRIPT = ''SCRIPT''"
| "execution_mode_value Mode_COMMAND = ''COMMAND''"
| "execution_mode_value Mode_PROJECT = ''PROJECT''"

subsection \<open>The workspace\<close>

definition MAX_NAME_LENGTH :: nat where "MAX_NAME_LENGTH = 80"
definition MAX_DESCRIPTION_LENGTH :: nat where "MAX_DESCRIPTION_LENGTH = 400"

definition workspace_error :: "string \<Rightarrow> 'a result" where
  "workspace_error m = Inl (AppError InvalidWorkspaceError m)"

definition validate_name :: "string option \<Rightarrow> string result" where
  "validate_name raw = (case raw of
       None \<Rightarrow> workspace_error ''A workspace name is required.''
     | Some s \<Rightarrow>
       (let name = py_join '' '' (py_split s) in
        if name = [] then workspace_error ''A workspace name is required.''
        else if MAX_NAME_LENGTH < length name
        then workspace_error (''A workspace name may be at most '' @ str_int (int MAX_NAME_LENGTH)
               @ '' characters.'')
        else Inr name))"

definition validate_description :: "string option \<Rightarrow> string result" where
  "validate_description raw = (case raw of
       None \<Rightarrow> Inr []
     | Some s \<Rightarrow>
       (let description = py_strip s in
        if MAX_DESCRIPTION_LENGTH < length description
        then workspace_error (''A workspace description may be at most ''
               @ str_int (int MAX_DESCRIPTION_LENGTH) @ '' characters.'')
        else Inr description))"

record workspace =
  ws_workspace_id :: string
  ws_user_id :: int
  ws_name :: string
  ws_runtime_config :: runtime_config
  ws_description :: string
  ws_state :: workspace_state
  ws_created_at :: "int option"
  ws_updated_at :: "int option"
  ws_last_activity_at :: "int option"
  ws_execution_count :: int

text \<open>The constructor: the fields as given, then \<open>__post_init__\<close>.\<close>

definition new_workspace :: "workspace \<Rightarrow> workspace result" where
  "new_workspace w =
     rbind (validate_name (Some (ws_name w))) (\<lambda>name.
     rbind (validate_description (Some (ws_description w))) (\<lambda>description.
     if ws_execution_count w < 0 then workspace_error ''execution_count cannot be negative.''
     else Inr (w\<lparr>ws_name := name, ws_description := description\<rparr>)))"

definition workspace_transition :: "workspace \<Rightarrow> workspace_state \<Rightarrow> workspace result" where
  "workspace_transition w target =
     (if \<not> workspace_can_transition (ws_state w) target
      then workspace_error (''Cannot move a workspace from '' @ workspace_state_value (ws_state w)
             @ '' to '' @ workspace_state_value target @ ''.'')
      else Inr (w\<lparr>ws_state := target\<rparr>))"

definition workspace_archive :: "workspace \<Rightarrow> workspace result" where
  "workspace_archive w = workspace_transition w Ws_ARCHIVED"

definition workspace_reactivate :: "workspace \<Rightarrow> workspace result" where
  "workspace_reactivate w = workspace_transition w Ws_ACTIVE"

definition workspace_begin_delete :: "workspace \<Rightarrow> workspace result" where
  "workspace_begin_delete w = workspace_transition w Ws_DELETING"

definition workspace_abort_delete :: "workspace \<Rightarrow> workspace result" where
  "workspace_abort_delete w = workspace_transition w Ws_ARCHIVED"

definition accepts_executions :: "workspace \<Rightarrow> bool" where
  "accepts_executions w = state_accepts_executions (ws_state w)"

definition workspace_rename :: "string \<Rightarrow> workspace \<Rightarrow> workspace result" where
  "workspace_rename name w = rbind (validate_name (Some name)) (\<lambda>n. Inr (w\<lparr>ws_name := n\<rparr>))"

definition workspace_update_description :: "string option \<Rightarrow> workspace \<Rightarrow> workspace result" where
  "workspace_update_description description w =
     rbind (validate_description description) (\<lambda>d. Inr (w\<lparr>ws_description := d\<rparr>))"

definition workspace_update_runtime_config :: "runtime_config \<Rightarrow> workspace \<Rightarrow> workspace" where
  "workspace_update_runtime_config config w = w\<lparr>ws_runtime_config := config\<rparr>"

definition workspace_touch :: "int \<Rightarrow> workspace \<Rightarrow> workspace" where
  "workspace_touch t w = w\<lparr>ws_last_activity_at := Some t\<rparr>"

subsection \<open>The runtime\<close>

record workspace_runtime =
  rt_runtime_id :: string
  rt_workspace_id :: string
  rt_provider :: string
  rt_state :: runtime_state
  rt_provider_ref :: "string option"
  rt_image_revision_id :: "string option"
  rt_resource_profile :: string
  rt_failure_reason :: "string option"
  rt_created_at :: "int option"
  rt_started_at :: "int option"
  rt_stopped_at :: "int option"
  rt_last_activity_at :: "int option"
  rt_provider_metadata :: "(string \<times> json) list"

definition new_runtime :: "string \<Rightarrow> string \<Rightarrow> string \<Rightarrow> string \<Rightarrow> workspace_runtime" where
  "new_runtime runtime_id workspace_id provider resource_profile =
     \<lparr>rt_runtime_id = runtime_id, rt_workspace_id = workspace_id, rt_provider = provider,
      rt_state = Rt_STOPPED, rt_provider_ref = None, rt_image_revision_id = None,
      rt_resource_profile = resource_profile, rt_failure_reason = None, rt_created_at = None,
      rt_started_at = None, rt_stopped_at = None, rt_last_activity_at = None,
      rt_provider_metadata = []\<rparr>"

definition runtime_transition :: "workspace_runtime \<Rightarrow> runtime_state \<Rightarrow> workspace_runtime result" where
  "runtime_transition r target =
     (if \<not> runtime_can_transition (rt_state r) target
      then Inl (AppError InvalidRuntimeTransition (''Cannot move runtime '' @ rt_runtime_id r
             @ '' from '' @ runtime_state_value (rt_state r) @ '' to ''
             @ runtime_state_value target @ ''.''))
      else Inr (r\<lparr>rt_state := target\<rparr>))"

definition runtime_begin_start :: "workspace_runtime \<Rightarrow> workspace_runtime result" where
  "runtime_begin_start r =
     rbind (runtime_transition r Rt_STARTING) (\<lambda>r. Inr (r\<lparr>rt_failure_reason := None\<rparr>))"

definition runtime_mark_running :: "string \<Rightarrow> string option \<Rightarrow> int \<Rightarrow> workspace_runtime \<Rightarrow>
    workspace_runtime result" where
  "runtime_mark_running provider_ref image_revision_id now r =
     rbind (runtime_transition r Rt_RUNNING) (\<lambda>r. Inr (r\<lparr>rt_provider_ref := Some provider_ref,
       rt_image_revision_id := image_revision_id, rt_started_at := Some now,
       rt_last_activity_at := Some now, rt_failure_reason := None\<rparr>))"

definition runtime_begin_stop :: "workspace_runtime \<Rightarrow> workspace_runtime result" where
  "runtime_begin_stop r = runtime_transition r Rt_STOPPING"

definition runtime_mark_stopped :: "int \<Rightarrow> workspace_runtime \<Rightarrow> workspace_runtime result" where
  "runtime_mark_stopped now r =
     rbind (runtime_transition r Rt_STOPPED) (\<lambda>r. Inr (r\<lparr>rt_stopped_at := Some now\<rparr>))"

definition runtime_mark_failed :: "string \<Rightarrow> workspace_runtime \<Rightarrow> workspace_runtime result" where
  "runtime_mark_failed reason r =
     (if rt_state r = Rt_FAILED then Inr (r\<lparr>rt_failure_reason := Some reason\<rparr>)
      else rbind (runtime_transition r Rt_FAILED) (\<lambda>r. Inr (r\<lparr>rt_failure_reason := Some reason\<rparr>)))"

definition runtime_touch :: "int \<Rightarrow> workspace_runtime \<Rightarrow> workspace_runtime" where
  "runtime_touch t r = r\<lparr>rt_last_activity_at := Some t\<rparr>"

definition is_serving :: "workspace_runtime \<Rightarrow> bool" where
  "is_serving r = state_is_serving (rt_state r)"

definition needs_provider_start :: "workspace_runtime \<Rightarrow> bool" where
  "needs_provider_start r = (rt_state r \<in> set [Rt_STOPPED, Rt_FAILED])"

subsection \<open>The image revision\<close>

definition MAX_ERROR_LENGTH :: nat where "MAX_ERROR_LENGTH = 1000"

record runtime_image_revision =
  rv_revision_id :: string
  rv_workspace_id :: string
  rv_provider :: string
  rv_config_fingerprint :: string
  rv_base_image_revision :: string
  rv_status :: image_revision_status
  rv_provider_snapshot_ref :: "string option"
  rv_created_at :: "int option"
  rv_ready_at :: "int option"
  rv_error :: "string option"
  rv_validation_metadata :: "(string \<times> json) list"

definition new_revision :: "string \<Rightarrow> string \<Rightarrow> string \<Rightarrow> string \<Rightarrow> string \<Rightarrow> runtime_image_revision" where
  "new_revision revision_id workspace_id provider config_fingerprint base_image_revision =
     \<lparr>rv_revision_id = revision_id, rv_workspace_id = workspace_id, rv_provider = provider,
      rv_config_fingerprint = config_fingerprint, rv_base_image_revision = base_image_revision,
      rv_status = Rev_PENDING, rv_provider_snapshot_ref = None, rv_created_at = None,
      rv_ready_at = None, rv_error = None, rv_validation_metadata = []\<rparr>"

definition revision_transition :: "runtime_image_revision \<Rightarrow> image_revision_status \<Rightarrow>
    runtime_image_revision result" where
  "revision_transition v target =
     (if \<not> revision_can_transition (rv_status v) target
      then Inl (AppError InvalidRuntimeTransition (''Cannot move image revision '' @ rv_revision_id v
             @ '' from '' @ image_revision_status_value (rv_status v) @ '' to ''
             @ image_revision_status_value target @ ''.''))
      else Inr (v\<lparr>rv_status := target\<rparr>))"

definition revision_mark_building :: "runtime_image_revision \<Rightarrow> runtime_image_revision result" where
  "revision_mark_building v = revision_transition v Rev_BUILDING"

text \<open>\<open>dict.update\<close>.\<close>

definition dict_update :: "('k \<times> 'v) list \<Rightarrow> ('k \<times> 'v) list \<Rightarrow> ('k \<times> 'v) list" where
  "dict_update d d' = fold (\<lambda>(k, v). dict_put k v) d' d"

definition revision_mark_ready :: "string \<Rightarrow> (string \<times> json) list \<Rightarrow> int \<Rightarrow> runtime_image_revision \<Rightarrow>
    runtime_image_revision result" where
  "revision_mark_ready provider_snapshot_ref metadata now v =
     (if provider_snapshot_ref = []
      then Inl (AppError InvalidRuntimeTransition
             ''A ready image revision requires a provider snapshot reference.'')
      else rbind (revision_transition v Rev_READY) (\<lambda>v. Inr (v\<lparr>
        rv_provider_snapshot_ref := Some provider_snapshot_ref,
        rv_validation_metadata := dict_update (rv_validation_metadata v) metadata,
        rv_ready_at := Some now\<rparr>)))"

definition revision_mark_failed :: "string \<Rightarrow> runtime_image_revision \<Rightarrow> runtime_image_revision result" where
  "revision_mark_failed error v =
     (let message = take MAX_ERROR_LENGTH (if error = [] then ''Snapshot creation failed.'' else error) in
      if rv_status v = Rev_FAILED then Inr (v\<lparr>rv_error := Some message\<rparr>)
      else rbind (revision_transition v Rev_FAILED) (\<lambda>v. Inr (v\<lparr>rv_error := Some message\<rparr>)))"

text \<open>The truth value of an optional string.\<close>

definition truthy :: "string option \<Rightarrow> bool" where
  "truthy s = (s \<noteq> None \<and> s \<noteq> Some [])"

definition is_usable :: "runtime_image_revision \<Rightarrow> bool" where
  "is_usable v = (status_is_usable (rv_status v) \<and> truthy (rv_provider_snapshot_ref v))"

definition revision_matches :: "string \<Rightarrow> string \<Rightarrow> runtime_image_revision \<Rightarrow> bool" where
  "revision_matches config_fingerprint base_image_revision v =
     (rv_config_fingerprint v = config_fingerprint \<and> rv_base_image_revision v = base_image_revision)"

subsection \<open>The execution\<close>

definition MAX_SOURCE_CHARS :: nat where "MAX_SOURCE_CHARS = 200000"
definition EXCERPT_LIMIT_CHARS :: int where "EXCERPT_LIMIT_CHARS = 8000"

definition ellipsis :: char where "ellipsis = CHR 0x85"

text \<open>\<open>text[k:]\<close> for \<open>k \<ge> 0\<close>: empty from the end on.\<close>

definition bound_output :: "string \<Rightarrow> int \<Rightarrow> (string \<times> bool) result" where
  "bound_output txt limit =
     (if limit \<le> 0 then Inl (ValueError ''limit must be positive'')
      else if int (length txt) \<le> limit then Inr (txt, False)
      else (let full = [ellipsis] @ '' [truncated; '' @ str_int (int (length txt) - limit)
                  @ '' earlier characters omitted]'' @ [CHR 0x0A];
                marker = (if limit \<le> int (length full) then [ellipsis, CHR 0x0A] else full);
                keep = limit - int (length marker)
            in Inr (marker @ drop (nat (int (length txt) - keep)) txt, True)))"

record execution_artifact =
  ar_path :: string
  ar_size_bytes :: int
  ar_object_key :: "string option"
  ar_content_type :: string

definition DEFAULT_CONTENT_TYPE :: string where
  "DEFAULT_CONTENT_TYPE = ''application/octet-stream''"

definition artifact_to_dict :: "execution_artifact \<Rightarrow> json" where
  "artifact_to_dict a = J_obj [(''path'', J_str (ar_path a)), (''size_bytes'', J_int (ar_size_bytes a)),
     (''object_key'', case ar_object_key a of None \<Rightarrow> J_null | Some k \<Rightarrow> J_str k),
     (''content_type'', J_str (ar_content_type a))]"

record execution =
  ex_execution_id :: string
  ex_workspace_id :: string
  ex_user_id :: int
  ex_mode :: execution_mode
  ex_source :: string
  ex_status :: execution_status
  ex_runtime_id :: "string option"
  ex_created_at :: "int option"
  ex_started_at :: "int option"
  ex_completed_at :: "int option"
  ex_exit_code :: "int option"
  ex_stdout_excerpt :: string
  ex_stderr_excerpt :: string
  ex_stdout_ref :: "string option"
  ex_stderr_ref :: "string option"
  ex_stdout_truncated :: bool
  ex_stderr_truncated :: bool
  ex_error :: "string option"
  ex_artifacts :: "execution_artifact list"
  ex_duration_ms :: int
  ex_memory_peak_bytes :: int
  ex_idempotency_key :: "string option"
  ex_origin :: job_origin

text \<open>The constructor with its defaults, and the checks of \<open>__post_init__\<close> it runs.\<close>

definition blank_execution :: "string \<Rightarrow> string \<Rightarrow> int \<Rightarrow> execution_mode \<Rightarrow> string \<Rightarrow> execution" where
  "blank_execution execution_id workspace_id user_id mode source =
     \<lparr>ex_execution_id = execution_id, ex_workspace_id = workspace_id, ex_user_id = user_id,
      ex_mode = mode, ex_source = source, ex_status = Exec_QUEUED, ex_runtime_id = None,
      ex_created_at = None, ex_started_at = None, ex_completed_at = None, ex_exit_code = None,
      ex_stdout_excerpt = [], ex_stderr_excerpt = [], ex_stdout_ref = None, ex_stderr_ref = None,
      ex_stdout_truncated = False, ex_stderr_truncated = False, ex_error = None, ex_artifacts = [],
      ex_duration_ms = 0, ex_memory_peak_bytes = 0, ex_idempotency_key = None, ex_origin = Origin_WEB\<rparr>"

definition new_execution :: "execution \<Rightarrow> execution result" where
  "new_execution e =
     (if py_strip (ex_source e) = []
      then Inl (AppError InvalidExecutionTransition ''An execution requires a non-empty source.'')
      else if MAX_SOURCE_CHARS < length (ex_source e)
      then Inl (AppError InvalidExecutionTransition (''Execution source exceeds the ''
             @ str_int (int MAX_SOURCE_CHARS) @ ''-character limit.''))
      else Inr e)"

definition execution_transition :: "execution \<Rightarrow> execution_status \<Rightarrow> execution result" where
  "execution_transition e target =
     (if \<not> execution_can_transition (ex_status e) target
      then Inl (AppError InvalidExecutionTransition (''Cannot move execution '' @ ex_execution_id e
             @ '' from '' @ execution_status_value (ex_status e) @ '' to ''
             @ execution_status_value target @ ''.''))
      else Inr (e\<lparr>ex_status := target\<rparr>))"

definition record_output :: "string \<Rightarrow> string \<Rightarrow> string option \<Rightarrow> string option \<Rightarrow> execution \<Rightarrow>
    execution result" where
  "record_output stdout stderr stdout_ref stderr_ref e =
     rbind (bound_output stdout EXCERPT_LIMIT_CHARS) (\<lambda>(out, out_cut).
     rbind (bound_output stderr EXCERPT_LIMIT_CHARS) (\<lambda>(err, err_cut).
     Inr (e\<lparr>ex_stdout_excerpt := out, ex_stdout_truncated := out_cut, ex_stderr_excerpt := err,
       ex_stderr_truncated := err_cut, ex_stdout_ref := stdout_ref, ex_stderr_ref := stderr_ref\<rparr>)))"

definition execution_finish :: "int \<Rightarrow> execution \<Rightarrow> execution" where
  "execution_finish t e = e\<lparr>ex_completed_at := Some t\<rparr>"

definition execution_is_terminal :: "execution \<Rightarrow> bool" where
  "execution_is_terminal e = status_is_terminal (ex_status e)"

definition execution_start :: "string \<Rightarrow> int \<Rightarrow> execution \<Rightarrow> execution result" where
  "execution_start runtime_id t e = rbind (execution_transition e Exec_RUNNING)
     (\<lambda>e. Inr (e\<lparr>ex_runtime_id := Some runtime_id, ex_started_at := Some t\<rparr>))"

definition execution_succeed :: "int \<Rightarrow> string \<Rightarrow> string \<Rightarrow> int \<Rightarrow> int \<Rightarrow> execution_artifact list \<Rightarrow>
    string option \<Rightarrow> string option \<Rightarrow> int \<Rightarrow> execution \<Rightarrow> execution result" where
  "execution_succeed exit_code stdout stderr duration_ms memory_peak_bytes artifacts stdout_ref stderr_ref t e =
     rbind (execution_transition e Exec_SUCCEEDED) (\<lambda>e.
     rbind (record_output stdout stderr stdout_ref stderr_ref (e\<lparr>ex_exit_code := Some exit_code,
       ex_duration_ms := max 0 duration_ms, ex_memory_peak_bytes := max 0 memory_peak_bytes\<rparr>)) (\<lambda>e.
     Inr (execution_finish t (if artifacts \<noteq> [] then e\<lparr>ex_artifacts := artifacts\<rparr> else e))))"

definition execution_fail :: "string \<Rightarrow> int option \<Rightarrow> string \<Rightarrow> string \<Rightarrow> int \<Rightarrow> string option \<Rightarrow>
    string option \<Rightarrow> int \<Rightarrow> execution \<Rightarrow> execution result" where
  "execution_fail error exit_code stdout stderr duration_ms stdout_ref stderr_ref t e =
     rbind (execution_transition e Exec_FAILED) (\<lambda>e.
     rbind (record_output stdout stderr stdout_ref stderr_ref (e\<lparr>ex_error := Some error,
       ex_exit_code := exit_code, ex_duration_ms := max 0 duration_ms\<rparr>)) (\<lambda>e.
     Inr (execution_finish t e)))"

definition execution_cancel :: "int \<Rightarrow> execution \<Rightarrow> (bool \<times> execution) result" where
  "execution_cancel t e =
     (if execution_is_terminal e then Inr (False, e)
      else rbind (execution_transition e Exec_CANCELLED) (\<lambda>e.
        Inr (True, execution_finish t (e\<lparr>ex_error :=
          (if truthy (ex_error e) then ex_error e else Some ''Execution cancelled.'')\<rparr>))))"

definition execution_time_out :: "string \<Rightarrow> string \<Rightarrow> int \<Rightarrow> string option \<Rightarrow> string option \<Rightarrow> int \<Rightarrow>
    execution \<Rightarrow> execution result" where
  "execution_time_out stdout stderr duration_ms stdout_ref stderr_ref t e =
     rbind (execution_transition e Exec_TIMED_OUT) (\<lambda>e.
     rbind (record_output stdout stderr stdout_ref stderr_ref (e\<lparr>
       ex_error := Some ''Execution exceeded the configured time limit.'',
       ex_duration_ms := max 0 duration_ms\<rparr>)) (\<lambda>e.
     Inr (execution_finish t e)))"

definition duration_seconds :: "execution \<Rightarrow> rat" where
  "duration_seconds e = of_int (ex_duration_ms e) / 1000"

subsection \<open>Project operations\<close>

definition SUPPORTED_PROJECT_OPERATIONS :: "string list" where
  "SUPPORTED_PROJECT_OPERATIONS = [''sync'', ''lock'', ''add'']"

definition MAX_PROJECT_ARGS :: nat where "MAX_PROJECT_ARGS = 20"
definition MAX_ARG_LENGTH :: nat where "MAX_ARG_LENGTH = 128"

definition is_alnum :: "char \<Rightarrow> bool" where
  "is_alnum c = (let n = of_char c :: nat in
     (48 \<le> n \<and> n \<le> 57) \<or> (65 \<le> n \<and> n \<le> 90) \<or> (97 \<le> n \<and> n \<le> 122))"

definition name_char :: "char \<Rightarrow> bool" where
  "name_char c = (is_alnum c \<or> c \<in> set ''._+-'')"

definition version_char :: "char \<Rightarrow> bool" where
  "version_char c = (is_alnum c \<or> c \<in> set ''.*+!_-'')"

text \<open>
  \<open>_PACKAGE_SPEC\<close>, read from the left: the character classes exclude the characters that follow them,
  so the greedy match of each part is the only one. \<open>$\<close> also matches before a final newline.
\<close>

function match_extras :: "string \<Rightarrow> string option" where
  "match_extras s =
     (if takeWhile name_char s = [] then None
      else case dropWhile name_char s of
        [] \<Rightarrow> None
      | c # rest \<Rightarrow> if c = CHR '']'' then Some rest
                   else if c = CHR '','' then match_extras rest else None)"
  by pat_completeness auto

termination match_extras
proof (relation "measure length")
  fix s c rest
  assume "dropWhile name_char s = c # rest"
  then have "length (c # rest) \<le> length s" by (metis length_dropWhile_le)
  then show "(rest, s) \<in> measure length" by simp
qed simp

declare match_extras.simps [simp del]

definition match_version :: "string \<Rightarrow> bool" where
  "match_version s = (case s of
       [] \<Rightarrow> True
     | c # r \<Rightarrow> c \<in> set ''<>=!~'' \<and>
         (let r' = (case r of d # r'' \<Rightarrow> if d = CHR ''='' then r'' else r | [] \<Rightarrow> r)
          in r' \<noteq> [] \<and> list_all version_char r'))"

definition package_spec_match :: "string \<Rightarrow> bool" where
  "package_spec_match s0 =
     (let s = (if s0 \<noteq> [] \<and> last s0 = CHR 0x0A then butlast s0 else s0) in
      case s of
        [] \<Rightarrow> False
      | c # r \<Rightarrow> is_alnum c \<and>
          (case dropWhile name_char r of
             [] \<Rightarrow> True
           | d # rest \<Rightarrow>
               if d = CHR ''['' then (case match_extras rest of
                   None \<Rightarrow> False | Some rest' \<Rightarrow> match_version rest')
               else match_version (d # rest)))"

record project_operation =
  po_name :: string
  po_args :: "string list"

definition uv_argv :: "project_operation \<Rightarrow> string list" where
  "uv_argv p = (if po_name p = ''sync'' then [''uv'', ''sync'']
     else if po_name p = ''lock'' then [''uv'', ''lock'']
     else [''uv'', ''add''] @ po_args p)"

definition check_package :: "string \<Rightarrow> unit result" where
  "check_package arg =
     (if MAX_ARG_LENGTH < length arg then workspace_error ''A package specification is too long.''
      else if py_startswith arg ''-''
      then workspace_error (''Package specifications may not start with '' @ py_repr ''-'' @ '': ''
             @ py_repr arg @ ''.'')
      else if \<not> package_spec_match arg
      then workspace_error (py_repr arg @ '' is not a valid package specification.'')
      else Inr ())"

fun check_packages :: "string list \<Rightarrow> unit result" where
  "check_packages [] = Inr ()"
| "check_packages (arg # args) = rbind (check_package arg) (\<lambda>_. check_packages args)"

definition parse_project_operation :: "string \<Rightarrow> project_operation result" where
  "parse_project_operation source =
     (case py_split source of
        [] \<Rightarrow> workspace_error ''A project operation is required.''
      | first # args \<Rightarrow>
        (let name = py_lower first in
         if name \<notin> set SUPPORTED_PROJECT_OPERATIONS
         then workspace_error (''Unsupported project operation '' @ py_repr first @ ''; supported: ''
                @ py_join '', '' (sort SUPPORTED_PROJECT_OPERATIONS) @ ''.'')
         else if name \<in> set [''sync'', ''lock'']
         then (if args \<noteq> []
               then workspace_error (''Project operation '' @ py_repr name @ '' takes no arguments.'')
               else Inr \<lparr>po_name = name, po_args = []\<rparr>)
         else if args = []
         then workspace_error (''Project operation '' @ py_repr ''add'' @ '' requires a package name.'')
         else if MAX_PROJECT_ARGS < length args
         then workspace_error (''Project operation '' @ py_repr ''add'' @ '' accepts at most ''
                @ str_int (int MAX_PROJECT_ARGS) @ '' packages.'')
         else rbind (check_packages args) (\<lambda>_. Inr \<lparr>po_name = name, po_args = args\<rparr>)))"

subsection \<open>Every status follows its table\<close>

interpretation wsm: status_machine ws_state "\<lambda>t w. w\<lparr>ws_state := t\<rparr>" workspace_can_transition workspace_transition
  by unfold_locales (simp_all add: workspace_transition_def workspace_error_def)

interpretation rtm: status_machine rt_state "\<lambda>t r. r\<lparr>rt_state := t\<rparr>" runtime_can_transition runtime_transition
  by unfold_locales (simp_all add: runtime_transition_def)

interpretation exm: status_machine ex_status "\<lambda>t e. e\<lparr>ex_status := t\<rparr>" execution_can_transition execution_transition
  by unfold_locales (simp_all add: execution_transition_def)

interpretation rvm: status_machine rv_status "\<lambda>t v. v\<lparr>rv_status := t\<rparr>" revision_can_transition revision_transition
  by unfold_locales (simp_all add: revision_transition_def)

lemmas transition_iffs = wsm.transition_Inr_iff rtm.transition_Inr_iff exm.transition_Inr_iff
  rvm.transition_Inr_iff

lemma terminal_no_transition: "status_is_terminal st \<longleftrightarrow> (\<forall>t. \<not> execution_can_transition st t)"
  by (cases st) (auto simp: status_is_terminal_def TERMINAL_EXECUTION_STATUSES_def
      execution_can_transition_def)

subsection \<open>Bounded output\<close>

lemma bound_output_spec:
  assumes "0 < limit"
  shows "\<exists>ex cut. bound_output txt limit = Inr (ex, cut) \<and> (cut \<longleftrightarrow> limit < int (length txt))
    \<and> (\<not> cut \<longrightarrow> ex = txt)
    \<and> (cut \<longrightarrow> int (length ex) = max 2 limit
        \<and> (\<exists>notice k. ex = notice @ drop k txt \<and> hd notice = ellipsis \<and> last notice = CHR 0x0A))"
proof (cases "int (length txt) \<le> limit")
  case True
  with assms show ?thesis by (intro exI [of _ "txt"] exI [of _ False]) (simp add: bound_output_def)
next
  case False
  define full where "full = [ellipsis] @ '' [truncated; '' @ str_int (int (length txt) - limit)
    @ '' earlier characters omitted]'' @ [CHR 0x0A]"
  define marker where "marker = (if limit \<le> int (length full) then [ellipsis, CHR 0x0A] else full)"
  define k where "k = nat (int (length txt) - (limit - int (length marker)))"
  have b: "bound_output txt limit = Inr (marker @ drop k txt, True)"
    using assms False by (simp add: bound_output_def full_def marker_def k_def)
  have m: "hd marker = ellipsis" "last marker = CHR 0x0A" "2 \<le> int (length marker)"
    "limit \<le> int (length full) \<longrightarrow> length marker = 2" "length marker = 2 \<or> int (length marker) < limit"
    by (auto simp: marker_def full_def)
  have "int (length (marker @ drop k txt)) = max 2 limit"
    using assms False m by (auto simp: k_def)
  with b m False show ?thesis
    by (intro exI [of _ "marker @ drop k txt"] exI [of _ True]) auto
qed

text \<open>the excerpt of a stream is the whole text when it fits the limit; otherwise it is a notice
  that opens with an ellipsis followed by the end of the text, and its length is exactly the limit, or
  the two characters of the shortest notice when the limit is 1.\<close>

theorem excerpt_bounded:
  assumes "0 < limit"
  shows "\<exists>ex cut. bound_output txt limit = Inr (ex, cut) \<and> (cut \<longleftrightarrow> limit < int (length txt))
    \<and> (\<not> cut \<longrightarrow> ex = txt)
    \<and> (cut \<longrightarrow> int (length ex) = max 2 limit
        \<and> (\<exists>notice k. ex = notice @ drop k txt \<and> hd notice = ellipsis \<and> last notice = CHR 0x0A))"
  using assms by (rule bound_output_spec)

theorem excerpt_bounded_witness:
  "\<exists>ex. bound_output ''abcdefghi'' 5 = Inr (ex, True) \<and> int (length ex) = 5"
proof -
  have "0 < (5::int)" by simp
  from excerpt_bounded [OF this, of "''abcdefghi''"] show ?thesis by auto
qed

lemma bound_output_default:
  obtains ex cut where "bound_output txt EXCERPT_LIMIT_CHARS = Inr (ex, cut)"
    "int (length ex) \<le> EXCERPT_LIMIT_CHARS"
proof -
  have "0 < EXCERPT_LIMIT_CHARS" by (simp add: EXCERPT_LIMIT_CHARS_def)
  from bound_output_spec [OF this, of "txt"] obtain ex cut where
    b: "bound_output txt EXCERPT_LIMIT_CHARS = Inr (ex, cut)"
    "\<not> cut \<longrightarrow> ex = txt" "cut \<longleftrightarrow> EXCERPT_LIMIT_CHARS < int (length txt)"
    "cut \<longrightarrow> int (length ex) = max 2 EXCERPT_LIMIT_CHARS" by blast
  then have "int (length ex) \<le> EXCERPT_LIMIT_CHARS"
    by (cases cut) (auto simp: EXCERPT_LIMIT_CHARS_def)
  with b(1) show thesis by (rule that)
qed

subsection \<open>Lifetime of an execution\<close>

text \<open>The calls the program makes on an execution.\<close>

datatype execution_call =
    Call_start string int
  | Call_succeed int string string int int "execution_artifact list" "string option" "string option" int
  | Call_fail string "int option" string string int "string option" "string option" int
  | Call_cancel int
  | Call_time_out string string int "string option" "string option" int

fun run_call :: "execution_call \<Rightarrow> execution \<Rightarrow> execution result" where
  "run_call (Call_start i t) e = execution_start i t e"
| "run_call (Call_succeed x so se d m as sr er t) e = execution_succeed x so se d m as sr er t e"
| "run_call (Call_fail er x so se d sr er' t) e = execution_fail er x so se d sr er' t e"
| "run_call (Call_cancel t) e = rbind (execution_cancel t e) (\<lambda>(_, e'). Inr e')"
| "run_call (Call_time_out so se d sr er t) e = execution_time_out so se d sr er t e"

text \<open>A call that raises leaves the object as it was.\<close>

definition execution_after :: "execution_call \<Rightarrow> execution \<Rightarrow> execution" where
  "execution_after c e = (case run_call c e of Inl _ \<Rightarrow> e | Inr e' \<Rightarrow> e')"

definition execution_wf :: "execution \<Rightarrow> bool" where
  "execution_wf e \<longleftrightarrow>
     (execution_is_terminal e \<longleftrightarrow> ex_completed_at e \<noteq> None)
   \<and> (ex_status e = Exec_QUEUED \<longrightarrow> ex_runtime_id e = None \<and> ex_started_at e = None)
   \<and> (ex_status e \<in> {Exec_RUNNING, Exec_SUCCEEDED, Exec_TIMED_OUT} \<longrightarrow>
        ex_runtime_id e \<noteq> None \<and> ex_started_at e \<noteq> None)
   \<and> (ex_status e \<in> {Exec_FAILED, Exec_CANCELLED, Exec_TIMED_OUT} \<longrightarrow> ex_error e \<noteq> None)
   \<and> (ex_status e = Exec_SUCCEEDED \<longrightarrow> ex_exit_code e \<noteq> None)
   \<and> int (length (ex_stdout_excerpt e)) \<le> EXCERPT_LIMIT_CHARS
   \<and> int (length (ex_stderr_excerpt e)) \<le> EXCERPT_LIMIT_CHARS
   \<and> 0 \<le> ex_duration_ms e \<and> 0 \<le> ex_memory_peak_bytes e"

lemma record_output_spec:
  obtains out oc err ec where "record_output so se sr er e = Inr (e\<lparr>ex_stdout_excerpt := out,
      ex_stdout_truncated := oc, ex_stderr_excerpt := err, ex_stderr_truncated := ec,
      ex_stdout_ref := sr, ex_stderr_ref := er\<rparr>)"
    "int (length out) \<le> EXCERPT_LIMIT_CHARS" "int (length err) \<le> EXCERPT_LIMIT_CHARS"
proof -
  obtain out oc where "bound_output so EXCERPT_LIMIT_CHARS = Inr (out, oc)"
    "int (length out) \<le> EXCERPT_LIMIT_CHARS" by (rule bound_output_default)
  moreover obtain err ec where "bound_output se EXCERPT_LIMIT_CHARS = Inr (err, ec)"
    "int (length err) \<le> EXCERPT_LIMIT_CHARS" by (rule bound_output_default)
  ultimately show ?thesis using that by (simp add: record_output_def)
qed

lemmas execution_call_defs = execution_start_def execution_succeed_def execution_fail_def
  execution_cancel_def execution_time_out_def execution_finish_def

lemma execution_call_status:
  assumes "run_call c e = Inr e'"
  shows "e' = e \<and> execution_is_terminal e
    \<or> execution_can_transition (ex_status e) (ex_status e') \<and> \<not> execution_is_terminal e"
proof (cases "execution_is_terminal e")
  case True
  then have t: "execution_transition e t = Inr x \<longleftrightarrow> False" for t x
    using terminal_no_transition by (auto simp: exm.transition_Inr_iff execution_is_terminal_def)
  from assms True show ?thesis
    by (cases c) (auto simp: execution_call_defs rbind_Inr_iff t)
next
  case False
  then show ?thesis using assms
    by (cases c) (auto simp: execution_call_defs rbind_Inr_iff exm.transition_Inr_iff record_output_def)
qed

lemmas status_defs = execution_is_terminal_def status_is_terminal_def TERMINAL_EXECUTION_STATUSES_def
  execution_can_transition_def

lemma execution_call_wf:
  assumes "run_call c e = Inr e'" "execution_wf e"
  shows "execution_wf e'"
proof (cases "execution_is_terminal e")
  case True
  with execution_call_status [OF assms(1)] assms(2) show ?thesis by auto
next
  case False
  show ?thesis
  proof (cases c)
    case (Call_start i t)
    with assms show ?thesis
      by (cases "ex_status e")
        (auto simp: execution_call_defs rbind_Inr_iff exm.transition_Inr_iff execution_wf_def status_defs)
  next
    case (Call_succeed x so se d m as sr er t)
    show ?thesis
      by (rule record_output_spec [of so se sr er "e\<lparr>ex_status := Exec_SUCCEEDED, ex_exit_code := Some x,
            ex_duration_ms := max 0 d, ex_memory_peak_bytes := max 0 m\<rparr>"])
        (use assms Call_succeed in \<open>cases "ex_status e";
          auto simp: execution_call_defs rbind_Inr_iff exm.transition_Inr_iff execution_wf_def status_defs
            split: if_splits\<close>)
  next
    case (Call_fail er x so se d sr er' t)
    show ?thesis
      by (rule record_output_spec [of so se sr er' "e\<lparr>ex_status := Exec_FAILED, ex_error := Some er,
            ex_exit_code := x, ex_duration_ms := max 0 d\<rparr>"])
        (use assms Call_fail in \<open>cases "ex_status e";
          auto simp: execution_call_defs rbind_Inr_iff exm.transition_Inr_iff execution_wf_def status_defs\<close>)
  next
    case (Call_cancel t)
    with assms False show ?thesis
      by (cases "ex_status e")
        (auto simp: execution_call_defs rbind_Inr_iff exm.transition_Inr_iff execution_wf_def status_defs
          truthy_def)
  next
    case (Call_time_out so se d sr er t)
    show ?thesis
      by (rule record_output_spec [of so se sr er "e\<lparr>ex_status := Exec_TIMED_OUT,
            ex_error := Some ''Execution exceeded the configured time limit.'', ex_duration_ms := max 0 d\<rparr>"])
        (use assms Call_time_out in \<open>cases "ex_status e";
          auto simp: execution_call_defs rbind_Inr_iff exm.transition_Inr_iff execution_wf_def status_defs\<close>)
  qed
qed

lemma execution_after_step:
  "execution_wf e \<Longrightarrow> execution_wf (execution_after c e)"
  "execution_can_transition\<^sup>*\<^sup>* (ex_status e) (ex_status (execution_after c e))"
  "execution_is_terminal e \<Longrightarrow> execution_after c e = e"
  using execution_call_wf [of c e] execution_call_status [of c e]
  by (auto simp: execution_after_def split: sum.splits)

text \<open>along any sequence of calls on an execution, in any order and whether or not they raise, the
  status follows the table, an execution that has reached a terminal status is never changed again, and
  the record stays coherent: completed exactly if terminal, on a runtime once it has run, with an exit
  code if it succeeded and a reason otherwise, excerpts within the limit, no negative measure.\<close>

theorem execution_lifecycle:
  assumes "execution_wf e"
  shows "execution_wf (fold execution_after cs e)
    \<and> execution_can_transition\<^sup>*\<^sup>* (ex_status e) (ex_status (fold execution_after cs e))
    \<and> (execution_is_terminal e \<longrightarrow> fold execution_after cs e = e)"
  using assms
proof (induction cs arbitrary: e)
  case (Cons c cs)
  note step = execution_after_step [where c = c and e = e]
  from Cons.IH [OF step(1) [OF Cons.prems]] step(2,3) show ?case
    by (auto intro: rtranclp_trans)
qed simp

theorem execution_lifecycle_witness:
  "execution_wf (fold execution_after [Call_start ''r'' 1, Call_cancel 2, Call_time_out [] [] 0 None None 3]
     (blank_execution ''e'' ''w'' 1 Mode_SCRIPT ''print(1)''))"
proof -
  have "execution_wf (blank_execution ''e'' ''w'' 1 Mode_SCRIPT ''print(1)'')"
    by (simp add: execution_wf_def blank_execution_def status_defs EXCERPT_LIMIT_CHARS_def)
  from execution_lifecycle [OF this] show ?thesis by blast
qed

subsection \<open>Lifetime of a runtime and of a revision\<close>

datatype runtime_call =
    Rt_begin_start | Rt_mark_running string "string option" int | Rt_begin_stop
  | Rt_mark_stopped int | Rt_mark_failed string | Rt_touch int

fun run_runtime_call :: "runtime_call \<Rightarrow> workspace_runtime \<Rightarrow> workspace_runtime result" where
  "run_runtime_call Rt_begin_start r = runtime_begin_start r"
| "run_runtime_call (Rt_mark_running p v t) r = runtime_mark_running p v t r"
| "run_runtime_call Rt_begin_stop r = runtime_begin_stop r"
| "run_runtime_call (Rt_mark_stopped t) r = runtime_mark_stopped t r"
| "run_runtime_call (Rt_mark_failed m) r = runtime_mark_failed m r"
| "run_runtime_call (Rt_touch t) r = Inr (runtime_touch t r)"

definition runtime_after :: "runtime_call \<Rightarrow> workspace_runtime \<Rightarrow> workspace_runtime" where
  "runtime_after c r = (case run_runtime_call c r of Inl _ \<Rightarrow> r | Inr r' \<Rightarrow> r')"

definition runtime_wf :: "workspace_runtime \<Rightarrow> bool" where
  "runtime_wf r \<longleftrightarrow>
     (rt_state r = Rt_RUNNING \<longrightarrow> rt_provider_ref r \<noteq> None \<and> rt_started_at r \<noteq> None \<and> rt_failure_reason r = None)
   \<and> (rt_state r = Rt_STARTING \<longrightarrow> rt_failure_reason r = None)
   \<and> (rt_state r = Rt_FAILED \<longrightarrow> rt_failure_reason r \<noteq> None)"

lemmas runtime_call_defs = runtime_begin_start_def runtime_mark_running_def runtime_begin_stop_def
  runtime_mark_stopped_def runtime_mark_failed_def runtime_touch_def

text \<open>along any sequence of calls on a runtime, whether or not they raise: the state follows the table;
  a running runtime has a provider handle, a start time and no failure; a failed one has its reason; and
  a runtime that once had a provider handle never loses it, so a stop keeps the container that the next
  start resumes.\<close>

theorem runtime_lifecycle:
  assumes "runtime_wf r"
  shows "runtime_wf (fold runtime_after cs r)
    \<and> runtime_can_transition\<^sup>*\<^sup>* (rt_state r) (rt_state (fold runtime_after cs r))
    \<and> (rt_provider_ref r \<noteq> None \<longrightarrow> rt_provider_ref (fold runtime_after cs r) \<noteq> None)
    \<and> rt_workspace_id (fold runtime_after cs r) = rt_workspace_id r"
  using assms
proof (induction cs arbitrary: r)
  case (Cons c cs)
  have step: "runtime_wf (runtime_after c r)"
    "runtime_can_transition\<^sup>*\<^sup>* (rt_state r) (rt_state (runtime_after c r))"
    "rt_provider_ref r \<noteq> None \<longrightarrow> rt_provider_ref (runtime_after c r) \<noteq> None"
    "rt_workspace_id (runtime_after c r) = rt_workspace_id r"
    using Cons.prems
    by (cases c; auto simp: runtime_after_def runtime_wf_def runtime_call_defs rbind_Inr_iff
        rtm.transition_Inr_iff split: sum.splits if_splits)+
  from Cons.IH [OF step(1)] step(2-) show ?case by (auto intro: rtranclp_trans)
qed simp

theorem runtime_lifecycle_witness:
  "rt_provider_ref (fold runtime_after [Rt_begin_start, Rt_mark_running ''c1'' None 5, Rt_begin_stop, Rt_mark_stopped 9]
     (new_runtime ''r'' ''w'' ''docker'' ''small'')) = Some ''c1''
   \<and> runtime_wf (fold runtime_after [Rt_begin_start, Rt_mark_running ''c1'' None 5, Rt_begin_stop, Rt_mark_stopped 9]
     (new_runtime ''r'' ''w'' ''docker'' ''small''))"
proof -
  have "runtime_wf (new_runtime ''r'' ''w'' ''docker'' ''small'')"
    by (simp add: runtime_wf_def new_runtime_def)
  from runtime_lifecycle [OF this] have "runtime_wf (fold runtime_after cs (new_runtime ''r'' ''w'' ''docker'' ''small''))"
    for cs by blast
  then show ?thesis
    by (intro conjI) (simp_all add: runtime_after_def runtime_call_defs runtime_transition_def
        runtime_can_transition_def new_runtime_def del: fold_simps, simp add: runtime_wf_def)
qed

definition revision_wf :: "runtime_image_revision \<Rightarrow> bool" where
  "revision_wf v \<longleftrightarrow>
     (rv_status v = Rev_READY \<longrightarrow> truthy (rv_provider_snapshot_ref v) \<and> rv_ready_at v \<noteq> None)
   \<and> (rv_status v \<noteq> Rev_READY \<longrightarrow> rv_provider_snapshot_ref v = None)
   \<and> (\<forall>m. rv_error v = Some m \<longrightarrow> length m \<le> MAX_ERROR_LENGTH)"

lemma new_revision_wf: "revision_wf (new_revision i w p f b)"
  by (simp add: revision_wf_def new_revision_def)

lemma revision_call_wf:
  assumes "revision_wf v"
  shows "revision_mark_building v = Inr v' \<Longrightarrow> revision_wf v'"
    "revision_mark_ready s md t v = Inr v' \<Longrightarrow> revision_wf v'"
    "revision_mark_failed m v = Inr v' \<Longrightarrow> revision_wf v'"
  using assms
  by (auto simp: revision_wf_def revision_mark_building_def revision_mark_ready_def revision_mark_failed_def
      revision_can_transition_def truthy_def rbind_Inr_iff rvm.transition_Inr_iff Let_def split: if_splits)

lemma ready_is_usable: "revision_wf v \<Longrightarrow> is_usable v \<longleftrightarrow> rv_status v = Rev_READY"
  by (auto simp: revision_wf_def is_usable_def status_is_usable_def)

subsection \<open>Project operations carry no option\<close>

definition spec_char :: "char \<Rightarrow> bool" where
  "spec_char c = (is_alnum c \<or> c \<in> set ''._+-*![],<>=~'')"

lemma spec_char_punct [simp]: "spec_char (CHR '']'')" "spec_char (CHR ''['')" "spec_char (CHR '','')"
  by (simp_all add: spec_char_def)

lemma match_extras_spec:
  "match_extras s = Some r \<Longrightarrow> \<exists>p. s = p @ r \<and> list_all spec_char p"
proof (induction s rule: match_extras.induct)
  case (1 s)
  let ?w = "takeWhile name_char s"
  have w: "list_all spec_char ?w"
    by (auto simp: list_all_iff name_char_def spec_char_def dest: set_takeWhileD)
  from "1.prems" obtain c rest where d: "?w \<noteq> []" "dropWhile name_char s = c # rest"
    "c = CHR '']'' \<and> r = rest \<or> c \<noteq> CHR '']'' \<and> c = CHR '','' \<and> match_extras rest = Some r"
    by (subst (asm) match_extras.simps) (auto split: if_splits list.splits)
  have s: "s = ?w @ c # rest" by (metis d(2) takeWhile_dropWhile_id)
  from d(3) show ?case
  proof (elim disjE conjE)
    assume "c = CHR '']''" "r = rest"
    with s w show ?thesis by (intro exI [of _ "?w @ [c]"]) auto
  next
    assume "c \<noteq> CHR '']''" "c = CHR '',''" "match_extras rest = Some r"
    with "1.IH" [OF d(1,2)] obtain p where "rest = p @ r" "list_all spec_char p" by auto
    with s w \<open>c = CHR '',''\<close> show ?thesis
      by (intro exI [of _ "?w @ [c] @ p"]) auto
  qed
qed

lemma match_version_spec:
  assumes "match_version s" shows "list_all spec_char s"
proof (cases s)
  case (Cons c r)
  have v: "version_char x \<Longrightarrow> spec_char x" for x
    by (auto simp: version_char_def spec_char_def)
  have op: "x \<in> set ''<>=!~'' \<Longrightarrow> spec_char x" for x
    by (auto simp: spec_char_def)
  have eq: "spec_char (CHR ''='')" by (rule op) simp
  define r' where "r' = (case r of d # r'' \<Rightarrow> if d = CHR ''='' then r'' else r | [] \<Rightarrow> r)"
  from assms Cons have c: "spec_char c" and "list_all version_char r'"
    by (simp_all only: match_version_def list.case Let_def r'_def op)
  then have "list_all spec_char r'" by (auto simp: list_all_iff v)
  then have "list_all spec_char r" using eq
    by (cases r) (simp_all add: r'_def del: list.pred_inject split: if_splits, simp_all)
  with c Cons show ?thesis by simp
qed simp

lemma package_spec_chars:
  assumes "package_spec_match s" "CHR 0x0A \<notin> set s"
  shows "s \<noteq> [] \<and> is_alnum (hd s) \<and> list_all spec_char s"
proof -
  have n: "\<not> (s \<noteq> [] \<and> last s = CHR 0x0A)" using assms(2) by (metis last_in_set)
  with assms(1) obtain c r where s: "s = c # r" "is_alnum c"
    by (auto simp: package_spec_match_def split: list.splits)
  let ?w = "takeWhile name_char r" and ?d = "dropWhile name_char r"
  have w: "list_all spec_char ?w"
    by (auto simp: list_all_iff name_char_def spec_char_def dest: set_takeWhileD)
  have "list_all spec_char ?d"
  proof (cases ?d)
    case (Cons d rest)
    with assms(1) n s have m: "if d = CHR ''['' then \<exists>rest'. match_extras rest = Some rest' \<and> match_version rest'
        else match_version (d # rest)"
      by (auto simp: package_spec_match_def split: option.splits)
    show ?thesis
    proof (cases "d = CHR ''[''")
      case True
      with m obtain rest' where "match_extras rest = Some rest'" "match_version rest'" by auto
      with match_extras_spec match_version_spec obtain p where "rest = p @ rest'" "list_all spec_char p"
        "list_all spec_char rest'" by blast
      with Cons True show ?thesis by simp
    next
      case False
      with m Cons match_version_spec [of "d # rest"] show ?thesis by simp
    qed
  next
    case Nil
    show ?thesis unfolding Nil by simp
  qed
  with w have "list_all spec_char r" by (metis list_all_append takeWhile_dropWhile_id)
  with s show ?thesis by (simp add: spec_char_def)
qed

lemma check_packages_ok: "check_packages args = Inr () \<longleftrightarrow> (\<forall>a \<in> set args. check_package a = Inr ())"
  by (induction args) (auto simp: rbind_Inr_iff)

text \<open>the command line of every project operation that is accepted is exactly \<open>uv sync\<close>, exactly
  \<open>uv lock\<close>, or \<open>uv add\<close> with 1 to 20 arguments, each of at most 128 characters, starting with a letter
  or a digit and made only of the characters a version requirement needs: no argument is an option, a
  path, a URL or a shell word.\<close>

theorem project_operation_safe:
  assumes "parse_project_operation source = Inr p"
  shows "uv_argv p = [''uv'', ''sync''] \<or> uv_argv p = [''uv'', ''lock'']
    \<or> (\<exists>args. uv_argv p = [''uv'', ''add''] @ args \<and> args \<noteq> [] \<and> length args \<le> 20
        \<and> list_all (\<lambda>a. a \<noteq> [] \<and> length a \<le> 128 \<and> is_alnum (hd a) \<and> list_all spec_char a) args)"
proof -
  from assms obtain first args where f: "py_split source = first # args"
    by (cases "py_split source") (auto simp: parse_project_operation_def workspace_error_def)
  with assms consider "p = \<lparr>po_name = ''sync'', po_args = []\<rparr>" | "p = \<lparr>po_name = ''lock'', po_args = []\<rparr>"
    | "p = \<lparr>po_name = ''add'', po_args = args\<rparr>" "args \<noteq> []" "length args \<le> 20" "check_packages args = Inr ()"
    by (auto simp: parse_project_operation_def workspace_error_def Let_def SUPPORTED_PROJECT_OPERATIONS_def
        MAX_PROJECT_ARGS_def rbind_Inr_iff split: if_splits)
  then show ?thesis
  proof cases
    case 3
    have "a \<noteq> [] \<and> length a \<le> 128 \<and> is_alnum (hd a) \<and> list_all spec_char a" if "a \<in> set args" for a
    proof -
      have "check_package a = Inr ()" using 3(4) that by (simp add: check_packages_ok)
      then have "package_spec_match a" "length a \<le> 128"
        by (auto simp: check_package_def workspace_error_def MAX_ARG_LENGTH_def split: if_splits)
      moreover have "CHR 0x0A \<notin> set a"
        using py_split_part [of a source] f that by (auto simp: is_space_def)
      ultimately show ?thesis using package_spec_chars by blast
    qed
    with 3 show ?thesis by (simp add: uv_argv_def list_all_iff)
  qed (simp_all add: uv_argv_def)
qed

theorem project_operation_safe_witness:
  "parse_project_operation ''add numpy[dev,x]>=1.2 rich'' = Inr \<lparr>po_name = ''add'', po_args = [''numpy[dev,x]>=1.2'', ''rich'']\<rparr>
   \<and> uv_argv \<lparr>po_name = ''add'', po_args = [''numpy[dev,x]>=1.2'', ''rich'']\<rparr> \<noteq> [''uv'', ''sync'']"
proof -
  have s: "py_split ''add numpy[dev,x]>=1.2 rich'' = [''add'', ''numpy[dev,x]>=1.2'', ''rich'']"
    by (simp add: py_split.simps is_space_def)
  have p: "parse_project_operation ''add numpy[dev,x]>=1.2 rich''
      = Inr \<lparr>po_name = ''add'', po_args = [''numpy[dev,x]>=1.2'', ''rich'']\<rparr>"
    by (simp add: parse_project_operation_def s SUPPORTED_PROJECT_OPERATIONS_def py_lower_def lower_char_def
        MAX_PROJECT_ARGS_def check_package_def MAX_ARG_LENGTH_def py_startswith_def package_spec_match_def
        is_alnum_def name_char_def match_extras.simps match_version_def version_char_def)
  from project_operation_safe [OF p] p show ?thesis by (auto simp: uv_argv_def)
qed

end
