(* ===== verification/Workspace_Store.thy ===== *)
theory Workspace_Store
  imports Workspace_Domain
begin

section \<open>The tables of the workspaces\<close>

text \<open>
  Models \<open>src/infrastructure/database/models/workspace.py\<close>, \<open>sql_workspace_repo.py\<close> and
  \<open>sql_execution_repo.py\<close>: four tables whose status columns are strings and whose configuration,
  metadata and artifacts are JSON, the conversion of a row to its entity (which may raise), and every
  statement the repositories issue. An insert raises \<open>IntegrityError\<close> for a duplicate primary or unique
  key and for a workspace that does not exist; the deletion of a workspace cascades. The foreign key to
  the users and the lengths of the columns are not modelled. Every statement commits.

  Proved: what is written is what is read; one runtime per workspace and one execution per
  idempotency key, in every reachable database; the claim of an execution.
\<close>

subsection \<open>Rows\<close>

record workspace_row =
  wr_workspace_id :: string
  wr_user_id :: int
  wr_name :: string
  wr_description :: string
  wr_runtime_config :: json
  wr_state :: string
  wr_execution_count :: int
  wr_created_at :: int
  wr_updated_at :: int
  wr_last_activity_at :: "int option"

record runtime_row =
  rr_runtime_id :: string
  rr_workspace_id :: string
  rr_provider :: string
  rr_provider_ref :: "string option"
  rr_state :: string
  rr_image_revision_id :: "string option"
  rr_resource_profile :: string
  rr_failure_reason :: "string option"
  rr_provider_metadata :: "(string \<times> json) list"
  rr_created_at :: int
  rr_started_at :: "int option"
  rr_stopped_at :: "int option"
  rr_last_activity_at :: "int option"

record execution_row =
  er_execution_id :: string
  er_workspace_id :: string
  er_user_id :: int
  er_mode :: string
  er_source :: string
  er_status :: string
  er_runtime_id :: "string option"
  er_exit_code :: "int option"
  er_stdout_excerpt :: string
  er_stderr_excerpt :: string
  er_stdout_ref :: "string option"
  er_stderr_ref :: "string option"
  er_stdout_truncated :: bool
  er_stderr_truncated :: bool
  er_error :: "string option"
  er_artifacts :: json
  er_duration_ms :: int
  er_memory_peak_bytes :: int
  er_idempotency_key :: "string option"
  er_origin :: string
  er_created_at :: int
  er_started_at :: "int option"
  er_completed_at :: "int option"

record revision_row =
  vr_revision_id :: string
  vr_workspace_id :: string
  vr_provider :: string
  vr_config_fingerprint :: string
  vr_base_image_revision :: string
  vr_status :: string
  vr_provider_snapshot_ref :: "string option"
  vr_error :: "string option"
  vr_validation_metadata :: "(string \<times> json) list"
  vr_created_at :: int
  vr_ready_at :: "int option"

record workspace_db =
  db_workspaces :: "workspace_row list"
  db_runtimes :: "runtime_row list"
  db_executions :: "execution_row list"
  db_revisions :: "revision_row list"

subsection \<open>Rows to entities\<close>

text \<open>\<open>Enum(value)\<close>: the member with this value, or \<open>ValueError\<close>.\<close>

definition enum_of :: "('e \<Rightarrow> string) \<Rightarrow> 'e list \<Rightarrow> string \<Rightarrow> 'e result" where
  "enum_of val members s = (case find (\<lambda>m. val m = s) members of
       Some m \<Rightarrow> Inr m | None \<Rightarrow> Inl (ValueError (py_repr s @ '' is not a valid value'')))"

definition workspace_state_of :: "string \<Rightarrow> workspace_state result" where
  "workspace_state_of = enum_of workspace_state_value [Ws_ACTIVE, Ws_ARCHIVED, Ws_DELETING]"

definition runtime_state_of :: "string \<Rightarrow> runtime_state result" where
  "runtime_state_of = enum_of runtime_state_value
     [Rt_STOPPED, Rt_STARTING, Rt_RUNNING, Rt_STOPPING, Rt_FAILED]"

definition execution_status_of :: "string \<Rightarrow> execution_status result" where
  "execution_status_of = enum_of execution_status_value
     [Exec_QUEUED, Exec_RUNNING, Exec_SUCCEEDED, Exec_FAILED, Exec_CANCELLED, Exec_TIMED_OUT]"

definition execution_mode_of :: "string \<Rightarrow> execution_mode result" where
  "execution_mode_of = enum_of execution_mode_value [Mode_SCRIPT, Mode_COMMAND, Mode_PROJECT]"

definition image_revision_status_of :: "string \<Rightarrow> image_revision_status result" where
  "image_revision_status_of = enum_of image_revision_status_value
     [Rev_PENDING, Rev_BUILDING, Rev_READY, Rev_FAILED]"

definition workspace_to_entity :: "(rat \<Rightarrow> string) \<Rightarrow> workspace_row \<Rightarrow> workspace result" where
  "workspace_to_entity fl row =
     rbind (config_from_dict fl (wr_runtime_config row)) (\<lambda>config.
     rbind (workspace_state_of (wr_state row)) (\<lambda>st.
     new_workspace \<lparr>ws_workspace_id = wr_workspace_id row, ws_user_id = wr_user_id row,
       ws_name = wr_name row, ws_runtime_config = config, ws_description = wr_description row,
       ws_state = st, ws_created_at = Some (wr_created_at row), ws_updated_at = Some (wr_updated_at row),
       ws_last_activity_at = wr_last_activity_at row, ws_execution_count = wr_execution_count row\<rparr>))"

definition runtime_to_entity :: "runtime_row \<Rightarrow> workspace_runtime result" where
  "runtime_to_entity row =
     rbind (runtime_state_of (rr_state row)) (\<lambda>st. Inr
       \<lparr>rt_runtime_id = rr_runtime_id row, rt_workspace_id = rr_workspace_id row,
        rt_provider = rr_provider row, rt_state = st, rt_provider_ref = rr_provider_ref row,
        rt_image_revision_id = rr_image_revision_id row, rt_resource_profile = rr_resource_profile row,
        rt_failure_reason = rr_failure_reason row, rt_created_at = Some (rr_created_at row),
        rt_started_at = rr_started_at row, rt_stopped_at = rr_stopped_at row,
        rt_last_activity_at = rr_last_activity_at row, rt_provider_metadata = rr_provider_metadata row\<rparr>)"

definition revision_to_entity :: "revision_row \<Rightarrow> runtime_image_revision result" where
  "revision_to_entity row =
     rbind (image_revision_status_of (vr_status row)) (\<lambda>st. Inr
       \<lparr>rv_revision_id = vr_revision_id row, rv_workspace_id = vr_workspace_id row,
        rv_provider = vr_provider row, rv_config_fingerprint = vr_config_fingerprint row,
        rv_base_image_revision = vr_base_image_revision row, rv_status = st,
        rv_provider_snapshot_ref = vr_provider_snapshot_ref row, rv_created_at = Some (vr_created_at row),
        rv_ready_at = vr_ready_at row, rv_error = vr_error row,
        rv_validation_metadata = vr_validation_metadata row\<rparr>)"

text \<open>The truth value of a JSON value.\<close>

fun json_truthy :: "json \<Rightarrow> bool" where
  "json_truthy J_null = False"
| "json_truthy (J_bool b) = b"
| "json_truthy (J_int i) = (i \<noteq> 0)"
| "json_truthy (J_float x) = (x \<noteq> 0)"
| "json_truthy (J_str s) = (s \<noteq> [])"
| "json_truthy (J_list l) = (l \<noteq> [])"
| "json_truthy (J_obj d) = (d \<noteq> [])"

definition artifacts_to_json :: "execution_artifact list \<Rightarrow> json" where
  "artifacts_to_json artifacts = J_list (map artifact_to_dict artifacts)"

fun artifact_items :: "(rat \<Rightarrow> string) \<Rightarrow> json list \<Rightarrow> execution_artifact list result" where
  "artifact_items fl [] = Inr []"
| "artifact_items fl (item # items) = (case item of
       J_obj d \<Rightarrow>
         if \<not> json_truthy (j_get d ''path'') then artifact_items fl items
         else rbind (if json_truthy (j_get d ''size_bytes'') then json_int (j_get d ''size_bytes'') else Inr 0)
           (\<lambda>size. rbind (artifact_items fl items) (\<lambda>rest. Inr (\<lparr>
             ar_path = json_str fl (j_get d ''path''), ar_size_bytes = size,
             ar_object_key = (if json_truthy (j_get d ''object_key'')
               then Some (json_str fl (j_get d ''object_key'')) else None),
             ar_content_type = (if json_truthy (j_get d ''content_type'')
               then json_str fl (j_get d ''content_type'') else DEFAULT_CONTENT_TYPE)\<rparr> # rest)))
     | _ \<Rightarrow> artifact_items fl items)"

definition artifacts_from_json :: "(rat \<Rightarrow> string) \<Rightarrow> json \<Rightarrow> execution_artifact list result" where
  "artifacts_from_json fl raw = (case raw of J_list items \<Rightarrow> artifact_items fl items | _ \<Rightarrow> Inr [])"

definition execution_to_entity :: "(rat \<Rightarrow> string) \<Rightarrow> execution_row \<Rightarrow> execution result" where
  "execution_to_entity fl row =
     rbind (execution_mode_of (er_mode row)) (\<lambda>mode.
     rbind (execution_status_of (er_status row)) (\<lambda>status.
     rbind (artifacts_from_json fl (er_artifacts row)) (\<lambda>artifacts.
     new_execution
       \<lparr>ex_execution_id = er_execution_id row, ex_workspace_id = er_workspace_id row,
        ex_user_id = er_user_id row, ex_mode = mode, ex_source = er_source row, ex_status = status,
        ex_runtime_id = er_runtime_id row, ex_created_at = Some (er_created_at row),
        ex_started_at = er_started_at row, ex_completed_at = er_completed_at row,
        ex_exit_code = er_exit_code row, ex_stdout_excerpt = er_stdout_excerpt row,
        ex_stderr_excerpt = er_stderr_excerpt row, ex_stdout_ref = er_stdout_ref row,
        ex_stderr_ref = er_stderr_ref row, ex_stdout_truncated = er_stdout_truncated row,
        ex_stderr_truncated = er_stderr_truncated row, ex_error = er_error row,
        ex_artifacts = artifacts, ex_duration_ms = er_duration_ms row,
        ex_memory_peak_bytes = er_memory_peak_bytes row,
        ex_idempotency_key = er_idempotency_key row,
        ex_origin = coerce_job_origin (Arg_str (er_origin row))\<rparr>)))"

text \<open>\<open>_to_entity(row) if row is not None else None\<close>, and the list comprehension over rows.\<close>

definition entity_or_none :: "('r \<Rightarrow> 'e result) \<Rightarrow> 'r option \<Rightarrow> 'e option result" where
  "entity_or_none f row = (case row of None \<Rightarrow> Inr None | Some r \<Rightarrow> rbind (f r) (\<lambda>e. Inr (Some e)))"

fun entities :: "('r \<Rightarrow> 'e result) \<Rightarrow> 'r list \<Rightarrow> 'e list result" where
  "entities f [] = Inr []"
| "entities f (r # rs) = rbind (f r) (\<lambda>e. rbind (entities f rs) (\<lambda>es. Inr (e # es)))"

subsection \<open>SQLWorkspaceRepository\<close>

definition create_workspace :: "int \<Rightarrow> workspace \<Rightarrow> workspace_db \<Rightarrow> unit result \<times> workspace_db" where
  "create_workspace now w db =
     (if ws_workspace_id w \<in> wr_workspace_id ` set (db_workspaces db) then (Inl IntegrityError, db)
      else (Inr (), db\<lparr>db_workspaces := db_workspaces db @ [\<lparr>
        wr_workspace_id = ws_workspace_id w, wr_user_id = ws_user_id w, wr_name = ws_name w,
        wr_description = ws_description w, wr_runtime_config = config_to_dict (ws_runtime_config w),
        wr_state = workspace_state_value (ws_state w), wr_execution_count = ws_execution_count w,
        wr_created_at = now, wr_updated_at = now, wr_last_activity_at = None\<rparr>]\<rparr>))"

definition owned :: "string \<Rightarrow> int \<Rightarrow> workspace_row \<Rightarrow> bool" where
  "owned workspace_id user_id row = (wr_workspace_id row = workspace_id \<and> wr_user_id row = user_id)"

definition write_workspace :: "int \<Rightarrow> workspace \<Rightarrow> workspace_row \<Rightarrow> workspace_row" where
  "write_workspace now w row = row\<lparr>wr_name := ws_name w,
     wr_description := ws_description w, wr_runtime_config := config_to_dict (ws_runtime_config w),
     wr_state := workspace_state_value (ws_state w), wr_execution_count := ws_execution_count w,
     wr_last_activity_at := ws_last_activity_at w, wr_updated_at := now\<rparr>"

definition update_workspace :: "int \<Rightarrow> workspace \<Rightarrow> workspace_db \<Rightarrow> bool \<times> workspace_db" where
  "update_workspace now w db =
     (let P = owned (ws_workspace_id w) (ws_user_id w) in
      (0 < sql_count P (db_workspaces db),
       db\<lparr>db_workspaces := sql_update P (write_workspace now w) (db_workspaces db)\<rparr>))"

text \<open>\<open>DELETE\<close> on the workspace, with \<open>ON DELETE CASCADE\<close> in the three tables that reference it.\<close>

definition delete_workspace_row :: "string \<Rightarrow> int \<Rightarrow> workspace_db \<Rightarrow> bool \<times> workspace_db" where
  "delete_workspace_row workspace_id user_id db =
     (let P = owned workspace_id user_id;
          left = sql_delete P (db_workspaces db);
          kept = (\<lambda>i. i \<noteq> workspace_id \<or> i \<in> wr_workspace_id ` set left) in
      (0 < sql_count P (db_workspaces db),
       db\<lparr>db_workspaces := left,
          db_runtimes := filter (\<lambda>r. kept (rr_workspace_id r)) (db_runtimes db),
          db_executions := filter (\<lambda>r. kept (er_workspace_id r)) (db_executions db),
          db_revisions := filter (\<lambda>r. kept (vr_workspace_id r)) (db_revisions db)\<rparr>))"

definition get_workspace :: "(rat \<Rightarrow> string) \<Rightarrow> string \<Rightarrow> int \<Rightarrow> workspace_db \<Rightarrow> workspace option result" where
  "get_workspace fl workspace_id user_id db =
     entity_or_none (workspace_to_entity fl) (sql_first (sql_select (owned workspace_id user_id) (db_workspaces db)))"

definition list_workspaces :: "(rat \<Rightarrow> string) \<Rightarrow> int \<Rightarrow> int \<Rightarrow> int \<Rightarrow> workspace_db \<Rightarrow>
    (workspace list \<times> int) result" where
  "list_workspaces fl user_id limit offset db =
     (let mine = sql_select (\<lambda>r. wr_user_id r = user_id) (db_workspaces db);
          used = (\<lambda>r. case wr_last_activity_at r of Some t \<Rightarrow> t | None \<Rightarrow> wr_created_at r) in
      rbind (entities (workspace_to_entity fl) (page limit offset (order_desc used mine)))
        (\<lambda>ws. Inr (ws, int (length mine))))"

definition count_workspaces :: "int \<Rightarrow> workspace_db \<Rightarrow> int" where
  "count_workspaces user_id db = int (sql_count (\<lambda>r. wr_user_id r = user_id) (db_workspaces db))"

subsection \<open>SQLRuntimeRepository\<close>

definition get_runtime_for_workspace :: "string \<Rightarrow> workspace_db \<Rightarrow> workspace_runtime option result" where
  "get_runtime_for_workspace workspace_id db =
     entity_or_none runtime_to_entity
       (sql_first (sql_select (\<lambda>r. rr_workspace_id r = workspace_id) (db_runtimes db)))"

definition workspace_exists :: "string \<Rightarrow> workspace_db \<Rightarrow> bool" where
  "workspace_exists workspace_id db = (workspace_id \<in> wr_workspace_id ` set (db_workspaces db))"

definition insert_runtime :: "int \<Rightarrow> workspace_runtime \<Rightarrow> workspace_db \<Rightarrow> unit result \<times> workspace_db" where
  "insert_runtime now r db =
     (if rt_runtime_id r \<in> rr_runtime_id ` set (db_runtimes db)
         \<or> rt_workspace_id r \<in> rr_workspace_id ` set (db_runtimes db)
         \<or> \<not> workspace_exists (rt_workspace_id r) db
      then (Inl IntegrityError, db)
      else (Inr (), db\<lparr>db_runtimes := db_runtimes db @ [\<lparr>
        rr_runtime_id = rt_runtime_id r, rr_workspace_id = rt_workspace_id r, rr_provider = rt_provider r,
        rr_provider_ref = None, rr_state = runtime_state_value Rt_STOPPED, rr_image_revision_id = None,
        rr_resource_profile = rt_resource_profile r, rr_failure_reason = None, rr_provider_metadata = [],
        rr_created_at = now, rr_started_at = None, rr_stopped_at = None, rr_last_activity_at = None\<rparr>]\<rparr>))"

text \<open>The row another session commits between the read and the insert is the argument \<open>rival\<close>.\<close>

definition get_or_create_runtime :: "(workspace_db \<Rightarrow> workspace_db) \<Rightarrow> string \<Rightarrow> int \<Rightarrow> string \<Rightarrow> string \<Rightarrow> string \<Rightarrow>
    workspace_db \<Rightarrow> workspace_runtime result \<times> workspace_db" where
  "get_or_create_runtime rival uuid now workspace_id provider resource_profile db =
     (case get_runtime_for_workspace workspace_id db of
        Inl e \<Rightarrow> (Inl e, db)
      | Inr (Some existing) \<Rightarrow> (Inr existing, db)
      | Inr None \<Rightarrow>
        (let candidate = new_runtime uuid workspace_id provider resource_profile in
         case insert_runtime now candidate (rival db) of
           (Inr _, db') \<Rightarrow> (Inr candidate, db')
         | (Inl e, db') \<Rightarrow>
           (case get_runtime_for_workspace workspace_id db' of
              Inl e' \<Rightarrow> (Inl e', db')
            | Inr None \<Rightarrow> (Inl e, db')
            | Inr (Some winner) \<Rightarrow> (Inr winner, db'))))"

definition write_runtime :: "workspace_runtime \<Rightarrow> runtime_row \<Rightarrow> runtime_row" where
  "write_runtime r row = row\<lparr>
       rr_provider := rt_provider r, rr_provider_ref := rt_provider_ref r,
       rr_state := runtime_state_value (rt_state r), rr_image_revision_id := rt_image_revision_id r,
       rr_resource_profile := rt_resource_profile r, rr_failure_reason := rt_failure_reason r,
       rr_provider_metadata := rt_provider_metadata r, rr_started_at := rt_started_at r,
       rr_stopped_at := rt_stopped_at r, rr_last_activity_at := rt_last_activity_at r\<rparr>"

definition save_runtime :: "workspace_runtime \<Rightarrow> workspace_db \<Rightarrow> workspace_db" where
  "save_runtime r db = db\<lparr>db_runtimes :=
     sql_update (\<lambda>row. rr_workspace_id row = rt_workspace_id r) (write_runtime r) (db_runtimes db)\<rparr>"

definition delete_runtime_for_workspace :: "string \<Rightarrow> workspace_db \<Rightarrow> bool \<times> workspace_db" where
  "delete_runtime_for_workspace workspace_id db =
     (let P = (\<lambda>r. rr_workspace_id r = workspace_id) in
      (0 < sql_count P (db_runtimes db), db\<lparr>db_runtimes := sql_delete P (db_runtimes db)\<rparr>))"

subsection \<open>SQLRuntimeImageRevisionRepository\<close>

definition create_revision :: "int \<Rightarrow> runtime_image_revision \<Rightarrow> workspace_db \<Rightarrow> unit result \<times> workspace_db" where
  "create_revision now v db =
     (if rv_revision_id v \<in> vr_revision_id ` set (db_revisions db)
         \<or> \<not> workspace_exists (rv_workspace_id v) db
      then (Inl IntegrityError, db)
      else (Inr (), db\<lparr>db_revisions := db_revisions db @ [\<lparr>
        vr_revision_id = rv_revision_id v, vr_workspace_id = rv_workspace_id v, vr_provider = rv_provider v,
        vr_config_fingerprint = rv_config_fingerprint v, vr_base_image_revision = rv_base_image_revision v,
        vr_status = image_revision_status_value (rv_status v),
        vr_provider_snapshot_ref = rv_provider_snapshot_ref v, vr_error = rv_error v,
        vr_validation_metadata = rv_validation_metadata v, vr_created_at = now, vr_ready_at = None\<rparr>]\<rparr>))"

definition is_revision :: "string \<Rightarrow> string \<Rightarrow> revision_row \<Rightarrow> bool" where
  "is_revision revision_id workspace_id row =
     (vr_revision_id row = revision_id \<and> vr_workspace_id row = workspace_id)"

definition write_revision :: "runtime_image_revision \<Rightarrow> revision_row \<Rightarrow> revision_row" where
  "write_revision v row = row\<lparr>
         vr_status := image_revision_status_value (rv_status v),
         vr_provider_snapshot_ref := rv_provider_snapshot_ref v, vr_error := rv_error v,
         vr_validation_metadata := rv_validation_metadata v, vr_ready_at := rv_ready_at v\<rparr>"

definition update_revision :: "runtime_image_revision \<Rightarrow> workspace_db \<Rightarrow> bool \<times> workspace_db" where
  "update_revision v db =
     (let P = is_revision (rv_revision_id v) (rv_workspace_id v) in
      (0 < sql_count P (db_revisions db),
       db\<lparr>db_revisions := sql_update P (write_revision v) (db_revisions db)\<rparr>))"

definition get_revision :: "string \<Rightarrow> string \<Rightarrow> workspace_db \<Rightarrow> runtime_image_revision option result" where
  "get_revision revision_id workspace_id db = entity_or_none revision_to_entity
     (sql_first (sql_select (is_revision revision_id workspace_id) (db_revisions db)))"

definition find_reusable_revision :: "string \<Rightarrow> string \<Rightarrow> string \<Rightarrow> workspace_db \<Rightarrow>
    runtime_image_revision option result" where
  "find_reusable_revision workspace_id config_fingerprint base_image_revision db =
     entity_or_none revision_to_entity (sql_first (order_desc vr_created_at (sql_select (\<lambda>row.
       vr_workspace_id row = workspace_id
       \<and> vr_status row = image_revision_status_value Rev_READY
       \<and> vr_config_fingerprint row = config_fingerprint
       \<and> vr_base_image_revision row = base_image_revision
       \<and> vr_provider_snapshot_ref row \<noteq> None) (db_revisions db))))"

definition list_revisions :: "string \<Rightarrow> int \<Rightarrow> workspace_db \<Rightarrow> runtime_image_revision list result" where
  "list_revisions workspace_id limit db = entities revision_to_entity
     (page limit 0 (order_desc vr_created_at
       (sql_select (\<lambda>row. vr_workspace_id row = workspace_id) (db_revisions db))))"

definition delete_revisions_for_workspace :: "string \<Rightarrow> workspace_db \<Rightarrow> int \<times> workspace_db" where
  "delete_revisions_for_workspace workspace_id db =
     (let P = (\<lambda>r. vr_workspace_id r = workspace_id) in
      (int (sql_count P (db_revisions db)), db\<lparr>db_revisions := sql_delete P (db_revisions db)\<rparr>))"

definition delete_revision :: "string \<Rightarrow> string \<Rightarrow> workspace_db \<Rightarrow> bool \<times> workspace_db" where
  "delete_revision revision_id workspace_id db =
     (let P = is_revision revision_id workspace_id in
      (0 < sql_count P (db_revisions db), db\<lparr>db_revisions := sql_delete P (db_revisions db)\<rparr>))"

subsection \<open>SQLExecutionRepository\<close>

definition find_execution_by_idempotency_key :: "(rat \<Rightarrow> string) \<Rightarrow> string \<Rightarrow> string \<Rightarrow> workspace_db \<Rightarrow>
    execution option result" where
  "find_execution_by_idempotency_key fl workspace_id key db =
     entity_or_none (execution_to_entity fl) (sql_first (sql_select (\<lambda>row.
       er_workspace_id row = workspace_id \<and> er_idempotency_key row = Some key) (db_executions db)))"

definition insert_execution :: "int \<Rightarrow> execution \<Rightarrow> workspace_db \<Rightarrow> unit result \<times> workspace_db" where
  "insert_execution now e db =
     (if ex_execution_id e \<in> er_execution_id ` set (db_executions db)
         \<or> (\<exists>row \<in> set (db_executions db). er_workspace_id row = ex_workspace_id e
              \<and> er_idempotency_key row \<noteq> None \<and> er_idempotency_key row = ex_idempotency_key e)
         \<or> \<not> workspace_exists (ex_workspace_id e) db
      then (Inl IntegrityError, db)
      else (Inr (), db\<lparr>db_executions := db_executions db @ [\<lparr>
        er_execution_id = ex_execution_id e, er_workspace_id = ex_workspace_id e,
        er_user_id = ex_user_id e, er_mode = execution_mode_value (ex_mode e), er_source = ex_source e,
        er_status = execution_status_value (ex_status e), er_runtime_id = None, er_exit_code = None,
        er_stdout_excerpt = [], er_stderr_excerpt = [], er_stdout_ref = None, er_stderr_ref = None,
        er_stdout_truncated = False, er_stderr_truncated = False, er_error = None,
        er_artifacts = J_list [], er_duration_ms = 0, er_memory_peak_bytes = 0,
        er_idempotency_key = ex_idempotency_key e, er_origin = job_origin_value (ex_origin e),
        er_created_at = now, er_started_at = None, er_completed_at = None\<rparr>]\<rparr>))"

definition create_execution :: "(rat \<Rightarrow> string) \<Rightarrow> int \<Rightarrow> execution \<Rightarrow> workspace_db \<Rightarrow>
    execution result \<times> workspace_db" where
  "create_execution fl now e db =
     (case insert_execution now e db of
        (Inr _, db') \<Rightarrow> (Inr e, db')
      | (Inl err, db') \<Rightarrow>
        (case ex_idempotency_key e of
           None \<Rightarrow> (Inl err, db')
         | Some key \<Rightarrow>
           (case find_execution_by_idempotency_key fl (ex_workspace_id e) key db' of
              Inl err' \<Rightarrow> (Inl err', db')
            | Inr None \<Rightarrow> (Inl err, db')
            | Inr (Some existing) \<Rightarrow> (Inr existing, db'))))"

definition write_execution :: "execution \<Rightarrow> execution_row \<Rightarrow> execution_row" where
  "write_execution e row = row\<lparr>er_status := execution_status_value (ex_status e),
     er_runtime_id := ex_runtime_id e, er_exit_code := ex_exit_code e,
     er_stdout_excerpt := ex_stdout_excerpt e, er_stderr_excerpt := ex_stderr_excerpt e,
     er_stdout_ref := ex_stdout_ref e, er_stderr_ref := ex_stderr_ref e,
     er_stdout_truncated := ex_stdout_truncated e, er_stderr_truncated := ex_stderr_truncated e,
     er_error := ex_error e, er_artifacts := artifacts_to_json (ex_artifacts e),
     er_duration_ms := ex_duration_ms e, er_memory_peak_bytes := ex_memory_peak_bytes e,
     er_started_at := ex_started_at e, er_completed_at := ex_completed_at e\<rparr>"

definition update_execution :: "execution \<Rightarrow> workspace_db \<Rightarrow> bool \<times> workspace_db" where
  "update_execution e db =
     (let P = (\<lambda>row. er_execution_id row = ex_execution_id e) in
      (0 < sql_count P (db_executions db),
       db\<lparr>db_executions := sql_update P (write_execution e) (db_executions db)\<rparr>))"

definition get_execution :: "(rat \<Rightarrow> string) \<Rightarrow> string \<Rightarrow> workspace_db \<Rightarrow> execution option result" where
  "get_execution fl execution_id db = entity_or_none (execution_to_entity fl)
     (sql_first (sql_select (\<lambda>row. er_execution_id row = execution_id) (db_executions db)))"

definition get_execution_for_user :: "(rat \<Rightarrow> string) \<Rightarrow> string \<Rightarrow> int \<Rightarrow> workspace_db \<Rightarrow>
    execution option result" where
  "get_execution_for_user fl execution_id user_id db = entity_or_none (execution_to_entity fl)
     (sql_first (sql_select (\<lambda>row. er_execution_id row = execution_id \<and> er_user_id row = user_id)
       (db_executions db)))"

definition list_executions_for_workspace :: "(rat \<Rightarrow> string) \<Rightarrow> string \<Rightarrow> int \<Rightarrow> int \<Rightarrow> workspace_db \<Rightarrow>
    (execution list \<times> int) result" where
  "list_executions_for_workspace fl workspace_id limit offset db =
     (let rows = sql_select (\<lambda>row. er_workspace_id row = workspace_id) (db_executions db) in
      rbind (entities (execution_to_entity fl) (page limit offset (order_desc er_created_at rows)))
        (\<lambda>es. Inr (es, int (length rows))))"

definition claim_execution :: "int \<Rightarrow> string \<Rightarrow> string \<Rightarrow> workspace_db \<Rightarrow> bool \<times> workspace_db" where
  "claim_execution now execution_id runtime_id db =
     (let P = (\<lambda>row. er_execution_id row = execution_id
                 \<and> er_status row = execution_status_value Exec_QUEUED) in
      (0 < sql_count P (db_executions db),
       db\<lparr>db_executions := sql_update P (\<lambda>row. row\<lparr>
         er_status := execution_status_value Exec_RUNNING, er_runtime_id := Some runtime_id,
         er_started_at := Some now\<rparr>) (db_executions db)\<rparr>))"

definition list_active_executions_for_workspace :: "(rat \<Rightarrow> string) \<Rightarrow> string \<Rightarrow> workspace_db \<Rightarrow>
    execution list result" where
  "list_active_executions_for_workspace fl workspace_id db = entities (execution_to_entity fl)
     (sql_select (\<lambda>row. er_workspace_id row = workspace_id
        \<and> er_status row \<in> set [execution_status_value Exec_QUEUED, execution_status_value Exec_RUNNING])
        (db_executions db))"

definition delete_executions_for_workspace :: "string \<Rightarrow> workspace_db \<Rightarrow> int \<times> workspace_db" where
  "delete_executions_for_workspace workspace_id db =
     (let P = (\<lambda>r. er_workspace_id r = workspace_id) in
      (int (sql_count P (db_executions db)), db\<lparr>db_executions := sql_delete P (db_executions db)\<rparr>))"

subsection \<open>Integrity of the tables\<close>

text \<open>What the constraints of the schema keep.\<close>

definition keyed_executions :: "execution_row list \<Rightarrow> execution_row list" where
  "keyed_executions t = filter (\<lambda>r. er_idempotency_key r \<noteq> None) t"

definition key_pair :: "execution_row \<Rightarrow> string \<times> string option" where
  "key_pair r = (er_workspace_id r, er_idempotency_key r)"

definition db_integrity :: "workspace_db \<Rightarrow> bool" where
  "db_integrity db \<longleftrightarrow>
     unique_key wr_workspace_id (db_workspaces db)
   \<and> unique_key rr_runtime_id (db_runtimes db) \<and> unique_key rr_workspace_id (db_runtimes db)
   \<and> unique_key er_execution_id (db_executions db)
   \<and> unique_key key_pair (keyed_executions (db_executions db))
   \<and> unique_key vr_revision_id (db_revisions db)
   \<and> rr_workspace_id ` set (db_runtimes db) \<subseteq> wr_workspace_id ` set (db_workspaces db)
   \<and> er_workspace_id ` set (db_executions db) \<subseteq> wr_workspace_id ` set (db_workspaces db)
   \<and> vr_workspace_id ` set (db_revisions db) \<subseteq> wr_workspace_id ` set (db_workspaces db)"

text \<open>One committed statement of any session.\<close>

inductive db_step :: "workspace_db \<Rightarrow> workspace_db \<Rightarrow> bool" where
  "db_step db (snd (create_workspace now w db))"
| "db_step db (snd (update_workspace now w db))"
| "db_step db (snd (delete_workspace_row i u db))"
| "db_step db (snd (insert_runtime now r db))"
| "db_step db (save_runtime r db)"
| "db_step db (snd (delete_runtime_for_workspace i db))"
| "db_step db (snd (create_revision now v db))"
| "db_step db (snd (update_revision v db))"
| "db_step db (snd (delete_revision vi i db))"
| "db_step db (snd (delete_revisions_for_workspace i db))"
| "db_step db (snd (create_execution fl now e db))"
| "db_step db (snd (update_execution e db))"
| "db_step db (snd (claim_execution now xi ri db))"
| "db_step db (snd (delete_executions_for_workspace i db))"

lemma unique_key_filter: "unique_key key t \<Longrightarrow> unique_key key (filter P t)"
  by (simp add: unique_key_def distinct_map_filter)

lemma sql_delete_filter: "sql_delete P t = filter (\<lambda>r. \<not> P r) t"
  by (simp add: sql_delete_def)

lemma sql_count_unique: "unique_key key t \<Longrightarrow> sql_count (\<lambda>r. key r = v) t \<le> Suc 0"
  using filter_unique_key [of key t v] by (auto simp: sql_count_def)

lemma sql_count_pos: "0 < sql_count P t \<longleftrightarrow> (\<exists>r \<in> set t. P r)"
  by (auto simp: sql_count_def filter_empty_conv)

lemma keyed_update:
  assumes "\<And>r. P r \<Longrightarrow> er_idempotency_key (f r) = er_idempotency_key r"
    and "\<And>r. P r \<Longrightarrow> er_workspace_id (f r) = er_workspace_id r"
  shows "map key_pair (keyed_executions (sql_update P f t)) = map key_pair (keyed_executions t)"
  using assms by (induction t) (auto simp: keyed_executions_def sql_update_def key_pair_def)

lemma image_sql_update:
  "(\<And>r. P r \<Longrightarrow> key (f r) = key r) \<Longrightarrow> key ` set (sql_update P f t) = key ` set t"
  using map_sql_update_frame [of P key f t] by (metis list.set_map)

lemma unique_key_cong: "map key t = map key t' \<Longrightarrow> unique_key key t = unique_key key t'"
  by (simp add: unique_key_def)

lemma create_execution_db: "snd (create_execution fl now e db) = snd (insert_execution now e db)"
  by (auto simp: create_execution_def split: prod.splits sum.splits option.splits)

lemma keyed_filter: "keyed_executions (filter P t) = filter P (keyed_executions t)"
  by (auto simp: keyed_executions_def filter_filter intro: filter_cong)

lemma keyed_delete: "keyed_executions (sql_delete P t) = filter (\<lambda>r. \<not> P r) (keyed_executions t)"
  by (simp add: sql_delete_def keyed_filter)

text \<open>The rows a cascade leaves still have their workspace.\<close>

lemma cascade_subset:
  assumes "f ` set t \<subseteq> wr_workspace_id ` set ws" "r \<in> set t"
    and "f r \<noteq> i \<or> f r \<in> wr_workspace_id ` set (sql_delete (owned i u) ws)"
  shows "f r \<in> wr_workspace_id ` set (sql_delete (owned i u) ws)"
  using assms(3)
proof
  assume "f r \<noteq> i"
  moreover obtain w where "w \<in> set ws" "f r = wr_workspace_id w" using assms(1,2) by auto
  ultimately show ?thesis by (auto simp: sql_delete_def owned_def)
qed

lemma db_step_integrity:
  assumes "db_step db db'" "db_integrity db"
  shows "db_integrity db'"
  using assms
proof cases
  case (1 now w)
  with assms(2) show ?thesis
    by (auto simp: create_workspace_def db_integrity_def unique_key_append)
next
  case (2 now w)
  with assms(2) show ?thesis
    by (auto simp: update_workspace_def write_workspace_def db_integrity_def Let_def unique_key_update image_sql_update)
next
  case (3 i u)
  define left where "left = sql_delete (owned i u) (db_workspaces db)"
  define kept where "kept j = (j \<noteq> i \<or> j \<in> wr_workspace_id ` set left)" for j
  have db': "db' = db\<lparr>db_workspaces := left,
      db_runtimes := filter (\<lambda>r. kept (rr_workspace_id r)) (db_runtimes db),
      db_executions := filter (\<lambda>r. kept (er_workspace_id r)) (db_executions db),
      db_revisions := filter (\<lambda>r. kept (vr_workspace_id r)) (db_revisions db)\<rparr>"
    using 3 by (simp add: delete_workspace_row_def Let_def left_def kept_def)
  note sub = cascade_subset [of _ _ "db_workspaces db" _ i u, folded left_def, folded kept_def]
  from assms(2) show ?thesis unfolding db_integrity_def db'
    by (auto simp: unique_key_filter keyed_filter left_def unique_key_delete intro: sub [unfolded left_def])
next
  case (4 now r)
  with assms(2) show ?thesis
    by (auto simp: insert_runtime_def db_integrity_def unique_key_append workspace_exists_def)
next
  case (5 r)
  with assms(2) show ?thesis
    by (auto simp: save_runtime_def write_runtime_def db_integrity_def unique_key_update image_sql_update)
next
  case (6 i)
  with assms(2) show ?thesis
    by (auto simp: delete_runtime_for_workspace_def db_integrity_def Let_def unique_key_filter sql_delete_filter)
next
  case (7 now v)
  with assms(2) show ?thesis
    by (auto simp: create_revision_def db_integrity_def unique_key_append workspace_exists_def)
next
  case (8 v)
  with assms(2) show ?thesis
    by (auto simp: update_revision_def write_revision_def db_integrity_def Let_def unique_key_update image_sql_update)
next
  case (9 vi i)
  with assms(2) show ?thesis
    by (auto simp: delete_revision_def db_integrity_def Let_def unique_key_filter sql_delete_filter)
next
  case (10 i)
  with assms(2) show ?thesis
    by (auto simp: delete_revisions_for_workspace_def db_integrity_def Let_def unique_key_filter sql_delete_filter)
next
  case (11 fl now e)
  with assms(2) show ?thesis
    by (auto simp: create_execution_db insert_execution_def db_integrity_def unique_key_append
        workspace_exists_def keyed_executions_def key_pair_def)
next
  case (12 e)
  with assms(2) show ?thesis
    by (auto simp: update_execution_def db_integrity_def Let_def unique_key_update image_sql_update
        write_execution_def unique_key_cong [OF keyed_update])
next
  case (13 now xi ri)
  with assms(2) show ?thesis
    by (auto simp: claim_execution_def db_integrity_def Let_def unique_key_update image_sql_update
        unique_key_cong [OF keyed_update])
next
  case (14 i)
  with assms(2) show ?thesis
    by (auto simp: delete_executions_for_workspace_def db_integrity_def Let_def sql_delete_filter
        keyed_filter unique_key_filter)
qed

definition empty_db :: workspace_db where
  "empty_db = \<lparr>db_workspaces = [], db_runtimes = [], db_executions = [], db_revisions = []\<rparr>"

lemma empty_db_integrity: "db_integrity empty_db"
  by (simp add: db_integrity_def empty_db_def keyed_executions_def)

lemma reachable_integrity: "db_step\<^sup>*\<^sup>* empty_db db \<Longrightarrow> db_integrity db"
  by (induction rule: rtranclp_induct) (simp_all add: empty_db_integrity db_step_integrity)

text \<open>in every database reached from an empty one by statements of any sessions in any order, a
  workspace has at most one runtime, an idempotency key names at most one execution of a workspace, every
  identifier is unique, and every runtime, execution and revision belongs to a workspace that exists.\<close>

theorem one_runtime_per_workspace:
  assumes "db_step\<^sup>*\<^sup>* empty_db db"
  shows "sql_count (\<lambda>r. rr_workspace_id r = i) (db_runtimes db) \<le> 1
    \<and> sql_count (\<lambda>r. er_workspace_id r = i \<and> er_idempotency_key r = Some k) (db_executions db) \<le> 1
    \<and> sql_count (\<lambda>r. er_execution_id r = x) (db_executions db) \<le> 1
    \<and> (0 < sql_count (\<lambda>r. rr_workspace_id r = i) (db_runtimes db) \<longrightarrow> workspace_exists i db)
    \<and> (0 < sql_count (\<lambda>r. er_workspace_id r = i) (db_executions db) \<longrightarrow> workspace_exists i db)"
proof -
  note ok = reachable_integrity [OF assms, unfolded db_integrity_def]
  have "sql_count (\<lambda>r. er_workspace_id r = i \<and> er_idempotency_key r = Some k) (db_executions db)
      = sql_count (\<lambda>r. key_pair r = (i, Some k)) (keyed_executions (db_executions db))"
    unfolding sql_count_def keyed_executions_def filter_filter key_pair_def
    by (intro arg_cong [of _ _ length] filter_cong) auto
  then show ?thesis
    using ok by (auto simp: workspace_exists_def sql_count_unique sql_count_pos)
qed

theorem one_runtime_per_workspace_witness:
  "let w = \<lparr>ws_workspace_id = ''w'', ws_user_id = 1, ws_name = ''n'', ws_runtime_config = default_runtime_config,
       ws_description = [], ws_state = Ws_ACTIVE, ws_created_at = None, ws_updated_at = None,
       ws_last_activity_at = None, ws_execution_count = 0\<rparr>;
     db1 = snd (create_workspace 0 w empty_db);
     db2 = snd (insert_runtime 1 (new_runtime ''r'' ''w'' ''docker'' ''small'') db1);
     db3 = snd (insert_runtime 2 (new_runtime ''r2'' ''w'' ''docker'' ''small'') db2)
   in sql_count (\<lambda>r. rr_workspace_id r = ''w'') (db_runtimes db3) = 1 \<and> workspace_exists ''w'' db3"
proof -
  define w where "w = \<lparr>ws_workspace_id = ''w'', ws_user_id = 1, ws_name = ''n'', ws_runtime_config = default_runtime_config,
       ws_description = [], ws_state = Ws_ACTIVE, ws_created_at = None, ws_updated_at = None,
       ws_last_activity_at = None, ws_execution_count = 0\<rparr>"
  define db1 where "db1 = snd (create_workspace 0 w empty_db)"
  define db2 where "db2 = snd (insert_runtime 1 (new_runtime ''r'' ''w'' ''docker'' ''small'') db1)"
  define db3 where "db3 = snd (insert_runtime 2 (new_runtime ''r2'' ''w'' ''docker'' ''small'') db2)"
  have s: "db_step empty_db db1" "db_step db1 db2" "db_step db2 db3"
    unfolding db1_def db2_def db3_def by (rule db_step.intros)+
  have "db_step\<^sup>*\<^sup>* empty_db db3"
    by (rule converse_rtranclp_into_rtranclp [OF s(1) converse_rtranclp_into_rtranclp [OF s(2)
          r_into_rtranclp [of db_step, OF s(3)]]])
  from one_runtime_per_workspace [OF this, of "''w''"]
  have "sql_count (\<lambda>r. rr_workspace_id r = ''w'') (db_runtimes db3) \<le> 1" by blast
  moreover have "0 < sql_count (\<lambda>r. rr_workspace_id r = ''w'') (db_runtimes db3) \<and> workspace_exists ''w'' db3"
    by (simp add: db3_def db2_def db1_def create_workspace_def insert_runtime_def empty_db_def
        workspace_exists_def w_def new_runtime_def sql_count_def)
  ultimately show ?thesis unfolding Let_def w_def [symmetric] db1_def [symmetric] db2_def [symmetric]
      db3_def [symmetric] by simp
qed

subsection \<open>The claim\<close>

text \<open>What the workers and the API do to the execution table after the insert: claims, writes of an
  entity, deletions.\<close>

datatype execution_event = Ev_claim int string string | Ev_update execution | Ev_delete string

fun run_event :: "execution_event \<Rightarrow> workspace_db \<Rightarrow> bool \<times> workspace_db" where
  "run_event (Ev_claim now x r) db = claim_execution now x r db"
| "run_event (Ev_update e) db = update_execution e db"
| "run_event (Ev_delete i) db = (True, snd (delete_executions_for_workspace i db))"

fun won_by :: "string \<Rightarrow> execution_event \<Rightarrow> bool \<Rightarrow> bool" where
  "won_by x (Ev_claim now x' r) ok = (x' = x \<and> ok)"
| "won_by x _ ok = False"

text \<open>How many of the claims of execution \<open>x\<close> in a sequence report success.\<close>

fun claims_won :: "string \<Rightarrow> execution_event list \<Rightarrow> workspace_db \<Rightarrow> nat" where
  "claims_won x [] db = 0"
| "claims_won x (ev # evs) db =
     (let (ok, db') = run_event ev db in (if won_by x ev ok then 1 else 0) + claims_won x evs db')"

definition queued :: "string \<Rightarrow> workspace_db \<Rightarrow> bool" where
  "queued x db = (\<exists>row \<in> set (db_executions db). er_execution_id row = x
     \<and> er_status row = execution_status_value Exec_QUEUED)"

fun no_requeue :: "execution_event \<Rightarrow> bool" where
  "no_requeue (Ev_update e) = (ex_status e \<noteq> Exec_QUEUED)"
| "no_requeue _ = True"

lemma status_value_queued: "execution_status_value st = execution_status_value Exec_QUEUED \<longleftrightarrow> st = Exec_QUEUED"
  by (cases st) simp_all

lemma claim_won: "fst (claim_execution now x r db) = queued x db"
  by (simp add: claim_execution_def queued_def Let_def sql_count_pos)

lemma claim_leaves: "\<not> queued x (snd (claim_execution now x r db))"
proof -
  have gone: "(\<And>q. P q \<Longrightarrow> \<not> P (f q)) \<Longrightarrow> q \<in> set (sql_update P f t) \<Longrightarrow> \<not> P q" for P f q and t :: "execution_row list"
    by (auto simp: sql_update_def split: if_splits)
  have "execution_status_value Exec_RUNNING \<noteq> execution_status_value Exec_QUEUED" by simp
  then show ?thesis
    unfolding claim_execution_def queued_def Let_def snd_conv
    using gone [of "\<lambda>row. er_execution_id row = x \<and> er_status row = execution_status_value Exec_QUEUED"
        "\<lambda>row. row\<lparr>er_status := execution_status_value Exec_RUNNING, er_runtime_id := Some r,
          er_started_at := Some now\<rparr>" _ "db_executions db"]
    by (auto simp del: execution_status_value.simps)
qed

lemmas claim_fate = claim_won claim_leaves

lemma run_event_not_queued:
  assumes "\<not> queued x db" "no_requeue ev"
  shows "\<not> queued x (snd (run_event ev db))"
proof (cases ev)
  case (Ev_update e)
  with assms(2) have "execution_status_value (ex_status e) \<noteq> ''QUEUED''"
    using status_value_queued [of "ex_status e"] by simp
  with assms(1) Ev_update show ?thesis
    by (auto simp: queued_def update_execution_def write_execution_def Let_def set_sql_update)
qed (use assms in \<open>auto simp: queued_def claim_execution_def delete_executions_for_workspace_def Let_def
      set_sql_update sql_delete_def\<close>)

lemma no_more_claims:
  "\<not> queued x db \<Longrightarrow> list_all no_requeue evs \<Longrightarrow> claims_won x evs db = 0"
proof (induction evs arbitrary: db)
  case (Cons ev evs)
  obtain ok db' where r: "run_event ev db = (ok, db')" by (cases "run_event ev db")
  have "\<not> won_by x ev ok"
    using r Cons.prems(1) by (cases ev) (auto simp: claim_fate dest: arg_cong [of _ _ fst])
  moreover have "\<not> queued x db'" using run_event_not_queued [of x db ev] Cons.prems r by simp
  ultimately show ?case using Cons r by simp
qed simp

text \<open>whatever claims, writes and deletions any number of workers and requests interleave, at most
  one claim of an execution ever succeeds, as long as no write puts the status back to \<open>QUEUED\<close>; and a
  claim succeeds exactly when it finds the execution queued, so a cancelled one cannot be claimed.\<close>

theorem execution_claimed_once:
  assumes "list_all no_requeue evs"
  shows "claims_won x evs db \<le> 1
    \<and> (fst (claim_execution now x r db) \<longleftrightarrow> queued x db)
    \<and> (\<not> queued x db \<longrightarrow> claims_won x evs db = 0)"
  using assms
proof (induction evs arbitrary: db)
  case (Cons ev evs)
  obtain ok db' where r: "run_event ev db = (ok, db')" by (cases "run_event ev db")
  have "won_by x ev ok \<Longrightarrow> \<not> queued x db'"
  proof (cases ev)
    case (Ev_claim t y q)
    then show "won_by x ev ok \<Longrightarrow> \<not> queued x db'"
      using r claim_fate(2) [of x t q db] by simp
  qed simp_all
  moreover have "list_all no_requeue evs" using Cons.prems by simp
  ultimately show ?case
    using Cons.IH [of db'] no_more_claims [of x db' evs] no_more_claims [of x db "ev # evs"] Cons.prems r
    by (auto simp: claim_fate)
qed (simp add: claim_fate)

definition sample_workspace :: workspace where
  "sample_workspace = \<lparr>ws_workspace_id = ''w'', ws_user_id = 1, ws_name = ''n'',
     ws_runtime_config = default_runtime_config, ws_description = [], ws_state = Ws_ACTIVE,
     ws_created_at = None, ws_updated_at = None, ws_last_activity_at = None, ws_execution_count = 0\<rparr>"

definition sample_execution :: execution where
  "sample_execution = blank_execution ''e'' ''w'' 1 Mode_SCRIPT ''print(1)''"

definition sample_db :: workspace_db where
  "sample_db = snd (insert_execution 1 sample_execution (snd (create_workspace 0 sample_workspace empty_db)))"

lemmas sample_eval = sample_db_def sample_execution_def sample_workspace_def blank_execution_def
  insert_execution_def create_workspace_def empty_db_def workspace_exists_def

lemma sample_queued: "queued ''e'' sample_db"
  by (simp add: sample_eval queued_def)

theorem execution_claimed_once_witness:
  "claims_won ''e'' [Ev_claim 5 ''e'' ''r1'', Ev_claim 6 ''e'' ''r2'',
     Ev_update (sample_execution\<lparr>ex_status := Exec_CANCELLED\<rparr>), Ev_claim 7 ''e'' ''r1''] sample_db = 1"
proof -
  define evs where "evs = [Ev_claim 6 ''e'' ''r2'', Ev_update (sample_execution\<lparr>ex_status := Exec_CANCELLED\<rparr>),
    Ev_claim 7 ''e'' ''r1'']"
  obtain ok db' where c: "claim_execution 5 ''e'' ''r1'' sample_db = (ok, db')"
    by (cases "claim_execution 5 ''e'' ''r1'' sample_db")
  have ok: "ok" using claim_won [of 5 "''e''" "''r1''" sample_db] sample_queued c by simp
  have "list_all no_requeue evs" by (simp add: evs_def)
  from execution_claimed_once [OF this, of "''e''" db'] have "claims_won ''e'' evs db' = 0"
    using claim_leaves [of "''e''" 5 "''r1''" sample_db] c by simp
  with ok c have "claims_won ''e'' (Ev_claim 5 ''e'' ''r1'' # evs) sample_db = 1" by simp
  then show ?thesis by (simp only: evs_def)
qed

subsection \<open>What is written is what is read\<close>

text \<open>
  The contract of a table whose rows are read as entities: \<open>P k\<close> are the rows a key selects, \<open>wr e\<close> is
  the \<open>SET\<close> clause of the statement that writes the entity \<open>e\<close>, and \<open>merge e\<^sub>0 e\<close> is the entity read after
  \<open>e\<close> was written over \<open>e\<^sub>0\<close>.
\<close>

locale entity_table =
  fixes P :: "'k \<Rightarrow> 'r \<Rightarrow> bool" and key :: "'e \<Rightarrow> 'k" and wr :: "'e \<Rightarrow> 'r \<Rightarrow> 'r"
    and conv :: "'r \<Rightarrow> 'e result" and good :: "'e \<Rightarrow> bool" and merge :: "'e \<Rightarrow> 'e \<Rightarrow> 'e"
  assumes P_wr: "P (key e) r \<Longrightarrow> P k (wr e r) = P k r"
    and conv_wr: "good e \<Longrightarrow> P (key e) r \<Longrightarrow> conv r = Inr e\<^sub>0 \<Longrightarrow> conv (wr e r) = Inr (merge e\<^sub>0 e)"
    and P_key: "P k r \<Longrightarrow> P k' r \<Longrightarrow> k = k'"
begin

definition lookup :: "'k \<Rightarrow> 'r list \<Rightarrow> 'e option result" where
  "lookup k t = entity_or_none conv (sql_first (sql_select (P k) t))"

definition store :: "'e \<Rightarrow> 'r list \<Rightarrow> 'r list" where
  "store e t = sql_update (P (key e)) (wr e) t"

lemma first_store:
  "sql_first (sql_select (P k) (store e t))
   = map_option (\<lambda>r. if P (key e) r then wr e r else r) (sql_first (sql_select (P k) t))"
  unfolding store_def by (rule sql_first_update) (rule P_wr)

lemma lookup_store:
  assumes "lookup (key e) t = Inr (Some e\<^sub>0)" "good e"
  shows "lookup (key e) (store e t) = Inr (Some (merge e\<^sub>0 e))"
proof -
  from assms(1) obtain r where r: "sql_first (sql_select (P (key e)) t) = Some r" "conv r = Inr e\<^sub>0"
    by (auto simp: lookup_def entity_or_none_def rbind_Inr_iff split: option.splits)
  from sql_first_Some [OF r(1)] have "P (key e) r" by simp
  with r assms(2) show ?thesis by (simp add: lookup_def first_store entity_or_none_def conv_wr)
qed

lemma lookup_other:
  assumes "k \<noteq> key e"
  shows "lookup k (store e t) = lookup k t"
proof (cases "sql_first (sql_select (P k) t)")
  case (Some r)
  then have "\<not> P (key e) r" using sql_first_Some [OF Some] P_key assms by blast
  with Some show ?thesis by (simp add: lookup_def first_store)
qed (simp add: lookup_def first_store)

end

lemma workspace_state_of_value [simp]: "workspace_state_of (workspace_state_value a) = Inr a"
  by (cases a; simp add: workspace_state_of_def enum_of_def)

lemma runtime_state_of_value [simp]: "runtime_state_of (runtime_state_value b) = Inr b"
  by (cases b; simp add: runtime_state_of_def enum_of_def)

lemma execution_status_of_value [simp]: "execution_status_of (execution_status_value c) = Inr c"
  by (cases c; simp add: execution_status_of_def enum_of_def)

lemma execution_mode_of_value [simp]: "execution_mode_of (execution_mode_value m) = Inr m"
  by (cases m; simp add: execution_mode_of_def enum_of_def)

lemma image_revision_status_of_value [simp]: "image_revision_status_of (image_revision_status_value d) = Inr d"
  by (cases d; simp add: image_revision_status_of_def enum_of_def)

text \<open>The runtime: everything but the identity and the creation time comes from the entity written.\<close>

definition runtime_merge :: "workspace_runtime \<Rightarrow> workspace_runtime \<Rightarrow> workspace_runtime" where
  "runtime_merge r\<^sub>0 r = r\<lparr>rt_runtime_id := rt_runtime_id r\<^sub>0, rt_created_at := rt_created_at r\<^sub>0\<rparr>"

interpretation rtt: entity_table "\<lambda>i row. rr_workspace_id row = i" rt_workspace_id write_runtime
  runtime_to_entity "\<lambda>_. True" runtime_merge
  by unfold_locales (auto simp: runtime_to_entity_def runtime_merge_def write_runtime_def rbind_Inr_iff)

lemma save_runtime_store: "save_runtime r db = db\<lparr>db_runtimes := rtt.store r (db_runtimes db)\<rparr>"
  by (simp add: save_runtime_def rtt.store_def)

lemma get_runtime_lookup: "get_runtime_for_workspace i db = rtt.lookup i (db_runtimes db)"
  by (simp add: get_runtime_for_workspace_def rtt.lookup_def)

lemma save_runtime_read:
  assumes "get_runtime_for_workspace (rt_workspace_id r) db = Inr (Some r\<^sub>0)"
  shows "get_runtime_for_workspace (rt_workspace_id r) (save_runtime r db) = Inr (Some (runtime_merge r\<^sub>0 r))"
  using assms rtt.lookup_store [of r] by (simp add: get_runtime_lookup save_runtime_store)

text \<open>The revision.\<close>

definition revision_merge :: "runtime_image_revision \<Rightarrow> runtime_image_revision \<Rightarrow> runtime_image_revision" where
  "revision_merge v\<^sub>0 v = v\<^sub>0\<lparr>rv_status := rv_status v, rv_provider_snapshot_ref := rv_provider_snapshot_ref v,
     rv_error := rv_error v, rv_validation_metadata := rv_validation_metadata v, rv_ready_at := rv_ready_at v\<rparr>"

interpretation rvt: entity_table "\<lambda>(vi, i). is_revision vi i" "\<lambda>v. (rv_revision_id v, rv_workspace_id v)"
  write_revision revision_to_entity "\<lambda>_. True" revision_merge
  by unfold_locales (auto simp: revision_to_entity_def revision_merge_def write_revision_def rbind_Inr_iff
      is_revision_def)

lemma update_revision_read:
  assumes "get_revision (rv_revision_id v) (rv_workspace_id v) db = Inr (Some v\<^sub>0)"
  shows "get_revision (rv_revision_id v) (rv_workspace_id v) (snd (update_revision v db))
    = Inr (Some (revision_merge v\<^sub>0 v))"
  using assms rvt.lookup_store [of v "db_revisions db" v\<^sub>0]
  by (simp add: get_revision_def update_revision_def Let_def rvt.lookup_def rvt.store_def)

text \<open>The execution: its artifacts go through JSON, which drops those without a path.\<close>

definition clean_artifact :: "execution_artifact \<Rightarrow> execution_artifact" where
  "clean_artifact a = a\<lparr>ar_object_key := (if truthy (ar_object_key a) then ar_object_key a else None),
     ar_content_type := (if ar_content_type a = [] then DEFAULT_CONTENT_TYPE else ar_content_type a)\<rparr>"

definition clean_artifacts :: "execution_artifact list \<Rightarrow> execution_artifact list" where
  "clean_artifacts as = map clean_artifact (filter (\<lambda>a. ar_path a \<noteq> []) as)"

lemma artifacts_read: "artifacts_from_json fl (artifacts_to_json as) = Inr (clean_artifacts as)"
proof -
  have "artifact_items fl (map artifact_to_dict as) = Inr (clean_artifacts as)"
    by (induction as) (auto simp: clean_artifacts_def clean_artifact_def artifact_to_dict_def j_get_def
        json_int_def json_str_def truthy_def split: option.splits)
  then show ?thesis by (simp add: artifacts_from_json_def artifacts_to_json_def)
qed

definition execution_merge :: "execution \<Rightarrow> execution \<Rightarrow> execution" where
  "execution_merge e\<^sub>0 e = e\<lparr>ex_workspace_id := ex_workspace_id e\<^sub>0, ex_user_id := ex_user_id e\<^sub>0,
     ex_mode := ex_mode e\<^sub>0, ex_source := ex_source e\<^sub>0, ex_created_at := ex_created_at e\<^sub>0,
     ex_artifacts := clean_artifacts (ex_artifacts e), ex_idempotency_key := ex_idempotency_key e\<^sub>0,
     ex_origin := ex_origin e\<^sub>0\<rparr>"

interpretation ext: entity_table "\<lambda>x row. er_execution_id row = x" ex_execution_id write_execution
  "execution_to_entity fl" "\<lambda>_. True" execution_merge for fl
  by unfold_locales (auto simp: execution_to_entity_def execution_merge_def write_execution_def rbind_Inr_iff
      new_execution_def artifacts_read split: if_splits)

lemma update_execution_read:
  assumes "get_execution fl (ex_execution_id e) db = Inr (Some e\<^sub>0)"
  shows "get_execution fl (ex_execution_id e) (snd (update_execution e db)) = Inr (Some (execution_merge e\<^sub>0 e))"
  using assms ext.lookup_store [of fl e "db_executions db" e\<^sub>0]
  by (simp add: get_execution_def update_execution_def Let_def ext.lookup_def ext.store_def)

text \<open>The workspace: its configuration becomes canonical, and the entity has to be one the constructor
  accepts unchanged.\<close>

lemma py_strip_idem: "py_strip (py_strip s) = py_strip s"
proof (rule py_strip_id, cases "py_strip s = []")
  case False
  let ?l = "dropWhile is_space s"
  have r: "dropWhile is_space (rev ?l) \<noteq> []" using False by (simp add: py_strip_def)
  then have "\<not> is_space (last (py_strip s))"
    using hd_dropWhile [OF r] by (simp add: py_strip_def last_rev)
  moreover have "\<not> is_space (hd (py_strip s))"
  proof -
    obtain t where t: "rev ?l = t @ dropWhile is_space (rev ?l)" by (metis takeWhile_dropWhile_id)
    then have "?l = py_strip s @ rev t" by (metis py_strip_def rev_append rev_rev_ident)
    then have "hd ?l = hd (py_strip s)" "?l \<noteq> []" using False by (metis hd_append, auto)
    then show ?thesis using hd_dropWhile by metis
  qed
  ultimately show "py_strip s = [] \<or> \<not> is_space (hd (py_strip s)) \<and> \<not> is_space (last (py_strip s))" by simp
qed simp

lemma validate_name_idem: "validate_name s = Inr n \<Longrightarrow> validate_name (Some n) = Inr n"
  using py_split_part by (auto simp: validate_name_def workspace_error_def Let_def py_split_join
      split: option.splits if_splits)

lemma validate_description_idem: "validate_description s = Inr d \<Longrightarrow> validate_description (Some d) = Inr d"
  by (auto simp: validate_description_def workspace_error_def Let_def py_strip_idem py_strip_def [of "[]"]
      split: option.splits if_splits)

lemma new_workspace_idem: "new_workspace w = Inr w' \<Longrightarrow> new_workspace w' = Inr w'"
  by (auto simp: new_workspace_def rbind_Inr_iff workspace_error_def validate_name_idem validate_description_idem
      split: if_splits)

definition valid_workspace :: "workspace \<Rightarrow> bool" where
  "valid_workspace w \<longleftrightarrow> new_workspace w = Inr w
     \<and> check_runtime_config (ws_runtime_config w) = Inr (ws_runtime_config w)"

definition workspace_merge :: "int \<Rightarrow> workspace \<Rightarrow> workspace \<Rightarrow> workspace" where
  "workspace_merge now w\<^sub>0 w = w\<lparr>ws_runtime_config := canonical_config (ws_runtime_config w),
     ws_created_at := ws_created_at w\<^sub>0, ws_updated_at := Some now\<rparr>"

lemma new_workspace_fixed_iff:
  "new_workspace w = Inr w \<longleftrightarrow> validate_name (Some (ws_name w)) = Inr (ws_name w)
     \<and> validate_description (Some (ws_description w)) = Inr (ws_description w) \<and> 0 \<le> ws_execution_count w"
  by (cases w) (auto simp: new_workspace_def rbind_Inr_iff workspace_error_def split: if_splits)

interpretation wst: entity_table "\<lambda>(i, u). owned i u" "\<lambda>w. (ws_workspace_id w, ws_user_id w)"
  "write_workspace now" "workspace_to_entity fl" valid_workspace "workspace_merge now" for now fl
proof
  fix e\<^sub>0 e r
  assume v: "valid_workspace e" and "(case (ws_workspace_id e, ws_user_id e) of (i, u) \<Rightarrow> owned i u) r"
    "workspace_to_entity fl r = Inr e\<^sub>0"
  then have "wr_workspace_id r = ws_workspace_id e" "wr_user_id r = ws_user_id e"
    "ws_created_at e\<^sub>0 = Some (wr_created_at r)"
    by (auto simp: owned_def workspace_to_entity_def rbind_Inr_iff new_workspace_def workspace_error_def
        split: if_splits)
  moreover have "validate_name (Some (ws_name e)) = Inr (ws_name e)" "0 \<le> ws_execution_count e"
    "validate_description (Some (ws_description e)) = Inr (ws_description e)"
    "check_runtime_config (ws_runtime_config e) = Inr (ws_runtime_config e)"
    using v by (simp_all add: valid_workspace_def new_workspace_fixed_iff)
  ultimately show "workspace_to_entity fl (write_workspace now e r) = Inr (workspace_merge now e\<^sub>0 e)"
    by (cases e) (simp add: workspace_to_entity_def write_workspace_def config_read workspace_merge_def
        new_workspace_def)
qed (auto simp: owned_def write_workspace_def)

lemma update_workspace_read:
  assumes "get_workspace fl (ws_workspace_id w) (ws_user_id w) db = Inr (Some w\<^sub>0)" "valid_workspace w"
  shows "get_workspace fl (ws_workspace_id w) (ws_user_id w) (snd (update_workspace now w db))
    = Inr (Some (workspace_merge now w\<^sub>0 w))"
  using assms wst.lookup_store [of fl w "db_workspaces db" w\<^sub>0 now]
  by (simp add: get_workspace_def update_workspace_def Let_def wst.lookup_def wst.store_def)

lemma get_workspace_valid:
  assumes "get_workspace fl i u db = Inr (Some w)"
  shows "valid_workspace w \<and> ws_workspace_id w = i \<and> ws_user_id w = u"
proof -
  from assms obtain row where r: "sql_first (sql_select (owned i u) (db_workspaces db)) = Some row"
    "workspace_to_entity fl row = Inr w"
    by (auto simp: get_workspace_def entity_or_none_def rbind_Inr_iff split: option.splits)
  have c: "config_from_dict fl j = Inr c \<Longrightarrow> check_runtime_config c = Inr c" for j c
    by (auto simp: config_from_dict_def check_runtime_config_def config_error_def rbind_Inr_iff Let_def
        split: json.splits if_splits)
  have "new_workspace w = Inr w" "check_runtime_config (ws_runtime_config w) = Inr (ws_runtime_config w)"
    using r(2) by (auto simp: workspace_to_entity_def rbind_Inr_iff intro: new_workspace_idem)
      (auto simp: new_workspace_def rbind_Inr_iff workspace_error_def dest: c split: if_splits)
  moreover have "ws_workspace_id w = i" "ws_user_id w = u"
    using r(2) sql_first_Some [OF r(1)]
    by (auto simp: workspace_to_entity_def rbind_Inr_iff new_workspace_def owned_def workspace_error_def
        split: if_splits)
  ultimately show ?thesis by (simp add: valid_workspace_def)
qed

end
