(* ===== verification/Workspace_Service.thy ===== *)
theory Workspace_Service
  imports Workspace_Store Job_Queue
begin

section \<open>The workspace service\<close>

text \<open>
  Models \<open>src/application/services/workspaces/workspace_service.py\<close> and the producer of the work
  stream, \<open>redis_stream_workspace_queue.py\<close>. The state is the database, Redis, the calls made to the
  runtime provider so far, and the number of readings of the clock and of the generator of identifiers.
  The provider is outside the program: each of its replies is an arbitrary function of the calls made so
  far, so that no reply is assumed, and what the service does to the provider can be read off the list of
  calls. An operation that may raise returns a result beside the state it leaves.
\<close>

subsection \<open>The provider\<close>

record runtime_spec =
  sp_workspace_id :: string
  sp_image :: string
  sp_resource_profile :: resource_profile
  sp_labels :: "(string \<times> string) list"

record provider_runtime_status =
  ps_provider_ref :: string
  ps_state :: runtime_state

record execution_request =
  rq_mode :: execution_mode
  rq_source :: string
  rq_timeout_seconds :: int
  rq_max_output_bytes :: int

record execution_outcome =
  oc_exit_code :: "int option"
  oc_stdout :: string
  oc_stderr :: string
  oc_duration_ms :: int
  oc_timed_out :: bool
  oc_memory_peak_bytes :: int
  oc_error :: "string option"

record provider_file_entry =
  fe_path :: string
  fe_name :: string
  fe_is_dir :: bool
  fe_size_bytes :: int

datatype provider_call =
    P_ensure_workspace_state string | P_delete_workspace_state string
  | P_create_runtime runtime_spec | P_start_runtime string | P_stop_runtime string
  | P_inspect_runtime string | P_delete_runtime string
  | P_execute string execution_request
  | P_write_file string string string | P_read_file string string | P_list_files string string
  | P_delete_file string string | P_measure_workspace_usage string
  | P_create_snapshot string string string | P_describe
  | S_upload string string

text \<open>\<open>S_upload\<close> is an upload to the object storage, which the worker makes between its calls to the
  provider. The replies, given the calls so far with the one that is answered last:\<close>

record provider =
  pv_name :: string
  pv_ensure_workspace_state :: "provider_call list \<Rightarrow> string result"
  pv_delete_workspace_state :: "provider_call list \<Rightarrow> unit result"
  pv_create_runtime :: "provider_call list \<Rightarrow> provider_runtime_status result"
  pv_start_runtime :: "provider_call list \<Rightarrow> provider_runtime_status result"
  pv_stop_runtime :: "provider_call list \<Rightarrow> provider_runtime_status result"
  pv_inspect_runtime :: "provider_call list \<Rightarrow> provider_runtime_status option result"
  pv_delete_runtime :: "provider_call list \<Rightarrow> unit result"
  pv_execute :: "provider_call list \<Rightarrow> execution_outcome result"
  pv_write_file :: "provider_call list \<Rightarrow> unit result"
  pv_read_file :: "provider_call list \<Rightarrow> string result"
  pv_list_files :: "provider_call list \<Rightarrow> provider_file_entry list result"
  pv_delete_file :: "provider_call list \<Rightarrow> unit result"
  pv_measure_workspace_usage :: "provider_call list \<Rightarrow> int result"
  pv_create_snapshot :: "provider_call list \<Rightarrow> string result"
  pv_describe :: "provider_call list \<Rightarrow> (string \<times> json) list result"

text \<open>\<open>except RuntimeProviderError\<close> catches the subclasses too.\<close>

definition is_provider_error :: "exn \<Rightarrow> bool" where
  "is_provider_error e = (case e of AppError c _ \<Rightarrow> c \<in> set provider_errors | _ \<Rightarrow> False)"

definition is_provider_not_found :: "exn \<Rightarrow> bool" where
  "is_provider_not_found e = (case e of AppError c _ \<Rightarrow> c = ProviderRuntimeNotFoundError | _ \<Rightarrow> False)"

lemma not_found_provider_error: "is_provider_not_found e \<Longrightarrow> is_provider_error e"
  by (auto simp: is_provider_not_found_def is_provider_error_def provider_errors_def split: exn.splits)

text \<open>\<open>exc.__class__.__name__\<close> of the errors of a provider.\<close>

fun app_error_name :: "app_error \<Rightarrow> string" where
  "app_error_name RuntimeProviderError = ''RuntimeProviderError''"
| "app_error_name RuntimeProviderUnavailableError = ''RuntimeProviderUnavailableError''"
| "app_error_name ProviderRuntimeNotFoundError = ''RuntimeNotFoundError''"
| "app_error_name ProviderExecutionError = ''ProviderExecutionError''"
| "app_error_name ProviderResourceError = ''ProviderResourceError''"
| "app_error_name InvalidWorkspaceError = ''InvalidWorkspaceError''"
| "app_error_name InvalidRuntimeConfigError = ''InvalidRuntimeConfigError''"
| "app_error_name InvalidRuntimeTransition = ''InvalidRuntimeTransition''"
| "app_error_name InvalidExecutionTransition = ''InvalidExecutionTransition''"
| "app_error_name WorkspaceNotFoundError = ''WorkspaceNotFoundError''"
| "app_error_name WorkspaceLimitReachedError = ''WorkspaceLimitReachedError''"
| "app_error_name WorkspaceNotUsableError = ''WorkspaceNotUsableError''"
| "app_error_name RuntimeNotFoundError = ''RuntimeNotFoundError''"
| "app_error_name RuntimeNotRunningError = ''RuntimeNotRunningError''"
| "app_error_name RuntimeBusyError = ''RuntimeBusyError''"
| "app_error_name SnapshotFailedError = ''SnapshotFailedError''"
| "app_error_name WorkspaceQuotaExceededError = ''WorkspaceQuotaExceededError''"
| "app_error_name PackageInstallNotPermittedError = ''PackageInstallNotPermittedError''"
| "app_error_name ExecutionNotFoundError = ''ExecutionNotFoundError''"
| "app_error_name TooManyActiveExecutionsError = ''TooManyActiveExecutionsError''"
| "app_error_name InvalidExecutionRequestError = ''InvalidExecutionRequestError''"
| "app_error_name InvalidGrantTransition = ''InvalidGrantTransition''"
| "app_error_name UnknownClientError = ''UnknownClientError''"
| "app_error_name InvalidRedirectUriError = ''InvalidRedirectUriError''"
| "app_error_name InvalidScopeError = ''InvalidScopeError''"
| "app_error_name InvalidTargetError = ''InvalidTargetError''"
| "app_error_name InvalidGrantError = ''InvalidGrantError''"
| "app_error_name GrantRevokedError = ''GrantRevokedError''"
| "app_error_name ConnectionStateError = ''ConnectionStateError''"
| "app_error_name ConnectionEditError = ''ConnectionEditError''"
| "app_error_name InvalidPhoneNumber = ''InvalidPhoneNumber''"
| "app_error_name FolderNotFoundError = ''FolderNotFoundError''"
| "app_error_name FileRecordNotFoundError = ''FileRecordNotFoundError''"
| "app_error_name FileSizeLimitExceededError = ''FileSizeLimitExceededError''"
| "app_error_name StorageQuotaExceededError = ''StorageQuotaExceededError''"
| "app_error_name FileTypeMismatchError = ''FileTypeMismatchError''"
| "app_error_name FolderNameConflictError = ''FolderNameConflictError''"
| "app_error_name StorageOperationError = ''StorageOperationError''"
| "app_error_name UnsafeObjectKeyError = ''UnsafeObjectKeyError''"
| "app_error_name UploadSessionNotFoundError = ''UploadSessionNotFoundError''"
| "app_error_name UploadVerificationError = ''UploadVerificationError''"
| "app_error_name MissingUploadPartsError = ''MissingUploadPartsError''"
| "app_error_name InvalidPartNumberError = ''InvalidPartNumberError''"
| "app_error_name UploadNotMultipartError = ''UploadNotMultipartError''"

fun exn_class_name :: "exn \<Rightarrow> string" where
  "exn_class_name (AppError c _) = app_error_name c"
| "exn_class_name (ValueError _) = ''ValueError''"
| "exn_class_name (RuntimeError _) = ''RuntimeError''"
| "exn_class_name (KeyError _) = ''KeyError''"
| "exn_class_name (TypeError _) = ''TypeError''"
| "exn_class_name IntegrityError = ''IntegrityError''"
| "exn_class_name _ = ''Exception''"

subsection \<open>State and environment\<close>

record service_env =
  sv_provider :: provider
  sv_sha256 :: "string \<Rightarrow> string"
  sv_float :: "rat \<Rightarrow> string"
  sv_now :: "nat \<Rightarrow> int"
  sv_uuid :: "nat \<Rightarrow> string"
  sv_rival :: "workspace_db \<Rightarrow> workspace_db"
  sv_prefix :: string
  sv_redis :: "nat \<Rightarrow> commit_fate"
  sv_max_workspaces :: int
  sv_snapshot_retention :: int
  sv_disk_quota_bytes :: int

record service_state =
  st_db :: workspace_db
  st_redis :: redis
  st_calls :: "provider_call list"
  st_ticks :: nat

type_synonym 'a op = "service_state \<Rightarrow> 'a result \<times> service_state"

definition read_db :: "(workspace_db \<Rightarrow> 'a result) \<Rightarrow> 'a op" where
  "read_db f s = (f (st_db s), s)"

definition exec_db :: "(workspace_db \<Rightarrow> 'a result \<times> workspace_db) \<Rightarrow> 'a op" where
  "exec_db f s = (let (r, db) = f (st_db s) in (r, s\<lparr>st_db := db\<rparr>))"

definition write_db :: "(workspace_db \<Rightarrow> workspace_db) \<Rightarrow> unit op" where
  "write_db f s = (Inr (), s\<lparr>st_db := f (st_db s)\<rparr>)"

definition now_op :: "service_env \<Rightarrow> int op" where
  "now_op env s = (Inr (sv_now env (st_ticks s)), s\<lparr>st_ticks := Suc (st_ticks s)\<rparr>)"

definition uuid_op :: "service_env \<Rightarrow> string op" where
  "uuid_op env s = (Inr (sv_uuid env (st_ticks s)), s\<lparr>st_ticks := Suc (st_ticks s)\<rparr>)"

definition call_provider :: "(provider_call list \<Rightarrow> 'a result) \<Rightarrow> provider_call \<Rightarrow> 'a op" where
  "call_provider reply c s = (let calls = st_calls s @ [c] in (reply calls, s\<lparr>st_calls := calls\<rparr>))"

definition write_workspace_op :: "service_env \<Rightarrow> workspace \<Rightarrow> unit op" where
  "write_workspace_op env w = sbind (now_op env) (\<lambda>now. write_db (\<lambda>db. snd (update_workspace now w db)))"

subsection \<open>Reads and edits\<close>

definition require_workspace :: "service_env \<Rightarrow> string \<Rightarrow> int \<Rightarrow> workspace op" where
  "require_workspace env workspace_id user_id =
     sbind (read_db (get_workspace (sv_float env) workspace_id user_id)) (\<lambda>w.
       case w of None \<Rightarrow> raise_op (AppError WorkspaceNotFoundError workspace_id)
       | Some w \<Rightarrow> sreturn (Inr w))"

definition require_usable :: "service_env \<Rightarrow> string \<Rightarrow> int \<Rightarrow> workspace op" where
  "require_usable env workspace_id user_id =
     sbind (require_workspace env workspace_id user_id) (\<lambda>w.
       if \<not> accepts_executions w then raise_op (AppError WorkspaceNotUsableError workspace_id)
       else sreturn (Inr w))"

definition service_create_workspace :: "service_env \<Rightarrow> int \<Rightarrow> string \<Rightarrow> string \<Rightarrow> runtime_config option \<Rightarrow>
    workspace op" where
  "service_create_workspace env user_id name description config =
     sbind (read_db (\<lambda>db. Inr (count_workspaces user_id db))) (\<lambda>n.
     if sv_max_workspaces env \<le> n
     then raise_op (AppError WorkspaceLimitReachedError (''You may have at most ''
            @ str_int (sv_max_workspaces env) @ '' workspaces.''))
     else sbind (uuid_op env) (\<lambda>uuid.
     sbind (sreturn (new_workspace \<lparr>ws_workspace_id = uuid, ws_user_id = user_id, ws_name = name,
       ws_runtime_config = (case config of Some c \<Rightarrow> c | None \<Rightarrow> default_runtime_config),
       ws_description = description, ws_state = Ws_ACTIVE, ws_created_at = None, ws_updated_at = None,
       ws_last_activity_at = None, ws_execution_count = 0\<rparr>)) (\<lambda>w.
     sbind (now_op env) (\<lambda>now.
     sbind (exec_db (create_workspace now w)) (\<lambda>_. sreturn (Inr w))))))"

definition service_list_workspaces :: "service_env \<Rightarrow> int \<Rightarrow> int \<Rightarrow> int \<Rightarrow> (workspace list \<times> int) op" where
  "service_list_workspaces env user_id limit offset =
     read_db (list_workspaces (sv_float env) user_id limit offset)"

record workspace_detail =
  wd_workspace :: workspace
  wd_runtime :: "workspace_runtime option"
  wd_active_executions :: int

definition get_detail :: "service_env \<Rightarrow> string \<Rightarrow> int \<Rightarrow> workspace_detail op" where
  "get_detail env workspace_id user_id =
     sbind (require_workspace env workspace_id user_id) (\<lambda>w.
     sbind (read_db (get_runtime_for_workspace workspace_id)) (\<lambda>runtime.
     sbind (read_db (list_active_executions_for_workspace (sv_float env) workspace_id)) (\<lambda>active.
     sreturn (Inr \<lparr>wd_workspace = w, wd_runtime = runtime, wd_active_executions = int (length active)\<rparr>))))"

definition BUSY_RUNTIME_STATES :: "runtime_state list" where
  "BUSY_RUNTIME_STATES = [Rt_STARTING, Rt_RUNNING, Rt_STOPPING]"

definition opt_edit :: "('x \<Rightarrow> workspace \<Rightarrow> workspace result) \<Rightarrow> 'x option \<Rightarrow> workspace \<Rightarrow> workspace op" where
  "opt_edit f x w = sreturn (case x of None \<Rightarrow> Inr w | Some v \<Rightarrow> f v w)"

definition service_update_workspace :: "service_env \<Rightarrow> string \<Rightarrow> int \<Rightarrow> string option \<Rightarrow> string option \<Rightarrow>
    runtime_config option \<Rightarrow> workspace op" where
  "service_update_workspace env workspace_id user_id name description config =
     sbind (require_usable env workspace_id user_id) (\<lambda>w.
     sbind (if config \<noteq> None \<and> config \<noteq> Some (ws_runtime_config w)
        then sbind (read_db (get_runtime_for_workspace workspace_id)) (\<lambda>runtime.
          case runtime of
            Some r \<Rightarrow> if rt_state r \<in> set BUSY_RUNTIME_STATES
              then raise_op (AppError RuntimeBusyError
                     ''Stop the runtime before changing its environment configuration.'')
              else sreturn (Inr ())
          | None \<Rightarrow> sreturn (Inr ()))
        else sreturn (Inr ())) (\<lambda>_.
     sbind (opt_edit workspace_rename name w) (\<lambda>w.
     sbind (opt_edit (\<lambda>d. workspace_update_description (Some d)) description w) (\<lambda>w.
     sbind (opt_edit (\<lambda>c w. Inr (workspace_update_runtime_config c w)) config w) (\<lambda>w.
     sbind (write_workspace_op env w) (\<lambda>_. sreturn (Inr w)))))))"

definition archive_workspace :: "service_env \<Rightarrow> string \<Rightarrow> int \<Rightarrow> workspace op" where
  "archive_workspace env workspace_id user_id =
     sbind (require_workspace env workspace_id user_id) (\<lambda>w.
     sbind (sreturn (workspace_archive w)) (\<lambda>w.
     sbind (write_workspace_op env w) (\<lambda>_. sreturn (Inr w))))"

definition reactivate_workspace :: "service_env \<Rightarrow> string \<Rightarrow> int \<Rightarrow> workspace op" where
  "reactivate_workspace env workspace_id user_id =
     sbind (require_workspace env workspace_id user_id) (\<lambda>w.
     sbind (sreturn (workspace_reactivate w)) (\<lambda>w.
     sbind (write_workspace_op env w) (\<lambda>_. sreturn (Inr w))))"

definition service_delete_workspace :: "service_env \<Rightarrow> string \<Rightarrow> int \<Rightarrow> unit op" where
  "service_delete_workspace env workspace_id user_id =
     sbind (require_workspace env workspace_id user_id) (\<lambda>w.
     sbind (if ws_state w \<noteq> Ws_DELETING
        then sbind (sreturn (workspace_begin_delete w)) (write_workspace_op env)
        else sreturn (Inr ())) (\<lambda>_.
     sbind (read_db (get_runtime_for_workspace workspace_id)) (\<lambda>runtime.
     sbind (case runtime of
          Some r \<Rightarrow> (case rt_provider_ref r of
              Some ref \<Rightarrow> if ref = [] then sreturn (Inr ())
                else try_op (call_provider (pv_delete_runtime (sv_provider env)) (P_delete_runtime ref))
                  (\<lambda>e. if is_provider_not_found e then sreturn (Inr ()) else raise_op e)
            | None \<Rightarrow> sreturn (Inr ()))
        | None \<Rightarrow> sreturn (Inr ())) (\<lambda>_.
     sbind (try_op (call_provider (pv_delete_workspace_state (sv_provider env))
              (P_delete_workspace_state workspace_id))
          (\<lambda>e. if is_provider_error e then sreturn (Inr ()) else raise_op e)) (\<lambda>_.
     sbind (write_db (\<lambda>db. snd (delete_revisions_for_workspace workspace_id db))) (\<lambda>_.
     sbind (write_db (\<lambda>db. snd (delete_executions_for_workspace workspace_id db))) (\<lambda>_.
     sbind (write_db (\<lambda>db. snd (delete_runtime_for_workspace workspace_id db))) (\<lambda>_.
     write_db (\<lambda>db. snd (delete_workspace_row workspace_id user_id db))))))))))"

subsection \<open>The runtime\<close>

definition get_runtime :: "service_env \<Rightarrow> string \<Rightarrow> int \<Rightarrow> workspace_runtime option op" where
  "get_runtime env workspace_id user_id =
     sbind (require_workspace env workspace_id user_id) (\<lambda>_. read_db (get_runtime_for_workspace workspace_id))"

definition safe_provider_message :: "exn \<Rightarrow> string" where
  "safe_provider_message e =
     take 480 (if exn_message e \<noteq> [] then exn_message e else exn_class_name e)"

definition config_fp :: "service_env \<Rightarrow> workspace \<Rightarrow> string" where
  "config_fp env w = fingerprint (sv_sha256 env) (ws_runtime_config w)"

definition reusable_runtime :: "service_env \<Rightarrow> workspace \<Rightarrow> workspace_runtime \<Rightarrow> bool" where
  "reusable_runtime env w r = (rt_provider_ref r \<noteq> None
     \<and> j_get (rt_provider_metadata r) ''config_fingerprint'' = J_str (config_fp env w))"

text \<open>The first half of \<open>_provider_start\<close>: discard a container of another configuration, or bring the
  existing one up. \<open>None\<close> means that a new one is needed.\<close>

definition resume_container :: "service_env \<Rightarrow> workspace \<Rightarrow> workspace_runtime \<Rightarrow>
    (string \<times> string option) option op" where
  "resume_container env w r = (case rt_provider_ref r of
       None \<Rightarrow> sreturn (Inr None)
     | Some ref \<Rightarrow>
       if \<not> reusable_runtime env w r
       then sbind (try_op (call_provider (pv_delete_runtime (sv_provider env)) (P_delete_runtime ref))
              (\<lambda>e. if is_provider_error e then sreturn (Inr ()) else raise_op e))
              (\<lambda>_. sreturn (Inr None))
       else sbind (call_provider (pv_inspect_runtime (sv_provider env)) (P_inspect_runtime ref)) (\<lambda>status.
         case status of
           None \<Rightarrow> sreturn (Inr None)
         | Some st \<Rightarrow>
           if ps_state st = Rt_STOPPED
           then sbind (call_provider (pv_start_runtime (sv_provider env)) (P_start_runtime ref)) (\<lambda>st'.
                  if ps_state st' = Rt_RUNNING
                  then sreturn (Inr (Some (ps_provider_ref st', rt_image_revision_id r)))
                  else sreturn (Inr None))
           else if ps_state st = Rt_RUNNING
           then sreturn (Inr (Some (ps_provider_ref st, rt_image_revision_id r)))
           else sreturn (Inr None)))"

text \<open>The second half: a new container, from a compatible snapshot if there is one.\<close>

definition choose_image :: "runtime_image_revision option \<Rightarrow> runtime_config \<Rightarrow> string \<times> string option" where
  "choose_image revision config = (case revision of
       Some v \<Rightarrow> (case rv_provider_snapshot_ref v of
           Some ref \<Rightarrow> if ref \<noteq> [] then (ref, Some (rv_revision_id v)) else (image_ref config, None)
         | None \<Rightarrow> (image_ref config, None))
     | None \<Rightarrow> (image_ref config, None))"

definition create_container :: "service_env \<Rightarrow> workspace \<Rightarrow> (string \<times> string option) op" where
  "create_container env w =
     sbind (call_provider (pv_ensure_workspace_state (sv_provider env))
         (P_ensure_workspace_state (ws_workspace_id w))) (\<lambda>_.
     sbind (read_db (find_reusable_revision (ws_workspace_id w) (config_fp env w)
         (rc_base_image_revision (ws_runtime_config w)))) (\<lambda>revision.
     sbind (sreturn (config_profile (ws_runtime_config w))) (\<lambda>profile.
     let (img, revision_id) = choose_image revision (ws_runtime_config w) in
     sbind (call_provider (pv_create_runtime (sv_provider env)) (P_create_runtime
         \<lparr>sp_workspace_id = ws_workspace_id w, sp_image = img, sp_resource_profile = profile,
          sp_labels = [(''transform.workspace'', ws_workspace_id w)]\<rparr>)) (\<lambda>st.
     sreturn (Inr (ps_provider_ref st, revision_id))))))"

definition provider_start :: "service_env \<Rightarrow> workspace \<Rightarrow> workspace_runtime \<Rightarrow> (string \<times> string option) op" where
  "provider_start env w r = sbind (resume_container env w r) (\<lambda>resumed.
     case resumed of Some x \<Rightarrow> sreturn (Inr x) | None \<Rightarrow> create_container env w)"

record started_runtime =
  sd_runtime :: workspace_runtime
  sd_changed :: bool

definition save_runtime_op :: "workspace_runtime \<Rightarrow> unit op" where
  "save_runtime_op r = write_db (save_runtime r)"

text \<open>\<open>except RuntimeProviderError as exc: runtime.mark_failed(...); save; raise\<close>.\<close>

definition fail_runtime :: "workspace_runtime \<Rightarrow> exn \<Rightarrow> 'a op" where
  "fail_runtime r e =
     sbind (sreturn (runtime_mark_failed (safe_provider_message e) r)) (\<lambda>r.
     sbind (save_runtime_op r) (\<lambda>_. raise_op e))"

definition touch_workspace :: "service_env \<Rightarrow> workspace \<Rightarrow> unit op" where
  "touch_workspace env w = sbind (now_op env) (\<lambda>t. write_workspace_op env (workspace_touch t w))"

definition start_fresh :: "service_env \<Rightarrow> workspace \<Rightarrow> workspace_runtime \<Rightarrow> started_runtime op" where
  "start_fresh env w r =
     sbind (sreturn (runtime_begin_start r)) (\<lambda>r.
     sbind (save_runtime_op r) (\<lambda>_.
     sbind (try_op (provider_start env w r)
         (\<lambda>e. if is_provider_error e then fail_runtime r e else raise_op e)) (\<lambda>(ref, revision_id).
     sbind (now_op env) (\<lambda>now.
     sbind (sreturn (runtime_mark_running ref revision_id now r)) (\<lambda>r.
     let r = r\<lparr>rt_provider_metadata := dict_put ''config_fingerprint'' (J_str (config_fp env w))
               (rt_provider_metadata r)\<rparr> in
     sbind (save_runtime_op r) (\<lambda>_.
     sbind (touch_workspace env w) (\<lambda>_.
     sreturn (Inr \<lparr>sd_runtime = r, sd_changed = True\<rparr>))))))))"

definition start_runtime :: "service_env \<Rightarrow> string \<Rightarrow> int \<Rightarrow> started_runtime op" where
  "start_runtime env workspace_id user_id =
     sbind (require_usable env workspace_id user_id) (\<lambda>w.
     sbind (uuid_op env) (\<lambda>uuid.
     sbind (now_op env) (\<lambda>now.
     sbind (exec_db (get_or_create_runtime (sv_rival env) uuid now workspace_id (pv_name (sv_provider env))
         (rc_resource_profile (ws_runtime_config w)))) (\<lambda>r.
     if rt_state r \<in> set BUSY_RUNTIME_STATES then sreturn (Inr \<lparr>sd_runtime = r, sd_changed = False\<rparr>)
     else start_fresh env w r))))"

definition stop_runtime :: "service_env \<Rightarrow> string \<Rightarrow> int \<Rightarrow> bool \<Rightarrow> workspace_runtime op" where
  "stop_runtime env workspace_id user_id force =
     sbind (require_workspace env workspace_id user_id) (\<lambda>w.
     sbind (read_db (get_runtime_for_workspace workspace_id)) (\<lambda>runtime.
     case runtime of
       None \<Rightarrow> raise_op (AppError RuntimeNotFoundError workspace_id)
     | Some r \<Rightarrow>
       if rt_state r = Rt_STOPPED then raise_op (AppError RuntimeNotFoundError workspace_id)
       else sbind (if force then sreturn (Inr ())
          else sbind (read_db (list_active_executions_for_workspace (sv_float env) workspace_id)) (\<lambda>active.
            if active \<noteq> []
            then raise_op (AppError RuntimeBusyError (str_int (int (length active))
                   @ '' execution(s) are still running. Stop them, wait, or force the stop.''))
            else sreturn (Inr ()))) (\<lambda>_.
       sbind (sreturn (runtime_begin_stop r)) (\<lambda>r.
       sbind (save_runtime_op r) (\<lambda>_.
       sbind (if truthy (rt_provider_ref r)
          then try_op (sbind (call_provider (pv_stop_runtime (sv_provider env))
                   (P_stop_runtime (the (rt_provider_ref r)))) (\<lambda>_. sreturn (Inr ())))
                 (\<lambda>e. if is_provider_not_found e then sreturn (Inr ())
                      else if is_provider_error e then fail_runtime r e else raise_op e)
          else sreturn (Inr ())) (\<lambda>_.
       sbind (now_op env) (\<lambda>now.
       sbind (sreturn (runtime_mark_stopped now r)) (\<lambda>r.
       sbind (save_runtime_op r) (\<lambda>_.
       sbind (touch_workspace env w) (\<lambda>_. sreturn (Inr r)))))))))))"

definition restart_runtime :: "service_env \<Rightarrow> string \<Rightarrow> int \<Rightarrow> bool \<Rightarrow> started_runtime op" where
  "restart_runtime env workspace_id user_id force =
     sbind (read_db (get_runtime_for_workspace workspace_id)) (\<lambda>runtime.
     sbind (case runtime of
         Some r \<Rightarrow> if rt_state r \<noteq> Rt_STOPPED
           then sbind (stop_runtime env workspace_id user_id force) (\<lambda>_. sreturn (Inr ()))
           else sreturn (Inr ())
       | None \<Rightarrow> sreturn (Inr ())) (\<lambda>_.
     start_runtime env workspace_id user_id))"

subsection \<open>Files and disk budget\<close>

definition runtime_with_handle :: "service_env \<Rightarrow> string \<Rightarrow> int \<Rightarrow> string op" where
  "runtime_with_handle env workspace_id user_id =
     sbind (require_workspace env workspace_id user_id) (\<lambda>_.
     sbind (read_db (get_runtime_for_workspace workspace_id)) (\<lambda>runtime.
       case runtime of
         Some r \<Rightarrow> if truthy (rt_provider_ref r) then sreturn (Inr (the (rt_provider_ref r)))
           else raise_op (AppError RuntimeNotFoundError workspace_id)
       | None \<Rightarrow> raise_op (AppError RuntimeNotFoundError workspace_id)))"

definition list_workspace_files :: "service_env \<Rightarrow> string \<Rightarrow> int \<Rightarrow> string \<Rightarrow> provider_file_entry list op" where
  "list_workspace_files env workspace_id user_id path =
     sbind (runtime_with_handle env workspace_id user_id) (\<lambda>ref.
     call_provider (pv_list_files (sv_provider env)) (P_list_files ref path))"

definition read_workspace_file :: "service_env \<Rightarrow> string \<Rightarrow> int \<Rightarrow> string \<Rightarrow> string op" where
  "read_workspace_file env workspace_id user_id path =
     sbind (runtime_with_handle env workspace_id user_id) (\<lambda>ref.
     call_provider (pv_read_file (sv_provider env)) (P_read_file ref path))"

definition used_bytes :: "service_env \<Rightarrow> string \<Rightarrow> int op" where
  "used_bytes env ref =
     try_op (call_provider (pv_measure_workspace_usage (sv_provider env)) (P_measure_workspace_usage ref))
       (\<lambda>e. if is_provider_error e then sreturn (Inr 0) else raise_op e)"

text \<open>\<open>f"{x:.df}"\<close> of a non-negative number: rounded half to even at \<open>d\<close> decimals.\<close>

definition round_half_even :: "rat \<Rightarrow> int" where
  "round_half_even x = (let f = floor x; d = x - of_int f in
     if d < 1 / 2 then f else if d > 1 / 2 then f + 1 else if even f then f else f + 1)"

definition fixed_decimals :: "nat \<Rightarrow> rat \<Rightarrow> string" where
  "fixed_decimals d x = (let n = nat (round_half_even (x * 10 ^ d)); frac = str_nat (n mod 10 ^ d) in
     str_nat (n div 10 ^ d)
       @ (if d = 0 then [] else ''.'' @ replicate (d - length frac) (CHR ''0'') @ frac))"

definition human_bytes :: "int \<Rightarrow> string" where
  "human_bytes n =
     (if n < 1024 then str_int n @ '' B''
      else if n < 1024 * 1024 then fixed_decimals 0 (of_int n / 1024) @ '' KB''
      else if n < 1024 * 1024 * 1024 then fixed_decimals 1 (of_int n / (1024 * 1024)) @ '' MB''
      else fixed_decimals 2 (of_int n / (1024 * 1024 * 1024)) @ '' GB'')"

definition check_disk_budget :: "service_env \<Rightarrow> string \<Rightarrow> int \<Rightarrow> unit op" where
  "check_disk_budget env ref incoming_bytes =
     (if sv_disk_quota_bytes env \<le> 0 then sreturn (Inr ())
      else sbind (used_bytes env ref) (\<lambda>used.
        if sv_disk_quota_bytes env < used + incoming_bytes
        then raise_op (AppError WorkspaceQuotaExceededError (''This workspace is out of disk space (''
               @ human_bytes used @ '' of '' @ human_bytes (sv_disk_quota_bytes env)
               @ '' used). Delete some files and try again.''))
        else sreturn (Inr ())))"

definition write_workspace_file :: "service_env \<Rightarrow> string \<Rightarrow> int \<Rightarrow> string \<Rightarrow> string \<Rightarrow> unit op" where
  "write_workspace_file env workspace_id user_id path data =
     sbind (runtime_with_handle env workspace_id user_id) (\<lambda>ref.
     sbind (check_disk_budget env ref (int (length data))) (\<lambda>_.
     call_provider (pv_write_file (sv_provider env)) (P_write_file ref path data)))"

definition delete_workspace_file :: "service_env \<Rightarrow> string \<Rightarrow> int \<Rightarrow> string \<Rightarrow> unit op" where
  "delete_workspace_file env workspace_id user_id path =
     sbind (runtime_with_handle env workspace_id user_id) (\<lambda>ref.
     call_provider (pv_delete_file (sv_provider env)) (P_delete_file ref path))"

definition ensure_capacity :: "service_env \<Rightarrow> string \<Rightarrow> int \<Rightarrow> unit op" where
  "ensure_capacity env workspace_id user_id =
     (if sv_disk_quota_bytes env \<le> 0 then sreturn (Inr ())
      else sbind (read_db (get_runtime_for_workspace workspace_id)) (\<lambda>runtime.
        case runtime of
          None \<Rightarrow> sreturn (Inr ())
        | Some r \<Rightarrow>
          if \<not> truthy (rt_provider_ref r) then sreturn (Inr ())
          else sbind (used_bytes env (the (rt_provider_ref r))) (\<lambda>used.
            if sv_disk_quota_bytes env < used
            then raise_op (AppError WorkspaceQuotaExceededError
                   (''This workspace has used its whole disk allowance ('' @ human_bytes used @ '' of ''
                    @ human_bytes (sv_disk_quota_bytes env)
                    @ ''). Delete some files before running anything else.''))
            else sreturn (Inr ()))))"

text \<open>The usage, the budget and what remains of it.\<close>

definition disk_usage :: "service_env \<Rightarrow> string \<Rightarrow> int \<Rightarrow> (int \<times> int \<times> int) op" where
  "disk_usage env workspace_id user_id =
     sbind (require_workspace env workspace_id user_id) (\<lambda>_.
     sbind (read_db (get_runtime_for_workspace workspace_id)) (\<lambda>runtime.
     sbind (case runtime of
         Some r \<Rightarrow> if truthy (rt_provider_ref r) then used_bytes env (the (rt_provider_ref r))
           else sreturn (Inr 0)
       | None \<Rightarrow> sreturn (Inr 0)) (\<lambda>used.
     let limit = sv_disk_quota_bytes env in
     sreturn (Inr (used, limit, if 0 < limit then max 0 (limit - used) else 0)))))"

subsection \<open>The work stream\<close>

definition WORKSPACE_WORK_STREAM :: string where "WORKSPACE_WORK_STREAM = ''workspace_work''"

definition WORKSPACE_WORK_DEAD_LETTER_STREAM :: string where
  "WORKSPACE_WORK_DEAD_LETTER_STREAM = WORKSPACE_WORK_STREAM @ '':dead''"

record work_message =
  wm_kind :: string
  wm_workspace_id :: string
  wm_execution_id :: "string option"
  wm_revision_id :: "string option"

definition work_to_dict :: "work_message \<Rightarrow> fields" where
  "work_to_dict m = [(''kind'', wm_kind m), (''workspace_id'', wm_workspace_id m)]
     @ (case wm_execution_id m of None \<Rightarrow> [] | Some x \<Rightarrow> [(''execution_id'', x)])
     @ (case wm_revision_id m of None \<Rightarrow> [] | Some x \<Rightarrow> [(''revision_id'', x)])"

definition work_from_dict :: "fields \<Rightarrow> work_message" where
  "work_from_dict raw = \<lparr>
     wm_kind = (case map_of raw ''kind'' of None \<Rightarrow> [] | Some k \<Rightarrow> k),
     wm_workspace_id = (case map_of raw ''workspace_id'' of None \<Rightarrow> [] | Some w \<Rightarrow> w),
     wm_execution_id = (if truthy (map_of raw ''execution_id'') then map_of raw ''execution_id'' else None),
     wm_revision_id = (if truthy (map_of raw ''revision_id'') then map_of raw ''revision_id'' else None)\<rparr>"

definition redis_op :: "service_env \<Rightarrow> (redis \<Rightarrow> 'a \<times> redis) \<Rightarrow> 'a op" where
  "redis_op env f s = (let (r, rd) = redis_call (sv_redis env) f (st_redis s) in (r, s\<lparr>st_redis := rd\<rparr>))"

definition publish_work :: "service_env \<Rightarrow> work_message \<Rightarrow> unit op" where
  "publish_work env m =
     sbind (redis_op env (xadd (qualify (sv_prefix env) WORKSPACE_WORK_STREAM) None (work_to_dict m)))
       (\<lambda>_. sreturn (Inr ()))"

definition publish_execution :: "service_env \<Rightarrow> execution \<Rightarrow> unit op" where
  "publish_execution env e = publish_work env \<lparr>wm_kind = ''execution'', wm_workspace_id = ex_workspace_id e,
     wm_execution_id = Some (ex_execution_id e), wm_revision_id = None\<rparr>"

definition publish_snapshot :: "service_env \<Rightarrow> runtime_image_revision \<Rightarrow> unit op" where
  "publish_snapshot env v = publish_work env \<lparr>wm_kind = ''snapshot'', wm_workspace_id = rv_workspace_id v,
     wm_execution_id = None, wm_revision_id = Some (rv_revision_id v)\<rparr>"

definition dead_letter_work :: "service_env \<Rightarrow> string \<Rightarrow> string \<Rightarrow> unit op" where
  "dead_letter_work env message_id error =
     sbind (redis_op env (xadd (qualify (sv_prefix env) WORKSPACE_WORK_DEAD_LETTER_STREAM)
         (Some DEAD_LETTER_MAXLEN) [(''original_message_id'', message_id), (''error'', take 900 error)]))
       (\<lambda>_. sreturn (Inr ()))"

subsection \<open>Environment snapshots\<close>

definition save_environment :: "service_env \<Rightarrow> string \<Rightarrow> int \<Rightarrow> runtime_image_revision op" where
  "save_environment env workspace_id user_id =
     sbind (require_usable env workspace_id user_id) (\<lambda>w.
     sbind (read_db (get_runtime_for_workspace workspace_id)) (\<lambda>runtime.
     if (case runtime of None \<Rightarrow> True | Some r \<Rightarrow> \<not> is_serving r)
     then raise_op (AppError RuntimeNotRunningError ''Start the runtime before saving its environment.'')
     else sbind (uuid_op env) (\<lambda>uuid.
     let v = new_revision uuid workspace_id (pv_name (sv_provider env)) (config_fp env w)
               (rc_base_image_revision (ws_runtime_config w)) in
     sbind (now_op env) (\<lambda>now.
     sbind (exec_db (create_revision now v)) (\<lambda>_.
     sbind (try_op (publish_snapshot env v) (\<lambda>e.
         sbind (sreturn (revision_mark_failed ''Could not queue the environment snapshot.'' v)) (\<lambda>v.
         sbind (write_db (\<lambda>db. snd (update_revision v db))) (\<lambda>_.
         raise_op (AppError SnapshotFailedError (exn_message e)))))) (\<lambda>_.
     sreturn (Inr v)))))))"

definition service_list_revisions :: "service_env \<Rightarrow> string \<Rightarrow> int \<Rightarrow> int \<Rightarrow> runtime_image_revision list op" where
  "service_list_revisions env workspace_id user_id limit =
     sbind (require_workspace env workspace_id user_id) (\<lambda>_. read_db (list_revisions workspace_id limit))"

definition latest_revision :: "service_env \<Rightarrow> string \<Rightarrow> int \<Rightarrow> runtime_image_revision option op" where
  "latest_revision env workspace_id user_id =
     sbind (service_list_revisions env workspace_id user_id 1) (\<lambda>vs.
       sreturn (Inr (case vs of [] \<Rightarrow> None | v # _ \<Rightarrow> Some v)))"

text \<open>The configuration, its profile and fingerprint, and the revision a start would reuse.\<close>

definition runtime_configuration :: "service_env \<Rightarrow> string \<Rightarrow> int \<Rightarrow>
    (runtime_config \<times> resource_profile \<times> string \<times> string option) op" where
  "runtime_configuration env workspace_id user_id =
     sbind (require_workspace env workspace_id user_id) (\<lambda>w.
     sbind (read_db (find_reusable_revision workspace_id (config_fp env w)
         (rc_base_image_revision (ws_runtime_config w)))) (\<lambda>revision.
     sbind (sreturn (config_profile (ws_runtime_config w))) (\<lambda>profile.
     sreturn (Inr (ws_runtime_config w, profile, config_fp env w, map_option rv_revision_id revision)))))"

definition provider_description :: "service_env \<Rightarrow> (string \<times> json) list op" where
  "provider_description env =
     try_op (call_provider (pv_describe (sv_provider env)) P_describe)
       (\<lambda>e. if is_provider_error e
            then sreturn (Inr [(''provider'', J_str (pv_name (sv_provider env))), (''available'', J_bool False),
                   (''error'', J_str (safe_provider_message e))])
            else raise_op e)"

end
