(* ===== verification/Workspace_Safety.thy ===== *)
theory Workspace_Safety
  imports Workspace_Service
begin

section \<open>What the workspace service does\<close>

text \<open>
  Properties of the operations of the workspace service, for every behaviour of the provider: which
  calls an operation makes, when a container or a snapshot is reused, what is recorded when a call fails,
  what a user who does not own a workspace can do, when files are lost.
\<close>

subsection \<open>Sequencing\<close>

lemmas op_defs = sbind_def sreturn_def raise_op_def try_op_def read_db_def exec_db_def write_db_def
  now_op_def uuid_op_def call_provider_def

lemma sbind_assoc: "sbind (sbind m f) g s = sbind m (\<lambda>a. sbind (f a) g) s"
  by (simp add: sbind_def split: prod.splits sum.splits)

lemma sbind_sreturn [simp]: "sbind (sreturn (Inr a)) f = f a" "sbind (sreturn (Inl e)) f = raise_op e"
  by (auto simp: sbind_def sreturn_def raise_op_def)

lemma sbind_raise [simp]: "sbind (raise_op e) f = raise_op e"
  by (auto simp: sbind_def raise_op_def)

lemma sbind_read:
  "sbind (read_db f) g s = (case f (st_db s) of Inl e \<Rightarrow> (Inl e, s) | Inr a \<Rightarrow> g a s)"
  by (simp add: sbind_def read_db_def split: sum.splits)

lemma sbind_write: "sbind (write_db f) g s = g () (s\<lparr>st_db := f (st_db s)\<rparr>)"
  by (simp add: sbind_def write_db_def)

lemma sbind_now: "sbind (now_op env) g s = g (sv_now env (st_ticks s)) (s\<lparr>st_ticks := Suc (st_ticks s)\<rparr>)"
  by (simp add: sbind_def now_op_def)

lemma sbind_uuid: "sbind (uuid_op env) g s = g (sv_uuid env (st_ticks s)) (s\<lparr>st_ticks := Suc (st_ticks s)\<rparr>)"
  by (simp add: sbind_def uuid_op_def)

lemma sbind_call:
  "sbind (call_provider reply c) g s =
     (case reply (st_calls s @ [c]) of
        Inl e \<Rightarrow> (Inl e, s\<lparr>st_calls := st_calls s @ [c]\<rparr>)
      | Inr a \<Rightarrow> g a (s\<lparr>st_calls := st_calls s @ [c]\<rparr>))"
  by (simp add: sbind_def call_provider_def Let_def split: sum.splits)

lemmas step = sbind_read sbind_write sbind_now sbind_uuid sbind_call

lemma require_workspace_eq:
  "require_workspace env i u s = (case get_workspace (sv_float env) i u (st_db s) of
      Inl e \<Rightarrow> (Inl e, s) | Inr None \<Rightarrow> (Inl (AppError WorkspaceNotFoundError i), s) | Inr (Some w) \<Rightarrow> (Inr w, s))"
  by (simp add: require_workspace_def step raise_op_def sreturn_def split: sum.splits option.splits)

lemma require_usable_eq:
  "require_usable env i u s = (case get_workspace (sv_float env) i u (st_db s) of
      Inl e \<Rightarrow> (Inl e, s) | Inr None \<Rightarrow> (Inl (AppError WorkspaceNotFoundError i), s)
    | Inr (Some w) \<Rightarrow> if accepts_executions w then (Inr w, s) else (Inl (AppError WorkspaceNotUsableError i), s))"
  by (simp add: require_usable_def sbind_def require_workspace_eq raise_op_def sreturn_def
      split: sum.splits option.splits)

subsection \<open>The calls of a start\<close>

text \<open>What a start may do with the container on record, and with a new one.\<close>

definition resume_calls :: "service_env \<Rightarrow> workspace \<Rightarrow> workspace_runtime \<Rightarrow> provider_call list \<Rightarrow> bool" where
  "resume_calls env w r cs = (case rt_provider_ref r of
       None \<Rightarrow> cs = []
     | Some ref \<Rightarrow>
       if reusable_runtime env w r
       then cs = [P_inspect_runtime ref] \<or> cs = [P_inspect_runtime ref, P_start_runtime ref]
       else cs = [P_delete_runtime ref])"

definition matching_snapshot :: "service_env \<Rightarrow> workspace \<Rightarrow> workspace_db \<Rightarrow> string \<Rightarrow> bool" where
  "matching_snapshot env w db img = (\<exists>row \<in> set (db_revisions db).
     vr_workspace_id row = ws_workspace_id w \<and> vr_status row = ''READY''
     \<and> vr_config_fingerprint row = config_fp env w
     \<and> vr_base_image_revision row = rc_base_image_revision (ws_runtime_config w)
     \<and> vr_provider_snapshot_ref row = Some img)"

definition create_calls :: "service_env \<Rightarrow> workspace \<Rightarrow> workspace_db \<Rightarrow> provider_call list \<Rightarrow> bool" where
  "create_calls env w db cs \<longleftrightarrow>
     cs = [P_ensure_workspace_state (ws_workspace_id w)]
   \<or> (\<exists>spec. cs = [P_ensure_workspace_state (ws_workspace_id w), P_create_runtime spec]
       \<and> sp_workspace_id spec = ws_workspace_id w
       \<and> config_profile (ws_runtime_config w) = Inr (sp_resource_profile spec)
       \<and> (sp_image spec = image_ref (ws_runtime_config w) \<or> matching_snapshot env w db (sp_image spec)))"

lemma resume_container_calls:
  "\<exists>cs r'. resume_container env w r s = (r', s\<lparr>st_calls := st_calls s @ cs\<rparr>) \<and> resume_calls env w r cs"
proof (cases "rt_provider_ref r")
  case None
  then show ?thesis
    by (intro exI [of _ "[]"]) (simp add: resume_container_def resume_calls_def sreturn_def)
next
  case (Some ref)
  show ?thesis
  proof (cases "reusable_runtime env w r")
    case True
    let ?p = "sv_provider env"
    let ?i = "pv_inspect_runtime ?p (st_calls s @ [P_inspect_runtime ref])"
    let ?t = "pv_start_runtime ?p (st_calls s @ [P_inspect_runtime ref, P_start_runtime ref])"
    show ?thesis
      using Some True
      by (cases ?i; cases ?t)
        (auto simp: resume_container_def resume_calls_def step sreturn_def split: option.splits)
  next
    case False
    then show ?thesis using Some
      by (intro exI [of _ "[P_delete_runtime ref]"])
        (auto simp: resume_container_def resume_calls_def try_op_def call_provider_def sbind_def sreturn_def
          raise_op_def Let_def split: sum.splits)
  qed
qed

lemma sql_first_mem: "sql_first t = Some r \<Longrightarrow> r \<in> set t"
  by (auto simp: sql_first_def split: list.splits)

lemma find_reusable_row:
  assumes "find_reusable_revision i f b db = Inr (Some v)"
  shows "\<exists>row \<in> set (db_revisions db). vr_workspace_id row = i \<and> vr_status row = ''READY''
    \<and> vr_config_fingerprint row = f \<and> vr_base_image_revision row = b
    \<and> vr_provider_snapshot_ref row = rv_provider_snapshot_ref v \<and> vr_revision_id row = rv_revision_id v"
proof -
  let ?sel = "sql_select (\<lambda>row. vr_workspace_id row = i \<and> vr_status row = image_revision_status_value Rev_READY
       \<and> vr_config_fingerprint row = f \<and> vr_base_image_revision row = b
       \<and> vr_provider_snapshot_ref row \<noteq> None) (db_revisions db)"
  from assms obtain row where r: "sql_first (order_desc vr_created_at ?sel) = Some row"
    "revision_to_entity row = Inr v"
    by (auto simp: find_reusable_revision_def entity_or_none_def rbind_Inr_iff split: option.splits)
  from sql_first_mem [OF r(1)] have "row \<in> set ?sel" by (simp only: set_order)
  with r(2) show ?thesis
    by (auto simp: sql_select_def revision_to_entity_def rbind_Inr_iff)
qed

lemma create_container_calls:
  "\<exists>cs r'. create_container env w s = (r', s\<lparr>st_calls := st_calls s @ cs\<rparr>) \<and> create_calls env w (st_db s) cs"
proof -
  let ?p = "sv_provider env" and ?c = "ws_runtime_config w" and ?e = "P_ensure_workspace_state (ws_workspace_id w)"
  let ?ens = "pv_ensure_workspace_state ?p (st_calls s @ [?e])"
  let ?find = "find_reusable_revision (ws_workspace_id w) (config_fp env w) (rc_base_image_revision ?c) (st_db s)"
  show ?thesis
  proof (cases "\<exists>x v prof. ?ens = Inr x \<and> ?find = Inr v \<and> config_profile ?c = Inr prof")
    case False
    then show ?thesis
      by (cases "config_profile ?c"; intro exI [of _ "[?e]"])
        (auto simp: create_container_def create_calls_def step raise_op_def split: sum.splits)
  next
    case True
    then obtain x v prof where t: "?ens = Inr x" "?find = Inr v" "config_profile ?c = Inr prof" by blast
    obtain img rid where im: "choose_image v ?c = (img, rid)" by (cases "choose_image v ?c")
    have "img = image_ref ?c \<or> matching_snapshot env w (st_db s) img"
      using im t(2) find_reusable_row [of "ws_workspace_id w" "config_fp env w" "rc_base_image_revision ?c" "st_db s"]
      by (fastforce simp: choose_image_def matching_snapshot_def split: option.splits if_splits)
    with t im show ?thesis
      by (intro exI [of _ "[?e, P_create_runtime \<lparr>sp_workspace_id = ws_workspace_id w, sp_image = img,
            sp_resource_profile = prof, sp_labels = [(''transform.workspace'', ws_workspace_id w)]\<rparr>]"])
        (auto simp: create_container_def create_calls_def step sreturn_def split: sum.splits)
  qed
qed

definition start_calls :: "service_env \<Rightarrow> workspace \<Rightarrow> workspace_runtime \<Rightarrow> workspace_db \<Rightarrow> provider_call list \<Rightarrow> bool" where
  "start_calls env w r db cs = (\<exists>cs1 cs2. cs = cs1 @ cs2 \<and> resume_calls env w r cs1
     \<and> (cs2 = [] \<or> create_calls env w db cs2))"

lemma provider_start_calls:
  "\<exists>cs r'. provider_start env w r s = (r', s\<lparr>st_calls := st_calls s @ cs\<rparr>) \<and> start_calls env w r (st_db s) cs"
proof -
  obtain cs1 r1 where 1: "resume_container env w r s = (r1, s\<lparr>st_calls := st_calls s @ cs1\<rparr>)" "resume_calls env w r cs1"
    using resume_container_calls by blast
  let ?s1 = "s\<lparr>st_calls := st_calls s @ cs1\<rparr>"
  obtain cs2 r2 where 2: "create_container env w ?s1 = (r2, ?s1\<lparr>st_calls := st_calls ?s1 @ cs2\<rparr>)"
    "create_calls env w (st_db s) cs2" using create_container_calls [of env w ?s1] by auto
  show ?thesis
  proof (cases "r1 = Inr None")
    case True
    with 1 2 show ?thesis
      by (intro exI [of _ "cs1 @ cs2"]) (auto simp: provider_start_def sbind_def start_calls_def)
  next
    case False
    with 1 show ?thesis
      by (intro exI [of _ cs1])
        (auto simp: provider_start_def sbind_def start_calls_def sreturn_def split: sum.splits option.splits)
  qed
qed

lemma save_runtime_tables [simp]:
  "db_workspaces (save_runtime r db) = db_workspaces db" "db_executions (save_runtime r db) = db_executions db"
  "db_revisions (save_runtime r db) = db_revisions db"
  by (simp_all add: save_runtime_def)

lemma update_workspace_tables [simp]:
  "db_runtimes (snd (update_workspace t w db)) = db_runtimes db"
  "db_executions (snd (update_workspace t w db)) = db_executions db"
  "db_revisions (snd (update_workspace t w db)) = db_revisions db"
  by (simp_all add: update_workspace_def Let_def)

lemma touch_workspace_eq:
  "touch_workspace env w s = (Inr (), s\<lparr>st_ticks := Suc (Suc (st_ticks s)),
     st_db := snd (update_workspace (sv_now env (Suc (st_ticks s))) (workspace_touch (sv_now env (st_ticks s)) w) (st_db s))\<rparr>)"
  by (simp add: touch_workspace_def write_workspace_op_def step write_db_def)

text \<open>How a start ends: refused by the state machine, failed and recorded, interrupted by an error of
  another kind, or running and recorded.\<close>

definition running_runtime :: "service_env \<Rightarrow> workspace \<Rightarrow> workspace_runtime \<Rightarrow> string \<Rightarrow> string option \<Rightarrow> int \<Rightarrow>
    workspace_runtime" where
  "running_runtime env w r ref revision_id now = r\<lparr>rt_state := Rt_RUNNING,
     rt_provider_ref := Some ref, rt_image_revision_id := revision_id, rt_started_at := Some now,
     rt_last_activity_at := Some now, rt_failure_reason := None,
     rt_provider_metadata := dict_put ''config_fingerprint'' (J_str (config_fp env w)) (rt_provider_metadata r)\<rparr>"

lemma start_fresh_eq:
  fixes env :: service_env and w :: workspace and r :: workspace_runtime and s :: service_state
  assumes "rt_state r = Rt_STOPPED \<or> rt_state r = Rt_FAILED"
  defines "r1 \<equiv> r\<lparr>rt_state := Rt_STARTING, rt_failure_reason := None\<rparr>"
  defines "s1 \<equiv> s\<lparr>st_db := save_runtime (r\<lparr>rt_state := Rt_STARTING, rt_failure_reason := None\<rparr>) (st_db s)\<rparr>"
  shows "start_fresh env w r s = (case provider_start env w r1 s1 of
      (Inl e, s2) \<Rightarrow>
        if is_provider_error e
        then (Inl e, s2\<lparr>st_db := save_runtime (r1\<lparr>rt_state := Rt_FAILED,
               rt_failure_reason := Some (safe_provider_message e)\<rparr>) (st_db s2)\<rparr>)
        else (Inl e, s2)
    | (Inr (ref, revision_id), s2) \<Rightarrow>
        let r2 = running_runtime env w r ref revision_id (sv_now env (st_ticks s2)) in
        (Inr \<lparr>sd_runtime = r2, sd_changed = True\<rparr>,
         snd (touch_workspace env w (s2\<lparr>st_ticks := Suc (st_ticks s2), st_db := save_runtime r2 (st_db s2)\<rparr>))))"
proof -
  have b: "runtime_begin_start r = Inr r1"
    using assms(1) by (auto simp: runtime_begin_start_def runtime_transition_def runtime_can_transition_def r1_def)
  have f: "runtime_mark_failed m r1 = Inr (r1\<lparr>rt_state := Rt_FAILED, rt_failure_reason := Some m\<rparr>)" for m
    by (simp add: runtime_mark_failed_def runtime_transition_def runtime_can_transition_def r1_def)
  have u: "runtime_mark_running ref v t r1 = Inr (r1\<lparr>rt_state := Rt_RUNNING, rt_provider_ref := Some ref,
      rt_image_revision_id := v, rt_started_at := Some t, rt_last_activity_at := Some t, rt_failure_reason := None\<rparr>)" for ref v t
    by (simp add: runtime_mark_running_def runtime_transition_def runtime_can_transition_def r1_def)
  obtain x s2 where p: "provider_start env w r1 s1 = (x, s2)" by (cases "provider_start env w r1 s1")
  have s1: "s\<lparr>st_db := save_runtime r1 (st_db s)\<rparr> = s1" by (simp add: s1_def r1_def)
  have t: "try_op (provider_start env w r1) h s1 = (case x of Inl e \<Rightarrow> h e s2 | Inr a \<Rightarrow> (Inr a, s2))" for h
    by (simp add: try_op_def p split: sum.splits)
  show ?thesis
    by (simp add: start_fresh_def b save_runtime_op_def step s1 p sbind_def [of "try_op _ _"] t
        fail_runtime_def f u running_runtime_def sreturn_def raise_op_def write_db_def sbind_def [of "sreturn _"]
        sbind_def [of "write_db _"] sbind_def [of "now_op _"] now_op_def
        sbind_def [of "touch_workspace _ _"] touch_workspace_eq Let_def
        split: sum.splits prod.splits)
      (auto simp: r1_def)
qed

subsection \<open>The runtime a start works on\<close>

lemma get_runtime_id: "get_runtime_for_workspace i db = Inr (Some r) \<Longrightarrow> rt_workspace_id r = i"
  by (auto simp: get_runtime_for_workspace_def entity_or_none_def rbind_Inr_iff runtime_to_entity_def
      dest!: sql_first_Some split: option.splits)

lemma insert_runtime_read:
  assumes "insert_runtime now (new_runtime uuid i p prof) db = (Inr x, db')"
  shows "get_runtime_for_workspace i db' = Inr (Some ((new_runtime uuid i p prof)\<lparr>rt_created_at := Some now\<rparr>))"
proof -
  have none: "sql_first (sql_select (\<lambda>r. rr_workspace_id r = i) (db_runtimes db)) = None"
    using assms by (auto simp: insert_runtime_def new_runtime_def sql_first_None split: if_splits)
  have st: "runtime_state_of ''STOPPED'' = Inr Rt_STOPPED"
    using runtime_state_of_value [of Rt_STOPPED] by simp
  from assms none show ?thesis
    by (auto simp: insert_runtime_def new_runtime_def get_runtime_for_workspace_def sql_first_append
        entity_or_none_def runtime_to_entity_def st split: if_splits)
qed

lemma get_or_create_cases:
  assumes "get_or_create_runtime rival uuid now i p prof db = (Inr r, db')"
  obtains (existing) "get_runtime_for_workspace i db = Inr (Some r)" "db' = db"
  | (created) "get_runtime_for_workspace i db = Inr None" "r = new_runtime uuid i p prof"
      "insert_runtime now r (rival db) = (Inr (), db')"
  | (winner) "get_runtime_for_workspace i db = Inr None" "get_runtime_for_workspace i (rival db) = Inr (Some r)"
      "db' = rival db"
  using assms
  by (auto simp: get_or_create_runtime_def insert_runtime_def Let_def split: sum.splits option.splits if_splits)

lemma get_or_create_stored:
  assumes "get_or_create_runtime rival uuid now i p prof db = (Inr r, db')"
  shows "\<exists>r\<^sub>0. get_runtime_for_workspace i db' = Inr (Some r\<^sub>0) \<and> runtime_merge r\<^sub>0 r = r\<^sub>0" "rt_workspace_id r = i"
proof -
  have refl: "runtime_merge r r = r" by (simp add: runtime_merge_def)
  show "\<exists>r\<^sub>0. get_runtime_for_workspace i db' = Inr (Some r\<^sub>0) \<and> runtime_merge r\<^sub>0 r = r\<^sub>0"
    using assms
  proof (cases rule: get_or_create_cases)
    case created
    then show ?thesis
      using insert_runtime_read by (auto simp: runtime_merge_def new_runtime_def)
  qed (use refl in auto)
  show "rt_workspace_id r = i"
    using assms by (cases rule: get_or_create_cases) (auto simp: new_runtime_def dest: get_runtime_id)
qed

lemma get_or_create_handle:
  assumes "get_or_create_runtime rival uuid now i p prof db = (Inr r, db')" "rt_provider_ref r \<noteq> None"
  shows "get_runtime_for_workspace i db = Inr (Some r) \<or> get_runtime_for_workspace i (rival db) = Inr (Some r)"
  using assms by (cases rule: get_or_create_cases) (auto simp: new_runtime_def)

lemma start_runtime_eq:
  assumes "get_workspace (sv_float env) i u (st_db s) = Inr (Some w)" "accepts_executions w"
  shows "start_runtime env i u s =
    (case get_or_create_runtime (sv_rival env) (sv_uuid env (st_ticks s)) (sv_now env (Suc (st_ticks s))) i
            (pv_name (sv_provider env)) (rc_resource_profile (ws_runtime_config w)) (st_db s) of
       (Inl e, db1) \<Rightarrow> (Inl e, s\<lparr>st_ticks := Suc (Suc (st_ticks s)), st_db := db1\<rparr>)
     | (Inr r, db1) \<Rightarrow>
         let s1 = s\<lparr>st_ticks := Suc (Suc (st_ticks s)), st_db := db1\<rparr> in
         if rt_state r \<in> set BUSY_RUNTIME_STATES then (Inr \<lparr>sd_runtime = r, sd_changed = False\<rparr>, s1)
         else start_fresh env w r s1)"
  using assms
  by (simp add: start_runtime_def sbind_def require_usable_eq uuid_op_def now_op_def exec_db_def sreturn_def
      Let_def split: prod.splits sum.splits)

lemma not_busy: "rt_state r \<notin> set BUSY_RUNTIME_STATES \<longleftrightarrow> rt_state r = Rt_STOPPED \<or> rt_state r = Rt_FAILED"
  by (cases "rt_state r") (simp_all add: BUSY_RUNTIME_STATES_def)

subsection \<open>A start uses only what matches the configuration\<close>

fun is_create :: "provider_call \<Rightarrow> bool" where
  "is_create (P_create_runtime _) = True"
| "is_create _ = False"

fun start_call_ok :: "service_env \<Rightarrow> string \<Rightarrow> workspace \<Rightarrow> workspace_db \<Rightarrow> workspace_db \<Rightarrow> provider_call \<Rightarrow> bool" where
  "start_call_ok env i w db db' (P_create_runtime spec) =
     (sp_workspace_id spec = i \<and> config_profile (ws_runtime_config w) = Inr (sp_resource_profile spec)
      \<and> (sp_image spec = image_ref (ws_runtime_config w) \<or> matching_snapshot env w db' (sp_image spec)))"
| "start_call_ok env i w db db' (P_start_runtime ref) =
     (\<exists>r. (get_runtime_for_workspace i db = Inr (Some r) \<or> get_runtime_for_workspace i (sv_rival env db) = Inr (Some r))
        \<and> rt_provider_ref r = Some ref \<and> reusable_runtime env w r)"
| "start_call_ok env i w db db' (P_delete_runtime ref) =
     (\<exists>r. (get_runtime_for_workspace i db = Inr (Some r) \<or> get_runtime_for_workspace i (sv_rival env db) = Inr (Some r))
        \<and> rt_provider_ref r = Some ref \<and> \<not> reusable_runtime env w r)"
| "start_call_ok env i w db db' (P_inspect_runtime ref) = True"
| "start_call_ok env i w db db' (P_ensure_workspace_state j) = (j = i)"
| "start_call_ok env i w db db' _ = False"

lemma start_calls_ok:
  assumes "start_calls env w r1 db1 cs" "ws_workspace_id w = i" "db_revisions db' = db_revisions db1"
    and "rt_provider_ref r1 \<noteq> None \<Longrightarrow>
      (get_runtime_for_workspace i db = Inr (Some r) \<or> get_runtime_for_workspace i (sv_rival env db) = Inr (Some r))"
    and "rt_provider_ref r1 = rt_provider_ref r" "rt_provider_metadata r1 = rt_provider_metadata r"
  shows "list_all (start_call_ok env i w db db') cs \<and> length (filter is_create cs) \<le> 1"
proof -
  have re: "reusable_runtime env w r1 = reusable_runtime env w r"
    using assms(5,6) by (simp add: reusable_runtime_def)
  have m: "matching_snapshot env w db1 = matching_snapshot env w db'"
    using assms(3) by (simp add: matching_snapshot_def fun_eq_iff)
  from assms(1) obtain cs1 cs2 where cs: "cs = cs1 @ cs2" "resume_calls env w r1 cs1"
    "cs2 = [] \<or> create_calls env w db1 cs2" by (auto simp: start_calls_def)
  have "list_all (start_call_ok env i w db db') cs1 \<and> filter is_create cs1 = []"
    using cs(2) assms(4,5) re by (auto simp: resume_calls_def split: option.splits if_splits)
  moreover have "list_all (start_call_ok env i w db db') cs2 \<and> length (filter is_create cs2) \<le> 1"
    using cs(3) assms(2) m by (auto simp: create_calls_def)
  ultimately show ?thesis by (simp add: cs(1))
qed

lemma start_fresh_calls:
  assumes "rt_state r = Rt_STOPPED \<or> rt_state r = Rt_FAILED" "start_fresh env w r s = (res, s')"
  shows "\<exists>cs. st_calls s' = st_calls s @ cs
    \<and> start_calls env w (r\<lparr>rt_state := Rt_STARTING, rt_failure_reason := None\<rparr>)
        (save_runtime (r\<lparr>rt_state := Rt_STARTING, rt_failure_reason := None\<rparr>) (st_db s)) cs
    \<and> db_revisions (st_db s') = db_revisions (st_db s)"
proof -
  let ?r1 = "r\<lparr>rt_state := Rt_STARTING, rt_failure_reason := None\<rparr>"
  let ?s1 = "s\<lparr>st_db := save_runtime ?r1 (st_db s)\<rparr>"
  obtain cs x where p: "provider_start env w ?r1 ?s1 = (x, ?s1\<lparr>st_calls := st_calls ?s1 @ cs\<rparr>)"
    "start_calls env w ?r1 (st_db ?s1) cs" using provider_start_calls by blast
  have "st_calls s' = st_calls s @ cs \<and> db_revisions (st_db s') = db_revisions (st_db s)"
    using assms(2) unfolding start_fresh_eq [OF assms(1)] p(1)
    by (auto simp: touch_workspace_eq Let_def split: sum.splits if_splits)
  with p(2) show ?thesis by auto
qed

text \<open>A start that returns a container either kept one that was built for this configuration, or created one.\<close>

lemma resume_container_kept:
  assumes "resume_container env w r s = (Inr (Some x), s')"
  shows "reusable_runtime env w r"
  using assms
  by (auto simp: resume_container_def sreturn_def try_op_def sbind_def raise_op_def split: option.splits if_splits prod.splits sum.splits)

lemma create_container_created:
  assumes "create_container env w s = (Inr x, s\<lparr>st_calls := st_calls s @ cs\<rparr>)"
  shows "length (filter is_create cs) = 1"
proof -
  obtain cs' r' where c: "create_container env w s = (r', s\<lparr>st_calls := st_calls s @ cs'\<rparr>)" "create_calls env w (st_db s) cs'"
    using create_container_calls by blast
  have "cs' = cs" using c(1) assms by (cases s) auto
  moreover have "cs \<noteq> [P_ensure_workspace_state (ws_workspace_id w)]"
    using assms by (cases s; cases "config_profile (ws_runtime_config w)")
      (auto simp: create_container_def step sreturn_def raise_op_def sbind_def [of "sreturn _"] split: sum.splits prod.splits)
  ultimately show ?thesis using c(2) by (auto simp: create_calls_def)
qed

lemma provider_start_kept_or_created:
  assumes "provider_start env w r s = (Inr x, s\<lparr>st_calls := st_calls s @ cs\<rparr>)"
  shows "reusable_runtime env w r \<or> length (filter is_create cs) = 1"
proof (rule disjCI)
  assume new: "length (filter is_create cs) \<noteq> 1"
  obtain cs1 r1 where 1: "resume_container env w r s = (r1, s\<lparr>st_calls := st_calls s @ cs1\<rparr>)" "resume_calls env w r cs1"
    using resume_container_calls by blast
  let ?s1 = "s\<lparr>st_calls := st_calls s @ cs1\<rparr>"
  obtain cs2 r2 where 2: "create_container env w ?s1 = (r2, ?s1\<lparr>st_calls := st_calls ?s1 @ cs2\<rparr>)"
    using create_container_calls [of env w ?s1] by blast
  have none: "filter is_create cs1 = []" using 1(2) by (auto simp: resume_calls_def split: option.splits if_splits)
  show "reusable_runtime env w r"
  proof (cases "r1 = Inr None")
    case True
    then have "r2 = Inr x" "cs = cs1 @ cs2" using assms 1(1) 2 by (cases s; simp add: provider_start_def sbind_def)+
    then show ?thesis using create_container_created [of env w ?s1 x cs2] 2 new none by simp
  next
    case False
    then obtain y where "r1 = Inr (Some y)"
      using assms 1(1) by (cases r1) (auto simp: provider_start_def sbind_def split: option.splits)
    then show ?thesis using resume_container_kept 1(1) by blast
  qed
qed

lemma get_runtime_cong:
  "db_runtimes db = db_runtimes db' \<Longrightarrow> get_runtime_for_workspace i db = get_runtime_for_workspace i db'"
  by (simp add: get_runtime_for_workspace_def)

text \<open>What a start that succeeded by starting something leaves in the database.\<close>

lemma start_fresh_running:
  assumes "rt_state r = Rt_STOPPED \<or> rt_state r = Rt_FAILED" "start_fresh env w r s = (Inr sd, s')"
    and "get_runtime_for_workspace (rt_workspace_id r) (st_db s) = Inr (Some r\<^sub>0)"
  shows "get_runtime_for_workspace (rt_workspace_id r) (st_db s') = Inr (Some (runtime_merge r\<^sub>0 (sd_runtime sd)))
    \<and> sd_changed sd \<and> rt_state (sd_runtime sd) = Rt_RUNNING
    \<and> j_get (rt_provider_metadata (sd_runtime sd)) ''config_fingerprint'' = J_str (config_fp env w)
    \<and> (\<exists>cs. st_calls s' = st_calls s @ cs \<and> (reusable_runtime env w r \<or> length (filter is_create cs) = 1))
    \<and> (\<exists>t1 t2 r1. st_db s' = snd (update_workspace t1 (workspace_touch t2 w) (save_runtime (sd_runtime sd) (save_runtime r1 (st_db s)))))"
proof -
  let ?r1 = "r\<lparr>rt_state := Rt_STARTING, rt_failure_reason := None\<rparr>"
  let ?s1 = "s\<lparr>st_db := save_runtime ?r1 (st_db s)\<rparr>"
  obtain cs x where p: "provider_start env w ?r1 ?s1 = (x, ?s1\<lparr>st_calls := st_calls ?s1 @ cs\<rparr>)"
    using provider_start_calls by blast
  from assms(2) obtain y where x: "x = Inr y" unfolding start_fresh_eq [OF assms(1)] p by (cases x) (auto split: if_splits)
  from assms(2) obtain ref v t t1 t2 where e: "sd = \<lparr>sd_runtime = running_runtime env w r ref v t, sd_changed = True\<rparr>"
    "st_db s' = snd (update_workspace t1 (workspace_touch t2 w) (save_runtime (sd_runtime sd) (st_db ?s1)))"
    "st_calls s' = st_calls s @ cs"
    unfolding start_fresh_eq [OF assms(1)] p
    by (cases x) (auto simp: touch_workspace_eq Let_def split: if_splits)
  have ri: "rt_workspace_id (sd_runtime sd) = rt_workspace_id r" by (simp add: e running_runtime_def)
  have "get_runtime_for_workspace (rt_workspace_id r) (st_db s')
      = get_runtime_for_workspace (rt_workspace_id r) (save_runtime (sd_runtime sd) (st_db ?s1))"
    by (rule get_runtime_cong) (simp add: e(2))
  also have "\<dots> = Inr (Some (runtime_merge (runtime_merge r\<^sub>0 ?r1) (sd_runtime sd)))"
    using save_runtime_read [of "sd_runtime sd" "st_db ?s1" "runtime_merge r\<^sub>0 ?r1"]
      save_runtime_read [of ?r1 "st_db s" r\<^sub>0] assms(3) ri by simp
  also have "runtime_merge (runtime_merge r\<^sub>0 ?r1) (sd_runtime sd) = runtime_merge r\<^sub>0 (sd_runtime sd)"
    by (simp add: runtime_merge_def)
  finally have stored: "get_runtime_for_workspace (rt_workspace_id r) (st_db s')
      = Inr (Some (runtime_merge r\<^sub>0 (sd_runtime sd)))" .
  have "reusable_runtime env w r \<or> length (filter is_create cs) = 1"
    using provider_start_kept_or_created [OF p [unfolded x]] by (simp add: reusable_runtime_def)
  then show ?thesis using stored e by (auto simp: running_runtime_def j_get_def map_of_dict_put)
qed

text \<open>C4: whatever the provider answers, one start creates at most one container and never touches the
  files of the workspace. The container it creates is for this workspace, with the profile of its
  configuration, and runs either the base image of the configuration or a snapshot that is recorded as
  ready for exactly this configuration fingerprint and base image revision. An existing container is
  started only if it was built for the present configuration, and deleted only if it was not. A start that
  succeeds and changed something leaves on record, and returns, a running runtime with the present
  fingerprint, and either created its container or kept one on record with that fingerprint; one that
  succeeds and changed nothing made no call and found the runtime up or in motion.\<close>

theorem start_matches_configuration:
  assumes "get_workspace (sv_float env) i u (st_db s) = Inr (Some w)"
    and "start_runtime env i u s = (res, s')"
  shows "\<exists>cs. st_calls s' = st_calls s @ cs \<and> length (filter is_create cs) \<le> 1
    \<and> list_all (start_call_ok env i w (st_db s) (st_db s')) cs
    \<and> (\<forall>r. res = Inr \<lparr>sd_runtime = r, sd_changed = True\<rparr> \<longrightarrow> rt_state r = Rt_RUNNING
         \<and> j_get (rt_provider_metadata r) ''config_fingerprint'' = J_str (config_fp env w)
         \<and> (\<exists>row. get_runtime_for_workspace i (st_db s') = Inr (Some row) \<and> runtime_merge row r = row)
         \<and> (length (filter is_create cs) = 1 \<or> (\<exists>old. reusable_runtime env w old
              \<and> (get_runtime_for_workspace i (st_db s) = Inr (Some old)
                 \<or> get_runtime_for_workspace i (sv_rival env (st_db s)) = Inr (Some old)))))
    \<and> (\<forall>r. res = Inr \<lparr>sd_runtime = r, sd_changed = False\<rparr> \<longrightarrow> rt_state r \<in> set BUSY_RUNTIME_STATES \<and> cs = [])"
proof (cases "accepts_executions w")
  case False
  with assms show ?thesis
    by (intro exI [of _ "[]"]) (auto simp: start_runtime_def sbind_def require_usable_eq)
next
  case True
  have wi: "ws_workspace_id w = i" using get_workspace_valid [OF assms(1)] by simp
  let ?goc = "get_or_create_runtime (sv_rival env) (sv_uuid env (st_ticks s)) (sv_now env (Suc (st_ticks s))) i
            (pv_name (sv_provider env)) (rc_resource_profile (ws_runtime_config w)) (st_db s)"
  obtain x db1 where g: "?goc = (x, db1)" by (cases ?goc)
  let ?s1 = "s\<lparr>st_ticks := Suc (Suc (st_ticks s)), st_db := db1\<rparr>"
  note eq = assms(2) [unfolded start_runtime_eq [OF assms(1) True] g]
  show ?thesis
  proof (cases "\<exists>r. x = Inr r \<and> rt_state r \<notin> set BUSY_RUNTIME_STATES")
    case False
    with eq show ?thesis by (intro exI [of _ "[]"]) (cases x; auto)
  next
    case True
    then obtain r where r: "x = Inr r" "rt_state r \<notin> set BUSY_RUNTIME_STATES" by blast
    note g = g [unfolded r(1)] and idle = r(2) [unfolded not_busy]
    from eq r have f: "start_fresh env w r ?s1 = (res, s')" by simp
    from start_fresh_calls [OF idle f] obtain cs where
      cs: "st_calls s' = st_calls s @ cs" "db_revisions (st_db s') = db_revisions db1"
      "start_calls env w (r\<lparr>rt_state := Rt_STARTING, rt_failure_reason := None\<rparr>)
        (save_runtime (r\<lparr>rt_state := Rt_STARTING, rt_failure_reason := None\<rparr>) db1) cs" by auto
    have "list_all (start_call_ok env i w (st_db s) (st_db s')) cs \<and> length (filter is_create cs) \<le> 1"
      by (rule start_calls_ok [OF cs(3) wi, where r = r]) (use cs(2) get_or_create_handle [OF g] in auto)
    moreover from get_or_create_stored [OF g] obtain r\<^sub>0 where
      r0: "get_runtime_for_workspace i db1 = Inr (Some r\<^sub>0)" "rt_workspace_id r = i" by auto
    have "sd_changed sd \<and> rt_state (sd_runtime sd) = Rt_RUNNING
        \<and> j_get (rt_provider_metadata (sd_runtime sd)) ''config_fingerprint'' = J_str (config_fp env w)
        \<and> get_runtime_for_workspace i (st_db s') = Inr (Some (runtime_merge r\<^sub>0 (sd_runtime sd)))
        \<and> (reusable_runtime env w r \<or> length (filter is_create cs) = 1)" if "res = Inr sd" for sd
      using start_fresh_running [OF idle f [unfolded that], of r\<^sub>0] r0 cs(1) by auto
    moreover have "runtime_merge (runtime_merge r\<^sub>0 a) a = runtime_merge r\<^sub>0 a" for a by (simp add: runtime_merge_def)
    moreover have "reusable_runtime env w r \<Longrightarrow> get_runtime_for_workspace i (st_db s) = Inr (Some r)
        \<or> get_runtime_for_workspace i (sv_rival env (st_db s)) = Inr (Some r)"
      using get_or_create_handle [OF g] by (simp add: reusable_runtime_def)
    ultimately show ?thesis using cs(1) by (intro exI [of _ cs]) fastforce
  qed
qed

subsection \<open>Starting twice\<close>

lemma get_workspace_cong: "db_workspaces db = db_workspaces db' \<Longrightarrow> get_workspace fl i u db = get_workspace fl i u db'"
  by (simp add: get_workspace_def)



lemma get_or_create_workspaces:
  assumes "get_or_create_runtime (\<lambda>db. db) uuid now i p prof db = (Inr r, db')"
  shows "db_workspaces db' = db_workspaces db"
  using assms by (cases rule: get_or_create_cases) (auto simp: insert_runtime_def split: if_splits)

text \<open>A start on a runtime that is up or in motion answers it as it is.\<close>

lemma start_busy:
  assumes "get_workspace (sv_float env) i u (st_db s) = Inr (Some w)" "accepts_executions w"
    and "get_runtime_for_workspace i (st_db s) = Inr (Some r)" "rt_state r \<in> set BUSY_RUNTIME_STATES"
  shows "start_runtime env i u s =
    (Inr \<lparr>sd_runtime = r, sd_changed = False\<rparr>, s\<lparr>st_ticks := Suc (Suc (st_ticks s))\<rparr>)"
  using assms(3,4) by (simp add: start_runtime_eq [OF assms(1,2)] get_or_create_runtime_def)

lemma touched_workspace:
  assumes "get_workspace fl i u db = Inr (Some w)" "accepts_executions w"
  shows "\<exists>w'. get_workspace fl i u (snd (update_workspace now (workspace_touch t w) db)) = Inr (Some w')
    \<and> accepts_executions w'"
proof -
  have v: "valid_workspace w" "ws_workspace_id w = i" "ws_user_id w = u"
    using get_workspace_valid [OF assms(1)] by simp_all
  have "valid_workspace (workspace_touch t w)"
    using v(1) by (simp add: valid_workspace_def new_workspace_fixed_iff workspace_touch_def)
  then show ?thesis
    using update_workspace_read [of fl "workspace_touch t w" db w now] assms v
    by (simp add: workspace_touch_def workspace_merge_def accepts_executions_def)
qed

lemma start_fresh_stored:
  assumes "rt_state r = Rt_STOPPED \<or> rt_state r = Rt_FAILED" "start_fresh env w r s = (Inr sd, s')"
    and "get_runtime_for_workspace (rt_workspace_id r) (st_db s) = Inr (Some r\<^sub>0)"
    and "get_workspace fl i u (st_db s) = Inr (Some w)" "accepts_executions w"
  shows "get_runtime_for_workspace (rt_workspace_id r) (st_db s') = Inr (Some (runtime_merge r\<^sub>0 (sd_runtime sd)))
    \<and> rt_state (sd_runtime sd) = Rt_RUNNING
    \<and> (\<exists>w'. get_workspace fl i u (st_db s') = Inr (Some w') \<and> accepts_executions w')"
proof -
  from start_fresh_running [OF assms(1-3)] obtain t1 t2 r1 where
    st: "get_runtime_for_workspace (rt_workspace_id r) (st_db s') = Inr (Some (runtime_merge r\<^sub>0 (sd_runtime sd)))"
      "rt_state (sd_runtime sd) = Rt_RUNNING"
    and db: "st_db s' = snd (update_workspace t1 (workspace_touch t2 w) (save_runtime (sd_runtime sd) (save_runtime r1 (st_db s))))"
    by blast
  have "get_workspace fl i u (save_runtime (sd_runtime sd) (save_runtime r1 (st_db s))) = Inr (Some w)"
    using assms(4) by (subst get_workspace_cong [of _ "st_db s"]) auto
  then show ?thesis using touched_workspace [OF _ assms(5)] st unfolding db by blast
qed

text \<open>starting is idempotent. When a start has returned, with the runtime it started or with one that was
  already up or in motion, the next start returns the same runtime, in the same state and with the same
  container, reports that it changed nothing, makes no call to the provider and writes nothing.\<close>

theorem start_idempotent:
  assumes "sv_rival env = (\<lambda>db. db)" and "start_runtime env i u s = (Inr sd, s1)"
  shows "\<exists>r. start_runtime env i u s1 =
      (Inr \<lparr>sd_runtime = r, sd_changed = False\<rparr>, s1\<lparr>st_ticks := Suc (Suc (st_ticks s1))\<rparr>)
    \<and> rt_state r = rt_state (sd_runtime sd) \<and> rt_provider_ref r = rt_provider_ref (sd_runtime sd)"
proof -
  from assms(2) obtain w where w: "get_workspace (sv_float env) i u (st_db s) = Inr (Some w)" "accepts_executions w"
    by (auto simp: start_runtime_def sbind_def require_usable_eq split: sum.splits option.splits if_splits)
  let ?goc = "get_or_create_runtime (sv_rival env) (sv_uuid env (st_ticks s)) (sv_now env (Suc (st_ticks s))) i
            (pv_name (sv_provider env)) (rc_resource_profile (ws_runtime_config w)) (st_db s)"
  obtain x db1 where g: "?goc = (x, db1)" by (cases ?goc)
  with assms(2) w obtain r where x: "x = Inr r" by (cases x) (auto simp: start_runtime_eq)
  note g = g [unfolded x]
  let ?s1 = "s\<lparr>st_ticks := Suc (Suc (st_ticks s)), st_db := db1\<rparr>"
  from get_or_create_stored [OF g] obtain r\<^sub>0 where
    r0: "get_runtime_for_workspace i db1 = Inr (Some r\<^sub>0)" "runtime_merge r\<^sub>0 r = r\<^sub>0" "rt_workspace_id r = i" by auto
  have same: "rt_state r\<^sub>0 = rt_state r" "rt_provider_ref r\<^sub>0 = rt_provider_ref r"
    by (subst r0(2) [symmetric], simp add: runtime_merge_def)+
  have w1: "get_workspace (sv_float env) i u db1 = Inr (Some w)"
    using w(1) get_or_create_workspaces g assms(1) by (metis get_workspace_cong)
  show ?thesis
  proof (cases "rt_state r \<in> set BUSY_RUNTIME_STATES")
    case True
    with assms(2) have "sd = \<lparr>sd_runtime = r, sd_changed = False\<rparr>" "s1 = ?s1"
      by (simp_all add: start_runtime_eq [OF w] g)
    with start_busy [of env i u s1 w r\<^sub>0] w1 w(2) r0(1) same True show ?thesis by simp
  next
    case False
    with assms(2) have f: "start_fresh env w r ?s1 = (Inr sd, s1)" by (simp add: start_runtime_eq [OF w] g)
    from start_fresh_stored [OF False [unfolded not_busy] f, of r\<^sub>0 "sv_float env" i u] r0 w1 w(2)
    obtain w' where st: "get_runtime_for_workspace i (st_db s1) = Inr (Some (runtime_merge r\<^sub>0 (sd_runtime sd)))"
      "rt_state (sd_runtime sd) = Rt_RUNNING"
      "get_workspace (sv_float env) i u (st_db s1) = Inr (Some w')" "accepts_executions w'" by auto
    with start_busy [OF st(3,4,1)] show ?thesis by (simp add: runtime_merge_def BUSY_RUNTIME_STATES_def)
  qed
qed

subsection \<open>Failures are recorded\<close>

lemma start_fresh_failed:
  assumes "rt_state r = Rt_STOPPED \<or> rt_state r = Rt_FAILED" "start_fresh env w r s = (Inl e, s')" "is_provider_error e"
    and "get_runtime_for_workspace (rt_workspace_id r) (st_db s) = Inr (Some r\<^sub>0)"
  shows "\<exists>r'. get_runtime_for_workspace (rt_workspace_id r) (st_db s') = Inr (Some r')
      \<and> rt_state r' = Rt_FAILED \<and> rt_failure_reason r' = Some (safe_provider_message e)
      \<and> rt_provider_ref r' = rt_provider_ref r"
    and "db_workspaces (st_db s') = db_workspaces (st_db s) \<and> db_executions (st_db s') = db_executions (st_db s)
      \<and> db_revisions (st_db s') = db_revisions (st_db s)"
proof -
  let ?r1 = "r\<lparr>rt_state := Rt_STARTING, rt_failure_reason := None\<rparr>"
  let ?s1 = "s\<lparr>st_db := save_runtime ?r1 (st_db s)\<rparr>"
  let ?r2 = "?r1\<lparr>rt_state := Rt_FAILED, rt_failure_reason := Some (safe_provider_message e)\<rparr>"
  obtain cs x where p: "provider_start env w ?r1 ?s1 = (x, ?s1\<lparr>st_calls := st_calls ?s1 @ cs\<rparr>)"
    using provider_start_calls by blast
  from assms(2,3) have db: "st_db s' = save_runtime ?r2 (st_db ?s1)"
    unfolding start_fresh_eq [OF assms(1)] p
    by (cases x) (auto simp: touch_workspace_eq Let_def split: if_splits)
  have "get_runtime_for_workspace (rt_workspace_id r) (st_db s') = Inr (Some (runtime_merge (runtime_merge r\<^sub>0 ?r1) ?r2))"
    unfolding db using save_runtime_read [of ?r2 "st_db ?s1" "runtime_merge r\<^sub>0 ?r1"]
      save_runtime_read [of ?r1 "st_db s" r\<^sub>0] assms(4) by simp
  then show "\<exists>r'. get_runtime_for_workspace (rt_workspace_id r) (st_db s') = Inr (Some r')
      \<and> rt_state r' = Rt_FAILED \<and> rt_failure_reason r' = Some (safe_provider_message e)
      \<and> rt_provider_ref r' = rt_provider_ref r" by (simp add: runtime_merge_def)
  show "db_workspaces (st_db s') = db_workspaces (st_db s) \<and> db_executions (st_db s') = db_executions (st_db s)
      \<and> db_revisions (st_db s') = db_revisions (st_db s)" by (simp add: db)
qed

text \<open>when the provider fails a start, the error reaches the caller and the runtime on record is
  \<open>FAILED\<close> with the reason, cut to 480 characters, and with the container handle it had before; the
  workspace, its executions and its snapshots are as they were. Only a workspace that exists, belongs to
  the caller and is active gets that far.\<close>

theorem failed_start_recorded:
  assumes "sv_rival env = (\<lambda>db. db)"
    and "start_runtime env i u s = (Inl e, s')" "is_provider_error e" "length (st_calls s) < length (st_calls s')"
  shows "\<exists>r r'. get_runtime_for_workspace i (st_db s') = Inr (Some r') \<and> rt_state r' = Rt_FAILED
    \<and> rt_failure_reason r' = Some (safe_provider_message e) \<and> length (safe_provider_message e) \<le> 480
    \<and> (get_runtime_for_workspace i (st_db s) = Inr (Some r) \<and> rt_provider_ref r' = rt_provider_ref r
        \<or> get_runtime_for_workspace i (st_db s) = Inr None \<and> rt_provider_ref r' = None)
    \<and> db_workspaces (st_db s') = db_workspaces (st_db s) \<and> db_executions (st_db s') = db_executions (st_db s)
    \<and> db_revisions (st_db s') = db_revisions (st_db s)"
proof -
  from assms(2,4) obtain w where w: "get_workspace (sv_float env) i u (st_db s) = Inr (Some w)" "accepts_executions w"
    by (auto simp: start_runtime_def sbind_def require_usable_eq split: sum.splits option.splits if_splits)
  let ?goc = "get_or_create_runtime (sv_rival env) (sv_uuid env (st_ticks s)) (sv_now env (Suc (st_ticks s))) i
            (pv_name (sv_provider env)) (rc_resource_profile (ws_runtime_config w)) (st_db s)"
  obtain x db1 where g: "?goc = (x, db1)" by (cases ?goc)
  with assms(2,4) w obtain r where x: "x = Inr r" by (cases x) (auto simp: start_runtime_eq)
  note g = g [unfolded x]
  let ?s1 = "s\<lparr>st_ticks := Suc (Suc (st_ticks s)), st_db := db1\<rparr>"
  from get_or_create_stored [OF g] obtain r\<^sub>0 where
    r0: "get_runtime_for_workspace i db1 = Inr (Some r\<^sub>0)" "rt_workspace_id r = i" by auto
  have nb: "rt_state r \<notin> set BUSY_RUNTIME_STATES"
    using assms(2,4) by (auto simp: start_runtime_eq [OF w] g Let_def split: if_splits)
  with assms(2) have f: "start_fresh env w r ?s1 = (Inl e, s')" by (simp add: start_runtime_eq [OF w] g)
  have db1: "db_workspaces db1 = db_workspaces (st_db s)" "db_executions db1 = db_executions (st_db s)"
    "db_revisions db1 = db_revisions (st_db s)"
    "get_runtime_for_workspace i (st_db s) = Inr (Some r)
      \<or> get_runtime_for_workspace i (st_db s) = Inr None \<and> rt_provider_ref r = None"
    using g unfolding assms(1)
    by (cases rule: get_or_create_cases; auto simp: insert_runtime_def new_runtime_def split: if_splits)+
  have "length (safe_provider_message e) \<le> 480" by (simp add: safe_provider_message_def)
  with start_fresh_failed [OF nb [unfolded not_busy] f assms(3), of r\<^sub>0] r0 db1 show ?thesis by auto
qed

subsection \<open>A failed runtime cannot be stopped or restarted\<close>

text \<open>for a runtime that is \<open>FAILED\<close>, stop and restart raise \<open>InvalidRuntimeTransition\<close> and change nothing,
  because the table has no way from \<open>FAILED\<close> to \<open>STOPPING\<close>: of the two recovery paths the table names,
  only a start is reachable through the service.\<close>

theorem failed_runtime_not_restartable:
  assumes "get_workspace (sv_float env) i u (st_db s) = Inr (Some w)"
    and "get_runtime_for_workspace i (st_db s) = Inr (Some r)" "rt_state r = Rt_FAILED"
  shows "\<exists>m. stop_runtime env i u True s = (Inl (AppError InvalidRuntimeTransition m), s)
    \<and> restart_runtime env i u True s = (Inl (AppError InvalidRuntimeTransition m), s)"
proof -
  obtain m where m: "runtime_begin_stop r = Inl (AppError InvalidRuntimeTransition m)"
    using assms(3) by (simp add: runtime_begin_stop_def runtime_transition_def runtime_can_transition_def)
  have "stop_runtime env i u True s = (Inl (AppError InvalidRuntimeTransition m), s)"
    using assms m by (simp add: stop_runtime_def sbind_def [of "require_workspace _ _ _"] require_workspace_eq step
        raise_op_def)
  then show ?thesis
    using assms by (simp add: restart_runtime_def step sbind_def [of "stop_runtime _ _ _ _"]
        sbind_def [of "sbind _ _"] exI [of _ m])
qed

subsection \<open>Only the owner\<close>

lemma not_owned: "(\<forall>row \<in> set (db_workspaces db). \<not> owned i u row) \<Longrightarrow> get_workspace fl i u db = Inr None"
  by (simp add: get_workspace_def entity_or_none_def sql_first_None [THEN iffD2])

lemma require_refused:
  assumes "\<forall>row \<in> set (db_workspaces (st_db s)). \<not> owned i u row"
  shows "sbind (require_workspace env i u) g s = (Inl (AppError WorkspaceNotFoundError i), s)"
    "sbind (require_usable env i u) g s = (Inl (AppError WorkspaceNotFoundError i), s)"
  by (simp_all add: sbind_def require_workspace_eq require_usable_eq not_owned [OF assms])

text \<open>a user who does not own a workspace, or names one that does not exist, gets the same
  \<open>WorkspaceNotFoundError\<close> from every operation on it; nothing is written and the provider is not called.
  (For a restart the runtime row is read first and has to be readable.)\<close>

theorem only_the_owner:
  assumes "\<forall>row \<in> set (db_workspaces (st_db s)). \<not> owned i u row"
    and "get_runtime_for_workspace i (st_db s) = Inr r"
  defines "refused \<equiv> AppError WorkspaceNotFoundError i"
  shows "start_runtime env i u s = (Inl refused, s) \<and> stop_runtime env i u force s = (Inl refused, s)
    \<and> restart_runtime env i u force s = (Inl refused, s) \<and> get_runtime env i u s = (Inl refused, s)
    \<and> get_detail env i u s = (Inl refused, s)
    \<and> service_update_workspace env i u name description config s = (Inl refused, s)
    \<and> archive_workspace env i u s = (Inl refused, s) \<and> reactivate_workspace env i u s = (Inl refused, s)
    \<and> service_delete_workspace env i u s = (Inl refused, s)
    \<and> list_workspace_files env i u path s = (Inl refused, s) \<and> read_workspace_file env i u path s = (Inl refused, s)
    \<and> write_workspace_file env i u path data s = (Inl refused, s)
    \<and> delete_workspace_file env i u path s = (Inl refused, s) \<and> disk_usage env i u s = (Inl refused, s)
    \<and> save_environment env i u s = (Inl refused, s) \<and> service_list_revisions env i u n s = (Inl refused, s)
    \<and> runtime_configuration env i u s = (Inl refused, s)"
proof -
  note no = require_refused [OF assms(1), of env, folded refused_def]
  have start: "start_runtime env i u s = (Inl refused, s)" by (simp add: start_runtime_def no)
  have stop: "stop_runtime env i u force s = (Inl refused, s)" by (simp add: stop_runtime_def no)
  have restart: "restart_runtime env i u force s = (Inl refused, s)"
    using assms(2) start stop
    by (cases r) (simp_all add: restart_runtime_def step sbind_def [of "stop_runtime _ _ _ _"] sbind_def [of "sbind _ _"])
  have "runtime_with_handle env i u s = (Inl refused, s)" by (simp add: runtime_with_handle_def no)
  then have h: "sbind (runtime_with_handle env i u) g s = (Inl refused, s)" for g by (simp add: sbind_def)
  show ?thesis
    by (simp add: start stop restart h get_runtime_def get_detail_def service_update_workspace_def
        archive_workspace_def reactivate_workspace_def service_delete_workspace_def disk_usage_def
        save_environment_def service_list_revisions_def runtime_configuration_def list_workspace_files_def
        read_workspace_file_def write_workspace_file_def delete_workspace_file_def no)
qed

subsection \<open>Deletion\<close>

text \<open>Everything of a deletion before the rows go: it changes the state of the workspace at most.\<close>

definition teardown :: "service_env \<Rightarrow> string \<Rightarrow> int \<Rightarrow> unit op" where
  "teardown env workspace_id user_id =
     sbind (require_workspace env workspace_id user_id) (\<lambda>w.
     sbind (if ws_state w \<noteq> Ws_DELETING
        then sbind (sreturn (workspace_begin_delete w)) (write_workspace_op env)
        else sreturn (Inr ())) (\<lambda>_.
     sbind (read_db (get_runtime_for_workspace workspace_id)) (\<lambda>runtime.
     sbind (case runtime of
          Some r \<Rightarrow> (case rt_provider_ref r of
              Some ref \<Rightarrow> if ref = [] then sreturn (Inr ())
                else try_op (call_provider (pv_delete_runtime (sv_provider env)) (P_delete_runtime ref))
                  (\<lambda>e. if is_provider_not_found e then sreturn (Inr ()) else raise_op e)
            | None \<Rightarrow> sreturn (Inr ()))
        | None \<Rightarrow> sreturn (Inr ())) (\<lambda>_.
     try_op (call_provider (pv_delete_workspace_state (sv_provider env))
              (P_delete_workspace_state workspace_id))
          (\<lambda>e. if is_provider_error e then sreturn (Inr ()) else raise_op e)))))"

lemma service_delete_eq:
  "service_delete_workspace env i u s = (case teardown env i u s of
      (Inl e, s') \<Rightarrow> (Inl e, s')
    | (Inr _, s') \<Rightarrow> (Inr (), s'\<lparr>st_db := snd (delete_workspace_row i u (snd (delete_runtime_for_workspace i
          (snd (delete_executions_for_workspace i (snd (delete_revisions_for_workspace i (st_db s'))))))))\<rparr>))"
proof -
  have "service_delete_workspace env i u s = sbind (teardown env i u) (\<lambda>_.
     sbind (write_db (\<lambda>db. snd (delete_revisions_for_workspace i db))) (\<lambda>_.
     sbind (write_db (\<lambda>db. snd (delete_executions_for_workspace i db))) (\<lambda>_.
     sbind (write_db (\<lambda>db. snd (delete_runtime_for_workspace i db))) (\<lambda>_.
     write_db (\<lambda>db. snd (delete_workspace_row i u db)))))) s"
    by (simp add: service_delete_workspace_def teardown_def sbind_assoc [abs_def] fun_eq_iff)
  then show ?thesis
    by (simp add: sbind_def [of "teardown _ _ _"] step write_db_def split: prod.splits sum.splits)
qed

definition rows_kept :: "service_state \<Rightarrow> service_state \<Rightarrow> bool" where
  "rows_kept s s' \<longleftrightarrow> db_runtimes (st_db s') = db_runtimes (st_db s)
     \<and> db_executions (st_db s') = db_executions (st_db s) \<and> db_revisions (st_db s') = db_revisions (st_db s)
     \<and> map wr_workspace_id (db_workspaces (st_db s')) = map wr_workspace_id (db_workspaces (st_db s))
     \<and> map wr_user_id (db_workspaces (st_db s')) = map wr_user_id (db_workspaces (st_db s))"

interpretation rk: state_frame rows_kept
  by unfold_locales (auto simp: rows_kept_def)

lemma rows_kept_prims:
  "rows_kept s (snd (read_db f s))" "rows_kept s (snd (call_provider p c s))" "rows_kept s (snd (now_op env s))"
  "rows_kept s (snd (require_workspace env i u s))" "rows_kept s (snd (write_workspace_op env w s))"
  by (simp_all add: rows_kept_def read_db_def call_provider_def now_op_def Let_def require_workspace_eq
      write_workspace_op_def step write_db_def update_workspace_def write_workspace_def map_sql_update_frame
      split: sum.splits option.splits)

lemmas rk_intros = rk.sbind_frame rk.sreturn_frame rk.raise_frame rk.try_frame rk.if_frame rk.option_frame
  rows_kept_prims

lemma teardown_keeps: "rows_kept s (snd (teardown env i u s))"
  unfolding teardown_def by (intro rk_intros)

lemma teardown_calls:
  assumes "teardown env i u s = (Inr (), s')"
  shows "\<exists>cs. st_calls s' = cs @ [P_delete_workspace_state i]"
proof -
  let ?last = "try_op (call_provider (pv_delete_workspace_state (sv_provider env)) (P_delete_workspace_state i))
     (\<lambda>e. if is_provider_error e then sreturn (Inr ()) else raise_op e)"
  from assms obtain t where "?last t = (Inr (), s')"
    unfolding teardown_def by (elim sbind_cases) (auto elim: sbind_cases)
  then show ?thesis
    by (auto simp: try_op_def call_provider_def Let_def sreturn_def raise_op_def split: sum.splits if_splits)
qed

lemma teardown_owner:
  assumes "teardown env i u s = (Inr x, s')"
  shows "\<exists>row \<in> set (db_workspaces (st_db s)). owned i u row"
proof (rule ccontr)
  assume "\<not> ?thesis"
  then have no: "\<forall>row \<in> set (db_workspaces (st_db s)). \<not> owned i u row" by blast
  from assms show False by (simp add: teardown_def require_refused(1) [OF no])
qed

text \<open>The owner's row is the only one with its identifier, before and after the state change.\<close>

lemma rows_kept_owner:
  assumes "rows_kept s t" "unique_key wr_workspace_id (db_workspaces (st_db s))"
    and "row\<^sub>0 \<in> set (db_workspaces (st_db s))" "owned i u row\<^sub>0"
    and "row \<in> set (db_workspaces (st_db t))" "wr_workspace_id row = i"
  shows "owned i u row"
proof -
  let ?a = "db_workspaces (st_db s)" and ?b = "db_workspaces (st_db t)"
  have m: "map wr_workspace_id ?b = map wr_workspace_id ?a" "map wr_user_id ?b = map wr_user_id ?a"
    using assms(1) by (simp_all add: rows_kept_def)
  have u: "distinct (map wr_workspace_id ?b)" using assms(2) by (simp add: unique_key_def m(1))
  obtain n where n: "n < length ?a" "?a ! n = row\<^sub>0" using assms(3) by (metis in_set_conv_nth)
  obtain k where k: "k < length ?b" "?b ! k = row" using assms(5) by (metis in_set_conv_nth)
  have l: "length ?b = length ?a" using m(1) by (metis length_map)
  have "wr_workspace_id (?b ! n) = i" "wr_user_id (?b ! n) = u"
    using m n l assms(4) by (metis nth_map owned_def)+
  moreover from this have "n = k"
    using u k n l assms(6) nth_eq_iff_index_eq [of "map wr_workspace_id ?b" n k] by simp
  ultimately show ?thesis using k by (simp add: owned_def)
qed

text \<open>when a deletion returns, the provider was asked to remove the files of the workspace, and no row of
  the workspace, its runtime, its executions or its snapshots is left, while every row of another workspace
  is. When it raises, no row is gone: the workspace is still there to be deleted again.\<close>

theorem delete_workspace_complete:
  assumes "service_delete_workspace env i u s = (res, s')" and "unique_key wr_workspace_id (db_workspaces (st_db s))"
  shows "case res of
      Inr _ \<Rightarrow> (\<exists>cs. st_calls s' = cs @ [P_delete_workspace_state i]) \<and> \<not> workspace_exists i (st_db s')
        \<and> db_runtimes (st_db s') = filter (\<lambda>r. rr_workspace_id r \<noteq> i) (db_runtimes (st_db s))
        \<and> db_executions (st_db s') = filter (\<lambda>r. er_workspace_id r \<noteq> i) (db_executions (st_db s))
        \<and> db_revisions (st_db s') = filter (\<lambda>r. vr_workspace_id r \<noteq> i) (db_revisions (st_db s))
    | Inl _ \<Rightarrow> rows_kept s s'"
proof -
  obtain x t where t: "teardown env i u s = (x, t)" by (cases "teardown env i u s")
  have k: "rows_kept s t" using teardown_keeps [of s env i u] t by simp
  show ?thesis
  proof (cases x)
    case (Inl e)
    with assms(1) t k show ?thesis by (auto simp: service_delete_eq)
  next
    case (Inr y)
    with t have c: "\<exists>cs. st_calls t = cs @ [P_delete_workspace_state i]" using teardown_calls by simp
    have own: "owned i u row" if "row \<in> set (db_workspaces (st_db t))" "wr_workspace_id row = i" for row
      using teardown_owner rows_kept_owner [OF k assms(2)] t Inr that by blast
    have gone: "i \<notin> wr_workspace_id ` set (sql_delete (owned i u) (db_workspaces (st_db t)))"
      using own by (auto simp: sql_delete_def)
    then show ?thesis
      using assms(1) t k c Inr
      by (auto simp: service_delete_eq delete_workspace_row_def delete_runtime_for_workspace_def
          delete_executions_for_workspace_def delete_revisions_for_workspace_def sql_delete_def Let_def
          rows_kept_def workspace_exists_def cong: filter_cong)
  qed
qed

subsection \<open>Only a deletion removes files\<close>

definition calls_frame :: "(provider_call \<Rightarrow> bool) \<Rightarrow> service_state \<Rightarrow> service_state \<Rightarrow> bool" where
  "calls_frame ok s s' = (\<exists>cs. st_calls s' = st_calls s @ cs \<and> list_all ok cs)"

interpretation cf: state_frame "calls_frame ok" for ok
proof
  fix s t u
  show "calls_frame ok s s" by (simp add: calls_frame_def exI [of _ "[]"])
  assume "calls_frame ok s t" "calls_frame ok t u"
  then obtain cs1 cs2 where "st_calls t = st_calls s @ cs1" "st_calls u = st_calls t @ cs2"
    "list_all ok (cs1 @ cs2)" by (auto simp: calls_frame_def)
  then show "calls_frame ok s u" unfolding calls_frame_def by (intro exI [of _ "cs1 @ cs2"]) simp
qed

lemma same_calls: "st_calls s' = st_calls s \<Longrightarrow> calls_frame ok s s'"
  by (simp add: calls_frame_def exI [of _ "[]"])

lemma calls_prims:
  "calls_frame ok s (snd (read_db f s))" "calls_frame ok s (snd (write_db h s))" "calls_frame ok s (snd (exec_db k s))"
  "calls_frame ok s (snd (now_op env s))" "calls_frame ok s (snd (uuid_op env s))"
  "calls_frame ok s (snd (redis_op env g s))" "calls_frame ok s (snd (require_workspace env i u s))"
  "calls_frame ok s (snd (require_usable env i u s))"
  by (auto intro!: same_calls simp: read_db_def write_db_def exec_db_def now_op_def uuid_op_def redis_op_def
      require_workspace_eq require_usable_eq Let_def case_prod_beta split: sum.splits option.splits)

lemma call_frame: "ok c \<Longrightarrow> calls_frame ok s (snd (call_provider p c s))"
  by (auto simp: calls_frame_def call_provider_def Let_def)

fun keeps_files :: "provider_call \<Rightarrow> bool" where
  "keeps_files (P_delete_workspace_state _) = False"
| "keeps_files (P_delete_file _ _) = False"
| "keeps_files (P_write_file _ _ _) = False"
| "keeps_files _ = True"

lemmas cf_intros = cf.sbind_frame cf.sreturn_frame cf.raise_frame cf.try_frame cf.if_frame cf.option_frame
  calls_prims call_frame

lemma calls_frame_mono: "calls_frame ok s t \<Longrightarrow> (\<And>c. ok c \<Longrightarrow> ok' c) \<Longrightarrow> calls_frame ok' s t"
  by (auto simp: calls_frame_def list_all_iff)

text \<open>The calls a start can make.\<close>

fun start_call :: "provider_call \<Rightarrow> bool" where
  "start_call (P_ensure_workspace_state _) = True"
| "start_call (P_create_runtime _) = True"
| "start_call (P_start_runtime _) = True"
| "start_call (P_inspect_runtime _) = True"
| "start_call (P_delete_runtime _) = True"
| "start_call _ = False"

lemma start_call_keeps: "start_call c \<Longrightarrow> keeps_files c"
  by (cases c) simp_all

lemma op_keeps:
  "calls_frame ok s (snd (save_runtime_op r s))" "calls_frame ok s (snd (fail_runtime r e s))"
  "calls_frame ok s (snd (write_workspace_op env w s))" "calls_frame ok s (snd (touch_workspace env w s))"
  "calls_frame ok s (snd (opt_edit g x w s))" "calls_frame ok s (snd (publish_work env m s))"
  "calls_frame ok s (snd (runtime_with_handle env i u s))"
  unfolding save_runtime_op_def fail_runtime_def write_workspace_op_def touch_workspace_def opt_edit_def
    publish_work_def runtime_with_handle_def
  by (intro cf_intros; simp)+

lemma used_bytes_keeps: "calls_frame keeps_files s (snd (used_bytes env ref s))"
  unfolding used_bytes_def by (intro cf_intros; simp)

lemma provider_start_frame: "calls_frame start_call s (snd (provider_start env w r s))"
  unfolding provider_start_def resume_container_def create_container_def Let_def case_prod_beta
  by (intro cf_intros; simp)

lemma start_frame: "calls_frame start_call s (snd (start_runtime env i u s))"
  unfolding start_runtime_def start_fresh_def Let_def case_prod_beta
  by (intro cf_intros op_keeps provider_start_frame; simp)

lemma start_keeps: "calls_frame keeps_files s (snd (start_runtime env i u s))"
  by (rule calls_frame_mono [OF start_frame start_call_keeps])

lemma stop_keeps: "calls_frame keeps_files s (snd (stop_runtime env i u force s))"
  unfolding stop_runtime_def by (intro cf_intros op_keeps; simp)

text \<open>no operation but the deletion of a workspace asks the provider to remove its files, and none but the
  file operations writes or deletes one: whatever fails while a runtime is started, stopped, restarted,
  measured or snapshotted, the files stay.\<close>

theorem files_survive:
  "calls_frame keeps_files s (snd (start_runtime env i u s))
   \<and> calls_frame keeps_files s (snd (stop_runtime env i u force s))
   \<and> calls_frame keeps_files s (snd (restart_runtime env i u force s))
   \<and> calls_frame keeps_files s (snd (save_environment env i u s))
   \<and> calls_frame keeps_files s (snd (service_update_workspace env i u name description config s))
   \<and> calls_frame keeps_files s (snd (archive_workspace env i u s))
   \<and> calls_frame keeps_files s (snd (reactivate_workspace env i u s))
   \<and> calls_frame keeps_files s (snd (read_workspace_file env i u path s))
   \<and> calls_frame keeps_files s (snd (list_workspace_files env i u path s))
   \<and> calls_frame keeps_files s (snd (disk_usage env i u s))
   \<and> calls_frame keeps_files s (snd (ensure_capacity env i u s))"
proof -
  have "calls_frame keeps_files s (snd (restart_runtime env i u force s))"
    unfolding restart_runtime_def by (intro cf_intros start_keeps stop_keeps)
  moreover have "calls_frame keeps_files s (snd (save_environment env i u s))"
    unfolding save_environment_def Let_def publish_snapshot_def by (intro cf_intros op_keeps)
  moreover have "calls_frame keeps_files s (snd (service_update_workspace env i u name description config s))"
    unfolding service_update_workspace_def by (intro cf_intros op_keeps)
  moreover have "calls_frame keeps_files s (snd (archive_workspace env i u s))"
    "calls_frame keeps_files s (snd (reactivate_workspace env i u s))"
    unfolding archive_workspace_def reactivate_workspace_def by (intro cf_intros op_keeps)+
  moreover have "calls_frame keeps_files s (snd (read_workspace_file env i u path s))"
    "calls_frame keeps_files s (snd (list_workspace_files env i u path s))"
    unfolding read_workspace_file_def list_workspace_files_def by (intro cf_intros op_keeps; simp)+
  moreover have "calls_frame keeps_files s (snd (disk_usage env i u s))"
    "calls_frame keeps_files s (snd (ensure_capacity env i u s))"
    unfolding disk_usage_def ensure_capacity_def Let_def by (intro cf_intros op_keeps used_bytes_keeps; simp)+
  ultimately show ?thesis by (simp add: start_keeps stop_keeps)
qed

subsection \<open>The disk budget\<close>

text \<open>a file is written only while the budget has room for it: when a budget is set, the bytes that the
  provider measured before the write, counted as zero if it cannot measure, plus the bytes of the file are
  within the budget. Otherwise the write raises \<open>WorkspaceQuotaExceededError\<close> and no byte is sent.\<close>

theorem write_within_budget:
  assumes "write_workspace_file env i u path data s = (res, s')"
    and "P_write_file ref path' data' \<in> set (drop (length (st_calls s)) (st_calls s'))"
  shows "data' = data \<and> path' = path
    \<and> (0 < sv_disk_quota_bytes env \<longrightarrow>
        (case pv_measure_workspace_usage (sv_provider env) (st_calls s @ [P_measure_workspace_usage ref]) of
           Inr used \<Rightarrow> used + int (length data) \<le> sv_disk_quota_bytes env
         | Inl e \<Rightarrow> is_provider_error e \<and> int (length data) \<le> sv_disk_quota_bytes env))"
proof -
  obtain x t where h: "runtime_with_handle env i u s = (x, t)" by (cases "runtime_with_handle env i u s")
  have t: "t = s"
    using h by (auto simp: runtime_with_handle_def sbind_def require_workspace_eq read_db_def raise_op_def
        sreturn_def split: sum.splits option.splits if_splits)
  show ?thesis
  proof (cases x)
    case (Inl e)
    with assms h t show ?thesis by (simp add: write_workspace_file_def sbind_def)
  next
    case (Inr ref0)
    let ?m = "pv_measure_workspace_usage (sv_provider env) (st_calls s @ [P_measure_workspace_usage ref0])"
    have w: "write_workspace_file env i u path data s
        = sbind (check_disk_budget env ref0 (int (length data)))
            (\<lambda>_. call_provider (pv_write_file (sv_provider env)) (P_write_file ref0 path data)) s"
      using h t Inr by (simp add: write_workspace_file_def sbind_def)
    show ?thesis
      using assms unfolding w
      by (cases ?m) (auto simp: check_disk_budget_def used_bytes_def sbind_def try_op_def call_provider_def
          sreturn_def raise_op_def Let_def split: if_splits)
  qed
qed

subsection \<open>A sample deployment\<close>

text \<open>A provider that creates and starts containers, and one that is out of reach.\<close>

definition sample_provider :: provider where
  "sample_provider = \<lparr>pv_name = ''docker'', pv_ensure_workspace_state = \<lambda>_. Inr ''vol'',
     pv_delete_workspace_state = \<lambda>_. Inr (),
     pv_create_runtime = \<lambda>_. Inr \<lparr>ps_provider_ref = ''c1'', ps_state = Rt_RUNNING\<rparr>,
     pv_start_runtime = \<lambda>_. Inr \<lparr>ps_provider_ref = ''c1'', ps_state = Rt_RUNNING\<rparr>,
     pv_stop_runtime = \<lambda>_. Inr \<lparr>ps_provider_ref = ''c1'', ps_state = Rt_STOPPED\<rparr>,
     pv_inspect_runtime = \<lambda>_. Inr (Some \<lparr>ps_provider_ref = ''c1'', ps_state = Rt_RUNNING\<rparr>),
     pv_delete_runtime = \<lambda>_. Inr (),
     pv_execute = \<lambda>_. Inr \<lparr>oc_exit_code = Some 0, oc_stdout = ''1'', oc_stderr = [], oc_duration_ms = 5,
       oc_timed_out = False, oc_memory_peak_bytes = 0, oc_error = None\<rparr>,
     pv_write_file = \<lambda>_. Inr (), pv_read_file = \<lambda>_. Inr [], pv_list_files = \<lambda>_. Inr [],
     pv_delete_file = \<lambda>_. Inr (), pv_measure_workspace_usage = \<lambda>_. Inr 10,
     pv_create_snapshot = \<lambda>_. Inr ''snap'', pv_describe = \<lambda>_. Inr []\<rparr>"

definition sample_service :: service_env where
  "sample_service = \<lparr>sv_provider = sample_provider, sv_sha256 = \<lambda>s. s, sv_float = \<lambda>_. [], sv_now = int,
     sv_uuid = \<lambda>n. ''u'' @ str_nat n, sv_rival = \<lambda>db. db, sv_prefix = [], sv_redis = \<lambda>_. Commit_ok,
     sv_max_workspaces = 20, sv_snapshot_retention = 5, sv_disk_quota_bytes = 100\<rparr>"

definition sample_service_state :: service_state where
  "sample_service_state = \<lparr>st_db = sample_db, st_redis = \<lparr>rd_streams = \<lambda>_. empty_stream, rd_tick = 0\<rparr>,
     st_calls = [], st_ticks = 0\<rparr>"

definition unreachable :: exn where
  "unreachable = AppError RuntimeProviderUnavailableError ''The execution host could not be reached.''"

definition unreachable_service :: service_env where
  "unreachable_service = sample_service\<lparr>sv_provider := sample_provider\<lparr>pv_ensure_workspace_state := \<lambda>_. Inl unreachable\<rparr>\<rparr>"

lemma default_config_ok: "check_runtime_config default_runtime_config = Inr default_runtime_config"
  "canonical_config default_runtime_config = default_runtime_config"
  by (simp_all add: check_runtime_config_def default_runtime_config_def SUPPORTED_PYTHON_VERSIONS_def
      DEFAULT_PYTHON_VERSION_def DEFAULT_UV_VERSION_def DEFAULT_BASE_IMAGE_def DEFAULT_BASE_IMAGE_REVISION_def
      DEFAULT_RESOURCE_PROFILE_def RUNTIME_CONFIG_VERSION_def RESOURCE_PROFILES_def resolve_profile_def
      blank_def py_strip_def is_space_def canonical_config_def dict_of_def)

definition sample_workspace_read :: workspace where
  "sample_workspace_read = sample_workspace\<lparr>ws_created_at := Some 0, ws_updated_at := Some 0\<rparr>"

lemma sample_get_workspace: "get_workspace fl ''w'' 1 sample_db = Inr (Some sample_workspace_read)"
proof -
  have "validate_name (Some ''n'') = Inr ''n''" "validate_description (Some []) = Inr []"
    by (simp_all add: validate_name_def validate_description_def py_split.simps is_space_def py_join_def
        MAX_NAME_LENGTH_def py_strip_def)
  moreover have "workspace_state_of ''ACTIVE'' = Inr Ws_ACTIVE"
    using workspace_state_of_value [of Ws_ACTIVE] by simp
  ultimately show ?thesis
    by (simp add: sample_eval get_workspace_def sql_select_def sql_first_def owned_def entity_or_none_def
        workspace_to_entity_def config_read default_config_ok new_workspace_def sample_workspace_read_def)
qed

lemma sample_accepts: "accepts_executions sample_workspace_read"
  by (simp add: sample_workspace_read_def sample_workspace_def accepts_executions_def state_accepts_executions_def)

lemma sample_no_runtime: "get_runtime_for_workspace i sample_db = Inr None"
  by (simp add: sample_eval get_runtime_for_workspace_def entity_or_none_def sql_first_def sql_select_def)

lemma sample_config_profile: "\<exists>p. config_profile (ws_runtime_config sample_workspace_read) = Inr p"
  by (simp add: sample_workspace_read_def sample_workspace_def default_runtime_config_def config_profile_def
      resolve_profile_def RESOURCE_PROFILES_def DEFAULT_RESOURCE_PROFILE_def)

lemma sample_tables: "db_runtimes sample_db = []" "db_revisions sample_db = []"
  "''w'' \<in> wr_workspace_id ` set (db_workspaces sample_db)"
  by (simp_all add: sample_eval)

lemma sample_start:
  obtains sd s1 where "start_runtime sample_service ''w'' 1 sample_service_state = (Inr sd, s1)" "sd_changed sd"
    "st_calls s1 \<noteq> []"
proof -
  obtain p where p: "config_profile (ws_runtime_config sample_workspace_read) = Inr p" using sample_config_profile by blast
  let ?s = sample_service_state and ?env = sample_service and ?w = sample_workspace_read
  have g: "get_workspace (sv_float ?env) ''w'' 1 (st_db ?s) = Inr (Some ?w)"
    by (simp add: sample_service_state_def sample_get_workspace)
  let ?r = "new_runtime (sv_uuid ?env (st_ticks ?s)) ''w'' (pv_name (sv_provider ?env))
    (rc_resource_profile (ws_runtime_config ?w))"
  obtain db1 where goc: "get_or_create_runtime (sv_rival ?env) (sv_uuid ?env (st_ticks ?s)) (sv_now ?env (Suc (st_ticks ?s))) ''w''
     (pv_name (sv_provider ?env)) (rc_resource_profile (ws_runtime_config ?w)) (st_db ?s) = (Inr ?r, db1)"
     and rv: "db_revisions db1 = []"
    by (simp add: get_or_create_runtime_def sample_service_state_def sample_no_runtime sample_service_def
        insert_runtime_def workspace_exists_def new_runtime_def sample_tables)
  have find: "find_reusable_revision i f b db = Inr None" if "db_revisions db = []" for i f b db
    using that by (simp add: find_reusable_revision_def sql_select_def order_desc_def sql_first_def entity_or_none_def)
  show ?thesis
    using that start_runtime_eq [OF g sample_accepts, unfolded goc]
    by (simp add: start_fresh_eq new_runtime_def BUSY_RUNTIME_STATES_def provider_start_def resume_container_def
        create_container_def step find rv p choose_image_def sample_service_def sample_provider_def
        sreturn_def touch_workspace_eq Let_def)
qed

theorem start_matches_configuration_witness:
  "\<exists>cs r s'. start_runtime sample_service ''w'' 1 sample_service_state = (Inr \<lparr>sd_runtime = r, sd_changed = True\<rparr>, s')
    \<and> st_calls s' = cs \<and> cs \<noteq> [] \<and> rt_state r = Rt_RUNNING
    \<and> list_all (start_call_ok sample_service ''w'' sample_workspace_read sample_db (st_db s')) cs
    \<and> (\<exists>row. get_runtime_for_workspace ''w'' (st_db s') = Inr (Some row) \<and> runtime_merge row r = row)"
proof -
  obtain sd s1 where st: "start_runtime sample_service ''w'' 1 sample_service_state = (Inr sd, s1)" "sd_changed sd" "st_calls s1 \<noteq> []"
    using sample_start by blast
  obtain r where sd: "sd = \<lparr>sd_runtime = r, sd_changed = True\<rparr>" using st(2) by (cases sd) auto
  have "get_workspace (sv_float sample_service) ''w'' 1 (st_db sample_service_state) = Inr (Some sample_workspace_read)"
    by (simp add: sample_service_state_def sample_get_workspace)
  from start_matches_configuration [OF this st(1) [unfolded sd]] st(1,3) sd show ?thesis
    by (auto simp: sample_service_state_def)
qed

theorem start_idempotent_witness:
  "\<exists>r s1 s2. s1 = snd (start_runtime sample_service ''w'' 1 sample_service_state)
     \<and> start_runtime sample_service ''w'' 1 s1 = (Inr \<lparr>sd_runtime = r, sd_changed = False\<rparr>, s2)
     \<and> st_calls s2 = st_calls s1 \<and> st_db s2 = st_db s1"
proof -
  obtain sd s1 where st: "start_runtime sample_service ''w'' 1 sample_service_state = (Inr sd, s1)"
    using sample_start by blast
  have "sv_rival sample_service = (\<lambda>db. db)" by (simp add: sample_service_def)
  from start_idempotent [OF this st] st show ?thesis by auto
qed

lemma unreachable_start:
  obtains s1 where "start_runtime unreachable_service ''w'' 1 sample_service_state = (Inl unreachable, s1)"
    "length (st_calls sample_service_state) < length (st_calls s1)"
proof -
  let ?s = sample_service_state and ?env = unreachable_service and ?w = sample_workspace_read
  have g: "get_workspace (sv_float ?env) ''w'' 1 (st_db ?s) = Inr (Some ?w)"
    by (simp add: sample_service_state_def sample_get_workspace)
  let ?r = "new_runtime (sv_uuid ?env (st_ticks ?s)) ''w'' (pv_name (sv_provider ?env))
    (rc_resource_profile (ws_runtime_config ?w))"
  obtain db1 where goc: "get_or_create_runtime (sv_rival ?env) (sv_uuid ?env (st_ticks ?s)) (sv_now ?env (Suc (st_ticks ?s))) ''w''
     (pv_name (sv_provider ?env)) (rc_resource_profile (ws_runtime_config ?w)) (st_db ?s) = (Inr ?r, db1)"
    by (simp add: get_or_create_runtime_def sample_service_state_def sample_no_runtime unreachable_service_def
        sample_service_def insert_runtime_def workspace_exists_def new_runtime_def sample_tables)
  show ?thesis
    using that start_runtime_eq [OF g sample_accepts, unfolded goc]
    by (simp add: start_fresh_eq new_runtime_def BUSY_RUNTIME_STATES_def provider_start_def resume_container_def
        create_container_def step unreachable_service_def sample_service_def sample_provider_def sreturn_def
        Let_def sbind_def [of "sreturn _"] is_provider_error_def unreachable_def provider_errors_def)
qed

theorem failed_start_recorded_witness:
  "\<exists>r. get_runtime_for_workspace ''w'' (st_db (snd (start_runtime unreachable_service ''w'' 1 sample_service_state)))
      = Inr (Some r) \<and> rt_state r = Rt_FAILED
    \<and> rt_failure_reason r = Some ''The execution host could not be reached.''"
proof -
  obtain s1 where st: "start_runtime unreachable_service ''w'' 1 sample_service_state = (Inl unreachable, s1)"
    "length (st_calls sample_service_state) < length (st_calls s1)" by (rule unreachable_start)
  have "sv_rival unreachable_service = (\<lambda>db. db)" by (simp add: unreachable_service_def sample_service_def)
  moreover have "is_provider_error unreachable"
    by (simp add: is_provider_error_def unreachable_def provider_errors_def)
  moreover have "safe_provider_message unreachable = ''The execution host could not be reached.''"
    by (simp add: safe_provider_message_def unreachable_def)
  ultimately show ?thesis using failed_start_recorded [OF _ st(1) _ st(2)] st(1) by auto
qed

text \<open>The sample workspace with a runtime on record.\<close>

definition with_runtime :: "runtime_state \<Rightarrow> service_state" where
  "with_runtime st = sample_service_state\<lparr>st_db := sample_db\<lparr>db_runtimes := [\<lparr>rr_runtime_id = ''r'',
     rr_workspace_id = ''w'', rr_provider = ''docker'', rr_provider_ref = Some ''c1'',
     rr_state = runtime_state_value st, rr_image_revision_id = None, rr_resource_profile = ''standard'',
     rr_failure_reason = Some ''boom'', rr_provider_metadata = [], rr_created_at = 0, rr_started_at = None,
     rr_stopped_at = None, rr_last_activity_at = None\<rparr>]\<rparr>\<rparr>"

lemma with_runtime_get:
  "\<exists>r. get_runtime_for_workspace ''w'' (st_db (with_runtime st)) = Inr (Some r) \<and> rt_state r = st
     \<and> rt_provider_ref r = Some ''c1''"
  "get_workspace fl ''w'' 1 (st_db (with_runtime st)) = Inr (Some sample_workspace_read)"
  by (simp add: with_runtime_def get_runtime_for_workspace_def sql_select_def sql_first_def entity_or_none_def
      runtime_to_entity_def)
    (use sample_get_workspace [of fl] in \<open>simp add: with_runtime_def get_workspace_def\<close>)

theorem failed_runtime_not_restartable_witness:
  "snd (restart_runtime sample_service ''w'' 1 True (with_runtime Rt_FAILED)) = with_runtime Rt_FAILED"
proof -
  obtain r where "get_runtime_for_workspace ''w'' (st_db (with_runtime Rt_FAILED)) = Inr (Some r)" "rt_state r = Rt_FAILED"
    using with_runtime_get(1) by blast
  from failed_runtime_not_restartable [OF with_runtime_get(2) this, of sample_service] show ?thesis by auto
qed

theorem only_the_owner_witness:
  "service_delete_workspace sample_service ''w'' 2 sample_service_state
     = (Inl (AppError WorkspaceNotFoundError ''w''), sample_service_state)"
proof -
  have "\<forall>row \<in> set (db_workspaces (st_db sample_service_state)). \<not> owned ''w'' 2 row"
    by (simp add: sample_service_state_def sample_eval owned_def)
  moreover have "get_runtime_for_workspace ''w'' (st_db sample_service_state) = Inr None"
    by (simp add: sample_service_state_def sample_no_runtime)
  ultimately show ?thesis by (rule only_the_owner [THEN conjunct2, THEN conjunct2, THEN conjunct2, THEN conjunct2,
        THEN conjunct2, THEN conjunct2, THEN conjunct2, THEN conjunct2, THEN conjunct1])
qed

theorem delete_workspace_complete_witness:
  "\<not> workspace_exists ''w'' (st_db (snd (service_delete_workspace sample_service ''w'' 1 sample_service_state)))"
proof -
  have "workspace_begin_delete sample_workspace_read = Inr (sample_workspace_read\<lparr>ws_state := Ws_DELETING\<rparr>)"
    "ws_state sample_workspace_read \<noteq> Ws_DELETING"
    by (simp_all add: workspace_begin_delete_def workspace_transition_def workspace_can_transition_def
        sample_workspace_read_def sample_workspace_def)
  moreover have "get_runtime_for_workspace ''w'' (snd (update_workspace t x sample_db)) = Inr None" for t x
    using sample_no_runtime by (metis get_runtime_cong update_workspace_tables(1))
  ultimately have "\<exists>t. teardown sample_service ''w'' 1 sample_service_state = (Inr (), t)"
    by (simp add: teardown_def op_defs require_workspace_eq sample_service_state_def
        sample_get_workspace write_workspace_op_def sample_service_def sample_provider_def Let_def)
  then obtain s' where d: "service_delete_workspace sample_service ''w'' 1 sample_service_state = (Inr (), s')"
    by (auto simp: service_delete_eq)
  have "unique_key wr_workspace_id (db_workspaces (st_db sample_service_state))"
    by (simp add: sample_service_state_def sample_eval)
  from delete_workspace_complete [OF d this] d show ?thesis by simp
qed

theorem write_within_budget_witness:
  "\<exists>s'. write_workspace_file sample_service ''w'' 1 ''a.txt'' ''abc'' (with_runtime Rt_RUNNING) = (Inr (), s')
     \<and> P_write_file ''c1'' ''a.txt'' ''abc'' \<in> set (st_calls s') \<and> 10 + int (length ''abc'') \<le> 100"
proof -
  obtain r where r: "get_runtime_for_workspace ''w'' (st_db (with_runtime Rt_RUNNING)) = Inr (Some r)"
    "rt_provider_ref r = Some ''c1''" using with_runtime_get(1) by blast
  have c: "st_calls (with_runtime Rt_RUNNING) = []" by (simp add: with_runtime_def sample_service_state_def)
  obtain s' where w: "write_workspace_file sample_service ''w'' 1 ''a.txt'' ''abc'' (with_runtime Rt_RUNNING) = (Inr (), s')"
    "st_calls s' = [P_measure_workspace_usage ''c1'', P_write_file ''c1'' ''a.txt'' ''abc'']"
    by (simp add: write_workspace_file_def runtime_with_handle_def sbind_def require_workspace_eq with_runtime_get
        read_db_def r truthy_def sreturn_def check_disk_budget_def used_bytes_def try_op_def call_provider_def
        sample_service_def sample_provider_def c Let_def)
  have "P_write_file ''c1'' ''a.txt'' ''abc'' \<in> set (drop (length (st_calls (with_runtime Rt_RUNNING))) (st_calls s'))"
    by (simp add: w(2) c)
  from write_within_budget [OF w(1) this] w show ?thesis by (simp add: sample_service_def sample_provider_def)
qed

end
