(* ===== verification/Execution_Service.thy ===== *)
theory Execution_Service
  imports Workspace_Safety
begin

section \<open>Submitting and tracking executions\<close>

text \<open>
  Models \<open>src/application/services/workspaces/execution_service.py\<close> on the state of the workspace service.
  What other sessions commit between the lookup of the idempotency key and the insert is the argument
  \<open>xs_rival\<close>. Proved: a submit with a key is idempotent, a cancelled execution is never claimed, and
  what a refused submit leaves behind.
\<close>

definition MAX_EXECUTION_TIMEOUT_SECONDS :: int where "MAX_EXECUTION_TIMEOUT_SECONDS = 3600"
definition MAX_COMMAND_CHARS :: nat where "MAX_COMMAND_CHARS = 8000"
definition ARTIFACT_SCAN_EXECUTIONS :: int where "ARTIFACT_SCAN_EXECUTIONS = 50"
definition MAX_ARTIFACTS_RETURNED :: nat where "MAX_ARTIFACTS_RETURNED = 200"

record execution_env =
  xs_service :: service_env
  xs_max_active_executions :: int
  xs_capacity :: bool
  xs_allows_package_install :: bool
  xs_rival :: "workspace_db \<Rightarrow> workspace_db"

definition request_error :: "string \<Rightarrow> 'a result" where
  "request_error m = Inl (AppError InvalidExecutionRequestError m)"

definition validate_request :: "execution_mode \<Rightarrow> string \<Rightarrow> int \<Rightarrow> string result" where
  "validate_request mode source timeout_seconds =
     (if py_strip source = [] then request_error ''An execution requires a non-empty source.''
      else if CHR 0x00 \<in> set source then request_error ''The source may not contain NUL bytes.''
      else if \<not> (1 \<le> timeout_seconds \<and> timeout_seconds \<le> MAX_EXECUTION_TIMEOUT_SECONDS)
      then request_error (''timeout_seconds must be between 1 and ''
             @ str_int MAX_EXECUTION_TIMEOUT_SECONDS @ ''.'')
      else case mode of
        Mode_PROJECT \<Rightarrow> rbind (parse_project_operation source) (\<lambda>_. Inr (py_strip source))
      | Mode_COMMAND \<Rightarrow>
          if MAX_COMMAND_CHARS < length source
          then request_error (''A command may be at most '' @ str_int (int MAX_COMMAND_CHARS) @ '' characters.'')
          else Inr source
      | Mode_SCRIPT \<Rightarrow>
          if MAX_SOURCE_CHARS < length source
          then request_error (''A script may be at most '' @ str_int (int MAX_SOURCE_CHARS) @ '' characters.'')
          else Inr source)"

text \<open>\<open>except InvalidWorkspaceError as exc: raise InvalidExecutionRequestError(str(exc))\<close>.\<close>

definition as_request_error :: "'a result \<Rightarrow> 'a result" where
  "as_request_error r = (case r of
       Inl (AppError InvalidWorkspaceError m) \<Rightarrow> request_error m
     | _ \<Rightarrow> r)"

text \<open>The two halves of \<open>submit\<close>: the checks, which write nothing, and the creation.\<close>

definition normal_key :: "string option \<Rightarrow> string option" where
  "normal_key key = (case key of None \<Rightarrow> None | Some k \<Rightarrow> if py_strip k = [] then None else Some (py_strip k))"

definition submit_checks :: "execution_env \<Rightarrow> string \<Rightarrow> int \<Rightarrow> execution_mode \<Rightarrow> string \<Rightarrow> int \<Rightarrow>
    (workspace \<times> string) op" where
  "submit_checks env workspace_id user_id mode source timeout_seconds =
     sbind (read_db (get_workspace (sv_float (xs_service env)) workspace_id user_id)) (\<lambda>w.
     case w of
       None \<Rightarrow> raise_op (AppError WorkspaceNotFoundError workspace_id)
     | Some w \<Rightarrow>
       if \<not> accepts_executions w then raise_op (AppError WorkspaceNotUsableError workspace_id)
       else sbind (sreturn (as_request_error (validate_request mode source timeout_seconds))) (\<lambda>validated.
       if mode = Mode_PROJECT \<and> \<not> xs_allows_package_install env
       then raise_op (AppError PackageInstallNotPermittedError (''This deployment runs code with no outbound ''
              @ ''network access, so dependencies cannot be installed or re-resolved. ''
              @ py_repr ''uv'' @ '' project operations need to reach a package index. Enabling them is a ''
              @ ''deployment setting, not something you can change here '' @ [CHR 0x97]
              @ '' ask the operator to allow package egress, or use a SCRIPT run with the ''
              @ ''packages already saved in the workspace environment.''))
       else sbind (if xs_capacity env then ensure_capacity (xs_service env) workspace_id user_id
              else sreturn (Inr ())) (\<lambda>_.
       sreturn (Inr (w, validated)))))"

text \<open>The handler of a failed publication.\<close>

definition fail_unqueued :: "service_env \<Rightarrow> execution \<Rightarrow> unit op" where
  "fail_unqueued sv e =
     sbind (now_op sv) (\<lambda>t.
     sbind (sreturn (execution_fail ''Could not queue the execution for a worker.'' None [] [] 0 None None t e))
       (\<lambda>e'.
     sbind (write_db (\<lambda>db. snd (update_execution e' db))) (\<lambda>_.
     raise_op (AppError InvalidExecutionRequestError
       ''The execution could not be queued. Please try again.''))))"

definition create_and_publish :: "execution_env \<Rightarrow> workspace \<Rightarrow> string \<Rightarrow> int \<Rightarrow> execution_mode \<Rightarrow> string \<Rightarrow>
    string option \<Rightarrow> job_origin \<Rightarrow> execution op" where
  "create_and_publish env w workspace_id user_id mode validated key origin =
     (let sv = xs_service env in
      sbind (uuid_op sv) (\<lambda>uuid.
      sbind (sreturn (new_execution ((blank_execution uuid workspace_id user_id mode validated)
          \<lparr>ex_idempotency_key := key, ex_origin := origin\<rparr>))) (\<lambda>e.
      sbind (now_op sv) (\<lambda>now.
      sbind (write_db (xs_rival env)) (\<lambda>_.
      sbind (exec_db (create_execution (sv_float sv) now e)) (\<lambda>stored.
      if ex_execution_id stored \<noteq> ex_execution_id e then sreturn (Inr stored)
      else sbind (touch_workspace sv (w\<lparr>ws_execution_count := ws_execution_count w + 1\<rparr>)) (\<lambda>_.
      sbind (try_op (publish_execution sv e) (\<lambda>_. fail_unqueued sv e)) (\<lambda>_.
      sreturn (Inr e)))))))))"

definition submit :: "execution_env \<Rightarrow> string \<Rightarrow> int \<Rightarrow> execution_mode \<Rightarrow> string \<Rightarrow> int \<Rightarrow> string option \<Rightarrow>
    job_origin \<Rightarrow> execution op" where
  "submit env workspace_id user_id mode source timeout_seconds idempotency_key origin =
     sbind (submit_checks env workspace_id user_id mode source timeout_seconds) (\<lambda>(w, validated).
     let sv = xs_service env; key = normal_key idempotency_key in
     sbind (case key of
         None \<Rightarrow> sreturn (Inr None)
       | Some k \<Rightarrow> read_db (find_execution_by_idempotency_key (sv_float sv) workspace_id k)) (\<lambda>existing.
     case existing of
       Some e \<Rightarrow> sreturn (Inr e)
     | None \<Rightarrow>
       sbind (read_db (list_active_executions_for_workspace (sv_float sv) workspace_id)) (\<lambda>active.
       if xs_max_active_executions env \<le> int (length active)
       then raise_op (AppError TooManyActiveExecutionsError (''This workspace already has ''
              @ str_int (int (length active)) @ '' executions in flight.''))
       else create_and_publish env w workspace_id user_id mode validated key origin)))"

subsection \<open>Reads and cancellation\<close>

definition get_owned_execution :: "execution_env \<Rightarrow> string \<Rightarrow> int \<Rightarrow> execution op" where
  "get_owned_execution env execution_id user_id =
     sbind (read_db (get_execution_for_user (sv_float (xs_service env)) execution_id user_id)) (\<lambda>e.
       case e of None \<Rightarrow> raise_op (AppError ExecutionNotFoundError execution_id) | Some e \<Rightarrow> sreturn (Inr e))"

definition list_for_workspace :: "execution_env \<Rightarrow> string \<Rightarrow> int \<Rightarrow> int \<Rightarrow> int \<Rightarrow> (execution list \<times> int) op" where
  "list_for_workspace env workspace_id user_id limit offset =
     sbind (require_workspace (xs_service env) workspace_id user_id) (\<lambda>_.
     read_db (list_executions_for_workspace (sv_float (xs_service env)) workspace_id limit offset))"

definition cancel :: "execution_env \<Rightarrow> string \<Rightarrow> int \<Rightarrow> execution op" where
  "cancel env execution_id user_id =
     sbind (get_owned_execution env execution_id user_id) (\<lambda>e.
     sbind (now_op (xs_service env)) (\<lambda>t.
     sbind (sreturn (execution_cancel t e)) (\<lambda>(changed, e').
     sbind (if changed then write_db (\<lambda>db. snd (update_execution e' db)) else sreturn (Inr ())) (\<lambda>_.
     sreturn (Inr e')))))"

definition get_artifact :: "execution_env \<Rightarrow> string \<Rightarrow> int \<Rightarrow> string \<Rightarrow> execution_artifact option op" where
  "get_artifact env execution_id user_id path =
     sbind (get_owned_execution env execution_id user_id) (\<lambda>e.
     sreturn (Inr (find (\<lambda>a. ar_path a = path \<and> truthy (ar_object_key a)) (ex_artifacts e))))"

text \<open>The nested loop with its early return: the artifacts of the executions in order, up to the bound.\<close>

fun artifact_loop :: "(string \<times> execution_artifact) list \<Rightarrow> (string \<times> execution_artifact) list \<Rightarrow>
    (string \<times> execution_artifact) list" where
  "artifact_loop acc [] = acc"
| "artifact_loop acc (a # rest) =
     (let acc' = acc @ [a] in
      if MAX_ARTIFACTS_RETURNED \<le> length acc' then acc' else artifact_loop acc' rest)"

definition list_artifacts :: "execution_env \<Rightarrow> string \<Rightarrow> int \<Rightarrow> (string \<times> execution_artifact) list op" where
  "list_artifacts env workspace_id user_id =
     sbind (require_workspace (xs_service env) workspace_id user_id) (\<lambda>_.
     sbind (read_db (list_executions_for_workspace (sv_float (xs_service env)) workspace_id
         ARTIFACT_SCAN_EXECUTIONS 0)) (\<lambda>(executions, _).
     sreturn (Inr (artifact_loop []
       (concat (map (\<lambda>e. map (Pair (ex_execution_id e)) (ex_artifacts e)) executions))))))"

subsection \<open>The checks write nothing\<close>

lemma used_bytes_state: "\<exists>cs. snd (used_bytes env ref s) = s\<lparr>st_calls := cs\<rparr>"
  by (auto simp: used_bytes_def try_op_def call_provider_def sreturn_def raise_op_def Let_def split: sum.splits)

lemma ensure_capacity_state: "\<exists>cs. snd (ensure_capacity env i u s) = s\<lparr>st_calls := cs\<rparr>"
proof -
  have same: "\<exists>cs. s = s\<lparr>st_calls := cs\<rparr>" by (rule exI [of _ "st_calls s"]) simp
  show ?thesis
  proof (cases "0 < sv_disk_quota_bytes env \<and> (\<exists>r. get_runtime_for_workspace i (st_db s) = Inr (Some r) \<and> truthy (rt_provider_ref r))")
    case True
    then obtain r where r: "get_runtime_for_workspace i (st_db s) = Inr (Some r)" "truthy (rt_provider_ref r)" by blast
    obtain x t where u: "used_bytes env (the (rt_provider_ref r)) s = (x, t)"
      by (cases "used_bytes env (the (rt_provider_ref r)) s")
    obtain cs where "t = s\<lparr>st_calls := cs\<rparr>" using used_bytes_state [of env "the (rt_provider_ref r)" s] u by auto
    then show ?thesis using True r u
      by (auto simp: ensure_capacity_def step sbind_def [of "used_bytes _ _"] sreturn_def raise_op_def split: sum.splits)
  next
    case False
    then show ?thesis using same
      by (auto simp: ensure_capacity_def step sreturn_def split: sum.splits option.splits)
  qed
qed

lemma submit_checks_eq:
  assumes "get_workspace (sv_float (xs_service env)) i u (st_db s) = Inr (Some w)" "accepts_executions w"
    and "as_request_error (validate_request m src t) = Inr v" "m = Mode_PROJECT \<longrightarrow> xs_allows_package_install env"
  shows "submit_checks env i u m src t s = (if xs_capacity env
    then case ensure_capacity (xs_service env) i u s of (Inl e, s') \<Rightarrow> (Inl e, s') | (Inr _, s') \<Rightarrow> (Inr (w, v), s')
    else (Inr (w, v), s))"
  using assms by (auto simp: submit_checks_def step sreturn_def sbind_def [of "ensure_capacity _ _ _"] split: prod.splits sum.splits)

lemma submit_checks_cases:
  assumes "submit_checks env i u m src t s = (Inr (w, v), s')"
  shows "get_workspace (sv_float (xs_service env)) i u (st_db s) = Inr (Some w) \<and> accepts_executions w
    \<and> as_request_error (validate_request m src t) = Inr v \<and> (m = Mode_PROJECT \<longrightarrow> xs_allows_package_install env)
    \<and> (\<exists>cs. s' = s\<lparr>st_calls := cs\<rparr>)"
proof -
  let ?sv = "xs_service env"
  obtain w' where g: "get_workspace (sv_float ?sv) i u (st_db s) = Inr (Some w')" "accepts_executions w'"
    using assms by (auto simp: submit_checks_def step raise_op_def split: sum.splits option.splits if_splits)
  obtain v' where v: "as_request_error (validate_request m src t) = Inr v'"
    using assms g by (cases "as_request_error (validate_request m src t)") (auto simp: submit_checks_def step raise_op_def)
  have p: "m = Mode_PROJECT \<longrightarrow> xs_allows_package_install env"
    using assms g v by (auto simp: submit_checks_def step raise_op_def split: if_splits)
  have same: "\<exists>cs. s = s\<lparr>st_calls := cs\<rparr>" by (rule exI [of _ "st_calls s"]) simp
  show ?thesis
    using assms g v p same ensure_capacity_state [of ?sv i u s] unfolding submit_checks_eq [OF g v p]
    by (auto split: if_splits prod.splits sum.splits)
qed

subsection \<open>A key names one execution\<close>

lemma new_execution_id: "new_execution e = Inr e' \<Longrightarrow> e' = e"
  by (auto simp: new_execution_def split: if_splits)

lemma new_execution_source: "ex_source e = ex_source e' \<Longrightarrow> new_execution e = Inr e \<Longrightarrow> new_execution e' = Inr e'"
  by (auto simp: new_execution_def split: if_splits)

lemma create_execution_found:
  assumes "create_execution fl now e db = (Inr stored, db')" "ex_idempotency_key e = Some k" "new_execution e = Inr e"
  shows "\<exists>x. find_execution_by_idempotency_key fl (ex_workspace_id e) k db' = Inr (Some x)
      \<and> ex_execution_id x = ex_execution_id stored"
    and "db_workspaces db' = db_workspaces db"
proof -
  obtain y d where ins: "insert_execution now e db = (y, d)" by (cases "insert_execution now e db")
  have "db_workspaces d = db_workspaces db" using ins by (auto simp: insert_execution_def split: if_splits)
  then show "db_workspaces db' = db_workspaces db"
    using assms(1) ins by (auto simp: create_execution_def split: sum.splits option.splits)
  show "\<exists>x. find_execution_by_idempotency_key fl (ex_workspace_id e) k db' = Inr (Some x)
      \<and> ex_execution_id x = ex_execution_id stored"
  proof (cases y)
    case (Inl err)
    with assms(1,2) ins show ?thesis by (auto simp: create_execution_def split: sum.splits option.splits)
  next
    case (Inr z)
    have none: "sql_first (sql_select (\<lambda>row. er_workspace_id row = ex_workspace_id e \<and> er_idempotency_key row = Some k)
        (db_executions db)) = None"
      using ins Inr assms(2) by (auto simp: insert_execution_def sql_first_None split: if_splits)
    from assms(1) ins Inr have st: "stored = e" "db' = d" by (simp_all add: create_execution_def)
    have "artifacts_from_json fl (J_list []) = Inr []" by (simp add: artifacts_from_json_def)
    then show ?thesis
      using ins Inr none assms(2) new_execution_source [OF _ assms(3)] unfolding st
      by (auto simp: insert_execution_def find_execution_by_idempotency_key_def sql_first_append entity_or_none_def
          execution_to_entity_def split: if_splits)
  qed
qed

lemma find_key_cong: "db_executions db = db_executions db' \<Longrightarrow>
    find_execution_by_idempotency_key fl i k db = find_execution_by_idempotency_key fl i k db'"
  by (simp add: find_execution_by_idempotency_key_def)

text \<open>The workspace is still there, and active, after its count was raised.\<close>

lemma counted_workspace:
  assumes "get_workspace fl i u db = Inr (Some w)" "accepts_executions w"
  shows "\<exists>w'. get_workspace fl i u (snd (update_workspace now
      (workspace_touch t (w\<lparr>ws_execution_count := ws_execution_count w + 1\<rparr>)) db)) = Inr (Some w') \<and> accepts_executions w'"
proof -
  let ?w = "workspace_touch t (w\<lparr>ws_execution_count := ws_execution_count w + 1\<rparr>)"
  have v: "valid_workspace w" "ws_workspace_id w = i" "ws_user_id w = u"
    using get_workspace_valid [OF assms(1)] by simp_all
  have "valid_workspace ?w"
    using v(1) by (simp add: valid_workspace_def new_workspace_fixed_iff workspace_touch_def)
  then show ?thesis
    using update_workspace_read [of fl ?w db w now] assms v
    by (simp add: workspace_touch_def workspace_merge_def accepts_executions_def)
qed

lemma publish_work_state: "publish_work env m s = (x, s') \<Longrightarrow> st_db s' = st_db s"
  by (auto simp: publish_work_def redis_op_def sbind_def sreturn_def split: prod.splits sum.splits)

lemma fail_unqueued_raises: "\<exists>x s'. fail_unqueued sv e s = (Inl x, s')"
  by (cases "execution_fail ''Could not queue the execution for a worker.'' None [] [] 0 None None
      (sv_now sv (st_ticks s)) e") (simp_all add: fail_unqueued_def step raise_op_def)

lemma create_and_publish_found:
  assumes "create_and_publish env w i u m v (Some k) org s = (Inr e, s1)"
    and "get_workspace (sv_float (xs_service env)) i u (st_db s) = Inr (Some w)" "accepts_executions w"
    and "\<And>db. db_workspaces (xs_rival env db) = db_workspaces db"
  shows "(\<exists>x. find_execution_by_idempotency_key (sv_float (xs_service env)) i k (st_db s1) = Inr (Some x)
        \<and> ex_execution_id x = ex_execution_id e)
    \<and> (\<exists>w'. get_workspace (sv_float (xs_service env)) i u (st_db s1) = Inr (Some w') \<and> accepts_executions w')"
proof -
  let ?sv = "xs_service env" and ?n = "st_ticks s"
  define new where "new = (blank_execution (sv_uuid ?sv ?n) i u m v)\<lparr>ex_idempotency_key := Some k, ex_origin := org\<rparr>"
  have new_ws: "ex_workspace_id new = i" "ex_idempotency_key new = Some k" by (simp_all add: new_def blank_execution_def)
  have ok: "new_execution new = Inr new"
    using assms(1) by (cases "new_execution new")
      (auto simp: create_and_publish_def step Let_def new_def raise_op_def dest: new_execution_id)
  let ?db0 = "xs_rival env (st_db s)" and ?t = "sv_now ?sv (Suc ?n)"
  obtain y db1 where c: "create_execution (sv_float ?sv) ?t new ?db0 = (y, db1)"
    by (cases "create_execution (sv_float ?sv) ?t new ?db0")
  let ?s2 = "s\<lparr>st_ticks := Suc (Suc ?n), st_db := db1\<rparr>"
  have unf: "create_and_publish env w i u m v (Some k) org s = (case y of Inl e \<Rightarrow> (Inl e, ?s2)
      | Inr stored \<Rightarrow> (if ex_execution_id stored \<noteq> ex_execution_id new then sreturn (Inr stored)
      else sbind (touch_workspace ?sv (w\<lparr>ws_execution_count := ws_execution_count w + 1\<rparr>)) (\<lambda>_.
      sbind (try_op (publish_execution ?sv new) (\<lambda>_. fail_unqueued ?sv new)) (\<lambda>_.
      sreturn (Inr new)))) ?s2)"
    using ok c by (simp add: create_and_publish_def step Let_def flip: new_def)
      (simp add: sbind_def [of "exec_db _"] exec_db_def split: sum.splits)
  from unf assms(1) obtain stored where y: "y = Inr stored" by (cases y) auto
  note found = create_execution_found [OF c [unfolded y] new_ws(2) ok, unfolded new_ws(1)]
  have w1: "get_workspace (sv_float ?sv) i u db1 = Inr (Some w)"
    using assms(2,4) found(2) by (metis get_workspace_cong)
  show ?thesis
  proof (cases "ex_execution_id stored = ex_execution_id new")
    case False
    with unf y assms(1) found(1) w1 assms(3) show ?thesis by (auto simp: sreturn_def)
  next
    case True
    obtain z s3 where p: "publish_execution ?sv new (snd (touch_workspace ?sv (w\<lparr>ws_execution_count := ws_execution_count w + 1\<rparr>) ?s2)) = (z, s3)"
      by (cases "publish_execution ?sv new (snd (touch_workspace ?sv (w\<lparr>ws_execution_count := ws_execution_count w + 1\<rparr>) ?s2))")
    have pd: "st_db s3 = st_db (snd (touch_workspace ?sv (w\<lparr>ws_execution_count := ws_execution_count w + 1\<rparr>) ?s2))"
      using p publish_work_state by (simp add: publish_execution_def)
    have "s1 = s3 \<and> e = new"
      using unf y True assms(1) p fail_unqueued_raises [of ?sv new s3]
      by (cases z) (auto simp: sbind_def [of "touch_workspace _ _"] touch_workspace_eq sbind_def [of "try_op _ _"]
          try_op_def sreturn_def)
    then show ?thesis
      using found(1) True pd counted_workspace [OF w1 assms(3)]
      by (auto simp: touch_workspace_eq find_key_cong [of "snd (update_workspace _ _ db1)" db1])
  qed
qed

text \<open>a submit with an idempotency key is idempotent. After a submit has returned an execution, the same
  submit returns the execution with the same identifier, adds no row, publishes nothing and leaves the
  database as it is, whatever other sessions committed during the first one that kept the workspaces; only
  the disk budget can refuse it.\<close>

theorem submit_idempotent:
  assumes "submit env i u m src t key org s = (Inr e, s1)" "normal_key key = Some k"
    and "\<And>db. db_workspaces (xs_rival env db) = db_workspaces db"
  shows "(\<exists>e' s2. submit env i u m src t key org s1 = (Inr e', s2) \<and> ex_execution_id e' = ex_execution_id e
        \<and> st_db s2 = st_db s1 \<and> st_redis s2 = st_redis s1)
    \<or> xs_capacity env \<and> isl (fst (ensure_capacity (xs_service env) i u s1))"
proof -
  let ?sv = "xs_service env"
  from assms(1) obtain w v s0 where c: "submit_checks env i u m src t s = (Inr (w, v), s0)"
    by (auto simp: submit_def elim: sbind_cases)
  from submit_checks_cases [OF c] obtain cs where g: "get_workspace (sv_float ?sv) i u (st_db s) = Inr (Some w)"
    "accepts_executions w" "as_request_error (validate_request m src t) = Inr v"
    "m = Mode_PROJECT \<longrightarrow> xs_allows_package_install env" "s0 = s\<lparr>st_calls := cs\<rparr>" by auto
  have fw: "(\<exists>x. find_execution_by_idempotency_key (sv_float ?sv) i k (st_db s1) = Inr (Some x)
        \<and> ex_execution_id x = ex_execution_id e)
    \<and> (\<exists>w'. get_workspace (sv_float ?sv) i u (st_db s1) = Inr (Some w') \<and> accepts_executions w')"
  proof (cases "find_execution_by_idempotency_key (sv_float ?sv) i k (st_db s)")
    case (Inl err)
    with assms(1,2) c g(5) show ?thesis by (simp add: submit_def sbind_def read_db_def Let_def)
  next
    case (Inr found)
    show ?thesis
    proof (cases found)
      case (Some x)
      with assms(1,2) c g Inr show ?thesis by (auto simp: submit_def sbind_def read_db_def Let_def sreturn_def)
    next
      case None
      with assms(1,2) c g(5) Inr have "create_and_publish env w i u m v (Some k) org s0 = (Inr e, s1)"
        by (auto simp: submit_def sbind_def [of "submit_checks _ _ _ _ _ _"] step Let_def raise_op_def
            split: sum.splits if_splits)
      from create_and_publish_found [OF this _ g(2) assms(3)] g(1,5) show ?thesis by simp
    qed
  qed
  then obtain x w' where x: "find_execution_by_idempotency_key (sv_float ?sv) i k (st_db s1) = Inr (Some x)"
    "ex_execution_id x = ex_execution_id e" "get_workspace (sv_float ?sv) i u (st_db s1) = Inr (Some w')"
    "accepts_executions w'" by blast
  obtain y s2 where cap: "ensure_capacity ?sv i u s1 = (y, s2)" by (cases "ensure_capacity ?sv i u s1")
  then obtain cs' where s2: "s2 = s1\<lparr>st_calls := cs'\<rparr>" using ensure_capacity_state [of ?sv i u s1] by auto
  show ?thesis
    using x cap s2 assms(2)
    by (cases y) (auto simp: submit_def sbind_def [of "submit_checks _ _ _ _ _ _"] submit_checks_eq [OF x(3,4) g(3,4)]
        step Let_def sreturn_def)
qed

subsection \<open>Cancellation\<close>

lemma enum_of_value: "enum_of val ms v = Inr m \<Longrightarrow> val m = v"
  by (auto simp: enum_of_def find_Some_iff split: option.splits)

lemma execution_entity_fields:
  assumes "execution_to_entity fl row = Inr e"
  shows "ex_execution_id e = er_execution_id row" "er_status row = execution_status_value (ex_status e)"
    "ex_user_id e = er_user_id row" "ex_workspace_id e = er_workspace_id row"
  using assms by (auto simp: execution_to_entity_def rbind_Inr_iff execution_status_of_def dest!: new_execution_id
      enum_of_value)

lemma execution_cancel_cases:
  assumes "execution_cancel t e = Inr (changed, e')"
  shows "ex_execution_id e' = ex_execution_id e \<and> execution_is_terminal e' \<and> (\<not> changed \<longrightarrow> e' = e \<and> execution_is_terminal e)"
  using assms by (auto simp: execution_cancel_def rbind_Inr_iff exm.transition_Inr_iff execution_finish_def status_defs
      split: if_splits)

lemma terminal_not_queued: "execution_is_terminal e \<Longrightarrow> execution_status_value (ex_status e) \<noteq> execution_status_value Exec_QUEUED"
  by (cases "ex_status e") (simp_all add: status_defs)

lemma update_terminal_not_queued:
  assumes "execution_is_terminal e"
  shows "\<not> queued (ex_execution_id e) (snd (update_execution e db))"
  using terminal_not_queued [OF assms]
  by (auto simp: queued_def update_execution_def Let_def set_sql_update write_execution_def simp del: execution_status_value.simps)

definition user_execution :: "string \<Rightarrow> int \<Rightarrow> workspace_db \<Rightarrow> execution_row option" where
  "user_execution x u db =
     sql_first (sql_select (\<lambda>row. er_execution_id row = x \<and> er_user_id row = u) (db_executions db))"

lemma user_execution_update:
  assumes "user_execution x u db = Some row" "ex_execution_id e = x"
  shows "user_execution x u (snd (update_execution e db)) = Some (write_execution e row)"
proof -
  have "er_execution_id row = x" using assms(1) by (auto simp: user_execution_def dest: sql_first_Some)
  moreover have "sql_first (sql_select (\<lambda>row. er_execution_id row = x \<and> er_user_id row = u)
      (sql_update (\<lambda>row. er_execution_id row = ex_execution_id e) (write_execution e) (db_executions db)))
    = map_option (\<lambda>r. if er_execution_id r = ex_execution_id e then write_execution e r else r) (user_execution x u db)"
    unfolding user_execution_def by (rule sql_first_update) (simp add: write_execution_def)
  ultimately show ?thesis using assms by (simp add: user_execution_def update_execution_def Let_def)
qed

lemma cancel_eq:
  assumes "user_execution x u (st_db s) = Some row" "execution_to_entity (sv_float (xs_service env)) row = Inr e"
  shows "cancel env x u s = (let s1 = s\<lparr>st_ticks := Suc (st_ticks s)\<rparr> in
    case execution_cancel (sv_now (xs_service env) (st_ticks s)) e of
      Inl err \<Rightarrow> (Inl err, s1)
    | Inr (changed, e') \<Rightarrow> (Inr e', if changed then s1\<lparr>st_db := snd (update_execution e' (st_db s))\<rparr> else s1))"
  using assms
  by (simp add: cancel_def get_owned_execution_def get_execution_for_user_def entity_or_none_def step
      sbind_def [of "sbind _ _"] user_execution_def sreturn_def sbind_def [of "sreturn _"] write_db_def
      split: sum.splits prod.splits)

text \<open>once \<open>cancel\<close> has returned, the execution is in a terminal status, in the answer and in the table; no
  worker can claim it any more; and a second cancel changes nothing.\<close>

theorem cancelled_never_claimed:
  assumes "cancel env x u s = (Inr e, s')" "unique_key er_execution_id (db_executions (st_db s))"
  shows "execution_is_terminal e \<and> ex_execution_id e = x \<and> \<not> fst (claim_execution now x r (st_db s'))
    \<and> (\<exists>e' s''. cancel env x u s' = (Inr e', s'') \<and> st_db s'' = st_db s' \<and> ex_status e' = ex_status e)"
proof -
  let ?fl = "sv_float (xs_service env)" and ?t = "sv_now (xs_service env) (st_ticks s)"
  from assms(1) obtain row e0 where row: "user_execution x u (st_db s) = Some row" "execution_to_entity ?fl row = Inr e0"
    by (auto simp: cancel_def get_owned_execution_def get_execution_for_user_def user_execution_def sbind_def read_db_def
        raise_op_def sreturn_def entity_or_none_def rbind_Inr_iff split: sum.splits option.splits)
  have rx: "row \<in> set (db_executions (st_db s))" "er_execution_id row = x"
    using sql_first_Some [OF row(1) [unfolded user_execution_def]] by simp_all
  note fields = execution_entity_fields [OF row(2)]
  obtain changed where c: "execution_cancel ?t e0 = Inr (changed, e)"
    "st_db s' = (if changed then snd (update_execution e (st_db s)) else st_db s)"
  proof (cases "execution_cancel ?t e0")
    case (Inr p)
    obtain ch e2 where p: "p = (ch, e2)" by (cases p)
    have "e2 = e" "s' = (if ch then s\<lparr>st_ticks := Suc (st_ticks s), st_db := snd (update_execution e2 (st_db s))\<rparr>
        else s\<lparr>st_ticks := Suc (st_ticks s)\<rparr>)"
      using assms(1) [unfolded cancel_eq [OF row] Inr p] by (simp_all add: Let_def)
    with Inr p that show ?thesis by simp
  qed (use assms(1) [unfolded cancel_eq [OF row]] in \<open>simp add: Let_def\<close>)
  note cc = execution_cancel_cases [OF c(1)]
  have id: "ex_execution_id e = x" "execution_is_terminal e" using cc fields(1) rx(2) by simp_all
  have nq: "\<not> queued x (st_db s')"
  proof (cases changed)
    case True
    then show ?thesis using update_terminal_not_queued [OF id(2), of "st_db s"] id(1) c(2) by simp
  next
    case False
    then have "er_status row \<noteq> execution_status_value Exec_QUEUED"
      using cc terminal_not_queued fields(2) by simp
    moreover have "q = row" if "q \<in> set (db_executions (st_db s))" "er_execution_id q = x" for q
      using unique_key_inj [OF assms(2) that(1) rx(1)] that(2) rx(2) by simp
    ultimately show ?thesis using False c(2) by (auto simp: queued_def)
  qed
  obtain row' where row': "user_execution x u (st_db s') = Some row'"
    "\<exists>e1. execution_to_entity ?fl row' = Inr e1 \<and> ex_status e1 = ex_status e"
  proof (cases changed)
    case True
    have "execution_to_entity ?fl (write_execution e row) = Inr (execution_merge e0 e)"
      by (rule ext.conv_wr [OF _ _ row(2)]) (simp_all add: rx id)
    with True user_execution_update [OF row(1) id(1)] c(2) show ?thesis
      by (intro that [of "write_execution e row"]) (auto simp: execution_merge_def)
  next
    case False
    with cc row c(2) show ?thesis by (intro that [of row]) auto
  qed
  then obtain e1 where e1: "execution_to_entity ?fl row' = Inr e1" "ex_status e1 = ex_status e" by blast
  have "execution_cancel t e1 = Inr (False, e1)" for t
    using id(2) e1(2) by (simp add: execution_cancel_def execution_is_terminal_def)
  with cancel_eq [OF row'(1) e1(1)] e1(2) have
    "\<exists>e' s''. cancel env x u s' = (Inr e', s'') \<and> st_db s'' = st_db s' \<and> ex_status e' = ex_status e" by (simp add: Let_def)
  with id nq show ?thesis by (simp add: claim_won)
qed

subsection \<open>Samples\<close>

definition sample_execution_env :: execution_env where
  "sample_execution_env = \<lparr>xs_service = sample_service, xs_max_active_executions = 5, xs_capacity = False,
     xs_allows_package_install = True, xs_rival = \<lambda>db. db\<rparr>"

definition sample_execution_read :: execution where
  "sample_execution_read = sample_execution\<lparr>ex_created_at := Some 1\<rparr>"

lemma sample_source: "new_execution (blank_execution x w u Mode_SCRIPT ''print(1)'') = Inr (blank_execution x w u Mode_SCRIPT ''print(1)'')"
  by (simp add: new_execution_def blank_execution_def py_strip_def is_space_def MAX_SOURCE_CHARS_def)

lemma sample_execution_row:
  "\<exists>row. db_executions sample_db = [row] \<and> execution_to_entity fl row = Inr sample_execution_read
     \<and> er_execution_id row = ''e'' \<and> er_user_id row = 1 \<and> er_workspace_id row = ''w'' \<and> er_status row = ''QUEUED''
     \<and> er_idempotency_key row = None"
proof -
  have "execution_mode_of ''SCRIPT'' = Inr Mode_SCRIPT" "execution_status_of ''QUEUED'' = Inr Exec_QUEUED"
    "coerce_job_origin (Arg_str ''WEB'') = Origin_WEB"
    using execution_mode_of_value [of Mode_SCRIPT] execution_status_of_value [of Exec_QUEUED]
      coerce_origin_value [of Origin_WEB] by simp_all
  then show ?thesis
    by (simp add: sample_eval execution_to_entity_def artifacts_from_json_def sample_execution_read_def
        new_execution_def py_strip_def is_space_def MAX_SOURCE_CHARS_def)
qed

lemma sample_submit:
  obtains e s1 where "submit sample_execution_env ''w'' 1 Mode_SCRIPT ''print(1)'' 60 (Some ''k'') Origin_WEB sample_service_state
     = (Inr e, s1)"
proof -
  obtain row where row: "db_executions sample_db = [row]" "execution_to_entity (\<lambda>_. []) row = Inr sample_execution_read"
    "er_execution_id row = ''e''" "er_user_id row = 1" "er_workspace_id row = ''w''" "er_status row = ''QUEUED''"
    "er_idempotency_key row = None" using sample_execution_row by blast
  have v: "as_request_error (validate_request Mode_SCRIPT ''print(1)'' 60) = Inr ''print(1)''"
    by (simp add: as_request_error_def validate_request_def py_strip_def is_space_def
        MAX_EXECUTION_TIMEOUT_SECONDS_def MAX_SOURCE_CHARS_def)
  have ck: "submit_checks sample_execution_env ''w'' 1 Mode_SCRIPT ''print(1)'' 60 sample_service_state
      = (Inr (sample_workspace_read, ''print(1)''), sample_service_state)"
    by (subst submit_checks_eq [OF _ sample_accepts v])
      (simp_all add: sample_service_state_def sample_get_workspace sample_execution_env_def)
  have key: "normal_key (Some ''k'') = Some ''k''" by (simp add: normal_key_def py_strip_def is_space_def)
  have fnd: "find_execution_by_idempotency_key (\<lambda>_. []) ''w'' ''k'' sample_db = Inr None"
    by (simp add: find_execution_by_idempotency_key_def row sql_select_def sql_first_def entity_or_none_def)
  have act: "list_active_executions_for_workspace (\<lambda>_. []) ''w'' sample_db = Inr [sample_execution_read]"
    by (simp add: list_active_executions_for_workspace_def row sql_select_def)
  have new: "new_execution ((blank_execution x w u Mode_SCRIPT ''print(1)'')\<lparr>ex_idempotency_key := k, ex_origin := org\<rparr>)
      = Inr ((blank_execution x w u Mode_SCRIPT ''print(1)'')\<lparr>ex_idempotency_key := k, ex_origin := org\<rparr>)" for x w u k org
    by (rule new_execution_source [OF _ sample_source [of x w u]]) simp
  have fields: "sv_float (xs_service sample_execution_env) = (\<lambda>_. [])" "xs_max_active_executions sample_execution_env = 5"
    "st_db sample_service_state = sample_db"
    by (simp_all add: sample_execution_env_def sample_service_def sample_service_state_def)
  have sub: "submit sample_execution_env ''w'' 1 Mode_SCRIPT ''print(1)'' 60 (Some ''k'') Origin_WEB sample_service_state
      = create_and_publish sample_execution_env sample_workspace_read ''w'' 1 Mode_SCRIPT ''print(1)'' (Some ''k'') Origin_WEB
          sample_service_state"
    unfolding submit_def sbind_def [of "submit_checks _ _ _ _ _ _"] ck key
    by (simp add: Let_def step fields fnd act)
  show ?thesis
    using that unfolding sub
    by (simp add: step sample_execution_env_def
        sample_service_def sample_service_state_def create_and_publish_def new [unfolded blank_execution_def execution.update_convs] blank_execution_def Let_def
        sbind_def [of "exec_db _"] exec_db_def create_execution_def insert_execution_def row workspace_exists_def
        sample_tables str_nat.simps digit_chars sbind_def [of "touch_workspace _ _"] touch_workspace_eq
        sbind_def [of "try_op _ _"] try_op_def publish_execution_def publish_work_def sbind_def [of "redis_op _ _"]
        redis_op_def redis_call_def xadd_def sreturn_def)
qed

theorem submit_idempotent_witness:
  "\<exists>s1 e e' s2. submit sample_execution_env ''w'' 1 Mode_SCRIPT ''print(1)'' 60 (Some ''k'') Origin_WEB sample_service_state = (Inr e, s1)
     \<and> submit sample_execution_env ''w'' 1 Mode_SCRIPT ''print(1)'' 60 (Some ''k'') Origin_WEB s1 = (Inr e', s2)
     \<and> ex_execution_id e' = ex_execution_id e \<and> db_executions (st_db s2) = db_executions (st_db s1)"
proof -
  obtain e s1 where s: "submit sample_execution_env ''w'' 1 Mode_SCRIPT ''print(1)'' 60 (Some ''k'') Origin_WEB sample_service_state
     = (Inr e, s1)" by (rule sample_submit)
  have key: "normal_key (Some ''k'') = Some ''k''" by (simp add: normal_key_def py_strip_def is_space_def)
  have "\<And>db. db_workspaces (xs_rival sample_execution_env db) = db_workspaces db"
    by (simp add: sample_execution_env_def)
  from submit_idempotent [OF s key this] s show ?thesis by (auto simp: sample_execution_env_def)
qed

theorem cancelled_never_claimed_witness:
  "\<exists>e s'. cancel sample_execution_env ''e'' 1 sample_service_state = (Inr e, s') \<and> ex_status e = Exec_CANCELLED
     \<and> \<not> fst (claim_execution 9 ''e'' ''r'' (st_db s'))"
proof -
  obtain row where row: "db_executions sample_db = [row]" "execution_to_entity (\<lambda>_. []) row = Inr sample_execution_read"
    "er_execution_id row = ''e''" "er_user_id row = 1" using sample_execution_row by blast
  have "user_execution ''e'' 1 (st_db sample_service_state) = Some row"
    by (simp add: user_execution_def sample_service_state_def row sql_select_def sql_first_def)
  moreover have "execution_to_entity (sv_float (xs_service sample_execution_env)) row = Inr sample_execution_read"
    by (simp add: sample_execution_env_def sample_service_def row)
  ultimately obtain e s' where c: "cancel sample_execution_env ''e'' 1 sample_service_state = (Inr e, s')" "ex_status e = Exec_CANCELLED"
    by (simp add: cancel_eq Let_def execution_cancel_def sample_execution_read_def sample_execution_def blank_execution_def
        status_defs execution_transition_def execution_finish_def)
  have "unique_key er_execution_id (db_executions (st_db sample_service_state))"
    by (simp add: sample_service_state_def row)
  from cancelled_never_claimed [OF c(1) this] c show ?thesis by blast
qed

end
