(* ===== verification/Workspace_Worker.thy ===== *)
theory Workspace_Worker
  imports Execution_Service "HOL-Library.Sublist"
begin

text \<open>
  The workspace worker: \<open>workers/workspace_worker/processor.py\<close> (one execution, one snapshot),
  \<open>consumer.py\<close> (the consumer of the work stream) and \<open>worker.py\<close> (one pass of the loop). The
  handlers run over the state of the service. What other sessions commit while the worker is busy is
  three arguments, functions on the tables that are applied where the worker waits: before the claim,
  while the program runs, and while the artifacts are copied. The object storage answers as the
  provider does, as a function of the calls so far.
\<close>

subsection \<open>Context\<close>

record workspace_worker_env =
  wk_service :: service_env
  wk_execution_timeout_seconds :: int
  wk_max_output_bytes :: int
  wk_has_storage :: bool
  wk_upload :: "provider_call list \<Rightarrow> unit result"
  wk_base_target_key :: string
  wk_max_artifacts :: int
  wk_max_artifact_bytes :: int
  wk_artifact_directory :: string
  wk_before_claim :: "workspace_db \<Rightarrow> workspace_db"
  wk_during_execute :: "workspace_db \<Rightarrow> workspace_db"
  wk_during_collect :: "workspace_db \<Rightarrow> workspace_db"

definition describe :: "exn \<Rightarrow> string" where
  "describe e = take 900 (if exn_message e \<noteq> [] then exn_class_name e @ '': '' @ exn_message e else exn_class_name e)"

text \<open>\<open>try: ... except Exception\<close> where the handler goes on with the outcome as a value.\<close>

definition capture :: "'a op \<Rightarrow> 'a result op" where
  "capture m = try_op (sbind m (\<lambda>a. sreturn (Inr (Inr a)))) (\<lambda>e. sreturn (Inr (Inl e)))"

definition store_execution :: "execution \<Rightarrow> unit op" where
  "store_execution e = write_db (\<lambda>db. snd (update_execution e db))"

text \<open>A terminal method of the entity at the current time, and the write of the row.\<close>

definition close_execution :: "workspace_worker_env \<Rightarrow> (int \<Rightarrow> execution \<Rightarrow> execution result) \<Rightarrow> execution \<Rightarrow> unit op" where
  "close_execution wk f e = sbind (now_op (wk_service wk)) (\<lambda>t. sbind (sreturn (f t e)) store_execution)"

subsection \<open>Artifacts\<close>

definition plain_artifact :: "provider_file_entry \<Rightarrow> execution_artifact" where
  "plain_artifact f = \<lparr>ar_path = fe_path f, ar_size_bytes = fe_size_bytes f, ar_object_key = None,
     ar_content_type = DEFAULT_CONTENT_TYPE\<rparr>"

definition artifact_key :: "workspace_worker_env \<Rightarrow> string \<Rightarrow> string \<Rightarrow> string \<Rightarrow> string" where
  "artifact_key wk workspace_id execution_id path = rstrip_slash (wk_base_target_key wk) @ ''/workspace/''
     @ workspace_id @ ''/execution/'' @ execution_id @ ''/'' @ last_segment path"

definition collect_artifact :: "workspace_worker_env \<Rightarrow> string \<Rightarrow> string \<Rightarrow> string \<Rightarrow> provider_file_entry \<Rightarrow>
    execution_artifact op" where
  "collect_artifact wk ref workspace_id execution_id f =
     (if \<not> wk_has_storage wk \<or> wk_max_artifact_bytes wk < fe_size_bytes f then sreturn (Inr (plain_artifact f))
      else sbind (capture (call_provider (pv_read_file (sv_provider (wk_service wk))) (P_read_file ref (fe_path f)))) (\<lambda>payload.
        case payload of
          Inl _ \<Rightarrow> sreturn (Inr (plain_artifact f))
        | Inr bytes \<Rightarrow>
          let key = artifact_key wk workspace_id execution_id (fe_path f) in
          sbind (capture (call_provider (wk_upload wk) (S_upload key bytes))) (\<lambda>stored.
          case stored of
            Inl _ \<Rightarrow> sreturn (Inr (plain_artifact f))
          | Inr _ \<Rightarrow> sreturn (Inr ((plain_artifact f)\<lparr>ar_size_bytes := int (length bytes), ar_object_key := Some key\<rparr>)))))"

fun collect_loop :: "workspace_worker_env \<Rightarrow> string \<Rightarrow> string \<Rightarrow> string \<Rightarrow> provider_file_entry list \<Rightarrow>
    execution_artifact list op" where
  "collect_loop wk ref workspace_id execution_id [] = sreturn (Inr [])"
| "collect_loop wk ref workspace_id execution_id (f # fs) =
     sbind (collect_artifact wk ref workspace_id execution_id f) (\<lambda>a.
     sbind (collect_loop wk ref workspace_id execution_id fs) (\<lambda>as. sreturn (Inr (a # as))))"

definition collect_artifacts :: "workspace_worker_env \<Rightarrow> string \<Rightarrow> string \<Rightarrow> string \<Rightarrow> execution_artifact list op" where
  "collect_artifacts wk ref workspace_id execution_id =
     sbind (capture (call_provider (pv_list_files (sv_provider (wk_service wk)))
         (P_list_files ref (wk_artifact_directory wk)))) (\<lambda>entries.
     case entries of
       Inl _ \<Rightarrow> sreturn (Inr [])
     | Inr es \<Rightarrow>
       let files = filter (\<lambda>f. \<not> fe_is_dir f) es;
           kept = (if wk_max_artifacts wk < int (length files) then slice_to files (wk_max_artifacts wk) else files) in
       collect_loop wk ref workspace_id execution_id kept)"

subsection \<open>One execution\<close>

definition persist_outcome :: "workspace_worker_env \<Rightarrow> string \<Rightarrow> int option \<Rightarrow> execution \<Rightarrow> unit op" where
  "persist_outcome wk error exit_code = close_execution wk (execution_fail error exit_code [] [] 0 None None)"

definition settle_success :: "workspace_worker_env \<Rightarrow> string \<Rightarrow> execution_outcome \<Rightarrow> execution \<Rightarrow> unit op" where
  "settle_success wk ref oc e =
     sbind (collect_artifacts wk ref (ex_workspace_id e) (ex_execution_id e)) (\<lambda>artifacts.
     sbind (write_db (wk_during_collect wk)) (\<lambda>_.
     close_execution wk (execution_succeed (case oc_exit_code oc of None \<Rightarrow> -1 | Some c \<Rightarrow> c) (oc_stdout oc) (oc_stderr oc)
       (oc_duration_ms oc) (oc_memory_peak_bytes oc) artifacts None None) e))"

definition settle_outcome :: "workspace_worker_env \<Rightarrow> string \<Rightarrow> execution_outcome \<Rightarrow> execution \<Rightarrow> unit op" where
  "settle_outcome wk ref oc e =
     (if oc_timed_out oc
      then close_execution wk (execution_time_out (oc_stdout oc) (oc_stderr oc) (oc_duration_ms oc) None None) e
      else if truthy (oc_error oc)
      then close_execution wk (execution_fail (the (oc_error oc)) None (oc_stdout oc) (oc_stderr oc) (oc_duration_ms oc)
             None None) e
      else settle_success wk ref oc e)"

text \<open>What is done once the provider has answered: an error of the provider is recorded as it is, an outcome
  only after the row was read again.\<close>

definition after_execute :: "workspace_worker_env \<Rightarrow> string \<Rightarrow> execution_outcome result \<Rightarrow> execution \<Rightarrow> unit op" where
  "after_execute wk ref outcome e =
     sbind (write_db (wk_during_execute wk)) (\<lambda>_.
     case outcome of
       Inl exc \<Rightarrow> if is_provider_error exc then persist_outcome wk (describe exc) None e else raise_op exc
     | Inr oc \<Rightarrow>
       sbind (read_db (get_execution (sv_float (wk_service wk)) (ex_execution_id e))) (\<lambda>latest.
       case latest of
         Some l \<Rightarrow> if execution_is_terminal l then sreturn (Inr ()) else settle_outcome wk ref oc e
       | None \<Rightarrow> settle_outcome wk ref oc e))"

definition run_claimed :: "workspace_worker_env \<Rightarrow> string \<Rightarrow> workspace_runtime \<Rightarrow> execution \<Rightarrow> unit op" where
  "run_claimed wk ref r e =
     sbind (now_op (wk_service wk)) (\<lambda>t.
     sbind (sreturn (execution_start (rt_runtime_id r) t e)) (\<lambda>e.
     sbind (capture (call_provider (pv_execute (sv_provider (wk_service wk))) (P_execute ref
         \<lparr>rq_mode = ex_mode e, rq_source = ex_source e, rq_timeout_seconds = wk_execution_timeout_seconds wk,
          rq_max_output_bytes = wk_max_output_bytes wk\<rparr>))) (\<lambda>outcome.
     after_execute wk ref outcome e)))"

definition claim_op :: "workspace_worker_env \<Rightarrow> string \<Rightarrow> string \<Rightarrow> bool op" where
  "claim_op wk execution_id runtime_id =
     sbind (now_op (wk_service wk)) (\<lambda>now.
     exec_db (\<lambda>db. let (won, db') = claim_execution now execution_id runtime_id db in (Inr won, db')))"

definition run_on_runtime :: "workspace_worker_env \<Rightarrow> execution \<Rightarrow> workspace_runtime \<Rightarrow> unit op" where
  "run_on_runtime wk e r =
     (if \<not> is_serving r \<or> \<not> truthy (rt_provider_ref r)
      then close_execution wk (execution_fail (''The runtime is '' @ runtime_state_value (rt_state r)
             @ ''; nothing was run.'') None [] [] 0 None None) e
      else sbind (write_db (wk_before_claim wk)) (\<lambda>_.
        sbind (claim_op wk (ex_execution_id e) (rt_runtime_id r)) (\<lambda>claimed.
        if \<not> claimed then sreturn (Inr ())
        else run_claimed wk (the (rt_provider_ref r)) r e)))"

definition handle_execution :: "workspace_worker_env \<Rightarrow> work_message \<Rightarrow> unit op" where
  "handle_execution wk m =
     (if \<not> truthy (wm_execution_id m)
      then raise_op (ValueError ''An execution message carried no execution_id.'')
      else let sv = wk_service wk in
        sbind (read_db (get_execution (sv_float sv) (the (wm_execution_id m)))) (\<lambda>found.
        case found of
          None \<Rightarrow> sreturn (Inr ())
        | Some e \<Rightarrow>
          if execution_is_terminal e then sreturn (Inr ())
          else sbind (read_db (get_workspace (sv_float sv) (ex_workspace_id e) (ex_user_id e))) (\<lambda>w.
            case w of
              None \<Rightarrow> close_execution wk (execution_fail ''The workspace no longer exists.'' None [] [] 0 None None) e
            | Some _ \<Rightarrow>
              sbind (start_runtime sv (ex_workspace_id e) (ex_user_id e)) (\<lambda>started.
              run_on_runtime wk e (sd_runtime started)))))"

subsection \<open>One snapshot\<close>

definition store_revision :: "runtime_image_revision \<Rightarrow> unit op" where
  "store_revision v = write_db (\<lambda>db. snd (update_revision v db))"

fun prune_loop :: "string \<Rightarrow> runtime_image_revision list \<Rightarrow> unit op" where
  "prune_loop workspace_id [] = sreturn (Inr ())"
| "prune_loop workspace_id (v # vs) =
     sbind (write_db (\<lambda>db. snd (delete_revision (rv_revision_id v) workspace_id db))) (\<lambda>_.
     prune_loop workspace_id vs)"

text \<open>\<open>ready[retention:]\<close>; the settings are only accepted with a positive retention.\<close>

definition prune_revisions :: "workspace_worker_env \<Rightarrow> string \<Rightarrow> unit op" where
  "prune_revisions wk workspace_id =
     (let keep = sv_snapshot_retention (wk_service wk) in
      sbind (capture (read_db (list_revisions workspace_id (keep + 20)))) (\<lambda>existing.
      case existing of
        Inl _ \<Rightarrow> sreturn (Inr ())
      | Inr vs \<Rightarrow> prune_loop workspace_id (drop (nat keep) (filter (\<lambda>v. rv_status v = Rev_READY) vs))))"

definition build_snapshot :: "workspace_worker_env \<Rightarrow> string \<Rightarrow> string \<Rightarrow> runtime_image_revision \<Rightarrow> unit op" where
  "build_snapshot wk workspace_id ref v =
     sbind (sreturn (revision_mark_building v)) (\<lambda>v.
     sbind (store_revision v) (\<lambda>_.
     sbind (capture (call_provider (pv_create_snapshot (sv_provider (wk_service wk)))
         (P_create_snapshot ref workspace_id (rv_revision_id v)))) (\<lambda>reply.
     case reply of
       Inl exc \<Rightarrow> if is_provider_error exc
         then sbind (sreturn (revision_mark_failed (describe exc) v)) store_revision
         else raise_op exc
     | Inr snapshot_ref \<Rightarrow>
       sbind (now_op (wk_service wk)) (\<lambda>t.
       sbind (sreturn (revision_mark_ready snapshot_ref [(''provider'', J_str (pv_name (sv_provider (wk_service wk))))] t v)) (\<lambda>v.
       sbind (store_revision v) (\<lambda>_. prune_revisions wk workspace_id))))))"

definition handle_snapshot :: "workspace_worker_env \<Rightarrow> work_message \<Rightarrow> unit op" where
  "handle_snapshot wk m =
     (if \<not> truthy (wm_revision_id m) \<or> wm_workspace_id m = []
      then raise_op (ValueError ''A snapshot message carried no revision_id or workspace_id.'')
      else sbind (read_db (get_revision (the (wm_revision_id m)) (wm_workspace_id m))) (\<lambda>found.
        case found of
          None \<Rightarrow> sreturn (Inr ())
        | Some v \<Rightarrow>
          if rv_status v \<in> {Rev_READY, Rev_FAILED} then sreturn (Inr ())
          else sbind (read_db (get_runtime_for_workspace (wm_workspace_id m))) (\<lambda>runtime.
            case runtime of
              Some r \<Rightarrow> if is_serving r \<and> truthy (rt_provider_ref r)
                then build_snapshot wk (wm_workspace_id m) (the (rt_provider_ref r)) v
                else sbind (sreturn (revision_mark_failed ''The runtime is not running, so there is nothing to snapshot.'' v))
                  store_revision
            | None \<Rightarrow> sbind (sreturn (revision_mark_failed ''The runtime is not running, so there is nothing to snapshot.'' v))
                store_revision)))"

definition process_work :: "workspace_worker_env \<Rightarrow> work_message \<Rightarrow> unit op" where
  "process_work wk m =
     (if wm_kind m = ''execution'' then handle_execution wk m
      else if wm_kind m = ''snapshot'' then handle_snapshot wk m
      else raise_op (ValueError (''Unknown workspace work kind '' @ py_repr (wm_kind m) @ ''.'')))"

subsection \<open>The consumer\<close>

text \<open>The client of the stream: the name of the consumer, and whether the client library returns the
  reply of \<open>XAUTOCLAIM\<close> as a tuple, which is what \<open>reclaim_stale\<close> asks with \<open>isinstance\<close>.\<close>

record work_consumer =
  wc_name :: string
  wc_reply_is_tuple :: bool

definition work_stream :: "workspace_worker_env \<Rightarrow> string" where
  "work_stream wk = qualify (sv_prefix (wk_service wk)) WORKSPACE_WORK_STREAM"

definition fetch_work :: "workspace_worker_env \<Rightarrow> work_consumer \<Rightarrow> int \<Rightarrow> (string \<times> work_message) option op" where
  "fetch_work wk c now =
     sbind (redis_op (wk_service wk) (xreadgroup (wc_name c) now [work_stream wk])) (\<lambda>response.
     sreturn (Inr (case concat (map snd response) of
         [] \<Rightarrow> None | (i, f) # _ \<Rightarrow> Some (id_str i, work_from_dict f))))"

definition acknowledge_work :: "workspace_worker_env \<Rightarrow> string \<Rightarrow> unit op" where
  "acknowledge_work wk message_id =
     sbind (redis_op (wk_service wk) (xack (work_stream wk) message_id)) (\<lambda>_. sreturn (Inr ()))"

definition safe_ack :: "workspace_worker_env \<Rightarrow> string \<Rightarrow> unit op" where
  "safe_ack wk message_id = try_op (acknowledge_work wk message_id) (\<lambda>_. sreturn (Inr ()))"

definition fail_work :: "workspace_worker_env \<Rightarrow> string \<Rightarrow> string \<Rightarrow> unit op" where
  "fail_work wk message_id error =
     sbind (try_op (dead_letter_work (wk_service wk) message_id error) (\<lambda>_. sreturn (Inr ()))) (\<lambda>_.
     try_op (acknowledge_work wk message_id) (\<lambda>_. sreturn (Inr ())))"

definition work_min_idle_ms :: "workspace_worker_env \<Rightarrow> int" where
  "work_min_idle_ms wk = wk_execution_timeout_seconds wk * 1000 + 60000"

fun reclaim_loop :: "workspace_worker_env \<Rightarrow> (nat \<times> fields) list \<Rightarrow> nat op" where
  "reclaim_loop wk [] = sreturn (Inr 0)"
| "reclaim_loop wk ((i, f) # es) =
     (if f = [] then sbind (safe_ack wk (id_str i)) (\<lambda>_. reclaim_loop wk es)
      else sbind (try_op (sbind (publish_work (wk_service wk) (work_from_dict f)) (\<lambda>_.
               sbind (safe_ack wk (id_str i)) (\<lambda>_. sreturn (Inr 1)))) (\<lambda>_. sreturn (Inr 0))) (\<lambda>n.
             sbind (reclaim_loop wk es) (\<lambda>m. sreturn (Inr (n + m)))))"

definition reclaim_stale :: "workspace_worker_env \<Rightarrow> work_consumer \<Rightarrow> int \<Rightarrow> nat \<Rightarrow> nat op" where
  "reclaim_stale wk c now limit =
     sbind (try_op (redis_op (wk_service wk)
         (xautoclaim (work_stream wk) (wc_name c) (work_min_idle_ms wk) now limit)) (\<lambda>_. sreturn (Inr []))) (\<lambda>response.
     reclaim_loop wk (if wc_reply_is_tuple c then response else []))"

text \<open>\<open>create\<close>: the group is created with retries, and a group that exists is not an error. The result,
  and the delays slept between the attempts.\<close>

definition ensure_group :: "unit result \<Rightarrow> unit result" where
  "ensure_group reply = (case reply of
       Inr _ \<Rightarrow> Inr ()
     | Inl e \<Rightarrow> if sublist ''BUSYGROUP'' (exn_message e) then Inr () else Inl e)"

fun create_loop :: "(nat \<Rightarrow> unit result) \<Rightarrow> nat \<Rightarrow> rat \<Rightarrow> nat \<Rightarrow> unit result \<times> rat list" where
  "create_loop replies max_retries delay 0 = (Inl (RuntimeError ''unreachable: consumer creation loop exhausted''), [])"
| "create_loop replies max_retries delay (Suc left) =
     (let attempt = max_retries - Suc left in
      case ensure_group (replies attempt) of
        Inr _ \<Rightarrow> (Inr (), [])
      | Inl e \<Rightarrow>
        if attempt = max_retries - 1 then (Inl e, [])
        else (let (r, ds) = create_loop replies max_retries (min (delay * 2) 60) left in (r, delay # ds)))"

definition create_consumer :: "(nat \<Rightarrow> unit result) \<Rightarrow> unit result \<times> rat list" where
  "create_consumer replies = create_loop replies 12 5 12"

subsection \<open>The loop\<close>

definition handle_work :: "workspace_worker_env \<Rightarrow> string \<Rightarrow> work_message \<Rightarrow> unit op" where
  "handle_work wk message_id m =
     sbind (capture (process_work wk m)) (\<lambda>r.
     case r of
       Inl e \<Rightarrow> fail_work wk message_id (exn_class_name e @ '': '' @ exn_message e)
     | Inr _ \<Rightarrow> acknowledge_work wk message_id)"

definition SWEEP_PASSES :: nat where "SWEEP_PASSES = max 1 (300 div 10)"

definition maybe_sweep_stale :: "workspace_worker_env \<Rightarrow> work_consumer \<Rightarrow> int \<Rightarrow> nat \<Rightarrow> nat op" where
  "maybe_sweep_stale wk c now idle_sweeps =
     (if Suc idle_sweeps mod SWEEP_PASSES \<noteq> 0 then sreturn (Inr (Suc idle_sweeps))
      else sbind (capture (reclaim_stale wk c now 20)) (\<lambda>_. sreturn (Inr (Suc idle_sweeps))))"

text \<open>One turn of \<open>run\<close>, from and to the count of idle passes.\<close>

definition work_pass :: "workspace_worker_env \<Rightarrow> work_consumer \<Rightarrow> int \<Rightarrow> nat \<Rightarrow> nat op" where
  "work_pass wk c now idle_sweeps =
     sbind (capture (fetch_work wk c now)) (\<lambda>fetched.
     case fetched of
       Inl _ \<Rightarrow> sreturn (Inr idle_sweeps)
     | Inr None \<Rightarrow> maybe_sweep_stale wk c now idle_sweeps
     | Inr (Some (message_id, m)) \<Rightarrow> sbind (handle_work wk message_id m) (\<lambda>_. sreturn (Inr idle_sweeps)))"

end
