(* ===== verification/Work_Safety.thy ===== *)
theory Work_Safety
  imports Workspace_Worker
begin

section \<open>What the workspace worker does\<close>

text \<open>
  Properties of the workspace worker: a submitted program runs at most once whatever is delivered again and
  whatever other sessions do, a cancellation is kept or lost depending on how the run ends, a settled
  snapshot is settled for good, no work is lost by the stream.
\<close>

subsection \<open>Frames\<close>

text \<open>An execution that is not queued stays so.\<close>

definition unqueued :: "string \<Rightarrow> service_state \<Rightarrow> service_state \<Rightarrow> bool" where
  "unqueued x s t = (queued x (st_db t) \<longrightarrow> queued x (st_db s))"

definition never_queues :: "string \<Rightarrow> (workspace_db \<Rightarrow> workspace_db) \<Rightarrow> bool" where
  "never_queues x f = (\<forall>db. queued x (f db) \<longrightarrow> queued x db)"

lemma never_queuesD: "never_queues x f \<Longrightarrow> queued x (f db) \<Longrightarrow> queued x db"
  unfolding never_queues_def by (elim allE impE)

interpretation uq: state_frame "unqueued x" for x
  by unfold_locales (auto simp: unqueued_def)

lemma queued_cong: "db_executions db' = db_executions db \<Longrightarrow> queued x db' = queued x db"
  by (simp add: queued_def)

lemma unqueued_prims:
  "unqueued x s (snd (read_db f s))" "unqueued x s (snd (call_provider p c s))" "unqueued x s (snd (now_op env s))"
  "unqueued x s (snd (uuid_op env s))" "unqueued x s (snd (redis_op env g s))"
  "unqueued x s (snd (require_usable env i u s))" "unqueued x s (snd (write_workspace_op env w s))"
  "unqueued x s (snd (save_runtime_op r s))" "unqueued x s (snd (touch_workspace env w s))"
  by (simp_all add: unqueued_def read_db_def call_provider_def now_op_def uuid_op_def redis_op_def Let_def
      require_usable_eq write_workspace_op_def step write_db_def save_runtime_op_def touch_workspace_eq
      queued_def case_prod_beta split: sum.splits option.splits)

lemma unqueued_write: "never_queues x f \<Longrightarrow> unqueued x s (snd (write_db f s))"
  by (simp add: unqueued_def never_queues_def write_db_def)

lemmas uq_intros = uq.sbind_frame uq.sreturn_frame uq.raise_frame uq.try_frame uq.if_frame uq.option_frame
  unqueued_prims unqueued_write

lemma capture_eq: "capture m s = (Inr (fst (m s)), snd (m s))"
  by (cases "m s"; cases "fst (m s)") (auto simp: capture_def try_op_def sbind_def sreturn_def)

lemma sbind_capture: "sbind (capture m) g s = g (fst (m s)) (snd (m s))"
  by (simp add: sbind_def capture_eq)

lemma capture_unqueued: "(\<And>s. unqueued x s (snd (m s))) \<Longrightarrow> unqueued x s (snd (capture m s))"
  by (simp add: capture_eq)

lemma capture_calls: "(\<And>s. calls_frame ok s (snd (m s))) \<Longrightarrow> calls_frame ok s (snd (capture m s))"
  by (simp add: capture_eq)

lemma insert_runtime_executions: "db_executions (snd (insert_runtime now r db)) = db_executions db"
  by (simp add: insert_runtime_def)

lemma get_or_create_executions:
  "db_executions (snd (get_or_create_runtime rival uuid now i p prof db)) \<in> {db_executions db, db_executions (rival db)}"
proof -
  obtain x db' where ins: "insert_runtime now (new_runtime uuid i p prof) (rival db) = (x, db')"
    by (cases "insert_runtime now (new_runtime uuid i p prof) (rival db)")
  then have "db_executions db' = db_executions (rival db)"
    using insert_runtime_executions [of now "new_runtime uuid i p prof" "rival db"] by simp
  with ins show ?thesis
    by (simp add: get_or_create_runtime_def Let_def split: sum.split option.split)
qed

lemma get_or_create_unqueued:
  assumes "never_queues x rival"
  shows "unqueued x s (snd (exec_db (get_or_create_runtime rival uuid now i p prof) s))"
  using get_or_create_executions [of rival uuid now i p prof "st_db s"] assms
  by (auto simp: unqueued_def exec_db_def case_prod_beta never_queues_def dest: queued_cong)

lemma start_unqueued:
  assumes "never_queues x (sv_rival env)"
  shows "unqueued x s (snd (start_runtime env i u s))"
  unfolding start_runtime_def start_fresh_def provider_start_def resume_container_def create_container_def
    fail_runtime_def Let_def case_prod_beta
  by (intro uq_intros get_or_create_unqueued [OF assms])

subsection \<open>Terminal writes\<close>

text \<open>The terminal methods of the entity, as the worker calls them.\<close>

definition terminal_method :: "(int \<Rightarrow> execution \<Rightarrow> execution result) \<Rightarrow> bool" where
  "terminal_method f = (\<forall>t e e'. f t e = Inr e' \<longrightarrow> execution_is_terminal e' \<and> ex_execution_id e' = ex_execution_id e)"

lemma terminal_methods [simp]:
  "terminal_method (execution_fail err c out eout ms r1 r2)"
  "terminal_method (execution_time_out out eout ms r1 r2)"
  "terminal_method (execution_succeed code out eout ms mem arts r1 r2)"
  by (auto simp: terminal_method_def execution_fail_def execution_time_out_def execution_succeed_def
      execution_transition_def record_output_def execution_finish_def execution_is_terminal_def status_defs rbind_def
      split: sum.splits if_splits prod.splits)

lemma store_terminal:
  assumes "execution_is_terminal e"
  shows "unqueued x s (snd (store_execution e s))"
proof -
  have "no_requeue (Ev_update e)" using assms by (auto simp: execution_is_terminal_def status_defs)
  then show ?thesis
    using run_event_not_queued [of x "st_db s" "Ev_update e"]
    by (auto simp: unqueued_def store_execution_def write_db_def)
qed

lemma close_unqueued:
  assumes "terminal_method f"
  shows "unqueued x s (snd (close_execution wk f e s))"
  unfolding close_execution_def
proof (rule uq.sbind_frame_dep)
  show "unqueued x s (snd (now_op (wk_service wk) s))" by (rule unqueued_prims)
  show "unqueued x u (snd (sbind (sreturn (f t e)) store_execution u))" for t u
  proof (cases "f t e")
    case (Inl err)
    then show ?thesis by (simp add: uq.raise_frame)
  next
    case (Inr e')
    with assms have "execution_is_terminal e'" by (auto simp: terminal_method_def)
    with Inr store_terminal show ?thesis by simp
  qed
qed

subsection \<open>How often a program runs\<close>

fun is_execute :: "provider_call \<Rightarrow> bool" where
  "is_execute (P_execute _ _) = True"
| "is_execute _ = False"

abbreviation no_execute :: "provider_call \<Rightarrow> bool" where
  "no_execute c \<equiv> \<not> is_execute c"

definition executes :: "service_state \<Rightarrow> service_state \<Rightarrow> nat" where
  "executes s t = length (filter is_execute (drop (length (st_calls s)) (st_calls t)))"

lemma executes_none: "calls_frame no_execute s t \<Longrightarrow> executes s t = 0"
  by (auto simp: calls_frame_def executes_def list_all_iff filter_empty_conv)

lemma start_call_no_execute: "start_call c \<Longrightarrow> no_execute c"
  by (cases c) simp_all

lemma start_no_execute: "calls_frame no_execute s (snd (start_runtime env i u s))"
  by (rule calls_frame_mono [OF start_frame start_call_no_execute])

lemma close_no_execute: "calls_frame ok s (snd (close_execution wk f e s))"
  unfolding close_execution_def store_execution_def by (intro cf_intros)

lemma collect_no_execute: "calls_frame no_execute s (snd (collect_artifacts wk ref i x s))"
proof -
  have one: "calls_frame no_execute s (snd (collect_artifact wk ref i x f s))" for f s
    unfolding collect_artifact_def
    by (auto simp: sbind_capture call_provider_def Let_def sreturn_def calls_frame_def split: sum.splits)
  have loop: "calls_frame no_execute s (snd (collect_loop wk ref i x fs s))" for fs s
    by (induction fs arbitrary: s) (auto intro!: cf_intros one)
  show ?thesis
    unfolding collect_artifacts_def Let_def
    by (rule cf.sbind_frame) (auto intro!: capture_calls cf_intros loop split: sum.splits)
qed

lemma settle_no_execute: "calls_frame no_execute s (snd (settle_outcome wk ref oc e s))"
  unfolding settle_outcome_def settle_success_def
  by (intro cf_intros close_no_execute collect_no_execute)

lemma collect_unqueued: "unqueued x s (snd (collect_artifacts wk ref i y s))"
proof -
  have one: "unqueued x s (snd (collect_artifact wk ref i y f s))" for f s
    unfolding collect_artifact_def
    by (auto simp: sbind_capture call_provider_def Let_def sreturn_def unqueued_def split: sum.splits)
  have loop: "unqueued x s (snd (collect_loop wk ref i y fs s))" for fs s
    by (induction fs arbitrary: s) (auto intro!: uq_intros one)
  show ?thesis
    unfolding collect_artifacts_def Let_def
    by (rule uq.sbind_frame) (auto intro!: capture_unqueued uq_intros loop split: sum.splits)
qed

text \<open>The interference a delivery meets never queues the execution again.\<close>

definition calm_for :: "string \<Rightarrow> workspace_worker_env \<Rightarrow> bool" where
  "calm_for x wk = (never_queues x (wk_before_claim wk) \<and> never_queues x (wk_during_execute wk)
     \<and> never_queues x (wk_during_collect wk) \<and> never_queues x (sv_rival (wk_service wk)))"

lemma settle_unqueued: "calm_for x wk \<Longrightarrow> unqueued x s (snd (settle_outcome wk ref oc e s))"
  unfolding settle_outcome_def settle_success_def calm_for_def
  by (intro uq_intros close_unqueued collect_unqueued terminal_methods; simp)

text \<open>A claimed execution: one call, and the writes are terminal.\<close>

lemma after_execute_frames:
  assumes "calm_for x wk"
  shows "unqueued x s (snd (after_execute wk ref outcome e s))"
    "calls_frame no_execute s (snd (after_execute wk ref outcome e s))"
proof -
  have w: "never_queues x (wk_during_execute wk)" using assms(1) by (simp add: calm_for_def)
  show "unqueued x s (snd (after_execute wk ref outcome e s))"
    unfolding after_execute_def persist_outcome_def
    by (cases outcome) (auto intro!: uq_intros close_unqueued settle_unqueued [OF assms(1)] w)
  show "calls_frame no_execute s (snd (after_execute wk ref outcome e s))"
    unfolding after_execute_def persist_outcome_def
    by (cases outcome) (auto intro!: cf_intros close_no_execute settle_no_execute)
qed

text \<open>A claimed execution: at most one call, and the writes are terminal.\<close>

definition execute_call :: "workspace_worker_env \<Rightarrow> string \<Rightarrow> execution \<Rightarrow> provider_call" where
  "execute_call wk ref e = P_execute ref \<lparr>rq_mode = ex_mode e, rq_source = ex_source e,
     rq_timeout_seconds = wk_execution_timeout_seconds wk, rq_max_output_bytes = wk_max_output_bytes wk\<rparr>"

lemma run_claimed_eq:
  "run_claimed wk ref r e s = (let t = sv_now (wk_service wk) (st_ticks s); s1 = s\<lparr>st_ticks := Suc (st_ticks s)\<rparr> in
     case execution_start (rt_runtime_id r) t e of
       Inl err \<Rightarrow> (Inl err, s1)
     | Inr e' \<Rightarrow>
       (let calls = st_calls s @ [execute_call wk ref e'] in
        after_execute wk ref (pv_execute (sv_provider (wk_service wk)) calls) e' (s1\<lparr>st_calls := calls\<rparr>)))"
  by (simp add: run_claimed_def sbind_now sbind_capture call_provider_def execute_call_def Let_def raise_op_def
      split: sum.split)

lemma run_claimed_once:
  assumes "calm_for x wk"
  shows "unqueued x s (snd (run_claimed wk ref r e s))"
    "\<exists>cs. st_calls (snd (run_claimed wk ref r e s)) = st_calls s @ cs \<and> length (filter is_execute cs) \<le> 1"
proof -
  let ?t = "sv_now (wk_service wk) (st_ticks s)"
  have "unqueued x s (snd (run_claimed wk ref r e s)) \<and> (\<exists>cs. st_calls (snd (run_claimed wk ref r e s)) = st_calls s @ cs
      \<and> length (filter is_execute cs) \<le> 1)"
  proof (cases "execution_start (rt_runtime_id r) ?t e")
    case (Inl err)
    then show ?thesis by (simp add: run_claimed_eq unqueued_def exI [of _ "[]"])
  next
    case (Inr e')
    let ?c = "execute_call wk ref e'"
    let ?u = "s\<lparr>st_ticks := Suc (st_ticks s), st_calls := st_calls s @ [?c]\<rparr>"
    let ?v = "snd (after_execute wk ref (pv_execute (sv_provider (wk_service wk)) (st_calls s @ [?c])) e' ?u)"
    note k = after_execute_frames [OF assms, of ?u ref _ e']
    have v: "snd (run_claimed wk ref r e s) = ?v" using Inr by (simp add: run_claimed_eq Let_def)
    from k(2) obtain cs where "st_calls ?v = st_calls s @ ?c # cs" "filter is_execute cs = []"
      by (auto simp: calls_frame_def list_all_iff filter_empty_conv)
    moreover have "unqueued x s ?v" using k(1) by (simp add: unqueued_def)
    ultimately show ?thesis unfolding v
      by (intro conjI exI [of _ "?c # cs"]) (simp_all add: execute_call_def)
  qed
  then show "unqueued x s (snd (run_claimed wk ref r e s))"
    "\<exists>cs. st_calls (snd (run_claimed wk ref r e s)) = st_calls s @ cs \<and> length (filter is_execute cs) \<le> 1"
    by auto
qed

subsection \<open>A delivery of an execution\<close>

lemma get_execution_id: "get_execution fl x db = Inr (Some e) \<Longrightarrow> ex_execution_id e = x"
  by (auto simp: get_execution_def entity_or_none_def sql_first_def sql_select_def filter_eq_Cons_iff rbind_Inr_iff
      dest!: execution_entity_fields(1) split: option.splits list.splits)

lemma claim_op_eq:
  "claim_op wk x rid s = (Inr (queued x (st_db s)), s\<lparr>st_ticks := Suc (st_ticks s),
     st_db := snd (claim_execution (sv_now (wk_service wk) (st_ticks s)) x rid (st_db s))\<rparr>)"
  using claim_won [of "sv_now (wk_service wk) (st_ticks s)" x rid "st_db s"]
  by (simp add: claim_op_def sbind_now exec_db_def case_prod_beta)

lemma claim_unqueued: "unqueued x s (snd (claim_op wk y rid s))"
proof -
  have "queued x (snd (claim_execution now y rid (st_db s))) \<Longrightarrow> queued x (st_db s)" for now
    using run_event_not_queued [of x "st_db s" "Ev_claim now y rid"] by auto
  then show ?thesis by (simp add: claim_op_eq unqueued_def)
qed

lemma run_on_runtime_unqueued:
  assumes "calm_for x wk"
  shows "unqueued x s (snd (run_on_runtime wk e r s))"
proof -
  have w: "never_queues x (wk_before_claim wk)" using assms by (simp add: calm_for_def)
  show ?thesis
    unfolding run_on_runtime_def
    by (intro uq_intros close_unqueued claim_unqueued run_claimed_once(1) [OF assms] terminal_methods w)
qed

lemma run_on_runtime_executes:
  assumes "calm_for (ex_execution_id e) wk"
  shows "\<exists>cs. st_calls (snd (run_on_runtime wk e r s)) = st_calls s @ cs \<and> length (filter is_execute cs) \<le> 1
    \<and> (filter is_execute cs \<noteq> [] \<longrightarrow> queued (ex_execution_id e) (st_db s)
         \<and> \<not> queued (ex_execution_id e) (st_db (snd (run_on_runtime wk e r s))))"
proof (cases "is_serving r \<and> truthy (rt_provider_ref r)")
  case False
  then obtain f where f: "run_on_runtime wk e r = close_execution wk f e" by (auto simp: run_on_runtime_def)
  from close_no_execute [of no_execute s wk f e] show ?thesis
    by (auto simp: f calls_frame_def list_all_iff filter_empty_conv)
next
  case True
  let ?x = "ex_execution_id e"
  let ?s1 = "s\<lparr>st_db := wk_before_claim wk (st_db s)\<rparr>"
  let ?s2 = "snd (claim_op wk ?x (rt_runtime_id r) ?s1)"
  have eq: "run_on_runtime wk e r s = (if queued ?x (st_db ?s1) then run_claimed wk (the (rt_provider_ref r)) r e ?s2
      else (Inr (), ?s2))"
    using True by (simp add: run_on_runtime_def sbind_write sbind_def [of "claim_op _ _ _"] claim_op_eq sreturn_def)
  have c2: "st_calls ?s2 = st_calls s" "\<not> queued ?x (st_db ?s2)" by (simp_all add: claim_op_eq claim_leaves)
  have "queued ?x (st_db ?s1) \<Longrightarrow> queued ?x (st_db s)"
    using assms never_queuesD [of ?x "wk_before_claim wk" "st_db s"] by (simp add: calm_for_def)
  moreover obtain cs where
    "st_calls (snd (run_claimed wk (the (rt_provider_ref r)) r e ?s2)) = st_calls ?s2 @ cs" "length (filter is_execute cs) \<le> 1"
    using run_claimed_once(2) [OF assms] by blast
  moreover have "\<not> queued ?x (st_db (snd (run_claimed wk (the (rt_provider_ref r)) r e ?s2)))"
    using run_claimed_once(1) [OF assms, of ?s2] c2 by (simp add: unqueued_def)
  ultimately show ?thesis
    using c2 unfolding eq by (cases "queued ?x (st_db ?s1)") (auto intro: exI [of _ "[]"])
qed

lemma handle_execution_unqueued:
  assumes "calm_for x wk"
  shows "unqueued x s (snd (handle_execution wk m s))"
proof -
  have w: "never_queues x (sv_rival (wk_service wk))" using assms by (simp add: calm_for_def)
  show ?thesis
    unfolding handle_execution_def Let_def
    by (intro uq_intros close_unqueued start_unqueued run_on_runtime_unqueued [OF assms] terminal_methods w)
qed

lemma snapshot_unqueued: "unqueued x s (snd (handle_snapshot wk m s))"
proof -
  have st: "unqueued x s (snd (store_revision v s))" for s v
    by (simp add: unqueued_def store_revision_def write_db_def update_revision_def Let_def queued_def)
  have del: "unqueued x s (snd (write_db (\<lambda>db. snd (delete_revision a b db)) s))" for s a b
    by (simp add: unqueued_def write_db_def delete_revision_def Let_def queued_def)
  have prune: "unqueued x s (snd (prune_loop i vs s))" for s i vs
    by (induction vs arbitrary: s) (auto intro!: uq_intros del)
  show ?thesis
    unfolding handle_snapshot_def build_snapshot_def prune_revisions_def Let_def
    by (auto intro!: uq_intros st prune capture_unqueued split: sum.split)
qed

lemma process_work_unqueued: "calm_for x wk \<Longrightarrow> unqueued x s (snd (process_work wk m s))"
  unfolding process_work_def
  by (intro uq.if_frame handle_execution_unqueued snapshot_unqueued uq.raise_frame)

lemma snapshot_no_execute: "calls_frame no_execute s (snd (handle_snapshot wk m s))"
proof -
  have prune: "calls_frame no_execute s (snd (prune_loop i vs s))" for s i vs
    by (induction vs arbitrary: s) (auto intro!: cf_intros)
  show ?thesis
    unfolding handle_snapshot_def build_snapshot_def prune_revisions_def store_revision_def Let_def
    by (auto intro!: cf_intros prune capture_calls split: sum.split)
qed

text \<open>What one delivery of an execution asks of the provider.\<close>

definition ran_once :: "string \<Rightarrow> service_state \<Rightarrow> service_state \<Rightarrow> bool" where
  "ran_once x s t = (executes s t \<le> 1 \<and> (executes s t \<noteq> 0 \<longrightarrow> queued x (st_db s) \<and> \<not> queued x (st_db t)))"

lemma ran_none: "calls_frame no_execute s t \<Longrightarrow> ran_once x s t"
  by (simp add: ran_once_def executes_none)

text \<open>A quiet prefix that does not queue the execution, followed by something that runs it at most once.\<close>

lemma ran_after:
  assumes "calls_frame no_execute s t" "unqueued x s t"
    and "st_calls u = st_calls t @ cs" "length (filter is_execute cs) \<le> 1"
    and "filter is_execute cs \<noteq> [] \<Longrightarrow> queued x (st_db t) \<and> \<not> queued x (st_db u)"
  shows "ran_once x s u"
proof -
  from assms(1) obtain ds where "st_calls t = st_calls s @ ds" "filter is_execute ds = []"
    by (auto simp: calls_frame_def list_all_iff filter_empty_conv)
  with assms show ?thesis by (auto simp: ran_once_def executes_def unqueued_def)
qed

lemma handle_execution_ran:
  assumes "wm_execution_id m = Some x" "calm_for x wk"
  shows "ran_once x s (snd (handle_execution wk m s))"
proof -
  have w: "never_queues x (sv_rival (wk_service wk))" using assms(2) by (simp add: calm_for_def)
  let ?sv = "wk_service wk"
  show ?thesis
  proof (cases "get_execution (sv_float ?sv) x (st_db s)")
    case (Inl err)
    then show ?thesis
      using assms(1) by (intro ran_none) (simp add: handle_execution_def step same_calls raise_op_def truthy_def Let_def)
  next
    case (Inr found)
    show ?thesis
    proof (cases "\<exists>e ws. x \<noteq> [] \<and> found = Some e \<and> \<not> execution_is_terminal e
        \<and> get_workspace (sv_float ?sv) (ex_workspace_id e) (ex_user_id e) (st_db s) = Inr (Some ws)")
      case False
      with Inr assms(1) show ?thesis
        by (intro ran_none) (auto simp: handle_execution_def step same_calls raise_op_def sreturn_def truthy_def
            Let_def close_no_execute split: option.splits sum.splits)
    next
      case True
      then obtain e ws where e: "x \<noteq> []" "found = Some e" "\<not> execution_is_terminal e"
        "get_workspace (sv_float ?sv) (ex_workspace_id e) (ex_user_id e) (st_db s) = Inr (Some ws)" by blast
      obtain a t where st: "start_runtime ?sv (ex_workspace_id e) (ex_user_id e) s = (a, t)"
        by (cases "start_runtime ?sv (ex_workspace_id e) (ex_user_id e) s")
      have pre: "calls_frame no_execute s t" "unqueued x s t"
        using start_no_execute [of s ?sv] start_unqueued [OF w, of s] st by (metis snd_conv)+
      have id: "ex_execution_id e = x" using get_execution_id Inr e(2) by blast
      have eq: "handle_execution wk m s = (case a of Inl err \<Rightarrow> (Inl err, t) | Inr d \<Rightarrow> run_on_runtime wk e (sd_runtime d) t)"
        using assms(1) Inr e st by (simp add: handle_execution_def step truthy_def Let_def sbind_def [of "start_runtime _ _ _"]
            split: sum.splits)
      show ?thesis
      proof (cases a)
        case (Inl err)
        with pre show ?thesis by (simp add: eq ran_none)
      next
        case (Inr d)
        with run_on_runtime_executes [of e wk "sd_runtime d" t] assms(2) id ran_after [OF pre] show ?thesis
          by (auto simp: eq)
      qed
    qed
  qed
qed

lemma process_work_ran:
  assumes "wm_execution_id m = Some x" "calm_for x wk"
  shows "ran_once x s (snd (process_work wk m s))"
proof -
  have "ran_once x s s" by (rule ran_none) (simp add: same_calls)
  then show ?thesis
    using handle_execution_ran [OF assms] ran_none [OF snapshot_no_execute] by (simp add: process_work_def raise_op_def)
qed

subsection \<open>At most one run\<close>

text \<open>A history of the deployment: deliveries to any worker, and what other sessions commit between them.\<close>

datatype work_event = Deliver workspace_worker_env work_message | Session "workspace_db \<Rightarrow> workspace_db"

fun work_step :: "work_event \<Rightarrow> service_state \<Rightarrow> service_state" where
  "work_step (Deliver wk m) s = snd (process_work wk m s)"
| "work_step (Session f) s = s\<lparr>st_db := f (st_db s)\<rparr>"

text \<open>How often the provider was asked to run the program of execution \<open>x\<close>.\<close>

fun runs :: "string \<Rightarrow> work_event list \<Rightarrow> service_state \<Rightarrow> nat" where
  "runs x [] s = 0"
| "runs x (ev # evs) s =
     (case ev of Deliver wk m \<Rightarrow> if wm_execution_id m = Some x then executes s (work_step ev s) else 0 | Session f \<Rightarrow> 0)
     + runs x evs (work_step ev s)"

fun calm_event :: "string \<Rightarrow> work_event \<Rightarrow> bool" where
  "calm_event x (Deliver wk m) = calm_for x wk"
| "calm_event x (Session f) = never_queues x f"

lemma work_step_unqueued: "calm_event x ev \<Longrightarrow> unqueued x s (work_step ev s)"
  using process_work_unqueued unqueued_write [of x _ s] by (cases ev) (auto simp: write_db_def)

lemma no_more_runs: "list_all (calm_event x) evs \<Longrightarrow> \<not> queued x (st_db s) \<Longrightarrow> runs x evs s = 0"
proof (induction evs arbitrary: s)
  case (Cons ev evs)
  then have "\<not> queued x (st_db (work_step ev s))" using work_step_unqueued [of x ev s] by (simp add: unqueued_def)
  with Cons have rest: "runs x evs (work_step ev s) = 0" by simp
  show ?case
  proof (cases ev)
    case (Deliver wk m)
    with Cons.prems process_work_ran [of m x wk s] rest show ?thesis by (auto simp: ran_once_def)
  next
    case (Session f)
    with rest show ?thesis by simp
  qed
qed simp

text \<open>C3: a submitted program runs at most once. Whatever messages are delivered, to whatever workers, in
  whatever order and however often, whatever the provider, the queue and the storage answer, and whatever
  other sessions commit before, between and during the deliveries, as long as none of them queues the
  execution again, the provider is asked to run it at most once in all; it is not asked at all when the
  execution was not queued to begin with (cancelled, finished, or claimed by another worker).\<close>

theorem execution_runs_once:
  assumes "list_all (calm_event x) evs"
  shows "runs x evs s \<le> 1 \<and> (\<not> queued x (st_db s) \<longrightarrow> runs x evs s = 0)"
proof (intro conjI impI)
  show "runs x evs s \<le> 1"
    using assms
  proof (induction evs arbitrary: s)
    case (Cons ev evs)
    show ?case
    proof (cases ev)
      case (Deliver wk m)
      show ?thesis
      proof (cases "wm_execution_id m = Some x \<and> executes s (work_step ev s) \<noteq> 0")
        case True
        with Deliver Cons.prems process_work_ran [of m x wk s]
        have "executes s (work_step ev s) \<le> 1" "\<not> queued x (st_db (work_step ev s))" by (auto simp: ran_once_def)
        with Deliver Cons.prems no_more_runs [of x evs "work_step ev s"] show ?thesis by simp
      next
        case False
        with Deliver Cons show ?thesis by auto
      qed
    next
      case (Session f)
      with Cons show ?thesis by simp
    qed
  qed simp
  show "runs x evs s = 0" if "\<not> queued x (st_db s)"
    using assms that by (rule no_more_runs)
qed

subsection \<open>A cancellation while the program runs\<close>

lemma start_queued:
  assumes "ex_status e = Exec_QUEUED"
  shows "execution_start rid t e = Inr (e\<lparr>ex_status := Exec_RUNNING, ex_runtime_id := Some rid, ex_started_at := Some t\<rparr>)"
  using assms by (simp add: execution_start_def execution_transition_def execution_can_transition_def rbind_def)

text \<open>A running entity takes every terminal method.\<close>

lemma fail_active:
  assumes "ex_status e \<in> {Exec_QUEUED, Exec_RUNNING}"
  obtains e' where "execution_fail err c out eout ms r1 r2 t e = Inr e'" "ex_status e' = Exec_FAILED"
    "ex_error e' = Some err" "ex_execution_id e' = ex_execution_id e"
proof -
  have ex: "\<exists>p. bound_output out EXCERPT_LIMIT_CHARS = Inr p" for out
    by (cases "int (length out) \<le> EXCERPT_LIMIT_CHARS") (auto simp: bound_output_def EXCERPT_LIMIT_CHARS_def Let_def)
  obtain a b where a: "bound_output out EXCERPT_LIMIT_CHARS = Inr a" and b: "bound_output eout EXCERPT_LIMIT_CHARS = Inr b"
    using ex by blast
  have "execution_can_transition (ex_status e) Exec_FAILED"
    using assms by (auto simp: execution_can_transition_def)
  with a b show ?thesis
    by (intro that [of "execution_finish t (e\<lparr>ex_status := Exec_FAILED, ex_error := Some err, ex_exit_code := c,
        ex_duration_ms := max 0 ms, ex_stdout_excerpt := fst a, ex_stdout_truncated := snd a, ex_stderr_excerpt := fst b,
        ex_stderr_truncated := snd b, ex_stdout_ref := r1, ex_stderr_ref := r2\<rparr>)"])
      (simp_all add: execution_fail_def execution_transition_def record_output_def rbind_def execution_finish_def
        case_prod_beta)
qed

lemma close_execution_eq:
  "close_execution wk f e s = (let s1 = s\<lparr>st_ticks := Suc (st_ticks s)\<rparr> in
     case f (sv_now (wk_service wk) (st_ticks s)) e of
       Inl err \<Rightarrow> (Inl err, s1)
     | Inr e' \<Rightarrow> (Inr (), s1\<lparr>st_db := snd (update_execution e' (st_db s))\<rparr>))"
  by (simp add: close_execution_def sbind_now store_execution_def write_db_def raise_op_def Let_def split: sum.split)

text \<open>a claimed execution is cancelled, or otherwise finished by another session, while its program runs. When
  the provider returns an outcome, the row is read again, found terminal, and the outcome is discarded: the
  tables stay exactly as the other session left them. When the provider raises one of its own errors instead,
  the row is not read again: the execution ends as failed with that error, over the cancellation. Any other
  error leaves the row alone and is raised.\<close>

theorem cancellation_race:
  assumes "ex_status e = Exec_QUEUED"
    and "get_execution (sv_float (wk_service wk)) (ex_execution_id e) (wk_during_execute wk (st_db s)) = Inr (Some l)"
    and "execution_is_terminal l"
    and "run_claimed wk ref r e s = (res, s')"
  shows "case pv_execute (sv_provider (wk_service wk)) (st_calls s @ [execute_call wk ref e]) of
      Inr oc \<Rightarrow> res = Inr () \<and> st_db s' = wk_during_execute wk (st_db s)
    | Inl exc \<Rightarrow> if is_provider_error exc
        then res = Inr () \<and> (\<exists>l'. get_execution (sv_float (wk_service wk)) (ex_execution_id e) (st_db s') = Inr (Some l')
              \<and> ex_status l' = Exec_FAILED \<and> ex_error l' = Some (describe exc))
        else res = Inl exc \<and> st_db s' = wk_during_execute wk (st_db s)"
proof -
  define e1 where "e1 = e\<lparr>ex_status := Exec_RUNNING, ex_runtime_id := Some (rt_runtime_id r),
    ex_started_at := Some (sv_now (wk_service wk) (st_ticks s))\<rparr>"
  let ?c = "st_calls s @ [execute_call wk ref e]"
  let ?s1 = "s\<lparr>st_ticks := Suc (st_ticks s), st_calls := ?c\<rparr>"
  have c: "execute_call wk ref e1 = execute_call wk ref e" and id: "ex_execution_id e1 = ex_execution_id e"
    and run: "ex_status e1 = Exec_RUNNING" by (simp_all add: execute_call_def e1_def)
  have eq: "after_execute wk ref (pv_execute (sv_provider (wk_service wk)) ?c) e1 ?s1 = (res, s')"
    using assms(4) c by (simp add: run_claimed_eq start_queued [OF assms(1)] Let_def e1_def)
  show ?thesis
  proof (cases "pv_execute (sv_provider (wk_service wk)) ?c")
    case (Inr oc)
    with eq assms(2,3) id show ?thesis by (auto simp: after_execute_def step sreturn_def)
  next
    case (Inl exc)
    obtain e2 where e2: "execution_fail (describe exc) None [] [] 0 None None (sv_now (wk_service wk) (st_ticks ?s1)) e1 = Inr e2"
      "ex_status e2 = Exec_FAILED" "ex_error e2 = Some (describe exc)" "ex_execution_id e2 = ex_execution_id e1"
      by (rule fail_active [of e1]) (use run in auto)
    have "get_execution (sv_float (wk_service wk)) (ex_execution_id e)
        (snd (update_execution e2 (wk_during_execute wk (st_db s)))) = Inr (Some (execution_merge l e2))"
      using update_execution_read [of _ e2] assms(2) e2(4) id by simp
    moreover have "ex_status (execution_merge l e2) = Exec_FAILED" "ex_error (execution_merge l e2) = Some (describe exc)"
      using e2 by (simp_all add: execution_merge_def)
    ultimately show ?thesis
      using eq Inl e2(1) by (auto simp: after_execute_def step persist_outcome_def close_execution_eq Let_def raise_op_def)
  qed
qed

subsection \<open>Every run is settled, or raises\<close>

definition quiet_worker :: "workspace_worker_env \<Rightarrow> bool" where
  "quiet_worker wk = ((\<forall>db. wk_before_claim wk db = db) \<and> (\<forall>db. wk_during_execute wk db = db)
     \<and> (\<forall>db. wk_during_collect wk db = db) \<and> (\<forall>db. sv_rival (wk_service wk) db = db))"

text \<open>The executions are left alone.\<close>

definition same_executions :: "service_state \<Rightarrow> service_state \<Rightarrow> bool" where
  "same_executions s t = (db_executions (st_db t) = db_executions (st_db s))"

interpretation sx: state_frame same_executions
  by unfold_locales (auto simp: same_executions_def)

lemma same_executions_prims:
  "same_executions s (snd (read_db f s))" "same_executions s (snd (call_provider p c s))"
  "same_executions s (snd (now_op env s))" "same_executions s (snd (uuid_op env s))"
  "same_executions s (snd (require_usable env i u s))" "same_executions s (snd (write_workspace_op env w s))"
  "same_executions s (snd (save_runtime_op r s))" "same_executions s (snd (touch_workspace env w s))"
  by (simp_all add: same_executions_def read_db_def call_provider_def now_op_def uuid_op_def Let_def
      require_usable_eq write_workspace_op_def step write_db_def save_runtime_op_def touch_workspace_eq
      split: sum.splits option.splits)

lemmas sx_intros = sx.sbind_frame sx.sreturn_frame sx.raise_frame sx.try_frame sx.if_frame sx.option_frame
  same_executions_prims

lemma start_same_executions:
  assumes "quiet_worker wk"
  shows "same_executions s (snd (start_runtime (wk_service wk) i u s))"
proof -
  have "same_executions s (snd (exec_db (get_or_create_runtime (sv_rival (wk_service wk)) uuid now i p prof) s))" for s uuid now p prof
    using get_or_create_executions [of "sv_rival (wk_service wk)" uuid now i p prof "st_db s"] assms
    by (auto simp: same_executions_def exec_db_def case_prod_beta quiet_worker_def)
  then show ?thesis
    unfolding start_runtime_def start_fresh_def provider_start_def resume_container_def create_container_def
      fail_runtime_def Let_def case_prod_beta
    by (intro sx_intros)
qed

lemma collect_same_db: "st_db (snd (collect_artifacts wk ref i y s)) = st_db s"
  "\<exists>as. fst (collect_artifacts wk ref i y s) = Inr as"
proof -
  have one: "st_db (snd (collect_artifact wk ref i y f s)) = st_db s \<and> (\<exists>a. fst (collect_artifact wk ref i y f s) = Inr a)" for f s
    unfolding collect_artifact_def
    by (auto simp: sbind_capture call_provider_def Let_def sreturn_def split: sum.splits)
  have loop: "st_db (snd (collect_loop wk ref i y fs s)) = st_db s \<and> (\<exists>as. fst (collect_loop wk ref i y fs s) = Inr as)" for fs s
  proof (induction fs arbitrary: s)
    case (Cons f fs)
    obtain a t where "collect_artifact wk ref i y f s = (Inr a, t)" "st_db t = st_db s"
      using one [of f s] by (metis prod.collapse)
    moreover obtain as u where "collect_loop wk ref i y fs t = (Inr as, u)" "st_db u = st_db t"
      using Cons [of t] by (metis prod.collapse)
    ultimately show ?case by (simp add: sbind_def sreturn_def)
  qed (simp add: sreturn_def)
  show "st_db (snd (collect_artifacts wk ref i y s)) = st_db s" "\<exists>as. fst (collect_artifacts wk ref i y s) = Inr as"
    using loop unfolding collect_artifacts_def
    by (auto simp: sbind_capture call_provider_def Let_def sreturn_def split: sum.splits)
qed

definition settled :: "(rat \<Rightarrow> string) \<Rightarrow> string \<Rightarrow> unit result \<Rightarrow> workspace_db \<Rightarrow> bool" where
  "settled fl x res db = (\<exists>l. get_execution fl x db = Inr (Some l) \<and>
     (case res of Inr _ \<Rightarrow> execution_is_terminal l | Inl _ \<Rightarrow> ex_status l \<in> {Exec_QUEUED, Exec_RUNNING}))"

lemma close_settled:
  assumes "get_execution fl (ex_execution_id e) (st_db s) = Inr (Some l)" "ex_status l \<in> {Exec_QUEUED, Exec_RUNNING}"
    and "terminal_method f" "close_execution wk f e s = (res, s')"
  shows "settled fl (ex_execution_id e) res (st_db s')"
proof (cases "f (sv_now (wk_service wk) (st_ticks s)) e")
  case (Inl err)
  with assms show ?thesis by (auto simp: close_execution_eq Let_def settled_def)
next
  case (Inr e')
  with assms(3) have t: "execution_is_terminal e'" "ex_execution_id e' = ex_execution_id e" by (auto simp: terminal_method_def)
  with assms(1) update_execution_read [of fl e'] have
    "get_execution fl (ex_execution_id e) (snd (update_execution e' (st_db s))) = Inr (Some (execution_merge l e'))" by simp
  moreover have "execution_is_terminal (execution_merge l e')" using t by (simp add: execution_merge_def execution_is_terminal_def)
  ultimately show ?thesis using assms(4) Inr by (auto simp: close_execution_eq Let_def settled_def)
qed

lemma claim_read:
  assumes "get_execution fl x db = Inr (Some e)" "ex_status e = Exec_QUEUED"
  shows "queued x db" "get_execution fl x (snd (claim_execution now x rid db))
    = Inr (Some (e\<lparr>ex_status := Exec_RUNNING, ex_runtime_id := Some rid, ex_started_at := Some now\<rparr>))"
proof -
  from assms(1) obtain row where row: "sql_first (sql_select (\<lambda>row. er_execution_id row = x) (db_executions db)) = Some row"
    "execution_to_entity fl row = Inr e"
    by (auto simp: get_execution_def entity_or_none_def rbind_Inr_iff split: option.splits)
  have r: "row \<in> set (db_executions db)" "er_execution_id row = x" using sql_first_Some [OF row(1)] by simp_all
  have st: "er_status row = execution_status_value Exec_QUEUED" using execution_entity_fields(2) [OF row(2)] assms(2) by simp
  from r st show "queued x db" unfolding queued_def by blast
  let ?P = "\<lambda>row. er_execution_id row = x \<and> er_status row = execution_status_value Exec_QUEUED"
  let ?f = "\<lambda>row. row\<lparr>er_status := execution_status_value Exec_RUNNING, er_runtime_id := Some rid, er_started_at := Some now\<rparr>"
  have "sql_first (sql_select (\<lambda>row. er_execution_id row = x) (sql_update ?P ?f (db_executions db)))
      = map_option (\<lambda>r. if ?P r then ?f r else r) (sql_first (sql_select (\<lambda>row. er_execution_id row = x) (db_executions db)))"
    by (rule sql_first_update) simp
  then have "sql_first (sql_select (\<lambda>row. er_execution_id row = x) (sql_update ?P ?f (db_executions db))) = Some (?f row)"
    using row(1) r st by simp
  moreover have "execution_to_entity fl (?f row) = Inr (e\<lparr>ex_status := Exec_RUNNING, ex_runtime_id := Some rid, ex_started_at := Some now\<rparr>)"
    using row(2) execution_status_of_value [of Exec_RUNNING]
    by (auto simp: execution_to_entity_def rbind_Inr_iff new_execution_def split: if_splits)
  ultimately show "get_execution fl x (snd (claim_execution now x rid db))
    = Inr (Some (e\<lparr>ex_status := Exec_RUNNING, ex_runtime_id := Some rid, ex_started_at := Some now\<rparr>))"
    by (simp add: get_execution_def entity_or_none_def claim_execution_def Let_def del: execution_status_value.simps)
qed

lemma settle_settled:
  assumes "quiet_worker wk" "get_execution fl (ex_execution_id e) (st_db s) = Inr (Some l)"
    and "ex_status l \<in> {Exec_QUEUED, Exec_RUNNING}" "settle_outcome wk ref oc e s = (res, s')"
  shows "settled fl (ex_execution_id e) res (st_db s')"
proof (cases "oc_timed_out oc \<or> truthy (oc_error oc)")
  case True
  with assms(4) close_settled [OF assms(2,3) terminal_methods(2)] close_settled [OF assms(2,3) terminal_methods(1)]
  show ?thesis by (auto simp: settle_outcome_def split: if_splits)
next
  case False
  obtain as t where c: "collect_artifacts wk ref (ex_workspace_id e) (ex_execution_id e) s = (Inr as, t)" "st_db t = st_db s"
    using collect_same_db [of wk ref "ex_workspace_id e" "ex_execution_id e" s] by (metis prod.collapse)
  let ?f = "execution_succeed (case oc_exit_code oc of None \<Rightarrow> -1 | Some c \<Rightarrow> c) (oc_stdout oc) (oc_stderr oc)
       (oc_duration_ms oc) (oc_memory_peak_bytes oc) as None None"
  have "close_execution wk ?f e t = (res, s')"
    using False assms(1,4) c(1)
    by (simp add: settle_outcome_def settle_success_def sbind_def [of "collect_artifacts _ _ _ _"] sbind_write quiet_worker_def)
  then show ?thesis using close_settled [of fl e t l ?f wk] assms(2,3) c(2) by simp
qed

lemma run_claimed_settled:
  assumes "quiet_worker wk" "ex_status e = Exec_QUEUED"
    and "get_execution (sv_float (wk_service wk)) (ex_execution_id e) (st_db s) = Inr (Some l)" "ex_status l = Exec_RUNNING"
    and "run_claimed wk ref r e s = (res, s')"
  shows "settled (sv_float (wk_service wk)) (ex_execution_id e) res (st_db s')"
proof -
  define e1 where "e1 = e\<lparr>ex_status := Exec_RUNNING, ex_runtime_id := Some (rt_runtime_id r),
    ex_started_at := Some (sv_now (wk_service wk) (st_ticks s))\<rparr>"
  let ?c = "st_calls s @ [execute_call wk ref e1]"
  let ?s1 = "s\<lparr>st_ticks := Suc (st_ticks s), st_calls := ?c\<rparr>"
  let ?o = "pv_execute (sv_provider (wk_service wk)) ?c"
  have id: "ex_execution_id e1 = ex_execution_id e" by (simp add: e1_def)
  have l: "\<not> execution_is_terminal l" "ex_status l \<in> {Exec_QUEUED, Exec_RUNNING}" using assms(4) by (simp_all add: status_defs)
  have eq: "after_execute wk ref ?o e1 ?s1 = (res, s')"
    using assms(5) by (simp add: run_claimed_eq start_queued [OF assms(2)] Let_def e1_def)
  have g: "get_execution (sv_float (wk_service wk)) (ex_execution_id e1) (st_db ?s1) = Inr (Some l)" using assms(3) id by simp
  show ?thesis
  proof (cases ?o)
    case (Inl exc)
    then have "(if is_provider_error exc then persist_outcome wk (describe exc) None e1 else raise_op exc) ?s1 = (res, s')"
      using eq assms(1) by (simp add: after_execute_def sbind_write quiet_worker_def)
    then show ?thesis
      using close_settled [OF g l(2) terminal_methods(1)] g l id
      by (auto simp: persist_outcome_def raise_op_def settled_def split: if_splits)
  next
    case (Inr oc)
    then have "settle_outcome wk ref oc e1 ?s1 = (res, s')"
      using eq assms(1) g l by (simp add: after_execute_def step quiet_worker_def)
    with settle_settled [OF assms(1) g l(2)] id show ?thesis by simp
  qed
qed

lemma run_on_runtime_settled:
  assumes "quiet_worker wk" "ex_status e = Exec_QUEUED"
    and "get_execution (sv_float (wk_service wk)) (ex_execution_id e) (st_db s) = Inr (Some e)"
    and "run_on_runtime wk e r s = (res, s')"
  shows "settled (sv_float (wk_service wk)) (ex_execution_id e) res (st_db s')"
proof (cases "is_serving r \<and> truthy (rt_provider_ref r)")
  case False
  with assms(4) close_settled [OF assms(3) _ terminal_methods(1)] assms(2) show ?thesis
    by (auto simp: run_on_runtime_def)
next
  case True
  let ?s2 = "snd (claim_op wk (ex_execution_id e) (rt_runtime_id r) s)"
  note c = claim_read [OF assms(3,2)]
  have run: "run_claimed wk (the (rt_provider_ref r)) r e ?s2 = (res, s')"
    using True assms(1,4) c(1)
    by (simp add: run_on_runtime_def sbind_write sbind_def [of "claim_op _ _ _"] claim_op_eq quiet_worker_def)
  have "st_db ?s2 = snd (claim_execution (sv_now (wk_service wk) (st_ticks s)) (ex_execution_id e) (rt_runtime_id r) (st_db s))"
    by (simp add: claim_op_eq)
  then show ?thesis
    by (intro run_claimed_settled [OF assms(1,2) _ _ run]) (simp_all only: c(2), simp)
qed

text \<open>when the handler of a queued execution returns, the execution is in a terminal state, whatever the
  provider, the storage and the program did (no other session interfering). When it raises instead, because the
  runtime could not be started or the provider raised an error that is not its own, the execution is still
  queued or running; the message is then dead-lettered and acknowledged, so that nothing settles it later.\<close>

theorem execution_settled:
  assumes "quiet_worker wk" "wm_execution_id m = Some x" "x \<noteq> []"
    and "get_execution (sv_float (wk_service wk)) x (st_db s) = Inr (Some e)" "ex_status e = Exec_QUEUED"
    and "handle_execution wk m s = (res, s')"
  shows "\<exists>l. get_execution (sv_float (wk_service wk)) x (st_db s') = Inr (Some l)
    \<and> (case res of Inr _ \<Rightarrow> execution_is_terminal l | Inl _ \<Rightarrow> ex_status l = Exec_QUEUED \<or> ex_status l = Exec_RUNNING)"
proof -
  let ?sv = "wk_service wk"
  let ?g = "get_workspace (sv_float ?sv) (ex_workspace_id e) (ex_user_id e) (st_db s)"
  have id: "ex_execution_id e = x" using get_execution_id assms(4) by blast
  have nt: "\<not> execution_is_terminal e" using assms(5) by (simp add: status_defs)
  have h: "handle_execution wk m s = (case ?g of Inl err \<Rightarrow> (Inl err, s)
      | Inr None \<Rightarrow> close_execution wk (execution_fail ''The workspace no longer exists.'' None [] [] 0 None None) e s
      | Inr (Some _) \<Rightarrow> sbind (start_runtime ?sv (ex_workspace_id e) (ex_user_id e)) (\<lambda>d. run_on_runtime wk e (sd_runtime d)) s)"
    using assms(2,3,4) nt by (simp add: handle_execution_def step truthy_def Let_def split: sum.splits option.splits)
  have "settled (sv_float ?sv) x res (st_db s')"
  proof (cases "\<exists>ws. ?g = Inr (Some ws)")
    case False
    have a: "get_execution (sv_float ?sv) (ex_execution_id e) (st_db s) = Inr (Some e)"
      "ex_status e \<in> {Exec_QUEUED, Exec_RUNNING}" using assms(4,5) id by simp_all
    show ?thesis
    proof (cases ?g)
      case (Inl err)
      with assms(6) a show ?thesis by (auto simp: h settled_def id)
    next
      case (Inr w)
      with False have "w = None" by (cases w) auto
      with Inr assms(6) close_settled [OF a terminal_methods(1)] id show ?thesis by (auto simp: h)
    qed
  next
    case True
    obtain a t where st: "start_runtime ?sv (ex_workspace_id e) (ex_user_id e) s = (a, t)"
      by (cases "start_runtime ?sv (ex_workspace_id e) (ex_user_id e) s")
    have "same_executions s t" using start_same_executions [OF assms(1), of s] st by (metis snd_conv)
    then have g: "get_execution (sv_float ?sv) x (st_db t) = Inr (Some e)"
      using assms(4) by (simp add: same_executions_def get_execution_def)
    from True have eq: "(case a of Inl err \<Rightarrow> (Inl err, t) | Inr d \<Rightarrow> run_on_runtime wk e (sd_runtime d) t) = (res, s')"
      using assms(6) st unfolding h by (auto simp: sbind_def split: sum.splits)
    show ?thesis
    proof (cases a)
      case (Inl err)
      with eq g assms(5) show ?thesis by (auto simp: settled_def)
    next
      case (Inr d)
      with eq run_on_runtime_settled [OF assms(1,5)] g id show ?thesis by simp
    qed
  qed
  then show ?thesis by (cases res) (simp_all add: settled_def)
qed

subsection \<open>Snapshots\<close>

lemma prune_loop_eq:
  "prune_loop i vs s = (Inr (), s\<lparr>st_db := (st_db s)\<lparr>db_revisions :=
     filter (\<lambda>row. \<not> (vr_workspace_id row = i \<and> vr_revision_id row \<in> rv_revision_id ` set vs)) (db_revisions (st_db s))\<rparr>\<rparr>)"
proof (induction vs arbitrary: s)
  case (Cons v vs)
  show ?case
    by (simp add: sbind_write Cons delete_revision_def sql_delete_filter is_revision_def Let_def)
      (intro arg_cong [where f = "\<lambda>rs. s\<lparr>st_db := (st_db s)\<lparr>db_revisions := rs\<rparr>\<rparr>"] filter_cong, auto)
qed (simp add: sreturn_def)

definition ready_rows :: "string \<Rightarrow> revision_row list \<Rightarrow> revision_row list" where
  "ready_rows i t = filter (\<lambda>row. vr_workspace_id row = i \<and> vr_status row = image_revision_status_value Rev_READY) t"

lemma entities_rows:
  assumes "entities revision_to_entity rows = Inr vs"
  shows "map rv_revision_id vs = map vr_revision_id rows"
    "map rv_revision_id (filter (\<lambda>v. rv_status v = Rev_READY) vs)
     = map vr_revision_id (filter (\<lambda>row. vr_status row = image_revision_status_value Rev_READY) rows)"
proof -
  have st: "image_revision_status_value a = image_revision_status_value b \<longleftrightarrow> a = b" for a b
    by (cases a; cases b) simp_all
  have one: "rv_revision_id v = vr_revision_id row \<and> vr_status row = image_revision_status_value (rv_status v)"
    if "revision_to_entity row = Inr v" for row v
    using that by (auto simp: revision_to_entity_def rbind_Inr_iff image_revision_status_of_def dest!: enum_of_value)
  have "map rv_revision_id vs = map vr_revision_id rows \<and>
    map rv_revision_id (filter (\<lambda>v. rv_status v = Rev_READY) vs)
     = map vr_revision_id (filter (\<lambda>row. vr_status row = image_revision_status_value Rev_READY) rows)"
    using assms
  proof (induction rows arbitrary: vs)
    case (Cons row rows)
    then obtain v ws where v: "revision_to_entity row = Inr v" "entities revision_to_entity rows = Inr ws" "vs = v # ws"
      by (auto simp: rbind_Inr_iff)
    with Cons.IH [OF v(2)] one [OF v(1)] st show ?case by (simp del: image_revision_status_value.simps)
  qed simp
  then show "map rv_revision_id vs = map vr_revision_id rows"
    "map rv_revision_id (filter (\<lambda>v. rv_status v = Rev_READY) vs)
     = map vr_revision_id (filter (\<lambda>row. vr_status row = image_revision_status_value Rev_READY) rows)" by simp_all
qed

lemma filter_dropped:
  assumes "distinct (map f xs)"
  shows "filter (\<lambda>x. f x \<notin> f ` set (drop k (take j xs))) xs = take k xs @ drop (max k j) xs"
proof -
  have split: "xs = take k xs @ drop k (take j xs) @ drop (max k j) xs"
  proof (cases "k \<le> j")
    case True
    then have "drop k (take j xs) @ drop j xs = drop k xs"
      by (metis append_take_drop_id drop_append drop_take le_add_diff_inverse drop_drop add.commute)
    with True show ?thesis by (simp add: max_def)
  qed (simp add: max_def)
  let ?a = "take k xs" and ?b = "drop k (take j xs)" and ?c = "drop (max k j) xs"
  have d: "distinct (map f (?a @ ?b @ ?c))" using assms split by simp
  then have "filter (\<lambda>x. f x \<notin> f ` set ?b) ?a = ?a" "filter (\<lambda>x. f x \<notin> f ` set ?b) ?c = ?c"
    by (auto simp: filter_id_conv)
  moreover have "filter (\<lambda>x. f x \<notin> f ` set ?b) ?b = []" by (auto simp: filter_empty_conv)
  ultimately have "filter (\<lambda>x. f x \<notin> f ` set ?b) (?a @ ?b @ ?c) = ?a @ ?c" by simp
  then show ?thesis using split by simp
qed

lemma filter_take: "filter P (take n xs) = take (length (filter P (take n xs))) (filter P xs)"
  by (metis append_eq_conv_conj append_take_drop_id filter_append)

lemma order_desc_filter: "order_desc key (filter P t) = filter P (order_desc key t)"
  by (simp add: order_desc_def filter_sort)

text \<open>The ready revisions of a workspace, newest first, and those among its newest \<open>n\<close> revisions.\<close>

definition newest_ready :: "string \<Rightarrow> revision_row list \<Rightarrow> revision_row list" where
  "newest_ready i t = order_desc vr_created_at (ready_rows i t)"

definition ready_window :: "nat \<Rightarrow> string \<Rightarrow> revision_row list \<Rightarrow> revision_row list" where
  "ready_window n i t = filter (\<lambda>row. vr_status row = image_revision_status_value Rev_READY)
     (take n (order_desc vr_created_at (filter (\<lambda>row. vr_workspace_id row = i) t)))"

lemma newest_ready_filter:
  "newest_ready i t = filter (\<lambda>row. vr_status row = image_revision_status_value Rev_READY)
     (order_desc vr_created_at (filter (\<lambda>row. vr_workspace_id row = i) t))"
  unfolding newest_ready_def ready_rows_def order_desc_filter [symmetric] filter_filter by (simp only: conj_commute)

lemma ready_window_prefix: "ready_window n i t = take (length (ready_window n i t)) (newest_ready i t)"
  unfolding ready_window_def newest_ready_filter by (rule filter_take)

lemma ready_window_full:
  "length (filter (\<lambda>row. vr_workspace_id row = i) t) \<le> n \<Longrightarrow> ready_window n i t = newest_ready i t"
  unfolding ready_window_def newest_ready_filter by simp

lemma newest_ready_distinct:
  assumes "unique_key vr_revision_id t"
  shows "distinct (map vr_revision_id (newest_ready i t))"
proof -
  have "distinct (map vr_revision_id (order_desc vr_created_at t))"
  proof -
    have "mset (map vr_revision_id (order_desc vr_created_at t)) = mset (map vr_revision_id t)"
      by (simp add: order_desc_def)
    then show ?thesis using assms by (metis mset_eq_imp_distinct_iff unique_key_def)
  qed
  then show ?thesis by (simp add: newest_ready_def ready_rows_def order_desc_filter distinct_map_filter)
qed

definition without_rows :: "string \<Rightarrow> revision_row list \<Rightarrow> revision_row list \<Rightarrow> revision_row list" where
  "without_rows i gone t = filter (\<lambda>row. \<not> (vr_workspace_id row = i \<and> vr_revision_id row \<in> vr_revision_id ` set gone)) t"

lemma map_eq_image_drop: "map f xs = map g ys \<Longrightarrow> f ` set (drop k xs) = g ` set (drop k ys)"
  by (metis drop_map set_map)

lemma prune_effect:
  assumes "0 \<le> sv_snapshot_retention (wk_service wk)"
    and "list_revisions i (sv_snapshot_retention (wk_service wk) + 20) (st_db s) = Inr vs"
  shows "prune_revisions wk i s = (Inr (), s\<lparr>st_db := (st_db s)\<lparr>db_revisions := without_rows i
      (drop (nat (sv_snapshot_retention (wk_service wk)))
        (ready_window (nat (sv_snapshot_retention (wk_service wk)) + 20) i (db_revisions (st_db s)))) (db_revisions (st_db s))\<rparr>\<rparr>)"
proof -
  let ?k = "nat (sv_snapshot_retention (wk_service wk))"
  have n: "nat (sv_snapshot_retention (wk_service wk) + 20) = ?k + 20" using assms(1) by simp
  have "entities revision_to_entity (take (?k + 20) (order_desc vr_created_at
      (filter (\<lambda>row. vr_workspace_id row = i) (db_revisions (st_db s))))) = Inr vs"
    using assms(2) unfolding list_revisions_def page_def sql_select_def n by simp
  from entities_rows(2) [OF this] have ids: "rv_revision_id ` set (drop ?k (filter (\<lambda>v. rv_status v = Rev_READY) vs))
      = vr_revision_id ` set (drop ?k (ready_window (?k + 20) i (db_revisions (st_db s))))"
    unfolding ready_window_def by (rule map_eq_image_drop)
  show ?thesis
    by (simp add: prune_revisions_def Let_def sbind_capture read_db_def assms(2) prune_loop_eq ids without_rows_def)
qed

lemma without_rows_ready:
  assumes "unique_key vr_revision_id t" "gone = drop k (take j (newest_ready i t))"
  shows "newest_ready i (without_rows i gone t) = take k (newest_ready i t) @ drop (max k j) (newest_ready i t)"
proof -
  have "ready_rows i (without_rows i gone t) = filter (\<lambda>row. vr_revision_id row \<notin> vr_revision_id ` set gone) (ready_rows i t)"
    unfolding ready_rows_def without_rows_def filter_filter by (rule filter_cong) auto
  then have "newest_ready i (without_rows i gone t)
      = filter (\<lambda>row. vr_revision_id row \<notin> vr_revision_id ` set gone) (newest_ready i t)"
    by (simp add: newest_ready_def order_desc_filter)
  then show ?thesis using filter_dropped [OF newest_ready_distinct [OF assms(1)], of k j i] assms(2) by simp
qed

lemma without_rows_others:
  assumes "unique_key vr_revision_id t" "set gone \<subseteq> set (ready_rows i t)" "row \<in> set t"
    and "vr_workspace_id row \<noteq> i \<or> vr_status row \<noteq> ''READY''"
  shows "row \<in> set (without_rows i gone t)"
proof -
  have "q = row" if "q \<in> set gone" "vr_revision_id q = vr_revision_id row" for q
    using that assms(1-3) by (auto simp: unique_key_def ready_rows_def distinct_map dest: inj_onD)
  moreover have "vr_workspace_id q = i \<and> vr_status q = ''READY''" if "q \<in> set gone" for q
    using that assms(2) by (auto simp: ready_rows_def)
  ultimately have "\<not> (vr_workspace_id row = i \<and> vr_revision_id row \<in> vr_revision_id ` set gone)"
    using assms(4) by (metis imageE)
  with assms(3) show ?thesis by (simp add: without_rows_def)
qed

text \<open>after a snapshot the worker keeps the newest \<open>snapshot_retention\<close> ready revisions of the workspace and
  deletes the other ready ones among its newest \<open>snapshot_retention + 20\<close> revisions; ready revisions beyond
  that window stay, and so does every revision that is not ready or of another workspace. When the
  workspace has no more revisions than the window, exactly the newest \<open>snapshot_retention\<close> ready ones are left.
  Only rows are deleted: the provider is not asked to remove an image.\<close>

theorem prune_keeps_newest:
  assumes "sv_snapshot_retention (wk_service wk) = int keep" "unique_key vr_revision_id (db_revisions (st_db s))"
    and "list_revisions i (int keep + 20) (st_db s) = Inr vs"
  shows "\<exists>t. prune_revisions wk i s = (Inr (), s\<lparr>st_db := (st_db s)\<lparr>db_revisions := t\<rparr>\<rparr>)
    \<and> newest_ready i t = take keep (newest_ready i (db_revisions (st_db s)))
        @ drop (max keep (length (ready_window (keep + 20) i (db_revisions (st_db s))))) (newest_ready i (db_revisions (st_db s)))
    \<and> (length (filter (\<lambda>row. vr_workspace_id row = i) (db_revisions (st_db s))) \<le> keep + 20 \<longrightarrow>
         newest_ready i t = take keep (newest_ready i (db_revisions (st_db s))))
    \<and> (\<forall>row \<in> set (db_revisions (st_db s)). vr_workspace_id row \<noteq> i \<or> vr_status row \<noteq> ''READY'' \<longrightarrow> row \<in> set t)"
proof -
  let ?t = "db_revisions (st_db s)"
  let ?w = "ready_window (keep + 20) i ?t"
  let ?t' = "without_rows i (drop keep ?w) ?t"
  have pre: "?w = take (length ?w) (newest_ready i ?t)" by (rule ready_window_prefix)
  have run: "prune_revisions wk i s = (Inr (), s\<lparr>st_db := (st_db s)\<lparr>db_revisions := ?t'\<rparr>\<rparr>)"
    using prune_effect [of wk i s vs] assms(1,3) by simp
  have kept: "newest_ready i ?t' = take keep (newest_ready i ?t) @ drop (max keep (length ?w)) (newest_ready i ?t)"
    using without_rows_ready [OF assms(2), of "drop keep ?w" keep "length ?w" i] pre by metis
  have "set (drop keep ?w) \<subseteq> set (newest_ready i ?t)"
    using pre set_drop_subset [of keep ?w] set_take_subset [of "length ?w" "newest_ready i ?t"] by (metis subset_trans)
  then have "set (drop keep ?w) \<subseteq> set (ready_rows i ?t)" by (simp add: newest_ready_def)
  then have others: "row \<in> set ?t \<Longrightarrow> vr_workspace_id row \<noteq> i \<or> vr_status row \<noteq> ''READY'' \<Longrightarrow> row \<in> set ?t'" for row
    using without_rows_others [OF assms(2)] by blast
  have full: "newest_ready i ?t' = take keep (newest_ready i ?t)"
    if "length (filter (\<lambda>row. vr_workspace_id row = i) ?t) \<le> keep + 20"
    using kept ready_window_full [OF that] by simp
  show ?thesis using run kept full others by blast
qed

subsection \<open>The stream of work\<close>

definition work_entry :: "nat \<times> fields \<Rightarrow> bool" where
  "work_entry e = (snd e \<noteq> [] \<and> work_to_dict (work_from_dict (snd e)) = snd e)"

lemma work_message_entry:
  assumes "wm_execution_id m \<noteq> Some []" "wm_revision_id m \<noteq> Some []"
  shows "work_from_dict (work_to_dict m) = m" "work_entry (i, work_to_dict m)"
proof -
  show "work_from_dict (work_to_dict m) = m"
    using assms by (cases m) (auto simp: work_from_dict_def work_to_dict_def truthy_def split: option.splits)
  then show "work_entry (i, work_to_dict m)" by (simp add: work_entry_def work_to_dict_def)
qed

lemma redis_op_eq: "redis_op env f s = (fst (redis_call (sv_redis env) f (st_redis s)),
    s\<lparr>st_redis := snd (redis_call (sv_redis env) f (st_redis s))\<rparr>)"
  by (simp add: redis_op_def case_prod_beta)

lemma safe_ack_eq: "safe_ack wk i s = (Inr (), s\<lparr>st_redis :=
    snd (redis_call (sv_redis (wk_service wk)) (xack (work_stream wk) i) (st_redis s))\<rparr>)"
  by (auto simp: safe_ack_def acknowledge_work_def try_op_def sbind_def redis_op_eq sreturn_def split: sum.split)

text \<open>The loop of the sweep is the re-queue of the job stream.\<close>

lemma reclaim_loop_requeue:
  "list_all work_entry es \<Longrightarrow> reclaim_loop wk es s =
     (Inr (fst (requeue_all (sv_redis (wk_service wk)) (work_stream wk) es (st_redis s))),
      s\<lparr>st_redis := snd (requeue_all (sv_redis (wk_service wk)) (work_stream wk) es (st_redis s))\<rparr>)"
proof (induction es arbitrary: s)
  case (Cons e es)
  obtain i f where e: "e = (i, f)" by (cases e)
  let ?fate = "sv_redis (wk_service wk)" and ?st = "work_stream wk"
  have f: "f \<noteq> []" "work_to_dict (work_from_dict f) = f" using Cons.prems e by (auto simp: work_entry_def)
  have one: "try_op (sbind (publish_work (wk_service wk) (work_from_dict f)) (\<lambda>_.
      sbind (safe_ack wk (id_str i)) (\<lambda>_. sreturn (Inr 1)))) (\<lambda>_. sreturn (Inr 0)) s
    = (Inr (if fst (requeue ?fate ?st (i, f) (st_redis s)) then 1 else 0), s\<lparr>st_redis := snd (requeue ?fate ?st (i, f) (st_redis s))\<rparr>)"
    by (cases "redis_call ?fate (xadd ?st None f) (st_redis s)"; cases "fst (redis_call ?fate (xadd ?st None f) (st_redis s))")
      (auto simp: try_op_def publish_work_def sbind_def redis_op_eq sreturn_def safe_ack_eq requeue_def f
        work_stream_def [symmetric])
  obtain ok r1 where q: "requeue ?fate ?st (i, f) (st_redis s) = (ok, r1)" by fastforce
  from one q have one': "try_op (sbind (publish_work (wk_service wk) (work_from_dict f)) (\<lambda>_.
      sbind (safe_ack wk (id_str i)) (\<lambda>_. sreturn (Inr 1)))) (\<lambda>_. sreturn (Inr 0)) s
    = (Inr (if ok then 1 else 0), s\<lparr>st_redis := r1\<rparr>)" by simp
  have "list_all work_entry es" using Cons.prems by simp
  then show ?case
    using f q by (simp add: e sbind_def [of "try_op _ _"] one' sbind_def [of "reclaim_loop _ _"] Cons.IH sreturn_def Let_def
        case_prod_beta del: One_nat_def)
qed (simp add: sreturn_def)

lemma requeue_all_count:
  assumes "\<And>n. fate n = Commit_ok"
  shows "fst (requeue_all fate st es r) = length es"
proof (induction es arbitrary: r)
  case (Cons e es)
  have "fst (requeue fate st e r)" using assms by (cases e) (simp add: requeue_def redis_call_def)
  with Cons show ?case by (simp add: Let_def case_prod_beta)
qed simp

text \<open>the stale sweep loses no work, whatever Redis calls fail: every message outstanding in a stream before it
  is still outstanding afterwards, and no table changes. If the client hands the reply of \<open>XAUTOCLAIM\<close> over as a
  tuple and no call fails, every idle entry of the stream, up to the limit, is added again. If the client hands it
  over as a list, the sweep finds nothing: it returns zero and adds no entry, and the work of a dead
  worker is never delivered again.\<close>

theorem stale_work_sweep:
  assumes "redis_ok (st_redis s)" "list_all work_entry (rs_entries (rd_streams (st_redis s) (work_stream wk)))"
    and "reclaim_stale wk c now limit s = (res, s')"
  shows "outstanding (rd_streams (st_redis s) k) \<subseteq># outstanding (rd_streams (st_redis s') k) \<and> st_db s' = st_db s
    \<and> (wc_reply_is_tuple c \<longrightarrow> (\<forall>n. sv_redis (wk_service wk) n = Commit_ok) \<longrightarrow>
         res = Inr (length (claimable (work_min_idle_ms wk) now limit (rd_streams (st_redis s) (work_stream wk)))))
    \<and> (\<not> wc_reply_is_tuple c \<longrightarrow> res = Inr 0
         \<and> rs_entries (rd_streams (st_redis s') k) = rs_entries (rd_streams (st_redis s) k))"
proof -
  let ?fate = "sv_redis (wk_service wk)" and ?st = "work_stream wk"
  let ?claim = "xautoclaim ?st (wc_name c) (work_min_idle_ms wk) now limit"
  obtain x r1 where call: "redis_call ?fate ?claim (st_redis s) = (x, r1)" by fastforce
  obtain es r0 where claim: "?claim (st_redis s) = (es, r0)" by fastforce
  have entries: "rs_entries (rd_streams r0 k) = rs_entries (rd_streams (st_redis s) k)"
    using claim by (auto simp: xautoclaim_def Let_def put_stream_def)
  have es: "list_all work_entry es" "length es = length (claimable (work_min_idle_ms wk) now limit (rd_streams (st_redis s) ?st))"
  proof -
    have "es = map (\<lambda>i. (i, the (entry_fields (rd_streams (st_redis s) ?st) i)))
        (claimable (work_min_idle_ms wk) now limit (rd_streams (st_redis s) ?st))"
      using claim by (simp add: xautoclaim_def Let_def)
    moreover have "\<exists>f. entry_fields (rd_streams (st_redis s) ?st) i = Some f"
      if "i \<in> set (claimable (work_min_idle_ms wk) now limit (rd_streams (st_redis s) ?st))" for i
      using that by (auto simp: claimable_def dest!: in_set_takeD)
    moreover from this have "work_entry (i, the (entry_fields (rd_streams (st_redis s) ?st) i))"
      if "i \<in> set (claimable (work_min_idle_ms wk) now limit (rd_streams (st_redis s) ?st))" for i
      using that assms(2) by (fastforce simp: list_all_iff entry_fields_def dest!: map_of_SomeD)
    ultimately show "list_all work_entry es" "length es = length (claimable (work_min_idle_ms wk) now limit (rd_streams (st_redis s) ?st))"
      by (auto simp: list_all_iff)
  qed
  let ?cl = "case x of Inl _ \<Rightarrow> [] | Inr cl \<Rightarrow> if wc_reply_is_tuple c then cl else []"
  have cl: "list_all work_entry ?cl"
    using es redis_call_Inr [of ?fate ?claim "st_redis s" _ r1] call claim by (auto split: sum.splits)
  have sweep: "res = Inr (fst (requeue_all ?fate ?st ?cl r1))" "s' = s\<lparr>st_redis := snd (requeue_all ?fate ?st ?cl r1)\<rparr>"
    using assms(3) call reclaim_loop_requeue [OF cl, of wk "s\<lparr>st_redis := r1\<rparr>"]
    by (auto simp: reclaim_stale_def try_op_def sbind_def redis_op_eq sreturn_def split: sum.splits if_splits)
  have keep: "outstanding (rd_streams (st_redis s) k) \<subseteq># outstanding (rd_streams (st_redis s') k)"
  proof (cases "wc_reply_is_tuple c")
    case True
    with reclaim_keeps [OF assms(1), of ?fate "wc_name c" "work_min_idle_ms wk" now limit "[?st]" k] call sweep(2)
    show ?thesis by (auto simp: Let_def case_prod_beta split: sum.splits)
  next
    case False
    then have "?cl = []" by (simp split: sum.splits)
    with redis_call_streams [of ?fate ?claim "st_redis s"] xautoclaim_keeps [OF claim assms(1), of k] call claim sweep(2)
    show ?thesis by auto
  qed
  have none: "res = Inr 0 \<and> rs_entries (rd_streams (st_redis s') k) = rs_entries (rd_streams (st_redis s) k)" if "\<not> wc_reply_is_tuple c"
  proof -
    have "?cl = []" using that by (simp split: sum.splits)
    with redis_call_streams [of ?fate ?claim "st_redis s"] call claim sweep entries show ?thesis by auto
  qed
  have all: "res = Inr (length es)" if "wc_reply_is_tuple c" "\<forall>n. ?fate n = Commit_ok"
  proof -
    have "x = Inr es" using call claim that(2) by (simp add: redis_call_def)
    with sweep(1) that requeue_all_count [of ?fate ?st es r1] show ?thesis by simp
  qed
  show ?thesis using keep none all sweep(2) es(2) by simp
qed

subsection \<open>The loop\<close>

lemma fail_work_returns: "fail_work wk i msg s \<noteq> (Inl err, s')"
  by (auto simp: fail_work_def sbind_def try_op_def sreturn_def split: sum.splits prod.splits)

text \<open>one pass of the worker raises, and so ends the worker, in one case only: the work was done and its
  acknowledgement failed. Every other failure, of the read, of the work itself, of the dead letter, of the sweep,
  is survived.\<close>

theorem pass_survives:
  assumes "work_pass wk c now idle s = (Inl err, s')"
  shows "\<exists>i m s1 s2. fetch_work wk c now s = (Inr (Some (i, m)), s1) \<and> process_work wk m s1 = (Inr (), s2)
    \<and> acknowledge_work wk i s2 = (Inl err, s')"
proof -
  obtain x s1 where f: "fetch_work wk c now s = (x, s1)" by fastforce
  have sweep: "\<exists>n. fst (maybe_sweep_stale wk c now idle s1) = Inr n"
    by (simp add: maybe_sweep_stale_def sbind_capture sreturn_def)
  from assms f sweep obtain i m where x: "x = Inr (Some (i, m))" and h: "handle_work wk i m s1 = (Inl err, s')"
    by (auto simp: work_pass_def sbind_capture sreturn_def elim!: sbind_cases split: sum.splits option.splits)
  obtain y s2 where p: "process_work wk m s1 = (y, s2)" by fastforce
  with h fail_work_returns [of wk i _ s2 err s'] have "y = Inr ()" "acknowledge_work wk i s2 = (Inl err, s')"
    by (auto simp: handle_work_def sbind_capture split: sum.splits)
  with f x p show ?thesis by blast
qed

subsection \<open>A sample worker\<close>

definition sample_worker :: workspace_worker_env where
  "sample_worker = \<lparr>wk_service = sample_service, wk_execution_timeout_seconds = 300, wk_max_output_bytes = 1000,
     wk_has_storage = True, wk_upload = \<lambda>_. Inr (), wk_base_target_key = ''out'', wk_max_artifacts = 20,
     wk_max_artifact_bytes = 1000, wk_artifact_directory = ''outputs'', wk_before_claim = \<lambda>db. db,
     wk_during_execute = \<lambda>db. db, wk_during_collect = \<lambda>db. db\<rparr>"

definition sample_work :: work_message where
  "sample_work = \<lparr>wm_kind = ''execution'', wm_workspace_id = ''w'', wm_execution_id = Some ''e'', wm_revision_id = None\<rparr>"

lemma sample_quiet: "quiet_worker sample_worker" "calm_for x sample_worker"
  by (simp_all add: quiet_worker_def calm_for_def never_queues_def sample_worker_def sample_service_def)

lemma sample_get_execution: "get_execution fl ''e'' sample_db = Inr (Some sample_execution_read)"
proof -
  obtain row where row: "db_executions sample_db = [row]" "execution_to_entity fl row = Inr sample_execution_read"
    "er_execution_id row = ''e''" using sample_execution_row by blast
  then show ?thesis by (simp add: get_execution_def sql_select_def sql_first_def entity_or_none_def)
qed

lemma sample_execution_queued: "ex_status sample_execution_read = Exec_QUEUED" "ex_execution_id sample_execution_read = ''e''"
  by (simp_all add: sample_execution_read_def sample_execution_def blank_execution_def)

theorem execution_runs_once_witness:
  "runs ''e'' [Deliver sample_worker sample_work, Session (\<lambda>db. db), Deliver sample_worker sample_work] sample_service_state \<le> 1"
  using execution_runs_once [of "''e''" "[Deliver sample_worker sample_work, Session (\<lambda>db. db), Deliver sample_worker sample_work]"
      sample_service_state] sample_quiet(2) [of "''e''"]
  by (simp add: never_queues_def)

text \<open>The execution is cancelled while its program runs.\<close>

definition cancelling_worker :: workspace_worker_env where
  "cancelling_worker = sample_worker\<lparr>wk_during_execute :=
     \<lambda>db. snd (update_execution (sample_execution_read\<lparr>ex_status := Exec_CANCELLED\<rparr>) db)\<rparr>"

theorem cancellation_race_witness:
  "\<exists>s' l. run_claimed cancelling_worker ''c1'' (new_runtime ''r'' ''w'' ''docker'' ''small'') sample_execution_read
       sample_service_state = (Inr (), s')
     \<and> get_execution (\<lambda>_. []) ''e'' (st_db s') = Inr (Some l) \<and> ex_status l = Exec_CANCELLED"
proof -
  let ?e = "sample_execution_read\<lparr>ex_status := Exec_CANCELLED\<rparr>" and ?r = "new_runtime ''r'' ''w'' ''docker'' ''small''"
  let ?l = "execution_merge sample_execution_read ?e"
  have wk: "sv_float (wk_service cancelling_worker) = (\<lambda>_. [])"
    "wk_during_execute cancelling_worker = (\<lambda>db. snd (update_execution ?e db))"
    "sv_provider (wk_service cancelling_worker) = sample_provider"
    by (simp_all add: cancelling_worker_def sample_worker_def sample_service_def)
  have db: "st_db sample_service_state = sample_db" by (simp add: sample_service_state_def)
  have g: "get_execution (\<lambda>_. []) ''e'' (snd (update_execution ?e sample_db)) = Inr (Some ?l)"
    using update_execution_read [of "\<lambda>_. []" ?e sample_db] sample_get_execution sample_execution_queued(2) by simp
  have l: "execution_is_terminal ?l" "ex_status ?l = Exec_CANCELLED" by (simp_all add: execution_merge_def status_defs)
  obtain res s' where run: "run_claimed cancelling_worker ''c1'' ?r sample_execution_read sample_service_state = (res, s')"
    by fastforce
  have "get_execution (sv_float (wk_service cancelling_worker)) (ex_execution_id sample_execution_read)
      (wk_during_execute cancelling_worker (st_db sample_service_state)) = Inr (Some ?l)"
    unfolding wk db sample_execution_queued(2) by (rule g)
  from cancellation_race [OF sample_execution_queued(1) this l(1) run] have "res = Inr ()" "st_db s' = snd (update_execution ?e sample_db)"
    by (simp_all add: wk db sample_provider_def)
  with run g l show ?thesis by auto
qed

theorem execution_settled_witness:
  "\<exists>res s' l. handle_execution sample_worker sample_work sample_service_state = (res, s')
     \<and> get_execution (\<lambda>_. []) ''e'' (st_db s') = Inr (Some l)
     \<and> (case res of Inr _ \<Rightarrow> execution_is_terminal l | Inl _ \<Rightarrow> ex_status l = Exec_QUEUED \<or> ex_status l = Exec_RUNNING)"
proof -
  obtain res s' where h: "handle_execution sample_worker sample_work sample_service_state = (res, s')" by fastforce
  have wk: "sv_float (wk_service sample_worker) = (\<lambda>_. [])" by (simp add: sample_worker_def sample_service_def)
  have m: "wm_execution_id sample_work = Some ''e''" by (simp add: sample_work_def)
  have "get_execution (sv_float (wk_service sample_worker)) ''e'' (st_db sample_service_state) = Inr (Some sample_execution_read)"
    by (simp add: sample_service_state_def sample_get_execution)
  from execution_settled [OF sample_quiet(1) m _ this sample_execution_queued(1) h] h show ?thesis unfolding wk by blast
qed

text \<open>Two ready revisions and room for one.\<close>

definition ready_row :: "string \<Rightarrow> int \<Rightarrow> revision_row" where
  "ready_row v t = \<lparr>vr_revision_id = v, vr_workspace_id = ''w'', vr_provider = ''docker'', vr_config_fingerprint = [],
     vr_base_image_revision = [], vr_status = image_revision_status_value Rev_READY, vr_provider_snapshot_ref = Some v,
     vr_error = None, vr_validation_metadata = [], vr_created_at = t, vr_ready_at = None\<rparr>"

theorem prune_keeps_newest_witness:
  "\<exists>t. prune_revisions (sample_worker\<lparr>wk_service := sample_service\<lparr>sv_snapshot_retention := 1\<rparr>\<rparr>) ''w''
       (sample_service_state\<lparr>st_db := sample_db\<lparr>db_revisions := [ready_row ''a'' 1, ready_row ''b'' 2]\<rparr>\<rparr>)
     = (Inr (), sample_service_state\<lparr>st_db := sample_db\<lparr>db_revisions := t\<rparr>\<rparr>)
     \<and> newest_ready ''w'' t = [ready_row ''b'' 2]"
proof -
  let ?wk = "sample_worker\<lparr>wk_service := sample_service\<lparr>sv_snapshot_retention := 1\<rparr>\<rparr>"
  let ?rows = "[ready_row ''a'' 1, ready_row ''b'' 2]"
  let ?s = "sample_service_state\<lparr>st_db := sample_db\<lparr>db_revisions := ?rows\<rparr>\<rparr>"
  have ready: "image_revision_status_of ''READY'' = Inr Rev_READY" using image_revision_status_of_value [of Rev_READY] by simp
  have 1: "sv_snapshot_retention (wk_service ?wk) = int 1" by simp
  have 2: "unique_key vr_revision_id (db_revisions (st_db ?s))" by (simp add: unique_key_def ready_row_def)
  obtain vs where 3: "list_revisions ''w'' (int 1 + 20) (st_db ?s) = Inr vs"
    by (simp add: list_revisions_def page_def sql_select_def order_desc_def ready_row_def revision_to_entity_def ready rbind_def)
  have n: "newest_ready ''w'' ?rows = [ready_row ''b'' 2, ready_row ''a'' 1]"
    by (simp add: newest_ready_def ready_rows_def order_desc_def ready_row_def)
  from prune_keeps_newest [OF 1 2 3] obtain t where t: "prune_revisions ?wk ''w'' ?s = (Inr (), ?s\<lparr>st_db := (st_db ?s)\<lparr>db_revisions := t\<rparr>\<rparr>)"
    "newest_ready ''w'' t = take 1 (newest_ready ''w'' ?rows)" by (auto simp: ready_row_def)
  with n show ?thesis by (intro exI [of _ t]) simp
qed

text \<open>A stream with one entry that a dead worker left pending.\<close>

definition pending_stream :: redis_stream where
  "pending_stream = \<lparr>rs_entries = [(1, work_to_dict sample_work)], rs_next = 2, rs_last_delivered = 1,
     rs_pel = [\<lparr>pe_id = 1, pe_consumer = ''dead'', pe_delivered_at = 0\<rparr>]\<rparr>"

theorem stale_work_sweep_witness:
  "\<exists>s'. reclaim_stale sample_worker \<lparr>wc_name = ''c'', wc_reply_is_tuple = True\<rparr> 1000000 20
      (sample_service_state\<lparr>st_redis := \<lparr>rd_streams = \<lambda>_. pending_stream, rd_tick = 0\<rparr>\<rparr>) = (Inr 1, s')"
proof -
  let ?s = "sample_service_state\<lparr>st_redis := \<lparr>rd_streams = \<lambda>_. pending_stream, rd_tick = 0\<rparr>\<rparr>"
  let ?c = "\<lparr>wc_name = ''c'', wc_reply_is_tuple = True\<rparr>"
  have 1: "redis_ok (st_redis ?s)" by (simp add: redis_ok_def stream_ok_def pending_stream_def)
  have "work_entry (1, work_to_dict sample_work)" by (rule work_message_entry) (simp_all add: sample_work_def)
  then have 2: "list_all work_entry (rs_entries (rd_streams (st_redis ?s) (work_stream sample_worker)))"
    by (simp add: pending_stream_def)
  obtain res s' where r: "reclaim_stale sample_worker ?c 1000000 20 ?s = (res, s')" by fastforce
  have "claimable (work_min_idle_ms sample_worker) 1000000 20 pending_stream = [1]"
    by (simp add: claimable_def pending_stream_def work_min_idle_ms_def sample_worker_def entry_fields_def)
  with stale_work_sweep [OF 1 2 r, of "[]"] have "res = Inr 1" by (simp add: sample_worker_def sample_service_def)
  with r show ?thesis by auto
qed

text \<open>A worker whose acknowledgement is lost.\<close>

definition lost_ack :: "nat \<Rightarrow> commit_fate" where
  "lost_ack n = (if n = 1 then Commit_lost (DBConnectionError ''gone'') else Commit_ok)"

theorem pass_survives_witness:
  "\<exists>err s' i m s1 s2. work_pass (sample_worker\<lparr>wk_service := sample_service\<lparr>sv_redis := lost_ack\<rparr>\<rparr>)
       \<lparr>wc_name = ''c'', wc_reply_is_tuple = True\<rparr> 0 0
       (sample_service_state\<lparr>st_db := empty_db, st_redis := \<lparr>rd_streams = \<lambda>_. pending_stream\<lparr>rs_last_delivered := 0, rs_pel := []\<rparr>, rd_tick = 0\<rparr>\<rparr>)
     = (Inl err, s')
     \<and> process_work (sample_worker\<lparr>wk_service := sample_service\<lparr>sv_redis := lost_ack\<rparr>\<rparr>) m s1 = (Inr (), s2)
     \<and> acknowledge_work (sample_worker\<lparr>wk_service := sample_service\<lparr>sv_redis := lost_ack\<rparr>\<rparr>) i s2 = (Inl err, s')"
proof -
  let ?wk = "sample_worker\<lparr>wk_service := sample_service\<lparr>sv_redis := lost_ack\<rparr>\<rparr>"
  let ?c = "\<lparr>wc_name = ''c'', wc_reply_is_tuple = True\<rparr>"
  let ?s = "sample_service_state\<lparr>st_db := empty_db,
    st_redis := \<lparr>rd_streams = \<lambda>_. pending_stream\<lparr>rs_last_delivered := 0, rs_pel := []\<rparr>, rd_tick = 0\<rparr>\<rparr>"
  have m: "work_from_dict (work_to_dict sample_work) = sample_work"
    by (rule work_message_entry(1)) (simp_all add: sample_work_def)
  have "\<exists>s1. fetch_work ?wk ?c 0 ?s = (Inr (Some (id_str 1, sample_work)), s1) \<and> st_db s1 = empty_db \<and> rd_tick (st_redis s1) = 1"
    by (simp add: fetch_work_def sbind_def redis_op_eq redis_call_def lost_ack_def undelivered_def pending_stream_def
        put_stream_def sreturn_def m sample_service_def Let_def)
  then obtain s1 where f: "fetch_work ?wk ?c 0 ?s = (Inr (Some (id_str 1, sample_work)), s1)" "st_db s1 = empty_db"
    "rd_tick (st_redis s1) = 1" by blast
  have p: "process_work ?wk sample_work s1 = (Inr (), s1)"
    by (simp add: process_work_def sample_work_def handle_execution_def truthy_def step f(2) get_execution_def empty_db_def
        sql_select_def sql_first_def entity_or_none_def sreturn_def Let_def)
  have "\<exists>err s'. acknowledge_work ?wk (id_str 1) s1 = (Inl err, s')"
    by (simp add: acknowledge_work_def sbind_def redis_op_eq redis_call_def lost_ack_def f(3))
  then obtain err s' where a: "acknowledge_work ?wk (id_str 1) s1 = (Inl err, s')" by blast
  have h: "handle_work ?wk (id_str 1) sample_work s1 = (Inl err, s')"
    by (simp add: handle_work_def sbind_capture p a del: One_nat_def)
  have w: "work_pass ?wk ?c 0 0 ?s = (Inl err, s')"
    by (simp add: work_pass_def sbind_capture f(1) sbind_def [of "handle_work _ _ _"] h del: One_nat_def)
  from pass_survives [OF w] w show ?thesis by blast
qed

end
