(* ===== verification/Agent_Access.thy ===== *)
theory Agent_Access
  imports Transform_Prelude
begin

text \<open>
  The authorization server for agents: \<open>domain/security/value_object/agent_scope.py\<close>,
  \<open>agent_access_scope.py\<close>, \<open>enitities/agent_grant.py\<close>, the four tables of \<open>models/mcp.py\<close> with every
  statement of \<open>sql_mcp_repo.py\<close>, and every method of \<open>application/services/mcp/access_service.py\<close>. The
  clock, the identifiers and the secrets are functions of a counter, SHA-256 is a parameter. A redirect is
  kept as the values it is built from.
\<close>

section \<open>Agents with a user's consent\<close>

subsection \<open>Scopes\<close>

datatype agent_scope = Scope_DOCUMENTS_READ | Scope_DOCUMENTS_CONVERT | Scope_DOCUMENTS_WRITE
  | Scope_DOCUMENTS_DELETE | Scope_WORKSPACES_READ | Scope_WORKSPACES_EXECUTE

fun agent_scope_value :: "agent_scope \<Rightarrow> string" where
  "agent_scope_value Scope_DOCUMENTS_READ = ''documents.read''"
| "agent_scope_value Scope_DOCUMENTS_CONVERT = ''documents.convert''"
| "agent_scope_value Scope_DOCUMENTS_WRITE = ''documents.write''"
| "agent_scope_value Scope_DOCUMENTS_DELETE = ''documents.delete''"
| "agent_scope_value Scope_WORKSPACES_READ = ''workspaces.read''"
| "agent_scope_value Scope_WORKSPACES_EXECUTE = ''workspaces.execute''"

definition ALL_SCOPES :: "agent_scope list" where
  "ALL_SCOPES = [Scope_DOCUMENTS_READ, Scope_DOCUMENTS_CONVERT, Scope_DOCUMENTS_WRITE,
     Scope_DOCUMENTS_DELETE, Scope_WORKSPACES_READ, Scope_WORKSPACES_EXECUTE]"

definition OFFLINE_ACCESS :: string where "OFFLINE_ACCESS = ''offline_access''"

definition KNOWN_REQUEST_SCOPES :: "string list" where
  "KNOWN_REQUEST_SCOPES = map agent_scope_value ALL_SCOPES @ [OFFLINE_ACCESS]"

definition is_capability :: "string \<Rightarrow> bool" where
  "is_capability value = (value \<in> set (map agent_scope_value ALL_SCOPES))"

definition DEFAULT_SCOPES :: "agent_scope list" where
  "DEFAULT_SCOPES = [Scope_DOCUMENTS_READ, Scope_DOCUMENTS_CONVERT, Scope_DOCUMENTS_WRITE]"

definition stripped_values :: "string list \<Rightarrow> string list" where
  "stripped_values values = filter (\<lambda>v. v \<noteq> []) (map py_strip values)"

definition normalize_scopes :: "string list \<Rightarrow> agent_scope list" where
  "normalize_scopes values = filter (\<lambda>s. agent_scope_value s \<in> set (stripped_values values)) ALL_SCOPES"

definition scope_string :: "agent_scope list \<Rightarrow> string" where
  "scope_string scopes = py_join '' '' (map agent_scope_value scopes)"

definition covers :: "agent_scope list \<Rightarrow> agent_scope \<Rightarrow> bool" where
  "covers granted required = (required \<in> set granted)"

definition is_subset :: "agent_scope list \<Rightarrow> agent_scope list \<Rightarrow> bool" where
  "is_subset requested allowed = (set requested \<subseteq> set allowed)"

datatype folder_access = Folder_ALL | Folder_FOLDER
datatype history_scope = History_AGENT | History_ALL

fun folder_access_value :: "folder_access \<Rightarrow> string" where
  "folder_access_value Folder_ALL = ''ALL''"
| "folder_access_value Folder_FOLDER = ''FOLDER''"

fun history_scope_value :: "history_scope \<Rightarrow> string" where
  "history_scope_value History_AGENT = ''AGENT''"
| "history_scope_value History_ALL = ''ALL''"

definition coerce_folder_access :: "string \<Rightarrow> folder_access" where
  "coerce_folder_access value = (if value = ''ALL'' then Folder_ALL else Folder_FOLDER)"

definition coerce_history_scope :: "string \<Rightarrow> history_scope" where
  "coerce_history_scope value = (if value = ''ALL'' then History_ALL else History_AGENT)"

definition is_folder_restricted :: "folder_access \<Rightarrow> string option \<Rightarrow> bool" where
  "is_folder_restricted access folder_id = (access = Folder_FOLDER)"

definition folder_scope_is_usable :: "folder_access \<Rightarrow> string option \<Rightarrow> bool" where
  "folder_scope_is_usable access folder_id =
     (if access = Folder_ALL then True else folder_id \<noteq> None \<and> folder_id \<noteq> Some [])"

subsection \<open>The grant\<close>

datatype agent_grant_status = Grant_ACTIVE | Grant_PAUSED | Grant_REVOKED

fun agent_grant_status_value :: "agent_grant_status \<Rightarrow> string" where
  "agent_grant_status_value Grant_ACTIVE = ''ACTIVE''"
| "agent_grant_status_value Grant_PAUSED = ''PAUSED''"
| "agent_grant_status_value Grant_REVOKED = ''REVOKED''"

record agent_grant =
  ag_id :: string
  ag_user_id :: int
  ag_client_id :: string
  ag_client_name :: string
  ag_scopes :: "agent_scope list"
  ag_status :: agent_grant_status
  ag_resource :: "string option"
  ag_folder_access :: folder_access
  ag_folder_id :: "string option"
  ag_history_scope :: history_scope
  ag_created_at :: "int option"
  ag_last_used_at :: "int option"
  ag_revoked_at :: "int option"
  ag_paused_at :: "int option"

definition grant_is_active :: "agent_grant \<Rightarrow> bool" where
  "grant_is_active g = (ag_status g = Grant_ACTIVE \<and> 0 < length (ag_scopes g))"

definition grant_covers :: "agent_grant \<Rightarrow> agent_scope \<Rightarrow> bool" where
  "grant_covers g scope = (grant_is_active g \<and> covers (ag_scopes g) scope)"

definition grant_is_folder_restricted :: "agent_grant \<Rightarrow> bool" where
  "grant_is_folder_restricted g = is_folder_restricted (ag_folder_access g) (ag_folder_id g)"

definition grant_pause :: "int \<Rightarrow> agent_grant \<Rightarrow> agent_grant result" where
  "grant_pause now g =
     (if ag_status g = Grant_REVOKED then Inl (AppError InvalidGrantTransition ''A revoked grant cannot be paused.'')
      else if ag_status g \<noteq> Grant_PAUSED then Inr (g\<lparr>ag_status := Grant_PAUSED, ag_paused_at := Some now\<rparr>)
      else Inr g)"

definition grant_resume :: "agent_grant \<Rightarrow> agent_grant result" where
  "grant_resume g =
     (if ag_status g = Grant_REVOKED then Inl (AppError InvalidGrantTransition ''A revoked grant cannot be resumed.'')
      else if ag_status g = Grant_PAUSED then Inr (g\<lparr>ag_status := Grant_ACTIVE, ag_paused_at := None\<rparr>)
      else Inr g)"

definition grant_revoke :: "int \<Rightarrow> agent_grant \<Rightarrow> agent_grant" where
  "grant_revoke now g =
     (if ag_status g \<noteq> Grant_REVOKED then g\<lparr>ag_status := Grant_REVOKED, ag_revoked_at := Some now\<rparr> else g)"

subsection \<open>Records and rows\<close>

record oauth_client =
  oc_client_id :: string
  oc_client_secret :: "string option"
  oc_client_name :: "string option"
  oc_redirect_uris :: "string list"
  oc_grant_types :: "string list"
  oc_response_types :: "string list"
  oc_scope :: "string option"
  oc_token_endpoint_auth_method :: "string option"

record authorization_code =
  cd_code_hash :: string
  cd_grant_id :: string
  cd_client_id :: string
  cd_subject :: string
  cd_scopes :: "agent_scope list"
  cd_code_challenge :: string
  cd_redirect_uri :: string
  cd_resource :: "string option"
  cd_expires_at :: int
  cd_used_at :: "int option"

record token_record =
  tk_token_hash :: string
  tk_grant_id :: string
  tk_client_id :: string
  tk_subject :: string
  tk_kind :: string
  tk_scopes :: "agent_scope list"
  tk_expires_at :: int
  tk_resource :: "string option"
  tk_revoked_at :: "int option"

text \<open>The rows hold the scopes as one string, and the enums by their values.\<close>

record client_row =
  cl_client :: oauth_client
  cl_created_at :: int

record grant_row =
  gr_id :: string
  gr_user_id :: int
  gr_client_id :: string
  gr_client_name :: string
  gr_scopes :: string
  gr_status :: string
  gr_resource :: "string option"
  gr_folder_access :: string
  gr_folder_id :: "string option"
  gr_history_scope :: string
  gr_created_at :: int
  gr_last_used_at :: "int option"
  gr_revoked_at :: "int option"
  gr_paused_at :: "int option"

record code_row =
  co_code_hash :: string
  co_grant_id :: string
  co_client_id :: string
  co_subject :: string
  co_scopes :: string
  co_code_challenge :: string
  co_redirect_uri :: string
  co_resource :: "string option"
  co_expires_at :: int
  co_used_at :: "int option"

record token_row =
  to_token_hash :: string
  to_grant_id :: string
  to_client_id :: string
  to_subject :: string
  to_kind :: string
  to_scopes :: string
  to_resource :: "string option"
  to_expires_at :: int
  to_created_at :: int
  to_revoked_at :: "int option"

record mcp_db =
  md_clients :: "client_row list"
  md_grants :: "grant_row list"
  md_codes :: "code_row list"
  md_tokens :: "token_row list"

definition grant_status_of :: "string \<Rightarrow> agent_grant_status" where
  "grant_status_of v = (if v = ''ACTIVE'' then Grant_ACTIVE else if v = ''PAUSED'' then Grant_PAUSED else Grant_REVOKED)"

definition to_grant :: "grant_row \<Rightarrow> agent_grant" where
  "to_grant row = \<lparr>ag_id = gr_id row, ag_user_id = gr_user_id row, ag_client_id = gr_client_id row,
     ag_client_name = gr_client_name row, ag_scopes = normalize_scopes (py_split (gr_scopes row)),
     ag_status = grant_status_of (gr_status row), ag_resource = gr_resource row,
     ag_folder_access = coerce_folder_access (gr_folder_access row), ag_folder_id = gr_folder_id row,
     ag_history_scope = coerce_history_scope (gr_history_scope row), ag_created_at = Some (gr_created_at row),
     ag_last_used_at = gr_last_used_at row, ag_revoked_at = gr_revoked_at row, ag_paused_at = gr_paused_at row\<rparr>"

definition to_code :: "code_row \<Rightarrow> authorization_code" where
  "to_code row = \<lparr>cd_code_hash = co_code_hash row, cd_grant_id = co_grant_id row, cd_client_id = co_client_id row,
     cd_subject = co_subject row, cd_scopes = normalize_scopes (py_split (co_scopes row)),
     cd_code_challenge = co_code_challenge row, cd_redirect_uri = co_redirect_uri row,
     cd_resource = co_resource row, cd_expires_at = co_expires_at row, cd_used_at = co_used_at row\<rparr>"

definition to_token :: "token_row \<Rightarrow> token_record" where
  "to_token row = \<lparr>tk_token_hash = to_token_hash row, tk_grant_id = to_grant_id row, tk_client_id = to_client_id row,
     tk_subject = to_subject row, tk_kind = to_kind row, tk_scopes = normalize_scopes (py_split (to_scopes row)),
     tk_expires_at = to_expires_at row, tk_resource = to_resource row, tk_revoked_at = to_revoked_at row\<rparr>"

subsection \<open>Clients and grants in the tables\<close>

definition get_client :: "string \<Rightarrow> mcp_db \<Rightarrow> oauth_client option" where
  "get_client client_id db =
     map_option cl_client (sql_first (sql_select (\<lambda>r. oc_client_id (cl_client r) = client_id) (md_clients db)))"

definition save_client :: "int \<Rightarrow> oauth_client \<Rightarrow> mcp_db \<Rightarrow> mcp_db" where
  "save_client now c db = (case get_client (oc_client_id c) db of
       None \<Rightarrow> db\<lparr>md_clients := md_clients db @ [\<lparr>cl_client = c, cl_created_at = now\<rparr>]\<rparr>
     | Some _ \<Rightarrow> db\<lparr>md_clients := sql_update (\<lambda>r. oc_client_id (cl_client r) = oc_client_id c)
         (\<lambda>r. r\<lparr>cl_client := c\<rparr>) (md_clients db)\<rparr>)"

definition get_grant :: "string \<Rightarrow> mcp_db \<Rightarrow> agent_grant option" where
  "get_grant grant_id db = map_option to_grant (sql_first (sql_select (\<lambda>r. gr_id r = grant_id) (md_grants db)))"

definition for_client :: "int \<Rightarrow> string \<Rightarrow> grant_row \<Rightarrow> bool" where
  "for_client user_id client_id r = (gr_user_id r = user_id \<and> gr_client_id r = client_id)"

definition get_grant_for_user_client :: "int \<Rightarrow> string \<Rightarrow> mcp_db \<Rightarrow> agent_grant option" where
  "get_grant_for_user_client user_id client_id db =
     map_option to_grant (sql_first (sql_select (for_client user_id client_id) (md_grants db)))"

definition list_grants :: "int \<Rightarrow> mcp_db \<Rightarrow> agent_grant list" where
  "list_grants user_id db = map to_grant (order_desc gr_created_at (sql_select (\<lambda>r. gr_user_id r = user_id) (md_grants db)))"

definition write_consent :: "agent_grant \<Rightarrow> grant_row \<Rightarrow> grant_row" where
  "write_consent g row = row\<lparr>gr_client_name := ag_client_name g, gr_scopes := scope_string (ag_scopes g),
     gr_status := agent_grant_status_value Grant_ACTIVE, gr_resource := ag_resource g,
     gr_folder_access := folder_access_value (ag_folder_access g), gr_folder_id := ag_folder_id g,
     gr_history_scope := history_scope_value (ag_history_scope g), gr_revoked_at := None, gr_paused_at := None\<rparr>"

definition new_grant_row :: "int \<Rightarrow> agent_grant \<Rightarrow> grant_row" where
  "new_grant_row now g = \<lparr>gr_id = ag_id g, gr_user_id = ag_user_id g, gr_client_id = ag_client_id g,
     gr_client_name = ag_client_name g, gr_scopes = scope_string (ag_scopes g),
     gr_status = agent_grant_status_value Grant_ACTIVE, gr_resource = ag_resource g,
     gr_folder_access = folder_access_value (ag_folder_access g), gr_folder_id = ag_folder_id g,
     gr_history_scope = history_scope_value (ag_history_scope g),
     gr_created_at = (case ag_created_at g of None \<Rightarrow> now | Some t \<Rightarrow> t), gr_last_used_at = None,
     gr_revoked_at = None, gr_paused_at = None\<rparr>"

text \<open>A statement that changes the first row the \<open>SELECT\<close> returns.\<close>

definition update_first :: "('r \<Rightarrow> bool) \<Rightarrow> ('r \<Rightarrow> 'r) \<Rightarrow> 'r list \<Rightarrow> 'r list" where
  "update_first P f t = (case dropWhile (\<lambda>r. \<not> P r) t of
       [] \<Rightarrow> t | r # rs \<Rightarrow> takeWhile (\<lambda>r. \<not> P r) t @ f r # rs)"

definition upsert_grant :: "int \<Rightarrow> agent_grant \<Rightarrow> mcp_db \<Rightarrow> agent_grant result \<times> mcp_db" where
  "upsert_grant now g db = (let P = for_client (ag_user_id g) (ag_client_id g) in
     case sql_first (sql_select P (md_grants db)) of
       None \<Rightarrow>
         if ag_id g \<in> gr_id ` set (md_grants db) then (Inl IntegrityError, db)
         else (Inr (to_grant (new_grant_row now g)), db\<lparr>md_grants := md_grants db @ [new_grant_row now g]\<rparr>)
     | Some row \<Rightarrow>
         (Inr (to_grant (write_consent g row)), db\<lparr>md_grants := update_first P (write_consent g) (md_grants db)\<rparr>))"

definition owned_grant :: "string \<Rightarrow> int \<Rightarrow> grant_row \<Rightarrow> bool" where
  "owned_grant grant_id user_id r = (gr_id r = grant_id \<and> gr_user_id r = user_id)"

definition revoke_grant :: "int \<Rightarrow> string \<Rightarrow> int \<Rightarrow> mcp_db \<Rightarrow> agent_grant option \<times> mcp_db" where
  "revoke_grant now grant_id user_id db = (let P = owned_grant grant_id user_id in
     case sql_first (sql_select P (md_grants db)) of
       None \<Rightarrow> (None, db)
     | Some row \<Rightarrow>
       if gr_status row \<noteq> agent_grant_status_value Grant_REVOKED
       then let f = (\<lambda>r. r\<lparr>gr_status := agent_grant_status_value Grant_REVOKED, gr_revoked_at := Some now\<rparr>) in
         (Some (to_grant (f row)), db\<lparr>md_grants := update_first P f (md_grants db)\<rparr>)
       else (Some (to_grant row), db))"

text \<open>The status is read, checked and then written by the primary key, without a lock: \<open>rival\<close> is what other sessions
  commit in between. The \<open>UPDATE\<close> carries the attributes that differ from what was read, and the answer is
  the object in memory.\<close>

definition set_grant_status :: "(mcp_db \<Rightarrow> mcp_db) \<Rightarrow> string \<Rightarrow> int \<Rightarrow> agent_grant_status \<Rightarrow> int \<Rightarrow> mcp_db \<Rightarrow>
    agent_grant option result \<times> mcp_db" where
  "set_grant_status rival grant_id user_id status now db =
     (case sql_first (sql_select (owned_grant grant_id user_id) (md_grants db)) of
       None \<Rightarrow> (Inr None, db)
     | Some row \<Rightarrow>
       if gr_status row = agent_grant_status_value Grant_REVOKED
       then (Inl (AppError InvalidGrantTransition ''A revoked grant cannot be paused or resumed.''), db)
       else if gr_status row = agent_grant_status_value status then (Inr (Some (to_grant row)), db)
       else let paused_at = (if status = Grant_PAUSED then Some now else None);
                f = (\<lambda>r. r\<lparr>gr_status := agent_grant_status_value status,
                  gr_paused_at := (if paused_at = gr_paused_at row then gr_paused_at r else paused_at)\<rparr>);
                db1 = rival db in
         if gr_id row \<notin> gr_id ` set (md_grants db1) then (Inl (OtherError ''StaleDataError''), db1)
         else (Inr (Some (to_grant (f row))), db1\<lparr>md_grants := sql_update (\<lambda>r. gr_id r = gr_id row) f (md_grants db1)\<rparr>))"

definition update_grant_binding :: "string \<Rightarrow> int \<Rightarrow> agent_scope list \<Rightarrow> folder_access \<Rightarrow> string option \<Rightarrow> history_scope \<Rightarrow>
    mcp_db \<Rightarrow> agent_grant option \<times> mcp_db" where
  "update_grant_binding grant_id user_id scopes access folder_id history db = (let P = owned_grant grant_id user_id in
     case sql_first (sql_select P (md_grants db)) of
       None \<Rightarrow> (None, db)
     | Some row \<Rightarrow>
       let f = (\<lambda>r. r\<lparr>gr_scopes := scope_string scopes, gr_folder_access := folder_access_value access,
                gr_folder_id := folder_id, gr_history_scope := history_scope_value history\<rparr>) in
         (Some (to_grant (f row)), db\<lparr>md_grants := update_first P f (md_grants db)\<rparr>))"

definition TOUCH_INTERVAL :: int where "TOUCH_INTERVAL = 5 * 60 * 1000000"

definition touch_grant :: "string \<Rightarrow> int \<Rightarrow> mcp_db \<Rightarrow> mcp_db" where
  "touch_grant grant_id used_at db = db\<lparr>md_grants := sql_update
     (\<lambda>r. gr_id r = grant_id \<and> (case gr_last_used_at r of None \<Rightarrow> True | Some t \<Rightarrow> t < used_at - TOUCH_INTERVAL))
     (\<lambda>r. r\<lparr>gr_last_used_at := Some used_at\<rparr>) (md_grants db)\<rparr>"

subsection \<open>Codes and tokens in the tables\<close>

definition save_code :: "authorization_code \<Rightarrow> mcp_db \<Rightarrow> unit result \<times> mcp_db" where
  "save_code c db =
     (if cd_code_hash c \<in> co_code_hash ` set (md_codes db) then (Inl IntegrityError, db)
      else (Inr (), db\<lparr>md_codes := md_codes db @ [\<lparr>co_code_hash = cd_code_hash c, co_grant_id = cd_grant_id c,
        co_client_id = cd_client_id c, co_subject = cd_subject c, co_scopes = scope_string (cd_scopes c),
        co_code_challenge = cd_code_challenge c, co_redirect_uri = cd_redirect_uri c, co_resource = cd_resource c,
        co_expires_at = cd_expires_at c, co_used_at = cd_used_at c\<rparr>]\<rparr>))"

definition peek_code :: "string \<Rightarrow> mcp_db \<Rightarrow> authorization_code option" where
  "peek_code code_hash db = map_option to_code (sql_first (sql_select (\<lambda>r. co_code_hash r = code_hash) (md_codes db)))"

definition redeemable :: "string \<Rightarrow> int \<Rightarrow> code_row \<Rightarrow> bool" where
  "redeemable code_hash now r = (co_code_hash r = code_hash \<and> co_used_at r = None \<and> now < co_expires_at r)"

definition take_code :: "string \<Rightarrow> int \<Rightarrow> mcp_db \<Rightarrow> authorization_code option \<times> mcp_db" where
  "take_code code_hash now db =
     (let db' = db\<lparr>md_codes := sql_update (redeemable code_hash now) (\<lambda>r. r\<lparr>co_used_at := Some now\<rparr>) (md_codes db)\<rparr> in
      if sql_count (redeemable code_hash now) (md_codes db) = 0 then (None, db') else (peek_code code_hash db', db'))"

definition save_token :: "int \<Rightarrow> token_record \<Rightarrow> mcp_db \<Rightarrow> unit result \<times> mcp_db" where
  "save_token now t db =
     (if tk_token_hash t \<in> to_token_hash ` set (md_tokens db) then (Inl IntegrityError, db)
      else (Inr (), db\<lparr>md_tokens := md_tokens db @ [\<lparr>to_token_hash = tk_token_hash t, to_grant_id = tk_grant_id t,
        to_client_id = tk_client_id t, to_subject = tk_subject t, to_kind = tk_kind t,
        to_scopes = scope_string (tk_scopes t), to_resource = tk_resource t, to_expires_at = tk_expires_at t,
        to_created_at = now, to_revoked_at = None\<rparr>]\<rparr>))"

definition get_token :: "string \<Rightarrow> mcp_db \<Rightarrow> token_record option" where
  "get_token token_hash db = map_option to_token (sql_first (sql_select (\<lambda>r. to_token_hash r = token_hash) (md_tokens db)))"

definition revoke_token_row :: "string \<Rightarrow> int \<Rightarrow> mcp_db \<Rightarrow> mcp_db" where
  "revoke_token_row token_hash revoked_at db = db\<lparr>md_tokens := sql_update
     (\<lambda>r. to_token_hash r = token_hash \<and> to_revoked_at r = None) (\<lambda>r. r\<lparr>to_revoked_at := Some revoked_at\<rparr>) (md_tokens db)\<rparr>"

definition revoke_tokens_for_grant :: "string \<Rightarrow> int \<Rightarrow> mcp_db \<Rightarrow> int \<times> mcp_db" where
  "revoke_tokens_for_grant grant_id revoked_at db = (let P = (\<lambda>r. to_grant_id r = grant_id \<and> to_revoked_at r = None) in
     (int (sql_count P (md_tokens db)),
      db\<lparr>md_tokens := sql_update P (\<lambda>r. r\<lparr>to_revoked_at := Some revoked_at\<rparr>) (md_tokens db)\<rparr>))"

definition delete_expired :: "int \<Rightarrow> mcp_db \<Rightarrow> int \<times> mcp_db" where
  "delete_expired before db = (let P = (\<lambda>r. co_expires_at r < before); Q = (\<lambda>r. to_expires_at r < before) in
     (int (sql_count P (md_codes db)) + int (sql_count Q (md_tokens db)),
      db\<lparr>md_codes := sql_delete P (md_codes db), md_tokens := sql_delete Q (md_tokens db)\<rparr>))"

subsection \<open>The service\<close>

record access_env =
  ae_sha256 :: "string \<Rightarrow> string"
  ae_clock :: "nat \<Rightarrow> int"
  ae_secret :: "nat \<Rightarrow> string"
  ae_uuid :: "nat \<Rightarrow> string"
  ae_resource_url :: string
  ae_access_ttl :: int
  ae_refresh_ttl :: int
  ae_code_ttl :: int
  ae_grantable :: "agent_scope list"
  ae_rival :: "mcp_db \<Rightarrow> mcp_db"

text \<open>\<open>ae_rival\<close> is what other sessions commit between the check of a refresh token and its rotation, and between
  the check of a grant's status and its change.\<close>

record access_state =
  as_db :: mcp_db
  as_ticks :: nat

type_synonym 'a access_op = "access_state \<Rightarrow> 'a result \<times> access_state"

definition read_access :: "(mcp_db \<Rightarrow> 'a result) \<Rightarrow> 'a access_op" where
  "read_access f s = (f (as_db s), s)"

definition exec_access :: "(mcp_db \<Rightarrow> 'a result \<times> mcp_db) \<Rightarrow> 'a access_op" where
  "exec_access f s = (let (r, db) = f (as_db s) in (r, s\<lparr>as_db := db\<rparr>))"

definition write_access :: "(mcp_db \<Rightarrow> mcp_db) \<Rightarrow> unit access_op" where
  "write_access f s = (Inr (), s\<lparr>as_db := f (as_db s)\<rparr>)"

definition tick_op :: "(nat \<Rightarrow> 'a) \<Rightarrow> 'a access_op" where
  "tick_op f s = (Inr (f (as_ticks s)), s\<lparr>as_ticks := Suc (as_ticks s)\<rparr>)"

definition hash_secret :: "access_env \<Rightarrow> string \<Rightarrow> string" where
  "hash_secret env v = ae_sha256 env v"

definition server_resource :: "access_env \<Rightarrow> string" where
  "server_resource env = rstrip_slash (ae_resource_url env)"

definition opt_repr :: "string option \<Rightarrow> string" where
  "opt_repr v = (case v of None \<Rightarrow> ''None'' | Some s \<Rightarrow> py_repr s)"

definition invalid_target :: "string option \<Rightarrow> exn" where
  "invalid_target resource = AppError InvalidTargetError (''The requested resource '' @ opt_repr resource @ '' is not this MCP server.'')"

definition validate_resource :: "access_env \<Rightarrow> string option \<Rightarrow> string result" where
  "validate_resource env resource = (case resource of
       None \<Rightarrow> Inr (server_resource env)
     | Some r \<Rightarrow>
       if py_strip r = [] then Inr (server_resource env)
       else if rstrip_slash (py_strip r) \<noteq> server_resource env then Inl (invalid_target resource)
       else Inr (server_resource env))"

datatype scope_refusal = Scope_unknown | Scope_deployment | Scope_client

definition invalid_scope :: "scope_refusal \<Rightarrow> string list \<Rightarrow> exn" where
  "invalid_scope reason scopes = (let listed = py_join '' '' scopes in AppError InvalidScopeError (case reason of
       Scope_client \<Rightarrow> ''The application did not register for: '' @ listed @ ''. It must request these ''
         @ ''scopes when it registers with this server; reconnecting it will repeat the registration.''
     | Scope_deployment \<Rightarrow> ''This deployment does not grant: '' @ listed @ ''. That is an operator setting, ''
         @ ''not something you can change by reconnecting.''
     | Scope_unknown \<Rightarrow> ''Unknown scope(s): '' @ listed @ ''. Supported scopes are documents.read, ''
         @ ''documents.convert, documents.write, documents.delete, workspaces.read and workspaces.execute.''))"

definition resolve_scopes :: "access_env \<Rightarrow> oauth_client \<Rightarrow> string list \<Rightarrow> agent_scope list result" where
  "resolve_scopes env client requested =
     (let client_values = (case oc_scope client of None \<Rightarrow> [] | Some s \<Rightarrow> py_split s);
          raw = stripped_values requested;
          unknown = filter (\<lambda>v. v \<notin> set KNOWN_REQUEST_SCOPES) raw in
      if unknown \<noteq> [] then Inl (invalid_scope Scope_unknown unknown)
      else let scopes = (if raw \<noteq> [] then normalize_scopes raw else DEFAULT_SCOPES);
               disallowed = filter (\<lambda>s. s \<notin> set (ae_grantable env)) scopes;
               outside = filter (\<lambda>s. agent_scope_value s \<notin> set client_values) scopes in
        if disallowed \<noteq> [] then Inl (invalid_scope Scope_deployment (map agent_scope_value disallowed))
        else if client_values \<noteq> [] \<and> outside \<noteq> [] then Inl (invalid_scope Scope_client (map agent_scope_value outside))
        else Inr scopes)"

definition require_client :: "string \<Rightarrow> oauth_client access_op" where
  "require_client client_id = read_access (\<lambda>db. case get_client client_id db of
       None \<Rightarrow> Inl (AppError UnknownClientError (''Client ID '' @ [CHR 0x27] @ client_id @ [CHR 0x27] @ '' is not registered.''))
     | Some c \<Rightarrow> Inr c)"

definition ensure_redirect_uri :: "oauth_client \<Rightarrow> string \<Rightarrow> unit result" where
  "ensure_redirect_uri client redirect_uri =
     (if redirect_uri \<in> set (oc_redirect_uris client) then Inr ()
      else Inl (AppError InvalidRedirectUriError
             ''The redirect_uri does not match any registered redirect URI for this client.''))"

definition require_active_grant :: "string \<Rightarrow> string \<Rightarrow> agent_grant access_op" where
  "require_active_grant grant_id subject = read_access (\<lambda>db. case get_grant grant_id db of
       None \<Rightarrow> Inl (AppError InvalidGrantError ''The authorization grant is invalid, expired or revoked.'')
     | Some g \<Rightarrow>
       if str_int (ag_user_id g) \<noteq> subject
       then Inl (AppError InvalidGrantError ''The authorization grant is invalid, expired or revoked.'')
       else if \<not> grant_is_active g
       then Inl (AppError GrantRevokedError ''The user has revoked this application's access.'')
       else Inr g)"

definition register_client :: "access_env \<Rightarrow> oauth_client \<Rightarrow> oauth_client access_op" where
  "register_client env c = sbind (tick_op (ae_clock env)) (\<lambda>now. sbind (write_access (save_client now c)) (\<lambda>_. sreturn (Inr c)))"

text \<open>The request as the consent screen and the approval both check it.\<close>

definition check_request :: "access_env \<Rightarrow> string \<Rightarrow> string \<Rightarrow> string list \<Rightarrow> string option \<Rightarrow>
    (oauth_client \<times> agent_scope list \<times> string) access_op" where
  "check_request env client_id redirect_uri requested resource =
     sbind (require_client client_id) (\<lambda>client.
     sbind (sreturn (ensure_redirect_uri client redirect_uri)) (\<lambda>_.
     sbind (sreturn (resolve_scopes env client requested)) (\<lambda>scopes.
     sbind (sreturn (validate_resource env resource)) (\<lambda>resource_url.
     sreturn (Inr (client, scopes, resource_url))))))"

record authorization_view =
  av_client_id :: string
  av_client_name :: string
  av_redirect_uri :: string
  av_resource :: string
  av_requested_scopes :: "agent_scope list"
  av_already_granted :: "agent_scope list"
  av_folder_access :: folder_access
  av_folder_id :: "string option"
  av_history_scope :: history_scope

definition client_display :: "oauth_client \<Rightarrow> string \<Rightarrow> string" where
  "client_display client client_id = (case oc_client_name client of None \<Rightarrow> client_id | Some n \<Rightarrow> if n = [] then client_id else n)"

definition describe_authorization :: "access_env \<Rightarrow> int \<Rightarrow> string \<Rightarrow> string \<Rightarrow> string list \<Rightarrow> string option \<Rightarrow>
    authorization_view access_op" where
  "describe_authorization env user_id client_id redirect_uri requested resource =
     sbind (check_request env client_id redirect_uri requested resource) (\<lambda>(client, scopes, resource_url).
     sbind (read_access (\<lambda>db. Inr (get_grant_for_user_client user_id client_id db))) (\<lambda>existing.
     let already = (case existing of Some g \<Rightarrow> if grant_is_active g then ag_scopes g else [] | None \<Rightarrow> []) in
     sreturn (Inr \<lparr>av_client_id = client_id, av_client_name = client_display client client_id,
       av_redirect_uri = redirect_uri, av_resource = resource_url, av_requested_scopes = scopes,
       av_already_granted = filter (\<lambda>s. s \<in> set scopes) already,
       av_folder_access = (case existing of Some g \<Rightarrow> ag_folder_access g | None \<Rightarrow> Folder_ALL),
       av_folder_id = (case existing of Some g \<Rightarrow> ag_folder_id g | None \<Rightarrow> None),
       av_history_scope = (case existing of Some g \<Rightarrow> ag_history_scope g | None \<Rightarrow> History_AGENT)\<rparr>)))"

text \<open>The redirect: the registered URI, the code and the state.\<close>

definition approve :: "access_env \<Rightarrow> int \<Rightarrow> string \<Rightarrow> string \<Rightarrow> string list \<Rightarrow> string \<Rightarrow> string option \<Rightarrow> string option \<Rightarrow>
    folder_access \<Rightarrow> string option \<Rightarrow> history_scope \<Rightarrow> (string \<times> string \<times> string option) access_op" where
  "approve env user_id client_id redirect_uri requested code_challenge resource state access folder_id history =
     sbind (check_request env client_id redirect_uri requested resource) (\<lambda>(client, scopes, resource_url).
     if code_challenge = [] then raise_op (AppError InvalidGrantError ''A PKCE code_challenge is required.'')
     else sbind (tick_op (ae_clock env)) (\<lambda>now.
     sbind (tick_op (ae_uuid env)) (\<lambda>uuid.
     sbind (exec_access (upsert_grant now \<lparr>ag_id = uuid, ag_user_id = user_id, ag_client_id = client_id,
         ag_client_name = client_display client client_id, ag_scopes = scopes, ag_status = Grant_ACTIVE,
         ag_resource = Some resource_url, ag_folder_access = access, ag_folder_id = folder_id,
         ag_history_scope = history, ag_created_at = Some now, ag_last_used_at = None, ag_revoked_at = None,
         ag_paused_at = None\<rparr>)) (\<lambda>grant.
     sbind (tick_op (ae_secret env)) (\<lambda>code.
     sbind (exec_access (save_code \<lparr>cd_code_hash = hash_secret env code, cd_grant_id = ag_id grant,
         cd_client_id = client_id, cd_subject = str_int user_id, cd_scopes = scopes,
         cd_code_challenge = code_challenge, cd_redirect_uri = redirect_uri, cd_resource = Some resource_url,
         cd_expires_at = now + ae_code_ttl env, cd_used_at = None\<rparr>)) (\<lambda>_.
     sreturn (Inr (redirect_uri, code, state))))))))"

definition peek_authorization_code :: "access_env \<Rightarrow> string \<Rightarrow> authorization_code option access_op" where
  "peek_authorization_code env code = read_access (\<lambda>db. Inr (peek_code (hash_secret env code) db))"

definition peek_refresh_token :: "access_env \<Rightarrow> string \<Rightarrow> token_record option access_op" where
  "peek_refresh_token env token = read_access (\<lambda>db. Inr (get_token (hash_secret env token) db))"

record issued_tokens =
  it_access_token :: string
  it_expires_in :: int
  it_scopes :: "agent_scope list"
  it_refresh_token :: "string option"

definition mint_token :: "access_env \<Rightarrow> string \<Rightarrow> int \<Rightarrow> agent_grant \<Rightarrow> agent_scope list \<Rightarrow> string \<Rightarrow> int \<Rightarrow> string access_op" where
  "mint_token env kind ttl grant scopes resource now =
     sbind (tick_op (ae_secret env)) (\<lambda>token.
     sbind (tick_op (ae_clock env)) (\<lambda>created.
     sbind (exec_access (save_token created \<lparr>tk_token_hash = hash_secret env token, tk_grant_id = ag_id grant,
         tk_client_id = ag_client_id grant, tk_subject = str_int (ag_user_id grant), tk_kind = kind, tk_scopes = scopes,
         tk_expires_at = now + ttl, tk_resource = Some resource, tk_revoked_at = None\<rparr>)) (\<lambda>_.
     sreturn (Inr token))))"

definition issue :: "access_env \<Rightarrow> agent_grant \<Rightarrow> agent_scope list \<Rightarrow> string \<Rightarrow> int \<Rightarrow> bool \<Rightarrow> issued_tokens access_op" where
  "issue env grant scopes resource now with_refresh =
     sbind (mint_token env ''ACCESS'' (ae_access_ttl env) grant scopes resource now) (\<lambda>access_token.
     sbind (if with_refresh
         then sbind (mint_token env ''REFRESH'' (ae_refresh_ttl env) grant scopes resource now) (\<lambda>t. sreturn (Inr (Some t)))
         else sreturn (Inr None)) (\<lambda>refresh_token.
     sreturn (Inr \<lparr>it_access_token = access_token, it_expires_in = ae_access_ttl env div 1000000, it_scopes = scopes,
       it_refresh_token = refresh_token\<rparr>)))"

definition foreign_resource :: "string option \<Rightarrow> string \<Rightarrow> bool" where
  "foreign_resource stored presented = (case stored of None \<Rightarrow> False | Some r \<Rightarrow> r \<noteq> [] \<and> r \<noteq> presented)"

definition exchange_code :: "access_env \<Rightarrow> string \<Rightarrow> string \<Rightarrow> string option \<Rightarrow> string option \<Rightarrow> issued_tokens access_op" where
  "exchange_code env client_id code redirect_uri resource =
     sbind (tick_op (ae_clock env)) (\<lambda>now.
     sbind (exec_access (\<lambda>db. let (r, db') = take_code (hash_secret env code) now db in (Inr r, db'))) (\<lambda>found.
     case found of
       None \<Rightarrow> raise_op (AppError InvalidGrantError ''The authorization code is invalid, expired or already used.'')
     | Some c \<Rightarrow>
       if cd_client_id c \<noteq> client_id
       then raise_op (AppError InvalidGrantError ''The authorization code was issued to a different client.'')
       else if redirect_uri \<noteq> None \<and> cd_redirect_uri c \<noteq> the redirect_uri
       then raise_op (AppError InvalidGrantError ''The redirect_uri does not match the authorization request.'')
       else sbind (sreturn (validate_resource env resource)) (\<lambda>presented.
         if foreign_resource (cd_resource c) presented then raise_op (invalid_target resource)
         else sbind (require_active_grant (cd_grant_id c) (cd_subject c)) (\<lambda>grant.
           let scopes = filter (\<lambda>s. s \<in> set (ag_scopes grant)) (cd_scopes c) in
           if scopes = [] then raise_op (AppError GrantRevokedError ''The user has revoked this application's access.'')
           else issue env grant scopes presented now True))))"

definition narrow_scopes :: "string list \<Rightarrow> agent_scope list \<Rightarrow> agent_scope list result" where
  "narrow_scopes scopes held =
     (if scopes = [] then Inr held
      else let requested = normalize_scopes scopes in
        if requested = [] \<or> \<not> is_subset requested held then Inl (invalid_scope Scope_unknown scopes) else Inr requested)"

definition exchange_refresh :: "access_env \<Rightarrow> string \<Rightarrow> string \<Rightarrow> string list \<Rightarrow> string option \<Rightarrow> issued_tokens access_op" where
  "exchange_refresh env client_id refresh_token scopes resource =
     sbind (tick_op (ae_clock env)) (\<lambda>now.
     sbind (read_access (\<lambda>db. Inr (get_token (hash_secret env refresh_token) db))) (\<lambda>found.
     case found of
       None \<Rightarrow> raise_op (AppError InvalidGrantError ''The refresh token is invalid.'')
     | Some t \<Rightarrow>
       if tk_kind t \<noteq> ''REFRESH'' then raise_op (AppError InvalidGrantError ''The refresh token is invalid.'')
       else if tk_revoked_at t \<noteq> None \<or> tk_expires_at t \<le> now
       then raise_op (AppError InvalidGrantError ''The refresh token is expired or revoked.'')
       else if tk_client_id t \<noteq> client_id
       then raise_op (AppError InvalidGrantError ''The refresh token was issued to a different client.'')
       else sbind (sreturn (validate_resource env resource)) (\<lambda>presented.
         if foreign_resource (tk_resource t) presented then raise_op (invalid_target resource)
         else sbind (require_active_grant (tk_grant_id t) (tk_subject t)) (\<lambda>grant.
           sbind (sreturn (narrow_scopes scopes (tk_scopes t))) (\<lambda>narrowed.
           sbind (write_access (ae_rival env)) (\<lambda>_.
           sbind (write_access (revoke_token_row (tk_token_hash t) now)) (\<lambda>_.
           issue env grant narrowed presented now True)))))))"

definition load_access_token :: "access_env \<Rightarrow> string \<Rightarrow> token_record option access_op" where
  "load_access_token env token =
     sbind (tick_op (ae_clock env)) (\<lambda>now.
     sbind (read_access (\<lambda>db. Inr (get_token (hash_secret env token) db))) (\<lambda>found.
     case found of
       None \<Rightarrow> sreturn (Inr None)
     | Some t \<Rightarrow>
       if tk_kind t \<noteq> ''ACCESS'' \<or> tk_revoked_at t \<noteq> None \<or> tk_expires_at t \<le> now
          \<or> (tk_resource t \<noteq> None \<and> tk_resource t \<noteq> Some (server_resource env))
       then sreturn (Inr None)
       else sbind (read_access (\<lambda>db. Inr (get_grant (tk_grant_id t) db))) (\<lambda>grant.
         case grant of
           None \<Rightarrow> sreturn (Inr None)
         | Some g \<Rightarrow>
           if \<not> grant_is_active g \<or> \<not> is_subset (tk_scopes t) (ag_scopes g) then sreturn (Inr None)
           else sbind (if (case ag_last_used_at g of None \<Rightarrow> True | Some u \<Rightarrow> TOUCH_INTERVAL \<le> now - u)
               then write_access (touch_grant (tk_grant_id t) now) else sreturn (Inr ())) (\<lambda>_.
             sreturn (Inr (Some t))))))"

definition revoke_token :: "access_env \<Rightarrow> string \<Rightarrow> unit access_op" where
  "revoke_token env token = sbind (tick_op (ae_clock env)) (\<lambda>now. write_access (revoke_token_row (hash_secret env token) now))"

definition list_connections :: "int \<Rightarrow> agent_grant list access_op" where
  "list_connections user_id = read_access (\<lambda>db. Inr (list_grants user_id db))"

definition revoke_connection :: "access_env \<Rightarrow> int \<Rightarrow> string \<Rightarrow> agent_grant option access_op" where
  "revoke_connection env user_id grant_id =
     sbind (tick_op (ae_clock env)) (\<lambda>now.
     sbind (tick_op (ae_clock env)) (\<lambda>revoked_at.
     sbind (exec_access (\<lambda>db. let (g, db') = revoke_grant revoked_at grant_id user_id db in (Inr g, db'))) (\<lambda>grant.
     case grant of
       None \<Rightarrow> sreturn (Inr None)
     | Some g \<Rightarrow> sbind (write_access (\<lambda>db. snd (revoke_tokens_for_grant (ag_id g) now db))) (\<lambda>_. sreturn (Inr (Some g))))))"

definition set_status :: "access_env \<Rightarrow> int \<Rightarrow> string \<Rightarrow> agent_grant_status \<Rightarrow> agent_grant option access_op" where
  "set_status env user_id grant_id status =
     sbind (tick_op (ae_clock env)) (\<lambda>now.
     try_op (exec_access (set_grant_status (ae_rival env) grant_id user_id status now))
       (\<lambda>e. case e of AppError InvalidGrantTransition m \<Rightarrow> raise_op (AppError ConnectionStateError m) | _ \<Rightarrow> raise_op e))"

definition pause_connection :: "access_env \<Rightarrow> int \<Rightarrow> string \<Rightarrow> agent_grant option access_op" where
  "pause_connection env user_id grant_id = set_status env user_id grant_id Grant_PAUSED"

definition resume_connection :: "access_env \<Rightarrow> int \<Rightarrow> string \<Rightarrow> agent_grant option access_op" where
  "resume_connection env user_id grant_id = set_status env user_id grant_id Grant_ACTIVE"

definition edited_scopes :: "agent_grant \<Rightarrow> string list \<Rightarrow> bool \<Rightarrow> agent_scope list result" where
  "edited_scopes g scopes confirm_destructive =
     (let requested = map py_strip scopes;
          unknown = filter (\<lambda>v. v \<noteq> [] \<and> v \<notin> set KNOWN_REQUEST_SCOPES) requested;
          normalized = normalize_scopes requested in
      if unknown \<noteq> [] then Inl (invalid_scope Scope_unknown unknown)
      else if normalized = []
      then Inl (AppError ConnectionEditError (''A connection must keep at least one permission. ''
             @ ''To remove access entirely, revoke the connection instead.''))
      else if Scope_DOCUMENTS_DELETE \<in> set normalized \<and> Scope_DOCUMENTS_DELETE \<notin> set (ag_scopes g) \<and> \<not> confirm_destructive
      then Inl (AppError ConnectionEditError (''Allowing the agent to permanently delete your files is irreversible. ''
             @ ''Re-send the change with confirm_destructive=true to allow it.''))
      else Inr normalized)"

definition update_connected_app :: "access_env \<Rightarrow> int \<Rightarrow> string \<Rightarrow> string list \<Rightarrow> folder_access \<Rightarrow> string option \<Rightarrow> history_scope \<Rightarrow>
    bool \<Rightarrow> agent_grant option access_op" where
  "update_connected_app env user_id grant_id scopes access folder_id history confirm_destructive =
     sbind (read_access (\<lambda>db. Inr (get_grant grant_id db))) (\<lambda>grant.
     case grant of
       None \<Rightarrow> sreturn (Inr None)
     | Some g \<Rightarrow>
       if ag_user_id g \<noteq> user_id then sreturn (Inr None)
       else if ag_status g = Grant_REVOKED
       then raise_op (AppError ConnectionStateError (''A revoked connection cannot be edited. ''
              @ ''Reconnect the application to grant access again.''))
       else sbind (sreturn (edited_scopes g scopes confirm_destructive)) (\<lambda>normalized.
         exec_access (\<lambda>db. let (r, db') = update_grant_binding grant_id user_id normalized access folder_id history db
           in (Inr r, db'))))"

subsection \<open>Scopes in storage\<close>

text \<open>The scopes of a row read back as they were written, in canonical order.\<close>

lemma strip_scope_value [simp]: "py_strip (agent_scope_value s) = agent_scope_value s" "agent_scope_value s \<noteq> []"
  by (cases s; simp add: py_strip_def py_lstrip_def is_space_def)+

lemma scope_value_word: "\<forall>c \<in> set (agent_scope_value s). \<not> is_space c"
  by (cases s) (simp_all add: is_space_def)

lemma scope_value_inj [simp]: "agent_scope_value a = agent_scope_value b \<longleftrightarrow> a = b"
  by (cases a; cases b) simp_all

lemma all_scopes [simp]: "s \<in> set ALL_SCOPES"
  by (cases s) (simp_all add: ALL_SCOPES_def)

definition canonical :: "agent_scope list \<Rightarrow> bool" where
  "canonical scopes = (scopes = filter (\<lambda>s. s \<in> set scopes) ALL_SCOPES)"

lemma stripped_scope_values: "stripped_values (map agent_scope_value scopes) = map agent_scope_value scopes"
  by (induction scopes) (auto simp: stripped_values_def)

lemma split_scope_string: "py_split (scope_string scopes) = map agent_scope_value scopes"
  unfolding scope_string_def by (rule py_split_join) (auto simp: scope_value_word [rule_format])

lemma normalize_scope_string: "normalize_scopes (py_split (scope_string scopes)) = filter (\<lambda>s. s \<in> set scopes) ALL_SCOPES"
  by (simp add: split_scope_string normalize_scopes_def stripped_scope_values image_iff)

lemma canonical_reads_back: "canonical scopes \<Longrightarrow> normalize_scopes (py_split (scope_string scopes)) = scopes"
  by (simp add: normalize_scope_string canonical_def)

lemma canonical_filter: "canonical (filter P ALL_SCOPES)"
  unfolding canonical_def by (rule filter_cong) auto

lemma canonical_normalize: "canonical (normalize_scopes values)"
  unfolding normalize_scopes_def by (rule canonical_filter)

lemma canonical_default: "canonical DEFAULT_SCOPES"
  by (simp add: canonical_def DEFAULT_SCOPES_def ALL_SCOPES_def)

lemma canonical_restrict:
  assumes "canonical scopes"
  shows "canonical (filter P scopes)"
proof -
  have "filter P scopes = filter P (filter (\<lambda>s. s \<in> set scopes) ALL_SCOPES)"
    by (rule arg_cong [OF assms [unfolded canonical_def]])
  then have "filter P scopes = filter (\<lambda>s. P s \<and> s \<in> set scopes) ALL_SCOPES" by (simp add: conj_commute)
  then show ?thesis using canonical_filter by simp
qed

lemma py_strip_twice [simp]: "py_strip (py_strip s) = py_strip s"
proof (rule py_strip_id, cases "py_strip s = []")
  case False
  let ?u = "dropWhile is_space s"
  have d: "dropWhile is_space (rev ?u) \<noteq> []" using False by (simp add: py_strip_def)
  then have "?u \<noteq> []" by (metis dropWhile.simps(1) rev.simps(1))
  moreover have "?u = py_strip s @ rev (takeWhile is_space (rev ?u))"
    unfolding py_strip_def by (metis rev_append rev_rev_ident takeWhile_dropWhile_id)
  ultimately have "hd (py_strip s) = hd ?u" using False by (metis hd_append2)
  moreover have "\<not> is_space (hd ?u)" using \<open>?u \<noteq> []\<close> hd_dropWhile by blast
  moreover have "last (py_strip s) = hd (dropWhile is_space (rev ?u))" using d by (simp add: py_strip_def last_rev)
  moreover have "\<not> is_space (hd (dropWhile is_space (rev ?u)))" using d hd_dropWhile by blast
  ultimately show "py_strip s = [] \<or> (\<not> is_space (hd (py_strip s)) \<and> \<not> is_space (last (py_strip s)))" by simp
qed simp

lemma stripped_twice [simp]: "stripped_values (stripped_values values) = stripped_values values"
  by (induction "values") (auto simp: stripped_values_def)

lemma set_normalize: "s \<in> set (normalize_scopes values) \<longleftrightarrow> agent_scope_value s \<in> set (stripped_values values)"
  by (simp add: normalize_scopes_def)

end
