(* ===== verification/Agent_Safety.thy ===== *)
theory Agent_Safety
  imports Agent_Access
begin

text \<open>
  What the agent access promises. The repository's statements form a step relation on the tables, every
  service method of \<open>Agent_Access\<close> is shown to be a sequence of such steps, and the properties follow by
  rule induction: the tables stay sound, a token that loads honours the consent of its own user, a revoked
  connection stays dead until its user consents again, and an authorization code is redeemed once.
\<close>

section \<open>The statements as a step relation\<close>

definition grant_keys :: "mcp_db \<Rightarrow> (string \<times> int \<times> string) set" where
  "grant_keys db = (\<lambda>g. (gr_id g, gr_user_id g, gr_client_id g)) ` set (md_grants db)"

definition consent_keys :: "mcp_db \<Rightarrow> (int \<times> string) list" where
  "consent_keys db = map (\<lambda>g. (gr_user_id g, gr_client_id g)) (md_grants db)"

text \<open>
  One step is one method of \<open>sql_mcp_repo.py\<close> as the service calls it, a change of status with the steps of
  other sessions between its check and its write. \<open>ok\<close> says whose consent may be recorded, and secrets
  are those drawn from tick \<open>N\<close> on.
\<close>

inductive mcp_step :: "access_env \<Rightarrow> nat \<Rightarrow> (int \<Rightarrow> string \<Rightarrow> bool) \<Rightarrow> mcp_db \<Rightarrow> mcp_db \<Rightarrow> bool"
  for env :: access_env and N :: nat and ok :: "int \<Rightarrow> string \<Rightarrow> bool" where
  step_client: "mcp_step env N ok db (save_client now c db)"
| step_consent: "ok (ag_user_id g) (ag_client_id g) \<Longrightarrow> mcp_step env N ok db (snd (upsert_grant now g db))"
| step_revoke: "mcp_step env N ok db (snd (revoke_grant now gid uid db))"
| step_status: "\<lbrakk>st \<noteq> Grant_REVOKED; (mcp_step env N ok)\<^sup>*\<^sup>* db (rival db)\<rbrakk> \<Longrightarrow>
    mcp_step env N ok db (snd (set_grant_status rival gid uid st now db))"
| step_binding: "mcp_step env N ok db (snd (update_grant_binding gid uid scopes access folder_id history db))"
| step_touch: "mcp_step env N ok db (touch_grant gid now db)"
| step_code: "\<lbrakk>N \<le> n; cd_code_hash c = hash_secret env (ae_secret env n);
    (cd_grant_id c, u, cd_client_id c) \<in> grant_keys db; cd_subject c = str_int u\<rbrakk> \<Longrightarrow>
    mcp_step env N ok db (snd (save_code c db))"
| step_take: "mcp_step env N ok db (snd (take_code h now db))"
| step_token: "\<lbrakk>(tk_grant_id t, u, tk_client_id t) \<in> grant_keys db; tk_subject t = str_int u\<rbrakk> \<Longrightarrow>
    mcp_step env N ok db (snd (save_token now t db))"
| step_revoke_row: "mcp_step env N ok db (revoke_token_row h now db)"
| step_revoke_all: "mcp_step env N ok db (snd (revoke_tokens_for_grant gid now db))"
| step_sweep: "mcp_step env N ok db (snd (delete_expired now db))"

abbreviation mcp_steps :: "access_env \<Rightarrow> nat \<Rightarrow> (int \<Rightarrow> string \<Rightarrow> bool) \<Rightarrow> mcp_db \<Rightarrow> mcp_db \<Rightarrow> bool" where
  "mcp_steps env N ok \<equiv> (mcp_step env N ok)\<^sup>*\<^sup>*"

text \<open>What other sessions do in between are statements of the same kind.\<close>

definition rivals_step :: "access_env \<Rightarrow> nat \<Rightarrow> (int \<Rightarrow> string \<Rightarrow> bool) \<Rightarrow> bool" where
  "rivals_step env N ok = (\<forall>db. mcp_steps env N ok db (ae_rival env db))"

subsection \<open>Changing the first row a condition selects\<close>

lemma update_first_simps [simp]:
  "update_first P f [] = []"
  "update_first P f (r # t) = (if P r then f r # t else r # update_first P f t)"
  by (simp_all add: update_first_def del: dropWhile_eq_Nil_conv split: list.split)

lemma set_update_first: "set (update_first P f t) \<subseteq> set t \<union> f ` {r \<in> set t. P r}"
  by (induction t) auto

lemma map_update_first: "(\<And>r. P r \<Longrightarrow> key (f r) = key r) \<Longrightarrow> map key (update_first P f t) = map key t"
  by (induction t) auto

lemma sql_first_update_first:
  "(\<And>r. P r \<Longrightarrow> P (f r)) \<Longrightarrow>
    sql_first (sql_select P (update_first P f t)) = map_option f (sql_first (sql_select P t))"
  by (induction t) (auto simp: sql_first_def sql_select_def)

subsection \<open>The tables stay sound\<close>

text \<open>
  The keys are unique, as the schema declares, and every code and token names a grant and carries that
  grant's own user and application.
\<close>

definition bound_to :: "mcp_db \<Rightarrow> string \<Rightarrow> string \<Rightarrow> string \<Rightarrow> bool" where
  "bound_to db gid client_id subject = (\<exists>u. (gid, u, client_id) \<in> grant_keys db \<and> subject = str_int u)"

definition access_sound :: "mcp_db \<Rightarrow> bool" where
  "access_sound db = (unique_key (\<lambda>r. oc_client_id (cl_client r)) (md_clients db) \<and> unique_key gr_id (md_grants db)
     \<and> unique_key (\<lambda>g. (gr_user_id g, gr_client_id g)) (md_grants db)
     \<and> unique_key co_code_hash (md_codes db) \<and> unique_key to_token_hash (md_tokens db)
     \<and> (\<forall>c \<in> set (md_codes db). bound_to db (co_grant_id c) (co_client_id c) (co_subject c))
     \<and> (\<forall>t \<in> set (md_tokens db). bound_to db (to_grant_id t) (to_client_id t) (to_subject t)))"

definition empty_mcp :: mcp_db where
  "empty_mcp = \<lparr>md_clients = [], md_grants = [], md_codes = [], md_tokens = []\<rparr>"

lemma empty_mcp_sound: "access_sound empty_mcp"
  by (simp add: access_sound_def empty_mcp_def)

text \<open>A statement on the grants that keeps their keys, and leaves the other tables alone.\<close>

definition grants_only :: "mcp_db \<Rightarrow> mcp_db \<Rightarrow> bool" where
  "grants_only db db' = (md_clients db' = md_clients db \<and> md_codes db' = md_codes db \<and> md_tokens db' = md_tokens db
     \<and> map (\<lambda>g. (gr_id g, gr_user_id g, gr_client_id g)) (md_grants db')
       = map (\<lambda>g. (gr_id g, gr_user_id g, gr_client_id g)) (md_grants db))"

lemma grants_only_keys:
  assumes "grants_only db db'"
  shows "grant_keys db' = grant_keys db" "map gr_id (md_grants db') = map gr_id (md_grants db)"
    "map (\<lambda>g. (gr_user_id g, gr_client_id g)) (md_grants db') = map (\<lambda>g. (gr_user_id g, gr_client_id g)) (md_grants db)"
proof -
  have e: "map (\<lambda>g. (gr_id g, gr_user_id g, gr_client_id g)) (md_grants db')
       = map (\<lambda>g. (gr_id g, gr_user_id g, gr_client_id g)) (md_grants db)"
    using assms by (simp add: grants_only_def)
  show "grant_keys db' = grant_keys db" using arg_cong [OF e, of set] by (simp add: grant_keys_def)
  show "map gr_id (md_grants db') = map gr_id (md_grants db)" using arg_cong [OF e, of "map fst"] by (simp add: comp_def)
  show "map (\<lambda>g. (gr_user_id g, gr_client_id g)) (md_grants db') = map (\<lambda>g. (gr_user_id g, gr_client_id g)) (md_grants db)"
    using arg_cong [OF e, of "map snd"] by (simp add: comp_def)
qed

lemma grants_only_sound: "grants_only db db' \<Longrightarrow> access_sound db \<Longrightarrow> access_sound db'"
  using grants_only_keys [of db db']
  by (simp add: access_sound_def unique_key_def bound_to_def) (simp add: grants_only_def)

lemmas grant_statement_defs = revoke_grant_def update_grant_binding_def Let_def

lemma grants_only_update_first:
  assumes "\<And>r. (gr_id (f r), gr_user_id (f r), gr_client_id (f r)) = (gr_id r, gr_user_id r, gr_client_id r)"
  shows "grants_only db (db\<lparr>md_grants := update_first P f (md_grants db)\<rparr>)"
  unfolding grants_only_def using map_update_first [of P "\<lambda>g. (gr_id g, gr_user_id g, gr_client_id g)" f, OF assms] by simp

lemma grants_only_refl [simp]: "grants_only db db"
  by (simp add: grants_only_def)

lemma grant_statements_only:
  "grants_only db (snd (revoke_grant now gid uid db))"
  "grants_only db (snd (update_grant_binding gid uid scopes access folder_id history db))"
  "grants_only db (touch_grant gid now db)"
  by (auto simp: grant_statement_defs intro!: grants_only_update_first split: option.splits)
    (simp add: grants_only_def touch_grant_def sql_update_def)

text \<open>A change of status writes nothing, or nothing of its own, or the status of the one grant, which it found unrevoked.\<close>

lemma status_cases:
  obtains (kept) "snd (set_grant_status rival gid uid st now db) = db"
  | (stale) row where "snd (set_grant_status rival gid uid st now db) = rival db"
      "sql_first (sql_select (owned_grant gid uid) (md_grants db)) = Some row" "gr_status row \<noteq> ''REVOKED''"
  | (written) row p where "snd (set_grant_status rival gid uid st now db) = (rival db)\<lparr>md_grants :=
        sql_update (\<lambda>r. gr_id r = gid) (\<lambda>r. r\<lparr>gr_status := agent_grant_status_value st, gr_paused_at := p r\<rparr>) (md_grants (rival db))\<rparr>"
      "sql_first (sql_select (owned_grant gid uid) (md_grants db)) = Some row" "gr_status row \<noteq> ''REVOKED''"
proof (cases "sql_first (sql_select (owned_grant gid uid) (md_grants db))")
  case None
  then show ?thesis by (intro that(1)) (simp add: set_grant_status_def)
next
  case (Some row)
  then have id: "gr_id row = gid" by (auto simp: owned_grant_def dest: sql_first_Some)
  show ?thesis
  proof (cases "gr_status row = ''REVOKED'' \<or> gr_status row = agent_grant_status_value st")
    case True
    then show ?thesis using Some by (intro that(1)) (auto simp: set_grant_status_def)
  next
    case False
    let ?p = "if st = Grant_PAUSED then Some now else None"
    show ?thesis
    proof (cases "gid \<in> gr_id ` set (md_grants (rival db))")
      case True
      then show ?thesis using False Some id
        by (intro that(3) [of "\<lambda>r. if ?p = gr_paused_at row then gr_paused_at r else ?p" row]) (simp_all add: set_grant_status_def Let_def)
    next
      case gone: False
      then show ?thesis using False Some id by (intro that(2) [of row]) (simp_all add: set_grant_status_def Let_def)
    qed
  qed
qed

lemma grants_only_written: "grants_only db (db\<lparr>md_grants := sql_update P (\<lambda>r. r\<lparr>gr_status := x, gr_paused_at := p r\<rparr>) (md_grants db)\<rparr>)"
  by (simp add: grants_only_def sql_update_def)

lemma status_after_rival: "snd (set_grant_status rival gid uid st now db) = db \<or> grants_only (rival db) (snd (set_grant_status rival gid uid st now db))"
  by (cases rule: status_cases [of rival gid uid st now db]) (simp_all add: grants_only_written)

text \<open>What each step keeps, the steps of the rivals keep.\<close>

lemma rivals_keep: "(\<lambda>x y. S x y \<and> (Q x \<longrightarrow> Q y))\<^sup>*\<^sup>* a b \<Longrightarrow> Q a \<Longrightarrow> Q b"
  by (induction rule: rtranclp_induct) auto

lemma upsert_cases:
  obtains (clash) "snd (upsert_grant now g db) = db" "fst (upsert_grant now g db) = Inl IntegrityError"
  | (added) "snd (upsert_grant now g db) = db\<lparr>md_grants := md_grants db @ [new_grant_row now g]\<rparr>"
      "fst (upsert_grant now g db) = Inr (to_grant (new_grant_row now g))"
      "ag_id g \<notin> gr_id ` set (md_grants db)" "\<forall>r \<in> set (md_grants db). \<not> for_client (ag_user_id g) (ag_client_id g) r"
  | (rewritten) row where
      "snd (upsert_grant now g db) = db\<lparr>md_grants := update_first (for_client (ag_user_id g) (ag_client_id g)) (write_consent g) (md_grants db)\<rparr>"
      "fst (upsert_grant now g db) = Inr (to_grant (write_consent g row))" "row \<in> set (md_grants db)"
      "for_client (ag_user_id g) (ag_client_id g) row"
      "sql_first (sql_select (for_client (ag_user_id g) (ag_client_id g)) (md_grants db)) = Some row"
proof (cases "sql_first (sql_select (for_client (ag_user_id g) (ag_client_id g)) (md_grants db))")
  case None
  show ?thesis
  proof (cases "ag_id g \<in> gr_id ` set (md_grants db)")
    case True
    with None show ?thesis by (intro that(1)) (simp_all add: upsert_grant_def)
  next
    case False
    with None show ?thesis by (intro that(2)) (simp_all add: upsert_grant_def sql_first_None [symmetric])
  qed
next
  case (Some row)
  from that(3) [OF _ _ _ _ Some] sql_first_Some [OF Some] show ?thesis using Some by (auto simp: upsert_grant_def Let_def)
qed

lemma grant_keys_grow: "mcp_step env N ok db db' \<Longrightarrow> grant_keys db \<subseteq> grant_keys db'"
proof (induction rule: mcp_step.induct)
  case (step_consent g db now)
  show ?case
  proof (cases rule: upsert_cases [of now g db])
    case (rewritten row)
    have "grants_only db (snd (upsert_grant now g db))"
      unfolding rewritten by (rule grants_only_update_first) (simp add: write_consent_def)
    then show ?thesis using grants_only_keys(1) by blast
  qed (auto simp: grant_keys_def)
next
  case (step_client db now c)
  then show ?case by (auto simp: save_client_def grant_keys_def split: option.splits)
next
  case (step_status st db rival gid uid now)
  from step_status(2) have "grant_keys db \<subseteq> grant_keys (rival db)" by (induction rule: rtranclp_induct) auto
  then show ?case
    using status_after_rival [of rival gid uid st now db] grants_only_keys(1) [of "rival db" "snd (set_grant_status rival gid uid st now db)"] by fastforce
qed (use grants_only_keys(1) [OF grant_statements_only(1)] grants_only_keys(1) [OF grant_statements_only(2)]
      grants_only_keys(1) [OF grant_statements_only(3)] in
    \<open>auto simp: save_code_def take_code_def save_token_def revoke_token_row_def revoke_tokens_for_grant_def
       delete_expired_def Let_def grant_keys_def\<close>)

lemma grant_keys_grow_steps: "mcp_steps env N ok db db' \<Longrightarrow> grant_keys db \<subseteq> grant_keys db'"
  by (induction rule: rtranclp_induct) (auto dest: grant_keys_grow)

lemma bound_to_mono: "grant_keys db \<subseteq> grant_keys db' \<Longrightarrow> bound_to db g c s \<Longrightarrow> bound_to db' g c s"
  by (auto simp: bound_to_def)

lemma save_client_sound:
  assumes "access_sound db"
  shows "access_sound (save_client now c db)"
proof (cases "get_client (oc_client_id c) db")
  case None
  then have "oc_client_id c \<notin> (\<lambda>r. oc_client_id (cl_client r)) ` set (md_clients db)"
    by (auto simp: get_client_def sql_first_None)
  then show ?thesis using assms None
    by (simp add: access_sound_def save_client_def unique_key_append bound_to_def grant_keys_def)
next
  case (Some x)
  have "unique_key (\<lambda>r. oc_client_id (cl_client r)) (sql_update (\<lambda>r. oc_client_id (cl_client r) = oc_client_id c)
      (cl_client_update (\<lambda>_. c)) (md_clients db)) = unique_key (\<lambda>r. oc_client_id (cl_client r)) (md_clients db)"
    by (rule unique_key_update) simp
  then show ?thesis using assms Some by (simp add: access_sound_def save_client_def bound_to_def grant_keys_def)
qed

lemma upsert_sound:
  assumes "access_sound db"
  shows "access_sound (snd (upsert_grant now g db))"
proof (cases rule: upsert_cases [of now g db])
  case added
  have "grant_keys db \<subseteq> grant_keys (snd (upsert_grant now g db))"
    unfolding added by (auto simp: grant_keys_def)
  with added assms show ?thesis
    by (auto simp: access_sound_def unique_key_append new_grant_row_def for_client_def intro: bound_to_mono)
next
  case (rewritten row)
  have "grants_only db (snd (upsert_grant now g db))"
    unfolding rewritten by (rule grants_only_update_first) (simp add: write_consent_def)
  then show ?thesis using assms by (rule grants_only_sound)
qed (simp add: assms)

lemma table_statements_sound:
  assumes "access_sound db"
  shows "bound_to db (cd_grant_id c) (cd_client_id c) (cd_subject c) \<Longrightarrow> access_sound (snd (save_code c db))"
    "bound_to db (tk_grant_id t) (tk_client_id t) (tk_subject t) \<Longrightarrow> access_sound (snd (save_token now t db))"
    "access_sound (snd (take_code h now db))" "access_sound (revoke_token_row h now db)"
    "access_sound (snd (revoke_tokens_for_grant gid now db))" "access_sound (snd (delete_expired now db))"
  using assms
  by (auto simp: access_sound_def save_code_def save_token_def take_code_def revoke_token_row_def
      revoke_tokens_for_grant_def delete_expired_def Let_def unique_key_append unique_key_update unique_key_delete
      bound_to_def grant_keys_def sql_simps)

lemma mcp_step_sound: "mcp_step env N ok db db' \<Longrightarrow> access_sound db \<Longrightarrow> access_sound db'"
proof (induction rule: mcp_step.induct)
  case (step_code n c u db)
  then show ?case by (intro table_statements_sound(1)) (auto simp: bound_to_def)
next
  case (step_token t u db now)
  then show ?case by (intro table_statements_sound(2)) (auto simp: bound_to_def)
next
  case (step_status st db rival gid uid now)
  have "access_sound (rival db)" by (rule rivals_keep [OF step_status(2) step_status(3)])
  then show ?case
    using status_after_rival [of rival gid uid st now db] grants_only_sound [of "rival db" "snd (set_grant_status rival gid uid st now db)"] step_status(3) by fastforce
qed (auto intro: save_client_sound upsert_sound table_statements_sound
      grants_only_sound [OF grant_statements_only(1)] grants_only_sound [OF grant_statements_only(2)]
      grants_only_sound [OF grant_statements_only(3)])

lemma mcp_steps_sound: "mcp_steps env N ok db db' \<Longrightarrow> access_sound db \<Longrightarrow> access_sound db'"
  by (induction rule: rtranclp_induct) (auto dest: mcp_step_sound)

section \<open>The service issues only such statements\<close>

definition issues :: "access_env \<Rightarrow> nat \<Rightarrow> (int \<Rightarrow> string \<Rightarrow> bool) \<Rightarrow> access_state \<Rightarrow> access_state \<Rightarrow> bool" where
  "issues env N ok s t = (as_ticks s \<le> as_ticks t \<and> (N \<le> as_ticks s \<longrightarrow> mcp_steps env N ok (as_db s) (as_db t)))"

interpretation mc: state_frame "issues env N ok" for env N ok
  by unfold_locales (auto simp: issues_def elim: rtranclp_trans)

lemma issues_read: "issues env N ok s (snd (read_access f s))"
  by (simp add: issues_def read_access_def)

lemma issues_tick: "issues env N ok s (snd (tick_op f s))"
  by (simp add: issues_def tick_op_def)

lemma issues_exec:
  "mcp_steps env N ok (as_db s) (snd (f (as_db s))) \<Longrightarrow> issues env N ok s (snd (exec_access f s))"
  by (auto simp: issues_def exec_access_def split: prod.splits)

lemma issues_write: "mcp_steps env N ok (as_db s) (f (as_db s)) \<Longrightarrow> issues env N ok s (snd (write_access f s))"
  by (auto simp: issues_def write_access_def)

lemmas issues_base = issues_read issues_tick mc.sreturn_frame mc.raise_frame

lemma mcp_one: "mcp_step env N ok db db' \<Longrightarrow> mcp_steps env N ok db db'"
  by blast

lemma exec_pair: "snd ((\<lambda>db. let (r, db') = f db in (Inr r, db')) db) = snd (f db)"
  by (simp add: case_prod_beta)

lemma issues_client: "issues env N ok s (snd (register_client env c s))"
  unfolding register_client_def
  by (intro mc.sbind_frame issues_base issues_write mcp_one step_client)

lemma issues_check: "issues env N ok s (snd (check_request env client_id redirect_uri requested resource s))"
  unfolding check_request_def require_client_def by (intro mc.sbind_frame issues_base)

lemma exec_result: "exec_access f s = (Inr a, t) \<longleftrightarrow> f (as_db s) = (Inr a, as_db t) \<and> as_ticks t = as_ticks s"
  by (cases "f (as_db s)"; cases s; cases t) (auto simp: exec_access_def)

lemma tick_result: "tick_op f s = (Inr a, t) \<longleftrightarrow> a = f (as_ticks s) \<and> t = s\<lparr>as_ticks := Suc (as_ticks s)\<rparr>"
  by (auto simp: tick_op_def)

lemma upsert_result_key:
  assumes "upsert_grant now g db = (Inr r, db')"
  shows "(ag_id r, ag_user_id g, ag_client_id g) \<in> grant_keys db'"
proof (cases rule: upsert_cases [of now g db])
  case (rewritten row)
  have "grants_only db (snd (upsert_grant now g db))"
    unfolding rewritten by (rule grants_only_update_first) (simp add: write_consent_def)
  then have "grant_keys db' = grant_keys db" using assms grants_only_keys(1) by fastforce
  moreover have "ag_id r = gr_id row" using rewritten(2) assms by (auto simp: to_grant_def write_consent_def)
  ultimately show ?thesis using rewritten(3,4) by (force simp: grant_keys_def for_client_def)
qed (use assms in \<open>auto simp: grant_keys_def to_grant_def new_grant_row_def\<close>)

lemma issues_save_code:
  assumes "(gid, u, client_id) \<in> grant_keys (as_db s)"
    and c: "\<And>code. cd_grant_id (c code) = gid \<and> cd_client_id (c code) = client_id \<and> cd_subject (c code) = str_int u
      \<and> cd_code_hash (c code) = hash_secret env code"
  shows "issues env N ok s (snd (sbind (tick_op (ae_secret env)) (\<lambda>code.
    sbind (exec_access (save_code (c code))) (\<lambda>_. sreturn (Inr (r code)))) s))"
proof -
  let ?c = "c (ae_secret env (as_ticks s))"
  have "snd (sbind (tick_op (ae_secret env)) (\<lambda>code. sbind (exec_access (save_code (c code))) (\<lambda>_. sreturn (Inr (r code)))) s)
      = \<lparr>as_db = snd (save_code ?c (as_db s)), as_ticks = Suc (as_ticks s)\<rparr>"
    by (simp add: sbind_def tick_op_def exec_access_def sreturn_def split: prod.splits sum.splits)
  moreover have "N \<le> as_ticks s \<Longrightarrow> mcp_steps env N ok (as_db s) (snd (save_code ?c (as_db s)))"
    using assms(1) c by (intro mcp_one step_code [of N "as_ticks s" _ _ u]) auto
  ultimately show ?thesis by (simp add: issues_def)
qed

lemma issues_approve:
  assumes "ok user_id client_id"
  shows "issues env N ok s (snd (approve env user_id client_id redirect_uri requested code_challenge resource state access folder_id history s))"
  unfolding approve_def
proof (rule mc.sbind_frame_dep, rule issues_check, clarsimp, intro conjI impI mc.raise_frame, rule mc.sbind_frame_dep,
    rule issues_tick, rule mc.sbind_frame_dep, rule issues_tick, rule mc.sbind_frame_dep, goal_cases consent code)
  case (consent a scopes resource' t now ta uuid tb)
  then show ?case using assms by (intro issues_exec mcp_one step_consent) simp
next
  case (code a scopes resource' t now ta uuid tb g tc)
  from code(5) [unfolded exec_result] have "(ag_id g, user_id, client_id) \<in> grant_keys (as_db tc)"
    by (auto dest!: upsert_result_key)
  then show ?case by (rule issues_save_code) simp
qed

lemma issues_mint:
  assumes "(ag_id grant, ag_user_id grant, ag_client_id grant) \<in> grant_keys (as_db s)"
  shows "issues env N ok s (snd (mint_token env kind ttl grant scopes resource now s))"
  unfolding mint_token_def
proof (intro mc.sbind_frame_dep issues_base, goal_cases save)
  case (save token ta created tb)
  then have "as_db tb = as_db s" by (simp add: tick_result)
  with assms show ?case by (intro issues_exec mcp_one step_token) auto
qed

lemma issues_keys:
  assumes "issues env N ok s t" "N \<le> as_ticks s" "k \<in> grant_keys (as_db s)"
  shows "k \<in> grant_keys (as_db t)"
  using assms by (auto simp: issues_def dest: grant_keys_grow_steps)

lemma mint_keys: "grant_keys (as_db (snd (mint_token env kind ttl grant scopes resource now s))) = grant_keys (as_db s)"
  by (simp add: mint_token_def sbind_def tick_op_def exec_access_def sreturn_def save_token_def grant_keys_def)

lemma issues_issue:
  assumes "(ag_id grant, ag_user_id grant, ag_client_id grant) \<in> grant_keys (as_db s)"
  shows "issues env N ok s (snd (issue env grant scopes resource now with_refresh s))"
  unfolding issue_def
proof (rule mc.sbind_frame_dep, rule issues_mint [OF assms], goal_cases)
  case (1 access_token t)
  have "(ag_id grant, ag_user_id grant, ag_client_id grant) \<in> grant_keys (as_db t)"
    using mint_keys [of env "''ACCESS''" "ae_access_ttl env" grant scopes resource now s] assms 1 by simp
  then show ?case
    by (cases with_refresh) (auto intro!: mc.sbind_frame_dep issues_mint issues_base)
qed

lemma require_active_result:
  assumes "require_active_grant gid subject s = (Inr g, t)"
  shows "t = s" "get_grant gid (as_db s) = Some g" "grant_is_active g" "str_int (ag_user_id g) = subject"
    "ag_id g = gid" "(ag_id g, ag_user_id g, ag_client_id g) \<in> grant_keys (as_db s)"
proof -
  show r: "t = s" "get_grant gid (as_db s) = Some g" "grant_is_active g" "str_int (ag_user_id g) = subject"
    using assms by (auto simp: require_active_grant_def read_access_def split: option.splits if_splits)
  from r(2) obtain row where "row \<in> set (md_grants (as_db s))" "gr_id row = gid" "g = to_grant row"
    by (auto simp: get_grant_def dest: sql_first_Some)
  then show "ag_id g = gid" "(ag_id g, ag_user_id g, ag_client_id g) \<in> grant_keys (as_db s)"
    by (auto simp: to_grant_def grant_keys_def)
qed

lemma issues_require: "issues env N ok s (snd (require_active_grant gid subject s))"
  by (simp add: require_active_grant_def issues_read)

lemma issues_exchange_code:
  "issues env N ok s (snd (exchange_code env client_id code redirect_uri resource s))"
  unfolding exchange_code_def
proof (intro mc.sbind_frame issues_base issues_exec, goal_cases take rest)
  case (take now s)
  show ?case unfolding exec_pair by (rule mcp_one [OF step_take])
next
  case (rest now s' found s)
  show ?case
  proof (cases found)
    case (Some c)
    show ?thesis unfolding Some option.case
      by (rule mc.if_frame, rule mc.raise_frame, rule mc.if_frame, rule mc.raise_frame, rule mc.sbind_frame,
          rule mc.sreturn_frame, rule mc.if_frame, rule mc.raise_frame, rule mc.sbind_frame_dep [OF issues_require])
        (auto simp: Let_def intro!: mc.raise_frame issues_issue dest: require_active_result)
  qed (simp add: mc.raise_frame)
qed

lemma issues_rotate:
  assumes riv: "rivals_step env N ok" and key: "(ag_id grant, ag_user_id grant, ag_client_id grant) \<in> grant_keys (as_db s)"
  shows "issues env N ok s (snd (sbind (write_access (ae_rival env)) (\<lambda>_.
    sbind (write_access (revoke_token_row h now)) (\<lambda>_. issue env grant scopes presented now True)) s))"
proof (rule mc.sbind_frame_dep, goal_cases)
  case 1
  then show ?case using riv by (intro issues_write) (simp add: rivals_step_def)
next
  case (2 a t)
  have "grant_keys (as_db s) \<subseteq> grant_keys (as_db t)"
    using 2 riv grant_keys_grow_steps [of env N ok "as_db s" "as_db t"] by (simp add: rivals_step_def write_access_def) auto
  then have k: "(ag_id grant, ag_user_id grant, ag_client_id grant) \<in> grant_keys (as_db t)" using key by blast
  show ?case
  proof (rule mc.sbind_frame_dep, goal_cases)
    case 1
    then show ?case by (intro issues_write mcp_one step_revoke_row)
  next
    case (2 a u)
    then have "grant_keys (as_db u) = grant_keys (as_db t)"
      by (auto simp: write_access_def revoke_token_row_def grant_keys_def)
    with k show ?case by (intro issues_issue) simp
  qed
qed

lemma issues_exchange_refresh:
  assumes "rivals_step env N ok"
  shows "issues env N ok s (snd (exchange_refresh env client_id token scopes resource s))"
  unfolding exchange_refresh_def
proof (intro mc.sbind_frame issues_base, goal_cases rest)
  case (rest now s' found s)
  show ?case
  proof (cases found)
    case (Some t)
    show ?thesis unfolding Some option.case
    proof (rule mc.if_frame, rule mc.raise_frame, rule mc.if_frame, rule mc.raise_frame, rule mc.if_frame,
        rule mc.raise_frame, rule mc.sbind_frame, rule mc.sreturn_frame, rule mc.if_frame, rule mc.raise_frame,
        rule mc.sbind_frame_dep [OF issues_require], goal_cases)
      case (1 presented u grant v)
      from require_active_result [OF 1] have k: "(ag_id grant, ag_user_id grant, ag_client_id grant) \<in> grant_keys (as_db v)"
        by simp
      show ?case
        by (rule mc.sbind_frame_dep, rule mc.sreturn_frame, rule issues_rotate [OF assms]) (use k in \<open>auto simp: sreturn_def\<close>)
    qed
  qed (simp add: mc.raise_frame)
qed

lemma issues_load: "issues env N ok s (snd (load_access_token env token s))"
  unfolding load_access_token_def
  by (intro mc.sbind_frame issues_base mc.option_frame mc.if_frame issues_write mcp_one step_touch)

lemma issues_revoke_token: "issues env N ok s (snd (revoke_token env token s))"
  unfolding revoke_token_def by (intro mc.sbind_frame issues_base issues_write mcp_one step_revoke_row)

lemma issues_revoke_connection: "issues env N ok s (snd (revoke_connection env user_id grant_id s))"
  unfolding revoke_connection_def
proof (intro mc.sbind_frame issues_base mc.option_frame issues_write mcp_one step_revoke_all issues_exec, goal_cases)
  case (1 now a s)
  show ?case unfolding exec_pair by (rule step_revoke)
qed

lemma issues_set_status:
  assumes "rivals_step env N ok" "st \<noteq> Grant_REVOKED"
  shows "issues env N ok s (snd (set_status env user_id grant_id st s))"
  unfolding set_status_def
  by (intro mc.sbind_frame issues_base mc.try_frame issues_exec mcp_one step_status assms(2) assms(1) [unfolded rivals_step_def, rule_format])
    (auto split: exn.split app_error.split intro: mc.raise_frame)

lemma issues_update:
  "issues env N ok s (snd (update_connected_app env user_id grant_id scopes access folder_id history confirm s))"
  unfolding update_connected_app_def
proof (intro mc.sbind_frame issues_base mc.option_frame mc.if_frame issues_exec, goal_cases)
  case (1 g u a t)
  show ?case unfolding exec_pair by (rule mcp_one [OF step_binding])
qed

subsection \<open>Any sequence of calls\<close>

datatype access_call =
    Call_register oauth_client
  | Call_approve int string string "string list" string "string option" "string option" folder_access "string option" history_scope
  | Call_exchange_code string string "string option" "string option"
  | Call_exchange_refresh string string "string list" "string option"
  | Call_load string
  | Call_revoke_token string
  | Call_revoke_connection int string
  | Call_pause int string
  | Call_resume int string
  | Call_update int string "string list" folder_access "string option" history_scope bool
  | Call_sweep int

fun run_call :: "access_env \<Rightarrow> access_call \<Rightarrow> access_state \<Rightarrow> access_state" where
  "run_call env (Call_register c) s = snd (register_client env c s)"
| "run_call env (Call_approve u c r q ch res st fa fi h) s = snd (approve env u c r q ch res st fa fi h s)"
| "run_call env (Call_exchange_code c code r res) s = snd (exchange_code env c code r res s)"
| "run_call env (Call_exchange_refresh c t q res) s = snd (exchange_refresh env c t q res s)"
| "run_call env (Call_load t) s = snd (load_access_token env t s)"
| "run_call env (Call_revoke_token t) s = snd (revoke_token env t s)"
| "run_call env (Call_revoke_connection u g) s = snd (revoke_connection env u g s)"
| "run_call env (Call_pause u g) s = snd (pause_connection env u g s)"
| "run_call env (Call_resume u g) s = snd (resume_connection env u g s)"
| "run_call env (Call_update u g q fa fi h b) s = snd (update_connected_app env u g q fa fi h b s)"
| "run_call env (Call_sweep before) s = s\<lparr>as_db := snd (delete_expired before (as_db s))\<rparr>"

definition access_run :: "access_env \<Rightarrow> access_call list \<Rightarrow> access_state \<Rightarrow> access_state" where
  "access_run env calls s = fold (run_call env) calls s"

text \<open>The user and the application whose consent a call records.\<close>

fun consents :: "access_call \<Rightarrow> (int \<times> string) set" where
  "consents (Call_approve u c r q ch res st fa fi h) = {(u, c)}"
| "consents _ = {}"

lemma issues_call:
  assumes "rivals_step env N ok" "\<forall>(u, c) \<in> consents call. ok u c"
  shows "issues env N ok s (run_call env call s)"
  using assms
  by (cases call)
    (auto simp: issues_client issues_approve issues_exchange_code issues_exchange_refresh issues_load issues_revoke_token
      issues_revoke_connection issues_set_status pause_connection_def resume_connection_def issues_update
      issues_def [of _ _ _ _ "_\<lparr>as_db := _\<rparr>"] intro: mcp_one step_sweep)

lemma issues_run:
  assumes "rivals_step env N ok" "\<forall>call \<in> set calls. \<forall>(u, c) \<in> consents call. ok u c"
  shows "issues env N ok s (access_run env calls s)"
  using assms(2)
proof (induction calls arbitrary: s)
  case (Cons call calls)
  have "issues env N ok s (run_call env call s)" using Cons.prems by (intro issues_call assms(1)) auto
  moreover have "issues env N ok (run_call env call s) (access_run env calls (run_call env call s))"
    using Cons by auto
  ultimately show ?case unfolding access_run_def by (auto intro: mc.trans)
qed (simp add: access_run_def mc.refl)

section \<open>A sample server\<close>

text \<open>A server, an application and a user for the witnesses. Secrets are unary numerals.\<close>

definition sample_env :: access_env where
  "sample_env = \<lparr>ae_sha256 = id, ae_clock = int, ae_secret = (\<lambda>n. replicate n (CHR ''s'')), ae_uuid = (\<lambda>n. replicate n (CHR ''g'')),
     ae_resource_url = ''https://t/mcp/'', ae_access_ttl = 60, ae_refresh_ttl = 600, ae_code_ttl = 5,
     ae_grantable = ALL_SCOPES, ae_rival = id\<rparr>"

definition sample_client :: oauth_client where
  "sample_client = \<lparr>oc_client_id = ''c'', oc_client_secret = None, oc_client_name = None, oc_redirect_uris = [''r''],
     oc_grant_types = [], oc_response_types = [], oc_scope = None, oc_token_endpoint_auth_method = None\<rparr>"

lemma sample_rivals [simp]: "rivals_step sample_env N ok"
  by (simp add: rivals_step_def sample_env_def)

text \<open>The state after the application registered and user 7 approved it for reading, and after it redeemed the code.\<close>

definition sample_grant_row :: grant_row where
  "sample_grant_row = \<lparr>gr_id = ''gg'', gr_user_id = 7, gr_client_id = ''c'', gr_client_name = ''c'',
     gr_scopes = scope_string [Scope_DOCUMENTS_READ], gr_status = ''ACTIVE'', gr_resource = Some ''https://t/mcp'',
     gr_folder_access = ''ALL'', gr_folder_id = None, gr_history_scope = ''AGENT'', gr_created_at = 1,
     gr_last_used_at = None, gr_revoked_at = None, gr_paused_at = None\<rparr>"

definition sample_registered :: access_state where
  "sample_registered = \<lparr>as_db = \<lparr>md_clients = [\<lparr>cl_client = sample_client, cl_created_at = 0\<rparr>], md_grants = [], md_codes = [],
     md_tokens = []\<rparr>, as_ticks = 1\<rparr>"

definition sample_approved :: access_state where
  "sample_approved = \<lparr>as_db = \<lparr>md_clients = [\<lparr>cl_client = sample_client, cl_created_at = 0\<rparr>], md_grants = [sample_grant_row],
     md_codes = [\<lparr>co_code_hash = ''sss'', co_grant_id = ''gg'', co_client_id = ''c'', co_subject = str_int 7,
       co_scopes = scope_string [Scope_DOCUMENTS_READ], co_code_challenge = ''x'', co_redirect_uri = ''r'',
       co_resource = Some ''https://t/mcp'', co_expires_at = 6, co_used_at = None\<rparr>],
     md_tokens = []\<rparr>, as_ticks = 4\<rparr>"

lemmas sample_defs = sample_env_def sample_client_def sample_grant_row_def sample_registered_def sample_approved_def empty_mcp_def

lemmas access_defs = register_client_def approve_def check_request_def sbind_def require_client_def read_access_def get_client_def
  save_client_def tick_op_def write_access_def exec_access_def sreturn_def raise_op_def ensure_redirect_uri_def resolve_scopes_def
  stripped_values_def KNOWN_REQUEST_SCOPES_def ALL_SCOPES_def normalize_scopes_def validate_resource_def server_resource_def
  upsert_grant_def sql_first_def sql_select_def py_strip_def is_space_def rstrip_slash_def client_display_def new_grant_row_def
  to_grant_def grant_status_of_def save_code_def hash_secret_def

lemma sample_register: "register_client sample_env sample_client \<lparr>as_db = empty_mcp, as_ticks = 0\<rparr> = (Inr sample_client, sample_registered)"
  by (simp add: access_defs sample_defs)

lemma sample_approve: "approve sample_env 7 ''c'' ''r'' [''documents.read''] ''x'' None None Folder_ALL None History_AGENT sample_registered
    = (Inr (''r'', ''sss'', None), sample_approved)"
  by (simp add: access_defs sample_defs numeral_eq_Suc)

definition sample_token :: "nat \<Rightarrow> string \<Rightarrow> int \<Rightarrow> token_row" where
  "sample_token n kind ttl = \<lparr>to_token_hash = replicate n (CHR ''s''), to_grant_id = ''gg'', to_client_id = ''c'', to_subject = str_int 7,
     to_kind = kind, to_scopes = scope_string [Scope_DOCUMENTS_READ], to_resource = Some ''https://t/mcp'',
     to_expires_at = 4 + ttl, to_created_at = int n + 1, to_revoked_at = None\<rparr>"

definition sample_exchanged :: access_state where
  "sample_exchanged = \<lparr>as_db = \<lparr>md_clients = [\<lparr>cl_client = sample_client, cl_created_at = 0\<rparr>], md_grants = [sample_grant_row],
     md_codes = [\<lparr>co_code_hash = ''sss'', co_grant_id = ''gg'', co_client_id = ''c'', co_subject = str_int 7,
       co_scopes = scope_string [Scope_DOCUMENTS_READ], co_code_challenge = ''x'', co_redirect_uri = ''r'',
       co_resource = Some ''https://t/mcp'', co_expires_at = 6, co_used_at = Some 4\<rparr>],
     md_tokens = [sample_token 5 ''ACCESS'' 60, sample_token 7 ''REFRESH'' 600]\<rparr>, as_ticks = 9\<rparr>"

lemma sample_scopes: "normalize_scopes (py_split (scope_string [Scope_DOCUMENTS_READ])) = [Scope_DOCUMENTS_READ]"
  unfolding normalize_scope_string by (simp add: ALL_SCOPES_def)

lemmas exchange_defs = sbind_def tick_op_def exec_access_def take_code_def sql_update_def redeemable_def sql_count_def
  peek_code_def sql_first_def sql_select_def to_code_def raise_op_def sreturn_def validate_resource_def server_resource_def
  rstrip_slash_def foreign_resource_def require_active_grant_def read_access_def get_grant_def to_grant_def grant_status_of_def
  grant_is_active_def issue_def mint_token_def save_token_def hash_secret_def Let_def sample_scopes

lemma sample_exchange: "exchange_code sample_env ''c'' ''sss'' None None sample_approved
    = (Inr \<lparr>it_access_token = ''sssss'', it_expires_in = 0, it_scopes = [Scope_DOCUMENTS_READ], it_refresh_token = Some ''sssssss''\<rparr>,
       sample_exchanged)"
  by (simp add: exchange_code_def exchange_defs sample_defs sample_exchanged_def sample_token_def numeral_eq_Suc)

lemma sample_sound: "access_sound (as_db sample_approved)" "access_sound (as_db sample_exchanged)"
  by (simp_all add: access_sound_def bound_to_def grant_keys_def sample_exchanged_def sample_token_def sample_approved_def
      sample_grant_row_def numeral_eq_Suc)

section \<open>What the service promises\<close>

text \<open>C27: however the calls of the service follow one another, and whatever other sessions do in the middle
  of a token rotation, the tables stay sound: keys unique, and every code and every token carrying the user
  and the application of the grant it names.\<close>

theorem access_tables_sound:
  assumes "rivals_step env 0 (\<lambda>_ _. True)"
  shows "access_sound (as_db (access_run env calls \<lparr>as_db = empty_mcp, as_ticks = 0\<rparr>))"
proof -
  have "issues env 0 (\<lambda>_ _. True) \<lparr>as_db = empty_mcp, as_ticks = 0\<rparr> (access_run env calls \<lparr>as_db = empty_mcp, as_ticks = 0\<rparr>)"
    using assms by (rule issues_run) auto
  then show ?thesis using mcp_steps_sound [OF _ empty_mcp_sound] by (auto simp: issues_def)
qed

theorem access_tables_sound_witness:
  "rivals_step sample_env 0 (\<lambda>_ _. True)
   \<and> access_sound (as_db (access_run sample_env [Call_register sample_client] \<lparr>as_db = empty_mcp, as_ticks = 0\<rparr>))"
  using access_tables_sound [of sample_env "[Call_register sample_client]"] by simp

lemma load_exists: "\<exists>r. fst (load_access_token env token s) = Inr r"
  by (auto simp: load_access_token_def sbind_def tick_op_def read_access_def sreturn_def write_access_def split: option.splits)

lemma load_iff:
  "fst (load_access_token env token s) = Inr (Some t) \<longleftrightarrow>
    get_token (hash_secret env token) (as_db s) = Some t \<and> tk_kind t = ''ACCESS'' \<and> tk_revoked_at t = None
    \<and> ae_clock env (as_ticks s) < tk_expires_at t \<and> (tk_resource t = None \<or> tk_resource t = Some (server_resource env))
    \<and> (\<exists>g. get_grant (tk_grant_id t) (as_db s) = Some g \<and> ag_status g = Grant_ACTIVE \<and> ag_scopes g \<noteq> []
         \<and> set (tk_scopes t) \<subseteq> set (ag_scopes g))"
  by (auto simp: load_access_token_def sbind_def tick_op_def read_access_def sreturn_def write_access_def
      grant_is_active_def is_subset_def split: option.splits if_splits)

lemma get_grant_Some:
  assumes "get_grant gid db = Some g"
  obtains row where "row \<in> set (md_grants db)" "gr_id row = gid" "g = to_grant row"
  using assms by (auto simp: get_grant_def dest: sql_first_Some)

lemma get_token_Some:
  assumes "get_token h db = Some t"
  obtains row where "row \<in> set (md_tokens db)" "to_token_hash row = h" "t = to_token row"
  using assms by (auto simp: get_token_def dest: sql_first_Some)

lemma sound_token_owner:
  assumes "access_sound db" "get_token h db = Some t" "get_grant (tk_grant_id t) db = Some g"
  shows "tk_subject t = str_int (ag_user_id g) \<and> tk_client_id t = ag_client_id g"
proof -
  from assms(2) obtain row where r: "row \<in> set (md_tokens db)" "t = to_token row" by (rule get_token_Some)
  from assms(3) obtain gr where g: "gr \<in> set (md_grants db)" "gr_id gr = tk_grant_id t" "g = to_grant gr"
    by (rule get_grant_Some)
  from assms(1) r have "bound_to db (tk_grant_id t) (tk_client_id t) (tk_subject t)"
    by (auto simp: access_sound_def to_token_def)
  then obtain gr' where g': "gr' \<in> set (md_grants db)" "gr_id gr' = tk_grant_id t"
    "tk_client_id t = gr_client_id gr'" "tk_subject t = str_int (gr_user_id gr')"
    by (auto simp: bound_to_def grant_keys_def)
  have "gr' = gr" using assms(1) g g' by (intro unique_key_inj [of gr_id "md_grants db"]) (auto simp: access_sound_def)
  with g g' show ?thesis by (simp add: to_grant_def)
qed

text \<open>C6: a bearer token is honoured exactly when it is an unrevoked, unexpired access token of this server
  whose grant is active and still covers every scope of the token; and the subject and client it then stands
  for are those of the grant.\<close>

theorem token_honours_consent:
  assumes "rivals_step env 0 (\<lambda>_ _. True)" and s: "s = access_run env calls \<lparr>as_db = empty_mcp, as_ticks = 0\<rparr>"
  shows "(fst (load_access_token env token s) = Inr (Some t) \<longleftrightarrow>
      get_token (hash_secret env token) (as_db s) = Some t \<and> tk_kind t = ''ACCESS'' \<and> tk_revoked_at t = None
      \<and> ae_clock env (as_ticks s) < tk_expires_at t \<and> (tk_resource t = None \<or> tk_resource t = Some (server_resource env))
      \<and> (\<exists>g. get_grant (tk_grant_id t) (as_db s) = Some g \<and> ag_status g = Grant_ACTIVE \<and> ag_scopes g \<noteq> []
           \<and> set (tk_scopes t) \<subseteq> set (ag_scopes g)
           \<and> tk_subject t = str_int (ag_user_id g) \<and> tk_client_id t = ag_client_id g))
    \<and> (\<exists>r. fst (load_access_token env token s) = Inr r)"
proof -
  have "issues env 0 (\<lambda>_ _. True) \<lparr>as_db = empty_mcp, as_ticks = 0\<rparr> s"
    unfolding s using assms(1) by (rule issues_run) auto
  then have "access_sound (as_db s)" using mcp_steps_sound [OF _ empty_mcp_sound] by (auto simp: issues_def)
  then show ?thesis using load_exists sound_token_owner unfolding load_iff by blast
qed

theorem token_honours_consent_witness:
  "fst (load_access_token sample_env ''sssss'' (access_run sample_env [Call_register sample_client,
     Call_approve 7 ''c'' ''r'' [''documents.read''] ''x'' None None Folder_ALL None History_AGENT,
     Call_exchange_code ''c'' ''sss'' None None] \<lparr>as_db = empty_mcp, as_ticks = 0\<rparr>))
   = Inr (Some (to_token (sample_token 5 ''ACCESS'' 60)))"
proof -
  let ?calls = "[Call_register sample_client,
     Call_approve 7 ''c'' ''r'' [''documents.read''] ''x'' None None Folder_ALL None History_AGENT,
     Call_exchange_code ''c'' ''sss'' None None]"
  have run: "sample_exchanged = access_run sample_env ?calls \<lparr>as_db = empty_mcp, as_ticks = 0\<rparr>"
    by (simp add: access_run_def sample_register sample_approve sample_exchange)
  have "fst (load_access_token sample_env ''sssss'' sample_exchanged) = Inr (Some (to_token (sample_token 5 ''ACCESS'' 60)))"
    unfolding conjunct1 [OF token_honours_consent [OF sample_rivals run]]
    by (simp add: get_token_def get_grant_def sql_first_def sql_select_def hash_secret_def sample_exchanged_def sample_env_def
        sample_grant_row_def to_grant_def to_token_def sample_token_def sample_scopes server_resource_def rstrip_slash_def
        grant_status_of_def numeral_eq_Suc)
  then show ?thesis unfolding run .
qed

subsection \<open>Revocation\<close>

definition rows_revoked :: "string \<Rightarrow> int \<Rightarrow> string \<Rightarrow> grant_row list \<Rightarrow> bool" where
  "rows_revoked gid u c rows = (\<forall>g \<in> set rows. gr_id g = gid \<longrightarrow> gr_status g = ''REVOKED'' \<and> gr_user_id g = u \<and> gr_client_id g = c)"

definition grant_revoked :: "string \<Rightarrow> int \<Rightarrow> string \<Rightarrow> mcp_db \<Rightarrow> bool" where
  "grant_revoked gid u c db = ((gid, u, c) \<in> grant_keys db \<and> rows_revoked gid u c (md_grants db))"

lemma revoked_update_first:
  assumes "rows_revoked gid u c rows" "\<And>r. gr_id (f r) = gr_id r \<and> gr_user_id (f r) = gr_user_id r \<and> gr_client_id (f r) = gr_client_id r"
    and "\<And>r. r \<in> set rows \<Longrightarrow> P r \<Longrightarrow> gr_id r = gid \<Longrightarrow> gr_status r = ''REVOKED'' \<Longrightarrow> gr_status (f r) = ''REVOKED''"
  shows "rows_revoked gid u c (update_first P f rows)"
  unfolding rows_revoked_def
proof (intro ballI impI)
  fix g
  assume "g \<in> set (update_first P f rows)" and id: "gr_id g = gid"
  then consider "g \<in> set rows" | r where "r \<in> set rows" "P r" "g = f r"
    using set_update_first [of P f rows] by blast
  then show "gr_status g = ''REVOKED'' \<and> gr_user_id g = u \<and> gr_client_id g = c"
    using assms id by cases (simp_all add: rows_revoked_def)
qed

definition other_consents :: "int \<Rightarrow> string \<Rightarrow> int \<Rightarrow> string \<Rightarrow> bool" where
  "other_consents u c u' c' = ((u', c') \<noteq> (u, c))"

lemma owned_first_revoked:
  assumes "rows_revoked gid u c rows" "sql_first (sql_select (owned_grant gid u') rows) = Some row"
  shows "gr_status row = ''REVOKED''"
  using sql_first_Some [OF assms(2)] assms(1) by (auto simp: rows_revoked_def owned_grant_def)

lemma rivals_revoked:
  assumes "(\<lambda>x y. mcp_step env N ok x y \<and> (rows_revoked gid u c (md_grants x) \<longrightarrow> (gid, u, c) \<in> grant_keys x
      \<longrightarrow> rows_revoked gid u c (md_grants y)))\<^sup>*\<^sup>* db db'"
    and "rows_revoked gid u c (md_grants db)" "(gid, u, c) \<in> grant_keys db"
  shows "rows_revoked gid u c (md_grants db') \<and> (gid, u, c) \<in> grant_keys db'"
  using assms by (induction rule: rtranclp_induct) (auto dest: grant_keys_grow)

lemma mcp_step_rows_revoked:
  assumes "mcp_step env N (other_consents u c) db db'" "rows_revoked gid u c (md_grants db)" "(gid, u, c) \<in> grant_keys db"
  shows "rows_revoked gid u c (md_grants db')"
  using assms
proof (induction rule: mcp_step.induct)
  case (step_consent g db now)
  show ?case
  proof (cases rule: upsert_cases [of now g db])
    case added
    with step_consent show ?thesis by (auto simp: rows_revoked_def new_grant_row_def grant_keys_def)
  next
    case (rewritten row)
    have "rows_revoked gid u c (update_first (for_client (ag_user_id g) (ag_client_id g)) (write_consent g) (md_grants db))"
      by (rule revoked_update_first [OF step_consent(2)])
        (use step_consent in \<open>auto simp: other_consents_def write_consent_def for_client_def rows_revoked_def\<close>)
    then show ?thesis unfolding rewritten by simp
  qed (simp add: step_consent)
next
  case (step_revoke db now gid' uid)
  then show ?case by (auto simp: revoke_grant_def Let_def intro!: revoked_update_first split: option.split)
next
  case (step_status st db rival gid' uid now)
  show ?case
  proof (cases rule: status_cases [of rival gid' uid st now db])
    case kept
    then show ?thesis using step_status(3) by simp
  next
    case (stale row)
    have "rows_revoked gid u c (md_grants (rival db))"
      using rivals_revoked [OF step_status(2)] step_status(3,4) by blast
    then show ?thesis unfolding stale(1) .
  next
    case (written row p)
    then have "gid' \<noteq> gid" using owned_first_revoked [of gid u c "md_grants db" uid row] step_status(3) by auto
    moreover have "rows_revoked gid u c (md_grants (rival db))"
      using rivals_revoked [OF step_status(2)] step_status(3,4) by blast
    ultimately show ?thesis unfolding written(1) by (auto simp: rows_revoked_def sql_update_def)
  qed
next
  case (step_binding db gid' uid scopes access folder_id history)
  then show ?case by (auto simp: update_grant_binding_def Let_def intro!: revoked_update_first split: option.split)
next
  case (step_touch db gid' now)
  then show ?case by (auto simp: rows_revoked_def touch_grant_def sql_simps)
qed (auto simp: save_client_def save_code_def take_code_def save_token_def revoke_token_row_def
    revoke_tokens_for_grant_def delete_expired_def Let_def split: option.splits)

lemma mcp_step_revoked:
  "mcp_step env N (other_consents u c) db db' \<Longrightarrow> grant_revoked gid u c db \<Longrightarrow> grant_revoked gid u c db'"
  using mcp_step_rows_revoked grant_keys_grow by (fastforce simp: grant_revoked_def)

lemma mcp_steps_revoked:
  "mcp_steps env N (other_consents u c) db db' \<Longrightarrow> grant_revoked gid u c db \<Longrightarrow> grant_revoked gid u c db'"
  by (induction rule: rtranclp_induct) (auto dest: mcp_step_revoked)

lemma revoked_get:
  assumes "grant_revoked gid u c db"
  shows "\<exists>g. get_grant gid db = Some g \<and> ag_status g = Grant_REVOKED"
proof (cases "get_grant gid db")
  case (Some g)
  then obtain row where "row \<in> set (md_grants db)" "gr_id row = gid" "g = to_grant row" by (rule get_grant_Some)
  with assms Some show ?thesis by (auto simp: grant_revoked_def rows_revoked_def to_grant_def grant_status_of_def)
qed (use assms in \<open>auto simp: grant_revoked_def grant_keys_def get_grant_def sql_first_None\<close>)

text \<open>The row that \<open>revoke_grant\<close> returns is the only one with its identifier, and it is revoked.\<close>

lemma revoke_grant_revokes:
  assumes "access_sound db" "revoke_grant now gid user_id db = (Some g, db')"
  shows "ag_id g = gid \<and> ag_user_id g = user_id \<and> grant_revoked gid user_id (ag_client_id g) db'"
proof -
  let ?P = "owned_grant gid user_id"
  obtain row where row: "sql_first (sql_select ?P (md_grants db)) = Some row"
    using assms(2) by (cases "sql_first (sql_select ?P (md_grants db))") (auto simp: revoke_grant_def)
  have "access_sound db'" using grants_only_sound [OF grant_statements_only(1)] assms by (metis snd_conv)
  then have uniq: "unique_key gr_id (md_grants db')" by (simp add: access_sound_def)
  have upd: "sql_first (sql_select ?P (update_first ?P (\<lambda>r. r\<lparr>gr_status := ''REVOKED'', gr_revoked_at := Some now\<rparr>) t))
      = map_option (\<lambda>r. r\<lparr>gr_status := ''REVOKED'', gr_revoked_at := Some now\<rparr>) (sql_first (sql_select ?P t))" for t
    by (rule sql_first_update_first) (simp add: owned_grant_def)
  have "\<exists>row'. sql_first (sql_select ?P (md_grants db')) = Some row' \<and> g = to_grant row' \<and> gr_status row' = ''REVOKED''"
    using assms(2) row by (auto simp: revoke_grant_def Let_def upd split: if_splits)
  then obtain row' where row'': "sql_first (sql_select ?P (md_grants db')) = Some row'" "g = to_grant row'" "gr_status row' = ''REVOKED''"
    by blast
  with sql_first_Some [OF row''(1)]
  have row': "row' \<in> set (md_grants db')" "?P row'" "g = to_grant row'" "gr_status row' = ''REVOKED''" by auto
  have "rows_revoked gid user_id (ag_client_id g) (md_grants db')"
    unfolding rows_revoked_def
  proof (intro ballI impI)
    fix r
    assume "r \<in> set (md_grants db')" "gr_id r = gid"
    then have "r = row'"
      using row' uniq by (intro unique_key_inj [of gr_id "md_grants db'"]) (auto simp: owned_grant_def)
    with row' show "gr_status r = ''REVOKED'' \<and> gr_user_id r = user_id \<and> gr_client_id r = ag_client_id g"
      by (simp add: owned_grant_def to_grant_def)
  qed
  moreover have "(gid, user_id, ag_client_id g) \<in> grant_keys db'"
    using row' unfolding grant_keys_def by (intro image_eqI [of _ _ row']) (auto simp: owned_grant_def to_grant_def)
  ultimately show ?thesis using row' by (simp add: grant_revoked_def owned_grant_def to_grant_def)
qed

lemma revoke_connection_revokes:
  assumes "access_sound (as_db s)" "revoke_connection env user_id gid s = (Inr (Some g), s')"
  shows "ag_id g = gid \<and> ag_user_id g = user_id \<and> grant_revoked gid user_id (ag_client_id g) (as_db s')"
proof -
  let ?r = "ae_clock env (Suc (as_ticks s))"
  obtain g' db' where r: "revoke_grant ?r gid user_id (as_db s) = (g', db')" by fastforce
  with assms(2) have "g' = Some g" "as_db s' = snd (revoke_tokens_for_grant (ag_id g) (ae_clock env (as_ticks s)) db')"
    by (auto simp: revoke_connection_def sbind_def tick_op_def exec_access_def sreturn_def write_access_def split: option.splits)
  with revoke_grant_revokes [OF assms(1)] r show ?thesis
    by (auto simp: revoke_tokens_for_grant_def grant_revoked_def grant_keys_def Let_def)
qed

text \<open>A call refused: whatever it raises, it returns no tokens.\<close>

lemma revoked_not_active: "grant_revoked gid u c (as_db s) \<Longrightarrow> \<exists>e. require_active_grant gid subject s = (Inl e, s)"
  using revoked_get [of gid u c "as_db s"] by (auto simp: require_active_grant_def read_access_def grant_is_active_def)

lemma load_revoked:
  assumes "grant_revoked gid u c (as_db s)" "get_token (hash_secret env token) (as_db s) = Some t" "tk_grant_id t = gid"
  shows "fst (load_access_token env token s) = Inr None"
proof -
  obtain r where "fst (load_access_token env token s) = Inr r" using load_exists by blast
  moreover have "r \<noteq> Some t'" for t'
    using revoked_get [OF assms(1)] assms(2,3) load_iff [of env token s t'] calculation by auto
  ultimately show ?thesis by (cases r) auto
qed

lemma refresh_revoked:
  assumes "grant_revoked gid u c (as_db s)" "get_token (hash_secret env token) (as_db s) = Some t" "tk_grant_id t = gid"
  shows "\<exists>e. fst (exchange_refresh env client_id token scopes resource s) = Inl e"
proof -
  obtain e where "require_active_grant gid (tk_subject t) (s\<lparr>as_ticks := Suc (as_ticks s)\<rparr>) = (Inl e, s\<lparr>as_ticks := Suc (as_ticks s)\<rparr>)"
    using revoked_not_active [of gid u c "s\<lparr>as_ticks := Suc (as_ticks s)\<rparr>"] assms(1) by auto
  with assms(2,3) show ?thesis
    by (auto simp: exchange_refresh_def sbind_def tick_op_def read_access_def sreturn_def raise_op_def split: sum.split)
qed

text \<open>Redeeming a code: the row that \<open>take_code\<close> marks and returns.\<close>

lemma take_code_result:
  assumes "take_code h now db = (Some c, db')" "access_sound db"
  shows "\<exists>row \<in> set (md_codes db). co_code_hash row = h \<and> co_used_at row = None \<and> now < co_expires_at row
    \<and> c = to_code (row\<lparr>co_used_at := Some now\<rparr>) \<and> (\<forall>r \<in> set (md_codes db'). co_code_hash r = h \<longrightarrow> co_used_at r \<noteq> None)"
proof -
  have "sql_count (redeemable h now) (md_codes db) \<noteq> 0" using assms(1) by (auto simp: take_code_def Let_def split: if_splits)
  then obtain row where row: "row \<in> set (md_codes db)" "redeemable h now row"
    by (auto simp: sql_count_def filter_empty_conv)
  have uniq: "unique_key co_code_hash (md_codes db)" using assms(2) by (simp add: access_sound_def)
  have one: "r = row" if "r \<in> set (md_codes db)" "co_code_hash r = h" for r
    using row that unique_key_inj [OF uniq] by (auto simp: redeemable_def)
  have "sql_first (sql_select (\<lambda>r. co_code_hash r = h) (md_codes db)) = Some row"
    using sql_first_unique [OF uniq row(1)] row(2) by (simp add: redeemable_def)
  then have "peek_code h (db\<lparr>md_codes := sql_update (redeemable h now) (\<lambda>r. r\<lparr>co_used_at := Some now\<rparr>) (md_codes db)\<rparr>)
      = Some (to_code (row\<lparr>co_used_at := Some now\<rparr>))"
    using row(2) by (simp add: peek_code_def sql_first_update redeemable_def)
  then have "c = to_code (row\<lparr>co_used_at := Some now\<rparr>)"
    "db' = db\<lparr>md_codes := sql_update (redeemable h now) (\<lambda>r. r\<lparr>co_used_at := Some now\<rparr>) (md_codes db)\<rparr>"
    using assms(1) by (auto simp: take_code_def Let_def split: if_splits)
  moreover have "co_used_at r \<noteq> None" if r: "r \<in> set (md_codes db')" "co_code_hash r = h" for r
  proof -
    from r(1) calculation(2) obtain r0 where r0: "r0 \<in> set (md_codes db)"
      "r = (if redeemable h now r0 then r0\<lparr>co_used_at := Some now\<rparr> else r0)" by (auto simp: sql_update_def)
    then have "co_code_hash r0 = h" using r(2) by (auto split: if_splits)
    with r0 one row(2) show ?thesis by simp
  qed
  ultimately show ?thesis using row by (intro bexI [OF _ row(1)]) (auto simp: redeemable_def)
qed

text \<open>Redeeming fails when no row of the code is left unused.\<close>

lemma exchange_code_refused:
  assumes "\<forall>r \<in> set (md_codes (as_db s)). co_code_hash r = hash_secret env code \<longrightarrow> co_used_at r \<noteq> None"
  shows "fst (exchange_code env client_id code redirect_uri resource s)
    = Inl (AppError InvalidGrantError ''The authorization code is invalid, expired or already used.'')"
proof -
  have "sql_count (redeemable (hash_secret env code) now) (md_codes (as_db s)) = 0" for now
    using assms by (auto simp: sql_count_def redeemable_def filter_empty_conv)
  then show ?thesis
    by (simp add: exchange_code_def sbind_def tick_op_def exec_access_def take_code_def Let_def raise_op_def)
qed

lemma exchange_code_Inr:
  assumes "exchange_code env client_id code redirect_uri resource s = (Inr tokens, s')"
  obtains c db grant presented where
    "take_code (hash_secret env code) (ae_clock env (as_ticks s)) (as_db s) = (Some c, db)"
    "cd_client_id c = client_id" "validate_resource env resource = Inr presented"
    "require_active_grant (cd_grant_id c) (cd_subject c) \<lparr>as_db = db, as_ticks = Suc (as_ticks s)\<rparr>
      = (Inr grant, \<lparr>as_db = db, as_ticks = Suc (as_ticks s)\<rparr>)"
    "issue env grant (filter (\<lambda>s. s \<in> set (ag_scopes grant)) (cd_scopes c)) presented (ae_clock env (as_ticks s)) True
      \<lparr>as_db = db, as_ticks = Suc (as_ticks s)\<rparr> = (Inr tokens, s')"
proof -
  obtain found db where tk: "take_code (hash_secret env code) (ae_clock env (as_ticks s)) (as_db s) = (found, db)" by fastforce
  let ?s = "\<lparr>as_db = db, as_ticks = Suc (as_ticks s)\<rparr>"
  have s: "s\<lparr>as_ticks := Suc (as_ticks s), as_db := db\<rparr> = ?s" by (cases s) simp
  obtain c where c: "found = Some c"
    using assms tk by (cases found) (auto simp: exchange_code_def sbind_def tick_op_def exec_access_def raise_op_def)
  obtain presented where v: "validate_resource env resource = Inr presented" "cd_client_id c = client_id"
    using assms tk c by (cases "validate_resource env resource")
      (auto simp: exchange_code_def sbind_def tick_op_def exec_access_def raise_op_def sreturn_def split: if_splits)
  obtain grant t where g: "require_active_grant (cd_grant_id c) (cd_subject c) ?s = (Inr grant, t)"
    using assms tk c v by (cases "require_active_grant (cd_grant_id c) (cd_subject c) ?s"; cases "fst (require_active_grant (cd_grant_id c) (cd_subject c) ?s)")
      (auto simp: exchange_code_def sbind_def tick_op_def exec_access_def raise_op_def sreturn_def s split: if_splits)
  have t: "t = ?s" using require_active_result(1) [OF g] .
  have "issue env grant (filter (\<lambda>s. s \<in> set (ag_scopes grant)) (cd_scopes c)) presented (ae_clock env (as_ticks s)) True ?s = (Inr tokens, s')"
    using assms tk c v g t
    by (auto simp: exchange_code_def sbind_def tick_op_def exec_access_def raise_op_def sreturn_def s Let_def split: if_splits)
  with that tk c v g t show ?thesis by simp
qed

lemma sound_peek_unique:
  assumes "access_sound db" "peek_code h db = Some c" "row \<in> set (md_codes db)" "co_code_hash row = h"
  shows "c = to_code row"
proof -
  have "unique_key co_code_hash (md_codes db)" using assms(1) by (simp add: access_sound_def)
  then have "sql_first (sql_select (\<lambda>x. co_code_hash x = h) (md_codes db)) = Some row"
    using sql_first_unique [OF _ assms(3), of co_code_hash] assms(4) by simp
  with assms(2) show ?thesis by (simp add: peek_code_def)
qed

lemma code_revoked:
  assumes "access_sound (as_db s)" "grant_revoked gid u c (as_db s)"
    and "peek_code (hash_secret env code) (as_db s) = Some cd" "cd_grant_id cd = gid"
  shows "\<exists>e. fst (exchange_code env client_id code redirect_uri resource s) = Inl e"
proof (rule ccontr)
  assume "\<not> ?thesis"
  then obtain tokens where "fst (exchange_code env client_id code redirect_uri resource s) = Inr tokens"
    by (cases "fst (exchange_code env client_id code redirect_uri resource s)") auto
  then have "exchange_code env client_id code redirect_uri resource s
      = (Inr tokens, snd (exchange_code env client_id code redirect_uri resource s))" by (metis prod.collapse)
  then obtain c' db grant where tk: "take_code (hash_secret env code) (ae_clock env (as_ticks s)) (as_db s) = (Some c', db)"
    and g: "require_active_grant (cd_grant_id c') (cd_subject c') \<lparr>as_db = db, as_ticks = Suc (as_ticks s)\<rparr>
      = (Inr grant, \<lparr>as_db = db, as_ticks = Suc (as_ticks s)\<rparr>)" by (rule exchange_code_Inr)
  from take_code_result [OF tk assms(1)] obtain row now where "row \<in> set (md_codes (as_db s))"
    "co_code_hash row = hash_secret env code" "c' = to_code (row\<lparr>co_used_at := Some now\<rparr>)" by blast
  then have "cd_grant_id c' = gid" using sound_peek_unique [OF assms(1,3)] assms(4) by (simp add: to_code_def)
  moreover have "md_grants db = md_grants (as_db s)" using tk by (auto simp: take_code_def Let_def split: if_splits)
  ultimately show False
    using revoked_not_active [of gid u c "\<lparr>as_db = db, as_ticks = Suc (as_ticks s)\<rparr>" "cd_subject c'"] assms(2) g
    by (auto simp: grant_revoked_def grant_keys_def)
qed

text \<open>C5: once a user has revoked a connection it stays revoked, whatever calls follow and whatever other
  sessions do meanwhile, until that user consents to that application again: none of its access tokens
  loads, none of its refresh tokens rotates and none of its authorization codes is redeemed.\<close>

theorem revocation_final:
  assumes "access_sound (as_db s)" "revoke_connection env user_id gid s = (Inr (Some g), s1)"
    and "rivals_step env 0 (other_consents user_id (ag_client_id g))"
    and "\<forall>call \<in> set calls. (user_id, ag_client_id g) \<notin> consents call"
    and "s2 = access_run env calls s1"
  shows "(\<exists>g'. get_grant gid (as_db s2) = Some g' \<and> ag_status g' = Grant_REVOKED)
    \<and> (\<forall>token t. get_token (hash_secret env token) (as_db s2) = Some t \<and> tk_grant_id t = gid \<longrightarrow>
         fst (load_access_token env token s2) = Inr None
         \<and> (\<forall>client scopes resource. \<exists>e. fst (exchange_refresh env client token scopes resource s2) = Inl e))
    \<and> (\<forall>code c. peek_code (hash_secret env code) (as_db s2) = Some c \<and> cd_grant_id c = gid \<longrightarrow>
         (\<forall>client redirect_uri resource. \<exists>e. fst (exchange_code env client code redirect_uri resource s2) = Inl e))"
proof -
  let ?ok = "other_consents user_id (ag_client_id g)"
  have "issues env 0 ?ok s s1"
    using issues_revoke_connection [of env 0 ?ok s user_id gid] assms(2) by simp
  moreover have "issues env 0 ?ok s1 s2"
    unfolding assms(5) by (rule issues_run [OF assms(3)]) (use assms(4) in \<open>auto simp: other_consents_def\<close>)
  ultimately have steps: "mcp_steps env 0 ?ok (as_db s) (as_db s1)" "mcp_steps env 0 ?ok (as_db s1) (as_db s2)"
    by (auto simp: issues_def)
  have sound: "access_sound (as_db s2)" using mcp_steps_sound steps assms(1) by blast
  have "grant_revoked gid user_id (ag_client_id g) (as_db s1)"
    using revoke_connection_revokes [OF assms(1,2)] by simp
  then have rev: "grant_revoked gid user_id (ag_client_id g) (as_db s2)" using mcp_steps_revoked [OF steps(2)] by simp
  show ?thesis
    using revoked_get [OF rev] load_revoked [OF rev] refresh_revoked [OF rev] code_revoked [OF sound rev] by blast
qed

theorem revocation_final_witness:
  "\<exists>g s1. revoke_connection sample_env 7 ''gg'' sample_exchanged = (Inr (Some g), s1) \<and> ag_client_id g = ''c''
   \<and> fst (load_access_token sample_env ''sssss'' (access_run sample_env [Call_resume 7 ''gg''] s1)) = Inr None"
proof -
  let ?f = "\<lambda>r :: grant_row. r\<lparr>gr_status := ''REVOKED'', gr_revoked_at := Some 10\<rparr>"
  let ?g = "to_grant (?f sample_grant_row)"
  let ?s = "snd (revoke_connection sample_env 7 ''gg'' sample_exchanged)"
  have r: "revoke_connection sample_env 7 ''gg'' sample_exchanged = (Inr (Some ?g), ?s)"
    by (simp add: revoke_connection_def sbind_def tick_op_def exec_access_def revoke_grant_def owned_grant_def sql_first_def
        sql_select_def sample_exchanged_def sample_grant_row_def sample_env_def write_access_def sreturn_def)
  have c: "ag_client_id ?g = ''c''" by (simp add: to_grant_def sample_grant_row_def)
  let ?s2 = "access_run sample_env [Call_resume 7 ''gg''] ?s"
  have "get_token (hash_secret sample_env ''sssss'') (as_db ?s2)
      = Some (to_token ((sample_token 5 ''ACCESS'' 60)\<lparr>to_revoked_at := Some 9\<rparr>))"
    by (simp add: access_run_def resume_connection_def set_status_def try_op_def set_grant_status_def revoke_connection_def
        sbind_def tick_op_def exec_access_def revoke_grant_def owned_grant_def sql_first_def raise_op_def
        sql_select_def sample_exchanged_def sample_grant_row_def sample_env_def write_access_def sreturn_def
        revoke_tokens_for_grant_def Let_def sql_update_def sample_token_def get_token_def hash_secret_def to_grant_def numeral_eq_Suc)
  moreover have "tk_grant_id (to_token ((sample_token 5 ''ACCESS'' 60)\<lparr>to_revoked_at := Some 9\<rparr>)) = ''gg''"
    by (simp add: to_token_def sample_token_def)
  ultimately have "fst (load_access_token sample_env ''sssss'' ?s2) = Inr None"
    using revocation_final [OF sample_sound(2) r sample_rivals, of "[Call_resume 7 ''gg'']" ?s2] by auto
  with r c show ?thesis by metis
qed

subsection \<open>Authorization codes\<close>

definition code_spent :: "string \<Rightarrow> mcp_db \<Rightarrow> bool" where
  "code_spent h db = (\<forall>r \<in> set (md_codes db). co_code_hash r = h \<longrightarrow> co_used_at r \<noteq> None)"

lemma mcp_step_spent:
  assumes "mcp_step env N ok db db'" "code_spent h db" "\<forall>n \<ge> N. hash_secret env (ae_secret env n) \<noteq> h"
  shows "code_spent h db'"
  using assms(1,2)
proof (induction rule: mcp_step.induct)
  case (step_code n c u db)
  then show ?case using assms(3) by (auto simp: code_spent_def save_code_def)
next
  case (step_consent g db now)
  then show ?case by (cases rule: upsert_cases [of now g db]) (auto simp: code_spent_def)
next
  case (step_status st db rival gid uid now)
  have "code_spent h (rival db)" by (rule rivals_keep [OF step_status(2) step_status(3)])
  then show ?case using step_status(3) by (cases rule: status_cases [of rival gid uid st now db]) (simp_all add: code_spent_def)
qed (auto simp: code_spent_def save_client_def grant_statement_defs touch_grant_def take_code_def save_token_def
    revoke_token_row_def revoke_tokens_for_grant_def delete_expired_def sql_simps split: option.splits)

lemma mcp_steps_spent:
  "mcp_steps env N ok db db' \<Longrightarrow> code_spent h db \<Longrightarrow> \<forall>n \<ge> N. hash_secret env (ae_secret env n) \<noteq> h \<Longrightarrow> code_spent h db'"
  by (induction rule: rtranclp_induct) (auto dest: mcp_step_spent)

lemma issue_codes: "md_codes (as_db (snd (issue env grant scopes resource now b s))) = md_codes (as_db s)"
  by (simp add: issue_def mint_token_def sbind_def tick_op_def exec_access_def sreturn_def save_token_def split: prod.splits sum.splits)

text \<open>C26: an authorization code is redeemed once. After a redemption that issued tokens, whatever calls
  follow and whatever other sessions do, redeeming the same code again is refused, as long as no later
  draw of a random secret hashes to that code again.\<close>

theorem code_redeemed_once:
  assumes "access_sound (as_db s)" "exchange_code env client_id code redirect_uri resource s = (Inr tokens, s1)"
    and "rivals_step env (as_ticks s1) (\<lambda>_ _. True)"
    and "\<forall>n \<ge> as_ticks s1. hash_secret env (ae_secret env n) \<noteq> hash_secret env code"
    and "s2 = access_run env calls s1"
  shows "fst (exchange_code env client' code redirect_uri' resource' s2)
    = Inl (AppError InvalidGrantError ''The authorization code is invalid, expired or already used.'')"
proof -
  from assms(2) obtain c db grant presented where
    tk: "take_code (hash_secret env code) (ae_clock env (as_ticks s)) (as_db s) = (Some c, db)"
    and iss: "issue env grant (filter (\<lambda>s. s \<in> set (ag_scopes grant)) (cd_scopes c)) presented (ae_clock env (as_ticks s)) True
      \<lparr>as_db = db, as_ticks = Suc (as_ticks s)\<rparr> = (Inr tokens, s1)" by (rule exchange_code_Inr)
  have "md_codes (as_db s1) = md_codes db"
    using issue_codes [of env grant "filter (\<lambda>s. s \<in> set (ag_scopes grant)) (cd_scopes c)" presented
      "ae_clock env (as_ticks s)" True "\<lparr>as_db = db, as_ticks = Suc (as_ticks s)\<rparr>"] iss by simp
  then have "code_spent (hash_secret env code) (as_db s1)"
    using take_code_result [OF tk assms(1)] by (auto simp: code_spent_def)
  moreover have "issues env (as_ticks s1) (\<lambda>_ _. True) s1 s2"
    unfolding assms(5) using assms(3) by (rule issues_run) auto
  ultimately have "code_spent (hash_secret env code) (as_db s2)"
    using mcp_steps_spent assms(4) by (auto simp: issues_def)
  then show ?thesis by (intro exchange_code_refused) (simp add: code_spent_def)
qed

theorem code_redeemed_once_witness:
  "fst (exchange_code sample_env ''c'' ''sss'' None None sample_approved)
     = Inr \<lparr>it_access_token = ''sssss'', it_expires_in = 0, it_scopes = [Scope_DOCUMENTS_READ], it_refresh_token = Some ''sssssss''\<rparr>
   \<and> fst (exchange_code sample_env ''c'' ''sss'' None None (access_run sample_env [Call_load ''sssss''] sample_exchanged))
     = Inl (AppError InvalidGrantError ''The authorization code is invalid, expired or already used.'')"
proof -
  have "\<forall>n \<ge> as_ticks sample_exchanged. hash_secret sample_env (ae_secret sample_env n) \<noteq> hash_secret sample_env ''sss''"
  proof (intro allI impI)
    fix n
    assume "as_ticks sample_exchanged \<le> n"
    then have "length (replicate n (CHR ''s'')) \<noteq> length ''sss''" by (simp add: sample_exchanged_def)
    then show "hash_secret sample_env (ae_secret sample_env n) \<noteq> hash_secret sample_env ''sss''"
      by (metis access_env.select_convs(1,3) hash_secret_def id_apply sample_env_def)
  qed
  from code_redeemed_once [OF sample_sound(1) sample_exchange sample_rivals this refl] sample_exchange show ?thesis by simp
qed

end
