(* ===== verification/Agent_Flow.thy ===== *)
theory Agent_Flow
  imports Agent_Safety
begin

text \<open>
  The authorization flow from end to end: which scopes a request resolves to, that the stored consent reads
  back as it was given, that a code obtained by an approval buys a token that loads, and what the rotation
  of a refresh token does not guard against.
\<close>

section \<open>Scopes\<close>

lemma resolve_Inr:
  assumes "resolve_scopes env client requested = Inr scopes"
  shows "canonical scopes" "set scopes \<subseteq> set (ae_grantable env)"
    "set (stripped_values requested) \<subseteq> set KNOWN_REQUEST_SCOPES"
    "oc_scope client = Some r \<Longrightarrow> py_split r \<noteq> [] \<Longrightarrow> set (map agent_scope_value scopes) \<subseteq> set (py_split r)"
    "stripped_values requested = [] \<Longrightarrow> scopes = DEFAULT_SCOPES"
    "stripped_values requested \<noteq> [] \<Longrightarrow> scopes = normalize_scopes (stripped_values requested)"
  using assms canonical_normalize canonical_default
  by (auto simp: resolve_scopes_def Let_def filter_empty_conv subset_iff split: if_splits)

text \<open>a request resolves to capabilities of this service only. It is refused when it names an unknown
  scope; otherwise what it resolves to is in canonical order, within what the deployment grants and within what
  the application registered for, and deletion is among them only when the request names it. When a request
  is empty the default scopes stand in.\<close>

theorem resolve_scopes_sound:
  assumes "resolve_scopes env client requested = Inr scopes"
  shows "canonical scopes \<and> set scopes \<subseteq> set (ae_grantable env)
    \<and> (\<forall>v \<in> set (stripped_values requested). is_capability v \<or> v = OFFLINE_ACCESS)
    \<and> (\<forall>r. oc_scope client = Some r \<and> py_split r \<noteq> [] \<longrightarrow> set (map agent_scope_value scopes) \<subseteq> set (py_split r))
    \<and> (Scope_DOCUMENTS_DELETE \<in> set scopes \<longrightarrow> ''documents.delete'' \<in> set (stripped_values requested))
    \<and> (if stripped_values requested = [] then scopes = DEFAULT_SCOPES
       else set scopes = {s. agent_scope_value s \<in> set (stripped_values requested)})"
proof -
  have named: "set scopes = {s. agent_scope_value s \<in> set (stripped_values requested)}" if "stripped_values requested \<noteq> []"
    using resolve_Inr(6) [OF assms that] by (auto simp: set_normalize)
  have "Scope_DOCUMENTS_DELETE \<in> set scopes \<longrightarrow> ''documents.delete'' \<in> set (stripped_values requested)"
    using named resolve_Inr(5) [OF assms] by (cases "stripped_values requested = []") (simp_all add: DEFAULT_SCOPES_def)
  moreover have "\<forall>v \<in> set (stripped_values requested). is_capability v \<or> v = OFFLINE_ACCESS"
    using resolve_Inr(3) [OF assms] by (auto simp: KNOWN_REQUEST_SCOPES_def is_capability_def)
  ultimately show ?thesis
    using resolve_Inr(1,2,4,5) [OF assms] named by auto
qed

theorem resolve_scopes_sound_witness:
  "resolve_scopes sample_env sample_client [] = Inr DEFAULT_SCOPES \<and> canonical DEFAULT_SCOPES"
proof -
  have r: "resolve_scopes sample_env sample_client [] = Inr DEFAULT_SCOPES"
    by (simp add: resolve_scopes_def stripped_values_def DEFAULT_SCOPES_def ALL_SCOPES_def sample_env_def sample_client_def)
  from resolve_scopes_sound [OF r] r show ?thesis by simp
qed

section \<open>From the approval to the token\<close>

abbreviation consent_grant :: "access_env \<Rightarrow> access_state \<Rightarrow> int \<Rightarrow> oauth_client \<Rightarrow> string \<Rightarrow> agent_scope list \<Rightarrow> string \<Rightarrow>
    folder_access \<Rightarrow> string option \<Rightarrow> history_scope \<Rightarrow> agent_grant" where
  "consent_grant env s u client client_id scopes res fa fi h \<equiv>
     \<lparr>ag_id = ae_uuid env (Suc (as_ticks s)), ag_user_id = u, ag_client_id = client_id,
      ag_client_name = client_display client client_id, ag_scopes = scopes, ag_status = Grant_ACTIVE, ag_resource = Some res,
      ag_folder_access = fa, ag_folder_id = fi, ag_history_scope = h, ag_created_at = Some (ae_clock env (as_ticks s)),
      ag_last_used_at = None, ag_revoked_at = None, ag_paused_at = None\<rparr>"

abbreviation consent_code :: "access_env \<Rightarrow> access_state \<Rightarrow> string \<Rightarrow> string \<Rightarrow> int \<Rightarrow> agent_scope list \<Rightarrow> string \<Rightarrow> string \<Rightarrow> string \<Rightarrow> authorization_code" where
  "consent_code env s gid client_id u scopes ch ru res \<equiv>
     \<lparr>cd_code_hash = hash_secret env (ae_secret env (Suc (Suc (as_ticks s)))), cd_grant_id = gid, cd_client_id = client_id,
      cd_subject = str_int u, cd_scopes = scopes, cd_code_challenge = ch, cd_redirect_uri = ru, cd_resource = Some res,
      cd_expires_at = ae_clock env (as_ticks s) + ae_code_ttl env, cd_used_at = None\<rparr>"

lemma check_request_Inr:
  "check_request env client_id ru req resource s = (Inr (client, scopes, res), t) \<longleftrightarrow>
    t = s \<and> get_client client_id (as_db s) = Some client \<and> ru \<in> set (oc_redirect_uris client)
    \<and> resolve_scopes env client req = Inr scopes \<and> validate_resource env resource = Inr res"
  by (auto simp: check_request_def require_client_def ensure_redirect_uri_def sbind_def read_access_def sreturn_def
      split: option.splits sum.splits)

lemma check_request_state: "snd (check_request env client_id ru req resource s) = s"
  by (auto simp: check_request_def require_client_def sbind_def read_access_def sreturn_def split: option.splits sum.splits)

lemma approve_Inr:
  assumes "approve env u client_id ru req ch resource st fa fi h s = (Inr (ru', code, st'), s1)"
  obtains client scopes res grant db where
    "check_request env client_id ru req resource s = (Inr (client, scopes, res), s)"
    "upsert_grant (ae_clock env (as_ticks s)) (consent_grant env s u client client_id scopes res fa fi h) (as_db s) = (Inr grant, db)"
    "save_code (consent_code env s (ag_id grant) client_id u scopes ch ru res) db = (Inr (), as_db s1)"
    "as_ticks s1 = as_ticks s + 3" "code = ae_secret env (Suc (Suc (as_ticks s)))" "ru' = ru" "st' = st" "ch \<noteq> []"
proof -
  obtain client scopes res where c: "check_request env client_id ru req resource s = (Inr (client, scopes, res), s)"
    using assms check_request_state [of env client_id ru req resource s]
    by (cases "check_request env client_id ru req resource s"; cases "fst (check_request env client_id ru req resource s)")
      (auto simp: approve_def sbind_def)
  obtain grant db where g: "upsert_grant (ae_clock env (as_ticks s)) (consent_grant env s u client client_id scopes res fa fi h) (as_db s)
      = (Inr grant, db)"
    using assms c
    by (cases "upsert_grant (ae_clock env (as_ticks s)) (consent_grant env s u client client_id scopes res fa fi h) (as_db s)";
        cases "fst (upsert_grant (ae_clock env (as_ticks s)) (consent_grant env s u client client_id scopes res fa fi h) (as_db s))")
      (auto simp: approve_def sbind_def tick_op_def exec_access_def raise_op_def split: if_splits)
  show ?thesis
    by (rule that [OF c g]; use assms c g in \<open>auto simp: approve_def sbind_def tick_op_def exec_access_def raise_op_def sreturn_def
        split: if_splits prod.splits sum.splits\<close>)
qed

lemma coerce_values [simp]: "coerce_folder_access (folder_access_value a) = a" "coerce_history_scope (history_scope_value h) = h"
  by (cases a; simp add: coerce_folder_access_def) (cases h; simp add: coerce_history_scope_def)

lemma upsert_reads_back:
  assumes "upsert_grant now g db = (Inr r, db')" "canonical (ag_scopes g)"
  shows "get_grant_for_user_client (ag_user_id g) (ag_client_id g) db' = Some r"
    "ag_scopes r = ag_scopes g" "ag_status r = Grant_ACTIVE" "ag_folder_access r = ag_folder_access g"
    "ag_folder_id r = ag_folder_id g" "ag_history_scope r = ag_history_scope g" "ag_user_id r = ag_user_id g"
    "ag_client_id r = ag_client_id g" "ag_resource r = ag_resource g" "md_clients db' = md_clients db"
    "md_codes db' = md_codes db" "md_tokens db' = md_tokens db"
proof -
  let ?P = "for_client (ag_user_id g) (ag_client_id g)"
  have upd: "sql_first (sql_select ?P (update_first ?P (write_consent g) t)) = map_option (write_consent g) (sql_first (sql_select ?P t))" for t
    by (rule sql_first_update_first) (simp add: for_client_def write_consent_def)
  have sc: "normalize_scopes (py_split (scope_string (ag_scopes g))) = ag_scopes g" using assms(2) by (rule canonical_reads_back)
  have "get_grant_for_user_client (ag_user_id g) (ag_client_id g) db' = Some r \<and> ag_scopes r = ag_scopes g \<and> ag_status r = Grant_ACTIVE
    \<and> ag_folder_access r = ag_folder_access g \<and> ag_folder_id r = ag_folder_id g \<and> ag_history_scope r = ag_history_scope g
    \<and> ag_user_id r = ag_user_id g \<and> ag_client_id r = ag_client_id g \<and> ag_resource r = ag_resource g
    \<and> md_clients db' = md_clients db \<and> md_codes db' = md_codes db \<and> md_tokens db' = md_tokens db"
  proof (cases rule: upsert_cases [of now g db])
    case added
    then have "sql_first (sql_select ?P (md_grants db)) = None" by (simp add: sql_first_None)
    with added assms(1) show ?thesis
      by (auto simp: get_grant_for_user_client_def sql_first_append new_grant_row_def for_client_def to_grant_def sc grant_status_of_def)
  next
    case (rewritten row)
    with assms(1) show ?thesis
      by (auto simp: get_grant_for_user_client_def upd write_consent_def for_client_def to_grant_def sc grant_status_of_def)
  qed (use assms in simp)
  then show "get_grant_for_user_client (ag_user_id g) (ag_client_id g) db' = Some r"
    "ag_scopes r = ag_scopes g" "ag_status r = Grant_ACTIVE" "ag_folder_access r = ag_folder_access g"
    "ag_folder_id r = ag_folder_id g" "ag_history_scope r = ag_history_scope g" "ag_user_id r = ag_user_id g"
    "ag_client_id r = ag_client_id g" "ag_resource r = ag_resource g" "md_clients db' = md_clients db"
    "md_codes db' = md_codes db" "md_tokens db' = md_tokens db" by simp_all
qed

lemma save_code_frame:
  "md_clients (snd (save_code c db)) = md_clients db" "md_grants (snd (save_code c db)) = md_grants db"
  "md_tokens (snd (save_code c db)) = md_tokens db"
  by (simp_all add: save_code_def)

text \<open>the consent screen shown again after an approval reports exactly what was approved: the same scopes
  as requested and as already granted, and the folder and history binding the user chose.\<close>

theorem consent_reads_back:
  assumes "approve env u client_id ru req ch resource st fa fi h s = (Inr (ru', code, st'), s1)"
  shows "\<exists>view. fst (describe_authorization env u client_id ru req resource s1) = Inr view
    \<and> av_already_granted view = av_requested_scopes view \<and> av_redirect_uri view = ru'
    \<and> av_folder_access view = fa \<and> av_folder_id view = fi \<and> av_history_scope view = h"
proof -
  from assms obtain client scopes res grant db where
    c: "check_request env client_id ru req resource s = (Inr (client, scopes, res), s)"
    and g: "upsert_grant (ae_clock env (as_ticks s)) (consent_grant env s u client client_id scopes res fa fi h) (as_db s) = (Inr grant, db)"
    and k: "save_code (consent_code env s (ag_id grant) client_id u scopes ch ru res) db = (Inr (), as_db s1)" and ru: "ru' = ru"
    by (rule approve_Inr)
  have can: "canonical scopes" using c resolve_Inr(1) unfolding check_request_Inr by blast
  note rb = upsert_reads_back [OF g, simplified, OF can]
  have keep: "md_clients (as_db s1) = md_clients (as_db s)" "md_grants (as_db s1) = md_grants db"
    using arg_cong [OF k, of snd] save_code_frame rb(10) by (metis snd_conv)+
  have c1: "check_request env client_id ru req resource s1 = (Inr (client, scopes, res), s1)"
    using c keep unfolding check_request_Inr by (auto simp: get_client_def)
  have g1: "get_grant_for_user_client u client_id (as_db s1) = Some grant"
    using rb(1) keep by (simp add: get_grant_for_user_client_def)
  have "filter (\<lambda>s. s \<in> set scopes) scopes = scopes" by (rule filter_True) simp
  with c1 g1 rb ru show ?thesis
    by (cases "scopes = []") (auto simp: describe_authorization_def sbind_def read_access_def sreturn_def grant_is_active_def)
qed

theorem consent_reads_back_witness:
  "\<exists>view. fst (describe_authorization sample_env 7 ''c'' ''r'' [''documents.read''] None sample_approved) = Inr view
    \<and> av_already_granted view = av_requested_scopes view"
  using consent_reads_back [OF sample_approve] by blast

definition minted_row :: "access_env \<Rightarrow> nat \<Rightarrow> string \<Rightarrow> int \<Rightarrow> agent_grant \<Rightarrow> agent_scope list \<Rightarrow> string \<Rightarrow> int \<Rightarrow> token_row" where
  "minted_row env n kind ttl grant scopes resource now = \<lparr>to_token_hash = hash_secret env (ae_secret env n),
     to_grant_id = ag_id grant, to_client_id = ag_client_id grant, to_subject = str_int (ag_user_id grant), to_kind = kind,
     to_scopes = scope_string scopes, to_resource = Some resource, to_expires_at = now + ttl,
     to_created_at = ae_clock env (Suc n), to_revoked_at = None\<rparr>"

lemma mint_token_fresh:
  assumes "hash_secret env (ae_secret env (as_ticks s)) \<notin> to_token_hash ` set (md_tokens (as_db s))"
  shows "mint_token env kind ttl grant scopes resource now s = (Inr (ae_secret env (as_ticks s)),
    \<lparr>as_db = (as_db s)\<lparr>md_tokens := md_tokens (as_db s) @ [minted_row env (as_ticks s) kind ttl grant scopes resource now]\<rparr>,
     as_ticks = as_ticks s + 2\<rparr>)"
  using assms by (auto simp: mint_token_def sbind_def tick_op_def exec_access_def save_token_def sreturn_def minted_row_def)

text \<open>The two secrets an issue draws, and that they collide with nothing stored.\<close>

definition fresh_pair :: "access_env \<Rightarrow> nat \<Rightarrow> mcp_db \<Rightarrow> bool" where
  "fresh_pair env n db = (hash_secret env (ae_secret env n) \<notin> to_token_hash ` set (md_tokens db)
     \<and> hash_secret env (ae_secret env (n + 2)) \<notin> to_token_hash ` set (md_tokens db)
     \<and> hash_secret env (ae_secret env n) \<noteq> hash_secret env (ae_secret env (n + 2)))"

lemma issue_fresh:
  assumes "fresh_pair env (as_ticks s) (as_db s)"
  shows "issue env grant scopes resource now True s
      = (Inr \<lparr>it_access_token = ae_secret env (as_ticks s), it_expires_in = ae_access_ttl env div 1000000, it_scopes = scopes,
          it_refresh_token = Some (ae_secret env (as_ticks s + 2))\<rparr>,
        \<lparr>as_db = (as_db s)\<lparr>md_tokens := md_tokens (as_db s)
            @ [minted_row env (as_ticks s) ''ACCESS'' (ae_access_ttl env) grant scopes resource now,
               minted_row env (as_ticks s + 2) ''REFRESH'' (ae_refresh_ttl env) grant scopes resource now]\<rparr>,
         as_ticks = as_ticks s + 4\<rparr>)"
proof -
  note m1 = mint_token_fresh [of env s "''ACCESS''" "ae_access_ttl env" grant scopes resource now]
  let ?s = "\<lparr>as_db = (as_db s)\<lparr>md_tokens := md_tokens (as_db s) @ [minted_row env (as_ticks s) ''ACCESS'' (ae_access_ttl env) grant scopes resource now]\<rparr>,
     as_ticks = as_ticks s + 2\<rparr>"
  note m2 = mint_token_fresh [of env ?s "''REFRESH''" "ae_refresh_ttl env" grant scopes resource now]
  have "hash_secret env (ae_secret env (as_ticks ?s)) \<notin> to_token_hash ` set (md_tokens (as_db ?s))"
    using assms by (auto simp: fresh_pair_def minted_row_def)
  from m2 [OF this] m1 assms show ?thesis
    by (simp add: issue_def sbind_def sreturn_def fresh_pair_def)
qed

lemma take_code_redeems:
  assumes "unique_key co_code_hash (md_codes db)" "row \<in> set (md_codes db)" "redeemable h now row"
  shows "take_code h now db = (Some (to_code (row\<lparr>co_used_at := Some now\<rparr>)),
    db\<lparr>md_codes := sql_update (redeemable h now) (\<lambda>r. r\<lparr>co_used_at := Some now\<rparr>) (md_codes db)\<rparr>)"
proof -
  have "sql_count (redeemable h now) (md_codes db) \<noteq> 0" using assms(2,3) by (auto simp: sql_count_def filter_empty_conv)
  moreover have "sql_first (sql_select (\<lambda>r. co_code_hash r = h) (md_codes db)) = Some row"
    using sql_first_unique [OF assms(1,2)] assms(3) by (simp add: redeemable_def)
  ultimately show ?thesis using assms(3) by (simp add: take_code_def Let_def peek_code_def sql_first_update redeemable_def)
qed

lemma get_grant_unique:
  assumes "unique_key gr_id (md_grants db)" "get_grant_for_user_client u c db = Some g"
  shows "get_grant (ag_id g) db = Some g"
proof -
  from assms(2) obtain row where r: "row \<in> set (md_grants db)" "g = to_grant row"
    by (auto simp: get_grant_for_user_client_def dest: sql_first_Some)
  then have "ag_id g = gr_id row" by (simp add: to_grant_def)
  then show ?thesis using sql_first_unique [OF assms(1) r(1)] r(2) by (simp add: get_grant_def)
qed

lemma validate_resource_ours: "validate_resource env resource = Inr r \<Longrightarrow> r = server_resource env"
  by (auto simp: validate_resource_def split: option.splits if_splits)

lemma get_token_appended:
  "h \<notin> to_token_hash ` set ts \<Longrightarrow> to_token_hash tr = h \<Longrightarrow> get_token h (db\<lparr>md_tokens := ts @ tr # rest\<rparr>) = Some (to_token tr)"
  by (induction ts) (auto simp: get_token_def sql_first_def sql_select_def)

text \<open>What an approval leaves: the code as the only row with its hash, unused, and the active grant.\<close>

lemma approve_leaves:
  assumes "access_sound (as_db s)" "approve env u client_id ru req ch resource st fa fi h s = (Inr (ru', code, st'), s1)"
    and "get_client client_id (as_db s) = Some client" "resolve_scopes env client req = Inr scopes"
  obtains row grant where "row \<in> set (md_codes (as_db s1))" "co_code_hash row = hash_secret env code" "co_used_at row = None"
    "co_expires_at row = ae_clock env (as_ticks s) + ae_code_ttl env" "co_client_id row = client_id" "co_subject row = str_int u"
    "co_redirect_uri row = ru" "co_resource row = Some (server_resource env)" "co_grant_id row = ag_id grant"
    "normalize_scopes (py_split (co_scopes row)) = scopes" "get_grant (ag_id grant) (as_db s1) = Some grant"
    "ag_scopes grant = scopes" "ag_status grant = Grant_ACTIVE" "ag_user_id grant = u" "ag_client_id grant = client_id"
    "md_tokens (as_db s1) = md_tokens (as_db s)" "as_ticks s1 = as_ticks s + 3" "access_sound (as_db s1)" "ru' = ru"
    "validate_resource env resource = Inr (server_resource env)"
proof -
  from assms(2) obtain client' scopes' res grant db where
    c: "check_request env client_id ru req resource s = (Inr (client', scopes', res), s)"
    and g: "upsert_grant (ae_clock env (as_ticks s)) (consent_grant env s u client' client_id scopes' res fa fi h) (as_db s) = (Inr grant, db)"
    and k: "save_code (consent_code env s (ag_id grant) client_id u scopes' ch ru res) db = (Inr (), as_db s1)"
    and t: "as_ticks s1 = as_ticks s + 3" and code: "code = ae_secret env (Suc (Suc (as_ticks s)))" and ru: "ru' = ru"
    by (rule approve_Inr)
  have sc: "scopes' = scopes" "validate_resource env resource = Inr res" using c assms(3,4) unfolding check_request_Inr by auto
  then have res: "res = server_resource env" using validate_resource_ours by blast
  have can: "canonical scopes" using assms(4) by (rule resolve_Inr)
  note rb = upsert_reads_back [OF g, simplified, unfolded sc, OF can]
  have keep: "md_grants (as_db s1) = md_grants db" "md_tokens (as_db s1) = md_tokens (as_db s)"
    using arg_cong [OF k, of snd] save_code_frame rb(12) by (metis snd_conv)+
  have "issues env 0 (\<lambda>_ _. True) s s1"
    using issues_approve [of "\<lambda>_ _. True" u client_id env 0 s ru req ch resource st fa fi h] assms(2) by simp
  then have sound: "access_sound (as_db s1)" using mcp_steps_sound assms(1) by (auto simp: issues_def)
  have g1: "get_grant (ag_id grant) (as_db s1) = Some grant"
    by (rule get_grant_unique [of _ u client_id])
      (use sound rb(1) keep in \<open>auto simp: access_sound_def get_grant_for_user_client_def\<close>)
  let ?row = "\<lparr>co_code_hash = hash_secret env code, co_grant_id = ag_id grant, co_client_id = client_id, co_subject = str_int u,
    co_scopes = scope_string scopes, co_code_challenge = ch, co_redirect_uri = ru, co_resource = Some res,
    co_expires_at = ae_clock env (as_ticks s) + ae_code_ttl env, co_used_at = None\<rparr>"
  have "as_db s1 = db\<lparr>md_codes := md_codes db @ [?row]\<rparr>"
    using k sc code by (simp add: save_code_def split: if_splits)
  then have "?row \<in> set (md_codes (as_db s1))" by simp
  then show ?thesis
    by (rule that [of ?row grant]) (use g1 rb keep t sound ru res sc canonical_reads_back [OF can] in simp_all)
qed

text \<open>the whole flow works. When a user approves a request that resolves to some scopes, the code of
  the redirect, presented by the same application in time, buys tokens for exactly those scopes, and the
  access token then loads and stands for that user, that application and those scopes.\<close>

theorem authorization_flow:
  assumes "access_sound (as_db s)" "approve env u client_id ru req ch resource st fa fi h s = (Inr (ru', code, st'), s1)"
    and "get_client client_id (as_db s) = Some client" "resolve_scopes env client req = Inr scopes" "scopes \<noteq> []"
    and "ae_clock env (as_ticks s + 3) < ae_clock env (as_ticks s) + ae_code_ttl env"
    and "ae_clock env (as_ticks s + 8) < ae_clock env (as_ticks s + 3) + ae_access_ttl env"
    and "fresh_pair env (as_ticks s + 4) (as_db s)"
  shows "\<exists>tokens s2 t. exchange_code env client_id code (Some ru') resource s1 = (Inr tokens, s2) \<and> it_scopes tokens = scopes
    \<and> fst (load_access_token env (it_access_token tokens) s2) = Inr (Some t)
    \<and> tk_scopes t = scopes \<and> tk_subject t = str_int u \<and> tk_client_id t = client_id"
proof -
  from approve_leaves [OF assms(1-4)] obtain row grant where
    row: "row \<in> set (md_codes (as_db s1))" "co_code_hash row = hash_secret env code" "co_used_at row = None"
    "co_expires_at row = ae_clock env (as_ticks s) + ae_code_ttl env" "co_client_id row = client_id" "co_subject row = str_int u"
    "co_redirect_uri row = ru" "co_resource row = Some (server_resource env)" "co_grant_id row = ag_id grant"
    "normalize_scopes (py_split (co_scopes row)) = scopes"
    and g: "get_grant (ag_id grant) (as_db s1) = Some grant" "ag_scopes grant = scopes" "ag_status grant = Grant_ACTIVE"
    "ag_user_id grant = u" "ag_client_id grant = client_id"
    and k: "md_tokens (as_db s1) = md_tokens (as_db s)" "as_ticks s1 = as_ticks s + 3" "access_sound (as_db s1)" "ru' = ru"
    "validate_resource env resource = Inr (server_resource env)" by metis
  let ?h = "hash_secret env code" and ?now = "ae_clock env (as_ticks s + 3)"
  let ?db = "(as_db s1)\<lparr>md_codes := sql_update (redeemable ?h ?now) (\<lambda>r. r\<lparr>co_used_at := Some ?now\<rparr>) (md_codes (as_db s1))\<rparr>"
  let ?s = "\<lparr>as_db = ?db, as_ticks = as_ticks s + 4\<rparr>"
  have take: "take_code ?h ?now (as_db s1) = (Some (to_code (row\<lparr>co_used_at := Some ?now\<rparr>)), ?db)"
    by (rule take_code_redeems) (use row k assms(6) in \<open>auto simp: access_sound_def redeemable_def\<close>)
  have gg: "get_grant (ag_id grant) ?db = Some grant" using g(1) by (simp add: get_grant_def)
  have act: "require_active_grant (ag_id grant) (str_int u) ?s = (Inr grant, ?s)"
    using gg g assms(5) by (simp add: require_active_grant_def read_access_def grant_is_active_def)
  have fresh: "fresh_pair env (as_ticks ?s) (as_db ?s)" using assms(8) k by (simp add: fresh_pair_def)
  have n: "as_ticks s + 3 = as_ticks s1" "as_ticks s + 4 = Suc (as_ticks s1)" using k(2) by simp_all
  have s: "s1\<lparr>as_ticks := Suc (as_ticks s1), as_db := db\<rparr> = \<lparr>as_db = db, as_ticks = Suc (as_ticks s1)\<rparr>" for db by (cases s1) simp
  have f: "filter (\<lambda>s. s \<in> set scopes) scopes = scopes" by (rule filter_True) simp
  have ex: "exchange_code env client_id code (Some ru') resource s1 = issue env grant scopes (server_resource env) ?now True ?s"
    using take act row k(4,5) g assms(5) f unfolding n
    by (simp add: s Let_def exchange_code_def sbind_def tick_op_def exec_access_def sreturn_def to_code_def foreign_resource_def)
  let ?tr = "minted_row env (as_ticks s + 4) ''ACCESS'' (ae_access_ttl env) grant scopes (server_resource env) ?now"
    and ?rr = "minted_row env (as_ticks s + 6) ''REFRESH'' (ae_refresh_ttl env) grant scopes (server_resource env) ?now"
  let ?s2 = "\<lparr>as_db = ?db\<lparr>md_tokens := md_tokens ?db @ [?tr, ?rr]\<rparr>, as_ticks = as_ticks s + 8\<rparr>"
  have iss: "\<exists>tokens. exchange_code env client_id code (Some ru') resource s1 = (Inr tokens, ?s2)
      \<and> it_scopes tokens = scopes \<and> it_access_token tokens = ae_secret env (as_ticks s + 4)"
    unfolding ex issue_fresh [OF fresh] by (simp add: numeral_eq_Suc)
  have tok: "get_token (hash_secret env (ae_secret env (as_ticks s + 4))) (as_db ?s2) = Some (to_token ?tr)"
    using fresh k by (simp add: get_token_appended fresh_pair_def minted_row_def)
  have "get_grant (ag_id grant) (as_db ?s2) = Some grant" using gg by (simp add: get_grant_def)
  then have "fst (load_access_token env (ae_secret env (as_ticks s + 4)) ?s2) = Inr (Some (to_token ?tr))"
    unfolding load_iff using tok g assms(5,7) by (simp add: to_token_def minted_row_def normalize_scope_string)
  moreover have "tk_scopes (to_token ?tr) = scopes" "tk_subject (to_token ?tr) = str_int u" "tk_client_id (to_token ?tr) = client_id"
    using g canonical_reads_back [OF resolve_Inr(1) [OF assms(4)]] by (simp_all add: to_token_def minted_row_def)
  ultimately show ?thesis using iss by metis
qed

theorem authorization_flow_witness:
  "\<exists>tokens s2 t. exchange_code sample_env ''c'' ''sss'' (Some ''r'') None sample_approved = (Inr tokens, s2)
    \<and> it_scopes tokens = [Scope_DOCUMENTS_READ] \<and> fst (load_access_token sample_env (it_access_token tokens) s2) = Inr (Some t)
    \<and> tk_subject t = str_int 7"
proof -
  have s: "access_sound (as_db sample_registered)"
    by (simp add: access_sound_def sample_registered_def)
  have c: "get_client ''c'' (as_db sample_registered) = Some sample_client"
    by (simp add: get_client_def sample_registered_def sample_client_def sql_first_def sql_select_def)
  have r: "resolve_scopes sample_env sample_client [''documents.read''] = Inr [Scope_DOCUMENTS_READ]"
    by (simp add: access_defs sample_defs)
  have "fresh_pair sample_env (as_ticks sample_registered + 4) (as_db sample_registered)"
    by (simp add: fresh_pair_def sample_env_def hash_secret_def sample_registered_def numeral_eq_Suc)
  from authorization_flow [OF s sample_approve c r _ _ _ this] show ?thesis
    by (auto simp: sample_env_def sample_registered_def)
qed

section \<open>Rotation\<close>

definition refreshable :: "access_env \<Rightarrow> string \<Rightarrow> string option \<Rightarrow> token_record \<Rightarrow> agent_grant \<Rightarrow> access_state \<Rightarrow> bool" where
  "refreshable env client_id resource t g s = (tk_kind t = ''REFRESH'' \<and> tk_revoked_at t = None
     \<and> ae_clock env (as_ticks s) < tk_expires_at t \<and> tk_client_id t = client_id
     \<and> validate_resource env resource = Inr (server_resource env) \<and> \<not> foreign_resource (tk_resource t) (server_resource env)
     \<and> get_grant (tk_grant_id t) (as_db s) = Some g \<and> grant_is_active g \<and> tk_subject t = str_int (ag_user_id g))"

lemma narrow_scopes_Inr: "narrow_scopes scopes held = Inr narrowed \<Longrightarrow> set narrowed \<subseteq> set held"
  by (auto simp: narrow_scopes_def Let_def is_subset_def split: if_splits)

lemma get_token_kept: "get_token h db = Some t \<Longrightarrow> get_token h (db\<lparr>md_tokens := md_tokens db @ new\<rparr>) = Some t"
  by (cases "filter (\<lambda>r. to_token_hash r = h) (md_tokens db)") (auto simp: get_token_def sql_first_def sql_select_def)

lemma revoke_token_spent:
  assumes "get_token h db = Some t"
  shows "\<exists>t'. get_token h (revoke_token_row h now db) = Some t' \<and> tk_revoked_at t' \<noteq> None"
proof -
  let ?Q = "\<lambda>r. to_token_hash r = h \<and> to_revoked_at r = None"
  from assms obtain row where r: "sql_first (sql_select (\<lambda>r. to_token_hash r = h) (md_tokens db)) = Some row"
    by (auto simp: get_token_def)
  have "sql_first (sql_select (\<lambda>r. to_token_hash r = h) (sql_update ?Q (\<lambda>r. r\<lparr>to_revoked_at := Some now\<rparr>) (md_tokens db)))
      = Some (if ?Q row then row\<lparr>to_revoked_at := Some now\<rparr> else row)"
    by (subst sql_first_update) (simp_all add: r)
  then show ?thesis using sql_first_Some [OF r] by (auto simp: get_token_def revoke_token_row_def to_token_def)
qed

text \<open>a refresh token that passes the checks buys new tokens for scopes it held, never more, and what
  another session committed between the check and the rotation is not looked at again: a rival that has
  already rotated the same token does not stop this one. The presented token ends up revoked.\<close>

theorem refresh_rotates:
  assumes "get_token (hash_secret env token) (as_db s) = Some t" "refreshable env client_id resource t g s"
    and "narrow_scopes scopes (tk_scopes t) = Inr narrowed"
    and "get_token (hash_secret env token) (ae_rival env (as_db s)) = Some t0" "fresh_pair env (Suc (as_ticks s)) (ae_rival env (as_db s))"
  shows "\<exists>tokens s'. exchange_refresh env client_id token scopes resource s = (Inr tokens, s') \<and> it_scopes tokens = narrowed
    \<and> set narrowed \<subseteq> set (tk_scopes t)
    \<and> (\<exists>t'. get_token (hash_secret env token) (as_db s') = Some t' \<and> tk_revoked_at t' \<noteq> None)"
proof -
  let ?now = "ae_clock env (as_ticks s)" and ?h = "tk_token_hash t"
  let ?s = "\<lparr>as_db = revoke_token_row ?h ?now (ae_rival env (as_db s)), as_ticks = Suc (as_ticks s)\<rparr>"
  have s: "s\<lparr>as_ticks := Suc (as_ticks s), as_db := db\<rparr> = \<lparr>as_db = db, as_ticks = Suc (as_ticks s)\<rparr>" for db by (cases s) simp
  have act: "require_active_grant (tk_grant_id t) (tk_subject t) (s\<lparr>as_ticks := n\<rparr>) = (Inr g, s\<lparr>as_ticks := n\<rparr>)" for n
    using assms(2) by (simp add: require_active_grant_def read_access_def refreshable_def)
  have ex: "exchange_refresh env client_id token scopes resource s = issue env g narrowed (server_resource env) ?now True ?s"
    using assms act unfolding refreshable_def
    by (simp add: exchange_refresh_def sbind_def tick_op_def read_access_def sreturn_def write_access_def s)
  have "to_token_hash ` set (md_tokens (revoke_token_row ?h ?now db)) = to_token_hash ` set (md_tokens db)" for db
    using arg_cong [OF map_sql_update_frame [of "\<lambda>r. to_token_hash r = ?h \<and> to_revoked_at r = None" to_token_hash
        "\<lambda>r. r\<lparr>to_revoked_at := Some ?now\<rparr>" "md_tokens db"], of set] by (simp add: revoke_token_row_def)
  then have fresh: "fresh_pair env (as_ticks ?s) (as_db ?s)" using assms(5) by (simp add: fresh_pair_def)
  have "?h = hash_secret env token" using assms(1) by (auto simp: to_token_def elim!: get_token_Some)
  then have "\<exists>t'. get_token (hash_secret env token) ((as_db ?s)\<lparr>md_tokens := md_tokens (as_db ?s) @ new\<rparr>) = Some t' \<and> tk_revoked_at t' \<noteq> None" for new
    using revoke_token_spent [OF assms(4), of ?now] get_token_kept by fastforce
  then show ?thesis unfolding ex issue_fresh [OF fresh] using narrow_scopes_Inr [OF assms(3)] by simp
qed

text \<open>Two exchanges of one refresh token, the second checked before the first had rotated it.\<close>

definition rotated_by_rival :: mcp_db where
  "rotated_by_rival = as_db (snd (exchange_refresh sample_env ''c'' ''sssssss'' [] None (sample_exchanged\<lparr>as_ticks := 12\<rparr>)))"

lemma rival_exchange:
  "exchange_refresh sample_env ''c'' ''sssssss'' [] None (sample_exchanged\<lparr>as_ticks := 12\<rparr>)
    = (Inr \<lparr>it_access_token = replicate 13 (CHR ''s''), it_expires_in = 0, it_scopes = [Scope_DOCUMENTS_READ],
        it_refresh_token = Some (replicate 15 (CHR ''s''))\<rparr>,
      \<lparr>as_db = (as_db sample_exchanged)\<lparr>md_tokens := [sample_token 5 ''ACCESS'' 60, (sample_token 7 ''REFRESH'' 600)\<lparr>to_revoked_at := Some 12\<rparr>,
        (sample_token 13 ''ACCESS'' 60)\<lparr>to_expires_at := 72\<rparr>, (sample_token 15 ''REFRESH'' 600)\<lparr>to_expires_at := 612\<rparr>]\<rparr>, as_ticks = 17\<rparr>)"
  by (simp add: exchange_refresh_def get_token_def to_token_def narrow_scopes_def write_access_def revoke_token_row_def exchange_defs
      sample_defs sample_exchanged_def sample_token_def numeral_eq_Suc)

lemma rival_rotated:
  "rotated_by_rival = (as_db sample_exchanged)\<lparr>md_tokens := [sample_token 5 ''ACCESS'' 60,
     (sample_token 7 ''REFRESH'' 600)\<lparr>to_revoked_at := Some 12\<rparr>,
     (sample_token 13 ''ACCESS'' 60)\<lparr>to_expires_at := 72\<rparr>, (sample_token 15 ''REFRESH'' 600)\<lparr>to_expires_at := 612\<rparr>]\<rparr>"
  unfolding rotated_by_rival_def rival_exchange by simp

theorem refresh_rotates_witness:
  "\<exists>tokens s2 t. fst (exchange_refresh sample_env ''c'' ''sssssss'' [] None (sample_exchanged\<lparr>as_ticks := 12\<rparr>))
      = Inr \<lparr>it_access_token = replicate 13 (CHR ''s''), it_expires_in = 0, it_scopes = [Scope_DOCUMENTS_READ],
        it_refresh_token = Some (replicate 15 (CHR ''s''))\<rparr>
    \<and> get_token ''sssssss'' rotated_by_rival = Some t \<and> tk_revoked_at t \<noteq> None
    \<and> exchange_refresh (sample_env\<lparr>ae_rival := (\<lambda>_. rotated_by_rival)\<rparr>) ''c'' ''sssssss'' [] None sample_exchanged = (Inr tokens, s2)"
proof -
  let ?env = "sample_env\<lparr>ae_rival := (\<lambda>_. rotated_by_rival)\<rparr>"
  let ?t = "to_token (sample_token 7 ''REFRESH'' 600)" and ?g = "to_grant sample_grant_row"
  let ?spent = "to_token ((sample_token 7 ''REFRESH'' 600)\<lparr>to_revoked_at := Some 12\<rparr>)"
  have tok: "get_token (hash_secret ?env ''sssssss'') (as_db sample_exchanged) = Some ?t"
    by (simp add: get_token_def sql_first_def sql_select_def sample_exchanged_def sample_token_def hash_secret_def sample_env_def numeral_eq_Suc)
  have ref: "refreshable ?env ''c'' None ?t ?g sample_exchanged"
    by (simp add: refreshable_def validate_resource_def server_resource_def rstrip_slash_def foreign_resource_def get_grant_def sql_first_def
        sql_select_def grant_is_active_def sample_exchanged_def sample_token_def to_token_def to_grant_def sample_grant_row_def
        sample_env_def grant_status_of_def sample_scopes)
  have nar: "narrow_scopes [] (tk_scopes ?t) = Inr [Scope_DOCUMENTS_READ]"
    by (simp add: narrow_scopes_def to_token_def sample_token_def sample_scopes)
  have t0: "get_token (hash_secret ?env ''sssssss'') (ae_rival ?env (as_db sample_exchanged)) = Some ?spent"
    by (simp add: rival_rotated get_token_def sql_first_def sql_select_def sample_token_def hash_secret_def
        sample_env_def numeral_eq_Suc)
  have "fresh_pair ?env (Suc (as_ticks sample_exchanged)) (ae_rival ?env (as_db sample_exchanged))"
    by (simp add: rival_rotated fresh_pair_def sample_token_def hash_secret_def sample_exchanged_def
        sample_env_def numeral_eq_Suc)
  from refresh_rotates [OF tok ref nar t0 this] obtain tokens s2
    where "exchange_refresh ?env ''c'' ''sssssss'' [] None sample_exchanged = (Inr tokens, s2)" by blast
  moreover have "get_token ''sssssss'' rotated_by_rival = Some ?spent"
    using t0 by (simp add: hash_secret_def sample_env_def)
  moreover have "tk_revoked_at ?spent \<noteq> None" by (simp add: to_token_def)
  ultimately show ?thesis unfolding rival_exchange fst_conv by blast
qed

section \<open>Pausing and resuming\<close>

lemma sql_first_owned:
  assumes "unique_key gr_id rows" "row \<in> set rows"
  shows "sql_first (sql_select (owned_grant (gr_id row) (gr_user_id row)) rows) = Some row"
proof -
  have "owned_grant (gr_id row) (gr_user_id row) r \<longleftrightarrow> gr_id r = gr_id row" if "r \<in> set rows" for r
    using unique_key_inj [OF assms(1) that assms(2)] by (auto simp: owned_grant_def)
  then have "filter (owned_grant (gr_id row) (gr_user_id row)) rows = filter (\<lambda>r. gr_id r = gr_id row) rows"
    by (rule filter_cong [OF refl])
  then show ?thesis using filter_unique_key_mem [OF assms] by (simp add: sql_first_def sql_select_def)
qed

lemma updated_grant_row:
  assumes "unique_key gr_id (md_grants db)" "row \<in> set (md_grants db)"
    and "\<And>r. gr_id (f r) = gr_id r \<and> gr_user_id (f r) = gr_user_id r"
  shows "sql_first (sql_select (\<lambda>x. gr_id x = gr_id row) (update_first (owned_grant (gr_id row) (gr_user_id row)) f (md_grants db)))
    = Some (f row)"
proof -
  let ?P = "owned_grant (gr_id row) (gr_user_id row)" and ?t = "update_first (owned_grant (gr_id row) (gr_user_id row)) f (md_grants db)"
  have "sql_first (sql_select ?P ?t) = Some (f row)"
    using sql_first_owned [OF assms(1,2)] assms(3) by (subst sql_first_update_first) (simp_all add: owned_grant_def)
  from sql_first_Some [OF this] have "f row \<in> set ?t" by simp
  moreover have "unique_key gr_id ?t"
    using assms(1) map_update_first [of ?P gr_id f "md_grants db"] assms(3) by (simp add: unique_key_def)
  ultimately have "sql_first (sql_select (\<lambda>x. gr_id x = gr_id (f row)) ?t) = Some (f row)" by (intro sql_first_unique)
  then show ?thesis using assms(3) by simp
qed

text \<open>The change of status of a grant that is neither revoked nor there already, on the table other sessions have left.\<close>

lemma status_written:
  assumes "unique_key gr_id (md_grants db)" "row \<in> set (md_grants db)" "gr_status row \<noteq> ''REVOKED''"
    "gr_status row \<noteq> agent_grant_status_value st"
    and "sql_first (sql_select (\<lambda>x. gr_id x = gr_id row) (md_grants (rival db))) = Some now_row"
  shows "fst (set_grant_status rival (gr_id row) (gr_user_id row) st now db)
      = Inr (Some (to_grant (row\<lparr>gr_status := agent_grant_status_value st, gr_paused_at := (if st = Grant_PAUSED then Some now else None)\<rparr>)))
    \<and> (\<exists>p. get_grant (gr_id row) (snd (set_grant_status rival (gr_id row) (gr_user_id row) st now db))
      = Some (to_grant (now_row\<lparr>gr_status := agent_grant_status_value st, gr_paused_at := p\<rparr>))
        \<and> (now_row = row \<longrightarrow> p = (if st = Grant_PAUSED then Some now else None)))"
proof -
  let ?new = "if st = Grant_PAUSED then Some now else None"
  let ?f = "\<lambda>r :: grant_row. r\<lparr>gr_status := agent_grant_status_value st,
      gr_paused_at := (if ?new = gr_paused_at row then gr_paused_at r else ?new)\<rparr>"
  have own: "sql_first (sql_select (owned_grant (gr_id row) (gr_user_id row)) (md_grants db)) = Some row"
    by (rule sql_first_owned [OF assms(1,2)])
  have hit: "now_row \<in> set (md_grants (rival db))" "gr_id now_row = gr_id row" using sql_first_Some [OF assms(5)] by simp_all
  then have there: "gr_id row \<in> gr_id ` set (md_grants (rival db))" by (intro image_eqI) (rule sym)
  have run: "set_grant_status rival (gr_id row) (gr_user_id row) st now db = (Inr (Some (to_grant (?f row))),
      (rival db)\<lparr>md_grants := sql_update (\<lambda>r. gr_id r = gr_id row) ?f (md_grants (rival db))\<rparr>)"
    using own assms(3,4) there by (simp add: set_grant_status_def Let_def)
  have "sql_first (sql_select (\<lambda>x. gr_id x = gr_id row) (sql_update (\<lambda>r. gr_id r = gr_id row) ?f (md_grants (rival db)))) = Some (?f now_row)"
    using assms(5) hit(2) by (subst sql_first_update) simp_all
  then show ?thesis unfolding run get_grant_def
    by (cases "?new = gr_paused_at row") (auto intro: exI [of _ "gr_paused_at now_row"] exI [of _ ?new])
qed

text \<open>the repository's status update implements the entity: for an owned grant it answers and stores what
  pausing or resuming the entity gives, and refuses, changing nothing, exactly where the entity refuses.\<close>

theorem status_refines_entity:
  assumes "access_sound db" "get_grant gid db = Some g" "st = Grant_PAUSED \<or> st = Grant_ACTIVE"
    and "gr_status ` set (md_grants db) \<subseteq> range agent_grant_status_value"
  shows "case (if st = Grant_PAUSED then grant_pause now g else grant_resume g) of
      Inl e \<Rightarrow> \<exists>m. set_grant_status (\<lambda>db. db) gid (ag_user_id g) st now db = (Inl (AppError InvalidGrantTransition m), db)
    | Inr g' \<Rightarrow> fst (set_grant_status (\<lambda>db. db) gid (ag_user_id g) st now db) = Inr (Some g')
        \<and> get_grant gid (snd (set_grant_status (\<lambda>db. db) gid (ag_user_id g) st now db)) = Some g'"
proof -
  from assms(2) obtain row where row: "row \<in> set (md_grants db)" "gr_id row = gid" "g = to_grant row" by (rule get_grant_Some)
  have uniq: "unique_key gr_id (md_grants db)" using assms(1) by (simp add: access_sound_def)
  have u: "ag_user_id g = gr_user_id row" using row by (simp add: to_grant_def)
  have own: "sql_first (sql_select (owned_grant gid (gr_user_id row)) (md_grants db)) = Some row"
    using sql_first_owned [OF uniq row(1)] row(2) by simp
  obtain v where v: "gr_status row = agent_grant_status_value v" using assms(4) row(1) by blast
  have stat: "ag_status g = v" using row(3) v by (cases v) (simp_all add: to_grant_def grant_status_of_def)
  show ?thesis
  proof (cases "v = Grant_REVOKED \<or> v = st")
    case True
    then show ?thesis
      using assms(2,3) own v stat row(3) unfolding u
      by (cases v; elim disjE) (simp_all add: set_grant_status_def Let_def grant_pause_def grant_resume_def to_grant_def grant_status_of_def)
  next
    case False
    have first: "sql_first (sql_select (\<lambda>x. gr_id x = gr_id row) (md_grants db)) = Some row"
      using sql_first_unique [OF uniq row(1)] by simp
    have "gr_status row \<noteq> ''REVOKED''" "gr_status row \<noteq> agent_grant_status_value st"
      using False v assms(3) by (cases v; auto)+
    from status_written [OF uniq row(1) this, of "\<lambda>db. db" row now] first False assms(3) stat row
    show ?thesis unfolding u
      by (cases v; elim disjE) (auto simp: grant_pause_def grant_resume_def to_grant_def grant_status_of_def)
  qed
qed

theorem status_refines_entity_witness:
  "\<exists>g. get_grant ''gg'' (as_db sample_approved) = Some g \<and> ag_status g = Grant_ACTIVE
    \<and> fst (set_grant_status (\<lambda>db. db) ''gg'' 7 Grant_PAUSED 9 (as_db sample_approved)) = Inr (Some (g\<lparr>ag_status := Grant_PAUSED, ag_paused_at := Some 9\<rparr>))"
proof -
  let ?g = "to_grant sample_grant_row"
  have g: "get_grant ''gg'' (as_db sample_approved) = Some ?g" "ag_status ?g = Grant_ACTIVE" "ag_user_id ?g = 7"
    by (simp_all add: get_grant_def sql_first_def sql_select_def sample_approved_def sample_grant_row_def to_grant_def grant_status_of_def)
  have "gr_status ` set (md_grants (as_db sample_approved)) \<subseteq> range agent_grant_status_value"
    using rangeI [of agent_grant_status_value Grant_ACTIVE] by (simp add: sample_approved_def sample_grant_row_def)
  from status_refines_entity [OF sample_sound(1) g(1) _ this, of Grant_PAUSED 9] g show ?thesis
    by (simp add: grant_pause_def)
qed

text \<open>C40: revocation is final for calls that begin after it, not for one in flight. When the user revokes a paused
  connection between the check and the write of a resume, the resume answers that the connection is active and
  writes it so: the grant is active again, with the revocation's time still on it, and its consent counts.\<close>

theorem resume_in_flight_undoes_revocation:
  assumes "access_sound db" "get_grant gid db = Some g" "ag_status g = Grant_PAUSED" "ag_scopes g \<noteq> []"
    and "rival = (\<lambda>d. snd (revoke_grant t gid (ag_user_id g) d))"
  shows "(\<exists>r. get_grant gid (rival db) = Some r \<and> ag_status r = Grant_REVOKED \<and> ag_revoked_at r = Some t)
    \<and> (\<exists>answer db' g'. set_grant_status rival gid (ag_user_id g) Grant_ACTIVE now db = (Inr (Some answer), db')
        \<and> ag_status answer = Grant_ACTIVE \<and> get_grant gid db' = Some g' \<and> grant_is_active g'
        \<and> ag_scopes g' = ag_scopes g \<and> ag_revoked_at g' = Some t)"
proof -
  from assms(2) obtain row where row: "row \<in> set (md_grants db)" "gr_id row = gid" "g = to_grant row" by (rule get_grant_Some)
  have uniq: "unique_key gr_id (md_grants db)" using assms(1) by (simp add: access_sound_def)
  have u: "ag_user_id g = gr_user_id row" using row by (simp add: to_grant_def)
  have paused: "gr_status row = ''PAUSED''"
    using assms(3) row(3) by (auto simp: to_grant_def grant_status_of_def split: if_splits)
  let ?f = "\<lambda>r :: grant_row. r\<lparr>gr_status := ''REVOKED'', gr_revoked_at := Some t\<rparr>"
  have own: "sql_first (sql_select (owned_grant gid (gr_user_id row)) (md_grants db)) = Some row"
    using sql_first_owned [OF uniq row(1)] row(2) by simp
  have "md_grants (rival db) = update_first (owned_grant gid (gr_user_id row)) ?f (md_grants db)"
    using own paused by (simp add: assms(5) u revoke_grant_def)
  then have first: "sql_first (sql_select (\<lambda>x. gr_id x = gr_id row) (md_grants (rival db))) = Some (?f row)"
    using updated_grant_row [OF uniq row(1), of ?f] row(2) by simp
  obtain p where run: "fst (set_grant_status rival gid (ag_user_id g) Grant_ACTIVE now db)
      = Inr (Some (to_grant (row\<lparr>gr_status := ''ACTIVE'', gr_paused_at := None\<rparr>)))"
    "get_grant gid (snd (set_grant_status rival gid (ag_user_id g) Grant_ACTIVE now db))
      = Some (to_grant ((?f row)\<lparr>gr_status := ''ACTIVE'', gr_paused_at := p\<rparr>))"
    using status_written [OF uniq row(1), of Grant_ACTIVE rival "?f row" now] first paused row(2) u by auto
  obtain db' where db': "db' = snd (set_grant_status rival gid (ag_user_id g) Grant_ACTIVE now db)" by simp
  let ?a = "to_grant (row\<lparr>gr_status := ''ACTIVE'', gr_paused_at := None\<rparr>)"
    and ?g = "to_grant ((?f row)\<lparr>gr_status := ''ACTIVE'', gr_paused_at := p\<rparr>)"
  have "set_grant_status rival gid (ag_user_id g) Grant_ACTIVE now db = (Inr (Some ?a), db')"
    using run(1) unfolding db' by (rule prod_eqI [OF trans]) simp_all
  moreover have "ag_status ?a = Grant_ACTIVE" "grant_is_active ?g" "ag_scopes ?g = ag_scopes g" "ag_revoked_at ?g = Some t"
    using assms(4) unfolding row(3) by (simp_all add: to_grant_def grant_status_of_def grant_is_active_def)
  moreover have "get_grant gid db' = Some ?g" using run(2) by (simp add: db')
  moreover have "get_grant gid (rival db) = Some (to_grant (?f row))" "ag_status (to_grant (?f row)) = Grant_REVOKED"
      "ag_revoked_at (to_grant (?f row)) = Some t"
    using first row(2) by (simp_all add: get_grant_def to_grant_def grant_status_of_def)
  ultimately show ?thesis by blast
qed

text \<open>A paused connection of user 7: its resume, overtaken by the revocation of instant 20, leaves it active.\<close>

definition paused_db :: mcp_db where
  "paused_db = snd (set_grant_status (\<lambda>db. db) ''gg'' 7 Grant_PAUSED 9 (as_db sample_approved))"

theorem resume_in_flight_undoes_revocation_witness:
  "\<exists>g'. get_grant ''gg'' (snd (set_grant_status (\<lambda>d. snd (revoke_grant 20 ''gg'' 7 d)) ''gg'' 7 Grant_ACTIVE 21 paused_db)) = Some g'
    \<and> grant_is_active g' \<and> ag_revoked_at g' = Some 20"
proof -
  let ?row = "sample_grant_row\<lparr>gr_status := ''PAUSED'', gr_paused_at := Some 9\<rparr>"
  have db: "paused_db = (as_db sample_approved)\<lparr>md_grants := [?row]\<rparr>"
    by (simp add: paused_db_def set_grant_status_def Let_def sql_first_def sql_select_def owned_grant_def sql_update_def
        sample_approved_def sample_grant_row_def)
  have g: "get_grant ''gg'' paused_db = Some (to_grant ?row)"
    by (simp add: db get_grant_def sql_first_def sql_select_def sample_grant_row_def)
  have paused: "ag_status (to_grant ?row) = Grant_PAUSED" "ag_scopes (to_grant ?row) \<noteq> []" "ag_user_id (to_grant ?row) = 7"
    by (simp_all add: to_grant_def grant_status_of_def sample_grant_row_def sample_scopes)
  have "access_sound paused_db"
    using status_after_rival [of "\<lambda>db. db" "''gg''" 7 Grant_PAUSED 9 "as_db sample_approved"] sample_sound(1)
    unfolding paused_db_def by (auto intro: grants_only_sound)
  from resume_in_flight_undoes_revocation [OF this g paused(1,2) refl, of 20 21] paused(3) show ?thesis by auto
qed

end
