(* ===== verification/File_Names.thy ===== *)
theory File_Names
  imports Transform_Prelude
begin

text \<open>
  Names of files: \<open>adapters/storage/sanitize.py\<close> (object keys and extensions), \<open>services/files/magic.py\<close> (the check
  of an upload's first bytes against its extension) and \<open>services/files/mime_types.py\<close>. A \<^theory_text>\<open>bytes\<close> value is a
  string whose characters are the bytes.
\<close>

section \<open>File names, keys and types\<close>

subsection \<open>Keys and extensions\<close>

definition MAX_KEY_LENGTH :: nat where "MAX_KEY_LENGTH = 1024"
definition MAX_EXTENSION_LENGTH :: nat where "MAX_EXTENSION_LENGTH = 20"

definition COMPOUND_EXTENSIONS :: "string list" where
  "COMPOUND_EXTENSIONS = [''tar.gz'', ''tar.bz2'', ''tar.xz'']"

definition normalize_extension :: "string option \<Rightarrow> string" where
  "normalize_extension extension = take MAX_EXTENSION_LENGTH
     (py_lower (lstrip_dots (py_strip (case extension of None \<Rightarrow> [] | Some e \<Rightarrow> e))))"

text \<open>\<open>s.endswith(suffix)\<close>, \<open>s.replace("\\", "/")\<close> and what follows the last dot.\<close>

definition py_endswith :: "string \<Rightarrow> string \<Rightarrow> bool" where
  "py_endswith s suffix = (take (length suffix) (rev s) = rev suffix)"

definition posix_slashes :: "string \<Rightarrow> string" where
  "posix_slashes s = map (\<lambda>c. if c = CHR 0x5C then CHR ''/'' else c) s"

definition after_last_dot :: "string \<Rightarrow> string" where
  "after_last_dot s = rev (takeWhile (\<lambda>c. c \<noteq> CHR ''.'') (rev s))"

definition extension_from_filename :: "string option \<Rightarrow> string" where
  "extension_from_filename file_name =
     (let name = path_name (posix_slashes (case file_name of None \<Rightarrow> [] | Some n \<Rightarrow> n)) in
      if name = [] \<or> hd name = CHR ''.'' then []
      else if CHR ''.'' \<notin> set name \<or> after_last_dot name = [] then []
      else case filter (\<lambda>c. py_endswith (py_lower name) (CHR ''.'' # c)) COMPOUND_EXTENSIONS of
          c # _ \<Rightarrow> c
        | [] \<Rightarrow> take MAX_EXTENSION_LENGTH (py_lower (after_last_dot name)))"

text \<open>
  The expression \<open>(^|/)\.\.(/|$)|(^/)|[\\]|(\x00)\<close>: a segment \<open>..\<close>, where \<open>$\<close> also matches before a final newline,
  a leading slash, a backslash, a null character. \<open>PurePosixPath(key).as_posix()\<close> of a relative key drops
  the empty segments and the single dots.
\<close>

definition forbidden_key :: "string \<Rightarrow> bool" where
  "forbidden_key key = (''..'' \<in> set (split_slash [] key) \<or> last (split_slash [] key) = ''..'' @ [CHR 0x0A]
     \<or> py_startswith key ''/'' \<or> CHR 0x5C \<in> set key \<or> CHR 0x00 \<in> set key)"

definition as_posix :: "string \<Rightarrow> string" where
  "as_posix key = (case path_parts key of [] \<Rightarrow> ''.'' | parts \<Rightarrow> py_join ''/'' parts)"

definition sanitize_object_key :: "bool \<Rightarrow> string \<Rightarrow> string result" where
  "sanitize_object_key allow_slashes key =
     (if key = [] \<or> MAX_KEY_LENGTH < length key
      then Inl (AppError UnsafeObjectKeyError ''Object key is empty or too long.'')
      else if forbidden_key key then Inl (AppError UnsafeObjectKeyError ''Object key contains forbidden path sequences.'')
      else if \<not> allow_slashes \<and> CHR ''/'' \<in> set key
      then Inl (AppError UnsafeObjectKeyError ''Object key must be a single path segment.'')
      else let cleaned = as_posix key in
        if cleaned \<noteq> key \<or> py_startswith cleaned ''/'' \<or> py_endswith cleaned ''/''
        then Inl (AppError UnsafeObjectKeyError ''Object key is not a clean relative path.'')
        else Inr cleaned)"

definition sanitize_filename :: "string \<Rightarrow> string result" where
  "sanitize_filename name =
     (let leaf = path_name (posix_slashes name) in
      if leaf = [] \<or> leaf = ''.'' \<or> leaf = ''..'' then Inl (AppError UnsafeObjectKeyError ''File name is unsafe.'')
      else Inr (drop (length leaf - 255) leaf))"

subsection \<open>Signatures\<close>

definition SIGNATURES :: "(string list \<times> string) list" where
  "SIGNATURES = [
     ([''%PDF-''], ''pdf''),
     ([[CHR 0x89, CHR ''P'', CHR ''N'', CHR ''G'', CHR 0x0D, CHR 0x0A, CHR 0x1A, CHR 0x0A]], ''png''),
     ([[CHR 0xFF, CHR 0xD8, CHR 0xFF]], ''jpeg''),
     ([[CHR ''P'', CHR ''K'', CHR 0x03, CHR 0x04], [CHR ''P'', CHR ''K'', CHR 0x05, CHR 0x06],
       [CHR ''P'', CHR ''K'', CHR 0x07, CHR 0x08]], ''zip''),
     ([[CHR 0x1F, CHR 0x8B]], ''gz''),
     ([''GIF87a'', ''GIF89a''], ''gif''),
     ([''OggS''], ''ogg''),
     ([''fLaC''], ''flac''),
     ([''ID3''], ''mp3''),
     ([[CHR 0xFF, CHR 0xFB], [CHR 0xFF, CHR 0xF3], [CHR 0xFF, CHR 0xF2]], ''mp3''),
     ([''BM''], ''bmp''),
     ([[CHR 0x00, CHR 0x00, CHR 0x01, CHR 0x00]], ''ico''),
     ([[CHR 0x1A, CHR ''E'', CHR 0xDF, CHR 0xA3]], ''webm''),
     ([''ftyp''], ''mp4''),
     ([''{''], ''json''),
     ([''<''], ''xml'')]"

definition ISO_BMFF_BRANDS :: "(string \<times> string) list" where
  "ISO_BMFF_BRANDS = [(''avif'', ''avif''), (''avis'', ''avif''), (''heic'', ''heic''), (''heix'', ''heic''), (''hevc'', ''heic''),
     (''hevx'', ''heic''), (''mif1'', ''heic''), (''msf1'', ''heic'')]"

definition LENIENT_EXTENSIONS :: "string list" where
  "LENIENT_EXTENSIONS = [''doc'', ''docx'', ''xls'', ''xlsx'', ''ppt'', ''pptx'', ''odt'', ''ods'', ''odp'', ''rtf'', ''txt'',
     ''md'', ''html'', ''csv'', ''xml'', ''json'', ''epub'', ''mobi'', ''azw3'', ''ttf'', ''woff'', ''woff2'',
     ''otf'', ''eot'', ''tar'', ''bz2'', ''xz'', ''m4a'', ''aac'', ''avi'', ''mkv'', ''svg'']"

definition byte_slice :: "nat \<Rightarrow> nat \<Rightarrow> string \<Rightarrow> string" where
  "byte_slice i j s = drop i (take j s)"

definition detect_type :: "string \<Rightarrow> string option" where
  "detect_type head =
     (if 12 \<le> length head \<and> byte_slice 0 4 head = ''RIFF''
      then Some (if byte_slice 8 12 head = ''WEBP'' then ''webp'' else ''wav'')
      else case filter (\<lambda>(prefixes, label). \<exists>p \<in> set prefixes. py_startswith head p) SIGNATURES of
          (prefixes, label) # _ \<Rightarrow> Some label
        | [] \<Rightarrow> if 12 \<le> length head \<and> byte_slice 4 8 head = ''ftyp''
            then Some (case map_of ISO_BMFF_BRANDS (byte_slice 8 12 head) of None \<Rightarrow> ''mp4'' | Some b \<Rightarrow> b)
            else None)"

definition MP4_FAMILY :: "string list" where
  "MP4_FAMILY = [''mp4'', ''mov'', ''m4v'', ''m4a'', ''m4b'', ''m4r'', ''alac'']"

definition signature_aliases :: "(string \<times> string list) list" where
  "signature_aliases = [(''jpeg'', [''jpg'', ''jpeg'']), (''jpg'', [''jpg'', ''jpeg'']), (''mp4'', MP4_FAMILY), (''mov'', MP4_FAMILY),
     (''ogg'', [''ogg'', ''oga'', ''ogv'', ''opus'', ''spx'']), (''webm'', [''webm'']), (''wav'', [''wav'']), (''webp'', [''webp'']),
     (''avif'', [''avif'']), (''heic'', [''heic'', ''heif'']), (''mp3'', [''mp3'']), (''zip'', [''zip'']), (''gz'', [''gz''])]"

definition validate_upload_signature :: "string \<Rightarrow> string \<Rightarrow> bool" where
  "validate_upload_signature head extension =
     (let ext = lstrip_dots (py_lower extension) in
      if ext \<in> set LENIENT_EXTENSIONS \<or> ext = [] then True
      else case detect_type head of
          None \<Rightarrow> True
        | Some detected \<Rightarrow> ext \<in> set (case map_of signature_aliases detected of None \<Rightarrow> [detected] | Some exts \<Rightarrow> exts))"

subsection \<open>Content types\<close>

definition FALLBACK_MIME_TYPE :: string where "FALLBACK_MIME_TYPE = ''application/octet-stream''"

definition GENERIC_MIME_TYPES :: "string list" where
  "GENERIC_MIME_TYPES = [[], FALLBACK_MIME_TYPE, ''binary/octet-stream'', ''application/x-www-form-urlencoded'',
     ''application/unknown'', ''application/binary'', ''unknown/unknown'']"

definition EXTENSION_MIME_TYPES :: "(string \<times> string) list" where
  "EXTENSION_MIME_TYPES = [(''pdf'', ''application/pdf''), (''doc'', ''application/msword''),
    (''docx'', ''application/vnd.openxmlformats-officedocument.wordprocessingml.document''),
    (''odt'', ''application/vnd.oasis.opendocument.text''), (''rtf'', ''application/rtf''), (''txt'', ''text/plain''),
    (''md'', ''text/markdown''), (''markdown'', ''text/markdown''), (''csv'', ''text/csv''),
    (''tsv'', ''text/tab-separated-values''), (''json'', ''application/json''), (''xml'', ''application/xml''),
    (''yaml'', ''text/yaml''), (''yml'', ''text/yaml''), (''log'', ''text/plain''), (''html'', ''text/html''),
    (''htm'', ''text/html''), (''css'', ''text/css''), (''xls'', ''application/vnd.ms-excel''),
    (''xlsx'', ''application/vnd.openxmlformats-officedocument.spreadsheetml.sheet''),
    (''ods'', ''application/vnd.oasis.opendocument.spreadsheet''), (''ppt'', ''application/vnd.ms-powerpoint''),
    (''pptx'', ''application/vnd.openxmlformats-officedocument.presentationml.presentation''),
    (''odp'', ''application/vnd.oasis.opendocument.presentation''), (''png'', ''image/png''), (''jpg'', ''image/jpeg''),
    (''jpeg'', ''image/jpeg''), (''gif'', ''image/gif''), (''webp'', ''image/webp''), (''bmp'', ''image/bmp''),
    (''svg'', ''image/svg+xml''), (''avif'', ''image/avif''), (''heic'', ''image/heic''), (''heif'', ''image/heic''),
    (''ico'', ''image/x-icon''), (''tiff'', ''image/tiff''), (''tif'', ''image/tiff''), (''mp4'', ''video/mp4''),
    (''m4v'', ''video/mp4''), (''webm'', ''video/webm''), (''mov'', ''video/quicktime''),
    (''mkv'', ''video/x-matroska''), (''avi'', ''video/x-msvideo''), (''ogv'', ''video/ogg''),
    (''flv'', ''video/x-flv''), (''wmv'', ''video/x-ms-wmv''), (''mpg'', ''video/mpeg''), (''mpeg'', ''video/mpeg''),
    (''3gp'', ''video/3gpp''), (''mp3'', ''audio/mpeg''), (''wav'', ''audio/wav''), (''ogg'', ''audio/ogg''),
    (''oga'', ''audio/ogg''), (''opus'', ''audio/ogg''), (''flac'', ''audio/flac''), (''m4a'', ''audio/mp4''),
    (''alac'', ''audio/mp4''), (''m4b'', ''audio/mp4''), (''m4r'', ''audio/mp4''), (''aac'', ''audio/aac''),
    (''wma'', ''audio/x-ms-wma''), (''aiff'', ''audio/aiff''), (''mid'', ''audio/midi''), (''midi'', ''audio/midi''),
    (''zip'', ''application/zip''), (''gz'', ''application/gzip''), (''tar'', ''application/x-tar''),
    (''bz2'', ''application/x-bzip2''), (''xz'', ''application/x-xz''), (''7z'', ''application/x-7z-compressed''),
    (''rar'', ''application/vnd.rar''), (''epub'', ''application/epub+zip''),
    (''mobi'', ''application/x-mobipocket-ebook'')]"

definition mime_type_for :: "string \<Rightarrow> string option" where
  "mime_type_for extension =
     (let key = lstrip_dots (py_lower (py_strip extension)) in
      if key = [] then None
      else case map_of EXTENSION_MIME_TYPES key of
          Some t \<Rightarrow> Some t
        | None \<Rightarrow> let outer = after_last_dot key in
            if outer \<noteq> [] \<and> outer \<noteq> key then map_of EXTENSION_MIME_TYPES outer else None)"

text \<open>\<open>FileService._resolve_mime_type\<close>.\<close>

definition resolve_mime_type :: "string \<Rightarrow> string \<Rightarrow> string option \<Rightarrow> string" where
  "resolve_mime_type file_name file_extension reported_type =
     (case (case mime_type_for file_extension of
          Some t \<Rightarrow> Some t | None \<Rightarrow> mime_type_for (extension_from_filename (Some file_name))) of
        Some t \<Rightarrow> t
      | None \<Rightarrow>
        let reported = py_lower (py_strip (takeWhile (\<lambda>c. c \<noteq> CHR '';'') (case reported_type of None \<Rightarrow> [] | Some t \<Rightarrow> t))) in
        if reported \<noteq> [] \<and> reported \<notin> set GENERIC_MIME_TYPES then reported else FALLBACK_MIME_TYPE)"

section \<open>What the checks guarantee\<close>

text \<open>Where a key leads from the root of the bucket when it is read as a path; \<^term>\<open>None\<close> is a way out of the root.\<close>

fun walk_path :: "string list \<Rightarrow> string list \<Rightarrow> string list option" where
  "walk_path [] here = Some here"
| "walk_path (seg # segs) here =
     (if seg = [] \<or> seg = ''.'' then walk_path segs here
      else if seg = ''..'' then (case here of [] \<Rightarrow> None | _ # up \<Rightarrow> walk_path segs up)
      else walk_path segs (seg # here))"

definition key_location :: "string \<Rightarrow> string list option" where
  "key_location key = walk_path (split_slash [] key) []"

lemma walk_path_down:
  "''..'' \<notin> set segs \<Longrightarrow> walk_path segs here = Some (rev (filter (\<lambda>x. x \<noteq> [] \<and> x \<noteq> ''.'') segs) @ here)"
  by (induction segs arbitrary: here) auto

lemma sanitize_key_Inr:
  "sanitize_object_key allow_slashes key = Inr k \<longleftrightarrow> k = key \<and> key \<noteq> [] \<and> length key \<le> MAX_KEY_LENGTH \<and> \<not> forbidden_key key
    \<and> (allow_slashes \<or> CHR ''/'' \<notin> set key) \<and> as_posix key = key \<and> \<not> py_startswith key ''/'' \<and> \<not> py_endswith key ''/''"
  by (auto simp: sanitize_object_key_def Let_def)

lemma sanitized_location:
  assumes "sanitize_object_key allow_slashes key = Inr k"
  shows "key_location k = Some (rev (path_parts k))" "as_posix k = k"
  using assms unfolding sanitize_key_Inr
  by (auto simp: key_location_def path_parts_def forbidden_key_def walk_path_down)

text \<open>a key that passes the check is stored unchanged, leads to a place under the root of the bucket, and
  no other accepted key leads to the same place.\<close>

theorem sanitized_key_confined:
  assumes "sanitize_object_key a key = Inr k" "sanitize_object_key a' key' = Inr k'"
  shows "k = key \<and> length k \<le> MAX_KEY_LENGTH \<and> (\<exists>place. key_location k = Some place) \<and> (key_location k = key_location k' \<longrightarrow> k = k')"
proof -
  have "k = k'" if "key_location k = key_location k'"
  proof -
    from that have "path_parts k = path_parts k'" using sanitized_location(1) [OF assms(1)] sanitized_location(1) [OF assms(2)] by simp
    then have "as_posix k = as_posix k'" by (simp add: as_posix_def)
    then show ?thesis using sanitized_location(2) [OF assms(1)] sanitized_location(2) [OF assms(2)] by simp
  qed
  then show ?thesis using sanitized_location(1) [OF assms(1)] assms(1) unfolding sanitize_key_Inr by auto
qed

theorem sanitized_key_confined_witness:
  "sanitize_object_key True ''uploads/a.pdf'' = Inr ''uploads/a.pdf'' \<and> key_location ''uploads/a.pdf'' = Some [''a.pdf'', ''uploads'']
   \<and> sanitize_object_key True ''uploads/../b'' = Inl (AppError UnsafeObjectKeyError ''Object key contains forbidden path sequences.'')"
proof -
  have k: "sanitize_object_key True ''uploads/a.pdf'' = Inr ''uploads/a.pdf''"
    by (simp add: sanitize_object_key_def forbidden_key_def as_posix_def path_parts_def py_startswith_def py_endswith_def py_join_def MAX_KEY_LENGTH_def)
  from sanitized_key_confined [OF k k] k show ?thesis
    by (simp add: key_location_def sanitize_object_key_def forbidden_key_def MAX_KEY_LENGTH_def)
qed

lemma split_slash_no_slash: "CHR ''/'' \<notin> set acc \<Longrightarrow> seg \<in> set (split_slash acc s) \<Longrightarrow> CHR ''/'' \<notin> set seg"
proof (induction s arbitrary: acc)
  case (Cons c s)
  then show ?case using Cons.IH [of "[]"] Cons.IH [of "c # acc"] by (auto split: if_splits)
qed simp

lemma split_slash_chars: "seg \<in> set (split_slash acc s) \<Longrightarrow> set seg \<subseteq> set acc \<union> set s"
  by (induction s arbitrary: acc) (fastforce split: if_splits)+

lemma path_name_leaf:
  assumes "path_name (posix_slashes s) \<noteq> []"
  shows "CHR ''/'' \<notin> set (path_name (posix_slashes s))" "CHR 0x5C \<notin> set (path_name (posix_slashes s))"
proof -
  let ?n = "path_name (posix_slashes s)"
  have "?n \<in> set (path_parts (posix_slashes s))" using assms by (auto simp: path_name_def Let_def split: if_splits)
  then have n: "?n \<in> set (split_slash [] (posix_slashes s))" by (simp add: path_parts_def)
  show "CHR ''/'' \<notin> set ?n" using split_slash_no_slash [OF _ n] by simp
  have "CHR 0x5C \<notin> set (posix_slashes s)" by (auto simp: posix_slashes_def)
  then show "CHR 0x5C \<notin> set ?n" using split_slash_chars [OF n] by auto
qed

text \<open>the name kept for an upload is one path segment of at most 255 characters: it has no slash or
  backslash and is neither the current nor the parent directory.\<close>

theorem sanitized_filename_leaf:
  assumes "sanitize_filename name = Inr leaf"
  shows "leaf \<noteq> [] \<and> length leaf \<le> 255 \<and> CHR ''/'' \<notin> set leaf \<and> CHR 0x5C \<notin> set leaf \<and> leaf \<noteq> ''.'' \<and> leaf \<noteq> ''..''"
proof -
  let ?n = "path_name (posix_slashes name)"
  have n: "?n \<noteq> []" "?n \<noteq> ''.''" "?n \<noteq> ''..''" "leaf = drop (length ?n - 255) ?n"
    using assms by (auto simp: sanitize_filename_def Let_def split: if_splits)
  have "set leaf \<subseteq> set ?n" unfolding n(4) by (rule set_drop_subset)
  moreover have "leaf \<noteq> ''.'' \<and> leaf \<noteq> ''..''"
  proof (cases "length ?n \<le> 255")
    case False
    then have "length leaf = 255" using n(4) by simp
    then show ?thesis by auto
  qed (use n in simp)
  moreover have "length leaf \<le> 255" "0 < length leaf" using n(1,4) by (cases ?n; simp)+
  ultimately show ?thesis using path_name_leaf [OF n(1)] by auto
qed

theorem sanitized_filename_leaf_witness:
  "sanitize_filename ''../x/report.pdf'' = Inr ''report.pdf'' \<and> CHR ''/'' \<notin> set ''report.pdf''"
proof -
  have "sanitize_filename ''../x/report.pdf'' = Inr ''report.pdf''"
    by (simp add: sanitize_filename_def path_name_def path_parts_def posix_slashes_def)
  from sanitized_filename_leaf [OF this] this show ?thesis by simp
qed

end
