(* ===== verification/Drive_Store.thy ===== *)
theory Drive_Store
  imports File_Names Job_Store Subscriptions
begin

text \<open>
  The tables of a user's drive, \<open>models/file.py\<close>, with every statement of \<open>sql_user_folder_repo.py\<close> and
  \<open>sql_user_file_repo.py\<close>, and the sort keys of \<open>services/files/listing.py\<close>. The order the database has on names
  and identifiers is the parameter \<open>coll\<close>, a rank of strings. The walk that collects a subtree before it is
  deleted has no guard against a cycle: it is a partial function, \<^term>\<open>None\<close> where it does not end. The walks
  that have one are total.
\<close>

section \<open>Folders and files\<close>

record folder_row =
  fo_id :: string
  fo_user_id :: int
  fo_parent_id :: "string option"
  fo_name :: string
  fo_created_at :: int
  fo_updated_at :: int

record file_row =
  fl_id :: string
  fl_user_id :: int
  fl_folder_id :: "string option"
  fl_file_key :: string
  fl_file_name :: string
  fl_file_extension :: string
  fl_file_size_bytes :: int
  fl_mime_type :: string
  fl_is_favorite :: bool
  fl_created_at :: int
  fl_expires_at :: "int option"

record drive_db =
  dr_folders :: "folder_row list"
  dr_files :: "file_row list"

definition optional_in :: "'a option \<Rightarrow> 'a list \<Rightarrow> bool" where
  "optional_in v xs = (case v of None \<Rightarrow> False | Some x \<Rightarrow> x \<in> set xs)"

subsection \<open>SQLUserFolderRepository\<close>

text \<open>
  The constraints: the primary key, a parent that exists, and one name per owner and parent, where a
  \<open>NULL\<close> parent conflicts with nothing.
\<close>

definition folder_ids :: "drive_db \<Rightarrow> string list" where
  "folder_ids db = map fo_id (dr_folders db)"

definition parent_exists :: "string option \<Rightarrow> drive_db \<Rightarrow> bool" where
  "parent_exists parent_id db = (parent_id = None \<or> optional_in parent_id (folder_ids db))"

definition sibling_named :: "int \<Rightarrow> string option \<Rightarrow> string \<Rightarrow> folder_row \<Rightarrow> bool" where
  "sibling_named user_id parent_id name r =
     (parent_id \<noteq> None \<and> fo_user_id r = user_id \<and> fo_parent_id r = parent_id \<and> fo_name r = name)"

definition get_folder_row :: "string \<Rightarrow> drive_db \<Rightarrow> folder_row option" where
  "get_folder_row folder_id db = sql_first (sql_select (\<lambda>r. fo_id r = folder_id) (dr_folders db))"

definition folder_create :: "string \<Rightarrow> int \<Rightarrow> int \<Rightarrow> int \<Rightarrow> string \<Rightarrow> string option \<Rightarrow> drive_db \<Rightarrow> folder_row result \<times> drive_db" where
  "folder_create new_id now1 now2 user_id name parent_id db =
     (let row = \<lparr>fo_id = new_id, fo_user_id = user_id, fo_parent_id = parent_id, fo_name = name,
                 fo_created_at = now1, fo_updated_at = now2\<rparr> in
      if new_id \<in> set (folder_ids db) \<or> \<not> parent_exists parent_id db
         \<or> (\<exists>r \<in> set (dr_folders db). sibling_named user_id parent_id name r)
      then (Inl IntegrityError, db)
      else (Inr row, db\<lparr>dr_folders := dr_folders db @ [row]\<rparr>))"

definition update_folder :: "string \<Rightarrow> (folder_row \<Rightarrow> folder_row) \<Rightarrow> drive_db \<Rightarrow> bool result \<times> drive_db" where
  "update_folder folder_id f db =
     (if \<exists>r \<in> set (dr_folders db). fo_id r = folder_id \<and> (\<not> parent_exists (fo_parent_id (f r)) db
         \<or> (\<exists>x \<in> set (dr_folders db). fo_id x \<noteq> folder_id \<and> sibling_named (fo_user_id (f r)) (fo_parent_id (f r)) (fo_name (f r)) x))
      then (Inl IntegrityError, db)
      else (Inr (0 < sql_count (\<lambda>r. fo_id r = folder_id) (dr_folders db)),
            db\<lparr>dr_folders := sql_update (\<lambda>r. fo_id r = folder_id) f (dr_folders db)\<rparr>))"

definition folder_rename :: "int \<Rightarrow> string \<Rightarrow> string \<Rightarrow> drive_db \<Rightarrow> bool result \<times> drive_db" where
  "folder_rename now folder_id name = update_folder folder_id (\<lambda>r. r\<lparr>fo_name := name, fo_updated_at := now\<rparr>)"

definition folder_move :: "int \<Rightarrow> string \<Rightarrow> string option \<Rightarrow> drive_db \<Rightarrow> bool result \<times> drive_db" where
  "folder_move now folder_id parent_id = update_folder folder_id (\<lambda>r. r\<lparr>fo_parent_id := parent_id, fo_updated_at := now\<rparr>)"

definition children_of :: "string list \<Rightarrow> drive_db \<Rightarrow> string list" where
  "children_of frontier db = map fo_id (sql_select (\<lambda>r. optional_in (fo_parent_id r) frontier) (dr_folders db))"

partial_function (option) collect_subtree :: "drive_db \<Rightarrow> string list \<Rightarrow> string list option" where
  "collect_subtree db frontier =
     (if frontier = [] then Some []
      else let children = children_of frontier db in
        Option.bind (collect_subtree db children) (\<lambda>rest. Some (children @ rest)))"

definition delete_with_descendants :: "string \<Rightarrow> drive_db \<Rightarrow> ((string list \<times> string list) \<times> drive_db) option" where
  "delete_with_descendants folder_id db =
     Option.bind (collect_subtree db [folder_id]) (\<lambda>below.
       let all_ids = folder_id # below;
           file_keys = map fl_file_key (sql_select (\<lambda>f. optional_in (fl_folder_id f) all_ids) (dr_files db));
           db1 = (if file_keys \<noteq> [] then db\<lparr>dr_files := sql_delete (\<lambda>f. optional_in (fl_folder_id f) all_ids) (dr_files db)\<rparr> else db);
           db2 = db1\<lparr>dr_folders := sql_delete (\<lambda>r. fo_id r \<in> set all_ids) (dr_folders db1)\<rparr>
       in Some ((file_keys, all_ids), db2))"

function subtree_walk :: "drive_db \<Rightarrow> string list \<Rightarrow> string list \<Rightarrow> string list" where
  "subtree_walk db seen frontier =
     (if frontier = [] then []
      else let children = filter (\<lambda>i. i \<notin> set seen) (children_of frontier db) in
        children @ subtree_walk db (seen @ children) children)"
  by pat_completeness auto

lemma set_children_of: "set (children_of frontier db) = fo_id ` {r \<in> set (dr_folders db). optional_in (fo_parent_id r) frontier}"
  by (simp add: children_of_def sql_simps)

termination subtree_walk
proof (relation "measures [\<lambda>(db, seen, frontier). card (set (folder_ids db) - set seen), \<lambda>(db, seen, frontier). length frontier]", goal_cases)
  case (2 db seen frontier children)
  show ?case
  proof (cases "children = []")
    case False
    then obtain i where i: "i \<in> set children" by (cases children) auto
    then have "i \<notin> set seen" "i \<in> set (folder_ids db)" using 2(2) set_children_of [of frontier db] by (auto simp: folder_ids_def)
    then have "set (folder_ids db) - set (seen @ children) \<subset> set (folder_ids db) - set seen" using i by auto
    then show ?thesis by (simp add: psubset_card_mono)
  qed (use 2 in simp)
qed simp

definition list_subtree_ids :: "string \<Rightarrow> drive_db \<Rightarrow> string list" where
  "list_subtree_ids folder_id db = subtree_walk db [folder_id] [folder_id]"

definition folders_in :: "(string \<Rightarrow> int) \<Rightarrow> int \<Rightarrow> string option \<Rightarrow> int \<Rightarrow> int \<Rightarrow> drive_db \<Rightarrow> folder_row list \<times> int" where
  "folders_in coll user_id parent_id offset limit db =
     (let base = sql_select (\<lambda>r. fo_user_id r = user_id \<and> fo_parent_id r = parent_id) (dr_folders db) in
      (page limit offset (order_asc (\<lambda>r. coll (fo_name r)) base), int (length base)))"

definition list_files_in_folder :: "int \<Rightarrow> string option \<Rightarrow> int \<Rightarrow> int \<Rightarrow> drive_db \<Rightarrow> file_row list \<times> int" where
  "list_files_in_folder user_id folder_id offset limit db =
     (let base = sql_select (\<lambda>f. fl_user_id f = user_id \<and> fl_folder_id f = folder_id) (dr_files db) in
      (page limit offset (order_desc fl_created_at base), int (length base)))"

subsection \<open>SQLUserFileRepository\<close>

datatype file_sort_key = Sort_NAME | Sort_SIZE | Sort_DATE
datatype file_sort_order = Sort_ASC | Sort_DESC

definition parse_file_sort :: "file_sort_key \<Rightarrow> string option \<Rightarrow> file_sort_key" where
  "parse_file_sort deflt value = (case value of None \<Rightarrow> deflt | Some v \<Rightarrow>
     let s = py_lower (py_strip v) in
     if s = ''name'' then Sort_NAME else if s = ''size'' then Sort_SIZE else if s = ''date'' then Sort_DATE else deflt)"

definition parse_file_sort_order :: "file_sort_order \<Rightarrow> string option \<Rightarrow> file_sort_order" where
  "parse_file_sort_order deflt value = (case value of None \<Rightarrow> deflt | Some v \<Rightarrow>
     let s = py_lower (py_strip v) in if s = ''asc'' then Sort_ASC else if s = ''desc'' then Sort_DESC else deflt)"

fun sort_column :: "(string \<Rightarrow> int) \<Rightarrow> file_sort_key \<Rightarrow> file_row \<Rightarrow> int" where
  "sort_column coll Sort_NAME f = coll (py_lower (fl_file_name f))"
| "sort_column coll Sort_SIZE f = fl_file_size_bytes f"
| "sort_column coll Sort_DATE f = fl_created_at f"

text \<open>\<open>ORDER BY\<close> the column and then the identifier, ascending: sorting is stable.\<close>

definition order_clause :: "(string \<Rightarrow> int) \<Rightarrow> file_sort_key \<Rightarrow> file_sort_order \<Rightarrow> file_row list \<Rightarrow> file_row list" where
  "order_clause coll skey ord rows =
     (let by_id = order_asc (\<lambda>f. coll (fl_id f)) rows in
      if ord = Sort_ASC then order_asc (sort_column coll skey) by_id else order_desc (sort_column coll skey) by_id)"

definition with_extension :: "string list option \<Rightarrow> file_row list \<Rightarrow> file_row list" where
  "with_extension extensions rows = (case extensions of None \<Rightarrow> rows
     | Some es \<Rightarrow> if es = [] then rows else filter (\<lambda>f. fl_file_extension f \<in> set es) rows)"

record listing =
  ls_offset :: int
  ls_limit :: int
  ls_sort :: file_sort_key
  ls_order :: file_sort_order
  ls_extensions :: "string list option"

definition listed :: "(string \<Rightarrow> int) \<Rightarrow> listing \<Rightarrow> file_row list \<Rightarrow> file_row list \<times> int" where
  "listed coll opts base =
     (page (ls_limit opts) (ls_offset opts) (order_clause coll (ls_sort opts) (ls_order opts) base), int (length base))"

definition save_file :: "string \<Rightarrow> int \<Rightarrow> int \<Rightarrow> string \<Rightarrow> string \<Rightarrow> int \<Rightarrow> string \<Rightarrow> string \<Rightarrow> string option \<Rightarrow> int option \<Rightarrow>
    drive_db \<Rightarrow> string result \<times> drive_db" where
  "save_file new_id now user_id file_key file_name file_size mime_type file_extension folder_id expires_at db =
     (if new_id \<in> fl_id ` set (dr_files db) \<or> \<not> parent_exists folder_id db then (Inl IntegrityError, db)
      else (Inr new_id, db\<lparr>dr_files := dr_files db @ [\<lparr>fl_id = new_id, fl_user_id = user_id, fl_folder_id = folder_id,
        fl_file_key = file_key, fl_file_name = file_name, fl_file_extension = normalize_extension (Some file_extension),
        fl_file_size_bytes = file_size, fl_mime_type = mime_type, fl_is_favorite = False, fl_created_at = now,
        fl_expires_at = expires_at\<rparr>]\<rparr>))"

definition get_file_row :: "string \<Rightarrow> drive_db \<Rightarrow> file_row option result" where
  "get_file_row file_id db = scalar_one_or_none (sql_select (\<lambda>f. fl_id f = file_id) (dr_files db))"

definition owned_files :: "int \<Rightarrow> string list \<Rightarrow> drive_db \<Rightarrow> file_row list" where
  "owned_files user_id ids db = sql_select (\<lambda>f. fl_user_id f = user_id \<and> fl_id f \<in> set ids) (dr_files db)"

text \<open>\<open>list(dict.fromkeys(xs))\<close>: the first occurrences, in order.\<close>

definition from_keys :: "'a list \<Rightarrow> 'a list" where
  "from_keys xs = rev (remdups (rev xs))"

definition list_by_ids :: "int \<Rightarrow> string list \<Rightarrow> drive_db \<Rightarrow> file_row list" where
  "list_by_ids user_id file_ids db = (let unique_ids = from_keys file_ids in
     if unique_ids = [] then [] else owned_files user_id unique_ids db)"

definition find_by_key :: "int \<Rightarrow> string \<Rightarrow> drive_db \<Rightarrow> file_row option" where
  "find_by_key user_id file_key db = sql_first (sql_select (\<lambda>f. fl_user_id f = user_id \<and> fl_file_key f = file_key) (dr_files db))"

definition list_owned_keys :: "int \<Rightarrow> string list \<Rightarrow> drive_db \<Rightarrow> string set" where
  "list_owned_keys user_id file_keys db = (let unique_keys = from_keys file_keys in
     if unique_keys = [] then {}
     else fl_file_key ` set (sql_select (\<lambda>f. fl_user_id f = user_id \<and> fl_file_key f \<in> set unique_keys) (dr_files db)))"

definition list_by_user :: "(string \<Rightarrow> int) \<Rightarrow> int \<Rightarrow> string option \<Rightarrow> listing \<Rightarrow> drive_db \<Rightarrow> file_row list \<times> int" where
  "list_by_user coll user_id folder_id opts db = listed coll opts (with_extension (ls_extensions opts)
     (sql_select (\<lambda>f. fl_user_id f = user_id \<and> fl_folder_id f = folder_id) (dr_files db)))"

definition list_all_by_user :: "(string \<Rightarrow> int) \<Rightarrow> int \<Rightarrow> listing \<Rightarrow> drive_db \<Rightarrow> file_row list \<times> int" where
  "list_all_by_user coll user_id opts db = listed coll opts (with_extension (ls_extensions opts)
     (sql_select (\<lambda>f. fl_user_id f = user_id) (dr_files db)))"

definition search_by_name :: "(string \<Rightarrow> int) \<Rightarrow> int \<Rightarrow> string \<Rightarrow> listing \<Rightarrow> string list option \<Rightarrow> drive_db \<Rightarrow> file_row list \<times> int" where
  "search_by_name coll user_id query opts folders db =
     (let pattern = ''%'' @ escape_like query @ ''%'';
          base = with_extension (ls_extensions opts)
            (sql_select (\<lambda>f. fl_user_id f = user_id \<and> ilike (fl_file_name f) pattern) (dr_files db)) in
      listed coll opts (case folders of None \<Rightarrow> base | Some ids \<Rightarrow> sql_select (\<lambda>f. optional_in (fl_folder_id f) ids) base))"

definition update_file :: "string \<Rightarrow> (file_row \<Rightarrow> file_row) \<Rightarrow> drive_db \<Rightarrow> bool result \<times> drive_db" where
  "update_file file_id f db =
     (if \<exists>r \<in> set (dr_files db). fl_id r = file_id \<and> \<not> parent_exists (fl_folder_id (f r)) db then (Inl IntegrityError, db)
      else (Inr (0 < sql_count (\<lambda>r. fl_id r = file_id) (dr_files db)),
            db\<lparr>dr_files := sql_update (\<lambda>r. fl_id r = file_id) f (dr_files db)\<rparr>))"

definition file_move :: "string \<Rightarrow> string option \<Rightarrow> drive_db \<Rightarrow> bool result \<times> drive_db" where
  "file_move file_id folder_id = update_file file_id (\<lambda>r. r\<lparr>fl_folder_id := folder_id\<rparr>)"

definition file_rename :: "string \<Rightarrow> string \<Rightarrow> drive_db \<Rightarrow> bool result \<times> drive_db" where
  "file_rename file_id file_name = update_file file_id (\<lambda>r. r\<lparr>fl_file_name := file_name\<rparr>)"

definition set_favorite :: "string \<Rightarrow> bool \<Rightarrow> drive_db \<Rightarrow> bool result \<times> drive_db" where
  "set_favorite file_id is_favorite = update_file file_id (\<lambda>r. r\<lparr>fl_is_favorite := is_favorite\<rparr>)"

definition list_favorites :: "int \<Rightarrow> int \<Rightarrow> int \<Rightarrow> drive_db \<Rightarrow> file_row list \<times> int" where
  "list_favorites user_id offset limit db =
     (let base = sql_select (\<lambda>f. fl_user_id f = user_id \<and> fl_is_favorite f) (dr_files db) in
      (page limit offset (order_desc fl_created_at base), int (length base)))"

definition file_delete :: "string \<Rightarrow> drive_db \<Rightarrow> bool \<times> drive_db" where
  "file_delete file_id db = (0 < sql_count (\<lambda>f. fl_id f = file_id) (dr_files db),
     db\<lparr>dr_files := sql_delete (\<lambda>f. fl_id f = file_id) (dr_files db)\<rparr>)"

definition delete_many :: "int \<Rightarrow> string list \<Rightarrow> drive_db \<Rightarrow> file_row list \<times> drive_db" where
  "delete_many user_id file_ids db =
     (let rows = list_by_ids user_id file_ids db in
      if rows = [] then ([], db)
      else (rows, db\<lparr>dr_files := sql_delete (\<lambda>f. fl_user_id f = user_id \<and> fl_id f \<in> fl_id ` set rows) (dr_files db)\<rparr>))"

definition count_user_files :: "int \<Rightarrow> drive_db \<Rightarrow> int" where
  "count_user_files user_id db = int (sql_count (\<lambda>f. fl_user_id f = user_id) (dr_files db))"

definition get_user_storage_used :: "int \<Rightarrow> drive_db \<Rightarrow> int" where
  "get_user_storage_used user_id db = sum_list (map fl_file_size_bytes (sql_select (\<lambda>f. fl_user_id f = user_id) (dr_files db)))"

record storage_breakdown_row =
  sb_extension :: string
  sb_bytes :: int
  sb_file_count :: int

definition get_storage_breakdown_by_extension :: "int \<Rightarrow> drive_db \<Rightarrow> storage_breakdown_row list" where
  "get_storage_breakdown_by_extension user_id db =
     (let rows = sql_select (\<lambda>f. fl_user_id f = user_id \<and> 0 < fl_file_size_bytes f) (dr_files db);
          group = (\<lambda>e. filter (\<lambda>f. fl_file_extension f = e) rows) in
      order_desc sb_bytes (map (\<lambda>e. \<lparr>sb_extension = e, sb_bytes = sum_list (map fl_file_size_bytes (group e)),
          sb_file_count = int (length (group e))\<rparr>) (from_keys (map fl_file_extension rows))))"

end
