(* ===== verification/Drive_Service.thy ===== *)
theory Drive_Service
  imports Drive_Store
begin

text \<open>
  \<open>services/files/service.py\<close>: every method of \<open>FileService\<close>, and the upload session it completes. The object
  storage is a map from keys to objects; each call to it, numbered by the ticks of the state, answers or fails
  as \<open>de_up\<close> says. \<open>de_rival\<close> is what other sessions commit between the check and the write of \<open>move_folder\<close>, and
  between the look for an existing row and the lock of \<open>complete_upload\<close>. The deletions of folders inherit
  the partiality of the walk.
\<close>

section \<open>The file service\<close>

record stored_object =
  ob_size :: int
  ob_content_type :: "string option"
  ob_head :: string

record drive_state =
  dv_db :: drive_db
  dv_objects :: "string \<Rightarrow> stored_object option"
  dv_ticks :: nat

record drive_env =
  de_clock :: "nat \<Rightarrow> int"
  de_uuid :: "nat \<Rightarrow> string"
  de_up :: "nat \<Rightarrow> bool"
  de_tier :: "int \<Rightarrow> subscription_tier"
  de_size_limits :: "subscription_tier \<Rightarrow> int"
  de_coll :: "string \<Rightarrow> int"
  de_rival :: "drive_db \<Rightarrow> drive_db"

type_synonym 'a drive_op = "drive_state \<Rightarrow> 'a result \<times> drive_state"

datatype upload_mode = Mode_single | Mode_multipart

record upload_session =
  us_upload_id :: string
  us_object_key :: string
  us_status :: string
  us_file_name :: "string option"
  us_file_extension :: "string option"
  us_folder_id :: "string option"
  us_user_id :: "string option"
  us_file_id :: "string option"
  us_upload_mode :: upload_mode
  us_declared_size :: "int option"
  us_multipart_upload_id :: "string option"
  us_part_size_bytes :: "int option"
  us_part_count :: "int option"

definition read_drive :: "(drive_db \<Rightarrow> 'a result) \<Rightarrow> 'a drive_op" where
  "read_drive f s = (f (dv_db s), s)"

definition exec_drive :: "(drive_db \<Rightarrow> 'a result \<times> drive_db) \<Rightarrow> 'a drive_op" where
  "exec_drive f s = (let (r, db) = f (dv_db s) in (r, s\<lparr>dv_db := db\<rparr>))"

definition write_drive :: "(drive_db \<Rightarrow> drive_db) \<Rightarrow> unit drive_op" where
  "write_drive f s = (Inr (), s\<lparr>dv_db := f (dv_db s)\<rparr>)"

definition drive_tick :: "(nat \<Rightarrow> 'a) \<Rightarrow> 'a drive_op" where
  "drive_tick f s = (Inr (f (dv_ticks s)), s\<lparr>dv_ticks := Suc (dv_ticks s)\<rparr>)"

definition storage_call :: "drive_env \<Rightarrow> ((string \<Rightarrow> stored_object option) \<Rightarrow> 'a \<times> (string \<Rightarrow> stored_object option)) \<Rightarrow> 'a drive_op" where
  "storage_call env f s =
     (if de_up env (dv_ticks s)
      then (let (a, objs) = f (dv_objects s) in (Inr a, s\<lparr>dv_objects := objs, dv_ticks := Suc (dv_ticks s)\<rparr>))
      else (Inl (AppError StorageOperationError []), s\<lparr>dv_ticks := Suc (dv_ticks s)\<rparr>))"

definition stat_object :: "drive_env \<Rightarrow> string \<Rightarrow> stored_object option drive_op" where
  "stat_object env key = storage_call env (\<lambda>objs. (objs key, objs))"

definition read_object_head :: "drive_env \<Rightarrow> string \<Rightarrow> string drive_op" where
  "read_object_head env key = storage_call env (\<lambda>objs. (case objs key of None \<Rightarrow> [] | Some ob \<Rightarrow> take 4096 (ob_head ob), objs))"

definition remove_object :: "drive_env \<Rightarrow> string \<Rightarrow> bool drive_op" where
  "remove_object env key = storage_call env (\<lambda>objs. (objs key \<noteq> None, objs(key := None)))"

fun remove_objects :: "drive_env \<Rightarrow> string list \<Rightarrow> unit drive_op" where
  "remove_objects env [] s = (Inr (), s)"
| "remove_objects env (key # keys) s = sbind (remove_object env key) (\<lambda>_. remove_objects env keys) s"

text \<open>\<open>asyncio.gather\<close> starts every removal; the first failure is raised, the others still run.\<close>

fun gather_removals :: "drive_env \<Rightarrow> string list \<Rightarrow> unit drive_op" where
  "gather_removals env [] s = (Inr (), s)"
| "gather_removals env (key # keys) s =
     (case remove_object env key s of
        (Inl e, s') \<Rightarrow> (Inl e, snd (gather_removals env keys s'))
      | (Inr _, s') \<Rightarrow> gather_removals env keys s')"

definition folder_missing :: exn where "folder_missing = AppError FolderNotFoundError ''Folder not found''"
definition file_missing :: exn where "file_missing = AppError FileRecordNotFoundError ''File not found''"
definition folder_conflict :: exn where
  "folder_conflict = AppError FolderNameConflictError ''A folder with this name already exists''"

definition on_conflict :: "'a drive_op \<Rightarrow> 'a drive_op" where
  "on_conflict m = try_op m (\<lambda>e. case e of IntegrityError \<Rightarrow> raise_op folder_conflict | _ \<Rightarrow> raise_op e)"

subsection \<open>Folders\<close>

definition get_folder :: "int \<Rightarrow> string \<Rightarrow> folder_row drive_op" where
  "get_folder user_id folder_id = read_drive (\<lambda>db. case get_folder_row folder_id db of
       None \<Rightarrow> Inl folder_missing
     | Some r \<Rightarrow> if fo_user_id r \<noteq> user_id then Inl folder_missing else Inr r)"

definition owned_target :: "int \<Rightarrow> string option \<Rightarrow> unit drive_op" where
  "owned_target user_id target = (case target of None \<Rightarrow> sreturn (Inr ())
     | Some f \<Rightarrow> sbind (get_folder user_id f) (\<lambda>_. sreturn (Inr ())))"

definition create_folder :: "drive_env \<Rightarrow> int \<Rightarrow> string \<Rightarrow> string option \<Rightarrow> folder_row drive_op" where
  "create_folder env user_id name parent_id =
     sbind (owned_target user_id parent_id) (\<lambda>_.
     sbind (drive_tick (de_uuid env)) (\<lambda>new_id.
     sbind (drive_tick (de_clock env)) (\<lambda>now1.
     sbind (drive_tick (de_clock env)) (\<lambda>now2.
     on_conflict (exec_drive (folder_create new_id now1 now2 user_id (py_strip name) parent_id))))))"

definition resolve_folder_scope :: "int \<Rightarrow> string \<Rightarrow> string set option drive_op" where
  "resolve_folder_scope user_id folder_id = read_drive (\<lambda>db. Inr (case get_folder_row folder_id db of
       None \<Rightarrow> None
     | Some r \<Rightarrow> if fo_user_id r \<noteq> user_id then None else Some (insert (fo_id r) (set (list_subtree_ids (fo_id r) db)))))"

definition list_root_folders :: "drive_env \<Rightarrow> int \<Rightarrow> int \<Rightarrow> int \<Rightarrow> (folder_row list \<times> int) drive_op" where
  "list_root_folders env user_id offset limit = read_drive (\<lambda>db. Inr (folders_in (de_coll env) user_id None offset limit db))"

definition get_folder_contents :: "drive_env \<Rightarrow> int \<Rightarrow> string \<Rightarrow> int \<Rightarrow> int \<Rightarrow>
    (folder_row \<times> (folder_row list \<times> int) \<times> (file_row list \<times> int)) drive_op" where
  "get_folder_contents env user_id folder_id offset limit =
     sbind (get_folder user_id folder_id) (\<lambda>folder.
     read_drive (\<lambda>db. Inr (folder, folders_in (de_coll env) user_id (Some (fo_id folder)) offset limit db,
       list_files_in_folder user_id (Some (fo_id folder)) offset limit db)))"

definition reread_folder :: "string \<Rightarrow> bool \<Rightarrow> folder_row drive_op" where
  "reread_folder folder_id changed =
     (if \<not> changed then raise_op folder_missing
      else read_drive (\<lambda>db. case get_folder_row folder_id db of None \<Rightarrow> Inl (OtherError ''AssertionError'') | Some r \<Rightarrow> Inr r))"

definition rename_folder :: "drive_env \<Rightarrow> int \<Rightarrow> string \<Rightarrow> string \<Rightarrow> folder_row drive_op" where
  "rename_folder env user_id folder_id name =
     sbind (get_folder user_id folder_id) (\<lambda>folder.
     sbind (drive_tick (de_clock env)) (\<lambda>now.
     sbind (on_conflict (exec_drive (folder_rename now (fo_id folder) (py_strip name)))) (\<lambda>renamed.
     reread_folder (fo_id folder) renamed)))"

text \<open>\<open>_is_descendant\<close>: the walk up the parents from a folder, with the identifiers already met.\<close>

function walk_up :: "drive_db \<Rightarrow> string \<Rightarrow> string list \<Rightarrow> string \<Rightarrow> bool" where
  "walk_up db ancestor seen folder_id =
     (case get_folder_row folder_id db of
        None \<Rightarrow> False
      | Some r \<Rightarrow> (case fo_parent_id r of
          None \<Rightarrow> False
        | Some p \<Rightarrow> if p \<in> set seen then True else if p = ancestor then True else walk_up db ancestor (p # seen) p))"
  by pat_completeness auto

definition parent_ids :: "drive_db \<Rightarrow> string set" where
  "parent_ids db = {p. \<exists>r \<in> set (dr_folders db). fo_parent_id r = Some p}"

lemma finite_parent_ids [simp]: "finite (parent_ids db)"
proof -
  have "parent_ids db \<subseteq> the ` fo_parent_id ` set (dr_folders db)" by (force simp: parent_ids_def image_iff)
  then show ?thesis by (rule finite_subset) simp
qed

termination walk_up
proof (relation "measure (\<lambda>(db, ancestor, seen, folder_id). card (parent_ids db - set seen))", goal_cases)
  case (2 db ancestor seen folder_id r p)
  then have "p \<in> parent_ids db" by (auto simp: parent_ids_def get_folder_row_def dest: sql_first_Some)
  with 2 have "parent_ids db - set (p # seen) \<subset> parent_ids db - set seen" by auto
  then show ?case by (simp add: psubset_card_mono)
qed simp

definition is_descendant :: "string \<Rightarrow> string \<Rightarrow> drive_db \<Rightarrow> bool" where
  "is_descendant folder_id ancestor_id db = walk_up db ancestor_id [] folder_id"

definition refuse_cycle :: "int \<Rightarrow> string \<Rightarrow> string option \<Rightarrow> unit drive_op" where
  "refuse_cycle user_id folder_id parent_id = (case parent_id of None \<Rightarrow> sreturn (Inr ())
     | Some p \<Rightarrow> sbind (get_folder user_id p) (\<lambda>_.
         read_drive (\<lambda>db. if p = folder_id \<or> is_descendant p folder_id db then Inl folder_conflict else Inr ())))"

definition move_folder :: "drive_env \<Rightarrow> int \<Rightarrow> string \<Rightarrow> string option \<Rightarrow> folder_row drive_op" where
  "move_folder env user_id folder_id parent_id =
     sbind (get_folder user_id folder_id) (\<lambda>folder.
     sbind (refuse_cycle user_id (fo_id folder) parent_id) (\<lambda>_.
     sbind (write_drive (de_rival env)) (\<lambda>_.
     sbind (drive_tick (de_clock env)) (\<lambda>now.
     sbind (on_conflict (exec_drive (folder_move now (fo_id folder) parent_id))) (\<lambda>moved.
     reread_folder (fo_id folder) moved)))))"

definition delete_subtree :: "drive_env \<Rightarrow> string \<Rightarrow> drive_state \<Rightarrow> (unit result \<times> drive_state) option" where
  "delete_subtree env folder_id s =
     Option.bind (delete_with_descendants folder_id (dv_db s)) (\<lambda>((file_keys, ids), db).
       Some (remove_objects env file_keys (s\<lparr>dv_db := db\<rparr>)))"

definition delete_folder :: "drive_env \<Rightarrow> int \<Rightarrow> string \<Rightarrow> drive_state \<Rightarrow> (unit result \<times> drive_state) option" where
  "delete_folder env user_id folder_id s =
     (case get_folder user_id folder_id s of
        (Inl e, s') \<Rightarrow> Some (Inl e, s')
      | (Inr folder, s') \<Rightarrow> delete_subtree env (fo_id folder) s')"

fun delete_folders :: "drive_env \<Rightarrow> int \<Rightarrow> string list \<Rightarrow> int \<Rightarrow> drive_state \<Rightarrow> (int result \<times> drive_state) option" where
  "delete_folders env user_id [] deleted s = Some (Inr deleted, s)"
| "delete_folders env user_id (folder_id # rest) deleted s =
     (case get_folder user_id folder_id s of
        (Inl e, s') \<Rightarrow> delete_folders env user_id rest deleted s'
      | (Inr folder, s') \<Rightarrow> Option.bind (delete_subtree env (fo_id folder) s') (\<lambda>(r, s'').
          case r of Inl e \<Rightarrow> Some (Inl e, s'') | Inr _ \<Rightarrow> delete_folders env user_id rest (deleted + 1) s''))"

subsection \<open>Files\<close>

definition get_file :: "int \<Rightarrow> string \<Rightarrow> file_row drive_op" where
  "get_file user_id file_id = read_drive (\<lambda>db. rbind (get_file_row file_id db) (\<lambda>row. case row of
       None \<Rightarrow> Inl file_missing
     | Some f \<Rightarrow> if fl_user_id f \<noteq> user_id then Inl file_missing else Inr f))"

definition get_owned_files :: "int \<Rightarrow> string list \<Rightarrow> file_row list drive_op" where
  "get_owned_files user_id file_ids = (let unique_ids = from_keys file_ids in
     if unique_ids = [] then sreturn (Inr [])
     else read_drive (\<lambda>db. let by_id = map_of (rev (map (\<lambda>f. (fl_id f, f)) (list_by_ids user_id unique_ids db))) in
       Inr (List.map_filter by_id unique_ids)))"

definition list_files :: "drive_env \<Rightarrow> int \<Rightarrow> string option \<Rightarrow> listing \<Rightarrow> (file_row list \<times> int) drive_op" where
  "list_files env user_id folder_id opts =
     sbind (owned_target user_id folder_id) (\<lambda>_. read_drive (\<lambda>db. Inr (list_by_user (de_coll env) user_id folder_id opts db)))"

definition list_all_files :: "drive_env \<Rightarrow> int \<Rightarrow> listing \<Rightarrow> (file_row list \<times> int) drive_op" where
  "list_all_files env user_id opts = read_drive (\<lambda>db. Inr (list_all_by_user (de_coll env) user_id opts db))"

definition search_files :: "drive_env \<Rightarrow> int \<Rightarrow> string \<Rightarrow> listing \<Rightarrow> string list option \<Rightarrow> (file_row list \<times> int) drive_op" where
  "search_files env user_id query opts folders =
     (if py_strip query = [] then sreturn (Inr ([], 0))
      else read_drive (\<lambda>db. Inr (search_by_name (de_coll env) user_id query opts folders db)))"

definition reread_file :: "string \<Rightarrow> bool \<Rightarrow> file_row drive_op" where
  "reread_file file_id changed =
     (if \<not> changed then raise_op file_missing
      else read_drive (\<lambda>db. rbind (get_file_row file_id db) (\<lambda>row.
        case row of None \<Rightarrow> Inl (OtherError ''AssertionError'') | Some f \<Rightarrow> Inr f)))"

definition move_file :: "int \<Rightarrow> string \<Rightarrow> string option \<Rightarrow> file_row drive_op" where
  "move_file user_id file_id folder_id =
     sbind (get_file user_id file_id) (\<lambda>row.
     sbind (owned_target user_id folder_id) (\<lambda>_.
     sbind (exec_drive (file_move (fl_id row) folder_id)) (\<lambda>moved. reread_file (fl_id row) moved)))"

definition rename_file :: "int \<Rightarrow> string \<Rightarrow> string \<Rightarrow> file_row drive_op" where
  "rename_file user_id file_id file_name =
     sbind (get_file user_id file_id) (\<lambda>row.
     let cleaned = py_strip file_name in
     if cleaned = [] then raise_op file_missing
     else sbind (exec_drive (file_rename (fl_id row) cleaned)) (\<lambda>renamed. reread_file (fl_id row) renamed))"

definition set_file_favorite :: "int \<Rightarrow> string \<Rightarrow> bool \<Rightarrow> file_row drive_op" where
  "set_file_favorite user_id file_id is_favorite =
     sbind (get_file user_id file_id) (\<lambda>row.
     sbind (exec_drive (set_favorite (fl_id row) is_favorite)) (\<lambda>changed. reread_file (fl_id row) changed))"

definition list_favorite_files :: "int \<Rightarrow> int \<Rightarrow> int \<Rightarrow> (file_row list \<times> int) drive_op" where
  "list_favorite_files user_id offset limit = read_drive (\<lambda>db. Inr (list_favorites user_id offset limit db))"

definition delete_file :: "drive_env \<Rightarrow> int \<Rightarrow> string \<Rightarrow> unit drive_op" where
  "delete_file env user_id file_id =
     sbind (get_file user_id file_id) (\<lambda>row.
     sbind (remove_object env (fl_file_key row)) (\<lambda>_.
     write_drive (\<lambda>db. snd (file_delete (fl_id row) db))))"

definition delete_files :: "drive_env \<Rightarrow> int \<Rightarrow> string list \<Rightarrow> int drive_op" where
  "delete_files env user_id file_ids =
     sbind (exec_drive (\<lambda>db. let (rows, db') = delete_many user_id file_ids db in (Inr rows, db'))) (\<lambda>rows.
     sbind (gather_removals env (map fl_file_key rows)) (\<lambda>_. sreturn (Inr (int (length rows)))))"

subsection \<open>Uploads\<close>

definition too_large :: "int \<Rightarrow> exn" where
  "too_large max_size = AppError FileSizeLimitExceededError
     (''File exceeds the maximum size for your tier ('' @ str_int (max_size div (1024 * 1024)) @ '' MB).'')"

definition over_quota :: exn where
  "over_quota = AppError StorageQuotaExceededError ''Not enough storage left for this file.''"

definition quota_decision :: "drive_env \<Rightarrow> int \<Rightarrow> int \<Rightarrow> drive_db \<Rightarrow> storage_quota_decision result" where
  "quota_decision env user_id file_size db =
     evaluate_storage_quota (of_int (tp_storage_quota_bytes (for_tier (de_tier env user_id))))
       (of_int (get_user_storage_used user_id db)) (of_int file_size)"

definition authorize_upload_size :: "drive_env \<Rightarrow> int \<Rightarrow> int option \<Rightarrow> int drive_op" where
  "authorize_upload_size env user_id declared_size =
     (let max_size = de_size_limits env (de_tier env user_id) in
      case declared_size of
        None \<Rightarrow> sreturn (Inr max_size)
      | Some n \<Rightarrow>
        if max_size < n then raise_op (too_large max_size)
        else sbind (read_drive (quota_decision env user_id n)) (\<lambda>d.
          if \<not> quota_allowed d then raise_op over_quota else sreturn (Inr max_size)))"

definition reject_upload :: "drive_env \<Rightarrow> string \<Rightarrow> exn \<Rightarrow> 'a drive_op" where
  "reject_upload env key e = sbind (remove_object env key) (\<lambda>_. raise_op e)"

definition nonempty_or :: "string option \<Rightarrow> string \<Rightarrow> string" where
  "nonempty_or v d = (case v of None \<Rightarrow> d | Some x \<Rightarrow> if x = [] then d else x)"

definition check_folder :: "drive_env \<Rightarrow> int \<Rightarrow> upload_session \<Rightarrow> unit drive_op" where
  "check_folder env user_id session = (case us_folder_id session of None \<Rightarrow> sreturn (Inr ())
     | Some f \<Rightarrow> sbind (try_op (get_folder user_id f)
         (\<lambda>e. case e of AppError FolderNotFoundError m \<Rightarrow> reject_upload env (us_object_key session) e | _ \<Rightarrow> raise_op e))
         (\<lambda>_. sreturn (Inr ())))"

definition upload_extension :: "upload_session \<Rightarrow> string \<Rightarrow> string" where
  "upload_extension session file_name =
     (let e = normalize_extension (us_file_extension session) in if e \<noteq> [] then e else extension_from_filename (Some file_name))"

definition save_upload :: "drive_env \<Rightarrow> int \<Rightarrow> upload_session \<Rightarrow> string \<Rightarrow> int \<Rightarrow> string option \<Rightarrow> string drive_op" where
  "save_upload env user_id session file_name file_size content_type =
     sbind (read_drive (quota_decision env user_id file_size)) (\<lambda>d.
     if \<not> quota_allowed d then reject_upload env (us_object_key session) over_quota
     else sbind (drive_tick (de_uuid env)) (\<lambda>new_id.
       sbind (drive_tick (de_clock env)) (\<lambda>now.
       let file_extension = upload_extension session file_name in
       exec_drive (save_file new_id now user_id (us_object_key session) file_name file_size
         (resolve_mime_type file_name file_extension content_type) file_extension (us_folder_id session) None))))"

definition complete_upload :: "drive_env \<Rightarrow> int \<Rightarrow> upload_session \<Rightarrow> string drive_op" where
  "complete_upload env user_id session =
     (let key = us_object_key session in
      sbind (stat_object env key) (\<lambda>stats.
      let file_size = (case stats of None \<Rightarrow> 0 | Some ob \<Rightarrow> ob_size ob);
          max_size = de_size_limits env (de_tier env user_id);
          ext = extension_from_filename (Some (nonempty_or (us_file_name session) key)) in
      if max_size < file_size then reject_upload env key (too_large max_size)
      else sbind (try_op (read_object_head env key) (\<lambda>e. sreturn (Inr []))) (\<lambda>head.
        if head \<noteq> [] \<and> \<not> validate_upload_signature head ext
        then reject_upload env key (AppError FileTypeMismatchError
          (''Uploaded content does not match the claimed .'' @ ext @ '' type.''))
        else sbind (check_folder env user_id session) (\<lambda>_.
          sbind (read_drive (\<lambda>db. Inr (find_by_key user_id key db))) (\<lambda>existing.
          case existing of
            Some f \<Rightarrow> sreturn (Inr (fl_id f))
          | None \<Rightarrow> sbind (write_drive (de_rival env)) (\<lambda>_.
              save_upload env user_id session (nonempty_or (us_file_name session) (path_name key)) file_size
                (case stats of None \<Rightarrow> None | Some ob \<Rightarrow> ob_content_type ob)))))))"

end
