(* ===== verification/Drive_Safety.thy ===== *)
theory Drive_Safety
  imports Drive_Service
begin

text \<open>
  What the drive promises: the folders of the table are a forest in which ownership goes down from parent to
  child, the walks of the code compute exactly the descendants, an agent confined to a folder reaches that
  subtree and nothing else, a deletion is complete, uploads stay within the quota.
\<close>

section \<open>The forest\<close>

declare walk_up.simps [simp del] and subtree_walk.simps [simp del]

definition edges :: "drive_db \<Rightarrow> (string \<times> string) set" where
  "edges db = {(i, p). \<exists>r \<in> set (dr_folders db). fo_id r = i \<and> fo_parent_id r = Some p}"

definition belongs :: "drive_db \<Rightarrow> int \<Rightarrow> string option \<Rightarrow> bool" where
  "belongs db u d = (case d of None \<Rightarrow> True | Some i \<Rightarrow> \<exists>q \<in> set (dr_folders db). fo_id q = i \<and> fo_user_id q = u)"

definition drive_ok :: "drive_db \<Rightarrow> bool" where
  "drive_ok db = (unique_key fo_id (dr_folders db) \<and> unique_key fl_id (dr_files db) \<and> acyclic (edges db)
     \<and> (\<forall>r \<in> set (dr_folders db). belongs db (fo_user_id r) (fo_parent_id r))
     \<and> (\<forall>f \<in> set (dr_files db). belongs db (fl_user_id f) (fl_folder_id f))
     \<and> (\<forall>r \<in> set (dr_folders db). \<forall>x \<in> set (dr_folders db). sibling_named (fo_user_id r) (fo_parent_id r) (fo_name r) x \<longrightarrow> x = r))"

lemma finite_edges [simp]: "finite (edges db)"
proof -
  have "edges db \<subseteq> (fo_id ` set (dr_folders db)) \<times> parent_ids db" by (auto simp: edges_def parent_ids_def)
  then show ?thesis by (rule finite_subset) simp
qed

lemma get_folder_row_iff:
  assumes "unique_key fo_id (dr_folders db)"
  shows "get_folder_row i db = Some r \<longleftrightarrow> r \<in> set (dr_folders db) \<and> fo_id r = i"
proof
  assume "get_folder_row i db = Some r"
  then show "r \<in> set (dr_folders db) \<and> fo_id r = i" using sql_first_Some by (fastforce simp: get_folder_row_def)
next
  assume "r \<in> set (dr_folders db) \<and> fo_id r = i"
  then show "get_folder_row i db = Some r" using sql_first_unique [OF assms, of r] by (auto simp: get_folder_row_def)
qed

lemma get_folder_row_mem: "get_folder_row i db = Some r \<Longrightarrow> r \<in> set (dr_folders db) \<and> fo_id r = i"
  using sql_first_Some by (fastforce simp: get_folder_row_def)

lemma edge_row:
  assumes "unique_key fo_id (dr_folders db)" "r \<in> set (dr_folders db)"
  shows "(fo_id r, p) \<in> edges db \<longleftrightarrow> fo_parent_id r = Some p"
  using assms unique_key_inj [OF assms(1)] by (fastforce simp: edges_def)

subsection \<open>The walks\<close>

lemma up_step:
  assumes "unique_key fo_id (dr_folders db)" "get_folder_row i db = Some r"
  shows "(i, a) \<in> (edges db)\<^sup>+ \<longleftrightarrow> (\<exists>p. fo_parent_id r = Some p \<and> (p = a \<or> (p, a) \<in> (edges db)\<^sup>+))"
proof -
  have r: "r \<in> set (dr_folders db)" "fo_id r = i" using get_folder_row_mem [OF assms(2)] by auto
  then have e: "(i, p) \<in> edges db \<longleftrightarrow> fo_parent_id r = Some p" for p using edge_row [OF assms(1)] by blast
  show ?thesis
  proof
    assume "(i, a) \<in> (edges db)\<^sup>+"
    then obtain p where "(i, p) \<in> edges db" "(p, a) \<in> (edges db)\<^sup>*" by (metis tranclD)
    then show "\<exists>p. fo_parent_id r = Some p \<and> (p = a \<or> (p, a) \<in> (edges db)\<^sup>+)" using e by (metis rtranclD)
  qed (use e in \<open>auto intro: trancl_into_trancl2\<close>)
qed

lemma up_none:
  assumes "unique_key fo_id (dr_folders db)" "get_folder_row i db = None"
  shows "(i, a) \<notin> (edges db)\<^sup>+"
proof
  assume "(i, a) \<in> (edges db)\<^sup>+"
  then obtain p where "(i, p) \<in> edges db" by (metis tranclD)
  then obtain r where "r \<in> set (dr_folders db)" "fo_id r = i" by (auto simp: edges_def)
  then show False using assms get_folder_row_iff [OF assms(1), of i r] by simp
qed

text \<open>On a forest the walk up the parents decides the ancestors; on any table it ends.\<close>

lemma walk_up_correct:
  assumes "unique_key fo_id (dr_folders db)" "acyclic (edges db)" "\<forall>x \<in> set seen. (x, i) \<in> (edges db)\<^sup>*"
  shows "walk_up db a seen i \<longleftrightarrow> (i, a) \<in> (edges db)\<^sup>+"
  using assms
proof (induction db a seen i rule: walk_up.induct)
  case (1 db a seen i)
  show ?case
  proof (cases "get_folder_row i db")
    case None
    then show ?thesis using up_none [OF 1(2)] by (simp add: walk_up.simps [of db a seen i])
  next
    case (Some r)
    show ?thesis
    proof (cases "fo_parent_id r")
      case None
      then show ?thesis using Some up_step [OF 1(2) Some] by (simp add: walk_up.simps [of db a seen i])
    next
      case (Some p)
      have e: "(i, p) \<in> edges db"
        using get_folder_row_mem [OF \<open>get_folder_row i db = Some r\<close>] Some by (auto simp: edges_def)
      then have "p \<notin> set seen" using 1(3,4) by (meson acyclic_def rtrancl_into_trancl2)
      moreover have "walk_up db a (p # seen) p \<longleftrightarrow> (p, a) \<in> (edges db)\<^sup>+" if "p \<noteq> a"
        using 1(1) [OF \<open>get_folder_row i db = Some r\<close> Some calculation that 1(2,3)] 1(4) e
        by (auto intro: rtrancl_into_rtrancl)
      ultimately show ?thesis
        using \<open>get_folder_row i db = Some r\<close> Some up_step [OF 1(2) \<open>get_folder_row i db = Some r\<close>, of a]
        by (auto simp: walk_up.simps [of db a seen i])
    qed
  qed
qed

lemma is_descendant_correct:
  "unique_key fo_id (dr_folders db) \<Longrightarrow> acyclic (edges db) \<Longrightarrow> is_descendant i a db \<longleftrightarrow> (i, a) \<in> (edges db)\<^sup>+"
  unfolding is_descendant_def by (rule walk_up_correct) simp_all

lemma children_edges: "i \<in> set (children_of frontier db) \<longleftrightarrow> (\<exists>p \<in> set frontier. (i, p) \<in> edges db)"
  by (auto simp: set_children_of edges_def optional_in_def split: option.splits)

definition descendants :: "drive_db \<Rightarrow> string set \<Rightarrow> string set" where
  "descendants db roots = {i. \<exists>p \<in> roots. (i, p) \<in> (edges db)\<^sup>+}"

lemma descendants_step: "descendants db (set frontier) = set (children_of frontier db) \<union> descendants db (set (children_of frontier db))"
proof (intro set_eqI iffI)
  fix i
  assume "i \<in> descendants db (set frontier)"
  then obtain p c where "p \<in> set frontier" "(i, c) \<in> (edges db)\<^sup>*" "(c, p) \<in> edges db"
    by (auto simp: descendants_def dest: tranclD2)
  then have "c \<in> set (children_of frontier db)" "i = c \<or> (i, c) \<in> (edges db)\<^sup>+"
    by (auto simp: children_edges dest: rtranclD)
  then show "i \<in> set (children_of frontier db) \<union> descendants db (set (children_of frontier db))"
    by (auto simp: descendants_def)
next
  fix i
  assume "i \<in> set (children_of frontier db) \<union> descendants db (set (children_of frontier db))"
  then consider "i \<in> set (children_of frontier db)" | c where "c \<in> set (children_of frontier db)" "(i, c) \<in> (edges db)\<^sup>+"
    by (auto simp: descendants_def)
  then show "i \<in> descendants db (set frontier)"
  proof cases
    case 1
    then show ?thesis unfolding children_edges descendants_def by auto
  next
    case (2 c)
    then obtain p where "p \<in> set frontier" "(c, p) \<in> edges db" unfolding children_edges by blast
    then show ?thesis using trancl_into_trancl [OF 2(2)] unfolding descendants_def by blast
  qed
qed

text \<open>The guarded breadth-first walk finds exactly the descendants, on any table.\<close>

lemma subtree_walk_correct:
  assumes "set frontier \<subseteq> set seen" "\<forall>x \<in> set seen - set frontier. \<forall>i. (i, x) \<in> edges db \<longrightarrow> i \<in> set seen"
  shows "set seen \<union> set (subtree_walk db seen frontier) = set seen \<union> descendants db (set seen)"
  using assms
proof (induction db seen frontier rule: subtree_walk.induct)
  case (1 db seen frontier)
  show ?case
  proof (cases "frontier = []")
    case True
    have "i \<in> set seen" if "(i, x) \<in> (edges db)\<^sup>+" "x \<in> set seen" for i x
      using that by (induction rule: converse_trancl_induct) (use 1(3) True in auto)
    then show ?thesis using True by (auto simp: descendants_def subtree_walk.simps [of db seen])
  next
    case False
    let ?c = "filter (\<lambda>i. i \<notin> set seen) (children_of frontier db)"
    have "set (seen @ ?c) \<union> set (subtree_walk db (seen @ ?c) ?c) = set (seen @ ?c) \<union> descendants db (set (seen @ ?c))"
      by (rule 1(1) [OF False refl]) (use 1(2,3) in \<open>auto simp: children_edges\<close>)
    moreover have "set (seen @ ?c) \<union> descendants db (set (seen @ ?c)) = set seen \<union> descendants db (set seen)"
      using 1(2) by (fastforce simp: descendants_def children_edges intro: trancl_trans)
    ultimately show ?thesis using False by (auto simp: subtree_walk.simps [of db seen frontier] Let_def)
  qed
qed

lemma list_subtree_ids_correct: "insert i (set (list_subtree_ids i db)) = insert i (descendants db {i})"
  using subtree_walk_correct [of "[i]" "[i]" db] by (simp add: list_subtree_ids_def)

text \<open>The walk without a guard ends on a forest, with the same result; \<open>topmost\<close> is what makes it end.\<close>

lemma descendants_shrink:
  assumes "acyclic (edges db)" "children_of frontier db \<noteq> []"
  shows "descendants db (set (children_of frontier db)) \<subset> descendants db (set frontier)"
proof -
  let ?D = "descendants db (set frontier)"
  have wf: "wf (((edges db)\<^sup>+)\<inverse>)"
    using wf_trancl [OF finite_acyclic_wf_converse [OF finite_edges assms(1)]] by (simp add: trancl_converse)
  have "?D \<noteq> {}" using assms(2) descendants_step [of db frontier] by auto
  then obtain m where m: "m \<in> ?D" "\<And>y. (y, m) \<in> ((edges db)\<^sup>+)\<inverse> \<Longrightarrow> y \<notin> ?D"
    using wfE_min [OF wf, of _ ?D] by (metis ex_in_conv)
  have "m \<notin> descendants db (set (children_of frontier db))"
  proof
    assume "m \<in> descendants db (set (children_of frontier db))"
    then obtain p where p: "p \<in> set (children_of frontier db)" "(m, p) \<in> (edges db)\<^sup>+" by (auto simp: descendants_def)
    then have "p \<in> ?D" using descendants_step [of db frontier] by simp
    then show False using m(2) p(2) by simp
  qed
  then show ?thesis using m(1) descendants_step [of db frontier] by auto
qed

lemma finite_descendants: "finite (descendants db roots)"
proof -
  have "descendants db roots \<subseteq> fst ` edges db" by (force simp: descendants_def dest: tranclD)
  then show ?thesis by (rule finite_subset) simp
qed

lemma collect_subtree_correct:
  assumes "acyclic (edges db)"
  shows "\<exists>ids. collect_subtree db frontier = Some ids \<and> set ids = descendants db (set frontier)"
proof (induction "card (descendants db (set frontier))" arbitrary: frontier rule: less_induct)
  case less
  show ?case
  proof (cases "frontier = []")
    case True
    then show ?thesis by (simp add: collect_subtree.simps descendants_def)
  next
    case False
    let ?c = "children_of frontier db"
    have "\<exists>ids. collect_subtree db ?c = Some ids \<and> set ids = descendants db (set ?c)"
    proof (cases "?c = []")
      case False
      then show ?thesis
        by (intro less psubset_card_mono finite_descendants descendants_shrink assms)
    qed (simp add: collect_subtree.simps descendants_def)
    then show ?thesis using False descendants_step [of db frontier] by (auto simp: collect_subtree.simps [of db frontier] Let_def)
  qed
qed

section \<open>The statements keep the forest\<close>

lemma edges_files [simp]: "edges (db\<lparr>dr_files := fs\<rparr>) = edges db" "belongs (db\<lparr>dr_files := fs\<rparr>) = belongs db"
  by (auto simp: edges_def belongs_def fun_eq_iff split: option.splits)

lemma ok_files:
  assumes "drive_ok db" "unique_key fl_id fs" "\<forall>f \<in> set fs. belongs db (fl_user_id f) (fl_folder_id f)"
  shows "drive_ok (db\<lparr>dr_files := fs\<rparr>)"
  using assms by (simp add: drive_ok_def)

lemma belongs_append: "belongs db u d \<Longrightarrow> belongs (db\<lparr>dr_folders := dr_folders db @ rows\<rparr>) u d"
  by (auto simp: belongs_def split: option.splits)

lemma ok_create:
  assumes "drive_ok db" "belongs db user_id parent_id"
  shows "drive_ok (snd (folder_create new_id now1 now2 user_id name parent_id db))"
proof (cases "new_id \<in> set (folder_ids db) \<or> \<not> parent_exists parent_id db
    \<or> (\<exists>r \<in> set (dr_folders db). sibling_named user_id parent_id name r)")
  case True
  then show ?thesis using assms by (simp add: folder_create_def)
next
  case False
  let ?row = "\<lparr>fo_id = new_id, fo_user_id = user_id, fo_parent_id = parent_id, fo_name = name, fo_created_at = now1, fo_updated_at = now2\<rparr>"
  let ?db = "db\<lparr>dr_folders := dr_folders db @ [?row]\<rparr>"
  have fresh: "new_id \<notin> fo_id ` set (dr_folders db)" using False by (simp add: folder_ids_def)
  have no_child: "(i, new_id) \<notin> edges db" for i
    using assms(1) fresh by (fastforce simp: drive_ok_def edges_def belongs_def split: option.splits)
  have "edges ?db = (case parent_id of None \<Rightarrow> edges db | Some p \<Rightarrow> insert (new_id, p) (edges db))"
    by (auto simp: edges_def split: option.splits)
  moreover have "(p, new_id) \<notin> (edges db)\<^sup>*" if "parent_id = Some p" for p
  proof
    assume "(p, new_id) \<in> (edges db)\<^sup>*"
    then have "p = new_id" using no_child by (meson rtranclE)
    then show False using assms(2) that fresh by (auto simp: belongs_def)
  qed
  ultimately have "acyclic (edges ?db)" using assms(1) by (cases parent_id) (auto simp: drive_ok_def acyclic_insert)
  moreover have "snd (folder_create new_id now1 now2 user_id name parent_id db) = ?db"
    using False by (simp add: folder_create_def Let_def)
  ultimately show ?thesis
    using assms fresh False belongs_append [of db _ _ "[?row]"]
    by (auto simp: drive_ok_def unique_key_append sibling_named_def)
qed

text \<open>A change of folder rows that keeps identifiers and owners.\<close>

lemma belongs_update:
  assumes "\<And>r. fo_id (f r) = fo_id r \<and> fo_user_id (f r) = fo_user_id r"
  shows "belongs (db\<lparr>dr_folders := sql_update P f (dr_folders db)\<rparr>) u d = belongs db u d"
  using assms by (auto simp: belongs_def sql_update_def split: option.splits)

lemma ok_update:
  assumes "drive_ok db" and f: "\<And>r. fo_id (f r) = fo_id r \<and> fo_user_id (f r) = fo_user_id r"
    and "fst (update_folder i f db) = Inr b" "acyclic (edges (snd (update_folder i f db)))"
    and "\<And>r. r \<in> set (dr_folders db) \<Longrightarrow> fo_id r = i \<Longrightarrow> belongs db (fo_user_id r) (fo_parent_id (f r))"
  shows "drive_ok (snd (update_folder i f db))"
proof -
  let ?P = "\<lambda>r. fo_id r = i"
  let ?db = "db\<lparr>dr_folders := sql_update ?P f (dr_folders db)\<rparr>"
  have db: "snd (update_folder i f db) = ?db" using assms(3) by (auto simp: update_folder_def split: if_splits)
  have nosib: "\<not> sibling_named (fo_user_id (f r)) (fo_parent_id (f r)) (fo_name (f r)) x"
    if "r \<in> set (dr_folders db)" "fo_id r = i" "x \<in> set (dr_folders db)" "fo_id x \<noteq> i" for r x
    using assms(3) that by (auto simp: update_folder_def split: if_splits)
  have uniq: "unique_key fo_id (dr_folders db)" using assms(1) by (simp add: drive_ok_def)
  have "x' = r'" if "r' \<in> set (dr_folders ?db)" "x' \<in> set (dr_folders ?db)"
      "sibling_named (fo_user_id r') (fo_parent_id r') (fo_name r') x'" for r' x'
  proof -
    from that(1,2) obtain r x where r: "r \<in> set (dr_folders db)" "r' = (if ?P r then f r else r)"
      and x: "x \<in> set (dr_folders db)" "x' = (if ?P x then f x else x)" by (auto simp: sql_update_def)
    show ?thesis
    proof (cases "?P r"; cases "?P x")
      assume "?P r" "?P x"
      then show ?thesis using r x unique_key_inj [OF uniq] by metis
    next
      assume "?P r" "\<not> ?P x"
      then show ?thesis using nosib [OF r(1) _ x(1)] that(3) r x by simp
    next
      assume "\<not> ?P r" "?P x"
      then show ?thesis using nosib [OF x(1) _ r(1)] that(3) r x by (simp add: sibling_named_def)
    next
      assume "\<not> ?P r" "\<not> ?P x"
      then show ?thesis using assms(1) that(3) r x by (simp add: drive_ok_def)
    qed
  qed
  moreover have "belongs ?db (fo_user_id r) (fo_parent_id r)" if "r \<in> set (dr_folders ?db)" for r
    using that assms(1,5) f unfolding belongs_update [OF f] by (auto simp: sql_update_def drive_ok_def)
  moreover have "unique_key fo_id (dr_folders ?db)" using uniq f by (simp add: unique_key_update)
  ultimately show ?thesis using assms(1,4) unfolding db by (auto simp: drive_ok_def belongs_update [OF f])
qed

lemma update_folder_raised: "fst (update_folder i f db) = Inl e \<Longrightarrow> snd (update_folder i f db) = db \<and> e = IntegrityError"
  by (auto simp: update_folder_def split: if_splits)

lemma update_folder_edges:
  assumes "fst (update_folder i f db) = Inr b"
  shows "snd (update_folder i f db) = db\<lparr>dr_folders := sql_update (\<lambda>r. fo_id r = i) f (dr_folders db)\<rparr>"
  using assms by (auto simp: update_folder_def split: if_splits)

lemma ok_rename:
  assumes "drive_ok db"
  shows "drive_ok (snd (folder_rename now i name db))"
proof (cases "fst (folder_rename now i name db)")
  case (Inl e)
  then show ?thesis using update_folder_raised assms by (metis folder_rename_def)
next
  case (Inr b)
  let ?f = "\<lambda>r. r\<lparr>fo_name := name, fo_updated_at := now\<rparr>"
  have "edges (db\<lparr>dr_folders := sql_update (\<lambda>r. fo_id r = i) ?f (dr_folders db)\<rparr>) \<subseteq> edges db"
    by (auto simp: edges_def sql_update_def)
  then have "acyclic (edges (db\<lparr>dr_folders := sql_update (\<lambda>r. fo_id r = i) ?f (dr_folders db)\<rparr>))"
    using assms acyclic_subset by (auto simp: drive_ok_def)
  then show ?thesis using assms Inr update_folder_edges [of i ?f db b] unfolding folder_rename_def
    by (intro ok_update [of db ?f i b]) (auto simp: drive_ok_def)
qed

lemma ok_move:
  assumes "drive_ok db" "\<And>r. r \<in> set (dr_folders db) \<Longrightarrow> fo_id r = i \<Longrightarrow> belongs db (fo_user_id r) d"
    and "\<And>p. d = Some p \<Longrightarrow> p \<noteq> i \<and> \<not> is_descendant p i db"
  shows "drive_ok (snd (folder_move now i d db))"
proof (cases "fst (folder_move now i d db)")
  case (Inl e)
  then show ?thesis using update_folder_raised assms by (metis folder_move_def)
next
  case (Inr b)
  let ?f = "\<lambda>r. r\<lparr>fo_parent_id := d, fo_updated_at := now\<rparr>"
  let ?db = "db\<lparr>dr_folders := sql_update (\<lambda>r. fo_id r = i) ?f (dr_folders db)\<rparr>"
  have ac: "acyclic (edges db)" "unique_key fo_id (dr_folders db)" using assms(1) by (auto simp: drive_ok_def)
  have "acyclic (edges ?db)"
  proof (cases d)
    case None
    then have "edges ?db \<subseteq> edges db" by (auto simp: edges_def sql_update_def split: if_splits)
    then show ?thesis using ac acyclic_subset by blast
  next
    case (Some p)
    then have "(p, i) \<notin> (edges db)\<^sup>*" using assms(3) is_descendant_correct [OF ac(2,1)] by (auto dest: rtranclD)
    then have "acyclic (insert (i, p) (edges db))" using ac by (simp add: acyclic_insert)
    moreover have "edges ?db \<subseteq> insert (i, p) (edges db)" using Some by (auto simp: edges_def sql_update_def split: if_splits)
    ultimately show ?thesis using acyclic_subset by blast
  qed
  then show ?thesis using assms(1,2) Inr update_folder_edges [of i ?f db b] unfolding folder_move_def
    by (intro ok_update [of db ?f i b]) auto
qed

lemma delete_with_descendants_eq:
  assumes "acyclic (edges db)"
  shows "\<exists>ids. set ids = insert i (descendants db {i}) \<and> delete_with_descendants i db
    = Some ((map fl_file_key (filter (\<lambda>f. optional_in (fl_folder_id f) ids) (dr_files db)), ids),
        db\<lparr>dr_folders := filter (\<lambda>r. fo_id r \<notin> set ids) (dr_folders db),
           dr_files := filter (\<lambda>f. \<not> optional_in (fl_folder_id f) ids) (dr_files db)\<rparr>)"
proof -
  obtain ids where ids: "collect_subtree db [i] = Some ids" "set ids = descendants db {i}"
    using collect_subtree_correct [OF assms, of "[i]"] by auto
  have "filter (\<lambda>f. \<not> optional_in (fl_folder_id f) (i # ids)) (dr_files db) = dr_files db"
    if "filter (\<lambda>f. optional_in (fl_folder_id f) (i # ids)) (dr_files db) = []"
    using that by (simp add: filter_empty_conv filter_id_conv)
  then show ?thesis using ids
    by (intro exI [of _ "i # ids"]) (auto simp: delete_with_descendants_def Let_def sql_select_def sql_delete_def)
qed

lemma ok_delete:
  assumes "drive_ok db" "delete_with_descendants i db = Some (r, db')"
  shows "drive_ok db'"
proof -
  obtain ids where ids: "set ids = insert i (descendants db {i})"
    and db': "db' = db\<lparr>dr_folders := filter (\<lambda>r. fo_id r \<notin> set ids) (dr_folders db),
           dr_files := filter (\<lambda>f. \<not> optional_in (fl_folder_id f) ids) (dr_files db)\<rparr>"
    using delete_with_descendants_eq [of db i] assms by (auto simp: drive_ok_def)
  have "edges db' \<subseteq> edges db" by (auto simp: edges_def db')
  then have ac: "acyclic (edges db')" using assms(1) acyclic_subset by (auto simp: drive_ok_def)
  have bel: "belongs db' u d" if "belongs db u d" "\<not> optional_in d ids" for u d
    using that by (auto simp: belongs_def db' optional_in_def split: option.splits)
  have up: "\<not> optional_in (fo_parent_id r) ids" if "r \<in> set (dr_folders db)" "fo_id r \<notin> set ids" for r
  proof
    assume "optional_in (fo_parent_id r) ids"
    then obtain p where p: "fo_parent_id r = Some p" "p \<in> insert i (descendants db {i})"
      using ids by (auto simp: optional_in_def split: option.splits)
    then have "(fo_id r, p) \<in> edges db" using that(1) by (auto simp: edges_def)
    then have "fo_id r \<in> descendants db {i}" using p(2) by (auto simp: descendants_def intro: trancl_into_trancl2)
    then show False using that(2) ids by simp
  qed
  have "unique_key fo_id (dr_folders db')" "unique_key fl_id (dr_files db')"
    using assms(1) unique_key_delete [of fo_id "dr_folders db" "\<lambda>r. fo_id r \<in> set ids"]
      unique_key_delete [of fl_id "dr_files db" "\<lambda>f. optional_in (fl_folder_id f) ids"]
    by (simp_all add: drive_ok_def db' sql_delete_def)
  then show ?thesis using assms(1) ac bel up by (auto simp: drive_ok_def db')
qed

lemma ok_save_file: "drive_ok db \<Longrightarrow> belongs db user_id folder_id \<Longrightarrow>
    drive_ok (snd (save_file new_id now user_id key name sz mime ext folder_id expires db))"
  by (auto simp: save_file_def intro!: ok_files) (auto simp: drive_ok_def unique_key_append)

lemma ok_update_file:
  assumes "drive_ok db" "\<And>r. fl_id (f r) = fl_id r \<and> fl_user_id (f r) = fl_user_id r"
    and "\<And>r. r \<in> set (dr_files db) \<Longrightarrow> fl_id r = i \<Longrightarrow> belongs db (fl_user_id r) (fl_folder_id (f r))"
  shows "drive_ok (snd (update_file i f db))"
proof -
  let ?fs = "sql_update (\<lambda>r. fl_id r = i) f (dr_files db)"
  have "unique_key fl_id ?fs" using assms(1,2) by (simp add: drive_ok_def unique_key_update)
  moreover have "\<forall>r \<in> set ?fs. belongs db (fl_user_id r) (fl_folder_id r)"
    using assms by (auto simp: drive_ok_def sql_update_def)
  ultimately show ?thesis using assms(1) ok_files [of db ?fs] by (simp add: update_file_def)
qed

lemma ok_file_deletes:
  assumes "drive_ok db"
  shows "drive_ok (snd (file_delete i db))" "drive_ok (snd (delete_many u ids db))"
  using assms unfolding file_delete_def delete_many_def Let_def
  by (auto intro!: ok_files) (auto simp: drive_ok_def unique_key_delete sql_simps)

section \<open>The service keeps the forest\<close>

definition same_tables :: "drive_state \<Rightarrow> drive_state \<Rightarrow> bool" where
  "same_tables s t = (dv_db t = dv_db s)"

definition keeps_ok :: "drive_state \<Rightarrow> drive_state \<Rightarrow> bool" where
  "keeps_ok s t = (drive_ok (dv_db s) \<longrightarrow> drive_ok (dv_db t))"

interpretation st: state_frame same_tables
  by unfold_locales (auto simp: same_tables_def)

interpretation ko: state_frame keeps_ok
  by unfold_locales (auto simp: keeps_ok_def)

lemma same_ok: "same_tables s t \<Longrightarrow> keeps_ok s t"
  by (simp add: same_tables_def keeps_ok_def)

lemma same_read: "same_tables s (snd (read_drive f s))"
  by (simp add: same_tables_def read_drive_def)

lemma same_tick: "same_tables s (snd (drive_tick f s))"
  by (simp add: same_tables_def drive_tick_def)

lemma same_storage: "same_tables s (snd (storage_call env f s))"
  by (simp add: same_tables_def storage_call_def split: prod.splits)

lemma same_remove: "same_tables s (snd (remove_object env key s))" "same_tables s (snd (stat_object env key s))"
  "same_tables s (snd (read_object_head env key s))"
  by (simp_all add: remove_object_def stat_object_def read_object_head_def same_storage)

lemma same_removals: "same_tables s (snd (remove_objects env keys s))"
  by (induction keys arbitrary: s) (auto intro: st.sbind_frame same_remove st.refl)

lemma same_gather: "same_tables s (snd (gather_removals env keys s))"
proof (induction keys arbitrary: s)
  case (Cons key keys)
  obtain r t where r: "remove_object env key s = (r, t)" by fastforce
  then have "same_tables s t" using same_remove(1) [of s env key] by simp
  then show ?case using Cons [of t] r st.trans by (cases r) auto
qed (simp add: st.refl)

lemma same_reject: "same_tables s (snd (reject_upload env key e s))"
  unfolding reject_upload_def by (intro st.sbind_frame same_remove st.raise_frame)

lemma same_get: "same_tables s (snd (get_folder u i s))" "same_tables s (snd (get_file u j s))"
  by (simp_all add: get_folder_def get_file_def same_read)

lemma same_target: "same_tables s (snd (owned_target u d s))"
  unfolding owned_target_def by (cases d) (auto intro: st.sbind_frame same_get st.sreturn_frame)

lemma same_reread: "same_tables s (snd (reread_folder i b s))" "same_tables s (snd (reread_file i b s))"
  by (simp_all add: reread_folder_def reread_file_def same_read st.raise_frame)

lemmas same_ops = same_read same_tick same_remove same_removals same_gather same_reject same_get same_target same_reread
  st.sreturn_frame st.raise_frame

lemma get_folder_result:
  assumes "get_folder u i s = (Inr r, t)"
  shows "t = s" "r \<in> set (dr_folders (dv_db s))" "fo_id r = i" "fo_user_id r = u"
  using assms get_folder_row_mem by (fastforce simp: get_folder_def read_drive_def split: option.splits if_splits)+

lemma get_file_result:
  assumes "get_file u i s = (Inr f, t)"
  shows "t = s" "f \<in> set (dr_files (dv_db s))" "fl_id f = i" "fl_user_id f = u"
proof -
  obtain x where x: "get_file_row i (dv_db s) = Inr (Some f)" "x = f"
    using assms by (auto simp: get_file_def read_drive_def rbind_Inr_iff split: option.splits if_splits)
  then have "filter (\<lambda>g. fl_id g = i) (dr_files (dv_db s)) = [f]"
    by (auto simp: get_file_row_def scalar_one_or_none_def sql_select_def split: list.splits)
  then have "f \<in> set (filter (\<lambda>g. fl_id g = i) (dr_files (dv_db s)))" by simp
  then show "f \<in> set (dr_files (dv_db s))" "fl_id f = i" by auto
  show "t = s" "fl_user_id f = u"
    using assms by (auto simp: get_file_def read_drive_def rbind_Inr_iff split: option.splits if_splits)
qed

lemma owned_target_result:
  assumes "owned_target u d s = (Inr x, t)"
  shows "t = s" "belongs (dv_db s) u d"
proof -
  show "t = s" using assms get_folder_result(1)
    by (auto simp: owned_target_def sreturn_def sbind_def split: option.splits prod.splits sum.splits)
  show "belongs (dv_db s) u d"
    using assms get_folder_result(2,3,4)
    by (fastforce simp: owned_target_def belongs_def sreturn_def sbind_def split: option.splits prod.splits sum.splits)
qed

lemma keeps_exec: "(drive_ok (dv_db s) \<Longrightarrow> drive_ok (snd (f (dv_db s)))) \<Longrightarrow> keeps_ok s (snd (exec_drive f s))"
  by (auto simp: keeps_ok_def exec_drive_def split: prod.splits)

lemma keeps_conflict: "keeps_ok s (snd (m s)) \<Longrightarrow> keeps_ok s (snd (on_conflict m s))"
  unfolding on_conflict_def try_op_def by (auto simp: raise_op_def split: prod.splits sum.splits exn.splits)

lemma keeps_create: "keeps_ok s (snd (create_folder env u name d s))"
  unfolding create_folder_def
proof (rule ko.sbind_frame_dep, rule same_ok [OF same_target], intro ko.sbind_frame_dep same_ok [OF same_tick], goal_cases)
  case (1 x t new_id t1 now1 t2 now2 t3)
  have "dv_db t3 = dv_db s" using 1 owned_target_result(1) [OF 1(1)] by (auto simp: drive_tick_def)
  then show ?case using owned_target_result(2) [OF 1(1)] by (intro keeps_conflict keeps_exec ok_create) auto
qed

lemma keeps_rename: "keeps_ok s (snd (rename_folder env u i name s))"
  unfolding rename_folder_def
  by (intro ko.sbind_frame keeps_conflict keeps_exec ok_rename same_ok [OF same_tick] same_ok [OF same_get(1)] same_ok [OF same_reread(1)])

lemma refuse_cycle_result:
  assumes "refuse_cycle u i d s = (Inr x, t)"
  shows "t = s" "belongs (dv_db s) u d" "d = Some p \<Longrightarrow> p \<noteq> i \<and> \<not> is_descendant p i (dv_db s)"
proof -
  have "t = s \<and> belongs (dv_db s) u d \<and> (\<forall>p. d = Some p \<longrightarrow> p \<noteq> i \<and> \<not> is_descendant p i (dv_db s))"
  proof (cases d)
    case (Some q)
    obtain r v where v: "get_folder u q s = (r, v)" by fastforce
    then show ?thesis
      using assms Some get_folder_result [of u q s _ v]
      by (cases r) (auto simp: refuse_cycle_def sbind_def read_drive_def belongs_def split: if_splits)
  qed (use assms in \<open>auto simp: refuse_cycle_def sreturn_def belongs_def\<close>)
  then show "t = s" "belongs (dv_db s) u d" "d = Some p \<Longrightarrow> p \<noteq> i \<and> \<not> is_descendant p i (dv_db s)" by auto
qed

lemma same_refuse: "same_tables s (snd (refuse_cycle u i d s))"
  unfolding refuse_cycle_def by (cases d) (auto intro!: st.sbind_frame same_ops)

lemma keeps_move:
  assumes "de_rival env = id"
  shows "keeps_ok s (snd (move_folder env u i d s))"
  unfolding move_folder_def
proof (rule ko.sbind_frame_dep, rule same_ok [OF same_get(1)], rule ko.sbind_frame_dep, rule same_ok [OF same_refuse],
    intro ko.sbind_frame_dep same_ok [OF same_tick] same_ok [OF same_reread(1)] keeps_conflict, goal_cases rival move)
  case (rival folder t x t1)
  then show ?case by (simp add: write_drive_def assms keeps_ok_def)
next
  case (move folder t x t1 y t2 now t3)
  have f: "t = s" "folder \<in> set (dr_folders (dv_db s))" "fo_id folder = i" "fo_user_id folder = u"
    using get_folder_result [OF move(1)] by auto
  have db: "dv_db t3 = dv_db s" "t1 = t"
    using move f refuse_cycle_result(1) [OF move(2)] by (auto simp: write_drive_def drive_tick_def assms)
  show ?case
  proof (intro keeps_exec ok_move, goal_cases)
    case (2 r)
    then have "r = folder"
      using f db unique_key_inj [of fo_id "dr_folders (dv_db s)" r folder] by (auto simp: drive_ok_def)
    then show ?case using refuse_cycle_result(2) [OF move(2)] f db by simp
  next
    case (3 p)
    then show ?case using refuse_cycle_result(3) [OF move(2)] f db by simp
  qed
qed

lemma keeps_files:
  "keeps_ok s (snd (move_file u i d s))" "keeps_ok s (snd (rename_file u i name s))" "keeps_ok s (snd (set_file_favorite u i b s))"
proof -
  show "keeps_ok s (snd (move_file u i d s))"
    unfolding move_file_def
  proof (rule ko.sbind_frame_dep, rule same_ok [OF same_get(2)], rule ko.sbind_frame_dep, rule same_ok [OF same_target],
      rule ko.sbind_frame_dep, goal_cases exec reread)
    case (exec row t x t1)
    have f: "t = s" "row \<in> set (dr_files (dv_db s))" "fl_id row = i" "fl_user_id row = u" "t1 = s"
      using get_file_result [OF exec(1)] owned_target_result(1) [OF exec(2)] by auto
    show ?case unfolding file_move_def
    proof (intro keeps_exec ok_update_file, goal_cases)
      case (3 r)
      then have "r = row"
        using f unique_key_inj [of fl_id "dr_files (dv_db s)" r row] by (auto simp: drive_ok_def)
      then show ?case using owned_target_result(2) [OF exec(2)] f by simp
    qed simp_all
  qed (rule same_ok [OF same_reread(2)])
  show "keeps_ok s (snd (rename_file u i name s))"
    unfolding rename_file_def Let_def file_rename_def
    by (intro ko.sbind_frame ko.if_frame keeps_exec ok_update_file same_ok [OF same_get(2)] same_ok [OF same_reread(2)] ko.raise_frame)
      (auto simp: drive_ok_def)
  show "keeps_ok s (snd (set_file_favorite u i b s))"
    unfolding set_file_favorite_def set_favorite_def
    by (intro ko.sbind_frame keeps_exec ok_update_file same_ok [OF same_get(2)] same_ok [OF same_reread(2)]) (auto simp: drive_ok_def)
qed

lemma keeps_write: "(drive_ok (dv_db s) \<Longrightarrow> drive_ok (f (dv_db s))) \<Longrightarrow> keeps_ok s (snd (write_drive f s))"
  by (simp add: keeps_ok_def write_drive_def)

lemma keeps_deletes: "keeps_ok s (snd (delete_file env u i s))" "keeps_ok s (snd (delete_files env u ids s))"
proof -
  show "keeps_ok s (snd (delete_file env u i s))"
    unfolding delete_file_def
    by (intro ko.sbind_frame same_ok [OF same_get(2)] same_ok [OF same_remove(1)] keeps_write ok_file_deletes(1))
  show "keeps_ok s (snd (delete_files env u ids s))"
    unfolding delete_files_def
    by (intro ko.sbind_frame keeps_exec same_ok [OF same_gather] ko.sreturn_frame) (simp add: case_prod_beta ok_file_deletes(2))
qed

lemma delete_subtree_ok:
  assumes "drive_ok (dv_db s)"
  shows "\<exists>r t. delete_subtree env i s = Some (r, t) \<and> drive_ok (dv_db t)"
proof -
  obtain keys ids db where d: "delete_with_descendants i (dv_db s) = Some ((keys, ids), db)"
    using delete_with_descendants_eq [of "dv_db s" i] assms by (auto simp: drive_ok_def)
  then have "drive_ok db" using ok_delete assms by blast
  moreover have "dv_db (snd (remove_objects env keys (s\<lparr>dv_db := db\<rparr>))) = db"
    using same_removals [of "s\<lparr>dv_db := db\<rparr>" env keys] by (simp add: same_tables_def)
  ultimately show ?thesis using d by (cases "remove_objects env keys (s\<lparr>dv_db := db\<rparr>)") (auto simp: delete_subtree_def)
qed

lemma delete_folder_ok:
  assumes "drive_ok (dv_db s)"
  shows "\<exists>r t. delete_folder env u i s = Some (r, t) \<and> drive_ok (dv_db t)"
proof (cases "get_folder u i s")
  case (Pair r t)
  then have "dv_db t = dv_db s" using same_get(1) [of s u i] by (simp add: same_tables_def)
  then show ?thesis using Pair assms delete_subtree_ok [of t env] by (cases r) (auto simp: delete_folder_def)
qed

lemma delete_folders_ok:
  assumes "drive_ok (dv_db s)"
  shows "\<exists>r t. delete_folders env u is n s = Some (r, t) \<and> drive_ok (dv_db t)"
  using assms
proof (induction "is" arbitrary: n s)
  case (Cons i rest)
  obtain r t where g: "get_folder u i s = (r, t)" by fastforce
  then have t: "drive_ok (dv_db t)" using same_get(1) [of s u i] Cons.prems by (simp add: same_tables_def)
  show ?case
  proof (cases r)
    case (Inl e)
    then show ?thesis using g Cons.IH [OF t] by simp
  next
    case (Inr folder)
    obtain r' t' where d: "delete_subtree env (fo_id folder) t = Some (r', t')" "drive_ok (dv_db t')"
      using delete_subtree_ok [OF t] by blast
    then show ?thesis using g Inr Cons.IH [OF d(2)] by (cases r') auto
  qed
qed simp

lemma reject_raises: "\<exists>e'. fst (reject_upload env key e s) = Inl e'"
  by (cases "remove_object env key s"; cases "fst (remove_object env key s)") (auto simp: reject_upload_def sbind_def raise_op_def)

lemma check_folder_result:
  assumes "check_folder env u session s = (Inr x, t)"
  shows "t = s \<and> belongs (dv_db s) u (us_folder_id session)"
proof (cases "us_folder_id session")
  case None
  then show ?thesis using assms by (simp add: check_folder_def sreturn_def belongs_def)
next
  case (Some f)
  obtain r v where v: "get_folder u f s = (r, v)" by fastforce
  show ?thesis
  proof (cases r)
    case (Inl e)
    have e: "e = AppError FolderNotFoundError ''Folder not found''"
      using v Inl by (auto simp: get_folder_def read_drive_def folder_missing_def split: option.splits if_splits)
    obtain e' w where "(reject_upload env (us_object_key session) e :: folder_row drive_op) v = (Inl e', w)"
      using reject_raises by (metis prod.collapse)
    then show ?thesis using assms Some v Inl e by (simp add: check_folder_def try_op_def sbind_def)
  next
    case (Inr folder)
    then show ?thesis using assms Some v get_folder_result [of u f s folder v]
      by (auto simp: check_folder_def try_op_def sbind_def sreturn_def belongs_def)
  qed
qed

lemma same_check: "same_tables s (snd (check_folder env u session s))"
  unfolding check_folder_def
  by (cases "us_folder_id session") (auto intro!: st.sbind_frame st.try_frame same_ops split: exn.split app_error.split)

lemma keeps_save_upload:
  assumes "drive_ok (dv_db s) \<Longrightarrow> belongs (dv_db s) u (us_folder_id session)"
  shows "keeps_ok s (snd (save_upload env u session name sz ct s))"
  unfolding save_upload_def
proof (rule ko.sbind_frame_dep, rule same_ok [OF same_read], rule ko.if_frame, rule same_ok [OF same_reject],
    rule ko.sbind_frame_dep, rule same_ok [OF same_tick], rule ko.sbind_frame_dep, rule same_ok [OF same_tick], goal_cases)
  case (1 d t new_id t1 now t2)
  then have "dv_db t2 = dv_db s" by (auto simp: read_drive_def drive_tick_def)
  then show ?case using assms unfolding Let_def by (intro keeps_exec ok_save_file) simp_all
qed

lemma keeps_upload:
  assumes "de_rival env = id"
  shows "keeps_ok s (snd (complete_upload env u session s))"
  unfolding complete_upload_def Let_def
proof (rule ko.sbind_frame_dep, rule same_ok [OF same_remove(2)], rule ko.if_frame, rule same_ok [OF same_reject],
    rule ko.sbind_frame_dep, rule ko.try_frame, rule same_ok [OF same_remove(3)], rule ko.sreturn_frame,
    rule ko.if_frame, rule same_ok [OF same_reject], rule ko.sbind_frame_dep, rule same_ok [OF same_check],
    rule ko.sbind_frame_dep, rule same_ok [OF same_read], rule ko.option_frame, goal_cases fresh known)
  case (fresh stats t head t1 x t2 existing t3)
  have b: "belongs (dv_db t1) u (us_folder_id session)" "t2 = t1" "t3 = t2"
    using check_folder_result [OF fresh(3)] fresh(4) by (auto simp: read_drive_def)
  show ?case
    by (rule ko.sbind_frame_dep) (use b in \<open>auto simp: write_drive_def assms ko.refl intro!: keeps_save_upload\<close>)
qed (rule ko.sreturn_frame)

subsection \<open>Any sequence of requests\<close>

datatype drive_call =
    Drive_create int string "string option"
  | Drive_rename int string string
  | Drive_move int string "string option"
  | Drive_delete int string
  | Drive_delete_all int "string list"
  | Drive_move_file int string "string option"
  | Drive_rename_file int string string
  | Drive_favorite int string bool
  | Drive_delete_file int string
  | Drive_delete_files int "string list"
  | Drive_upload int upload_session

fun drive_step :: "drive_env \<Rightarrow> drive_call \<Rightarrow> drive_state \<Rightarrow> drive_state option" where
  "drive_step env (Drive_create u name d) s = Some (snd (create_folder env u name d s))"
| "drive_step env (Drive_rename u i name) s = Some (snd (rename_folder env u i name s))"
| "drive_step env (Drive_move u i d) s = Some (snd (move_folder env u i d s))"
| "drive_step env (Drive_delete u i) s = map_option snd (delete_folder env u i s)"
| "drive_step env (Drive_delete_all u is) s = map_option snd (delete_folders env u is 0 s)"
| "drive_step env (Drive_move_file u i d) s = Some (snd (move_file u i d s))"
| "drive_step env (Drive_rename_file u i name) s = Some (snd (rename_file u i name s))"
| "drive_step env (Drive_favorite u i b) s = Some (snd (set_file_favorite u i b s))"
| "drive_step env (Drive_delete_file u i) s = Some (snd (delete_file env u i s))"
| "drive_step env (Drive_delete_files u is) s = Some (snd (delete_files env u is s))"
| "drive_step env (Drive_upload u session) s = Some (snd (complete_upload env u session s))"

fun drive_run :: "drive_env \<Rightarrow> drive_call list \<Rightarrow> drive_state \<Rightarrow> drive_state option" where
  "drive_run env [] s = Some s"
| "drive_run env (call # calls) s = Option.bind (drive_step env call s) (drive_run env calls)"

lemma drive_step_ok:
  assumes "drive_ok (dv_db s)" "de_rival env = id"
  shows "\<exists>t. drive_step env call s = Some t \<and> drive_ok (dv_db t)"
proof -
  have k: "keeps_ok s t \<Longrightarrow> drive_ok (dv_db t)" for t using assms(1) by (simp add: keeps_ok_def)
  show ?thesis
    using k keeps_create keeps_rename keeps_move [OF assms(2)] keeps_files keeps_deletes keeps_upload [OF assms(2)]
      delete_folder_ok [OF assms(1)] delete_folders_ok [OF assms(1)]
    by (cases call) (auto, (metis option.simps(9) snd_conv)+)
qed

text \<open>C24: with requests served one at a time, every request ends, the deletions of folders included, and the
  folders stay a forest: identifiers unique, no folder below itself, a child and its parent and a file and
  its folder of the same owner, and no two folders of one name inside the same folder. At the top level,
  where the parent is NULL and the unique constraint does not bind, two folders can have one name.\<close>

theorem drive_stays_a_forest:
  assumes "drive_ok (dv_db s)" "de_rival env = id"
  shows "\<exists>t. drive_run env calls s = Some t \<and> drive_ok (dv_db t)"
  using assms(1)
proof (induction calls arbitrary: s)
  case (Cons call calls)
  obtain t where "drive_step env call s = Some t" "drive_ok (dv_db t)" using drive_step_ok [OF Cons.prems assms(2)] by blast
  then show ?case using Cons.IH by auto
qed simp

text \<open>A small drive for the witnesses: two folders of user 1, the second below the first when asked, and one file.\<close>

definition sample_folder :: "string \<Rightarrow> string option \<Rightarrow> folder_row" where
  "sample_folder i d = \<lparr>fo_id = i, fo_user_id = 1, fo_parent_id = d, fo_name = i, fo_created_at = 0, fo_updated_at = 0\<rparr>"

definition sample_file :: "string \<Rightarrow> string option \<Rightarrow> file_row" where
  "sample_file key d = \<lparr>fl_id = ''f'', fl_user_id = 1, fl_folder_id = d, fl_file_key = key, fl_file_name = ''n.txt'', fl_file_extension = ''txt'',
     fl_file_size_bytes = 10, fl_mime_type = ''text/plain'', fl_is_favorite = False, fl_created_at = 0, fl_expires_at = None\<rparr>"

definition sample_object :: "string \<Rightarrow> stored_object" where
  "sample_object first = \<lparr>ob_size = 10, ob_content_type = None, ob_head = first\<rparr>"

definition sample_drive :: "folder_row list \<Rightarrow> file_row list \<Rightarrow> (string \<Rightarrow> stored_object option) \<Rightarrow> drive_state" where
  "sample_drive folders files objs = \<lparr>dv_db = \<lparr>dr_folders = folders, dr_files = files\<rparr>, dv_objects = objs, dv_ticks = 0\<rparr>"

definition sample_drive_env :: "int \<Rightarrow> (drive_db \<Rightarrow> drive_db) \<Rightarrow> drive_env" where
  "sample_drive_env max_size rival = \<lparr>de_clock = int, de_uuid = (\<lambda>n. if n = 0 then ''a'' else if n = 3 then ''b'' else ''g''), de_up = (\<lambda>_. True),
     de_tier = (\<lambda>_. Tier_FREE), de_size_limits = (\<lambda>_. max_size), de_coll = (\<lambda>_. 0), de_rival = rival\<rparr>"

definition sample_session :: "string option \<Rightarrow> upload_session" where
  "sample_session name = \<lparr>us_upload_id = ''u'', us_object_key = ''k'', us_status = ''pending'', us_file_name = name, us_file_extension = None,
     us_folder_id = None, us_user_id = None, us_file_id = None, us_upload_mode = Mode_single, us_declared_size = None, us_multipart_upload_id = None,
     us_part_size_bytes = None, us_part_count = None\<rparr>"

lemmas sample_defs = sample_folder_def sample_file_def sample_object_def sample_drive_def sample_drive_env_def sample_session_def

theorem drive_stays_a_forest_witness:
  "\<exists>t. drive_run (sample_drive_env 100 id) [Drive_create 1 ''x'' None, Drive_create 1 ''y'' (Some ''a''), Drive_move 1 ''a'' (Some ''b''),
     Drive_delete 1 ''a''] (sample_drive [] [] (\<lambda>_. None)) = Some t \<and> drive_ok (dv_db t)"
  by (rule drive_stays_a_forest) (simp_all add: sample_defs drive_ok_def unique_key_def edges_def acyclic_def)

end
