(* ===== verification/Drive_Promises.thy ===== *)
theory Drive_Promises
  imports Drive_Safety
begin

text \<open>
  What a client of the drive can rely on: the scope of a confined agent, complete deletions, uploads within the
  quota, repeatable verification; and the places where the code does less than it says: two moves at once
  can make a cycle that no deletion survives, a rejected verification removes the object of a stored file, and
  a gzip archive is refused under its own extension.
\<close>

section \<open>A confined agent\<close>

lemma owner_goes_down:
  assumes "drive_ok db" "(j, i) \<in> (edges db)\<^sup>*" "r \<in> set (dr_folders db)" "fo_id r = j" "q \<in> set (dr_folders db)" "fo_id q = i"
  shows "fo_user_id r = fo_user_id q"
  using assms(2,3,4)
proof (induction arbitrary: r rule: converse_rtrancl_induct)
  case base
  then show ?case using assms(1,5,6) unique_key_inj [of fo_id "dr_folders db" r q] by (auto simp: drive_ok_def)
next
  case (step j k)
  have uniq: "unique_key fo_id (dr_folders db)" using assms(1) by (simp add: drive_ok_def)
  have "fo_parent_id r = Some k" using step edge_row [OF uniq step(4)] by simp
  then obtain x where x: "x \<in> set (dr_folders db)" "fo_id x = k" "fo_user_id x = fo_user_id r"
    using assms(1) step(4) by (fastforce simp: drive_ok_def belongs_def)
  then show ?case using step.IH by simp
qed

text \<open>the folders an agent confined to one folder may reach are that folder and everything below it, all of
  them the user's; for a folder that is not there or not the user's there is no scope.\<close>

theorem folder_scope_exact:
  assumes "drive_ok (dv_db s)"
  shows "fst (resolve_folder_scope u i s) = Inr (if \<exists>r \<in> set (dr_folders (dv_db s)). fo_id r = i \<and> fo_user_id r = u
      then Some {j. (j, i) \<in> (edges (dv_db s))\<^sup>*} else None)
    \<and> (\<forall>ids. fst (resolve_folder_scope u i s) = Inr (Some ids) \<longrightarrow>
         (\<forall>r \<in> set (dr_folders (dv_db s)). fo_id r \<in> ids \<longrightarrow> fo_user_id r = u))"
proof -
  let ?db = "dv_db s"
  have uniq: "unique_key fo_id (dr_folders ?db)" using assms by (simp add: drive_ok_def)
  have set: "insert i (set (list_subtree_ids i ?db)) = {j. (j, i) \<in> (edges ?db)\<^sup>*}"
    unfolding list_subtree_ids_correct by (auto simp: descendants_def dest: rtranclD)
  have scope: "fst (resolve_folder_scope u i s) = Inr (if \<exists>r \<in> set (dr_folders ?db). fo_id r = i \<and> fo_user_id r = u
      then Some {j. (j, i) \<in> (edges ?db)\<^sup>*} else None)"
  proof (cases "get_folder_row i ?db")
    case None
    then show ?thesis using get_folder_row_iff [OF uniq, of i] by (auto simp: resolve_folder_scope_def read_drive_def)
  next
    case (Some q)
    then have q: "q \<in> set (dr_folders ?db)" "fo_id q = i" using get_folder_row_mem by blast+
    then have "(\<exists>r \<in> set (dr_folders ?db). fo_id r = i \<and> fo_user_id r = u) \<longleftrightarrow> fo_user_id q = u"
      using unique_key_inj [OF uniq] by metis
    then show ?thesis using Some q set by (auto simp: resolve_folder_scope_def read_drive_def)
  qed
  moreover have "fo_user_id r = u" if "fst (resolve_folder_scope u i s) = Inr (Some ids)" "r \<in> set (dr_folders ?db)" "fo_id r \<in> ids" for ids r
    using that scope owner_goes_down [OF assms, of "fo_id r" i r] by (fastforce split: if_splits)
  ultimately show ?thesis by blast
qed

lemma sample_session_fields [simp]: "us_object_key (sample_session n) = ''k''" "us_file_name (sample_session n) = n"
    "us_folder_id (sample_session n) = None"
  by (simp_all add: sample_session_def)

lemma sample_drive_fields [simp]: "dr_folders (dv_db (sample_drive fs xs objs)) = fs" "dr_files (dv_db (sample_drive fs xs objs)) = xs"
    "dv_objects (sample_drive fs xs objs) = objs"
  by (simp_all add: sample_drive_def)

lemma sample_tree_edges: "edges (dv_db (sample_drive [sample_folder ''a'' None, sample_folder ''b'' (Some ''a'')] fs objs)) = {(''b'', ''a'')}"
  by (auto simp: sample_defs edges_def)

lemma sample_tree_ok: "drive_ok (dv_db (sample_drive [sample_folder ''a'' None, sample_folder ''b'' (Some ''a'')] [sample_file ''k'' (Some ''b'')] objs))"
proof -
  have "acyclic {(''b'', ''a'')}" by (simp add: acyclic_insert) (simp add: acyclic_def)
  then show ?thesis unfolding drive_ok_def sample_tree_edges
    by (simp add: unique_key_def belongs_def sibling_named_def) (simp add: sample_defs)
qed

theorem folder_scope_exact_witness:
  "fst (resolve_folder_scope 1 ''a'' (sample_drive [sample_folder ''a'' None, sample_folder ''b'' (Some ''a'')] [sample_file ''k'' (Some ''b'')] Map.empty))
     = Inr (Some {j. (j, ''a'') \<in> {(''b'', ''a'')}\<^sup>*})"
proof -
  let ?s = "sample_drive [sample_folder ''a'' None, sample_folder ''b'' (Some ''a'')] [sample_file ''k'' (Some ''b'')] Map.empty"
  have "\<exists>r \<in> set (dr_folders (dv_db ?s)). fo_id r = ''a'' \<and> fo_user_id r = 1" by (simp add: sample_folder_def)
  from folder_scope_exact [OF sample_tree_ok, of 1 "''a''" Map.empty, unfolded sample_tree_edges if_P [OF this]] show ?thesis by (rule conjunct1)
qed

section \<open>Deletion\<close>

definition always_up :: "drive_env \<Rightarrow> bool" where
  "always_up env = (\<forall>n. de_up env n)"

lemma remove_object_up: "always_up env \<Longrightarrow> remove_object env key s
    = (Inr (dv_objects s key \<noteq> None), s\<lparr>dv_objects := (dv_objects s)(key := None), dv_ticks := Suc (dv_ticks s)\<rparr>)"
  by (simp add: remove_object_def storage_call_def always_up_def)

lemma remove_objects_up:
  assumes "always_up env"
  shows "\<exists>t. remove_objects env keys s = (Inr (), t) \<and> dv_db t = dv_db s
    \<and> dv_objects t = (\<lambda>k. if k \<in> set keys then None else dv_objects s k)"
proof (induction keys arbitrary: s)
  case (Cons key keys)
  let ?s = "s\<lparr>dv_objects := (dv_objects s)(key := None), dv_ticks := Suc (dv_ticks s)\<rparr>"
  obtain t where "remove_objects env keys ?s = (Inr (), t)" "dv_db t = dv_db ?s"
    "dv_objects t = (\<lambda>k. if k \<in> set keys then None else dv_objects ?s k)" using Cons by blast
  then show ?case by (auto simp: sbind_def remove_object_up [OF assms] fun_eq_iff)
qed simp

text \<open>C36: deleting a folder of one's own ends and is complete: of the tables remains exactly what is outside its
  subtree, whatever the storage does; and when the storage answers, the objects of the deleted files are gone and
  no other.\<close>

theorem delete_folder_complete:
  assumes "drive_ok (dv_db s)" "r \<in> set (dr_folders (dv_db s))" "fo_id r = i" "fo_user_id r = u"
    and "below = {j. (j, i) \<in> (edges (dv_db s))\<^sup>*}" "gone = (\<lambda>d. \<exists>j \<in> below. d = Some j)"
  shows "\<exists>res t. delete_folder env u i s = Some (res, t)
    \<and> dr_folders (dv_db t) = filter (\<lambda>x. fo_id x \<notin> below) (dr_folders (dv_db s))
    \<and> dr_files (dv_db t) = filter (\<lambda>f. \<not> gone (fl_folder_id f)) (dr_files (dv_db s))
    \<and> (always_up env \<longrightarrow> res = Inr () \<and> dv_objects t =
         (\<lambda>k. if \<exists>f \<in> set (dr_files (dv_db s)). gone (fl_folder_id f) \<and> fl_file_key f = k then None else dv_objects s k))"
proof -
  let ?db = "dv_db s"
  have uniq: "unique_key fo_id (dr_folders ?db)" and ac: "acyclic (edges ?db)" using assms(1) by (auto simp: drive_ok_def)
  obtain ids where ids: "set ids = insert i (descendants ?db {i})" and del: "delete_with_descendants i ?db
    = Some ((map fl_file_key (filter (\<lambda>f. optional_in (fl_folder_id f) ids) (dr_files ?db)), ids),
        ?db\<lparr>dr_folders := filter (\<lambda>r. fo_id r \<notin> set ids) (dr_folders ?db),
           dr_files := filter (\<lambda>f. \<not> optional_in (fl_folder_id f) ids) (dr_files ?db)\<rparr>)"
    using delete_with_descendants_eq [OF ac] by blast
  have b: "set ids = below" unfolding ids assms(5) by (auto simp: descendants_def dest: rtranclD)
  have opt: "optional_in d ids = gone d" for d unfolding assms(6) b [symmetric] by (auto simp: optional_in_def split: option.splits)
  have g: "get_folder u i s = (Inr r, s)"
    using assms(2-4) get_folder_row_iff [OF uniq, of i r] by (simp add: get_folder_def read_drive_def)
  let ?keys = "map fl_file_key (filter (\<lambda>f. gone (fl_folder_id f)) (dr_files ?db))"
  let ?s = "s\<lparr>dv_db := ?db\<lparr>dr_folders := filter (\<lambda>r. fo_id r \<notin> below) (dr_folders ?db),
           dr_files := filter (\<lambda>f. \<not> gone (fl_folder_id f)) (dr_files ?db)\<rparr>\<rparr>"
  have eq: "delete_folder env u i s = Some (remove_objects env ?keys ?s)"
    using g del assms(3) b by (simp add: delete_folder_def delete_subtree_def opt)
  obtain res t where rt: "remove_objects env ?keys ?s = (res, t)" by fastforce
  have "dv_db t = dv_db ?s" using same_removals [of ?s env ?keys] rt by (simp add: same_tables_def)
  moreover have "res = Inr () \<and> dv_objects t =
      (\<lambda>k. if \<exists>f \<in> set (dr_files ?db). gone (fl_folder_id f) \<and> fl_file_key f = k then None else dv_objects s k)" if "always_up env"
    using remove_objects_up [OF that, of ?keys ?s] rt by (auto simp: fun_eq_iff)
  ultimately show ?thesis using eq rt by simp
qed

theorem delete_folder_complete_witness:
  "\<exists>res t. delete_folder (sample_drive_env 100 id) 1 ''a'' (sample_drive [sample_folder ''a'' None, sample_folder ''b'' (Some ''a'')] [sample_file ''k'' (Some ''b'')]
      (\<lambda>_. Some (sample_object ''x''))) = Some (res, t) \<and> res = Inr () \<and> dv_objects t ''k'' = None \<and> dv_objects t ''l'' \<noteq> None"
proof -
  let ?s = "sample_drive [sample_folder ''a'' None, sample_folder ''b'' (Some ''a'')] [sample_file ''k'' (Some ''b'')] (\<lambda>_. Some (sample_object ''x''))"
  have "sample_folder ''a'' None \<in> set (dr_folders (dv_db ?s))" "fo_id (sample_folder ''a'' None) = ''a''" "fo_user_id (sample_folder ''a'' None) = 1"
    by (simp_all add: sample_drive_def) (simp_all add: sample_folder_def)
  from delete_folder_complete [OF sample_tree_ok this refl refl, of "sample_drive_env 100 id", unfolded sample_tree_edges] show ?thesis
    by (auto simp: sample_defs always_up_def)
qed

section \<open>Two moves at once\<close>

text \<open>A set of folders each of which has a child in the set: the walk of the deletion never leaves it.\<close>

lemma collect_subtree_avoids:
  assumes "collect_subtree db frontier = Some ids" "\<forall>c \<in> C. \<exists>c' \<in> C. (c', c) \<in> edges db"
  shows "C \<inter> set frontier = {}"
proof -
  have "(\<forall>c \<in> C. \<exists>c' \<in> C. (c', c) \<in> edges db) \<longrightarrow> C \<inter> set frontier = {}"
    using assms(1)
  proof (rule collect_subtree.raw_induct [rotated])
    fix walk db frontier ids
    assume IH: "\<And>db frontier ids. walk db frontier = Some ids \<Longrightarrow> (\<forall>c \<in> C. \<exists>c' \<in> C. (c', c) \<in> edges db) \<longrightarrow> C \<inter> set frontier = {}"
      and step: "(if frontier = [] then Some [] else let children = children_of frontier db in
        Option.bind (walk db children) (\<lambda>rest. Some (children @ rest))) = Some ids"
    show "(\<forall>c \<in> C. \<exists>c' \<in> C. (c', c) \<in> edges db) \<longrightarrow> C \<inter> set frontier = {}"
    proof (cases "frontier = []")
      case False
      then obtain rest where "walk db (children_of frontier db) = Some rest"
        using step by (auto simp: Let_def bind_eq_Some_conv)
      from IH [OF this] show ?thesis by (fastforce simp: children_edges)
    qed simp
  qed
  then show ?thesis using assms(2) by blast
qed

lemma delete_folder_diverges:
  assumes "\<forall>c \<in> C. \<exists>c' \<in> C. (c', c) \<in> edges (dv_db s)" "i \<in> C" "get_folder u i s = (Inr r, s)" "fo_id r = i"
  shows "delete_folder env u i s = None"
proof -
  have "collect_subtree (dv_db s) [i] = None" using collect_subtree_avoids [of "dv_db s" "[i]" _ C] assms(1,2) by (cases "collect_subtree (dv_db s) [i]") auto
  then show ?thesis using assms(3,4) by (simp add: delete_folder_def delete_subtree_def delete_with_descendants_def)
qed

lemma moved_row:
  assumes "fst (folder_move now i d db) = Inr b" "r \<in> set (dr_folders db)"
  shows "(if fo_id r = i then r\<lparr>fo_parent_id := d, fo_updated_at := now\<rparr> else r) \<in> set (dr_folders (snd (folder_move now i d db)))"
  using assms update_folder_edges [of i _ db b] unfolding folder_move_def by (auto simp: sql_update_def)

lemma move_folder_result:
  assumes "move_folder env u i d s = (Inr r, t)"
  shows "\<exists>now b. fst (folder_move now i d (de_rival env (dv_db s))) = Inr b \<and> dv_db t = snd (folder_move now i d (de_rival env (dv_db s)))"
proof -
  obtain q where q: "get_folder u i s = (Inr q, s)" "fo_id q = i"
    using assms get_folder_result [of u i s] by (cases "get_folder u i s") (auto simp: move_folder_def sbind_def get_folder_def read_drive_def split: sum.splits)
  have e: "refuse_cycle u i d s = (fst (refuse_cycle u i d s), s)"
    by (auto simp: refuse_cycle_def sbind_def read_drive_def sreturn_def get_folder_def split: option.splits sum.splits)
  have ok: "refuse_cycle u i d s = (Inr (), s)"
    using assms q e by (cases "fst (refuse_cycle u i d s)") (auto simp: move_folder_def sbind_def)
  let ?now = "de_clock env (dv_ticks s)"
  obtain res db where m: "folder_move ?now i d (de_rival env (dv_db s)) = (res, db)" by fastforce
  then show ?thesis using assms q ok
    by (cases res) (auto simp: move_folder_def sbind_def write_drive_def drive_tick_def on_conflict_def try_op_def exec_drive_def
      raise_op_def reread_folder_def read_drive_def folder_conflict_def split: if_splits exn.splits option.splits intro!: exI [of _ ?now])
qed

lemma moved_unique:
  assumes "unique_key fo_id (dr_folders db)"
  shows "unique_key fo_id (dr_folders (snd (folder_move now i d db)))"
  using assms by (auto simp: folder_move_def update_folder_def sql_update_def unique_key_def comp_def if_distrib cong: if_cong)

text \<open>nothing guards the check of a move against another move. When, between the check and the write of
  a move of \<open>a\<close> under \<open>b\<close>, another session moves \<open>b\<close> under \<open>a\<close>, and both writes succeed, the two folders are
  below one another, and a later deletion of either never ends.\<close>

theorem concurrent_moves_make_a_cycle:
  assumes "drive_ok (dv_db s)" "ra \<in> set (dr_folders (dv_db s))" "fo_id ra = a" "rb \<in> set (dr_folders (dv_db s))" "fo_id rb = b" "a \<noteq> b"
    and "fo_user_id ra = u" "fo_user_id rb = u"
    and "de_rival env = (\<lambda>db. snd (folder_move now' b (Some a) db))" "fst (folder_move now' b (Some a) (dv_db s)) = Inr ok"
    and "move_folder env u a (Some b) s = (Inr r, t)"
  shows "(a, a) \<in> (edges (dv_db t))\<^sup>+ \<and> delete_folder env' u a t = None \<and> delete_folder env' u b t = None"
proof -
  let ?db = "snd (folder_move now' b (Some a) (dv_db s))"
  obtain now ok' where m: "fst (folder_move now a (Some b) ?db) = Inr ok'" and t: "dv_db t = snd (folder_move now a (Some b) ?db)"
    using move_folder_result [OF assms(11)] assms(9) by auto
  have uniq: "unique_key fo_id (dr_folders (dv_db t))" unfolding t using assms(1) by (intro moved_unique) (simp add: drive_ok_def)
  let ?ra = "ra\<lparr>fo_parent_id := Some b, fo_updated_at := now\<rparr>" and ?rb = "rb\<lparr>fo_parent_id := Some a, fo_updated_at := now'\<rparr>"
  have "ra \<in> set (dr_folders ?db)" "?rb \<in> set (dr_folders ?db)"
    using moved_row [OF assms(10,2)] moved_row [OF assms(10,4)] assms(3,5,6) by auto
  then have ra: "?ra \<in> set (dr_folders (dv_db t))" and rb: "?rb \<in> set (dr_folders (dv_db t))"
    using moved_row [OF m, of ra] moved_row [OF m, of ?rb] assms(3,5,6) by (auto simp: t)
  have ab: "(a, b) \<in> edges (dv_db t)" and ba: "(b, a) \<in> edges (dv_db t)"
    using bexI [OF _ ra, of "\<lambda>r. fo_id r = a \<and> fo_parent_id r = Some b"] bexI [OF _ rb, of "\<lambda>r. fo_id r = b \<and> fo_parent_id r = Some a"]
      assms(3,5) by (simp_all add: edges_def)
  then have C: "\<forall>c \<in> {a, b}. \<exists>c' \<in> {a, b}. (c', c) \<in> edges (dv_db t)" by blast
  have "get_folder u a t = (Inr ?ra, t)" "get_folder u b t = (Inr ?rb, t)"
    using get_folder_row_iff [OF uniq, of a ?ra] get_folder_row_iff [OF uniq, of b ?rb] ra rb assms(3,5,7,8)
    by (auto simp: get_folder_def read_drive_def)
  then show ?thesis using delete_folder_diverges [OF C] ab ba assms(3,5) by (auto intro: trancl_into_trancl)
qed

theorem concurrent_moves_make_a_cycle_witness:
  "\<exists>r t. move_folder (sample_drive_env 100 (\<lambda>db. snd (folder_move 5 ''b'' (Some ''a'') db))) 1 ''a'' (Some ''b'')
       (sample_drive [sample_folder ''a'' None, sample_folder ''b'' None] [] Map.empty) = (Inr r, t)
     \<and> (''a'', ''a'') \<in> (edges (dv_db t))\<^sup>+ \<and> delete_folder (sample_drive_env 100 id) 1 ''a'' t = None"
proof -
  let ?s = "sample_drive [sample_folder ''a'' None, sample_folder ''b'' None] [] Map.empty"
  let ?env = "sample_drive_env 100 (\<lambda>db. snd (folder_move 5 ''b'' (Some ''a'') db))"
  have ok: "drive_ok (dv_db ?s)"
    by (auto simp: drive_ok_def sample_defs edges_def unique_key_def belongs_def sibling_named_def acyclic_def)
  have rows: "sample_folder ''a'' None \<in> set (dr_folders (dv_db ?s))" "sample_folder ''b'' None \<in> set (dr_folders (dv_db ?s))"
    "fo_id (sample_folder ''a'' None) = ''a''" "fo_id (sample_folder ''b'' None) = ''b''" "fo_user_id (sample_folder i None) = 1" for i
    by (simp_all add: sample_drive_def) (simp_all add: sample_folder_def)
  have rival: "de_rival ?env = (\<lambda>db. snd (folder_move 5 ''b'' (Some ''a'') db))" by (simp add: sample_drive_env_def)
  have first: "fst (folder_move 5 ''b'' (Some ''a'') (dv_db ?s)) = Inr True"
    by (simp add: sample_defs folder_move_def update_folder_def parent_exists_def optional_in_def folder_ids_def sibling_named_def sql_count_def)
  obtain r t where m: "move_folder ?env 1 ''a'' (Some ''b'') ?s = (Inr r, t)"
    by (simp add: sample_defs move_folder_def sbind_def get_folder_def read_drive_def get_folder_row_def sql_first_def sql_select_def
      refuse_cycle_def is_descendant_def walk_up.simps write_drive_def drive_tick_def on_conflict_def try_op_def exec_drive_def folder_move_def
      update_folder_def parent_exists_def optional_in_def folder_ids_def sibling_named_def sql_count_def sql_update_def reread_folder_def)
  from concurrent_moves_make_a_cycle [OF ok rows(1,3,2,4) _ rows(5,5) rival first m] m show ?thesis by auto
qed

section \<open>Uploads\<close>

text \<open>What speaks against the object of a session before the library is consulted, in the order of the checks.\<close>

definition upload_head :: "drive_state \<Rightarrow> string \<Rightarrow> string" where
  "upload_head s key = (case dv_objects s key of None \<Rightarrow> [] | Some ob \<Rightarrow> take 4096 (ob_head ob))"

definition upload_bytes :: "drive_state \<Rightarrow> string \<Rightarrow> int" where
  "upload_bytes s key = (case dv_objects s key of None \<Rightarrow> 0 | Some ob \<Rightarrow> ob_size ob)"

definition claimed_extension :: "upload_session \<Rightarrow> string" where
  "claimed_extension session = extension_from_filename (Some (nonempty_or (us_file_name session) (us_object_key session)))"

definition upload_objection :: "drive_env \<Rightarrow> int \<Rightarrow> upload_session \<Rightarrow> drive_state \<Rightarrow> exn option" where
  "upload_objection env u session s = (let key = us_object_key session; max_size = de_size_limits env (de_tier env u) in
     if max_size < upload_bytes s key then Some (too_large max_size)
     else if upload_head s key \<noteq> [] \<and> \<not> validate_upload_signature (upload_head s key) (claimed_extension session)
     then Some (AppError FileTypeMismatchError (''Uploaded content does not match the claimed .'' @ claimed_extension session @ '' type.''))
     else case us_folder_id session of None \<Rightarrow> None
       | Some f \<Rightarrow> (case fst (get_folder u f s) of Inl e \<Rightarrow> Some folder_missing | Inr _ \<Rightarrow> None))"

definition upload_name :: "upload_session \<Rightarrow> string" where
  "upload_name session = nonempty_or (us_file_name session) (path_name (us_object_key session))"

definition upload_type :: "drive_state \<Rightarrow> string \<Rightarrow> string option" where
  "upload_type s key = (case dv_objects s key of None \<Rightarrow> None | Some ob \<Rightarrow> ob_content_type ob)"

lemma storage_call_up:
  assumes "always_up env"
  shows "stat_object env key s = (Inr (dv_objects s key), s\<lparr>dv_ticks := Suc (dv_ticks s)\<rparr>)"
    "read_object_head env key s = (Inr (upload_head s key), s\<lparr>dv_ticks := Suc (dv_ticks s)\<rparr>)"
  using assms by (simp_all add: stat_object_def read_object_head_def storage_call_def always_up_def upload_head_def)

lemma reject_upload_up:
  assumes "always_up env"
  shows "reject_upload env key e s = (Inl e, s\<lparr>dv_objects := (dv_objects s)(key := None), dv_ticks := Suc (dv_ticks s)\<rparr>)"
  using assms by (simp add: reject_upload_def sbind_def remove_object_up raise_op_def)

lemma get_folder_ticks [simp]: "fst (get_folder u f (s\<lparr>dv_ticks := n\<rparr>)) = fst (get_folder u f s)"
  by (simp add: get_folder_def read_drive_def)

lemma get_folder_state: "get_folder u f s = (fst (get_folder u f s), s)"
  by (simp add: get_folder_def read_drive_def)

lemma get_folder_raises: "fst (get_folder u f s) = Inl e \<Longrightarrow> e = folder_missing"
  by (auto simp: get_folder_def read_drive_def split: option.splits if_splits)

lemma check_folder_up:
  assumes "always_up env"
  shows "check_folder env u session s = (case us_folder_id session of None \<Rightarrow> (Inr (), s)
     | Some f \<Rightarrow> (case fst (get_folder u f s) of
         Inl e \<Rightarrow> (Inl folder_missing, s\<lparr>dv_objects := (dv_objects s)(us_object_key session := None), dv_ticks := Suc (dv_ticks s)\<rparr>)
       | Inr _ \<Rightarrow> (Inr (), s)))"
proof (cases "us_folder_id session")
  case (Some f)
  show ?thesis
  proof (cases "fst (get_folder u f s)")
    case (Inl e)
    then show ?thesis using Some get_folder_state [of u f s] get_folder_raises [OF Inl]
      by (simp add: check_folder_def try_op_def sbind_def reject_upload_up [OF assms] folder_missing_def)
  next
    case (Inr x)
    then show ?thesis using Some get_folder_state [of u f s] by (simp add: check_folder_def try_op_def sbind_def sreturn_def)
  qed
qed (simp add: check_folder_def sreturn_def)

text \<open>With the storage up, the handler is its specification: an objection removes the object and nothing else; a
  row already there is the answer; else the row is saved under the lock, on what the others have committed.\<close>

lemma complete_upload_up:
  assumes "always_up env"
  shows "\<exists>n. complete_upload env u session s = (let key = us_object_key session in
    case upload_objection env u session s of
      Some e \<Rightarrow> (Inl e, s\<lparr>dv_objects := (dv_objects s)(key := None), dv_ticks := n\<rparr>)
    | None \<Rightarrow> (case find_by_key u key (dv_db s) of
        Some f \<Rightarrow> (Inr (fl_id f), s\<lparr>dv_ticks := n\<rparr>)
      | None \<Rightarrow> save_upload env u session (upload_name session) (upload_bytes s key) (upload_type s key)
          (s\<lparr>dv_ticks := n, dv_db := de_rival env (dv_db s)\<rparr>)))"
proof -
  let ?key = "us_object_key session"
  note up = sbind_def storage_call_up [OF assms] reject_upload_up [OF assms] try_op_def Let_def
    upload_bytes_def [symmetric] upload_type_def [symmetric] upload_name_def [symmetric] claimed_extension_def [symmetric]
  have head: "upload_head (s\<lparr>dv_ticks := n\<rparr>) = upload_head s" for n by (simp add: upload_head_def fun_eq_iff)
  consider (large) "de_size_limits env (de_tier env u) < upload_bytes s ?key"
    | (spoofed) "\<not> de_size_limits env (de_tier env u) < upload_bytes s ?key"
        "upload_head s ?key \<noteq> [] \<and> \<not> validate_upload_signature (upload_head s ?key) (claimed_extension session)"
    | (passed) "\<not> de_size_limits env (de_tier env u) < upload_bytes s ?key"
        "\<not> (upload_head s ?key \<noteq> [] \<and> \<not> validate_upload_signature (upload_head s ?key) (claimed_extension session))" by blast
  then show ?thesis
  proof cases
    case large
    then show ?thesis by (auto simp: complete_upload_def upload_objection_def up)
  next
    case spoofed
    then show ?thesis by (auto simp: complete_upload_def upload_objection_def up head)
  next
    case passed
    let ?s = "s\<lparr>dv_ticks := Suc (Suc (dv_ticks s))\<rparr>"
    have c: "complete_upload env u session s = sbind (check_folder env u session) (\<lambda>_.
          sbind (read_drive (\<lambda>db. Inr (find_by_key u ?key db))) (\<lambda>existing. case existing of
            Some f \<Rightarrow> sreturn (Inr (fl_id f))
          | None \<Rightarrow> sbind (write_drive (de_rival env)) (\<lambda>_.
              save_upload env u session (upload_name session) (upload_bytes s ?key) (upload_type s ?key)))) ?s"
      using passed by (cases "upload_head s ?key = []") (simp_all add: complete_upload_def up head)
    show ?thesis unfolding c using passed
      by (auto simp: upload_objection_def check_folder_up [OF assms] sbind_def read_drive_def write_drive_def sreturn_def Let_def
        split: option.split sum.split)
  qed
qed

lemma reject_not_returns [simp]: "reject_upload env key e s \<noteq> (Inr i, t)"
  by (cases "remove_object env key s"; cases "fst (remove_object env key s)") (auto simp: reject_upload_def sbind_def raise_op_def)

lemma save_upload_result:
  assumes "save_upload env u session name sz ct s = (Inr i, t)"
  shows "(sz = 0 \<or> get_user_storage_used u (dv_db s) + sz \<le> tp_storage_quota_bytes (for_tier (de_tier env u)))
    \<and> dv_objects t = dv_objects s \<and> (\<exists>row. dv_db t = (dv_db s)\<lparr>dr_files := dr_files (dv_db s) @ [row]\<rparr>
      \<and> fl_id row = i \<and> fl_user_id row = u \<and> fl_file_key row = us_object_key session \<and> fl_file_size_bytes row = sz
      \<and> fl_folder_id row = us_folder_id session)"
proof -
  obtain d where d: "quota_decision env u sz (dv_db s) = Inr d"
    using assms by (cases "quota_decision env u sz (dv_db s)") (auto simp: save_upload_def sbind_def read_drive_def)
  have q: "quota_allowed d"
    using assms d by (cases "quota_allowed d") (auto simp: save_upload_def sbind_def read_drive_def)
  then have "sz = 0 \<or> get_user_storage_used u (dv_db s) + sz \<le> tp_storage_quota_bytes (for_tier (de_tier env u))"
    using quota_allowed_iff [OF d [unfolded quota_decision_def]] by simp
  then show ?thesis using assms d q
    by (auto simp: save_upload_def sbind_def read_drive_def drive_tick_def exec_drive_def save_file_def Let_def split: if_splits)
qed

lemma complete_upload_cases:
  assumes "complete_upload env u session s = (Inr i, t)"
  shows "upload_bytes s (us_object_key session) \<le> de_size_limits env (de_tier env u)
    \<and> (case find_by_key u (us_object_key session) (dv_db s) of
        Some f \<Rightarrow> i = fl_id f \<and> dv_db t = dv_db s
      | None \<Rightarrow> \<exists>v. dv_db v = de_rival env (dv_db s) \<and> dv_objects v = dv_objects s
    \<and> save_upload env u session (upload_name session) (upload_bytes s (us_object_key session)) (upload_type s (us_object_key session)) v = (Inr i, t))"
proof -
  let ?key = "us_object_key session" and ?max = "de_size_limits env (de_tier env u)"
  have stat: "stat_object env ?key s = (if de_up env (dv_ticks s) then Inr (dv_objects s ?key) else Inl (AppError StorageOperationError []),
      s\<lparr>dv_ticks := Suc (dv_ticks s)\<rparr>)" by (simp add: stat_object_def storage_call_def)
  have up: "de_up env (dv_ticks s)" using assms(1) by (cases "de_up env (dv_ticks s)") (auto simp: complete_upload_def Let_def sbind_def stat)
  define s1 where "s1 = s\<lparr>dv_ticks := Suc (dv_ticks s)\<rparr>"
  obtain hd s2 where head: "try_op (read_object_head env ?key) (\<lambda>e. sreturn (Inr [])) s1 = (Inr hd, s2)"
    and s2: "dv_db s2 = dv_db s" "dv_objects s2 = dv_objects s"
    by (cases "de_up env (dv_ticks s1)") (auto simp: try_op_def read_object_head_def storage_call_def sreturn_def s1_def)
  have max: "\<not> ?max < upload_bytes s ?key"
    using assms(1) by (auto simp: complete_upload_def Let_def sbind_def stat up upload_bytes_def)
  let ?rest = "sbind (check_folder env u session) (\<lambda>_.
          sbind (read_drive (\<lambda>db. Inr (find_by_key u ?key db))) (\<lambda>existing. case existing of
            Some f \<Rightarrow> sreturn (Inr (fl_id f))
          | None \<Rightarrow> sbind (write_drive (de_rival env)) (\<lambda>_.
              save_upload env u session (upload_name session) (upload_bytes s ?key) (upload_type s ?key))))"
  have st: "sbind (stat_object env ?key) g s = g (dv_objects s ?key) s1" for g :: "_ \<Rightarrow> string drive_op"
    by (simp add: sbind_def stat up s1_def)
  have hd: "sbind (try_op (read_object_head env ?key) (\<lambda>e. sreturn (Inr []))) g s1 = g hd s2" for g :: "_ \<Rightarrow> string drive_op"
    by (simp add: sbind_def head)
  have "?rest s2 = (Inr i, t)"
    using assms(1) max unfolding complete_upload_def Let_def st upload_bytes_def [symmetric] upload_type_def [symmetric]
      upload_name_def [symmetric] claimed_extension_def [symmetric] by (auto simp: hd split: if_splits)
  then show ?thesis
  proof (rule sbind_cases)
    fix x s3
    assume "check_folder env u session s2 = (Inr x, s3)" and r: "sbind (read_drive (\<lambda>db. Inr (find_by_key u ?key db))) (\<lambda>existing. case existing of
            Some f \<Rightarrow> sreturn (Inr (fl_id f))
          | None \<Rightarrow> sbind (write_drive (de_rival env)) (\<lambda>_.
              save_upload env u session (upload_name session) (upload_bytes s ?key) (upload_type s ?key))) s3 = (Inr i, t)"
    then have "s3 = s2" using check_folder_result by blast
    then show ?thesis using r max s2
      by (auto simp: sbind_def read_drive_def write_drive_def sreturn_def split: option.splits intro!: exI [of _ "s2\<lparr>dv_db := de_rival env (dv_db s)\<rparr>"])
  qed simp
qed

lemma complete_upload_fresh:
  assumes "complete_upload env u session s = (Inr i, t)" "find_by_key u (us_object_key session) (dv_db s) = None"
  shows "upload_bytes s (us_object_key session) \<le> de_size_limits env (de_tier env u) \<and> (\<exists>v. dv_db v = de_rival env (dv_db s)
    \<and> dv_objects v = dv_objects s
    \<and> save_upload env u session (upload_name session) (upload_bytes s (us_object_key session)) (upload_type s (us_object_key session)) v = (Inr i, t))"
  using complete_upload_cases [OF assms(1)] assms(2) by simp

lemma complete_upload_row:
  assumes "complete_upload env u session s = (Inr i, t)"
  shows "\<exists>f \<in> set (dr_files (dv_db t)). fl_id f = i \<and> fl_user_id f = u \<and> fl_file_key f = us_object_key session"
proof (cases "find_by_key u (us_object_key session) (dv_db s)")
  case None
  then obtain v where "save_upload env u session (upload_name session) (upload_bytes s (us_object_key session)) (upload_type s (us_object_key session)) v = (Inr i, t)"
    using complete_upload_fresh [OF assms] by blast
  from save_upload_result [OF this] show ?thesis by auto
next
  case (Some f)
  then have "i = fl_id f" "dv_db t = dv_db s" using complete_upload_cases [OF assms] by auto
  moreover have "f \<in> set (dr_files (dv_db s)) \<and> fl_user_id f = u \<and> fl_file_key f = us_object_key session"
    using Some by (auto simp: find_by_key_def dest: sql_first_Some)
  ultimately show ?thesis by auto
qed

text \<open>C25: whatever other sessions commit before the lock and however the storage fails, a verified upload of a new
  object is within the file size limit, is recorded with the size found in the storage, not the declared one, and
  leaves the account within the quota of its tier.\<close>

theorem upload_within_quota:
  assumes "complete_upload env u session s = (Inr i, t)" "find_by_key u (us_object_key session) (dv_db s) = None"
    and "dv_objects s (us_object_key session) = Some ob" "0 < ob_size ob"
  shows "get_user_storage_used u (dv_db t) \<le> tp_storage_quota_bytes (for_tier (de_tier env u))
    \<and> ob_size ob \<le> de_size_limits env (de_tier env u)
    \<and> (\<exists>row. dr_files (dv_db t) = dr_files (de_rival env (dv_db s)) @ [row] \<and> fl_id row = i \<and> fl_user_id row = u
        \<and> fl_file_key row = us_object_key session \<and> fl_file_size_bytes row = ob_size ob)"
proof -
  have b: "upload_bytes s (us_object_key session) = ob_size ob" using assms(3) by (simp add: upload_bytes_def)
  from complete_upload_fresh [OF assms(1,2)] obtain v where v: "dv_db v = de_rival env (dv_db s)" "ob_size ob \<le> de_size_limits env (de_tier env u)"
    "save_upload env u session (upload_name session) (ob_size ob) (upload_type s (us_object_key session)) v = (Inr i, t)"
    unfolding b by blast
  from save_upload_result [OF v(3)] show ?thesis using v(1,2) assms(4) by (auto simp: get_user_storage_used_def sql_select_def)
qed

lemma sample_upload_any:
  "\<exists>i t. complete_upload (sample_drive_env 100 id) 1 ((sample_session (Some ''n.txt''))\<lparr>us_status := st\<rparr>)
      ((sample_drive [] [] (\<lambda>_. Some (sample_object ''x'')))\<lparr>dv_ticks := n\<rparr>) = (Inr i, t)"
  and sample_upload_up: "always_up (sample_drive_env m f)" "de_rival (sample_drive_env m id) = id"
proof -
  show up: "always_up (sample_drive_env m f)" "de_rival (sample_drive_env m id) = id" for m f
    by (simp_all add: always_up_def sample_drive_env_def)
  let ?env = "sample_drive_env 100 id" and ?session = "(sample_session (Some ''n.txt''))\<lparr>us_status := st\<rparr>"
    and ?s = "(sample_drive [] [] (\<lambda>_. Some (sample_object ''x'')))\<lparr>dv_ticks := n\<rparr>"
  have v: "validate_upload_signature ''x'' ''txt''"
    by (simp add: validate_upload_signature_def lstrip_dots_def py_lower_def lower_char_def LENIENT_EXTENSIONS_def)
  have e: "extension_from_filename (Some ''n.txt'') = ''txt''"
    by (simp add: extension_from_filename_def path_name_def path_parts_def posix_slashes_def after_last_dot_def COMPOUND_EXTENSIONS_def
      py_endswith_def py_lower_def lower_char_def MAX_EXTENSION_LENGTH_def)
  have no: "upload_objection ?env 1 ?session ?s = None"
    using v e by (simp add: upload_objection_def upload_bytes_def upload_head_def claimed_extension_def nonempty_or_def sample_object_def sample_drive_env_def)
  have none: "find_by_key 1 ''k'' (dv_db ?s) = None" by (simp add: find_by_key_def sql_first_def sql_select_def)
  have q: "\<exists>d. quota_decision ?env 1 (upload_bytes ?s ''k'') (dv_db ?s) = Inr d \<and> quota_allowed d"
    by (simp add: quota_decision_def evaluate_storage_quota_def get_user_storage_used_def quota_allowed_def upload_bytes_def sample_object_def
      sql_select_def available_bytes_def GB_def MB_def py_trunc_def sample_drive_env_def Let_def)
  show "\<exists>i t. complete_upload ?env 1 ?session ?s = (Inr i, t)"
    using complete_upload_up [OF up(1), of 100 id 1 ?session ?s] no none q
    by (auto simp: up(2) save_upload_def sbind_def read_drive_def drive_tick_def exec_drive_def save_file_def parent_exists_def Let_def)
qed

lemma sample_upload:
  "\<exists>i t. complete_upload (sample_drive_env 100 id) 1 (sample_session (Some ''n.txt'')) (sample_drive [] [] (\<lambda>_. Some (sample_object ''x''))) = (Inr i, t)"
proof -
  have "(sample_session (Some ''n.txt''))\<lparr>us_status := ''pending''\<rparr> = sample_session (Some ''n.txt'')" by (simp add: sample_session_def)
  moreover have "(sample_drive [] [] objs)\<lparr>dv_ticks := 0\<rparr> = sample_drive [] [] objs" for objs by (simp add: sample_drive_def)
  ultimately show ?thesis using sample_upload_any [of "''pending''" 0] by simp
qed

theorem upload_within_quota_witness:
  "\<exists>i t. complete_upload (sample_drive_env 100 id) 1 (sample_session (Some ''n.txt'')) (sample_drive [] [] (\<lambda>_. Some (sample_object ''x''))) = (Inr i, t)
     \<and> get_user_storage_used 1 (dv_db t) \<le> 5 * GB"
proof -
  obtain i t where c: "complete_upload (sample_drive_env 100 id) 1 (sample_session (Some ''n.txt'')) (sample_drive [] [] (\<lambda>_. Some (sample_object ''x''))) = (Inr i, t)"
    using sample_upload by blast
  have "find_by_key 1 (us_object_key (sample_session (Some ''n.txt''))) (dv_db (sample_drive [] [] (\<lambda>_. Some (sample_object ''x'')))) = None"
    by (simp add: sample_defs find_by_key_def sql_first_def sql_select_def)
  from upload_within_quota [OF c this, of "sample_object ''x''"] c show ?thesis by (auto simp: sample_defs)
qed

text \<open>verifying the same session again, a double click or a retry, answers with the same file and changes neither
  the library nor the storage.\<close>

theorem verification_repeatable:
  assumes "always_up env" "de_rival env = id" "complete_upload env u session s = (Inr i, t)"
  shows "\<exists>v. complete_upload env u session t = (Inr i, v) \<and> dv_db v = dv_db t \<and> dv_objects v = dv_objects t"
proof -
  let ?key = "us_object_key session"
  obtain n where c: "complete_upload env u session s = (case upload_objection env u session s of
      Some e \<Rightarrow> (Inl e, s\<lparr>dv_objects := (dv_objects s)(?key := None), dv_ticks := n\<rparr>)
    | None \<Rightarrow> (case find_by_key u ?key (dv_db s) of
        Some f \<Rightarrow> (Inr (fl_id f), s\<lparr>dv_ticks := n\<rparr>)
      | None \<Rightarrow> save_upload env u session (upload_name session) (upload_bytes s ?key) (upload_type s ?key)
          (s\<lparr>dv_ticks := n, dv_db := de_rival env (dv_db s)\<rparr>)))"
    using complete_upload_up [OF assms(1), of u session s] by (auto simp: Let_def)
  have no: "upload_objection env u session s = None" using c assms(3) by (cases "upload_objection env u session s") auto
  have t: "dv_objects t = dv_objects s \<and> dr_folders (dv_db t) = dr_folders (dv_db s) \<and> (\<exists>f. find_by_key u ?key (dv_db t) = Some f \<and> fl_id f = i)"
  proof (cases "find_by_key u ?key (dv_db s)")
    case None
    then have e: "save_upload env u session (upload_name session) (upload_bytes s ?key) (upload_type s ?key)
          (s\<lparr>dv_ticks := n, dv_db := de_rival env (dv_db s)\<rparr>) = (Inr i, t)" using c no assms(3) by simp
    from save_upload_result [OF e] None assms(2) show ?thesis
      by (auto simp: find_by_key_def sql_select_def sql_first_def split: list.splits)
  qed (use c no assms(3) in auto)
  then have "upload_bytes t = upload_bytes s" "upload_head t = upload_head s" "fst (get_folder u f t) = fst (get_folder u f s)" for f
    by (simp_all add: upload_bytes_def upload_head_def get_folder_def read_drive_def get_folder_row_def fun_eq_iff)
  then have "upload_objection env u session t = None" using no by (simp only: upload_objection_def)
  then show ?thesis using complete_upload_up [OF assms(1), of u session t] t by (auto simp: Let_def)
qed

theorem verification_repeatable_witness:
  "\<exists>i t v. complete_upload (sample_drive_env 100 id) 1 (sample_session (Some ''n.txt'')) (sample_drive [] [] (\<lambda>_. Some (sample_object ''x''))) = (Inr i, t)
     \<and> complete_upload (sample_drive_env 100 id) 1 (sample_session (Some ''n.txt'')) t = (Inr i, v) \<and> dv_db v = dv_db t"
  using sample_upload verification_repeatable [OF sample_upload_up(1,2)] by blast

text \<open>a refused verification leaves no orphan: the object is removed and the tables are as the other sessions left
  them. The refusals come before the look for an existing row, so this holds for the object of a stored file too: the
  repeated verification of a session after a downgrade of the tier or a deletion of the folder empties the file.\<close>

theorem rejected_upload_removed:
  assumes "always_up env" "complete_upload env u session s = (Inl (AppError kind msg), t)"
  shows "dv_objects t = (dv_objects s)(us_object_key session := None)
    \<and> (dv_db t = dv_db s \<or> (dv_db t = de_rival env (dv_db s) \<and> find_by_key u (us_object_key session) (dv_db s) = None))"
proof -
  let ?key = "us_object_key session"
  have saved: "dv_objects t = (dv_objects v)(?key := None) \<and> dv_db t = dv_db v"
    if v: "save_upload env u session name sz ct v = (Inl (AppError kind msg), t)" for name sz ct v
  proof (cases "quota_decision env u sz (dv_db v)")
    case (Inl e)
    then have "e \<noteq> AppError kind msg" by (auto simp: quota_decision_def evaluate_storage_quota_def Let_def split: if_splits)
    then show ?thesis using v Inl by (simp add: save_upload_def sbind_def read_drive_def)
  next
    case (Inr d)
    then show ?thesis using v by (cases "quota_allowed d")
      (auto simp: save_upload_def sbind_def read_drive_def reject_upload_up [OF assms(1)] drive_tick_def exec_drive_def save_file_def Let_def split: if_splits)
  qed
  show ?thesis
    using complete_upload_up [OF assms(1), of u session s] assms(2) saved by (fastforce simp: Let_def split: option.splits)
qed

theorem rejected_upload_removed_witness:
  "\<exists>e t. complete_upload (sample_drive_env 5 id) 1 (sample_session None) (sample_drive [] [sample_file ''k'' None] (\<lambda>_. Some (sample_object ''x''))) = (Inl e, t)
     \<and> dr_files (dv_db t) = [sample_file ''k'' None] \<and> dv_objects t ''k'' = None"
proof -
  let ?s = "sample_drive [] [sample_file ''k'' None] (\<lambda>_. Some (sample_object ''x''))"
  have "upload_objection (sample_drive_env 5 id) 1 (sample_session None) ?s = Some (too_large 5)"
    by (simp add: upload_objection_def upload_bytes_def sample_defs)
  then obtain t where c: "complete_upload (sample_drive_env 5 id) 1 (sample_session None) ?s = (Inl (too_large 5), t)"
    using complete_upload_up [OF sample_upload_up(1), of 5 id 1 "sample_session None" ?s] by (auto simp: Let_def)
  from rejected_upload_removed [OF sample_upload_up(1) c [unfolded too_large_def]] c show ?thesis
    by (auto simp: sample_drive_def) (simp_all add: sample_defs)
qed

lemma split_slash_plain: "CHR ''/'' \<notin> set s \<Longrightarrow> split_slash acc s = [rev acc @ s]"
  by (induction s arbitrary: acc) auto

lemma posix_slashes_plain: "CHR 0x5C \<notin> set s \<Longrightarrow> posix_slashes s = s"
  by (auto simp: posix_slashes_def intro: map_idI)

lemma tar_gz_extension:
  assumes "stem \<noteq> []" "hd stem \<noteq> CHR ''.''" "CHR ''/'' \<notin> set stem" "CHR 0x5C \<notin> set stem"
  shows "extension_from_filename (Some (stem @ ''.tar.gz'')) = ''tar.gz''"
proof -
  have "CHR ''/'' \<notin> set (stem @ ''.tar.gz'')" "CHR 0x5C \<notin> set (stem @ ''.tar.gz'')" using assms(3,4) by auto
  then have "path_name (posix_slashes (stem @ ''.tar.gz'')) = stem @ ''.tar.gz''"
    using assms(1,2) by (cases stem) (auto simp: posix_slashes_plain path_name_def path_parts_def split_slash_plain)
  then show ?thesis using assms(1,2)
    by (cases stem) (simp_all add: extension_from_filename_def after_last_dot_def COMPOUND_EXTENSIONS_def py_endswith_def py_lower_def lower_char_def)
qed

lemma gzip_detected: "detect_type (CHR 0x1F # CHR 0x8B # rest) = Some ''gz''"
  by (simp add: detect_type_def byte_slice_def SIGNATURES_def py_startswith_def)

text \<open>a genuine gzip archive named \<open>.tar.gz\<close>, an extension the parser of names recognises on purpose, is always
  refused as a type mismatch and its object deleted: the signature \<open>gz\<close> accepts only the extension \<open>gz\<close>.\<close>

theorem tar_gz_refused:
  assumes "always_up env" "us_file_name session = Some (stem @ ''.tar.gz'')"
    and "stem \<noteq> []" "hd stem \<noteq> CHR ''.''" "CHR ''/'' \<notin> set stem" "CHR 0x5C \<notin> set stem"
    and "dv_objects s (us_object_key session) = Some ob" "ob_head ob = CHR 0x1F # CHR 0x8B # rest"
    and "ob_size ob \<le> de_size_limits env (de_tier env u)"
  shows "\<exists>msg t. complete_upload env u session s = (Inl (AppError FileTypeMismatchError msg), t)
    \<and> dv_objects t (us_object_key session) = None \<and> dv_db t = dv_db s"
proof -
  have ext: "claimed_extension session = ''tar.gz''"
    using assms(2) tar_gz_extension [OF assms(3-6)] by (simp add: claimed_extension_def nonempty_or_def)
  have head: "upload_head s (us_object_key session) = CHR 0x1F # CHR 0x8B # take 4094 rest" using assms(7,8) by (simp add: upload_head_def)
  have bad: "\<not> validate_upload_signature (CHR 0x1F # CHR 0x8B # take 4094 rest) ''tar.gz''"
    unfolding validate_upload_signature_def gzip_detected
    by (simp add: lstrip_dots_def py_lower_def lower_char_def LENIENT_EXTENSIONS_def signature_aliases_def)
  have "upload_bytes s (us_object_key session) = ob_size ob" using assms(7) by (simp add: upload_bytes_def)
  then have "upload_objection env u session s = Some (AppError FileTypeMismatchError
      (''Uploaded content does not match the claimed .'' @ ''tar.gz'' @ '' type.''))"
    using assms(9) bad unfolding upload_objection_def head ext Let_def by simp
  then show ?thesis using complete_upload_up [OF assms(1), of u session s] by (auto simp: Let_def)
qed

theorem tar_gz_refused_witness:
  "\<exists>msg t. complete_upload (sample_drive_env 100 id) 1 (sample_session (Some (''a'' @ ''.tar.gz'')))
      (sample_drive [] [] (\<lambda>_. Some (sample_object [CHR 0x1F, CHR 0x8B]))) = (Inl (AppError FileTypeMismatchError msg), t)
    \<and> dv_objects t ''k'' = None"
proof -
  let ?ob = "sample_object [CHR 0x1F, CHR 0x8B]"
  have "ob_head ?ob = CHR 0x1F # CHR 0x8B # []" "ob_size ?ob \<le> de_size_limits (sample_drive_env 100 id) (de_tier (sample_drive_env 100 id) 1)"
    by (simp_all add: sample_object_def sample_drive_env_def)
  from tar_gz_refused [OF sample_upload_up(1) sample_session_fields(2) _ _ _ _ _ this, of "''a''" "sample_drive [] [] (\<lambda>_. Some ?ob)"]
  show ?thesis by auto
qed

end
