(* ===== verification/Conversion_Service.thy ===== *)
theory Conversion_Service
  imports Job_Store Job_Queue
begin

text \<open>
  \<open>services/conversions/service.py\<close>: every method of \<open>ConversionService\<close> over the table of jobs and the queue. Each
  statement on the table is numbered by the ticks of the state: \<open>cv_rival\<close> is what other sessions, the
  workers among them, have committed before it, \<open>cv_commit\<close> whether it commits. The registry of converters is
  the set \<open>cv_supported\<close>.
\<close>

section \<open>The conversion service\<close>

record conversion_state =
  cv_jobs :: "job_row list"
  cv_redis :: redis
  cv_ticks :: nat

record conversion_env =
  cv_uuid :: "nat \<Rightarrow> string"
  cv_clock :: "nat \<Rightarrow> int"
  cv_supported :: "conversion_type set"
  cv_commit :: "nat \<Rightarrow> commit_fate"
  cv_rival :: "nat \<Rightarrow> job_row list \<Rightarrow> job_row list"
  cv_redis_fate :: "nat \<Rightarrow> commit_fate"
  cv_prefix :: string
  cv_dispatcher :: bool

type_synonym 'a conversion_op = "conversion_state \<Rightarrow> 'a result \<times> conversion_state"

definition conversion_tick :: "(nat \<Rightarrow> 'a) \<Rightarrow> 'a conversion_op" where
  "conversion_tick f s = (Inr (f (cv_ticks s)), s\<lparr>cv_ticks := Suc (cv_ticks s)\<rparr>)"

definition jobs_read :: "conversion_env \<Rightarrow> (job_row list \<Rightarrow> 'a result) \<Rightarrow> 'a conversion_op" where
  "jobs_read env f s = (let t = cv_rival env (cv_ticks s) (cv_jobs s) in
     (f t, s\<lparr>cv_jobs := t, cv_ticks := Suc (cv_ticks s)\<rparr>))"

definition jobs_write :: "conversion_env \<Rightarrow> (job_row list \<Rightarrow> ('a \<times> job_row list) result) \<Rightarrow> 'a conversion_op" where
  "jobs_write env f s = (let t = cv_rival env (cv_ticks s) (cv_jobs s); s' = s\<lparr>cv_jobs := t, cv_ticks := Suc (cv_ticks s)\<rparr> in
     case f t of
       Inl e \<Rightarrow> (Inl e, s')
     | Inr (a, t') \<Rightarrow> (case cv_commit env (cv_ticks s) of
         Commit_ok \<Rightarrow> (Inr a, s'\<lparr>cv_jobs := t'\<rparr>)
       | Commit_lost e \<Rightarrow> (Inl e, s')
       | Commit_reply_lost e \<Rightarrow> (Inl e, s'\<lparr>cv_jobs := t'\<rparr>)))"

definition update_job :: "conversion_env \<Rightarrow> conversion_job \<Rightarrow> unit conversion_op" where
  "update_job env j s = jobs_write env (\<lambda>t. Inr ((), update_conversion_job (cv_clock env (cv_ticks s)) j t)) s"

definition save_job :: "conversion_env \<Rightarrow> conversion_job \<Rightarrow> unit conversion_op" where
  "save_job env j s = jobs_write env (\<lambda>t. rbind (save_conversion_job (cv_clock env (cv_ticks s)) j t) (\<lambda>t'. Inr ((), t'))) s"

definition enqueue :: "conversion_env \<Rightarrow> conversion_job \<Rightarrow> subscription_tier \<Rightarrow> nat conversion_op" where
  "enqueue env j tier s =
     (let (r, redis') = (if cv_dispatcher env then dispatch (cv_redis_fate env) (cv_prefix env) j tier (cv_redis s)
                         else publish_job (cv_redis_fate env) (cv_prefix env) j None (cv_redis s))
      in (r, s\<lparr>cv_redis := redis'\<rparr>))"

text \<open>The methods that mutate the entity return it.\<close>

definition create_conversion_job :: "conversion_env \<Rightarrow> conversion_job \<Rightarrow> conversion_job conversion_op" where
  "create_conversion_job env job =
     sbind (sreturn (is_supported (job_conversion job) (cv_supported env))) (\<lambda>_.
     sbind (conversion_tick (cv_uuid env)) (\<lambda>new_id.
     let job = job\<lparr>job_id := new_id\<rparr> in
     sbind (save_job env job) (\<lambda>_. sreturn (Inr job))))"

definition push_conversion_job :: "conversion_env \<Rightarrow> conversion_job \<Rightarrow> subscription_tier \<Rightarrow> conversion_job conversion_op" where
  "push_conversion_job env job tier =
     (if job_id job = [] then raise_op (InvalidConversionJobError ''Job ID must be set before pushing the job to the queue.'')
      else sbind (sreturn (is_supported (job_conversion job) (cv_supported env))) (\<lambda>_.
        sbind (if job_status job = Job_AWAITING_UPLOAD
               then sbind (sreturn (pending_processing job)) (\<lambda>job'. sbind (update_job env job') (\<lambda>_. sreturn (Inr job')))
               else sreturn (Inr job)) (\<lambda>job'.
        sbind (enqueue env job' tier) (\<lambda>_. sreturn (Inr job')))))"

definition convert_library_file :: "conversion_env \<Rightarrow> string \<Rightarrow> string \<Rightarrow> string \<Rightarrow> string \<Rightarrow> int \<Rightarrow> subscription_tier \<Rightarrow> job_origin \<Rightarrow>
    conversion_job conversion_op" where
  "convert_library_file env file_name source_format target_format object_key user_id tier origin =
     sbind (create_conversion_job env ((new_job [] \<lparr>ct_source_format = source_format, ct_target_format = target_format\<rparr> file_name)
       \<lparr>job_object_key := object_key, job_user_id := Some user_id, job_origin := origin\<rparr>)) (\<lambda>job.
     push_conversion_job env job tier)"

definition get_job :: "conversion_env \<Rightarrow> string \<Rightarrow> conversion_job option conversion_op" where
  "get_job env i = jobs_read env (get_conversion_job i)"

definition list_history :: "conversion_env \<Rightarrow> int \<Rightarrow> nat \<Rightarrow> nat \<Rightarrow> int option \<Rightarrow> job_origin option \<Rightarrow>
    (conversion_job list \<times> nat) conversion_op" where
  "list_history env user_id offset limit since origin = jobs_read env (\<lambda>t. Inr (list_user_history user_id offset limit since origin t))"

definition find_jobs :: "conversion_env \<Rightarrow> int \<Rightarrow> string option \<Rightarrow> string option \<Rightarrow> nat \<Rightarrow> conversion_job list conversion_op" where
  "find_jobs env user_id query fmt limit = jobs_read env (\<lambda>t. Inr (search_jobs user_id query fmt limit t))"

definition delete_history_job :: "conversion_env \<Rightarrow> string \<Rightarrow> int \<Rightarrow> bool conversion_op" where
  "delete_history_job env i user_id = jobs_write env (\<lambda>t. Inr (delete_job i user_id t))"

definition preview_history_delete :: "conversion_env \<Rightarrow> int \<Rightarrow> int option \<Rightarrow> (nat \<times> nat) conversion_op" where
  "preview_history_delete env user_id since = jobs_read env (\<lambda>t. Inr (count_deletable_history user_id since t))"

definition delete_history :: "conversion_env \<Rightarrow> int \<Rightarrow> int option \<Rightarrow> (nat \<times> nat) conversion_op" where
  "delete_history env user_id since = jobs_write env (\<lambda>t. Inr (delete_history_range user_id since t))"

definition retry_conversion_job :: "conversion_env \<Rightarrow> string \<Rightarrow> int option \<Rightarrow> subscription_tier \<Rightarrow> conversion_job conversion_op" where
  "retry_conversion_job env i user_id tier =
     sbind (get_job env i) (\<lambda>found.
     if \<not> is_job_owner found user_id then raise_op (InvalidConversionJobError ''Job not found'')
     else sbind (sreturn (retry (the found))) (\<lambda>job.
       sbind (update_job env job) (\<lambda>_.
       sbind (enqueue env job tier) (\<lambda>_. sreturn (Inr job)))))"

definition list_batch :: "conversion_env \<Rightarrow> string \<Rightarrow> int \<Rightarrow> conversion_job list conversion_op" where
  "list_batch env batch_id user_id = jobs_read env (\<lambda>t. Inr (list_by_batch batch_id user_id t))"

subsection \<open>Batches\<close>

record batch_item_request =
  bi_file_id :: string
  bi_file_name :: string
  bi_object_key :: string
  bi_source_format :: string
  bi_target_format :: string

record batch_item_outcome =
  bo_file_id :: string
  bo_file_name :: string
  bo_job :: "conversion_job option"
  bo_error :: "string option"

record batch_outcome =
  bt_batch_id :: string
  bt_outcomes :: "batch_item_outcome list"
  bt_created_count :: nat
  bt_failed_count :: nat
  bt_workflow_id :: "string option"

definition item_ok :: "batch_item_outcome \<Rightarrow> bool" where
  "item_ok o' = (bo_job o' \<noteq> None)"

definition batch_status :: "batch_outcome \<Rightarrow> string" where
  "batch_status b = (if bt_failed_count b = 0 then ''success'' else if bt_created_count b = 0 then ''failed'' else ''partial'')"

definition create_batch_item :: "conversion_env \<Rightarrow> int \<Rightarrow> subscription_tier \<Rightarrow> string \<Rightarrow> string option \<Rightarrow> job_origin \<Rightarrow> batch_item_request \<Rightarrow>
    batch_item_outcome conversion_op" where
  "create_batch_item env user_id tier batch_id workflow_id origin item s =
     (case convert_library_file env (bi_file_name item) (bi_source_format item) (bi_target_format item) (bi_object_key item) user_id tier origin s of
        (Inl e, s') \<Rightarrow>
          (Inr \<lparr>bo_file_id = bi_file_id item, bo_file_name = bi_file_name item, bo_job = None,
            bo_error = Some (case e of InvalidConversion m \<Rightarrow> m | InvalidConversionJobError m \<Rightarrow> m
              | _ \<Rightarrow> ''Could not start this conversion. Please try again.'')\<rparr>, s')
      | (Inr job, s') \<Rightarrow>
          (let job = job\<lparr>job_batch_id := Some batch_id, job_workflow_id := workflow_id\<rparr> in
           sbind (update_job env job) (\<lambda>_. sreturn (Inr \<lparr>bo_file_id = bi_file_id item, bo_file_name = bi_file_name item,
             bo_job = Some job, bo_error = None\<rparr>)) s'))"

fun create_batch_items :: "conversion_env \<Rightarrow> int \<Rightarrow> subscription_tier \<Rightarrow> string \<Rightarrow> string option \<Rightarrow> job_origin \<Rightarrow> batch_item_request list \<Rightarrow>
    batch_item_outcome list conversion_op" where
  "create_batch_items env user_id tier batch_id workflow_id origin [] s = (Inr [], s)"
| "create_batch_items env user_id tier batch_id workflow_id origin (item # rest) s =
     sbind (create_batch_item env user_id tier batch_id workflow_id origin item) (\<lambda>out.
     sbind (create_batch_items env user_id tier batch_id workflow_id origin rest) (\<lambda>outs. sreturn (Inr (out # outs)))) s"

definition create_batch :: "conversion_env \<Rightarrow> batch_item_request list \<Rightarrow> int \<Rightarrow> subscription_tier \<Rightarrow> string option \<Rightarrow> string option \<Rightarrow> job_origin \<Rightarrow>
    batch_outcome conversion_op" where
  "create_batch env items user_id tier batch_id workflow_id origin =
     sbind (if batch_id = None \<or> batch_id = Some [] then conversion_tick (cv_uuid env) else sreturn (Inr (the batch_id))) (\<lambda>effective_batch_id.
     sbind (create_batch_items env user_id tier effective_batch_id workflow_id origin items) (\<lambda>outcomes.
     let created = filter item_ok outcomes in
     sreturn (Inr \<lparr>bt_batch_id = effective_batch_id, bt_outcomes = outcomes, bt_created_count = length created,
       bt_failed_count = length outcomes - length created, bt_workflow_id = workflow_id\<rparr>)))"

section \<open>What the service guarantees\<close>

subsection \<open>Frames\<close>

definition quiet :: "conversion_env \<Rightarrow> bool" where
  "quiet env = (\<forall>n t. cv_rival env n t = t)"

text \<open>Rows that are there stay as they are.\<close>

definition rows_stay :: "conversion_state \<Rightarrow> conversion_state \<Rightarrow> bool" where
  "rows_stay s t = (jobs_ok (cv_jobs s) \<longrightarrow> jobs_ok (cv_jobs t) \<and>
     (\<forall>i r. job_row_at i (cv_jobs s) = Some r \<longrightarrow> job_row_at i (cv_jobs t) = Some r))"

interpretation rows: state_frame rows_stay
  by unfold_locales (auto simp: rows_stay_def)

lemma job_row_at_absent: "i \<notin> jr_job_id ` set t \<Longrightarrow> job_row_at i t = None"
proof (cases "job_row_at i t")
  case (Some r)
  then have "r \<in> set t \<and> jr_job_id r = i" by (auto simp: job_row_at_def dest: sql_first_Some)
  then show "i \<notin> jr_job_id ` set t \<Longrightarrow> job_row_at i t = None" by blast
qed

lemma save_job_cases:
  assumes "quiet env"
  obtains e where "save_job env j s = (Inl e, s\<lparr>cv_ticks := Suc (cv_ticks s)\<rparr>)"
  | r t where "save_job env j s = (r, s\<lparr>cv_jobs := t, cv_ticks := Suc (cv_ticks s)\<rparr>)"
      "save_conversion_job (cv_clock env (cv_ticks s)) j (cv_jobs s) = Inr t"
  using assms
  by (cases "save_conversion_job (cv_clock env (cv_ticks s)) j (cv_jobs s)"; cases "cv_commit env (cv_ticks s)")
     (auto simp: save_job_def jobs_write_def quiet_def Let_def)

lemma rows_stay_save: "quiet env \<Longrightarrow> rows_stay s (snd (save_job env j s))"
proof (erule save_job_cases [of env j s])
  fix r t assume e: "save_job env j s = (r, s\<lparr>cv_jobs := t, cv_ticks := Suc (cv_ticks s)\<rparr>)"
    and s: "save_conversion_job (cv_clock env (cv_ticks s)) j (cv_jobs s) = Inr t"
  have "job_id j \<notin> jr_job_id ` set (cv_jobs s)" using s by (auto simp: save_conversion_job_def split: if_splits)
  then have "job_row_at (job_id j) (cv_jobs s) = None"
    by (rule job_row_at_absent)
  then show ?thesis using e jobs_ok_save [OF _ s] job_row_at_save [OF s] by (auto simp: rows_stay_def)
qed (simp add: rows_stay_def)

text \<open>A write of one entity, on a table in which its row is not there at the start.\<close>

definition others_stay :: "string \<Rightarrow> conversion_state \<Rightarrow> conversion_state \<Rightarrow> bool" where
  "others_stay i s t = ((jobs_ok (cv_jobs s) \<longrightarrow> jobs_ok (cv_jobs t)) \<and>
     (\<forall>i' \<noteq> i. job_row_at i' (cv_jobs t) = job_row_at i' (cv_jobs s)))"

interpretation others: state_frame "others_stay i" for i
  by unfold_locales (auto simp: others_stay_def)

lemma others_stay_update: "quiet env \<Longrightarrow> others_stay (job_id j) s (snd (update_job env j s))"
  by (cases "cv_commit env (cv_ticks s)")
     (auto simp: update_job_def jobs_write_def quiet_def Let_def others_stay_def jobs_ok_update job_row_at_update option.map_ident)

lemma others_stay_enqueue: "others_stay i s (snd (enqueue env j tier s))"
  by (simp add: enqueue_def others_stay_def split: prod.split)

lemma update_job_result:
  assumes "update_job env j s = (Inr x, t)"
  shows "cv_jobs t = update_conversion_job (cv_clock env (cv_ticks s)) j (cv_rival env (cv_ticks s) (cv_jobs s))"
    "cv_redis t = cv_redis s" "cv_ticks t = Suc (cv_ticks s)"
  using assms by (auto simp: update_job_def jobs_write_def Let_def split: commit_fate.splits)

lemma others_stay_push:
  assumes "quiet env"
  shows "others_stay (job_id j) s (snd (push_conversion_job env j tier s))"
proof -
  have p: "job_id j' = job_id j" if "pending_processing j = Inr j'" for j' using that by (auto simp: pending_processing_def split: if_splits)
  show ?thesis unfolding push_conversion_job_def
  proof (rule others.if_frame, goal_cases)
    case 2
    show ?case
    proof (intro others.sbind_frame_dep others.if_frame others.sreturn_frame others_stay_enqueue, goal_cases)
      case (1 a t b u)
      then have "pending_processing j = Inr b" by (simp add: sreturn_def)
      from p [OF this] show ?case using others_stay_update [OF assms, of b u] by simp
    qed
  qed (rule others.raise_frame)
qed

lemma create_result:
  assumes "quiet env" "create_conversion_job env j0 s = (Inr j, t)"
  shows "j = j0\<lparr>job_id := cv_uuid env (cv_ticks s)\<rparr>" "is_supported (job_conversion j0) (cv_supported env) = Inr ()"
    "job_row_at (job_id j) (cv_jobs s) = None" "others_stay (job_id j) s t"
    "\<exists>c. job_row_at (job_id j) (cv_jobs t) = Some (job_row_of c j)" "cv_redis t = cv_redis s"
    "cv_ticks t = Suc (Suc (cv_ticks s))"
proof -
  let ?s = "s\<lparr>cv_ticks := Suc (cv_ticks s)\<rparr>" and ?j = "j0\<lparr>job_id := cv_uuid env (cv_ticks s)\<rparr>"
  show sup: "is_supported (job_conversion j0) (cv_supported env) = Inr ()"
    using assms(2) by (cases "is_supported (job_conversion j0) (cv_supported env)") (auto simp: create_conversion_job_def sbind_def sreturn_def)
  obtain r u where sv: "save_job env ?j ?s = (r, u)" by fastforce
  have r: "r = Inr ()" "j = ?j" "t = u"
    using assms(2) sup sv by (auto simp: create_conversion_job_def sbind_def sreturn_def conversion_tick_def Let_def split: sum.splits)
  show "j = ?j" by fact
  from sv r have "save_job env j ?s = (Inr (), t)" by simp
  then obtain tab where tab: "t = ?s\<lparr>cv_jobs := tab, cv_ticks := Suc (Suc (cv_ticks s))\<rparr>" "save_conversion_job (cv_clock env (Suc (cv_ticks s))) j (cv_jobs s) = Inr tab"
    using assms(1) by (auto simp: save_job_def jobs_write_def Let_def quiet_def rbind_Inr_iff split: sum.splits commit_fate.splits)
  then show "cv_redis t = cv_redis s" "cv_ticks t = Suc (Suc (cv_ticks s))" by simp_all
  have new: "job_id j \<notin> jr_job_id ` set (cv_jobs s)" using tab(2) by (auto simp: save_conversion_job_def split: if_splits)
  then show "job_row_at (job_id j) (cv_jobs s) = None"
    by (rule job_row_at_absent)
  show "others_stay (job_id j) s t" "\<exists>c. job_row_at (job_id j) (cv_jobs t) = Some (job_row_of c j)"
    using tab(1) jobs_ok_save [OF _ tab(2)] job_row_at_save [OF tab(2)] by (auto simp: others_stay_def)
qed

lemma push_awaiting:
  assumes "job_id j \<noteq> []" "is_supported (job_conversion j) (cv_supported env) = Inr ()" "job_status j = Job_AWAITING_UPLOAD"
    and "j' = j\<lparr>job_status := Job_PENDING\<rparr>"
  shows "push_conversion_job env j tier s = sbind (update_job env j') (\<lambda>_. sbind (enqueue env j' tier) (\<lambda>_. sreturn (Inr j'))) s"
proof -
  have "pending_processing j = Inr j'" using assms(3,4) by (simp add: pending_processing_def)
  then show ?thesis using assms by (simp add: push_conversion_job_def sbind_def sreturn_def split: sum.split prod.split)
qed

lemma push_result:
  assumes "push_conversion_job env j tier s = (Inr j', t)" "job_status j = Job_AWAITING_UPLOAD"
  shows "j' = j\<lparr>job_status := Job_PENDING\<rparr>"
    "\<exists>v n c. enqueue env j' tier v = (Inr n, t) \<and> cv_jobs v = update_conversion_job c j' (cv_rival env (cv_ticks s) (cv_jobs s))
      \<and> cv_redis v = cv_redis s \<and> cv_ticks v = Suc (cv_ticks s)"
proof -
  let ?j = "j\<lparr>job_status := Job_PENDING\<rparr>"
  have ok: "job_id j \<noteq> []" "is_supported (job_conversion j) (cv_supported env) = Inr ()"
    using assms(1) by (auto simp: push_conversion_job_def raise_op_def sbind_def sreturn_def split: if_splits sum.splits)
  obtain r v where u: "update_job env ?j s = (r, v)" by fastforce
  have "push_conversion_job env j tier s = sbind (update_job env ?j) (\<lambda>_. sbind (enqueue env ?j tier) (\<lambda>_. sreturn (Inr ?j))) s"
    using push_awaiting [OF ok assms(2) refl] .
  then have e: "r = Inr ()" "\<exists>n. enqueue env ?j tier v = (Inr n, t)" "j' = ?j"
    using assms(1) u by (auto simp: sbind_def sreturn_def split: sum.splits prod.splits)
  show "j' = ?j" by (rule e(3))
  show "\<exists>v n c. enqueue env j' tier v = (Inr n, t) \<and> cv_jobs v = update_conversion_job c j' (cv_rival env (cv_ticks s) (cv_jobs s))
      \<and> cv_redis v = cv_redis s \<and> cv_ticks v = Suc (cv_ticks s)"
    using e update_job_result [OF u [unfolded e(1)]] by blast
qed

definition tier_stream :: "conversion_env \<Rightarrow> subscription_tier \<Rightarrow> string" where
  "tier_stream env tier = (if cv_dispatcher env then
     (if stream_for_tier (cv_prefix env) tier = [] then qualify (cv_prefix env) JOB_STREAM else stream_for_tier (cv_prefix env) tier)
     else qualify (cv_prefix env) JOB_STREAM)"

lemma enqueue_result:
  assumes "enqueue env j tier s = (Inr n, t)"
  shows "cv_jobs t = cv_jobs s" "cv_ticks t = cv_ticks s"
    "\<exists>m. from_conversion_job j = Inr m \<and> rs_entries (rd_streams (cv_redis t) (tier_stream env tier))
       = rs_entries (rd_streams (cv_redis s) (tier_stream env tier)) @ [(n, message_to_dict m)]"
  using assms
  by (auto simp: enqueue_def dispatch_def publish_job_def redis_call_def xadd_def put_stream_def stream_add_def tier_stream_def Let_def
      split: if_splits sum.splits commit_fate.splits prod.splits)

lemma convert_result:
  assumes "quiet env" "convert_library_file env nm src tgt key u tier orig s = (Inr j, t)"
  shows "job_row_at (job_id j) (cv_jobs s) = None" "others_stay (job_id j) s t" "job_status j = Job_PENDING"
    "job_user_id j = Some u" "job_object_key j = key" "job_input_file j = nm" "job_data_key_wrapped j = None"
    "\<exists>c c' j0. job_row_at (job_id j) (cv_jobs t) = Some (set_job_columns c' j (job_row_of c j0)) \<and> j = j0\<lparr>job_status := Job_PENDING\<rparr>"
    "\<exists>m n. from_conversion_job j = Inr m \<and> rs_entries (rd_streams (cv_redis t) (tier_stream env tier))
       = rs_entries (rd_streams (cv_redis s) (tier_stream env tier)) @ [(n, message_to_dict m)]"
    "j = (new_job (job_id j) \<lparr>ct_source_format = src, ct_target_format = tgt\<rparr> nm)
       \<lparr>job_object_key := key, job_user_id := Some u, job_origin := orig, job_status := Job_PENDING\<rparr>"
proof -
  let ?j0 = "(new_job [] \<lparr>ct_source_format = src, ct_target_format = tgt\<rparr> nm)\<lparr>job_object_key := key, job_user_id := Some u, job_origin := orig\<rparr>"
  from assms(2) obtain j1 v where c: "create_conversion_job env ?j0 s = (Inr j1, v)" and p: "push_conversion_job env j1 tier v = (Inr j, t)"
    unfolding convert_library_file_def by (auto elim!: sbind_cases)
  note c' = create_result [OF assms(1) c]
  have await: "job_status j1 = Job_AWAITING_UPLOAD" unfolding c'(1) by (simp add: new_job_def)
  note p' = push_result [OF p await]
  have i: "job_id j = job_id j1" unfolding p'(1) by simp
  from p'(2) assms(1) obtain w n k where w: "enqueue env j tier w = (Inr n, t)" "cv_jobs w = update_conversion_job k j (cv_jobs v)" "cv_redis w = cv_redis v"
    by (auto simp: quiet_def)
  note e = enqueue_result [OF w(1)]
  show "job_row_at (job_id j) (cv_jobs s) = None" using c'(3) i by simp
  show "others_stay (job_id j) s t"
    using c'(4) others_stay_push [OF assms(1), of j1 v tier] p i by (auto intro: others.trans)
  show "job_status j = Job_PENDING" "job_user_id j = Some u" "job_object_key j = key" "job_input_file j = nm" "job_data_key_wrapped j = None"
    unfolding p'(1) c'(1) by (simp_all add: new_job_def)
  from c'(5) obtain c where "job_row_at (job_id j) (cv_jobs v) = Some (job_row_of c j1)" unfolding i by blast
  then show "\<exists>c c' j0. job_row_at (job_id j) (cv_jobs t) = Some (set_job_columns c' j (job_row_of c j0)) \<and> j = j0\<lparr>job_status := Job_PENDING\<rparr>"
    using e(1) w(2) p'(1) by (auto simp: job_row_at_update)
  show "\<exists>m n. from_conversion_job j = Inr m \<and> rs_entries (rd_streams (cv_redis t) (tier_stream env tier))
       = rs_entries (rd_streams (cv_redis s) (tier_stream env tier)) @ [(n, message_to_dict m)]"
    using e(3) w(3) c'(6) by auto
  show "j = (new_job (job_id j) \<lparr>ct_source_format = src, ct_target_format = tgt\<rparr> nm)
       \<lparr>job_object_key := key, job_user_id := Some u, job_origin := orig, job_status := Job_PENDING\<rparr>"
    unfolding p'(1) c'(1) by (simp add: new_job_def)
qed

lemma rows_stay_fresh: "job_row_at i (cv_jobs s) = None \<Longrightarrow> others_stay i s t \<Longrightarrow> rows_stay s t"
  unfolding rows_stay_def others_stay_def by (metis option.distinct(1))

lemma rows_stay_convert:
  assumes "quiet env"
  shows "rows_stay s (snd (convert_library_file env nm src tgt key u tier orig s))"
  unfolding convert_library_file_def
proof (cases "create_conversion_job env ((new_job [] \<lparr>ct_source_format = src, ct_target_format = tgt\<rparr> nm)
    \<lparr>job_object_key := key, job_user_id := Some u, job_origin := orig\<rparr>) s")
  case (Pair r v)
  let ?j0 = "(new_job [] \<lparr>ct_source_format = src, ct_target_format = tgt\<rparr> nm)\<lparr>job_object_key := key, job_user_id := Some u, job_origin := orig\<rparr>"
  have c: "rows_stay s (snd (create_conversion_job env ?j0 s))"
    unfolding create_conversion_job_def Let_def
    by (intro rows.sbind_frame rows.sreturn_frame rows_stay_save assms) (simp add: conversion_tick_def rows_stay_def)
  show "rows_stay s (snd (sbind (create_conversion_job env ?j0) (\<lambda>job. push_conversion_job env job tier) s))"
  proof (cases r)
    case (Inl e)
    then show ?thesis using Pair c by (simp add: sbind_def)
  next
    case (Inr j)
    note c' = create_result [OF assms Pair [unfolded Inr]]
    have "others_stay (job_id j) s (snd (push_conversion_job env j tier v))"
      using others.trans [OF c'(4) others_stay_push [OF assms]] .
    then show ?thesis using Pair Inr rows_stay_fresh [OF c'(3)] by (simp add: sbind_def)
  qed
qed

subsection \<open>Batches\<close>

definition stamped :: "string \<Rightarrow> int \<Rightarrow> string option \<Rightarrow> conversion_state \<Rightarrow> batch_item_outcome \<Rightarrow> bool" where
  "stamped b u w t out = (case bo_job out of None \<Rightarrow> bo_error out \<noteq> None
     | Some j \<Rightarrow> \<exists>r. job_row_at (job_id j) (cv_jobs t) = Some r \<and> jr_batch_id r = Some b \<and> jr_user_id r = Some u
         \<and> jr_workflow_id r = w \<and> jr_status r = Job_PENDING)"

lemma batch_item_result:
  assumes "quiet env" "create_batch_item env u tier b w orig item s = (Inr out, t)"
  shows "rows_stay s t \<and> bo_file_id out = bi_file_id item \<and> stamped b u w t out"
proof -
  let ?conv = "convert_library_file env (bi_file_name item) (bi_source_format item) (bi_target_format item) (bi_object_key item) u tier orig"
  obtain r v where c: "?conv s = (r, v)" by fastforce
  show ?thesis
  proof (cases r)
    case (Inl e)
    have "rows_stay s v" using rows_stay_convert [OF assms(1)] c by (metis snd_conv)
    then show ?thesis using assms(2) c Inl by (auto simp: create_batch_item_def stamped_def)
  next
    case (Inr j)
    let ?j = "j\<lparr>job_batch_id := Some b, job_workflow_id := w\<rparr>"
    note c' = convert_result [OF assms(1) c [unfolded Inr]]
    obtain r' x where u: "update_job env ?j v = (r', x)" by fastforce
    have out: "r' = Inr ()" "t = x" "out = \<lparr>bo_file_id = bi_file_id item, bo_file_name = bi_file_name item, bo_job = Some ?j, bo_error = None\<rparr>"
      using assms(2) c Inr u by (auto simp: create_batch_item_def sbind_def sreturn_def Let_def split: sum.splits)
    have tab: "cv_jobs t = update_conversion_job (cv_clock env (cv_ticks v)) ?j (cv_jobs v)"
      using update_job_result [OF u [unfolded out(1)]] out(2) assms(1) by (simp add: quiet_def)
    have "others_stay (job_id j) s t"
      using others.trans [OF c'(2), of t] others_stay_update [OF assms(1), of ?j v] u out(2) by simp
    then have "rows_stay s t" by (rule rows_stay_fresh [OF c'(1)])
    moreover obtain c1 c2 j0 where "job_row_at (job_id j) (cv_jobs v) = Some (set_job_columns c2 j (job_row_of c1 j0))" "j = j0\<lparr>job_status := Job_PENDING\<rparr>"
      using c'(8) by blast
    ultimately show ?thesis using c'(3,4) out(3) tab by (auto simp: stamped_def job_row_at_update set_job_columns_def job_row_of_def)
  qed
qed

lemma stamped_stays: "stamped b u w s out \<Longrightarrow> rows_stay s t \<Longrightarrow> jobs_ok (cv_jobs s) \<Longrightarrow> stamped b u w t out"
  by (auto simp: stamped_def rows_stay_def split: option.splits)

lemma batch_items_result:
  assumes "quiet env" "create_batch_items env u tier b w orig items s = (Inr outs, t)" "jobs_ok (cv_jobs s)"
  shows "rows_stay s t \<and> map bo_file_id outs = map bi_file_id items \<and> list_all (stamped b u w t) outs"
  using assms(2,3)
proof (induction items arbitrary: s outs)
  case (Cons item items)
  from Cons.prems(1) obtain out v rest where i: "create_batch_item env u tier b w orig item s = (Inr out, v)"
    and r: "create_batch_items env u tier b w orig items v = (Inr rest, t)" "outs = out # rest"
    by (auto elim!: sbind_cases simp: sreturn_def)
  note out = batch_item_result [OF assms(1) i]
  then have ok: "jobs_ok (cv_jobs v)" using Cons.prems(2) by (simp add: rows_stay_def)
  note IH = Cons.IH [OF r(1) ok]
  have "stamped b u w t out" using stamped_stays [of b u w v out t] out IH ok by blast
  then show ?case using out IH r(2) rows.trans [of s v t] by simp
qed (simp add: rows.refl)

text \<open>a batch accounts for every file it was given, in order: each is either reported with an error or has a
  job, owned by the user and listed under the batch. The counts add up, and no job that was there before
  is touched.\<close>

theorem batch_accounts_for_every_item:
  assumes "quiet env" "jobs_ok (cv_jobs s)" "create_batch env items u tier b w orig s = (Inr out, t)"
  shows "map bo_file_id (bt_outcomes out) = map bi_file_id items \<and> bt_created_count out + bt_failed_count out = length items
    \<and> (\<forall>o' \<in> set (bt_outcomes out). case bo_job o' of None \<Rightarrow> bo_error o' \<noteq> None
        | Some j \<Rightarrow> job_id j \<in> job_id ` set (list_by_batch (bt_batch_id out) u (cv_jobs t)))
    \<and> (\<forall>i r. job_row_at i (cv_jobs s) = Some r \<longrightarrow> job_row_at i (cv_jobs t) = Some r)"
proof -
  from assms(3) [unfolded create_batch_def] obtain i v
    where i: "(if b = None \<or> b = Some [] then conversion_tick (cv_uuid env) else sreturn (Inr (the b))) s = (Inr i, v)"
      and rest: "sbind (create_batch_items env u tier i w orig items) (\<lambda>outcomes. let created = filter item_ok outcomes in
        sreturn (Inr \<lparr>bt_batch_id = i, bt_outcomes = outcomes, bt_created_count = length created,
          bt_failed_count = length outcomes - length created, bt_workflow_id = w\<rparr>)) v = (Inr out, t)"
    by (rule sbind_cases) auto
  from rest obtain outs where items: "create_batch_items env u tier i w orig items v = (Inr outs, t)"
    and out: "out = \<lparr>bt_batch_id = i, bt_outcomes = outs, bt_created_count = length (filter item_ok outs),
       bt_failed_count = length outs - length (filter item_ok outs), bt_workflow_id = w\<rparr>"
    by (rule sbind_cases) (auto simp: sreturn_def Let_def)
  have v: "v = s \<or> v = s\<lparr>cv_ticks := Suc (cv_ticks s)\<rparr>" using i by (auto simp: sreturn_def conversion_tick_def split: if_splits)
  have ok: "jobs_ok (cv_jobs v)" "cv_jobs v = cv_jobs s" using v assms(2) by auto
  note r = batch_items_result [OF assms(1) items ok(1)]
  have "length outs = length items" using r by (metis length_map)
  moreover have "job_id j \<in> job_id ` set (list_by_batch i u (cv_jobs t))" if mem: "o' \<in> set outs" and job: "bo_job o' = Some j" for o' j
  proof -
    have "stamped i u w t o'" using r mem by (simp add: list_all_iff)
    then obtain row where row: "job_row_at (job_id j) (cv_jobs t) = Some row" "jr_batch_id row = Some i" "jr_user_id row = Some u"
      using job by (auto simp: stamped_def)
    then have "row \<in> set (cv_jobs t)" "jr_job_id row = job_id j" by (auto simp: job_row_at_def dest: sql_first_Some)
    then have "to_entity row \<in> set (list_by_batch i u (cv_jobs t))" "job_id (to_entity row) = job_id j"
      using row(2,3) by (auto simp: list_by_batch_def sql_select_def) (simp add: to_entity_def)
    then show ?thesis by (metis imageI)
  qed
  moreover have "bo_error o' \<noteq> None" if "o' \<in> set outs" "bo_job o' = None" for o'
    using r that by (auto simp: list_all_iff stamped_def)
  moreover have "length (filter item_ok outs) \<le> length outs" by (rule length_filter_le)
  ultimately show ?thesis using r out ok by (auto simp: rows_stay_def split: option.split)
qed

subsection \<open>The job and the queue\<close>

text \<open>C31: a conversion that was started is stored before it is queued: the row reads back as the returned job, which is
  pending and has the formats, input file, object key, owner and origin that were asked for and defaults
  elsewhere; exactly one message was appended to the stream of the tier, and a worker that parses it
  gets that job, with an empty output file name, and can start it.\<close>

theorem started_conversion_stored_and_queued:
  assumes "quiet env" "jobs_ok (cv_jobs s)" "convert_library_file env nm src tgt key u tier orig s = (Inr j, t)"
  shows "j = (new_job (job_id j) \<lparr>ct_source_format = src, ct_target_format = tgt\<rparr> nm)
       \<lparr>job_object_key := key, job_user_id := Some u, job_origin := orig, job_status := Job_PENDING\<rparr>
    \<and> (\<exists>c m n. get_conversion_job (job_id j) (cv_jobs t) = Inr (Some (j\<lparr>job_created_at := Some c\<rparr>))
    \<and> rs_entries (rd_streams (cv_redis t) (tier_stream env tier)) = rs_entries (rd_streams (cv_redis s) (tier_stream env tier)) @ [(n, message_to_dict m)]
    \<and> parse_job (message_to_dict m) = Inr (j\<lparr>job_output_file := Some []\<rparr>)
    \<and> (\<exists>w'. start_processing (j\<lparr>job_output_file := Some []\<rparr>) = Inr w'))"
proof -
  note r = convert_result [OF assms(1,3)]
  obtain c c' j0 where row: "job_row_at (job_id j) (cv_jobs t) = Some (set_job_columns c' j (job_row_of c j0))" and j: "j = j0\<lparr>job_status := Job_PENDING\<rparr>"
    using r(8) by blast
  obtain m n where m: "from_conversion_job j = Inr m" "rs_entries (rd_streams (cv_redis t) (tier_stream env tier))
      = rs_entries (rd_streams (cv_redis s) (tier_stream env tier)) @ [(n, message_to_dict m)]" using r(9) by blast
  have ok: "jobs_ok (cv_jobs t)" using r(2) assms(2) by (simp add: others_stay_def)
  have e: "to_entity (set_job_columns c' j (job_row_of c j0)) = j\<lparr>job_created_at := Some c\<rparr>"
    using j by (simp add: to_entity_def set_job_columns_def job_row_of_def coerce_origin_value)
  have "get_conversion_job (job_id j) (cv_jobs t) = Inr (Some (j\<lparr>job_created_at := Some c\<rparr>))"
    using get_job_ok [OF ok] row e by simp
  moreover have "job_object_key j \<noteq> []" "job_data_key_wrapped j \<noteq> Some []"
    using m(1) r(7) by (auto simp: from_conversion_job_def split: if_splits)
  moreover have "parse_job (message_to_dict m) = Inr (j\<lparr>job_output_file := Some []\<rparr>)"
    unfolding parse_published [OF m(1) calculation(3)] by (subst (1 2) r(10)) (simp add: new_job_def)
  ultimately show ?thesis using m(2) r(3,10) by (auto simp: start_processing_def)
qed

definition sample_conversion_env :: "(nat \<Rightarrow> job_row list \<Rightarrow> job_row list) \<Rightarrow> (nat \<Rightarrow> commit_fate) \<Rightarrow> conversion_env" where
  "sample_conversion_env rival fate = \<lparr>cv_uuid = (\<lambda>n. if n = 0 then ''j1'' else ''j2''), cv_clock = int,
     cv_supported = {\<lparr>ct_source_format = ''pdf'', ct_target_format = ''txt''\<rparr>}, cv_commit = (\<lambda>_. Commit_ok), cv_rival = rival,
     cv_redis_fate = fate, cv_prefix = [], cv_dispatcher = False\<rparr>"

definition sample_conversion_state :: "job_row list \<Rightarrow> conversion_state" where
  "sample_conversion_state t = \<lparr>cv_jobs = t, cv_redis = \<lparr>rd_streams = (\<lambda>_. empty_stream), rd_tick = 0\<rparr>, cv_ticks = 0\<rparr>"

definition sample_item :: batch_item_request where
  "sample_item = \<lparr>bi_file_id = ''f'', bi_file_name = ''a.pdf'', bi_object_key = ''k'', bi_source_format = ''pdf'', bi_target_format = ''txt''\<rparr>"

lemma conversion_quiet: "quiet (sample_conversion_env (\<lambda>_ t. t) fate)"
  by (simp add: quiet_def sample_conversion_env_def)

text \<open>The conversion of the sample file, while the worker of \<open>rival\<close> does nothing before the third statement.\<close>

lemma sample_conversion:
  assumes "\<And>n t. n < 3 \<Longrightarrow> rival n t = t"
  shows "\<exists>j v. convert_library_file (sample_conversion_env rival (\<lambda>_. Commit_ok)) ''a.pdf'' ''pdf'' ''txt'' ''k'' 7 Tier_FREE Origin_WEB
      (sample_conversion_state []) = (Inr j, v) \<and> job_id j = ''j1'' \<and> job_status j = Job_PENDING \<and> job_output_file j = None \<and> job_credits_used j = 0
    \<and> cv_ticks v = 3 \<and> job_row_at ''j1'' (cv_jobs v) \<noteq> None"
  using assms
  by (simp add: sample_conversion_env_def sample_conversion_state_def convert_library_file_def create_conversion_job_def push_conversion_job_def
    sbind_def sreturn_def is_supported_def new_job_def conversion_tick_def save_job_def update_job_def jobs_write_def save_conversion_job_def
    pending_processing_def enqueue_def publish_job_def redis_call_def from_conversion_job_def xadd_def numeral_2_eq_2 numeral_3_eq_3
    update_conversion_job_def job_row_at_def sql_update_def sql_select_def sql_first_def job_row_of_def set_job_columns_def Let_def)

theorem started_conversion_stored_and_queued_witness:
  "\<exists>j t c. convert_library_file (sample_conversion_env (\<lambda>_ t. t) (\<lambda>_. Commit_ok)) ''a.pdf'' ''pdf'' ''txt'' ''k'' 7 Tier_FREE Origin_WEB
      (sample_conversion_state []) = (Inr j, t) \<and> get_conversion_job (job_id j) (cv_jobs t) = Inr (Some (j\<lparr>job_created_at := Some c\<rparr>))
      \<and> job_conversion j = \<lparr>ct_source_format = ''pdf'', ct_target_format = ''txt''\<rparr>"
proof -
  obtain j t where c: "convert_library_file (sample_conversion_env (\<lambda>_ t. t) (\<lambda>_. Commit_ok)) ''a.pdf'' ''pdf'' ''txt'' ''k'' 7 Tier_FREE Origin_WEB
      (sample_conversion_state []) = (Inr j, t)" using sample_conversion [of "\<lambda>_ t. t"] by auto
  have "jobs_ok (cv_jobs (sample_conversion_state []))" by (simp add: sample_conversion_state_def jobs_ok_def unique_key_def)
  from started_conversion_stored_and_queued [OF conversion_quiet this c]
  have j: "j = (new_job (job_id j) \<lparr>ct_source_format = ''pdf'', ct_target_format = ''txt''\<rparr> ''a.pdf'')
       \<lparr>job_object_key := ''k'', job_user_id := Some 7, job_origin := Origin_WEB, job_status := Job_PENDING\<rparr>"
    and st: "\<exists>x. get_conversion_job (job_id j) (cv_jobs t) = Inr (Some (j\<lparr>job_created_at := Some x\<rparr>))" by blast+
  have "job_conversion j = \<lparr>ct_source_format = ''pdf'', ct_target_format = ''txt''\<rparr>" by (subst j) (simp add: new_job_def)
  with st c show ?thesis by blast
qed

text \<open>the batch stamp is written after the job is queued, from the entity as it was queued. When a worker has
  finished the job by then, the stamp puts it back to pending, without its output and its cost, though nothing is
  queued for it any more.\<close>

theorem batch_stamp_undoes_result:
  assumes "convert_library_file env (bi_file_name item) (bi_source_format item) (bi_target_format item) (bi_object_key item) u tier orig s = (Inr j, v)"
    and "job_status j = Job_PENDING" "job_output_file j = None" "job_credits_used j = 0"
    and "job_row_at (job_id j) (cv_rival env (cv_ticks v) (cv_jobs v)) = Some r" "jr_status r = Job_COMPLETED"
    and "cv_commit env (cv_ticks v) = Commit_ok"
  shows "\<exists>out t r'. create_batch_item env u tier b w orig item s = (Inr out, t) \<and> item_ok out \<and> cv_redis t = cv_redis v
    \<and> job_row_at (job_id j) (cv_jobs t) = Some r' \<and> jr_status r' = Job_PENDING \<and> jr_output_file r' = None \<and> jr_credits_used r' = 0"
proof -
  let ?j = "j\<lparr>job_batch_id := Some b, job_workflow_id := w\<rparr>"
  let ?t = "v\<lparr>cv_jobs := update_conversion_job (cv_clock env (cv_ticks v)) ?j (cv_rival env (cv_ticks v) (cv_jobs v)), cv_ticks := Suc (cv_ticks v)\<rparr>"
  have u: "update_job env ?j v = (Inr (), ?t)" using assms(7) by (simp add: update_job_def jobs_write_def Let_def)
  have "create_batch_item env u tier b w orig item s = (Inr \<lparr>bo_file_id = bi_file_id item, bo_file_name = bi_file_name item, bo_job = Some ?j, bo_error = None\<rparr>, ?t)"
    using assms(1) u by (simp add: create_batch_item_def sbind_def sreturn_def Let_def)
  then show ?thesis using assms(2-5) by (simp add: item_ok_def job_row_at_update set_job_columns_def)
qed

theorem batch_stamp_undoes_result_witness:
  "\<exists>out t r'. create_batch_item (sample_conversion_env (\<lambda>n t. if n = 3 then map (\<lambda>r. r\<lparr>jr_status := Job_COMPLETED, jr_output_file := Some ''o''\<rparr>) t else t)
      (\<lambda>_. Commit_ok)) 7 Tier_FREE ''b'' None Origin_WEB sample_item (sample_conversion_state []) = (Inr out, t)
    \<and> job_row_at ''j1'' (cv_jobs t) = Some r' \<and> jr_status r' = Job_PENDING \<and> jr_output_file r' = None"
proof -
  let ?rival = "\<lambda>n t. if n = (3::nat) then map (\<lambda>r. r\<lparr>jr_status := Job_COMPLETED, jr_output_file := Some ''o''\<rparr>) t else t"
  let ?env = "sample_conversion_env ?rival (\<lambda>_. Commit_ok)"
  obtain j v where c: "convert_library_file ?env ''a.pdf'' ''pdf'' ''txt'' ''k'' 7 Tier_FREE Origin_WEB (sample_conversion_state []) = (Inr j, v)"
    and j: "job_id j = ''j1''" "job_status j = Job_PENDING" "job_output_file j = None" "job_credits_used j = 0" "cv_ticks v = 3" "job_row_at ''j1'' (cv_jobs v) \<noteq> None"
    using sample_conversion [of ?rival] by auto
  obtain r where "job_row_at ''j1'' (cv_jobs v) = Some r" using j(6) by blast
  then have "job_row_at (job_id j) (cv_rival ?env (cv_ticks v) (cv_jobs v)) = Some (r\<lparr>jr_status := Job_COMPLETED, jr_output_file := Some ''o''\<rparr>)"
    using j(1,5) by (simp add: sample_conversion_env_def job_row_at_def sql_select_def sql_first_def filter_map comp_def split: list.splits)
  from batch_stamp_undoes_result [OF _ j(2-4) this, of sample_item, where b = "''b''" and w = None] c j(1) show ?thesis
    by (fastforce simp: sample_item_def sample_conversion_env_def)
qed

text \<open>when the queue does not take a started job, the item is reported as failed, but its job stays in the
  table, pending and outside of the batch, with nothing queued for it.\<close>

theorem unqueued_item_leaves_pending_job:
  assumes "quiet env" "\<forall>n. cv_commit env n = Commit_ok" "cv_redis_fate env (rd_tick (cv_redis s)) = Commit_lost e"
    and "\<lparr>ct_source_format = bi_source_format item, ct_target_format = bi_target_format item\<rparr> \<in> cv_supported env"
    and "i = cv_uuid env (cv_ticks s)" "i \<noteq> []" "i \<notin> jr_job_id ` set (cv_jobs s)" "bi_object_key item \<noteq> []"
    and "\<forall>m. e \<noteq> InvalidConversion m \<and> e \<noteq> InvalidConversionJobError m"
  shows "\<exists>out t r. create_batch_item env u tier b w orig item s = (Inr out, t) \<and> bo_error out = Some ''Could not start this conversion. Please try again.''
    \<and> job_row_at i (cv_jobs t) = Some r \<and> jr_status r = Job_PENDING \<and> jr_batch_id r = None \<and> jr_user_id r = Some u
    \<and> rd_streams (cv_redis t) = rd_streams (cv_redis s)"
proof -
  let ?fresh = "(new_job [] \<lparr>ct_source_format = bi_source_format item, ct_target_format = bi_target_format item\<rparr> (bi_file_name item))
    \<lparr>job_object_key := bi_object_key item, job_user_id := Some u, job_origin := orig\<rparr>"
  let ?j = "?fresh\<lparr>job_id := i\<rparr>" and ?c = "cv_clock env (Suc (cv_ticks s))"
  let ?v = "s\<lparr>cv_jobs := cv_jobs s @ [job_row_of ?c ?j], cv_ticks := Suc (Suc (cv_ticks s))\<rparr>"
  have sup: "is_supported (job_conversion ?fresh) (cv_supported env) = Inr ()" "is_supported (job_conversion ?j) (cv_supported env) = Inr ()"
    using assms(4) by (simp_all add: is_supported_def new_job_def)
  have c: "create_conversion_job env ?fresh s = (Inr ?j, ?v)"
    using sup(1) assms(1,2,5,7) by (simp add: create_conversion_job_def sbind_def sreturn_def conversion_tick_def save_job_def jobs_write_def
      quiet_def save_conversion_job_def Let_def)
  let ?p = "?j\<lparr>job_status := Job_PENDING\<rparr>"
  let ?w = "?v\<lparr>cv_jobs := update_conversion_job (cv_clock env (Suc (Suc (cv_ticks s)))) ?p (cv_jobs ?v), cv_ticks := Suc (Suc (Suc (cv_ticks s)))\<rparr>"
  obtain m where m: "from_conversion_job ?p = Inr m" using assms(8) by (simp add: from_conversion_job_def new_job_def)
  have q: "\<exists>r. enqueue env ?p tier ?w = (Inl e, ?w\<lparr>cv_redis := r\<rparr>) \<and> rd_streams r = rd_streams (cv_redis s)"
    using m assms(3) by (auto simp: enqueue_def dispatch_def publish_job_def redis_call_def Let_def)
  have st: "job_status ?j = Job_AWAITING_UPLOAD" "job_id ?j \<noteq> []" using assms(6) by (simp_all add: new_job_def)
  have u: "update_job env ?p ?v = (Inr (), ?w)" using assms(1,2) by (simp add: update_job_def jobs_write_def quiet_def Let_def)
  have p: "push_conversion_job env ?j tier ?v = sbind (enqueue env ?p tier) (\<lambda>_. sreturn (Inr ?p)) ?w"
    unfolding push_awaiting [OF st(2) sup(2) st(1) refl] by (subst sbind_def) (simp only: u prod.case sum.case)
  from q obtain rd where rd: "push_conversion_job env ?j tier ?v = (Inl e, ?w\<lparr>cv_redis := rd\<rparr>)" "rd_streams rd = rd_streams (cv_redis s)"
    unfolding p by (auto simp: sbind_def)
  have conv: "convert_library_file env (bi_file_name item) (bi_source_format item) (bi_target_format item) (bi_object_key item) u tier orig s
      = (Inl e, ?w\<lparr>cv_redis := rd\<rparr>)"
    using c rd(1) by (simp add: convert_library_file_def sbind_def)
  have "job_row_at i (cv_jobs ?v) = Some (job_row_of ?c ?j)"
    using job_row_at_save [of ?c ?j "cv_jobs s" "cv_jobs ?v" i] assms(7) by (simp add: save_conversion_job_def)
  then have "job_row_at i (cv_jobs ?w) = Some (set_job_columns (cv_clock env (Suc (Suc (cv_ticks s)))) ?p (job_row_of ?c ?j))"
    by (simp add: job_row_at_update)
  then show ?thesis using conv rd(2) assms(9) by (auto simp: create_batch_item_def set_job_columns_def job_row_of_def new_job_def split: exn.split)
qed

theorem unqueued_item_leaves_pending_job_witness:
  "\<exists>out t r. create_batch_item (sample_conversion_env (\<lambda>_ t. t) (\<lambda>_. Commit_lost (OtherError ''ConnectionError''))) 7 Tier_FREE ''b'' None Origin_WEB
      sample_item (sample_conversion_state []) = (Inr out, t) \<and> bo_error out \<noteq> None \<and> job_row_at ''j1'' (cv_jobs t) = Some r \<and> jr_status r = Job_PENDING"
proof -
  let ?env = "sample_conversion_env (\<lambda>_ t. t) (\<lambda>_. Commit_lost (OtherError ''ConnectionError''))"
  have "\<forall>n. cv_commit ?env n = Commit_ok" "cv_redis_fate ?env (rd_tick (cv_redis (sample_conversion_state []))) = Commit_lost (OtherError ''ConnectionError'')"
    "\<lparr>ct_source_format = bi_source_format sample_item, ct_target_format = bi_target_format sample_item\<rparr> \<in> cv_supported ?env"
    "''j1'' = cv_uuid ?env (cv_ticks (sample_conversion_state []))" "''j1'' \<notin> jr_job_id ` set (cv_jobs (sample_conversion_state []))" "bi_object_key sample_item \<noteq> []"
    by (simp_all add: sample_conversion_env_def sample_conversion_state_def sample_item_def)
  from unqueued_item_leaves_pending_job [OF conversion_quiet this(1-4) _ this(5,6), of 7 Tier_FREE "''b''" None Origin_WEB] show ?thesis
    by auto
qed

text \<open>a retry writes the pending state before it queues. When the queue does not take the job, the caller sees the
  error, the row says pending with nothing queued, and every further retry is refused: the job is stuck.\<close>

theorem lost_retry_is_stuck:
  assumes "quiet env" "jobs_ok (cv_jobs s)" "\<forall>n. cv_commit env n = Commit_ok" "cv_redis_fate env (rd_tick (cv_redis s)) = Commit_lost e"
    and "job_row_at i (cv_jobs s) = Some r" "jr_status r = Job_FAILED" "jr_user_id r = Some u" "jr_object_key r \<noteq> []"
    and "quiet env'"
  shows "\<exists>t. retry_conversion_job env i (Some u) tier s = (Inl e, t) \<and> rd_streams (cv_redis t) = rd_streams (cv_redis s)
    \<and> map_option jr_status (job_row_at i (cv_jobs t)) = Some Job_PENDING
    \<and> (\<exists>msg. fst (retry_conversion_job env' i (Some u) tier' t) = Inl (InvalidStateTransition msg))"
proof -
  let ?s = "s\<lparr>cv_ticks := Suc (cv_ticks s)\<rparr>"
  have g: "get_job env i s = (Inr (Some (to_entity r)), ?s)"
    using assms(1,5) get_job_ok [OF assms(2)] by (simp add: get_job_def jobs_read_def quiet_def Let_def)
  have own: "is_job_owner (Some (to_entity r)) (Some u)" using assms(7) by (simp add: is_job_owner_def to_entity_def)
  obtain j where j: "retry (to_entity r) = Inr j" "job_id j = i" "job_status j = Job_PENDING" "job_user_id j = Some u"
    using assms(5-8) by (auto simp: retry_def to_entity_def job_row_at_def dest: sql_first_Some)
  obtain m where m: "from_conversion_job j = Inr m"
    using assms(5) j by (auto simp: from_conversion_job_def retry_def to_entity_def split: if_splits)
  let ?v = "?s\<lparr>cv_jobs := update_conversion_job (cv_clock env (Suc (cv_ticks s))) j (cv_jobs s), cv_ticks := Suc (Suc (cv_ticks s))\<rparr>"
  have u: "update_job env j ?s = (Inr (), ?v)" using assms(1,3) by (simp add: update_job_def jobs_write_def quiet_def Let_def)
  have "\<exists>rd. enqueue env j tier ?v = (Inl e, ?v\<lparr>cv_redis := rd\<rparr>) \<and> rd_streams rd = rd_streams (cv_redis s)"
    using m assms(4) by (auto simp: enqueue_def dispatch_def publish_job_def redis_call_def Let_def)
  then obtain rd where q: "enqueue env j tier ?v = (Inl e, ?v\<lparr>cv_redis := rd\<rparr>)" "rd_streams rd = rd_streams (cv_redis s)" by blast
  let ?t = "?v\<lparr>cv_redis := rd\<rparr>"
  have first: "retry_conversion_job env i (Some u) tier s = (Inl e, ?t)"
    using own j(1) q(1) u by (simp add: retry_conversion_job_def sbind_def g sreturn_def)
  have row: "job_row_at i (cv_jobs ?t) = Some (set_job_columns (cv_clock env (Suc (cv_ticks s))) j r)"
    using assms(5) j(2) by (simp add: job_row_at_update)
  let ?r = "set_job_columns (cv_clock env (Suc (cv_ticks s))) j r"
  have "get_job env' i ?t = (Inr (Some (to_entity ?r)), ?t\<lparr>cv_ticks := Suc (cv_ticks ?t)\<rparr>)"
    using assms(9) get_job_ok [of "cv_jobs ?t" i] row assms(2) by (simp add: get_job_def jobs_read_def quiet_def Let_def jobs_ok_update)
  moreover have "is_job_owner (Some (to_entity ?r)) (Some u)" using assms(7) by (simp add: is_job_owner_def to_entity_def set_job_columns_def)
  moreover have "\<exists>msg. retry (to_entity ?r) = Inl (InvalidStateTransition msg)" using j(3) by (simp add: retry_def to_entity_def set_job_columns_def)
  ultimately have "\<exists>msg. fst (retry_conversion_job env' i (Some u) tier' ?t) = Inl (InvalidStateTransition msg)"
    by (auto simp: retry_conversion_job_def sbind_def sreturn_def)
  then show ?thesis using first q(2) row j(3) by (auto simp: set_job_columns_def)
qed

theorem lost_retry_is_stuck_witness:
  "\<exists>e t msg. retry_conversion_job (sample_conversion_env (\<lambda>_ t. t) (\<lambda>_. Commit_lost (OtherError ''ConnectionError''))) ''j1'' (Some 7) Tier_FREE
      (sample_conversion_state [job_row_of 0 ((new_job ''j1'' \<lparr>ct_source_format = ''pdf'', ct_target_format = ''txt''\<rparr> ''a.pdf'')
        \<lparr>job_object_key := ''k'', job_user_id := Some 7, job_status := Job_FAILED\<rparr>)]) = (Inl e, t)
    \<and> fst (retry_conversion_job (sample_conversion_env (\<lambda>_ t. t) (\<lambda>_. Commit_ok)) ''j1'' (Some 7) Tier_FREE t) = Inl (InvalidStateTransition msg)"
proof -
  let ?r = "job_row_of 0 ((new_job ''j1'' \<lparr>ct_source_format = ''pdf'', ct_target_format = ''txt''\<rparr> ''a.pdf'')
        \<lparr>job_object_key := ''k'', job_user_id := Some 7, job_status := Job_FAILED\<rparr>)"
  let ?env = "sample_conversion_env (\<lambda>_ t. t) (\<lambda>_. Commit_lost (OtherError ''ConnectionError''))" and ?s = "sample_conversion_state [?r]"
  have "jobs_ok (cv_jobs ?s)" "\<forall>n. cv_commit ?env n = Commit_ok" "cv_redis_fate ?env (rd_tick (cv_redis ?s)) = Commit_lost (OtherError ''ConnectionError'')"
    "job_row_at ''j1'' (cv_jobs ?s) = Some ?r" "jr_status ?r = Job_FAILED" "jr_user_id ?r = Some 7" "jr_object_key ?r \<noteq> []"
    by (simp_all add: sample_conversion_state_def sample_conversion_env_def jobs_ok_def unique_key_def job_row_at_def sql_select_def sql_first_def job_row_of_def new_job_def)
  from lost_retry_is_stuck [OF conversion_quiet this conversion_quiet, of Tier_FREE "\<lambda>_. Commit_ok" Tier_FREE] show ?thesis by blast
qed

theorem batch_accounts_for_every_item_witness:
  "\<exists>out t. create_batch (sample_conversion_env (\<lambda>_ t. t) (\<lambda>_. Commit_ok)) [sample_item\<lparr>bi_target_format := ''zip''\<rparr>] 7 Tier_FREE (Some ''b'') None Origin_WEB
      (sample_conversion_state []) = (Inr out, t) \<and> map bo_file_id (bt_outcomes out) = [''f''] \<and> bt_created_count out + bt_failed_count out = 1"
proof -
  let ?env = "sample_conversion_env (\<lambda>_ t. t) (\<lambda>_. Commit_ok)" and ?items = "[sample_item\<lparr>bi_target_format := ''zip''\<rparr>]"
  have ok: "jobs_ok (cv_jobs (sample_conversion_state []))" by (simp add: sample_conversion_state_def jobs_ok_def unique_key_def)
  obtain out t where c: "create_batch ?env ?items 7 Tier_FREE (Some ''b'') None Origin_WEB (sample_conversion_state []) = (Inr out, t)"
    by (simp add: create_batch_def sbind_def sreturn_def create_batch_item_def convert_library_file_def create_conversion_job_def is_supported_def
      new_job_def sample_conversion_env_def sample_item_def Let_def)
  from batch_accounts_for_every_item [OF conversion_quiet ok c] c show ?thesis by (auto simp: sample_item_def)
qed

end
