(* ===== verification/Upload_Transfer.thy ===== *)
theory Upload_Transfer
  imports Drive_Promises Conversion_Service
begin

text \<open>
  \<open>services/files/transfer_service.py\<close>, the upload sessions, with the Redis session cache and the multipart calls of
  \<open>minio_storage_adapter.py\<close>; and the routes of \<open>routers/v1/upload.py\<close>, which join the sessions, the file service and
  the conversion service. A cached session is the record itself, its JSON form read back unchanged, until it
  expires. What the provider makes of the parts of an upload, its upload identifiers and the signed links are
  parameters. The detail of an error response is its message.
\<close>

section \<open>Upload sessions\<close>

record transfer_state =
  tf_drive :: drive_state
  tf_cache :: "string \<Rightarrow> (upload_session \<times> int) option"
  tf_multiparts :: "(string \<times> string) list"

record transfer_env =
  te_drive :: drive_env
  te_cache_up :: "nat \<Rightarrow> bool"
  te_ttl_minutes :: int
  te_large_ttl_minutes :: int
  te_multipart_threshold_bytes :: int
  te_part_size_bytes :: int
  te_multipart_id :: "string \<Rightarrow> nat \<Rightarrow> string"
  te_assemble :: "string \<Rightarrow> string \<Rightarrow> (int \<times> string) list \<Rightarrow> stored_object option"
  te_put_url :: "string \<Rightarrow> string"
  te_part_url :: "string \<Rightarrow> int \<Rightarrow> string \<Rightarrow> int \<Rightarrow> string"
  te_get_url :: "string \<Rightarrow> int \<Rightarrow> string"

type_synonym 'a transfer_op = "transfer_state \<Rightarrow> 'a result \<times> transfer_state"

definition on_drive :: "'a drive_op \<Rightarrow> 'a transfer_op" where
  "on_drive m s = (let (r, d) = m (tf_drive s) in (r, s\<lparr>tf_drive := d\<rparr>))"

definition tf_tick :: "transfer_state \<Rightarrow> transfer_state" where
  "tf_tick s = s\<lparr>tf_drive := (tf_drive s)\<lparr>dv_ticks := Suc (dv_ticks (tf_drive s))\<rparr>\<rparr>"

subsection \<open>The session cache\<close>

definition cache_error :: exn where "cache_error = OtherError ''ConnectionError''"

definition cache_set :: "transfer_env \<Rightarrow> string \<Rightarrow> upload_session \<Rightarrow> int \<Rightarrow> unit transfer_op" where
  "cache_set env key data ttl_minutes s = (let n = dv_ticks (tf_drive s) in
     if te_cache_up env n
     then (Inr (), (tf_tick s)\<lparr>tf_cache := (tf_cache s)(key \<mapsto> (data, de_clock (te_drive env) n + ttl_minutes * 60000000))\<rparr>)
     else (Inl cache_error, tf_tick s))"

definition cache_get :: "transfer_env \<Rightarrow> string \<Rightarrow> upload_session option transfer_op" where
  "cache_get env key s = (let n = dv_ticks (tf_drive s) in
     if te_cache_up env n
     then (Inr (case tf_cache s key of None \<Rightarrow> None | Some (data, expires) \<Rightarrow> if de_clock (te_drive env) n < expires then Some data else None), tf_tick s)
     else (Inl cache_error, tf_tick s))"

definition cache_delete :: "transfer_env \<Rightarrow> string \<Rightarrow> unit transfer_op" where
  "cache_delete env key s =
     (if te_cache_up env (dv_ticks (tf_drive s)) then (Inr (), (tf_tick s)\<lparr>tf_cache := (tf_cache s)(key := None)\<rparr>)
      else (Inl cache_error, tf_tick s))"

subsection \<open>The multipart calls of the storage\<close>

definition storage_failed :: exn where "storage_failed = AppError StorageOperationError []"

definition create_multipart_upload :: "transfer_env \<Rightarrow> string \<Rightarrow> string transfer_op" where
  "create_multipart_upload env key s = (let n = dv_ticks (tf_drive s) in
     if de_up (te_drive env) n
     then (let i = te_multipart_id env key n in (Inr i, (tf_tick s)\<lparr>tf_multiparts := (key, i) # tf_multiparts s\<rparr>))
     else (Inl storage_failed, tf_tick s))"

definition strip_quotes :: "string \<Rightarrow> string" where
  "strip_quotes t = rev (dropWhile (\<lambda>c. c = CHR 0x22) (rev (dropWhile (\<lambda>c. c = CHR 0x22) t)))"

definition complete_multipart_upload :: "transfer_env \<Rightarrow> string \<Rightarrow> string \<Rightarrow> (int \<times> string) list \<Rightarrow> unit transfer_op" where
  "complete_multipart_upload env key i parts s =
     (if \<not> de_up (te_drive env) (dv_ticks (tf_drive s)) \<or> (key, i) \<notin> set (tf_multiparts s) then (Inl storage_failed, tf_tick s)
      else case te_assemble env key i (map (\<lambda>(n, etag). (n, strip_quotes etag)) parts) of
          None \<Rightarrow> (Inl storage_failed, tf_tick s)
        | Some ob \<Rightarrow> (Inr (), (tf_tick s)\<lparr>tf_multiparts := filter (\<lambda>x. x \<noteq> (key, i)) (tf_multiparts s),
            tf_drive := (tf_drive (tf_tick s))\<lparr>dv_objects := (dv_objects (tf_drive s))(key \<mapsto> ob)\<rparr>\<rparr>))"

definition abort_multipart_upload :: "transfer_env \<Rightarrow> string \<Rightarrow> string \<Rightarrow> unit transfer_op" where
  "abort_multipart_upload env key i s =
     (if de_up (te_drive env) (dv_ticks (tf_drive s))
      then (Inr (), (tf_tick s)\<lparr>tf_multiparts := filter (\<lambda>x. x \<noteq> (key, i)) (tf_multiparts s)\<rparr>)
      else (Inl storage_failed, tf_tick s))"

definition object_exists :: "transfer_env \<Rightarrow> string \<Rightarrow> bool transfer_op" where
  "object_exists env key = on_drive (storage_call (te_drive env) (\<lambda>objs. (objs key \<noteq> None, objs)))"

subsection \<open>TransferService\<close>

definition plan_multipart :: "int \<Rightarrow> int \<Rightarrow> (int \<times> int) result" where
  "plan_multipart file_size part_size =
     (if file_size \<le> 0 then Inl (ValueError ''file_size must be positive for a multipart upload.'')
      else if part_size \<le> 0 then Inl (ValueError ''part_size must be positive.'')
      else Inr (- (- file_size div part_size), part_size))"

definition session_ttl :: "transfer_env \<Rightarrow> upload_session \<Rightarrow> int" where
  "session_ttl env session = (if us_upload_mode session = Mode_multipart then te_large_ttl_minutes env else te_ttl_minutes env)"

record upload_response =
  ur_upload_id :: string
  ur_object_key :: string
  ur_upload_url :: "string option"
  ur_expires_in_minutes :: int
  ur_upload_mode :: upload_mode
  ur_part_size_bytes :: "int option"
  ur_part_count :: "int option"
  ur_max_file_size_bytes :: "int option"

definition generate_object_key :: "transfer_env \<Rightarrow> string \<Rightarrow> string \<Rightarrow> string transfer_op" where
  "generate_object_key env jid file_extension =
     (let ext = normalize_extension (Some file_extension); ext = (if ext = [] \<or> 20 < length ext then ''file'' else ext) in
      sbind (on_drive (drive_tick (de_uuid (te_drive env)))) (\<lambda>u.
      sreturn (sanitize_object_key True (jid @ ''/'' @ filter (\<lambda>c. c \<noteq> CHR ''-'') u @ ''.'' @ ext))))"

definition new_session :: "string \<Rightarrow> string \<Rightarrow> string option \<Rightarrow> string \<Rightarrow> string option \<Rightarrow> string \<Rightarrow> int option \<Rightarrow> upload_session" where
  "new_session upload_id object_key safe_name file_extension folder_id user_id file_size =
     (let ext = normalize_extension (Some file_extension) in
      \<lparr>us_upload_id = upload_id, us_object_key = object_key, us_status = ''pending'', us_file_name = safe_name,
       us_file_extension = Some (if ext \<noteq> [] then ext else extension_from_filename safe_name), us_folder_id = folder_id,
       us_user_id = Some user_id, us_file_id = None, us_upload_mode = Mode_single, us_declared_size = file_size,
       us_multipart_upload_id = None, us_part_size_bytes = None, us_part_count = None\<rparr>)"

lemma new_session_fields [simp]:
  "us_upload_id (new_session i key nm ext folder uid sz) = i" "us_object_key (new_session i key nm ext folder uid sz) = key"
  "us_status (new_session i key nm ext folder uid sz) = ''pending''" "us_folder_id (new_session i key nm ext folder uid sz) = folder"
  "us_user_id (new_session i key nm ext folder uid sz) = Some uid" "us_declared_size (new_session i key nm ext folder uid sz) = sz"
  "us_upload_mode (new_session i key nm ext folder uid sz) = Mode_single" "us_multipart_upload_id (new_session i key nm ext folder uid sz) = None"
  by (simp_all add: new_session_def Let_def)

definition open_transfer :: "transfer_env \<Rightarrow> upload_session \<Rightarrow> (upload_session \<times> string option) transfer_op" where
  "open_transfer env session =
     (let multipart = (case us_declared_size session of None \<Rightarrow> False | Some n \<Rightarrow> te_multipart_threshold_bytes env \<le> n) in
      if multipart
      then sbind (sreturn (plan_multipart (the (us_declared_size session)) (te_part_size_bytes env))) (\<lambda>(part_count, part_size).
           sbind (create_multipart_upload env (us_object_key session)) (\<lambda>i.
           sreturn (Inr (session\<lparr>us_multipart_upload_id := Some i, us_upload_mode := Mode_multipart,
             us_part_size_bytes := Some part_size, us_part_count := Some part_count\<rparr>, None))))
      else sreturn (Inr (session, Some (te_put_url env (us_object_key session)))))"

definition create_upload :: "transfer_env \<Rightarrow> string \<Rightarrow> string \<Rightarrow> string option \<Rightarrow> string option \<Rightarrow> int option \<Rightarrow> int option \<Rightarrow> upload_response transfer_op" where
  "create_upload env file_extension user_id file_name folder_id file_size max_file_size_bytes =
     sbind (on_drive (drive_tick (de_uuid (te_drive env)))) (\<lambda>upload_id.
     sbind (generate_object_key env (''upload/'' @ upload_id) file_extension) (\<lambda>object_key.
     sbind (sreturn (case file_name of None \<Rightarrow> Inr None | Some n \<Rightarrow> if n = [] then Inr None else rbind (sanitize_filename n) (\<lambda>x. Inr (Some x)))) (\<lambda>safe_name.
     sbind (open_transfer env (new_session upload_id object_key safe_name file_extension folder_id user_id file_size)) (\<lambda>(session, upload_url).
     sbind (cache_set env upload_id session (session_ttl env session)) (\<lambda>_.
     sreturn (Inr \<lparr>ur_upload_id = upload_id, ur_object_key = object_key, ur_upload_url = upload_url,
       ur_expires_in_minutes = session_ttl env session, ur_upload_mode = us_upload_mode session,
       ur_part_size_bytes = us_part_size_bytes session, ur_part_count = us_part_count session,
       ur_max_file_size_bytes = max_file_size_bytes\<rparr>))))))"

definition get_upload_session :: "transfer_env \<Rightarrow> string \<Rightarrow> upload_session transfer_op" where
  "get_upload_session env upload_id =
     sbind (cache_get env upload_id) (\<lambda>found. case found of
         None \<Rightarrow> raise_op (AppError UploadSessionNotFoundError (''Session '' @ upload_id @ '' invalid or expired''))
       | Some session \<Rightarrow> sreturn (Inr session))"

definition delete_upload_session :: "transfer_env \<Rightarrow> string \<Rightarrow> unit transfer_op" where
  "delete_upload_session env upload_id =
     sbind (cache_get env upload_id) (\<lambda>found.
     sbind (case found of
         None \<Rightarrow> sreturn (Inr ())
       | Some session \<Rightarrow> (case us_multipart_upload_id session of
           None \<Rightarrow> sreturn (Inr ())
         | Some i \<Rightarrow> try_op (abort_multipart_upload env (us_object_key session) i) (\<lambda>e. sreturn (Inr ())))) (\<lambda>_.
     cache_delete env upload_id))"

definition generate_part_urls :: "transfer_env \<Rightarrow> upload_session \<Rightarrow> int list \<Rightarrow> (int \<times> string) list result" where
  "generate_part_urls env session part_numbers =
     (case us_multipart_upload_id session of
        None \<Rightarrow> Inl (AppError UploadNotMultipartError
          ''This upload session does not use multipart upload; PUT the file to the session's upload_url instead.'')
      | Some i \<Rightarrow>
        if us_upload_mode session \<noteq> Mode_multipart
        then Inl (AppError UploadNotMultipartError
          ''This upload session does not use multipart upload; PUT the file to the session's upload_url instead.'')
        else let part_count = (case us_part_count session of None \<Rightarrow> 0 | Some n \<Rightarrow> n); requested = sort (remdups part_numbers) in
          case find (\<lambda>number. number < 1 \<or> part_count < number) requested of
            Some number \<Rightarrow> Inl (AppError InvalidPartNumberError
              (''Part '' @ str_int number @ '' is outside the valid range 1..'' @ str_int part_count @ ''.''))
          | None \<Rightarrow> Inr (map (\<lambda>number. (number, te_part_url env (us_object_key session) number i (te_large_ttl_minutes env))) requested))"

definition finish_multipart :: "transfer_env \<Rightarrow> upload_session \<Rightarrow> (int \<times> string) list option \<Rightarrow> upload_session transfer_op" where
  "finish_multipart env session parts =
     (case us_multipart_upload_id session of
        None \<Rightarrow> sreturn (Inr session)
      | Some i \<Rightarrow>
        if us_upload_mode session \<noteq> Mode_multipart then sreturn (Inr session)
        else case parts of
            None \<Rightarrow> raise_op (AppError MissingUploadPartsError ''A multipart upload must be finalized with its part list.'')
          | Some ps \<Rightarrow>
            if ps = [] then raise_op (AppError MissingUploadPartsError ''A multipart upload must be finalized with its part list.'')
            else sbind (complete_multipart_upload env (us_object_key session) i (sort_key fst ps)) (\<lambda>_.
              sreturn (Inr (session\<lparr>us_multipart_upload_id := None\<rparr>))))"

definition verify_upload_completion :: "transfer_env \<Rightarrow> string \<Rightarrow> (int \<times> string) list option \<Rightarrow> upload_session transfer_op" where
  "verify_upload_completion env upload_id parts =
     sbind (get_upload_session env upload_id) (\<lambda>session.
     sbind (finish_multipart env session parts) (\<lambda>session.
     sbind (object_exists env (us_object_key session)) (\<lambda>present.
     if \<not> present then raise_op (AppError UploadVerificationError (''Upload for session '' @ upload_id @ '' is not complete or failed.''))
     else let session = session\<lparr>us_status := ''completed''\<rparr> in
       sbind (cache_set env upload_id session (session_ttl env session)) (\<lambda>_. sreturn (Inr session)))))"

definition create_download_url :: "transfer_env \<Rightarrow> string \<Rightarrow> int option \<Rightarrow> string" where
  "create_download_url env object_key expires_in_minutes =
     te_get_url env object_key (case expires_in_minutes of None \<Rightarrow> te_ttl_minutes env | Some n \<Rightarrow> if n = 0 then te_ttl_minutes env else n)"

section \<open>The upload routes\<close>

record upload_app =
  ua_transfer :: transfer_state
  ua_conversion :: conversion_state

type_synonym 'a route = "upload_app \<Rightarrow> 'a result \<times> upload_app"

definition on_transfer :: "'a transfer_op \<Rightarrow> 'a route" where
  "on_transfer m s = (let (r, t) = m (ua_transfer s) in (r, s\<lparr>ua_transfer := t\<rparr>))"

definition on_conversion :: "'a conversion_op \<Rightarrow> 'a route" where
  "on_conversion m s = (let (r, t) = m (ua_conversion s) in (r, s\<lparr>ua_conversion := t\<rparr>))"

text \<open>The status of a \<open>FileSystemError\<close>; every other exception is none.\<close>

fun file_system_status :: "exn \<Rightarrow> int option" where
  "file_system_status (AppError FolderNotFoundError m) = Some 404"
| "file_system_status (AppError FileRecordNotFoundError m) = Some 404"
| "file_system_status (AppError FileSizeLimitExceededError m) = Some 413"
| "file_system_status (AppError StorageQuotaExceededError m) = Some 413"
| "file_system_status (AppError FileTypeMismatchError m) = Some 422"
| "file_system_status (AppError FolderNameConflictError m) = Some 409"
| "file_system_status _ = None"

definition file_system_response :: "exn \<Rightarrow> exn" where
  "file_system_response e = (case file_system_status e of None \<Rightarrow> e | Some n \<Rightarrow> HTTPException n (exn_message e))"

fun verify_response :: "exn \<Rightarrow> exn" where
  "verify_response (AppError UploadSessionNotFoundError m) = HTTPException 404 m"
| "verify_response (AppError MissingUploadPartsError m) = HTTPException 422 m"
| "verify_response (AppError InvalidPartNumberError m) = HTTPException 422 m"
| "verify_response (AppError UploadVerificationError m) = HTTPException 409 m"
| "verify_response (AppError UploadNotMultipartError m) = HTTPException 409 m"
| "verify_response e = file_system_response e"

definition session_of_other :: "int \<Rightarrow> upload_session \<Rightarrow> bool" where
  "session_of_other user_id session = (us_user_id session \<noteq> None \<and> us_user_id session \<noteq> Some (str_int user_id))"

definition not_found :: exn where "not_found = HTTPException 404 ''Upload session not found''"

definition create_upload_session :: "transfer_env \<Rightarrow> int \<Rightarrow> string \<Rightarrow> string option \<Rightarrow> string option \<Rightarrow> int option \<Rightarrow> upload_response route" where
  "create_upload_session env user_id file_extension file_name folder_id file_size =
     sbind (try_op (on_transfer (on_drive (sbind (owned_target user_id folder_id) (\<lambda>_. authorize_upload_size (te_drive env) user_id file_size))))
       (\<lambda>e. raise_op (file_system_response e))) (\<lambda>max_file_size_bytes.
     on_transfer (create_upload env file_extension (str_int user_id) file_name folder_id file_size (Some max_file_size_bytes)))"

definition owned_session :: "transfer_env \<Rightarrow> int \<Rightarrow> int \<Rightarrow> string \<Rightarrow> upload_session route" where
  "owned_session env missing_status user_id upload_id =
     sbind (try_op (on_transfer (get_upload_session env upload_id))
       (\<lambda>e. case e of AppError UploadSessionNotFoundError m \<Rightarrow> raise_op (HTTPException missing_status m) | _ \<Rightarrow> raise_op e)) (\<lambda>session.
     if session_of_other user_id session then raise_op not_found else sreturn (Inr session))"

definition get_upload_session_route :: "transfer_env \<Rightarrow> int \<Rightarrow> string \<Rightarrow> upload_session route" where
  "get_upload_session_route env user_id upload_id = owned_session env 404 user_id upload_id"

definition create_upload_part_urls :: "transfer_env \<Rightarrow> int \<Rightarrow> string \<Rightarrow> int list \<Rightarrow> ((int \<times> string) list \<times> int) route" where
  "create_upload_part_urls env user_id upload_id part_numbers =
     sbind (owned_session env 410 user_id upload_id) (\<lambda>session.
     sbind (sreturn (case generate_part_urls env session part_numbers of
         Inr urls \<Rightarrow> Inr urls
       | Inl (AppError UploadNotMultipartError m) \<Rightarrow> Inl (HTTPException 409 m)
       | Inl (AppError InvalidPartNumberError m) \<Rightarrow> Inl (HTTPException 422 m)
       | Inl e \<Rightarrow> Inl e)) (\<lambda>urls.
     sreturn (Inr (urls, te_large_ttl_minutes env))))"

definition point_job :: "conversion_env \<Rightarrow> int \<Rightarrow> string \<Rightarrow> string \<Rightarrow> unit conversion_op" where
  "point_job cenv user_id jid object_key =
     sbind (get_job cenv jid) (\<lambda>found. case found of
         None \<Rightarrow> sreturn (Inr ())
       | Some job \<Rightarrow>
         if \<not> is_job_owner (Some job) (Some user_id) then raise_op (HTTPException 404 ''Job not found'')
         else let job = job\<lparr>job_object_key := object_key\<rparr> in
           sbind (update_job cenv job) (\<lambda>_. sbind (push_conversion_job cenv job Tier_FREE) (\<lambda>_. sreturn (Inr ()))))"

definition verify_upload_session :: "transfer_env \<Rightarrow> conversion_env \<Rightarrow> int \<Rightarrow> string \<Rightarrow> (int \<times> string) list option \<Rightarrow> string option \<Rightarrow> upload_session route" where
  "verify_upload_session env cenv user_id upload_id parts jid =
     try_op
       (sbind (on_transfer (verify_upload_completion env upload_id (if parts = Some [] then None else parts))) (\<lambda>session.
        if session_of_other user_id session then raise_op (AppError UploadSessionNotFoundError ''Upload session not found'')
        else sbind (on_transfer (on_drive (complete_upload (te_drive env) user_id session))) (\<lambda>file_id.
          let session = session\<lparr>us_file_id := Some file_id\<rparr> in
          case jid of
            None \<Rightarrow> sreturn (Inr session)
          | Some j \<Rightarrow> sbind (on_conversion (point_job cenv user_id j (us_object_key session))) (\<lambda>_. sreturn (Inr session)))))
       (\<lambda>e. raise_op (verify_response e))"

definition delete_upload_session_route :: "transfer_env \<Rightarrow> int \<Rightarrow> string \<Rightarrow> unit route" where
  "delete_upload_session_route env user_id upload_id =
     sbind (owned_session env 404 user_id upload_id) (\<lambda>_. on_transfer (delete_upload_session env upload_id))"

section \<open>What the sessions guarantee\<close>

lemma plan_covers:
  assumes "plan_multipart file_size part_size = Inr (n, p)"
  shows "p = part_size \<and> 1 \<le> n \<and> (n - 1) * p < file_size \<and> file_size \<le> n * p"
proof -
  have pos: "0 < file_size" "0 < part_size" "n = - (- file_size div part_size)" "p = part_size"
    using assms by (auto simp: plan_multipart_def split: if_splits)
  define q m where "q = - file_size div part_size" and "m = - file_size mod part_size"
  have e: "part_size * q + m = - file_size" unfolding q_def m_def by (rule mult_div_mod_eq)
  have m: "0 \<le> m" "m < part_size" using pos(2) by (simp_all add: m_def)
  have np: "n * p = - (part_size * q)" "(n - 1) * p = - (part_size * q) - part_size"
    using pos(3,4) by (simp_all add: q_def [symmetric] algebra_simps)
  then have "file_size \<le> n * p" "(n - 1) * p < file_size" using e m by simp_all
  moreover from this(1) have "1 \<le> n" using pos(1,2,4) mult_nonpos_nonneg [of n part_size] by (cases "n \<le> 0") auto
  ultimately show ?thesis using pos(4) by simp
qed

text \<open>the plan of a multipart upload covers the declared size with no empty part: all parts but the last are full,
  and the last is not empty.\<close>

theorem multipart_plan_exact:
  assumes "plan_multipart file_size part_size = Inr (n, p)"
  shows "p = part_size \<and> 1 \<le> n \<and> (n - 1) * p < file_size \<and> file_size \<le> n * p"
  by (rule plan_covers [OF assms])

theorem multipart_plan_exact_witness:
  "plan_multipart 11 5 = Inr (3, 5) \<and> (3 - 1) * 5 < (11 :: int) \<and> (11 :: int) \<le> 3 * 5"
  using multipart_plan_exact [of 11 5 3 5] by (simp add: plan_multipart_def)

text \<open>part links are handed out once per requested part, in ascending order, all within the plan, and each is signed
  for the key and the upload of the session.\<close>

theorem part_urls_exact:
  assumes "generate_part_urls env session nums = Inr urls"
  shows "sorted (map fst urls) \<and> distinct (map fst urls) \<and> set (map fst urls) = set nums
    \<and> (\<forall>k url. (k, url) \<in> set urls \<longrightarrow> 1 \<le> k \<and> k \<le> (case us_part_count session of None \<Rightarrow> 0 | Some n \<Rightarrow> n)
        \<and> (\<exists>i. us_multipart_upload_id session = Some i \<and> url = te_part_url env (us_object_key session) k i (te_large_ttl_minutes env)))"
proof -
  obtain i where i: "us_multipart_upload_id session = Some i"
    and none: "find (\<lambda>k. k < 1 \<or> (case us_part_count session of None \<Rightarrow> 0 | Some n \<Rightarrow> n) < k) (sort (remdups nums)) = None"
    and urls: "urls = map (\<lambda>k. (k, te_part_url env (us_object_key session) k i (te_large_ttl_minutes env))) (sort (remdups nums))"
    using assms by (auto simp: generate_part_urls_def Let_def split: option.splits if_splits)
  then show ?thesis by (auto simp: comp_def find_None_iff)
qed

definition sample_transfer_env :: "(nat \<Rightarrow> bool) \<Rightarrow> transfer_env" where
  "sample_transfer_env up = \<lparr>te_drive = (sample_drive_env 100 id)\<lparr>de_up := up\<rparr>, te_cache_up = (\<lambda>_. True), te_ttl_minutes = 10,
     te_large_ttl_minutes = 60, te_multipart_threshold_bytes = 100, te_part_size_bytes = 50, te_multipart_id = (\<lambda>_ _. ''m''),
     te_assemble = (\<lambda>_ _ _. Some (sample_object ''x'')), te_put_url = (\<lambda>k. k), te_part_url = (\<lambda>k n i m. k), te_get_url = (\<lambda>k m. k)\<rparr>"

definition sample_multipart :: upload_session where
  "sample_multipart = (sample_session (Some ''n.txt''))\<lparr>us_upload_mode := Mode_multipart, us_multipart_upload_id := Some ''m'', us_user_id := Some ''7'',
     us_part_count := Some 3\<rparr>"

definition sample_transfer :: "upload_session \<Rightarrow> transfer_state" where
  "sample_transfer session = \<lparr>tf_drive = sample_drive [] [] (\<lambda>_. Some (sample_object ''x'')), tf_cache = [''u'' \<mapsto> (session, 1000)], tf_multiparts = [(''k'', ''m'')]\<rparr>"

lemma sample_multipart_fields [simp]: "us_object_key sample_multipart = ''k''" "us_upload_mode sample_multipart = Mode_multipart"
    "us_multipart_upload_id sample_multipart = Some ''m''" "us_part_count sample_multipart = Some 3" "us_user_id sample_multipart = Some ''7''"
  by (simp_all add: sample_multipart_def)

theorem part_urls_exact_witness:
  "\<exists>urls. generate_part_urls (sample_transfer_env (\<lambda>_. True)) sample_multipart [3, 1, 3] = Inr urls \<and> map fst urls = [1, 3]"
proof -
  obtain urls where u: "generate_part_urls (sample_transfer_env (\<lambda>_. True)) sample_multipart [3, 1, 3] = Inr urls"
    by (simp add: generate_part_urls_def)
  have r: "sorted (map fst urls)" "distinct (map fst urls)" "set (map fst urls) = set [3, 1, 3]" by (simp_all only: part_urls_exact [OF u])
  have "map fst urls = [1, 3]" by (rule sorted_distinct_set_unique) (use r in \<open>simp_all add: insert_commute\<close>)
  with u show ?thesis by (intro exI conjI)
qed

text \<open>a multipart upload that a check after the assembly interrupts cannot be finished. The identifier of the upload is
  cleared in memory only; the cached session keeps it, so every retry asks the provider to complete an upload that
  is complete, and fails, while the object lies in the storage.\<close>

theorem interrupted_completion_blocks_retry:
  assumes "tf_cache s upload_id = Some (session, expires)" "us_upload_mode session = Mode_multipart" "us_multipart_upload_id session = Some i"
    and "ps \<noteq> []" "te_cache_up env (dv_ticks (tf_drive s))" "de_clock (te_drive env) (dv_ticks (tf_drive s)) < expires"
    and "de_up (te_drive env) (Suc (dv_ticks (tf_drive s)))" "\<not> de_up (te_drive env) (Suc (Suc (dv_ticks (tf_drive s))))"
    and "(us_object_key session, i) \<in> set (tf_multiparts s)"
    and "te_assemble env (us_object_key session) i (map (\<lambda>(n, etag). (n, strip_quotes etag)) (sort_key fst ps)) = Some ob"
  shows "\<exists>t. verify_upload_completion env upload_id (Some ps) s = (Inl storage_failed, t) \<and> dv_objects (tf_drive t) (us_object_key session) = Some ob
    \<and> (\<forall>env' qs. te_cache_up env' (dv_ticks (tf_drive t)) \<longrightarrow> de_clock (te_drive env') (dv_ticks (tf_drive t)) < expires \<longrightarrow> qs \<noteq> []
        \<longrightarrow> fst (verify_upload_completion env' upload_id (Some qs) t) = Inl storage_failed)"
proof -
  let ?key = "us_object_key session" and ?n = "dv_ticks (tf_drive s)"
  let ?t = "s\<lparr>tf_multiparts := filter (\<lambda>x. x \<noteq> (?key, i)) (tf_multiparts s),
    tf_drive := (tf_drive s)\<lparr>dv_objects := (dv_objects (tf_drive s))(?key \<mapsto> ob), dv_ticks := Suc (Suc (Suc ?n))\<rparr>\<rparr>"
  have "verify_upload_completion env upload_id (Some ps) s = (Inl storage_failed, ?t)"
    using assms
    by (simp add: verify_upload_completion_def get_upload_session_def cache_get_def tf_tick_def sbind_def sreturn_def finish_multipart_def
      complete_multipart_upload_def object_exists_def on_drive_def storage_call_def storage_failed_def Let_def)
  moreover have "fst (verify_upload_completion env' upload_id (Some qs) ?t) = Inl storage_failed"
    if "te_cache_up env' (dv_ticks (tf_drive ?t))" "de_clock (te_drive env') (dv_ticks (tf_drive ?t)) < expires" "qs \<noteq> []" for env' qs
    using that assms(1-3)
    by (simp add: verify_upload_completion_def get_upload_session_def cache_get_def tf_tick_def sbind_def sreturn_def finish_multipart_def
      complete_multipart_upload_def Let_def)
  ultimately show ?thesis by (intro exI [of _ ?t]) simp
qed

theorem interrupted_completion_blocks_retry_witness:
  "\<exists>t. verify_upload_completion (sample_transfer_env (\<lambda>n. n \<noteq> 2)) ''u'' (Some [(1, ''e'')]) (sample_transfer sample_multipart) = (Inl storage_failed, t)
     \<and> dv_objects (tf_drive t) ''k'' = Some (sample_object ''x'')"
proof -
  let ?env = "sample_transfer_env (\<lambda>n. n \<noteq> 2)" and ?s = "sample_transfer sample_multipart"
  have "tf_cache ?s ''u'' = Some (sample_multipart, 1000)" "dv_ticks (tf_drive ?s) = 0" "tf_multiparts ?s = [(''k'', ''m'')]"
    "te_cache_up ?env n" "de_clock (te_drive ?env) 0 < 1000" "de_up (te_drive ?env) (Suc 0)" "\<not> de_up (te_drive ?env) (Suc (Suc 0))"
    "te_assemble ?env k i xs = Some (sample_object ''x'')" for n k i xs
    by (simp_all add: sample_transfer_def sample_transfer_env_def sample_drive_def sample_drive_env_def)
  from interrupted_completion_blocks_retry [of ?s "''u''" sample_multipart 1000 "''m''" "[(1, ''e'')]" ?env "sample_object ''x''"] this
  show ?thesis by auto
qed

text \<open>the route verifies before it looks at the owner. A stranger who knows the identifier of an upload is answered that
  there is no such session, but by then the upload has been completed from the stranger's list of parts and the
  session of the owner is marked completed.\<close>

theorem stranger_completes_upload:
  assumes "tf_cache (ua_transfer s) upload_id = Some (session, expires)" "session_of_other stranger session"
    and "us_upload_mode session = Mode_multipart" "us_multipart_upload_id session = Some i" "ps \<noteq> []"
    and "\<forall>n. te_cache_up env n \<and> de_up (te_drive env) n" "de_clock (te_drive env) (dv_ticks (tf_drive (ua_transfer s))) < expires"
    and "(us_object_key session, i) \<in> set (tf_multiparts (ua_transfer s))"
    and "te_assemble env (us_object_key session) i (map (\<lambda>(n, etag). (n, strip_quotes etag)) (sort_key fst ps)) = Some ob"
  shows "\<exists>t. verify_upload_session env cenv stranger upload_id (Some ps) job s = (Inl not_found, t)
    \<and> dv_objects (tf_drive (ua_transfer t)) (us_object_key session) = Some ob
    \<and> (us_object_key session, i) \<notin> set (tf_multiparts (ua_transfer t))
    \<and> (\<exists>e. tf_cache (ua_transfer t) upload_id = Some (session\<lparr>us_multipart_upload_id := None, us_status := ''completed''\<rparr>, e))"
proof -
  let ?s = "ua_transfer s" and ?key = "us_object_key session"
  have "\<exists>t. verify_upload_completion env upload_id (Some ps) ?s = (Inr (session\<lparr>us_multipart_upload_id := None, us_status := ''completed''\<rparr>), t)
    \<and> dv_objects (tf_drive t) ?key = Some ob \<and> (?key, i) \<notin> set (tf_multiparts t)
    \<and> (\<exists>e. tf_cache t upload_id = Some (session\<lparr>us_multipart_upload_id := None, us_status := ''completed''\<rparr>, e))"
    using assms(1,3-9)
    by (simp add: verify_upload_completion_def get_upload_session_def cache_get_def cache_set_def tf_tick_def sbind_def sreturn_def
      finish_multipart_def complete_multipart_upload_def object_exists_def on_drive_def storage_call_def Let_def)
  then obtain t where t: "verify_upload_completion env upload_id (Some ps) ?s = (Inr (session\<lparr>us_multipart_upload_id := None, us_status := ''completed''\<rparr>), t)"
    "dv_objects (tf_drive t) ?key = Some ob" "(?key, i) \<notin> set (tf_multiparts t)"
    "\<exists>e. tf_cache t upload_id = Some (session\<lparr>us_multipart_upload_id := None, us_status := ''completed''\<rparr>, e)" by blast
  moreover have "session_of_other stranger (session\<lparr>us_multipart_upload_id := None, us_status := ''completed''\<rparr>)"
    using assms(2) by (simp add: session_of_other_def)
  ultimately have "verify_upload_session env cenv stranger upload_id (Some ps) job s = (Inl not_found, s\<lparr>ua_transfer := t\<rparr>)"
    using assms(5) by (simp add: verify_upload_session_def try_op_def sbind_def on_transfer_def raise_op_def not_found_def)
  then show ?thesis using t by simp
qed

theorem stranger_completes_upload_witness:
  "\<exists>t e. verify_upload_session (sample_transfer_env (\<lambda>_. True)) (sample_conversion_env (\<lambda>_ t. t) (\<lambda>_. Commit_ok)) 8 ''u'' (Some [(1, ''e'')]) None
       \<lparr>ua_transfer = sample_transfer sample_multipart, ua_conversion = sample_conversion_state []\<rparr> = (Inl not_found, t)
     \<and> (''k'', ''m'') \<notin> set (tf_multiparts (ua_transfer t))
     \<and> tf_cache (ua_transfer t) ''u'' = Some (sample_multipart\<lparr>us_multipart_upload_id := None, us_status := ''completed''\<rparr>, e)"
proof -
  let ?env = "sample_transfer_env (\<lambda>_. True)" and ?s = "\<lparr>ua_transfer = sample_transfer sample_multipart, ua_conversion = sample_conversion_state []\<rparr>"
  have "\<forall>n. te_cache_up ?env n \<and> de_up (te_drive ?env) n" "de_clock (te_drive ?env) (dv_ticks (tf_drive (ua_transfer ?s))) < 1000"
    "tf_cache (ua_transfer ?s) ''u'' = Some (sample_multipart, 1000)" "tf_multiparts (ua_transfer ?s) = [(''k'', ''m'')]"
    "te_assemble ?env k i xs = Some (sample_object ''x'')" "session_of_other 8 sample_multipart" for k i xs
    by (simp_all add: sample_transfer_def sample_transfer_env_def sample_drive_def sample_drive_env_def session_of_other_def str_int_def str_nat.simps digit_chars)
  with stranger_completes_upload [of ?s "''u''" sample_multipart 1000 8 "''m''" "[(1, ''e'')]" ?env "sample_object ''x''",
      where cenv = "sample_conversion_env (\<lambda>_ t. t) (\<lambda>_. Commit_ok)" and job = None] show ?thesis by auto
qed

subsection \<open>A verified session\<close>

lemma verify_completion_result:
  assumes "verify_upload_completion env upload_id parts s = (Inr session, t)"
  shows "us_status session = ''completed''" "\<exists>e. tf_cache t upload_id = Some (session, e)"
    "\<exists>old. fst (get_upload_session env upload_id s) = Inr old \<and> us_object_key session = us_object_key old \<and> us_user_id session = us_user_id old"
proof -
  from assms obtain old s1 where g: "get_upload_session env upload_id s = (Inr old, s1)"
    and r: "sbind (finish_multipart env old parts) (\<lambda>session. sbind (object_exists env (us_object_key session)) (\<lambda>present.
     if \<not> present then raise_op (AppError UploadVerificationError (''Upload for session '' @ upload_id @ '' is not complete or failed.''))
     else let session = session\<lparr>us_status := ''completed''\<rparr> in
       sbind (cache_set env upload_id session (session_ttl env session)) (\<lambda>_. sreturn (Inr session)))) s1 = (Inr session, t)"
    unfolding verify_upload_completion_def by (rule sbind_cases) auto
  from r obtain mid s2 where f: "finish_multipart env old parts s1 = (Inr mid, s2)"
    and r2: "sbind (object_exists env (us_object_key mid)) (\<lambda>present.
     if \<not> present then raise_op (AppError UploadVerificationError (''Upload for session '' @ upload_id @ '' is not complete or failed.''))
     else let session = mid\<lparr>us_status := ''completed''\<rparr> in
       sbind (cache_set env upload_id session (session_ttl env session)) (\<lambda>_. sreturn (Inr session))) s2 = (Inr session, t)"
    by (rule sbind_cases) auto
  have mid: "us_object_key mid = us_object_key old" "us_user_id mid = us_user_id old"
    using f by (auto simp: finish_multipart_def sreturn_def raise_op_def sbind_def split: option.splits if_splits sum.splits prod.splits)
  from r2 obtain s3 where "sbind (cache_set env upload_id (mid\<lparr>us_status := ''completed''\<rparr>) (session_ttl env (mid\<lparr>us_status := ''completed''\<rparr>)))
      (\<lambda>_. sreturn (Inr (mid\<lparr>us_status := ''completed''\<rparr>))) s3 = (Inr session, t)"
    by (rule sbind_cases) (auto simp: Let_def raise_op_def split: if_splits)
  then have "session = mid\<lparr>us_status := ''completed''\<rparr> \<and> (\<exists>e. tf_cache t upload_id = Some (session, e))"
    by (rule sbind_cases) (auto simp: cache_set_def sreturn_def tf_tick_def Let_def split: if_splits)
  then show "us_status session = ''completed''" "\<exists>e. tf_cache t upload_id = Some (session, e)"
    "\<exists>old. fst (get_upload_session env upload_id s) = Inr old \<and> us_object_key session = us_object_key old \<and> us_user_id session = us_user_id old"
    using g mid by auto
qed

text \<open>C32: a verification that the route answers with a session was asked for by its owner, or the session has none; the
  file it names is in the library of the caller under the key of the session; and the cached session, completed,
  is the answer but for the file.\<close>

theorem verified_upload_recorded:
  assumes "verify_upload_session env cenv u upload_id parts job s = (Inr session, t)"
  shows "\<not> session_of_other u session \<and> us_status session = ''completed''
    \<and> (\<exists>i. us_file_id session = Some i \<and> (\<exists>f \<in> set (dr_files (dv_db (tf_drive (ua_transfer t)))).
        fl_id f = i \<and> fl_user_id f = u \<and> fl_file_key f = us_object_key session))
    \<and> (\<exists>cached e. tf_cache (ua_transfer t) upload_id = Some (cached, e) \<and> session = cached\<lparr>us_file_id := us_file_id session\<rparr>)"
proof -
  let ?rest = "\<lambda>session. if session_of_other u session then raise_op (AppError UploadSessionNotFoundError ''Upload session not found'')
        else sbind (on_transfer (on_drive (complete_upload (te_drive env) u session))) (\<lambda>file_id.
          let session = session\<lparr>us_file_id := Some file_id\<rparr> in
          case job of
            None \<Rightarrow> sreturn (Inr session)
          | Some j \<Rightarrow> sbind (on_conversion (point_job cenv u j (us_object_key session))) (\<lambda>_. sreturn (Inr session)))"
  have "sbind (on_transfer (verify_upload_completion env upload_id (if parts = Some [] then None else parts))) ?rest s = (Inr session, t)"
    using assms by (auto simp: verify_upload_session_def try_op_def raise_op_def split: prod.splits sum.splits)
  then obtain c s1 where c: "on_transfer (verify_upload_completion env upload_id (if parts = Some [] then None else parts)) s = (Inr c, s1)"
    and r: "?rest c s1 = (Inr session, t)" by (rule sbind_cases) auto
  from c obtain t1 where v: "verify_upload_completion env upload_id (if parts = Some [] then None else parts) (ua_transfer s) = (Inr c, t1)" "s1 = s\<lparr>ua_transfer := t1\<rparr>"
    by (auto simp: on_transfer_def split: prod.splits)
  have own: "\<not> session_of_other u c" using r by (auto simp: raise_op_def)
  from r own obtain i s2 where i: "on_transfer (on_drive (complete_upload (te_drive env) u c)) s1 = (Inr i, s2)"
    and r2: "(let session = c\<lparr>us_file_id := Some i\<rparr> in case job of None \<Rightarrow> sreturn (Inr session)
          | Some j \<Rightarrow> sbind (on_conversion (point_job cenv u j (us_object_key session))) (\<lambda>_. sreturn (Inr session))) s2 = (Inr session, t)"
    by (simp, elim sbind_cases) auto
  from i v(2) obtain d where d: "complete_upload (te_drive env) u c (tf_drive t1) = (Inr i, d)" "ua_transfer s2 = t1\<lparr>tf_drive := d\<rparr>"
    by (auto simp: on_transfer_def on_drive_def split: prod.splits)
  have "session = c\<lparr>us_file_id := Some i\<rparr> \<and> ua_transfer t = ua_transfer s2"
    using r2 by (auto simp: sreturn_def Let_def on_conversion_def elim!: sbind_cases split: option.splits prod.splits)
  then show ?thesis
    using verify_completion_result(1,2) [OF v(1)] complete_upload_row [OF d(1)] d(2) own by (auto simp: session_of_other_def)
qed

theorem verified_upload_recorded_witness:
  "\<exists>session t i. verify_upload_session (sample_transfer_env (\<lambda>_. True)) (sample_conversion_env (\<lambda>_ t. t) (\<lambda>_. Commit_ok)) 1 ''u'' None None
       \<lparr>ua_transfer = sample_transfer (sample_session (Some ''n.txt'')), ua_conversion = sample_conversion_state []\<rparr> = (Inr session, t)
     \<and> us_file_id session = Some i \<and> i \<in> fl_id ` set (dr_files (dv_db (tf_drive (ua_transfer t))))"
proof -
  let ?env = "sample_transfer_env (\<lambda>_. True)" and ?cenv = "sample_conversion_env (\<lambda>_ t. t) (\<lambda>_. Commit_ok)"
  let ?s = "sample_transfer (sample_session (Some ''n.txt''))" and ?c = "(sample_session (Some ''n.txt''))\<lparr>us_status := ''completed''\<rparr>"
  have single: "us_multipart_upload_id (sample_session n) = None" "us_user_id (sample_session n) = None" for n by (simp_all add: sample_session_def)
  have "(sample_drive_env 100 id)\<lparr>de_up := (\<lambda>_. True)\<rparr> = sample_drive_env 100 id" by (simp add: sample_drive_env_def)
  then have d: "te_drive ?env = sample_drive_env 100 id" by (simp add: sample_transfer_env_def)
  have v: "\<exists>t. verify_upload_completion ?env ''u'' None ?s = (Inr ?c, t) \<and> tf_drive t = (sample_drive [] [] (\<lambda>_. Some (sample_object ''x'')))\<lparr>dv_ticks := 3\<rparr>"
    using single by (simp add: verify_upload_completion_def get_upload_session_def cache_get_def cache_set_def tf_tick_def sbind_def sreturn_def
      finish_multipart_def object_exists_def on_drive_def storage_call_def Let_def sample_transfer_def sample_transfer_env_def sample_drive_def sample_drive_env_def)
  then obtain t where t: "verify_upload_completion ?env ''u'' None ?s = (Inr ?c, t)"
    "tf_drive t = (sample_drive [] [] (\<lambda>_. Some (sample_object ''x'')))\<lparr>dv_ticks := 3\<rparr>" by blast
  from sample_upload_any obtain i w where "complete_upload (te_drive ?env) 1 ?c (tf_drive t) = (Inr i, w)" unfolding d t(2) by blast
  then obtain session z where r: "verify_upload_session ?env ?cenv 1 ''u'' None None
       \<lparr>ua_transfer = ?s, ua_conversion = sample_conversion_state []\<rparr> = (Inr session, z)"
    using t(1) single by (simp add: verify_upload_session_def try_op_def sbind_def on_transfer_def on_drive_def session_of_other_def sreturn_def Let_def)
  from verified_upload_recorded [OF r] r show ?thesis by blast
qed

subsection \<open>A new session\<close>

lemma generated_key_confined:
  assumes "generate_object_key env job ext s = (Inr key, t)"
  shows "\<exists>place. key_location key = Some place" "tf_cache t = tf_cache s" "tf_multiparts t = tf_multiparts s"
  using assms by (auto simp: generate_object_key_def sbind_def on_drive_def drive_tick_def sreturn_def Let_def dest: sanitized_location(1))

text \<open>a created session is cached under its identifier for its user, pending, with a key under the root of the bucket.
  It either has a link for one transfer, or a multipart upload the provider knows, whose parts cover
  the declared size with no empty part.\<close>

theorem created_session_usable:
  assumes "create_upload env ext uid name folder sz cap s = (Inr r, t)"
  shows "\<exists>session e. tf_cache t (ur_upload_id r) = Some (session, e) \<and> us_object_key session = ur_object_key r \<and> us_user_id session = Some uid
    \<and> us_folder_id session = folder \<and> us_status session = ''pending'' \<and> (\<exists>place. key_location (ur_object_key r) = Some place)
    \<and> (case us_multipart_upload_id session of
        None \<Rightarrow> ur_upload_url r = Some (te_put_url env (ur_object_key r))
      | Some i \<Rightarrow> (ur_object_key r, i) \<in> set (tf_multiparts t) \<and> us_upload_mode session = Mode_multipart
          \<and> (\<exists>n p size. sz = Some size \<and> us_part_count session = Some n \<and> us_part_size_bytes session = Some p
              \<and> (n - 1) * p < size \<and> size \<le> n * p))"
proof -
  from assms obtain i key nm session url s2 s3 s4 where k: "\<exists>s1. generate_object_key env (''upload/'' @ i) ext s1 = (Inr key, s2)"
    and m: "open_transfer env (new_session i key nm ext folder uid sz) s3 = (Inr (session, url), s4)"
    and c: "sbind (cache_set env i session (session_ttl env session)) (\<lambda>_. sreturn (Inr \<lparr>ur_upload_id = i, ur_object_key = key, ur_upload_url = url,
       ur_expires_in_minutes = session_ttl env session, ur_upload_mode = us_upload_mode session, ur_part_size_bytes = us_part_size_bytes session,
       ur_part_count = us_part_count session, ur_max_file_size_bytes = cap\<rparr>)) s4 = (Inr r, t)"
    unfolding create_upload_def by (elim sbind_cases) (simp_all split: prod.splits, blast)
  have r: "ur_upload_id r = i" "ur_object_key r = key" "ur_upload_url r = url" "\<exists>e. tf_cache t i = Some (session, e)" "tf_multiparts t = tf_multiparts s4"
    using c by (auto elim!: sbind_cases simp: cache_set_def sreturn_def tf_tick_def Let_def split: if_splits)
  obtain place where place: "key_location key = Some place" using k generated_key_confined(1) by blast
  show ?thesis
  proof (cases "case sz of None \<Rightarrow> False | Some n \<Rightarrow> te_multipart_threshold_bytes env \<le> n")
    case False
    then show ?thesis using m r place by (auto simp: sreturn_def open_transfer_def)
  next
    case True
    then obtain size where size: "sz = Some size" by (cases sz) auto
    let ?j = "te_multipart_id env key (dv_ticks (tf_drive s3))" and ?new = "new_session i key nm ext folder uid sz"
    from True size have multi: "open_transfer env ?new = sbind (sreturn (plan_multipart size (te_part_size_bytes env))) (\<lambda>(n, p).
        sbind (create_multipart_upload env key) (\<lambda>i. sreturn (Inr (?new\<lparr>us_multipart_upload_id := Some i, us_upload_mode := Mode_multipart,
             us_part_size_bytes := Some p, us_part_count := Some n\<rparr>, None))))"
      by (simp add: open_transfer_def)
    from m [unfolded multi] obtain n p where p: "plan_multipart size (te_part_size_bytes env) = Inr (n, p)"
      and c: "sbind (create_multipart_upload env key) (\<lambda>i. sreturn (Inr (?new\<lparr>us_multipart_upload_id := Some i, us_upload_mode := Mode_multipart,
             us_part_size_bytes := Some p, us_part_count := Some n\<rparr>, None))) s3 = (Inr (session, url), s4)"
      by (elim sbind_cases) (auto simp: sreturn_def)
    from c have "(key, ?j) \<in> set (tf_multiparts s4)"
      "session = ?new\<lparr>us_multipart_upload_id := Some ?j, us_upload_mode := Mode_multipart, us_part_size_bytes := Some p, us_part_count := Some n\<rparr>"
      by (auto elim!: sbind_cases simp: sreturn_def create_multipart_upload_def Let_def split: if_splits)
    then show ?thesis using r place size plan_covers [OF p] by auto
  qed
qed

theorem created_session_usable_witness:
  "\<exists>r t session e. create_upload (sample_transfer_env (\<lambda>_. True)) ''pdf'' ''7'' None None (Some 101) None (sample_transfer sample_multipart) = (Inr r, t)
     \<and> tf_cache t (ur_upload_id r) = Some (session, e) \<and> us_object_key session = ur_object_key r"
proof -
  have k: "sanitize_object_key True ''upload/a/g.pdf'' = Inr ''upload/a/g.pdf''" "normalize_extension (Some ''pdf'') = ''pdf''"
    by (simp_all add: sanitize_object_key_def forbidden_key_def as_posix_def path_parts_def py_startswith_def py_endswith_def py_join_def MAX_KEY_LENGTH_def
      normalize_extension_def MAX_EXTENSION_LENGTH_def py_strip_def is_space_def lstrip_dots_def py_lower_def lower_char_def)
  obtain r t where c: "create_upload (sample_transfer_env (\<lambda>_. True)) ''pdf'' ''7'' None None (Some 101) None (sample_transfer sample_multipart) = (Inr r, t)"
    using k by (simp add: create_upload_def generate_object_key_def open_transfer_def plan_multipart_def create_multipart_upload_def cache_set_def sbind_def
      sreturn_def on_drive_def drive_tick_def tf_tick_def sample_transfer_env_def sample_drive_env_def sample_transfer_def sample_drive_def Let_def)
  from created_session_usable [OF c] c show ?thesis by blast
qed

end
