(* ===== verification/Cleanup_Worker.thy ===== *)
theory Cleanup_Worker
  imports Upload_Transfer
begin

text \<open>
  \<open>workers/cleanup_worker/worker.py\<close>: the scheduled cleanup over the tables of jobs and files, the object storage and
  the telemetry tables. Each removal of an object succeeds or fails as \<open>cu_up\<close> says, each commit as \<open>cu_commit\<close> says; the
  listing of the bucket under a prefix, and the time an object was last modified, are parameters. The pause between
  two cycles is not modelled.
\<close>

section \<open>The cleanup worker\<close>

record stamped_row =
  sr_id :: string
  sr_created_at :: int

record cleanup_state =
  cl_jobs :: "job_row list"
  cl_files :: "file_row list"
  cl_objects :: "string \<Rightarrow> stored_object option"
  cl_events :: "stamped_row list"
  cl_invocations :: "stamped_row list"
  cl_ticks :: nat

record cleanup_env =
  cu_clock :: "nat \<Rightarrow> int"
  cu_up :: "nat \<Rightarrow> bool"
  cu_commit :: "nat \<Rightarrow> commit_fate"
  cu_list_objects :: "string \<Rightarrow> (string \<Rightarrow> stored_object option) \<Rightarrow> (string \<times> int option) list"
  cu_guest_job_retention :: int
  cu_guest_file_retention :: int
  cu_temp_retention :: int
  cu_archive_after :: int
  cu_telemetry_retention :: int

type_synonym 'a cleanup_op = "cleanup_state \<Rightarrow> 'a result \<times> cleanup_state"

definition cleanup_now :: "cleanup_env \<Rightarrow> int cleanup_op" where
  "cleanup_now env s = (Inr (cu_clock env (cl_ticks s)), s\<lparr>cl_ticks := Suc (cl_ticks s)\<rparr>)"

text \<open>A commit of the changes of a session, with its fate.\<close>

definition cleanup_commit :: "cleanup_env \<Rightarrow> (cleanup_state \<Rightarrow> cleanup_state) \<Rightarrow> unit cleanup_op" where
  "cleanup_commit env f s = (let s' = s\<lparr>cl_ticks := Suc (cl_ticks s)\<rparr> in
     case cu_commit env (cl_ticks s) of
       Commit_ok \<Rightarrow> (Inr (), f s')
     | Commit_lost e \<Rightarrow> (Inl e, s')
     | Commit_reply_lost e \<Rightarrow> (Inl e, f s'))"

text \<open>\<open>remove_object\<close> of the synchronous adapter raises or removes; \<open>_delete_objects\<close> passes over empty keys and failures.\<close>

fun delete_objects :: "cleanup_env \<Rightarrow> string list \<Rightarrow> cleanup_state \<Rightarrow> cleanup_state" where
  "delete_objects env [] s = s"
| "delete_objects env (key # keys) s =
     (if key = [] then delete_objects env keys s
      else delete_objects env keys
        (s\<lparr>cl_objects := (if cu_up env (cl_ticks s) then (cl_objects s)(key := None) else cl_objects s), cl_ticks := Suc (cl_ticks s)\<rparr>))"

definition input_object_key :: "job_row \<Rightarrow> string" where
  "input_object_key row = (if jr_object_key row \<noteq> [] then jr_object_key row else jr_input_file row)"

definition job_keys :: "job_row \<Rightarrow> string list" where
  "job_keys row = [input_object_key row, case jr_output_file row of None \<Rightarrow> [] | Some k \<Rightarrow> k]"

text \<open>The loop over the selected rows and the commit that deletes them, which both job tasks share.\<close>

definition sweep_jobs :: "cleanup_env \<Rightarrow> (job_row \<Rightarrow> bool) \<Rightarrow> nat cleanup_op" where
  "sweep_jobs env P s =
     (let rows = sql_select P (cl_jobs s); s' = delete_objects env (concat (map job_keys rows)) s in
      if rows = [] then (Inr 0, s')
      else sbind (cleanup_commit env (\<lambda>t. t\<lparr>cl_jobs := sql_delete (\<lambda>r. jr_job_id r \<in> jr_job_id ` set rows) (cl_jobs t)\<rparr>))
        (\<lambda>_. sreturn (Inr (length rows))) s')"

definition guest_job_expired :: "int \<Rightarrow> job_row \<Rightarrow> bool" where
  "guest_job_expired cutoff r = (jr_user_id r = None \<and> jr_created_at r < cutoff)"

definition cleanup_guest_jobs :: "cleanup_env \<Rightarrow> nat cleanup_op" where
  "cleanup_guest_jobs env = sbind (cleanup_now env) (\<lambda>now. sweep_jobs env (guest_job_expired (now - cu_guest_job_retention env)))"

definition file_expired :: "int \<Rightarrow> int \<Rightarrow> file_row \<Rightarrow> bool" where
  "file_expired now cutoff f = (case fl_expires_at f of None \<Rightarrow> False | Some e \<Rightarrow> e < now \<and> fl_created_at f < cutoff)"

definition cleanup_expired_files :: "cleanup_env \<Rightarrow> nat cleanup_op" where
  "cleanup_expired_files env = sbind (cleanup_now env) (\<lambda>now s.
     let rows = sql_select (file_expired now (now - cu_guest_file_retention env)) (cl_files s); s' = delete_objects env (map fl_file_key rows) s in
      if rows = [] then (Inr 0, s')
      else sbind (cleanup_commit env (\<lambda>t. t\<lparr>cl_files := sql_delete (\<lambda>f. fl_id f \<in> fl_id ` set rows) (cl_files t)\<rparr>))
        (\<lambda>_. sreturn (Inr (length rows))) s')"

fun remove_stale :: "cleanup_env \<Rightarrow> int \<Rightarrow> (string \<times> int option) list \<Rightarrow> nat \<Rightarrow> nat cleanup_op" where
  "remove_stale env cutoff [] cleaned s = (Inr cleaned, s)"
| "remove_stale env cutoff ((key, modified) # rest) cleaned s =
     (case modified of
        None \<Rightarrow> remove_stale env cutoff rest cleaned s
      | Some m \<Rightarrow>
        if \<not> m < cutoff then remove_stale env cutoff rest cleaned s
        else if cu_up env (cl_ticks s)
        then remove_stale env cutoff rest (Suc cleaned) (s\<lparr>cl_objects := (cl_objects s)(key := None), cl_ticks := Suc (cl_ticks s)\<rparr>)
        else remove_stale env cutoff rest cleaned (s\<lparr>cl_ticks := Suc (cl_ticks s)\<rparr>))"

definition cleanup_temp_files :: "cleanup_env \<Rightarrow> nat cleanup_op" where
  "cleanup_temp_files env = sbind (cleanup_now env) (\<lambda>now s.
     let s' = s\<lparr>cl_ticks := Suc (cl_ticks s)\<rparr> in
     if \<not> cu_up env (cl_ticks s) then (Inr 0, s')
     else remove_stale env (now - cu_temp_retention env) (cu_list_objects env ''temp/'' (cl_objects s)) 0 s')"

definition cleanup_telemetry :: "cleanup_env \<Rightarrow> nat cleanup_op" where
  "cleanup_telemetry env = sbind (cleanup_now env) (\<lambda>now s.
     let old = (\<lambda>r. sr_created_at r < now - cu_telemetry_retention env); n = sql_count old (cl_events s) + sql_count old (cl_invocations s) in
     sbind (cleanup_commit env (\<lambda>t. t\<lparr>cl_events := sql_delete old (cl_events t), cl_invocations := sql_delete old (cl_invocations t)\<rparr>))
       (\<lambda>_. sreturn (Inr n)) s)"

definition archivable :: "int \<Rightarrow> job_row \<Rightarrow> bool" where
  "archivable cutoff r = (jr_created_at r < cutoff \<and> jr_status r \<in> {Job_COMPLETED, Job_FAILED})"

definition archive_old_jobs :: "cleanup_env \<Rightarrow> nat cleanup_op" where
  "archive_old_jobs env = sbind (cleanup_now env) (\<lambda>now. sweep_jobs env (archivable (now - cu_archive_after env)))"

definition run_cleanup_cycle :: "cleanup_env \<Rightarrow> unit cleanup_op" where
  "run_cleanup_cycle env =
     sbind (cleanup_guest_jobs env) (\<lambda>_.
     sbind (cleanup_expired_files env) (\<lambda>_.
     sbind (cleanup_temp_files env) (\<lambda>_.
     sbind (archive_old_jobs env) (\<lambda>_.
     sbind (cleanup_telemetry env) (\<lambda>_. sreturn (Inr ()))))))"

text \<open>One turn of the loop of \<open>run\<close>: a failed cycle is logged and the next one starts from where it stopped.\<close>

definition cleanup_turn :: "cleanup_env \<Rightarrow> cleanup_state \<Rightarrow> cleanup_state" where
  "cleanup_turn env s = snd (run_cleanup_cycle env s)"

section \<open>What a cleanup removes\<close>

lemma delete_objects_tables [simp]:
  "cl_jobs (delete_objects env keys s) = cl_jobs s" "cl_files (delete_objects env keys s) = cl_files s"
  "cl_events (delete_objects env keys s) = cl_events s" "cl_invocations (delete_objects env keys s) = cl_invocations s"
  by (induction keys arbitrary: s) auto

lemma delete_objects_other: "k \<notin> set keys \<or> k = [] \<Longrightarrow> cl_objects (delete_objects env keys s) k = cl_objects s k"
  by (induction keys arbitrary: s) auto

lemma delete_objects_gone: "cl_objects s k = None \<Longrightarrow> cl_objects (delete_objects env keys s) k = None"
  by (induction keys arbitrary: s) auto

lemma delete_objects_up:
  assumes "\<forall>n. cu_up env n" "k \<in> set keys" "k \<noteq> []"
  shows "cl_objects (delete_objects env keys s) k = None"
  using assms(2)
proof (induction keys arbitrary: s)
  case (Cons key keys)
  then show ?case using assms(1,3) by (cases "k = key") (auto intro: delete_objects_gone)
qed simp

lemma delete_objects_down: "\<forall>n. \<not> cu_up env n \<Longrightarrow> cl_objects (delete_objects env keys s) = cl_objects s"
  by (induction keys arbitrary: s) auto

subsection \<open>What is never touched\<close>

definition cleanable_job :: "job_row \<Rightarrow> bool" where
  "cleanable_job r = (jr_user_id r = None \<or> jr_status r \<in> {Job_COMPLETED, Job_FAILED})"

definition cleanable_keys :: "cleanup_state \<Rightarrow> string set" where
  "cleanable_keys s = {k. (\<exists>r \<in> set (cl_jobs s). cleanable_job r \<and> k \<in> set (job_keys r))
     \<or> (\<exists>f \<in> set (cl_files s). fl_expires_at f \<noteq> None \<and> k = fl_file_key f) \<or> py_startswith k ''temp/''}"

definition spares :: "cleanup_state \<Rightarrow> cleanup_state \<Rightarrow> bool" where
  "spares s t = (set (cl_jobs t) \<subseteq> set (cl_jobs s) \<and> set (cl_files t) \<subseteq> set (cl_files s)
     \<and> {r \<in> set (cl_jobs s). \<not> cleanable_job r} \<subseteq> set (cl_jobs t) \<and> {f \<in> set (cl_files s). fl_expires_at f = None} \<subseteq> set (cl_files t)
     \<and> (\<forall>k. k \<notin> cleanable_keys s \<longrightarrow> cl_objects t k = cl_objects s k))"

lemma spares_trans: "spares s t \<Longrightarrow> spares t v \<Longrightarrow> spares s v"
proof -
  assume st: "spares s t" and tv: "spares t v"
  have "cleanable_keys t \<subseteq> cleanable_keys s" using st by (auto simp: spares_def cleanable_keys_def)
  then have "cl_objects v k = cl_objects s k" if "k \<notin> cleanable_keys s" for k using st tv that by (auto simp: spares_def)
  moreover have "set (cl_jobs v) \<subseteq> set (cl_jobs s)" "set (cl_files v) \<subseteq> set (cl_files s)" using st tv unfolding spares_def by blast+
  moreover have "{r \<in> set (cl_jobs s). \<not> cleanable_job r} \<subseteq> set (cl_jobs v)" "{f \<in> set (cl_files s). fl_expires_at f = None} \<subseteq> set (cl_files v)"
    using st tv unfolding spares_def by blast+
  ultimately show "spares s v" unfolding spares_def by blast
qed

definition ids_ok :: "cleanup_state \<Rightarrow> bool" where
  "ids_ok s = (jobs_ok (cl_jobs s) \<and> unique_key fl_id (cl_files s))"

definition cleans :: "cleanup_state \<Rightarrow> cleanup_state \<Rightarrow> bool" where
  "cleans s t = (ids_ok s \<longrightarrow> ids_ok t \<and> spares s t)"

interpretation cl: state_frame cleans
proof unfold_locales
  show "cleans s s" for s by (simp add: cleans_def spares_def)
  show "cleans s t \<Longrightarrow> cleans t v \<Longrightarrow> cleans s v" for s t v using spares_trans unfolding cleans_def by blast
qed

lemma cleans_now: "cleans s (snd (cleanup_now env s))"
  by (simp add: cleanup_now_def cleans_def spares_def ids_ok_def)

lemma cleans_commit:
  assumes "cleans s t" "cleans s (f (t\<lparr>cl_ticks := Suc (cl_ticks t)\<rparr>))"
  shows "cleans s (snd (cleanup_commit env f t))"
proof -
  have "cleans s (t\<lparr>cl_ticks := Suc (cl_ticks t)\<rparr>)" using assms(1) by (simp add: cleans_def spares_def ids_ok_def)
  then show ?thesis using assms(2) by (auto simp: cleanup_commit_def Let_def split: commit_fate.splits)
qed

text \<open>The objects first, then the rows: both by keys of the same selected rows.\<close>

lemma delete_by_key_keeps:
  assumes "unique_key key t" "x \<in> set t" "\<not> P x"
  shows "x \<in> set (sql_delete (\<lambda>r. key r \<in> key ` set (sql_select P t)) t)"
proof -
  have "key x \<notin> key ` set (sql_select P t)"
  proof
    assume "key x \<in> key ` set (sql_select P t)"
    then obtain y where y: "y \<in> set t" "P y" "key x = key y" by (auto simp: sql_select_def)
    then have "x = y" using unique_key_inj [OF assms(1,2)] by simp
    then show False using y assms(3) by simp
  qed
  then show ?thesis using assms(2) by (simp add: sql_delete_def)
qed

lemma cleans_sweep:
  assumes "\<And>r. P r \<Longrightarrow> cleanable_job r"
  shows "cleans s (snd (sweep_jobs env P s))"
proof -
  let ?rows = "sql_select P (cl_jobs s)" and ?s = "delete_objects env (concat (map job_keys (sql_select P (cl_jobs s)))) s"
  have "k \<notin> set (concat (map job_keys ?rows))" if "k \<notin> cleanable_keys s" for k
    using that assms by (auto simp: cleanable_keys_def sql_select_def)
  then have s: "cleans s ?s" using delete_objects_other [of _ "concat (map job_keys ?rows)" env s]
    by (simp add: cleans_def spares_def ids_ok_def)
  have "cleans s (snd (cleanup_commit env (\<lambda>t. t\<lparr>cl_jobs := sql_delete (\<lambda>r. jr_job_id r \<in> jr_job_id ` set ?rows) (cl_jobs t)\<rparr>) ?s))"
  proof (rule cleans_commit [OF s])
    have "{r \<in> set (cl_jobs s). \<not> cleanable_job r} \<subseteq> set (sql_delete (\<lambda>r. jr_job_id r \<in> jr_job_id ` set ?rows) (cl_jobs s))" if "ids_ok s"
      using delete_by_key_keeps [of jr_job_id "cl_jobs s" _ P] that assms by (auto simp: ids_ok_def jobs_ok_def)
    moreover have "set (sql_delete Q t) \<subseteq> set t" for Q and t :: "job_row list" by (simp add: sql_delete_def)
    ultimately show "cleans s ((?s\<lparr>cl_ticks := Suc (cl_ticks ?s)\<rparr>)\<lparr>cl_jobs := sql_delete (\<lambda>r. jr_job_id r \<in> jr_job_id ` set ?rows)
        (cl_jobs (?s\<lparr>cl_ticks := Suc (cl_ticks ?s)\<rparr>))\<rparr>)"
      using s by (simp add: cleans_def spares_def ids_ok_def jobs_ok_def unique_key_delete)
  qed
  then show ?thesis using s
    by (auto simp: sweep_jobs_def Let_def sbind_def sreturn_def split: prod.splits sum.splits)
qed

lemma cleans_files: "cleans s (snd (cleanup_expired_files env s))"
  unfolding cleanup_expired_files_def
proof (rule cl.sbind_frame [OF cleans_now])
  fix now s
  let ?P = "file_expired now (now - cu_guest_file_retention env)"
  let ?rows = "sql_select ?P (cl_files s)" and ?s = "delete_objects env (map fl_file_key (sql_select ?P (cl_files s))) s"
  have exp: "?P f \<Longrightarrow> fl_expires_at f \<noteq> None" "fl_expires_at f = None \<Longrightarrow> \<not> ?P f" for f
    by (simp_all add: file_expired_def split: option.splits)
  have "k \<notin> set (map fl_file_key ?rows)" if "k \<notin> cleanable_keys s" for k
    using that by (auto simp: cleanable_keys_def sql_select_def dest!: exp(1))
  then have s: "cleans s ?s" using delete_objects_other [of _ "map fl_file_key ?rows" env s]
    by (simp add: cleans_def spares_def ids_ok_def)
  have "cleans s (snd (cleanup_commit env (\<lambda>t. t\<lparr>cl_files := sql_delete (\<lambda>f. fl_id f \<in> fl_id ` set ?rows) (cl_files t)\<rparr>) ?s))"
  proof (rule cleans_commit [OF s])
    have "{f \<in> set (cl_files s). fl_expires_at f = None} \<subseteq> set (sql_delete (\<lambda>f. fl_id f \<in> fl_id ` set ?rows) (cl_files s))" if "ids_ok s"
      using delete_by_key_keeps [of fl_id "cl_files s" _ ?P] that exp(2) by (auto simp: ids_ok_def)
    moreover have "set (sql_delete Q t) \<subseteq> set t" for Q and t :: "file_row list" by (simp add: sql_delete_def)
    ultimately show "cleans s ((?s\<lparr>cl_ticks := Suc (cl_ticks ?s)\<rparr>)\<lparr>cl_files := sql_delete (\<lambda>f. fl_id f \<in> fl_id ` set ?rows)
        (cl_files (?s\<lparr>cl_ticks := Suc (cl_ticks ?s)\<rparr>))\<rparr>)"
      using s by (simp add: cleans_def spares_def ids_ok_def unique_key_delete)
  qed
  then show "cleans s (snd (let rows = ?rows; s' = delete_objects env (map fl_file_key rows) s
      in if rows = [] then (Inr 0, s') else sbind (cleanup_commit env (\<lambda>t. t\<lparr>cl_files := sql_delete (\<lambda>f. fl_id f \<in> fl_id ` set rows) (cl_files t)\<rparr>))
        (\<lambda>_. sreturn (Inr (length rows))) s'))"
    using s by (auto simp: Let_def sbind_def sreturn_def split: prod.splits sum.splits)
qed

lemma cleans_stale:
  assumes "\<forall>(k, m) \<in> set objs. py_startswith k ''temp/''"
  shows "cleans s (snd (remove_stale env cutoff objs n s))"
  using assms
proof (induction objs arbitrary: n s)
  case (Cons x objs)
  obtain k m where x: "x = (k, m)" by fastforce
  let ?t = "s\<lparr>cl_objects := (cl_objects s)(k := None), cl_ticks := Suc (cl_ticks s)\<rparr>"
  have "cleans s ?t" "cleans s (s\<lparr>cl_ticks := Suc (cl_ticks s)\<rparr>)"
    using Cons.prems x by (auto simp: cleans_def spares_def ids_ok_def cleanable_keys_def)
  then show ?case using Cons.IH [of s n] Cons.IH [of ?t "Suc n"] Cons.IH [of "s\<lparr>cl_ticks := Suc (cl_ticks s)\<rparr>" n] Cons.prems x
    by (auto split: option.split intro: cl.trans)
qed (simp add: cl.refl)

lemma cleans_temp:
  assumes "\<And>objs k m. (k, m) \<in> set (cu_list_objects env ''temp/'' objs) \<Longrightarrow> py_startswith k ''temp/''"
  shows "cleans s (snd (cleanup_temp_files env s))"
  unfolding cleanup_temp_files_def
proof (rule cl.sbind_frame [OF cleans_now])
  fix now s
  have "cleans s (s\<lparr>cl_ticks := Suc (cl_ticks s)\<rparr>)" by (simp add: cleans_def spares_def ids_ok_def)
  moreover have "\<forall>(k, m) \<in> set (cu_list_objects env ''temp/'' (cl_objects s)). py_startswith k ''temp/''" using assms by blast
  ultimately show "cleans s (snd (let s' = s\<lparr>cl_ticks := Suc (cl_ticks s)\<rparr> in if \<not> cu_up env (cl_ticks s) then (Inr 0, s')
      else remove_stale env (now - cu_temp_retention env) (cu_list_objects env ''temp/'' (cl_objects s)) 0 s'))"
    using cleans_stale cl.trans unfolding Let_def by (simp; blast)
qed

lemma cleans_telemetry: "cleans s (snd (cleanup_telemetry env s))"
  unfolding cleanup_telemetry_def Let_def
  by (intro cl.sbind_frame cleans_now cl.sreturn_frame cleans_commit cl.refl) (simp add: cleans_def spares_def ids_ok_def)

lemma cleans_cycle:
  assumes "\<And>objs k m. (k, m) \<in> set (cu_list_objects env ''temp/'' objs) \<Longrightarrow> py_startswith k ''temp/''"
  shows "cleans s (cleanup_turn env s)"
  unfolding cleanup_turn_def run_cleanup_cycle_def cleanup_guest_jobs_def archive_old_jobs_def
  by (intro cl.sbind_frame cl.sreturn_frame cleans_now cleans_files cleans_telemetry cleans_temp [OF assms] cleans_sweep)
    (auto simp: cleanable_job_def guest_job_expired_def archivable_def)

text \<open>C21: a cleanup cycle, whatever fails in it, leaves alone every unfinished job of a registered user, every library
  file without an expiry, and every object that is no input or output of a guest or finished job, no expiring
  file and no temporary object.\<close>

theorem cleanup_spares_live_data:
  assumes "jobs_ok (cl_jobs s)" "unique_key fl_id (cl_files s)"
    and "\<And>objs k m. (k, m) \<in> set (cu_list_objects env ''temp/'' objs) \<Longrightarrow> py_startswith k ''temp/''"
  shows "(\<forall>r \<in> set (cl_jobs s). jr_user_id r \<noteq> None \<and> jr_status r \<notin> {Job_COMPLETED, Job_FAILED} \<longrightarrow> r \<in> set (cl_jobs (cleanup_turn env s)))
    \<and> (\<forall>f \<in> set (cl_files s). fl_expires_at f = None \<longrightarrow> f \<in> set (cl_files (cleanup_turn env s)))
    \<and> (\<forall>k. k \<notin> cleanable_keys s \<longrightarrow> cl_objects (cleanup_turn env s) k = cl_objects s k)"
proof -
  have "ids_ok s" using assms(1,2) by (simp add: ids_ok_def)
  moreover have "cleans s (cleanup_turn env s)" by (rule cleans_cycle) (rule assms(3))
  ultimately have "spares s (cleanup_turn env s)" by (simp add: cleans_def)
  then show ?thesis by (auto simp: spares_def cleanable_job_def)
qed

definition sample_cleanup_env :: "(nat \<Rightarrow> bool) \<Rightarrow> cleanup_env" where
  "sample_cleanup_env up = \<lparr>cu_clock = (\<lambda>_. 100), cu_up = up, cu_commit = (\<lambda>_. Commit_ok), cu_list_objects = (\<lambda>_ _. []),
     cu_guest_job_retention = 24, cu_guest_file_retention = 24, cu_temp_retention = 1, cu_archive_after = 30, cu_telemetry_retention = 30\<rparr>"

definition sample_cleanup :: "job_status \<Rightarrow> cleanup_state" where
  "sample_cleanup status = \<lparr>cl_jobs = [job_row_of 0 ((new_job ''j1'' \<lparr>ct_source_format = ''pdf'', ct_target_format = ''txt''\<rparr> ''a.pdf'')
     \<lparr>job_object_key := ''k'', job_user_id := Some 1, job_status := status\<rparr>)], cl_files = [sample_file ''k'' None],
     cl_objects = (\<lambda>_. Some (sample_object ''x'')), cl_events = [], cl_invocations = [], cl_ticks = 0\<rparr>"

lemma sample_cleanup_rows: "jobs_ok (cl_jobs (sample_cleanup st))" "unique_key fl_id (cl_files (sample_cleanup st))"
    "cl_files (sample_cleanup st) = [sample_file ''k'' None]" "cl_jobs (sample_cleanup st) = [job_row_of 0 ((new_job ''j1''
     \<lparr>ct_source_format = ''pdf'', ct_target_format = ''txt''\<rparr> ''a.pdf'')\<lparr>job_object_key := ''k'', job_user_id := Some 1, job_status := st\<rparr>)]"
  by (simp_all add: sample_cleanup_def jobs_ok_def unique_key_def)

theorem cleanup_spares_live_data_witness:
  "sample_file ''k'' None \<in> set (cl_files (cleanup_turn (sample_cleanup_env (\<lambda>_. True)) (sample_cleanup Job_PENDING)))
    \<and> cl_objects (cleanup_turn (sample_cleanup_env (\<lambda>_. True)) (sample_cleanup Job_PENDING)) ''k'' = Some (sample_object ''x'')"
proof -
  have "''k'' \<notin> cleanable_keys (sample_cleanup Job_PENDING)"
    by (simp add: cleanable_keys_def sample_cleanup_rows cleanable_job_def job_row_of_def new_job_def sample_file_def py_startswith_def)
  moreover have "fl_expires_at (sample_file ''k'' None) = None" by (simp add: sample_file_def)
  moreover have "cl_objects (sample_cleanup Job_PENDING) ''k'' = Some (sample_object ''x'')" by (simp add: sample_cleanup_def)
  ultimately show ?thesis
    using cleanup_spares_live_data [OF sample_cleanup_rows(1,2), of "sample_cleanup_env (\<lambda>_. True)" Job_PENDING]
    by (simp add: sample_cleanup_rows(3)) (simp add: sample_cleanup_env_def)
qed

subsection \<open>What goes, and what goes wrong\<close>

lemma sweep_objects:
  assumes "r \<in> set (cl_jobs s)" "P r" "k \<in> set (job_keys r)" "k \<noteq> []" "\<forall>n. cu_up env n"
  shows "cl_objects (snd (sweep_jobs env P s)) k = None" "cl_files (snd (sweep_jobs env P s)) = cl_files s"
proof -
  let ?s = "delete_objects env (concat (map job_keys (sql_select P (cl_jobs s)))) s"
  have "k \<in> set (concat (map job_keys (sql_select P (cl_jobs s))))" using assms(1-3) by (auto simp: sql_select_def)
  then have k: "cl_objects ?s k = None" using delete_objects_up assms(4,5) by blast
  have c: "cl_objects (snd (cleanup_commit env (\<lambda>t. t\<lparr>cl_jobs := f t\<rparr>) ?s)) k = None" "cl_files (snd (cleanup_commit env (\<lambda>t. t\<lparr>cl_jobs := f t\<rparr>) ?s)) = cl_files s" for f
    using k by (simp_all add: cleanup_commit_def Let_def split: commit_fate.split)
  let ?rows = "sql_select P (cl_jobs s)"
  have "snd (sweep_jobs env P s) = (if ?rows = [] then ?s
      else snd (cleanup_commit env (\<lambda>t. t\<lparr>cl_jobs := sql_delete (\<lambda>r. jr_job_id r \<in> jr_job_id ` set ?rows) (cl_jobs t)\<rparr>) ?s))"
    by (simp add: sweep_jobs_def sbind_def sreturn_def Let_def split: prod.split sum.split)
  then have "snd (sweep_jobs env P s) = ?s \<or> (\<exists>f. snd (sweep_jobs env P s) = snd (cleanup_commit env (\<lambda>t. t\<lparr>cl_jobs := f t\<rparr>) ?s))"
    by (cases "?rows = []") auto
  then show "cl_objects (snd (sweep_jobs env P s)) k = None" "cl_files (snd (sweep_jobs env P s)) = cl_files s"
    using k c by (elim disjE exE; simp)+
qed

text \<open>C22: the archive of old jobs takes the object key of a job for a copy made for it. A conversion of a stored file
  runs on the object of the file: once the job is old, the archive deletes the content of the file, which stays in the
  library with nothing behind it.\<close>

theorem archive_destroys_library_file:
  assumes "f \<in> set (cl_files s)" "r \<in> set (cl_jobs s)" "jr_object_key r = fl_file_key f" "fl_file_key f \<noteq> []"
    and "jr_status r \<in> {Job_COMPLETED, Job_FAILED}" "jr_created_at r < cu_clock env (cl_ticks s) - cu_archive_after env" "\<forall>n. cu_up env n"
  shows "cl_objects (snd (archive_old_jobs env s)) (fl_file_key f) = None \<and> f \<in> set (cl_files (snd (archive_old_jobs env s)))"
proof -
  let ?s = "s\<lparr>cl_ticks := Suc (cl_ticks s)\<rparr>" and ?P = "archivable (cu_clock env (cl_ticks s) - cu_archive_after env)"
  have "?P r" "fl_file_key f \<in> set (job_keys r)" using assms(3-6) by (simp_all add: archivable_def job_keys_def input_object_key_def)
  then have "cl_objects (snd (sweep_jobs env ?P ?s)) (fl_file_key f) = None" "cl_files (snd (sweep_jobs env ?P ?s)) = cl_files s"
    using sweep_objects [of r ?s ?P _ env] assms(2,4,7) by auto
  then show ?thesis using assms(1) by (simp add: archive_old_jobs_def cleanup_now_def sbind_def)
qed

theorem archive_destroys_library_file_witness:
  "cl_objects (snd (archive_old_jobs (sample_cleanup_env (\<lambda>_. True)) (sample_cleanup Job_COMPLETED))) ''k'' = None
    \<and> sample_file ''k'' None \<in> set (cl_files (snd (archive_old_jobs (sample_cleanup_env (\<lambda>_. True)) (sample_cleanup Job_COMPLETED))))"
proof -
  have k: "fl_file_key (sample_file ''k'' None) = ''k''" by (simp add: sample_file_def)
  show ?thesis
    by (rule archive_destroys_library_file [where f = "sample_file ''k'' None", unfolded k])
      (simp_all add: sample_cleanup_rows(3,4) k, simp_all add: job_row_of_def new_job_def sample_cleanup_env_def)
qed

lemma stand_still_now: "\<forall>n. cu_clock env n = now \<Longrightarrow> cleanup_now env s = (Inr now, s\<lparr>cl_ticks := Suc (cl_ticks s)\<rparr>)"
  by (simp add: cleanup_now_def)

lemma delete_by_key_exact: "unique_key key t \<Longrightarrow> sql_delete (\<lambda>r. key r \<in> key ` set (sql_select P t)) t = sql_delete P t"
  unfolding sql_delete_def by (rule filter_cong) (auto simp: sql_select_def dest: unique_key_inj)

lemma sweep_exact:
  assumes "\<forall>n. cu_commit env n = Commit_ok" "jobs_ok (cl_jobs s)"
  shows "\<exists>n t. sweep_jobs env P s = (Inr n, t) \<and> cl_jobs t = sql_delete P (cl_jobs s) \<and> cl_files t = cl_files s
    \<and> cl_events t = cl_events s \<and> cl_invocations t = cl_invocations s \<and> ((\<forall>n. \<not> cu_up env n) \<longrightarrow> cl_objects t = cl_objects s)"
proof (cases "sql_select P (cl_jobs s) = []")
  case True
  then have "sql_delete P (cl_jobs s) = cl_jobs s" by (auto simp: sql_select_def sql_delete_def filter_empty_conv intro: filter_True)
  then show ?thesis using True by (simp add: sweep_jobs_def)
next
  case False
  then show ?thesis using assms delete_by_key_exact [of jr_job_id "cl_jobs s" P] delete_objects_down [of env]
    by (auto simp: sweep_jobs_def sbind_def sreturn_def cleanup_commit_def jobs_ok_def Let_def)
qed

lemma files_exact:
  assumes "\<forall>n. cu_commit env n = Commit_ok" "unique_key fl_id (cl_files s)" "\<forall>n. cu_clock env n = now"
  shows "\<exists>n t. cleanup_expired_files env s = (Inr n, t) \<and> cl_files t = sql_delete (file_expired now (now - cu_guest_file_retention env)) (cl_files s)
    \<and> cl_jobs t = cl_jobs s \<and> cl_events t = cl_events s \<and> cl_invocations t = cl_invocations s
    \<and> ((\<forall>n. \<not> cu_up env n) \<longrightarrow> cl_objects t = cl_objects s)"
proof (cases "sql_select (file_expired now (now - cu_guest_file_retention env)) (cl_files s) = []")
  case True
  then have "sql_delete (file_expired now (now - cu_guest_file_retention env)) (cl_files s) = cl_files s"
    by (auto simp: sql_select_def sql_delete_def filter_empty_conv intro: filter_True)
  then show ?thesis using True by (simp add: cleanup_expired_files_def sbind_def stand_still_now [OF assms(3)])
next
  case False
  then show ?thesis
    using assms(1,2) delete_by_key_exact [of fl_id "cl_files s" "file_expired now (now - cu_guest_file_retention env)"] delete_objects_down [of env]
    by (auto simp: cleanup_expired_files_def stand_still_now [OF assms(3)] sbind_def sreturn_def cleanup_commit_def Let_def)
qed

lemma stale_tables:
  "\<exists>n' t. remove_stale env cutoff objs n s = (Inr n', t) \<and> cl_jobs t = cl_jobs s \<and> cl_files t = cl_files s \<and> cl_events t = cl_events s
    \<and> cl_invocations t = cl_invocations s \<and> ((\<forall>n. \<not> cu_up env n) \<longrightarrow> cl_objects t = cl_objects s)"
proof (induction objs arbitrary: n s)
  case (Cons x objs)
  obtain k m where x: "x = (k, m)" by fastforce
  show ?case unfolding x
    using Cons.IH [of n s] Cons.IH [of "Suc n" "s\<lparr>cl_objects := (cl_objects s)(k := None), cl_ticks := Suc (cl_ticks s)\<rparr>"]
      Cons.IH [of n "s\<lparr>cl_ticks := Suc (cl_ticks s)\<rparr>"] by (auto split: option.split)
qed simp

lemma temp_tables:
  assumes "\<forall>n. cu_clock env n = now"
  shows "\<exists>n t. cleanup_temp_files env s = (Inr n, t) \<and> cl_jobs t = cl_jobs s \<and> cl_files t = cl_files s \<and> cl_events t = cl_events s
    \<and> cl_invocations t = cl_invocations s \<and> ((\<forall>n. \<not> cu_up env n) \<longrightarrow> cl_objects t = cl_objects s)"
  using stale_tables [of env "now - cu_temp_retention env" "cu_list_objects env ''temp/'' (cl_objects s)" 0 "s\<lparr>cl_ticks := Suc (Suc (cl_ticks s))\<rparr>"]
  by (simp add: cleanup_temp_files_def sbind_def stand_still_now [OF assms] Let_def)

text \<open>a cycle whose commits succeed ends normally and removes from the tables exactly the expired: old guest jobs, old
  finished jobs, expired files of the retention age, telemetry past its window. It does so even when the storage
  is down, and then every object of the removed rows stays in the bucket with no row left that names it.\<close>

theorem cleanup_cycle_exact:
  assumes "\<forall>n. cu_commit env n = Commit_ok" "\<forall>n. cu_clock env n = now" "jobs_ok (cl_jobs s)" "unique_key fl_id (cl_files s)"
  shows "\<exists>t. run_cleanup_cycle env s = (Inr (), t)
    \<and> cl_jobs t = filter (\<lambda>r. \<not> guest_job_expired (now - cu_guest_job_retention env) r \<and> \<not> archivable (now - cu_archive_after env) r) (cl_jobs s)
    \<and> cl_files t = filter (\<lambda>f. \<not> file_expired now (now - cu_guest_file_retention env) f) (cl_files s)
    \<and> cl_events t = filter (\<lambda>r. \<not> sr_created_at r < now - cu_telemetry_retention env) (cl_events s)
    \<and> cl_invocations t = filter (\<lambda>r. \<not> sr_created_at r < now - cu_telemetry_retention env) (cl_invocations s)
    \<and> ((\<forall>n. \<not> cu_up env n) \<longrightarrow> cl_objects t = cl_objects s)"
proof -
  let ?tick = "\<lambda>s. s\<lparr>cl_ticks := Suc (cl_ticks s)\<rparr>"
  let ?G = "guest_job_expired (now - cu_guest_job_retention env)" and ?A = "archivable (now - cu_archive_after env)"
  note now = stand_still_now [OF assms(2)]
  obtain n1 s1 where g: "cleanup_guest_jobs env s = (Inr n1, s1)" "cl_jobs s1 = sql_delete ?G (cl_jobs s)" "cl_files s1 = cl_files s"
    "cl_events s1 = cl_events s" "cl_invocations s1 = cl_invocations s" "(\<forall>n. \<not> cu_up env n) \<longrightarrow> cl_objects s1 = cl_objects s"
    using sweep_exact [OF assms(1), of "?tick s" ?G] assms(3) by (auto simp: cleanup_guest_jobs_def sbind_def now)
  obtain n2 s2 where f: "cleanup_expired_files env s1 = (Inr n2, s2)" "cl_files s2 = sql_delete (file_expired now (now - cu_guest_file_retention env)) (cl_files s)"
    "cl_jobs s2 = cl_jobs s1" "cl_events s2 = cl_events s1" "cl_invocations s2 = cl_invocations s1" "(\<forall>n. \<not> cu_up env n) \<longrightarrow> cl_objects s2 = cl_objects s1"
    using files_exact [OF assms(1) _ assms(2), of s1] assms(4) g(3) by auto
  obtain n3 s3 where m: "cleanup_temp_files env s2 = (Inr n3, s3)" "cl_files s3 = cl_files s2"
    "cl_jobs s3 = cl_jobs s2" "cl_events s3 = cl_events s2" "cl_invocations s3 = cl_invocations s2" "(\<forall>n. \<not> cu_up env n) \<longrightarrow> cl_objects s3 = cl_objects s2"
    using temp_tables [OF assms(2), of s2] by auto
  have ok: "jobs_ok (cl_jobs (?tick s3))" using assms(3) m(3) f(3) g(2) by (simp add: jobs_ok_def unique_key_delete)
  obtain n4 s4 where a: "archive_old_jobs env s3 = (Inr n4, s4)" "cl_jobs s4 = sql_delete ?A (cl_jobs s3)" "cl_files s4 = cl_files s3"
    "cl_events s4 = cl_events s3" "cl_invocations s4 = cl_invocations s3" "(\<forall>n. \<not> cu_up env n) \<longrightarrow> cl_objects s4 = cl_objects s3"
    using sweep_exact [OF assms(1) ok, of ?A] by (auto simp: archive_old_jobs_def sbind_def now)
  obtain n5 s5 where e: "cleanup_telemetry env s4 = (Inr n5, s5)" "cl_jobs s5 = cl_jobs s4" "cl_files s5 = cl_files s4" "cl_objects s5 = cl_objects s4"
    "cl_events s5 = sql_delete (\<lambda>r. sr_created_at r < now - cu_telemetry_retention env) (cl_events s4)"
    "cl_invocations s5 = sql_delete (\<lambda>r. sr_created_at r < now - cu_telemetry_retention env) (cl_invocations s4)"
    using assms(1) by (auto simp: cleanup_telemetry_def sbind_def now cleanup_commit_def sreturn_def Let_def)
  have "run_cleanup_cycle env s = (Inr (), s5)"
    by (simp add: run_cleanup_cycle_def sbind_def g(1) f(1) m(1) a(1) e(1) sreturn_def)
  moreover have "cl_jobs s5 = filter (\<lambda>r. \<not> ?G r \<and> \<not> ?A r) (cl_jobs s)"
    using g(2) f(3) m(3) a(2) e(2) by (simp add: sql_delete_def conj_commute)
  ultimately show ?thesis using g f m a e by (simp add: sql_delete_def)
qed

theorem cleanup_cycle_exact_witness:
  "\<exists>t. run_cleanup_cycle (sample_cleanup_env (\<lambda>_. False)) (sample_cleanup Job_COMPLETED) = (Inr (), t) \<and> cl_jobs t = []
    \<and> cl_objects t ''k'' = Some (sample_object ''x'')"
proof -
  have "\<forall>n. cu_commit (sample_cleanup_env (\<lambda>_. False)) n = Commit_ok" "\<forall>n. cu_clock (sample_cleanup_env (\<lambda>_. False)) n = 100"
    by (simp_all add: sample_cleanup_env_def)
  from cleanup_cycle_exact [OF this sample_cleanup_rows(1,2), of Job_COMPLETED] obtain t
    where t: "run_cleanup_cycle (sample_cleanup_env (\<lambda>_. False)) (sample_cleanup Job_COMPLETED) = (Inr (), t)"
    "cl_jobs t = filter (\<lambda>r. \<not> guest_job_expired (100 - cu_guest_job_retention (sample_cleanup_env (\<lambda>_. False))) r
        \<and> \<not> archivable (100 - cu_archive_after (sample_cleanup_env (\<lambda>_. False))) r) (cl_jobs (sample_cleanup Job_COMPLETED))"
    "(\<forall>n. \<not> cu_up (sample_cleanup_env (\<lambda>_. False)) n) \<longrightarrow> cl_objects t = cl_objects (sample_cleanup Job_COMPLETED)" by blast
  have "cl_jobs t = []" unfolding t(2) sample_cleanup_rows(4)
    by (simp add: archivable_def job_row_of_def new_job_def sample_cleanup_env_def)
  moreover have "cl_objects t ''k'' = Some (sample_object ''x'')" using t(3) by (simp add: sample_cleanup_env_def sample_cleanup_def)
  ultimately show ?thesis using t(1) by (intro exI conjI)
qed

end
