(* ===== verification/Account_Tokens.thy ===== *)
theory Account_Tokens
  imports Credit_Period Drive_Service
begin

text \<open>
  The rules of the credentials of an account: \<open>domain/security/enitities/one_time_token.py\<close>,
  \<open>email_verification.py\<close>, \<open>password_reset.py\<close>, \<open>phone_verification.py\<close> and \<open>api_key.py\<close>, and the derived values
  of \<open>services/users/profile.py\<close> over the row of \<open>models/user.py\<close>. Instants are aware, in microseconds. The random
  values of \<open>secrets\<close> are arguments; SHA-256 and HMAC are functions of strings.
\<close>

section \<open>Credentials of an account\<close>

definition seconds :: "int \<Rightarrow> int" where "seconds n = n * 1000000"

subsection \<open>One-time tokens\<close>

record issued_token =
  it_raw :: string
  it_hashed :: string
  it_expires_at :: int

definition issue_token :: "(string \<Rightarrow> string) \<Rightarrow> string \<Rightarrow> int \<Rightarrow> int \<Rightarrow> issued_token" where
  "issue_token sha256 raw ttl now = \<lparr>it_raw = raw, it_hashed = sha256 raw, it_expires_at = now + ttl\<rparr>"

definition token_is_expired :: "int option \<Rightarrow> int \<Rightarrow> bool" where
  "token_is_expired expires_at now = (case expires_at of None \<Rightarrow> True | Some e \<Rightarrow> now \<ge> e)"

definition cooldown_elapsed :: "int option \<Rightarrow> int \<Rightarrow> int \<Rightarrow> bool" where
  "cooldown_elapsed sent_at cooldown_seconds now =
     (case sent_at of None \<Rightarrow> True | Some p \<Rightarrow> cooldown_seconds \<le> 0 \<or> now \<ge> p + seconds cooldown_seconds)"

definition issue_verification_token :: "(string \<Rightarrow> string) \<Rightarrow> string \<Rightarrow> int \<Rightarrow> int \<Rightarrow> issued_token" where
  "issue_verification_token sha256 raw ttl_hours now = issue_token sha256 raw (seconds (ttl_hours * 3600)) now"

definition issue_password_reset_token :: "(string \<Rightarrow> string) \<Rightarrow> string \<Rightarrow> int \<Rightarrow> int \<Rightarrow> issued_token result" where
  "issue_password_reset_token sha256 raw ttl_minutes now =
     (if ttl_minutes \<le> 0 then Inl (ValueError ''issue_password_reset_token requires a positive ttl_minutes'')
      else Inr (issue_token sha256 raw (seconds (ttl_minutes * 60)) now))"

subsection \<open>Phone codes\<close>

definition PHONE_CODE_DIGITS :: nat where "PHONE_CODE_DIGITS = 6"

text \<open>
  Phone numbers are read over code points, since a pattern's \<open>\d\<close> is every decimal digit of Unicode (general category
  Nd, in blocks of ten) and \<open>str.strip\<close> takes every Unicode white space away. The tables are those of Unicode 16,
  which the Python of the project carries.
\<close>

definition decimal_zeros :: "nat list" where
  "decimal_zeros = [0x30, 0x660, 0x6F0, 0x7C0, 0x966, 0x9E6, 0xA66, 0xAE6, 0xB66, 0xBE6, 0xC66, 0xCE6, 0xD66, 0xDE6,
     0xE50, 0xED0, 0xF20, 0x1040, 0x1090, 0x17E0, 0x1810, 0x1946, 0x19D0, 0x1A80, 0x1A90, 0x1B50, 0x1BB0, 0x1C40, 0x1C50,
     0xA620, 0xA8D0, 0xA900, 0xA9D0, 0xA9F0, 0xAA50, 0xABF0, 0xFF10, 0x104A0, 0x10D30, 0x10D40, 0x11066, 0x110F0, 0x11136,
     0x111D0, 0x112F0, 0x11450, 0x114D0, 0x11650, 0x116C0, 0x116D0, 0x116DA, 0x11730, 0x118E0, 0x11950, 0x11BF0, 0x11C50,
     0x11D50, 0x11DA0, 0x11F50, 0x16130, 0x16A60, 0x16AC0, 0x16B50, 0x16D70, 0x1CCF0, 0x1D7CE, 0x1D7D8, 0x1D7E2, 0x1D7EC,
     0x1D7F6, 0x1E140, 0x1E2F0, 0x1E4F0, 0x1E5F1, 0x1E950, 0x1FBF0]"

definition is_decimal :: "nat \<Rightarrow> bool" where
  "is_decimal n = (\<exists>z \<in> set decimal_zeros. z \<le> n \<and> n < z + 10)"

definition white_point :: "nat \<Rightarrow> bool" where
  "white_point n = ((9 \<le> n \<and> n \<le> 13) \<or> (28 \<le> n \<and> n \<le> 32) \<or> n = 133 \<or> n = 160 \<or> n = 0x1680 \<or> (0x2000 \<le> n \<and> n \<le> 0x200A)
     \<or> n = 0x2028 \<or> n = 0x2029 \<or> n = 0x202F \<or> n = 0x205F \<or> n = 0x3000)"

definition strip_points :: "nat list \<Rightarrow> nat list" where
  "strip_points s = rev (dropWhile white_point (rev (dropWhile white_point s)))"

text \<open>
  \<open>re.match(r"^\+[1-9]\d{7,14}$", s)\<close>: an end anchor also matches before a line break that ends the string.
\<close>

definition e164_body :: "nat list \<Rightarrow> bool" where
  "e164_body s = (case s of p # d # ds \<Rightarrow> p = 43 \<and> 49 \<le> d \<and> d \<le> 57 \<and> list_all is_decimal ds
       \<and> 7 \<le> length ds \<and> length ds \<le> 14 | _ \<Rightarrow> False)"

definition e164_match :: "nat list \<Rightarrow> bool" where
  "e164_match s = (e164_body s \<or> s \<noteq> [] \<and> last s = 10 \<and> e164_body (butlast s))"

definition is_e164 :: "nat list \<Rightarrow> bool" where
  "is_e164 value = (value \<noteq> [] \<and> e164_match value)"

definition STRIP_CHARS :: "nat list" where "STRIP_CHARS = [32, 45, 40, 41, 46, 9]"

definition drop_separators :: "nat list \<Rightarrow> nat list" where
  "drop_separators s = filter (\<lambda>c. c \<notin> set STRIP_CHARS) s"

definition normalize_points :: "nat list option \<Rightarrow> nat list result" where
  "normalize_points raw = (case raw of
       None \<Rightarrow> Inl (AppError InvalidPhoneNumber ''A phone number is required.'')
     | Some r \<Rightarrow>
        let cleaned = drop_separators (strip_points r);
            cleaned = (if take 2 cleaned = [48, 48] then 43 # drop 2 cleaned else cleaned) in
        if \<not> e164_match cleaned
        then Inl (AppError InvalidPhoneNumber ''Enter a phone number in international format, e.g. +14155552671.'')
        else Inr cleaned)"

text \<open>The accounts hold strings of characters up to code point 255: the same function on their code points.\<close>

definition normalize_phone_number :: "string option \<Rightarrow> string result" where
  "normalize_phone_number raw = map_sum id (map char_of) (normalize_points (map_option (map of_char) raw))"

text \<open>\<open>secrets.randbelow(10**6)\<close> is the argument.\<close>

definition generate_verification_code :: "nat \<Rightarrow> string" where
  "generate_verification_code rand = zfill PHONE_CODE_DIGITS (int rand)"

definition hash_verification_code :: "(string \<Rightarrow> string \<Rightarrow> string) \<Rightarrow> string \<Rightarrow> string \<Rightarrow> int \<Rightarrow> string" where
  "hash_verification_code hmac code secret user_id = hmac secret (str_int user_id @ '':'' @ code)"

definition code_matches :: "(string \<Rightarrow> string \<Rightarrow> string) \<Rightarrow> string \<Rightarrow> string option \<Rightarrow> string \<Rightarrow> int \<Rightarrow> bool" where
  "code_matches hmac code code_hash secret user_id =
     (case code_hash of None \<Rightarrow> False
      | Some h \<Rightarrow> h \<noteq> [] \<and> hash_verification_code hmac code secret user_id = h)"

definition code_is_expired :: "int option \<Rightarrow> int \<Rightarrow> bool" where
  "code_is_expired expires_at now = (case expires_at of None \<Rightarrow> True | Some e \<Rightarrow> e \<le> now)"

definition phone_cooldown_elapsed :: "int option \<Rightarrow> int \<Rightarrow> int \<Rightarrow> bool" where
  "phone_cooldown_elapsed sent_at now cooldown_seconds =
     (case sent_at of None \<Rightarrow> True | Some p \<Rightarrow> cooldown_seconds \<le> 0 \<or> now \<ge> p + seconds cooldown_seconds)"

text \<open>\<open>int(remaining.total_seconds())\<close> truncates; what remains is positive there.\<close>

definition seconds_until_resend_allowed :: "int option \<Rightarrow> int \<Rightarrow> int \<Rightarrow> int option" where
  "seconds_until_resend_allowed sent_at now cooldown_seconds =
     (case sent_at of None \<Rightarrow> None
      | Some p \<Rightarrow> if phone_cooldown_elapsed sent_at now cooldown_seconds then None
          else Some (max 0 ((p + seconds cooldown_seconds - now) div 1000000)))"

definition attempts_exhausted :: "int \<Rightarrow> int \<Rightarrow> bool" where
  "attempts_exhausted attempts max_attempts = (attempts \<ge> max_attempts)"

record issued_phone_code =
  ip_code :: string
  ip_code_hash :: string
  ip_sent_at :: int
  ip_expires_at :: int

definition issue_phone_code :: "(string \<Rightarrow> string \<Rightarrow> string) \<Rightarrow> nat \<Rightarrow> string \<Rightarrow> int \<Rightarrow> int \<Rightarrow> int \<Rightarrow> issued_phone_code" where
  "issue_phone_code hmac rand secret user_id ttl_minutes now =
     (let code = generate_verification_code rand in
      \<lparr>ip_code = code, ip_code_hash = hash_verification_code hmac code secret user_id,
       ip_sent_at = now, ip_expires_at = now + seconds (ttl_minutes * 60)\<rparr>)"

subsection \<open>API keys\<close>

datatype api_key_status = Key_ACTIVE | Key_INACTIVE | Key_REVOKED

record api_key =
  ak_id :: string
  ak_key :: string
  ak_user_id :: int
  ak_name :: string
  ak_status :: api_key_status
  ak_created_at :: int
  ak_expires_at :: "int option"
  ak_last_used_at :: "int option"
  ak_rate_limit_per_usage :: int

definition key_is_valid :: "api_key \<Rightarrow> int \<Rightarrow> bool" where
  "key_is_valid k now = (ak_status k = Key_ACTIVE \<and> (case ak_expires_at k of None \<Rightarrow> True | Some e \<Rightarrow> \<not> now > e))"

subsection \<open>Users and what is derived from them\<close>

record user_row =
  ac_id :: int
  ac_username :: string
  ac_email :: string
  ac_hashed_password :: string
  ac_is_active :: bool
  ac_created_at :: int
  ac_email_verified :: bool
  ac_email_verified_at :: "int option"
  ac_email_token_hash :: "string option"
  ac_email_sent_at :: "int option"
  ac_email_expires_at :: "int option"
  ac_reset_token_hash :: "string option"
  ac_reset_sent_at :: "int option"
  ac_reset_expires_at :: "int option"
  ac_first_name :: "string option"
  ac_last_name :: "string option"
  ac_avatar_data :: "string option"
  ac_avatar_content_type :: "string option"
  ac_avatar_updated_at :: "int option"
  ac_phone_number :: "string option"
  ac_phone_verified :: bool
  ac_phone_verified_at :: "int option"
  ac_phone_code_hash :: "string option"
  ac_phone_sent_at :: "int option"
  ac_phone_expires_at :: "int option"
  ac_phone_attempts :: int
  ac_default_save_folder_id :: "string option"

definition clean_optional_name :: "string option \<Rightarrow> string option" where
  "clean_optional_name value = (case value of None \<Rightarrow> None | Some v \<Rightarrow> if py_strip v = [] then None else Some (py_strip v))"

text \<open>\<open>_clean_name\<close> of the profile is the same rule.\<close>

definition clean_name_of :: "string option \<Rightarrow> string option" where
  "clean_name_of value = (case value of None \<Rightarrow> None | Some v \<Rightarrow> if py_strip v = [] then None else Some (py_strip v))"

definition given_names :: "user_row \<Rightarrow> string list" where
  "given_names u = List.map_filter (\<lambda>x. x) [clean_name_of (ac_first_name u), clean_name_of (ac_last_name u)]"

definition display_name_for :: "user_row \<Rightarrow> string" where
  "display_name_for u =
     (if given_names u \<noteq> [] then py_join '' '' (given_names u)
      else case clean_name_of (Some (ac_username u)) of None \<Rightarrow> ''Account'' | Some n \<Rightarrow> n)"

definition initials_for :: "user_row \<Rightarrow> string" where
  "initials_for u =
     (let from_names = concat (map (take 1) (given_names u)) in
      if from_names \<noteq> [] then py_upper from_names
      else case clean_name_of (Some (ac_username u)) of None \<Rightarrow> ''?'' | Some n \<Rightarrow> py_upper (take 2 n))"

text \<open>\<open>b64encode\<close>: three bytes become four characters, a shorter end is padded.\<close>

definition b64_alphabet :: string where
  "b64_alphabet = ''ABCDEFGHIJKLMNOPQRSTUVWXYZabcdefghijklmnopqrstuvwxyz0123456789+/''"

definition b64_group :: "nat \<Rightarrow> string" where
  "b64_group v = map (\<lambda>k. b64_alphabet ! (v div 64 ^ k mod 64)) [3, 2, 1, 0]"

fun b64encode :: "string \<Rightarrow> string" where
  "b64encode [] = []"
| "b64encode [a] = take 2 (b64_group (of_char a * 65536)) @ ''==''"
| "b64encode [a, b] = take 3 (b64_group (of_char a * 65536 + of_char b * 256)) @ ''=''"
| "b64encode (a # b # c # rest) = b64_group (of_char a * 65536 + of_char b * 256 + of_char c) @ b64encode rest"

definition avatar_data_url_for :: "user_row \<Rightarrow> string option" where
  "avatar_data_url_for u = (case ac_avatar_data u of None \<Rightarrow> None
     | Some d \<Rightarrow> if d = [] then None
         else Some (''data:'' @ (case ac_avatar_content_type u of None \<Rightarrow> ''image/webp'' | Some t \<Rightarrow> if t = [] then ''image/webp'' else t)
           @ '';base64,'' @ b64encode d))"

record user_response =
  ur_id :: int
  ur_username :: string
  ur_email :: string
  ur_is_active :: bool
  ur_created_at :: int
  ur_email_verified :: bool
  ur_first_name :: "string option"
  ur_last_name :: "string option"
  ur_display_name :: string
  ur_initials :: string
  ur_avatar_url :: "string option"
  ur_phone_number :: "string option"
  ur_phone_verified :: bool
  ur_default_save_folder_id :: "string option"

definition to_user_response :: "user_row \<Rightarrow> user_response" where
  "to_user_response u = \<lparr>ur_id = ac_id u, ur_username = ac_username u, ur_email = ac_email u, ur_is_active = ac_is_active u,
     ur_created_at = ac_created_at u, ur_email_verified = ac_email_verified u, ur_first_name = ac_first_name u,
     ur_last_name = ac_last_name u, ur_display_name = display_name_for u, ur_initials = initials_for u,
     ur_avatar_url = avatar_data_url_for u, ur_phone_number = ac_phone_number u, ur_phone_verified = ac_phone_verified u,
     ur_default_save_folder_id = ac_default_save_folder_id u\<rparr>"

end
