(* ===== verification/Account_Service.thy ===== *)
theory Account_Service
  imports Account_Tokens Credit_Ledger
begin

text \<open>
  The routes of \<open>routers/v1/users.py\<close>, the API keys (\<open>sql_api_key_repo.py\<close>, \<open>services/developer/api_key_service.py\<close>,
  \<open>routers/v1/api_keys.py\<close>), the tokens of \<open>infrastructure/auth/jwt_provider.py\<close> and the authentication of
  \<open>dependencies/auth_dependencies.py\<close>. Every read and every commit of the table of users lets other sessions act first
  (\<open>ae_rivals\<close>); a commit fails when it breaks a unique column. Passwords are hashed and verified, JSON web tokens coded
  and decoded, messages delivered and avatars rendered by parameters.
\<close>

section \<open>The accounts\<close>

record account_settings =
  st_email_verification_required :: bool
  st_email_backend :: string
  st_resend_api_key :: "string option"
  st_smtp_host :: "string option"
  st_app_base_url :: string
  st_email_ttl_hours :: int
  st_email_cooldown :: int
  st_reset_ttl_minutes :: int
  st_reset_cooldown :: int
  st_phone_ttl_minutes :: int
  st_phone_cooldown :: int
  st_phone_max_attempts :: int
  st_secret_key :: string
  st_access_minutes :: int
  st_refresh_days :: int

record token_claims =
  jc_sub :: "string option"
  jc_exp :: "int option"
  jc_type :: "string option"

datatype outgoing = Verification_mail string string string | Reset_mail string string string | Phone_sms string string

datatype render_fault = Decompression_bomb | Undecodable_image | Render_raises exn

record account_state =
  as_users :: "user_row list"
  as_next_id :: int
  as_keys :: "api_key list"
  as_jobs :: "job_row list"
  as_ledger :: ledger
  as_drive :: drive_state
  as_outbox :: "outgoing list"
  as_ticks :: nat

record account_env =
  ae_settings :: account_settings
  ae_clock :: "nat \<Rightarrow> int"
  ae_secret_token :: "nat \<Rightarrow> string"
  ae_randbelow :: "nat \<Rightarrow> nat"
  ae_uuid :: "nat \<Rightarrow> string"
  ae_sha256 :: "string \<Rightarrow> string"
  ae_hmac :: "string \<Rightarrow> string \<Rightarrow> string"
  ae_hash_password :: "nat \<Rightarrow> string \<Rightarrow> string"
  ae_verify_password :: "string \<Rightarrow> string \<Rightarrow> bool"
  ae_send_up :: "nat \<Rightarrow> bool"
  ae_jwt_encode :: "string \<Rightarrow> token_claims \<Rightarrow> string"
  ae_jwt_decode :: "string \<Rightarrow> string \<Rightarrow> int \<Rightarrow> token_claims option"
  ae_render_avatar :: "string \<Rightarrow> render_fault + string"
  ae_rivals :: "nat \<Rightarrow> user_row list \<Rightarrow> user_row list"

type_synonym 'a account_op = "account_state \<Rightarrow> 'a result \<times> account_state"

subsection \<open>The session\<close>

definition account_tick :: "(nat \<Rightarrow> 'a) \<Rightarrow> 'a account_op" where
  "account_tick f s = (Inr (f (as_ticks s)), s\<lparr>as_ticks := Suc (as_ticks s)\<rparr>)"

definition account_sync :: "account_env \<Rightarrow> account_state \<Rightarrow> account_state" where
  "account_sync env s = s\<lparr>as_users := ae_rivals env (as_ticks s) (as_users s), as_ticks := Suc (as_ticks s)\<rparr>"

definition select_users :: "account_env \<Rightarrow> (user_row \<Rightarrow> bool) \<Rightarrow> user_row list account_op" where
  "select_users env P s = (let t = account_sync env s in (Inr (sql_select P (as_users t)), t))"

definition unique_column :: "(user_row \<Rightarrow> 'k option) \<Rightarrow> user_row list \<Rightarrow> bool" where
  "unique_column f t = unique_nullable f t"

definition users_ok :: "user_row list \<Rightarrow> bool" where
  "users_ok t = (unique_key ac_id t \<and> unique_key ac_username t \<and> unique_key ac_email t \<and> unique_column ac_phone_number t)"

definition commit_users :: "account_env \<Rightarrow> (user_row list \<Rightarrow> user_row list) \<Rightarrow> unit account_op" where
  "commit_users env f s = (let t = account_sync env s in
     if users_ok (f (as_users t)) then (Inr (), t\<lparr>as_users := f (as_users t)\<rparr>) else (Inl IntegrityError, t))"

text \<open>A conditional \<open>UPDATE \<dots> RETURNING\<close> and its commit: whether a row matched.\<close>

definition update_users_where :: "account_env \<Rightarrow> (user_row \<Rightarrow> bool) \<Rightarrow> (user_row \<Rightarrow> user_row) \<Rightarrow> bool account_op" where
  "update_users_where env P f s = (let t = account_sync env s in
     (Inr (\<exists>r \<in> set (as_users t). P r), t\<lparr>as_users := sql_update P f (as_users t)\<rparr>))"

text \<open>The unit of work writes the columns that changed since the row was loaded, and only those.\<close>

definition merge_user :: "user_row \<Rightarrow> user_row \<Rightarrow> user_row \<Rightarrow> user_row" where
  "merge_user old new row =
     row\<lparr>ac_hashed_password := (if ac_hashed_password new = ac_hashed_password old then ac_hashed_password row else ac_hashed_password new),
        ac_email_token_hash := (if ac_email_token_hash new = ac_email_token_hash old then ac_email_token_hash row else ac_email_token_hash new),
        ac_email_sent_at := (if ac_email_sent_at new = ac_email_sent_at old then ac_email_sent_at row else ac_email_sent_at new),
        ac_email_expires_at := (if ac_email_expires_at new = ac_email_expires_at old then ac_email_expires_at row else ac_email_expires_at new),
        ac_reset_token_hash := (if ac_reset_token_hash new = ac_reset_token_hash old then ac_reset_token_hash row else ac_reset_token_hash new),
        ac_reset_sent_at := (if ac_reset_sent_at new = ac_reset_sent_at old then ac_reset_sent_at row else ac_reset_sent_at new),
        ac_reset_expires_at := (if ac_reset_expires_at new = ac_reset_expires_at old then ac_reset_expires_at row else ac_reset_expires_at new),
        ac_first_name := (if ac_first_name new = ac_first_name old then ac_first_name row else ac_first_name new),
        ac_last_name := (if ac_last_name new = ac_last_name old then ac_last_name row else ac_last_name new),
        ac_avatar_data := (if ac_avatar_data new = ac_avatar_data old then ac_avatar_data row else ac_avatar_data new),
        ac_avatar_content_type := (if ac_avatar_content_type new = ac_avatar_content_type old then ac_avatar_content_type row else ac_avatar_content_type new),
        ac_avatar_updated_at := (if ac_avatar_updated_at new = ac_avatar_updated_at old then ac_avatar_updated_at row else ac_avatar_updated_at new),
        ac_phone_number := (if ac_phone_number new = ac_phone_number old then ac_phone_number row else ac_phone_number new),
        ac_phone_verified := (if ac_phone_verified new = ac_phone_verified old then ac_phone_verified row else ac_phone_verified new),
        ac_phone_verified_at := (if ac_phone_verified_at new = ac_phone_verified_at old then ac_phone_verified_at row else ac_phone_verified_at new),
        ac_phone_code_hash := (if ac_phone_code_hash new = ac_phone_code_hash old then ac_phone_code_hash row else ac_phone_code_hash new),
        ac_phone_sent_at := (if ac_phone_sent_at new = ac_phone_sent_at old then ac_phone_sent_at row else ac_phone_sent_at new),
        ac_phone_expires_at := (if ac_phone_expires_at new = ac_phone_expires_at old then ac_phone_expires_at row else ac_phone_expires_at new),
        ac_phone_attempts := (if ac_phone_attempts new = ac_phone_attempts old then ac_phone_attempts row else ac_phone_attempts new),
        ac_default_save_folder_id := (if ac_default_save_folder_id new = ac_default_save_folder_id old then ac_default_save_folder_id row
          else ac_default_save_folder_id new)\<rparr>"

definition save_user :: "account_env \<Rightarrow> user_row \<Rightarrow> user_row \<Rightarrow> unit account_op" where
  "save_user env old new s =
     (if new = old then (Inr (), account_sync env s)
      else if ac_id old \<notin> ac_id ` set (as_users (account_sync env s)) then (Inl (OtherError ''StaleDataError''), account_sync env s)
      else commit_users env (sql_update (\<lambda>r. ac_id r = ac_id old) (merge_user old new)) s)"

definition send_message :: "account_env \<Rightarrow> outgoing \<Rightarrow> bool account_op" where
  "send_message env m s = (let up = ae_send_up env (as_ticks s); t = s\<lparr>as_ticks := Suc (as_ticks s)\<rparr> in
     (Inr up, if up then t\<lparr>as_outbox := as_outbox t @ [m]\<rparr> else t))"

definition account_now :: "account_env \<Rightarrow> int account_op" where
  "account_now env = account_tick (ae_clock env)"

text \<open>The structured detail of an error: its code and its message, one per line.\<close>

definition error_detail :: "string \<Rightarrow> string \<Rightarrow> string" where
  "error_detail code message = code @ [CHR 0x0A] @ message"

subsection \<open>Tokens and authentication\<close>

definition create_access_token :: "account_env \<Rightarrow> string \<Rightarrow> string account_op" where
  "create_access_token env sub = sbind (account_now env) (\<lambda>now. sreturn (Inr (ae_jwt_encode env (st_secret_key (ae_settings env))
     \<lparr>jc_sub = Some sub, jc_exp = Some (now + seconds (st_access_minutes (ae_settings env) * 60)), jc_type = Some ''access''\<rparr>)))"

definition create_refresh_token :: "account_env \<Rightarrow> string \<Rightarrow> string account_op" where
  "create_refresh_token env sub = sbind (account_now env) (\<lambda>now. sreturn (Inr (ae_jwt_encode env (st_secret_key (ae_settings env))
     \<lparr>jc_sub = Some sub, jc_exp = Some (now + seconds (st_refresh_days (ae_settings env) * 86400)), jc_type = Some ''refresh''\<rparr>)))"

text \<open>\<open>jwt.decode\<close> with \<open>require: exp, sub\<close> refuses claims without them.\<close>

definition decoded_claims :: "account_env \<Rightarrow> string \<Rightarrow> int \<Rightarrow> token_claims option" where
  "decoded_claims env token now = (case ae_jwt_decode env (st_secret_key (ae_settings env)) token now of
       None \<Rightarrow> None | Some c \<Rightarrow> if jc_sub c = None \<or> jc_exp c = None then None else Some c)"

definition verify_access_token :: "account_env \<Rightarrow> string \<Rightarrow> int \<Rightarrow> string option" where
  "verify_access_token env token now = (case decoded_claims env token now of
       None \<Rightarrow> None | Some c \<Rightarrow> if jc_type c \<noteq> Some ''access'' then None else jc_sub c)"

definition verify_refresh_token :: "account_env \<Rightarrow> string \<Rightarrow> int \<Rightarrow> string option" where
  "verify_refresh_token env token now = (case decoded_claims env token now of
       None \<Rightarrow> None | Some c \<Rightarrow> if jc_type c \<noteq> Some ''refresh'' then None else jc_sub c)"

definition active_user :: "account_env \<Rightarrow> int \<Rightarrow> user_row account_op" where
  "active_user env user_id = sbind (select_users env (\<lambda>r. ac_id r = user_id)) (\<lambda>rows.
     case sql_first rows of
       None \<Rightarrow> raise_op (HTTPException 401 ''Invalid or inactive user'')
     | Some u \<Rightarrow> if \<not> ac_is_active u then raise_op (HTTPException 401 ''Invalid or inactive user'') else sreturn (Inr u))"

definition authenticate_jwt :: "account_env \<Rightarrow> string option \<Rightarrow> user_row account_op" where
  "authenticate_jwt env token = (case token of
       None \<Rightarrow> raise_op (HTTPException 401 ''Not authenticated'')
     | Some tk \<Rightarrow> if tk = [] then raise_op (HTTPException 401 ''Not authenticated'')
        else sbind (account_now env) (\<lambda>now.
          case verify_access_token env tk now of
            None \<Rightarrow> raise_op (HTTPException 401 ''Invalid or expired token'')
          | Some sub \<Rightarrow> (case py_int sub of
              Inl _ \<Rightarrow> raise_op (HTTPException 401 ''Invalid or expired token'')
            | Inr user_id \<Rightarrow> active_user env user_id)))"

subsection \<open>API keys\<close>

definition get_key_by_id :: "string \<Rightarrow> api_key option account_op" where
  "get_key_by_id key_id s = (scalar_one_or_none (sql_select (\<lambda>k. ak_id k = key_id) (as_keys s)), s)"

definition find_api_key :: "string \<Rightarrow> api_key option account_op" where
  "find_api_key key_hash s = (scalar_one_or_none (sql_select (\<lambda>k. ak_key k = key_hash) (as_keys s)), s)"

definition save_api_key :: "api_key \<Rightarrow> unit account_op" where
  "save_api_key k s = (if ak_id k \<in> ak_id ` set (as_keys s) \<or> ak_key k \<in> ak_key ` set (as_keys s) then (Inl IntegrityError, s)
     else (Inr (), s\<lparr>as_keys := as_keys s @ [k]\<rparr>))"

definition find_keys_by_user :: "int \<Rightarrow> api_key list account_op" where
  "find_keys_by_user user_id s = (Inr (order_desc ak_created_at (sql_select (\<lambda>k. ak_user_id k = user_id) (as_keys s))), s)"

definition update_api_key :: "api_key \<Rightarrow> unit account_op" where
  "update_api_key k s = (Inr (), s\<lparr>as_keys := sql_update (\<lambda>r. ak_id r = ak_id k)
     (\<lambda>r. r\<lparr>ak_status := ak_status k, ak_last_used_at := ak_last_used_at k, ak_expires_at := ak_expires_at k\<rparr>) (as_keys s)\<rparr>)"

definition touch_last_used :: "account_env \<Rightarrow> string \<Rightarrow> unit account_op" where
  "touch_last_used env key_id = sbind (account_now env) (\<lambda>now.
     smodify (\<lambda>s. s\<lparr>as_keys := sql_update (\<lambda>r. ak_id r = key_id) (\<lambda>r. r\<lparr>ak_last_used_at := Some now\<rparr>) (as_keys s)\<rparr>))"

definition delete_key_row :: "string \<Rightarrow> bool account_op" where
  "delete_key_row key_id s = (Inr (0 < sql_count (\<lambda>k. ak_id k = key_id) (as_keys s)),
     s\<lparr>as_keys := sql_delete (\<lambda>k. ak_id k = key_id) (as_keys s)\<rparr>)"

definition KEY_PREFIX :: string where "KEY_PREFIX = ''tr_''"

definition LAST_USED_REFRESH_INTERVAL :: int where "LAST_USED_REFRESH_INTERVAL = seconds 300"

definition last_used_is_stale :: "int option \<Rightarrow> int \<Rightarrow> bool" where
  "last_used_is_stale last_used_at now = (case last_used_at of None \<Rightarrow> True | Some t \<Rightarrow> now - t > LAST_USED_REFRESH_INTERVAL)"

definition create_key :: "account_env \<Rightarrow> int \<Rightarrow> string \<Rightarrow> int option \<Rightarrow> int \<Rightarrow> (string \<times> api_key) account_op" where
  "create_key env user_id name expires_in_days rate_limit =
     sbind (account_tick (ae_secret_token env)) (\<lambda>raw.
     sbind (account_tick (ae_uuid env)) (\<lambda>new_id.
     sbind (account_now env) (\<lambda>created.
     sbind (account_now env) (\<lambda>now.
       let plaintext = KEY_PREFIX @ raw;
           k = \<lparr>ak_id = new_id, ak_key = ae_sha256 env plaintext, ak_user_id = user_id, ak_name = name, ak_status = Key_ACTIVE,
             ak_created_at = created,
             ak_expires_at = (case expires_in_days of None \<Rightarrow> None | Some d \<Rightarrow> if d = 0 then None else Some (now + seconds (d * 86400))),
             ak_last_used_at = None, ak_rate_limit_per_usage = rate_limit\<rparr> in
       sbind (save_api_key k) (\<lambda>_. sreturn (Inr (plaintext, k)))))))"

definition revoke_key :: "string \<Rightarrow> int \<Rightarrow> api_key option account_op" where
  "revoke_key key_id user_id = sbind (get_key_by_id key_id) (\<lambda>found.
     case found of
       None \<Rightarrow> sreturn (Inr None)
     | Some k \<Rightarrow> if ak_user_id k \<noteq> user_id then sreturn (Inr None)
        else if ak_status k \<noteq> Key_REVOKED
        then sbind (update_api_key (k\<lparr>ak_status := Key_REVOKED\<rparr>)) (\<lambda>_. sreturn (Inr (Some (k\<lparr>ak_status := Key_REVOKED\<rparr>))))
        else sreturn (Inr (Some k)))"

definition delete_key :: "string \<Rightarrow> int \<Rightarrow> bool account_op" where
  "delete_key key_id user_id = sbind (get_key_by_id key_id) (\<lambda>found.
     case found of
       None \<Rightarrow> sreturn (Inr False)
     | Some k \<Rightarrow> if ak_user_id k \<noteq> user_id then sreturn (Inr False) else delete_key_row key_id)"

definition authenticate_key :: "account_env \<Rightarrow> string \<Rightarrow> api_key option account_op" where
  "authenticate_key env plaintext =
     sbind (find_api_key (ae_sha256 env plaintext)) (\<lambda>found.
     case found of
       None \<Rightarrow> sreturn (Inr None)
     | Some k \<Rightarrow> sbind (account_now env) (\<lambda>now.
        if \<not> key_is_valid k now then sreturn (Inr None)
        else sbind (account_now env) (\<lambda>later.
          if last_used_is_stale (ak_last_used_at k) later
          then sbind (touch_last_used env (ak_id k)) (\<lambda>_. sreturn (Inr (Some k)))
          else sreturn (Inr (Some k)))))"

definition authenticate_api_key :: "account_env \<Rightarrow> string \<Rightarrow> user_row account_op" where
  "authenticate_api_key env header = sbind (authenticate_key env header) (\<lambda>found.
     case found of
       None \<Rightarrow> raise_op (HTTPException 401 ''Invalid or expired API key'')
     | Some k \<Rightarrow> active_user env (ak_user_id k))"

definition get_current_user :: "account_env \<Rightarrow> string option \<Rightarrow> string option \<Rightarrow> user_row account_op" where
  "get_current_user env token x_api_key = (case x_api_key of
       None \<Rightarrow> authenticate_jwt env token
     | Some h \<Rightarrow> if h = [] then authenticate_jwt env token else authenticate_api_key env h)"

definition get_request_origin :: "string option \<Rightarrow> job_origin" where
  "get_request_origin x_api_key = (case x_api_key of None \<Rightarrow> Origin_WEB | Some h \<Rightarrow> if h = [] then Origin_WEB else Origin_API)"

definition create_api_key :: "account_env \<Rightarrow> user_row \<Rightarrow> string \<Rightarrow> int option \<Rightarrow> int option \<Rightarrow> (string \<times> api_key) account_op" where
  "create_api_key env current_user name expires_in_days rate_limit =
     create_key env (ac_id current_user) name expires_in_days (case rate_limit of None \<Rightarrow> 100 | Some r \<Rightarrow> if r = 0 then 100 else r)"

definition list_api_keys :: "user_row \<Rightarrow> api_key list account_op" where
  "list_api_keys current_user = find_keys_by_user (ac_id current_user)"

definition revoke_api_key :: "user_row \<Rightarrow> string \<Rightarrow> unit account_op" where
  "revoke_api_key current_user key_id = sbind (revoke_key key_id (ac_id current_user)) (\<lambda>found.
     if found = None then raise_op (HTTPException 404 ''API key not found'') else sreturn (Inr ()))"

end
