(* ===== verification/Account_Routes.thy ===== *)
theory Account_Routes
  imports Account_Service
begin

text \<open>
  The handlers of \<open>routers/v1/users.py\<close>. A handler behind the authentication takes the row that \<open>get_current_user\<close>
  loaded. An optional field of a request body that may be absent is an option of its value. The texts of the messages
  are not modelled; a message is the values it carries.
\<close>

section \<open>The routes of the users\<close>

definition invalid_token_message :: string where
  "invalid_token_message = ''This verification link is invalid or has expired. Request a new one and try again.''"

definition resend_accepted_message :: string where
  "resend_accepted_message = ''If an account with that email address needs verification, a new link is on its way.''"

definition invalid_reset_token_message :: string where
  "invalid_reset_token_message = ''This password reset link is invalid or has expired. Request a new one and try again.''"

definition forgot_password_accepted_message :: string where
  "forgot_password_accepted_message = ''If an account with that email address exists, we've sent instructions for resetting your password.''"

definition resolve_email_backend :: "account_settings \<Rightarrow> string" where
  "resolve_email_backend st = (let configured = py_lower (py_strip (st_email_backend st)) in
     if configured \<noteq> ''auto'' then configured
     else if (case st_resend_api_key st of None \<Rightarrow> False | Some k \<Rightarrow> py_strip k \<noteq> []) then ''resend''
     else if (case st_smtp_host st of None \<Rightarrow> False | Some h \<Rightarrow> h \<noteq> []) then ''smtp''
     else ''console'')"

definition email_verification_is_enforced :: "account_settings \<Rightarrow> bool" where
  "email_verification_is_enforced st = (st_email_verification_required st \<and> resolve_email_backend st \<noteq> ''console'')"

text \<open>\<open>urllib.parse.quote(s, safe="")\<close>: the bytes of UTF-8, escaped unless unreserved.\<close>

definition utf8_bytes :: "char \<Rightarrow> nat list" where
  "utf8_bytes c = (let n = of_char c :: nat in if n < 128 then [n] else [192 + n div 64, 128 + n mod 64])"

definition unreserved :: "nat \<Rightarrow> bool" where
  "unreserved n = ((48 \<le> n \<and> n \<le> 57) \<or> (65 \<le> n \<and> n \<le> 90) \<or> (97 \<le> n \<and> n \<le> 122) \<or> n \<in> {45, 46, 95, 126})"

definition upper_hex :: "nat \<Rightarrow> char" where
  "upper_hex d = (if d < 10 then char_of (48 + d) else char_of (55 + d))"

definition py_quote :: "string \<Rightarrow> string" where
  "py_quote s = concat (map (\<lambda>n. if unreserved n then [char_of n] else [CHR ''%'', upper_hex (n div 16), upper_hex (n mod 16)])
     (concat (map utf8_bytes s)))"

definition build_verification_url :: "string \<Rightarrow> account_settings \<Rightarrow> string" where
  "build_verification_url token st = rstrip_slash (st_app_base_url st) @ ''/verify-email?token='' @ py_quote token"

definition build_password_reset_url :: "string \<Rightarrow> account_settings \<Rightarrow> string" where
  "build_password_reset_url token st = rstrip_slash (st_app_base_url st) @ ''/reset-password?token='' @ py_quote token"

subsection \<open>Registration and the links\<close>

definition issue_and_send_verification_email :: "account_env \<Rightarrow> user_row \<Rightarrow> bool \<Rightarrow> (bool \<times> user_row) account_op" where
  "issue_and_send_verification_email env user respect_cooldown =
     sbind (account_now env) (\<lambda>now.
     if respect_cooldown \<and> \<not> cooldown_elapsed (ac_email_sent_at user) (st_email_cooldown (ae_settings env)) now
     then sreturn (Inr (False, user))
     else sbind (account_tick (ae_secret_token env)) (\<lambda>raw.
       sbind (account_now env) (\<lambda>t.
       let token = issue_verification_token (ae_sha256 env) raw (st_email_ttl_hours (ae_settings env)) t;
           issued = user\<lparr>ac_email_token_hash := Some (it_hashed token), ac_email_expires_at := Some (it_expires_at token)\<rparr> in
       sbind (save_user env user issued) (\<lambda>_.
       sbind (send_message env (Verification_mail (ac_email user) (ac_username user) (build_verification_url (it_raw token) (ae_settings env)))) (\<lambda>sent.
       if \<not> sent then sreturn (Inr (False, issued))
       else sbind (account_now env) (\<lambda>sent_at.
         let stamped = issued\<lparr>ac_email_sent_at := Some sent_at\<rparr> in
         sbind (save_user env issued stamped) (\<lambda>_. sreturn (Inr (True, stamped)))))))))"

definition issue_and_send_password_reset_email :: "account_env \<Rightarrow> user_row \<Rightarrow> bool \<Rightarrow> (bool \<times> user_row) account_op" where
  "issue_and_send_password_reset_email env user respect_cooldown =
     sbind (account_now env) (\<lambda>now.
     if respect_cooldown \<and> \<not> cooldown_elapsed (ac_reset_sent_at user) (st_reset_cooldown (ae_settings env)) now
     then sreturn (Inr (False, user))
     else sbind (account_tick (ae_secret_token env)) (\<lambda>raw.
       sbind (account_now env) (\<lambda>t.
       sbind (sreturn (issue_password_reset_token (ae_sha256 env) raw (st_reset_ttl_minutes (ae_settings env)) t)) (\<lambda>token.
       let issued = user\<lparr>ac_reset_token_hash := Some (it_hashed token), ac_reset_expires_at := Some (it_expires_at token)\<rparr> in
       sbind (save_user env user issued) (\<lambda>_.
       sbind (send_message env (Reset_mail (ac_email user) (ac_username user) (build_password_reset_url (it_raw token) (ae_settings env)))) (\<lambda>sent.
       if \<not> sent then sreturn (Inr (False, issued))
       else sbind (account_now env) (\<lambda>sent_at.
         let stamped = issued\<lparr>ac_reset_sent_at := Some sent_at\<rparr> in
         sbind (save_user env issued stamped) (\<lambda>_. sreturn (Inr (True, stamped))))))))))"

record register_payload =
  rp_username :: string
  rp_email :: string
  rp_password :: string
  rp_first_name :: "string option"
  rp_last_name :: "string option"

definition new_user :: "int \<Rightarrow> string \<Rightarrow> int \<Rightarrow> register_payload \<Rightarrow> user_row" where
  "new_user new_id hashed now p = \<lparr>ac_id = new_id, ac_username = rp_username p, ac_email = rp_email p, ac_hashed_password = hashed,
     ac_is_active = True, ac_created_at = now, ac_email_verified = False, ac_email_verified_at = None, ac_email_token_hash = None,
     ac_email_sent_at = None, ac_email_expires_at = None, ac_reset_token_hash = None, ac_reset_sent_at = None, ac_reset_expires_at = None,
     ac_first_name = clean_optional_name (rp_first_name p), ac_last_name = clean_optional_name (rp_last_name p), ac_avatar_data = None,
     ac_avatar_content_type = None, ac_avatar_updated_at = None, ac_phone_number = None, ac_phone_verified = False,
     ac_phone_verified_at = None, ac_phone_code_hash = None, ac_phone_sent_at = None, ac_phone_expires_at = None,
     ac_phone_attempts = 0, ac_default_save_folder_id = None\<rparr>"

text \<open>The identifier comes from a sequence, which advances even when the insertion fails.\<close>

definition insert_user :: "account_env \<Rightarrow> string \<Rightarrow> register_payload \<Rightarrow> user_row account_op" where
  "insert_user env hashed p = sbind (account_now env) (\<lambda>now s.
     let u = new_user (as_next_id s) hashed now p in
     sbind (commit_users env (\<lambda>t. t @ [u])) (\<lambda>_. sreturn (Inr u)) (s\<lparr>as_next_id := as_next_id s + 1\<rparr>))"

definition account_conflict :: exn where
  "account_conflict = HTTPException 409 ''Username or email already exists''"

definition register_user :: "account_env \<Rightarrow> register_payload \<Rightarrow> user_response account_op" where
  "register_user env p =
     sbind (select_users env (\<lambda>r. ac_username r = rp_username p \<or> ac_email r = rp_email p)) (\<lambda>existing.
     if sql_first existing \<noteq> None then raise_op account_conflict
     else sbind (account_tick (\<lambda>n. ae_hash_password env n (rp_password p))) (\<lambda>hashed.
       sbind (try_op (insert_user env hashed p) (\<lambda>e. case e of IntegrityError \<Rightarrow> raise_op account_conflict | _ \<Rightarrow> raise_op e)) (\<lambda>user.
       sbind (issue_and_send_verification_email env user False) (\<lambda>sent.
       sreturn (Inr (to_user_response (snd sent)))))))"

record email_response =
  er_already_verified :: bool
  er_username :: string
  er_message :: string

definition email_token_live :: "user_row \<Rightarrow> string \<Rightarrow> int \<Rightarrow> user_row \<Rightarrow> bool" where
  "email_token_live user token_hash now r = (ac_id r = ac_id user \<and> ac_email_token_hash r = Some token_hash
     \<and> (case ac_email_expires_at r of None \<Rightarrow> False | Some e \<Rightarrow> e > now))"

definition activate_email :: "int \<Rightarrow> user_row \<Rightarrow> user_row" where
  "activate_email now r = r\<lparr>ac_email_verified := True, ac_email_verified_at := Some now, ac_email_token_hash := None, ac_email_expires_at := None\<rparr>"

definition drop_email_token :: "user_row \<Rightarrow> user_row" where
  "drop_email_token u = u\<lparr>ac_email_token_hash := None, ac_email_expires_at := None\<rparr>"

definition verify_email :: "account_env \<Rightarrow> string \<Rightarrow> email_response account_op" where
  "verify_email env token =
     (let token_hash = ae_sha256 env token; refused = raise_op (HTTPException 400 invalid_token_message) in
      sbind (account_now env) (\<lambda>now.
      sbind (select_users env (\<lambda>r. ac_email_token_hash r = Some token_hash)) (\<lambda>rows.
      case sql_first rows of
        None \<Rightarrow> refused
      | Some user \<Rightarrow>
         if ac_email_verified user
         then sbind (save_user env user (drop_email_token user)) (\<lambda>_.
           sreturn (Inr \<lparr>er_already_verified = True, er_username = ac_username user,
             er_message = ''Your email address is already verified. You can sign in.''\<rparr>))
         else if token_is_expired (ac_email_expires_at user) now
         then sbind (save_user env user (drop_email_token user)) (\<lambda>_. refused)
         else sbind (update_users_where env (email_token_live user token_hash now) (activate_email now)) (\<lambda>consumed.
           if \<not> consumed then refused
           else sreturn (Inr \<lparr>er_already_verified = False, er_username = ac_username user,
             er_message = ''Your email address is verified. You can now sign in.''\<rparr>)))))"

definition email_matches :: "string \<Rightarrow> user_row \<Rightarrow> bool" where
  "email_matches email r = (py_lower (ac_email r) = py_lower (py_strip email))"

definition resend_verification_email :: "account_env \<Rightarrow> string \<Rightarrow> string account_op" where
  "resend_verification_email env email =
     sbind (select_users env (email_matches email)) (\<lambda>rows.
     sbind (case sql_first rows of
         None \<Rightarrow> sreturn (Inr ())
       | Some user \<Rightarrow> if ac_is_active user \<and> \<not> ac_email_verified user
           then sbind (issue_and_send_verification_email env user True) (\<lambda>_. sreturn (Inr ()))
           else sreturn (Inr ())) (\<lambda>_.
     sreturn (Inr resend_accepted_message)))"

definition forgot_password :: "account_env \<Rightarrow> string \<Rightarrow> string account_op" where
  "forgot_password env email =
     sbind (select_users env (email_matches email)) (\<lambda>rows.
     sbind (case sql_first rows of
         None \<Rightarrow> sreturn (Inr ())
       | Some user \<Rightarrow> if ac_is_active user
           then sbind (issue_and_send_password_reset_email env user True) (\<lambda>_. sreturn (Inr ()))
           else sreturn (Inr ())) (\<lambda>_.
     sreturn (Inr forgot_password_accepted_message)))"

definition reset_token_live :: "user_row \<Rightarrow> string \<Rightarrow> int \<Rightarrow> user_row \<Rightarrow> bool" where
  "reset_token_live user token_hash now r = (ac_id r = ac_id user \<and> ac_reset_token_hash r = Some token_hash
     \<and> (case ac_reset_expires_at r of None \<Rightarrow> False | Some e \<Rightarrow> e > now))"

definition apply_reset :: "string \<Rightarrow> int \<Rightarrow> user_row \<Rightarrow> user_row" where
  "apply_reset hashed now r = r\<lparr>ac_hashed_password := hashed, ac_reset_token_hash := None, ac_reset_expires_at := None,
     ac_email_verified := True, ac_email_verified_at := (case ac_email_verified_at r of None \<Rightarrow> Some now | Some t \<Rightarrow> Some t)\<rparr>"

definition reset_password :: "account_env \<Rightarrow> string \<Rightarrow> string \<Rightarrow> string account_op" where
  "reset_password env token new_password =
     (let token_hash = ae_sha256 env token; refused = raise_op (HTTPException 400 invalid_reset_token_message) in
      sbind (account_now env) (\<lambda>now.
      sbind (select_users env (\<lambda>r. ac_reset_token_hash r = Some token_hash)) (\<lambda>rows.
      case sql_first rows of
        None \<Rightarrow> refused
      | Some user \<Rightarrow>
         if token_is_expired (ac_reset_expires_at user) now
         then sbind (save_user env user (user\<lparr>ac_reset_token_hash := None, ac_reset_expires_at := None\<rparr>)) (\<lambda>_. refused)
         else sbind (account_tick (\<lambda>n. ae_hash_password env n new_password)) (\<lambda>hashed.
           sbind (update_users_where env (reset_token_live user token_hash now) (apply_reset hashed now)) (\<lambda>consumed.
           if \<not> consumed then refused else sreturn (Inr (ac_username user)))))))"

subsection \<open>Sign-in\<close>

datatype matched_by = By_username | By_email | Ambiguous | Not_found

definition resolve_login_user :: "account_env \<Rightarrow> string \<Rightarrow> (user_row option \<times> matched_by) account_op" where
  "resolve_login_user env identifier =
     sbind (select_users env (\<lambda>r. ac_username r = identifier)) (\<lambda>exact.
     case sql_first exact of
       Some u \<Rightarrow> sreturn (Inr (Some u, By_username))
     | None \<Rightarrow>
        let lowered = py_lower (py_strip identifier) in
        sbind (select_users env (\<lambda>r. py_lower (ac_username r) = lowered \<or> py_lower (ac_email r) = lowered)) (\<lambda>candidates.
        sreturn (Inr (if length candidates \<noteq> 1 then (None, if length candidates > 1 then Ambiguous else Not_found)
          else let matched = hd candidates in (Some matched, if py_lower (ac_email matched) = lowered then By_email else By_username)))))"

record token_response =
  tr_access_token :: string
  tr_refresh_token :: string
  tr_expires_in :: int

definition token_pair :: "account_env \<Rightarrow> user_row \<Rightarrow> token_response account_op" where
  "token_pair env user =
     sbind (create_access_token env (str_int (ac_id user))) (\<lambda>access.
     sbind (create_refresh_token env (str_int (ac_id user))) (\<lambda>refresh.
     sreturn (Inr \<lparr>tr_access_token = access, tr_refresh_token = refresh, tr_expires_in = st_access_minutes (ae_settings env) * 60\<rparr>)))"

definition wrong_credentials :: exn where
  "wrong_credentials = HTTPException 401 ''Incorrect username or password''"

definition account_inactive :: exn where
  "account_inactive = HTTPException 403 (error_detail ''ACCOUNT_INACTIVE''
     ''This account has been deactivated. Contact support if you think that is a mistake.'')"

definition email_not_verified :: "string \<Rightarrow> exn" where
  "email_not_verified email = HTTPException 403 (error_detail ''EMAIL_NOT_VERIFIED'' (error_detail email
     ''Your email address is not verified yet. Open the link we emailed you to activate your account, or request a new one.''))"

definition login_for_access_token :: "account_env \<Rightarrow> string \<Rightarrow> string \<Rightarrow> token_response account_op" where
  "login_for_access_token env username password =
     sbind (resolve_login_user env username) (\<lambda>found.
     case fst found of
       None \<Rightarrow> raise_op wrong_credentials
     | Some user \<Rightarrow>
        if \<not> ae_verify_password env password (ac_hashed_password user) then raise_op wrong_credentials
        else if \<not> ac_is_active user then raise_op account_inactive
        else if email_verification_is_enforced (ae_settings env) \<and> \<not> ac_email_verified user
        then raise_op (email_not_verified (ac_email user))
        else token_pair env user)"

definition refresh_access_token :: "account_env \<Rightarrow> string \<Rightarrow> token_response account_op" where
  "refresh_access_token env refresh_token =
     sbind (account_now env) (\<lambda>now.
     case verify_refresh_token env refresh_token now of
       None \<Rightarrow> raise_op (HTTPException 401 ''Invalid or expired refresh token'')
     | Some sub \<Rightarrow> (case py_int sub of
         Inl _ \<Rightarrow> raise_op (HTTPException 401 ''Invalid or expired refresh token'')
       | Inr user_id \<Rightarrow> sbind (active_user env user_id) (token_pair env)))"

subsection \<open>The profile\<close>

record profile_payload =
  pp_first_name :: "string option option"
  pp_last_name :: "string option option"
  pp_default_save_folder_id :: "string option option"

definition drive_call_of :: "'a drive_op \<Rightarrow> 'a account_op" where
  "drive_call_of m s = (let (r, d) = m (as_drive s) in (r, s\<lparr>as_drive := d\<rparr>))"

definition require_folder :: "int \<Rightarrow> string option \<Rightarrow> unit account_op" where
  "require_folder user_id folder_id = (case folder_id of
       None \<Rightarrow> sreturn (Inr ())
     | Some f \<Rightarrow> try_op (sbind (drive_call_of (get_folder user_id f)) (\<lambda>_. sreturn (Inr ())))
        (\<lambda>e. case e of AppError c _ \<Rightarrow> if c = FolderNotFoundError then raise_op (HTTPException 404 ''Folder not found'') else raise_op e
           | _ \<Rightarrow> raise_op e))"

definition named_user :: "profile_payload \<Rightarrow> user_row \<Rightarrow> user_row" where
  "named_user p u =
     (let u1 = (case pp_first_name p of None \<Rightarrow> u | Some v \<Rightarrow> u\<lparr>ac_first_name := clean_optional_name v\<rparr>) in
      case pp_last_name p of None \<Rightarrow> u1 | Some v \<Rightarrow> u1\<lparr>ac_last_name := clean_optional_name v\<rparr>)"

definition update_profile :: "account_env \<Rightarrow> user_row \<Rightarrow> profile_payload \<Rightarrow> user_response account_op" where
  "update_profile env current_user p =
     (let named = named_user p current_user in
      sbind (case pp_default_save_folder_id p of
          None \<Rightarrow> sreturn (Inr named)
        | Some v \<Rightarrow> sbind (require_folder (ac_id current_user) (clean_optional_name v)) (\<lambda>_.
            sreturn (Inr (named\<lparr>ac_default_save_folder_id := clean_optional_name v\<rparr>)))) (\<lambda>updated.
      if pp_first_name p = None \<and> pp_last_name p = None \<and> pp_default_save_folder_id p = None
      then sreturn (Inr (to_user_response updated))
      else sbind (save_user env current_user updated) (\<lambda>_. sreturn (Inr (to_user_response updated)))))"

definition change_password :: "account_env \<Rightarrow> user_row \<Rightarrow> string \<Rightarrow> string \<Rightarrow> unit account_op" where
  "change_password env current_user current_password new_password =
     (if \<not> ae_verify_password env current_password (ac_hashed_password current_user)
      then raise_op (HTTPException 400 (error_detail ''INVALID_PASSWORD'' ''Current password is incorrect.''))
      else sbind (account_tick (\<lambda>n. ae_hash_password env n new_password)) (\<lambda>hashed.
        save_user env current_user (current_user\<lparr>ac_hashed_password := hashed\<rparr>)))"

definition MAX_AVATAR_UPLOAD_BYTES :: nat where "MAX_AVATAR_UPLOAD_BYTES = 2097152"

definition AVATAR_EXTENSIONS :: "string list" where
  "AVATAR_EXTENSIONS = [''png'', ''jpg'', ''jpeg'', ''webp'']"

definition avatar_invalid :: "string \<Rightarrow> exn" where
  "avatar_invalid message = HTTPException 400 (error_detail ''AVATAR_INVALID'' message)"

text \<open>The body is read up to one byte past the limit.\<close>

definition upload_avatar :: "account_env \<Rightarrow> user_row \<Rightarrow> string option \<Rightarrow> string \<Rightarrow> user_response account_op" where
  "upload_avatar env current_user filename body =
     (case filename of
        None \<Rightarrow> raise_op (avatar_invalid ''Attach an image file to upload.'')
      | Some name \<Rightarrow>
         let data = take (MAX_AVATAR_UPLOAD_BYTES + 1) body; extension = extension_from_filename (Some name) in
         if name = [] then raise_op (avatar_invalid ''Attach an image file to upload.'')
         else if length data > MAX_AVATAR_UPLOAD_BYTES
         then raise_op (HTTPException 413 (error_detail ''AVATAR_TOO_LARGE'' ''That image is larger than 2 MB. Choose a smaller file.''))
         else if data = [] then raise_op (avatar_invalid ''The uploaded file is empty.'')
         else if extension \<notin> set AVATAR_EXTENSIONS then raise_op (avatar_invalid ''Avatars must be a PNG, JPEG or WebP image.'')
         else if \<not> validate_upload_signature data extension
         then raise_op (avatar_invalid ''That file's contents do not match its extension. Upload a real image.'')
         else (case ae_render_avatar env data of
             Inl Decompression_bomb \<Rightarrow> raise_op (avatar_invalid ''That image is too large to process.'')
           | Inl Undecodable_image \<Rightarrow> raise_op (avatar_invalid ''That file could not be read as an image.'')
           | Inl (Render_raises e) \<Rightarrow> raise_op e
           | Inr rendered \<Rightarrow> sbind (account_now env) (\<lambda>now.
               let updated = current_user\<lparr>ac_avatar_data := Some rendered, ac_avatar_content_type := Some ''image/webp'',
                 ac_avatar_updated_at := Some now\<rparr> in
               sbind (save_user env current_user updated) (\<lambda>_. sreturn (Inr (to_user_response updated))))))"

definition delete_avatar :: "account_env \<Rightarrow> user_row \<Rightarrow> user_response account_op" where
  "delete_avatar env current_user =
     (let updated = current_user\<lparr>ac_avatar_data := None, ac_avatar_content_type := None, ac_avatar_updated_at := None\<rparr> in
      sbind (save_user env current_user updated) (\<lambda>_. sreturn (Inr (to_user_response updated))))"

subsection \<open>The phone number\<close>

record phone_status =
  ps_phone_number :: "string option"
  ps_phone_verified :: bool
  ps_expires_in_seconds :: "int option"
  ps_resend_available_in_seconds :: "int option"

definition phone_status_of :: "user_row \<Rightarrow> account_settings \<Rightarrow> bool \<Rightarrow> int \<Rightarrow> phone_status" where
  "phone_status_of user st sent reference =
     \<lparr>ps_phone_number = ac_phone_number user, ps_phone_verified = ac_phone_verified user,
      ps_expires_in_seconds = (if sent then Some (st_phone_ttl_minutes st * 60)
        else case ac_phone_expires_at user of None \<Rightarrow> None
          | Some e \<Rightarrow> if code_is_expired (Some e) reference then None else Some (max 0 ((e - reference) div 1000000))),
      ps_resend_available_in_seconds = seconds_until_resend_allowed (ac_phone_sent_at user) reference (st_phone_cooldown st)\<rparr>"

definition phone_error :: "int \<Rightarrow> string \<Rightarrow> string \<Rightarrow> exn" where
  "phone_error status code message = HTTPException status (error_detail code message)"

definition coded_user :: "user_row \<Rightarrow> string \<Rightarrow> issued_phone_code \<Rightarrow> user_row" where
  "coded_user user phone_number issued = user\<lparr>ac_phone_number := Some phone_number, ac_phone_verified := False, ac_phone_verified_at := None,
     ac_phone_code_hash := Some (ip_code_hash issued), ac_phone_expires_at := Some (ip_expires_at issued), ac_phone_attempts := 0\<rparr>"

definition sms_failed :: exn where
  "sms_failed = OtherError ''the transport refused the message''"

definition send_phone_code :: "account_env \<Rightarrow> user_row \<Rightarrow> string \<Rightarrow> user_row account_op" where
  "send_phone_code env user phone_number =
     sbind (account_now env) (\<lambda>now.
     sbind (account_tick (ae_randbelow env)) (\<lambda>rand.
       let issued = issue_phone_code (ae_hmac env) rand (st_secret_key (ae_settings env)) (ac_id user) (st_phone_ttl_minutes (ae_settings env)) now;
           coded = coded_user user phone_number issued; stamped = coded\<lparr>ac_phone_sent_at := Some (ip_sent_at issued)\<rparr> in
       sbind (save_user env user coded) (\<lambda>_.
       sbind (send_message env (Phone_sms phone_number (ip_code issued))) (\<lambda>sent.
       if \<not> sent then raise_op sms_failed
       else sbind (save_user env coded stamped) (\<lambda>_. sreturn (Inr stamped))))))"

definition phone_in_use :: "bool \<Rightarrow> exn" where
  "phone_in_use verified = phone_error 409 ''PHONE_IN_USE'' (if \<not> verified then ''That phone number is already linked to another account.''
     else ''That phone number is already verified on another account.'')"

definition sms_delivery_failed :: exn where
  "sms_delivery_failed = phone_error 503 ''SMS_DELIVERY_FAILED'' ''We could not send the verification code right now. Try again in a moment.''"

text \<open>The send, with a failed delivery answered as such; the status is read after it.\<close>

definition send_and_report :: "account_env \<Rightarrow> (exn \<Rightarrow> user_row account_op) \<Rightarrow> user_row \<Rightarrow> string \<Rightarrow> phone_status account_op" where
  "send_and_report env failed user phone_number =
     sbind (try_op (send_phone_code env user phone_number) failed) (\<lambda>sent.
     sbind (account_now env) (\<lambda>now. sreturn (Inr (phone_status_of sent (ae_settings env) True now))))"

definition request_phone_verification :: "account_env \<Rightarrow> user_row \<Rightarrow> string \<Rightarrow> phone_status account_op" where
  "request_phone_verification env current_user raw =
     sbind (account_now env) (\<lambda>now.
     case normalize_phone_number (Some raw) of
       Inl e \<Rightarrow> raise_op (phone_error 400 ''INVALID_PHONE_NUMBER'' (exn_message e))
     | Inr phone_number \<Rightarrow>
        sbind (select_users env (\<lambda>r. ac_phone_number r = Some phone_number \<and> ac_id r \<noteq> ac_id current_user)) (\<lambda>others.
        case sql_first others of
          Some other \<Rightarrow> raise_op (phone_in_use (ac_phone_verified other))
        | None \<Rightarrow>
           if \<not> phone_cooldown_elapsed (ac_phone_sent_at current_user) now (st_phone_cooldown (ae_settings env))
           then sreturn (Inr (phone_status_of current_user (ae_settings env) False now))
           else send_and_report env (\<lambda>e. case e of IntegrityError \<Rightarrow> raise_op (phone_in_use False) | _ \<Rightarrow> raise_op sms_delivery_failed)
                  current_user phone_number))"

definition resend_phone_verification :: "account_env \<Rightarrow> user_row \<Rightarrow> phone_status account_op" where
  "resend_phone_verification env current_user =
     sbind (account_now env) (\<lambda>now.
     case ac_phone_number current_user of
       None \<Rightarrow> raise_op (phone_error 400 ''INVALID_PHONE_NUMBER'' ''Add a phone number before requesting a code.'')
     | Some phone_number \<Rightarrow>
        if phone_number = [] then raise_op (phone_error 400 ''INVALID_PHONE_NUMBER'' ''Add a phone number before requesting a code.'')
        else if ac_phone_verified current_user
             \<or> \<not> phone_cooldown_elapsed (ac_phone_sent_at current_user) now (st_phone_cooldown (ae_settings env))
        then sreturn (Inr (phone_status_of current_user (ae_settings env) False now))
        else send_and_report env (\<lambda>_. raise_op sms_delivery_failed) current_user phone_number)"

definition code_expired_error :: exn where
  "code_expired_error = phone_error 400 ''PHONE_CODE_EXPIRED'' ''That code has expired. Request a new one.''"

definition code_live :: "user_row \<Rightarrow> string \<Rightarrow> int \<Rightarrow> user_row \<Rightarrow> bool" where
  "code_live user expected_hash now r = (ac_id r = ac_id user \<and> ac_phone_code_hash r = Some expected_hash
     \<and> (case ac_phone_expires_at r of None \<Rightarrow> False | Some e \<Rightarrow> e > now))"

definition confirm_phone :: "int \<Rightarrow> user_row \<Rightarrow> user_row" where
  "confirm_phone now r = r\<lparr>ac_phone_verified := True, ac_phone_verified_at := Some now, ac_phone_code_hash := None,
     ac_phone_expires_at := None, ac_phone_attempts := 0\<rparr>"

definition verify_phone :: "account_env \<Rightarrow> user_row \<Rightarrow> string \<Rightarrow> phone_status account_op" where
  "verify_phone env current_user code =
     (let secret = st_secret_key (ae_settings env) in
      sbind (account_now env) (\<lambda>now.
      if ac_phone_code_hash current_user = None \<or> code_is_expired (ac_phone_expires_at current_user) now then raise_op code_expired_error
      else if attempts_exhausted (ac_phone_attempts current_user) (st_phone_max_attempts (ae_settings env))
      then raise_op (phone_error 429 ''PHONE_CODE_ATTEMPTS_EXCEEDED'' ''Too many incorrect codes. Request a new one.'')
      else if \<not> code_matches (ae_hmac env) code (ac_phone_code_hash current_user) secret (ac_id current_user)
      then sbind (update_users_where env (\<lambda>r. ac_id r = ac_id current_user) (\<lambda>r. r\<lparr>ac_phone_attempts := ac_phone_attempts r + 1\<rparr>)) (\<lambda>_.
        raise_op (phone_error 400 ''PHONE_CODE_INVALID'' ''That code is not correct. Check the message and try again.''))
      else sbind (update_users_where env (code_live current_user (hash_verification_code (ae_hmac env) code secret (ac_id current_user)) now)
          (confirm_phone now)) (\<lambda>consumed.
        if \<not> consumed then raise_op code_expired_error
        else sreturn (Inr \<lparr>ps_phone_number = ac_phone_number current_user, ps_phone_verified = True,
          ps_expires_in_seconds = None, ps_resend_available_in_seconds = None\<rparr>))))"

definition forget_phone :: "user_row \<Rightarrow> user_row" where
  "forget_phone u = u\<lparr>ac_phone_number := None, ac_phone_verified := False, ac_phone_verified_at := None, ac_phone_code_hash := None,
     ac_phone_sent_at := None, ac_phone_expires_at := None, ac_phone_attempts := 0\<rparr>"

definition delete_phone_number :: "account_env \<Rightarrow> user_row \<Rightarrow> unit account_op" where
  "delete_phone_number env current_user = save_user env current_user (forget_phone current_user)"

subsection \<open>The end of an account\<close>

definition DELETE_ACCOUNT_CONFIRMATION :: string where "DELETE_ACCOUNT_CONFIRMATION = ''DELETE''"

text \<open>The statements of \<open>_owned_row_deletes\<close> in their order, then the row of the user, in one transaction.\<close>

definition owned_row_deletes :: "int \<Rightarrow> account_state \<Rightarrow> account_state" where
  "owned_row_deletes user_id s =
     (let db = dv_db (as_drive s); lg = as_ledger s in
      s\<lparr>as_jobs := sql_delete (\<lambda>r. jr_user_id r = Some user_id) (as_jobs s),
        as_drive := (as_drive s)\<lparr>dv_db := db\<lparr>dr_files := sql_delete (\<lambda>r. fl_user_id r = user_id) (dr_files db),
          dr_folders := sql_delete (\<lambda>r. fo_user_id r = user_id) (dr_folders db)\<rparr>\<rparr>,
        as_keys := sql_delete (\<lambda>k. ak_user_id k = user_id) (as_keys s),
        as_ledger := lg\<lparr>lg_txns := sql_delete (\<lambda>r. tx_user_id r = user_id) (lg_txns lg),
          lg_credits := sql_delete (\<lambda>r. mc_owner_id r = str_int user_id) (lg_credits lg),
          lg_subs := sql_delete (\<lambda>r. sr_user_id r = Some user_id) (lg_subs lg)\<rparr>\<rparr>)"

definition delete_account :: "account_env \<Rightarrow> user_row \<Rightarrow> string \<Rightarrow> string \<Rightarrow> unit account_op" where
  "delete_account env current_user password confirm =
     (if confirm \<noteq> DELETE_ACCOUNT_CONFIRMATION
      then raise_op (phone_error 400 ''INVALID_CONFIRMATION'' ''Type \"DELETE\" to confirm deleting your account.'')
      else if \<not> ae_verify_password env password (ac_hashed_password current_user)
      then raise_op (phone_error 400 ''INVALID_PASSWORD'' ''Password is incorrect.'')
      else smodify (\<lambda>s. let t = owned_row_deletes (ac_id current_user) (account_sync env s) in
        t\<lparr>as_users := sql_delete (\<lambda>r. ac_id r = ac_id current_user) (as_users t)\<rparr>))"

end
