(* ===== verification/Account_Safety.thy ===== *)
theory Account_Safety
  imports Account_Routes Cleanup_Worker
begin

text \<open>
  What the accounts promise: one-time links and codes, the budget of guesses, normal forms of phone numbers, sign-in,
  API keys, and what is left of a deleted account once the cleanup worker has run. An account environment is calm when
  no other session writes between the statements of a request.
\<close>

section \<open>Accounts without rivals\<close>

definition calm_accounts :: "account_env \<Rightarrow> bool" where
  "calm_accounts env = (\<forall>n t. ae_rivals env n t = t)"

definition ticked :: "nat \<Rightarrow> account_state \<Rightarrow> account_state" where
  "ticked n s = s\<lparr>as_ticks := as_ticks s + n\<rparr>"

lemma ticked_simps [simp]:
  "as_users (ticked n s) = as_users s" "as_keys (ticked n s) = as_keys s" "as_jobs (ticked n s) = as_jobs s"
  "as_ledger (ticked n s) = as_ledger s" "as_drive (ticked n s) = as_drive s" "as_outbox (ticked n s) = as_outbox s"
  "as_next_id (ticked n s) = as_next_id s" "as_ticks (ticked n s) = as_ticks s + n"
  "ticked m (ticked n s) = ticked (n + m) s"
  by (simp_all add: ticked_def)

lemma account_tick_ticked: "account_tick f s = (Inr (f (as_ticks s)), ticked 1 s)"
  by (simp add: account_tick_def ticked_def)

lemma account_now_ticked: "account_now env s = (Inr (ae_clock env (as_ticks s)), ticked 1 s)"
  by (simp add: account_now_def account_tick_ticked)

lemma calm_sync: "calm_accounts env \<Longrightarrow> account_sync env s = ticked 1 s"
  by (simp add: account_sync_def calm_accounts_def ticked_def)

lemma calm_select: "calm_accounts env \<Longrightarrow> select_users env P s = (Inr (sql_select P (as_users s)), ticked 1 s)"
  by (simp add: select_users_def calm_sync)

lemma calm_update: "calm_accounts env \<Longrightarrow> update_users_where env P f s
    = (Inr (\<exists>r \<in> set (as_users s). P r), (ticked 1 s)\<lparr>as_users := sql_update P f (as_users s)\<rparr>)"
  by (simp add: update_users_where_def calm_sync Let_def)

text \<open>A row saved on what was loaded is the new row.\<close>

definition same_account :: "user_row \<Rightarrow> user_row \<Rightarrow> bool" where
  "same_account u v = (ac_id u = ac_id v \<and> ac_username u = ac_username v \<and> ac_email u = ac_email v \<and> ac_is_active u = ac_is_active v
     \<and> ac_created_at u = ac_created_at v \<and> ac_email_verified u = ac_email_verified v \<and> ac_email_verified_at u = ac_email_verified_at v)"

lemma merge_user_loaded: "same_account n u \<Longrightarrow> merge_user u n u = n"
  by (rule user_row.equality) (simp_all add: merge_user_def same_account_def)

definition put_user :: "user_row \<Rightarrow> user_row list \<Rightarrow> user_row list" where
  "put_user n t = sql_update (\<lambda>r. ac_id r = ac_id n) (\<lambda>_. n) t"

definition phone_free :: "user_row \<Rightarrow> user_row list \<Rightarrow> bool" where
  "phone_free n t = (ac_phone_number n = None \<or> (\<forall>r \<in> set t. ac_id r \<noteq> ac_id n \<longrightarrow> ac_phone_number r \<noteq> ac_phone_number n))"

lemma put_user_loaded:
  assumes "unique_key ac_id t" "u \<in> set t" "same_account n u"
  shows "sql_update (\<lambda>r. ac_id r = ac_id u) (merge_user u n) t = put_user n t"
proof -
  have "(if ac_id r = ac_id u then merge_user u n r else r) = (if ac_id r = ac_id n then n else r)" if "r \<in> set t" for r
  proof (cases "ac_id r = ac_id u")
    case True
    then have "r = u" using unique_key_inj [OF assms(1) that assms(2)] by simp
    then show ?thesis using assms(3) merge_user_loaded [OF assms(3)] by (simp add: same_account_def)
  qed (use assms(3) in \<open>simp add: same_account_def\<close>)
  then show ?thesis by (simp add: put_user_def sql_update_def)
qed

lemma put_user_self: "unique_key ac_id t \<Longrightarrow> u \<in> set t \<Longrightarrow> put_user u t = t"
  using put_user_loaded [of t u u] merge_user_loaded [of u u]
  by (auto simp: put_user_def sql_update_def same_account_def intro!: map_idI dest: unique_key_inj)

lemma unique_nullable_Cons:
  "unique_nullable f (r # t) \<longleftrightarrow> (f r = None \<or> (\<forall>x \<in> set t. f x \<noteq> f r)) \<and> unique_nullable f t"
  by (cases "f r") (force simp: unique_nullable_def)+

lemma put_user_Cons: "put_user n (r # t) = (if ac_id r = ac_id n then n else r) # put_user n t"
  by (simp add: put_user_def sql_update_def)

lemma set_put_user: "set (put_user n t) \<subseteq> insert n (set t)"
  by (auto simp: put_user_def sql_update_def)

lemma put_user_absent: "ac_id n \<notin> ac_id ` set t \<Longrightarrow> put_user n t = t"
  by (auto simp: put_user_def sql_update_def image_iff intro!: map_idI)

lemma unique_phone_put:
  assumes "unique_key ac_id t" "unique_nullable ac_phone_number t" "phone_free n t"
  shows "unique_nullable ac_phone_number (put_user n t)"
  using assms
proof (induction t)
  case (Cons a t)
  have IH: "unique_nullable ac_phone_number (put_user n t)"
    using Cons.IH Cons.prems by (auto simp: phone_free_def unique_nullable_Cons)
  show ?case
  proof (cases "ac_id a = ac_id n")
    case True
    then have "put_user n t = t" using Cons.prems(1) by (intro put_user_absent) simp
    moreover have "ac_id r \<noteq> ac_id n" if "r \<in> set t" for r
      using Cons.prems(1) True imageI [OF that, of ac_id] by auto
    ultimately show ?thesis using True Cons.prems by (simp add: put_user_Cons unique_nullable_Cons phone_free_def)
  next
    case False
    have "ac_phone_number a = None \<or> (\<forall>x \<in> set (put_user n t). ac_phone_number x \<noteq> ac_phone_number a)"
      using Cons.prems(2,3) False set_put_user [of n t] by (fastforce simp: unique_nullable_Cons phone_free_def)
    then show ?thesis using False IH by (simp add: put_user_Cons unique_nullable_Cons)
  qed
qed (simp add: put_user_def sql_update_def)

lemma put_user_map:
  assumes "unique_key ac_id t" "u \<in> set t" "ac_id n = ac_id u" "f n = f u"
  shows "map f (put_user n t) = map f t"
  using unique_key_inj [OF assms(1) _ assms(2)] assms(3,4) by (auto simp: put_user_def sql_update_def)

lemma put_user_ok:
  assumes "users_ok t" "u \<in> set t" "same_account n u" "phone_free n t"
  shows "users_ok (put_user n t)"
proof -
  have u: "unique_key ac_id t" using assms(1) by (simp add: users_ok_def)
  have "ac_id n = ac_id u" "ac_username n = ac_username u" "ac_email n = ac_email u" using assms(3) by (simp_all add: same_account_def)
  note k = put_user_map [OF u assms(2) this(1) this(1)] put_user_map [OF u assms(2) this(1,2)] put_user_map [OF u assms(2) this(1,3)]
  have "unique_key ac_id (put_user n t)" "unique_key ac_username (put_user n t)" "unique_key ac_email (put_user n t)"
    using assms(1) unfolding unique_key_def k by (simp_all add: users_ok_def unique_key_def)
  then show ?thesis using unique_phone_put [OF u _ assms(4)] assms(1) by (simp add: users_ok_def unique_column_def)
qed

lemma save_user_calm:
  assumes "calm_accounts env" "users_ok (as_users s)" "u \<in> set (as_users s)" "same_account n u" "phone_free n (as_users s)"
  shows "save_user env u n s = (Inr (), (ticked 1 s)\<lparr>as_users := put_user n (as_users s)\<rparr>)"
proof (cases "n = u")
  case True
  then show ?thesis using put_user_self [of "as_users s" u] assms
    by (simp add: save_user_def calm_sync users_ok_def ticked_def)
next
  case False
  have "sql_update (\<lambda>r. ac_id r = ac_id u) (merge_user u n) (as_users s) = put_user n (as_users s)"
    using put_user_loaded assms by (simp add: users_ok_def)
  then show ?thesis using False assms(1,3) put_user_ok [OF assms(2-5)]
    by (simp add: save_user_def commit_users_def calm_sync Let_def)
qed

text \<open>A phone number that stays, or goes, is free.\<close>

lemma phone_free_same:
  assumes "users_ok t" "u \<in> set t" "ac_id n = ac_id u" "ac_phone_number n = ac_phone_number u"
  shows "phone_free n t"
proof -
  have "unique_nullable ac_phone_number t" "unique_key ac_id t" using assms(1) by (simp_all add: users_ok_def unique_column_def)
  then have "ac_phone_number r \<noteq> ac_phone_number u \<or> ac_phone_number u = None" if "r \<in> set t" "ac_id r \<noteq> ac_id u" for r
    using assms(2) that by (induction t) (auto simp: unique_nullable_Cons)
  then show ?thesis using assms(3,4) by (auto simp: phone_free_def)
qed

subsection \<open>Links\<close>

lemma account_nullable_inj:
  "unique_nullable f t \<Longrightarrow> a \<in> set t \<Longrightarrow> b \<in> set t \<Longrightarrow> f a = Some h \<Longrightarrow> f b = Some h \<Longrightarrow> a = b"
  by (induction t) (auto simp: unique_nullable_Cons)

lemma first_of_hash:
  assumes "unique_nullable f t" "u \<in> set t" "f u = Some h"
  shows "sql_first (sql_select (\<lambda>r. f r = Some h) t) = Some u"
proof (cases "sql_first (sql_select (\<lambda>r. f r = Some h) t)")
  case None
  then show ?thesis using assms(2,3) by (simp add: sql_first_None)
next
  case (Some v)
  then show ?thesis using sql_first_Some [OF Some] account_nullable_inj [OF assms(1) _ assms(2) _ assms(3)] by auto
qed

lemma update_one:
  assumes "unique_key ac_id t" "u \<in> set t" "P u" "\<And>r. P r \<Longrightarrow> ac_id r = ac_id u" "ac_id (f u) = ac_id u"
  shows "sql_update P f t = put_user (f u) t"
proof -
  have "(if P r then f r else r) = (if ac_id r = ac_id (f u) then f u else r)" if "r \<in> set t" for r
  proof (cases "ac_id r = ac_id u")
    case True
    then have "r = u" by (rule unique_key_inj [OF assms(1) that assms(2)])
    then show ?thesis using assms(3,5) by simp
  next
    case False
    then have "\<not> P r" using assms(4) by blast
    then show ?thesis using False assms(5) by simp
  qed
  then show ?thesis by (simp add: sql_update_def put_user_def)
qed

definition links_ok :: "user_row list \<Rightarrow> bool" where
  "links_ok t = (users_ok t \<and> unique_nullable ac_email_token_hash t \<and> unique_nullable ac_reset_token_hash t)"

text \<open>What an emailed link does, on every branch.\<close>

definition email_link_outcome :: "account_env \<Rightarrow> int \<Rightarrow> user_row \<Rightarrow> email_response result \<times> user_row" where
  "email_link_outcome env now u =
     (if ac_email_verified u
      then (Inr \<lparr>er_already_verified = True, er_username = ac_username u,
        er_message = ''Your email address is already verified. You can sign in.''\<rparr>, drop_email_token u)
      else if token_is_expired (ac_email_expires_at u) now then (Inl (HTTPException 400 invalid_token_message), drop_email_token u)
      else (Inr \<lparr>er_already_verified = False, er_username = ac_username u,
        er_message = ''Your email address is verified. You can now sign in.''\<rparr>, activate_email now u))"

lemma drop_email_same: "same_account (drop_email_token u) u" "ac_phone_number (drop_email_token u) = ac_phone_number u"
    "ac_id (drop_email_token u) = ac_id u"
  by (simp_all add: same_account_def drop_email_token_def)

lemma dead_email_link:
  assumes "calm_accounts env" "\<forall>r \<in> set (as_users s). ac_email_token_hash r \<noteq> Some (ae_sha256 env token)"
  shows "verify_email env token s = (Inl (HTTPException 400 invalid_token_message), ticked 2 s)"
  using assms(2) by (simp add: verify_email_def Let_def sbind_def account_now_ticked calm_select [OF assms(1)]
      sql_first_None [THEN iffD2] raise_op_def)

text \<open>following a verification link, with no one interfering, has exactly the outcome its row deserves: the row is
  found by the digest of the token alone, a live token activates it, a spent deadline or a second visit does not, and
  the link is dead afterwards, so that no visit after the first finds a row. The deadline check before the
  conditional update and the update agree.\<close>

theorem email_link_exact:
  assumes "calm_accounts env" "links_ok (as_users s)" "u \<in> set (as_users s)" "ac_email_token_hash u = Some (ae_sha256 env token)"
  shows "\<exists>n m. fst (verify_email env token s) = fst (email_link_outcome env (ae_clock env (as_ticks s)) u)
    \<and> snd (verify_email env token s) = (ticked n s)\<lparr>as_users := put_user (snd (email_link_outcome env (ae_clock env (as_ticks s)) u)) (as_users s)\<rparr>
    \<and> verify_email env token (snd (verify_email env token s)) = (Inl (HTTPException 400 invalid_token_message), ticked m (snd (verify_email env token s)))"
proof -
  let ?h = "ae_sha256 env token" and ?now = "ae_clock env (as_ticks s)"
  let ?o = "email_link_outcome env ?now u"
  have ok: "users_ok (as_users s)" "unique_key ac_id (as_users s)" "unique_nullable ac_email_token_hash (as_users s)"
    using assms(2) by (simp_all add: links_ok_def users_ok_def)
  have f: "sql_first (sql_select (\<lambda>r. ac_email_token_hash r = Some ?h) (as_users s)) = Some u"
    by (rule first_of_hash [OF ok(3) assms(3,4)])
  have drop: "save_user env u (drop_email_token u) (ticked 2 s) = (Inr (), (ticked 3 s)\<lparr>as_users := put_user (drop_email_token u) (as_users s)\<rparr>)"
    using save_user_calm [OF assms(1), of "ticked 2 s" u "drop_email_token u"] ok(1) assms(3) drop_email_same
      phone_free_same [OF ok(1) assms(3) drop_email_same(3,2)] by (simp add: numeral_eq_Suc)
  have live: "sql_update (email_token_live u ?h ?now) (activate_email ?now) (as_users s) = put_user (activate_email ?now u) (as_users s)"
    if "\<not> token_is_expired (ac_email_expires_at u) ?now"
  proof (rule update_one [OF ok(2) assms(3)])
    show "email_token_live u ?h ?now u" using that assms(4) by (auto simp: email_token_live_def token_is_expired_def split: option.splits)
  qed (simp_all add: email_token_live_def activate_email_def)
  have hit: "\<exists>r \<in> set (as_users s). email_token_live u ?h ?now r" if "\<not> token_is_expired (ac_email_expires_at u) ?now"
    using that assms(3,4) by (intro bexI [of _ u]) (auto simp: email_token_live_def token_is_expired_def split: option.splits)
  have step: "verify_email env token s = (fst ?o, (ticked 3 s)\<lparr>as_users := put_user (snd ?o) (as_users s)\<rparr>)"
    using f drop live hit by (simp add: verify_email_def Let_def sbind_def account_now_ticked calm_select [OF assms(1)]
        calm_update [OF assms(1)] email_link_outcome_def sreturn_def raise_op_def numeral_eq_Suc)
  have "ac_email_token_hash (snd ?o) = None" by (simp add: email_link_outcome_def drop_email_token_def activate_email_def)
  then have gone: "\<forall>r \<in> set (put_user (snd ?o) (as_users s)). ac_email_token_hash r \<noteq> Some ?h"
    using account_nullable_inj [OF ok(3) _ assms(3) _ assms(4)] 
    by (auto simp: put_user_def sql_update_def email_link_outcome_def drop_email_token_def activate_email_def split: if_splits)
  have "verify_email env token (snd (verify_email env token s))
      = (Inl (HTTPException 400 invalid_token_message), ticked 2 (snd (verify_email env token s)))"
    by (rule dead_email_link [OF assms(1)]) (use gone step in simp)
  with step show ?thesis by (intro exI [of _ 3] exI [of _ 2]) simp
qed

definition sample_settings :: account_settings where
  "sample_settings = \<lparr>st_email_verification_required = True, st_email_backend = ''smtp'', st_resend_api_key = None, st_smtp_host = None,
     st_app_base_url = ''http://x'', st_email_ttl_hours = 24, st_email_cooldown = 60, st_reset_ttl_minutes = 60, st_reset_cooldown = 60,
     st_phone_ttl_minutes = 10, st_phone_cooldown = 60, st_phone_max_attempts = 5, st_secret_key = ''k'', st_access_minutes = 30,
     st_refresh_days = 7\<rparr>"

definition sample_claims :: "string \<Rightarrow> token_claims" where
  "sample_claims kind = \<lparr>jc_sub = Some ''1'', jc_exp = Some (if kind = ''access'' then 1800000000 else 604800000000), jc_type = Some kind\<rparr>"

definition sample_account_env :: account_env where
  "sample_account_env = \<lparr>ae_settings = sample_settings, ae_clock = (\<lambda>_. 0), ae_secret_token = (\<lambda>_. ''t''), ae_randbelow = (\<lambda>_. 7),
     ae_uuid = (\<lambda>_. ''id''), ae_sha256 = (\<lambda>x. x), ae_hmac = (\<lambda>k m. m), ae_hash_password = (\<lambda>_ p. p),
     ae_verify_password = (\<lambda>p h. p = h), ae_send_up = (\<lambda>_. True),
     ae_jwt_encode = (\<lambda>_ c. if jc_type c = Some ''access'' then ''A'' else ''R''),
     ae_jwt_decode = (\<lambda>_ t _. if t = ''A'' then Some (sample_claims ''access'') else if t = ''R'' then Some (sample_claims ''refresh'') else None),
     ae_render_avatar = (\<lambda>d. Inr d), ae_rivals = (\<lambda>_ t. t)\<rparr>"

definition sample_user :: user_row where
  "sample_user = (new_user 1 ''pw'' 0 \<lparr>rp_username = ''ada'', rp_email = ''a@x'', rp_password = ''pw'', rp_first_name = None, rp_last_name = None\<rparr>)
     \<lparr>ac_email_token_hash := Some ''t'', ac_email_expires_at := Some 9, ac_reset_token_hash := Some ''q'', ac_reset_expires_at := Some 9,
      ac_phone_number := Some ''+14155552671'', ac_phone_code_hash := Some ''1:000007'', ac_phone_expires_at := Some 9, ac_phone_sent_at := Some 0\<rparr>"

definition sample_accounts :: "user_row list \<Rightarrow> account_state" where
  "sample_accounts users = \<lparr>as_users = users, as_next_id = 9, as_keys = [], as_jobs = [], as_ledger = \<lparr>lg_credits = [], lg_subs = [], lg_txns = []\<rparr>,
     as_drive = sample_drive [] [] (\<lambda>_. None), as_outbox = [], as_ticks = 0\<rparr>"

lemma sample_calm_accounts: "calm_accounts sample_account_env"
  by (simp add: calm_accounts_def sample_account_env_def)

lemma sample_accounts_fields [simp]: "as_users (sample_accounts users) = users" "as_ticks (sample_accounts users) = 0"
    "as_keys (sample_accounts users) = []" "as_outbox (sample_accounts users) = []" "as_drive (sample_accounts users) = sample_drive [] [] (\<lambda>_. None)"
    "as_jobs (sample_accounts users) = []"
  by (simp_all add: sample_accounts_def)

lemma sample_links_ok: "links_ok [sample_user]"
  by (simp add: links_ok_def users_ok_def unique_column_def unique_nullable_def)

theorem email_link_exact_witness:
  "fst (verify_email sample_account_env ''t'' (sample_accounts [sample_user]))
    = Inr \<lparr>er_already_verified = False, er_username = ''ada'', er_message = ''Your email address is verified. You can now sign in.''\<rparr>"
proof -
  have "ac_email_token_hash sample_user = Some (ae_sha256 sample_account_env ''t'')" by (simp add: sample_user_def sample_account_env_def)
  moreover have "fst (email_link_outcome sample_account_env 0 sample_user)
      = Inr \<lparr>er_already_verified = False, er_username = ''ada'', er_message = ''Your email address is verified. You can now sign in.''\<rparr>"
    by (simp add: email_link_outcome_def sample_user_def new_user_def token_is_expired_def)
  ultimately show ?thesis
    using email_link_exact [OF sample_calm_accounts, of "sample_accounts [sample_user]" sample_user "''t''"] sample_links_ok
    by (auto simp: sample_account_env_def)
qed

lemma dead_reset_link:
  assumes "calm_accounts env" "\<forall>r \<in> set (as_users s). ac_reset_token_hash r \<noteq> Some (ae_sha256 env token)"
  shows "reset_password env token pw s = (Inl (HTTPException 400 invalid_reset_token_message), ticked 2 s)"
  using assms(2) by (simp add: reset_password_def Let_def sbind_def account_now_ticked calm_select [OF assms(1)]
      sql_first_None [THEN iffD2] raise_op_def)

text \<open>a live reset link sets the password of the one account it was issued for, verifies its address, keeps the date
  of an earlier verification, and is dead afterwards, for any new password.\<close>

theorem reset_link_single_use:
  assumes "calm_accounts env" "links_ok (as_users s)" "u \<in> set (as_users s)" "ac_reset_token_hash u = Some (ae_sha256 env token)"
    and "\<not> token_is_expired (ac_reset_expires_at u) (ae_clock env (as_ticks s))"
  shows "\<exists>t hashed. reset_password env token pw s = (Inr (ac_username u), t) \<and> hashed = ae_hash_password env (as_ticks s + 2) pw
    \<and> as_users t = put_user (apply_reset hashed (ae_clock env (as_ticks s)) u) (as_users s)
    \<and> (\<forall>pw'. reset_password env token pw' t = (Inl (HTTPException 400 invalid_reset_token_message), ticked 2 t))"
proof -
  let ?h = "ae_sha256 env token" and ?now = "ae_clock env (as_ticks s)"
  let ?n = "apply_reset (ae_hash_password env (as_ticks s + 2) pw) ?now"
  have ok: "unique_key ac_id (as_users s)" "unique_nullable ac_reset_token_hash (as_users s)"
    using assms(2) by (simp_all add: links_ok_def users_ok_def)
  have f: "sql_first (sql_select (\<lambda>r. ac_reset_token_hash r = Some ?h) (as_users s)) = Some u"
    by (rule first_of_hash [OF ok(2) assms(3,4)])
  have l: "reset_token_live u ?h ?now u" using assms(4,5) by (auto simp: reset_token_live_def token_is_expired_def split: option.splits)
  have up: "sql_update (reset_token_live u ?h ?now) ?n (as_users s) = put_user (?n u) (as_users s)"
    by (rule update_one [where u = u and P = "reset_token_live u ?h ?now", OF ok(1) assms(3) l]) (simp_all add: reset_token_live_def apply_reset_def)
  let ?t = "(ticked 4 s)\<lparr>as_users := put_user (?n u) (as_users s)\<rparr>"
  have hit: "\<exists>r \<in> set (as_users s). reset_token_live u ?h ?now r" using l assms(3) by blast
  have step: "reset_password env token pw s = (Inr (ac_username u), ?t)"
    using f up hit assms(5) by (simp add: reset_password_def Let_def sbind_def account_now_ticked account_tick_ticked calm_select [OF assms(1)]
        calm_update [OF assms(1)] sreturn_def numeral_eq_Suc; blast)
  have gone: "\<forall>r \<in> set (put_user (?n u) (as_users s)). ac_reset_token_hash r \<noteq> Some ?h"
    using account_nullable_inj [OF ok(2) _ assms(3) _ assms(4)] by (auto simp: put_user_def sql_update_def apply_reset_def split: if_splits)
  have "reset_password env token pw' ?t = (Inl (HTTPException 400 invalid_reset_token_message), ticked 2 ?t)" for pw'
    by (rule dead_reset_link [OF assms(1)]) (use gone in simp)
  with step show ?thesis by (intro exI [of _ ?t] exI [of _ "ae_hash_password env (as_ticks s + 2) pw"]) simp
qed

theorem reset_link_single_use_witness:
  "fst (reset_password sample_account_env ''q'' ''new'' (sample_accounts [sample_user])) = Inr ''ada''"
proof -
  have "ac_reset_token_hash sample_user = Some (ae_sha256 sample_account_env ''q'')" "ac_username sample_user = ''ada''"
    "\<not> token_is_expired (ac_reset_expires_at sample_user) (ae_clock sample_account_env 0)"
    by (simp_all add: sample_user_def new_user_def sample_account_env_def token_is_expired_def)
  then show ?thesis
    using reset_link_single_use [OF sample_calm_accounts, of "sample_accounts [sample_user]" sample_user "''q''" "''new''"] sample_links_ok by auto
qed

text \<open>of two submissions of one reset link only one wins: whatever the other sessions do, a submission that finds
  the digest cleared by the time of its update is refused and changes nothing.\<close>

theorem reset_race_one_winner:
  assumes "\<And>rows r. r \<in> set (ae_rivals env (as_ticks s + 3) rows) \<Longrightarrow> ac_reset_token_hash r \<noteq> Some (ae_sha256 env token)"
  shows "reset_password env token pw s \<noteq> (Inr name, t)"
proof
  assume won: "reset_password env token pw s = (Inr name, t)"
  let ?h = "ae_sha256 env token"
  let ?s1 = "account_sync env (ticked 1 s)"
  from won obtain u where "sql_first (sql_select (\<lambda>r. ac_reset_token_hash r = Some ?h) (as_users ?s1)) = Some u"
    and nx: "\<not> token_is_expired (ac_reset_expires_at u) (ae_clock env (as_ticks s))"
    by (auto simp: reset_password_def Let_def sbind_def account_now_ticked select_users_def raise_op_def
        split: option.splits if_splits prod.splits sum.splits)
  then have "reset_password env token pw s = sbind (update_users_where env (reset_token_live u ?h (ae_clock env (as_ticks s)))
        (apply_reset (ae_hash_password env (as_ticks ?s1) pw) (ae_clock env (as_ticks s)))) (\<lambda>consumed.
        if \<not> consumed then raise_op (HTTPException 400 invalid_reset_token_message) else sreturn (Inr (ac_username u))) (ticked 1 ?s1)"
    by (simp add: reset_password_def Let_def sbind_def account_now_ticked account_tick_ticked select_users_def)
  moreover have "as_ticks (ticked 1 ?s1) = as_ticks s + 3" by (simp add: account_sync_def)
  moreover have "\<not> reset_token_live u ?h now r" if "r \<in> set (ae_rivals env (Suc (Suc (Suc (as_ticks s)))) rows)" for r rows now
    using assms(1) [of r rows] that by (simp add: reset_token_live_def numeral_eq_Suc)
  ultimately show False using won
    by (auto simp: sbind_def update_users_where_def Let_def raise_op_def account_sync_def split: if_splits)
qed

theorem reset_race_one_winner_witness:
  "fst (reset_password (sample_account_env\<lparr>ae_rivals := (\<lambda>n t. if n = 3 then [] else t)\<rparr>) ''q'' ''new'' (sample_accounts [sample_user])) \<noteq> Inr ''ada''"
proof -
  let ?env = "sample_account_env\<lparr>ae_rivals := (\<lambda>n t. if n = 3 then [] else t)\<rparr>"
  have "reset_password ?env ''q'' ''new'' (sample_accounts [sample_user]) \<noteq> (Inr ''ada'', t)" for t
    by (rule reset_race_one_winner) simp
  then show ?thesis by (cases "reset_password ?env ''q'' ''new'' (sample_accounts [sample_user])") auto
qed

subsection \<open>Phone numbers\<close>

text \<open>The numbers of E.164, over characters: what the pattern is meant to let through.\<close>

definition plain_number :: "string \<Rightarrow> bool" where
  "plain_number s = (case s of p # d # ds \<Rightarrow> p = CHR ''+'' \<and> is_digit d \<and> d \<noteq> CHR ''0'' \<and> list_all is_digit ds
       \<and> 7 \<le> length ds \<and> length ds \<le> 14 | _ \<Rightarrow> False)"

abbreviation points :: "string \<Rightarrow> nat list" where "points \<equiv> map of_char"

lemma is_decimal_low: "n < 256 \<Longrightarrow> is_decimal n = (48 \<le> n \<and> n \<le> 57)"
proof -
  assume n: "n < 256"
  have "decimal_zeros = 48 # tl decimal_zeros" "list_all ((\<le>) 256) (tl decimal_zeros)" by (simp_all add: decimal_zeros_def)
  then have "set decimal_zeros = insert 48 (set (tl decimal_zeros))" "\<forall>z \<in> set (tl decimal_zeros). 256 \<le> z"
    by (metis list.simps(15), simp add: list_all_iff)
  then show ?thesis using n by (fastforce simp: is_decimal_def)
qed

lemma is_decimal_char: "is_decimal (of_char c) = is_digit c"
  using is_decimal_low [OF nat_of_char_less_256] by (simp add: is_digit_def Let_def)

lemma white_point_low: "n < 256 \<Longrightarrow> white_point n = ((9 \<le> n \<and> n \<le> 13) \<or> (28 \<le> n \<and> n \<le> 32) \<or> n = 133 \<or> n = 160)"
  by (auto simp: white_point_def)

lemma white_point_char: "white_point (of_char c) = is_space c"
  using white_point_low [OF nat_of_char_less_256] by (simp add: is_space_def Let_def)

lemma code_points: "(of_char c = (43 :: nat)) = (c = CHR ''+'')" "(of_char c = (48 :: nat)) = (c = CHR ''0'')"
  using of_char_eq_iff [where 'a = nat, of c "CHR ''+''"] of_char_eq_iff [where 'a = nat, of c "CHR ''0''"] by simp_all

lemma first_digit: "(49 \<le> (of_char d :: nat) \<and> of_char d \<le> (57 :: nat)) = (is_digit d \<and> d \<noteq> CHR ''0'')"
  unfolding code_points(2) [symmetric] by (auto simp: is_digit_def Let_def)

lemma e164_body_points: "e164_body (points n) = plain_number n"
proof (cases "2 \<le> length n")
  case True
  then obtain p d ds where "n = p # d # ds" by (auto simp: numeral_eq_Suc Suc_le_length_iff)
  then show ?thesis
    using first_digit [of d] by (auto simp: e164_body_def plain_number_def list.pred_map o_def is_decimal_char code_points)
qed (cases n; cases "tl n"; simp add: e164_body_def plain_number_def)

lemma strip_points_char: "strip_points (points s) = points (py_strip s)"
  by (simp add: strip_points_def py_strip_def dropWhile_map rev_map o_def white_point_char)

lemma plain_number_chars: "plain_number n \<Longrightarrow> c \<in> set n \<Longrightarrow> is_digit c \<or> c = CHR ''+''"
  by (auto simp: plain_number_def list_all_iff split: list.splits)

lemma plain_chars: "is_digit c \<or> c = CHR ''+'' \<Longrightarrow> \<not> is_space c \<and> of_char c \<notin> set STRIP_CHARS"
  by (auto simp: is_digit_def is_space_def STRIP_CHARS_def Let_def)

lemma plain_number_clean:
  assumes "plain_number n"
  shows "n \<noteq> []" "\<forall>c \<in> set n. \<not> is_space c" "drop_separators (points n) = points n" "take 2 (points n) \<noteq> [48, 48]"
proof -
  have c: "\<not> is_space x \<and> of_char x \<notin> set STRIP_CHARS" if "x \<in> set n" for x
    using plain_chars plain_number_chars [OF assms that] by blast
  show "n \<noteq> []" using assms by (auto simp: plain_number_def)
  show "\<forall>c \<in> set n. \<not> is_space c" using c by blast
  show "drop_separators (points n) = points n" using c by (simp add: drop_separators_def)
  show "take 2 (points n) \<noteq> [48, 48]"
    using assms by (auto simp: plain_number_def code_points split: list.splits)
qed

lemma plain_number_normal:
  assumes "plain_number n"
  shows "normalize_phone_number (Some n) = Inr n"
proof -
  have "py_strip n = n" using plain_number_clean [OF assms] by (intro py_strip_id) auto
  then have "normalize_points (Some (points n)) = Inr (points n)"
    using plain_number_clean [OF assms] assms by (simp add: normalize_points_def strip_points_char e164_match_def e164_body_points)
  then show ?thesis by (simp add: normalize_phone_number_def o_def)
qed

lemma newline_number:
  assumes "plain_number n"
  shows "normalize_phone_number (Some (n @ [CHR 0x0A, CHR ''-''])) = Inr (n @ [CHR 0x0A])"
proof -
  let ?s = "n @ [CHR 0x0A, CHR ''-'']"
  have "\<not> is_space (CHR ''-'')" by (simp add: is_space_def)
  then have "py_strip ?s = ?s" using plain_number_clean [OF assms] by (intro py_strip_id) (auto simp: hd_append)
  moreover have "drop_separators (points ?s) = points n @ [10]"
    using plain_number_clean(3) [OF assms] by (simp add: drop_separators_def STRIP_CHARS_def)
  moreover have "take 2 (points n @ [10]) \<noteq> [48, 48]"
    using assms by (auto simp: plain_number_def code_points split: list.splits)
  ultimately have "normalize_points (Some (points ?s)) = Inr (points n @ [10])"
    using assms by (simp add: normalize_points_def strip_points_char e164_match_def e164_body_points del: map_append)
  moreover have "char_of (10 :: nat) = CHR 0x0A" using char_of_char [where 'a = nat, of "CHR 0x0A"] by simp
  ultimately show ?thesis by (simp add: normalize_phone_number_def o_def)
qed

text \<open>The pattern accepts more than E.164: a number whose digits behind the first are Arabic-Indic is normalized as it is.\<close>

lemma foreign_digits_accepted:
  "normalize_points (Some [43, 49, 0x664, 0x661, 0x665, 0x665, 0x665, 0x665, 0x662, 0x666, 0x667, 0x661])
    = Inr [43, 49, 0x664, 0x661, 0x665, 0x665, 0x665, 0x665, 0x662, 0x666, 0x667, 0x661]"
  by (simp add: normalize_points_def strip_points_def white_point_def drop_separators_def STRIP_CHARS_def e164_match_def
      e164_body_def is_decimal_def decimal_zeros_def)

definition issued_at :: "account_env \<Rightarrow> user_row \<Rightarrow> account_state \<Rightarrow> issued_phone_code" where
  "issued_at env u s = issue_phone_code (ae_hmac env) (ae_randbelow env (as_ticks s + 1)) (st_secret_key (ae_settings env)) (ac_id u)
     (st_phone_ttl_minutes (ae_settings env)) (ae_clock env (as_ticks s))"

definition stamped_user :: "account_env \<Rightarrow> user_row \<Rightarrow> string \<Rightarrow> account_state \<Rightarrow> user_row" where
  "stamped_user env u p s = (coded_user u p (issued_at env u s))\<lparr>ac_phone_sent_at := Some (ip_sent_at (issued_at env u s))\<rparr>"

lemma put_user_twice: "ac_id n = ac_id m \<Longrightarrow> put_user n (put_user m t) = put_user n t"
  by (simp add: put_user_def sql_update_def)

lemma put_user_mem: "u \<in> set t \<Longrightarrow> ac_id n = ac_id u \<Longrightarrow> n \<in> set (put_user n t)"
  by (auto simp: put_user_def sql_update_def)

lemma phone_free_put: "phone_free n t \<Longrightarrow> ac_id m = ac_id n \<Longrightarrow> phone_free n (put_user m t)"
  using set_put_user [of m t] by (auto simp: phone_free_def)

lemma send_phone_code_calm:
  assumes "calm_accounts env" "users_ok (as_users s)" "u \<in> set (as_users s)"
    and "phone_free (u\<lparr>ac_phone_number := Some p\<rparr>) (as_users s)" "\<forall>n. ae_send_up env n"
  shows "send_phone_code env u p s = (Inr (stamped_user env u p s), (ticked 5 s)\<lparr>as_users := put_user (stamped_user env u p s) (as_users s),
     as_outbox := as_outbox s @ [Phone_sms p (ip_code (issued_at env u s))]\<rparr>)"
proof -
  let ?c = "coded_user u p (issued_at env u s)"
  let ?u1 = "put_user ?c (as_users s)"
  let ?s1 = "(ticked 3 s)\<lparr>as_users := ?u1\<rparr>"
  let ?s2 = "(ticked 4 s)\<lparr>as_users := ?u1, as_outbox := as_outbox s @ [Phone_sms p (ip_code (issued_at env u s))]\<rparr>"
  have same: "same_account ?c u" "ac_id ?c = ac_id u" "same_account (stamped_user env u p s) ?c" "ac_id (stamped_user env u p s) = ac_id ?c"
    by (simp_all add: coded_user_def stamped_user_def same_account_def)
  have free: "phone_free ?c (as_users s)" "phone_free (stamped_user env u p s) (as_users s)"
    using assms(4) by (simp_all add: phone_free_def coded_user_def stamped_user_def)
  have ok1: "users_ok ?u1" by (rule put_user_ok [OF assms(2,3) same(1) free(1)])
  have m1: "?c \<in> set ?u1" using put_user_mem assms(3) same(2) by blast
  have 1: "save_user env u ?c (ticked 2 s) = (Inr (), ?s1)"
    using save_user_calm [OF assms(1), of "ticked 2 s"] assms(2,3) same(1) free(1) by (simp add: numeral_eq_Suc)
  have 2: "send_message env (Phone_sms p (ip_code (issued_at env u s))) ?s1 = (Inr True, ?s2)"
    using assms(5) by (simp add: send_message_def Let_def ticked_def)
  have 3: "save_user env ?c (stamped_user env u p s) ?s2 = (Inr (), (ticked 5 s)\<lparr>as_users := put_user (stamped_user env u p s) (as_users s),
     as_outbox := as_outbox s @ [Phone_sms p (ip_code (issued_at env u s))]\<rparr>)"
    using save_user_calm [OF assms(1), of ?s2 ?c "stamped_user env u p s"] ok1 m1 same(3) phone_free_put [OF free(2)] same(4)
    by (simp add: put_user_twice ticked_def)
  have "send_phone_code env u p s = sbind (save_user env u ?c) (\<lambda>_.
       sbind (send_message env (Phone_sms p (ip_code (issued_at env u s)))) (\<lambda>sent.
       if \<not> sent then raise_op sms_failed
       else sbind (save_user env ?c (stamped_user env u p s)) (\<lambda>_. sreturn (Inr (stamped_user env u p s))))) (ticked 2 s)"
    by (simp add: send_phone_code_def Let_def sbind_step [OF account_now_ticked] sbind_step [OF account_tick_ticked]
        issued_at_def stamped_user_def numeral_2_eq_2 cong: if_cong)
  then show ?thesis by (simp add: sbind_step [where m = "save_user _ _ _", OF 1]
      sbind_step [where m = "send_message _ _", OF 2] sbind_step [where m = "save_user _ _ _", OF 3] sreturn_def)
qed

lemma send_and_report_calm:
  assumes "calm_accounts env" "users_ok (as_users s)" "u \<in> set (as_users s)"
    and "phone_free (u\<lparr>ac_phone_number := Some p\<rparr>) (as_users s)" "\<forall>n. ae_send_up env n"
  shows "\<exists>st. send_and_report env failed u p s = (Inr st, (ticked 6 s)\<lparr>as_users := put_user (stamped_user env u p s) (as_users s),
     as_outbox := as_outbox s @ [Phone_sms p (ip_code (issued_at env u s))]\<rparr>)"
  using send_phone_code_calm [OF assms]
  by (simp add: send_and_report_def try_op_def sbind_def account_now_ticked sreturn_def ticked_def)

lemma request_phone_sends:
  assumes "calm_accounts env" "users_ok (as_users s)" "u \<in> set (as_users s)" "normalize_phone_number (Some raw) = Inr p"
    and "\<forall>r \<in> set (as_users s). ac_phone_number r = Some p \<longrightarrow> ac_id r = ac_id u"
    and "phone_cooldown_elapsed (ac_phone_sent_at u) (ae_clock env (as_ticks s)) (st_phone_cooldown (ae_settings env))" "\<forall>n. ae_send_up env n"
  shows "\<exists>st. request_phone_verification env u raw s = (Inr st, (ticked 8 s)\<lparr>as_users := put_user (stamped_user env u p (ticked 2 s)) (as_users s),
     as_outbox := as_outbox s @ [Phone_sms p (ip_code (issued_at env u (ticked 2 s)))]\<rparr>)"
proof -
  have "phone_free (u\<lparr>ac_phone_number := Some p\<rparr>) (as_users (ticked 2 s))" using assms(5) by (auto simp: phone_free_def)
  then obtain st where st: "send_and_report env (\<lambda>e. case e of IntegrityError \<Rightarrow> raise_op (phone_in_use False) | _ \<Rightarrow> raise_op sms_delivery_failed)
      u p (ticked 2 s) = (Inr st, (ticked 8 s)\<lparr>as_users := put_user (stamped_user env u p (ticked 2 s)) (as_users s),
     as_outbox := as_outbox s @ [Phone_sms p (ip_code (issued_at env u (ticked 2 s)))]\<rparr>)"
    using send_and_report_calm [OF assms(1), of "ticked 2 s" u p] assms(2,3,7) by fastforce
  have "sql_first (sql_select (\<lambda>r. ac_phone_number r = Some p \<and> ac_id r \<noteq> ac_id u) (as_users s)) = None"
    using assms(5) by (simp add: sql_first_None)
  then show ?thesis using st assms(4,6)
    by (simp add: request_phone_verification_def sbind_def account_now_ticked calm_select [OF assms(1)] numeral_eq_Suc)
qed

lemma request_phone_result:
  assumes "calm_accounts env" "users_ok (as_users s)" "u \<in> set (as_users s)" "normalize_phone_number (Some raw) = Inr p"
    and "\<forall>r \<in> set (as_users s). ac_phone_number r = Some p \<longrightarrow> ac_id r = ac_id u"
    and "phone_cooldown_elapsed (ac_phone_sent_at u) (ae_clock env (as_ticks s)) (st_phone_cooldown (ae_settings env))" "\<forall>n. ae_send_up env n"
  obtains st w code x where "request_phone_verification env u raw s = (Inr st, w)" "as_outbox w = as_outbox s @ [Phone_sms p code]"
    "x \<in> set (as_users w)" "ac_id x = ac_id u" "ac_phone_attempts x = 0" "ac_phone_number x = Some p"
proof -
  let ?x = "stamped_user env u p (ticked 2 s)"
  have x: "ac_id ?x = ac_id u" "ac_phone_attempts ?x = 0" "ac_phone_number ?x = Some p" by (simp_all add: stamped_user_def coded_user_def)
  obtain st where "request_phone_verification env u raw s = (Inr st, (ticked 8 s)\<lparr>as_users := put_user ?x (as_users s),
     as_outbox := as_outbox s @ [Phone_sms p (ip_code (issued_at env u (ticked 2 s)))]\<rparr>)"
    using request_phone_sends [OF assms] by blast
  from this show thesis by (rule that) (use put_user_mem [OF assms(3) x(1)] x in simp_all)
qed

text \<open>the uniqueness of phone numbers can be stepped around. The end anchor of the pattern lets a number through with
  a line break behind it, which is another string for the database: an account gets a code for the number that
  another account holds.\<close>

theorem linked_number_taken_again:
  assumes "calm_accounts env" "users_ok (as_users s)" "u \<in> set (as_users s)" "plain_number n"
    and "a \<in> set (as_users s)" "ac_phone_number a = Some n" "\<forall>r \<in> set (as_users s). ac_phone_number r \<noteq> Some (n @ [CHR 0x0A])"
    and "ac_phone_sent_at u = None" "\<forall>k. ae_send_up env k"
  shows "\<exists>st t code. request_phone_verification env u (n @ [CHR 0x0A, CHR ''-'']) s = (Inr st, t)
    \<and> as_outbox t = as_outbox s @ [Phone_sms (n @ [CHR 0x0A]) code] \<and> (\<exists>v \<in> set (as_users t). ac_id v = ac_id u \<and> ac_phone_number v = Some (n @ [CHR 0x0A]))"
proof -
  obtain st w code x where "request_phone_verification env u (n @ [CHR 0x0A, CHR ''-'']) s = (Inr st, w)"
      "as_outbox w = as_outbox s @ [Phone_sms (n @ [CHR 0x0A]) code]" "x \<in> set (as_users w)" "ac_id x = ac_id u"
      "ac_phone_number x = Some (n @ [CHR 0x0A])"
    by (rule request_phone_result [OF assms(1-3) newline_number [OF assms(4)] _ _ assms(9)])
      (use assms(7,8) in \<open>simp_all add: phone_cooldown_elapsed_def\<close>)
  then show ?thesis by blast
qed

definition second_user :: user_row where
  "second_user = new_user 2 ''pw'' 0 \<lparr>rp_username = ''bob'', rp_email = ''b@x'', rp_password = ''pw'', rp_first_name = None, rp_last_name = None\<rparr>"

lemma two_users_ok: "users_ok [sample_user, second_user]"
  by (simp add: users_ok_def unique_column_def unique_nullable_def sample_user_def second_user_def new_user_def)

lemma sample_number: "plain_number ''+14155552671''"
  by (simp add: plain_number_def is_digit_def)

lemma sample_user_fields: "ac_id sample_user = 1" "ac_phone_number sample_user = Some ''+14155552671''" "ac_is_active sample_user"
    "ac_phone_code_hash sample_user = Some ''1:000007''" "ac_phone_attempts sample_user = 0" "ac_phone_expires_at sample_user = Some 9"
    "ac_phone_sent_at second_user = None" "ac_phone_number second_user = None" "ac_id second_user = 2"
  by (simp_all add: sample_user_def second_user_def new_user_def)

theorem linked_number_taken_again_witness:
  "\<exists>st t code. request_phone_verification sample_account_env second_user (''+14155552671'' @ [CHR 0x0A, CHR ''-'']) (sample_accounts [sample_user, second_user])
      = (Inr st, t) \<and> as_outbox t = [Phone_sms (''+14155552671'' @ [CHR 0x0A]) code]"
proof -
  have "\<exists>st t code. request_phone_verification sample_account_env second_user (''+14155552671'' @ [CHR 0x0A, CHR ''-'']) (sample_accounts [sample_user, second_user])
      = (Inr st, t) \<and> as_outbox t = as_outbox (sample_accounts [sample_user, second_user]) @ [Phone_sms (''+14155552671'' @ [CHR 0x0A]) code]
      \<and> (\<exists>v \<in> set (as_users t). ac_id v = ac_id second_user \<and> ac_phone_number v = Some (''+14155552671'' @ [CHR 0x0A]))"
    by (rule linked_number_taken_again [OF sample_calm_accounts _ _ sample_number, where a = sample_user])
      (simp_all add: two_users_ok sample_user_fields, simp add: sample_account_env_def)
  then show ?thesis by auto
qed

text \<open>unlinking a number wipes the moment of the last message and the count of wrong guesses. Whoever unlinks and asks
  again gets a new message at once, however short ago the last one was, and a full budget of guesses: the cooldown
  and the budget are reset by the client.\<close>

theorem unlinking_lifts_limits:
  assumes "calm_accounts env" "users_ok (as_users s)" "u \<in> set (as_users s)" "ac_phone_number u = Some p"
    and "normalize_phone_number (Some raw) = Inr p" "\<forall>k. ae_send_up env k"
  shows "\<exists>v t w. delete_phone_number env u s = (Inr (), t) \<and> v \<in> set (as_users t) \<and> ac_id v = ac_id u
    \<and> (\<exists>st code x. request_phone_verification env v raw t = (Inr st, w) \<and> as_outbox w = as_outbox s @ [Phone_sms p code]
        \<and> x \<in> set (as_users w) \<and> ac_id x = ac_id u \<and> ac_phone_attempts x = 0)"
proof -
  let ?v = "forget_phone u"
  let ?t = "(ticked 1 s)\<lparr>as_users := put_user ?v (as_users s)\<rparr>"
  have same: "same_account ?v u" "ac_id ?v = ac_id u" "ac_phone_number ?v = None" "ac_phone_sent_at ?v = None"
    by (simp_all add: forget_phone_def same_account_def)
  then have free: "phone_free ?v (as_users s)" by (simp add: phone_free_def)
  have t: "delete_phone_number env u s = (Inr (), ?t)"
    using save_user_calm [OF assms(1-3) same(1) free] by (simp add: delete_phone_number_def)
  have ok: "users_ok (as_users ?t)" "?v \<in> set (as_users ?t)"
    using put_user_ok [OF assms(2,3) same(1) free] put_user_mem [OF assms(3) same(2)] by simp_all
  have other: "ac_id r = ac_id u" if "r \<in> set (put_user ?v (as_users s))" "ac_phone_number r = Some p" for r
    using phone_free_same [OF assms(2,3), of u] assms(4) that same(2,3)
    by (auto simp: phone_free_def put_user_def sql_update_def split: if_splits)
  obtain st w code x where r: "request_phone_verification env ?v raw ?t = (Inr st, w)" "as_outbox w = as_outbox ?t @ [Phone_sms p code]"
      "x \<in> set (as_users w)" "ac_id x = ac_id ?v" "ac_phone_attempts x = 0"
    by (rule request_phone_result [OF assms(1) ok assms(5) _ _ assms(6)]) (use other same in \<open>simp_all add: phone_cooldown_elapsed_def\<close>)
  show ?thesis
    by (intro exI conjI) (rule t, rule ok(2), rule same(2), rule r(1), simp add: r(2), rule r(3), simp add: r(4) same(2), rule r(5))
qed

theorem unlinking_lifts_limits_witness:
  "\<exists>v t w st code. delete_phone_number sample_account_env sample_user (sample_accounts [sample_user]) = (Inr (), t)
    \<and> request_phone_verification sample_account_env v ''+14155552671'' t = (Inr st, w) \<and> as_outbox w = [Phone_sms ''+14155552671'' code]"
proof -
  have u: "users_ok (as_users (sample_accounts [sample_user]))" using sample_links_ok by (simp add: links_ok_def)
  have up: "\<forall>k. ae_send_up sample_account_env k" by (simp add: sample_account_env_def)
  have "sample_user \<in> set (as_users (sample_accounts [sample_user]))" by simp
  from unlinking_lifts_limits [OF sample_calm_accounts u this sample_user_fields(2) plain_number_normal [OF sample_number] up,
      simplified sample_accounts_fields append_Nil]
  show ?thesis by (elim exE conjE) (intro exI conjI, assumption+)
qed

subsection \<open>The budget of guesses\<close>

text \<open>A request to verify: the authentication loads the row, the handler judges the code. Several requests, one after the
  other, until one succeeds.\<close>

definition verify_request :: "account_env \<Rightarrow> int \<Rightarrow> string \<Rightarrow> phone_status account_op" where
  "verify_request env user_id code = sbind (active_user env user_id) (\<lambda>u. verify_phone env u code)"

fun submit_codes :: "account_env \<Rightarrow> int \<Rightarrow> string list \<Rightarrow> account_state \<Rightarrow> bool" where
  "submit_codes env user_id [] s = False"
| "submit_codes env user_id (c # cs) s = (case verify_request env user_id c s of
     (Inr _, t) \<Rightarrow> True | (Inl _, t) \<Rightarrow> submit_codes env user_id cs t)"

definition right_code :: "account_env \<Rightarrow> user_row \<Rightarrow> string \<Rightarrow> bool" where
  "right_code env u c = code_matches (ae_hmac env) c (ac_phone_code_hash u) (st_secret_key (ae_settings env)) (ac_id u)"

definition beyond_guessing :: "account_env \<Rightarrow> user_row \<Rightarrow> int \<Rightarrow> bool" where
  "beyond_guessing env u now = (\<not> ac_is_active u \<or> ac_phone_code_hash u = None \<or> code_is_expired (ac_phone_expires_at u) now
     \<or> attempts_exhausted (ac_phone_attempts u) (st_phone_max_attempts (ae_settings env)))"

definition missed :: "user_row \<Rightarrow> user_row" where
  "missed u = u\<lparr>ac_phone_attempts := ac_phone_attempts u + 1\<rparr>"

lemma code_is_expired_mono: "code_is_expired e now \<Longrightarrow> now \<le> later \<Longrightarrow> code_is_expired e later"
  by (auto simp: code_is_expired_def split: option.splits)

lemma active_user_calm:
  assumes "calm_accounts env" "unique_key ac_id (as_users s)" "u \<in> set (as_users s)"
  shows "active_user env (ac_id u) s
    = (if ac_is_active u then Inr u else Inl (HTTPException 401 ''Invalid or inactive user''), ticked 1 s)"
  using sql_first_unique [OF assms(2,3)]
  by (simp add: active_user_def sbind_def calm_select [OF assms(1)] raise_op_def sreturn_def)

lemma verify_dead:
  assumes "calm_accounts env" "unique_key ac_id (as_users s)" "u \<in> set (as_users s)"
    and "beyond_guessing env u (ae_clock env (as_ticks s + 1))"
  shows "\<exists>e n. verify_request env (ac_id u) c s = (Inl e, ticked n s)"
  using assms(4) unfolding verify_request_def
  by (cases "ac_is_active u")
    (auto simp: sbind_def active_user_calm [OF assms(1-3)] verify_phone_def Let_def account_now_ticked raise_op_def beyond_guessing_def)

lemma verify_miss:
  assumes "calm_accounts env" "unique_key ac_id (as_users s)" "u \<in> set (as_users s)"
    and "\<not> beyond_guessing env u (ae_clock env (as_ticks s + 1))" "\<not> right_code env u c"
  shows "verify_request env (ac_id u) c s = (Inl (phone_error 400 ''PHONE_CODE_INVALID'' ''That code is not correct. Check the message and try again.''),
     (ticked 3 s)\<lparr>as_users := put_user (missed u) (as_users s)\<rparr>)"
proof -
  have "sql_update (\<lambda>r. ac_id r = ac_id u) (\<lambda>r. r\<lparr>ac_phone_attempts := ac_phone_attempts r + 1\<rparr>) (as_users s) = put_user (missed u) (as_users s)"
    using update_one [OF assms(2,3), of "\<lambda>r. ac_id r = ac_id u" "\<lambda>r. r\<lparr>ac_phone_attempts := ac_phone_attempts r + 1\<rparr>"]
    by (simp add: missed_def)
  then show ?thesis using assms(4,5) unfolding verify_request_def
    by (simp add: sbind_def active_user_calm [OF assms(1-3)] verify_phone_def Let_def account_now_ticked raise_op_def beyond_guessing_def
        right_code_def calm_update [OF assms(1)] numeral_eq_Suc) auto
qed

lemma unique_put: "unique_key ac_id t \<Longrightarrow> u \<in> set t \<Longrightarrow> ac_id n = ac_id u \<Longrightarrow> unique_key ac_id (put_user n t)"
  using put_user_map [of t u n ac_id] by (simp add: unique_key_def)

lemma dead_codes_fail:
  assumes "calm_accounts env" "mono (ae_clock env)" "unique_key ac_id (as_users s)" "u \<in> set (as_users s)"
    and "beyond_guessing env u (ae_clock env (as_ticks s + 1))"
  shows "\<not> submit_codes env (ac_id u) cs s"
  using assms(3-5)
proof (induction cs arbitrary: s)
  case (Cons c cs)
  obtain e n where v: "verify_request env (ac_id u) c s = (Inl e, ticked n s)" using verify_dead [OF assms(1) Cons.prems] by blast
  have "ae_clock env (as_ticks s + 1) \<le> ae_clock env (as_ticks (ticked n s) + 1)" using assms(2) by (simp add: monoD)
  then have "beyond_guessing env u (ae_clock env (as_ticks (ticked n s) + 1))"
    using Cons.prems(3) code_is_expired_mono unfolding beyond_guessing_def by blast
  then have "\<not> submit_codes env (ac_id u) cs (ticked n s)" using Cons.IH [of "ticked n s"] Cons.prems(1,2) by simp
  then show ?case by (simp add: v)
qed simp

text \<open>C28: a code tolerates the configured number of wrong guesses and no more: of requests that follow one another, only
  as many as the budget still allows can be the one that verifies the number. When none of these first codes is
  right, no later one succeeds, the right one included.\<close>

theorem guesses_bounded:
  assumes "calm_accounts env" "mono (ae_clock env)" "unique_key ac_id (as_users s)" "u \<in> set (as_users s)"
    and "\<And>c. c \<in> set (take (nat (st_phone_max_attempts (ae_settings env) - ac_phone_attempts u)) codes) \<Longrightarrow> \<not> right_code env u c"
  shows "\<not> submit_codes env (ac_id u) codes s"
  using assms(3-5)
proof (induction codes arbitrary: s u)
  case (Cons c cs)
  let ?left = "\<lambda>u. nat (st_phone_max_attempts (ae_settings env) - ac_phone_attempts u)"
  show ?case
  proof (cases "beyond_guessing env u (ae_clock env (as_ticks s + 1))")
    case True
    then show ?thesis using dead_codes_fail [OF assms(1,2) Cons.prems(1,2)] by blast
  next
    case False
    then have "0 < ?left u" by (simp add: beyond_guessing_def attempts_exhausted_def)
    then obtain k where k: "?left u = Suc k" using gr0_conv_Suc by blast
    then have "\<not> right_code env u c" using Cons.prems(3) by simp
    note v = verify_miss [OF assms(1) Cons.prems(1,2) False this]
    have m: "ac_id (missed u) = ac_id u" "ac_phone_code_hash (missed u) = ac_phone_code_hash u" "?left (missed u) = k"
      using k by (simp_all add: missed_def)
    have "right_code env (missed u) d = right_code env u d" for d by (simp add: right_code_def m)
    then have "d \<in> set (take (?left (missed u)) cs) \<Longrightarrow> \<not> right_code env (missed u) d" for d
      using Cons.prems(3) [of d] k m(3) by simp
    then have "\<not> submit_codes env (ac_id (missed u)) cs ((ticked 3 s)\<lparr>as_users := put_user (missed u) (as_users s)\<rparr>)"
      using Cons.IH [of "(ticked 3 s)\<lparr>as_users := put_user (missed u) (as_users s)\<rparr>" "missed u"]
        unique_put [OF Cons.prems(1,2) m(1)] put_user_mem [OF Cons.prems(2) m(1)] by simp
    then show ?thesis by (simp add: v m(1))
  qed
qed simp

theorem guesses_bounded_witness:
  "\<not> submit_codes sample_account_env 1 [''1'', ''2'', ''3'', ''4'', ''5'', ''000007''] (sample_accounts [sample_user])"
proof -
  have "\<not> right_code sample_account_env sample_user c" if "c \<in> {''1'', ''2'', ''3'', ''4'', ''5''}" for c
    using that by (auto simp: right_code_def code_matches_def hash_verification_code_def sample_user_def new_user_def
        sample_account_env_def str_int_eval)
  moreover have "mono (ae_clock sample_account_env)" "nat (st_phone_max_attempts (ae_settings sample_account_env) - ac_phone_attempts sample_user) = 5"
    by (simp_all add: sample_account_env_def sample_settings_def sample_user_def new_user_def mono_def)
  ultimately show ?thesis
    using guesses_bounded [OF sample_calm_accounts, of "sample_accounts [sample_user]" sample_user "[''1'', ''2'', ''3'', ''4'', ''5'', ''000007'']"]
    by (simp add: sample_user_fields(1) numeral_eq_Suc)
qed

text \<open>the ceiling is checked on the row the authentication loaded, not in the update. A request that was loaded before
  the budget was spent is still judged after it, so parallel guesses are not bounded by the ceiling: a right code verifies the
  number however many wrong ones have been counted since.\<close>

theorem stale_guess_beats_ceiling:
  assumes "calm_accounts env" "unique_key ac_id (as_users s)" "r \<in> set (as_users s)"
    and "ac_id u = ac_id r" "ac_phone_code_hash u = ac_phone_code_hash r" "ac_phone_expires_at u = ac_phone_expires_at r"
    and "ac_phone_code_hash r \<noteq> None" "\<not> code_is_expired (ac_phone_expires_at r) (ae_clock env (as_ticks s))"
    and "\<not> attempts_exhausted (ac_phone_attempts u) (st_phone_max_attempts (ae_settings env))"
    and "attempts_exhausted (ac_phone_attempts r) (st_phone_max_attempts (ae_settings env))" "right_code env r c"
  shows "\<exists>st t v. verify_phone env u c s = (Inr st, t) \<and> v \<in> set (as_users t) \<and> ac_id v = ac_id r \<and> ac_phone_verified v"
proof -
  let ?now = "ae_clock env (as_ticks s)"
  let ?live = "code_live u (hash_verification_code (ae_hmac env) c (st_secret_key (ae_settings env)) (ac_id u)) ?now"
  have live: "?live r" using assms(4,5,7,8,11)
    by (auto simp: code_live_def right_code_def code_matches_def code_is_expired_def split: option.splits)
  have "confirm_phone ?now r \<in> set (sql_update ?live (confirm_phone ?now) (as_users s))"
    using live assms(3) by (auto simp: sql_update_def intro!: image_eqI [of _ _ r])
  moreover have "ac_id (confirm_phone ?now r) = ac_id r" "ac_phone_verified (confirm_phone ?now r)" by (simp_all add: confirm_phone_def)
  moreover have "fst (verify_phone env u c s) = Inr \<lparr>ps_phone_number = ac_phone_number u, ps_phone_verified = True,
        ps_expires_in_seconds = None, ps_resend_available_in_seconds = None\<rparr>
      \<and> as_users (snd (verify_phone env u c s)) = sql_update ?live (confirm_phone ?now) (as_users s)"
    using live assms(3-9,11) by (auto simp: verify_phone_def Let_def sbind_def account_now_ticked calm_update [OF assms(1)]
        sreturn_def right_code_def)
  ultimately show ?thesis by (metis prod.collapse)
qed

theorem stale_guess_beats_ceiling_witness:
  "\<exists>st t. verify_phone sample_account_env sample_user ''000007'' (sample_accounts [sample_user\<lparr>ac_phone_attempts := 99\<rparr>]) = (Inr st, t)"
proof -
  have "\<exists>st t v. verify_phone sample_account_env sample_user ''000007'' (sample_accounts [sample_user\<lparr>ac_phone_attempts := 99\<rparr>]) = (Inr st, t)
      \<and> v \<in> set (as_users t) \<and> ac_id v = ac_id (sample_user\<lparr>ac_phone_attempts := 99\<rparr>) \<and> ac_phone_verified v"
    by (rule stale_guess_beats_ceiling [OF sample_calm_accounts])
      (simp_all add: sample_user_fields right_code_def code_matches_def hash_verification_code_def attempts_exhausted_def code_is_expired_def,
       simp_all add: sample_account_env_def sample_settings_def str_int_eval)
  then show ?thesis by blast
qed

subsection \<open>Sign-in\<close>

definition called :: "string \<Rightarrow> user_row \<Rightarrow> bool" where
  "called identifier r = (py_lower (ac_username r) = py_lower (py_strip identifier) \<or> py_lower (ac_email r) = py_lower (py_strip identifier))"

definition identified :: "string \<Rightarrow> user_row list \<Rightarrow> user_row \<Rightarrow> bool" where
  "identified identifier t u = (u \<in> set t \<and> (ac_username u = identifier
     \<or> (\<forall>r \<in> set t. ac_username r \<noteq> identifier) \<and> called identifier u \<and> (\<forall>r \<in> set t. called identifier r \<longrightarrow> r = u)))"

definition may_sign_in :: "account_env \<Rightarrow> string \<Rightarrow> user_row \<Rightarrow> bool" where
  "may_sign_in env password u = (ae_verify_password env password (ac_hashed_password u) \<and> ac_is_active u
     \<and> (email_verification_is_enforced (ae_settings env) \<longrightarrow> ac_email_verified u))"

definition tokens_at :: "account_env \<Rightarrow> user_row \<Rightarrow> nat \<Rightarrow> token_response" where
  "tokens_at env u n = \<lparr>tr_access_token = ae_jwt_encode env (st_secret_key (ae_settings env)) \<lparr>jc_sub = Some (str_int (ac_id u)),
       jc_exp = Some (ae_clock env n + seconds (st_access_minutes (ae_settings env) * 60)), jc_type = Some ''access''\<rparr>,
     tr_refresh_token = ae_jwt_encode env (st_secret_key (ae_settings env)) \<lparr>jc_sub = Some (str_int (ac_id u)),
       jc_exp = Some (ae_clock env (Suc n) + seconds (st_refresh_days (ae_settings env) * 86400)), jc_type = Some ''refresh''\<rparr>,
     tr_expires_in = st_access_minutes (ae_settings env) * 60\<rparr>"

lemma token_pair_ticked: "token_pair env u s = (Inr (tokens_at env u (as_ticks s)), ticked 2 s)"
  by (simp add: token_pair_def create_access_token_def create_refresh_token_def sbind_def account_now_ticked sreturn_def tokens_at_def
      numeral_eq_Suc)

lemma single_match: "distinct t \<Longrightarrow> (length (filter P t) = 1) = (\<exists>u \<in> set t. P u \<and> (\<forall>r \<in> set t. P r \<longrightarrow> r = u))"
proof
  assume "length (filter P t) = 1"
  then obtain u where "filter P t = [u]" by (auto simp: length_Suc_conv)
  then have "set (filter P t) = {u}" by simp
  then show "\<exists>u \<in> set t. P u \<and> (\<forall>r \<in> set t. P r \<longrightarrow> r = u)" by auto
next
  assume d: "distinct t" and "\<exists>u \<in> set t. P u \<and> (\<forall>r \<in> set t. P r \<longrightarrow> r = u)"
  then obtain u where "set (filter P t) = {u}" by auto
  then show "length (filter P t) = 1" using distinct_card [OF distinct_filter [OF d, of P]] by simp
qed

lemma resolve_login_calm:
  assumes "calm_accounts env" "users_ok (as_users s)"
  shows "\<exists>n found m. resolve_login_user env identifier s = (Inr (found, m), ticked n s)
    \<and> (\<forall>u. found = Some u \<longleftrightarrow> identified identifier (as_users s) u)"
proof (cases "sql_first (sql_select (\<lambda>r. ac_username r = identifier) (as_users s))")
  case (Some u)
  have "unique_key ac_username (as_users s)" using assms(2) by (simp add: users_ok_def)
  note inj = unique_key_inj [OF this]
  have u: "u \<in> set (as_users s)" "ac_username u = identifier" using sql_first_Some [OF Some] by simp_all
  have "identified identifier (as_users s) v \<longleftrightarrow> v = u" for v
  proof
    assume i: "identified identifier (as_users s) v"
    then have "v \<in> set (as_users s)" "ac_username v = identifier" using u by (auto simp: identified_def)
    then show "v = u" by (intro inj) (simp_all add: u)
  qed (use u in \<open>simp add: identified_def\<close>)
  then show ?thesis using Some by (auto simp: resolve_login_user_def sbind_def calm_select [OF assms(1)] sreturn_def)
next
  case None
  have none: "\<forall>r \<in> set (as_users s). ac_username r \<noteq> identifier" using None by (simp add: sql_first_None)
  let ?c = "filter (called identifier) (as_users s)"
  have d: "distinct (as_users s)" using assms(2) unique_key_distinct by (auto simp: users_ok_def)
  have f: "fst (resolve_login_user env identifier s) = Inr (if length ?c \<noteq> 1 then (None, if length ?c > 1 then Ambiguous else Not_found)
      else (Some (hd ?c), if py_lower (ac_email (hd ?c)) = py_lower (py_strip identifier) then By_email else By_username))"
    and t: "snd (resolve_login_user env identifier s) = ticked 2 s"
    using None by (simp_all add: resolve_login_user_def sbind_def calm_select [OF assms(1)] sreturn_def Let_def sql_select_def called_def [abs_def]
        numeral_eq_Suc)
  have "(if length ?c \<noteq> 1 then None else Some (hd ?c)) = Some u \<longleftrightarrow> identified identifier (as_users s) u" for u
  proof (cases "length ?c = 1")
    case True
    then obtain v where v: "?c = [v]" by (auto simp: length_Suc_conv)
    have mem: "r \<in> set (as_users s) \<and> called identifier r \<longleftrightarrow> r = v" for r
    proof -
      have "r \<in> set ?c \<longleftrightarrow> r = v" unfolding v by simp
      then show ?thesis by simp
    qed
    have "identified identifier (as_users s) u \<longleftrightarrow> u = v"
    proof
      assume "identified identifier (as_users s) u"
      then show "u = v" using mem [of u] none by (simp add: identified_def) blast
    next
      assume "u = v"
      then show "identified identifier (as_users s) u" using mem none unfolding identified_def by blast
    qed
    then show ?thesis using v by auto
  next
    case False
    then have "\<not> (\<exists>u \<in> set (as_users s). called identifier u \<and> (\<forall>r \<in> set (as_users s). called identifier r \<longrightarrow> r = u))"
      unfolding single_match [OF d, symmetric] .
    then have "\<not> identified identifier (as_users s) u" using none unfolding identified_def by blast
    then show ?thesis using False by simp
  qed
  moreover have "resolve_login_user env identifier s = (fst (resolve_login_user env identifier s), ticked 2 s)" using t by (metis prod.collapse)
  ultimately show ?thesis unfolding f by (cases "length ?c \<noteq> 1") auto
qed

text \<open>C29: signing in succeeds exactly for the one account the identifier names, by its exact user name or else as the only
  account with that name or address in any case, with its password, active, and verified where that is enforced;
  the tokens are that account's, and nothing is written.\<close>

theorem sign_in_exact:
  assumes "calm_accounts env" "users_ok (as_users s)"
  shows "(\<exists>n. login_for_access_token env identifier password s = (Inr (tokens_at env u n), ticked (n + 2 - as_ticks s) s)
      \<and> identified identifier (as_users s) u \<and> as_ticks s \<le> n)
      = (identified identifier (as_users s) u \<and> may_sign_in env password u)
    \<and> ((\<exists>v. identified identifier (as_users s) v \<and> may_sign_in env password v) \<or> (\<exists>e n. login_for_access_token env identifier password s = (Inl e, ticked n s)))"
proof -
  obtain n found m where r: "resolve_login_user env identifier s = (Inr (found, m), ticked n s)"
    and f: "\<And>u. found = Some u \<longleftrightarrow> identified identifier (as_users s) u" using resolve_login_calm [OF assms] by metis
  have ok: "login_for_access_token env identifier password s = (Inr (tokens_at env v (as_ticks s + n)), ticked (n + 2) s)"
    if "identified identifier (as_users s) v" "may_sign_in env password v" for v
    using that f [of v] by (simp add: login_for_access_token_def sbind_def r may_sign_in_def token_pair_ticked) auto
  have no: "\<exists>e n. login_for_access_token env identifier password s = (Inl e, ticked n s)"
    if "\<And>v. identified identifier (as_users s) v \<Longrightarrow> \<not> may_sign_in env password v"
    using that f by (cases found) (auto simp: login_for_access_token_def sbind_def r may_sign_in_def raise_op_def)
  show ?thesis
  proof (cases "\<exists>v. identified identifier (as_users s) v \<and> may_sign_in env password v")
    case True
    then obtain v where v: "identified identifier (as_users s) v" "may_sign_in env password v" by blast
    have "u = v" if "identified identifier (as_users s) u" using that v(1) f [of u] f [of v] by simp
    moreover have "\<exists>k. login_for_access_token env identifier password s = (Inr (tokens_at env v k), ticked (k + 2 - as_ticks s) s) \<and> as_ticks s \<le> k"
      by (rule exI [of _ "as_ticks s + n"]) (simp add: ok [OF v])
    ultimately show ?thesis using v by blast
  next
    case False
    then obtain e k where "login_for_access_token env identifier password s = (Inl e, ticked k s)" using no by blast
    then show ?thesis using False by auto
  qed
qed

theorem sign_in_exact_witness:
  "\<exists>n. login_for_access_token sample_account_env '' ada'' ''pw'' (sample_accounts [sample_user\<lparr>ac_email_verified := True\<rparr>])
    = (Inr (tokens_at sample_account_env (sample_user\<lparr>ac_email_verified := True\<rparr>) n), ticked (n + 2) (sample_accounts [sample_user\<lparr>ac_email_verified := True\<rparr>]))"
proof -
  let ?u = "sample_user\<lparr>ac_email_verified := True\<rparr>"
  have "users_ok [?u]" by (simp add: users_ok_def unique_column_def unique_nullable_def)
  moreover have "identified '' ada'' [?u] ?u" by (simp add: identified_def called_def sample_user_def new_user_def py_lower_def lower_char_def py_strip_def is_space_def)
  moreover have "may_sign_in sample_account_env ''pw'' ?u" by (simp add: may_sign_in_def sample_account_env_def sample_user_def new_user_def)
  ultimately show ?thesis
    using sign_in_exact [OF sample_calm_accounts, of "sample_accounts [?u]" "'' ada''" "''pw''" ?u] by auto
qed

text \<open>what the tokens of a sign-in are good for: the access token authenticates the account it was issued for as long as
  that is active, the refresh token does not, and only the refresh token buys a new pair.\<close>

theorem session_tokens:
  assumes "calm_accounts env" "unique_key ac_id (as_users s)" "u \<in> set (as_users s)" "ac_is_active u" "tr_access_token (tokens_at env u n) \<noteq> []"
    and "tr_refresh_token (tokens_at env u n) \<noteq> []"
    and "ae_jwt_decode env (st_secret_key (ae_settings env)) (tr_access_token (tokens_at env u n)) (ae_clock env (as_ticks s))
      = Some \<lparr>jc_sub = Some (str_int (ac_id u)), jc_exp = Some (ae_clock env n + seconds (st_access_minutes (ae_settings env) * 60)), jc_type = Some ''access''\<rparr>"
    and "ae_jwt_decode env (st_secret_key (ae_settings env)) (tr_refresh_token (tokens_at env u n)) (ae_clock env (as_ticks s))
      = Some \<lparr>jc_sub = Some (str_int (ac_id u)), jc_exp = Some (ae_clock env (Suc n) + seconds (st_refresh_days (ae_settings env) * 86400)), jc_type = Some ''refresh''\<rparr>"
  shows "get_current_user env (Some (tr_access_token (tokens_at env u n))) None s = (Inr u, ticked 2 s)
    \<and> fst (get_current_user env (Some (tr_refresh_token (tokens_at env u n))) None s) = Inl (HTTPException 401 ''Invalid or expired token'')
    \<and> fst (refresh_access_token env (tr_access_token (tokens_at env u n)) s) = Inl (HTTPException 401 ''Invalid or expired refresh token'')
    \<and> refresh_access_token env (tr_refresh_token (tokens_at env u n)) s = (Inr (tokens_at env u (as_ticks s + 2)), ticked 4 s)"
proof -
  have a: "active_user env (ac_id u) (ticked 1 s) = (Inr u, ticked 2 s)"
    using active_user_calm [OF assms(1), of "ticked 1 s" u] assms(2-4) by (simp add: numeral_2_eq_2)
  show ?thesis
    using a assms(5-8) by (simp add: get_current_user_def authenticate_jwt_def refresh_access_token_def sbind_def account_now_ticked
        verify_access_token_def verify_refresh_token_def decoded_claims_def raise_op_def py_int_str_int token_pair_ticked)
qed

theorem session_tokens_witness:
  "get_current_user sample_account_env (Some ''A'') None (sample_accounts [sample_user]) = (Inr sample_user, ticked 2 (sample_accounts [sample_user]))
    \<and> fst (get_current_user sample_account_env (Some ''R'') None (sample_accounts [sample_user])) = Inl (HTTPException 401 ''Invalid or expired token'')"
proof -
  have t: "tr_access_token (tokens_at sample_account_env sample_user 0) = ''A''" "tr_refresh_token (tokens_at sample_account_env sample_user 0) = ''R''"
    by (simp_all add: tokens_at_def sample_account_env_def)
  have d: "ae_jwt_decode sample_account_env k ''A'' i = Some (sample_claims ''access'')"
      "ae_jwt_decode sample_account_env k ''R'' i = Some (sample_claims ''refresh'')" for k i
    by (simp_all add: sample_account_env_def)
  have c: "sample_claims ''access'' = \<lparr>jc_sub = Some (str_int (ac_id sample_user)), jc_exp = Some (ae_clock sample_account_env 0
      + seconds (st_access_minutes (ae_settings sample_account_env) * 60)), jc_type = Some ''access''\<rparr>"
    "sample_claims ''refresh'' = \<lparr>jc_sub = Some (str_int (ac_id sample_user)), jc_exp = Some (ae_clock sample_account_env (Suc 0)
      + seconds (st_refresh_days (ae_settings sample_account_env) * 86400)), jc_type = Some ''refresh''\<rparr>"
    by (simp_all add: sample_claims_def sample_account_env_def sample_settings_def seconds_def sample_user_fields str_int_eval)
  show ?thesis
    using session_tokens [OF sample_calm_accounts, of "sample_accounts [sample_user]" sample_user 0] c
    by (simp add: t d sample_user_fields(3))
qed

text \<open>C7: whoever is authenticated, whatever other sessions do meanwhile, is an active account: by an access token that decodes
  now to its identifier, or, where an API key is sent, by an active, unexpired key of its own.\<close>

theorem authenticated_user_sound:
  assumes "get_current_user env token x_api_key s = (Inr u, t)"
  shows "u \<in> set (as_users t) \<and> ac_is_active u
    \<and> ((\<exists>tk sub. token = Some tk \<and> (x_api_key = None \<or> x_api_key = Some []) \<and> verify_access_token env tk (ae_clock env (as_ticks s)) = Some sub
          \<and> py_int sub = Inr (ac_id u))
      \<or> (\<exists>h k. x_api_key = Some h \<and> h \<noteq> [] \<and> k \<in> set (as_keys s) \<and> ak_key k = ae_sha256 env h \<and> key_is_valid k (ae_clock env (as_ticks s))
          \<and> ak_user_id k = ac_id u))"
proof -
  have act: "v \<in> set (as_users w') \<and> ac_is_active v \<and> ac_id v = i" if got: "active_user env i w = (Inr v, w')" for i v w w'
  proof -
    let ?w = "account_sync env w"
    obtain x where x: "sql_first (sql_select (\<lambda>r. ac_id r = i) (as_users ?w)) = Some x" "ac_is_active x" "v = x" "w' = ?w"
      using got by (auto simp: active_user_def sbind_def select_users_def Let_def raise_op_def sreturn_def split: option.splits if_splits)
    show ?thesis using sql_first_Some [OF x(1)] x(2-4) by simp
  qed
  show ?thesis
  proof (cases "x_api_key = None \<or> x_api_key = Some []")
    case True
    then have "authenticate_jwt env token s = (Inr u, t)" using assms by (auto simp: get_current_user_def)
    then obtain tk sub i where "token = Some tk" "verify_access_token env tk (ae_clock env (as_ticks s)) = Some sub" "py_int sub = Inr i"
        "active_user env i (ticked 1 s) = (Inr u, t)"
      by (auto simp: authenticate_jwt_def sbind_def account_now_ticked raise_op_def split: option.splits if_splits sum.splits)
    then show ?thesis using act True by blast
  next
    case False
    then obtain h where h: "x_api_key = Some h" "h \<noteq> []" by auto
    then have "authenticate_api_key env h s = (Inr u, t)" using assms by (simp add: get_current_user_def)
    then obtain k w where k: "authenticate_key env h s = (Inr (Some k), w)" "active_user env (ak_user_id k) w = (Inr u, t)"
      by (auto simp: authenticate_api_key_def sbind_def raise_op_def split: option.splits prod.splits sum.splits)
    have "scalar_one_or_none (sql_select (\<lambda>x. ak_key x = ae_sha256 env h) (as_keys s)) = Inr (Some k) \<and> key_is_valid k (ae_clock env (as_ticks s))"
      using k(1) by (auto simp: authenticate_key_def find_api_key_def sbind_def sreturn_def account_now_ticked split: option.splits if_splits prod.splits sum.splits)
    moreover have "x \<in> set xs" if "scalar_one_or_none xs = Inr (Some x)" for x and xs :: "api_key list"
      using that by (auto simp: scalar_one_or_none_def split: list.splits)
    ultimately have "k \<in> set (as_keys s) \<and> ak_key k = ae_sha256 env h \<and> key_is_valid k (ae_clock env (as_ticks s))" by (fastforce simp: sql_select_def)
    then show ?thesis using act [OF k(2)] h by metis
  qed
qed

theorem authenticated_user_sound_witness:
  "ac_is_active sample_user \<and> verify_access_token sample_account_env ''A'' 0 = Some ''1''"
proof -
  have "get_current_user sample_account_env (Some ''A'') None (sample_accounts [sample_user]) = (Inr sample_user, ticked 2 (sample_accounts [sample_user]))"
    by (simp add: get_current_user_def authenticate_jwt_def sbind_def account_now_ticked verify_access_token_def decoded_claims_def
        sample_account_env_def sample_claims_def py_int_def py_strip_def is_space_def is_digit_def digit_val_def active_user_def select_users_def
        account_sync_def sql_first_def sql_select_def sample_user_fields sreturn_def ticked_def sample_settings_def)
  from authenticated_user_sound [OF this] show ?thesis
    by (auto simp: verify_access_token_def decoded_claims_def sample_account_env_def sample_claims_def)
qed

end
