(* ===== verification/Account_Promises.thy ===== *)
theory Account_Promises
  imports Account_Safety
begin

text \<open>
  Further promises of the accounts: a revoked API key is revoked for good, the recovery routes tell nothing about the
  accounts, and the deletion of an account, taken together with the cleanup worker, in what it removes and what it leaves.
\<close>

section \<open>API keys over time\<close>

datatype key_call = Create_key user_row string "int option" "int option" | List_keys user_row | Revoke_key user_row string | Use_key string

fun key_step :: "account_env \<Rightarrow> key_call \<Rightarrow> account_state \<Rightarrow> account_state" where
  "key_step env (Create_key u name days rate) s = snd (create_api_key env u name days rate s)"
| "key_step env (List_keys u) s = snd (list_api_keys u s)"
| "key_step env (Revoke_key u key_id) s = snd (revoke_api_key u key_id s)"
| "key_step env (Use_key plaintext) s = snd (authenticate_key env plaintext s)"

definition key_run :: "account_env \<Rightarrow> key_call list \<Rightarrow> account_state \<Rightarrow> account_state" where
  "key_run env calls s = fold (key_step env) calls s"

definition keys_ok :: "account_state \<Rightarrow> bool" where
  "keys_ok s = (unique_key ak_id (as_keys s) \<and> unique_key ak_key (as_keys s))"

definition revoked_hash :: "string \<Rightarrow> account_state \<Rightarrow> bool" where
  "revoked_hash h s = (\<exists>k \<in> set (as_keys s). ak_key k = h \<and> ak_status k = Key_REVOKED)"

definition keeps_keys :: "account_state \<Rightarrow> account_state \<Rightarrow> bool" where
  "keeps_keys s t = (keys_ok s \<longrightarrow> keys_ok t \<and> (\<forall>h. revoked_hash h s \<longrightarrow> revoked_hash h t))"

interpretation kk: state_frame keeps_keys
  by unfold_locales (auto simp: keeps_keys_def)

lemma keeps_tick: "keeps_keys s (snd (account_tick f s))" "keeps_keys s (snd (account_now env s))"
  by (simp_all add: keeps_keys_def keys_ok_def revoked_hash_def account_tick_def account_now_def)

lemma keeps_read: "keeps_keys s (snd (get_key_by_id i s))" "keeps_keys s (snd (find_api_key h s))" "keeps_keys s (snd (find_keys_by_user n s))"
  by (simp_all add: get_key_by_id_def find_api_key_def find_keys_by_user_def kk.refl)

lemma keeps_save: "keeps_keys s (snd (save_api_key k s))"
  by (auto simp: keeps_keys_def keys_ok_def revoked_hash_def save_api_key_def unique_key_append)

lemma mem_sql_update: "r \<in> set t \<Longrightarrow> (if P r then f r else r) \<in> set (sql_update P f t)"
  by (auto simp: sql_update_def)

lemma keeps_update:
  assumes "\<And>r. ak_id (f r) = ak_id r" "\<And>r. ak_key (f r) = ak_key r" "\<And>r. P r \<Longrightarrow> ak_status r = Key_REVOKED \<Longrightarrow> ak_status (f r) = Key_REVOKED"
  shows "keeps_keys s (s\<lparr>as_keys := sql_update P f (as_keys s)\<rparr>)"
proof -
  have "revoked_hash h (s\<lparr>as_keys := sql_update P f (as_keys s)\<rparr>)" if h: "revoked_hash h s" for h
  proof -
    obtain k where k: "k \<in> set (as_keys s)" "ak_key k = h" "ak_status k = Key_REVOKED" using h by (auto simp: revoked_hash_def)
    show ?thesis using mem_sql_update [OF k(1), of P f] assms(2,3) k(2,3) unfolding revoked_hash_def by (cases "P k") auto
  qed
  then show ?thesis using assms(1,2) by (simp add: keeps_keys_def keys_ok_def unique_key_update)
qed

lemma keeps_touch: "keeps_keys s (snd (touch_last_used env i s))"
  unfolding touch_last_used_def
  by (intro kk.sbind_frame keeps_tick) (simp add: smodify_def keeps_update)

lemma keeps_create_key: "keeps_keys s (snd (create_key env user_id name days rate s))"
  unfolding create_key_def Let_def by (intro kk.sbind_frame keeps_tick keeps_save kk.sreturn_frame)

lemma keeps_use: "keeps_keys s (snd (authenticate_key env p s))"
  unfolding authenticate_key_def
  by (intro kk.sbind_frame keeps_read keeps_tick kk.option_frame kk.if_frame keeps_touch kk.sreturn_frame)

lemma keeps_revoke: "keeps_keys s (snd (revoke_key key_id user_id s))"
  unfolding revoke_key_def
proof (rule kk.sbind_frame [OF keeps_read(1)])
  fix found s
  show "keeps_keys s (snd ((case found of None \<Rightarrow> sreturn (Inr None) | Some k \<Rightarrow>
      if ak_user_id k \<noteq> user_id then sreturn (Inr None)
      else if ak_status k \<noteq> Key_REVOKED
      then sbind (update_api_key (k\<lparr>ak_status := Key_REVOKED\<rparr>)) (\<lambda>_. sreturn (Inr (Some (k\<lparr>ak_status := Key_REVOKED\<rparr>))))
      else sreturn (Inr (Some k))) s))"
    by (intro kk.option_frame kk.if_frame kk.sbind_frame kk.sreturn_frame) (simp add: update_api_key_def keeps_update)
qed

lemma keeps_step: "keeps_keys s (key_step env c s)"
proof (cases c)
  case (Revoke_key u i)
  then show ?thesis
    by (simp add: revoke_api_key_def) (intro kk.sbind_frame keeps_revoke kk.if_frame kk.raise_frame kk.sreturn_frame)
qed (simp_all add: create_api_key_def keeps_create_key list_api_keys_def keeps_read keeps_use)

lemma keeps_run: "keeps_keys s (key_run env calls s)"
proof (induction calls arbitrary: s)
  case Nil
  show ?case by (simp add: key_run_def kk.refl)
next
  case (Cons c calls)
  show ?case using kk.trans [OF keeps_step Cons.IH [of "key_step env c s"]] by (simp add: key_run_def)
qed

lemma revoked_refused:
  assumes "keys_ok s" "revoked_hash (ae_sha256 env p) s"
  shows "fst (authenticate_key env p s) = Inr None"
proof -
  obtain k where k: "k \<in> set (as_keys s)" "ak_key k = ae_sha256 env p" "ak_status k = Key_REVOKED" using assms(2) by (auto simp: revoked_hash_def)
  have "unique_key ak_key (as_keys s)" using assms(1) by (simp add: keys_ok_def)
  then have "scalar_one_or_none (sql_select (\<lambda>x. ak_key x = ae_sha256 env p) (as_keys s)) = Inr (Some k)"
    using scalar_one_unique sql_first_unique k(1,2) by metis
  then show ?thesis using k(3)
    by (simp add: authenticate_key_def find_api_key_def sbind_def account_now_ticked key_is_valid_def sreturn_def)
qed

text \<open>C8: once its owner has revoked an API key it never authenticates again, whatever keys are created, listed, revoked or
  used afterwards and by whom; someone else's attempt to revoke it changes nothing.\<close>

theorem key_revocation_final:
  assumes "keys_ok s" "k \<in> set (as_keys s)" "ak_key k = ae_sha256 env p"
  shows "(ak_user_id k = user_id \<longrightarrow> fst (authenticate_key env p (key_run env calls (snd (revoke_key (ak_id k) user_id s)))) = Inr None)
    \<and> (ak_user_id k \<noteq> user_id \<longrightarrow> revoke_key (ak_id k) user_id s = (Inr None, s))"
proof -
  have g: "get_key_by_id (ak_id k) s = (Inr (Some k), s)"
    using scalar_one_unique [of ak_id "as_keys s" "ak_id k"] sql_first_unique [of ak_id "as_keys s" k] assms(1,2)
    by (simp add: get_key_by_id_def keys_ok_def)
  have "revoked_hash (ak_key k) (snd (revoke_key (ak_id k) (ak_user_id k) s))"
  proof (cases "ak_status k = Key_REVOKED")
    case True
    then show ?thesis using g assms(2) by (auto simp: revoke_key_def sbind_def sreturn_def revoked_hash_def)
  next
    case False
    let ?f = "\<lambda>r. r\<lparr>ak_status := Key_REVOKED, ak_last_used_at := ak_last_used_at k, ak_expires_at := ak_expires_at k\<rparr>"
    have "?f k \<in> set (sql_update (\<lambda>r. ak_id r = ak_id k) ?f (as_keys s))"
      using mem_sql_update [OF assms(2), of "\<lambda>r. ak_id r = ak_id k" ?f] by simp
    moreover have "ak_key (?f k) = ak_key k" "ak_status (?f k) = Key_REVOKED" by simp_all
    moreover have "as_keys (snd (revoke_key (ak_id k) (ak_user_id k) s)) = sql_update (\<lambda>r. ak_id r = ak_id k) ?f (as_keys s)"
      using g False by (simp add: revoke_key_def sbind_def sreturn_def update_api_key_def)
    ultimately show ?thesis unfolding revoked_hash_def by metis
  qed
  moreover have "keys_ok (snd (revoke_key (ak_id k) (ak_user_id k) s))" using keeps_revoke assms(1) by (simp add: keeps_keys_def)
  ultimately have "fst (authenticate_key env p (key_run env calls (snd (revoke_key (ak_id k) (ak_user_id k) s)))) = Inr None"
    using keeps_run assms(3) by (intro revoked_refused) (simp_all add: keeps_keys_def)
  then show ?thesis using g by (auto simp: revoke_key_def sbind_def sreturn_def)
qed

definition sample_key :: api_key where
  "sample_key = \<lparr>ak_id = ''i'', ak_key = ''tr_t'', ak_user_id = 1, ak_name = ''n'', ak_status = Key_ACTIVE, ak_created_at = 0,
     ak_expires_at = None, ak_last_used_at = None, ak_rate_limit_per_usage = 100\<rparr>"

theorem key_revocation_final_witness:
  "fst (authenticate_key sample_account_env ''tr_t'' (key_run sample_account_env [Use_key ''tr_t'', Create_key sample_user ''m'' None None]
     (snd (revoke_key ''i'' 1 ((sample_accounts [sample_user])\<lparr>as_keys := [sample_key]\<rparr>))))) = Inr None"
proof -
  let ?s = "(sample_accounts [sample_user])\<lparr>as_keys := [sample_key]\<rparr>"
  have k: "keys_ok ?s" "sample_key \<in> set (as_keys ?s)" "ak_key sample_key = ae_sha256 sample_account_env ''tr_t''"
      "ak_id sample_key = ''i''" "ak_user_id sample_key = 1"
    by (simp_all add: keys_ok_def sample_key_def sample_account_env_def)
  show ?thesis using key_revocation_final [OF k(1-3), of 1] k(4,5) by simp
qed

section \<open>Recovery\<close>

lemma issued_reset_same: "same_account (u\<lparr>ac_reset_token_hash := a, ac_reset_expires_at := b\<rparr>) u" "same_account (u\<lparr>ac_reset_sent_at := c\<rparr>) u"
    "same_account (u\<lparr>ac_email_token_hash := a, ac_email_expires_at := b\<rparr>) u" "same_account (u\<lparr>ac_email_sent_at := c\<rparr>) u"
  by (simp_all add: same_account_def)

text \<open>Saving a row with nothing but link columns changed.\<close>

lemma save_link_columns:
  assumes "calm_accounts env" "users_ok (as_users s)" "u \<in> set (as_users s)" "same_account n u" "ac_phone_number n = ac_phone_number u"
  shows "save_user env u n s = (Inr (), (ticked 1 s)\<lparr>as_users := put_user n (as_users s)\<rparr>)"
    "users_ok (put_user n (as_users s))" "n \<in> set (put_user n (as_users s))"
proof -
  have i: "ac_id n = ac_id u" using assms(4) by (simp add: same_account_def)
  have f: "phone_free n (as_users s)" by (rule phone_free_same [OF assms(2,3) i assms(5)])
  show "save_user env u n s = (Inr (), (ticked 1 s)\<lparr>as_users := put_user n (as_users s)\<rparr>)" by (rule save_user_calm [OF assms(1-4) f])
  show "users_ok (put_user n (as_users s))" by (rule put_user_ok [OF assms(2-4) f])
  show "n \<in> set (put_user n (as_users s))" by (rule put_user_mem [OF assms(3) i])
qed

lemma send_message_users: "send_message env m s = (Inr (ae_send_up env (as_ticks s)), (ticked 1 s)\<lparr>as_outbox :=
    (if ae_send_up env (as_ticks s) then as_outbox s @ [m] else as_outbox s)\<rparr>)"
  by (simp add: send_message_def Let_def ticked_def)

lemma issue_reset_calm:
  assumes "calm_accounts env" "users_ok (as_users s)" "u \<in> set (as_users s)" "0 < st_reset_ttl_minutes (ae_settings env)"
  shows "\<exists>x t. issue_and_send_password_reset_email env u b s = (Inr x, t)
    \<and> (as_outbox t = as_outbox s \<or> (\<exists>url. as_outbox t = as_outbox s @ [Reset_mail (ac_email u) (ac_username u) url]))"
proof -
  let ?raw = "ae_secret_token env (as_ticks s + 1)"
  let ?tok = "issue_token (ae_sha256 env) ?raw (seconds (st_reset_ttl_minutes (ae_settings env) * 60)) (ae_clock env (as_ticks s + 2))"
  let ?n = "u\<lparr>ac_reset_token_hash := Some (it_hashed ?tok), ac_reset_expires_at := Some (it_expires_at ?tok)\<rparr>"
  let ?m = "Reset_mail (ac_email u) (ac_username u) (build_password_reset_url (it_raw ?tok) (ae_settings env))"
  let ?s1 = "(ticked 4 s)\<lparr>as_users := put_user ?n (as_users s)\<rparr>"
  have sv: "save_user env u ?n (ticked 3 s) = (Inr (), ?s1)"
    using save_link_columns(1) [OF assms(1), of "ticked 3 s" u ?n] assms(2,3) by (simp add: issued_reset_same numeral_eq_Suc)
  let ?up = "ae_send_up env (as_ticks ?s1)"
  let ?s2 = "(ticked 1 ?s1)\<lparr>as_outbox := (if ?up then as_outbox s @ [?m] else as_outbox s)\<rparr>"
  have sd: "send_message env ?m ?s1 = (Inr ?up, ?s2)" by (simp add: send_message_users)
  have n: "users_ok (as_users (ticked 1 ?s2))" "?n \<in> set (as_users (ticked 1 ?s2))" "?n \<in> set (put_user ?n (as_users s))"
    using save_link_columns(2,3) [OF assms(1-3), of ?n] by (simp_all add: issued_reset_same)
  have st: "\<exists>t. save_user env ?n (?n\<lparr>ac_reset_sent_at := c\<rparr>) (ticked 1 ?s2) = (Inr (), t) \<and> as_outbox t = as_outbox ?s2" for c
    using save_link_columns(1) [OF assms(1) n(1,2), of "?n\<lparr>ac_reset_sent_at := c\<rparr>"] by (simp add: issued_reset_same del: ticked_simps(9))
  have ih: "it_hashed ?tok = ae_sha256 env ?raw" by (simp add: issue_token_def)
  show ?thesis
  proof (cases "b \<and> \<not> cooldown_elapsed (ac_reset_sent_at u) (st_reset_cooldown (ae_settings env)) (ae_clock env (as_ticks s))")
    case True
    then show ?thesis by (simp add: issue_and_send_password_reset_email_def sbind_def account_now_ticked sreturn_def) blast
  next
    case False
    have "issue_and_send_password_reset_email env u b s = sbind (save_user env u ?n) (\<lambda>_. sbind (send_message env ?m) (\<lambda>sent.
       if \<not> sent then sreturn (Inr (False, ?n))
       else sbind (account_now env) (\<lambda>sent_at. sbind (save_user env ?n (?n\<lparr>ac_reset_sent_at := Some sent_at\<rparr>))
         (\<lambda>_. sreturn (Inr (True, ?n\<lparr>ac_reset_sent_at := Some sent_at\<rparr>)))))) (ticked 3 s)"
      unfolding issue_and_send_password_reset_email_def sbind_step [OF account_now_ticked] if_not_P [OF False]
      using assms(4) by (simp add: issue_password_reset_token_def Let_def sbind_step [OF account_now_ticked]
          sbind_step [OF account_tick_ticked] sbind_step [where m = "sreturn _", OF sreturn_def] numeral_eq_Suc cong: if_cong)
    then have e: "issue_and_send_password_reset_email env u b s = (if \<not> ?up then sreturn (Inr (False, ?n))
       else sbind (account_now env) (\<lambda>sent_at. sbind (save_user env ?n (?n\<lparr>ac_reset_sent_at := Some sent_at\<rparr>))
         (\<lambda>_. sreturn (Inr (True, ?n\<lparr>ac_reset_sent_at := Some sent_at\<rparr>))))) ?s2"
      by (simp only: sbind_step [where m = "save_user _ _ _", OF sv] sbind_step [where m = "send_message _ _", OF sd])
    show ?thesis
    proof (cases ?up)
      case True
      obtain t where t: "save_user env ?n (?n\<lparr>ac_reset_sent_at := Some (ae_clock env (as_ticks ?s2))\<rparr>) (ticked 1 ?s2) = (Inr (), t)"
        "as_outbox t = as_outbox ?s2" using st by blast
      have "issue_and_send_password_reset_email env u b s = (Inr (True, ?n\<lparr>ac_reset_sent_at := Some (ae_clock env (as_ticks ?s2))\<rparr>), t)"
        unfolding e if_not_P [OF not_not [THEN iffD2, OF True]] sbind_step [OF account_now_ticked] sbind_step [where m = "save_user _ _ _", OF t(1)]
        by (rule sreturn_def)
      then show ?thesis using t(2) True by (intro exI conjI disjI2) (assumption, simp)
    next
      case False
      then show ?thesis unfolding e by (simp add: sreturn_def) blast
    qed
  qed
qed

text \<open>asking for a password reset tells the caller nothing: for every address, known or not, active or not, throttled or
  not, the answer is the same; and at most one message goes out, to the address on file of an active account whose
  address is the one asked for, in any case.\<close>

theorem recovery_reveals_nothing:
  assumes "calm_accounts env" "users_ok (as_users s)" "0 < st_reset_ttl_minutes (ae_settings env)"
  shows "\<exists>t. forgot_password env email s = (Inr forgot_password_accepted_message, t)
    \<and> (as_outbox t = as_outbox s \<or> (\<exists>u \<in> set (as_users s). \<exists>url. ac_is_active u \<and> py_lower (ac_email u) = py_lower (py_strip email)
         \<and> as_outbox t = as_outbox s @ [Reset_mail (ac_email u) (ac_username u) url]))"
proof (cases "sql_first (sql_select (email_matches email) (as_users s))")
  case None
  then show ?thesis by (simp add: forgot_password_def sbind_def calm_select [OF assms(1)] sreturn_def)
next
  case (Some u)
  have u: "u \<in> set (as_users s)" "py_lower (ac_email u) = py_lower (py_strip email)"
    using sql_first_Some [OF Some] by (simp_all add: email_matches_def)
  show ?thesis
  proof (cases "ac_is_active u")
    case True
    obtain x t where i: "issue_and_send_password_reset_email env u True (ticked 1 s) = (Inr x, t)"
      and o: "as_outbox t = as_outbox s \<or> (\<exists>url. as_outbox t = as_outbox s @ [Reset_mail (ac_email u) (ac_username u) url])"
      using issue_reset_calm [OF assms(1), of "ticked 1 s" u True] assms(2,3) u(1) by auto
    have "forgot_password env email s = (Inr forgot_password_accepted_message, t)"
      using Some True i by (simp add: forgot_password_def sbind_def calm_select [OF assms(1)] sreturn_def)
    then show ?thesis using o u True by blast
  next
    case False
    then show ?thesis using Some by (simp add: forgot_password_def sbind_def calm_select [OF assms(1)] sreturn_def)
  qed
qed

theorem recovery_reveals_nothing_witness:
  "fst (forgot_password sample_account_env ''nobody'' (sample_accounts [sample_user])) = fst (forgot_password sample_account_env ''a@x'' (sample_accounts [sample_user]))"
proof -
  have "users_ok [sample_user]" "0 < st_reset_ttl_minutes (ae_settings sample_account_env)"
    using sample_links_ok by (simp_all add: links_ok_def sample_account_env_def sample_settings_def)
  then have "\<exists>t. forgot_password sample_account_env email (sample_accounts [sample_user]) = (Inr forgot_password_accepted_message, t)" for email
    using recovery_reveals_nothing [OF sample_calm_accounts, of "sample_accounts [sample_user]" email] by auto
  then show ?thesis by (metis fst_conv)
qed

section \<open>Deletion\<close>

text \<open>the deletion of an account needs its password and the word; it then removes every job, file, folder, API key,
  credit record and subscription of the account and its row, keeps everything of everyone else, and leaves the objects in
  the storage as they are.\<close>

theorem deletion_exact:
  assumes "calm_accounts env"
  shows "(\<exists>e. confirm \<noteq> ''DELETE'' \<or> \<not> ae_verify_password env password (ac_hashed_password u) \<longrightarrow> delete_account env u password confirm s = (Inl e, s))
    \<and> (confirm = ''DELETE'' \<and> ae_verify_password env password (ac_hashed_password u) \<longrightarrow>
      (\<exists>t. delete_account env u password confirm s = (Inr (), t)
        \<and> set (as_users t) = {r \<in> set (as_users s). ac_id r \<noteq> ac_id u} \<and> set (as_keys t) = {k \<in> set (as_keys s). ak_user_id k \<noteq> ac_id u}
        \<and> set (as_jobs t) = {r \<in> set (as_jobs s). jr_user_id r \<noteq> Some (ac_id u)}
        \<and> set (dr_files (dv_db (as_drive t))) = {f \<in> set (dr_files (dv_db (as_drive s))). fl_user_id f \<noteq> ac_id u}
        \<and> set (dr_folders (dv_db (as_drive t))) = {f \<in> set (dr_folders (dv_db (as_drive s))). fo_user_id f \<noteq> ac_id u}
        \<and> set (lg_txns (as_ledger t)) = {r \<in> set (lg_txns (as_ledger s)). tx_user_id r \<noteq> ac_id u}
        \<and> set (lg_subs (as_ledger t)) = {r \<in> set (lg_subs (as_ledger s)). sr_user_id r \<noteq> Some (ac_id u)}
        \<and> set (lg_credits (as_ledger t)) = {r \<in> set (lg_credits (as_ledger s)). mc_owner_id r \<noteq> str_int (ac_id u)}
        \<and> dv_objects (as_drive t) = dv_objects (as_drive s)))"
  by (auto simp: delete_account_def DELETE_ACCOUNT_CONFIRMATION_def raise_op_def smodify_def owned_row_deletes_def Let_def
      calm_sync [OF assms] sql_simps)

theorem deletion_exact_witness:
  "\<exists>t. delete_account sample_account_env sample_user ''pw'' ''DELETE'' (sample_accounts [sample_user]) = (Inr (), t) \<and> sample_user \<notin> set (as_users t)"
proof -
  have "ae_verify_password sample_account_env ''pw'' (ac_hashed_password sample_user)"
    by (simp add: sample_account_env_def sample_user_def new_user_def)
  then show ?thesis
    using deletion_exact [OF sample_calm_accounts, of "''DELETE''" "''pw''" sample_user "sample_accounts [sample_user]"] by auto
qed

text \<open>The cleanup worker over the tables and the storage of the accounts.\<close>

definition cleanup_view :: "account_state \<Rightarrow> cleanup_state" where
  "cleanup_view s = \<lparr>cl_jobs = as_jobs s, cl_files = dr_files (dv_db (as_drive s)), cl_objects = dv_objects (as_drive s),
     cl_events = [], cl_invocations = [], cl_ticks = 0\<rparr>"

lemma cleans_cycles:
  assumes "\<And>env objs k m. env \<in> set envs \<Longrightarrow> (k, m) \<in> set (cu_list_objects env ''temp/'' objs) \<Longrightarrow> py_startswith k ''temp/''"
  shows "cleans s (fold cleanup_turn envs s)"
  using assms
proof (induction envs arbitrary: s)
  case (Cons env envs)
  have "cleans s (cleanup_turn env s)" by (rule cleans_cycle) (use Cons.prems in auto)
  moreover have "cleans (cleanup_turn env s) (fold cleanup_turn envs (cleanup_turn env s))" 
    by (rule Cons.IH) (rule Cons.prems, auto)
  ultimately show ?case using cl.trans by simp
qed (simp add: cl.refl)

text \<open>C23: the objects of a deleted account are never reclaimed. The cleanup worker finds objects by the rows that name them, and
  the deletion took the rows away: any number of cleanup cycles, whatever fails in them, leaves the object of a deleted
  file or job where it is, unless someone else's row names it too or it is a temporary one.\<close>

theorem deleted_account_objects_stay:
  assumes "calm_accounts env" "jobs_ok (as_jobs s)" "unique_key fl_id (dr_files (dv_db (as_drive s)))"
    and "\<And>cu objs k m. cu \<in> set cycles \<Longrightarrow> (k, m) \<in> set (cu_list_objects cu ''temp/'' objs) \<Longrightarrow> py_startswith k ''temp/''"
    and "ae_verify_password env password (ac_hashed_password u)" "\<not> py_startswith key ''temp/''"
    and "\<And>r. r \<in> set (as_jobs s) \<Longrightarrow> jr_user_id r \<noteq> Some (ac_id u) \<Longrightarrow> key \<notin> set (job_keys r)"
    and "\<And>f. f \<in> set (dr_files (dv_db (as_drive s))) \<Longrightarrow> fl_user_id f \<noteq> ac_id u \<Longrightarrow> fl_file_key f \<noteq> key"
  shows "\<exists>t. delete_account env u password ''DELETE'' s = (Inr (), t)
    \<and> cl_objects (fold cleanup_turn cycles (cleanup_view t)) key = dv_objects (as_drive s) key"
proof -
  obtain t where t: "delete_account env u password ''DELETE'' s = (Inr (), t)"
      "as_jobs t = sql_delete (\<lambda>r. jr_user_id r = Some (ac_id u)) (as_jobs s)"
      "dr_files (dv_db (as_drive t)) = sql_delete (\<lambda>r. fl_user_id r = ac_id u) (dr_files (dv_db (as_drive s)))"
      "dv_objects (as_drive t) = dv_objects (as_drive s)"
    using assms(5) by (simp add: delete_account_def DELETE_ACCOUNT_CONFIRMATION_def smodify_def owned_row_deletes_def Let_def calm_sync [OF assms(1)])
  have ok: "ids_ok (cleanup_view t)"
    using assms(2,3) unfolding ids_ok_def cleanup_view_def jobs_ok_def by (simp add: t(2,3) unique_key_delete)
  have "key \<notin> cleanable_keys (cleanup_view t)"
    using assms(6-8) by (auto simp: cleanable_keys_def cleanup_view_def t(2,3) sql_simps)
  moreover have "cleans (cleanup_view t) (fold cleanup_turn cycles (cleanup_view t))" by (rule cleans_cycles) (rule assms(4))
  ultimately have "cl_objects (fold cleanup_turn cycles (cleanup_view t)) key = cl_objects (cleanup_view t) key"
    using ok by (simp add: cleans_def spares_def)
  then show ?thesis using t(1,4) by (simp add: cleanup_view_def)
qed

theorem deleted_account_objects_stay_witness:
  "\<exists>t. delete_account sample_account_env sample_user ''pw'' ''DELETE''
      ((sample_accounts [sample_user])\<lparr>as_drive := sample_drive [] [sample_file ''k'' None] (\<lambda>_. Some (sample_object ''x''))\<rparr>) = (Inr (), t)
    \<and> cl_objects (fold cleanup_turn [sample_cleanup_env (\<lambda>_. True), sample_cleanup_env (\<lambda>_. True)] (cleanup_view t)) ''k'' = Some (sample_object ''x'')"
proof -
  let ?s = "(sample_accounts [sample_user])\<lparr>as_drive := sample_drive [] [sample_file ''k'' None] (\<lambda>_. Some (sample_object ''x''))\<rparr>"
  have "\<exists>t. delete_account sample_account_env sample_user ''pw'' ''DELETE'' ?s = (Inr (), t)
    \<and> cl_objects (fold cleanup_turn [sample_cleanup_env (\<lambda>_. True), sample_cleanup_env (\<lambda>_. True)] (cleanup_view t)) ''k'' = dv_objects (as_drive ?s) ''k''"
    by (rule deleted_account_objects_stay [OF sample_calm_accounts])
      (auto simp: sample_cleanup_env_def jobs_ok_def sample_drive_def sample_file_def sample_account_env_def sample_user_def new_user_def py_startswith_def)
  then show ?thesis by (simp add: sample_drive_def)
qed

end
