(* ===== verification/Byte_Codec.thy ===== *)
theory Byte_Codec
  imports Transform_Prelude "HOL-Library.Word"
begin

text \<open>
  Bytes as the code handles them: four-byte big-endian integers, UTF-8, and the base64 functions of Python that the
  encryption service, the client keys and the agents' tools rely on. A \<^theory_text>\<open>bytes\<close> object is a list of 8-bit words.
  \<open>a2b_base64\<close> follows \<open>binascii.a2b_base64\<close> character by character, with its strict mode; the texts of its errors are
  left out, since every caller replaces them.
\<close>

section \<open>Integers and text\<close>

type_synonym byte = "8 word"

definition be32 :: "nat \<Rightarrow> byte list" where
  "be32 n = [of_nat (n div 2 ^ 24), of_nat (n div 2 ^ 16), of_nat (n div 2 ^ 8), of_nat n]"

definition to_bytes4 :: "nat \<Rightarrow> byte list result" where
  "to_bytes4 n = (if 2 ^ 32 \<le> n then Inl (OverflowError ''int too big to convert'') else Inr (be32 n))"

definition from_bytes :: "byte list \<Rightarrow> nat" where
  "from_bytes bs = foldl (\<lambda>a b. a * 256 + unat b) 0 bs"

definition char_bytes :: "char \<Rightarrow> byte list" where
  "char_bytes c = (let n = of_char c :: nat in
     if n < 128 then [of_nat n] else [of_nat (192 + n div 64), of_nat (128 + n mod 64)])"

definition utf8 :: "string \<Rightarrow> byte list" where
  "utf8 s = concat (map char_bytes s)"

definition char_byte :: "char \<Rightarrow> byte" where "char_byte c = of_nat (of_char c)"
definition byte_char :: "byte \<Rightarrow> char" where "byte_char b = char_of (unat b)"

lemma byte_less: "unat (b :: byte) < 256"
  using unsigned_less [of b, where 'a = nat] by simp

lemma byte_char_round_trip [simp]: "byte_char (char_byte c) = c" "char_byte (byte_char b) = b"
  by (simp_all add: byte_char_def char_byte_def unat_of_nat mod_less [OF byte_less])

lemma length_be32 [simp]: "length (be32 n) = 4"
  by (simp add: be32_def)

lemma unat_byte [simp]: "unat (of_nat n :: byte) = n mod 256"
  by (simp add: unat_of_nat)

lemma from_be32: "from_bytes (be32 n) = n mod 2 ^ 32"
proof -
  have a: "n mod 65536 = 256 * (n div 256 mod 256) + n mod 256" using mod_mult2_eq [of n 256 256] by simp
  have b: "n mod 16777216 = 65536 * (n div 65536 mod 256) + n mod 65536" using mod_mult2_eq [of n 65536 256] by simp
  have c: "n mod 4294967296 = 16777216 * (n div 16777216 mod 256) + n mod 16777216" using mod_mult2_eq [of n 16777216 256] by simp
  show ?thesis by (simp add: be32_def from_bytes_def a b c algebra_simps)
qed

lemma be32_inj: assumes "be32 i = be32 j" "i < 2 ^ 32" "j < 2 ^ 32" shows "i = j"
proof -
  have "i mod 2 ^ 32 = j mod 2 ^ 32" using assms(1) by (simp only: from_be32 [symmetric])
  then show ?thesis using assms(2,3) by simp
qed

section \<open>Base64\<close>

definition b64_char :: "nat \<Rightarrow> char" where
  "b64_char n = (if n < 26 then char_of (65 + n) else if n < 52 then char_of (71 + n) else if n < 62 then char_of (n - 4)
     else if n = 62 then CHR ''+'' else CHR ''/'')"

definition b64_value :: "char \<Rightarrow> nat option" where
  "b64_value c = (let n = of_char c :: nat in
     if 65 \<le> n \<and> n \<le> 90 then Some (n - 65) else if 97 \<le> n \<and> n \<le> 122 then Some (n - 71) else if 48 \<le> n \<and> n \<le> 57 then Some (n + 4)
     else if n = 43 then Some 62 else if n = 47 then Some 63 else None)"

fun b64encode :: "byte list \<Rightarrow> string" where
  "b64encode [] = []"
| "b64encode [a] = [b64_char (unat a div 4), b64_char (unat a mod 4 * 16), CHR ''='', CHR ''='']"
| "b64encode [a, b] = [b64_char (unat a div 4), b64_char (unat a mod 4 * 16 + unat b div 16),
     b64_char (unat b mod 16 * 4), CHR ''='']"
| "b64encode (a # b # c # rest) = b64_char (unat a div 4) # b64_char (unat a mod 4 * 16 + unat b div 16)
     # b64_char (unat b mod 16 * 4 + unat c div 64) # b64_char (unat c mod 64) # b64encode rest"

definition b64_error :: exn where "b64_error = ValueError ''binascii.Error''"

definition then_byte :: "nat \<Rightarrow> byte list result \<Rightarrow> byte list result" where
  "then_byte n r = rbind r (\<lambda>bs. Inr (of_nat n # bs))"

text \<open>The arguments: the strict mode, whether padding has begun, the position in the group of four, the padding
  characters in this group, and the bits left over.\<close>

fun a2b_base64 :: "bool \<Rightarrow> bool \<Rightarrow> nat \<Rightarrow> nat \<Rightarrow> nat \<Rightarrow> string \<Rightarrow> byte list result" where
  "a2b_base64 strict started quad pads left [] = (if quad \<noteq> 0 then Inl b64_error else Inr [])"
| "a2b_base64 strict started quad pads left (c # rest) =
     (if c = CHR ''=''
      then (if strict \<and> quad = 0 then Inl b64_error
            else if 2 \<le> quad \<and> 4 \<le> quad + Suc pads then (if strict \<and> rest \<noteq> [] then Inl b64_error else Inr [])
            else a2b_base64 strict True quad (if 2 \<le> quad then Suc pads else pads) left rest)
      else case b64_value c of
          None \<Rightarrow> if strict then Inl b64_error else a2b_base64 strict started quad pads left rest
        | Some v \<Rightarrow>
            if strict \<and> started then Inl b64_error
            else if quad = 0 then a2b_base64 strict started 1 0 v rest
            else if quad = 1 then then_byte (left * 4 + v div 16) (a2b_base64 strict started 2 0 (v mod 16) rest)
            else if quad = 2 then then_byte (left * 16 + v div 4) (a2b_base64 strict started 3 0 (v mod 4) rest)
            else then_byte (left * 64 + v) (a2b_base64 strict started 0 0 0 rest))"

definition b64decode :: "bool \<Rightarrow> string \<Rightarrow> byte list result" where
  "b64decode validate s = a2b_base64 validate False 0 0 0 s"

definition to_urlsafe :: "char \<Rightarrow> char" where
  "to_urlsafe c = (if c = CHR ''+'' then CHR ''-'' else if c = CHR ''/'' then CHR ''_'' else c)"
definition from_urlsafe :: "char \<Rightarrow> char" where
  "from_urlsafe c = (if c = CHR ''-'' then CHR ''+'' else if c = CHR ''_'' then CHR ''/'' else c)"

definition urlsafe_b64encode :: "byte list \<Rightarrow> string" where "urlsafe_b64encode bs = map to_urlsafe (b64encode bs)"
definition urlsafe_b64decode :: "string \<Rightarrow> byte list result" where "urlsafe_b64decode s = b64decode False (map from_urlsafe s)"

lemma b64_char_value [simp]: "n < 64 \<Longrightarrow> b64_value (b64_char n) = Some n"
  by (auto simp: b64_char_def b64_value_def Let_def)

lemma b64_char_plain [simp]: "n < 64 \<Longrightarrow> b64_char n \<noteq> CHR ''=''"
proof
  assume n: "n < 64" "b64_char n = CHR ''=''"
  then have "b64_value (CHR ''='') = Some n" using b64_char_value [of n] by simp
  then show False by (simp add: b64_value_def)
qed

lemma b64_char_safe [simp]: "n < 64 \<Longrightarrow> from_urlsafe (to_urlsafe (b64_char n)) = b64_char n"
proof -
  assume n: "n < 64"
  have "b64_char n \<noteq> CHR ''-''" "b64_char n \<noteq> CHR ''_''" using b64_char_value [OF n] by (auto simp: b64_value_def)
  then show ?thesis by (simp add: to_urlsafe_def from_urlsafe_def)
qed

lemma byte_parts [simp]:
  "unat (a :: byte) div 4 < 64" "unat a mod 4 * 16 + unat (b :: byte) div 16 < 64" "unat b mod 16 * 4 + unat (c :: byte) div 64 < 64"
  "unat a mod 4 * 16 < 64" "unat b mod 16 * 4 < 64"
  using byte_less [of a] byte_less [of b] byte_less [of c] by linarith+

lemma byte_joins:
  "unat (b :: byte) div 16 div 16 = 0" "unat b div 16 mod 16 * 16 + unat b mod 16 = unat b"
  "unat b div 64 div 4 = 0" "unat b div 64 mod 4 * 64 + unat b mod 64 = unat b"
proof -
  have lt: "unat b < 256" by (rule byte_less)
  show "unat b div 16 div 16 = 0" "unat b div 64 div 4 = 0" using lt by simp_all
  have "unat b div 16 mod 16 = unat b div 16" "unat b div 64 mod 4 = unat b div 64" using lt by simp_all
  then show "unat b div 16 mod 16 * 16 + unat b mod 16 = unat b" "unat b div 64 mod 4 * 64 + unat b mod 64 = unat b" by simp_all
qed

lemma then_byte_unat [simp]: "then_byte (unat b) (Inr bs) = Inr (b # bs)"
  by (simp add: then_byte_def)

text \<open>Strict decoding, and so the lax one, inverts encoding; the alphabet of URLs makes no difference.\<close>

lemma a2b_encoded: "a2b_base64 strict False 0 0 0 (b64encode bs) = Inr bs"
  by (induction bs rule: b64encode.induct) (simp_all add: byte_joins)

lemma b64_round_trip: "b64decode strict (b64encode bs) = Inr bs"
  by (simp add: b64decode_def a2b_encoded)

lemma from_to_urlsafe: "map from_urlsafe (map to_urlsafe (b64encode bs)) = b64encode bs"
  by (induction bs rule: b64encode.induct) (simp_all, simp_all add: to_urlsafe_def from_urlsafe_def)

lemma urlsafe_round_trip: "urlsafe_b64decode (urlsafe_b64encode bs) = Inr bs"
  unfolding urlsafe_b64decode_def urlsafe_b64encode_def from_to_urlsafe by (rule b64_round_trip)

lemma length_b64encode: "length (b64encode bs) = 4 * ((length bs + 2) div 3)"
proof (induction bs rule: b64encode.induct)
  case (4 a b c rest)
  have "(length (a # b # c # rest) + 2) div 3 = Suc ((length rest + 2) div 3)"
    using div_add_self1 [of 3 "length rest + 2"] by simp
  then show ?case using 4 by simp
qed simp_all

end
