(* ===== verification/File_Encryption.thy ===== *)
theory File_Encryption
  imports Byte_Codec
begin

text \<open>
  \<open>security/encryption.py\<close>: the two file formats, \<open>TRENC\<close> for objects at rest and \<open>FENCR\<close> for files the browser
  encrypts, with the encryptor of the browser, \<open>web/src/lib/fencr.ts\<close>. HKDF, AES-GCM and Fernet are parameters; what a
  theorem relies on is \<open>seals\<close>, that opening what was sealed gives it back and that a tag is 16 bytes. A generator that
  yields chunks and may then raise is the list of the chunks with the outcome; what a raising writer leaves in its
  target is kept the same way. Random bytes are arguments.
\<close>

section \<open>Keys\<close>

record cipher_suite =
  cs_hkdf :: "byte list option \<Rightarrow> byte list \<Rightarrow> byte list \<Rightarrow> byte list"
  cs_seal :: "byte list \<Rightarrow> byte list \<Rightarrow> byte list \<Rightarrow> byte list \<Rightarrow> byte list"
  cs_open :: "byte list \<Rightarrow> byte list \<Rightarrow> byte list \<Rightarrow> byte list \<Rightarrow> byte list option"
  cs_fernet_seal :: "nat \<Rightarrow> string \<Rightarrow> byte list \<Rightarrow> byte list"
  cs_fernet_open :: "string \<Rightarrow> byte list \<Rightarrow> byte list option"

record file_encryption =
  fe_master_key :: "byte list"
  fe_previous_master_keys :: "byte list list"

definition stream_magic :: "byte list" where "stream_magic = utf8 ''TRENC''"
definition stream_version :: byte where "stream_version = 1"
definition salt_len :: nat where "salt_len = 16"
definition nonce_prefix_len :: nat where "nonce_prefix_len = 8"
definition stream_header_len :: nat where "stream_header_len = length stream_magic + 1 + 4 + salt_len + nonce_prefix_len"
definition default_chunk_size :: nat where "default_chunk_size = 1024 * 1024"
definition app_aad_prefix :: "byte list" where "app_aad_prefix = utf8 ''transform-v1:''"
definition fencr_magic :: "byte list" where "fencr_magic = utf8 ''FENCR''"
definition fencr_version :: byte where "fencr_version = 1"
definition fencr_tag_len :: nat where "fencr_tag_len = 16"
definition fencr_aad :: "byte list" where "fencr_aad = utf8 ''transform-client-v1''"
definition fencr_hkdf_info :: "byte list" where "fencr_hkdf_info = utf8 ''transform-client-v1:enc''"
definition fencr_header_len :: nat where "fencr_header_len = length fencr_magic + 1 + 4 + 16 + 8"

definition validate_master_key :: "byte list \<Rightarrow> unit result" where
  "validate_master_key key =
     (case urlsafe_b64decode (map byte_char key) of
        Inl e \<Rightarrow> Inl (ValueError ''Invalid master key: not a valid base64 Fernet key.'')
      | Inr decoded \<Rightarrow> if length decoded \<noteq> 32 then Inl (ValueError ''Invalid master key: must decode to a 32-byte Fernet key.'') else Inr ())"

fun validate_master_keys :: "byte list list \<Rightarrow> unit result" where
  "validate_master_keys [] = Inr ()"
| "validate_master_keys (k # ks) = rbind (validate_master_key k) (\<lambda>_. validate_master_keys ks)"

text \<open>\<open>generated\<close>: the 32 random bytes of \<open>Fernet.generate_key\<close>.\<close>

definition new_file_encryption :: "byte list option \<Rightarrow> byte list list \<Rightarrow> bool \<Rightarrow> byte list \<Rightarrow> file_encryption result" where
  "new_file_encryption master_key previous allow_autogenerated_key generated =
     rbind (case master_key of
         Some k \<Rightarrow> Inr k
       | None \<Rightarrow> if \<not> allow_autogenerated_key
           then Inl (ValueError ''A master_key is required to build FileEncryptionService. Set allow_autogenerated_key=True only for tests/local dev.'')
           else Inr (map char_byte (urlsafe_b64encode generated))) (\<lambda>key.
     rbind (validate_master_keys (key # previous)) (\<lambda>_.
     Inr \<lparr>fe_master_key = key, fe_previous_master_keys = previous\<rparr>))"

definition from_base64_key :: "string \<Rightarrow> file_encryption result" where
  "from_base64_key key_b64 = new_file_encryption (Some (utf8 key_b64)) [] False []"

text \<open>\<open>setting\<close> is \<open>ENCRYPTION_MASTER_KEY\<close>.\<close>

definition get_file_encryption_service :: "string option \<Rightarrow> file_encryption option result" where
  "get_file_encryption_service setting = (case setting of None \<Rightarrow> Inr None
     | Some key \<Rightarrow> if key = [] then Inr None else rbind (from_base64_key key) (\<lambda>fe. Inr (Some fe)))"

definition derive_user_key :: "cipher_suite \<Rightarrow> file_encryption \<Rightarrow> string \<Rightarrow> string" where
  "derive_user_key cs fe user_id = urlsafe_b64encode (cs_hkdf cs None (utf8 user_id) (fe_master_key fe))"

definition build_aad :: "string \<Rightarrow> byte list" where
  "build_aad user_id = app_aad_prefix @ utf8 user_id"

definition derive_stream_key :: "cipher_suite \<Rightarrow> byte list \<Rightarrow> string \<Rightarrow> byte list \<Rightarrow> byte list" where
  "derive_stream_key cs salt user_id master_key = cs_hkdf cs (Some salt) (utf8 user_id) master_key"

definition derive_fencr_file_key :: "cipher_suite \<Rightarrow> byte list \<Rightarrow> byte list \<Rightarrow> byte list" where
  "derive_fencr_file_key cs salt data_key = cs_hkdf cs (Some salt) fencr_hkdf_info data_key"

definition encrypt_file :: "cipher_suite \<Rightarrow> file_encryption \<Rightarrow> nat \<Rightarrow> byte list \<Rightarrow> string \<Rightarrow> byte list" where
  "encrypt_file cs fe entropy data user_id = cs_fernet_seal cs entropy (derive_user_key cs fe user_id) data"

definition decrypt_file :: "cipher_suite \<Rightarrow> file_encryption \<Rightarrow> byte list \<Rightarrow> string \<Rightarrow> byte list result" where
  "decrypt_file cs fe ciphertext user_id = (case cs_fernet_open cs (derive_user_key cs fe user_id) ciphertext of
       None \<Rightarrow> Inl (OtherError ''InvalidToken'') | Some data \<Rightarrow> Inr data)"

section \<open>The streaming formats\<close>

definition invalid_tag :: exn where "invalid_tag = OtherError ''InvalidTag''"

text \<open>The loop of \<open>encrypt_stream\<close>: what it writes and how it ends.\<close>

function encrypt_chunks :: "cipher_suite \<Rightarrow> byte list \<Rightarrow> byte list \<Rightarrow> byte list \<Rightarrow> nat \<Rightarrow> nat \<Rightarrow> byte list \<Rightarrow> byte list \<times> unit result" where
  "encrypt_chunks cs key nonce_prefix aad chunk_size counter src =
     (if take chunk_size src = [] then ([], Inr ())
      else if 2 ^ 32 \<le> counter then ([], Inl (OverflowError ''File too large: chunk counter exhausted''))
      else let (out, r) = encrypt_chunks cs key nonce_prefix aad chunk_size (Suc counter) (drop chunk_size src)
        in (cs_seal cs key (nonce_prefix @ be32 counter) (take chunk_size src) aad @ out, r))"
  by pat_completeness auto
termination
  by (relation "measure (\<lambda>(cs, key, np, aad, n, counter, src). length src)") auto

definition encrypt_stream :: "cipher_suite \<Rightarrow> file_encryption \<Rightarrow> byte list \<Rightarrow> byte list \<Rightarrow> byte list \<Rightarrow> string \<Rightarrow> int \<Rightarrow> byte list \<times> unit result" where
  "encrypt_stream cs fe salt nonce_prefix src user_id chunk_size =
     (if chunk_size \<le> 0 then ([], Inl (ValueError ''chunk_size must be a positive integer''))
      else case to_bytes4 (nat chunk_size) of
          Inl e \<Rightarrow> (stream_magic @ [stream_version], Inl e)
        | Inr size_bytes \<Rightarrow>
            let (body, r) = encrypt_chunks cs (derive_stream_key cs salt user_id (fe_master_key fe)) nonce_prefix (build_aad user_id)
                  (nat chunk_size) 0 src
            in (stream_magic @ [stream_version] @ size_bytes @ salt @ nonce_prefix @ body, r))"

text \<open>The loop of a decryptor with the key chosen: the chunks yielded and how it ends.\<close>

function decrypt_chunks :: "cipher_suite \<Rightarrow> exn \<Rightarrow> byte list \<Rightarrow> byte list \<Rightarrow> byte list \<Rightarrow> nat \<Rightarrow> nat \<Rightarrow> byte list \<Rightarrow> byte list list \<times> unit result" where
  "decrypt_chunks cs overflow key nonce_prefix aad chunk_size counter src =
     (if src = [] then ([], Inr ())
      else if 2 ^ 32 \<le> counter then ([], Inl overflow)
      else case cs_open cs key (nonce_prefix @ be32 counter) (take (chunk_size + 16) src) aad of
          None \<Rightarrow> ([], Inl invalid_tag)
        | Some plain \<Rightarrow>
            let (out, r) = decrypt_chunks cs overflow key nonce_prefix aad chunk_size (Suc counter) (drop (chunk_size + 16) src)
            in (plain # out, r))"
  by pat_completeness auto
termination
  by (relation "measure (\<lambda>(cs, e, key, np, aad, n, counter, src). length src)") auto

declare encrypt_chunks.simps [simp del] decrypt_chunks.simps [simp del]

fun select_key :: "cipher_suite \<Rightarrow> byte list \<Rightarrow> string \<Rightarrow> byte list \<Rightarrow> byte list \<Rightarrow> byte list list \<Rightarrow> (byte list \<times> byte list) option" where
  "select_key cs salt user_id nonce first [] = None"
| "select_key cs salt user_id nonce first (master # rest) =
     (let key = derive_stream_key cs salt user_id master in
      case cs_open cs key nonce first (build_aad user_id) of
        None \<Rightarrow> select_key cs salt user_id nonce first rest
      | Some plain \<Rightarrow> Some (key, plain))"

definition bad_header :: "exn" where "bad_header = ValueError ''Not a Transform-encrypted file (bad header)''"
definition unknown_version :: "string \<Rightarrow> byte \<Rightarrow> exn" where
  "unknown_version what v = ValueError (what @ str_int (int (unat v)))"
definition no_matching_key :: exn where
  "no_matching_key = ValueError ''Failed to decrypt: no matching key (tampered data or unknown key).''"

definition header_field :: "nat \<Rightarrow> nat \<Rightarrow> byte list \<Rightarrow> byte list" where
  "header_field from len header = take len (drop from header)"

definition iter_decrypt :: "cipher_suite \<Rightarrow> file_encryption \<Rightarrow> byte list \<Rightarrow> string \<Rightarrow> byte list list \<times> unit result" where
  "iter_decrypt cs fe src user_id =
     (let header = take stream_header_len src; m = length stream_magic in
      if length header \<noteq> stream_header_len \<or> take m header \<noteq> stream_magic then ([], Inl bad_header)
      else if header ! m \<noteq> stream_version then ([], Inl (unknown_version ''Unsupported encryption format version: '' (header ! m)))
      else let chunk_size = from_bytes (header_field (m + 1) 4 header); salt = header_field (m + 5) salt_len header;
               nonce_prefix = drop (m + 5 + salt_len) header; rest = drop stream_header_len src;
               first = take (chunk_size + 16) rest in
        if first = [] then ([], Inr ())
        else case select_key cs salt user_id (nonce_prefix @ be32 0) first (fe_master_key fe # fe_previous_master_keys fe) of
            None \<Rightarrow> ([], Inl no_matching_key)
          | Some (key, plain) \<Rightarrow>
              let (out, r) = decrypt_chunks cs (OverflowError ''int too big to convert'') key nonce_prefix (build_aad user_id) chunk_size 1
                    (drop (chunk_size + 16) rest)
              in (plain # out, r))"

definition joined :: "byte list list \<times> unit result \<Rightarrow> byte list result" where
  "joined out = rbind (snd out) (\<lambda>_. Inr (concat (fst out)))"

text \<open>\<open>decrypt_stream\<close> and \<open>decrypt_file_to\<close>: what is left in the target, and the outcome.\<close>

definition decrypt_stream :: "cipher_suite \<Rightarrow> file_encryption \<Rightarrow> byte list \<Rightarrow> string \<Rightarrow> byte list \<times> unit result" where
  "decrypt_stream cs fe src user_id = (let (out, r) = iter_decrypt cs fe src user_id in (concat out, r))"

definition is_encrypted_file :: "byte list option \<Rightarrow> bool" where
  "is_encrypted_file content = (case content of None \<Rightarrow> False | Some bs \<Rightarrow> take (length stream_magic) bs = stream_magic)"

definition encrypt_bytes :: "cipher_suite \<Rightarrow> file_encryption \<Rightarrow> byte list \<Rightarrow> byte list \<Rightarrow> byte list \<Rightarrow> string \<Rightarrow> byte list result" where
  "encrypt_bytes cs fe salt nonce_prefix data user_id =
     (let (out, r) = encrypt_stream cs fe salt nonce_prefix data user_id (int default_chunk_size) in rbind r (\<lambda>_. Inr out))"

definition decrypt_bytes :: "cipher_suite \<Rightarrow> file_encryption \<Rightarrow> byte list \<Rightarrow> string \<Rightarrow> byte list result" where
  "decrypt_bytes cs fe ciphertext user_id = joined (iter_decrypt cs fe ciphertext user_id)"

definition decrypt_prefix :: "cipher_suite \<Rightarrow> file_encryption \<Rightarrow> byte list \<Rightarrow> string \<Rightarrow> int \<Rightarrow> bool \<Rightarrow> byte list result" where
  "decrypt_prefix cs fe ciphertext user_id max_plaintext_bytes complete_object =
     (if max_plaintext_bytes \<le> 0 then Inr []
      else if length ciphertext < stream_header_len \<or> take (length stream_magic) ciphertext \<noteq> stream_magic then Inl bad_header
      else let n = nat max_plaintext_bytes;
               chunk_size = from_bytes (header_field (length stream_magic + 1) 4 ciphertext) in
        if chunk_size \<le> 0 then Inl (ValueError ''Invalid encryption chunk size'')
        else let usable = (if complete_object then length ciphertext
                   else stream_header_len + (length ciphertext - stream_header_len) div (chunk_size + 16) * (chunk_size + 16));
                 needed = stream_header_len + (n + chunk_size - 1) div chunk_size * (chunk_size + 16) in
          rbind (joined (iter_decrypt cs fe (take (min usable needed) ciphertext) user_id)) (\<lambda>plain. Inr (take n plain)))"

subsection \<open>The client-side format\<close>

definition is_fencr_file :: "byte list option \<Rightarrow> bool" where
  "is_fencr_file content = (case content of None \<Rightarrow> False | Some bs \<Rightarrow> take (length fencr_magic) bs = fencr_magic)"

definition iter_decrypt_fencr :: "cipher_suite \<Rightarrow> byte list \<Rightarrow> byte list \<Rightarrow> byte list list \<times> unit result" where
  "iter_decrypt_fencr cs src data_key =
     (let header = take fencr_header_len src; m = length fencr_magic in
      if length header \<noteq> fencr_header_len \<or> take m header \<noteq> fencr_magic
      then ([], Inl (ValueError ''Not a client-encrypted (FENCR) blob (bad header)''))
      else if header ! m \<noteq> fencr_version then ([], Inl (unknown_version ''Unsupported FENCR version: '' (header ! m)))
      else let chunk_size = from_bytes (header_field (m + 1) 4 header); salt = header_field (m + 5) 16 header;
               nonce_prefix = drop (m + 5 + 16) header in
        if chunk_size \<le> 0 then ([], Inl (ValueError ''Invalid FENCR chunk_size (must be positive)''))
        else decrypt_chunks cs (OverflowError ''File too large: FENCR chunk counter exhausted'') (derive_fencr_file_key cs salt data_key)
               nonce_prefix fencr_aad chunk_size 0 (drop fencr_header_len src))"

definition decrypt_fencr :: "cipher_suite \<Rightarrow> byte list \<Rightarrow> byte list \<Rightarrow> byte list \<times> unit result" where
  "decrypt_fencr cs src data_key = (let (out, r) = iter_decrypt_fencr cs src data_key in (concat out, r))"

definition decrypt_fencr_bytes :: "cipher_suite \<Rightarrow> byte list \<Rightarrow> byte list \<Rightarrow> byte list result" where
  "decrypt_fencr_bytes cs blob data_key = joined (iter_decrypt_fencr cs blob data_key)"

text \<open>
  The browser, \<open>fencr.ts\<close>. \<open>setUint32\<close> reduces its argument modulo \<open>2\<^sup>3\<^sup>2\<close>, as \<open>be32\<close> does, so neither the
  chunk size nor the counter is checked there.
\<close>

definition build_header :: "nat \<Rightarrow> byte list \<Rightarrow> byte list \<Rightarrow> byte list" where
  "build_header chunk_size salt nonce_prefix = fencr_magic @ [fencr_version] @ be32 chunk_size @ salt @ nonce_prefix"

definition build_nonce :: "byte list \<Rightarrow> nat \<Rightarrow> byte list" where
  "build_nonce nonce_prefix counter = nonce_prefix @ be32 counter"

function fencr_chunks :: "cipher_suite \<Rightarrow> byte list \<Rightarrow> byte list \<Rightarrow> nat \<Rightarrow> nat \<Rightarrow> nat \<Rightarrow> byte list \<Rightarrow> byte list" where
  "fencr_chunks cs key nonce_prefix chunk_size offset counter plaintext =
     (if chunk_size = 0 \<or> length plaintext \<le> offset then []
      else cs_seal cs key (build_nonce nonce_prefix counter) (take chunk_size (drop offset plaintext)) fencr_aad
        @ fencr_chunks cs key nonce_prefix chunk_size (offset + chunk_size) (Suc counter) plaintext)"
  by pat_completeness auto
termination
  by (relation "measure (\<lambda>(cs, key, np, n, offset, counter, plaintext). length plaintext - offset)") auto

declare fencr_chunks.simps [simp del]

definition fencr_encrypt :: "cipher_suite \<Rightarrow> byte list \<Rightarrow> byte list \<Rightarrow> byte list \<Rightarrow> byte list \<Rightarrow> int \<Rightarrow> byte list result" where
  "fencr_encrypt cs plaintext data_key salt nonce_prefix chunk_size =
     (if chunk_size \<le> 0 then Inl (OtherError ''chunkSize must be a positive integer.'')
      else if length data_key \<noteq> 32 then Inl (OtherError ''dataKey must be exactly 32 bytes.'')
      else if length salt \<noteq> salt_len then Inl (OtherError ''salt must be exactly 16 bytes.'')
      else if length nonce_prefix \<noteq> nonce_prefix_len then Inl (OtherError ''noncePrefix must be exactly 8 bytes.'')
      else Inr (build_header (nat chunk_size) salt nonce_prefix
             @ fencr_chunks cs (derive_fencr_file_key cs salt data_key) nonce_prefix (nat chunk_size) 0 0 plaintext))"

section \<open>Reading stored objects\<close>

text \<open>
  \<open>decrypting_object_reader.py\<close> and \<open>download_stream.py\<close>. \<open>fetch\<close> is the read of the storage adapter with its bound; the
  stream of an object yields as many bytes as it is asked for until its end.
\<close>

definition ciphertext_slack :: int where "ciphertext_slack = 64 * 1024"
definition ciphertext_chunk_slack :: int where "ciphertext_chunk_slack = 1024 * 1024"

definition truncated_to :: "int option \<Rightarrow> byte list \<Rightarrow> byte list" where
  "truncated_to max_bytes raw = (case max_bytes of None \<Rightarrow> raw | Some n \<Rightarrow> slice_to raw n)"

definition read_plaintext :: "cipher_suite \<Rightarrow> file_encryption option \<Rightarrow> (int option \<Rightarrow> byte list result) \<Rightarrow> int option \<Rightarrow> string \<Rightarrow> byte list result" where
  "read_plaintext cs encryption fetch max_bytes user_id =
     (let read_limit = (case max_bytes of None \<Rightarrow> None | Some n \<Rightarrow> Some (n + ciphertext_slack + ciphertext_chunk_slack)) in
      rbind (fetch read_limit) (\<lambda>raw.
      case encryption of
        None \<Rightarrow> Inr (truncated_to max_bytes raw)
      | Some fe \<Rightarrow>
        if take (length stream_magic) raw \<noteq> stream_magic then Inr (truncated_to max_bytes raw)
        else case max_bytes of
            None \<Rightarrow> decrypt_bytes cs fe raw user_id
          | Some n \<Rightarrow>
            let complete_object = (int (length raw) < n + ciphertext_slack + ciphertext_chunk_slack) in
            rbind (decrypt_prefix cs fe raw user_id n complete_object) (\<lambda>plaintext.
            if int (length plaintext) < n \<and> \<not> complete_object
            then Inl (ValueError ''The encrypted object's prefix could not be read completely.'') else Inr plaintext)))"

text \<open>The pieces in which \<open>read(n)\<close> hands out a list until it is empty.\<close>

function chunks :: "nat \<Rightarrow> 'a list \<Rightarrow> 'a list list" where
  "chunks n xs = (if take n xs = [] then [] else take n xs # chunks n (drop n xs))"
  by pat_completeness auto
termination
  by (relation "measure (\<lambda>(n, xs). length xs)") auto

declare chunks.simps [simp del]

definition iter_decrypted_object :: "cipher_suite \<Rightarrow> file_encryption \<Rightarrow> byte list result \<Rightarrow> string \<Rightarrow> byte list list \<times> unit result" where
  "iter_decrypted_object cs fe stream user_id =
     (case stream of
        Inl e \<Rightarrow> ([], Inl e)
      | Inr src \<Rightarrow> let head = take stream_header_len src in
          if take (length stream_magic) head \<noteq> stream_magic
          then ((if head = [] then [] else [head]) @ chunks (1024 * 1024) (drop stream_header_len src), Inr ())
          else iter_decrypt cs fe src user_id)"

end
