(* ===== verification/Agent_Toolbox.thy ===== *)
theory Agent_Toolbox
  imports Upload_Transfer Agent_Access Credit_Ledger File_Encryption "HOL-Library.List_Lexorder" "HOL-Library.Char_ord"
begin

text \<open>
  \<open>services/mcp/toolbox.py\<close>: what an agent may do to a user's documents, every tool of \<open>MCPToolBox\<close> over the file,
  conversion, transfer and credit services, with the byte access of \<open>minio_storage_adapter.py\<close> and \<open>object_copier.py\<close>.
  The content of a stored object is its \<open>ob_head\<close>, a byte for each character. A reply, a dictionary in the code, is one constructor per
  shape; the texts of hints and notes are kept only where they tell cases apart. The schema of the tools gives
  \<open>limit\<close>, \<open>offset\<close> and \<open>max_bytes\<close> as integers or nothing. \<open>tl_enum\<close> is the order in which a set is listed. The audit log
  is left out.
\<close>

section \<open>The authority of a call\<close>

record tool_state =
  ts_app :: upload_app
  ts_ledger :: ledger

record tool_env =
  tl_transfer :: transfer_env
  tl_conversion :: conversion_env
  tl_clock :: civil
  tl_map :: "(string \<times> string list) list"
  tl_max_list_limit :: int
  tl_suite :: cipher_suite
  tl_encryption :: "file_encryption option"
  tl_enum :: "string set \<Rightarrow> string list"

record tool_context =
  tc_user_id :: int
  tc_scopes :: "agent_scope list"
  tc_folder_access :: folder_access
  tc_folder_id :: "string option"
  tc_history_scope :: history_scope

type_synonym 'a tool_op = "tool_state \<Rightarrow> 'a result \<times> tool_state"

definition on_app :: "'a route \<Rightarrow> 'a tool_op" where
  "on_app m s = (let (r, a) = m (ts_app s) in (r, s\<lparr>ts_app := a\<rparr>))"

abbreviation on_files :: "'a drive_op \<Rightarrow> 'a tool_op" where
  "on_files m \<equiv> on_app (on_transfer (on_drive m))"
abbreviation on_transfers :: "'a transfer_op \<Rightarrow> 'a tool_op" where
  "on_transfers m \<equiv> on_app (on_transfer m)"
abbreviation on_jobs :: "'a conversion_op \<Rightarrow> 'a tool_op" where
  "on_jobs m \<equiv> on_app (on_conversion m)"

definition MAX_LIST_LIMIT :: int where "MAX_LIST_LIMIT = 50"
definition MAX_EXTENSION_FILTERS :: nat where "MAX_EXTENSION_FILTERS = 8"
definition MAX_TARGET_FORMATS_REPORTED :: nat where "MAX_TARGET_FORMATS_REPORTED = 40"
definition MAX_UPLOAD_BYTES :: nat where "MAX_UPLOAD_BYTES = 25 * 1024 * 1024"
definition MAX_DOWNLOAD_BYTES :: nat where "MAX_DOWNLOAD_BYTES = 25 * 1024 * 1024"
definition DOWNLOAD_CHUNK_BYTES :: nat where "DOWNLOAD_CHUNK_BYTES = 128 * 1024"
definition FILE_NOT_FOUND_ERROR :: string where "FILE_NOT_FOUND_ERROR = ''No such file was found in your Drive.''"
definition FOLDER_UNAVAILABLE_ERROR :: string where "FOLDER_UNAVAILABLE_ERROR = ''That folder is not available to this connection.''"

subsection \<open>Replies\<close>

record file_payload =
  fp_file_id :: string
  fp_file_name :: string
  fp_extension :: string
  fp_size_bytes :: int
  fp_folder_id :: "string option"
  fp_created_at :: int

record folder_payload =
  op_folder_id :: string
  op_name :: string
  op_created_at :: int

record job_payload =
  jp_job_id :: string
  jp_status :: job_status
  jp_source_format :: string
  jp_target_format :: string
  jp_input_file :: string
  jp_output_file :: "string option"
  jp_progress :: int
  jp_created_at :: "int option"
  jp_error_message :: "string option"
  jp_download_available :: bool

record history_item =
  hi_job_id :: string
  hi_status :: job_status
  hi_source_format :: string
  hi_target_format :: string
  hi_input_file :: string
  hi_output_file :: "string option"
  hi_created_at :: "int option"
  hi_credits_used :: int

record content_payload =
  co_file_name :: string
  co_extension :: string
  co_size_bytes :: int
  co_offset :: int
  co_bytes_returned :: int
  co_has_more :: bool
  co_content_base64 :: string
  co_next_offset :: "int option"

datatype refusal_detail =
    No_detail | Required_scope string | Target_formats string "string list" | The_job job_payload | Size_bytes int

datatype tool_reply =
    Refused string refusal_detail
  | Reply_targets string "string list"
  | Reply_map "(string \<times> string list) list" nat nat
  | Reply_files "file_payload list" int "string list" "string option"
  | Reply_folders "folder_payload list" int "string option"
  | Reply_folder folder_payload
  | Reply_file file_payload
  | Reply_job job_payload
  | Reply_history "history_item list" nat string
  | Reply_credits int "civil option"
  | Reply_content content_payload
  | Reply_saved string
  | Reply_deleted string string

definition file_payload_of :: "file_row \<Rightarrow> file_payload" where
  "file_payload_of row = \<lparr>fp_file_id = fl_id row, fp_file_name = fl_file_name row, fp_extension = fl_file_extension row,
     fp_size_bytes = fl_file_size_bytes row, fp_folder_id = fl_folder_id row, fp_created_at = fl_created_at row\<rparr>"

definition folder_payload_of :: "folder_row \<Rightarrow> folder_payload" where
  "folder_payload_of row = \<lparr>op_folder_id = fo_id row, op_name = fo_name row, op_created_at = fo_created_at row\<rparr>"

definition job_payload_of :: "conversion_job \<Rightarrow> job_payload" where
  "job_payload_of job = \<lparr>jp_job_id = job_id job, jp_status = job_status job,
     jp_source_format = ct_source_format (job_conversion job), jp_target_format = ct_target_format (job_conversion job),
     jp_input_file = job_input_file job, jp_output_file = job_output_file job, jp_progress = job_progress job,
     jp_created_at = job_created_at job, jp_error_message = job_error_message job,
     jp_download_available = (job_status job = Job_COMPLETED)\<rparr>"

definition history_item_of :: "conversion_job \<Rightarrow> history_item" where
  "history_item_of job = \<lparr>hi_job_id = job_id job, hi_status = job_status job,
     hi_source_format = ct_source_format (job_conversion job), hi_target_format = ct_target_format (job_conversion job),
     hi_input_file = job_input_file job, hi_output_file = job_output_file job, hi_created_at = job_created_at job,
     hi_credits_used = job_credits_used job\<rparr>"

subsection \<open>The guards\<close>

abbreviation answer :: "tool_reply \<Rightarrow> tool_reply tool_op" where
  "answer r \<equiv> sreturn (Inr r)"

definition missing_scope :: "agent_scope \<Rightarrow> string \<Rightarrow> tool_reply" where
  "missing_scope scope tool = Refused (''This application was not granted the '' @ py_repr (agent_scope_value scope)
     @ '' permission, so '' @ tool @ '' is not available. Ask the user to reconnect and allow it.'') (Required_scope (agent_scope_value scope))"

definition folder_unavailable :: tool_reply where
  "folder_unavailable = Refused FOLDER_UNAVAILABLE_ERROR No_detail"
definition file_not_found :: tool_reply where
  "file_not_found = Refused FILE_NOT_FOUND_ERROR No_detail"

text \<open>\<open>_resolve_folder\<close>: a denial, or what the binding allows, \<^term>\<open>None\<close> for the whole Drive.\<close>

definition resolve_binding :: "tool_context \<Rightarrow> (tool_reply + string set option) tool_op" where
  "resolve_binding ctx =
     (if tc_folder_access ctx = Folder_ALL then sreturn (Inr (Inr None))
      else if \<not> folder_scope_is_usable (tc_folder_access ctx) (tc_folder_id ctx) then sreturn (Inr (Inl folder_unavailable))
      else sbind (on_files (resolve_folder_scope (tc_user_id ctx) (the (tc_folder_id ctx)))) (\<lambda>subtree. sreturn (Inr (case subtree of
          None \<Rightarrow> Inl folder_unavailable
        | Some ids \<Rightarrow> Inr (Some ids)))))"

definition binding_allows :: "string set option \<Rightarrow> string option \<Rightarrow> bool" where
  "binding_allows subtree folder_id = (case subtree of None \<Rightarrow> True
     | Some ids \<Rightarrow> (case folder_id of None \<Rightarrow> False | Some f \<Rightarrow> f \<in> ids))"

text \<open>The head of every tool.\<close>

definition authorized :: "tool_context \<Rightarrow> agent_scope \<Rightarrow> string \<Rightarrow> (string set option \<Rightarrow> tool_reply tool_op) \<Rightarrow> tool_reply tool_op" where
  "authorized ctx scope tool body =
     (if \<not> covers (tc_scopes ctx) scope then answer (missing_scope scope tool)
      else sbind (resolve_binding ctx) (\<lambda>folder. case folder of Inl denial \<Rightarrow> answer denial | Inr subtree \<Rightarrow> body subtree))"

definition owned_file :: "tool_context \<Rightarrow> string \<Rightarrow> (tool_reply + file_row) tool_op" where
  "owned_file ctx file_id =
     try_op (sbind (on_files (get_file (tc_user_id ctx) file_id)) (\<lambda>row. sreturn (Inr (Inr row))))
       (\<lambda>e. case e of AppError FileRecordNotFoundError m \<Rightarrow> sreturn (Inr (Inl file_not_found)) | _ \<Rightarrow> raise_op e)"

definition owned_file_in_scope :: "tool_context \<Rightarrow> string \<Rightarrow> string set option \<Rightarrow> (file_row \<Rightarrow> tool_reply tool_op) \<Rightarrow> tool_reply tool_op" where
  "owned_file_in_scope ctx file_id subtree body =
     sbind (owned_file ctx file_id) (\<lambda>row. case row of
         Inl refused \<Rightarrow> answer refused
       | Inr f \<Rightarrow> if \<not> binding_allows subtree (fl_folder_id f) then answer file_not_found else body f)"

definition clamp_limit :: "tool_env \<Rightarrow> int option \<Rightarrow> int" where
  "clamp_limit env limit = max 1 (min (case limit of None \<Rightarrow> 20 | Some n \<Rightarrow> n) (tl_max_list_limit env))"

definition clamp_offset :: "int option \<Rightarrow> int" where
  "clamp_offset offset = max 0 (case offset of None \<Rightarrow> 0 | Some n \<Rightarrow> n)"

text \<open>The filter by extension: one string or several.\<close>

definition normalize_extension_filter :: "string list option \<Rightarrow> string list" where
  "normalize_extension_filter values = (case values of None \<Rightarrow> []
     | Some raw \<Rightarrow> take MAX_EXTENSION_FILTERS (filter (\<lambda>v. v \<noteq> []) (sort (remdups (map (\<lambda>v. normalize_extension (Some v)) raw)))))"

definition agent_listing :: "int \<Rightarrow> int \<Rightarrow> string list \<Rightarrow> listing" where
  "agent_listing offset limit extensions = \<lparr>ls_offset = offset, ls_limit = limit, ls_sort = Sort_DATE, ls_order = Sort_DESC,
     ls_extensions = (if extensions = [] then None else Some extensions)\<rparr>"

section \<open>Tools that read\<close>

definition tool_supported_conversions :: "tool_env \<Rightarrow> tool_context \<Rightarrow> string option \<Rightarrow> tool_reply tool_op" where
  "tool_supported_conversions env ctx source_format =
     authorized ctx Scope_DOCUMENTS_READ ''get_supported_conversions'' (\<lambda>subtree.
     let source = (case source_format of None \<Rightarrow> [] | Some f \<Rightarrow> if f = [] then [] else normalize_extension (Some f)) in
     if source \<noteq> []
     then (case map_of (tl_map env) source of
         Some (t # ts) \<Rightarrow> answer (Reply_targets source (t # ts))
       | _ \<Rightarrow> answer (Refused (py_repr source @ '' is not a supported input format.'') No_detail))
     else answer (Reply_map (tl_map env) (length (tl_map env)) (card (\<Union> (set ` snd ` set (tl_map env))))))"

definition tool_list_files :: "tool_env \<Rightarrow> tool_context \<Rightarrow> string option \<Rightarrow> string list option \<Rightarrow> string option \<Rightarrow> int option \<Rightarrow> int option \<Rightarrow>
    tool_reply tool_op" where
  "tool_list_files env ctx query extension folder_id limit offset =
     authorized ctx Scope_DOCUMENTS_READ ''list_files'' (\<lambda>subtree.
     let limit = clamp_limit env limit; offset = clamp_offset offset; extensions = normalize_extension_filter extension;
         opts = agent_listing offset limit extensions; denv = te_drive (tl_transfer env); user_id = tc_user_id ctx;
         listed = (\<lambda>(rows, matches). answer (Reply_files (map file_payload_of rows) matches extensions
            (if rows = [] \<and> query \<noteq> None \<and> query \<noteq> Some [] then Some ''No file names matched that search.''
             else if rows = [] \<and> extensions \<noteq> [] then Some ''No files had any of those extensions.'' else None)));
         in_folder = (\<lambda>f missing. sbind (try_op (sbind (on_files (list_files denv user_id f opts)) (\<lambda>page. sreturn (Inr (Some page))))
             (\<lambda>e. case e of AppError FolderNotFoundError m \<Rightarrow> sreturn (Inr None) | _ \<Rightarrow> raise_op e)) (\<lambda>page. case page of
               None \<Rightarrow> answer missing | Some p \<Rightarrow> listed p)) in
     if query \<noteq> None \<and> query \<noteq> Some []
     then sbind (on_files (search_files denv user_id (the query) opts (case subtree of None \<Rightarrow> None | Some ids \<Rightarrow> Some (tl_enum env ids)))) listed
     else if folder_id \<noteq> None
     then (if \<not> binding_allows subtree folder_id then answer folder_unavailable
           else in_folder folder_id (Refused ''That folder was not found.'' No_detail))
     else if subtree \<noteq> None then in_folder (tc_folder_id ctx) folder_unavailable
     else sbind (on_files (list_all_files denv user_id opts)) listed)"

definition tool_list_folders :: "tool_env \<Rightarrow> tool_context \<Rightarrow> string option \<Rightarrow> int option \<Rightarrow> int option \<Rightarrow> tool_reply tool_op" where
  "tool_list_folders env ctx parent_id limit offset =
     authorized ctx Scope_DOCUMENTS_READ ''list_folders'' (\<lambda>subtree.
     if parent_id \<noteq> None \<and> \<not> binding_allows subtree parent_id then answer folder_unavailable
     else let bounded = clamp_limit env limit; start = clamp_offset offset; denv = te_drive (tl_transfer env);
              target_parent = (if parent_id = None \<and> subtree \<noteq> None then tc_folder_id ctx else parent_id);
              rows_of = (case target_parent of
                  None \<Rightarrow> sbind (on_files (list_root_folders denv (tc_user_id ctx) start bounded)) (\<lambda>page. sreturn (Inr (Some page)))
                | Some p \<Rightarrow> try_op (sbind (on_files (get_folder_contents denv (tc_user_id ctx) p start bounded))
                      (\<lambda>(folder, page, files). sreturn (Inr (Some page))))
                    (\<lambda>e. case e of AppError FolderNotFoundError m \<Rightarrow> sreturn (Inr None) | _ \<Rightarrow> raise_op e)) in
       sbind rows_of (\<lambda>page. case page of
           None \<Rightarrow> answer folder_unavailable
         | Some (rows, matches) \<Rightarrow>
           let visible = filter (\<lambda>row. binding_allows subtree (Some (fo_id row))) rows in
           answer (Reply_folders (map folder_payload_of visible) (if subtree \<noteq> None then int (length visible) else matches) target_parent)))"

definition tool_get_file :: "tool_env \<Rightarrow> tool_context \<Rightarrow> string \<Rightarrow> tool_reply tool_op" where
  "tool_get_file env ctx file_id =
     authorized ctx Scope_DOCUMENTS_READ ''get_file'' (\<lambda>subtree.
     owned_file_in_scope ctx file_id subtree (\<lambda>row. answer (Reply_file (file_payload_of row))))"

definition tool_conversion_status :: "tool_env \<Rightarrow> tool_context \<Rightarrow> string \<Rightarrow> tool_reply tool_op" where
  "tool_conversion_status env ctx jid =
     authorized ctx Scope_DOCUMENTS_READ ''get_conversion_status'' (\<lambda>subtree.
     sbind (on_jobs (get_job (tl_conversion env) jid)) (\<lambda>job.
     if \<not> is_job_owner job (Some (tc_user_id ctx)) then answer (Refused ''No such conversion was found.'' No_detail)
     else answer (Reply_job (job_payload_of (the job)))))"

definition tool_conversion_history :: "tool_env \<Rightarrow> tool_context \<Rightarrow> int option \<Rightarrow> int option \<Rightarrow> tool_reply tool_op" where
  "tool_conversion_history env ctx limit offset =
     authorized ctx Scope_DOCUMENTS_READ ''get_conversion_history'' (\<lambda>subtree.
     sbind (on_jobs (list_history (tl_conversion env) (tc_user_id ctx) (nat (clamp_offset offset)) (nat (clamp_limit env limit)) None
         (if tc_history_scope ctx = History_AGENT then Some Origin_MCP else None))) (\<lambda>(jobs, matches).
     answer (Reply_history (map history_item_of jobs) matches (history_scope_value (tc_history_scope ctx)))))"

definition tool_credits :: "tool_env \<Rightarrow> tool_context \<Rightarrow> tool_reply tool_op" where
  "tool_credits env ctx =
     authorized ctx Scope_DOCUMENTS_READ ''get_credits'' (\<lambda>subtree.
     sbind (\<lambda>s. (get_balance (tl_clock env) (tc_user_id ctx) None (ts_ledger s), s)) (\<lambda>balance.
     answer (Reply_credits (cb_balance balance) (cb_resets_at balance))))"

subsection \<open>Contents\<close>

text \<open>\<open>read_object\<close> and \<open>put_object\<close> of the storage adapter, and the copy of an object through a temporary file.\<close>

definition object_bytes :: "stored_object \<Rightarrow> byte list" where
  "object_bytes ob = map char_byte (ob_head ob)"

definition fetch_object :: "tool_env \<Rightarrow> string \<Rightarrow> int option \<Rightarrow> byte list drive_op" where
  "fetch_object env object_key max_bytes =
     sbind (sreturn (sanitize_object_key True object_key)) (\<lambda>key.
     sbind (storage_call (te_drive (tl_transfer env)) (\<lambda>objs. (objs key, objs))) (\<lambda>found. case found of
         None \<Rightarrow> raise_op (AppError StorageOperationError [])
       | Some ob \<Rightarrow> sreturn (Inr (case max_bytes of None \<Rightarrow> object_bytes ob | Some n \<Rightarrow> take (nat n) (object_bytes ob)))))"

definition new_object :: "byte list \<Rightarrow> stored_object" where
  "new_object data = \<lparr>ob_size = int (length data), ob_content_type = Some ''application/octet-stream'', ob_head = map byte_char data\<rparr>"

definition put_object :: "tool_env \<Rightarrow> string \<Rightarrow> byte list \<Rightarrow> unit drive_op" where
  "put_object env object_key data =
     sbind (sreturn (sanitize_object_key True object_key)) (\<lambda>key.
     storage_call (te_drive (tl_transfer env)) (\<lambda>objs. ((), objs(key \<mapsto> new_object data))))"

definition copy_object :: "tool_env \<Rightarrow> string \<Rightarrow> string \<Rightarrow> int drive_op" where
  "copy_object env source_key target_key =
     sbind (sreturn (sanitize_object_key True source_key)) (\<lambda>source.
     sbind (sreturn (sanitize_object_key True target_key)) (\<lambda>target.
     if source = target then raise_op (ValueError ''copy_object requires distinct source and target keys.'')
     else sbind (storage_call (te_drive (tl_transfer env)) (\<lambda>objs. (objs source, objs))) (\<lambda>found. case found of
         None \<Rightarrow> raise_op (OtherError ''S3Error'')
       | Some ob \<Rightarrow> sbind (storage_call (te_drive (tl_transfer env)) (\<lambda>objs. ((), objs(target \<mapsto> new_object (object_bytes ob))))) (\<lambda>_.
           sreturn (Inr (int (length (object_bytes ob))))))))"

text \<open>The reader asks the storage once, so its one read is done first and handed to it.\<close>

definition read_contents :: "tool_env \<Rightarrow> string \<Rightarrow> int \<Rightarrow> string \<Rightarrow> byte list tool_op" where
  "read_contents env object_key max_bytes user_id s =
     (let (raw, s') = on_files (fetch_object env object_key (Some (max_bytes + ciphertext_slack + ciphertext_chunk_slack))) s
      in (read_plaintext (tl_suite env) (tl_encryption env) (\<lambda>_. raw) (Some max_bytes) user_id, s'))"

definition oversized :: tool_reply where
  "oversized = Refused ''This file is larger than the 25 MB limit for returning content to the model. Open it in the Transform web app to download or convert it instead.'' No_detail"

text \<open>What is made of the bytes read: one page.\<close>

definition content_page :: "file_row \<Rightarrow> int \<Rightarrow> int \<Rightarrow> int \<Rightarrow> byte list \<Rightarrow> tool_reply" where
  "content_page row start chunk read_limit data =
     (let known_total = fl_file_size_bytes row; measured = int (length data) in
      if int MAX_DOWNLOAD_BYTES < measured then oversized
      else if measured \<le> start \<and> 0 < measured
      then Refused (''offset '' @ str_int start @ '' is past the end of this file, which is '' @ str_int measured @ '' bytes.'') (Size_bytes measured)
      else let window = take (nat chunk) (drop (nat start) data); end = start + int (length window);
               has_more = (if measured < read_limit then False else end < measured \<or> end < known_total);
               whole = (if measured < read_limit then measured else max known_total measured) in
        Reply_content \<lparr>co_file_name = fl_file_name row, co_extension = fl_file_extension row, co_size_bytes = whole, co_offset = start,
          co_bytes_returned = int (length window), co_has_more = has_more, co_content_base64 = b64encode window,
          co_next_offset = (if has_more then Some end else None)\<rparr>)"

definition tool_download_file :: "tool_env \<Rightarrow> tool_context \<Rightarrow> string \<Rightarrow> int option \<Rightarrow> int option \<Rightarrow> tool_reply tool_op" where
  "tool_download_file env ctx file_id offset max_bytes =
     authorized ctx Scope_DOCUMENTS_READ ''download_file'' (\<lambda>subtree.
     owned_file_in_scope ctx file_id subtree (\<lambda>row.
     if int MAX_DOWNLOAD_BYTES < fl_file_size_bytes row then answer oversized
     else let start = clamp_offset offset;
              chunk = (case max_bytes of None \<Rightarrow> int DOWNLOAD_CHUNK_BYTES
                 | Some n \<Rightarrow> if 0 < n then min n (int DOWNLOAD_CHUNK_BYTES) else int DOWNLOAD_CHUNK_BYTES);
              read_limit = min (int MAX_DOWNLOAD_BYTES) (start + chunk + 1) in
       try_op (sbind (read_contents env (fl_file_key row) read_limit (str_int (tc_user_id ctx))) (\<lambda>data.
           answer (content_page row start chunk read_limit data)))
         (\<lambda>e. answer (Refused ''The file could not be read from storage.'' No_detail))))"

section \<open>Tools that change the Drive\<close>

definition tool_create_folder :: "tool_env \<Rightarrow> tool_context \<Rightarrow> string \<Rightarrow> string option \<Rightarrow> tool_reply tool_op" where
  "tool_create_folder env ctx name parent_id =
     authorized ctx Scope_DOCUMENTS_WRITE ''create_folder'' (\<lambda>subtree.
     let cleaned = py_strip name in
     if cleaned = [] then answer (Refused ''A folder name is required.'' No_detail)
     else if 255 < length cleaned then answer (Refused ''That folder name is too long (255 characters max).'' No_detail)
     else if parent_id \<noteq> None \<and> \<not> binding_allows subtree parent_id then answer folder_unavailable
     else let target_parent = (if parent_id = None \<and> subtree \<noteq> None then tc_folder_id ctx else parent_id) in
       try_op (sbind (on_files (create_folder (te_drive (tl_transfer env)) (tc_user_id ctx) cleaned target_parent)) (\<lambda>created.
           answer (Reply_folder (folder_payload_of created))))
         (\<lambda>e. case e of
             AppError FolderNotFoundError m \<Rightarrow> answer folder_unavailable
           | AppError FolderNameConflictError m \<Rightarrow>
               answer (Refused (''A folder named '' @ py_repr cleaned @ '' already exists in that location.'') No_detail)
           | _ \<Rightarrow> raise_op e))"

definition tool_convert_file :: "tool_env \<Rightarrow> tool_context \<Rightarrow> string \<Rightarrow> string \<Rightarrow> tool_reply tool_op" where
  "tool_convert_file env ctx file_id target_format =
     authorized ctx Scope_DOCUMENTS_CONVERT ''convert_file'' (\<lambda>subtree.
     owned_file_in_scope ctx file_id subtree (\<lambda>row.
     let ext = normalize_extension (Some (fl_file_extension row));
         source = (if ext \<noteq> [] then ext else extension_from_filename (Some (fl_file_name row)));
         target = normalize_extension (Some target_format);
         supported = (case map_of (tl_map env) source of None \<Rightarrow> [] | Some ts \<Rightarrow> ts) in
     if target = [] then answer (Refused ''target_format must be a file extension such as 'pdf'.'' No_detail)
     else if target \<notin> set supported
     then answer (Refused (''Cannot convert '' @ (if source = [] then ''that file'' else source) @ '' to '' @ target @ ''.'')
            (Target_formats source (take MAX_TARGET_FORMATS_REPORTED supported)))
     else sbind (on_jobs (convert_library_file (tl_conversion env) (fl_file_name row) source target (fl_file_key row) (tc_user_id ctx)
              (de_tier (te_drive (tl_transfer env)) (tc_user_id ctx)) Origin_MCP)) (\<lambda>job.
            answer (Reply_job (job_payload_of job)))))"

text \<open>The destination of a new file: \<^term>\<open>None\<close> is a refusal.\<close>

definition destination_of :: "tool_context \<Rightarrow> string set option \<Rightarrow> string option \<Rightarrow> string option option" where
  "destination_of ctx subtree folder_id =
     (if folder_id \<noteq> None then (if binding_allows subtree folder_id then Some folder_id else None)
      else if subtree \<noteq> None then Some (tc_folder_id ctx) else Some None)"

definition is_file_system_error :: "exn \<Rightarrow> bool" where
  "is_file_system_error e = (file_system_status e \<noteq> None)"

text \<open>
  The end both tools share: the bytes are written by \<open>store\<close>, the upload is verified and recorded, and on any exception
  the session is dropped. The row that is read back is never a dictionary with \<open>ok\<close>, so the reply only ever names the file.
\<close>

definition finish_upload :: "tool_env \<Rightarrow> tool_context \<Rightarrow> string \<Rightarrow> upload_response \<Rightarrow> unit drive_op \<Rightarrow> tool_reply tool_op" where
  "finish_upload env ctx verb session store =
     sbind (try_op
       (sbind (on_files store) (\<lambda>_.
        sbind (on_transfers (verify_upload_completion (tl_transfer env) (ur_upload_id session) None)) (\<lambda>upload.
        sbind (on_files (complete_upload (te_drive (tl_transfer env)) (tc_user_id ctx) upload)) (\<lambda>file_id. sreturn (Inr (Inr file_id))))))
       (\<lambda>e. sbind (on_transfers (delete_upload_session (tl_transfer env) (ur_upload_id session))) (\<lambda>_.
          sreturn (Inr (Inl (if is_file_system_error e then ''The file could not be '' @ verb @ '': '' @ exn_message e
             else ''The file could not be '' @ verb @ '' because storage was unavailable.''))))))
       (\<lambda>done. case done of
           Inl refused \<Rightarrow> answer (Refused refused No_detail)
         | Inr file_id \<Rightarrow> sbind (owned_file ctx file_id) (\<lambda>_. answer (Reply_saved file_id)))"

definition default_output_name :: "conversion_job \<Rightarrow> string" where
  "default_output_name job = (case job_output_file job of
       Some out \<Rightarrow> if out \<noteq> [] then last_segment out else ''converted.'' @ ct_target_format (job_conversion job)
     | None \<Rightarrow> ''converted.'' @ ct_target_format (job_conversion job))"

definition truthy_text :: "string option \<Rightarrow> bool" where
  "truthy_text v = (v \<noteq> None \<and> v \<noteq> Some [])"

definition tool_save_file :: "tool_env \<Rightarrow> tool_context \<Rightarrow> string \<Rightarrow> string option \<Rightarrow> string option \<Rightarrow> tool_reply tool_op" where
  "tool_save_file env ctx jid folder_id file_name =
     authorized ctx Scope_DOCUMENTS_WRITE ''save_file'' (\<lambda>subtree.
     case destination_of ctx subtree folder_id of
       None \<Rightarrow> answer folder_unavailable
     | Some destination \<Rightarrow>
       sbind (on_jobs (get_job (tl_conversion env) jid)) (\<lambda>found.
       if \<not> is_job_owner found (Some (tc_user_id ctx)) then answer (Refused ''No such conversion was found.'' No_detail)
       else let job = the found; output_name = (if truthy_text file_name then the file_name else default_output_name job);
                extension = extension_from_filename (Some output_name) in
         if job_status job \<noteq> Job_COMPLETED
         then answer (Refused (''That conversion is '' @ py_lower (job_status_value (job_status job)) @ ''; only a completed conversion can be saved.'')
                (The_job (job_payload_of job)))
         else if job_client_encrypted job \<or> truthy_text (job_data_key_wrapped job)
         then answer (Refused ''That conversion's output is encrypted with a key only your browser holds, so it cannot be saved to your Drive from here.'' No_detail)
         else if extension = [] then answer (Refused ''A file name with an extension is required.'' No_detail)
         else if \<not> truthy_text (job_output_file job) then answer (Refused ''That conversion produced no output to save.'' No_detail)
         else sbind (on_transfers (create_upload (tl_transfer env) extension (str_int (tc_user_id ctx)) (Some output_name) destination None None))
           (\<lambda>session. finish_upload env ctx ''saved'' session
              (sbind (copy_object env (the (job_output_file job)) (ur_object_key session)) (\<lambda>_. sreturn (Inr ()))))))"

definition too_big_to_upload :: tool_reply where
  "too_big_to_upload = Refused ''Content larger than 25 MB cannot be uploaded through this tool. Ask the user to upload it in the Transform web app instead.'' No_detail"

definition tool_upload_file :: "tool_env \<Rightarrow> tool_context \<Rightarrow> string \<Rightarrow> string \<Rightarrow> string option \<Rightarrow> tool_reply tool_op" where
  "tool_upload_file env ctx file_name content_base64 folder_id =
     authorized ctx Scope_DOCUMENTS_WRITE ''upload_file'' (\<lambda>subtree.
     case destination_of ctx subtree folder_id of
       None \<Rightarrow> answer folder_unavailable
     | Some destination \<Rightarrow>
       if 4 * ((MAX_UPLOAD_BYTES + 2) div 3) < length content_base64 then answer too_big_to_upload
       else case b64decode True content_base64 of
         Inl e \<Rightarrow> answer (Refused ''content_base64 is not valid base64-encoded data.'' No_detail)
       | Inr data \<Rightarrow>
         if data = [] then answer (Refused ''The uploaded content was empty.'' No_detail)
         else if MAX_UPLOAD_BYTES < length data then answer too_big_to_upload
         else let extension = extension_from_filename (Some file_name) in
           if extension = [] then answer (Refused ''file_name must include a file extension such as 'pdf'.'' No_detail)
           else sbind (try_op (sbind (on_files (authorize_upload_size (te_drive (tl_transfer env)) (tc_user_id ctx) (Some (int (length data)))))
                   (\<lambda>_. sreturn (Inr None)))
                 (\<lambda>e. if is_file_system_error e then sreturn (Inr (Some (exn_message e))) else raise_op e)) (\<lambda>denied. case denied of
               Some m \<Rightarrow> answer (Refused m No_detail)
             | None \<Rightarrow> sbind (try_op (sbind (on_transfers (create_upload (tl_transfer env) extension (str_int (tc_user_id ctx)) (Some file_name) destination None None))
                       (\<lambda>session. sreturn (Inr (Inr session))))
                     (\<lambda>e. case e of
                         ValueError m \<Rightarrow> sreturn (Inr (Inl m))
                       | AppError UnsafeObjectKeyError m \<Rightarrow> sreturn (Inr (Inl m))
                       | _ \<Rightarrow> if is_file_system_error e then sreturn (Inr (Inl (exn_message e))) else raise_op e)) (\<lambda>opened. case opened of
                   Inl m \<Rightarrow> answer (Refused (''The file could not be uploaded: '' @ m) No_detail)
                 | Inr session \<Rightarrow> finish_upload env ctx ''uploaded'' session (put_object env (ur_object_key session) data))))"

definition tool_delete_file :: "tool_env \<Rightarrow> tool_context \<Rightarrow> string \<Rightarrow> tool_reply tool_op" where
  "tool_delete_file env ctx file_id =
     authorized ctx Scope_DOCUMENTS_DELETE ''delete_file'' (\<lambda>subtree.
     owned_file_in_scope ctx file_id subtree (\<lambda>row.
     sbind (on_files (delete_file (te_drive (tl_transfer env)) (tc_user_id ctx) file_id)) (\<lambda>_.
     answer (Reply_deleted file_id (fl_file_name row)))))"

section \<open>One call\<close>

datatype tool_call =
    Get_supported_conversions "string option"
  | List_files "string option" "string list option" "string option" "int option" "int option"
  | List_folders "string option" "int option" "int option"
  | Get_file string
  | Get_conversion_status string
  | Get_conversion_history "int option" "int option"
  | Get_credits
  | Download_file string "int option" "int option"
  | Create_folder string "string option"
  | Convert_file string string
  | Save_file string "string option" "string option"
  | Upload_file string string "string option"
  | Delete_file string

fun run_tool :: "tool_env \<Rightarrow> tool_context \<Rightarrow> tool_call \<Rightarrow> tool_reply tool_op" where
  "run_tool env ctx (Get_supported_conversions f) = tool_supported_conversions env ctx f"
| "run_tool env ctx (List_files q e f l x) = tool_list_files env ctx q e f l x"
| "run_tool env ctx (List_folders p l x) = tool_list_folders env ctx p l x"
| "run_tool env ctx (Get_file i) = tool_get_file env ctx i"
| "run_tool env ctx (Get_conversion_status j) = tool_conversion_status env ctx j"
| "run_tool env ctx (Get_conversion_history l x) = tool_conversion_history env ctx l x"
| "run_tool env ctx Get_credits = tool_credits env ctx"
| "run_tool env ctx (Download_file i x n) = tool_download_file env ctx i x n"
| "run_tool env ctx (Create_folder n p) = tool_create_folder env ctx n p"
| "run_tool env ctx (Convert_file i t) = tool_convert_file env ctx i t"
| "run_tool env ctx (Save_file j f n) = tool_save_file env ctx j f n"
| "run_tool env ctx (Upload_file n c f) = tool_upload_file env ctx n c f"
| "run_tool env ctx (Delete_file i) = tool_delete_file env ctx i"

end
