(* ===== verification/Encryption_Safety.thy ===== *)
theory Encryption_Safety
  imports File_Encryption
begin

text \<open>
  What the encryption of files guarantees: the layout of an encrypted object and that no nonce is used twice in it,
  that it reads back under any later arrangement of the keys, whole or by its beginning, through both readers, that
  the server reads what the browser wrote; and what it does not guarantee, that nothing is missing at the end.
\<close>

section \<open>The layout of an encrypted object\<close>

text \<open>What is relied on of AES-GCM: a message of less than \<open>2\<^sup>3\<^sup>1\<close> bytes opens to what was sealed, and the tag is 16 bytes.\<close>

definition seals :: "cipher_suite \<Rightarrow> bool" where
  "seals cs = (\<forall>key nonce data aad. length data < 2 ^ 31 \<longrightarrow>
     cs_open cs key nonce (cs_seal cs key nonce data aad) aad = Some data \<and> length (cs_seal cs key nonce data aad) = length data + 16)"

primrec frames :: "cipher_suite \<Rightarrow> byte list \<Rightarrow> byte list \<Rightarrow> byte list \<Rightarrow> nat \<Rightarrow> byte list list \<Rightarrow> byte list list" where
  "frames cs key np aad counter [] = []"
| "frames cs key np aad counter (c # rest) = cs_seal cs key (np @ be32 counter) c aad # frames cs key np aad (Suc counter) rest"

definition trenc_object :: "cipher_suite \<Rightarrow> byte list \<Rightarrow> byte list \<Rightarrow> byte list \<Rightarrow> string \<Rightarrow> nat \<Rightarrow> byte list list \<Rightarrow> byte list" where
  "trenc_object cs master salt np user_id n cl =
     stream_magic @ [stream_version] @ be32 n @ salt @ np
       @ concat (frames cs (derive_stream_key cs salt user_id master) np (build_aad user_id) 0 cl)"

text \<open>All pieces but the last are full, and none is empty.\<close>

fun well_cut :: "nat \<Rightarrow> 'a list list \<Rightarrow> bool" where
  "well_cut n [] = True"
| "well_cut n [c] = (c \<noteq> [] \<and> length c \<le> n)"
| "well_cut n (c # d # r) = (c \<noteq> [] \<and> length c = n \<and> well_cut n (d # r))"

lemma magic_lengths [simp]: "length stream_magic = 5" "length fencr_magic = 5" "stream_header_len = 34" "fencr_header_len = 34"
  by (simp_all add: stream_magic_def fencr_magic_def utf8_def char_bytes_def stream_header_len_def fencr_header_len_def
      salt_len_def nonce_prefix_len_def)

lemma chunks_Nil [simp]: "chunks n [] = []" by (simp add: chunks.simps)

lemma chunks_step: "0 < n \<Longrightarrow> xs \<noteq> [] \<Longrightarrow> chunks n xs = take n xs # chunks n (drop n xs)"
  by (subst chunks.simps) simp

lemma chunks_eq_Nil [simp]: "0 < n \<Longrightarrow> chunks n xs = [] \<longleftrightarrow> xs = []"
  by (cases "xs = []") (simp_all add: chunks_step)

lemma concat_chunks: "0 < n \<Longrightarrow> concat (chunks n xs) = xs"
proof (induction n xs rule: chunks.induct)
  case (1 n xs)
  show ?case by (cases "xs = []") (use 1 in \<open>simp_all add: chunks_step\<close>)
qed

lemma well_cut_chunks: "0 < n \<Longrightarrow> well_cut n (chunks n xs)"
proof (induction n xs rule: chunks.induct)
  case (1 n xs)
  show ?case
  proof (cases "length xs \<le> n")
    case True
    then have "drop n xs = []" by simp
    then show ?thesis using 1 True by (cases "xs = []") (simp_all add: chunks_step)
  next
    case False
    then have ne: "xs \<noteq> []" "drop n xs \<noteq> []" using 1(2) by auto
    have "well_cut n (chunks n (drop n xs))" using 1 ne by simp
    then show ?thesis using ne 1(2) False by (simp add: chunks_step [of n xs] chunks_step [of n "drop n xs"])
  qed
qed

lemma well_cut_tail: "well_cut n (c # r) \<Longrightarrow> well_cut n r"
  by (cases r) simp_all

lemma well_cut_take: "well_cut n cl \<Longrightarrow> well_cut n (take k cl)"
proof (induction n cl arbitrary: k rule: well_cut.induct)
  case (3 n c d r)
  show ?case
  proof (cases k)
    case (Suc j)
    then show ?thesis using 3 3(1) [of j] by (cases j) auto
  qed simp
qed (auto simp: take_Cons')

lemma well_cut_heads:
  assumes "well_cut n (c # r)"
  shows "c \<noteq> []" "length c \<le> n" "r \<noteq> [] \<Longrightarrow> length c = n"
  using assms by (cases r; simp)+

text \<open>Taking whole pieces off the pieces is taking whole pieces off the data, sealed or not.\<close>

lemma frame_length: "seals cs \<Longrightarrow> length c < 2 ^ 31 \<Longrightarrow> length (cs_seal cs key nonce c aad) = length c + 16"
  by (simp add: seals_def)

lemma take_frames:
  assumes "seals cs" "n < 2 ^ 31"
  shows "well_cut n cl \<Longrightarrow> take (k * (n + 16)) (concat (frames cs key np aad counter cl)) = concat (frames cs key np aad counter (take k cl))"
proof (induction cl arbitrary: k counter)
  case (Cons c r)
  have len: "length (cs_seal cs key (np @ be32 counter) c aad) = length c + 16" "length c \<le> n"
    using frame_length [OF assms(1)] well_cut_heads [OF Cons.prems] assms(2) by simp_all
  show ?case
  proof (cases k)
    case (Suc j)
    show ?thesis
    proof (cases "r = []")
      case True
      then show ?thesis using len Suc by simp
    next
      case False
      then have "length c = n" using well_cut_heads(3) [OF Cons.prems] by simp
      then show ?thesis using len Suc Cons.IH [OF well_cut_tail [OF Cons.prems], of j "Suc counter"] by simp
    qed
  qed simp
qed simp

lemma take_pieces: "well_cut n cl \<Longrightarrow> take (k * n) (concat cl) = concat (take k cl)"
proof (induction cl arbitrary: k)
  case (Cons c r)
  show ?case
  proof (cases k)
    case (Suc j)
    show ?thesis
    proof (cases "r = []")
      case False
      then have "length c = n" using well_cut_heads(3) [OF Cons.prems] by simp
      then show ?thesis using Suc Cons.IH [OF well_cut_tail [OF Cons.prems], of j] by simp
    qed (use Suc well_cut_heads(2) [OF Cons.prems] in simp)
  qed simp
qed simp

lemma length_frames: assumes "seals cs" "n < 2 ^ 31"
  shows "well_cut n cl \<Longrightarrow> length (concat (frames cs key np aad counter cl)) = length (concat cl) + 16 * length cl"
proof (induction cl arbitrary: counter)
  case (Cons c r)
  then show ?case using frame_length [OF assms(1), of c] well_cut_heads(2) [OF Cons.prems] assms(2) well_cut_tail [OF Cons.prems]
    by simp
qed simp

lemma length_pieces: "well_cut n cl \<Longrightarrow> 0 < n \<Longrightarrow> length cl = (length (concat cl) + n - 1) div n"
proof (induction cl)
  case (Cons c r)
  have c: "c \<noteq> []" "length c \<le> n" using well_cut_heads [OF Cons.prems(1)] by simp_all
  then have pos: "0 < length c" by simp
  show ?case
  proof (cases "r = []")
    case True
    obtain k where k: "length c = Suc k" "k < n" using pos c(2) by (cases "length c") auto
    then have "(length c + n - 1) div n = 1" by simp
    then show ?thesis using True by simp
  next
    case False
    then have "length c = n" using well_cut_heads(3) [OF Cons.prems(1)] by simp
    then have e: "length (concat (c # r)) + n - 1 = n + (length (concat r) + n - 1)" using Cons.prems(2) by simp
    have nz: "n \<noteq> 0" using Cons.prems(2) by simp
    have "(length (concat (c # r)) + n - 1) div n = Suc ((length (concat r) + n - 1) div n)"
      unfolding e div_add_self1 [OF nz] by simp
    then show ?thesis using Cons.IH [OF well_cut_tail [OF Cons.prems(1)] Cons.prems(2)] by (simp only: list.size)
  qed
qed simp

text \<open>The loops of both formats write and read exactly these frames.\<close>

lemma encrypt_chunks_frames:
  "0 < n \<Longrightarrow> counter + length (chunks n src) \<le> 2 ^ 32
    \<Longrightarrow> encrypt_chunks cs key np aad n counter src = (concat (frames cs key np aad counter (chunks n src)), Inr ())"
proof (induction "length src" arbitrary: src counter rule: less_induct)
  case less
  show ?case
  proof (cases "src = []")
    case True
    then show ?thesis by (simp add: encrypt_chunks.simps)
  next
    case False
    then have c: "chunks n src = take n src # chunks n (drop n src)" using less(2) by (simp add: chunks_step)
    then have "Suc counter + length (chunks n (drop n src)) \<le> 2 ^ 32" using less(3) by simp
    then have "encrypt_chunks cs key np aad n (Suc counter) (drop n src)
      = (concat (frames cs key np aad (Suc counter) (chunks n (drop n src))), Inr ())"
      using less(1) [of "drop n src" "Suc counter"] less(2) False by simp
    then show ?thesis using False less(2,3) c by (subst encrypt_chunks.simps) simp
  qed
qed

lemma fencr_chunks_frames:
  "0 < n \<Longrightarrow> fencr_chunks cs key np n offset counter src = concat (frames cs key np fencr_aad counter (chunks n (drop offset src)))"
proof (induction "length src - offset" arbitrary: offset counter rule: less_induct)
  case less
  show ?case
  proof (cases "length src \<le> offset")
    case True
    then show ?thesis by (simp add: fencr_chunks.simps)
  next
    case False
    then have "fencr_chunks cs key np n (offset + n) (Suc counter) src
      = concat (frames cs key np fencr_aad (Suc counter) (chunks n (drop (offset + n) src)))" using less(1) [of "offset + n"] less(2) by simp
    then show ?thesis using False less(2) by (subst fencr_chunks.simps) (simp add: chunks_step build_nonce_def add.commute)
  qed
qed

lemma decrypt_chunks_frames:
  assumes "seals cs" "n < 2 ^ 31"
  shows "well_cut n cl \<Longrightarrow> counter + length cl \<le> 2 ^ 32
    \<Longrightarrow> decrypt_chunks cs overflow key np aad n counter (concat (frames cs key np aad counter cl)) = (cl, Inr ())"
proof (induction cl arbitrary: counter)
  case Nil
  then show ?case by (simp add: decrypt_chunks.simps)
next
  case (Cons c r)
  let ?f = "cs_seal cs key (np @ be32 counter) c aad" and ?rest = "concat (frames cs key np aad (Suc counter) r)"
  have len: "length ?f = length c + 16" "length c < 2 ^ 31" using frame_length [OF assms(1)] well_cut_heads(2) [OF Cons.prems(1)] assms(2) by simp_all
  then have ne: "?f \<noteq> []" by auto
  have cut: "take (n + 16) (?f @ ?rest) = ?f" "drop (n + 16) (?f @ ?rest) = ?rest"
    using len well_cut_heads(2,3) [OF Cons.prems(1)] by (cases "r = []"; simp)+
  have "cs_open cs key (np @ be32 counter) ?f aad = Some c" using assms(1) len(2) by (simp add: seals_def)
  then show ?case
    using Cons.IH [of "Suc counter"] Cons.prems well_cut_tail [OF Cons.prems(1)] ne cut by (subst decrypt_chunks.simps) simp
qed

subsection \<open>The header\<close>

lemma header_fields:
  assumes "length magic = 5" "length salt = 16" "length np = 8"
  shows "take 34 (magic @ [v] @ be32 n @ salt @ np @ body) = magic @ [v] @ be32 n @ salt @ np"
    "drop 34 (magic @ [v] @ be32 n @ salt @ np @ body) = body"
    "header_field 6 4 (magic @ [v] @ be32 n @ salt @ np) = be32 n" "header_field 10 16 (magic @ [v] @ be32 n @ salt @ np) = salt"
    "header_field 6 4 (magic @ [v] @ be32 n @ salt @ np @ body) = be32 n"
    "drop 26 (magic @ [v] @ be32 n @ salt @ np) = np" "(magic @ [v] @ be32 n @ salt @ np) ! 5 = v"
    "length (magic @ [v] @ be32 n @ salt @ np) = 34"
  using assms by (simp_all add: header_field_def nth_append)

lemma iter_decrypt_layout:
  assumes "length salt = 16" "length np = 8" "n < 2 ^ 32"
  shows "iter_decrypt cs fe (stream_magic @ [stream_version] @ be32 n @ salt @ np @ body) user_id =
    (if body = [] then ([], Inr ())
     else case select_key cs salt user_id (np @ be32 0) (take (n + 16) body) (fe_master_key fe # fe_previous_master_keys fe) of
         None \<Rightarrow> ([], Inl no_matching_key)
       | Some (key, plain) \<Rightarrow>
           let (out, r) = decrypt_chunks cs (OverflowError ''int too big to convert'') key np (build_aad user_id) n 1 (drop (n + 16) body)
           in (plain # out, r))"
  using header_fields [of stream_magic salt np, OF _ assms(1,2)] assms(3)
  by (simp add: iter_decrypt_def Let_def salt_len_def from_be32)

text \<open>The key of an object is found among the keys of a service when those tried before it refuse its first frame.\<close>

definition reaches :: "cipher_suite \<Rightarrow> file_encryption \<Rightarrow> byte list \<Rightarrow> string \<Rightarrow> nat \<Rightarrow> byte list \<Rightarrow> bool" where
  "reaches cs fe master user_id n c = (\<exists>before after. fe_master_key fe # fe_previous_master_keys fe = before @ master # after
     \<and> (\<forall>k \<in> set before. cs_open cs (derive_stream_key cs (header_field 10 16 c) user_id k) (header_field 26 8 c @ be32 0)
          (header_field 34 (n + 16) c) (build_aad user_id) = None))"

lemma select_key_reached:
  assumes "\<forall>k \<in> set before. cs_open cs (derive_stream_key cs salt user_id k) nonce first (build_aad user_id) = None"
    and "cs_open cs (derive_stream_key cs salt user_id master) nonce first (build_aad user_id) = Some plain"
  shows "select_key cs salt user_id nonce first (before @ master # after) = Some (derive_stream_key cs salt user_id master, plain)"
  using assms by (induction before) (simp_all add: Let_def)

lemma iter_decrypt_object:
  assumes "seals cs" "length salt = 16" "length np = 8" "n < 2 ^ 31" "well_cut n cl" "length cl \<le> 2 ^ 32"
    and reach: "cl \<noteq> [] \<Longrightarrow> reaches cs fe master user_id n (trenc_object cs master salt np user_id n cl)"
  shows "iter_decrypt cs fe (trenc_object cs master salt np user_id n cl) user_id = (cl, Inr ())"
proof (cases cl)
  case Nil
  then show ?thesis using iter_decrypt_layout [OF assms(2,3), of n cs fe "[]"] assms(4) by (simp add: trenc_object_def)
next
  case (Cons c r)
  let ?key = "derive_stream_key cs salt user_id master" and ?aad = "build_aad user_id"
  let ?f = "cs_seal cs ?key (np @ be32 0) c ?aad" and ?rest = "concat (frames cs ?key np ?aad 1 r)"
  let ?obj = "trenc_object cs master salt np user_id n cl"
  have cut: "c \<noteq> []" "length c \<le> n" "r \<noteq> [] \<Longrightarrow> length c = n" using well_cut_heads assms(5) Cons by metis+
  have len: "length ?f = length c + 16" using frame_length [OF assms(1), of c] cut(2) assms(4) by simp
  then have ne: "?f \<noteq> []" by auto
  have obj: "?obj = stream_magic @ [stream_version] @ be32 n @ salt @ np @ ?f @ ?rest" by (simp add: trenc_object_def Cons)
  have split: "take (n + 16) (?f @ ?rest) = ?f" "drop (n + 16) (?f @ ?rest) = ?rest"
    using len cut(2,3) by (cases "r = []"; simp)+
  have fields: "header_field 10 16 ?obj = salt" "header_field 26 8 ?obj = np" "header_field 34 (n + 16) ?obj = ?f"
    using assms(2,3) split(1) unfolding obj by (simp_all add: header_field_def)
  have opened: "cs_open cs ?key (np @ be32 0) ?f ?aad = Some c" using assms(1,4) cut(2) by (simp add: seals_def)
  obtain before after where keys: "fe_master_key fe # fe_previous_master_keys fe = before @ master # after"
    and refused: "\<forall>k \<in> set before. cs_open cs (derive_stream_key cs salt user_id k) (np @ be32 0) ?f ?aad = None"
    using reach Cons unfolding reaches_def fields by auto
  have sel: "select_key cs salt user_id (np @ be32 0) ?f (fe_master_key fe # fe_previous_master_keys fe) = Some (?key, c)"
    unfolding keys by (rule select_key_reached [OF refused opened])
  have more: "decrypt_chunks cs (OverflowError ''int too big to convert'') ?key np ?aad n 1 ?rest = (r, Inr ())"
    by (rule decrypt_chunks_frames [OF assms(1,4)]) (use assms(5,6) Cons well_cut_tail in auto)
  show ?thesis
    unfolding obj using iter_decrypt_layout [OF assms(2,3), of n cs fe "?f @ ?rest" user_id] assms(4) ne split sel more Cons
    by (simp del: select_key.simps)
qed

section \<open>Reading back\<close>

definition pieces_fit :: "nat \<Rightarrow> byte list \<Rightarrow> bool" where
  "pieces_fit n data = (0 < n \<and> n < 2 ^ 31 \<and> (length data + n - 1) div n \<le> 2 ^ 32)"

lemma pieces:
  assumes "pieces_fit n data"
  shows "well_cut n (chunks n data)" "length (chunks n data) \<le> 2 ^ 32" "concat (chunks n data) = data"
    "length (chunks n data) = (length data + n - 1) div n" "0 < n" "n < 2 ^ 31"
  using assms well_cut_chunks [of n data] concat_chunks [of n data] length_pieces [of n "chunks n data"]
  by (simp_all add: pieces_fit_def)

lemma encrypt_stream_layout:
  assumes "pieces_fit n data"
  shows "encrypt_stream cs fe salt np data user_id (int n) = (trenc_object cs (fe_master_key fe) salt np user_id n (chunks n data), Inr ())"
  using pieces [OF assms] by (simp add: encrypt_stream_def to_bytes4_def encrypt_chunks_frames trenc_object_def)

text \<open>an encrypted file is its header and one sealed frame per piece of the data, each under a nonce of its own:
  the prefix drawn for the file and the number of the piece; nothing else is written and nothing is left out.\<close>

theorem encrypted_file_layout:
  assumes "pieces_fit n data"
  shows "encrypt_stream cs fe salt np data user_id (int n) =
      (stream_magic @ [stream_version] @ be32 n @ salt @ np
         @ concat (map (\<lambda>i. cs_seal cs (derive_stream_key cs salt user_id (fe_master_key fe)) (np @ be32 i) (chunks n data ! i) (build_aad user_id))
             [0..<length (chunks n data)]), Inr ())
    \<and> concat (chunks n data) = data
    \<and> distinct (map (\<lambda>i. np @ be32 i) [0..<length (chunks n data)])"
proof -
  have frames: "frames cs key np aad counter cl = map (\<lambda>i. cs_seal cs key (np @ be32 (counter + i)) (cl ! i) aad) [0..<length cl]"
    for key aad counter cl
    by (induction cl arbitrary: counter) (simp_all add: upt_conv_Cons map_Suc_upt [symmetric] comp_def del: upt_Suc map_Suc_upt)
  have "inj_on (\<lambda>i. np @ be32 i) {0..<length (chunks n data)}"
    by (rule inj_onI) (use pieces(2) [OF assms] in \<open>auto intro: be32_inj\<close>)
  then show ?thesis
    using encrypt_stream_layout [OF assms, of cs fe salt np user_id] pieces(3) [OF assms]
    by (simp add: trenc_object_def frames distinct_map)
qed

lemma encrypted_reads_back:
  assumes "seals cs" "length salt = 16" "length np = 8" "pieces_fit n data"
    and "encrypt_stream cs fe salt np data user_id (int n) = (c, r)"
    and "data = [] \<or> reaches cs fe' (fe_master_key fe) user_id n c"
  shows "iter_decrypt cs fe' c user_id = (chunks n data, Inr ())" "c = trenc_object cs (fe_master_key fe) salt np user_id n (chunks n data)" "r = Inr ()"
proof -
  note p = pieces [OF assms(4)]
  show c: "c = trenc_object cs (fe_master_key fe) salt np user_id n (chunks n data)" "r = Inr ()"
    using assms(5) unfolding encrypt_stream_layout [OF assms(4)] by simp_all
  show "iter_decrypt cs fe' c user_id = (chunks n data, Inr ())"
    unfolding c(1) by (rule iter_decrypt_object [OF assms(1-3) p(6,1,2)]) (use assms(6) p(3) c(1) in auto)
qed

text \<open>C12: what is encrypted for a user reads back exactly, with the current keys or after any rotation that keeps the old key
  among the previous ones, and the stored size is determined by the size of the data.\<close>

theorem encrypted_file_reads_back:
  assumes "seals cs" "length salt = 16" "length np = 8" "pieces_fit n data"
    and "encrypt_stream cs fe salt np data user_id (int n) = (c, r)"
    and "data = [] \<or> reaches cs fe' (fe_master_key fe) user_id n c"
  shows "r = Inr () \<and> decrypt_stream cs fe' c user_id = (data, Inr ()) \<and> length c = 34 + length data + 16 * ((length data + n - 1) div n)"
proof -
  note p = pieces [OF assms(4)] and rd = encrypted_reads_back [OF assms]
  have "length c = 34 + length data + 16 * ((length data + n - 1) div n)"
    unfolding rd(2) using length_frames [OF assms(1) p(6,1)] p(3,4) assms(2,3) by (simp add: trenc_object_def)
  then show ?thesis using rd(1,3) p(3) by (simp add: decrypt_stream_def)
qed

section \<open>Reading a prefix\<close>

lemma take_object:
  assumes "seals cs" "n < 2 ^ 31" "well_cut n cl" "length salt = 16" "length np = 8"
  shows "take (34 + j * (n + 16)) (trenc_object cs master salt np user_id n cl) = trenc_object cs master salt np user_id n (take j cl)"
proof -
  let ?h = "stream_magic @ [stream_version] @ be32 n @ salt @ np"
  have "take (34 + x) (?h @ b) = ?h @ take x b" for x and b :: "byte list" using assms(4,5) by (subst take_append) simp
  then have "take (34 + j * (n + 16)) (?h @ concat fs) = ?h @ take (j * (n + 16)) (concat fs)" for fs .
  then show ?thesis using take_frames [OF assms(1-3), of j] by (simp only: trenc_object_def append_assoc)
qed

lemma reaches_take:
  assumes "1 \<le> j"
  shows "reaches cs fe master user_id n (take (34 + j * (n + 16)) c) = reaches cs fe master user_id n c"
proof -
  have "n + 16 \<le> j * (n + 16)" using assms mult_le_mono1 [of 1 j "n + 16"] by simp
  then have "header_field 34 (n + 16) (take (34 + j * (n + 16)) c) = header_field 34 (n + 16) c"
    by (simp add: header_field_def drop_take min_absorb1)
  moreover have "header_field i l (take (34 + j * (n + 16)) c) = header_field i l c" if "i + l \<le> 34" for i l
    using that by (simp add: header_field_def drop_take min_absorb1)
  ultimately show ?thesis by (simp add: reaches_def)
qed

lemma decrypt_taken:
  assumes "seals cs" "length salt = 16" "length np = 8" "pieces_fit n data"
    and c: "c = trenc_object cs master salt np user_id n (chunks n data)"
    and reach: "data = [] \<or> reaches cs fe master user_id n c"
  shows "iter_decrypt cs fe (take (34 + j * (n + 16)) c) user_id = (take j (chunks n data), Inr ())"
    "concat (take j (chunks n data)) = take (j * n) data"
proof -
  note p = pieces [OF assms(4)]
  note taken = take_object [OF assms(1) p(6,1) assms(2,3), of j master user_id, folded c]
  have len: "length (take j (chunks n data)) \<le> 2 ^ 32" using p(2) by simp
  show "iter_decrypt cs fe (take (34 + j * (n + 16)) c) user_id = (take j (chunks n data), Inr ())"
    unfolding taken
  proof (rule iter_decrypt_object [OF assms(1-3) p(6) well_cut_take [OF p(1)] len])
    assume ne: "take j (chunks n data) \<noteq> []"
    then have "1 \<le> j" "data \<noteq> []" by (cases j; auto)+
    then show "reaches cs fe master user_id n (trenc_object cs master salt np user_id n (take j (chunks n data)))"
      using reach reaches_take [of j cs fe master user_id n c] taken by simp
  qed
  show "concat (take j (chunks n data)) = take (j * n) data" using take_pieces [OF p(1), of j] p(3) by simp
qed

lemma ceil_covers: "0 < n \<Longrightarrow> m \<le> (m + n - 1) div n * (n :: nat)"
proof -
  assume n: "0 < n"
  have "(m + n - 1) div n * n + (m + n - 1) mod n = m + n - 1" by (rule div_mult_mod_eq)
  moreover have "(m + n - 1) mod n < n" using n by simp
  ultimately show ?thesis using n by linarith
qed

lemma decrypt_prefix_object:
  assumes "seals cs" "length salt = 16" "length np = 8" "pieces_fit n data"
    and c: "c = trenc_object cs master salt np user_id n (chunks n data)"
    and reach: "data = [] \<or> reaches cs fe master user_id n c"
    and "0 < m" "34 \<le> limit" "whole \<longrightarrow> length c \<le> limit"
  shows "decrypt_prefix cs fe (take limit c) user_id (int m) whole
    = Inr (take m (if whole then data else take ((min limit (length c) - 34) div (n + 16) * n) data))"
proof -
  note p = pieces [OF assms(4)] and taken = decrypt_taken [OF assms(1-4) c reach]
  define need where "need = (m + n - 1) div n"
  have cover: "take m (take (need * n) xs) = take m xs" for xs :: "byte list" using ceil_covers [OF p(5), of m] by (simp add: need_def min_absorb1)
  define l where "l = min limit (length c)"
  define k where "k = (l - 34) div (n + 16)"
  have len: "length (take limit c) = l" "34 \<le> length c" using assms(2,3) by (simp_all add: l_def c trenc_object_def)
  then have l: "34 \<le> l" using assms(8) by (simp add: l_def)
  define c' where "c' = take limit c"
  have head: "take 5 c' = stream_magic" "header_field 6 4 c' = be32 n" "length c' = l"
    using len(1) assms(2,3,8) unfolding c'_def by (simp_all add: c trenc_object_def header_field_def drop_take min_absorb1)
  have size: "from_bytes (be32 n) = n" using p(6) by (simp add: from_be32)
  have "decrypt_prefix cs fe c' user_id (int m) whole =
      rbind (joined (iter_decrypt cs fe (take (min (if whole then l else 34 + k * (n + 16)) (34 + need * (n + 16))) c') user_id))
        (\<lambda>plain. Inr (take m plain))"
    using assms(7) p(5) head size l by (simp add: decrypt_prefix_def k_def need_def)
  also have "take (min (if whole then l else 34 + k * (n + 16)) (34 + need * (n + 16))) c'
      = take (34 + (if whole then need else min k need) * (n + 16)) c"
  proof (cases whole)
    case True
    then have "l = length c" using assms(9) by (simp add: l_def)
    then show ?thesis using True assms(9) by (simp add: c'_def min_def)
  next
    case False
    have "k * (n + 16) \<le> l - 34" unfolding k_def by (rule div_times_less_eq_dividend)
    moreover have "l \<le> limit" by (simp add: l_def)
    ultimately have le: "34 + k * (n + 16) \<le> limit" using l by linarith
    have "min (34 + k * (n + 16)) (34 + need * (n + 16)) = 34 + min k need * (n + 16)" by (simp add: min_def)
    moreover have "34 + min k need * (n + 16) \<le> limit"
    proof -
      have "min k need * (n + 16) \<le> k * (n + 16)" by (rule mult_le_mono1) simp
      then show ?thesis using le by linarith
    qed
    ultimately show ?thesis using False by (simp add: c'_def min_absorb1)
  qed
  also have "joined (iter_decrypt cs fe (take (34 + (if whole then need else min k need) * (n + 16)) c) user_id)
      = Inr (take ((if whole then need else min k need) * n) data)"
    using taken by (simp add: joined_def)
  also have "rbind (Inr (take ((if whole then need else min k need) * n) data)) (\<lambda>plain. Inr (take m plain))
      = Inr (take m (if whole then data else take (k * n) data))"
  proof (cases "whole \<or> need \<le> k")
    case True
    have "take m (take (k * n) data) = take m data" if "need \<le> k"
    proof -
      have "m \<le> k * n" using ceil_covers [OF p(5), of m, folded need_def] mult_le_mono1 [OF that, of n] by linarith
      then show ?thesis by (simp add: min_absorb1)
    qed
    then show ?thesis using True cover by (auto simp: min_def)
  qed (auto simp: min_def)
  finally show ?thesis by (simp add: k_def l_def c'_def)
qed

lemma reader_prefix:
  assumes "seals cs" "length salt = 16" "length np = 8" "pieces_fit default_chunk_size data"
    and "encrypt_stream cs fe salt np data user_id (int default_chunk_size) = (c, r)"
    and "data = [] \<or> reaches cs fe' (fe_master_key fe) user_id default_chunk_size c"
    and "0 < m" "m \<le> 2 ^ 30"
  shows "read_plaintext cs (Some fe') (\<lambda>limit. Inr (case limit of None \<Rightarrow> c | Some l \<Rightarrow> take (nat l) c)) (Some (int m)) user_id = Inr (take m data)"
proof -
  let ?n = "1048576 :: nat"
  have n: "default_chunk_size = ?n" by (simp add: default_chunk_size_def)
  note p = pieces [OF assms(4)]
  have c: "c = trenc_object cs (fe_master_key fe) salt np user_id ?n (chunks ?n data)"
    using assms(5) encrypt_stream_layout [OF assms(4)] by (simp add: n)
  define limit where "limit = m + 1114112"
  have limit: "nat (int m + ciphertext_slack + ciphertext_chunk_slack) = limit" "int m + ciphertext_slack + ciphertext_chunk_slack = int limit"
    by (simp_all add: limit_def ciphertext_slack_def ciphertext_chunk_slack_def)
  define whole where "whole \<longleftrightarrow> length c < limit"
  have prefix: "decrypt_prefix cs fe' (take limit c) user_id (int m) whole
      = Inr (take m (if whole then data else take ((min limit (length c) - 34) div (?n + 16) * ?n) data))"
    by (rule decrypt_prefix_object [OF assms(1-3) assms(4) [unfolded n] c _ assms(7)])
      (use assms(6) in \<open>simp_all add: n whole_def limit_def\<close>)
  have size: "length c = 34 + length data + 16 * ((length data + ?n - 1) div ?n)"
    unfolding c using length_frames [OF assms(1) p(6,1), of "derive_stream_key cs salt user_id (fe_master_key fe)" np "build_aad user_id" 0]
      p(3,4) assms(2,3) by (simp add: trenc_object_def n)
  have covered: "m \<le> (min limit (length c) - 34) div (?n + 16) * ?n \<and> m \<le> length data" if "\<not> whole"
  proof -
    have "limit \<le> length c" using that by (simp add: whole_def)
    moreover have "m \<le> (limit - 34) div (?n + 16) * ?n" using assms(8) by (simp add: limit_def)
    moreover have "m \<le> length data" using \<open>limit \<le> length c\<close> size assms(8) by (simp add: limit_def)
    ultimately show ?thesis by (simp add: min_absorb1)
  qed
  have result: "decrypt_prefix cs fe' (take limit c) user_id (int m) whole = Inr (take m data)"
    using prefix covered by (cases whole) (simp_all add: min_absorb1)
  define c' where "c' = take limit c"
  have "take 5 c' = stream_magic" unfolding c'_def c by (simp add: trenc_object_def limit_def)
  moreover have "length c' < limit \<longleftrightarrow> whole" by (auto simp: whole_def c'_def)
  moreover note result [folded c'_def]
  ultimately show ?thesis using covered assms(7) by (cases whole) (simp_all add: read_plaintext_def limit Let_def c'_def [symmetric])
qed

text \<open>C13: the agents' reader returns exactly the first \<open>m\<close> bytes of what was encrypted, whatever the size of the
  file, while it fetches no more than \<open>m\<close> bytes and a fixed slack from the storage: no page is short, and no page is ciphertext.\<close>

theorem reader_returns_prefix:
  assumes "seals cs" "length salt = 16" "length np = 8" "pieces_fit default_chunk_size data"
    and "encrypt_stream cs fe salt np data user_id (int default_chunk_size) = (c, r)"
    and "data = [] \<or> reaches cs fe' (fe_master_key fe) user_id default_chunk_size c"
    and "0 < m" "m \<le> 2 ^ 30"
  shows "read_plaintext cs (Some fe') (\<lambda>limit. Inr (case limit of None \<Rightarrow> c | Some l \<Rightarrow> take (nat l) c)) (Some (int m)) user_id = Inr (take m data)"
  by (rule reader_prefix [OF assms])

text \<open>the download route and the agents' reader give the same contents for every stored object, encrypted or not,
  readable or not.\<close>

theorem readers_agree:
  "joined (iter_decrypted_object cs fe (Inr content) user_id) = read_plaintext cs (Some fe) (\<lambda>_. Inr content) None user_id"
proof (cases "take 5 content = stream_magic")
  case True
  then show ?thesis by (simp add: iter_decrypted_object_def read_plaintext_def decrypt_bytes_def Let_def)
next
  case False
  have "take 34 content @ drop 34 content = content" by simp
  then show ?thesis
    using False by (simp add: iter_decrypted_object_def read_plaintext_def truncated_to_def joined_def Let_def concat_chunks)
qed

lemma chunks_take: "0 < n \<Longrightarrow> chunks n (take (j * n) xs) = take j (chunks n xs)"
proof (induction j arbitrary: xs)
  case (Suc j)
  show ?case
  proof (cases "xs = []")
    case False
    then have "take (Suc j * n) xs \<noteq> []" using Suc.prems by simp
    moreover have "drop n (take (Suc j * n) xs) = take (j * n) (drop n xs)" by (simp add: drop_take)
    ultimately show ?thesis using Suc False by (simp add: chunks_step)
  qed simp
qed simp

lemma pieces_fit_take: "pieces_fit n data \<Longrightarrow> pieces_fit n (take k data)"
  using div_le_mono [OF diff_le_mono [of "length (take k data) + n" "length data + n" 1], of n] by (auto simp: pieces_fit_def)

text \<open>A cut at a border of the pieces is the encryption of the shorter file.\<close>

lemma cut_is_encryption:
  assumes "seals cs" "length salt = 16" "length np = 8" "pieces_fit n data"
    and "encrypt_stream cs fe salt np data user_id (int n) = (c, r)"
  shows "encrypt_stream cs fe salt np (take (j * n) data) user_id (int n) = (take (34 + j * (n + 16)) c, Inr ())"
proof -
  note p = pieces [OF assms(4)]
  have c: "c = trenc_object cs (fe_master_key fe) salt np user_id n (chunks n data)"
    using assms(5) encrypt_stream_layout [OF assms(4)] by simp
  show ?thesis
    unfolding c take_object [OF assms(1) p(6,1) assms(2,3)] encrypt_stream_layout [OF pieces_fit_take [OF assms(4)]]
    using chunks_take [of n j data] p(5) by simp
qed

lemma cut_reaches:
  assumes "data = [] \<or> reaches cs fe' master user_id n c"
  shows "take (j * n) data = [] \<or> reaches cs fe' master user_id n (take (34 + j * (n + 16)) c)"
  using assms reaches_take [of j cs fe' master user_id n c] by (cases j) auto

text \<open>C15: an object that lost its end at a border of its pieces, as an interrupted upload or a hostile storage leaves it,
  is exactly the encryption of a beginning of the file: the format does not authenticate its length. The worker's
  decryption, the stream of a download and the agents' reader, with and without a bound, all accept it as the shorter file.\<close>

theorem truncated_object_accepted:
  assumes "seals cs" "length salt = 16" "length np = 8" "pieces_fit n data"
    and "encrypt_stream cs fe salt np data user_id (int n) = (c, r)"
    and "data = [] \<or> reaches cs fe' (fe_master_key fe) user_id n c"
    and "kept = take (34 + j * (n + 16)) c" "short = take (j * n) data"
  shows "encrypt_stream cs fe salt np short user_id (int n) = (kept, Inr ())
    \<and> decrypt_stream cs fe' kept user_id = (short, Inr ())
    \<and> joined (iter_decrypted_object cs fe' (Inr kept) user_id) = Inr short
    \<and> read_plaintext cs (Some fe') (\<lambda>limit. Inr (case limit of None \<Rightarrow> kept | Some l \<Rightarrow> take (nat l) kept)) None user_id = Inr short
    \<and> (n = default_chunk_size \<longrightarrow> (\<forall>m. 0 < m \<and> m \<le> 2 ^ 30 \<longrightarrow>
         read_plaintext cs (Some fe') (\<lambda>limit. Inr (case limit of None \<Rightarrow> kept | Some l \<Rightarrow> take (nat l) kept)) (Some (int m)) user_id
           = Inr (take m short)))"
proof -
  note p = pieces [OF assms(4)]
  have enc: "encrypt_stream cs fe salt np short user_id (int n) = (kept, Inr ())"
    unfolding assms(7,8) by (rule cut_is_encryption [OF assms(1-5)])
  have reach: "short = [] \<or> reaches cs fe' (fe_master_key fe) user_id n kept"
    unfolding assms(7,8) by (rule cut_reaches [OF assms(6)])
  have fit: "pieces_fit n short" unfolding assms(8) by (rule pieces_fit_take [OF assms(4)])
  have c: "c = trenc_object cs (fe_master_key fe) salt np user_id n (chunks n data)"
    using assms(5) encrypt_stream_layout [OF assms(4)] by simp
  note it = decrypt_taken [OF assms(1-4) c assms(6), of j, folded assms(7,8)]
  have magic: "take 5 kept = stream_magic"
    unfolding assms(7) c take_object [OF assms(1) p(6,1) assms(2,3)] trenc_object_def by (simp add: stream_magic_def utf8_def char_bytes_def)
  have download: "joined (iter_decrypted_object cs fe' (Inr kept) user_id) = Inr short"
    using it magic by (simp add: iter_decrypted_object_def joined_def Let_def)
  have whole: "read_plaintext cs (Some fe') (\<lambda>limit. Inr (case limit of None \<Rightarrow> kept | Some l \<Rightarrow> take (nat l) kept)) None user_id = Inr short"
    using download magic unfolding readers_agree by (simp add: read_plaintext_def Let_def)
  have bounded: "read_plaintext cs (Some fe') (\<lambda>limit. Inr (case limit of None \<Rightarrow> kept | Some l \<Rightarrow> take (nat l) kept)) (Some (int m)) user_id
      = Inr (take m short)" if "n = default_chunk_size" "0 < m" "m \<le> 2 ^ 30" for m
    by (rule reader_prefix [OF assms(1-3) fit [unfolded that(1)] enc [unfolded that(1)] reach [unfolded that(1)] that(2,3)])
  from enc it download whole bounded show ?thesis by (simp add: decrypt_stream_def)
qed

text \<open>what the browser encrypts before an upload the worker decrypts to the same bytes, with the same data key.\<close>

theorem browser_file_reads_back:
  assumes "seals cs" "pieces_fit n data" "fencr_encrypt cs data data_key salt np (int n) = Inr blob"
  shows "decrypt_fencr_bytes cs blob data_key = Inr data \<and> is_fencr_file (Some blob) \<and> \<not> is_encrypted_file (Some blob)"
proof -
  note p = pieces [OF assms(2)]
  have len: "length salt = 16" "length np = 8"
    and blob: "blob = fencr_magic @ [fencr_version] @ be32 n @ salt @ np
        @ concat (frames cs (derive_fencr_file_key cs salt data_key) np fencr_aad 0 (chunks n data))"
    using assms(3) p(5) by (auto simp: fencr_encrypt_def fencr_chunks_frames build_header_def salt_len_def nonce_prefix_len_def split: if_splits)
  have size: "from_bytes (be32 n) = n" using p(6) by (simp add: from_be32)
  have loop: "decrypt_chunks cs overflow key np aad n 0 (concat (frames cs key np aad 0 (chunks n data))) = (chunks n data, Inr ())" for overflow key aad
    by (rule decrypt_chunks_frames [OF assms(1) p(6,1)]) (use p(2) in simp)
  have "iter_decrypt_fencr cs blob data_key = (chunks n data, Inr ())"
    unfolding blob using header_fields [of fencr_magic salt np, OF _ len] p(5) size loop by (simp add: iter_decrypt_fencr_def Let_def)
  moreover have "take 5 blob = fencr_magic" by (simp add: blob)
  moreover have "fencr_magic \<noteq> stream_magic" by (simp add: fencr_magic_def stream_magic_def utf8_def char_bytes_def)
  ultimately show ?thesis using p(3) by (simp add: decrypt_fencr_bytes_def joined_def is_fencr_file_def is_encrypted_file_def)
qed

text \<open>a rotation that keeps the old key among the previous ones keeps the files readable and still loses every
  data key wrapped before it: unwrapping tries the current key alone.\<close>

theorem rotation_loses_data_keys:
  assumes "seals cs" "length salt = 16" "length np = 8" "pieces_fit n data"
    and "encrypt_stream cs old salt np data user_id (int n) = (c, r)" "rotated = \<lparr>fe_master_key = new, fe_previous_master_keys = [fe_master_key old]\<rparr>"
    and "cs_open cs (derive_stream_key cs (header_field 10 16 c) user_id new) (header_field 26 8 c @ be32 0) (header_field 34 (n + 16) c)
      (build_aad user_id) = None"
    and "cs_fernet_open cs (derive_user_key cs \<lparr>fe_master_key = new, fe_previous_master_keys = []\<rparr> user_id)
      (encrypt_file cs old entropy data_key user_id) = None"
  shows "decrypt_stream cs rotated c user_id = (data, Inr ())
    \<and> decrypt_file cs rotated (encrypt_file cs old entropy data_key user_id) user_id = Inl (OtherError ''InvalidToken'')"
proof -
  have "reaches cs rotated (fe_master_key old) user_id n c"
    unfolding reaches_def by (rule exI [of _ "[new]"], rule exI [of _ "[]"]) (use assms(6,7) in simp)
  then have "decrypt_stream cs rotated c user_id = (data, Inr ())"
    using encrypted_reads_back(1) [OF assms(1-5), of rotated] pieces(3) [OF assms(4)] by (simp add: decrypt_stream_def)
  moreover have "derive_user_key cs rotated = derive_user_key cs \<lparr>fe_master_key = new, fe_previous_master_keys = []\<rparr>"
    by (rule ext) (simp add: derive_user_key_def assms(6))
  ultimately show ?thesis using assms(8) by (simp add: decrypt_file_def)
qed

section \<open>The hypotheses can hold\<close>

definition toy_suite :: cipher_suite where
  "toy_suite = \<lparr>cs_hkdf = (\<lambda>salt info key. key), cs_seal = (\<lambda>key nonce data aad. data @ replicate 16 (hd key)),
     cs_open = (\<lambda>key nonce ct aad. if 16 \<le> length ct \<and> drop (length ct - 16) ct = replicate 16 (hd key) then Some (take (length ct - 16) ct) else None),
     cs_fernet_seal = (\<lambda>entropy key data. map char_byte key @ data),
     cs_fernet_open = (\<lambda>key ct. if take (length key) ct = map char_byte key then Some (drop (length key) ct) else None)\<rparr>"

definition toy_old :: file_encryption where "toy_old = \<lparr>fe_master_key = [7], fe_previous_master_keys = []\<rparr>"
definition toy_rotated :: file_encryption where "toy_rotated = \<lparr>fe_master_key = [9], fe_previous_master_keys = [[7]]\<rparr>"
definition toy_object :: "byte list list \<Rightarrow> nat \<Rightarrow> byte list" where
  "toy_object cl n = trenc_object toy_suite [7] (replicate 16 0) (replicate 8 0) ''4'' n cl"

lemma toy_seals: "seals toy_suite"
  by (simp add: seals_def toy_suite_def)

lemma toy_fits: "pieces_fit 2 [1, 2, 3]" "pieces_fit default_chunk_size [1, 2, 3]"
  by (simp_all add: pieces_fit_def default_chunk_size_def)

lemma toy_encrypted:
  "encrypt_stream toy_suite toy_old (replicate 16 0) (replicate 8 0) [1, 2, 3] ''4'' (int 2) = (toy_object [[1, 2], [3]] 2, Inr ())"
  "encrypt_stream toy_suite toy_old (replicate 16 0) (replicate 8 0) [1, 2, 3] ''4'' (int default_chunk_size)
    = (toy_object [[1, 2, 3]] default_chunk_size, Inr ())"
  using encrypt_stream_layout [OF toy_fits(1), of toy_suite toy_old "replicate 16 0" "replicate 8 0" "''4''"]
    encrypt_stream_layout [OF toy_fits(2), of toy_suite toy_old "replicate 16 0" "replicate 8 0" "''4''"]
  by (simp_all add: toy_object_def toy_old_def default_chunk_size_def chunks_step)

lemma toy_fields:
  "header_field 10 16 (toy_object cl n) = replicate 16 0" "header_field 26 8 (toy_object cl n) = replicate 8 0"
  "header_field 34 k (toy_object cl n) = take k (concat (frames toy_suite [7] (replicate 8 0) (build_aad ''4'') 0 cl))"
  by (simp_all add: toy_object_def trenc_object_def header_field_def derive_stream_key_def toy_suite_def)

lemma toy_refused:
  "cs_open toy_suite (derive_stream_key toy_suite (header_field 10 16 (toy_object [[1, 2], [3]] 2)) ''4'' [9])
     (header_field 26 8 (toy_object [[1, 2], [3]] 2) @ be32 0) (header_field 34 (2 + 16) (toy_object [[1, 2], [3]] 2)) (build_aad ''4'') = None"
  unfolding toy_fields by (simp add: derive_stream_key_def toy_suite_def numeral_eq_Suc)

lemma toy_reaches: "reaches toy_suite toy_rotated (fe_master_key toy_old) ''4'' 2 (toy_object [[1, 2], [3]] 2)"
  "reaches toy_suite toy_old (fe_master_key toy_old) ''4'' default_chunk_size (toy_object [[1, 2, 3]] default_chunk_size)"
proof -
  show "reaches toy_suite toy_rotated (fe_master_key toy_old) ''4'' 2 (toy_object [[1, 2], [3]] 2)"
    unfolding reaches_def by (rule exI [of _ "[[9]]"], rule exI [of _ "[]"]) (use toy_refused in \<open>simp add: toy_rotated_def toy_old_def\<close>)
  show "reaches toy_suite toy_old (fe_master_key toy_old) ''4'' default_chunk_size (toy_object [[1, 2, 3]] default_chunk_size)"
    unfolding reaches_def by (rule exI [of _ "[]"], rule exI [of _ "[]"]) (simp add: toy_old_def)
qed

theorem encrypted_file_layout_witness:
  "encrypt_stream toy_suite toy_old (replicate 16 0) (replicate 8 0) [1, 2, 3] ''4'' (int 2) =
     (stream_magic @ [stream_version] @ be32 2 @ replicate 16 0 @ replicate 8 0
        @ cs_seal toy_suite [7] (replicate 8 0 @ be32 0) [1, 2] (build_aad ''4'') @ cs_seal toy_suite [7] (replicate 8 0 @ be32 1) [3] (build_aad ''4''), Inr ())"
proof -
  have "chunks 2 [1, 2, 3] = [[1, 2], [3 :: byte]]" by (simp add: chunks_step)
  then show ?thesis
    using encrypted_file_layout [OF toy_fits(1), of toy_suite toy_old "replicate 16 0" "replicate 8 0" "''4''"]
    by (simp add: derive_stream_key_def toy_suite_def toy_old_def numeral_2_eq_2)
qed

theorem encrypted_file_reads_back_witness:
  "decrypt_stream toy_suite toy_rotated (toy_object [[1, 2], [3]] 2) ''4'' = ([1, 2, 3], Inr ()) \<and> length (toy_object [[1, 2], [3]] 2) = 69"
  using encrypted_file_reads_back [OF toy_seals _ _ toy_fits(1) toy_encrypted(1) disjI2 [OF toy_reaches(1)]] by simp

theorem reader_returns_prefix_witness:
  "read_plaintext toy_suite (Some toy_old) (\<lambda>limit. Inr (case limit of None \<Rightarrow> toy_object [[1, 2, 3]] default_chunk_size
     | Some l \<Rightarrow> take (nat l) (toy_object [[1, 2, 3]] default_chunk_size))) (Some (int 2)) ''4'' = Inr (take 2 [1, 2, 3])"
  by (rule reader_returns_prefix [OF toy_seals _ _ toy_fits(2) toy_encrypted(2) disjI2 [OF toy_reaches(2)]]) simp_all

theorem truncated_object_accepted_witness:
  "decrypt_stream toy_suite toy_rotated (take 52 (toy_object [[1, 2], [3]] 2)) ''4'' = ([1, 2], Inr ())
   \<and> joined (iter_decrypted_object toy_suite toy_rotated (Inr (take 52 (toy_object [[1, 2], [3]] 2))) ''4'') = Inr [1, 2]"
  using truncated_object_accepted [OF toy_seals _ _ toy_fits(1) toy_encrypted(1) disjI2 [OF toy_reaches(1)] refl refl, of 1] by simp

theorem browser_file_reads_back_witness:
  "\<exists>blob. fencr_encrypt toy_suite [1, 2, 3] (replicate 32 5) (replicate 16 0) (replicate 8 0) (int 2) = Inr blob
     \<and> decrypt_fencr_bytes toy_suite blob (replicate 32 5) = Inr [1, 2, 3]"
proof -
  obtain blob where blob: "fencr_encrypt toy_suite [1, 2, 3] (replicate 32 5) (replicate 16 0) (replicate 8 0) (int 2) = Inr blob"
    by (simp add: fencr_encrypt_def salt_len_def nonce_prefix_len_def)
  show ?thesis using browser_file_reads_back [OF toy_seals toy_fits(1) blob] blob by blast
qed

theorem rotation_loses_data_keys_witness:
  "decrypt_stream toy_suite toy_rotated (toy_object [[1, 2], [3]] 2) ''4'' = ([1, 2, 3], Inr ())
     \<and> decrypt_file toy_suite toy_rotated (encrypt_file toy_suite toy_old 0 (replicate 32 5) ''4'') ''4'' = Inl (OtherError ''InvalidToken'')"
proof (rule rotation_loses_data_keys [OF toy_seals _ _ toy_fits(1) toy_encrypted(1) _ toy_refused])
  show "cs_fernet_open toy_suite (derive_user_key toy_suite \<lparr>fe_master_key = [9], fe_previous_master_keys = []\<rparr> ''4'')
      (encrypt_file toy_suite toy_old 0 (replicate 32 5) ''4'') = None"
    by (simp add: encrypt_file_def derive_user_key_def toy_suite_def toy_old_def urlsafe_b64encode_def b64_char_def to_urlsafe_def char_byte_def
        char_of_eq_iff take_bit_eq_mod)
qed (simp_all add: toy_rotated_def toy_old_def)

end
