(* ===== verification/Toolbox_Safety.thy ===== *)
theory Toolbox_Safety
  imports Agent_Toolbox Drive_Safety Encryption_Safety
begin

text \<open>
  What confines an agent: without the scope of a tool, or without a usable folder, no call does or reads anything; a file
  outside the folder is answered exactly as a file that does not exist; nothing outside the folder is
  shown or changed; what is uploaded is what was sent; and the pages of a download are the file.
\<close>

section \<open>Authority\<close>

fun needed_scope :: "tool_call \<Rightarrow> agent_scope" where
  "needed_scope (Create_folder n p) = Scope_DOCUMENTS_WRITE"
| "needed_scope (Save_file j f n) = Scope_DOCUMENTS_WRITE"
| "needed_scope (Upload_file n c f) = Scope_DOCUMENTS_WRITE"
| "needed_scope (Convert_file i t) = Scope_DOCUMENTS_CONVERT"
| "needed_scope (Delete_file i) = Scope_DOCUMENTS_DELETE"
| "needed_scope _ = Scope_DOCUMENTS_READ"

fun tool_name :: "tool_call \<Rightarrow> string" where
  "tool_name (Get_supported_conversions f) = ''get_supported_conversions''"
| "tool_name (List_files q e f l x) = ''list_files''"
| "tool_name (List_folders p l x) = ''list_folders''"
| "tool_name (Get_file i) = ''get_file''"
| "tool_name (Get_conversion_status j) = ''get_conversion_status''"
| "tool_name (Get_conversion_history l x) = ''get_conversion_history''"
| "tool_name Get_credits = ''get_credits''"
| "tool_name (Download_file i x n) = ''download_file''"
| "tool_name (Create_folder n p) = ''create_folder''"
| "tool_name (Convert_file i t) = ''convert_file''"
| "tool_name (Save_file j f n) = ''save_file''"
| "tool_name (Upload_file n c f) = ''upload_file''"
| "tool_name (Delete_file i) = ''delete_file''"

abbreviation drive_of :: "tool_state \<Rightarrow> drive_state" where
  "drive_of s \<equiv> tf_drive (ua_transfer (ts_app s))"

lemmas tool_defs = tool_supported_conversions_def tool_list_files_def tool_list_folders_def tool_get_file_def tool_conversion_status_def
  tool_conversion_history_def tool_credits_def tool_download_file_def tool_create_folder_def tool_convert_file_def tool_save_file_def
  tool_upload_file_def tool_delete_file_def

text \<open>Every tool is a body behind the guard.\<close>

lemma run_tool_guarded: "\<exists>body. run_tool env ctx call = authorized ctx (needed_scope call) (tool_name call) body"
  by (cases call) (simp_all only: run_tool.simps needed_scope.simps tool_name.simps tool_defs, blast+)

text \<open>What the binding of the grant allows in a state: \<^term>\<open>None\<close> when it is no authority at all.\<close>

definition reach_of :: "tool_context \<Rightarrow> tool_state \<Rightarrow> string set option option" where
  "reach_of ctx s = (if tc_folder_access ctx = Folder_ALL then Some None
     else if \<not> folder_scope_is_usable (tc_folder_access ctx) (tc_folder_id ctx) then None
     else let f = the (tc_folder_id ctx) in case get_folder_row f (dv_db (drive_of s)) of
         None \<Rightarrow> None
       | Some r \<Rightarrow> if fo_user_id r \<noteq> tc_user_id ctx then None
           else Some (Some (insert f (set (list_subtree_ids f (dv_db (drive_of s)))))))"

lemma resolve_binding_reach:
  "resolve_binding ctx s = (Inr (case reach_of ctx s of None \<Rightarrow> Inl folder_unavailable | Some r \<Rightarrow> Inr r), s)"
proof (cases "tc_folder_access ctx")
  case Folder_ALL
  then show ?thesis by (simp add: resolve_binding_def reach_of_def sreturn_def)
next
  case Folder_FOLDER
  show ?thesis
  proof (cases "folder_scope_is_usable (tc_folder_access ctx) (tc_folder_id ctx)")
    case False
    then show ?thesis using Folder_FOLDER by (simp add: resolve_binding_def reach_of_def sreturn_def)
  next
    case True
    let ?f = "the (tc_folder_id ctx)"
    have run: "on_files (resolve_folder_scope (tc_user_id ctx) ?f) s = (fst (resolve_folder_scope (tc_user_id ctx) ?f (drive_of s)), s)"
      by (simp add: on_app_def on_transfer_def on_drive_def resolve_folder_scope_def read_drive_def)
    show ?thesis
    proof (cases "get_folder_row ?f (dv_db (drive_of s))")
      case None
      then show ?thesis using Folder_FOLDER True run
        by (simp add: resolve_binding_def reach_of_def sbind_def sreturn_def resolve_folder_scope_def read_drive_def Let_def)
    next
      case (Some r)
      then have "fo_id r = ?f" using get_folder_row_mem by blast
      then show ?thesis using Folder_FOLDER True Some run
        by (simp add: resolve_binding_def reach_of_def sbind_def sreturn_def resolve_folder_scope_def read_drive_def Let_def)
    qed
  qed
qed

lemma authorized_reach:
  "authorized ctx scope tool body s =
     (if scope \<notin> set (tc_scopes ctx) then (Inr (missing_scope scope tool), s)
      else case reach_of ctx s of None \<Rightarrow> (Inr folder_unavailable, s) | Some r \<Rightarrow> body r s)"
  by (cases "reach_of ctx s") (simp_all add: authorized_def covers_def sbind_def resolve_binding_reach sreturn_def)

section \<open>A Drive to try the promises on\<close>

definition sample_tool_env :: "cipher_suite \<Rightarrow> tool_env" where
  "sample_tool_env suite = \<lparr>tl_transfer = sample_transfer_env (\<lambda>_. True), tl_conversion = sample_conversion_env (\<lambda>_ t. t) (\<lambda>_. Commit_ok),
     tl_clock = Civil 2026 5 2 0, tl_map = [(''txt'', [''pdf''])], tl_max_list_limit = MAX_LIST_LIMIT, tl_suite = suite, tl_encryption = None,
     tl_enum = (\<lambda>ids. filter (\<lambda>i. i \<in> ids) [''a''])\<rparr>"

definition sample_context :: "agent_scope list \<Rightarrow> tool_context" where
  "sample_context scopes = \<lparr>tc_user_id = 1, tc_scopes = scopes, tc_folder_access = Folder_FOLDER, tc_folder_id = Some ''a'', tc_history_scope = History_AGENT\<rparr>"

definition sample_tool_state :: "file_row list \<Rightarrow> job_row list \<Rightarrow> tool_state" where
  "sample_tool_state files jobs = \<lparr>ts_app = \<lparr>ua_transfer = \<lparr>tf_drive = sample_drive [sample_folder ''a'' None, sample_folder ''b'' None] files
       (\<lambda>_. Some (sample_object ''x'')), tf_cache = Map.empty, tf_multiparts = []\<rparr>, ua_conversion = sample_conversion_state jobs\<rparr>,
     ts_ledger = \<lparr>lg_credits = [], lg_subs = [], lg_txns = []\<rparr>\<rparr>"

definition sample_files :: "file_row list" where
  "sample_files = [sample_file ''k'' (Some ''a''), (sample_file ''z'' (Some ''b''))\<lparr>fl_id := ''h''\<rparr>]"

lemmas sample_tool_defs = sample_tool_env_def sample_context_def sample_tool_state_def sample_files_def

lemma sample_context_fields [simp]: "tc_user_id (sample_context scopes) = 1" "tc_scopes (sample_context scopes) = scopes"
  by (simp_all add: sample_context_def)

lemma sample_tool_drive: "drive_of (sample_tool_state files jobs) = sample_drive [sample_folder ''a'' None, sample_folder ''b'' None] files
    (\<lambda>_. Some (sample_object ''x''))"
  by (simp add: sample_tool_state_def)

lemma sample_reach: "reach_of (sample_context scopes) (sample_tool_state files jobs) = Some (Some {''a''})"
proof -
  have "set (list_subtree_ids ''a'' (dv_db (drive_of (sample_tool_state files jobs)))) \<subseteq> {''a''}"
    by (simp add: sample_tool_drive sample_defs list_subtree_ids_def subtree_walk.simps Let_def children_of_def sql_select_def optional_in_def)
  then show ?thesis
    by (auto simp: reach_of_def sample_context_def sample_tool_drive sample_defs folder_scope_is_usable_def get_folder_row_def sql_select_def sql_first_def Let_def)
qed

text \<open>a call without the scope of its tool, or under a grant for a folder that is unset, gone or another user's, is
  refused and nothing at all changes: no tool reads or writes first, and a missing folder never widens the reach.\<close>

theorem no_authority_no_effect:
  "(needed_scope call \<notin> set (tc_scopes ctx) \<longrightarrow> run_tool env ctx call s = (Inr (missing_scope (needed_scope call) (tool_name call)), s))
   \<and> (needed_scope call \<in> set (tc_scopes ctx) \<and> reach_of ctx s = None \<longrightarrow> run_tool env ctx call s = (Inr folder_unavailable, s))"
proof -
  obtain body where body: "run_tool env ctx call = authorized ctx (needed_scope call) (tool_name call) body" using run_tool_guarded by blast
  show ?thesis unfolding body by (simp add: authorized_reach)
qed

theorem no_authority_no_effect_witness:
  "run_tool (sample_tool_env toy_suite) (sample_context []) (Delete_file ''f'') (sample_tool_state sample_files [])
     = (Inr (missing_scope Scope_DOCUMENTS_DELETE ''delete_file''), sample_tool_state sample_files [])"
  using no_authority_no_effect [of "Delete_file ''f''" "sample_context []" "sample_tool_env toy_suite" "sample_tool_state sample_files []"] by simp

section \<open>Files out of reach\<close>

text \<open>A file the call cannot name: there is none of this identifier, or it is another user's, or it lies outside the reach.\<close>

definition hidden :: "tool_context \<Rightarrow> tool_state \<Rightarrow> string \<Rightarrow> bool" where
  "hidden ctx s i = (\<forall>f \<in> set (dr_files (dv_db (drive_of s))). fl_id f = i \<longrightarrow>
     fl_user_id f \<noteq> tc_user_id ctx \<or> (\<forall>r. reach_of ctx s = Some r \<longrightarrow> \<not> binding_allows r (fl_folder_id f)))"

fun named_file :: "tool_call \<Rightarrow> string option" where
  "named_file (Get_file i) = Some i"
| "named_file (Download_file i x n) = Some i"
| "named_file (Convert_file i t) = Some i"
| "named_file (Delete_file i) = Some i"
| "named_file _ = None"

lemma owned_file_result:
  assumes "unique_key fl_id (dr_files (dv_db (drive_of s)))"
  shows "(owned_file ctx i s = (Inr (Inl file_not_found), s) \<and> (\<forall>f \<in> set (dr_files (dv_db (drive_of s))). fl_id f = i \<longrightarrow> fl_user_id f \<noteq> tc_user_id ctx))
    \<or> (\<exists>f \<in> set (dr_files (dv_db (drive_of s))). fl_id f = i \<and> fl_user_id f = tc_user_id ctx \<and> owned_file ctx i s = (Inr (Inr f), s))"
proof -
  let ?files = "dr_files (dv_db (drive_of s))"
  have row: "get_file_row i (dv_db (drive_of s)) = Inr (sql_first (sql_select (\<lambda>f. fl_id f = i) ?files))"
    unfolding get_file_row_def by (rule scalar_one_unique [OF assms])
  have run: "owned_file ctx i s = (Inr (case sql_first (sql_select (\<lambda>f. fl_id f = i) ?files) of None \<Rightarrow> Inl file_not_found
      | Some f \<Rightarrow> if fl_user_id f \<noteq> tc_user_id ctx then Inl file_not_found else Inr f), s)"
    by (auto simp: owned_file_def try_op_def sbind_def on_app_def on_transfer_def on_drive_def get_file_def read_drive_def row sreturn_def
        file_missing_def rbind_def split: option.splits)
  show ?thesis
  proof (cases "sql_first (sql_select (\<lambda>f. fl_id f = i) ?files)")
    case None
    then have "\<forall>f \<in> set ?files. fl_id f \<noteq> i" by (auto simp: sql_first_def sql_select_def filter_empty_conv split: list.splits)
    then show ?thesis using run None by auto
  next
    case (Some f)
    then have f: "f \<in> set ?files" "fl_id f = i" by (auto dest: sql_first_Some)
    show ?thesis
    proof (cases "fl_user_id f = tc_user_id ctx")
      case True
      then show ?thesis using f run Some by auto
    next
      case False
      have "g = f" if "g \<in> set ?files" "fl_id g = i" for g using unique_key_inj [OF assms that(1) f(1)] that(2) f(2) by simp
      then show ?thesis using False run Some by auto
    qed
  qed
qed

lemma owned_file_found:
  assumes "unique_key fl_id (dr_files (dv_db (drive_of s)))" "f \<in> set (dr_files (dv_db (drive_of s)))" "fl_id f = i" "fl_user_id f = tc_user_id ctx"
  shows "owned_file ctx i s = (Inr (Inr f), s)"
proof -
  from owned_file_result [OF assms(1), of ctx i] assms(2-4)
  obtain g where g: "g \<in> set (dr_files (dv_db (drive_of s)))" "fl_id g = i" "owned_file ctx i s = (Inr (Inr g), s)" by blast
  have "g = f" using unique_key_inj [OF assms(1) g(1) assms(2)] g(2) assms(3) by simp
  then show ?thesis using g(3) by simp
qed

lemma in_scope_hidden:
  assumes "unique_key fl_id (dr_files (dv_db (drive_of s)))" "hidden ctx s i" "reach_of ctx s = Some r"
  shows "owned_file_in_scope ctx i r body s = (Inr file_not_found, s)"
  using owned_file_result [OF assms(1), of ctx i] assms(2,3)
  by (auto simp: owned_file_in_scope_def sbind_def sreturn_def hidden_def)

text \<open>C10: a tool that names a file answers for one outside the folder of the grant, for one of another user and for one that
  does not exist with the same words, and does nothing: the answer tells an agent nothing about files it may not touch.\<close>

theorem hidden_file_indistinguishable:
  assumes "unique_key fl_id (dr_files (dv_db (drive_of s)))" "hidden ctx s i" "named_file call = Some i"
    and "needed_scope call \<in> set (tc_scopes ctx)" "reach_of ctx s \<noteq> None"
  shows "run_tool env ctx call s = (Inr file_not_found, s)"
proof -
  obtain r where r: "reach_of ctx s = Some r" using assms(5) by auto
  show ?thesis
    by (cases call; use assms(3,4) in \<open>simp add: tool_defs authorized_reach r in_scope_hidden [OF assms(1,2) r]\<close>)
qed

theorem hidden_file_indistinguishable_witness:
  "run_tool (sample_tool_env toy_suite) (sample_context [Scope_DOCUMENTS_READ]) (Get_file ''h'') (sample_tool_state sample_files [])
     = (Inr file_not_found, sample_tool_state sample_files [])"
proof (rule hidden_file_indistinguishable)
  show "hidden (sample_context [Scope_DOCUMENTS_READ]) (sample_tool_state sample_files []) ''h''"
    by (simp add: hidden_def sample_reach) (simp add: sample_tool_drive sample_defs sample_files_def binding_allows_def)
  show "unique_key fl_id (dr_files (dv_db (drive_of (sample_tool_state sample_files []))))"
    by (simp add: sample_tool_drive sample_defs sample_files_def unique_key_def)
qed (simp_all add: sample_reach)

section \<open>Nothing outside the folder changes\<close>

text \<open>Between two states of the Drive: rows outside the folders \<open>ids\<close> are untouched, and new ones are the user's and inside.\<close>

definition inside :: "string set \<Rightarrow> string option \<Rightarrow> bool" where
  "inside ids d = (\<exists>f \<in> ids. d = Some f)"

definition confined :: "int \<Rightarrow> string set \<Rightarrow> drive_state \<Rightarrow> drive_state \<Rightarrow> bool" where
  "confined u ids s t =
     ((\<forall>f \<in> set (dr_files (dv_db s)). \<not> (fl_user_id f = u \<and> inside ids (fl_folder_id f)) \<longrightarrow> f \<in> set (dr_files (dv_db t)))
      \<and> (\<forall>f \<in> set (dr_files (dv_db t)) - set (dr_files (dv_db s)). fl_user_id f = u \<and> inside ids (fl_folder_id f))
      \<and> set (dr_folders (dv_db s)) \<subseteq> set (dr_folders (dv_db t))
      \<and> (\<forall>r \<in> set (dr_folders (dv_db t)) - set (dr_folders (dv_db s)). fo_user_id r = u \<and> inside ids (fo_parent_id r)))"

interpretation cf: state_frame "confined u ids" for u ids
proof
  fix s t v
  assume a: "confined u ids s t" "confined u ids t v"
  show "confined u ids s v" unfolding confined_def
  proof (intro conjI ballI impI)
    fix f assume "f \<in> set (dr_files (dv_db s))" "\<not> (fl_user_id f = u \<and> inside ids (fl_folder_id f))"
    then show "f \<in> set (dr_files (dv_db v))" using a unfolding confined_def by blast
  next
    fix f assume "f \<in> set (dr_files (dv_db v)) - set (dr_files (dv_db s))"
    then show "fl_user_id f = u" "inside ids (fl_folder_id f)" using a unfolding confined_def by blast+
  next
    show "set (dr_folders (dv_db s)) \<subseteq> set (dr_folders (dv_db v))" using a unfolding confined_def by blast
  next
    fix r assume "r \<in> set (dr_folders (dv_db v)) - set (dr_folders (dv_db s))"
    then show "fo_user_id r = u" "inside ids (fo_parent_id r)" using a unfolding confined_def by blast+
  qed
qed (simp add: confined_def)

lemma same_confined: "same_tables s t \<Longrightarrow> confined u ids s t"
  by (simp add: same_tables_def confined_def)

lemma confined_conflict: "confined u ids s (snd (m s)) \<Longrightarrow> confined u ids s (snd (on_conflict m s))"
  unfolding on_conflict_def try_op_def by (auto simp: raise_op_def split: prod.splits sum.splits exn.splits)

lemma confined_create_folder:
  assumes "inside ids d"
  shows "confined u ids s (snd (create_folder env u name d s))"
  unfolding create_folder_def
proof (rule cf.sbind_frame, rule same_confined [OF same_target], intro cf.sbind_frame same_confined [OF same_tick] confined_conflict)
  fix i n1 n2 v
  show "confined u ids v (snd (exec_drive (folder_create i n1 n2 u (py_strip name) d) v))"
    using assms by (auto simp: confined_def exec_drive_def folder_create_def Let_def)
qed

lemma confined_save_upload:
  assumes "inside ids (us_folder_id session)"
  shows "confined u ids s (snd (save_upload env u session name sz ct s))"
  unfolding save_upload_def
proof (rule cf.sbind_frame, rule same_confined [OF same_read], intro cf.if_frame same_confined [OF same_reject] cf.sbind_frame
    same_confined [OF same_tick])
  fix i now v
  show "confined u ids v (snd ((let ext = upload_extension session name in exec_drive (save_file i now u (us_object_key session) name sz
      (resolve_mime_type name ext ct) ext (us_folder_id session) None)) v))"
    using assms by (auto simp: confined_def exec_drive_def save_file_def Let_def)
qed

lemma confined_complete_upload:
  assumes "inside ids (us_folder_id session)" "de_rival env = id"
  shows "confined u ids s (snd (complete_upload env u session s))"
  unfolding complete_upload_def Let_def
proof (intro cf.sbind_frame cf.if_frame cf.try_frame same_confined [OF same_remove(2)] same_confined [OF same_remove(3)]
    same_confined [OF same_reject] same_confined [OF same_check] same_confined [OF same_read] cf.sreturn_frame, goal_cases)
  case (1 a s1 b s2 c s3 existing s4)
  show ?case
  proof (cases existing)
    case None
    have "confined u ids s4 (snd (write_drive (de_rival env) s4))" by (simp add: write_drive_def assms(2) confined_def)
    then show ?thesis using None by (simp, intro cf.sbind_frame confined_save_upload assms(1)) (simp_all add: write_drive_def assms(2) confined_def)
  qed (simp add: cf.sreturn_frame)
qed

lemma confined_delete_file:
  assumes "get_file u i s = (Inr f, s)" "inside ids (fl_folder_id f)"
  shows "confined u ids s (snd (delete_file env u i s))"
proof -
  have f: "f \<in> set (dr_files (dv_db s))" "fl_id f = i" "fl_user_id f = u" using get_file_result [OF assms(1)] by simp_all
  have one: "g = f" if "g \<in> set (dr_files (dv_db s))" "fl_id g = i" for g
  proof -
    have "filter (\<lambda>g. fl_id g = i) (dr_files (dv_db s)) = [f]"
      using assms(1) by (auto simp: get_file_def read_drive_def rbind_Inr_iff get_file_row_def scalar_one_or_none_def sql_select_def
          split: option.splits if_splits list.splits)
    moreover have "g \<in> set (filter (\<lambda>g. fl_id g = i) (dr_files (dv_db s)))" using that by simp
    ultimately show ?thesis by simp
  qed
  obtain r t where t: "remove_object env (fl_file_key f) s = (r, t)" by fastforce
  then have same: "dv_db t = dv_db s" using same_remove(1) [of s env "fl_file_key f"] by (simp add: same_tables_def)
  have del: "delete_file env u i s = (case r of Inl e \<Rightarrow> (Inl e, t) | Inr _ \<Rightarrow> write_drive (\<lambda>db. snd (file_delete (fl_id f) db)) t)"
    using assms(1) t by (simp add: delete_file_def sbind_def split: sum.splits)
  show ?thesis
  proof (cases r)
    case (Inr x)
    let ?v = "snd (delete_file env u i s)"
    have files: "dr_files (dv_db ?v) = filter (\<lambda>g. fl_id g \<noteq> i) (dr_files (dv_db s))" and folders: "dr_folders (dv_db ?v) = dr_folders (dv_db s)"
      using Inr f(2) same by (simp_all add: del write_drive_def file_delete_def sql_delete_def)
    show ?thesis unfolding confined_def files folders
    proof (intro conjI ballI impI)
      fix g assume g: "g \<in> set (dr_files (dv_db s))" "\<not> (fl_user_id g = u \<and> inside ids (fl_folder_id g))"
      then have "fl_id g \<noteq> i" using one [OF g(1)] f(3) assms(2) by blast
      then show "g \<in> set (filter (\<lambda>g. fl_id g \<noteq> i) (dr_files (dv_db s)))" using g(1) by simp
    qed auto
  qed (simp add: del same same_confined same_tables_def)
qed

subsection \<open>Upload sessions\<close>

definition same_db :: "transfer_state \<Rightarrow> transfer_state \<Rightarrow> bool" where
  "same_db s t = (dv_db (tf_drive t) = dv_db (tf_drive s))"

interpretation sd: state_frame same_db
  by unfold_locales (auto simp: same_db_def)

lemma same_db_drive: "(\<And>d. same_tables d (snd (m d))) \<Longrightarrow> same_db s (snd (on_drive m s))"
  by (simp add: same_db_def on_drive_def same_tables_def split_beta)

lemma same_db_cache: "same_db s (snd (cache_set env k x n s))" "same_db s (snd (cache_get env k s))" "same_db s (snd (cache_delete env k s))"
  "same_db s (snd (create_multipart_upload env k s))" "same_db s (snd (abort_multipart_upload env k i s))"
  "same_db s (snd (complete_multipart_upload env k i parts s))" "same_db s (snd (object_exists env k s))"
  by (simp_all add: same_db_def cache_set_def cache_get_def cache_delete_def create_multipart_upload_def abort_multipart_upload_def
      complete_multipart_upload_def object_exists_def on_drive_def storage_call_def tf_tick_def Let_def split: option.split)

lemma same_db_create: "same_db s (snd (create_upload env ext u name folder sz cap s))"
  unfolding create_upload_def generate_object_key_def open_transfer_def Let_def
  by (auto intro!: sd.sbind_frame same_db_drive same_tick same_db_cache sd.sreturn_frame split: option.split)

lemma same_db_verify: "same_db s (snd (verify_upload_completion env i parts s))"
  unfolding verify_upload_completion_def get_upload_session_def finish_multipart_def Let_def
  by (auto intro!: sd.sbind_frame same_db_cache sd.sreturn_frame sd.raise_frame split: option.split)

lemma same_db_delete: "same_db s (snd (delete_upload_session env i s))"
  unfolding delete_upload_session_def
  by (auto intro!: sd.sbind_frame sd.try_frame same_db_cache sd.sreturn_frame split: option.split)

text \<open>A session opened without a size is cached for its folder, and its verification returns it.\<close>

lemma created_session:
  assumes "create_upload env ext u name folder None cap s = (Inr r, t)"
  shows "\<exists>session e. tf_cache t (ur_upload_id r) = Some (session, e) \<and> us_object_key session = ur_object_key r \<and> us_folder_id session = folder
    \<and> us_multipart_upload_id session = None"
proof -
  from assms obtain i key nm s3 where
    c: "sbind (cache_set env i (new_session i key nm ext folder u None) (session_ttl env (new_session i key nm ext folder u None)))
      (\<lambda>_. sreturn (Inr \<lparr>ur_upload_id = i, ur_object_key = key, ur_upload_url = Some (te_put_url env key),
       ur_expires_in_minutes = session_ttl env (new_session i key nm ext folder u None), ur_upload_mode = Mode_single,
       ur_part_size_bytes = us_part_size_bytes (new_session i key nm ext folder u None),
       ur_part_count = us_part_count (new_session i key nm ext folder u None), ur_max_file_size_bytes = cap\<rparr>)) s3 = (Inr r, t)"
    unfolding create_upload_def
    by (elim sbind_cases) (auto simp: open_transfer_def sreturn_def sbind_def split: prod.splits sum.splits)
  then show ?thesis
    by (elim sbind_cases) (auto simp: cache_set_def sreturn_def tf_tick_def Let_def split: if_splits)
qed

lemma verified_session:
  assumes "verify_upload_completion env i None s = (Inr session, t)" "tf_cache s i = Some (old, e)" "us_multipart_upload_id old = None"
  shows "session = old\<lparr>us_status := ''completed''\<rparr>" "dv_objects (tf_drive t) = dv_objects (tf_drive s)" "dv_db (tf_drive t) = dv_db (tf_drive s)"
  using assms
  by (auto simp: verify_upload_completion_def get_upload_session_def cache_get_def sbind_def sreturn_def raise_op_def finish_multipart_def
      object_exists_def on_drive_def storage_call_def cache_set_def tf_tick_def Let_def split: if_splits)

subsection \<open>The tools\<close>

definition tool_confined :: "int \<Rightarrow> string set \<Rightarrow> tool_state \<Rightarrow> tool_state \<Rightarrow> bool" where
  "tool_confined u ids s t = confined u ids (drive_of s) (drive_of t)"

interpretation tf: state_frame "tool_confined u ids" for u ids
proof
  show "tool_confined u ids s t \<Longrightarrow> tool_confined u ids t v \<Longrightarrow> tool_confined u ids s v" for s t v
    unfolding tool_confined_def by (rule cf.trans)
qed (simp add: tool_confined_def cf.refl)

lemma tf_files: "confined u ids (drive_of s) (snd (m (drive_of s))) \<Longrightarrow> tool_confined u ids s (snd (on_files m s))"
  by (simp add: tool_confined_def on_app_def on_transfer_def on_drive_def split_beta)

lemma tf_same: "(\<And>d. same_tables d (snd (m d))) \<Longrightarrow> tool_confined u ids s (snd (on_files m s))"
  by (intro tf_files same_confined)

lemma tf_transfers: "(\<And>d. same_db d (snd (m d))) \<Longrightarrow> tool_confined u ids s (snd (on_transfers m s))"
  by (simp add: tool_confined_def on_app_def on_transfer_def split_beta same_db_def confined_def)

lemma tf_jobs: "tool_confined u ids s (snd (on_jobs m s))"
  by (simp add: tool_confined_def on_app_def on_conversion_def split_beta cf.refl)

lemma tf_owned: "tool_confined u ids s (snd (owned_file ctx i s))"
  unfolding owned_file_def
  by (intro tf.try_frame tf.sbind_frame tf_same same_get tf.sreturn_frame)
    (auto intro: tf.sreturn_frame tf.raise_frame split: exn.split app_error.split)

lemma tf_in_scope:
  assumes "\<And>f s. owned_file ctx i s = (Inr (Inr f), s) \<Longrightarrow> binding_allows r (fl_folder_id f) \<Longrightarrow> tool_confined u ids s (snd (body f s))"
  shows "tool_confined u ids s (snd (owned_file_in_scope ctx i r body s))"
  unfolding owned_file_in_scope_def
proof (rule tf.sbind_frame_dep [OF tf_owned], goal_cases)
  case (1 a t)
  have "t = s" using 1 get_file_result(1) [of "tc_user_id ctx" i "drive_of s"]
    by (auto simp: owned_file_def try_op_def sbind_def on_app_def on_transfer_def on_drive_def sreturn_def raise_op_def get_file_def read_drive_def
        split: prod.splits sum.splits exn.splits app_error.splits)
  then show ?case using 1 assms by (cases a) (auto intro: tf.sreturn_frame)
qed

lemma same_put: "same_tables d (snd (put_object env k data d))" "same_tables d (snd (copy_object env k k' d))"
  "same_tables d (snd (fetch_object env k n d))"
  unfolding put_object_def copy_object_def fetch_object_def
  by (auto intro!: st.sbind_frame st.sreturn_frame same_storage st.raise_frame split: option.split)

lemma tf_finish:
  assumes "de_rival (te_drive (tl_transfer env)) = id" "\<And>d. same_tables d (snd (store d))"
    and "tf_cache (ua_transfer (ts_app s)) (ur_upload_id session) = Some (old, e)" "us_multipart_upload_id old = None" "inside ids (us_folder_id old)"
  shows "tool_confined (tc_user_id ctx) ids s (snd (finish_upload env ctx verb session store s))"
proof -
  have complete: "tool_confined (tc_user_id ctx) ids v (snd (on_files (complete_upload (te_drive (tl_transfer env)) (tc_user_id ctx) upload) v))"
    if "inside ids (us_folder_id upload)" for upload v by (intro tf_files confined_complete_upload that assms(1))
  have chain: "tool_confined (tc_user_id ctx) ids s (snd (sbind (on_files store) (\<lambda>_.
        sbind (on_transfers (verify_upload_completion (tl_transfer env) (ur_upload_id session) None)) (\<lambda>upload.
        sbind (on_files (complete_upload (te_drive (tl_transfer env)) (tc_user_id ctx) upload)) (\<lambda>file_id. sreturn (Inr (Inr file_id))))) s))"
  proof (rule tf.sbind_frame_dep [OF tf_same [OF assms(2)]], rule tf.sbind_frame_dep [OF tf_transfers [OF same_db_verify]], rule tf.sbind_frame,
      goal_cases)
    case (1 x t upload t1 v)
    have "tf_cache (ua_transfer (ts_app t)) = tf_cache (ua_transfer (ts_app s))"
      using 1(1) by (auto simp: on_app_def on_transfer_def on_drive_def split: prod.splits)
    then have "us_folder_id upload = us_folder_id old"
      using verified_session(1) [of "tl_transfer env" "ur_upload_id session" "ua_transfer (ts_app t)" upload _ old e] 1(2) assms(3,4)
      by (auto simp: on_app_def on_transfer_def split: prod.splits)
    then show ?case using complete assms(5) by simp
  qed (rule tf.sreturn_frame)
  show ?thesis
    unfolding finish_upload_def
  proof (rule tf.sbind_frame_dep, rule tf.try_frame_at, rule chain, goal_cases)
    case (1 e t)
    show ?case by (intro tf.sbind_frame tf_transfers same_db_delete tf.sreturn_frame)
  next
    case (2 a t)
    show ?case by (cases a) (auto intro!: tf.sbind_frame tf_owned tf.sreturn_frame)
  qed
qed

lemma reach_root:
  assumes "reach_of ctx s = Some (Some ids)"
  shows "inside ids (tc_folder_id ctx)"
  using assms by (cases "tc_folder_id ctx")
    (auto simp: reach_of_def folder_scope_is_usable_def inside_def Let_def split: if_splits option.splits)

lemma allowed_inside: "binding_allows (Some ids) d = inside ids d"
  by (cases d) (auto simp: binding_allows_def inside_def)

lemma destination_inside:
  "reach_of ctx s = Some (Some ids) \<Longrightarrow> destination_of ctx (Some ids) folder_id = Some d \<Longrightarrow> inside ids d"
  using reach_root [of ctx s ids] allowed_inside [of ids folder_id] by (auto simp: destination_of_def split: if_splits)

lemma tf_opened:
  assumes "de_rival (te_drive (tl_transfer env)) = id" "inside ids d" "\<And>session v. same_tables v (snd (store session v))"
    and "on_transfers (create_upload (tl_transfer env) ext u name d None cap) s = (Inr session, t)"
  shows "tool_confined (tc_user_id ctx) ids t (snd (finish_upload env ctx verb session (store session) t))"
proof -
  obtain old e where old: "tf_cache (ua_transfer (ts_app t)) (ur_upload_id session) = Some (old, e)" "us_folder_id old = d"
    "us_multipart_upload_id old = None"
    using created_session [of "tl_transfer env" ext u name d cap "ua_transfer (ts_app s)" session "ua_transfer (ts_app t)"] assms(4)
    by (auto simp: on_app_def on_transfer_def split: prod.splits)
  show ?thesis by (rule tf_finish [OF assms(1,3) old(1,3)]) (use assms(2) old(2) in simp)
qed

lemma confined_save_file:
  assumes "de_rival (te_drive (tl_transfer env)) = id" "reach_of ctx s = Some (Some ids)"
  shows "tool_confined (tc_user_id ctx) ids s (snd (tool_save_file env ctx jid folder_id name s))"
proof (cases "Scope_DOCUMENTS_WRITE \<in> set (tc_scopes ctx)")
  case True
  show ?thesis
  proof (cases "destination_of ctx (Some ids) folder_id")
    case (Some d)
    have upload: "tool_confined (tc_user_id ctx) ids v (snd (sbind (on_transfers (create_upload (tl_transfer env) ext u nm d None None))
        (\<lambda>session. finish_upload env ctx verb session (sbind (copy_object env out (ur_object_key session)) (\<lambda>_. sreturn (Inr ())))) v))"
      for ext u nm verb out v
    proof (rule tf.sbind_frame_dep [OF tf_transfers [OF same_db_create]], goal_cases)
      case (1 session t)
      show ?case
        by (rule tf_opened [OF assms(1) destination_inside [OF assms(2) Some] _ 1]) (intro st.sbind_frame same_put st.sreturn_frame)
    qed
    show ?thesis
      using True Some unfolding tool_save_file_def authorized_reach assms(2) Let_def
      by (simp, intro tf.sbind_frame tf_jobs tf.if_frame tf.sreturn_frame upload)
  qed (use True in \<open>simp add: tool_save_file_def authorized_reach assms(2) sreturn_def tf.refl\<close>)
qed (simp add: tool_save_file_def authorized_reach tf.refl)

lemma confined_upload_file:
  assumes "de_rival (te_drive (tl_transfer env)) = id" "reach_of ctx s = Some (Some ids)"
  shows "tool_confined (tc_user_id ctx) ids s (snd (tool_upload_file env ctx name content folder_id s))"
proof (cases "Scope_DOCUMENTS_WRITE \<in> set (tc_scopes ctx)")
  case True
  show ?thesis
  proof (cases "destination_of ctx (Some ids) folder_id")
    case (Some d)
    have size: "same_tables v (snd (authorize_upload_size denv u n v))" for denv u n v
      unfolding authorize_upload_size_def Let_def by (auto intro!: st.sbind_frame same_ops split: option.split)
    have upload: "tool_confined (tc_user_id ctx) ids v (snd (sbind (try_op (sbind (on_transfers (create_upload (tl_transfer env) ext u nm d None None))
        (\<lambda>session. sreturn (Inr (Inr session)))) h) (\<lambda>opened. case opened of Inl m \<Rightarrow> answer (refused m)
        | Inr session \<Rightarrow> finish_upload env ctx verb session (put_object env (ur_object_key session) data)) v))"
      if h: "\<And>e s. snd (h e s) = s" "\<And>e s x. fst (h e s) \<noteq> Inr (Inr x)" for ext u nm verb data v h and refused :: "string \<Rightarrow> tool_reply"
    proof (rule tf.sbind_frame_dep, goal_cases)
      case 1
      show ?case by (intro tf.try_frame tf.sbind_frame tf_transfers same_db_create tf.sreturn_frame) (simp add: h tf.refl)
    next
      case (2 opened t)
      show ?case
      proof (cases opened)
        case (Inr session)
        then have "on_transfers (create_upload (tl_transfer env) ext u nm d None None) v = (Inr session, t)"
          using 2 h(2) by (auto simp: try_op_def sbind_def sreturn_def split: prod.splits sum.splits) (metis fst_conv)+
        from tf_opened [OF assms(1) destination_inside [OF assms(2) Some] _ this, of "\<lambda>session. put_object env (ur_object_key session) data"]
        show ?thesis using Inr by (simp add: same_put)
      qed (simp add: tf.sreturn_frame)
    qed
    have handler: "snd ((case e of ValueError m \<Rightarrow> sreturn (Inr (Inl m)) | AppError UnsafeObjectKeyError m \<Rightarrow> sreturn (Inr (Inl m))
          | _ \<Rightarrow> if is_file_system_error e then sreturn (Inr (Inl (exn_message e))) else raise_op e) v) = v"
      "fst ((case e of ValueError m \<Rightarrow> sreturn (Inr (Inl m)) | AppError UnsafeObjectKeyError m \<Rightarrow> sreturn (Inr (Inl m))
          | _ \<Rightarrow> if is_file_system_error e then sreturn (Inr (Inl (exn_message e))) else raise_op e) v) \<noteq> (Inr (Inr x) :: (string + upload_response) result)"
      for e and v :: tool_state and x
      by (cases e; simp add: sreturn_def raise_op_def split: app_error.split)+
    show ?thesis
    proof (cases "b64decode True content")
      case (Inr data)
      show ?thesis
        using True Some Inr unfolding tool_upload_file_def authorized_reach assms(2) Let_def
        by (simp, intro impI conjI tf.sbind_frame tf.try_frame tf_same size tf.sreturn_frame)
          (auto intro!: tf.sreturn_frame tf.raise_frame upload handler split: option.split)
    qed (use True Some in \<open>simp add: tool_upload_file_def authorized_reach assms(2) sreturn_def tf.refl\<close>)
  qed (use True in \<open>simp add: tool_upload_file_def authorized_reach assms(2) sreturn_def tf.refl\<close>)
qed (simp add: tool_upload_file_def authorized_reach tf.refl)

lemma confined_create_folder_tool:
  assumes "reach_of ctx s = Some (Some ids)"
  shows "tool_confined (tc_user_id ctx) ids s (snd (tool_create_folder env ctx name parent_id s))"
proof -
  have target: "inside ids (if parent_id = None then tc_folder_id ctx else parent_id)" if "parent_id \<noteq> None \<longrightarrow> binding_allows (Some ids) parent_id"
    using that reach_root [OF assms] allowed_inside [of ids parent_id] by auto
  have make: "tool_confined (tc_user_id ctx) ids v (snd (try_op (sbind (on_files (create_folder denv (tc_user_id ctx) cleaned d))
      (\<lambda>created. answer (Reply_folder (folder_payload_of created)))) h v))"
    if "inside ids d" "\<And>e v. snd (h e v) = v" for denv cleaned d h v
    by (intro tf.try_frame tf.sbind_frame tf_files confined_create_folder that tf.sreturn_frame) (simp add: that(2) tf.refl)
  show ?thesis
    unfolding tool_create_folder_def authorized_reach assms Let_def
    by (simp, intro impI conjI tf.sreturn_frame make, use target in auto)
      (auto simp: sreturn_def raise_op_def tf.refl split: exn.split app_error.split)
qed

lemma confined_convert_tool:
  assumes "reach_of ctx s = Some (Some ids)"
  shows "tool_confined (tc_user_id ctx) ids s (snd (tool_convert_file env ctx i target s))"
proof (cases "Scope_DOCUMENTS_CONVERT \<in> set (tc_scopes ctx)")
  case True
  then show ?thesis
    unfolding tool_convert_file_def authorized_reach assms Let_def
    by (simp, intro tf_in_scope tf.if_frame tf.sbind_frame tf_jobs tf.sreturn_frame)
qed (simp add: tool_convert_file_def authorized_reach tf.refl)

lemma confined_delete_tool:
  assumes "reach_of ctx s = Some (Some ids)"
  shows "tool_confined (tc_user_id ctx) ids s (snd (tool_delete_file env ctx i s))"
proof (cases "Scope_DOCUMENTS_DELETE \<in> set (tc_scopes ctx)")
  case True
  have "tool_confined (tc_user_id ctx) ids v (snd (sbind (on_files (delete_file denv (tc_user_id ctx) i)) (\<lambda>_. answer r) v))"
    if "owned_file ctx i v = (Inr (Inr f), v)" "binding_allows (Some ids) (fl_folder_id f)" for f v denv r
  proof (rule tf.sbind_frame_dep, rule tf_files, rule confined_delete_file)
    show "get_file (tc_user_id ctx) i (drive_of v) = (Inr f, drive_of v)"
      using that(1) by (auto simp: owned_file_def try_op_def sbind_def on_app_def on_transfer_def on_drive_def sreturn_def raise_op_def get_file_def
          read_drive_def split: prod.splits sum.splits exn.splits app_error.splits)
    show "inside ids (fl_folder_id f)" using that(2) allowed_inside by blast
  qed (rule tf.sreturn_frame)
  then show ?thesis
    using True unfolding tool_delete_file_def authorized_reach assms by (simp, intro tf_in_scope) auto
qed (simp add: tool_delete_file_def authorized_reach tf.refl)

lemma tf_read: "tool_confined u ids s (snd (read_contents env k n w s))"
proof -
  have "tool_confined u ids s (snd (on_files (fetch_object env k (Some (n + ciphertext_slack + ciphertext_chunk_slack))) s))"
    by (intro tf_same same_put)
  then show ?thesis by (simp add: read_contents_def split_beta)
qed

lemma confined_reading_tool:
  assumes "reach_of ctx s = Some (Some ids)" "needed_scope call = Scope_DOCUMENTS_READ"
  shows "tool_confined (tc_user_id ctx) ids s (snd (run_tool env ctx call s))"
proof (cases "Scope_DOCUMENTS_READ \<in> set (tc_scopes ctx)")
  case True
  have page: "same_tables d (snd (get_folder_contents denv u p a b d))" "same_tables d (snd (list_files denv u f opts d))"
    "same_tables d (snd (search_files denv u q opts ids d))" for d denv u p a b f opts q ids
    by (auto simp: get_folder_contents_def list_files_def search_files_def intro!: st.sbind_frame same_ops)
  have balance: "tool_confined (tc_user_id ctx) ids v (snd (sbind (\<lambda>s. (g s, s)) k v))"
    if "\<And>a w. tool_confined (tc_user_id ctx) ids w (snd (k a w))" for g v and k :: "credit_balance \<Rightarrow> tool_reply tool_op"
    by (intro tf.sbind_frame) (simp_all add: that tf.refl)
  note frames = tf.sbind_frame tf.try_frame tf_same tf_jobs tf.sreturn_frame tf.raise_frame tf_read page tf_in_scope same_read balance
  show ?thesis
    using assms(2)
    by (cases call; simp only: run_tool.simps tool_defs authorized_reach assms(1) True simp_thms if_True if_False option.case Let_def
        needed_scope.simps agent_scope.distinct)
      (auto simp: list_all_files_def list_root_folders_def intro!: frames split: option.split exn.split app_error.split list.split)
qed (use no_authority_no_effect [of call ctx env s] assms(2) in \<open>simp add: tf.refl\<close>)

text \<open>C9: an agent confined to a folder changes nothing outside the folder and its subfolders, whatever it calls: every file and
  folder elsewhere stays as it is, only files inside can go, and every new file or folder is the
  user's and inside; the reach is computed anew for the call.\<close>

theorem confined_agent_stays_inside:
  assumes "reach_of ctx s = Some (Some ids)" "de_rival (te_drive (tl_transfer env)) = id" "run_tool env ctx call s = (r, t)"
  shows "(\<forall>f \<in> set (dr_files (dv_db (drive_of s))). \<not> (fl_user_id f = tc_user_id ctx \<and> inside ids (fl_folder_id f)) \<longrightarrow> f \<in> set (dr_files (dv_db (drive_of t))))
    \<and> (\<forall>f \<in> set (dr_files (dv_db (drive_of t))) - set (dr_files (dv_db (drive_of s))). fl_user_id f = tc_user_id ctx \<and> inside ids (fl_folder_id f))
    \<and> set (dr_folders (dv_db (drive_of s))) \<subseteq> set (dr_folders (dv_db (drive_of t)))
    \<and> (\<forall>d \<in> set (dr_folders (dv_db (drive_of t))) - set (dr_folders (dv_db (drive_of s))). fo_user_id d = tc_user_id ctx \<and> inside ids (fo_parent_id d))"
proof -
  have "tool_confined (tc_user_id ctx) ids s (snd (run_tool env ctx call s))"
  proof (cases "needed_scope call = Scope_DOCUMENTS_READ")
    case False
    then show ?thesis
      by (cases call) (simp_all add: confined_create_folder_tool [OF assms(1)] confined_convert_tool [OF assms(1)] confined_delete_tool [OF assms(1)]
          confined_save_file [OF assms(2,1)] confined_upload_file [OF assms(2,1)])
  qed (rule confined_reading_tool [OF assms(1)])
  then show ?thesis unfolding assms(3) tool_confined_def confined_def snd_conv .
qed

lemma sample_tool_drive_env: "te_drive (tl_transfer (sample_tool_env suite)) = sample_drive_env 100 id"
  by (simp add: sample_tool_env_def sample_transfer_env_def sample_drive_env_def)

theorem confined_agent_stays_inside_witness:
  "\<exists>r t. run_tool (sample_tool_env toy_suite) (sample_context [Scope_DOCUMENTS_DELETE]) (Delete_file ''f'') (sample_tool_state sample_files []) = (r, t)
     \<and> (sample_file ''z'' (Some ''b''))\<lparr>fl_id := ''h''\<rparr> \<in> set (dr_files (dv_db (drive_of t)))"
proof -
  let ?s = "sample_tool_state sample_files []" and ?ctx = "sample_context [Scope_DOCUMENTS_DELETE]"
  let ?h = "(sample_file ''z'' (Some ''b''))\<lparr>fl_id := ''h''\<rparr>"
  obtain r t where run: "run_tool (sample_tool_env toy_suite) ?ctx (Delete_file ''f'') ?s = (r, t)" by fastforce
  have h: "?h \<in> set (dr_files (dv_db (drive_of ?s)))" "\<not> inside {''a''} (fl_folder_id ?h)"
    by (simp_all add: sample_tool_drive sample_defs sample_files_def inside_def)
  have quiet: "de_rival (te_drive (tl_transfer (sample_tool_env toy_suite))) = id" by (simp add: sample_tool_drive_env) (simp add: sample_drive_env_def)
  from confined_agent_stays_inside [OF sample_reach quiet run] h have "?h \<in> set (dr_files (dv_db (drive_of t)))" by blast
  then show ?thesis using run by blast
qed

subsection \<open>Nothing outside is shown\<close>

fun shows_only :: "string set \<Rightarrow> tool_reply \<Rightarrow> bool" where
  "shows_only ids (Reply_files fs n ex hint) = (\<forall>f \<in> set fs. inside ids (fp_folder_id f))"
| "shows_only ids (Reply_file f) = inside ids (fp_folder_id f)"
| "shows_only ids (Reply_folders ds n p) = ((\<forall>d \<in> set ds. op_folder_id d \<in> ids) \<and> n = int (length ds))"
| "shows_only ids _ = True"

lemma set_listed: "set (fst (listed coll opts base)) \<subseteq> set base"
  by (auto simp: listed_def page_def order_clause_def order_asc_def order_desc_def Let_def dest!: in_set_takeD in_set_dropD)

lemma set_with_extension: "set (with_extension es rows) \<subseteq> set rows"
  by (auto simp: with_extension_def split: option.splits if_splits)

lemma listed_in_folder:
  "f \<in> set (fst (list_by_user coll u d opts db)) \<Longrightarrow> fl_folder_id f = d"
  "set folders \<subseteq> ids \<Longrightarrow> f \<in> set (fst (search_by_name coll u q opts (Some folders) db)) \<Longrightarrow> inside ids (fl_folder_id f)"
  using set_listed [of coll opts] set_with_extension
  by (force simp: list_by_user_def search_by_name_def sql_select_def optional_in_def inside_def Let_def split: option.splits)+

lemma owned_in_scope_cases:
  assumes "owned_file_in_scope ctx i r body s = (Inr reply, t)"
  shows "(\<exists>m. reply = Refused m No_detail) \<or> (\<exists>f. owned_file ctx i s = (Inr (Inr f), s) \<and> binding_allows r (fl_folder_id f) \<and> body f s = (Inr reply, t))"
proof -
  have state: "v = s" if "owned_file ctx i s = (x, v)" for x v
    using that get_file_result(1) [of "tc_user_id ctx" i "drive_of s"]
    by (auto simp: owned_file_def try_op_def sbind_def on_app_def on_transfer_def on_drive_def sreturn_def raise_op_def get_file_def read_drive_def
        split: prod.splits sum.splits exn.splits app_error.splits)
  have denied: "\<exists>m. reply = Refused m No_detail" if "owned_file ctx i s = (Inr (Inl reply), v)" for v
    using that by (auto simp: owned_file_def try_op_def sbind_def sreturn_def raise_op_def file_not_found_def
        split: prod.splits sum.splits exn.splits app_error.splits)
  from assms show ?thesis unfolding owned_file_in_scope_def
  proof (cases rule: sbind_cases)
    case (finished x v)
    show ?thesis
    proof (cases x)
      case (Inl m)
      then show ?thesis using finished denied by (simp add: sreturn_def)
    next
      case (Inr f)
      then show ?thesis using finished state [OF finished(1)]
        by (cases "binding_allows r (fl_folder_id f)") (auto simp: sreturn_def file_not_found_def)
    qed
  qed simp
qed

lemma shows_list_files:
  assumes "reach_of ctx s = Some (Some ids)" "set (tl_enum env ids) = ids" "tool_list_files env ctx q e folder l x s = (Inr reply, t)"
  shows "shows_only ids reply"
proof (cases "Scope_DOCUMENTS_READ \<in> set (tc_scopes ctx)")
  case True
  have root: "inside ids (tc_folder_id ctx)" by (rule reach_root [OF assms(1)])
  have shown: "shows_only ids (Reply_files (map file_payload_of rows) n ex hint)" if "\<forall>f \<in> set rows. inside ids (fl_folder_id f)" for rows n ex hint
    using that by (simp add: file_payload_of_def)
  have folder_page: "\<forall>f \<in> set rows. inside ids (fl_folder_id f)"
    if d: "inside ids d" and l: "list_files denv u d opts v = (Inr (rows, n), w)" for d denv u opts v rows n w
  proof -
    obtain db where db: "list_by_user (de_coll denv) u d opts db = (rows, n)"
      using l by (auto simp: list_files_def read_drive_def elim!: sbind_cases)
    show ?thesis using listed_in_folder(1) [of _ "de_coll denv" u d opts db] d unfolding db by auto
  qed
  have search_page: "\<forall>f \<in> set rows. inside ids (fl_folder_id f)"
    if l: "search_files denv u query opts (Some (tl_enum env ids)) v = (Inr (rows, n), w)" for denv u query opts v rows n w
  proof (cases "py_strip query = []")
    case False
    then have db: "search_by_name (de_coll denv) u query opts (Some (tl_enum env ids)) (dv_db v) = (rows, n)"
      using l by (auto simp: search_files_def read_drive_def)
    show ?thesis using listed_in_folder(2) [of "tl_enum env ids" ids _ "de_coll denv" u query opts "dv_db v"] assms(2) unfolding db by auto
  qed (use l in \<open>simp add: search_files_def sreturn_def\<close>)
  have in_folder: "shows_only ids reply"
    if d: "inside ids d" and m: "shows_only ids missing" and h: "\<And>e v x w. h e v \<noteq> (Inr (Some x), w)"
      and run: "sbind (try_op (sbind (on_files (list_files denv u d opts)) (\<lambda>page. sreturn (Inr (Some page)))) h) (\<lambda>page. case page of
          None \<Rightarrow> answer missing | Some p \<Rightarrow> (case p of (rows, n) \<Rightarrow> answer (Reply_files (map file_payload_of rows) n ex (hint rows)))) v = (Inr reply, w)"
    for d missing h denv u opts v w ex hint
    using run
  proof (cases rule: sbind_cases)
    case (finished page v1)
    show ?thesis
    proof (cases page)
      case (Some p)
      then obtain rows n where p: "page = Some (rows, n)" by (cases p) simp
      then obtain v2 where got: "list_files denv u d opts (drive_of v) = (Inr (rows, n), v2)"
        using finished(1) h by (auto simp: try_op_def sbind_def sreturn_def on_app_def on_transfer_def on_drive_def split: prod.splits sum.splits)
      show ?thesis using shown [OF folder_page [OF d got], of n ex "hint rows"] finished(2) p by (auto simp: sreturn_def)
    qed (use finished(2) m in \<open>simp add: sreturn_def\<close>)
  qed simp
  show ?thesis
  proof (cases "q \<noteq> None \<and> q \<noteq> Some []")
    case query: True
    then obtain rows n v where got: "search_files (te_drive (tl_transfer env)) (tc_user_id ctx) (the q)
        (agent_listing (clamp_offset x) (clamp_limit env l) (normalize_extension_filter e)) (Some (tl_enum env ids)) (drive_of s) = (Inr (rows, n), v)"
      and "\<exists>ex hint. reply = Reply_files (map file_payload_of rows) n ex hint"
      using assms(3) True unfolding tool_list_files_def authorized_reach assms(1) Let_def
      by (auto simp: on_app_def on_transfer_def on_drive_def sreturn_def elim!: sbind_cases split: prod.splits)
    then obtain ex hint where reply: "reply = Reply_files (map file_payload_of rows) n ex hint" by blast
    show ?thesis unfolding reply by (rule shown [OF search_page [OF got]])
  next
    case False
    have deny: "shows_only ids folder_unavailable" "shows_only ids (Refused m det)" for m det by (simp_all add: folder_unavailable_def)
    have h: "(case e of AppError FolderNotFoundError m \<Rightarrow> sreturn (Inr None) | _ \<Rightarrow> raise_op e) v \<noteq> (Inr (Some x), w)"
      for e and v :: tool_state and x :: "file_row list \<times> int" and w
      by (cases e) (simp_all add: sreturn_def raise_op_def split: app_error.split)
    show ?thesis
      using assms(3) True False root allowed_inside [of ids folder] unfolding tool_list_files_def authorized_reach assms(1) Let_def
      by (auto simp: sreturn_def folder_unavailable_def split: if_splits intro: in_folder [OF _ _ h] intro: deny)
  qed
next
  case False
  then show ?thesis using assms(3) by (auto simp: tool_list_files_def authorized_reach missing_scope_def)
qed

text \<open>Every answer of an operation has a property: the shape of the operation decides it.\<close>

definition answers :: "('a \<Rightarrow> bool) \<Rightarrow> 'a tool_op \<Rightarrow> bool" where
  "answers P m = (\<forall>s r t. m s = (Inr r, t) \<longrightarrow> P r)"

lemma answers_sbind: "(\<And>a. answers P (f a)) \<Longrightarrow> answers P (sbind m f)"
  unfolding answers_def by (metis sbind_cases sum.inject(2) sum.distinct(1))

lemma answers_try: "answers P m \<Longrightarrow> (\<And>e. answers P (h e)) \<Longrightarrow> answers P (try_op m h)"
  unfolding answers_def try_op_def by (auto split: prod.splits sum.splits)

lemma answers_return: "P r \<Longrightarrow> answers P (sreturn (Inr r))" "answers P (raise_op e)"
  by (simp_all add: answers_def sreturn_def raise_op_def)

lemma answers_if: "(b \<Longrightarrow> answers P m) \<Longrightarrow> (\<not> b \<Longrightarrow> answers P n) \<Longrightarrow> answers P (if b then m else n)"
  by simp

lemma answers_scope: "(\<And>f. answers P (body f)) \<Longrightarrow> (\<And>m. P (Refused m No_detail)) \<Longrightarrow> answers P (owned_file_in_scope ctx i r body)"
  unfolding answers_def using owned_in_scope_cases by blast

lemma answers_authorized:
  "(\<And>r. reach_of ctx s = Some r \<Longrightarrow> answers P (body r)) \<Longrightarrow> (\<And>m d. P (Refused m d)) \<Longrightarrow> authorized ctx sc nm body s = (Inr reply, t) \<Longrightarrow> P reply"
  by (auto simp: authorized_reach answers_def missing_scope_def folder_unavailable_def split: if_splits option.splits)

lemmas answers_rules = answers_sbind answers_try answers_return answers_if answers_scope

lemma shows_refused [simp]: "shows_only ids folder_unavailable" "shows_only ids oversized" "shows_only ids too_big_to_upload"
    "shows_only ids (content_page row start chunk limit data)"
  by (simp_all add: folder_unavailable_def oversized_def too_big_to_upload_def content_page_def Let_def)

lemma answers_finish: "(\<And>m. P (Refused m No_detail)) \<Longrightarrow> (\<And>i. P (Reply_saved i)) \<Longrightarrow> answers P (finish_upload env ctx verb session store)"
  unfolding finish_upload_def by (rule answers_sbind) (auto intro!: answers_rules split: sum.split)

text \<open>C11: whatever an agent confined to a folder asks for, the files and folders it is shown lie inside. The total it is told
  with a list of folders reveals no folder it is not shown: it is the number of rows on the page, not the number
  of folders the agent can reach, so a listing cut by its limit looks complete.\<close>

theorem confined_agent_sees_inside:
  assumes "reach_of ctx s = Some (Some ids)" "set (tl_enum env ids) = ids" "run_tool env ctx call s = (Inr reply, t)"
  shows "shows_only ids reply"
proof (cases call)
  case (List_files q e f l x)
  then show ?thesis using shows_list_files [OF assms(1,2)] assms(3) by simp
next
  case (List_folders p l x)
  show ?thesis using assms(3) List_folders
    by (auto simp: tool_list_folders_def authorized_reach assms(1) Let_def missing_scope_def folder_unavailable_def sreturn_def
        binding_allows_def folder_payload_of_def elim!: sbind_cases split: if_splits option.splits)
next
  case (Get_file i)
  then have "tool_get_file env ctx i s = (Inr reply, t)" using assms(3) by simp
  then have "(\<exists>m d. reply = Refused m d) \<or> owned_file_in_scope ctx i (Some ids) (\<lambda>row. answer (Reply_file (file_payload_of row))) s = (Inr reply, t)"
    by (auto simp: tool_get_file_def authorized_reach assms(1) missing_scope_def split: if_splits)
  then show ?thesis
    using owned_in_scope_cases [of ctx i "Some ids" "\<lambda>row. answer (Reply_file (file_payload_of row))" s reply t] allowed_inside
    by (auto simp: sreturn_def file_payload_of_def)
qed (insert assms(3), simp_all add: tool_defs, (erule answers_authorized [where P = "shows_only ids", rotated 2],
    (auto simp: Let_def intro!: answers_rules answers_finish split: option.split list.split sum.split exn.split app_error.split)[1], simp)+)

theorem confined_agent_sees_inside_witness:
  "\<exists>reply t. run_tool (sample_tool_env toy_suite) (sample_context [Scope_DOCUMENTS_READ]) (Get_file ''f'') (sample_tool_state sample_files []) = (Inr reply, t)
     \<and> shows_only {''a''} reply \<and> reply \<noteq> file_not_found"
proof -
  let ?s = "sample_tool_state sample_files []" and ?ctx = "sample_context [Scope_DOCUMENTS_READ]" and ?f = "sample_file ''k'' (Some ''a'')"
  have u: "unique_key fl_id (dr_files (dv_db (drive_of ?s)))" by (simp add: sample_tool_drive sample_defs sample_files_def unique_key_def)
  have f: "?f \<in> set (dr_files (dv_db (drive_of ?s)))" "fl_id ?f = ''f''" "fl_user_id ?f = 1"
    by (simp_all add: sample_tool_drive sample_defs sample_files_def)
  have "owned_file ?ctx ''f'' ?s = (Inr (Inr ?f), ?s)"
    by (rule owned_file_found [OF u f(1,2)]) (simp add: f(3))
  then have run: "run_tool (sample_tool_env toy_suite) ?ctx (Get_file ''f'') ?s = (Inr (Reply_file (file_payload_of ?f)), ?s)"
    by (simp add: tool_get_file_def authorized_reach sample_reach owned_file_in_scope_def sbind_def sreturn_def binding_allows_def)
       (simp add: sample_file_def sbind_def sreturn_def)
  have "set (tl_enum (sample_tool_env toy_suite) {''a''}) = {''a''}" by (simp add: sample_tool_env_def)
  from confined_agent_sees_inside [OF sample_reach this run] run show ?thesis by (auto simp: file_not_found_def)
qed

end
