(* ===== verification/Toolbox_Pages.thy ===== *)
theory Toolbox_Pages
  imports Toolbox_Safety Encryption_Safety Drive_Promises
begin

text \<open>
  What goes through the tools byte for byte: an upload stores exactly the bytes sent, within its bound, and the pages of a
  download, put together as the tool says, are the file.
\<close>

section \<open>Pages\<close>

definition page_size :: "int option \<Rightarrow> nat" where
  "page_size max_bytes = (case max_bytes of None \<Rightarrow> DOWNLOAD_CHUNK_BYTES
     | Some n \<Rightarrow> if 0 < n then min (nat n) DOWNLOAD_CHUNK_BYTES else DOWNLOAD_CHUNK_BYTES)"

text \<open>The object under a key reads as \<open>p\<close>: every bounded read of it gives a beginning of \<open>p\<close> of that length.\<close>

definition reads_as :: "tool_env \<Rightarrow> tool_state \<Rightarrow> string \<Rightarrow> string \<Rightarrow> byte list \<Rightarrow> bool" where
  "reads_as env s key user_id p = (\<forall>n. 0 < n \<and> n \<le> int MAX_DOWNLOAD_BYTES \<longrightarrow> fst (read_contents env key n user_id s) = Inr (take (nat n) p))"

lemma page_size_pos: "0 < page_size m" "page_size m \<le> DOWNLOAD_CHUNK_BYTES"
  by (simp_all add: page_size_def DOWNLOAD_CHUNK_BYTES_def split: option.split)

lemma content_page_exact:
  assumes "0 < chunk" "start < length p \<or> start = 0 \<and> p = []" "length p \<le> MAX_DOWNLOAD_BYTES" "fl_file_size_bytes row \<le> int MAX_DOWNLOAD_BYTES"
    and limit: "limit = min (int MAX_DOWNLOAD_BYTES) (int start + int chunk + 1)"
  shows "\<exists>c. content_page row (int start) (int chunk) limit (take (nat limit) p) = Reply_content c
    \<and> co_content_base64 c = b64encode (take chunk (drop start p)) \<and> co_offset c = int start
    \<and> (co_has_more c \<longleftrightarrow> start + chunk < length p) \<and> co_next_offset c = (if start + chunk < length p then Some (int (start + chunk)) else None)"
proof -
  define m where "m = min MAX_DOWNLOAD_BYTES (start + chunk + 1)"
  have m: "limit = int m" "nat limit = m" by (simp_all add: limit m_def)
  have pos: "0 < MAX_DOWNLOAD_BYTES" by (simp add: MAX_DOWNLOAD_BYTES_def)
  have len: "length (take m p) = min (length p) m" by simp
  have window: "take chunk (drop start (take m p)) = take chunk (drop start p)"
  proof (cases "start + chunk \<le> m")
    case True
    then show ?thesis by (simp add: take_drop min_absorb1 add.commute)
  next
    case False
    then have "m = MAX_DOWNLOAD_BYTES" by (simp add: m_def)
    then show ?thesis using assms(3) by simp
  qed
  have inside: "\<not> (int (length (take m p)) \<le> int start \<and> 0 < int (length (take m p)))"
    using assms(1,2,3) pos by (auto simp: m_def min_def)
  have more: "(if int (length (take m p)) < int m then False
      else int start + int (length (take chunk (drop start p))) < int (length (take m p))
        \<or> int start + int (length (take chunk (drop start p))) < fl_file_size_bytes row) \<longleftrightarrow> start + chunk < length p"
  proof (cases "length p < m")
    case True
    then show ?thesis by (simp add: m_def)
  next
    case False
    show ?thesis
    proof (cases "start + chunk + 1 \<le> MAX_DOWNLOAD_BYTES")
      case True
      then have "m = start + chunk + 1" by (simp add: m_def)
      then show ?thesis using False by simp
    next
      case big: False
      then have "m = MAX_DOWNLOAD_BYTES" by (simp add: m_def)
      then have "length p = MAX_DOWNLOAD_BYTES" "\<not> start + chunk < length p" using False assms(3) big by simp_all
      then show ?thesis using assms(2,4) big \<open>m = MAX_DOWNLOAD_BYTES\<close> pos by auto
    qed
  qed
  have fits: "\<not> int MAX_DOWNLOAD_BYTES < int (length (take m p))" by (simp add: m_def)
  have fin: "int start + int (length (take chunk (drop start p))) = int (start + chunk)" if "start + chunk < length p" using that by simp
  show ?thesis
    unfolding content_page_def Let_def m nat_int if_not_P [OF fits] if_not_P [OF inside] window more
    using fin by auto
qed

lemma chunk_nth: "0 < n \<Longrightarrow> k < length (chunks n xs) \<Longrightarrow> chunks n xs ! k = take n (drop (k * n) xs)"
proof (induction n xs arbitrary: k rule: chunks.induct)
  case (1 n xs)
  then have ne: "xs \<noteq> []" by auto
  show ?case
  proof (cases k)
    case 0
    then show ?thesis using 1(2) ne by (simp add: chunks_step)
  next
    case (Suc j)
    have "j < length (chunks n (drop n xs))" using 1(2,3) ne Suc by (simp add: chunks_step)
    then have "chunks n (drop n xs) ! j = take n (drop (j * n) (drop n xs))" using 1(1) 1(2) ne by simp
    then show ?thesis using 1(2) ne Suc by (simp add: chunks_step add.commute)
  qed
qed

lemma more_chunks: "0 < n \<Longrightarrow> k < length (chunks n xs) \<longleftrightarrow> k * n < length xs"
proof -
  assume n: "0 < n"
  have "length (chunks n xs) = (length xs + n - 1) div n" using length_pieces [OF well_cut_chunks [OF n, of xs] n] concat_chunks [OF n, of xs] by simp
  moreover have "k < (length xs + n - 1) div n \<longleftrightarrow> Suc k * n \<le> length xs + n - 1"
    using n less_eq_div_iff_mult_less_eq [of n "Suc k" "length xs + n - 1"] by (simp add: Suc_le_eq)
  ultimately show ?thesis using n by auto
qed

text \<open>C14: the pages of a download are the pieces of the file, in order and complete: asked for its number of bytes times the
  size of a page, the tool answers with that piece in base64, says whether another follows, and where; the
  pieces together are the file. The size recorded for the file does not matter below the limit.\<close>

theorem pages_are_the_file:
  assumes "unique_key fl_id (dr_files (dv_db (drive_of s)))" "Scope_DOCUMENTS_READ \<in> set (tc_scopes ctx)" "reach_of ctx s = Some r"
    and "f \<in> set (dr_files (dv_db (drive_of s)))" "fl_id f = i" "fl_user_id f = tc_user_id ctx" "binding_allows r (fl_folder_id f)"
    and "fl_file_size_bytes f \<le> int MAX_DOWNLOAD_BYTES" "length p \<le> MAX_DOWNLOAD_BYTES" "p \<noteq> []"
    and "reads_as env s (fl_file_key f) (str_int (tc_user_id ctx)) p"
  shows "concat (chunks (page_size m) p) = p \<and> (\<forall>k < length (chunks (page_size m) p). \<exists>c.
      fst (run_tool env ctx (Download_file i (Some (int (k * page_size m))) m) s) = Inr (Reply_content c)
      \<and> b64decode True (co_content_base64 c) = Inr (chunks (page_size m) p ! k)
      \<and> (co_has_more c \<longleftrightarrow> Suc k < length (chunks (page_size m) p))
      \<and> (co_has_more c \<longrightarrow> co_next_offset c = Some (int (Suc k * page_size m))))"
proof -
  define n where "n = page_size m"
  have n: "0 < n" using page_size_pos(1) by (simp add: n_def)
  have row: "owned_file ctx i s = (Inr (Inr f), s)"
    by (rule owned_file_found [OF assms(1,4-6)])
  have "\<exists>c. fst (run_tool env ctx (Download_file i (Some (int (k * n))) m) s) = Inr (Reply_content c)
      \<and> b64decode True (co_content_base64 c) = Inr (chunks n p ! k) \<and> (co_has_more c \<longleftrightarrow> Suc k < length (chunks n p))
      \<and> (co_has_more c \<longrightarrow> co_next_offset c = Some (int (Suc k * n)))" if k: "k < length (chunks n p)" for k
  proof -
    define limit where "limit = min (int MAX_DOWNLOAD_BYTES) (int (k * n) + int n + 1)"
    have limit: "0 < limit" "limit \<le> int MAX_DOWNLOAD_BYTES" by (simp_all add: limit_def MAX_DOWNLOAD_BYTES_def)
    obtain w where read: "read_contents env (fl_file_key f) limit (str_int (tc_user_id ctx)) s = (Inr (take (nat limit) p), w)"
      using assms(11) limit by (cases "read_contents env (fl_file_key f) limit (str_int (tc_user_id ctx)) s") (auto simp: reads_as_def)
    have size: "(case m of None \<Rightarrow> int DOWNLOAD_CHUNK_BYTES | Some n \<Rightarrow> if 0 < n then min n (int DOWNLOAD_CHUNK_BYTES) else int DOWNLOAD_CHUNK_BYTES) = int n"
      by (auto simp: n_def page_size_def min_def split: option.split)
    obtain c where c: "content_page f (int (k * n)) (int n) limit (take (nat limit) p) = Reply_content c"
      "co_content_base64 c = b64encode (take n (drop (k * n) p))" "co_has_more c \<longleftrightarrow> k * n + n < length p"
      "co_next_offset c = (if k * n + n < length p then Some (int (k * n + n)) else None)"
      using content_page_exact [OF n _ assms(9,8) limit_def] more_chunks [OF n] k by auto
    have "run_tool env ctx (Download_file i (Some (int (k * n))) m) s = (Inr (Reply_content c), w)"
      using assms(2,7,8) row read c(1) unfolding run_tool.simps tool_download_file_def authorized_reach assms(3) owned_file_in_scope_def Let_def size
      by (simp add: sbind_def sreturn_def try_op_def clamp_offset_def limit_def)
    then show ?thesis using c(2-4) chunk_nth [OF n k] more_chunks [OF n, of "Suc k" p] b64_round_trip by (auto simp: add.commute)
  qed
  then show ?thesis unfolding n_def [symmetric] using concat_chunks [OF n] by blast
qed

subsection \<open>What reads as what\<close>

lemma read_contents_up:
  assumes "\<forall>k. de_up (te_drive (tl_transfer env)) k" "sanitize_object_key True key = Inr key" "dv_objects (drive_of s) key = Some ob"
  shows "fst (read_contents env key n u s) = read_plaintext (tl_suite env) (tl_encryption env)
    (\<lambda>limit. Inr (case limit of None \<Rightarrow> object_bytes ob | Some l \<Rightarrow> take (nat l) (object_bytes ob))) (Some n) u"
proof -
  have "fst (fetch_object env key (Some l) (drive_of s)) = Inr (take (nat l) (object_bytes ob))" for l
    using assms by (simp add: fetch_object_def sbind_def sreturn_def storage_call_def)
  then have raw: "fst (on_files (fetch_object env key (Some l)) s) = Inr (take (nat l) (object_bytes ob))" for l
    by (simp add: on_app_def on_transfer_def on_drive_def split_beta)
  have "fst (read_contents env key n u s) = read_plaintext (tl_suite env) (tl_encryption env)
      (\<lambda>_. Inr (take (nat (n + ciphertext_slack + ciphertext_chunk_slack)) (object_bytes ob))) (Some n) u"
    by (simp only: read_contents_def split_beta fst_conv raw Let_def)
  also have "\<dots> = read_plaintext (tl_suite env) (tl_encryption env)
      (\<lambda>limit. Inr (case limit of None \<Rightarrow> object_bytes ob | Some l \<Rightarrow> take (nat l) (object_bytes ob))) (Some n) u"
    by (simp only: read_plaintext_def Let_def option.case)
  finally show ?thesis .
qed

lemma reads_plain:
  assumes "\<forall>k. de_up (te_drive (tl_transfer env)) k" "sanitize_object_key True key = Inr key" "dv_objects (drive_of s) key = Some ob"
    and "tl_encryption env = None \<or> take 5 (object_bytes ob) \<noteq> stream_magic"
  shows "reads_as env s key u (object_bytes ob)"
  unfolding reads_as_def
proof (intro allI impI, elim conjE)
  fix n assume n: "0 < n" "n \<le> int MAX_DOWNLOAD_BYTES"
  define l where "l = nat (n + ciphertext_slack + ciphertext_chunk_slack)"
  have l: "nat n \<le> l" "5 \<le> l" using n by (simp_all add: l_def ciphertext_slack_def ciphertext_chunk_slack_def)
  have "take 5 (take l (object_bytes ob)) = take 5 (object_bytes ob)" using l by simp
  moreover have "truncated_to (Some n) (take l (object_bytes ob)) = take (nat n) (object_bytes ob)"
    using l n by (simp add: truncated_to_def slice_to_def min_absorb1)
  ultimately have "read_plaintext (tl_suite env) (tl_encryption env) (\<lambda>limit. Inr (case limit of None \<Rightarrow> object_bytes ob
      | Some l \<Rightarrow> take (nat l) (object_bytes ob))) (Some n) u = Inr (take (nat n) (object_bytes ob))"
    using assms(4) unfolding read_plaintext_def Let_def option.case rbind_def sum.case l_def [symmetric] by (auto split: option.split)
  then show "fst (read_contents env key n u s) = Inr (take (nat n) (object_bytes ob))" using read_contents_up [OF assms(1-3)] by simp
qed

lemma reads_encrypted:
  assumes "\<forall>k. de_up (te_drive (tl_transfer env)) k" "sanitize_object_key True key = Inr key" "dv_objects (drive_of s) key = Some ob"
    and "tl_encryption env = Some fe'" "seals (tl_suite env)" "length salt = 16" "length np = 8" "pieces_fit default_chunk_size data"
    and "encrypt_stream (tl_suite env) fe salt np data u (int default_chunk_size) = (object_bytes ob, x)"
    and "data = [] \<or> reaches (tl_suite env) fe' (fe_master_key fe) u default_chunk_size (object_bytes ob)"
  shows "reads_as env s key u data"
  unfolding reads_as_def
proof (intro allI impI, elim conjE)
  fix n assume n: "0 < n" "n \<le> int MAX_DOWNLOAD_BYTES"
  then have "0 < nat n" "nat n \<le> 2 ^ 30" by (simp_all add: MAX_DOWNLOAD_BYTES_def)
  from reader_prefix [OF assms(5-10) this] show "fst (read_contents env key n u s) = Inr (take (nat n) data)"
    using read_contents_up [OF assms(1-3)] n(1) assms(4) by simp
qed

section \<open>Uploads\<close>

lemma complete_upload_objects:
  assumes "complete_upload env u session s = (Inr i, t)"
  shows "dv_objects t = dv_objects s"
proof -
  have head: "dv_objects v = dv_objects w" if "try_op (read_object_head env k) (\<lambda>e. sreturn (Inr [])) w = (x, v)" for k w x v
    using that by (auto simp: try_op_def read_object_head_def storage_call_def sreturn_def split: if_splits)
  have stat: "dv_objects v = dv_objects w" if "stat_object env k w = (x, v)" for k w x v
    using that by (auto simp: stat_object_def storage_call_def split: if_splits)
  show ?thesis
    using assms unfolding complete_upload_def Let_def
    by (auto simp: read_drive_def write_drive_def sreturn_def dest!: head stat check_folder_result save_upload_result elim!: sbind_cases
        split: if_splits option.splits)
qed

lemma finished_upload:
  assumes "finish_upload env ctx verb session store s = (Inr (Reply_saved i), t)"
    and "tf_cache (ua_transfer (ts_app s)) (ur_upload_id session) = Some (old, e)" "us_multipart_upload_id old = None"
  obtains d where "store (drive_of s) = (Inr (), d)" "dv_objects (drive_of t) = dv_objects d"
    "\<exists>f \<in> set (dr_files (dv_db (drive_of t))). fl_id f = i \<and> fl_user_id f = tc_user_id ctx \<and> fl_file_key f = us_object_key old"
proof -
  have same: "drive_of v = drive_of w" if "owned_file ctx k w = (x, v)" for k w x v
    using that get_file_result(1) [of "tc_user_id ctx" k "drive_of w"]
    by (auto simp: owned_file_def try_op_def sbind_def on_app_def on_transfer_def on_drive_def sreturn_def raise_op_def get_file_def read_drive_def
        split: prod.splits sum.splits exn.splits app_error.splits)
  from assms(1) obtain v where chain: "sbind (on_files store) (\<lambda>_.
        sbind (on_transfers (verify_upload_completion (tl_transfer env) (ur_upload_id session) None)) (\<lambda>upload.
        sbind (on_files (complete_upload (te_drive (tl_transfer env)) (tc_user_id ctx) upload)) (\<lambda>file_id. sreturn (Inr (Inr file_id :: string + string))))) s
      = (Inr (Inr i), v)" and t: "drive_of t = drive_of v"
    unfolding finish_upload_def
    by (auto simp: try_op_def sreturn_def dest!: same elim!: sbind_cases split: sum.splits prod.splits)
  from chain obtain s1 s2 upload where st: "on_files store s = (Inr (), s1)"
    and ver: "on_transfers (verify_upload_completion (tl_transfer env) (ur_upload_id session) None) s1 = (Inr upload, s2)"
    and com: "on_files (complete_upload (te_drive (tl_transfer env)) (tc_user_id ctx) upload) s2 = (Inr i, v)"
    by (auto simp: sreturn_def elim!: sbind_cases)
  obtain d where d: "store (drive_of s) = (Inr (), d)" "drive_of s1 = d" "tf_cache (ua_transfer (ts_app s1)) = tf_cache (ua_transfer (ts_app s))"
    using st by (auto simp: on_app_def on_transfer_def on_drive_def split: prod.splits)
  obtain w where w: "verify_upload_completion (tl_transfer env) (ur_upload_id session) None (ua_transfer (ts_app s1)) = (Inr upload, w)"
    "tf_drive w = drive_of s2" using ver by (auto simp: on_app_def on_transfer_def split: prod.splits)
  have up: "upload = old\<lparr>us_status := ''completed''\<rparr>" "dv_objects (drive_of s2) = dv_objects d"
    using verified_session [OF w(1), of old e] assms(2,3) d(2,3) w(2) by auto
  have "complete_upload (te_drive (tl_transfer env)) (tc_user_id ctx) upload (drive_of s2) = (Inr i, drive_of v)"
    using com by (auto simp: on_app_def on_transfer_def on_drive_def split: prod.splits)
  from complete_upload_objects [OF this] complete_upload_row [OF this] show ?thesis using that [OF d(1)] up t by auto
qed

text \<open>an upload through the tool that is answered with a file has stored exactly the bytes the base64 text stands for, at least
  one and at most 25 MiB of them, as the content of a file of the user; content that is no proper
  base64, empty or larger is refused, as is a name without an extension.\<close>

theorem uploaded_bytes_stored:
  assumes "run_tool env ctx (Upload_file name content folder) s = (Inr (Reply_saved i), t)"
  shows "\<exists>data. b64decode True content = Inr data \<and> 0 < length data \<and> length data \<le> MAX_UPLOAD_BYTES \<and> extension_from_filename (Some name) \<noteq> []
    \<and> (\<exists>f \<in> set (dr_files (dv_db (drive_of t))). fl_id f = i \<and> fl_user_id f = tc_user_id ctx
        \<and> (\<exists>ob. dv_objects (drive_of t) (fl_file_key f) = Some ob \<and> object_bytes ob = data \<and> ob_size ob = int (length data)))"
proof -
  from assms obtain destination data where data: "b64decode True content = Inr data" "data \<noteq> []" "length data \<le> MAX_UPLOAD_BYTES"
      "extension_from_filename (Some name) \<noteq> []"
    and run: "sbind (try_op (sbind (on_files (authorize_upload_size (te_drive (tl_transfer env)) (tc_user_id ctx) (Some (int (length data)))))
                   (\<lambda>_. sreturn (Inr None)))
                 (\<lambda>e. if is_file_system_error e then sreturn (Inr (Some (exn_message e))) else raise_op e)) (\<lambda>denied. case denied of
               Some m \<Rightarrow> answer (Refused m No_detail)
             | None \<Rightarrow> sbind (try_op (sbind (on_transfers (create_upload (tl_transfer env) (extension_from_filename (Some name)) (str_int (tc_user_id ctx))
                  (Some name) destination None None)) (\<lambda>session. sreturn (Inr (Inr session))))
                     (\<lambda>e. case e of
                         ValueError m \<Rightarrow> sreturn (Inr (Inl m))
                       | AppError UnsafeObjectKeyError m \<Rightarrow> sreturn (Inr (Inl m))
                       | _ \<Rightarrow> if is_file_system_error e then sreturn (Inr (Inl (exn_message e))) else raise_op e)) (\<lambda>opened. case opened of
                   Inl m \<Rightarrow> answer (Refused (''The file could not be uploaded: '' @ m) No_detail)
                 | Inr session \<Rightarrow> finish_upload env ctx ''uploaded'' session (put_object env (ur_object_key session) data))) s = (Inr (Reply_saved i), t)"
    unfolding run_tool.simps tool_upload_file_def authorized_reach
    by (auto simp: missing_scope_def folder_unavailable_def too_big_to_upload_def sreturn_def Let_def
        split: if_splits option.splits sum.splits)
  have opened: "on_transfers m v = (Inr session, w)"
    if "try_op (sbind (on_transfers m) (\<lambda>session. sreturn (Inr (Inr session)))) (\<lambda>e. case e of
                         ValueError m \<Rightarrow> sreturn (Inr (Inl m))
                       | AppError UnsafeObjectKeyError m \<Rightarrow> sreturn (Inr (Inl m))
                       | _ \<Rightarrow> if is_file_system_error e then sreturn (Inr (Inl (exn_message e))) else raise_op e) v = (Inr (Inr session), w)"
    for v w session and m :: "upload_response transfer_op"
  proof -
    have h: "(case e of ValueError m \<Rightarrow> sreturn (Inr (Inl m)) | AppError UnsafeObjectKeyError m \<Rightarrow> sreturn (Inr (Inl m))
        | _ \<Rightarrow> if is_file_system_error e then sreturn (Inr (Inl (exn_message e))) else raise_op e) x \<noteq> (Inr (Inr session), w)" for e and x :: tool_state
      by (cases e) (simp_all add: sreturn_def raise_op_def split: app_error.split)
    show ?thesis
      using that h by (cases "on_transfers m v"; cases "fst (on_transfers m v)") (simp_all add: try_op_def sbind_def sreturn_def)
  qed
  from run obtain v w session where open': "on_transfers (create_upload (tl_transfer env) (extension_from_filename (Some name)) (str_int (tc_user_id ctx))
        (Some name) destination None None) v = (Inr session, w)"
    and finish: "finish_upload env ctx ''uploaded'' session (put_object env (ur_object_key session) data) w = (Inr (Reply_saved i), t)"
    by (auto simp: sreturn_def dest!: opened elim!: sbind_cases split: option.splits sum.splits)
  obtain old e where old: "tf_cache (ua_transfer (ts_app w)) (ur_upload_id session) = Some (old, e)" "us_object_key old = ur_object_key session"
      "us_multipart_upload_id old = None"
    using open' by (auto simp: on_app_def on_transfer_def dest!: created_session split: prod.splits)
  obtain d where put: "put_object env (ur_object_key session) data (drive_of w) = (Inr (), d)" and t: "dv_objects (drive_of t) = dv_objects d"
    and row: "\<exists>f \<in> set (dr_files (dv_db (drive_of t))). fl_id f = i \<and> fl_user_id f = tc_user_id ctx \<and> fl_file_key f = us_object_key old"
    by (rule finished_upload [OF finish old(1,3)])
  have "dv_objects d (ur_object_key session) = Some (new_object data)"
    using put by (auto simp: put_object_def storage_call_def sreturn_def sanitize_key_Inr elim!: sbind_cases split: if_splits)
  moreover have "object_bytes (new_object data) = data" by (simp add: object_bytes_def new_object_def comp_def)
  ultimately show ?thesis using data row t old(2) by (auto simp: new_object_def)
qed

lemma create_upload_objects:
  "create_upload env ext u name folder None cap s = (Inr r, t) \<Longrightarrow> dv_objects (tf_drive t) = dv_objects (tf_drive s)"
  unfolding create_upload_def generate_object_key_def open_transfer_def Let_def
  by (auto simp: on_drive_def drive_tick_def sreturn_def cache_set_def tf_tick_def Let_def elim!: sbind_cases split: if_splits)

text \<open>C16: a saved file is a copy of the output of the named job, whose owner the user is, which has completed, and which no key
  of a browser protects: it is not marked as encrypted by the client and carries no wrapped data key.\<close>

theorem saved_file_is_job_output:
  assumes "run_tool env ctx (Save_file jid folder name) s = (Inr (Reply_saved i), t)"
  shows "\<exists>job out ob f. fst (get_job (tl_conversion env) jid (ua_conversion (ts_app s))) = Inr (Some job) \<and> job_user_id job = Some (tc_user_id ctx)
    \<and> job_status job = Job_COMPLETED \<and> \<not> job_client_encrypted job \<and> \<not> truthy_text (job_data_key_wrapped job)
    \<and> job_output_file job = Some out \<and> dv_objects (drive_of s) out = Some ob
    \<and> f \<in> set (dr_files (dv_db (drive_of t))) \<and> fl_id f = i \<and> fl_user_id f = tc_user_id ctx
    \<and> (\<exists>copy. dv_objects (drive_of t) (fl_file_key f) = Some copy \<and> object_bytes copy = object_bytes ob)"
proof -
  from assms obtain destination found v nm session w where got: "on_jobs (get_job (tl_conversion env) jid) s = (Inr found, v)"
    and owner: "is_job_owner found (Some (tc_user_id ctx))" and job: "job_status (the found) = Job_COMPLETED" "\<not> job_client_encrypted (the found)"
      "truthy_text (job_output_file (the found))" "\<not> truthy_text (job_data_key_wrapped (the found))"
    and open': "on_transfers (create_upload (tl_transfer env) (extension_from_filename (Some nm)) (str_int (tc_user_id ctx)) (Some nm)
        destination None None) v = (Inr session, w)"
    and finish': "finish_upload env ctx ''saved'' session (sbind (copy_object env (the (job_output_file (the found))) (ur_object_key session))
        (\<lambda>_. sreturn (Inr ()))) w = (Inr (Reply_saved i), t)"
    unfolding run_tool.simps tool_save_file_def authorized_reach
    by (auto simp: missing_scope_def folder_unavailable_def sreturn_def Let_def elim!: sbind_cases split: if_splits option.splits)
  obtain job out where j: "found = Some job" "job_output_file job = Some out" "job_user_id job = Some (tc_user_id ctx)"
    using owner job(3) by (auto simp: is_job_owner_iff truthy_text_def)
  have drive: "drive_of v = drive_of s" and jobs: "fst (get_job (tl_conversion env) jid (ua_conversion (ts_app s))) = Inr found"
    using got by (auto simp: on_app_def on_conversion_def split: prod.splits)
  have finish: "finish_upload env ctx ''saved'' session (sbind (copy_object env out (ur_object_key session)) (\<lambda>_. sreturn (Inr ()))) w = (Inr (Reply_saved i), t)"
    using finish' j by simp
  obtain old e where old: "tf_cache (ua_transfer (ts_app w)) (ur_upload_id session) = Some (old, e)" "us_object_key old = ur_object_key session"
      "us_multipart_upload_id old = None"
    using open' by (auto simp: on_app_def on_transfer_def dest!: created_session split: prod.splits)
  have objs: "dv_objects (drive_of w) = dv_objects (drive_of s)"
    using open' drive by (auto simp: on_app_def on_transfer_def dest!: create_upload_objects split: prod.splits)
  obtain d where copy: "sbind (copy_object env out (ur_object_key session)) (\<lambda>_. sreturn (Inr ())) (drive_of w) = (Inr (), d)"
    and t: "dv_objects (drive_of t) = dv_objects d"
    and row: "\<exists>f \<in> set (dr_files (dv_db (drive_of t))). fl_id f = i \<and> fl_user_id f = tc_user_id ctx \<and> fl_file_key f = us_object_key old"
    by (rule finished_upload [OF finish old(1,3)])
  have "\<exists>ob. dv_objects (drive_of w) out = Some ob \<and> dv_objects d (ur_object_key session) = Some (new_object (object_bytes ob))"
    using copy by (auto simp: copy_object_def storage_call_def sreturn_def raise_op_def sanitize_key_Inr elim!: sbind_cases split: if_splits option.splits)
  moreover have "object_bytes (new_object data) = data" for data by (simp add: object_bytes_def new_object_def comp_def)
  ultimately show ?thesis using jobs j job row t old(2) objs by fastforce
qed

section \<open>The promises tried on a Drive\<close>

theorem pages_are_the_file_witness:
  "\<exists>c. fst (run_tool (sample_tool_env toy_suite) (sample_context [Scope_DOCUMENTS_READ]) (Download_file ''f'' (Some 0) None)
       (sample_tool_state sample_files [])) = Inr (Reply_content c)
     \<and> b64decode True (co_content_base64 c) = Inr [120] \<and> \<not> co_has_more c"
proof -
  let ?env = "sample_tool_env toy_suite" and ?s = "sample_tool_state sample_files []" and ?ctx = "sample_context [Scope_DOCUMENTS_READ]"
    and ?f = "sample_file ''k'' (Some ''a'')"
  have u: "unique_key fl_id (dr_files (dv_db (drive_of ?s)))" by (simp add: sample_tool_drive sample_defs sample_files_def unique_key_def)
  have f: "?f \<in> set (dr_files (dv_db (drive_of ?s)))" "fl_id ?f = ''f''" "fl_user_id ?f = tc_user_id ?ctx" "binding_allows (Some {''a''}) (fl_folder_id ?f)"
      "fl_file_size_bytes ?f \<le> int MAX_DOWNLOAD_BYTES" "fl_file_key ?f = ''k''"
    by (simp_all add: sample_tool_drive sample_files_def binding_allows_def MAX_DOWNLOAD_BYTES_def) (simp_all add: sample_file_def)
  have b: "object_bytes (sample_object ''x'') = [120]" by (simp add: object_bytes_def sample_object_def char_byte_def)
  have key: "sanitize_object_key True ''k'' = Inr ''k''"
    by (simp add: sanitize_object_key_def forbidden_key_def as_posix_def path_parts_def py_startswith_def py_endswith_def py_join_def MAX_KEY_LENGTH_def)
  have up: "\<forall>k. de_up (te_drive (tl_transfer ?env)) k" by (simp add: sample_tool_drive_env) (simp add: sample_drive_env_def)
  have stored: "dv_objects (drive_of ?s) ''k'' = Some (sample_object ''x'')" by (simp add: sample_tool_drive)
  have r: "reads_as ?env ?s (fl_file_key ?f) (str_int (tc_user_id ?ctx)) [120]"
    using reads_plain [OF up key stored] f(6) by (simp add: b sample_tool_env_def)
  have c: "chunks (page_size None) [120] = [[120::byte]]"
    using chunks_step [of "page_size None" "[120::byte]"] page_size_pos(1) [of None] by (simp add: page_size_def DOWNLOAD_CHUNK_BYTES_def chunks_step)
  from pages_are_the_file [OF u _ sample_reach f(1-5) _ _ r, of None] show ?thesis by (auto simp: c MAX_DOWNLOAD_BYTES_def)
qed

definition sample_writer :: tool_context where
  "sample_writer = (sample_context [Scope_DOCUMENTS_WRITE])\<lparr>tc_folder_access := Folder_ALL\<rparr>"

definition sample_upload_key :: string where "sample_upload_key = ''upload/a/g.txt''"

lemma sample_names:
  "sanitize_object_key True sample_upload_key = Inr sample_upload_key" "sanitize_object_key True ''out/o.txt'' = Inr ''out/o.txt''"
  "normalize_extension (Some ''txt'') = ''txt''" "extension_from_filename (Some ''n.txt'') = ''txt''" "sanitize_filename ''n.txt'' = Inr ''n.txt''"
  by (simp_all add: sample_upload_key_def sanitize_object_key_def forbidden_key_def as_posix_def path_parts_def py_startswith_def py_endswith_def py_join_def MAX_KEY_LENGTH_def
      normalize_extension_def MAX_EXTENSION_LENGTH_def py_strip_def is_space_def lstrip_dots_def py_lower_def lower_char_def extension_from_filename_def path_name_def
      posix_slashes_def after_last_dot_def COMPOUND_EXTENSIONS_def sanitize_filename_def)

lemma sample_created:
  assumes "dv_ticks (tf_drive s) = 0"
  shows "\<exists>r t session. create_upload (sample_transfer_env (\<lambda>_. True)) ''txt'' ''1'' (Some ''n.txt'') None None None s = (Inr r, t)
    \<and> ur_object_key r = sample_upload_key \<and> tf_cache t (ur_upload_id r) = Some (session, 600000002) \<and> us_object_key session = sample_upload_key
    \<and> us_multipart_upload_id session = None \<and> us_folder_id session = None \<and> us_file_name session = Some ''n.txt'' \<and> us_upload_mode session = Mode_single
    \<and> tf_drive t = (tf_drive s)\<lparr>dv_ticks := 3\<rparr>"
  using assms sample_names(1)
  by (simp add: create_upload_def generate_object_key_def open_transfer_def cache_set_def sbind_def sreturn_def on_drive_def drive_tick_def tf_tick_def
      sample_transfer_env_def sample_drive_env_def sample_names(3-5) Let_def session_ttl_def sample_upload_key_def rbind_def new_session_def)

lemma sample_verified:
  assumes "tf_cache s i = Some (session, 600000002)" "us_object_key session = key" "us_multipart_upload_id session = None"
    and "dv_objects (tf_drive s) key = Some ob" "dv_ticks (tf_drive s) < 10"
  shows "\<exists>t. verify_upload_completion (sample_transfer_env (\<lambda>_. True)) i None s = (Inr (session\<lparr>us_status := ''completed''\<rparr>), t)
    \<and> tf_drive t = (tf_drive s)\<lparr>dv_ticks := dv_ticks (tf_drive s) + 3\<rparr>"
  using assms
  by (auto simp add: verify_upload_completion_def get_upload_session_def cache_get_def cache_set_def tf_tick_def sbind_def sreturn_def finish_multipart_def
      object_exists_def on_drive_def storage_call_def Let_def sample_transfer_env_def sample_drive_env_def)

lemma sample_completed:
  assumes "dv_db s = \<lparr>dr_folders = [sample_folder ''a'' None, sample_folder ''b'' None], dr_files = []\<rparr>"
    and ob: "dv_objects s sample_upload_key = Some (new_object [120])"
    and session: "us_object_key session = sample_upload_key" "us_folder_id session = None" "us_file_name session = Some ''n.txt''"
  shows "\<exists>i t. complete_upload (sample_drive_env 100 id) 1 session s = (Inr i, t) \<and> unique_key fl_id (dr_files (dv_db t))"
proof -
  let ?env = "sample_drive_env 100 id"
  have v: "validate_upload_signature ''x'' ''txt''"
    by (simp add: validate_upload_signature_def lstrip_dots_def py_lower_def lower_char_def LENIENT_EXTENSIONS_def)
  have h: "ob_head (new_object [120]) = ''x''" "ob_size (new_object [120]) = 1" using char_of_char [of "CHR ''x''"] by (simp_all add: new_object_def byte_char_def)
  have no: "upload_objection ?env 1 session s = None"
    using v by (simp add: upload_objection_def upload_bytes_def upload_head_def claimed_extension_def nonempty_or_def ob h session sample_names
        sample_drive_env_def)
  have none: "find_by_key 1 sample_upload_key (dv_db s) = None" by (simp add: find_by_key_def sql_first_def sql_select_def assms(1))
  have q: "\<exists>d. quota_decision ?env 1 (upload_bytes s sample_upload_key) (dv_db s) = Inr d \<and> quota_allowed d"
    by (simp add: quota_decision_def evaluate_storage_quota_def get_user_storage_used_def quota_allowed_def upload_bytes_def ob h
      sql_select_def available_bytes_def GB_def MB_def py_trunc_def sample_drive_env_def Let_def assms(1))
  show ?thesis
    using complete_upload_up [OF sample_upload_up(1), of 100 id 1 session s] no none q
    by (auto simp: sample_upload_up(2) session save_upload_def sbind_def read_drive_def drive_tick_def exec_drive_def save_file_def parent_exists_def Let_def assms(1) unique_key_def)
qed

lemma sample_finished:
  assumes "store (drive_of s) = (Inr (), d)" "dv_db d = \<lparr>dr_folders = [sample_folder ''a'' None, sample_folder ''b'' None], dr_files = []\<rparr>"
    and "dv_objects d sample_upload_key = Some (new_object [120])" "dv_ticks d < 10"
    and "tf_cache (ua_transfer (ts_app s)) (ur_upload_id r) = Some (session, 600000002)" "us_object_key session = sample_upload_key"
    and "us_multipart_upload_id session = None" "us_folder_id session = None" "us_file_name session = Some ''n.txt''"
  shows "\<exists>i t. finish_upload (sample_tool_env suite) sample_writer verb r store s = (Inr (Reply_saved i), t)"
proof -
  let ?env = "sample_tool_env suite" and ?done = "session\<lparr>us_status := ''completed''\<rparr>"
  define s1 where "s1 = s\<lparr>ts_app := (ts_app s)\<lparr>ua_transfer := (ua_transfer (ts_app s))\<lparr>tf_drive := d\<rparr>\<rparr>\<rparr>"
  have put: "on_files store s = (Inr (), s1)" using assms(1) by (simp add: on_app_def on_transfer_def on_drive_def s1_def)
  have env: "tl_transfer ?env = sample_transfer_env (\<lambda>_. True)" by (simp add: sample_tool_env_def)
  obtain v where v: "verify_upload_completion (sample_transfer_env (\<lambda>_. True)) (ur_upload_id r) None (ua_transfer (ts_app s1)) = (Inr ?done, v)"
      "tf_drive v = d\<lparr>dv_ticks := dv_ticks d + 3\<rparr>"
    using sample_verified [of "ua_transfer (ts_app s1)" "ur_upload_id r" session sample_upload_key] assms(3-7) by (auto simp: s1_def)
  define s2 where "s2 = s1\<lparr>ts_app := (ts_app s1)\<lparr>ua_transfer := v\<rparr>\<rparr>"
  have ver: "on_transfers (verify_upload_completion (tl_transfer ?env) (ur_upload_id r) None) s1 = (Inr ?done, s2)"
    using v(1) by (simp add: env on_app_def on_transfer_def s2_def)
  obtain i t where t: "complete_upload (sample_drive_env 100 id) 1 ?done (d\<lparr>dv_ticks := dv_ticks d + 3\<rparr>) = (Inr i, t)" "unique_key fl_id (dr_files (dv_db t))"
    using sample_completed [of "d\<lparr>dv_ticks := dv_ticks d + 3\<rparr>" ?done] assms(2,3,6-9) by auto
  define s3 where "s3 = s2\<lparr>ts_app := (ts_app s2)\<lparr>ua_transfer := (ua_transfer (ts_app s2))\<lparr>tf_drive := t\<rparr>\<rparr>\<rparr>"
  have com: "on_files (complete_upload (te_drive (tl_transfer ?env)) (tc_user_id sample_writer) ?done) s2 = (Inr i, s3)"
    using t(1) v(2) by (simp add: sample_tool_drive_env on_app_def on_transfer_def on_drive_def s3_def s2_def sample_writer_def)
  have "unique_key fl_id (dr_files (dv_db (drive_of s3)))" using t(2) by (simp add: s3_def)
  from owned_file_result [OF this, of sample_writer i] obtain x where "owned_file sample_writer i s3 = (Inr x, s3)" by blast
  then show ?thesis by (simp add: finish_upload_def try_op_def sbind_def put ver com sreturn_def)
qed

lemma sample_reach_all: "reach_of sample_writer s = Some None"
  by (simp add: reach_of_def sample_writer_def)

lemma sample_object_read: "object_bytes (sample_object ''x'') = [120]"
  by (simp add: object_bytes_def sample_object_def char_byte_def)

theorem uploaded_bytes_stored_witness:
  "\<exists>i t. run_tool (sample_tool_env toy_suite) sample_writer (Upload_file ''n.txt'' (b64encode [120]) None) (sample_tool_state [] []) = (Inr (Reply_saved i), t)
     \<and> (\<exists>(f::file_row) ob. dv_objects (drive_of t) (fl_file_key f) = Some ob \<and> object_bytes ob = [120])"
proof -
  let ?env = "sample_tool_env toy_suite" and ?s = "sample_tool_state [] []"
  have env: "tl_transfer ?env = sample_transfer_env (\<lambda>_. True)" by (simp add: sample_tool_env_def)
  have one: "str_int (tc_user_id sample_writer) = ''1''" by (simp add: sample_writer_def str_int_def str_nat.simps digit_chars)
  have size: "on_files (authorize_upload_size (te_drive (tl_transfer ?env)) (tc_user_id sample_writer) (Some 1)) ?s = (Inr 100, ?s)"
    by (simp add: sample_tool_drive_env sample_writer_def on_app_def on_transfer_def on_drive_def authorize_upload_size_def sample_tool_state_def sbind_def
        read_drive_def quota_decision_def evaluate_storage_quota_def get_user_storage_used_def quota_allowed_def sql_select_def available_bytes_def GB_def
        MB_def py_trunc_def sample_drive_env_def sample_drive_def sreturn_def Let_def)
  obtain r v session where c: "create_upload (sample_transfer_env (\<lambda>_. True)) ''txt'' ''1'' (Some ''n.txt'') None None None (ua_transfer (ts_app ?s)) = (Inr r, v)"
      "ur_object_key r = sample_upload_key" "tf_cache v (ur_upload_id r) = Some (session, 600000002)" "us_object_key session = sample_upload_key"
      "us_multipart_upload_id session = None" "us_folder_id session = None" "us_file_name session = Some ''n.txt''"
      "tf_drive v = (drive_of ?s)\<lparr>dv_ticks := 3\<rparr>"
    using sample_created [of "ua_transfer (ts_app ?s)"] by (auto simp: sample_tool_drive) (auto simp: sample_drive_def)
  define w where "w = ?s\<lparr>ts_app := (ts_app ?s)\<lparr>ua_transfer := v\<rparr>\<rparr>"
  have opened: "on_transfers (create_upload (tl_transfer ?env) ''txt'' ''1'' (Some ''n.txt'') None None None) ?s = (Inr r, w)"
    using c(1) by (simp add: env on_app_def on_transfer_def w_def)
  have put: "put_object ?env sample_upload_key [120] (drive_of w) = (Inr (), (drive_of ?s)\<lparr>dv_objects := (dv_objects (drive_of ?s))(sample_upload_key \<mapsto> new_object [120]), dv_ticks := 4\<rparr>)"
    by (simp add: put_object_def sbind_def sreturn_def sample_names storage_call_def w_def c(8) sample_tool_drive_env) (simp add: sample_drive_env_def)
  obtain i t where f: "finish_upload ?env sample_writer ''uploaded'' r (put_object ?env sample_upload_key [120]) w = (Inr (Reply_saved i), t)"
    using sample_finished [where store = "put_object ?env sample_upload_key [120]" and suite = toy_suite and verb = "''uploaded''",
      OF put _ _ _ _ c(4-7), of r] c(3) by (auto simp: w_def sample_tool_drive sample_drive_def)
  define content where "content = b64encode [120]"
  have content: "b64decode True content = Inr [120]" "length content = 4" by (simp_all only: content_def b64_round_trip length_b64encode) simp
  have run: "run_tool ?env sample_writer (Upload_file ''n.txt'' content None) ?s = (Inr (Reply_saved i), t)"
    using size f by (simp add: tool_upload_file_def authorized_reach sample_reach_all destination_of_def content MAX_UPLOAD_BYTES_def sample_names Let_def one opened sbind_def try_op_def sreturn_def c(2)) (simp add: sample_writer_def)
  from uploaded_bytes_stored [OF run] have "\<exists>(f::file_row) ob. dv_objects (drive_of t) (fl_file_key f) = Some ob \<and> object_bytes ob = [120]"
    unfolding content(1) sum.inject by blast
  then show ?thesis using run unfolding content_def by blast
qed

definition sample_saved_job :: conversion_job where
  "sample_saved_job = (new_job ''j1'' \<lparr>ct_source_format = ''pdf'', ct_target_format = ''txt''\<rparr> ''a.pdf'')
     \<lparr>job_status := Job_COMPLETED, job_output_file := Some ''out/o.txt'', job_user_id := Some 1\<rparr>"

theorem saved_file_is_job_output_witness:
  "\<exists>i t. run_tool (sample_tool_env toy_suite) sample_writer (Save_file ''j1'' None (Some ''n.txt'')) (sample_tool_state [] [job_row_of 0 sample_saved_job])
       = (Inr (Reply_saved i), t)
     \<and> (\<exists>(f::file_row) copy. dv_objects (drive_of t) (fl_file_key f) = Some copy \<and> object_bytes copy = [120])"
proof -
  let ?env = "sample_tool_env toy_suite" and ?s = "sample_tool_state [] [job_row_of 0 sample_saved_job]" and ?out = "''out/o.txt''"
  have env: "tl_transfer ?env = sample_transfer_env (\<lambda>_. True)" by (simp add: sample_tool_env_def)
  have one: "str_int (tc_user_id sample_writer) = ''1''" by (simp add: sample_writer_def str_int_def str_nat.simps digit_chars)
  have "jr_job_id (job_row_of 0 sample_saved_job) = ''j1''" by (simp add: job_row_of_def sample_saved_job_def new_job_def)
  then have row: "get_conversion_job ''j1'' [job_row_of 0 sample_saved_job] = Inr (Some (sample_saved_job\<lparr>job_created_at := Some 0\<rparr>))"
    by (simp add: get_conversion_job_def sql_select_def scalar_one_or_none_def to_entity_row_of)
  obtain job x where got: "on_jobs (get_job (tl_conversion ?env) ''j1'') ?s = (Inr (Some job), x)" and j: "job = sample_saved_job\<lparr>job_created_at := Some 0\<rparr>"
      and ux: "ua_transfer (ts_app x) = ua_transfer (ts_app ?s)"
    using row by (simp add: sample_tool_state_def sample_conversion_state_def on_app_def on_conversion_def get_job_def jobs_read_def sample_tool_env_def
        sample_conversion_env_def Let_def)
  have job: "job_output_file job = Some ?out" "job_status job = Job_COMPLETED" "\<not> job_client_encrypted job" "job_data_key_wrapped job = None"
      "is_job_owner (Some job) (Some (tc_user_id sample_writer))"
    by (simp_all add: j sample_saved_job_def new_job_def is_job_owner_iff sample_writer_def)
  obtain r v session where c: "create_upload (sample_transfer_env (\<lambda>_. True)) ''txt'' ''1'' (Some ''n.txt'') None None None (ua_transfer (ts_app x)) = (Inr r, v)"
      "ur_object_key r = sample_upload_key" "tf_cache v (ur_upload_id r) = Some (session, 600000002)" "us_object_key session = sample_upload_key"
      "us_multipart_upload_id session = None" "us_folder_id session = None" "us_file_name session = Some ''n.txt''"
      "tf_drive v = (drive_of ?s)\<lparr>dv_ticks := 3\<rparr>"
    using sample_created [of "ua_transfer (ts_app x)"] by (auto simp: ux sample_tool_drive) (auto simp: sample_drive_def)
  define w where "w = x\<lparr>ts_app := (ts_app x)\<lparr>ua_transfer := v\<rparr>\<rparr>"
  have opened: "on_transfers (create_upload (tl_transfer ?env) ''txt'' ''1'' (Some ''n.txt'') None None None) x = (Inr r, w)"
    using c(1) by (simp add: env on_app_def on_transfer_def w_def)
  let ?store = "sbind (copy_object ?env ?out sample_upload_key) (\<lambda>_. sreturn (Inr ()))"
  have copied: "?store (drive_of w) = (Inr (), (drive_of ?s)\<lparr>dv_objects := (dv_objects (drive_of ?s))(sample_upload_key \<mapsto> new_object [120]), dv_ticks := 5\<rparr>)"
    by (simp add: copy_object_def sbind_def sreturn_def sample_names storage_call_def w_def c(8) sample_tool_drive_env)
       (simp add: sample_drive_env_def sample_tool_drive sample_drive_def sample_object_read sample_upload_key_def sbind_def storage_call_def sreturn_def)
  obtain i t where f: "finish_upload ?env sample_writer ''saved'' r ?store w = (Inr (Reply_saved i), t)"
    using sample_finished [where store = ?store and suite = toy_suite and verb = "''saved''", OF copied _ _ _ _ c(4-7), of r] c(3)
    by (auto simp: w_def sample_tool_drive sample_drive_def)
  have run: "run_tool ?env sample_writer (Save_file ''j1'' None (Some ''n.txt'')) ?s = (Inr (Reply_saved i), t)"
    using f by (simp add: tool_save_file_def authorized_reach sample_reach_all destination_of_def sbind_def got job truthy_text_def sample_names Let_def one
        opened sreturn_def c(2)) (simp add: sample_writer_def)
  have "fst (get_job (tl_conversion ?env) ''j1'' (ua_conversion (ts_app ?s))) = Inr (Some job)"
    using got by (auto simp: on_app_def on_conversion_def split: prod.splits)
  with saved_file_is_job_output [OF run] job(1)
  have "\<exists>(f::file_row) copy. dv_objects (drive_of t) (fl_file_key f) = Some copy \<and> object_bytes copy = [120]"
    by (auto simp: sample_tool_drive sample_object_read)
  then show ?thesis using run by blast
qed

end
