(* ===== verification/Rate_Limit.thy ===== *)
theory Rate_Limit
  imports Transform_Prelude "HOL-Library.Sublist"
begin

text \<open>
  \<open>middleware/rate_limit.py\<close> and \<open>adapters/security/rate_limiter.py\<close>: which bucket a request falls into, the sliding window of
  Redis, and the fallback in the memory of the process. An instant is a number of microseconds, \<open>int(time.time() * 1000)\<close> its
  milliseconds; the server's clock is the caller's. A sorted set of Redis is an association list of members and scores with the
  instant at which its key expires. SHA-256 of a credential, in hexadecimal, is a parameter. \<open>reset_all\<close>, the audit log and the
  construction from the settings are left out.
\<close>

section \<open>The sliding window of Redis\<close>

type_synonym zset = "(string \<times> int) list"
type_synonym zset_store = "string \<Rightarrow> (zset \<times> int) option"

definition zset_at :: "zset_store \<Rightarrow> string \<Rightarrow> int \<Rightarrow> zset" where
  "zset_at sets k now = (case sets k of None \<Rightarrow> [] | Some (z, expires) \<Rightarrow> if now < expires then z else [])"

definition zremrangebyscore :: "int \<Rightarrow> int \<Rightarrow> zset \<Rightarrow> zset" where
  "zremrangebyscore lo hi z = filter (\<lambda>(m, score). \<not> (lo \<le> score \<and> score \<le> hi)) z"

definition zadd :: "string \<Rightarrow> int \<Rightarrow> zset \<Rightarrow> zset" where
  "zadd m score z = filter (\<lambda>(m', s). m' \<noteq> m) z @ [(m, score)]"

definition now_ms :: "int \<Rightarrow> int" where
  "now_ms now = now div 1000"

definition rate_key :: "string \<Rightarrow> string" where
  "rate_key key = ''ratelimit:'' @ key"

lemma rate_key_inj [simp]: "rate_key k = rate_key k' \<longleftrightarrow> k = k'"
  by (simp add: rate_key_def)

definition redis_remaining :: "string \<Rightarrow> int \<Rightarrow> int \<Rightarrow> int \<Rightarrow> zset_store \<Rightarrow> int \<times> zset_store" where
  "redis_remaining key limit window now sets =
     (let window_start = now_ms now - window * 1000; redis_key = rate_key key;
          z = zadd (str_int (now_ms now)) (now_ms now) (zremrangebyscore 0 window_start (zset_at sets redis_key now));
          current_count = int (length z) in
      (max 0 (limit - current_count), sets(redis_key \<mapsto> (z, now + (window + 1) * 1000000))))"

definition redis_is_allowed :: "string \<Rightarrow> int \<Rightarrow> int \<Rightarrow> int \<Rightarrow> zset_store \<Rightarrow> bool \<times> zset_store" where
  "redis_is_allowed key limit window now sets =
     (let (remaining, sets') = redis_remaining key limit window now sets in (0 < remaining, sets'))"

section \<open>The middleware\<close>

definition AUTH_PATHS :: "string list" where
  "AUTH_PATHS = [''/api/users/token'', ''/api/users/register'', ''/api/users/refresh'', ''/api/users/verify-email'',
     ''/api/users/resend-verification'', ''/api/users/forgot-password'', ''/api/users/reset-password'', ''/api/users/me/password'',
     ''/api/users/me/phone'', ''/api/users/me/phone/resend'', ''/api/users/me/phone/verify'']"

definition IN_MEMORY_MAX_KEYS :: nat where "IN_MEMORY_MAX_KEYS = 10000"

record api_request =
  rq_path :: string
  rq_client :: "string option"
  rq_api_key :: "string option"
  rq_authorization :: "string option"

record rate_settings =
  rs_guest :: int
  rs_free :: int
  rs_api_key :: int
  rs_auth :: int
  rs_authenticated :: int

record limiter =
  rl_redis :: zset_store
  rl_has_redis :: bool
  rl_unavailable :: bool
  rl_store :: "(string \<times> int list) list"

definition resolve_limit :: "rate_settings \<Rightarrow> (string \<Rightarrow> string) \<Rightarrow> api_request \<Rightarrow> string \<times> int" where
  "resolve_limit cfg sha rq =
     (let client_ip = (case rq_client rq of None \<Rightarrow> ''unknown'' | Some ip \<Rightarrow> ip) in
      if rq_path rq \<in> set AUTH_PATHS then (''ip:'' @ client_ip @ '':auth'', rs_auth cfg)
      else case rq_api_key rq of
          Some (c # cs) \<Rightarrow> (''apikey:'' @ sha (c # cs), rs_api_key cfg)
        | _ \<Rightarrow> (case rq_authorization rq of
            Some a \<Rightarrow> if py_startswith (py_lower a) ''bearer ''
              then (''user:'' @ sha (drop 7 a), rs_authenticated cfg)
              else if sublist ''/guest'' (rq_path rq) then (''ip:'' @ client_ip, rs_guest cfg) else (''ip:'' @ client_ip, rs_free cfg)
          | None \<Rightarrow> if sublist ''/guest'' (rq_path rq) then (''ip:'' @ client_ip, rs_guest cfg) else (''ip:'' @ client_ip, rs_free cfg)))"

definition prune_store :: "int \<Rightarrow> int \<Rightarrow> (string \<times> int list) list \<Rightarrow> (string \<times> int list) list" where
  "prune_store now window store =
     (if length store < IN_MEMORY_MAX_KEYS then store
      else let store = filter (\<lambda>(k, ts). \<not> (ts = [] \<or> window * 1000000 \<le> now - last ts)) store in
        if IN_MEMORY_MAX_KEYS \<le> length store
        then let by_recency = sort_key (\<lambda>(k, ts). if ts = [] then 0 else last ts) store;
                 stale = map fst (take (length by_recency - IN_MEMORY_MAX_KEYS div 2) by_recency) in
          filter (\<lambda>(k, ts). k \<notin> set stale) store
        else store)"

fun store_put :: "string \<Rightarrow> int list \<Rightarrow> (string \<times> int list) list \<Rightarrow> (string \<times> int list) list" where
  "store_put k ts [] = [(k, ts)]"
| "store_put k ts ((k', ts') # rest) = (if k' = k then (k, ts) # rest else (k', ts') # store_put k ts rest)"

definition memory_is_allowed :: "string \<Rightarrow> int \<Rightarrow> int \<Rightarrow> int \<Rightarrow> (string \<times> int list) list \<Rightarrow> bool \<times> (string \<times> int list) list" where
  "memory_is_allowed key limit window now store =
     (let store = (if map_of store key = None then store_put key [] (prune_store now window store) else store);
          recent = filter (\<lambda>t. now - t < window * 1000000) (the (map_of store key));
          store = store_put key recent store in
      if limit \<le> int (length recent) then (False, store)
      else (True, store_put key (recent @ [now]) store))"

text \<open>The fate of the pipeline: a transaction, which a lost reply does not undo.\<close>

definition is_allowed :: "string \<Rightarrow> int \<Rightarrow> int \<Rightarrow> int \<Rightarrow> commit_fate \<Rightarrow> limiter \<Rightarrow> bool \<times> limiter" where
  "is_allowed key limit window now fate s =
     (let fallback = (\<lambda>s. let (ok, store) = memory_is_allowed key limit window now (rl_store s) in (ok, s\<lparr>rl_store := store\<rparr>)) in
      if rl_has_redis s \<and> \<not> rl_unavailable s
      then (case fate of
          Commit_ok \<Rightarrow> let (ok, sets) = redis_is_allowed key limit window now (rl_redis s) in (ok, s\<lparr>rl_redis := sets\<rparr>)
        | Commit_lost e \<Rightarrow> fallback (s\<lparr>rl_unavailable := True\<rparr>)
        | Commit_reply_lost e \<Rightarrow> let (ok, sets) = redis_is_allowed key limit window now (rl_redis s) in
            fallback (s\<lparr>rl_redis := sets, rl_unavailable := True\<rparr>))
      else fallback s)"

datatype verdict = Forwarded | Too_many_requests

definition limited_path :: "string \<Rightarrow> bool" where
  "limited_path path = (py_startswith path ''/api/'' \<or> path = ''/mcp'' \<or> py_startswith path ''/mcp/'')"

definition limit_dispatch :: "rate_settings \<Rightarrow> (string \<Rightarrow> string) \<Rightarrow> api_request \<Rightarrow> int \<Rightarrow> commit_fate \<Rightarrow> limiter \<Rightarrow> verdict \<times> limiter" where
  "limit_dispatch cfg sha rq now fate s =
     (if \<not> limited_path (rq_path rq) then (Forwarded, s)
      else let (key, limit) = resolve_limit cfg sha rq; (allowed, s) = is_allowed key limit 60 now fate s in
        (if allowed then Forwarded else Too_many_requests, s))"

section \<open>The fallback is a sliding window\<close>

type_synonym limit_call = "string \<times> int \<times> int"

abbreviation call_time :: "limit_call \<Rightarrow> int" where
  "call_time c \<equiv> snd (snd c)"

fun memory_run :: "int \<Rightarrow> limit_call list \<Rightarrow> (string \<times> int list) list \<Rightarrow> bool list" where
  "memory_run window [] store = []"
| "memory_run window ((key, limit, now) # rest) store =
     (let (ok, store') = memory_is_allowed key limit window now store in ok # memory_run window rest store')"

text \<open>What a sliding window is: a request passes when fewer than the limit passed before it in the last \<open>window\<close> seconds; \<open>log\<close>
  is every instant at which a request of the key ever passed.\<close>

fun window_decisions :: "int \<Rightarrow> (string \<Rightarrow> int list) \<Rightarrow> limit_call list \<Rightarrow> bool list" where
  "window_decisions window past [] = []"
| "window_decisions window past ((key, limit, now) # rest) =
     (let ok = int (length (filter (\<lambda>t. now - t < window * 1000000) (past key))) < limit in
      ok # window_decisions window (if ok then past(key := past key @ [now]) else past) rest)"

fun passed_times :: "string \<Rightarrow> limit_call list \<Rightarrow> bool list \<Rightarrow> int list" where
  "passed_times k ((key, limit, now) # rest) (ok # oks) = (if key = k \<and> ok then [now] else []) @ passed_times k rest oks"
| "passed_times k _ _ = []"

lemma map_of_store_put [simp]: "map_of (store_put k ts store) = (map_of store)(k \<mapsto> ts)"
  by (induction k ts store rule: store_put.induct) auto

lemma store_put_keys: "fst ` set (store_put k ts store) = insert k (fst ` set store)"
  by (induction k ts store rule: store_put.induct) auto

lemma store_put_distinct: "distinct (map fst store) \<Longrightarrow> distinct (map fst (store_put k ts store))"
proof (induction k ts store rule: store_put.induct)
  case (2 k ts k' ts' rest)
  then show ?case using store_put_keys [of k ts rest] by (auto simp: image_iff)
qed simp

definition remembered :: "string \<Rightarrow> (string \<times> int list) list \<Rightarrow> int list" where
  "remembered k store = (case map_of store k of None \<Rightarrow> [] | Some ts \<Rightarrow> ts)"

text \<open>The store knows, of every key, the instants still inside the window.\<close>

definition up_to_date :: "int \<Rightarrow> int \<Rightarrow> (string \<Rightarrow> int list) \<Rightarrow> (string \<times> int list) list \<Rightarrow> bool" where
  "up_to_date w now past store = (\<forall>k. filter (\<lambda>t. now - t < w) (remembered k store) = filter (\<lambda>t. now - t < w) (past k))"

lemma up_to_date_later:
  assumes "up_to_date w now past store" "now \<le> later"
  shows "up_to_date w later past store"
  unfolding up_to_date_def
proof
  fix k
  have later: "filter (\<lambda>t. later - t < w) xs = filter (\<lambda>t. later - t < w) (filter (\<lambda>t. now - t < w) xs)" for xs
    using assms(2) by (induction xs) auto
  show "filter (\<lambda>t. later - t < w) (remembered k store) = filter (\<lambda>t. later - t < w) (past k)"
    using assms(1) later [of "remembered k store"] later [of "past k"] by (simp add: up_to_date_def)
qed

lemma room_for_new_key:
  assumes "distinct (map fst store)" "fst ` set store \<subseteq> K" "finite K" "card K \<le> IN_MEMORY_MAX_KEYS" "key \<in> K" "map_of store key = None"
  shows "prune_store now window store = store"
proof -
  have "key \<notin> fst ` set store" using assms(6) by (simp add: map_of_eq_None_iff)
  then have "card (fst ` set store) < card K" using assms(2,3,5) by (metis psubsetI psubset_card_mono)
  moreover have "card (fst ` set store) = length store" using distinct_card [OF assms(1)] by simp
  ultimately show ?thesis using assms(4) by (simp add: prune_store_def)
qed

lemma memory_step:
  assumes "distinct (map fst store)" "fst ` set store \<subseteq> K" "finite K" "card K \<le> IN_MEMORY_MAX_KEYS" "key \<in> K"
    and inv: "up_to_date (window * 1000000) now past store"
    and ok: "ok = (int (length (filter (\<lambda>t. now - t < window * 1000000) (past key))) < limit)"
  obtains store' where "memory_is_allowed key limit window now store = (ok, store')" "distinct (map fst store')" "fst ` set store' \<subseteq> K"
    "up_to_date (window * 1000000) now (if ok then past(key := past key @ [now]) else past) store'"
proof -
  let ?w = "window * 1000000"
  let ?recent = "filter (\<lambda>t. now - t < ?w) (past key)"
  define base where "base = (if map_of store key = None then store_put key [] store else store)"
  have base: "the (map_of base key) = remembered key store" "distinct (map fst base)" "fst ` set base \<subseteq> K"
      "\<And>k. k \<noteq> key \<Longrightarrow> map_of base k = map_of store k"
    using assms(1,2,5) by (auto simp: base_def remembered_def store_put_keys store_put_distinct split: option.splits)
  have recent: "filter (\<lambda>t. now - t < ?w) (remembered key store) = ?recent" using inv by (simp add: up_to_date_def)
  have "map_of store key = None \<Longrightarrow> prune_store now window store = store" by (rule room_for_new_key [OF assms(1-5)])
  then have run: "memory_is_allowed key limit window now store =
      (if limit \<le> int (length ?recent) then (False, store_put key ?recent base) else (True, store_put key (?recent @ [now]) (store_put key ?recent base)))"
    unfolding memory_is_allowed_def Let_def by (simp add: base_def [symmetric] base(1) recent cong: if_cong)
  define store' where "store' = (if ok then store_put key (?recent @ [now]) (store_put key ?recent base) else store_put key ?recent base)"
  have "memory_is_allowed key limit window now store = (ok, store')" using run ok by (auto simp: store'_def)
  moreover have "distinct (map fst store')" "fst ` set store' \<subseteq> K"
    using base(2,3) assms(5) by (auto simp: store'_def store_put_distinct store_put_keys)
  moreover have "up_to_date ?w now (if ok then past(key := past key @ [now]) else past) store'"
    using inv base(4) by (auto simp: up_to_date_def store'_def remembered_def)
  ultimately show ?thesis by (rule that)
qed

lemma memory_run_exact:
  assumes "sorted (map call_time reqs)" "\<forall>c \<in> set reqs. T \<le> call_time c" "fst ` set reqs \<subseteq> K" "finite K" "card K \<le> IN_MEMORY_MAX_KEYS"
    and "distinct (map fst store)" "fst ` set store \<subseteq> K" "up_to_date (window * 1000000) T past store"
  shows "memory_run window reqs store = window_decisions window past reqs"
  using assms(1-3,6-8)
proof (induction reqs arbitrary: T store past)
  case (Cons c reqs)
  obtain key limit now where c: "c = (key, limit, now)" by (cases c)
  have inv: "up_to_date (window * 1000000) now past store" using up_to_date_later [OF Cons.prems(6)] Cons.prems(2) c by simp
  define ok where "ok = (int (length (filter (\<lambda>t. now - t < window * 1000000) (past key))) < limit)"
  have "key \<in> K" using Cons.prems(3) c by simp
  from memory_step [OF Cons.prems(4,5) assms(4,5) this inv ok_def]
  obtain store' where s: "memory_is_allowed key limit window now store = (ok, store')" "distinct (map fst store')" "fst ` set store' \<subseteq> K"
    "up_to_date (window * 1000000) now (if ok then past(key := past key @ [now]) else past) store'" .
  have "memory_run window reqs store' = window_decisions window (if ok then past(key := past key @ [now]) else past) reqs"
    using Cons.prems(1,3) c by (intro Cons.IH [OF _ _ _ s(2-4)]) auto
  then show ?case using s(1) by (simp add: c ok_def [symmetric] Let_def)
qed simp

lemma memory_run_from_empty:
  assumes "sorted (map call_time reqs)" "card (fst ` set reqs) \<le> IN_MEMORY_MAX_KEYS"
  shows "memory_run window reqs [] = window_decisions window (\<lambda>_. []) reqs"
proof (cases reqs)
  case (Cons c rest)
  have "\<forall>d \<in> set reqs. call_time c \<le> call_time d" using assms(1) Cons by simp
  then show ?thesis
    by (rule memory_run_exact [OF assms(1) _ order_refl _ assms(2)]) (simp_all add: up_to_date_def remembered_def)
qed simp

text \<open>C19: while at most ten thousand keys are in use, the fallback decides every request exactly as a sliding window does over the whole
  history of requests that passed: a refused request does not count, and forgetting expired instants changes nothing.\<close>

theorem fallback_is_sliding_window:
  assumes "sorted (map call_time reqs)" "card (fst ` set reqs) \<le> IN_MEMORY_MAX_KEYS"
  shows "memory_run window reqs [] = window_decisions window (\<lambda>_. []) reqs"
  by (rule memory_run_from_empty [OF assms])

theorem fallback_is_sliding_window_witness:
  "memory_run 60 [(''ip'', 1, 0), (''ip'', 1, 30000000), (''ip'', 1, 60000000)] [] = [True, False, True]"
  by (subst fallback_is_sliding_window) (simp_all add: IN_MEMORY_MAX_KEYS_def)

lemma length_filter_mono: "(\<And>x. x \<in> set xs \<Longrightarrow> P x \<Longrightarrow> Q x) \<Longrightarrow> length (filter P xs) \<le> length (filter Q xs)"
  by (induction xs) auto

lemma window_decisions_bounded:
  assumes "sorted (map call_time reqs)" "\<forall>c \<in> set reqs. T \<le> call_time c" "\<forall>c \<in> set reqs. fst c = k \<longrightarrow> fst (snd c) \<le> L"
    and "\<forall>x \<in> set (past k). x \<le> T" "\<forall>t. length (filter (\<lambda>x. t - w < x \<and> x \<le> t) (past k)) \<le> nat L" and w: "w = window * 1000000"
  shows "length (filter (\<lambda>x. t - w < x \<and> x \<le> t) (past k @ passed_times k reqs (window_decisions window past reqs))) \<le> nat L"
  using assms(1-5)
proof (induction reqs arbitrary: T past)
  case (Cons c reqs)
  obtain key limit now where c: "c = (key, limit, now)" by (cases c)
  define ok where "ok = (int (length (filter (\<lambda>t. now - t < w) (past key))) < limit)"
  define past' where "past' = (if ok then past(key := past key @ [now]) else past)"
  have le: "\<forall>x \<in> set (past k). x \<le> now" "T \<le> now" using Cons.prems(2,4) c by force+
  have "length (filter (\<lambda>x. t - w < x \<and> x \<le> t) (past' k)) \<le> nat L" for t
  proof (cases "key = k \<and> ok \<and> t - w < now \<and> now \<le> t")
    case True
    have "length (filter (\<lambda>x. t - w < x \<and> x \<le> t) (past k)) \<le> length (filter (\<lambda>x. now - x < w) (past k))"
      using True by (intro length_filter_mono) auto
    moreover have "int (length (filter (\<lambda>x. now - x < w) (past k))) < L" using True Cons.prems(3) by (auto simp: ok_def c)
    ultimately show ?thesis using True by (simp add: past'_def)
  next
    case False
    then show ?thesis using Cons.prems(5) by (auto simp: past'_def)
  qed
  moreover have "\<forall>x \<in> set (past' k). x \<le> now" using le by (auto simp: past'_def)
  ultimately have "length (filter (\<lambda>x. t - w < x \<and> x \<le> t) (past' k @ passed_times k reqs (window_decisions window past' reqs))) \<le> nat L"
    using Cons.prems(1,3) c by (intro Cons.IH [where T = now]) auto
  then show ?case by (auto simp: c ok_def [symmetric] w [symmetric] past'_def Let_def)
qed simp

text \<open>under the fallback no window of the given length, wherever it lies, holds more passed requests of a key than the largest limit
  asked for that key; the limits of guests and of free use meet in one key.\<close>

theorem fallback_window_bounded:
  assumes "sorted (map call_time reqs)" "card (fst ` set reqs) \<le> IN_MEMORY_MAX_KEYS" "\<forall>c \<in> set reqs. fst c = k \<longrightarrow> fst (snd c) \<le> L"
  shows "length (filter (\<lambda>x. t - window * 1000000 < x \<and> x \<le> t) (passed_times k reqs (memory_run window reqs []))) \<le> nat L"
proof (cases reqs)
  case (Cons c rest)
  have "\<forall>d \<in> set reqs. call_time c \<le> call_time d" using assms(1) Cons by simp
  from window_decisions_bounded [OF assms(1) this assms(3) _ _ refl, of "\<lambda>_. []" window t]
  show ?thesis unfolding memory_run_from_empty [OF assms(1,2)] by simp
qed simp

theorem fallback_window_bounded_witness:
  "length (filter (\<lambda>x. 59 - 60 * 1000000 < x \<and> x \<le> 59) (passed_times ''ip'' [(''ip'', 1, 0), (''ip'', 1, 30)] (memory_run 60 [(''ip'', 1, 0), (''ip'', 1, 30)] [])))
     \<le> nat 1"
  by (rule fallback_window_bounded) (simp_all add: IN_MEMORY_MAX_KEYS_def)

section \<open>What Redis decides\<close>

fun redis_run :: "int \<Rightarrow> limit_call list \<Rightarrow> zset_store \<Rightarrow> bool list" where
  "redis_run window [] sets = []"
| "redis_run window ((key, limit, now) # rest) sets =
     (let (ok, sets') = redis_is_allowed key limit window now sets in ok # redis_run window rest sets')"

text \<open>Every request counts, passed or not, itself included, but those of one millisecond count once: \<open>seen\<close> is every
  millisecond in which the key ever asked.\<close>

fun millisecond_decisions :: "int \<Rightarrow> (string \<Rightarrow> int set) \<Rightarrow> limit_call list \<Rightarrow> bool list" where
  "millisecond_decisions window seen [] = []"
| "millisecond_decisions window seen ((key, limit, now) # rest) =
     (int (card (insert (now_ms now) {m \<in> seen key. now_ms now - window * 1000 < m})) < limit)
      # millisecond_decisions window (seen(key := insert (now_ms now) (seen key))) rest"

definition zset_sound :: "int \<Rightarrow> int \<Rightarrow> int set \<Rightarrow> (zset \<times> int) option \<Rightarrow> bool" where
  "zset_sound window T ms entry = (case entry of None \<Rightarrow> ms = {}
     | Some (z, expires) \<Rightarrow> distinct (map snd z) \<and> (\<forall>(m, score) \<in> set z. m = str_int score) \<and> (\<forall>m \<in> ms. 0 \<le> m)
        \<and> (\<exists>last \<le> T. expires = last + (window + 1) * 1000000 \<and> (\<forall>m \<in> ms. m \<le> now_ms last)
             \<and> snd ` set z = {m \<in> ms. now_ms last - window * 1000 < m}))"

lemma zset_sound_later: "zset_sound window T ms entry \<Longrightarrow> T \<le> now \<Longrightarrow> zset_sound window now ms entry"
  by (fastforce simp: zset_sound_def split: option.splits prod.splits)

lemma redis_step:
  assumes "zset_sound window now ms (sets (rate_key key))" "0 \<le> now" "0 < window"
  obtains z e where "redis_is_allowed key limit window now sets =
      (int (card (insert (now_ms now) {m \<in> ms. now_ms now - window * 1000 < m})) < limit, sets(rate_key key \<mapsto> (z, e)))"
    "zset_sound window now (insert (now_ms now) ms) (Some (z, e))"
proof -
  let ?k = "rate_key key" and ?n = "now_ms now" and ?lo = "now_ms now - window * 1000"
  define old where "old = zremrangebyscore 0 ?lo (zset_at sets ?k now)"
  define z where "z = zadd (str_int ?n) ?n old"
  have members: "\<forall>(m, score) \<in> set old. m = str_int score" and dist: "distinct (map snd old)"
    and scores: "snd ` set old = {m \<in> ms. ?lo < m}" and ms: "\<forall>m \<in> ms. 0 \<le> m \<and> m \<le> ?n"
  proof -
    have "(\<forall>(m, score) \<in> set old. m = str_int score) \<and> distinct (map snd old) \<and> snd ` set old = {m \<in> ms. ?lo < m} \<and> (\<forall>m \<in> ms. 0 \<le> m \<and> m \<le> ?n)"
    proof (cases "sets ?k")
      case None
      then show ?thesis using assms(1) by (simp add: zset_sound_def old_def zset_at_def zremrangebyscore_def)
    next
      case (Some entry)
      then obtain z0 e0 where e: "sets ?k = Some (z0, e0)" by (cases entry) auto
      with assms(1) obtain last where a: "distinct (map snd z0)" "\<forall>(m, score) \<in> set z0. m = str_int score" "\<forall>m \<in> ms. 0 \<le> m" "last \<le> now"
          "e0 = last + (window + 1) * 1000000" "\<forall>m \<in> ms. m \<le> now_ms last" "snd ` set z0 = {m \<in> ms. now_ms last - window * 1000 < m}"
        by (auto simp: zset_sound_def)
      have mono: "now_ms last \<le> ?n" using a(4) by (simp add: now_ms_def zdiv_mono1)
      show ?thesis
      proof (cases "now < e0")
        case True
        then have old: "old = filter (\<lambda>(m, score). \<not> (0 \<le> score \<and> score \<le> ?lo)) z0" by (simp add: old_def zset_at_def e zremrangebyscore_def)
        have d: "distinct (map snd old)" unfolding old using a(1) by (rule distinct_map_filter)
        have "snd ` set old = {m \<in> snd ` set z0. \<not> (0 \<le> m \<and> m \<le> ?lo)}" unfolding old by force
        then have "snd ` set old = {m \<in> ms. ?lo < m}" using a(3,7) mono by (auto simp del: set_filter)
        moreover have "\<forall>(m, score) \<in> set old. m = str_int score" using a(2) by (simp add: old split_beta)
        ultimately show ?thesis using d a(3,6) mono by (intro conjI ballI) (assumption | fastforce)+
      next
        case False
        then have "old = []" by (simp add: old_def zset_at_def e zremrangebyscore_def)
        moreover have "now_ms last + (window + 1) * 1000 \<le> ?n" using False a(5) by (simp add: now_ms_def)
        ultimately show ?thesis using a(3,6) mono by fastforce
      qed
    qed
    then show "\<forall>(m, score) \<in> set old. m = str_int score" "distinct (map snd old)" "snd ` set old = {m \<in> ms. ?lo < m}" "\<forall>m \<in> ms. 0 \<le> m \<and> m \<le> ?n"
      by blast+
  qed
  have z: "z = filter (\<lambda>(m, score). score \<noteq> ?n) old @ [(str_int ?n, ?n)]"
    using members str_int_inj by (auto simp: z_def zadd_def intro!: filter_cong)
  have zdist: "distinct (map snd z)" using distinct_map_filter [OF dist] by (auto simp: z)
  have zset: "snd ` set z = insert ?n {m \<in> ms. ?lo < m}" unfolding scores [symmetric] z by force
  have "int (length z) = int (card (insert ?n {m \<in> ms. ?lo < m}))"
    using distinct_card [OF zdist] zset by simp
  then have "redis_is_allowed key limit window now sets =
      (int (card (insert ?n {m \<in> ms. ?lo < m})) < limit, sets(?k \<mapsto> (z, now + (window + 1) * 1000000)))"
    by (auto simp: redis_is_allowed_def redis_remaining_def Let_def old_def [symmetric] z_def [symmetric])
  moreover have "zset_sound window now (insert ?n ms) (Some (z, now + (window + 1) * 1000000))"
  proof -
    have "\<forall>(m, score) \<in> set z. m = str_int score" using members by (auto simp: z)
    moreover have "0 \<le> ?n" using assms(2) by (simp add: now_ms_def)
    moreover have "insert ?n {m \<in> ms. ?lo < m} = {m \<in> insert ?n ms. ?lo < m}" using assms(3) by auto
    ultimately show ?thesis using zdist zset ms unfolding zset_sound_def by auto
  qed
  ultimately show ?thesis by (rule that)
qed

lemma redis_run_exact:
  assumes "sorted (map call_time reqs)" "\<forall>c \<in> set reqs. T \<le> call_time c" "0 \<le> T" "0 < window"
    and "\<forall>k. zset_sound window T (seen k) (sets (rate_key k))"
  shows "redis_run window reqs sets = millisecond_decisions window seen reqs"
  using assms(1-3,5)
proof (induction reqs arbitrary: T sets seen)
  case (Cons c reqs)
  obtain key limit now where c: "c = (key, limit, now)" by (cases c)
  have now: "T \<le> now" "0 \<le> now" using Cons.prems(2,3) c by auto
  have sound: "zset_sound window now (seen k) (sets (rate_key k))" for k using zset_sound_later [OF _ now(1)] Cons.prems(4) by blast
  obtain z e where step: "redis_is_allowed key limit window now sets =
      (int (card (insert (now_ms now) {m \<in> seen key. now_ms now - window * 1000 < m})) < limit, sets(rate_key key \<mapsto> (z, e)))"
    "zset_sound window now (insert (now_ms now) (seen key)) (Some (z, e))"
    by (rule redis_step [where sets = sets and key = key, OF sound now(2) assms(4)])
  have "redis_run window reqs (sets(rate_key key \<mapsto> (z, e))) = millisecond_decisions window (seen(key := insert (now_ms now) (seen key))) reqs"
  proof (rule Cons.IH)
    show "sorted (map call_time reqs)" "\<forall>d \<in> set reqs. now \<le> call_time d" using Cons.prems(1) c by auto
    show "\<forall>k. zset_sound window now ((seen(key := insert (now_ms now) (seen key))) k) ((sets(rate_key key \<mapsto> (z, e))) (rate_key k))"
      using step(2) sound by simp
  qed (rule now(2))
  then show ?case by (simp add: c step(1))
qed simp

lemma redis_from_empty:
  assumes "sorted (map call_time reqs)" "\<forall>c \<in> set reqs. 0 \<le> call_time c" "0 < window"
  shows "redis_run window reqs Map.empty = millisecond_decisions window (\<lambda>_. {}) reqs"
  by (rule redis_run_exact [OF assms(1,2) order_refl assms(3)]) (simp add: zset_sound_def)

text \<open>C20: the limiter on Redis counts milliseconds, not requests, and counts the request it judges and those it refused. Any number of
  requests in one millisecond pass together when the limit is above one, and none does otherwise. A client that asks once
  a second, however patiently, has its request \<open>i + 1\<close> pass just when the smaller of \<open>i + 1\<close> and 60 is below the
  limit: with a limit of at most 60 it passes one time less than the limit and then never again, with a
  larger one it is never stopped.\<close>

theorem redis_counts_milliseconds:
  assumes "0 \<le> now"
  shows "redis_run 60 (replicate n (key, limit, now)) Map.empty = replicate n (1 < limit)
    \<and> redis_run 60 (map (\<lambda>i. (key, limit, now + int i * 1000000)) [0..<n]) Map.empty = map (\<lambda>i. int (min (Suc i) 60) < limit) [0..<n]"
proof -
  have same: "millisecond_decisions 60 seen (replicate n (key, limit, now)) = replicate n (1 < limit)" if "seen key \<subseteq> {now_ms now}" for n seen
    using that
  proof (induction n arbitrary: seen)
    case (Suc n)
    have one: "insert (now_ms now) {m \<in> seen key. now_ms now - 60000 < m} = {now_ms now}" using Suc.prems by auto
    have "card (insert (now_ms now) {m \<in> seen key. now_ms now - 60000 < m}) = 1" unfolding one by simp
    moreover have "(seen(key := insert (now_ms now) (seen key))) key \<subseteq> {now_ms now}" using Suc.prems by simp
    ultimately show ?case using Suc.IH by simp
  qed simp
  have "sorted (map call_time (replicate n (key, limit, now)))" by (simp add: sorted_replicate)
  then have burst: "redis_run 60 (replicate n (key, limit, now)) Map.empty = replicate n (1 < limit)"
    using redis_from_empty [of "replicate n (key, limit, now)" 60] same [of "\<lambda>_. {}" n] assms(1) by simp
  define tick where "tick = (\<lambda>i. now_ms now + int i * 1000)"
  have ms: "now_ms (now + int i * 1000000) = tick i" for i by (simp add: now_ms_def tick_def)
  have inj: "inj_on tick A" for A by (auto simp: tick_def inj_on_def)
  have run: "millisecond_decisions 60 (\<lambda>k. if k = key then tick ` {..<j} else {}) (map (\<lambda>i. (key, limit, now + int i * 1000000)) [j..<n])
      = map (\<lambda>i. int (min (Suc i) 60) < limit) [j..<n]" if "j \<le> n" for j
    using that
  proof (induction "n - j" arbitrary: j)
    case (Suc d)
    then have j: "j < n" "d = n - Suc j" by auto
    have "insert (tick j) {m \<in> tick ` {..<j}. tick j - 60000 < m} = tick ` {max 0 (Suc j - 60)..j}"
      by (auto simp: tick_def image_iff)
    then have card: "card (insert (tick j) {m \<in> tick ` {..<j}. tick j - 60000 < m}) = min (Suc j) 60"
      by (simp add: card_image [OF inj])
    have next_seen: "(\<lambda>k. if k = key then tick ` {..<j} else {})(key := insert (tick j) (tick ` {..<j})) = (\<lambda>k. if k = key then tick ` {..<Suc j} else {})"
      by (rule ext) (simp add: lessThan_Suc)
    have "millisecond_decisions 60 (\<lambda>k. if k = key then tick ` {..<Suc j} else {}) (map (\<lambda>i. (key, limit, now + int i * 1000000)) [Suc j..<n])
        = map (\<lambda>i. int (min (Suc i) 60) < limit) [Suc j..<n]" by (rule Suc.hyps(1)) (use j in auto)
    then show ?case using j(1) card next_seen by (simp add: upt_conv_Cons ms del: fun_upd_apply)
  qed simp
  have "sorted (map call_time (map (\<lambda>i. (key, limit, now + int i * 1000000)) [0..<n]))"
    by (simp add: comp_def sorted_map)
  then have "redis_run 60 (map (\<lambda>i. (key, limit, now + int i * 1000000)) [0..<n]) Map.empty = map (\<lambda>i. int (min (Suc i) 60) < limit) [0..<n]"
    using redis_from_empty [of "map (\<lambda>i. (key, limit, now + int i * 1000000)) [0..<n]" 60] run [of 0] assms(1)
    by (simp add: fun_eq_iff [of "\<lambda>k. if k = key then tick ` {..<0} else {}" "\<lambda>_. {}"] cong: if_cong)
  with burst show ?thesis by blast
qed

theorem redis_counts_milliseconds_witness:
  "redis_run 60 (replicate 1000 (''ip'', 10, 5)) Map.empty = replicate 1000 True
     \<and> redis_run 60 (map (\<lambda>i. (''ip'', 10, 5 + int i * 1000000)) [0..<1000]) Map.empty = map (\<lambda>i. int (min (Suc i) 60) < 10) [0..<1000]
     \<and> redis_run 60 (map (\<lambda>i. (''ip'', 100, 5 + int i * 1000000)) [0..<1000]) Map.empty = map (\<lambda>i. int (min (Suc i) 60) < 100) [0..<1000]"
  using redis_counts_milliseconds [of 5 1000 "''ip''" 10] redis_counts_milliseconds [of 5 1000 "''ip''" 100] by (simp del: upt.simps)

section \<open>Who is limited\<close>

fun dispatch_run :: "rate_settings \<Rightarrow> (string \<Rightarrow> string) \<Rightarrow> (api_request \<times> int \<times> commit_fate) list \<Rightarrow> limiter \<Rightarrow> verdict list" where
  "dispatch_run cfg sha [] s = []"
| "dispatch_run cfg sha ((rq, now, fate) # rest) s = (let (v, s') = limit_dispatch cfg sha rq now fate s in v # dispatch_run cfg sha rest s')"

definition unused :: "string \<Rightarrow> limiter \<Rightarrow> bool" where
  "unused key s = (rl_redis s (rate_key key) = None \<and> map_of (rl_store s) key = None)"

lemma map_of_filtered: "map_of store k = None \<Longrightarrow> map_of (filter P store) k = None"
  by (auto simp: map_of_eq_None_iff)

lemma map_of_pruned: "map_of store k = None \<Longrightarrow> map_of (prune_store now window store) k = None"
  by (simp add: prune_store_def Let_def map_of_filtered)

lemma fresh_memory:
  assumes "map_of store key = None" "0 < limit"
  shows "\<exists>store'. memory_is_allowed key limit window now store = (True, store')
    \<and> (\<forall>k. k \<noteq> key \<longrightarrow> map_of store k = None \<longrightarrow> map_of store' k = None)"
  using assms by (auto simp: memory_is_allowed_def Let_def map_of_pruned)

lemma fresh_redis:
  assumes "sets (rate_key key) = None" "1 < limit"
  shows "\<exists>sets'. redis_is_allowed key limit window now sets = (True, sets') \<and> (\<forall>k. k \<noteq> key \<longrightarrow> sets' (rate_key k) = sets (rate_key k))"
  using assms by (auto simp: redis_is_allowed_def redis_remaining_def zset_at_def zremrangebyscore_def zadd_def Let_def)

lemma fresh_allowed:
  assumes "unused key s" "1 < limit"
  shows "\<exists>s'. is_allowed key limit 60 now fate s = (True, s') \<and> (\<forall>k. k \<noteq> key \<longrightarrow> unused k s \<longrightarrow> unused k s')"
proof -
  have u: "rl_redis s (rate_key key) = None" "map_of (rl_store s) key = None" using assms(1) by (simp_all add: unused_def)
  obtain store' where m: "memory_is_allowed key limit 60 now (rl_store s) = (True, store')"
    "\<forall>k. k \<noteq> key \<longrightarrow> map_of (rl_store s) k = None \<longrightarrow> map_of store' k = None" using fresh_memory [OF u(2), of limit 60 now] assms(2) by auto
  obtain sets' where r: "redis_is_allowed key limit 60 now (rl_redis s) = (True, sets')"
    "\<forall>k. k \<noteq> key \<longrightarrow> sets' (rate_key k) = rl_redis s (rate_key k)" using fresh_redis [where sets = "rl_redis s", OF u(1) assms(2)] by blast
  show ?thesis using m r by (cases fate) (auto simp: is_allowed_def Let_def unused_def)
qed

text \<open>a client that makes up a new bearer token for every request is never limited outside of the paths of the credentials, whatever its
  address, with Redis and without: the bucket is chosen by the token before anything asks whether the token is one.\<close>

theorem made_up_tokens_unlimited:
  assumes "1 < rs_authenticated cfg" "inj sha" "distinct (map (\<lambda>c. drop 7 (the (rq_authorization (fst c)))) calls)"
    and "\<forall>c \<in> set calls. rq_path (fst c) \<notin> set AUTH_PATHS \<and> rq_api_key (fst c) = None
      \<and> (\<exists>token. rq_authorization (fst c) = Some (''Bearer '' @ token) \<and> unused (''user:'' @ sha token) s)"
  shows "dispatch_run cfg sha calls s = replicate (length calls) Forwarded"
  using assms(3,4)
proof (induction calls arbitrary: s)
  case (Cons call calls)
  obtain rq now fate where call: "call = (rq, now, fate)" by (cases call)
  obtain token where t: "rq_path rq \<notin> set AUTH_PATHS" "rq_api_key rq = None" "rq_authorization rq = Some (''Bearer '' @ token)"
    "unused (''user:'' @ sha token) s" using Cons.prems(2) call by auto
  have "lower_char (CHR ''B'') = CHR ''b''" by (simp add: lower_char_def char_of_def bit_0)
  then have bearer: "py_startswith (py_lower (''Bearer '' @ token)) ''bearer ''" by (simp add: py_startswith_def py_lower_def) (simp add: lower_char_def)
  have key: "resolve_limit cfg sha rq = (''user:'' @ sha token, rs_authenticated cfg)"
    unfolding resolve_limit_def Let_def using t(1-3) bearer by simp
  obtain s' where s': "is_allowed (''user:'' @ sha token) (rs_authenticated cfg) 60 now fate s = (True, s')"
    "\<forall>k. k \<noteq> ''user:'' @ sha token \<longrightarrow> unused k s \<longrightarrow> unused k s'" using fresh_allowed [OF t(4) assms(1)] by blast
  obtain s2 where d: "limit_dispatch cfg sha rq now fate s = (Forwarded, s2)" "s2 = s \<or> s2 = s'"
  proof (cases "limited_path (rq_path rq)")
    case True
    then have "limit_dispatch cfg sha rq now fate s = (Forwarded, s')" by (simp only: limit_dispatch_def key Let_def prod.case s'(1) if_True not_True_eq_False if_False)
    then show ?thesis by (rule that) simp
  next
    case False
    then have "limit_dispatch cfg sha rq now fate s = (Forwarded, s)" by (simp add: limit_dispatch_def)
    then show ?thesis by (rule that) simp
  qed
  have "dispatch_run cfg sha calls s2 = replicate (length calls) Forwarded"
  proof (rule Cons.IH)
    show "distinct (map (\<lambda>c. drop 7 (the (rq_authorization (fst c)))) calls)" using Cons.prems(1) by simp
    show "\<forall>c \<in> set calls. rq_path (fst c) \<notin> set AUTH_PATHS \<and> rq_api_key (fst c) = None
      \<and> (\<exists>token. rq_authorization (fst c) = Some (''Bearer '' @ token) \<and> unused (''user:'' @ sha token) s2)"
    proof
      fix c assume mem: "c \<in> set calls"
      then obtain token' where t': "rq_path (fst c) \<notin> set AUTH_PATHS" "rq_api_key (fst c) = None"
        "rq_authorization (fst c) = Some (''Bearer '' @ token')" "unused (''user:'' @ sha token') s" using Cons.prems(2) by (meson list.set_intros(2))
      have "drop 7 (the (rq_authorization (fst c))) \<noteq> drop 7 (the (rq_authorization rq))" using Cons.prems(1) mem call by (force simp: image_iff)
      then have "token' \<noteq> token" using t(3) t'(3) by simp
      then have "''user:'' @ sha token' \<noteq> ''user:'' @ sha token" using assms(2) by (simp add: inj_eq)
      then show "rq_path (fst c) \<notin> set AUTH_PATHS \<and> rq_api_key (fst c) = None
          \<and> (\<exists>token. rq_authorization (fst c) = Some (''Bearer '' @ token) \<and> unused (''user:'' @ sha token) s2)"
        using t' d(2) s'(2) by blast
    qed
  qed
  then show ?case by (simp add: call d(1))
qed simp

definition sample_limiter :: limiter where
  "sample_limiter = \<lparr>rl_redis = Map.empty, rl_has_redis = True, rl_unavailable = False, rl_store = []\<rparr>"

definition sample_rates :: rate_settings where
  "sample_rates = \<lparr>rs_guest = 10, rs_free = 30, rs_api_key = 1000, rs_auth = 10, rs_authenticated = 600\<rparr>"

definition token_call :: "nat \<Rightarrow> api_request \<times> int \<times> commit_fate" where
  "token_call i = (\<lparr>rq_path = ''/api/v1/files'', rq_client = Some ''9.9.9.9'', rq_api_key = None,
     rq_authorization = Some (''Bearer '' @ replicate i CHR ''x'')\<rparr>, 5, Commit_ok)"

theorem made_up_tokens_unlimited_witness:
  "dispatch_run sample_rates id (map token_call [0..<5000]) sample_limiter = replicate 5000 Forwarded"
proof -
  have path: "''/api/v1/files'' \<notin> set AUTH_PATHS" by (simp add: AUTH_PATHS_def)
  have "distinct (map (\<lambda>c. drop 7 (the (rq_authorization (fst c)))) (map token_call [0..<5000]))"
    by (simp add: token_call_def distinct_map inj_on_def)
  moreover have "\<forall>c \<in> set (map token_call [0..<5000]). rq_path (fst c) \<notin> set AUTH_PATHS \<and> rq_api_key (fst c) = None
      \<and> (\<exists>token. rq_authorization (fst c) = Some (''Bearer '' @ token) \<and> unused (''user:'' @ id token) sample_limiter)"
    using path by (auto simp: token_call_def unused_def sample_limiter_def)
  ultimately show ?thesis
    using made_up_tokens_unlimited [of sample_rates id "map token_call [0..<5000]" sample_limiter] by (simp add: sample_rates_def)
qed

text \<open>Paths of the credentials are counted by address, whatever the headers say; one failure of Redis and this process never asks it again.\<close>

lemma credential_paths_by_address:
  "rq_path rq \<in> set AUTH_PATHS \<Longrightarrow> rq_path rq' \<in> set AUTH_PATHS \<Longrightarrow> rq_client rq = rq_client rq'
     \<Longrightarrow> resolve_limit cfg sha rq = resolve_limit cfg sha rq'"
  by (simp add: resolve_limit_def)

lemma degraded_for_good:
  "rl_unavailable s \<Longrightarrow> limit_dispatch cfg sha rq now fate s = (v, t) \<Longrightarrow> rl_unavailable t \<and> rl_redis t = rl_redis s"
  by (auto simp: limit_dispatch_def is_allowed_def Let_def split: if_splits prod.splits)

end
