(* ===== verification/Workflows.thy ===== *)
theory Workflows
  imports Upload_Transfer Runtime_Config
begin

text \<open>
  Saved workflows: \<open>domain/workflows/entities/saved_workflow.py\<close>, the table and its repository (\<open>sql_saved_workflow_repo.py\<close>), the service
  and the router. A run resolves its files in the Drive and hands them to the batches of \<open>Conversion_Service\<close>. An
  \<open>InvalidWorkflowError\<close> is the \<^const>\<open>ValueError\<close> it derives from; other sessions may write before every statement. The foreign key
  to the caller's account holds. Definitions come as JSON, a request's as the schema dumps it; \<open>wf_float\<close> prints a float.
\<close>

section \<open>Definitions\<close>

record workflow_operation =
  wo_type :: string
  wo_target_format :: string

record workflow_definition =
  wd_source :: string
  wd_operations :: "workflow_operation list"

record saved_workflow =
  sw_workflow_id :: string
  sw_user_id :: int
  sw_name :: string
  sw_definition :: workflow_definition
  sw_description :: string
  sw_created_at :: "int option"
  sw_updated_at :: "int option"

definition OPERATION_CONVERT :: string where "OPERATION_CONVERT = ''convert''"
definition SUPPORTED_OPERATIONS :: "string list" where "SUPPORTED_OPERATIONS = [OPERATION_CONVERT]"
definition MAX_OPERATIONS :: nat where "MAX_OPERATIONS = 10"
definition MAX_WORKFLOW_NAME :: nat where "MAX_WORKFLOW_NAME = 80"
definition MAX_WORKFLOW_DESCRIPTION :: nat where "MAX_WORKFLOW_DESCRIPTION = 400"
definition MAX_FORMAT_LENGTH :: nat where "MAX_FORMAT_LENGTH = 20"
definition SOURCE_SELECT_AT_RUN :: string where "SOURCE_SELECT_AT_RUN = ''select_at_run''"

definition operation_to_dict :: "workflow_operation \<Rightarrow> json" where
  "operation_to_dict op' = J_obj [(''type'', J_str (wo_type op')), (''target_format'', J_str (wo_target_format op'))]"

definition definition_to_dict :: "workflow_definition \<Rightarrow> json" where
  "definition_to_dict d = J_obj [(''source'', J_str (wd_source d)), (''operations'', J_list (map operation_to_dict (wd_operations d)))]"

definition target_formats :: "workflow_definition \<Rightarrow> string list" where
  "target_formats d = from_keys (map wo_target_format (wd_operations d))"

abbreviation invalid_workflow :: "string \<Rightarrow> 'a result" where
  "invalid_workflow m \<equiv> Inl (ValueError m)"

definition normalise_format :: "json \<Rightarrow> nat \<Rightarrow> string result" where
  "normalise_format value index = (case value of
      J_str v \<Rightarrow> (let cleaned = py_lower (lstrip_dots (py_strip v)) in
        if cleaned = [] then invalid_workflow (''Operation '' @ str_int (int index) @ '' has an empty target_format.'')
        else if MAX_FORMAT_LENGTH < length cleaned
        then invalid_workflow (''Operation '' @ str_int (int index) @ '' target_format is longer than 20 characters.'')
        else Inr cleaned)
    | _ \<Rightarrow> invalid_workflow (''Operation '' @ str_int (int index) @ '' is missing a target_format.''))"

text \<open>\<open>op_type not in SUPPORTED_OPERATIONS\<close> on a frozen set: a list or an object cannot be hashed.\<close>

definition parse_operation :: "(rat \<Rightarrow> string) \<Rightarrow> nat \<Rightarrow> json \<Rightarrow> workflow_operation result" where
  "parse_operation fl index item = (case item of
      J_obj d \<Rightarrow> (case j_get d ''type'' of
          J_list v \<Rightarrow> Inl (TypeError (''unhashable type: '' @ py_repr ''list''))
        | J_obj v \<Rightarrow> Inl (TypeError (''unhashable type: '' @ py_repr ''dict''))
        | op_type \<Rightarrow>
          if op_type \<notin> J_str ` set SUPPORTED_OPERATIONS
          then invalid_workflow (''Operation '' @ str_int (int index) @ '' has unsupported type '' @ json_repr fl op_type @ ''.'')
          else rbind (normalise_format (j_get d ''target_format'') index) (\<lambda>f.
            Inr \<lparr>wo_type = json_str fl op_type, wo_target_format = f\<rparr>))
    | _ \<Rightarrow> invalid_workflow (''Operation '' @ str_int (int index) @ '' must be an object.''))"

fun parse_operations :: "(rat \<Rightarrow> string) \<Rightarrow> nat \<Rightarrow> json list \<Rightarrow> workflow_operation list result" where
  "parse_operations fl index [] = Inr []"
| "parse_operations fl index (item # items) =
     rbind (parse_operation fl index item) (\<lambda>x. rbind (parse_operations fl (Suc index) items) (\<lambda>xs. Inr (x # xs)))"

definition parse_definition :: "(rat \<Rightarrow> string) \<Rightarrow> json \<Rightarrow> workflow_definition result" where
  "parse_definition fl raw = (case raw of
      J_obj d \<Rightarrow> (let source = (case map_of d ''source'' of None \<Rightarrow> J_str SOURCE_SELECT_AT_RUN | Some v \<Rightarrow> v) in
        if source \<noteq> J_str SOURCE_SELECT_AT_RUN
        then invalid_workflow (''Unsupported workflow source '' @ json_repr fl source @ ''; only '' @ py_repr SOURCE_SELECT_AT_RUN @ '' is supported.'')
        else case j_get d ''operations'' of
            J_list items \<Rightarrow>
              if items = [] then invalid_workflow ''A workflow must contain at least one operation.''
              else if MAX_OPERATIONS < length items then invalid_workflow ''A workflow may contain at most 10 operations.''
              else rbind (parse_operations fl 0 items) (\<lambda>ops. Inr \<lparr>wd_source = json_str fl source, wd_operations = ops\<rparr>)
          | _ \<Rightarrow> invalid_workflow ''A workflow must contain at least one operation.'')
    | _ \<Rightarrow> invalid_workflow ''Workflow definition must be an object.'')"

definition validate_workflow_name :: "string option \<Rightarrow> string result" where
  "validate_workflow_name name = (let cleaned = py_strip (case name of None \<Rightarrow> [] | Some n \<Rightarrow> n) in
     if cleaned = [] then invalid_workflow ''A workflow name is required.''
     else if MAX_WORKFLOW_NAME < length cleaned then invalid_workflow ''A workflow name may be at most 80 characters.''
     else Inr cleaned)"

definition validate_workflow_description :: "string option \<Rightarrow> string result" where
  "validate_workflow_description description = (let cleaned = py_strip (case description of None \<Rightarrow> [] | Some d \<Rightarrow> d) in
     if MAX_WORKFLOW_DESCRIPTION < length cleaned then invalid_workflow ''A workflow description may be at most 400 characters.''
     else Inr cleaned)"

section \<open>The table\<close>

record workflow_row =
  wr_workflow_id :: string
  wr_user_id :: int
  wr_name :: string
  wr_description :: string
  wr_definition :: json
  wr_created_at :: int
  wr_updated_at :: int

record workflow_state =
  ws_rows :: "workflow_row list"
  ws_app :: upload_app
  ws_ticks :: nat

record workflow_env =
  wf_uuid :: "nat \<Rightarrow> string"
  wf_clock :: "nat \<Rightarrow> int"
  wf_rival :: "nat \<Rightarrow> workflow_row list \<Rightarrow> workflow_row list"
  wf_float :: "rat \<Rightarrow> string"
  wf_max_batch_files :: nat
  wf_tier :: "int \<Rightarrow> subscription_tier"
  wf_conversion :: conversion_env

type_synonym 'a workflow_op = "workflow_state \<Rightarrow> 'a result \<times> workflow_state"

text \<open>One statement on the rows as other sessions left them, at one instant.\<close>

definition on_rows :: "workflow_env \<Rightarrow> (int \<Rightarrow> workflow_row list \<Rightarrow> 'a result \<times> workflow_row list) \<Rightarrow> 'a workflow_op" where
  "on_rows env f s = (let n = ws_ticks s; (r, rows) = f (wf_clock env n) (wf_rival env n (ws_rows s)) in (r, s\<lparr>ws_rows := rows, ws_ticks := Suc n\<rparr>))"

definition row_of_user :: "string \<Rightarrow> int \<Rightarrow> workflow_row \<Rightarrow> bool" where
  "row_of_user workflow_id user_id r = (wr_workflow_id r = workflow_id \<and> wr_user_id r = user_id)"

definition workflow_to_entity :: "(rat \<Rightarrow> string) \<Rightarrow> workflow_row \<Rightarrow> saved_workflow result" where
  "workflow_to_entity fl row = (case parse_definition fl (wr_definition row) of
      Inl (ValueError m) \<Rightarrow> invalid_workflow (''Stored workflow '' @ wr_workflow_id row @ '' has an invalid definition: '' @ m)
    | Inl e \<Rightarrow> Inl e
    | Inr d \<Rightarrow> Inr \<lparr>sw_workflow_id = wr_workflow_id row, sw_user_id = wr_user_id row, sw_name = wr_name row, sw_definition = d,
        sw_description = wr_description row, sw_created_at = Some (wr_created_at row), sw_updated_at = Some (wr_updated_at row)\<rparr>)"

definition create_workflow_row :: "workflow_env \<Rightarrow> saved_workflow \<Rightarrow> unit workflow_op" where
  "create_workflow_row env w = on_rows env (\<lambda>now rows.
     if sw_workflow_id w \<in> wr_workflow_id ` set rows then (Inl IntegrityError, rows)
     else (Inr (), rows @ [\<lparr>wr_workflow_id = sw_workflow_id w, wr_user_id = sw_user_id w, wr_name = sw_name w, wr_description = sw_description w,
       wr_definition = definition_to_dict (sw_definition w), wr_created_at = now, wr_updated_at = now\<rparr>]))"

definition update_workflow_row :: "workflow_env \<Rightarrow> saved_workflow \<Rightarrow> bool workflow_op" where
  "update_workflow_row env w = on_rows env (\<lambda>now rows. let P = row_of_user (sw_workflow_id w) (sw_user_id w) in
     (Inr (\<exists>r \<in> set rows. P r), sql_update P (\<lambda>r. r\<lparr>wr_name := sw_name w, wr_description := sw_description w,
        wr_definition := definition_to_dict (sw_definition w), wr_updated_at := now\<rparr>) rows))"

definition delete_workflow_row :: "workflow_env \<Rightarrow> string \<Rightarrow> int \<Rightarrow> bool workflow_op" where
  "delete_workflow_row env workflow_id user_id = on_rows env (\<lambda>now rows. let P = row_of_user workflow_id user_id in
     (Inr (\<exists>r \<in> set rows. P r), sql_delete P rows))"

definition get_workflow_row :: "workflow_env \<Rightarrow> string \<Rightarrow> int \<Rightarrow> saved_workflow option workflow_op" where
  "get_workflow_row env workflow_id user_id = on_rows env (\<lambda>now rows.
     (rbind (scalar_one_or_none (sql_select (row_of_user workflow_id user_id) rows)) (\<lambda>row. case row of
        None \<Rightarrow> Inr None | Some r \<Rightarrow> rbind (workflow_to_entity (wf_float env) r) (\<lambda>w. Inr (Some w))), rows))"

fun to_entities :: "(rat \<Rightarrow> string) \<Rightarrow> workflow_row list \<Rightarrow> saved_workflow list result" where
  "to_entities fl [] = Inr []"
| "to_entities fl (r # rows) = rbind (workflow_to_entity fl r) (\<lambda>w. rbind (to_entities fl rows) (\<lambda>ws. Inr (w # ws)))"

definition list_workflow_rows :: "workflow_env \<Rightarrow> int \<Rightarrow> saved_workflow list workflow_op" where
  "list_workflow_rows env user_id = on_rows env (\<lambda>now rows.
     (to_entities (wf_float env) (order_desc wr_updated_at (order_desc wr_created_at (sql_select (\<lambda>r. wr_user_id r = user_id) rows))), rows))"

section \<open>The service\<close>

definition workflow_missing :: exn where "workflow_missing = OtherError ''WorkflowNotFoundError''"

definition workflow_tick :: "(nat \<Rightarrow> 'a) \<Rightarrow> 'a workflow_op" where
  "workflow_tick f s = (Inr (f (ws_ticks s)), s\<lparr>ws_ticks := Suc (ws_ticks s)\<rparr>)"

definition create_saved_workflow :: "workflow_env \<Rightarrow> int \<Rightarrow> string option \<Rightarrow> string option \<Rightarrow> json \<Rightarrow> saved_workflow workflow_op" where
  "create_saved_workflow env user_id name description definition' =
     sbind (workflow_tick (wf_uuid env)) (\<lambda>workflow_id.
     sbind (sreturn (validate_workflow_name name)) (\<lambda>valid_name.
     sbind (sreturn (validate_workflow_description description)) (\<lambda>valid_description.
     sbind (sreturn (parse_definition (wf_float env) definition')) (\<lambda>d.
     let workflow = \<lparr>sw_workflow_id = workflow_id, sw_user_id = user_id, sw_name = valid_name, sw_definition = d,
           sw_description = valid_description, sw_created_at = None, sw_updated_at = None\<rparr> in
     sbind (create_workflow_row env workflow) (\<lambda>_. sreturn (Inr workflow))))))"

definition get_saved_workflow :: "workflow_env \<Rightarrow> string \<Rightarrow> int \<Rightarrow> saved_workflow workflow_op" where
  "get_saved_workflow env workflow_id user_id =
     sbind (get_workflow_row env workflow_id user_id) (\<lambda>found. case found of None \<Rightarrow> raise_op workflow_missing | Some w \<Rightarrow> sreturn (Inr w))"

definition update_saved_workflow :: "workflow_env \<Rightarrow> string \<Rightarrow> int \<Rightarrow> string option \<Rightarrow> string option \<Rightarrow> json \<Rightarrow> saved_workflow workflow_op" where
  "update_saved_workflow env workflow_id user_id name description definition' =
     sbind (get_saved_workflow env workflow_id user_id) (\<lambda>existing.
     sbind (sreturn (validate_workflow_name name)) (\<lambda>valid_name.
     sbind (sreturn (validate_workflow_description description)) (\<lambda>valid_description.
     sbind (sreturn (parse_definition (wf_float env) definition')) (\<lambda>d.
     let existing = existing\<lparr>sw_name := valid_name, sw_description := valid_description, sw_definition := d\<rparr> in
     sbind (update_workflow_row env existing) (\<lambda>updated. if \<not> updated then raise_op workflow_missing else sreturn (Inr existing))))))"

definition delete_saved_workflow :: "workflow_env \<Rightarrow> string \<Rightarrow> int \<Rightarrow> unit workflow_op" where
  "delete_saved_workflow env workflow_id user_id =
     sbind (delete_workflow_row env workflow_id user_id) (\<lambda>deleted. if \<not> deleted then raise_op workflow_missing else sreturn (Inr ()))"

definition enforce_batch_limit :: "workflow_env \<Rightarrow> nat \<Rightarrow> unit result" where
  "enforce_batch_limit env file_count =
     (if wf_max_batch_files env < file_count
      then invalid_workflow (''A workflow run may convert at most '' @ str_int (int (wf_max_batch_files env)) @ '' files at a time.'') else Inr ())"

record run_file =
  rf_file_id :: string
  rf_file_name :: string
  rf_object_key :: string
  rf_source_format :: string

record run_file_problem =
  rp_file_id :: string
  rp_error :: string
  rp_file_name :: "string option"

fun validate_against_files :: "string list \<Rightarrow> conversion_type set \<Rightarrow> run_file list \<Rightarrow> run_file_problem list" where
  "validate_against_files targets supported [] = []"
| "validate_against_files targets supported (entry # files) =
     (let rest = validate_against_files targets supported files in
      if rf_source_format entry = []
      then \<lparr>rp_file_id = rf_file_id entry, rp_error = ''Could not tell what format this file is.'', rp_file_name = Some (rf_file_name entry)\<rparr> # rest
      else case find (\<lambda>target. case is_supported \<lparr>ct_source_format = rf_source_format entry, ct_target_format = target\<rparr> supported of
            Inl e \<Rightarrow> True | Inr _ \<Rightarrow> False) targets of
          None \<Rightarrow> rest
        | Some target \<Rightarrow> \<lparr>rp_file_id = rf_file_id entry, rp_error = py_upper (rf_source_format entry) @ '' cannot be converted to '' @ py_upper target @ ''.'',
            rp_file_name = Some (rf_file_name entry)\<rparr> # rest)"

section \<open>The routes\<close>

definition workflow_not_found :: exn where "workflow_not_found = HTTPException 404 ''Workflow not found''"

definition missing_as_404 :: "exn \<Rightarrow> exn" where
  "missing_as_404 e = (if e = workflow_missing then workflow_not_found else e)"

definition invalid_as_422 :: "exn \<Rightarrow> exn" where
  "invalid_as_422 e = (case e of ValueError m \<Rightarrow> HTTPException 422 m | _ \<Rightarrow> e)"

definition on_batches :: "'a conversion_op \<Rightarrow> 'a workflow_op" where
  "on_batches m s = (let (r, a) = on_conversion m (ws_app s) in (r, s\<lparr>ws_app := a\<rparr>))"

definition on_library :: "'a drive_op \<Rightarrow> 'a workflow_op" where
  "on_library m s = (let (r, a) = on_transfer (on_drive m) (ws_app s) in (r, s\<lparr>ws_app := a\<rparr>))"

definition run_counts :: "workflow_env \<Rightarrow> string list \<Rightarrow> int \<Rightarrow> (string \<times> nat) list workflow_op" where
  "run_counts env workflow_ids user_id = (if workflow_ids = [] then sreturn (Inr [])
     else on_batches (jobs_read (wf_conversion env) (\<lambda>t. Inr (count_batches_for_workflows workflow_ids user_id t))))"

definition with_runs :: "(string \<times> nat) list \<Rightarrow> saved_workflow \<Rightarrow> saved_workflow \<times> nat" where
  "with_runs counts w = (w, case map_of counts (sw_workflow_id w) of None \<Rightarrow> 0 | Some n \<Rightarrow> n)"

definition list_workflows_route :: "workflow_env \<Rightarrow> int \<Rightarrow> (saved_workflow \<times> nat) list workflow_op" where
  "list_workflows_route env user_id =
     sbind (list_workflow_rows env user_id) (\<lambda>rows.
     sbind (run_counts env (map sw_workflow_id rows) user_id) (\<lambda>counts. sreturn (Inr (map (with_runs counts) rows))))"

definition create_workflow_route :: "workflow_env \<Rightarrow> int \<Rightarrow> string option \<Rightarrow> string option \<Rightarrow> json \<Rightarrow> (saved_workflow \<times> nat) workflow_op" where
  "create_workflow_route env user_id name description definition' =
     sbind (try_op (create_saved_workflow env user_id name description definition') (\<lambda>e. raise_op (invalid_as_422 e))) (\<lambda>w. sreturn (Inr (w, 0)))"

definition get_workflow_route :: "workflow_env \<Rightarrow> int \<Rightarrow> string \<Rightarrow> (saved_workflow \<times> nat) workflow_op" where
  "get_workflow_route env user_id workflow_id =
     sbind (try_op (get_saved_workflow env workflow_id user_id) (\<lambda>e. raise_op (missing_as_404 e))) (\<lambda>w.
     sbind (run_counts env [workflow_id] user_id) (\<lambda>counts. sreturn (Inr (with_runs counts w))))"

definition update_workflow_route :: "workflow_env \<Rightarrow> int \<Rightarrow> string \<Rightarrow> string option \<Rightarrow> string option \<Rightarrow> json \<Rightarrow> (saved_workflow \<times> nat) workflow_op" where
  "update_workflow_route env user_id workflow_id name description definition' =
     sbind (try_op (update_saved_workflow env workflow_id user_id name description definition')
       (\<lambda>e. raise_op (invalid_as_422 (missing_as_404 e)))) (\<lambda>w. sreturn (Inr (w, 0)))"

definition delete_workflow_route :: "workflow_env \<Rightarrow> int \<Rightarrow> string \<Rightarrow> unit workflow_op" where
  "delete_workflow_route env user_id workflow_id =
     try_op (delete_saved_workflow env workflow_id user_id) (\<lambda>e. raise_op (missing_as_404 e))"

record run_item =
  ri_file_id :: string
  ri_file_name :: string
  ri_job :: "conversion_job option"
  ri_error :: "string option"

record run_response =
  rr_workflow_id :: string
  rr_batch_id :: string
  rr_status :: string
  rr_created_count :: nat
  rr_failed_count :: nat
  rr_items :: "run_item list"
  rr_problems :: "run_item list"

definition problem_item :: "string \<Rightarrow> string \<Rightarrow> string \<Rightarrow> run_item" where
  "problem_item i name error = \<lparr>ri_file_id = i, ri_file_name = name, ri_job = None, ri_error = Some error\<rparr>"

definition run_file_of :: "file_row \<Rightarrow> run_file" where
  "run_file_of row = \<lparr>rf_file_id = fl_id row, rf_file_name = fl_file_name row, rf_object_key = fl_file_key row,
     rf_source_format = extension_from_filename (Some (fl_file_name row))\<rparr>"

definition outcome_item :: "batch_item_outcome \<Rightarrow> run_item" where
  "outcome_item x = \<lparr>ri_file_id = bo_file_id x, ri_file_name = bo_file_name x, ri_job = bo_job x, ri_error = bo_error x\<rparr>"

text \<open>The passes of a run, one for each target: the batch they share, the counts and the items so far.\<close>

fun run_passes :: "workflow_env \<Rightarrow> int \<Rightarrow> string \<Rightarrow> job_origin \<Rightarrow> run_file list \<Rightarrow> string list \<Rightarrow> string option \<Rightarrow>
    (string option \<times> nat \<times> nat \<times> run_item list) workflow_op" where
  "run_passes env user_id workflow_id origin files [] batch_id = sreturn (Inr (batch_id, 0, 0, []))"
| "run_passes env user_id workflow_id origin files (target_format # targets) batch_id =
     (let items = map (\<lambda>entry. \<lparr>bi_file_id = rf_file_id entry, bi_file_name = rf_file_name entry, bi_object_key = rf_object_key entry,
            bi_source_format = rf_source_format entry, bi_target_format = target_format\<rparr>) files in
      if items = [] then run_passes env user_id workflow_id origin files targets batch_id
      else sbind (on_batches (create_batch (wf_conversion env) items user_id (wf_tier env user_id) batch_id (Some workflow_id) origin)) (\<lambda>outcome.
        sbind (run_passes env user_id workflow_id origin files targets (Some (bt_batch_id outcome))) (\<lambda>(b, created, failed, more).
        sreturn (Inr (b, bt_created_count outcome + created, bt_failed_count outcome + failed, map outcome_item (bt_outcomes outcome) @ more)))))"

definition runnable_files :: "file_row list \<Rightarrow> run_file list" where
  "runnable_files rows = map run_file_of (filter (\<lambda>row. extension_from_filename (Some (fl_file_name row)) \<noteq> []) rows)"

definition unsupported_files :: "workflow_env \<Rightarrow> saved_workflow \<Rightarrow> file_row list \<Rightarrow> run_file_problem list" where
  "unsupported_files env workflow rows =
     validate_against_files (target_formats (sw_definition workflow)) (cv_supported (wf_conversion env)) (runnable_files rows)"

definition run_problems :: "workflow_env \<Rightarrow> saved_workflow \<Rightarrow> string list \<Rightarrow> file_row list \<Rightarrow> run_item list" where
  "run_problems env workflow file_ids rows =
     map (\<lambda>i. problem_item i [] ''That file is no longer available.'') (filter (\<lambda>i. i \<notin> set (map fl_id rows)) file_ids)
     @ map (\<lambda>row. problem_item (fl_id row) (fl_file_name row) ''Could not tell what format this file is.'')
         (filter (\<lambda>row. extension_from_filename (Some (fl_file_name row)) = []) rows)
     @ map (\<lambda>p. problem_item (rp_file_id p) (case rp_file_name p of None \<Rightarrow> [] | Some n \<Rightarrow> n) (rp_error p)) (unsupported_files env workflow rows)"

definition run_selection :: "workflow_env \<Rightarrow> saved_workflow \<Rightarrow> file_row list \<Rightarrow> run_file list" where
  "run_selection env workflow rows =
     filter (\<lambda>entry. rf_file_id entry \<notin> set (map rp_file_id (unsupported_files env workflow rows))) (runnable_files rows)"

definition response_of :: "saved_workflow \<Rightarrow> run_item list \<Rightarrow> string option \<times> nat \<times> nat \<times> run_item list \<Rightarrow> run_response" where
  "response_of workflow problems = (\<lambda>(batch_id, created, failed, items). let failed = failed + length problems in
     \<lparr>rr_workflow_id = sw_workflow_id workflow, rr_batch_id = (case batch_id of None \<Rightarrow> [] | Some b \<Rightarrow> b),
       rr_status = (if created = 0 \<and> failed = 0 then ''failed'' else if failed = 0 then ''success'' else if created = 0 then ''failed'' else ''partial''),
       rr_created_count = created, rr_failed_count = failed, rr_items = problems @ items, rr_problems = problems\<rparr>)"

definition run_workflow :: "workflow_env \<Rightarrow> int \<Rightarrow> job_origin \<Rightarrow> string \<Rightarrow> string list \<Rightarrow> run_response workflow_op" where
  "run_workflow env user_id origin workflow_id file_ids =
     sbind (try_op (get_saved_workflow env workflow_id user_id) (\<lambda>e. raise_op (missing_as_404 e))) (\<lambda>workflow.
     sbind (sreturn (enforce_batch_limit env (length file_ids))) (\<lambda>_.
     sbind (on_library (get_owned_files user_id file_ids)) (\<lambda>rows.
     sbind (run_passes env user_id (sw_workflow_id workflow) origin (run_selection env workflow rows) (target_formats (sw_definition workflow)) None) (\<lambda>outcome.
     sreturn (Inr (response_of workflow (run_problems env workflow file_ids rows) outcome))))))"

end
