(* ===== verification/Workflow_Safety.thy ===== *)
theory Workflow_Safety
  imports Workflows Drive_Promises
begin

text \<open>
  What holds of saved workflows: which definitions read back, that nobody reaches another user's workflow, and that a run
  converts only files of the caller and accounts for every file that was named.
\<close>

section \<open>Definitions\<close>

lemma lower_char_twice [simp]: "lower_char (lower_char c) = lower_char c"
proof -
  define n :: nat where "n = of_char c"
  have low: "lower_char (char_of m) = char_of m" if "m < 256" "\<not> (65 \<le> m \<and> m \<le> 90)" "\<not> (192 \<le> m \<and> m \<le> 222 \<and> m \<noteq> 215)" for m :: nat
    using that by (simp add: lower_char_def Let_def)
  have "n < 256" by (simp add: n_def)
  show ?thesis
  proof (cases "(65 \<le> n \<and> n \<le> 90) \<or> (192 \<le> n \<and> n \<le> 222 \<and> n \<noteq> 215)")
    case True
    then have "lower_char c = char_of (n + 32)" by (simp add: lower_char_def n_def Let_def)
    moreover have "lower_char (char_of (n + 32)) = char_of (n + 32)" by (rule low) (use True in auto)
    ultimately show ?thesis by simp
  next
    case False
    then have "lower_char c = c" unfolding lower_char_def Let_def n_def by (rule if_not_P)
    then show ?thesis by simp
  qed
qed

lemma py_lower_twice [simp]: "py_lower (py_lower s) = py_lower s"
  by (simp add: py_lower_def)

text \<open>What the checks leave of an operation.\<close>

definition operation_ok :: "workflow_operation \<Rightarrow> bool" where
  "operation_ok x = (wo_type x = OPERATION_CONVERT \<and> wo_target_format x \<noteq> [] \<and> length (wo_target_format x) \<le> MAX_FORMAT_LENGTH
     \<and> py_lower (wo_target_format x) = wo_target_format x)"

lemma normalise_format_result:
  "normalise_format v i = Inr f \<Longrightarrow> f \<noteq> [] \<and> length f \<le> MAX_FORMAT_LENGTH \<and> py_lower f = f"
  by (auto simp: normalise_format_def Let_def split: json.splits if_splits)

lemma parse_operation_result: "parse_operation fl i item = Inr x \<Longrightarrow> operation_ok x"
  by (auto simp: parse_operation_def operation_ok_def SUPPORTED_OPERATIONS_def rbind_def json_str_def dest!: normalise_format_result
      split: json.splits if_splits sum.splits)

lemma parse_operations_result: "parse_operations fl i items = Inr xs \<Longrightarrow> length xs = length items \<and> (\<forall>x \<in> set xs. operation_ok x)"
proof (induction items arbitrary: i xs)
  case (Cons item items)
  then show ?case by (auto simp: rbind_def dest: parse_operation_result split: sum.splits)
qed simp

lemma parse_definition_result:
  assumes "parse_definition fl raw = Inr d"
  shows "wd_source d = SOURCE_SELECT_AT_RUN" "wd_operations d \<noteq> []" "length (wd_operations d) \<le> MAX_OPERATIONS" "\<forall>x \<in> set (wd_operations d). operation_ok x"
  using assms parse_operations_result
  by (fastforce simp: parse_definition_def rbind_def Let_def json_str_def split: json.splits if_splits sum.splits option.splits)+

definition plain_format :: "string \<Rightarrow> bool" where
  "plain_format f = (py_strip f = f \<and> lstrip_dots f = f)"

lemma operation_reads_back:
  assumes "operation_ok x" "plain_format (wo_target_format x)"
  shows "parse_operation fl i (operation_to_dict x) = Inr x"
  using assms by (simp add: parse_operation_def operation_to_dict_def operation_ok_def plain_format_def j_get_def SUPPORTED_OPERATIONS_def
      normalise_format_def Let_def rbind_def json_str_def)

lemma operations_read_back:
  "\<forall>x \<in> set xs. operation_ok x \<and> plain_format (wo_target_format x) \<Longrightarrow> parse_operations fl i (map operation_to_dict xs) = Inr xs"
  by (induction xs arbitrary: i) (simp_all add: operation_reads_back rbind_def)

text \<open>a definition that was accepted has one to ten conversions with bounded, lower-case formats; stored and read it is the same,
  provided no format begins with a blank or a dot.\<close>

theorem accepted_definition_reads_back:
  assumes "parse_definition fl raw = Inr d" "\<forall>x \<in> set (wd_operations d). plain_format (wo_target_format x)"
  shows "parse_definition fl (definition_to_dict d) = Inr d \<and> 1 \<le> length (wd_operations d) \<and> length (wd_operations d) \<le> 10
    \<and> (\<forall>x \<in> set (wd_operations d). wo_type x = ''convert'' \<and> 1 \<le> length (wo_target_format x) \<and> length (wo_target_format x) \<le> 20)"
proof -
  note d = parse_definition_result [OF assms(1)]
  have ops: "parse_operations fl 0 (map operation_to_dict (wd_operations d)) = Inr (wd_operations d)"
    using operations_read_back d(4) assms(2) by blast
  have "parse_definition fl (definition_to_dict d) = Inr d"
    using ops d(1-3) by (simp add: parse_definition_def definition_to_dict_def j_get_def rbind_def json_str_def Let_def)
  moreover have "1 \<le> length (wo_target_format x) \<and> length (wo_target_format x) \<le> 20 \<and> wo_type x = ''convert''" if "x \<in> set (wd_operations d)" for x
    using d(4) that by (auto simp: operation_ok_def MAX_FORMAT_LENGTH_def OPERATION_CONVERT_def Suc_le_eq)
  ultimately show ?thesis using d(2,3) by (auto simp: MAX_OPERATIONS_def Suc_le_eq)
qed

definition one_format :: "string \<Rightarrow> json" where
  "one_format f = J_obj [(''operations'', J_list [J_obj [(''type'', J_str ''convert''), (''target_format'', J_str f)]])]"

lemma parse_one_format:
  "parse_definition fl (one_format f) = rbind (normalise_format (J_str f) 0) (\<lambda>f. Inr \<lparr>wd_source = SOURCE_SELECT_AT_RUN,
     wd_operations = [\<lparr>wo_type = OPERATION_CONVERT, wo_target_format = f\<rparr>]\<rparr>)"
  by (cases "normalise_format (J_str f) 0") (simp_all add: parse_definition_def one_format_def j_get_def parse_operation_def SUPPORTED_OPERATIONS_def
      OPERATION_CONVERT_def rbind_def json_str_def Let_def MAX_OPERATIONS_def)

theorem accepted_definition_reads_back_witness:
  "parse_definition (\<lambda>_. []) (definition_to_dict \<lparr>wd_source = SOURCE_SELECT_AT_RUN, wd_operations = [\<lparr>wo_type = OPERATION_CONVERT, wo_target_format = ''pdf''\<rparr>]\<rparr>)
     = Inr \<lparr>wd_source = SOURCE_SELECT_AT_RUN, wd_operations = [\<lparr>wo_type = OPERATION_CONVERT, wo_target_format = ''pdf''\<rparr>]\<rparr>"
proof -
  have n: "normalise_format (J_str ''pdf'') 0 = Inr ''pdf''" "plain_format ''pdf''"
    by (simp_all add: normalise_format_def py_strip_def is_space_def lstrip_dots_def py_lower_def lower_char_def MAX_FORMAT_LENGTH_def plain_format_def)
  from accepted_definition_reads_back [of "\<lambda>_. []" "one_format ''pdf''"] show ?thesis
    using n by (simp add: parse_one_format rbind_def)
qed

section \<open>A definition that is accepted and cannot be read\<close>

definition undisturbed :: "workflow_env \<Rightarrow> bool" where
  "undisturbed env = (\<forall>n rows. wf_rival env n rows = rows)"

lemma on_rows_calm:
  "undisturbed env \<Longrightarrow> on_rows env f s = (fst (f (wf_clock env (ws_ticks s)) (ws_rows s)),
     s\<lparr>ws_rows := snd (f (wf_clock env (ws_ticks s)) (ws_rows s)), ws_ticks := Suc (ws_ticks s)\<rparr>)"
  by (simp add: on_rows_def undisturbed_def Let_def split_beta)

definition unreadable :: "(rat \<Rightarrow> string) \<Rightarrow> workflow_row \<Rightarrow> bool" where
  "unreadable fl r = (\<exists>m. workflow_to_entity fl r = Inl (ValueError m))"

lemma to_entities_unreadable: "r \<in> set rows \<Longrightarrow> unreadable fl r \<Longrightarrow> \<exists>e. to_entities fl rows = Inl e"
proof (induction rows)
  case (Cons x rows)
  then show ?case by (cases "workflow_to_entity fl x") (auto simp: rbind_def unreadable_def)
qed simp

lemma dots_accepted: "normalise_format (J_str ''. .'') 0 = Inr '' .''" "\<exists>m. normalise_format (J_str '' .'') 0 = Inl (ValueError m)"
  by (simp_all add: normalise_format_def py_strip_def is_space_def lstrip_dots_def py_lower_def lower_char_def MAX_FORMAT_LENGTH_def)

lemma dots_row_unreadable:
  assumes "parse_definition fl (one_format ''. .'') = Inr d" "wr_definition r = definition_to_dict d"
  shows "unreadable fl r"
proof -
  have d: "d = \<lparr>wd_source = SOURCE_SELECT_AT_RUN, wd_operations = [\<lparr>wo_type = OPERATION_CONVERT, wo_target_format = '' .''\<rparr>]\<rparr>"
    using assms(1) by (simp add: parse_one_format dots_accepted(1) rbind_def)
  obtain m where "normalise_format (J_str '' .'') 0 = Inl (ValueError m)" using dots_accepted(2) by blast
  then have "parse_definition fl (definition_to_dict d) = Inl (ValueError m)"
    by (simp add: d parse_definition_def definition_to_dict_def operation_to_dict_def j_get_def parse_operation_def SUPPORTED_OPERATIONS_def
        OPERATION_CONVERT_def rbind_def json_str_def Let_def MAX_OPERATIONS_def)
  then show ?thesis using assms(2) by (simp add: unreadable_def workflow_to_entity_def)
qed

text \<open>The row a creation leaves.\<close>

lemma created_row:
  assumes "undisturbed env" "create_workflow_route env u name desc D s = (Inr (w, n), t)"
  obtains r d where "parse_definition (wf_float env) D = Inr d" "ws_rows t = ws_rows s @ [r]" "wr_definition r = definition_to_dict d"
    "wr_user_id r = u" "wr_workflow_id r = sw_workflow_id w" "sw_workflow_id w \<notin> wr_workflow_id ` set (ws_rows s)" "ws_app t = ws_app s"
proof -
  have raises: "try_op m (\<lambda>e. raise_op (f e)) x = (Inr a, y) \<Longrightarrow> m x = (Inr a, y)" for m :: "'b workflow_op" and f x a y
    by (auto simp: try_op_def raise_op_def split: prod.splits sum.splits)
  from assms(2) have "create_saved_workflow env u name desc D s = (Inr w, t)"
    unfolding create_workflow_route_def by (auto elim!: sbind_cases simp: sreturn_def dest!: raises)
  then have "\<exists>r d. parse_definition (wf_float env) D = Inr d \<and> ws_rows t = ws_rows s @ [r] \<and> wr_definition r = definition_to_dict d
      \<and> wr_user_id r = u \<and> wr_workflow_id r = sw_workflow_id w \<and> sw_workflow_id w \<notin> wr_workflow_id ` set (ws_rows s) \<and> ws_app t = ws_app s"
    unfolding create_saved_workflow_def
    by (auto elim!: sbind_cases simp: sreturn_def Let_def workflow_tick_def create_workflow_row_def on_rows_calm [OF assms(1)] split: if_splits)
  then show ?thesis using that by blast
qed

text \<open>C18: a target format of two dots with a blank between is accepted and stored as a blank and a dot, which the check refuses when
  the row is read: from then on the list of all the user's workflows fails, the workflow can be neither
  read nor replaced, and only a deletion by its identifier ends this.\<close>

theorem accepted_definition_breaks_list:
  assumes "undisturbed env"
    and "create_workflow_route env u name desc (one_format ''. .'') s = (Inr (w, n), t)"
  shows "(\<exists>e. fst (list_workflows_route env u t) = Inl e) \<and> (\<exists>m. fst (get_workflow_route env u (sw_workflow_id w) t) = Inl (ValueError m))
    \<and> (\<exists>m. fst (update_workflow_route env u (sw_workflow_id w) name' desc' D t) = Inl (HTTPException 422 m))
    \<and> (\<exists>v. delete_workflow_route env u (sw_workflow_id w) t = (Inr (), v) \<and> ws_rows v = ws_rows s)"
proof -
  let ?i = "sw_workflow_id w"
  obtain r d where r: "parse_definition (wf_float env) (one_format ''. .'') = Inr d" "ws_rows t = ws_rows s @ [r]" "wr_definition r = definition_to_dict d"
      "wr_user_id r = u" "wr_workflow_id r = ?i" "?i \<notin> wr_workflow_id ` set (ws_rows s)"
    using created_row [OF assms] by metis
  obtain m where m: "workflow_to_entity (wf_float env) r = Inl (ValueError m)"
    using dots_row_unreadable [OF r(1,3)] by (auto simp: unreadable_def)
  have others: "\<not> row_of_user ?i u x" if "x \<in> set (ws_rows s)" for x using r(6) that by (metis imageI row_of_user_def)
  have mine: "row_of_user ?i u r" using r(4,5) by (simp add: row_of_user_def)
  have one: "sql_select (row_of_user ?i u) (ws_rows t) = [r]" using others mine by (simp add: r(2) sql_select_def)
  have get: "get_saved_workflow env ?i u t = (Inl (ValueError m), t\<lparr>ws_ticks := Suc (ws_ticks t)\<rparr>)"
    by (simp add: get_saved_workflow_def get_workflow_row_def on_rows_calm [OF assms(1)] sbind_def one scalar_one_or_none_def rbind_def m)
  have "r \<in> set (order_desc wr_updated_at (order_desc wr_created_at (sql_select (\<lambda>r. wr_user_id r = u) (ws_rows t))))"
    using r(2,4) by (simp add: sql_select_def)
  from to_entities_unreadable [OF this dots_row_unreadable [OF r(1,3)]]
  have "\<exists>e. fst (list_workflows_route env u t) = Inl e"
    by (auto simp: list_workflows_route_def list_workflow_rows_def on_rows_calm [OF assms(1)] sbind_def)
  moreover have "fst (get_workflow_route env u ?i t) = Inl (ValueError m)"
    by (simp add: get_workflow_route_def sbind_def try_op_def get raise_op_def missing_as_404_def workflow_missing_def)
  moreover have "fst (update_workflow_route env u ?i name' desc' D t) = Inl (HTTPException 422 m)"
    by (simp add: update_workflow_route_def update_saved_workflow_def sbind_def try_op_def get raise_op_def missing_as_404_def workflow_missing_def invalid_as_422_def)
  moreover have "sql_delete (row_of_user ?i u) (ws_rows t) = ws_rows s" "\<exists>x \<in> set (ws_rows t). row_of_user ?i u x"
    using others mine by (simp_all add: r(2) sql_delete_def filter_id_conv)
  then have "\<exists>v. delete_workflow_route env u ?i t = (Inr (), v) \<and> ws_rows v = ws_rows s"
    by (simp add: delete_workflow_route_def delete_saved_workflow_def delete_workflow_row_def on_rows_calm [OF assms(1)] sbind_def try_op_def sreturn_def Let_def)
  ultimately show ?thesis by blast
qed

definition sample_workflow_env :: workflow_env where
  "sample_workflow_env = \<lparr>wf_uuid = (\<lambda>n. if n = 0 then ''w'' else ''w2''), wf_clock = int, wf_rival = (\<lambda>_ rows. rows), wf_float = (\<lambda>_. []),
     wf_max_batch_files = 20, wf_tier = (\<lambda>_. Tier_FREE), wf_conversion = sample_conversion_env (\<lambda>_ t. t) (\<lambda>_. Commit_ok)\<rparr>"

definition sample_workflow_row :: workflow_row where
  "sample_workflow_row = \<lparr>wr_workflow_id = ''w'', wr_user_id = 1, wr_name = ''n'', wr_description = [],
     wr_definition = one_format ''txt'', wr_created_at = 0, wr_updated_at = 0\<rparr>"

definition sample_workflow_state :: "workflow_row list \<Rightarrow> file_row list \<Rightarrow> workflow_state" where
  "sample_workflow_state rows files = \<lparr>ws_rows = rows, ws_app = \<lparr>ua_transfer = \<lparr>tf_drive = sample_drive [] files (\<lambda>_. Some (sample_object ''x'')),
     tf_cache = Map.empty, tf_multiparts = []\<rparr>, ua_conversion = sample_conversion_state []\<rparr>, ws_ticks = 0\<rparr>"

lemma sample_undisturbed: "undisturbed sample_workflow_env"
  by (simp add: undisturbed_def sample_workflow_env_def)

theorem accepted_definition_breaks_list_witness:
  "\<exists>w n t. create_workflow_route sample_workflow_env 1 (Some ''n'') None (one_format ''. .'') (sample_workflow_state [] []) = (Inr (w, n), t)
     \<and> (\<exists>e. fst (list_workflows_route sample_workflow_env 1 t) = Inl e)"
proof -
  have "validate_workflow_name (Some ''n'') = Inr ''n''" "validate_workflow_description None = Inr []"
    by (simp_all add: validate_workflow_name_def validate_workflow_description_def py_strip_def is_space_def MAX_WORKFLOW_NAME_def MAX_WORKFLOW_DESCRIPTION_def)
  then obtain w n t where c: "create_workflow_route sample_workflow_env 1 (Some ''n'') None (one_format ''. .'') (sample_workflow_state [] []) = (Inr (w, n), t)"
    by (simp add: create_workflow_route_def create_saved_workflow_def sbind_def sreturn_def try_op_def workflow_tick_def parse_one_format dots_accepted(1)
        rbind_def create_workflow_row_def on_rows_calm [OF sample_undisturbed] Let_def sample_workflow_state_def)
  from accepted_definition_breaks_list [OF sample_undisturbed c] c show ?thesis by blast
qed

section \<open>Whose workflows\<close>

lemma foreign_select:
  assumes "\<forall>r \<in> set (ws_rows s). wr_workflow_id r = i \<longrightarrow> wr_user_id r \<noteq> u"
  shows "sql_select (row_of_user i u) (ws_rows s) = []" "sql_delete (row_of_user i u) (ws_rows s) = ws_rows s" "\<not> (\<exists>r \<in> set (ws_rows s). row_of_user i u r)"
  using assms by (auto simp: sql_select_def sql_delete_def row_of_user_def filter_empty_conv filter_id_conv)

text \<open>the workflow of another user answers like one that does not exist, whichever route asks, and nothing changes: the rows, the Drive
  and the jobs stay, so no identifier that was guessed or leaked runs, shows, renames or deletes anything.\<close>

theorem foreign_workflow_untouched:
  assumes "undisturbed env" "\<forall>r \<in> set (ws_rows s). wr_workflow_id r = i \<longrightarrow> wr_user_id r \<noteq> u"
  shows "get_workflow_route env u i s = (Inl workflow_not_found, s\<lparr>ws_ticks := Suc (ws_ticks s)\<rparr>)
    \<and> update_workflow_route env u i name desc D s = (Inl workflow_not_found, s\<lparr>ws_ticks := Suc (ws_ticks s)\<rparr>)
    \<and> delete_workflow_route env u i s = (Inl workflow_not_found, s\<lparr>ws_ticks := Suc (ws_ticks s)\<rparr>)
    \<and> run_workflow env u origin i ids s = (Inl workflow_not_found, s\<lparr>ws_ticks := Suc (ws_ticks s)\<rparr>)"
proof -
  note f = foreign_select [OF assms(2)]
  have get: "get_saved_workflow env i u s = (Inl workflow_missing, s\<lparr>ws_ticks := Suc (ws_ticks s)\<rparr>)"
    by (simp add: get_saved_workflow_def get_workflow_row_def on_rows_calm [OF assms(1)] sbind_def f(1) scalar_one_or_none_def rbind_def raise_op_def)
  have del: "delete_saved_workflow env i u s = (Inl workflow_missing, s\<lparr>ws_ticks := Suc (ws_ticks s)\<rparr>)"
    using f(3) by (simp add: delete_saved_workflow_def delete_workflow_row_def on_rows_calm [OF assms(1)] sbind_def f(2) Let_def raise_op_def)
  show ?thesis
    by (simp add: get_workflow_route_def update_workflow_route_def update_saved_workflow_def delete_workflow_route_def run_workflow_def sbind_def try_op_def
        get del raise_op_def missing_as_404_def invalid_as_422_def workflow_not_found_def)
qed

theorem foreign_workflow_untouched_witness:
  "fst (run_workflow sample_workflow_env 2 Origin_WEB ''w'' [''f''] (sample_workflow_state [sample_workflow_row] [])) = Inl workflow_not_found"
  using foreign_workflow_untouched [OF sample_undisturbed, of "sample_workflow_state [sample_workflow_row] []" "''w''" 2]
  by (simp add: sample_workflow_state_def sample_workflow_row_def)

section \<open>Runs\<close>

lemma batch_items_owned:
  assumes "quiet env" "create_batch_items env u tier b w orig items s = (Inr outs, t)"
  shows "list_all2 (\<lambda>item out. bo_file_id out = bi_file_id item
    \<and> (\<forall>j. bo_job out = Some j \<longrightarrow> job_user_id j = Some u \<and> job_object_key j = bi_object_key item)) items outs"
  using assms(2)
proof (induction items arbitrary: s outs)
  case (Cons item items)
  from Cons.prems obtain out v rest where i: "create_batch_item env u tier b w orig item s = (Inr out, v)"
    and r: "create_batch_items env u tier b w orig items v = (Inr rest, t)" "outs = out # rest"
    by (auto elim!: sbind_cases simp: sreturn_def)
  let ?conv = "convert_library_file env (bi_file_name item) (bi_source_format item) (bi_target_format item) (bi_object_key item) u tier orig"
  have "bo_file_id out = bi_file_id item \<and> (\<forall>j. bo_job out = Some j \<longrightarrow> job_user_id j = Some u \<and> job_object_key j = bi_object_key item)"
  proof (cases "fst (?conv s)")
    case (Inl e)
    then show ?thesis using i by (auto simp: create_batch_item_def split: prod.splits sum.splits)
  next
    case (Inr j)
    then obtain v' where c: "?conv s = (Inr j, v')" by (metis prod.collapse)
    from convert_result(4,5) [OF assms(1) c] show ?thesis using i c by (auto simp: create_batch_item_def Let_def sreturn_def elim!: sbind_cases)
  qed
  then show ?case using Cons.IH [OF r(1)] r(2) by simp
qed simp

definition item_sound :: "int \<Rightarrow> run_file list \<Rightarrow> run_item \<Rightarrow> bool" where
  "item_sound u files x = (\<exists>f \<in> set files. ri_file_id x = rf_file_id f
     \<and> (\<forall>j. ri_job x = Some j \<longrightarrow> job_user_id j = Some u \<and> job_object_key j = rf_object_key f))"

lemma batch_pass:
  assumes "quiet env" "create_batch env (map (\<lambda>entry. \<lparr>bi_file_id = rf_file_id entry, bi_file_name = rf_file_name entry, bi_object_key = rf_object_key entry,
            bi_source_format = rf_source_format entry, bi_target_format = target\<rparr>) files) u tier b w orig s = (Inr out, t)"
  shows "list_all (item_sound u files) (map outcome_item (bt_outcomes out)) \<and> map bo_file_id (bt_outcomes out) = map rf_file_id files
    \<and> bt_created_count out + bt_failed_count out = length files"
proof -
  let ?items = "map (\<lambda>entry. \<lparr>bi_file_id = rf_file_id entry, bi_file_name = rf_file_name entry, bi_object_key = rf_object_key entry,
            bi_source_format = rf_source_format entry, bi_target_format = target\<rparr>) files"
  from assms(2) obtain i v where o: "create_batch_items env u tier i w orig ?items v = (Inr (bt_outcomes out), t)"
    and counts: "bt_created_count out = length (filter item_ok (bt_outcomes out))"
      "bt_failed_count out = length (bt_outcomes out) - length (filter item_ok (bt_outcomes out))"
    unfolding create_batch_def by (auto elim!: sbind_cases simp: sreturn_def Let_def)
  note all2 = batch_items_owned [OF assms(1) o]
  have len: "length (bt_outcomes out) = length files" using list_all2_lengthD [OF all2] by simp
  have "length (filter item_ok (bt_outcomes out)) \<le> length (bt_outcomes out)" by (rule length_filter_le)
  moreover have "map bo_file_id (bt_outcomes out) = map rf_file_id files"
    using all2 len by (auto simp: list_all2_conv_all_nth intro!: nth_equalityI)
  moreover have "list_all (item_sound u files) (map outcome_item (bt_outcomes out))"
  proof (unfold list_all_length, intro allI impI)
    fix k assume "k < length (map outcome_item (bt_outcomes out))"
    then have k: "k < length files" "k < length (bt_outcomes out)" using len by simp_all
    from all2 k(1) have "bo_file_id (bt_outcomes out ! k) = rf_file_id (files ! k)
        \<and> (\<forall>j. bo_job (bt_outcomes out ! k) = Some j \<longrightarrow> job_user_id j = Some u \<and> job_object_key j = rf_object_key (files ! k))"
      by (simp add: list_all2_conv_all_nth)
    then show "item_sound u files (map outcome_item (bt_outcomes out) ! k)"
      using k nth_mem [OF k(1)] by (auto simp: item_sound_def outcome_item_def)
  qed
  ultimately show ?thesis using counts len by simp
qed

lemma passes_sound:
  assumes "quiet (wf_conversion env)" "run_passes env u wid origin files targets b s = (Inr (b', created, failed, items), t)"
  shows "list_all (item_sound u files) items \<and> created + failed = length items \<and> (targets \<noteq> [] \<longrightarrow> rf_file_id ` set files \<subseteq> ri_file_id ` set items)
    \<and> ws_rows t = ws_rows s \<and> ua_transfer (ws_app t) = ua_transfer (ws_app s)"
  using assms(2)
proof (induction targets arbitrary: b s created failed items)
  case Nil
  then show ?case by (simp add: sreturn_def)
next
  case (Cons target targets)
  let ?items = "map (\<lambda>entry. \<lparr>bi_file_id = rf_file_id entry, bi_file_name = rf_file_name entry, bi_object_key = rf_object_key entry,
            bi_source_format = rf_source_format entry, bi_target_format = target\<rparr>) files"
  show ?case
  proof (cases "files = []")
    case True
    then show ?thesis using Cons by (auto simp: Let_def)
  next
    case False
    with Cons.prems obtain outcome v c f more where o: "on_batches (create_batch (wf_conversion env) ?items u (wf_tier env u) b (Some wid) origin) s = (Inr outcome, v)"
      and rest: "run_passes env u wid origin files targets (Some (bt_batch_id outcome)) v = (Inr (b', c, f, more), t)"
      and eqs: "created = bt_created_count outcome + c" "failed = bt_failed_count outcome + f" "items = map outcome_item (bt_outcomes outcome) @ more"
      by (auto elim!: sbind_cases simp: Let_def sreturn_def)
    from o obtain z where z: "create_batch (wf_conversion env) ?items u (wf_tier env u) b (Some wid) origin (ua_conversion (ws_app s)) = (Inr outcome, z)"
      and v: "ws_rows v = ws_rows s" "ua_transfer (ws_app v) = ua_transfer (ws_app s)"
      by (auto simp: on_batches_def on_conversion_def split: prod.splits)
    have mine: "list_all (item_sound u files) (map outcome_item (bt_outcomes outcome))" "map bo_file_id (bt_outcomes outcome) = map rf_file_id files"
      "bt_created_count outcome + bt_failed_count outcome = length files" using batch_pass [OF assms(1) z] by blast+
    have ids: "ri_file_id ` set (map outcome_item (bt_outcomes outcome)) = rf_file_id ` set files"
      using arg_cong [OF mine(2), of set] by (simp add: image_image outcome_item_def)
    have "length (bt_outcomes outcome) = length files" using arg_cong [OF mine(2), of length] by simp
    then show ?thesis using Cons.IH [OF rest] mine(1,3) eqs v ids by (auto simp: image_Un)
  qed
qed

lemma listed_owned: "f \<in> set (list_by_ids u ks db) \<Longrightarrow> f \<in> set (dr_files db) \<and> fl_user_id f = u"
  by (auto simp: list_by_ids_def owned_files_def sql_select_def Let_def split: if_splits)

lemma owned_selection:
  assumes "on_library (get_owned_files u ids) s = (Inr rows, t)"
  shows "\<forall>f \<in> set rows. f \<in> set (dr_files (dv_db (tf_drive (ua_transfer (ws_app s))))) \<and> fl_user_id f = u \<and> fl_id f \<in> set ids" "t = s"
proof -
  let ?db = "dv_db (tf_drive (ua_transfer (ws_app s)))"
  have keys: "set (from_keys ids) = set ids" by (simp add: from_keys_def)
  have run: "t = s \<and> (rows = [] \<or> rows = List.map_filter (map_of (rev (map (\<lambda>f. (fl_id f, f)) (list_by_ids u (from_keys ids) ?db)))) (from_keys ids))"
    using assms by (auto simp: on_library_def on_transfer_def on_drive_def get_owned_files_def read_drive_def sreturn_def Let_def split: if_splits)
  then show "t = s" by simp
  have "f \<in> set (list_by_ids u (from_keys ids) ?db) \<and> fl_id f \<in> set ids" if "f \<in> set rows" for f
  proof -
    have "rows \<noteq> []" using that by auto
    then have "f \<in> set (List.map_filter (map_of (rev (map (\<lambda>f. (fl_id f, f)) (list_by_ids u (from_keys ids) ?db)))) (from_keys ids))" using run that by simp
    then obtain k where k: "k \<in> set ids" "map_of (rev (map (\<lambda>f. (fl_id f, f)) (list_by_ids u (from_keys ids) ?db))) k = Some f"
      using keys by (auto simp: map_filter_def)
    from map_of_SomeD [OF k(2)] k(1) show ?thesis by auto
  qed
  then show "\<forall>f \<in> set rows. f \<in> set (dr_files ?db) \<and> fl_user_id f = u \<and> fl_id f \<in> set ids"
    using listed_owned by blast
qed

lemma loaded_workflow:
  assumes "undisturbed env" "try_op (get_saved_workflow env i u) (\<lambda>e. raise_op (missing_as_404 e)) s = (Inr w, t)"
  shows "\<exists>r \<in> set (ws_rows s). wr_workflow_id r = i \<and> wr_user_id r = u" "target_formats (sw_definition w) \<noteq> []" "t = s\<lparr>ws_ticks := Suc (ws_ticks s)\<rparr>"
proof -
  from assms(2) have get: "get_saved_workflow env i u s = (Inr w, t)" by (auto simp: try_op_def raise_op_def split: prod.splits sum.splits)
  then obtain r where r: "scalar_one_or_none (sql_select (row_of_user i u) (ws_rows s)) = Inr (Some r)" "workflow_to_entity (wf_float env) r = Inr w"
      "t = s\<lparr>ws_ticks := Suc (ws_ticks s)\<rparr>"
    unfolding get_saved_workflow_def get_workflow_row_def
    by (auto simp: on_rows_calm [OF assms(1)] rbind_def raise_op_def sreturn_def elim!: sbind_cases split: sum.splits option.splits)
  then have "r \<in> set (sql_select (row_of_user i u) (ws_rows s))" by (auto simp: scalar_one_or_none_def split: list.splits)
  then show "\<exists>r \<in> set (ws_rows s). wr_workflow_id r = i \<and> wr_user_id r = u" by (auto simp: sql_select_def row_of_user_def)
  from r(2) obtain d where "parse_definition (wf_float env) (wr_definition r) = Inr d" "sw_definition w = d"
    by (auto simp: workflow_to_entity_def split: sum.splits exn.splits)
  then show "target_formats (sw_definition w) \<noteq> []" using parse_definition_result(2) by (simp add: target_formats_def from_keys_def)
  show "t = s\<lparr>ws_ticks := Suc (ws_ticks s)\<rparr>" by (rule r(3))
qed

lemma selection_covers:
  "set ids \<subseteq> ri_file_id ` set (run_problems env w ids rows) \<union> rf_file_id ` set (run_selection env w rows)"
proof
  fix k assume k: "k \<in> set ids"
  let ?ext = "\<lambda>row. extension_from_filename (Some (fl_file_name row))"
  have problems: "ri_file_id ` set (run_problems env w ids rows) = {i \<in> set ids. i \<notin> fl_id ` set rows} \<union> fl_id ` {row \<in> set rows. ?ext row = []}
      \<union> rp_file_id ` set (unsupported_files env w rows)"
    by (auto simp: run_problems_def problem_item_def image_Un image_image)
  show "k \<in> ri_file_id ` set (run_problems env w ids rows) \<union> rf_file_id ` set (run_selection env w rows)"
  proof (cases "k \<in> ri_file_id ` set (run_problems env w ids rows)")
    case False
    then obtain row where "row \<in> set rows" "fl_id row = k" "?ext row \<noteq> []" "k \<notin> rp_file_id ` set (unsupported_files env w rows)"
      using k unfolding problems by auto
    then have "run_file_of row \<in> set (run_selection env w rows)" "rf_file_id (run_file_of row) = k"
      by (auto simp: run_selection_def runnable_files_def run_file_of_def)
    then show ?thesis by force
  qed simp
qed

text \<open>C17: a run that is answered is of a workflow of the caller; every job it started belongs to the caller and converts the object of a
  file of the caller that was named for this run; every named file is reported, and the counts are
  those of the items. The Drive and the saved workflows stay as they are.\<close>

theorem run_converts_own_files:
  assumes "undisturbed env" "quiet (wf_conversion env)" "run_workflow env u origin i ids s = (Inr resp, t)"
  shows "(\<exists>r \<in> set (ws_rows s). wr_workflow_id r = i \<and> wr_user_id r = u)
    \<and> (\<forall>x \<in> set (rr_items resp). \<forall>j. ri_job x = Some j \<longrightarrow> job_user_id j = Some u
        \<and> (\<exists>f \<in> set (dr_files (dv_db (tf_drive (ua_transfer (ws_app s))))). fl_user_id f = u \<and> fl_id f \<in> set ids \<and> job_object_key j = fl_file_key f))
    \<and> set ids \<subseteq> ri_file_id ` set (rr_items resp) \<and> rr_created_count resp + rr_failed_count resp = length (rr_items resp)
    \<and> ws_rows t = ws_rows s \<and> ua_transfer (ws_app t) = ua_transfer (ws_app s)"
proof -
  let ?files = "set (dr_files (dv_db (tf_drive (ua_transfer (ws_app s)))))"
  from assms(3) obtain w s1 rows s2 outcome where w: "try_op (get_saved_workflow env i u) (\<lambda>e. raise_op (missing_as_404 e)) s = (Inr w, s1)"
    and rows: "on_library (get_owned_files u ids) s1 = (Inr rows, s2)"
    and p: "run_passes env u (sw_workflow_id w) origin (run_selection env w rows) (target_formats (sw_definition w)) None s2 = (Inr outcome, t)"
    and resp: "resp = response_of w (run_problems env w ids rows) outcome"
    unfolding run_workflow_def by (auto elim!: sbind_cases simp: sreturn_def)
  obtain b created failed items where o: "outcome = (b, created, failed, items)" by (cases outcome)
  note l = loaded_workflow [OF assms(1) w]
  have own: "\<forall>f \<in> set rows. f \<in> ?files \<and> fl_user_id f = u \<and> fl_id f \<in> set ids" and s2: "s2 = s1"
    using owned_selection [OF rows] l(3) by auto
  note r = passes_sound [OF assms(2) p [unfolded o]]
  have items: "rr_items resp = run_problems env w ids rows @ items" "rr_created_count resp = created"
    "rr_failed_count resp = failed + length (run_problems env w ids rows)" by (simp_all add: resp o response_of_def Let_def)
  have jobs: "job_user_id j = Some u \<and> (\<exists>f \<in> ?files. fl_user_id f = u \<and> fl_id f \<in> set ids \<and> job_object_key j = fl_file_key f)"
    if x: "x \<in> set (rr_items resp)" "ri_job x = Some j" for x j
  proof -
    have "\<forall>x \<in> set (run_problems env w ids rows). ri_job x = None" by (auto simp: run_problems_def problem_item_def)
    then have "x \<in> set items" using x by (auto simp: items(1))
    then obtain f where f: "f \<in> set (run_selection env w rows)" "job_user_id j = Some u" "job_object_key j = rf_object_key f"
      using r x(2) by (auto simp: list_all_iff item_sound_def)
    then obtain row where "row \<in> set rows" "f = run_file_of row" by (auto simp: run_selection_def runnable_files_def)
    then show ?thesis using own f(2,3) by (auto simp: run_file_of_def)
  qed
  have "rf_file_id ` set (run_selection env w rows) \<subseteq> ri_file_id ` set items" using r l(2) by blast
  then have "set ids \<subseteq> ri_file_id ` set (rr_items resp)"
    using selection_covers [of ids env w rows] unfolding items(1) set_append image_Un by blast
  then show ?thesis using l(1,3) s2 jobs items r by auto
qed

theorem run_converts_own_files_witness:
  "\<exists>resp t. run_workflow sample_workflow_env 1 Origin_WEB ''w'' [''f''] (sample_workflow_state [sample_workflow_row] []) = (Inr resp, t)
     \<and> ''f'' \<in> ri_file_id ` set (rr_items resp) \<and> rr_created_count resp + rr_failed_count resp = length (rr_items resp)"
proof -
  let ?s = "sample_workflow_state [sample_workflow_row] []"
  have n: "normalise_format (J_str ''txt'') 0 = Inr ''txt''"
    by (simp add: normalise_format_def py_strip_def is_space_def lstrip_dots_def py_lower_def lower_char_def MAX_FORMAT_LENGTH_def)
  have limit: "enforce_batch_limit sample_workflow_env 1 = Inr ()" by (simp add: enforce_batch_limit_def sample_workflow_env_def)
  have get: "\<exists>w. get_saved_workflow sample_workflow_env ''w'' 1 ?s = (Inr w, ?s\<lparr>ws_ticks := 1\<rparr>)"
    by (simp add: sbind_def get_saved_workflow_def get_workflow_row_def on_rows_calm [OF sample_undisturbed] sql_select_def row_of_user_def
        scalar_one_or_none_def rbind_def workflow_to_entity_def sample_workflow_state_def sample_workflow_row_def parse_one_format n sreturn_def)
  have lib: "on_library (get_owned_files 1 [''f'']) (?s\<lparr>ws_ticks := 1\<rparr>) = (Inr [], ?s\<lparr>ws_ticks := 1\<rparr>)"
    by (simp add: on_library_def on_transfer_def on_drive_def get_owned_files_def read_drive_def list_by_ids_def owned_files_def sql_select_def
        from_keys_def map_filter_def sample_workflow_state_def sample_drive_def sreturn_def)
  have "run_passes env u i origin [] ts b s = (Inr (b, 0, 0, []), s)" for env u i origin ts b s
    by (induction ts) (simp_all add: sreturn_def)
  then obtain resp t where run: "run_workflow sample_workflow_env 1 Origin_WEB ''w'' [''f''] ?s = (Inr resp, t)"
    using get lib limit by (auto simp: run_workflow_def sbind_def try_op_def sreturn_def run_selection_def runnable_files_def)
  have "quiet (wf_conversion sample_workflow_env)" using conversion_quiet by (simp add: sample_workflow_env_def)
  from run_converts_own_files [OF sample_undisturbed this run] run show ?thesis by auto
qed

end
