(* ===== verification/Spec2Isabelle.thy ===== *)
theory Spec2Isabelle
  imports Billing Worker_Faults Work_Safety Agent_Flow Cleanup_Worker Account_Promises Toolbox_Pages Rate_Limit Workflow_Safety
begin

text \<open>
  A verification development for the file conversion service under \<open>src/\<close>: a web API with accounts, a Drive of
  encrypted files, conversion jobs, credits and subscriptions; workers that take the jobs from Redis streams and
  clean up after them; cloud workspaces in which users run Python programs on disposable containers; and
  agents, programs that act for a user under a grant the user can narrow and take back.

  \<^bold>\<open>The parts of the program and where they are modelled.\<close>

  \<^item> \<open>Transform_Prelude\<close>: what the components share. Results and exceptions (\<open>exn\<close>, \<open>'a result\<close>: \<open>Inl\<close> is a
    raise), stateful code as functions from a state to a result and a state (\<open>sbind\<close>, \<open>raise_op\<close>,
    \<open>try_op\<close>), frame conditions as the locale \<open>state_frame\<close>, SQL tables as lists of rows with \<open>SELECT\<close>,
    \<open>UPDATE\<close>, \<open>DELETE\<close> and \<open>ORDER BY\<close>, the fate of a commit or a Redis call (\<open>commit_fate\<close>: done, lost, or done
    with the reply lost), the string and number functions of Python that the sources use, JSON values, and
    the locale \<open>status_machine\<close> for entities with a transition table.
  \<^item> \<open>Credit_Period\<close> (\<open>domain/subscriptions/value_object/credit_period.py\<close>): instants, the civil calendar, the key
    of the current credit period and the instant of its end.
  \<^item> \<open>Subscriptions\<close> (\<open>domain/subscriptions\<close>): tiers and their policy table, the storage quota, the credit and
    subscription entities, the credit wallet with its order of consumption.
  \<^item> \<open>Conversion_Job\<close> (\<open>domain/conversions\<close>): the job entity and its methods, origins, ownership, the supported
    conversions, the credit calculator (floats are rationals, with the rounding function written out).
  \<^item> \<open>Credit_Ledger\<close> (\<open>sql_credit_repo.py\<close>, \<open>sql_subscription_repo.py\<close>, \<open>credit_service.py\<close> and the credit port of
    \<open>converter_workers/dependencies.py\<close>): the credit tables with their constraints and every statement on them;
    a charge is a transaction whose interference and fate are arguments.
  \<^item> \<open>Billing\<close> (\<open>webhooks.py\<close>, \<open>subscriptions.py\<close>): the writes of the Stripe webhook and of a plan change.
  \<^item> \<open>Job_Store\<close> (\<open>sql_conversion_job_repo.py\<close>, \<open>like_escape.py\<close>): the table of jobs and its queries.
  \<^item> \<open>Job_Queue\<close> (\<open>adapters/queues\<close>, the tier router and dispatcher): Redis streams with consumer groups, the
    messages, publishing, fetching, settlement and the stale sweep.
  \<^item> \<open>Job_Events\<close> (\<open>redis_stream_status_queue.py\<close>, \<open>event_context.py\<close>): the progress events and their subscriber.
  \<^item> \<open>Converter_Worker\<close>, \<open>Worker_Safety\<close>, \<open>Worker_Faults\<close> (\<open>workers/converter_workers\<close>): \<open>process_job\<close> with all its
    stages over the job table, the ledger, the storage and the queue, the retry decorator, one pass of
    the loop; then what holds of it with any failure of any part, and with none.
  \<^item> \<open>Runtime_Config\<close> (\<open>domain/workspaces/value_object/runtime_config.py\<close>, \<open>resource_profile.py\<close>): the configuration of a
    workspace, its JSON form and its fingerprint (SHA-256 is a parameter, injective where a theorem says so).
  \<^item> \<open>Workspace_Domain\<close> (\<open>domain/workspaces\<close>): the four lifecycle tables, the entities of workspace, runtime, image
    revision and execution with every method, project operations.
  \<^item> \<open>Workspace_Store\<close> (\<open>sql_workspace_repo.py\<close>, \<open>sql_execution_repo.py\<close>, \<open>models/workspace.py\<close>): the four tables with their
    keys, every statement, the locale \<open>entity_table\<close> (what is written is what is read).
  \<^item> \<open>Workspace_Service\<close>, \<open>Workspace_Safety\<close> (\<open>workspace_service.py\<close>, the runtime provider port, the work stream): every
    method of the service; the provider's answer to each call is an arbitrary function of all calls so far.
  \<^item> \<open>Execution_Service\<close> (\<open>execution_service.py\<close>): submission, cancellation, artifacts.
  \<^item> \<open>Workspace_Worker\<close>, \<open>Work_Safety\<close> (\<open>workers/workspace_worker\<close>): the handlers of executions and snapshots, the
    consumer, one pass of the loop; commits of other sessions at the places where the worker waits are arguments.
  \<^item> \<open>Agent_Access\<close>, \<open>Agent_Safety\<close>, \<open>Agent_Flow\<close> (\<open>domain/security\<close>, \<open>sql_mcp_repo.py\<close>, \<open>services/mcp/access_service.py\<close>):
    scopes, folder bindings and grants; clients, codes and tokens with their tables; every method of the
    authorization server.
  \<^item> \<open>File_Names\<close>, \<open>Drive_Store\<close> (\<open>sanitize.py\<close>, \<open>magic.py\<close>, \<open>mime_types.py\<close>, \<open>sql_user_folder_repo.py\<close>,
    \<open>sql_user_file_repo.py\<close>): names, keys and signatures of files; the tables of folders and files.
  \<^item> \<open>Drive_Service\<close>, \<open>Drive_Safety\<close>, \<open>Drive_Promises\<close> (\<open>services/files/service.py\<close>): every method of the file
    service over the tables and the object storage; the shape of the folder tree, quota, deletion.
  \<^item> \<open>Conversion_Service\<close> (\<open>services/conversions/service.py\<close>): starting, restarting, batches, saving, history.
  \<^item> \<open>Upload_Transfer\<close> (\<open>transfer_service.py\<close>, \<open>redis_session_adapter.py\<close>, \<open>routers/v1/upload.py\<close>): upload sessions
    from their start to the recorded file, with their routes.
  \<^item> \<open>Cleanup_Worker\<close> (\<open>workers/cleanup_worker/worker.py\<close>): the five tasks of a cycle over the tables of jobs, files
    and telemetry and the storage.
  \<^item> \<open>Account_Tokens\<close>, \<open>Account_Service\<close>, \<open>Account_Routes\<close>, \<open>Account_Safety\<close>, \<open>Account_Promises\<close> (\<open>domain/security\<close>,
    \<open>sql_api_key_repo.py\<close>, \<open>api_key_service.py\<close>, \<open>auth_dependencies.py\<close>, \<open>routers/v1/users.py\<close>): one-time tokens,
    phone codes, API keys, the authentication of a request and every route of the user's account.
  \<^item> \<open>Byte_Codec\<close>, \<open>File_Encryption\<close>, \<open>Encryption_Safety\<close> (\<open>adapters/security/encryption.py\<close>, \<open>web/src/lib/fencr.ts\<close>,
    \<open>decrypting_object_reader.py\<close>, \<open>minio_storage_adapter.py\<close>): bytes are words of 8 bits, lengths and counters
    words of 32; the two file formats, the reader that decrypts a prefix, the reads and writes of objects.
    The cipher is a parameter (\<open>cipher_suite\<close>); the laws it has are the predicate \<open>seals\<close>.
  \<^item> \<open>Agent_Toolbox\<close>, \<open>Toolbox_Safety\<close>, \<open>Toolbox_Pages\<close> (\<open>services/mcp/toolbox.py\<close>): every tool an agent can call,
    with the check of its scopes and of the folder it is bound to, over the services above.
  \<^item> \<open>Rate_Limit\<close> (\<open>middleware/rate_limit.py\<close>, \<open>adapters/security/rate_limiter.py\<close>): the limiter on Redis and the one in
    memory that stands in for it.
  \<^item> \<open>Workflows\<close>, \<open>Workflow_Safety\<close> (\<open>domain/workflows\<close>, \<open>services/workflows/service.py\<close>, \<open>routers/v1/workflows.py\<close>):
    saved workflows, their table, service and routes, and the run of one over files of the Drive.

  \<^bold>\<open>How the code is represented.\<close> A dataclass or a row is a \<open>record\<close>, an enum a \<open>datatype\<close> with its string values
  as a function. A method that can raise returns a \<open>result\<close>; one that has effects is an operation on the state
  of its component, which on a raise still returns the state reached. The tables, Redis, the calls to the
  runtime provider and the uploads are parts of that state. Code outside \<open>src/\<close> (Stripe, the converters, the
  storage, the encryption service, the container host) is a parameter of the definitions that call it. Clocks and
  fresh identifiers are functions of a counter. An instant is an integer number of microseconds. Python
  integers are unbounded and modelled by \<open>int\<close>. Characters are those of the HOL type, code points up to
  255, so what the code does with text beyond them is outside the model; the ellipsis and the dash of the messages are
  represented by the codes 133 and 151. Phone numbers, where the pattern of the code accepts the digits of every script,
  are normalized over code points without that bound (\<open>normalize_points\<close>).

  \<^bold>\<open>What is shown.\<close> Money: a delivery charges at most once, and exactly the price, as long as no commit
  of the charge loses its reply and no other session writes the balance (a lost reply charges twice, and an overlapping
  charge is lost: \<open>lost_reply_double_charge\<close>, \<open>concurrent_charge_lost\<close>); a charge takes exactly what the pre-check
  counted, and never expired carryover; a purchase no other session disturbs is granted once; plan activation never lowers a balance. Jobs: the methods of a job move it along its
  documented lifecycle and raise exactly off it; whatever fails, a delivery of a job not yet completed ends completed, failed
  or raising, and one of a completed job changes nothing; no message is lost by the queue; subscribers
  see exactly the events up to the terminal one. Workspaces: a program runs at most once over any
  history of deliveries, a started runtime has the configuration of its workspace, only the owner can touch a
  workspace, a deletion is complete, files survive everything else, keys and foreign keys hold in every
  reachable state. Round trips of messages, rows and configurations, equivalences of the search pattern, the
  history preview and the period key with their specifications. Where the code does not do what it says,
  the theorem states what it does.
  Agents: a revoked grant admits no call begun after its revocation (a resume in flight meanwhile can undo it:
  \<open>resume_in_flight_undoes_revocation\<close>), a token never carries more than the consent, a code is redeemed
  once, a confined agent neither changes nor sees anything outside its folder, and a file it must not see
  answers like one that does not exist. Drive: the folders stay a forest, with distinct names below a folder, uploads stay within the quota, a
  deleted folder leaves nothing behind, a verified upload is what was sent. Accounts: only a valid, unrevoked
  credential authenticates, guesses of a code are bounded, a sign-in succeeds exactly for the right password.
  Encryption: what is written reads back for every chunking, a reader returns exactly the prefix asked for; that an
  object cut at a chunk boundary is the encryption of a shorter file and accepted is a theorem too. Cleanup spares what is live; what it and the
  account deletion leave or destroy against their documentation is stated. The limiter in memory is the
  sliding window over the whole history of a key; the one on Redis counts milliseconds with a request, not requests.

  \<^bold>\<open>Loops.\<close> Most loops are structural recursion on the data they read; retries recurse on the attempts left.
  The walks up and down the folder tree carry the set of folders seen and terminate by it (\<open>walk_up\<close>,
  \<open>subtree_walk\<close>, with measures), and the chunk loops terminate by the bytes left. The collection of a subtree for
  its deletion, which has no such set in the code, is a \<open>partial_function\<close>: it returns on every forest, which
  is what requests served one at a time build, and is \<open>None\<close> on the cycle that two moves at once can build. The worker loops and the event subscriber are given
  by one pass, and by a function of the sequence of polls. No fuel is used.

  \<^bold>\<open>Not modelled.\<close> The assistant with its prompts, tools and language model adapters, whose behaviour is that of
  the model behind them; the MCP transport and the Docker and Stripe adapters, which translate calls for
  software outside the repository; the agent tools of the workspaces, the activity log and telemetry; mail and
  SMS; the converters, which are calls of document and image libraries; routers and schemas that only rename
  fields of services modelled here; migrations, settings and logging; the TypeScript front end other than the
  file format. Task cancellation by the event loop and the timing of sleeps are left out as well.
\<close>

end
